(* ===== verification/Go_Prelude.thy ===== *)
theory Go_Prelude
  imports Main "HOL-Library.State_Monad"
begin

text \<open>
  Shared ground of the development: the parts of the Go language and its standard library that
  the modelled sources use (strings and their ASCII case folding, the regular expressions for
  UUIDs and locations, 64-bit integers, the error tree behind \<^verbatim>\<open>errors.Is\<close>,
  \<^verbatim>\<open>errors.As\<close>, \<^verbatim>\<open>errors.Join\<close> and \<^verbatim>\<open>fmt.Errorf\<close> with \<^verbatim>\<open>%w\<close>), the lemma
  collections of the development and the generic lemmas the components share.

  Strings are lists of bytes. \<^verbatim>\<open>strings.ToLower\<close>, \<^verbatim>\<open>strings.EqualFold\<close> and
  \<^verbatim>\<open>strings.TrimSpace\<close> are modelled on ASCII: a byte outside ASCII is left unchanged.
\<close>

named_theorems go_simps \<open>unfolding rules of the small Go library functions\<close>
named_theorems wf_intros \<open>well-formedness introduction rules\<close>

section \<open>Strings\<close>

definition to_lower_char :: "char \<Rightarrow> char" where
  "to_lower_char c =
     (let n = (of_char c :: nat) in if 65 \<le> n \<and> n \<le> 90 then char_of (n + 32) else c)"

definition ToLower :: "string \<Rightarrow> string" where
  "ToLower s = map to_lower_char s"

definition is_space :: "char \<Rightarrow> bool" where
  "is_space c = (let n = (of_char c :: nat) in (9 \<le> n \<and> n \<le> 13) \<or> n = 32)"

definition TrimSpace :: "string \<Rightarrow> string" where
  "TrimSpace s = rev (dropWhile is_space (rev (dropWhile is_space s)))"

definition EqualFold :: "string \<Rightarrow> string \<Rightarrow> bool" where
  "EqualFold s t = (ToLower s = ToLower t)"

fun HasPrefix :: "string \<Rightarrow> string \<Rightarrow> bool" where
  "HasPrefix s [] = True"
| "HasPrefix [] (p # ps) = False"
| "HasPrefix (c # s) (p # ps) = (c = p \<and> HasPrefix s ps)"

definition TrimPrefix :: "string \<Rightarrow> string \<Rightarrow> string" where
  "TrimPrefix s p = (if HasPrefix s p then drop (length p) s else s)"

text \<open>\<^verbatim>\<open>strings.Split\<close> with a one-byte separator: always at least one part.\<close>

fun split_on :: "char \<Rightarrow> string \<Rightarrow> string list" where
  "split_on d [] = [[]]"
| "split_on d (c # s) =
     (if c = d then [] # split_on d s
      else (case split_on d s of [] \<Rightarrow> [[c]] | p # ps \<Rightarrow> (c # p) # ps))"

section \<open>Regular expressions\<close>

definition is_digit_char :: "char \<Rightarrow> bool" where
  "is_digit_char c = (let n = (of_char c :: nat) in 48 \<le> n \<and> n \<le> 57)"

definition is_lower_char :: "char \<Rightarrow> bool" where
  "is_lower_char c = (let n = (of_char c :: nat) in 97 \<le> n \<and> n \<le> 122)"

definition is_hex_lower :: "char \<Rightarrow> bool" where
  "is_hex_lower c = (let n = (of_char c :: nat) in (48 \<le> n \<and> n \<le> 57) \<or> (97 \<le> n \<and> n \<le> 102))"

definition is_hex_any :: "char \<Rightarrow> bool" where
  "is_hex_any c = (let n = (of_char c :: nat)
     in (48 \<le> n \<and> n \<le> 57) \<or> (97 \<le> n \<and> n \<le> 102) \<or> (65 \<le> n \<and> n \<le> 70))"

definition is_dash :: "char \<Rightarrow> bool" where
  "is_dash c = (c = CHR ''-'')"

definition is_alnum_lower :: "char \<Rightarrow> bool" where
  "is_alnum_lower c = (is_digit_char c \<or> is_lower_char c)"

fun match_classes :: "(char \<Rightarrow> bool) list \<Rightarrow> string \<Rightarrow> bool" where
  "match_classes [] [] = True"
| "match_classes (p # ps) (c # s) = (p c \<and> match_classes ps s)"
| "match_classes _ _ = False"

definition uuid_classes :: "(char \<Rightarrow> bool) \<Rightarrow> (char \<Rightarrow> bool) list" where
  "uuid_classes h = replicate 8 h @ [is_dash] @ replicate 4 h @ [is_dash] @ replicate 4 h
     @ [is_dash] @ replicate 4 h @ [is_dash] @ replicate 12 h"

text \<open>The lower-case UUID pattern of the CSI packages and the mixed-case one of the client.\<close>

definition uuid_lower :: "string \<Rightarrow> bool" where
  "uuid_lower s = match_classes (uuid_classes is_hex_lower) s"

definition uuid_any :: "string \<Rightarrow> bool" where
  "uuid_any s = match_classes (uuid_classes is_hex_any) s"

text \<open>The location pattern: 1 to 63 lower-case alphanumerics and inner dashes.\<close>

definition location_ok :: "string \<Rightarrow> bool" where
  "location_ok s = (s \<noteq> [] \<and> length s \<le> 63 \<and> is_alnum_lower (hd s) \<and> is_alnum_lower (last s)
     \<and> list_all (\<lambda>c. is_alnum_lower c \<or> is_dash c) s)"

section \<open>Integers\<close>

definition MaxInt64 :: int where "MaxInt64 = 9223372036854775807"

text \<open>Two's complement wrap-around of a 64-bit signed result.\<close>

definition wrap64 :: "int \<Rightarrow> int" where
  "wrap64 x = (x + 2 ^ 63) mod 2 ^ 64 - 2 ^ 63"

text \<open>Go's integer division truncates towards zero.\<close>

definition go_div :: "int \<Rightarrow> int \<Rightarrow> int" where
  "go_div a b = sgn a * sgn b * (\<bar>a\<bar> div \<bar>b\<bar>)"

lemma wrap64_id: "- (2 ^ 63) \<le> x \<Longrightarrow> x < 2 ^ 63 \<Longrightarrow> wrap64 x = x"
  by (simp add: wrap64_def)

lemma wrap64_range: "- (2 ^ 63) \<le> wrap64 x \<and> wrap64 x < 2 ^ 63"
proof -
  have "0 \<le> (x + 2 ^ 63) mod 2 ^ 64" "(x + 2 ^ 63) mod 2 ^ 64 < 2 ^ 64"
    by simp_all
  then show ?thesis by (simp add: wrap64_def)
qed

lemma go_div_pos: "0 \<le> a \<Longrightarrow> 0 < b \<Longrightarrow> go_div a b = a div b"
  by (cases "a = 0") (simp_all add: go_div_def)

section \<open>Lemmas on strings and patterns\<close>

lemma to_lower_char_idem [simp]: "to_lower_char (to_lower_char c) = to_lower_char c"
proof -
  have "of_char (char_of (n + 32) :: char) = n + 32" if "n \<le> 90" for n :: nat
    using that by simp
  then show ?thesis by (auto simp: to_lower_char_def Let_def)
qed

lemma ToLower_idem [simp]: "ToLower (ToLower s) = ToLower s"
  by (simp add: ToLower_def)

lemma ToLower_Nil [simp]: "ToLower [] = []"
  by (simp add: ToLower_def)

lemma ToLower_eq_Nil [simp]: "ToLower s = [] \<longleftrightarrow> s = []"
  by (simp add: ToLower_def)

lemma ToLower_append: "ToLower (s @ t) = ToLower s @ ToLower t"
  by (simp add: ToLower_def)

lemma length_ToLower [simp]: "length (ToLower s) = length s"
  by (simp add: ToLower_def)

text \<open>Evaluation compares character by character and stops at the first difference.\<close>

fun fold_eq :: "string \<Rightarrow> string \<Rightarrow> bool" where
  "fold_eq [] [] = True"
| "fold_eq (c # s) (d # t) =
     (if c = d then fold_eq s t else if to_lower_char c = to_lower_char d then fold_eq s t else False)"
| "fold_eq _ _ = False"

lemma EqualFold_code [code]: "EqualFold s t = fold_eq s t"
  by (induction s t rule: fold_eq.induct) (auto simp: EqualFold_def ToLower_def)

lemma EqualFold_refl [simp]: "EqualFold s s"
  by (simp add: EqualFold_def)

lemma EqualFold_sym: "EqualFold s t \<longleftrightarrow> EqualFold t s"
  by (auto simp: EqualFold_def)

lemma EqualFold_ToLower [simp]:
  "EqualFold (ToLower s) t = EqualFold s t" "EqualFold s (ToLower t) = EqualFold s t"
  by (simp_all add: EqualFold_def)

lemma HasPrefix_append [simp]: "HasPrefix (p @ s) p"
  by (induction p) auto

lemma TrimPrefix_append [simp]: "TrimPrefix (p @ s) p = s"
  by (simp add: TrimPrefix_def)

lemma HasPrefix_iff: "HasPrefix s p \<longleftrightarrow> (\<exists>t. s = p @ t)"
  by (induction s p rule: HasPrefix.induct) auto

lemma match_classes_length: "match_classes ps s \<Longrightarrow> length s = length ps"
  by (induction ps s rule: match_classes.induct) auto

lemma match_classes_mono:
  "match_classes ps s \<Longrightarrow> list_all2 (\<lambda>p q. \<forall>c. p c \<longrightarrow> q c) ps qs \<Longrightarrow> match_classes qs s"
proof (induction ps s arbitrary: qs rule: match_classes.induct)
  case (2 p ps c s)
  from 2(3) obtain q qs' where "qs = q # qs'" "\<forall>c. p c \<longrightarrow> q c"
      "list_all2 (\<lambda>p q. \<forall>c. p c \<longrightarrow> q c) ps qs'"
    by (auto simp: list_all2_Cons1)
  with 2 show ?case by auto
qed auto

lemma match_classes_set:
  "match_classes ps s \<Longrightarrow> list_all (\<lambda>p. \<forall>c. p c \<longrightarrow> Q c) ps \<Longrightarrow> list_all Q s"
  by (induction ps s rule: match_classes.induct) auto

lemma length_uuid_classes [simp]: "length (uuid_classes h) = 36"
  by (simp add: uuid_classes_def)

lemma uuid_lower_length: "uuid_lower s \<Longrightarrow> length s = 36"
  unfolding uuid_lower_def by (drule match_classes_length) simp

lemma uuid_lower_imp_any: "uuid_lower s \<Longrightarrow> uuid_any s"
  unfolding uuid_lower_def uuid_any_def
proof (erule match_classes_mono)
  have h: "\<forall>c. is_hex_lower c \<longrightarrow> is_hex_any c"
    by (auto simp: is_hex_lower_def is_hex_any_def Let_def)
  then have "list_all2 (\<lambda>p q. \<forall>c. p c \<longrightarrow> q c) (replicate n is_hex_lower) (replicate n is_hex_any)" for n
    by (induction n) auto
  then show "list_all2 (\<lambda>p q. \<forall>c. p c \<longrightarrow> q c) (uuid_classes is_hex_lower) (uuid_classes is_hex_any)"
    unfolding uuid_classes_def by (intro list_all2_appendI) auto
qed

lemma uuid_lower_chars: "uuid_lower s \<Longrightarrow> list_all (\<lambda>c. is_hex_lower c \<or> is_dash c) s"
  unfolding uuid_lower_def
  by (erule match_classes_set) (simp add: uuid_classes_def list_all_iff)

lemma uuid_lower_nonempty [simp]: "\<not> uuid_lower []"
  by (auto dest: uuid_lower_length)

lemma to_lower_hex: "is_hex_lower c \<Longrightarrow> to_lower_char c = c"
  by (auto simp: is_hex_lower_def to_lower_char_def Let_def)

lemma to_lower_dash [simp]: "is_dash c \<Longrightarrow> to_lower_char c = c"
  by (auto simp: is_dash_def to_lower_char_def)

lemma uuid_lower_ToLower: "uuid_lower s \<Longrightarrow> ToLower s = s"
proof -
  assume "uuid_lower s"
  then have "list_all (\<lambda>c. is_hex_lower c \<or> is_dash c) s" by (rule uuid_lower_chars)
  then show ?thesis
    by (induction s) (auto simp: ToLower_def to_lower_hex)
qed

lemma dropWhile_none: "list_all (\<lambda>c. \<not> P c) s \<Longrightarrow> dropWhile P s = s"
  by (cases s) auto

lemma TrimSpace_none: "list_all (\<lambda>c. \<not> is_space c) s \<Longrightarrow> TrimSpace s = s"
  by (simp add: TrimSpace_def dropWhile_none)

lemma uuid_lower_TrimSpace: "uuid_lower s \<Longrightarrow> TrimSpace s = s"
proof (rule TrimSpace_none)
  assume "uuid_lower s"
  then have "list_all (\<lambda>c. is_hex_lower c \<or> is_dash c) s" by (rule uuid_lower_chars)
  moreover have "\<not> is_space c" if "is_hex_lower c \<or> is_dash c" for c
    using that by (auto simp: is_hex_lower_def is_dash_def is_space_def Let_def)
  ultimately show "list_all (\<lambda>c. \<not> is_space c) s"
    by (induction s) auto
qed

lemma uuid_lower_no_slash: "uuid_lower s \<Longrightarrow> CHR ''/'' \<notin> set s"
proof -
  assume "uuid_lower s"
  then have "list_all (\<lambda>c. is_hex_lower c \<or> is_dash c) s" by (rule uuid_lower_chars)
  then show ?thesis
    by (induction s) (auto simp: is_hex_lower_def is_dash_def)
qed

lemma TrimSpace_Nil [simp]: "TrimSpace [] = []"
  by (simp add: TrimSpace_def)

lemma dropWhile_idem_rev:
  "dropWhile P (rev (dropWhile P (rev (dropWhile P s)))) = rev (dropWhile P (rev (dropWhile P s)))"
proof (cases "dropWhile P s")
  case (Cons x xs)
  then have nx: "\<not> P x" by (simp add: dropWhile_eq_Cons_conv)
  have "dropWhile P (rev xs @ [x]) = dropWhile P (rev xs) @ [x] \<or> dropWhile P (rev xs @ [x]) = [x]"
    using nx by (auto simp: dropWhile_append)
  with Cons nx show ?thesis by auto
next
  case Nil
  then show ?thesis by (simp only: list.simps rev.simps dropWhile.simps)
qed

lemma TrimSpace_idem [simp]: "TrimSpace (TrimSpace s) = TrimSpace s"
proof -
  have "dropWhile is_space (TrimSpace s) = TrimSpace s"
    unfolding TrimSpace_def by (rule dropWhile_idem_rev)
  moreover have "rev (dropWhile is_space (rev (TrimSpace s))) = TrimSpace s"
    by (simp add: TrimSpace_def)
  ultimately show ?thesis by (metis TrimSpace_def)
qed

lemma is_space_to_lower [simp]: "is_space (to_lower_char c) = is_space c"
proof -
  have "of_char (char_of (n + 32) :: char) = n + 32" if "n \<le> 90" for n :: nat
    using that by simp
  then show ?thesis by (auto simp: to_lower_char_def is_space_def Let_def)
qed

lemma TrimSpace_ToLower: "TrimSpace (ToLower s) = ToLower (TrimSpace s)"
proof -
  have "dropWhile is_space (map to_lower_char t) = map to_lower_char (dropWhile is_space t)" for t
    by (induction t) auto
  then show ?thesis by (simp add: TrimSpace_def ToLower_def rev_map)
qed

end
