(* ===== verification/Go_Errors.thy ===== *)
theory Go_Errors
  imports Go_Prelude
begin

text \<open>
  Go error values as a tree. \<^verbatim>\<open>errors.New\<close> and \<^verbatim>\<open>fmt.Errorf\<close> without \<^verbatim>\<open>%w\<close> give a
  \<open>Plain\<close> leaf, a package-level sentinel a \<open>Sentinel\<close> leaf, \<^verbatim>\<open>fmt.Errorf\<close> with
  \<^verbatim>\<open>%w\<close> verbs a \<open>Wrap\<close> of the wrapped errors, \<^verbatim>\<open>errors.Join\<close> a \<open>Joined\<close> node and
  \<^verbatim>\<open>*APIError\<close> an \<open>Api\<close> node with its unexported cause. Of a message only its constant part is
  kept; an error formatted with \<^verbatim>\<open>%v\<close> contributes text only and is dropped.
  The answers of the Kubernetes API that \<^verbatim>\<open>apierrors.IsNotFound\<close> and \<^verbatim>\<open>IsConflict\<close> recognise are the
  sentinels \<open>KubeNotFound\<close> and \<open>KubeConflict\<close>.
  \<^verbatim>\<open>errors.Is\<close> and \<^verbatim>\<open>errors.As\<close> walk the tree depth first, as the Go library does.
\<close>

section \<open>Sentinels and the API error\<close>

datatype sentinel =
    ErrNotFound
  | ErrVolumeAttachedElsewhere
  | ErrIncompatibleVolume
  | ErrSnapshotsPresent
  | ErrVolumeNotAttached
  | ErrInvalidNode
  | ErrUnavailable
  | ErrUnauthenticated
  | ErrPermissionDenied
  | ErrConflict
  | ErrRejected
  | ErrMutationBlocked
  | ErrMutationNotDispatched
  | ErrMutationRedirect
  | ErrCrossOriginRedirect
  | ErrReadRedirect
  | ErrMutationFenceChanged
  | ErrKubernetesNodeNotFound
  | CtxCanceled
  | CtxDeadlineExceeded
  | IoEOF
  | IoErrUnexpectedEOF
  | ErrMountConflict
  | ErrDeviceNotResized
  | FsErrNotExist
  | ErrSparseFloatingIPAssignment
  | ErrCreateAttemptPending
  | ErrCreateAttemptUnresolved
  | ErrCreateAttemptRejected
  | KubeNotFound
  | KubeConflict

datatype errno = ECONNREFUSED | ECONNRESET | EPIPE | ETIMEDOUT | EHOSTUNREACH | ENETUNREACH | OtherErrno

record APIError =
  StatusCode :: int
  Method :: string
  Path :: string
  Message :: string
  Retryable :: bool
  CorrelationID :: string
  ResponseBodyIncomplete :: bool
  ResponseBodyMalformed :: bool
  ExactLookup :: bool
  RequestedUUID :: string
  RequestedAddress :: string

text \<open>
  \<open>NetError t\<close> is a \<^verbatim>\<open>net.Error\<close> of no other type of this tree whose \<^verbatim>\<open>Timeout()\<close> is \<open>t\<close>;
  \<open>OutOfFuel\<close> is the value of a polling loop that was cut by the model's loop bound and is
  produced by no Go code.
\<close>

datatype error =
    Sentinel sentinel
  | Plain string
  | Api APIError "error option"
  | Wrap string "error list"
  | Joined "error list"
  | UrlError error
  | DNSError bool
  | Errno errno
  | NetError bool
  | OutOfFuel

section \<open>errors.Is, errors.As, errors.Join\<close>

fun errors_is :: "sentinel \<Rightarrow> error \<Rightarrow> bool"
  and errors_is_list :: "sentinel \<Rightarrow> error list \<Rightarrow> bool" where
  "errors_is t (Sentinel s) = (s = t)"
| "errors_is t (Plain m) = False"
| "errors_is t (Api a None) = False"
| "errors_is t (Api a (Some e)) = errors_is t e"
| "errors_is t (Wrap m es) = errors_is_list t es"
| "errors_is t (Joined es) = errors_is_list t es"
| "errors_is t (UrlError e) = errors_is t e"
| "errors_is t (DNSError b) = False"
| "errors_is t (Errno n) = False"
| "errors_is t (NetError b) = False"
| "errors_is t OutOfFuel = False"
| "errors_is_list t [] = False"
| "errors_is_list t (e # es) = (errors_is t e \<or> errors_is_list t es)"

fun errors_as_node :: "error \<Rightarrow> (APIError \<times> error option) option"
  and errors_as_node_list :: "error list \<Rightarrow> (APIError \<times> error option) option" where
  "errors_as_node (Sentinel s) = None"
| "errors_as_node (Plain m) = None"
| "errors_as_node (Api a c) = Some (a, c)"
| "errors_as_node (Wrap m es) = errors_as_node_list es"
| "errors_as_node (Joined es) = errors_as_node_list es"
| "errors_as_node (UrlError e) = errors_as_node e"
| "errors_as_node (DNSError b) = None"
| "errors_as_node (Errno n) = None"
| "errors_as_node (NetError b) = None"
| "errors_as_node OutOfFuel = None"
| "errors_as_node_list [] = None"
| "errors_as_node_list (e # es) =
     (case errors_as_node e of Some a \<Rightarrow> Some a | None \<Rightarrow> errors_as_node_list es)"

definition errors_as_api :: "error \<Rightarrow> APIError option" where
  "errors_as_api e = map_option fst (errors_as_node e)"

text \<open>\<^verbatim>\<open>errors.Join\<close> drops nil arguments and is nil when nothing is left.\<close>

fun non_nil :: "error option list \<Rightarrow> error list" where
  "non_nil [] = []"
| "non_nil (None # es) = non_nil es"
| "non_nil (Some e # es) = e # non_nil es"

definition errors_join :: "error option list \<Rightarrow> error option" where
  "errors_join es = (case non_nil es of [] \<Rightarrow> None | l \<Rightarrow> Some (Joined l))"

text \<open>\<^verbatim>\<open>errors.Join\<close> where at least one argument is an error.\<close>

definition errors_join2 :: "error \<Rightarrow> error \<Rightarrow> error" where
  "errors_join2 e f = Joined [e, f]"

definition is_opt :: "sentinel \<Rightarrow> error option \<Rightarrow> bool" where
  "is_opt t e = (case e of None \<Rightarrow> False | Some x \<Rightarrow> errors_is t x)"

section \<open>Lemmas\<close>

lemma errors_is_list_iff [simp]: "errors_is_list t es \<longleftrightarrow> (\<exists>e \<in> set es. errors_is t e)"
  by (induction es) auto

lemma set_non_nil [simp]: "set (non_nil es) = {e. Some e \<in> set es}"
  by (induction es rule: non_nil.induct) auto

lemma non_nil_eq_Nil [simp]: "non_nil es = [] \<longleftrightarrow> set es \<subseteq> {None}"
  by (induction es rule: non_nil.induct) auto

lemma errors_join_None: "errors_join es = None \<longleftrightarrow> set es \<subseteq> {None}"
  using non_nil_eq_Nil[of es] by (auto simp: errors_join_def simp del: non_nil_eq_Nil split: list.splits)

lemma errors_join_is:
  "errors_join es = Some e \<Longrightarrow> errors_is t e \<longleftrightarrow> (\<exists>x. Some x \<in> set es \<and> errors_is t x)"
proof -
  assume a: "errors_join es = Some e"
  then have "e = Joined (non_nil es)"
    by (auto simp: errors_join_def split: list.splits)
  then show ?thesis by auto
qed

lemma is_opt_simps [simp]: "is_opt t None = False" "is_opt t (Some e) = errors_is t e"
  by (simp_all add: is_opt_def)

lemma errors_join2_is [simp]: "errors_is t (errors_join2 e f) \<longleftrightarrow> errors_is t e \<or> errors_is t f"
  by (simp add: errors_join2_def)

end
