(* ===== verification/Cloud_Types.thy ===== *)
theory Cloud_Types
  imports Go_Errors
begin

text \<open>
  The data the CSI driver works on: the client's resource structs
  (\<^verbatim>\<open>modules/client/types.go\<close>), the cloud boundary of the CSI driver
  (\<^verbatim>\<open>csi-driver/pkg/cloud/cloud.go\<close>), the durable mutation fences with the intents and
  observations they carry (\<^verbatim>\<open>mutation_fence.go\<close>, \<^verbatim>\<open>mutation_recovery.go\<close>) and Go contexts.

  A nil slice is \<open>None\<close> and differs from an empty one. A JSON text a fence stores is represented
  by the value it decodes to (or by \<open>Bad\<dots>\<close> where it does not parse), an RFC 3339 time stamp by
  the instant it denotes, in nanoseconds since Go's zero time.
\<close>

section \<open>Client resources\<close>

record VMStorage =
  st_UUID :: string
  st_ID :: int
  st_UserID :: int
  st_Name :: string
  st_Pool :: string
  st_Type :: string
  st_SizeGiB :: int
  st_Primary :: bool
  st_Shared :: bool
  st_CreatedAt :: string
  st_UpdatedAt :: string

record VM =
  vm_UUID :: string
  vm_ID :: int
  vm_UserID :: int
  vm_Name :: string
  vm_Description :: string
  vm_Hostname :: string
  vm_Status :: string
  vm_VCPU :: int
  vm_MemoryMiB :: int
  vm_OSName :: string
  vm_OSVersion :: string
  vm_Username :: string
  vm_MAC :: string
  vm_LicenseType :: string
  vm_PrivateIPv4 :: string
  vm_PublicIPv4 :: string
  vm_PublicIPv6 :: string
  vm_NetworkUUID :: string
  vm_BillingAccountID :: int
  vm_DesignatedPoolName :: string
  vm_DesignatedPoolUUID :: string
  vm_Backup :: bool
  vm_CreatedAt :: string
  vm_UpdatedAt :: string
  vm_Tags :: string
  vm_Storage :: "VMStorage list option"

record DiskSnapshot =
  snap_UUID :: string
  snap_DiskUUID :: string
  snap_DisplayName :: string
  snap_SizeGiB :: int
  snap_CreatedAt :: string

record Disk =
  disk_UUID :: string
  disk_DisplayName :: string
  disk_Status :: string
  disk_SizeGiB :: int
  disk_BillingAccountID :: int
  disk_StoragePoolUUID :: string
  disk_SourceImageType :: string
  disk_SourceImage :: string
  disk_ReadOnlyBootable :: bool
  disk_CreatedAt :: string
  disk_UpdatedAt :: string
  disk_Snapshots :: "DiskSnapshot list option"

record CreateDiskRequest =
  cdr_DisplayName :: string
  cdr_SizeGiB :: int
  cdr_BillingAccountID :: int
  cdr_SourceImageType :: string
  cdr_SourceImage :: string

record Network =
  net_UUID :: string
  net_Name :: string
  net_Type :: string
  net_VLANID :: int
  net_Subnet :: string
  net_SubnetIPv6 :: string
  net_IsDefault :: bool
  net_VMUUIDs :: "string list option"
  net_ResourcesCount :: int
  net_CreatedAt :: string
  net_UpdatedAt :: string

section \<open>The cloud boundary of the CSI driver\<close>

record VolumeSpec =
  spec_Name :: string
  spec_Location :: string
  spec_CapacityBytes :: int

record Volume =
  vol_ID :: string
  vol_Name :: string
  vol_Location :: string
  vol_CapacityBytes :: int

section \<open>Fences, intents, observations\<close>

record diskCreateIntent =
  ci_Operation :: string
  ci_Location :: string
  ci_Name :: string
  ci_SizeGiB :: int
  ci_BillingAccountID :: int

record diskAttachmentIntent =
  ai_Operation :: string
  ai_Location :: string
  ai_DiskUUID :: string
  ai_BillingAccountID :: int
  ai_DesiredVMUUID :: string
  ai_PreviousVMUUID :: string
  ai_RecoveryNodeID :: string

datatype stamp = NoStamp | At int | BadStamp string

record mutationObservation =
  obs_Kind :: string
  obs_Count :: int
  obs_FirstObservedAt :: stamp
  obs_LastObservedAt :: stamp

datatype intent_text = NoIntent | CreateText diskCreateIntent | AttachText diskAttachmentIntent | BadIntent string

datatype obs_text = NoObs | ObsText mutationObservation | BadObs string

record mutationFence =
  fence_Key :: string
  fence_Intent :: intent_text
  fence_Attempt :: string
  fence_Receipt :: string
  fence_Observation :: obs_text

text \<open>Go's zero value \<^verbatim>\<open>mutationFence{}\<close>.\<close>

definition zero_fence :: mutationFence where
  "zero_fence = \<lparr>fence_Key = [], fence_Intent = NoIntent, fence_Attempt = [], fence_Receipt = [],
     fence_Observation = NoObs\<rparr>"

record missingNodeDetachRequest =
  md_NodeName :: string
  md_Location :: string
  md_VMUUID :: string
  md_VMName :: string
  md_VMHostname :: string
  md_VMDescription :: string
  md_DiskUUID :: string
  md_NetworkUUID :: string
  md_BillingAccountID :: int

record missingNodeOwnershipRecord =
  own_Schema :: string
  own_Cluster :: string
  own_NodePool :: string
  own_NodeClaim :: string
  own_VMName :: string
  own_KeyHash :: string
  own_HostClass :: string
  own_InstanceType :: string
  own_HostPoolUUID :: string
  own_VCPU :: int
  own_MemoryGiB :: int
  own_RootDiskGiB :: int
  own_SpecHash :: string
  own_BootstrapHash :: string
  own_FirewallUUID :: string
  own_FirewallProfile :: string
  own_NetworkUUID :: string
  own_ControlPlaneVIP :: string
  own_PrivateLoadBalancerPoolStart :: string
  own_PrivateLoadBalancerPoolStop :: string
  own_OSName :: string
  own_OSVersion :: string
  own_BillingAccountID :: int
  own_FloatingIPName :: string
  own_PublicIPv4 :: string

section \<open>Contexts\<close>

text \<open>
  A context ends at its deadline or when its owner cancels it, whichever comes first; the error
  of a finished context tells which. \<^verbatim>\<open>context.WithTimeout(context.WithoutCancel(parent), d)\<close>
  has a deadline of its own and no cancellation; \<^verbatim>\<open>context.WithDeadline(parent, d)\<close> keeps the
  earlier deadline. Times are nanoseconds.
\<close>

record ctx =
  ctx_deadline :: "int option"
  ctx_cancelAt :: "int option"

definition ctx_err :: "ctx \<Rightarrow> int \<Rightarrow> error option" where
  "ctx_err c t =
     (case (ctx_cancelAt c, ctx_deadline c) of
        (None, None) \<Rightarrow> None
      | (None, Some d) \<Rightarrow> (if d \<le> t then Some (Sentinel CtxDeadlineExceeded) else None)
      | (Some e, None) \<Rightarrow> (if e \<le> t then Some (Sentinel CtxCanceled) else None)
      | (Some e, Some d) \<Rightarrow>
          (if d \<le> e then (if d \<le> t then Some (Sentinel CtxDeadlineExceeded) else None)
           else (if e \<le> t then Some (Sentinel CtxCanceled) else None)))"

definition ctx_end :: "ctx \<Rightarrow> int option" where
  "ctx_end c =
     (case (ctx_cancelAt c, ctx_deadline c) of
        (None, d) \<Rightarrow> d | (e, None) \<Rightarrow> e | (Some e, Some d) \<Rightarrow> Some (min e d))"

definition with_timeout_detached :: "int \<Rightarrow> int \<Rightarrow> ctx" where
  "with_timeout_detached now d = \<lparr>ctx_deadline = Some (now + d), ctx_cancelAt = None\<rparr>"

definition with_deadline :: "ctx \<Rightarrow> int \<Rightarrow> ctx" where
  "with_deadline c d =
     c\<lparr>ctx_deadline := Some (case ctx_deadline c of None \<Rightarrow> d | Some d' \<Rightarrow> min d d')\<rparr>"

definition background :: ctx where
  "background = \<lparr>ctx_deadline = None, ctx_cancelAt = None\<rparr>"

lemma ctx_err_end: "ctx_err c t = None \<longleftrightarrow> (case ctx_end c of None \<Rightarrow> True | Some e \<Rightarrow> t < e)"
  by (auto simp: ctx_err_def ctx_end_def split: option.splits)

lemma ctx_err_is: "ctx_err c t = Some e \<Longrightarrow> e = Sentinel CtxDeadlineExceeded \<or> e = Sentinel CtxCanceled"
  by (auto simp: ctx_err_def split: option.splits if_splits)

lemma ctx_end_detached [simp]: "ctx_end (with_timeout_detached now d) = Some (now + d)"
  by (simp add: ctx_end_def with_timeout_detached_def)

lemma ctx_err_detached [simp]:
  "ctx_err (with_timeout_detached now d) t =
     (if now + d \<le> t then Some (Sentinel CtxDeadlineExceeded) else None)"
  by (simp add: ctx_err_def with_timeout_detached_def)

end
