(* ===== verification/Go_IP.thy ===== *)
theory Go_IP
  imports Go_Prelude
begin

text \<open>
  What the sources use of \<^verbatim>\<open>net\<close> and \<^verbatim>\<open>net/netip\<close>: reading IPv4 and IPv6 addresses and prefixes,
  with the acceptance rules of \<^verbatim>\<open>netip.ParseAddr\<close>. An IPv6 address is its eight 16-bit groups and
  its zone.
\<close>

section \<open>IPv4\<close>

definition octet_value :: "string \<Rightarrow> nat" where
  "octet_value s = fold (\<lambda>c n. 10 * n + (of_char c - 48)) s 0"

definition parse_octet :: "string \<Rightarrow> nat option" where
  "parse_octet s =
     (if s \<noteq> [] \<and> length s \<le> 3 \<and> list_all is_digit_char s \<and> (length s > 1 \<longrightarrow> hd s \<noteq> CHR ''0'')
         \<and> octet_value s \<le> 255
      then Some (octet_value s) else None)"

definition parse_ipv4 :: "string \<Rightarrow> (nat \<times> nat \<times> nat \<times> nat) option" where
  "parse_ipv4 s =
     (case split_on CHR ''.'' s of
        [a, b, c, d] \<Rightarrow>
          (case (parse_octet a, parse_octet b, parse_octet c, parse_octet d) of
             (Some w, Some x, Some y, Some z) \<Rightarrow> Some (w, x, y, z)
           | _ \<Rightarrow> None)
      | _ \<Rightarrow> None)"

section \<open>IPv6\<close>

definition unhex :: "char \<Rightarrow> nat" where
  "unhex c = (let n = (of_char c :: nat) in
     if 48 \<le> n \<and> n \<le> 57 then n - 48 else if 97 \<le> n \<and> n \<le> 102 then n - 87
     else if 65 \<le> n \<and> n \<le> 70 then n - 55 else 0)"

definition group_value :: "string \<Rightarrow> nat" where
  "group_value hs = fold (\<lambda>c n. 16 * n + unhex c) hs 0"

text \<open>
  The groups read so far, the position of the ellipsis among them and the unread text; \<open>n\<close> groups
  are still to come.
\<close>

fun ipv6_groups :: "nat \<Rightarrow> string \<Rightarrow> nat list \<Rightarrow> nat option \<Rightarrow> (nat list \<times> nat option \<times> string) option" where
  "ipv6_groups 0 s gs el = Some (gs, el, s)"
| "ipv6_groups (Suc n) s gs el =
     (let hs = takeWhile is_hex_any s; rest = dropWhile is_hex_any s in
      if hs = [] \<or> length hs > 4 then None
      else if take 1 rest = ''.'' then
        (if (el = None \<and> length gs \<noteq> 6) \<or> length gs > 6 then None
         else (case parse_ipv4 s of
             None \<Rightarrow> None
           | Some (a, b, c, d) \<Rightarrow> Some (gs @ [256 * a + b, 256 * c + d], el, [])))
      else
        let gs = gs @ [group_value hs] in
        if rest = [] then Some (gs, el, [])
        else if take 1 rest \<noteq> '':'' \<or> length rest = 1 then None
        else
          let s = drop 1 rest in
          if take 1 s \<noteq> '':'' then ipv6_groups n s gs el
          else if el \<noteq> None then None
          else if length s = 1 then Some (gs, Some (length gs), [])
          else ipv6_groups n (drop 1 s) gs (Some (length gs)))"

definition expand_ellipsis :: "nat list \<Rightarrow> nat option \<Rightarrow> nat list option" where
  "expand_ellipsis gs el =
     (case el of
        None \<Rightarrow> if length gs < 8 then None else Some gs
      | Some e \<Rightarrow> if length gs < 8 then Some (take e gs @ replicate (8 - length gs) 0 @ drop e gs) else None)"

definition parse_ipv6 :: "string \<Rightarrow> nat list option" where
  "parse_ipv6 s =
     (if s = ''::'' then Some (replicate 8 0)
      else
        let lead = HasPrefix s ''::'' in
        case ipv6_groups 8 (if lead then drop 2 s else s) [] (if lead then Some 0 else None) of
          None \<Rightarrow> None
        | Some (gs, el, rest) \<Rightarrow> if rest \<noteq> [] then None else expand_ellipsis gs el)"

section \<open>Addresses and prefixes\<close>

datatype go_addr = Addr4 "nat \<times> nat \<times> nat \<times> nat" | Addr6 "nat list" string

definition ParseAddr :: "string \<Rightarrow> go_addr option" where
  "ParseAddr s =
     (case filter (\<lambda>c. c \<in> set ''.:%'') s of
        [] \<Rightarrow> None
      | c # _ \<Rightarrow>
          if c = CHR ''.'' then map_option Addr4 (parse_ipv4 s)
          else if c = CHR ''%'' then None
          else
            let ip = takeWhile (\<lambda>c. c \<noteq> CHR ''%'') s; zone = drop 1 (dropWhile (\<lambda>c. c \<noteq> CHR ''%'') s) in
            if length ip < length s \<and> zone = [] then None
            else map_option (\<lambda>gs. Addr6 gs zone) (parse_ipv6 ip))"

text \<open>\<^verbatim>\<open>net.ParseIP\<close> refuses zones. \<^verbatim>\<open>IsLoopback\<close> looks through IPv4-mapped addresses.\<close>

definition ParseIP :: "string \<Rightarrow> go_addr option" where
  "ParseIP s =
     (case ParseAddr s of
        Some (Addr6 gs zone) \<Rightarrow> if zone = [] then Some (Addr6 gs zone) else None
      | r \<Rightarrow> r)"

fun IsLoopback :: "go_addr \<Rightarrow> bool" where
  "IsLoopback (Addr4 (a, _)) = (a = 127)"
| "IsLoopback (Addr6 gs _) =
     (if take 6 gs = [0, 0, 0, 0, 0, 65535] then gs ! 6 div 256 = 127 else gs = [0, 0, 0, 0, 0, 0, 0, 1])"

definition last_index_split :: "char \<Rightarrow> string \<Rightarrow> (string \<times> string) option" where
  "last_index_split d s =
     (let after = rev (takeWhile (\<lambda>c. c \<noteq> d) (rev s)) in
      if d \<in> set s then Some (take (length s - length after - 1) s, after) else None)"

text \<open>Whether \<^verbatim>\<open>netip.ParsePrefix\<close> succeeds.\<close>

definition ParsePrefix_ok :: "string \<Rightarrow> bool" where
  "ParsePrefix_ok s =
     (case last_index_split CHR ''/'' s of
        None \<Rightarrow> False
      | Some (ip, bits) \<Rightarrow>
          bits \<noteq> [] \<and> list_all is_digit_char bits \<and> (length bits > 1 \<longrightarrow> hd bits \<noteq> CHR ''0'')
          \<and> (case ParseAddr ip of
               None \<Rightarrow> False
             | Some (Addr4 _) \<Rightarrow> octet_value bits \<le> 32
             | Some (Addr6 _ zone) \<Rightarrow> zone = [] \<and> octet_value bits \<le> 128))"

section \<open>Concrete texts\<close>


section \<open>An address has eight groups, each of sixteen bits\<close>

lemma unhex_less: "unhex c < 16"
  by (auto simp: unhex_def Let_def)

lemma group_value_fold: "fold (\<lambda>c n. 16 * n + unhex c) hs a < (a + 1) * 16 ^ length hs"
proof (induction hs arbitrary: a)
  case (Cons c hs)
  let ?b = "16 * a + unhex c"
  have "?b + 1 \<le> (a + 1) * 16" using unhex_less[of c] by simp
  then have "(?b + 1) * 16 ^ length hs \<le> (a + 1) * 16 * 16 ^ length hs"
    by (rule mult_right_mono) simp
  also have "\<dots> = (a + 1) * 16 ^ length (c # hs)" by (simp add: algebra_simps)
  finally show ?case using Cons[of ?b] by (simp only: fold_simps o_apply)
qed simp

lemma group_value_less: "length hs \<le> 4 \<Longrightarrow> group_value hs < 65536"
proof -
  assume "length hs \<le> 4"
  then have "16 ^ length hs \<le> (16 :: nat) ^ 4" by (intro power_increasing) auto
  with group_value_fold[of hs 0] show ?thesis by (simp add: group_value_def)
qed

lemma parse_ipv4_octets: "parse_ipv4 s = Some (a, b, c, d) \<Longrightarrow> a < 256 \<and> b < 256 \<and> c < 256 \<and> d < 256"
  by (auto simp: parse_ipv4_def parse_octet_def split: list.splits option.splits if_splits)

lemma ipv6_groups_shape:
  "ipv6_groups n s gs el = Some (gs', el', rest) \<Longrightarrow> length gs + n = 8 \<Longrightarrow> list_all (\<lambda>g. g < 65536) gs
   \<Longrightarrow> length gs' \<le> 8 \<and> list_all (\<lambda>g. g < 65536) gs'"
proof (induction n arbitrary: s gs el)
  case (Suc n)
  define hs where "hs = takeWhile is_hex_any s"
  define rest' where "rest' = dropWhile is_hex_any s"
  note defs = hs_def[symmetric] rest'_def[symmetric]
  from Suc.prems(1) have hs: "hs \<noteq> []" "length hs \<le> 4"
    by (auto simp: defs Let_def split: if_splits)
  show ?case
  proof (cases "take 1 rest' = ''.''")
    case True
    with Suc.prems(1) hs obtain a b c d where "length gs \<le> 6" "parse_ipv4 s = Some (a, b, c, d)"
        "gs' = gs @ [256 * a + b, 256 * c + d]"
      by (auto simp: defs Let_def split: if_splits option.splits)
    with Suc.prems(3) show ?thesis by (auto dest!: parse_ipv4_octets)
  next
    case False
    let ?gs = "gs @ [group_value hs]"
    have g: "list_all (\<lambda>g. g < 65536) ?gs" "length ?gs + n = 8"
      using Suc.prems hs by (auto simp: group_value_less)
    from Suc.prems(1) hs False consider "gs' = ?gs" | s' el'' where "ipv6_groups n s' ?gs el'' = Some (gs', el', rest)"
      unfolding ipv6_groups.simps Let_def defs by (simp split: if_splits)
    then show ?thesis
    proof cases
      case 1
      with g show ?thesis by simp
    next
      case 2
      from Suc.IH[OF this g(2,1)] show ?thesis .
    qed
  qed
qed auto

lemma expand_ellipsis_shape:
  "expand_ellipsis gs el = Some gs' \<Longrightarrow> length gs \<le> 8 \<Longrightarrow> list_all (\<lambda>g. g < 65536) gs
   \<Longrightarrow> length gs' = 8 \<and> list_all (\<lambda>g. g < 65536) gs'"
  by (auto simp: expand_ellipsis_def list_all_iff min_def split: option.splits if_splits
      dest!: in_set_takeD in_set_dropD)

lemma parse_ipv6_shape: "parse_ipv6 s = Some gs \<Longrightarrow> length gs = 8 \<and> list_all (\<lambda>g. g < 65536) gs"
  by (auto simp: parse_ipv6_def Let_def list_all_length split: if_splits option.splits prod.splits
      dest!: ipv6_groups_shape expand_ellipsis_shape)

end
