(* ===== verification/Client_Errors.thy ===== *)
theory Client_Errors
  imports Go_Errors Go_IP
begin

text \<open>
  Error classification of the shared client (\<^verbatim>\<open>modules/client/client.go\<close>): which HTTP failure
  proves that a resource is absent (\<open>IsNotFound\<close>), which one is only a failure to get an answer
  (\<open>IsTransient\<close>), the retry hint, and the binding of an error to one exact lookup. The theorems
  show that absence is never concluded from an unbound, incomplete, malformed or non-GET response
  and that a definite answer anywhere in an error tree defeats the transient classification.
\<close>

section \<open>Status codes and exact lookup paths\<close>

definition retryableAPIStatus :: "int \<Rightarrow> bool" where
  "retryableAPIStatus status = (status = 408 \<or> status = 429 \<or> status \<ge> 500)"

definition isExactVMDetailPath :: "string \<Rightarrow> bool" where
  "isExactVMDetailPath path =
     (case split_on CHR ''/'' path of
        [p0, p1, p2, p3, p4] \<Rightarrow>
          p0 = '''' \<and> p1 = ''v1'' \<and> location_ok p2 \<and> p3 = ''user-resource'' \<and> p4 = ''vm''
      | _ \<Rightarrow> False)"

definition isBoundExactLookupPath :: "string \<Rightarrow> string \<Rightarrow> bool" where
  "isBoundExactLookupPath path requestedUUID =
     (if isExactVMDetailPath path then True
      else case split_on CHR ''/'' path of
        [p0, p1, p2, p3, p4, p5] \<Rightarrow>
          (if p0 = '''' \<and> p1 = ''v1'' \<and> location_ok p2 \<and> EqualFold p5 requestedUUID
           then (p3 = ''storage'' \<and> p4 = ''disks'') \<or> (p3 = ''network'' \<and> p4 = ''network'')
             \<or> (p3 = ''network'' \<and> p4 = ''load_balancers'')
           else False)
      | _ \<Rightarrow> False)"

definition isExactFloatingIPPath :: "string \<Rightarrow> string \<Rightarrow> bool" where
  "isExactFloatingIPPath path requestedAddress =
     (case split_on CHR ''/'' path of
        [p0, p1, p2, p3, p4, p5] \<Rightarrow>
          p0 = '''' \<and> p1 = ''v1'' \<and> location_ok p2 \<and> p3 = ''network'' \<and> p4 = ''ip_addresses''
            \<and> p5 = requestedAddress
      | _ \<Rightarrow> False)"

section \<open>Public IPv4 addresses\<close>

text \<open>
  \<^verbatim>\<open>net.ParseIP\<close> accepts a dotted quad of decimal octets without leading zeros; any other text
  it accepts (IPv6, mapped IPv4) is printed back differently by \<^verbatim>\<open>String()\<close> or has no
  \<^verbatim>\<open>To4()\<close>, so the canonical dotted quad is the only text the caller's test can keep.
\<close>

definition isPublicIPv4 :: "string \<Rightarrow> bool" where
  "isPublicIPv4 value =
     (case parse_ipv4 value of
        None \<Rightarrow> False
      | Some (a, b, c, d) \<Rightarrow>
          \<comment> \<open>IsGlobalUnicast: not broadcast, unspecified, loopback, multicast or link-local\<close>
          \<not> (a = 255 \<and> b = 255 \<and> c = 255 \<and> d = 255)
          \<and> \<not> (a = 0 \<and> b = 0 \<and> c = 0 \<and> d = 0)
          \<and> a \<noteq> 127
          \<and> \<not> (224 \<le> a \<and> a \<le> 239)
          \<and> \<not> (a = 169 \<and> b = 254)
          \<comment> \<open>IsPrivate\<close>
          \<and> \<not> (a = 10 \<or> (a = 172 \<and> 16 \<le> b \<and> b \<le> 31) \<or> (a = 192 \<and> b = 168)))"

section \<open>Not found\<close>

definition exactInSpaceMissingVMUUID :: "string \<Rightarrow> string \<Rightarrow> string \<times> bool" where
  "exactInSpaceMissingVMUUID message phrase =
     (if message = phrase then ('''', True)
      else if \<not> HasPrefix message phrase then ('''', False)
      else if message ! length phrase \<noteq> CHR '':'' \<and> message ! length phrase \<noteq> CHR ''.'' then ('''', False)
      else let suffix = TrimSpace (drop (length phrase + 1) message) in (suffix, uuid_any suffix))"

definition api_not_found :: "APIError \<Rightarrow> bool" where
  "api_not_found apiErr =
     (if ResponseBodyIncomplete apiErr \<or> ResponseBodyMalformed apiErr then False
      else if StatusCode apiErr = 404 then
        (if \<not> ExactLookup apiErr \<or> Method apiErr \<noteq> ''GET'' then False
         else if RequestedAddress apiErr \<noteq> '''' then
           RequestedUUID apiErr = '''' \<and> isPublicIPv4 (RequestedAddress apiErr)
             \<and> isExactFloatingIPPath (Path apiErr) (RequestedAddress apiErr)
         else uuid_any (RequestedUUID apiErr)
             \<and> isBoundExactLookupPath (Path apiErr) (RequestedUUID apiErr))
      else if StatusCode apiErr \<noteq> 400 \<or> \<not> ExactLookup apiErr \<or> Method apiErr \<noteq> ''GET''
           \<or> \<not> isExactVMDetailPath (Path apiErr) \<or> \<not> uuid_any (RequestedUUID apiErr) then False
      else
        let message = ToLower (TrimSpace (Message apiErr));
            message = TrimSpace (TrimPrefix message ''error:'');
            r1 = exactInSpaceMissingVMUUID message ''no such virtual machine exists'';
            r = (if snd r1 then r1 else exactInSpaceMissingVMUUID message ''no such vm exists'')
        in snd r \<and> (fst r = '''' \<or> EqualFold (fst r) (RequestedUUID apiErr)))"

definition IsNotFound :: "error option \<Rightarrow> bool" where
  "IsNotFound err =
     (case err of None \<Rightarrow> False
      | Some e \<Rightarrow> (case errors_as_api e of None \<Rightarrow> False | Some apiErr \<Rightarrow> api_not_found apiErr))"

definition bindExactLookupError :: "error \<Rightarrow> string \<Rightarrow> error" where
  "bindExactLookupError err requestedUUID =
     (case errors_as_node err of
        None \<Rightarrow> err
      | Some (a, c) \<Rightarrow> Api (a\<lparr>ExactLookup := True, RequestedUUID := requestedUUID\<rparr>) c)"

definition bindExactFloatingIPLookupError :: "error \<Rightarrow> string \<Rightarrow> error" where
  "bindExactFloatingIPLookupError err requestedAddress =
     (case errors_as_node err of
        None \<Rightarrow> err
      | Some (a, c) \<Rightarrow> Api (a\<lparr>ExactLookup := True, RequestedAddress := requestedAddress\<rparr>) c)"

section \<open>Transient failures\<close>

fun err_timeout :: "error \<Rightarrow> bool" where
  "err_timeout (Sentinel s) = (s = CtxDeadlineExceeded)"
| "err_timeout (UrlError e) = err_timeout e"
| "err_timeout (DNSError b) = b"
| "err_timeout (Errno n) = (n = ETIMEDOUT)"
| "err_timeout (NetError b) = b"
| "err_timeout _ = False"

fun classifyTransient :: "error \<Rightarrow> bool \<times> bool"
  and classifyTransient_list :: "error list \<Rightarrow> bool \<times> bool" where
  "classifyTransient (Api a c) =
     (if api_not_found a then (False, True)
      else if Retryable a \<or> ResponseBodyIncomplete a then (True, False)
      else (False, True))"
| "classifyTransient (Sentinel s) =
     (if s = ErrMutationNotDispatched then (False, True)
      else if s = CtxDeadlineExceeded \<or> s = CtxCanceled then (True, False)
      else if s = IoEOF \<or> s = IoErrUnexpectedEOF then (True, False)
      else (False, True))"
| "classifyTransient (UrlError e) =
     (if err_timeout e then (True, False)
      else if errors_is ErrMutationNotDispatched e then (False, True)
      else (True, False))"
| "classifyTransient (DNSError b) = (True, False)"
| "classifyTransient (Errno n) =
     (case n of OtherErrno \<Rightarrow> (False, True) | _ \<Rightarrow> (True, False))"
| "classifyTransient (NetError b) = (if b then (True, False) else (False, True))"
| "classifyTransient (Wrap m es) = (case es of [] \<Rightarrow> (False, True) | _ \<Rightarrow> classifyTransient_list es)"
| "classifyTransient (Joined es) = classifyTransient_list es"
| "classifyTransient (Plain m) = (False, True)"
| "classifyTransient OutOfFuel = (False, True)"
| "classifyTransient_list [] = (False, False)"
| "classifyTransient_list (e # es) =
     (let (t, d) = classifyTransient e; (t', d') = classifyTransient_list es in (t \<or> t', d \<or> d'))"

definition IsTransient :: "error option \<Rightarrow> bool" where
  "IsTransient err =
     (case err of None \<Rightarrow> False
      | Some e \<Rightarrow> (let (transient, definite) = classifyTransient e in transient \<and> \<not> definite))"

section \<open>Properties\<close>

lemma api_not_found_complete:
  "api_not_found a \<Longrightarrow> ExactLookup a \<and> Method a = ''GET'' \<and> \<not> ResponseBodyIncomplete a
     \<and> \<not> ResponseBodyMalformed a \<and> (StatusCode a = 404 \<or> StatusCode a = 400)"
  by (auto simp: api_not_found_def split: if_splits)

text \<open>
  C21: an absence verdict for a UUID-bound lookup rests on a complete, well-formed GET response
  with status 404 or 400 whose path is an exact lookup of that UUID (or the exact VM detail path).
  A list, route or mutation failure is never read as absence.
\<close>

theorem not_found_is_exact_lookup:
  assumes "IsNotFound (Some (bindExactLookupError err uuid))"
    and "errors_as_api err = Some a" and "RequestedAddress a = []"
  shows "Method a = ''GET'' \<and> \<not> ResponseBodyIncomplete a \<and> \<not> ResponseBodyMalformed a
    \<and> (StatusCode a = 404 \<or> StatusCode a = 400) \<and> uuid_any uuid
    \<and> isBoundExactLookupPath (Path a) uuid"
proof -
  obtain c where node: "errors_as_node err = Some (a, c)"
    using assms(2) by (auto simp: errors_as_api_def)
  define b where "b = a\<lparr>ExactLookup := True, RequestedUUID := uuid\<rparr>"
  from assms(1) node have nf: "api_not_found b"
    by (simp add: IsNotFound_def bindExactLookupError_def errors_as_api_def b_def)
  then have "Method b = ''GET''" "\<not> ResponseBodyIncomplete b" "\<not> ResponseBodyMalformed b"
    and st: "StatusCode b = 404 \<or> StatusCode b = 400"
    by (simp_all add: api_not_found_complete)
  moreover have "uuid_any (RequestedUUID b) \<and> isBoundExactLookupPath (Path b) (RequestedUUID b)"
    using nf st assms(3)
    by (auto simp: api_not_found_def isBoundExactLookupPath_def b_def split: if_splits)
  ultimately show ?thesis using st by (simp add: b_def)
qed

definition sample_not_found :: APIError where
  "sample_not_found = \<lparr>StatusCode = 404, Method = ''GET'',
     Path = ''/v1/bkk01/storage/disks/01234567-89ab-cdef-0123-456789abcdef'', Message = ''gone'',
     Retryable = False, CorrelationID = [], ResponseBodyIncomplete = False,
     ResponseBodyMalformed = False, ExactLookup = False, RequestedUUID = [], RequestedAddress = []\<rparr>"

theorem not_found_is_exact_lookup_witness:
  "IsNotFound (Some (bindExactLookupError (Api sample_not_found None)
      ''01234567-89ab-cdef-0123-456789abcdef''))
   \<and> isBoundExactLookupPath (Path sample_not_found) ''01234567-89ab-cdef-0123-456789abcdef''"
proof -
  have 1: "IsNotFound (Some (bindExactLookupError (Api sample_not_found None)
      ''01234567-89ab-cdef-0123-456789abcdef''))"
    by code_simp
  have 2: "errors_as_api (Api sample_not_found None) = Some sample_not_found"
    by (simp add: errors_as_api_def)
  have 3: "RequestedAddress sample_not_found = []"
    by (simp add: sample_not_found_def)
  from not_found_is_exact_lookup [OF 1 2 3] 1 show ?thesis by blast
qed

text \<open>The nodes of an error tree at which \<^verbatim>\<open>classifyTransient\<close> stops.\<close>

fun class_leaves :: "error \<Rightarrow> error list"
  and class_leaves_list :: "error list \<Rightarrow> error list" where
  "class_leaves (Wrap m es) = (case es of [] \<Rightarrow> [Wrap m []] | _ \<Rightarrow> class_leaves_list es)"
| "class_leaves (Joined es) = class_leaves_list es"
| "class_leaves e = [e]"
| "class_leaves_list [] = []"
| "class_leaves_list (e # es) = class_leaves e @ class_leaves_list es"

lemma classifyTransient_leaves:
  "fst (classifyTransient e) = list_ex (\<lambda>l. fst (classifyTransient l)) (class_leaves e)
   \<and> snd (classifyTransient e) = list_ex (\<lambda>l. snd (classifyTransient l)) (class_leaves e)"
  "fst (classifyTransient_list es) = list_ex (\<lambda>l. fst (classifyTransient l)) (class_leaves_list es)
   \<and> snd (classifyTransient_list es) = list_ex (\<lambda>l. snd (classifyTransient l)) (class_leaves_list es)"
proof (induction e and es rule: class_leaves_class_leaves_list.induct)
  case (1 m es)
  then show ?case by (cases es) auto
qed (auto simp: Let_def split: prod.splits)

lemma leaf_transient_xor_definite:
  "l \<in> set (class_leaves e) \<Longrightarrow> fst (classifyTransient l) \<noteq> snd (classifyTransient l)"
  "l \<in> set (class_leaves_list es) \<Longrightarrow> fst (classifyTransient l) \<noteq> snd (classifyTransient l)"
proof (induction e and es rule: class_leaves_class_leaves_list.induct)
  case (1 m es)
  then show ?case by (cases es) auto
qed (auto split: errno.splits)

text \<open>
  C22: an error tree is transient exactly when it has a leaf and every leaf is a failure to get
  an answer; one definite leaf (an exact 404, another 4xx, a malformed body, an undispatched
  mutation, a caller-made error) joined anywhere makes the whole tree definite.
\<close>

theorem transient_iff_all_leaves_transient:
  "IsTransient (Some e) \<longleftrightarrow>
     class_leaves e \<noteq> [] \<and> list_all (\<lambda>l. classifyTransient l = (True, False)) (class_leaves e)"
proof -
  let ?L = "class_leaves e"
  have f: "fst (classifyTransient e) = list_ex (\<lambda>l. fst (classifyTransient l)) ?L"
    and s: "snd (classifyTransient e) = list_ex (\<lambda>l. snd (classifyTransient l)) ?L"
    using classifyTransient_leaves(1)[of e] by simp_all
  have x: "classifyTransient l = (True, False) \<longleftrightarrow> \<not> snd (classifyTransient l)" if "l \<in> set ?L" for l
    using leaf_transient_xor_definite(1)[OF that] by (cases "classifyTransient l") auto
  have t: "IsTransient (Some e) \<longleftrightarrow> fst (classifyTransient e) \<and> \<not> snd (classifyTransient e)"
    by (simp add: IsTransient_def split_beta Let_def)
  show ?thesis
  proof (cases ?L)
    case Nil
    then show ?thesis using t f by simp
  next
    case (Cons l ls)
    then show ?thesis
      using t f s x leaf_transient_xor_definite(1)[of _ e]
      by (auto simp: list_ex_iff list_all_iff)
  qed
qed

end
