(* ===== verification/Runtime.thy ===== *)
theory Runtime
  imports Cloud_Types Client_Errors
begin

text \<open>
  The interfaces the CSI adapter is written against and the machine it runs on.

  \<^verbatim>\<open>API\<close> (the InSpace client), \<^verbatim>\<open>NodeResolver\<close> and \<^verbatim>\<open>mutationFenceStore\<close> are records of
  operations on an opaque world \<open>'w\<close>: everything outside the running call, other controllers
  included, so each operation may return anything and move the world and the clock forward as it
  likes. A run threads a state of world, clock and a ghost trace to which every operation appends
  its arguments and its result. The theorems about the adapter are statements about this trace,
  for every world and every implementation of the interfaces.

  The logic \<open>spec t m Q\<close> says: started at time \<open>t\<close>, \<open>m\<close> only appends to the trace, and \<open>Q\<close>
  holds of its result, the appended events and the clock afterwards. \<open>emits P m\<close> is the special
  case that all appended events satisfy \<open>P\<close> and the clock does not go back.
\<close>

section \<open>Events\<close>

datatype event =
    RListDisks string "error + Disk list"
  | RGetDisk string string "error + Disk option"
  | RListVMs string "error + VM list"
  | RGetVM string string "error + VM option"
  | RGetNetwork string string "error + Network option"
  | PCreateDisk int string CreateDiskRequest "error + Disk option"
  | PDeleteDisk int string string "error option"
  | PAttachDisk int string string string "error + VMStorage option"
  | PDetachDisk int string string string "error option"
  | PResizeAttachedDisk int string string string int "error + VMStorage option"
  | FGet string "error + mutationFence option"
  | FList string "error + mutationFence list"
  | FCreate mutationFence "error + mutationFence option \<times> bool"
  | FSetReceipt mutationFence string "error + mutationFence option"
  | FSetObservation mutationFence obs_text "error + mutationFence option"
  | FDelete mutationFence "error option"
  | NProviderID string "error + string"
  | NAuthorize missingNodeDetachRequest "error option"
  | LLock string "error option"
  | LUnlock string
  | LoopCut

text \<open>
  The five calls that change the cloud, and the store calls. \<open>LoopCut\<close> is no action of the
  program: it marks that a polling loop of the model was cut by its bound.
\<close>

fun is_post :: "event \<Rightarrow> bool" where
  "is_post (PCreateDisk _ _ _ _) = True"
| "is_post (PDeleteDisk _ _ _ _) = True"
| "is_post (PAttachDisk _ _ _ _ _) = True"
| "is_post (PDetachDisk _ _ _ _ _) = True"
| "is_post (PResizeAttachedDisk _ _ _ _ _ _) = True"
| "is_post _ = False"

fun is_fence_write :: "event \<Rightarrow> bool" where
  "is_fence_write (FCreate _ _) = True"
| "is_fence_write (FSetReceipt _ _ _) = True"
| "is_fence_write (FSetObservation _ _ _) = True"
| "is_fence_write (FDelete _ _) = True"
| "is_fence_write _ = False"

fun is_fence_delete :: "event \<Rightarrow> bool" where
  "is_fence_delete (FDelete _ _) = True"
| "is_fence_delete _ = False"

fun is_lock :: "event \<Rightarrow> bool" where
  "is_lock (LLock _ _) = True"
| "is_lock (LUnlock _) = True"
| "is_lock _ = False"

text \<open>An event that changes neither the cloud nor the fence store nor a lock.\<close>

definition is_read :: "event \<Rightarrow> bool" where
  "is_read e = (\<not> is_post e \<and> \<not> is_fence_write e \<and> \<not> is_lock e)"

section \<open>Interfaces\<close>

record 'w API =
  api_CreateDisk :: "ctx \<Rightarrow> string \<Rightarrow> CreateDiskRequest \<Rightarrow> 'w \<Rightarrow> (error + Disk option) \<times> nat \<times> 'w"
  api_GetDisk :: "ctx \<Rightarrow> string \<Rightarrow> string \<Rightarrow> 'w \<Rightarrow> (error + Disk option) \<times> nat \<times> 'w"
  api_ListDisks :: "ctx \<Rightarrow> string \<Rightarrow> 'w \<Rightarrow> (error + Disk list) \<times> nat \<times> 'w"
  api_DeleteDisk :: "ctx \<Rightarrow> string \<Rightarrow> string \<Rightarrow> 'w \<Rightarrow> (error option) \<times> nat \<times> 'w"
  api_ListVMs :: "ctx \<Rightarrow> string \<Rightarrow> 'w \<Rightarrow> (error + VM list) \<times> nat \<times> 'w"
  api_GetVM :: "ctx \<Rightarrow> string \<Rightarrow> string \<Rightarrow> 'w \<Rightarrow> (error + VM option) \<times> nat \<times> 'w"
  api_GetNetwork :: "ctx \<Rightarrow> string \<Rightarrow> string \<Rightarrow> 'w \<Rightarrow> (error + Network option) \<times> nat \<times> 'w"
  api_AttachDisk :: "ctx \<Rightarrow> string \<Rightarrow> string \<Rightarrow> string \<Rightarrow> 'w \<Rightarrow> (error + VMStorage option) \<times> nat \<times> 'w"
  api_DetachDisk :: "ctx \<Rightarrow> string \<Rightarrow> string \<Rightarrow> string \<Rightarrow> 'w \<Rightarrow> (error option) \<times> nat \<times> 'w"
  api_ResizeAttachedDisk :: "ctx \<Rightarrow> string \<Rightarrow> string \<Rightarrow> string \<Rightarrow> int \<Rightarrow> 'w
     \<Rightarrow> (error + VMStorage option) \<times> nat \<times> 'w"

record 'w mutationFenceStore =
  fs_Get :: "ctx \<Rightarrow> string \<Rightarrow> 'w \<Rightarrow> (error + mutationFence option) \<times> nat \<times> 'w"
  fs_List :: "ctx \<Rightarrow> string \<Rightarrow> 'w \<Rightarrow> (error + mutationFence list) \<times> nat \<times> 'w"
  fs_Create :: "ctx \<Rightarrow> mutationFence \<Rightarrow> 'w \<Rightarrow> (error + mutationFence option \<times> bool) \<times> nat \<times> 'w"
  fs_SetReceipt :: "ctx \<Rightarrow> mutationFence \<Rightarrow> string \<Rightarrow> 'w \<Rightarrow> (error + mutationFence option) \<times> nat \<times> 'w"
  fs_SetObservation :: "ctx \<Rightarrow> mutationFence \<Rightarrow> obs_text \<Rightarrow> 'w
     \<Rightarrow> (error + mutationFence option) \<times> nat \<times> 'w"
  fs_Delete :: "ctx \<Rightarrow> mutationFence \<Rightarrow> 'w \<Rightarrow> (error option) \<times> nat \<times> 'w"

text \<open>
  A node resolver; \<open>nr_Authorize\<close> is present when the resolver also implements
  \<^verbatim>\<open>missingNodeDetachAuthorizer\<close>.
\<close>

record 'w NodeResolver =
  nr_ProviderIDForNode :: "ctx \<Rightarrow> string \<Rightarrow> 'w \<Rightarrow> (error + string) \<times> nat \<times> 'w"
  nr_Authorize :: "(ctx \<Rightarrow> missingNodeDetachRequest \<Rightarrow> 'w \<Rightarrow> (error option) \<times> nat \<times> 'w) option"

text \<open>
  The adapter. The last five fields stand for what Go takes from its runtime: the source of random
  attempt tokens, the hexadecimal SHA-256 digest, the strict JSON decoder of VM ownership
  descriptions, the keyed mutex shared with the other calls of
  the process (its own protocol is in theory \<open>Keyed_Mutex\<close>) and the bound after which the model
  cuts a polling loop.
\<close>

record 'w Adapter =
  a_api :: "'w API"
  a_nodes :: "'w NodeResolver option"
  a_fences :: "'w mutationFenceStore"
  a_location :: string
  a_network :: string
  a_billing :: int
  a_poll :: int
  a_readback :: int
  a_absencePoll :: int
  a_destructive :: int
  a_rand :: "'w \<Rightarrow> (error + string) \<times> nat \<times> 'w"
  a_sha256hex :: "string \<Rightarrow> string"
  a_ownership :: "string \<Rightarrow> error + missingNodeOwnershipRecord"
  a_vmLock :: "ctx \<Rightarrow> string \<Rightarrow> 'w \<Rightarrow> (error option) \<times> nat \<times> 'w"
  a_fuel :: nat

section \<open>The machine\<close>

record 'w st =
  world :: 'w
  clock :: int
  trace :: "event list"

type_synonym ('w, 'a) prog = "('w st, 'a) state"

abbreviation ret :: "'a \<Rightarrow> ('w, 'a) prog" where
  "ret \<equiv> State_Monad.return"

definition call :: "('w \<Rightarrow> 'r \<times> nat \<times> 'w) \<Rightarrow> (int \<Rightarrow> 'r \<Rightarrow> event) \<Rightarrow> ('w, 'r) prog" where
  "call f ev = State (\<lambda>s. case f (world s) of (r, d, w') \<Rightarrow>
     (r, s\<lparr>world := w', clock := clock s + int d, trace := trace s @ [ev (clock s) r]\<rparr>))"

text \<open>An operation of the Go runtime that leaves no event.\<close>

definition call_silent :: "('w \<Rightarrow> 'r \<times> nat \<times> 'w) \<Rightarrow> ('w, 'r) prog" where
  "call_silent f = State (\<lambda>s. case f (world s) of (r, d, w') \<Rightarrow>
     (r, s\<lparr>world := w', clock := clock s + int d\<rparr>))"

definition now :: "('w, int) prog" where
  "now = State (\<lambda>s. (clock s, s))"

definition emit :: "event \<Rightarrow> ('w, unit) prog" where
  "emit e = State (\<lambda>s. ((), s\<lparr>trace := trace s @ [e]\<rparr>))"

text \<open>
  Waiting for a timer or the end of a context, as the \<^verbatim>\<open>select\<close> statements do: the timer wins
  when it fires strictly before the context ends.
\<close>

definition wait_timer :: "ctx \<Rightarrow> int \<Rightarrow> ('w, error option) prog" where
  "wait_timer c delay = State (\<lambda>s.
     let t = clock s; fire = t + max 0 delay in
     case ctx_end c of
       None \<Rightarrow> (None, s\<lparr>clock := fire\<rparr>)
     | Some e \<Rightarrow>
         if fire < e then (None, s\<lparr>clock := fire\<rparr>)
         else (ctx_err c (max t e), s\<lparr>clock := max t e\<rparr>))"

definition CreateDisk :: "'w Adapter \<Rightarrow> ctx \<Rightarrow> string \<Rightarrow> CreateDiskRequest \<Rightarrow> ('w, error + Disk option) prog" where
  "CreateDisk a c loc req = call (api_CreateDisk (a_api a) c loc req) (\<lambda>t. PCreateDisk t loc req)"
definition GetDisk :: "'w Adapter \<Rightarrow> ctx \<Rightarrow> string \<Rightarrow> string \<Rightarrow> ('w, error + Disk option) prog" where
  "GetDisk a c loc u = call (api_GetDisk (a_api a) c loc u) (\<lambda>t. RGetDisk loc u)"
definition ListDisks :: "'w Adapter \<Rightarrow> ctx \<Rightarrow> string \<Rightarrow> ('w, error + Disk list) prog" where
  "ListDisks a c loc = call (api_ListDisks (a_api a) c loc) (\<lambda>t. RListDisks loc)"
definition DeleteDisk :: "'w Adapter \<Rightarrow> ctx \<Rightarrow> string \<Rightarrow> string \<Rightarrow> ('w, error option) prog" where
  "DeleteDisk a c loc u = call (api_DeleteDisk (a_api a) c loc u) (\<lambda>t. PDeleteDisk t loc u)"
definition ListVMs :: "'w Adapter \<Rightarrow> ctx \<Rightarrow> string \<Rightarrow> ('w, error + VM list) prog" where
  "ListVMs a c loc = call (api_ListVMs (a_api a) c loc) (\<lambda>t. RListVMs loc)"
definition GetVM :: "'w Adapter \<Rightarrow> ctx \<Rightarrow> string \<Rightarrow> string \<Rightarrow> ('w, error + VM option) prog" where
  "GetVM a c loc u = call (api_GetVM (a_api a) c loc u) (\<lambda>t. RGetVM loc u)"
definition GetNetwork :: "'w Adapter \<Rightarrow> ctx \<Rightarrow> string \<Rightarrow> string \<Rightarrow> ('w, error + Network option) prog" where
  "GetNetwork a c loc u = call (api_GetNetwork (a_api a) c loc u) (\<lambda>t. RGetNetwork loc u)"
definition AttachDisk :: "'w Adapter \<Rightarrow> ctx \<Rightarrow> string \<Rightarrow> string \<Rightarrow> string \<Rightarrow> ('w, error + VMStorage option) prog" where
  "AttachDisk a c loc vm u = call (api_AttachDisk (a_api a) c loc vm u) (\<lambda>t. PAttachDisk t loc vm u)"
definition DetachDisk :: "'w Adapter \<Rightarrow> ctx \<Rightarrow> string \<Rightarrow> string \<Rightarrow> string \<Rightarrow> ('w, error option) prog" where
  "DetachDisk a c loc vm u = call (api_DetachDisk (a_api a) c loc vm u) (\<lambda>t. PDetachDisk t loc vm u)"
definition ResizeAttachedDisk ::
  "'w Adapter \<Rightarrow> ctx \<Rightarrow> string \<Rightarrow> string \<Rightarrow> string \<Rightarrow> int \<Rightarrow> ('w, error + VMStorage option) prog" where
  "ResizeAttachedDisk a c loc vm u n =
     call (api_ResizeAttachedDisk (a_api a) c loc vm u n) (\<lambda>t. PResizeAttachedDisk t loc vm u n)"

definition fenceGet :: "'w Adapter \<Rightarrow> ctx \<Rightarrow> string \<Rightarrow> ('w, error + mutationFence option) prog" where
  "fenceGet a c k = call (fs_Get (a_fences a) c k) (\<lambda>t. FGet k)"
definition fenceList :: "'w Adapter \<Rightarrow> ctx \<Rightarrow> string \<Rightarrow> ('w, error + mutationFence list) prog" where
  "fenceList a c p = call (fs_List (a_fences a) c p) (\<lambda>t. FList p)"
definition fenceCreate :: "'w Adapter \<Rightarrow> ctx \<Rightarrow> mutationFence \<Rightarrow> ('w, error + mutationFence option \<times> bool) prog" where
  "fenceCreate a c f = call (fs_Create (a_fences a) c f) (\<lambda>t. FCreate f)"
definition fenceSetReceipt :: "'w Adapter \<Rightarrow> ctx \<Rightarrow> mutationFence \<Rightarrow> string \<Rightarrow> ('w, error + mutationFence option) prog" where
  "fenceSetReceipt a c f r = call (fs_SetReceipt (a_fences a) c f r) (\<lambda>t. FSetReceipt f r)"
definition fenceSetObservation :: "'w Adapter \<Rightarrow> ctx \<Rightarrow> mutationFence \<Rightarrow> obs_text \<Rightarrow> ('w, error + mutationFence option) prog" where
  "fenceSetObservation a c f v = call (fs_SetObservation (a_fences a) c f v) (\<lambda>t. FSetObservation f v)"
definition fenceDelete :: "'w Adapter \<Rightarrow> ctx \<Rightarrow> mutationFence \<Rightarrow> ('w, error option) prog" where
  "fenceDelete a c f = call (fs_Delete (a_fences a) c f) (\<lambda>t. FDelete f)"

lemmas call_defs = CreateDisk_def GetDisk_def ListDisks_def DeleteDisk_def ListVMs_def GetVM_def
  GetNetwork_def AttachDisk_def DetachDisk_def ResizeAttachedDisk_def fenceGet_def fenceList_def
  fenceCreate_def fenceSetReceipt_def fenceSetObservation_def fenceDelete_def

section \<open>The trace logic\<close>

definition spec :: "int \<Rightarrow> ('w, 'a) prog \<Rightarrow> ('a \<Rightarrow> event list \<Rightarrow> int \<Rightarrow> bool) \<Rightarrow> bool" where
  "spec t m Q \<longleftrightarrow> (\<forall>s. clock s = t \<longrightarrow>
     (\<exists>es. trace (snd (run_state m s)) = trace s @ es
        \<and> Q (fst (run_state m s)) es (clock (snd (run_state m s)))))"

definition emits :: "(event \<Rightarrow> bool) \<Rightarrow> ('w, 'a) prog \<Rightarrow> bool" where
  "emits P m \<longleftrightarrow> (\<forall>t. spec t m (\<lambda>_ es t'. t \<le> t' \<and> list_all P es))"

named_theorems emits_intros \<open>which events a program can append\<close>

lemma spec_return: "Q x [] t \<Longrightarrow> spec t (ret x) Q"
  by (simp add: spec_def)

lemma spec_bind:
  fixes m :: "('w, 'a) prog"
  assumes "spec t m Q" and "\<And>x es t'. Q x es t' \<Longrightarrow> spec t' (f x) (\<lambda>y es' t''. R y (es @ es') t'')"
  shows "spec t (State_Monad.bind m f) R"
  unfolding spec_def
proof (intro allI impI)
  fix s :: "'w st"
  assume s: "clock s = t"
  obtain x s' where r: "run_state m s = (x, s')" by (cases "run_state m s")
  from assms(1) s have "\<exists>es. trace (snd (run_state m s)) = trace s @ es
      \<and> Q (fst (run_state m s)) es (clock (snd (run_state m s)))"
    by (simp add: spec_def)
  with r obtain es where es: "trace s' = trace s @ es" "Q x es (clock s')"
    by auto
  from assms(2)[OF es(2)] obtain es' where
    "trace (snd (run_state (f x) s')) = trace s' @ es'"
    "R (fst (run_state (f x) s')) (es @ es') (clock (snd (run_state (f x) s')))"
    by (auto simp: spec_def)
  with r es show "\<exists>es. trace (snd (run_state (State_Monad.bind m f) s)) = trace s @ es
      \<and> R (fst (run_state (State_Monad.bind m f) s)) es (clock (snd (run_state (State_Monad.bind m f) s)))"
    by (intro exI[of _ "es @ es'"]) simp
qed

lemma spec_mono: "spec t m Q \<Longrightarrow> (\<And>x es t'. Q x es t' \<Longrightarrow> R x es t') \<Longrightarrow> spec t m R"
  unfolding spec_def by blast

lemma spec_conj: "spec t m Q \<Longrightarrow> spec t m R \<Longrightarrow> spec t m (\<lambda>x es t'. Q x es t' \<and> R x es t')"
  unfolding spec_def by (metis (mono_tags, lifting) same_append_eq)

lemma spec_emits: "emits P m \<Longrightarrow> spec t m (\<lambda>_ es t'. t \<le> t' \<and> list_all P es)"
  by (simp add: emits_def)

lemma spec_call: "(\<And>r d. Q r [ev t r] (t + int d)) \<Longrightarrow> spec t (call f ev) Q"
  by (auto simp: spec_def call_def split: prod.splits)

lemma spec_call_silent: "(\<And>r d. Q r [] (t + int d)) \<Longrightarrow> spec t (call_silent f) Q"
  by (auto simp: spec_def call_silent_def split: prod.splits)

lemma spec_now: "Q t [] t \<Longrightarrow> spec t now Q"
  by (simp add: spec_def now_def)

lemma spec_emit: "Q () [e] t \<Longrightarrow> spec t (emit e) Q"
  by (simp add: spec_def emit_def)

lemma spec_wait_timer:
  "(\<And>r t'. t \<le> t' \<Longrightarrow> Q r [] t') \<Longrightarrow> spec t (wait_timer c d) Q"
  by (auto simp: spec_def wait_timer_def Let_def split: option.splits)

lemma emits_return [emits_intros]: "emits P (ret x)"
  by (simp add: emits_def spec_return)

lemma emits_bind [emits_intros]:
  assumes "emits P m" "\<And>x. emits P (f x)"
  shows "emits P (State_Monad.bind m f)"
  unfolding emits_def
  by (rule allI, rule spec_bind[OF spec_emits[OF assms(1)]])
     (rule spec_mono[OF spec_emits[OF assms(2)]], auto)

lemma emits_call: "(\<And>t r. P (ev t r)) \<Longrightarrow> emits P (call f ev)"
  by (auto simp: emits_def intro!: spec_call)

lemma emits_call_silent [emits_intros]: "emits P (call_silent f)"
  by (auto simp: emits_def intro!: spec_call_silent)

lemma emits_now [emits_intros]: "emits P now"
  by (auto simp: emits_def intro!: spec_now)

lemma emits_emit: "P e \<Longrightarrow> emits P (emit e)"
  by (auto simp: emits_def intro!: spec_emit)

lemma emits_wait_timer [emits_intros]: "emits P (wait_timer c d)"
  by (auto simp: emits_def intro!: spec_wait_timer)

lemma emits_mono: "emits P m \<Longrightarrow> (\<And>e. P e \<Longrightarrow> Q e) \<Longrightarrow> emits Q m"
  unfolding emits_def by (fast elim: spec_mono list.pred_mono_strong)

lemma emits_if [emits_intros]: "(b \<Longrightarrow> emits P m) \<Longrightarrow> (\<not> b \<Longrightarrow> emits P n) \<Longrightarrow> emits P (if b then m else n)"
  by simp

lemma emits_sum [emits_intros]:
  "(\<And>e. emits P (f e)) \<Longrightarrow> (\<And>x. emits P (g x)) \<Longrightarrow> emits P (case r of Inl e \<Rightarrow> f e | Inr x \<Rightarrow> g x)"
  by (cases r) auto

lemma emits_option [emits_intros]:
  "emits P m \<Longrightarrow> (\<And>x. emits P (g x)) \<Longrightarrow> emits P (case r of None \<Rightarrow> m | Some x \<Rightarrow> g x)"
  by (cases r) auto

lemma emits_prod [emits_intros]:
  "(\<And>x y. emits P (g x y)) \<Longrightarrow> emits P (case r of (x, y) \<Rightarrow> g x y)"
  by (cases r) auto

lemma emits_let [emits_intros]: "(\<And>x. emits P (g x)) \<Longrightarrow> emits P (let x = v in g x)"
  by simp

lemma emits_run:
  assumes "emits P m"
  shows "\<exists>es. trace (snd (run_state m s)) = trace s @ es \<and> list_all P es"
  using assms unfolding emits_def spec_def by blast

lemma is_read_simps [simp]:
  "is_read (RListDisks l r1)" "is_read (RGetDisk l u r2)" "is_read (RListVMs l r3)"
  "is_read (RGetVM l u r4)" "is_read (RGetNetwork l u r5)" "is_read (FGet k r6)"
  "is_read (FList k r7)" "is_read (NProviderID k r8)" "is_read (NAuthorize q r9)"
  by (simp_all add: is_read_def)

lemma is_read_no_post: "is_read e \<Longrightarrow> \<not> is_post e"
  by (simp add: is_read_def)

lemma reads_of_calls [emits_intros]:
  "emits is_read (GetDisk a c l u)" "emits is_read (ListDisks a c l)" "emits is_read (ListVMs a c l)"
  "emits is_read (GetVM a c l u)" "emits is_read (GetNetwork a c l u)"
  "emits is_read (fenceGet a c k)" "emits is_read (fenceList a c k)"
  by (simp_all add: call_defs emits_call)

lemma no_post_of_calls [emits_intros]:
  "emits (\<lambda>e. \<not> is_post e) (GetDisk a c l u)" "emits (\<lambda>e. \<not> is_post e) (ListDisks a c l)"
  "emits (\<lambda>e. \<not> is_post e) (ListVMs a c l)" "emits (\<lambda>e. \<not> is_post e) (GetVM a c l u)"
  "emits (\<lambda>e. \<not> is_post e) (GetNetwork a c l u)" "emits (\<lambda>e. \<not> is_post e) (fenceGet a c k)"
  "emits (\<lambda>e. \<not> is_post e) (fenceList a c k)" "emits (\<lambda>e. \<not> is_post e) (fenceCreate a c f)"
  "emits (\<lambda>e. \<not> is_post e) (fenceSetReceipt a c f r)"
  "emits (\<lambda>e. \<not> is_post e) (fenceSetObservation a c f v)"
  "emits (\<lambda>e. \<not> is_post e) (fenceDelete a c f)"
  by (simp_all add: call_defs emits_call)

text \<open>An event that changes neither the cloud nor a lock.\<close>

definition quiet :: "event \<Rightarrow> bool" where
  "quiet e = (\<not> is_post e \<and> \<not> is_lock e)"

lemma quiet_simps [simp]:
  "quiet (FCreate f r1)" "quiet (FSetReceipt f u r2)" "quiet (FSetObservation f v r3)"
  "quiet (FDelete f r4)" "quiet LoopCut" "\<not> quiet (LLock k r5)" "\<not> quiet (LUnlock k)"
  by (simp_all add: quiet_def)

lemma quiet_read_simps [simp]:
  "quiet (RListDisks l r1)" "quiet (RGetDisk l u r2)" "quiet (RListVMs l r3)"
  "quiet (RGetVM l u r4)" "quiet (RGetNetwork l u r5)" "quiet (FGet k r6)"
  "quiet (FList k r7)" "quiet (NProviderID k r8)" "quiet (NAuthorize q r9)"
  by (simp_all add: quiet_def)

lemma is_read_quiet: "is_read e \<Longrightarrow> quiet e"
  by (simp add: is_read_def quiet_def)

lemma quiet_of_reads: "emits is_read m \<Longrightarrow> emits quiet m"
  by (erule emits_mono) (rule is_read_quiet)

lemma quiet_no_post: "emits quiet m \<Longrightarrow> emits (\<lambda>e. \<not> is_post e) m"
  by (erule emits_mono) (simp add: quiet_def)

lemma quiet_of_calls [emits_intros]:
  "emits quiet (GetDisk a c l u)" "emits quiet (ListDisks a c l)" "emits quiet (ListVMs a c l)"
  "emits quiet (GetVM a c l u)" "emits quiet (GetNetwork a c l u)"
  "emits quiet (fenceGet a c k)" "emits quiet (fenceList a c k)" "emits quiet (fenceCreate a c f)"
  "emits quiet (fenceSetReceipt a c f r)" "emits quiet (fenceSetObservation a c f v)"
  "emits quiet (fenceDelete a c f)"
  by (rule quiet_of_reads[OF reads_of_calls(1)] quiet_of_reads[OF reads_of_calls(2)]
      quiet_of_reads[OF reads_of_calls(3)] quiet_of_reads[OF reads_of_calls(4)]
      quiet_of_reads[OF reads_of_calls(5)] quiet_of_reads[OF reads_of_calls(6)]
      quiet_of_reads[OF reads_of_calls(7)] | simp add: call_defs emits_call)+

lemma spec_of_calls:
  "spec t (GetDisk a c l u) (\<lambda>r es t'. es = [RGetDisk l u r] \<and> t \<le> t')"
  "spec t (ListDisks a c l) (\<lambda>r2 es t'. es = [RListDisks l r2] \<and> t \<le> t')"
  "spec t (ListVMs a c l) (\<lambda>r3 es t'. es = [RListVMs l r3] \<and> t \<le> t')"
  "spec t (GetVM a c l u) (\<lambda>r4 es t'. es = [RGetVM l u r4] \<and> t \<le> t')"
  "spec t (GetNetwork a c l u) (\<lambda>r5 es t'. es = [RGetNetwork l u r5] \<and> t \<le> t')"
  "spec t (fenceGet a c k) (\<lambda>r6 es t'. es = [FGet k r6] \<and> t \<le> t')"
  "spec t (fenceList a c k) (\<lambda>r7 es t'. es = [FList k r7] \<and> t \<le> t')"
  "spec t (fenceCreate a c f) (\<lambda>r8 es t'. es = [FCreate f r8] \<and> t \<le> t')"
  "spec t (fenceSetReceipt a c f rc) (\<lambda>r9 es t'. es = [FSetReceipt f rc r9] \<and> t \<le> t')"
  "spec t (fenceSetObservation a c f v) (\<lambda>r10 es t'. es = [FSetObservation f v r10] \<and> t \<le> t')"
  "spec t (fenceDelete a c f) (\<lambda>r11 es t'. es = [FDelete f r11] \<and> t \<le> t')"
  "spec t (CreateDisk a c l q) (\<lambda>r12 es t'. es = [PCreateDisk t l q r12] \<and> t \<le> t')"
  "spec t (DeleteDisk a c l u) (\<lambda>r13 es t'. es = [PDeleteDisk t l u r13] \<and> t \<le> t')"
  "spec t (AttachDisk a c l x u) (\<lambda>r14 es t'. es = [PAttachDisk t l x u r14] \<and> t \<le> t')"
  "spec t (DetachDisk a c l x u) (\<lambda>r15 es t'. es = [PDetachDisk t l x u r15] \<and> t \<le> t')"
  "spec t (ResizeAttachedDisk a c l x u n) (\<lambda>r16 es t'. es = [PResizeAttachedDisk t l x u n r16] \<and> t \<le> t')"
  unfolding call_defs by (rule spec_call, simp)+

lemma spec_run:
  assumes "spec t m Q" and "clock s = t" and "run_state m s = (r, s')"
  shows "\<exists>es. trace s' = trace s @ es \<and> Q r es (clock s')"
  using assms unfolding spec_def by (metis fst_conv snd_conv)

lemma spec_all: "(\<And>t. spec t m Q) \<Longrightarrow> run_state m s = (r, s') \<Longrightarrow> \<exists>es. trace s' = trace s @ es \<and> Q r es (clock s')"
  by (rule spec_run) auto

text \<open>Running \<open>m\<close> and then code that keeps the postcondition whatever it reads.\<close>

lemma spec_emits_bind:
  assumes "emits P m" and "\<And>x es t'. t \<le> t' \<Longrightarrow> list_all P es \<Longrightarrow> spec t' (f x) (\<lambda>y es' t''. R y (es @ es') t'')"
  shows "spec t (State_Monad.bind m f) R"
  by (rule spec_bind[OF spec_emits[OF assms(1)]]) (blast intro: assms(2))

text \<open>
  Symbolic execution: one rule per construct, so that \<open>intro spec_rules\<close> walks through a program
  and leaves one goal per way out of it.
\<close>

named_theorems spec_rules \<open>structural rules of the trace logic\<close>

lemma spec_sum [spec_rules]:
  "(\<And>e. r = Inl e \<Longrightarrow> spec t (f e) Q) \<Longrightarrow> (\<And>x. r = Inr x \<Longrightarrow> spec t (g x) Q)
   \<Longrightarrow> spec t (case r of Inl e \<Rightarrow> f e | Inr x \<Rightarrow> g x) Q"
  by (cases r) auto

lemma spec_option [spec_rules]:
  "(r = None \<Longrightarrow> spec t m Q) \<Longrightarrow> (\<And>x. r = Some x \<Longrightarrow> spec t (g x) Q)
   \<Longrightarrow> spec t (case r of None \<Rightarrow> m | Some x \<Rightarrow> g x) Q"
  by (cases r) auto

lemma spec_prod [spec_rules]:
  "(\<And>x y. r = (x, y) \<Longrightarrow> spec t (g x y) Q) \<Longrightarrow> spec t (case r of (x, y) \<Rightarrow> g x y) Q"
  by (cases r) auto

lemma spec_if [spec_rules]:
  "(b \<Longrightarrow> spec t m Q) \<Longrightarrow> (\<not> b \<Longrightarrow> spec t n Q) \<Longrightarrow> spec t (if b then m else n) Q"
  by simp

lemma spec_let [spec_rules]: "spec t (g v) Q \<Longrightarrow> spec t (let x = v in g x) Q"
  by simp

declare spec_return [spec_rules]

lemmas spec_bind_calls [spec_rules] = spec_of_calls[THEN spec_bind]

lemma spec_bind_now [spec_rules]:
  "spec t (f t) Q \<Longrightarrow> spec t (State_Monad.bind now f) Q"
  by (rule spec_bind[OF spec_now[where Q = "\<lambda>x es t'. x = t \<and> es = [] \<and> t' = t"]]) auto

lemma spec_bind_silent [spec_rules]:
  "(\<And>x t'. t \<le> t' \<Longrightarrow> spec t' (f x) Q) \<Longrightarrow> spec t (State_Monad.bind (call_silent g) f) Q"
  by (rule spec_bind[OF spec_call_silent[where Q = "\<lambda>x es t'. es = [] \<and> t \<le> t'"]]) auto

lemma spec_bind_emit [spec_rules]:
  "spec t (f ()) (\<lambda>y es t''. Q y ([e] @ es) t'') \<Longrightarrow> spec t (State_Monad.bind (emit e) f) Q"
  by (rule spec_bind[OF spec_emit[where Q = "\<lambda>x es t'. es = [e] \<and> t' = t"]]) auto

lemma spec_bind_return [spec_rules]: "spec t (f x) Q \<Longrightarrow> spec t (State_Monad.bind (ret x) f) Q"
  by simp

text \<open>A branch as the first step of a sequence.\<close>

lemma spec_bind_if [spec_rules]:
  "(b \<Longrightarrow> spec t (State_Monad.bind m f) Q) \<Longrightarrow> (\<not> b \<Longrightarrow> spec t (State_Monad.bind n f) Q)
   \<Longrightarrow> spec t (State_Monad.bind (if b then m else n) f) Q"
  by simp

section \<open>Polling loops\<close>

text \<open>
  A Go \<^verbatim>\<open>for\<close> loop whose body either returns or starts the next round with an updated state. The
  model cuts it after \<open>n\<close> rounds; \<open>spec_loop_uncut\<close> shows that a loop which waits on a bounded
  context never reaches the cut when \<open>n\<close> exceeds the nanoseconds the context has left.
\<close>

datatype ('s, 'r) round = Return 'r | Continue 's

fun loop :: "nat \<Rightarrow> ('s \<Rightarrow> ('w, ('s, error + 'r) round) prog) \<Rightarrow> 's \<Rightarrow> ('w, error + 'r) prog" where
  "loop 0 body s = do { emit LoopCut; ret (Inl OutOfFuel) }"
| "loop (Suc n) body s = do {
     x \<leftarrow> body s;
     case x of
       Return r \<Rightarrow> ret r
     | Continue s' \<Rightarrow> loop n body s'
   }"

lemma emits_round [emits_intros]:
  "(\<And>e. emits P (f e)) \<Longrightarrow> (\<And>x. emits P (g x))
   \<Longrightarrow> emits P (case r of Return e \<Rightarrow> f e | Continue x \<Rightarrow> g x)"
  by (cases r) auto

lemma emits_loop:
  assumes "P LoopCut" "\<And>s. emits P (body s)"
  shows "emits P (loop n body s)"
proof (induction n arbitrary: s)
  case 0
  then show ?case using assms by (auto intro!: emits_intros emits_emit)
next
  case (Suc n)
  then show ?case unfolding loop.simps by (intro emits_intros assms)
qed

text \<open>The invariant rule: \<open>I\<close> relates the events so far, the loop state and the clock.\<close>

lemma spec_loop:
  assumes "\<And>acc s t. I acc s t \<Longrightarrow> spec t (body s) (\<lambda>x es t'.
      case x of Return r \<Rightarrow> Q r (acc @ es) t' | Continue s' \<Rightarrow> I (acc @ es) s' t')"
    and "\<And>acc s t. I acc s t \<Longrightarrow> Q (Inl OutOfFuel) (acc @ [LoopCut]) t"
    and "I acc s t"
  shows "spec t (loop n body s) (\<lambda>r es t'. Q r (acc @ es) t')"
  using assms(3)
proof (induction n arbitrary: acc s t)
  case 0
  then show ?case by (auto intro!: spec_rules assms(2))
next
  case (Suc n)
  show ?case
    unfolding loop.simps
    by (rule spec_bind[OF assms(1)[OF Suc.prems]])
       (auto split: round.splits intro!: spec_return dest: Suc.IH)
qed

lemma spec_loop_uncut:
  assumes "\<And>s t. nat (e - t) < N \<Longrightarrow> spec t (body s) (\<lambda>x es t'. t \<le> t' \<and> LoopCut \<notin> set es
      \<and> (\<forall>s'. x = Continue s' \<longrightarrow> t < t' \<and> t < e))"
    and "nat (e - t) < n" "n \<le> N"
  shows "spec t (loop n body s) (\<lambda>r es t'. t \<le> t' \<and> LoopCut \<notin> set es)"
  using assms(2,3)
proof (induction n arbitrary: s t)
  case (Suc n)
  have "spec t' (case x of Return r \<Rightarrow> ret r | Continue s' \<Rightarrow> loop n body s')
      (\<lambda>y es' t''. t \<le> t'' \<and> LoopCut \<notin> set (es @ es'))"
    if "t \<le> t' \<and> LoopCut \<notin> set es \<and> (\<forall>s'. x = Continue s' \<longrightarrow> t < t' \<and> t < e)" for x es t'
  proof (cases x)
    case (Continue s')
    with that have "t < t'" "t < e" by auto
    with Suc.prems have "nat (e - t') < n" by linarith
    from spec_mono[OF Suc.IH[OF this, of s']] Suc.prems that show ?thesis using Continue by auto
  qed (use that in \<open>auto intro: spec_return\<close>)
  then show ?case unfolding loop.simps using Suc.prems by (intro spec_bind[OF assms(1)]) auto
qed simp

text \<open>What a wait tells: the timer fired before the context ended, or the context's error.\<close>

lemma spec_wait_timer_full:
  "spec t (wait_timer c d) (\<lambda>r es t'. es = [] \<and> t \<le> t'
     \<and> (r = None \<and> 0 < d \<longrightarrow> t < t' \<and> (\<forall>e. ctx_end c = Some e \<longrightarrow> t < e)))"
proof -
  have "ctx_err c (max t e) \<noteq> None" if "ctx_end c = Some e" for e
    using that by (auto simp: ctx_err_end)
  then show ?thesis
    by (cases "ctx_end c") (auto simp: spec_def wait_timer_def Let_def)
qed

lemmas spec_bind_wait [spec_rules] = spec_wait_timer_full[THEN spec_bind]

lemma spec_round [spec_rules]:
  "(\<And>e. r = Return e \<Longrightarrow> spec t (f e) Q) \<Longrightarrow> (\<And>x. r = Continue x \<Longrightarrow> spec t (g x) Q)
   \<Longrightarrow> spec t (case r of Return e \<Rightarrow> f e | Continue x \<Rightarrow> g x) Q"
  by (cases r) auto

end
