(* ===== verification/Mutation_Fence.thy ===== *)
theory Mutation_Fence
  imports Runtime "HOL-Library.AList" "HOL-Library.Char_ord" "HOL-Library.List_Lexorder"
begin

text \<open>
  Durable mutation fences (\<^verbatim>\<open>csi-driver/pkg/cloud/inspace/mutation_fence.go\<close> and the observation
  codec of \<^verbatim>\<open>mutation_recovery.go\<close>): creating and decoding a fence, comparing two fences, the
  in-memory store and the interface \<^verbatim>\<open>mutationFenceStore\<close> as the locale \<open>fence_store\<close>. The
  locale's lemmas show the exclusivity the adapter relies on: once a create has acquired a key, no
  other create acquires it until that very attempt is deleted, and no operation changes the key,
  intent or attempt of a stored fence.
\<close>

section \<open>Comparing fences\<close>

definition sameMutationFenceAttempt :: "mutationFence \<Rightarrow> mutationFence \<Rightarrow> bool" where
  "sameMutationFenceAttempt left right =
     (fence_Key left = fence_Key right \<and> fence_Intent left = fence_Intent right
      \<and> fence_Attempt left = fence_Attempt right)"

definition sameMutationFenceAuthority :: "mutationFence \<Rightarrow> mutationFence \<Rightarrow> bool" where
  "sameMutationFenceAuthority left right =
     (sameMutationFenceAttempt left right \<and> fence_Receipt left = fence_Receipt right)"

definition sameMutationFenceState :: "mutationFence \<Rightarrow> mutationFence \<Rightarrow> bool" where
  "sameMutationFenceState left right =
     (sameMutationFenceAuthority left right \<and> fence_Observation left = fence_Observation right)"

section \<open>Codecs\<close>

definition newMutationFence ::
  "'w Adapter \<Rightarrow> string \<Rightarrow> intent_text \<Rightarrow> ('w, error + mutationFence) prog" where
  "newMutationFence a key intent =
     (if key = [] then ret (Inl (Plain ''CSI mutation fence key is required''))
      else do {
        r \<leftarrow> call_silent (a_rand a);
        case r of
          Inl err \<Rightarrow> ret (Inl (Wrap ''generate CSI mutation attempt token'' [err]))
        | Inr token \<Rightarrow> ret (Inr \<lparr>fence_Key = key, fence_Intent = intent, fence_Attempt = token,
                              fence_Receipt = [], fence_Observation = NoObs\<rparr>)
      })"

text \<open>
  \<^verbatim>\<open>json.Unmarshal\<close> ignores members the target struct lacks and leaves absent ones zero, so a text
  written for the other intent decodes to its common members.
\<close>

definition decodeCreateIntent :: "mutationFence \<Rightarrow> error + diskCreateIntent" where
  "decodeCreateIntent fence =
     (if fence_Key fence = [] \<or> fence_Intent fence = NoIntent \<or> fence_Attempt fence = []
      then Inl (Plain ''CSI mutation fence is incomplete'')
      else case fence_Intent fence of
        CreateText i \<Rightarrow> Inr i
      | AttachText i \<Rightarrow> Inr \<lparr>ci_Operation = ai_Operation i, ci_Location = ai_Location i, ci_Name = [],
                            ci_SizeGiB = 0, ci_BillingAccountID = ai_BillingAccountID i\<rparr>
      | _ \<Rightarrow> Inl (Wrap ''decode CSI mutation intent'' [Plain ''json'']))"

definition decodeAttachmentIntent :: "mutationFence \<Rightarrow> error + diskAttachmentIntent" where
  "decodeAttachmentIntent fence =
     (if fence_Key fence = [] \<or> fence_Intent fence = NoIntent \<or> fence_Attempt fence = []
      then Inl (Plain ''CSI mutation fence is incomplete'')
      else case fence_Intent fence of
        AttachText i \<Rightarrow> Inr i
      | CreateText i \<Rightarrow> Inr \<lparr>ai_Operation = ci_Operation i, ai_Location = ci_Location i, ai_DiskUUID = [],
                            ai_BillingAccountID = ci_BillingAccountID i, ai_DesiredVMUUID = [],
                            ai_PreviousVMUUID = [], ai_RecoveryNodeID = []\<rparr>
      | _ \<Rightarrow> Inl (Wrap ''decode CSI mutation intent'' [Plain ''json'']))"

definition detachAbsenceObservationKind :: string where
  "detachAbsenceObservationKind = ''disk-detach-absence''"

definition diskDeleteAbsenceObservationKind :: string where
  "diskDeleteAbsenceObservationKind = ''disk-delete-absence''"

definition validateMutationObservation :: "mutationObservation \<Rightarrow> error option" where
  "validateMutationObservation observation =
     (if obs_Kind observation \<noteq> detachAbsenceObservationKind
         \<and> obs_Kind observation \<noteq> diskDeleteAbsenceObservationKind
      then Some (Plain ''CSI mutation fence observation kind is unsupported'')
      else if obs_Count observation < 1 \<or> obs_Count observation > 3
      then Some (Plain ''CSI mutation fence observation count is invalid'')
      else case obs_FirstObservedAt observation of
        At firstObservedAt \<Rightarrow>
          if firstObservedAt = 0 then Some (Plain ''CSI mutation fence first-observation timestamp is invalid'')
          else if obs_Count observation = 1 then
            (if obs_LastObservedAt observation \<noteq> NoStamp
             then Some (Plain ''CSI mutation fence first observation unexpectedly contains a last-observation timestamp'')
             else None)
          else (case obs_LastObservedAt observation of
              At lastObservedAt \<Rightarrow>
                if lastObservedAt = 0 \<or> \<not> lastObservedAt > firstObservedAt
                then Some (Plain ''CSI mutation fence last-observation timestamp is invalid'')
                else None
            | _ \<Rightarrow> Some (Plain ''CSI mutation fence last-observation timestamp is invalid''))
      | _ \<Rightarrow> Some (Plain ''CSI mutation fence first-observation timestamp is invalid''))"

definition encodeMutationObservation :: "mutationObservation \<Rightarrow> error + obs_text" where
  "encodeMutationObservation observation =
     (case validateMutationObservation observation of
        Some err \<Rightarrow> Inl err
      | None \<Rightarrow> Inr (ObsText observation))"

definition decodeMutationObservation :: "obs_text \<Rightarrow> error + mutationObservation" where
  "decodeMutationObservation encoded =
     (case encoded of
        ObsText observation \<Rightarrow>
          (case validateMutationObservation observation of
             Some err \<Rightarrow> Inl err
           | None \<Rightarrow> Inr observation)
      | _ \<Rightarrow> Inl (Plain ''CSI mutation fence observation is malformed''))"

definition validateMutationObservationSpacing :: "mutationObservation \<Rightarrow> int \<Rightarrow> error option" where
  "validateMutationObservationSpacing observation interval =
     (if obs_Count observation < 2 then None
      else case (obs_FirstObservedAt observation, obs_LastObservedAt observation) of
        (At firstAt, At lastAt) \<Rightarrow>
          if interval \<le> 0 then Some (Plain ''CSI mutation fence observation spacing is invalid'')
          else if lastAt < firstAt + (obs_Count observation - 1) * interval
          then Some (Plain ''CSI mutation fence observation count was not spaced'')
          else None
      | _ \<Rightarrow> Some (Plain ''CSI mutation fence observation spacing is invalid''))"

section \<open>The in-memory store\<close>

text \<open>The Go map from key to fence, as an association list with distinct keys.\<close>

type_synonym memoryMutationFenceStore = "(string \<times> mutationFence) list"

definition newMemoryMutationFenceStore :: memoryMutationFenceStore where
  "newMemoryMutationFenceStore = []"

definition mem_Get :: "string \<Rightarrow> memoryMutationFenceStore
    \<Rightarrow> (error + mutationFence option) \<times> memoryMutationFenceStore" where
  "mem_Get key s = (Inr (map_of s key), s)"

definition mem_List :: "string \<Rightarrow> memoryMutationFenceStore
    \<Rightarrow> (error + mutationFence list) \<times> memoryMutationFenceStore" where
  "mem_List prefix s =
     (Inr (sort_key fence_Key (map snd (filter (\<lambda>(key, fence). HasPrefix key prefix) s))), s)"

definition mem_Create :: "mutationFence \<Rightarrow> memoryMutationFenceStore
    \<Rightarrow> (error + mutationFence option \<times> bool) \<times> memoryMutationFenceStore" where
  "mem_Create fence s =
     (case map_of s (fence_Key fence) of
        Some current \<Rightarrow> (Inr (Some current, False), s)
      | None \<Rightarrow> (Inr (Some fence, True), AList.update (fence_Key fence) fence s))"

definition mem_SetReceipt :: "mutationFence \<Rightarrow> string \<Rightarrow> memoryMutationFenceStore
    \<Rightarrow> (error + mutationFence option) \<times> memoryMutationFenceStore" where
  "mem_SetReceipt fence receipt s =
     (case map_of s (fence_Key fence) of
        None \<Rightarrow> (Inl (Plain ''CSI mutation fence disappeared before receipt persistence''), s)
      | Some current \<Rightarrow>
          if \<not> sameMutationFenceState current fence
          then (Inl (Plain ''CSI mutation fence changed before receipt persistence''), s)
          else let current' = current\<lparr>fence_Receipt := receipt\<rparr>
               in (Inr (Some current'), AList.update (fence_Key fence) current' s))"

definition mem_SetObservation :: "mutationFence \<Rightarrow> obs_text \<Rightarrow> memoryMutationFenceStore
    \<Rightarrow> (error + mutationFence option) \<times> memoryMutationFenceStore" where
  "mem_SetObservation fence observation s =
     (case map_of s (fence_Key fence) of
        None \<Rightarrow> (Inl (Wrap ''CSI mutation fence disappeared before observation persistence''
                       [Sentinel ErrMutationFenceChanged]), s)
      | Some current \<Rightarrow>
          if fence_Observation current = observation \<and> sameMutationFenceAuthority current fence
          then (Inr (Some current), s)
          else if \<not> sameMutationFenceState current fence
          then (Inl (Wrap ''before observation persistence'' [Sentinel ErrMutationFenceChanged]), s)
          else (case (if observation = NoObs then Inr ()
                      else case decodeMutationObservation observation of Inl e \<Rightarrow> Inl e | Inr _ \<Rightarrow> Inr ()) of
              Inl err \<Rightarrow> (Inl err, s)
            | Inr _ \<Rightarrow>
                let current' = current\<lparr>fence_Observation := observation\<rparr>
                in (Inr (Some current'), AList.update (fence_Key fence) current' s)))"

definition mem_Delete :: "mutationFence \<Rightarrow> memoryMutationFenceStore
    \<Rightarrow> (error option) \<times> memoryMutationFenceStore" where
  "mem_Delete fence s =
     (case map_of s (fence_Key fence) of
        None \<Rightarrow> (None, s)
      | Some current \<Rightarrow>
          if \<not> sameMutationFenceState current fence
          then (Some (Plain ''CSI mutation fence changed before completion''), s)
          else (None, AList.delete (fence_Key fence) s))"

section \<open>The store interface\<close>

text \<open>
  The laws every store keeps: \<open>lookup\<close> is what is durably stored. A failed operation may still
  have taken effect (its response was lost), so an error only says that the content is the old one
  or the one the operation would have written.
\<close>

locale fence_store =
  fixes lookup :: "'s \<Rightarrow> string \<Rightarrow> mutationFence option"
    and create :: "mutationFence \<Rightarrow> 's \<Rightarrow> (error + mutationFence option \<times> bool) \<times> 's"
    and set_receipt :: "mutationFence \<Rightarrow> string \<Rightarrow> 's \<Rightarrow> (error + mutationFence option) \<times> 's"
    and set_observation :: "mutationFence \<Rightarrow> obs_text \<Rightarrow> 's \<Rightarrow> (error + mutationFence option) \<times> 's"
    and delete :: "mutationFence \<Rightarrow> 's \<Rightarrow> (error option) \<times> 's"
  assumes create_acquired: "create f s = (Inr (g, True), s')
      \<Longrightarrow> lookup s (fence_Key f) = None \<and> g = Some f \<and> lookup s' = (lookup s)(fence_Key f \<mapsto> f)"
    and create_lost: "create f s = (Inr (g, False), s')
      \<Longrightarrow> lookup s (fence_Key f) = g \<and> g \<noteq> None \<and> lookup s' = lookup s"
    and create_error: "create f s = (Inl e, s')
      \<Longrightarrow> lookup s' = lookup s
          \<or> (lookup s (fence_Key f) = None \<and> lookup s' = (lookup s)(fence_Key f \<mapsto> f))"
    and set_receipt_effect: "set_receipt f r s = (res, s')
      \<Longrightarrow> lookup s' = lookup s \<or> (\<exists>c. lookup s (fence_Key f) = Some c \<and> sameMutationFenceState c f
            \<and> lookup s' = (lookup s)(fence_Key f \<mapsto> c\<lparr>fence_Receipt := r\<rparr>))"
    and set_observation_effect: "set_observation f v s = (res, s')
      \<Longrightarrow> lookup s' = lookup s \<or> (\<exists>c. lookup s (fence_Key f) = Some c \<and> sameMutationFenceState c f
            \<and> lookup s' = (lookup s)(fence_Key f \<mapsto> c\<lparr>fence_Observation := v\<rparr>))"
    and delete_effect: "delete f s = (dres, s')
      \<Longrightarrow> lookup s' = lookup s \<or> (\<exists>c. lookup s (fence_Key f) = Some c \<and> sameMutationFenceState c f
            \<and> lookup s' = (lookup s)(fence_Key f := None))"
    and delete_ok: "delete f s = (None, s') \<Longrightarrow> lookup s' (fence_Key f) = None"

datatype store_op =
    OpCreate mutationFence
  | OpSetReceipt mutationFence string
  | OpSetObservation mutationFence obs_text
  | OpDelete mutationFence

text \<open>An operation that can release the attempt of fence \<open>f\<close>.\<close>

fun releases :: "mutationFence \<Rightarrow> store_op \<Rightarrow> bool" where
  "releases f (OpDelete g) = sameMutationFenceAttempt g f"
| "releases f _ = False"

context fence_store
begin

fun apply_op :: "store_op \<Rightarrow> 's \<Rightarrow> 's" where
  "apply_op (OpCreate f) s = snd (create f s)"
| "apply_op (OpSetReceipt f r) s = snd (set_receipt f r s)"
| "apply_op (OpSetObservation f v) s = snd (set_observation f v s)"
| "apply_op (OpDelete f) s = snd (delete f s)"

definition holds :: "mutationFence \<Rightarrow> 's \<Rightarrow> bool" where
  "holds f s \<longleftrightarrow> (\<exists>c. lookup s (fence_Key f) = Some c \<and> sameMutationFenceAttempt c f)"

lemma create_keeps: "holds f s \<Longrightarrow> holds f (snd (create g s))"
proof -
  assume h: "holds f s"
  obtain r s' where c: "create g s = (r, s')" by (cases "create g s")
  show ?thesis
  proof (cases r)
    case (Inl e)
    with c h create_error[of g s e s'] show ?thesis by (auto simp: holds_def)
  next
    case (Inr x)
    obtain v b where "x = (v, b)" by (cases x)
    with c Inr h create_acquired[of g s v s'] create_lost[of g s v s'] show ?thesis
      by (cases b) (auto simp: holds_def)
  qed
qed

lemma set_receipt_keeps: "holds f s \<Longrightarrow> holds f (snd (set_receipt g r s))"
  using set_receipt_effect[of g r s "fst (set_receipt g r s)" "snd (set_receipt g r s)"]
  by (auto simp: holds_def sameMutationFenceAttempt_def sameMutationFenceState_def
        sameMutationFenceAuthority_def split: if_splits)

lemma set_observation_keeps: "holds f s \<Longrightarrow> holds f (snd (set_observation g v s))"
  using set_observation_effect[of g v s "fst (set_observation g v s)" "snd (set_observation g v s)"]
  by (auto simp: holds_def sameMutationFenceAttempt_def sameMutationFenceState_def
        sameMutationFenceAuthority_def split: if_splits)

lemma delete_keeps:
  assumes "holds f s" and "\<not> sameMutationFenceAttempt g f"
  shows "holds f (snd (delete g s))"
  using delete_effect[of g s "fst (delete g s)" "snd (delete g s)"] assms
  by (auto simp: holds_def sameMutationFenceAttempt_def sameMutationFenceState_def
        sameMutationFenceAuthority_def)

lemma apply_op_keeps: "holds f s \<Longrightarrow> \<not> releases f oper \<Longrightarrow> holds f (apply_op oper s)"
  by (cases oper) (auto intro: create_keeps set_receipt_keeps set_observation_keeps delete_keeps)

lemma run_ops_keep:
  "holds f s \<Longrightarrow> list_all (\<lambda>oper. \<not> releases f oper) ops \<Longrightarrow> holds f (fold apply_op ops s)"
  by (induction ops arbitrary: s) (auto intro: apply_op_keeps)

lemma acquired_holds: "create f s = (Inr (g, True), s') \<Longrightarrow> holds f s'"
  by (drule create_acquired) (simp add: holds_def sameMutationFenceAttempt_def)

lemma held_not_acquired:
  "holds f s \<Longrightarrow> fence_Key g = fence_Key f \<Longrightarrow> create g s \<noteq> (Inr (h, True), s')"
  using create_acquired[of g s h s'] by (auto simp: holds_def)

lemma exclusive:
  assumes "create f s = (Inr (g, True), s1)"
    and "list_all (\<lambda>oper. \<not> releases f oper) ops"
    and "fence_Key f' = fence_Key f"
  shows "create f' (fold apply_op ops s1) \<noteq> (Inr (h, True), s2)"
  by (intro held_not_acquired[of f] run_ops_keep[OF acquired_holds[OF assms(1)] assms(2)] assms(3))

lemma lost_shows_holder:
  assumes "create f s = (Inr (g, True), s1)"
    and "list_all (\<lambda>oper. \<not> releases f oper) ops"
    and "fence_Key f' = fence_Key f"
    and "create f' (fold apply_op ops s1) = (Inr (h, b), s2)"
  shows "\<not> b \<and> (\<exists>c. h = Some c \<and> sameMutationFenceAttempt c f)"
proof -
  have hold: "holds f (fold apply_op ops s1)"
    by (rule run_ops_keep[OF acquired_holds[OF assms(1)] assms(2)])
  have nb: "\<not> b"
    using exclusive[OF assms(1,2,3), of h s2] assms(4) by auto
  with assms(4) have "lookup (fold apply_op ops s1) (fence_Key f') = h"
    using create_lost by auto
  with hold assms(3) nb show ?thesis by (auto simp: holds_def)
qed

end

lemmas fence_same_defs = sameMutationFenceAttempt_def sameMutationFenceAuthority_def
  sameMutationFenceState_def

interpretation mem: fence_store "map_of" mem_Create mem_SetReceipt mem_SetObservation mem_Delete
proof unfold_locales
  fix f g :: mutationFence and go :: "mutationFence option" and s s' e r v res dres
  show "mem_Create f s = (Inr (go, True), s') \<Longrightarrow> map_of s (fence_Key f) = None \<and> go = Some f
      \<and> map_of s' = (map_of s)(fence_Key f \<mapsto> f)"
    by (auto simp: mem_Create_def update_conv' split: option.splits)
  show "mem_Create f s = (Inr (go, False), s') \<Longrightarrow> map_of s (fence_Key f) = go \<and> go \<noteq> None
      \<and> map_of s' = map_of s"
    by (auto simp: mem_Create_def split: option.splits) metis
  show "mem_Create f s = (Inl e, s') \<Longrightarrow> map_of s' = map_of s
      \<or> (map_of s (fence_Key f) = None \<and> map_of s' = (map_of s)(fence_Key f \<mapsto> f))"
    by (auto simp: mem_Create_def split: option.splits)
  show "mem_SetReceipt f r s = (res, s') \<Longrightarrow> map_of s' = map_of s
      \<or> (\<exists>c. map_of s (fence_Key f) = Some c \<and> sameMutationFenceState c f
            \<and> map_of s' = (map_of s)(fence_Key f \<mapsto> c\<lparr>fence_Receipt := r\<rparr>))"
    by (auto simp: mem_SetReceipt_def Let_def update_conv' split: option.splits if_splits)
  show "mem_SetObservation f v s = (res, s') \<Longrightarrow> map_of s' = map_of s
      \<or> (\<exists>c. map_of s (fence_Key f) = Some c \<and> sameMutationFenceState c f
            \<and> map_of s' = (map_of s)(fence_Key f \<mapsto> c\<lparr>fence_Observation := v\<rparr>))"
    by (auto simp: mem_SetObservation_def Let_def update_conv' split: option.splits if_splits sum.splits)
  show "mem_Delete f s = (dres, s') \<Longrightarrow> map_of s' = map_of s
      \<or> (\<exists>c. map_of s (fence_Key f) = Some c \<and> sameMutationFenceState c f
            \<and> map_of s' = (map_of s)(fence_Key f := None))"
    by (auto simp: mem_Delete_def delete_conv' split: option.splits if_splits)
  show "mem_Delete f s = (None, s') \<Longrightarrow> map_of s' (fence_Key f) = None"
    by (auto simp: mem_Delete_def delete_conv' split: option.splits if_splits)
qed

section \<open>Properties of the in-memory store\<close>

fun mem_apply :: "store_op \<Rightarrow> memoryMutationFenceStore \<Rightarrow> memoryMutationFenceStore" where
  "mem_apply (OpCreate f) s = snd (mem_Create f s)"
| "mem_apply (OpSetReceipt f r) s = snd (mem_SetReceipt f r s)"
| "mem_apply (OpSetObservation f v) s = snd (mem_SetObservation f v s)"
| "mem_apply (OpDelete f) s = snd (mem_Delete f s)"

lemma mem_apply_eq: "mem_apply = mem.apply_op"
proof (intro ext)
  fix oper s
  show "mem_apply oper s = mem.apply_op oper s" by (cases oper) auto
qed

text \<open>
  C11: fence ownership is exclusive. After one create acquired a key, whatever creates, receipt and
  observation updates and deletes of other attempts follow, every later create on that key loses
  and is shown a fence with the key, intent and attempt of the holder.
\<close>

theorem fence_ownership_exclusive:
  assumes "mem_Create f s = (Inr (g, True), s1)"
    and "list_all (\<lambda>oper. \<not> releases f oper) ops"
    and "fence_Key f' = fence_Key f"
    and "mem_Create f' (fold mem_apply ops s1) = (Inr (h, b), s2)"
  shows "\<not> b \<and> (\<exists>c. h = Some c \<and> sameMutationFenceAttempt c f)"
  using assms mem.lost_shows_holder unfolding mem_apply_eq by blast

definition sample_fence :: "string \<Rightarrow> mutationFence" where
  "sample_fence token = \<lparr>fence_Key = ''disk-attachment/bkk01/d1'',
     fence_Intent = AttachText \<lparr>ai_Operation = ''disk-attachment'', ai_Location = ''bkk01'',
       ai_DiskUUID = ''d1'', ai_BillingAccountID = 7, ai_DesiredVMUUID = ''v1'',
       ai_PreviousVMUUID = [], ai_RecoveryNodeID = []\<rparr>,
     fence_Attempt = token, fence_Receipt = [], fence_Observation = NoObs\<rparr>"

theorem fence_ownership_exclusive_witness:
  "\<exists>c. fst (mem_Create (sample_fence ''t2'')
        (fold mem_apply [OpSetReceipt (sample_fence ''t1'') ''r'', OpDelete (sample_fence ''t2'')]
          (snd (mem_Create (sample_fence ''t1'') [])))) = Inr (Some c, False)
     \<and> sameMutationFenceAttempt c (sample_fence ''t1'')"
proof -
  let ?ops = "[OpSetReceipt (sample_fence ''t1'') ''r'', OpDelete (sample_fence ''t2'')]"
  have 1: "mem_Create (sample_fence ''t1'') [] = (Inr (Some (sample_fence ''t1''), True),
      snd (mem_Create (sample_fence ''t1'') []))"
    by (simp add: mem_Create_def)
  have 2: "list_all (\<lambda>oper. \<not> releases (sample_fence ''t1'') oper) ?ops"
    by (simp add: sameMutationFenceAttempt_def sample_fence_def)
  have 3: "fence_Key (sample_fence ''t2'') = fence_Key (sample_fence ''t1'')"
    by (simp add: sample_fence_def)
  obtain h b s2 where 4: "mem_Create (sample_fence ''t2'') (fold mem_apply ?ops
      (snd (mem_Create (sample_fence ''t1'') []))) = (Inr (h, b), s2)"
    by (simp add: mem_Create_def mem_SetReceipt_def mem_Delete_def sample_fence_def fence_same_defs Let_def) blast
  from fence_ownership_exclusive [OF 1 2 3 4] 4 show ?thesis by auto
qed

text \<open>Every fence sits under its own key and no key occurs twice.\<close>

definition mem_ok :: "memoryMutationFenceStore \<Rightarrow> bool" where
  "mem_ok s = (distinct (map fst s) \<and> list_all (\<lambda>(k, f). fence_Key f = k) s)"

lemma mem_ok_iff: "mem_ok s \<longleftrightarrow> distinct (map fst s) \<and> (\<forall>k f. map_of s k = Some f \<longrightarrow> fence_Key f = k)"
  by (auto simp: mem_ok_def list_all_iff dest: map_of_SomeD)

lemma mem_ok_update: "mem_ok s \<Longrightarrow> fence_Key f = k \<Longrightarrow> mem_ok (AList.update k f s)"
  unfolding mem_ok_iff by (auto simp: distinct_update update_conv')

lemma mem_ok_delete: "mem_ok s \<Longrightarrow> mem_ok (AList.delete k s)"
  unfolding mem_ok_iff by (auto simp: distinct_delete delete_conv' split: if_splits)

lemma mem_apply_ok: "mem_ok s \<Longrightarrow> mem_ok (mem_apply oper s)"
  by (cases oper)
     (auto simp: mem_Create_def mem_SetReceipt_def mem_SetObservation_def mem_Delete_def Let_def
        mem_ok_iff[of s] intro!: mem_ok_update mem_ok_delete split: option.splits sum.splits)

text \<open>
  In every state the store's operations can reach, listing a prefix returns exactly the stored
  fences whose key has that prefix, each once, in ascending key order.
\<close>

theorem fence_list_complete:
  "let s = fold mem_apply ops newMemoryMutationFenceStore in
   \<exists>l. fst (mem_List prefix s) = Inr l \<and> sorted (map fence_Key l) \<and> distinct l
     \<and> set l = {f. \<exists>k. map_of s k = Some f \<and> HasPrefix k prefix}"
proof -
  define s where "s = fold mem_apply ops newMemoryMutationFenceStore"
  have "mem_ok t \<Longrightarrow> mem_ok (fold mem_apply xs t)" for xs t
    by (induction xs arbitrary: t) (auto intro: mem_apply_ok)
  then have ok: "mem_ok s"
    unfolding s_def by (simp add: newMemoryMutationFenceStore_def mem_ok_def)
  let ?p = "\<lambda>(key, fence). HasPrefix key prefix"
  let ?l = "sort_key fence_Key (map snd (filter ?p s))"
  from ok have d: "distinct (map fst s)" by (simp add: mem_ok_def)
  have k: "(k, f) \<in> set s \<Longrightarrow> fence_Key f = k" for k f
    using ok by (auto simp: mem_ok_def list_all_iff)
  have "inj_on snd (set (filter ?p s))"
    using k by (auto intro!: inj_onI) metis
  moreover have "distinct (filter ?p s)"
    using d by (intro distinct_filter) (simp add: distinct_map)
  ultimately have "distinct ?l" by (simp add: distinct_map)
  moreover have "set ?l = {f. \<exists>k. map_of s k = Some f \<and> HasPrefix k prefix}"
    using d by (force simp: map_of_eq_Some_iff)
  ultimately show ?thesis
    unfolding s_def[symmetric] by (simp add: mem_List_def Let_def)
qed

text \<open>
  The durable absence proof is read back as it was written, and a decoded third observation
  that passes the spacing check spans at least two convergence intervals.
\<close>

theorem observation_roundtrip:
  assumes "encodeMutationObservation observation = Inr txt"
  shows "decodeMutationObservation txt = Inr observation
    \<and> (obs_Count observation = 3 \<and> validateMutationObservationSpacing observation interval = None
        \<longrightarrow> (\<exists>f l. obs_FirstObservedAt observation = At f \<and> obs_LastObservedAt observation = At l
              \<and> 0 < interval \<and> l \<ge> f + 2 * interval))"
  using assms
  by (auto simp: encodeMutationObservation_def decodeMutationObservation_def
        validateMutationObservationSpacing_def split: option.splits stamp.splits if_splits)

theorem observation_roundtrip_witness:
  "decodeMutationObservation (ObsText \<lparr>obs_Kind = ''disk-detach-absence'', obs_Count = 3,
      obs_FirstObservedAt = At 5, obs_LastObservedAt = At 25\<rparr>)
    = Inr \<lparr>obs_Kind = ''disk-detach-absence'', obs_Count = 3,
      obs_FirstObservedAt = At 5, obs_LastObservedAt = At 25\<rparr>"
proof -
  let ?o = "\<lparr>obs_Kind = ''disk-detach-absence'', obs_Count = 3,
      obs_FirstObservedAt = At 5, obs_LastObservedAt = At 25\<rparr>"
  have "encodeMutationObservation ?o = Inr (ObsText ?o)" by code_simp
  from observation_roundtrip [OF this] show ?thesis by blast
qed

end
