(* ===== verification/Go_URL.thy ===== *)
theory Go_URL
  imports Go_IP
begin

text \<open>
  What the sources use of \<^verbatim>\<open>net/url\<close>: parsing an absolute \<^verbatim>\<open>scheme://host/path\<close> text, the
  escaped path and percent decoding. \<open>url_parse\<close> gives \<open>None\<close> where \<^verbatim>\<open>url.Parse\<close> fails.
  Percent-encoded bytes in a host (an IPv6 zone, or bytes outside ASCII) are left out: they count as
  failures here.
\<close>

record url =
  url_Scheme :: string
  url_HasUser :: bool
  url_Host :: string
  url_RawPath :: string
  url_RawQuery :: string
  url_Fragment :: string

section \<open>Percent encoding\<close>

definition is_alpha :: "char \<Rightarrow> bool" where
  "is_alpha c = (let n = (of_char c :: nat) in (65 \<le> n \<and> n \<le> 90) \<or> (97 \<le> n \<and> n \<le> 122))"

definition upper_hex :: "nat \<Rightarrow> char" where
  "upper_hex n = (if n < 10 then char_of (48 + n) else char_of (55 + n))"

fun url_unescape :: "string \<Rightarrow> string option" where
  "url_unescape [] = Some []"
| "url_unescape (c # s) =
     (if c = CHR ''%'' then
        (case s of
           x # y # rest \<Rightarrow>
             if is_hex_any x \<and> is_hex_any y
             then map_option ((#) (char_of (16 * unhex x + unhex y))) (url_unescape rest)
             else None
         | _ \<Rightarrow> None)
      else map_option ((#) c) (url_unescape s))"

definition unreserved :: "char \<Rightarrow> bool" where
  "unreserved c = (is_alpha c \<or> is_digit_char c \<or> c \<in> set ''-_.~'')"

definition path_plain :: "char \<Rightarrow> bool" where
  "path_plain c = (unreserved c \<or> c \<in> set ''$&+,/:;=@'')"

definition escape_char :: "char \<Rightarrow> string" where
  "escape_char c = (let n = (of_char c :: nat) in [CHR ''%'', upper_hex (n div 16), upper_hex (n mod 16)])"

definition url_escape_path :: "string \<Rightarrow> string" where
  "url_escape_path s = concat (map (\<lambda>c. if path_plain c then [c] else escape_char c) s)"

definition valid_encoded_path :: "string \<Rightarrow> bool" where
  "valid_encoded_path s = list_all (\<lambda>c. path_plain c \<or> c \<in> set ''!()*[]%'' \<or> c = CHR 0x27) s"

text \<open>\<^verbatim>\<open>URL.EscapedPath\<close> of a parsed raw path, and its decoded form.\<close>

definition escaped_path :: "string \<Rightarrow> string" where
  "escaped_path p =
     (case url_unescape p of
        None \<Rightarrow> p
      | Some path \<Rightarrow> if p = url_escape_path path then p
                     else if valid_encoded_path p then p else url_escape_path path)"

section \<open>Parsing\<close>

definition is_ctl :: "char \<Rightarrow> bool" where
  "is_ctl c = (let n = (of_char c :: nat) in n < 32 \<or> n = 127)"

definition scheme_char :: "char \<Rightarrow> bool" where
  "scheme_char c = (is_alpha c \<or> is_digit_char c \<or> c \<in> set ''+-.'')"

definition host_char :: "char \<Rightarrow> bool" where
  "host_char c = (unreserved c \<or> c \<in> set ''!$&()*+,;=:]<>'' \<or> c = CHR 0x22 \<or> c = CHR 0x27
     \<or> (of_char c :: nat) \<ge> 128)"

definition valid_userinfo :: "string \<Rightarrow> bool" where
  "valid_userinfo s = (list_all (\<lambda>c. is_alpha c \<or> is_digit_char c \<or> c \<in> set ''-._:~!$&()*+,;=%@'' \<or> c = CHR 0x27) s
     \<and> url_unescape s \<noteq> None)"

text \<open>The text after the last colon of a host must be a port number, if there is a colon.\<close>

definition valid_port :: "string \<Rightarrow> bool" where
  "valid_port host = (CHR '':'' \<in> set host
     \<longrightarrow> list_all is_digit_char (rev (takeWhile (\<lambda>c. c \<noteq> CHR '':'') (rev host))))"

text \<open>A host in brackets must be an IPv6 address, with an optional port after it.\<close>

definition bracketed_host :: "string \<Rightarrow> bool" where
  "bracketed_host host =
     (case last_index_split CHR '']'' host of
        None \<Rightarrow> False
      | Some (before, port) \<Rightarrow>
          (port = [] \<or> HasPrefix port '':'' \<and> list_all is_digit_char (drop 1 port))
          \<and> (case ParseAddr (drop 1 before) of Some (Addr6 _ zone) \<Rightarrow> zone = [] | _ \<Rightarrow> False))"

definition valid_host :: "string \<Rightarrow> bool" where
  "valid_host host =
     (if HasPrefix host ''['' then bracketed_host host else list_all host_char host \<and> valid_port host)"

definition url_parse :: "string \<Rightarrow> url option" where
  "url_parse raw =
     (let body = takeWhile (\<lambda>c. c \<noteq> CHR ''#'') raw;
          frag = drop 1 (dropWhile (\<lambda>c. c \<noteq> CHR ''#'') raw);
          scheme = takeWhile scheme_char body;
          after = dropWhile scheme_char body
      in if list_ex is_ctl body then None
         else if scheme = [] \<or> \<not> is_alpha (hd scheme) \<or> \<not> HasPrefix after '':''  then None
         else
           let rest = drop 1 after;
               force = (rest \<noteq> [] \<and> last rest = CHR ''?'' \<and> length (filter (\<lambda>c. c = CHR ''?'') rest) = 1);
               query = (if force then [] else drop 1 (dropWhile (\<lambda>c. c \<noteq> CHR ''?'') rest));
               rest = takeWhile (\<lambda>c. c \<noteq> CHR ''?'') rest
           in if \<not> HasPrefix rest ''//'' then
                Some \<lparr>url_Scheme = ToLower scheme, url_HasUser = False, url_Host = [], url_RawPath = rest,
                      url_RawQuery = query, url_Fragment = frag\<rparr>
              else
                let authority = takeWhile (\<lambda>c. c \<noteq> CHR ''/'') (drop 2 rest);
                    path = dropWhile (\<lambda>c. c \<noteq> CHR ''/'') (drop 2 rest);
                    user = (CHR ''@'' \<in> set authority);
                    host = rev (takeWhile (\<lambda>c. c \<noteq> CHR ''@'') (rev authority));
                    userinfo = take (length authority - length host - 1) authority
                in if user \<and> \<not> valid_userinfo userinfo then None
                   else if \<not> valid_host host \<or> url_unescape path = None
                      \<or> url_unescape frag = None
                   then None
                   else Some \<lparr>url_Scheme = ToLower scheme, url_HasUser = user, url_Host = host,
                          url_RawPath = path, url_RawQuery = query, url_Fragment = frag\<rparr>)"

text \<open>\<^verbatim>\<open>URL.Hostname\<close> and \<^verbatim>\<open>URL.Port\<close>: the host without its port and brackets, and the port.\<close>

definition split_host_port :: "string \<Rightarrow> string \<times> string" where
  "split_host_port host =
     (case last_index_split CHR '':'' host of
        Some (before, port) \<Rightarrow> if list_all is_digit_char port then (before, port) else (host, [])
      | None \<Rightarrow> (host, []))"

definition Hostname :: "url \<Rightarrow> string" where
  "Hostname u = (let h = fst (split_host_port (url_Host u)) in
     if HasPrefix h ''['' \<and> last h = CHR '']'' then butlast (drop 1 h) else h)"

definition Port :: "url \<Rightarrow> string" where
  "Port u = snd (split_host_port (url_Host u))"

section \<open>The shape all callers demand\<close>

definition inspace_url :: "string \<Rightarrow> (string \<times> string) option" where
  "inspace_url raw =
     (case url_parse raw of
        None \<Rightarrow> None
      | Some u \<Rightarrow>
        if url_Scheme u \<noteq> ''inspace'' \<or> url_Host u = [] \<or> url_HasUser u \<or> url_RawQuery u \<noteq> []
           \<or> url_Fragment u \<noteq> [] then None
        else Some (url_Host u, url_RawPath u))"

section \<open>Lemmas\<close>

lemma takeWhile_append_all: "list_all P xs \<Longrightarrow> takeWhile P (xs @ ys) = xs @ takeWhile P ys"
  by (induction xs) auto

lemma dropWhile_append_all: "list_all P xs \<Longrightarrow> dropWhile P (xs @ ys) = dropWhile P ys"
  by (induction xs) auto

lemma list_all_not_mem: "list_all (\<lambda>c. c \<noteq> d) s \<longleftrightarrow> d \<notin> set s"
  by (induction s) auto

lemma unescape_plain: "CHR ''%'' \<notin> set s \<Longrightarrow> url_unescape s = Some s"
  by (induction s) auto

lemma escape_plain: "list_all path_plain s \<Longrightarrow> url_escape_path s = s"
  by (induction s) (auto simp: url_escape_path_def)

lemma escaped_path_plain: "list_all path_plain s \<Longrightarrow> CHR ''%'' \<notin> set s \<Longrightarrow> escaped_path s = s"
  by (simp add: escaped_path_def unescape_plain escape_plain)

text \<open>Characters of a location or a UUID are plain everywhere.\<close>

definition safe_char :: "char \<Rightarrow> bool" where
  "safe_char c = (is_alnum_lower c \<or> is_dash c)"

lemma safe_char_facts:
  assumes "safe_char c"
  shows "host_char c" "path_plain c" "\<not> is_ctl c" "to_lower_char c = c"
    "c \<noteq> CHR ''/''" "c \<noteq> CHR ''?''" "c \<noteq> CHR ''#''" "c \<noteq> CHR ''@''" "c \<noteq> CHR ''%''" "c \<noteq> CHR '':''"
  using assms
  by (auto simp: safe_char_def is_alnum_lower_def is_digit_char_def is_lower_char_def is_dash_def
        host_char_def path_plain_def unreserved_def is_alpha_def is_ctl_def to_lower_char_def Let_def)

lemma safe_string_facts:
  assumes "list_all safe_char s"
  shows "list_all host_char s" "list_all path_plain s" "\<not> list_ex is_ctl s" "ToLower s = s"
    "CHR ''/'' \<notin> set s" "CHR ''?'' \<notin> set s" "CHR ''#'' \<notin> set s" "CHR ''@'' \<notin> set s"
    "CHR ''%'' \<notin> set s" "CHR '':'' \<notin> set s"
  using assms by (induction s) (auto simp: ToLower_def dest: safe_char_facts)

lemma uuid_safe: "uuid_lower s \<Longrightarrow> list_all safe_char s"
proof -
  assume "uuid_lower s"
  then have "list_all (\<lambda>c. is_hex_lower c \<or> is_dash c) s" by (rule uuid_lower_chars)
  then show ?thesis
    by (rule list.pred_mono_strong)
       (auto simp: safe_char_def is_hex_lower_def is_alnum_lower_def is_digit_char_def is_lower_char_def Let_def)
qed

lemma location_safe: "location_ok s \<Longrightarrow> list_all safe_char s"
  by (auto simp: location_ok_def list_all_iff safe_char_def)

lemma url_parse_authority:
  assumes "CHR ''?'' \<notin> set r" "CHR ''#'' \<notin> set r" "\<not> list_ex is_ctl r" "r = ''//'' @ host @ p"
    "CHR ''/'' \<notin> set host" "CHR ''@'' \<notin> set host" "list_all host_char host" "valid_port host"
    "p \<noteq> []" "hd p = CHR ''/''" "url_unescape p = Some q"
  shows "url_parse (''inspace:'' @ r) = Some \<lparr>url_Scheme = ''inspace'', url_HasUser = False,
    url_Host = host, url_RawPath = p, url_RawQuery = [], url_Fragment = []\<rparr>"
proof -
  have sch: "takeWhile scheme_char (''inspace:'' @ r) = ''inspace''"
    "dropWhile scheme_char (''inspace:'' @ r) = '':'' @ r"
    by (simp_all add: scheme_char_def is_alpha_def is_digit_char_def)
  have body: "takeWhile (\<lambda>c. c \<noteq> CHR ''#'') (''inspace:'' @ r) = ''inspace:'' @ r"
    "dropWhile (\<lambda>c. c \<noteq> CHR ''#'') (''inspace:'' @ r) = []"
    using assms(2) by (auto simp: takeWhile_eq_all_conv dropWhile_eq_Nil_conv)
  have q: "takeWhile (\<lambda>c. c \<noteq> CHR ''?'') r = r" "dropWhile (\<lambda>c. c \<noteq> CHR ''?'') r = []"
    "filter (\<lambda>c. c = CHR ''?'') r = []"
    using assms(1) by (auto simp: takeWhile_eq_all_conv dropWhile_eq_Nil_conv filter_empty_conv)
  have ctl: "\<not> list_ex is_ctl (''inspace:'' @ r)" using assms(3) by (simp add: is_ctl_def)
  have r: "drop 2 r = host @ p" "HasPrefix r ''//''" by (simp_all add: assms(4))
  obtain p' where p': "p = CHR ''/'' # p'" using assms(9,10) by (cases p) auto
  have au: "takeWhile (\<lambda>c. c \<noteq> CHR ''/'') (host @ p) = host"
    "dropWhile (\<lambda>c. c \<noteq> CHR ''/'') (host @ p) = p"
    using assms(5) by (auto simp: p' takeWhile_append_all dropWhile_append_all list_all_not_mem)
  have t: "takeWhile (\<lambda>c. c \<noteq> CHR ''@'') (rev host) = rev host"
    using assms(6) by (auto simp: takeWhile_eq_all_conv)
  have tl: "ToLower ''inspace'' = ''inspace''" by code_simp
  have vh: "valid_host host"
    using assms(7,8) by (cases host) (auto simp: valid_host_def host_char_def unreserved_def is_alpha_def is_digit_char_def)
  show ?thesis
    unfolding url_parse_def Let_def body sch
    using ctl by (simp add: q r au t tl vh assms(3,6,11) is_alpha_def)
qed

lemma inspace_url_of:
  assumes "list_all safe_char host" "host \<noteq> []" "list_all safe_char x"
  shows "inspace_url (''inspace://'' @ host @ ''/'' @ x) = Some (host, ''/'' @ x)"
proof -
  note h = safe_string_facts[OF assms(1)] and p = safe_string_facts[OF assms(3)]
  have "url_parse (''inspace:'' @ (''//'' @ host @ ''/'' @ x)) = Some \<lparr>url_Scheme = ''inspace'',
      url_HasUser = False, url_Host = host, url_RawPath = ''/'' @ x, url_RawQuery = [], url_Fragment = []\<rparr>"
    by (rule url_parse_authority[where q = "''/'' @ x"])
       (use h p in \<open>auto simp: is_ctl_def valid_port_def intro!: unescape_plain\<close>)
  then show ?thesis using assms(2) by (simp add: inspace_url_def)
qed

lemma safe_no_space: "list_all safe_char s \<Longrightarrow> list_all (\<lambda>c. \<not> is_space c) s"
  by (induction s)
    (auto simp: safe_char_def is_space_def is_alnum_lower_def is_digit_char_def is_lower_char_def is_dash_def Let_def)

end
