(* ===== verification/Adapter_Reads.thy ===== *)
theory Adapter_Reads
  imports Mutation_Fence Go_URL
begin

text \<open>
  The read side of the CSI adapter (\<^verbatim>\<open>csi-driver/pkg/cloud/inspace/adapter.go\<close>): construction and
  defaults, canonical network membership, the ownership checks on disks and VMs, the exact
  attachment discovery \<open>attachedVM\<close>, provider-ID resolution, size conversion and error
  normalization. The theorems show that these functions only read, that a disk accepted by
  \<open>getOwnedDisk\<close> is an unnamed-free, EMPTY, non-bootable disk of the configured account, that
  \<open>attachedVM\<close> reports a disk as detached only after every listed or member VM was read exactly
  and none held it, and that size conversion neither overflows nor under-provisions.
\<close>

section \<open>Construction\<close>

definition gib :: int where "gib = 1024 * 1024 * 1024"

abbreviation second :: int where "second \<equiv> 1000000000"

definition defaultMutationReadbackTimeout :: int where
  "defaultMutationReadbackTimeout = 30 * second"
definition defaultDestructiveAbsenceInterval :: int where
  "defaultDestructiveAbsenceInterval = 30 * second"
definition defaultDestructiveReadbackTimeout :: int where
  "defaultDestructiveReadbackTimeout = 120 * second"
definition minimumMutationDispatchReserve :: int where
  "minimumMutationDispatchReserve = 480 * second"

record Config =
  cfg_Location :: string
  cfg_NetworkUUID :: string
  cfg_BillingAccountID :: int
  cfg_PollInterval :: int
  cfg_MutationReadbackTimeout :: int
  cfg_DestructiveAbsenceInterval :: int
  cfg_DestructiveReadbackTimeout :: int

text \<open>
  \<^verbatim>\<open>New\<close>: the caller's API client may be nil (\<open>None\<close>); the fence store is the node resolver's
  own, or the in-memory one when it has none, and arrives here as an argument with the other
  operations of the runtime.
\<close>

definition New :: "'w API option \<Rightarrow> 'w NodeResolver option \<Rightarrow> 'w mutationFenceStore
    \<Rightarrow> ('w \<Rightarrow> (error + string) \<times> nat \<times> 'w) \<Rightarrow> (string \<Rightarrow> string)
    \<Rightarrow> (string \<Rightarrow> error + missingNodeOwnershipRecord) \<Rightarrow> (ctx \<Rightarrow> string \<Rightarrow> 'w \<Rightarrow> (error option) \<times> nat \<times> 'w) \<Rightarrow> nat \<Rightarrow> Config \<Rightarrow> error + 'w Adapter" where
  "New api nodes fences rnd sha ownership locks fuel cfg =
     (case api of
        None \<Rightarrow> Inl (Plain ''InSpace API client is required'')
      | Some cl \<Rightarrow>
        if TrimSpace (cfg_Location cfg) = [] then Inl (Plain ''location is required'')
        else if cfg_BillingAccountID cfg \<le> 0 then Inl (Plain ''billing account ID must be positive'')
        else
          let network = ToLower (TrimSpace (cfg_NetworkUUID cfg)) in
          if network \<noteq> [] \<and> \<not> uuid_lower network then Inl (Plain ''network UUID is invalid'')
          else
            let poll = (if cfg_PollInterval cfg \<le> 0 then 2 * second else cfg_PollInterval cfg);
                readback = (if cfg_MutationReadbackTimeout cfg \<le> 0
                            then defaultMutationReadbackTimeout else cfg_MutationReadbackTimeout cfg);
                absence = (if cfg_DestructiveAbsenceInterval cfg \<le> 0
                            then defaultDestructiveAbsenceInterval else cfg_DestructiveAbsenceInterval cfg);
                destructive = (if cfg_DestructiveReadbackTimeout cfg \<le> 0
                            then defaultDestructiveReadbackTimeout else cfg_DestructiveReadbackTimeout cfg)
            in if destructive \<le> 3 * absence
               then Inl (Plain ''destructive readback timeout must exceed three destructive absence intervals'')
               else Inr \<lparr>a_api = cl, a_nodes = nodes, a_fences = fences, a_location = cfg_Location cfg,
                      a_network = network, a_billing = cfg_BillingAccountID cfg, a_poll = poll,
                      a_readback = readback, a_absencePoll = absence, a_destructive = destructive,
                      a_rand = rnd, a_sha256hex = sha, a_ownership = ownership, a_vmLock = locks, a_fuel = fuel\<rparr>)"

section \<open>Error normalization\<close>

definition normalizeAPIError :: "error \<Rightarrow> error" where
  "normalizeAPIError err =
     (if IsNotFound (Some err) then Sentinel ErrNotFound
      else case errors_as_api err of
        Some apiErr \<Rightarrow>
          if StatusCode apiErr = 401 then Wrap '''' [Sentinel ErrUnauthenticated]
          else if StatusCode apiErr = 403 then Wrap '''' [Sentinel ErrPermissionDenied]
          else if StatusCode apiErr = 409 then Wrap '''' [Sentinel ErrConflict]
          else if Retryable apiErr then Wrap '''' [Sentinel ErrUnavailable]
          else err
      | None \<Rightarrow> err)"

definition Probe :: "'w Adapter \<Rightarrow> ctx \<Rightarrow> ('w, error option) prog" where
  "Probe a c = do {
     r \<leftarrow> ListDisks a c (a_location a);
     ret (case r of Inl err \<Rightarrow> Some (normalizeAPIError err) | Inr _ \<Rightarrow> None)
   }"

section \<open>Checks on values\<close>

fun canonical_members_loop :: "string list \<Rightarrow> string list \<Rightarrow> error + string list" where
  "canonical_members_loop members [] = Inr members"
| "canonical_members_loop members (raw # rest) =
     (let vmUUID = ToLower (TrimSpace raw) in
      if \<not> uuid_lower vmUUID then Inl (Plain ''network contains invalid VM UUID'')
      else if vmUUID \<in> set members then Inl (Plain ''network contains VM more than once'')
      else canonical_members_loop (members @ [vmUUID]) rest)"

definition canonicalNetworkVMMembers :: "string list option \<Rightarrow> error + string list" where
  "canonicalNetworkVMMembers vmUUIDs =
     (case vmUUIDs of
        None \<Rightarrow> Inl (Plain ''network VM membership is omitted'')
      | Some l \<Rightarrow> canonical_members_loop [] l)"

definition storage_rows :: "VM \<Rightarrow> VMStorage list" where
  "storage_rows vm = (case vm_Storage vm of None \<Rightarrow> [] | Some l \<Rightarrow> l)"

definition vmDiskRows :: "VM \<Rightarrow> string \<Rightarrow> nat" where
  "vmDiskRows vm diskUUID = length (filter (\<lambda>s. EqualFold (st_UUID s) diskUUID) (storage_rows vm))"

definition requireExactDiskSnapshotCollection :: "Disk \<Rightarrow> string \<Rightarrow> error option" where
  "requireExactDiskSnapshotCollection disk diskUUID =
     (if disk_Snapshots disk = None then Some (Plain ''InSpace exact disk omitted snapshots'') else None)"

definition requireExactVMAttachmentCollection :: "VM \<Rightarrow> string \<Rightarrow> error option" where
  "requireExactVMAttachmentCollection vm diskUUID =
     (if vm_Storage vm = None then Some (Plain ''InSpace exact VM omitted storage'') else None)"

definition diskDeletedTombstone :: "Disk \<Rightarrow> bool" where
  "diskDeletedTombstone disk = EqualFold (TrimSpace (disk_Status disk)) ''deleted''"

definition validateExactDisk :: "Disk \<Rightarrow> string \<Rightarrow> int \<Rightarrow> error option" where
  "validateExactDisk disk expectedUUID billingAccountID =
     (let expectedUUID = ToLower (TrimSpace expectedUUID);
          actualUUID = ToLower (TrimSpace (disk_UUID disk))
      in if billingAccountID \<le> 0
         then Some (Wrap ''configured billing account ID is not positive'' [Sentinel ErrPermissionDenied])
         else if \<not> uuid_lower expectedUUID \<or> \<not> uuid_lower actualUUID \<or> actualUUID \<noteq> expectedUUID
         then Some (Wrap ''exact disk read returned UUID'' [Sentinel ErrPermissionDenied])
         else if disk_BillingAccountID disk \<noteq> billingAccountID
         then Some (Wrap ''disk billing account'' [Sentinel ErrPermissionDenied])
         else None)"

definition validateCSIMutableDisk :: "Disk \<Rightarrow> string \<Rightarrow> int \<Rightarrow> error option" where
  "validateCSIMutableDisk disk expectedUUID billingAccountID =
     (case validateExactDisk disk expectedUUID billingAccountID of
        Some err \<Rightarrow> Some err
      | None \<Rightarrow>
        if TrimSpace (disk_DisplayName disk) = []
        then Some (Wrap ''disk has no CSI display name'' [Sentinel ErrPermissionDenied])
        else if \<not> EqualFold (TrimSpace (disk_SourceImageType disk)) ''EMPTY''
        then Some (Wrap ''disk source type is not mutable CSI EMPTY storage'' [Sentinel ErrPermissionDenied])
        else if TrimSpace (disk_SourceImage disk) \<noteq> []
        then Some (Wrap ''disk has source image'' [Sentinel ErrPermissionDenied])
        else if disk_ReadOnlyBootable disk
        then Some (Wrap ''disk is marked read-only bootable'' [Sentinel ErrPermissionDenied])
        else None)"

definition rejectPrimaryDiskReference :: "VM \<Rightarrow> string \<Rightarrow> error option" where
  "rejectPrimaryDiskReference vm diskUUID =
     (if list_ex (\<lambda>s. EqualFold (TrimSpace (st_UUID s)) (TrimSpace diskUUID) \<and> st_Primary s) (storage_rows vm)
      then Some (Wrap ''disk is the primary boot disk of VM'' [Sentinel ErrPermissionDenied])
      else None)"

definition validateExactVM :: "'w Adapter \<Rightarrow> VM \<Rightarrow> string \<Rightarrow> error option" where
  "validateExactVM a vm expectedUUID =
     (let expectedUUID = ToLower (TrimSpace expectedUUID);
          actualUUID = ToLower (TrimSpace (vm_UUID vm));
          vmNetwork = TrimSpace (vm_NetworkUUID vm)
      in if \<not> uuid_lower expectedUUID \<or> \<not> uuid_lower actualUUID \<or> actualUUID \<noteq> expectedUUID
         then Some (Wrap ''exact VM read returned UUID'' [Sentinel ErrInvalidNode])
         else if EqualFold (TrimSpace (vm_Status vm)) ''deleted''
         then Some (Wrap ''exact VM is a deleted tombstone'' [Sentinel ErrInvalidNode])
         else if vm_BillingAccountID vm \<noteq> a_billing a
         then Some (Wrap ''VM billing account'' [Sentinel ErrPermissionDenied])
         else if a_network a \<noteq> [] \<and> vmNetwork \<noteq> [] \<and> \<not> EqualFold vmNetwork (a_network a)
         then Some (Wrap ''VM network'' [Sentinel ErrInvalidNode])
         else None)"

definition uniqueNamedDisk :: "Disk list \<Rightarrow> string \<Rightarrow> error + Disk option" where
  "uniqueNamedDisk disks name =
     (case filter (\<lambda>d. disk_DisplayName d = name) disks of
        [] \<Rightarrow> Inr None
      | [d] \<Rightarrow> Inr (Some d)
      | _ \<Rightarrow> Inl (Wrap ''disks are named'' [Sentinel ErrIncompatibleVolume]))"

definition diskVolume :: "string \<Rightarrow> Disk \<Rightarrow> error + Volume" where
  "diskVolume location disk =
     (if \<not> uuid_lower (ToLower (disk_UUID disk)) \<or> disk_SizeGiB disk \<le> 0
      then Inl (Plain ''InSpace API returned an invalid disk'')
      else if disk_SizeGiB disk > go_div MaxInt64 gib
      then Inl (Plain ''InSpace disk size overflows bytes'')
      else Inr \<lparr>vol_ID = ToLower (disk_UUID disk), vol_Name = disk_DisplayName disk,
             vol_Location = location, vol_CapacityBytes = wrap64 (disk_SizeGiB disk * gib)\<rparr>)"

definition bytesToGiB :: "int \<Rightarrow> error + int" where
  "bytesToGiB bytes =
     (if bytes \<le> 0 then Inl (Plain ''volume capacity must be positive'')
      else let v = wrap64 (1 + go_div (bytes - 1) gib) in
           if v > MaxInt64 then Inl (Plain ''volume capacity is too large'') else Inr v)"

definition parseProviderID :: "string \<Rightarrow> error + string \<times> string" where
  "parseProviderID value =
     (case inspace_url (ToLower (TrimSpace value)) of
        None \<Rightarrow> Inl (Plain ''expected inspace://<location>/<vm-uuid>'')
      | Some (host, rawpath) \<Rightarrow>
        let location = ToLower host;
            vmUUID = ToLower (TrimPrefix (escaped_path rawpath) ''/'')
        in if CHR ''/'' \<in> set vmUUID \<or> \<not> uuid_lower vmUUID
           then Inl (Plain ''provider ID contains an invalid VM UUID'')
           else Inr (location, vmUUID))"

section \<open>Exact reads\<close>

definition getOwnedDisk :: "'w Adapter \<Rightarrow> ctx \<Rightarrow> string \<Rightarrow> string \<Rightarrow> ('w, error + Disk) prog" where
  "getOwnedDisk a c location diskUUID = do {
     r \<leftarrow> GetDisk a c location diskUUID;
     case r of
       Inl err \<Rightarrow> ret (Inl (normalizeAPIError err))
     | Inr None \<Rightarrow> ret (Inl (Plain ''InSpace API returned an empty disk response''))
     | Inr (Some disk) \<Rightarrow>
         (case validateExactDisk disk diskUUID (a_billing a) of
            Some err \<Rightarrow> ret (Inl err)
          | None \<Rightarrow>
            if diskDeletedTombstone disk then ret (Inl (Sentinel ErrNotFound))
            else (case validateCSIMutableDisk disk diskUUID (a_billing a) of
                Some err \<Rightarrow> ret (Inl err)
              | None \<Rightarrow> ret (Inr disk)))
   }"

definition getVPCVM :: "'w Adapter \<Rightarrow> ctx \<Rightarrow> string \<Rightarrow> string \<Rightarrow> ('w, error + VM) prog" where
  "getVPCVM a c location vmUUID =
     (if a_network a = []
      then ret (Inl (Wrap ''configured VPC UUID is required for CSI VM mutations'' [Sentinel ErrInvalidNode]))
      else do {
        r \<leftarrow> GetVM a c location vmUUID;
        case r of
          Inl err \<Rightarrow> ret (Inl (normalizeAPIError err))
        | Inr None \<Rightarrow> ret (Inl (Plain ''InSpace API returned an empty VM response''))
        | Inr (Some vm) \<Rightarrow>
            (case validateExactVM a vm vmUUID of
               Some err \<Rightarrow> ret (Inl err)
             | None \<Rightarrow> do {
                 n \<leftarrow> GetNetwork a c location (a_network a);
                 case n of
                   Inl err \<Rightarrow> ret (Inl (normalizeAPIError err))
                 | Inr None \<Rightarrow> ret (Inl (Wrap ''configured VPC lacks exact membership authority'' [Sentinel ErrInvalidNode]))
                 | Inr (Some network) \<Rightarrow>
                     if \<not> EqualFold (TrimSpace (net_UUID network)) (a_network a)
                     then ret (Inl (Wrap ''configured VPC lacks exact membership authority'' [Sentinel ErrInvalidNode]))
                     else (case canonicalNetworkVMMembers (net_VMUUIDs network) of
                         Inl err \<Rightarrow> ret (Inl (Wrap ''configured VPC has invalid VM membership'' [Sentinel ErrInvalidNode]))
                       | Inr members \<Rightarrow>
                           if ToLower (TrimSpace vmUUID) \<notin> set members
                           then ret (Inl (Wrap ''VM has 0 configured-VPC memberships'' [Sentinel ErrInvalidNode]))
                           else ret (Inr vm))
               })
      })"

definition getOwnedVM :: "'w Adapter \<Rightarrow> ctx \<Rightarrow> string \<Rightarrow> string \<Rightarrow> ('w, error + VM) prog" where
  "getOwnedVM a c location vmUUID = do {
     r \<leftarrow> getVPCVM a c location vmUUID;
     case r of
       Inl err \<Rightarrow> ret (Inl err)
     | Inr vm \<Rightarrow> do {
         l \<leftarrow> ListVMs a c location;
         case l of
           Inl err \<Rightarrow> ret (Inl (normalizeAPIError err))
         | Inr vms \<Rightarrow>
             let listRows = length (filter (\<lambda>summary. EqualFold (TrimSpace (vm_UUID summary)) vmUUID) vms) in
             if listRows \<noteq> 1
             then ret (Inl (Wrap ''VM has unfiltered inventory rows, want one'' [Sentinel ErrInvalidNode]))
             else ret (Inr vm)
       }
   }"

text \<open>The unfiltered VM list, as canonical distinct UUIDs.\<close>

fun listed_vms_loop :: "string list \<Rightarrow> VM list \<Rightarrow> error + string list" where
  "listed_vms_loop listed [] = Inr listed"
| "listed_vms_loop listed (summary # rest) =
     (let vmUUID = ToLower (TrimSpace (vm_UUID summary)) in
      if \<not> uuid_lower vmUUID then Inl (Plain ''InSpace listed a VM with invalid UUID'')
      else if vmUUID \<in> set listed then Inl (Plain ''InSpace listed VM more than once'')
      else listed_vms_loop (listed @ [vmUUID]) rest)"

text \<open>The exact read of every candidate, in ascending order.\<close>

fun attached_loop :: "'w Adapter \<Rightarrow> ctx \<Rightarrow> string \<Rightarrow> string \<Rightarrow> string list \<Rightarrow> string \<Rightarrow> nat \<Rightarrow> string list
    \<Rightarrow> ('w, error + string \<times> nat) prog" where
  "attached_loop a c location diskUUID members attached attachmentRows [] = ret (Inr (attached, attachmentRows))"
| "attached_loop a c location diskUUID members attached attachmentRows (vmUUID # rest) = do {
     r \<leftarrow> GetVM a c location vmUUID;
     case r of
       Inl err \<Rightarrow> ret (Inl (Wrap ''read exact VM while checking disk'' [normalizeAPIError err]))
     | Inr None \<Rightarrow> ret (Inl (Plain ''InSpace exact VM read changed identity''))
     | Inr (Some vm) \<Rightarrow>
         if \<not> EqualFold (TrimSpace (vm_UUID vm)) vmUUID
         then ret (Inl (Plain ''InSpace exact VM read changed identity''))
         else (case requireExactVMAttachmentCollection vm diskUUID of
             Some relationErr \<Rightarrow> ret (Inl relationErr)
           | None \<Rightarrow>
             (case rejectPrimaryDiskReference vm diskUUID of
                Some err \<Rightarrow> ret (Inl err)
              | None \<Rightarrow>
                let rows = vmDiskRows vm diskUUID in
                if rows > 1 then ret (Inl (Plain ''InSpace exact VM reported attachment rows''))
                else (case (if vmUUID \<in> set members
                            then (case validateExactVM a vm vmUUID of
                                    Some err \<Rightarrow> Some (Wrap ''validate configured-VPC VM'' [err])
                                  | None \<Rightarrow> None)
                            else if rows > 0
                            then Some (Wrap ''disk is attached to VM outside configured VPC''
                                         [Sentinel ErrVolumeAttachedElsewhere])
                            else None) of
                    Some err \<Rightarrow> ret (Inl err)
                  | None \<Rightarrow>
                    if rows = 1 then
                      (if attached \<noteq> [] \<and> attached \<noteq> vmUUID
                       then ret (Inl (Plain ''InSpace reported disk attached to multiple VMs''))
                       else attached_loop a c location diskUUID members vmUUID (attachmentRows + 1) rest)
                    else attached_loop a c location diskUUID members attached attachmentRows rest)))
   }"

definition attachedVM :: "'w Adapter \<Rightarrow> ctx \<Rightarrow> string \<Rightarrow> string \<Rightarrow> ('w, error + string) prog" where
  "attachedVM a c location diskUUID =
     (if a_network a = []
      then ret (Inl (Wrap ''configured VPC UUID is required for CSI attachment discovery'' [Sentinel ErrInvalidNode]))
      else do {
        l \<leftarrow> ListVMs a c location;
        case l of
          Inl err \<Rightarrow> ret (Inl (normalizeAPIError err))
        | Inr vms \<Rightarrow> do {
            n \<leftarrow> GetNetwork a c location (a_network a);
            case n of
              Inl err \<Rightarrow> ret (Inl (normalizeAPIError err))
            | Inr None \<Rightarrow> ret (Inl (Plain ''InSpace API returned an empty network response while checking disk attachment''))
            | Inr (Some network) \<Rightarrow>
                if \<not> EqualFold (TrimSpace (net_UUID network)) (a_network a)
                then ret (Inl (Plain ''InSpace exact network read returned UUID''))
                else (case canonicalNetworkVMMembers (net_VMUUIDs network) of
                    Inl err \<Rightarrow> ret (Inl (Wrap ''InSpace network has invalid VM membership while checking disk attachment'' [err]))
                  | Inr members \<Rightarrow>
                    (case listed_vms_loop [] vms of
                       Inl err \<Rightarrow> ret (Inl err)
                     | Inr listed \<Rightarrow> do {
                         r \<leftarrow> attached_loop a c location diskUUID members [] 0 (sort (remdups (members @ listed)));
                         case r of
                           Inl err \<Rightarrow> ret (Inl err)
                         | Inr (attached, attachmentRows) \<Rightarrow>
                             if attachmentRows > 1
                             then ret (Inl (Plain ''InSpace reported disk in attachment rows on VM''))
                             else ret (Inr attached)
                       }))
          }
      })"

definition resolveVM :: "'w Adapter \<Rightarrow> ctx \<Rightarrow> string \<Rightarrow> string \<Rightarrow> ('w, error + string) prog" where
  "resolveVM a c location nodeID =
     (let providerID = TrimSpace nodeID in
      if providerID = [] then ret (Inl (Wrap ''empty node ID'' [Sentinel ErrInvalidNode]))
      else do {
        r \<leftarrow> (if \<not> HasPrefix (ToLower providerID) ''inspace://'' then
               (case a_nodes a of
                  None \<Rightarrow> ret (Inl (Wrap ''Kubernetes node cannot be resolved without a Node resolver'' [Sentinel ErrInvalidNode]))
                | Some nodes \<Rightarrow> do {
                    p \<leftarrow> call (nr_ProviderIDForNode nodes c providerID) (\<lambda>t. NProviderID providerID);
                    case p of
                      Inl err \<Rightarrow>
                        if errors_is CtxCanceled err \<or> errors_is CtxDeadlineExceeded err then ret (Inl err)
                        else if errors_is ErrUnavailable err then ret (Inl err)
                        else ret (Inl (Wrap ''resolve Kubernetes node'' [Sentinel ErrInvalidNode, err]))
                    | Inr resolved \<Rightarrow> ret (Inr resolved)
                  })
             else ret (Inr providerID));
        case r of
          Inl err \<Rightarrow> ret (Inl err)
        | Inr pid \<Rightarrow>
            (case parseProviderID pid of
               Inl err \<Rightarrow> ret (Inl (Wrap [] [Sentinel ErrInvalidNode]))
             | Inr (providerLocation, vmUUID) \<Rightarrow>
                 if providerLocation \<noteq> location
                 then ret (Inl (Wrap ''provider location does not match'' [Sentinel ErrInvalidNode]))
                 else do {
                   v \<leftarrow> getVPCVM a c location vmUUID;
                   case v of
                     Inl err \<Rightarrow>
                       if errors_is ErrNotFound err
                       then ret (Inl (Wrap ''VM not found'' [Sentinel ErrInvalidNode]))
                       else ret (Inl err)
                   | Inr _ \<Rightarrow> ret (Inr vmUUID)
                 })
      })"

definition GetVolume :: "'w Adapter \<Rightarrow> ctx \<Rightarrow> string \<Rightarrow> string \<Rightarrow> ('w, error + Volume) prog" where
  "GetVolume a c location volumeID = do {
     r \<leftarrow> getOwnedDisk a c location volumeID;
     case r of
       Inl err \<Rightarrow> ret (Inl err)
     | Inr disk \<Rightarrow> ret (diskVolume location disk)
   }"

section \<open>The reads change nothing\<close>

lemma node_call_reads [emits_intros]:
  "emits is_read (call f (\<lambda>t. NProviderID n))" "emits is_read (call g (\<lambda>t. NAuthorize q))"
  by (simp_all add: emits_call)

lemma getOwnedDisk_reads [emits_intros]: "emits is_read (getOwnedDisk a c l u)"
  unfolding getOwnedDisk_def by (intro emits_intros)

lemma getVPCVM_reads [emits_intros]: "emits is_read (getVPCVM a c l u)"
  unfolding getVPCVM_def by (intro emits_intros)

lemma getOwnedVM_reads [emits_intros]: "emits is_read (getOwnedVM a c l u)"
  unfolding getOwnedVM_def by (intro emits_intros)

lemma attached_loop_reads [emits_intros]: "emits is_read (attached_loop a c l u ms v n us)"
proof (induction us arbitrary: v n)
  case (Cons x us)
  then show ?case unfolding attached_loop.simps Let_def by (intro emits_intros)
qed (simp add: emits_return)

lemma attachedVM_reads [emits_intros]: "emits is_read (attachedVM a c l u)"
  unfolding attachedVM_def by (intro emits_intros)

lemma resolveVM_reads [emits_intros]: "emits is_read (resolveVM a c l n)"
  unfolding resolveVM_def by (intro emits_intros)

lemma GetVolume_reads [emits_intros]: "emits is_read (GetVolume a c l u)"
  unfolding GetVolume_def by (intro emits_intros)

lemma Probe_reads [emits_intros]: "emits is_read (Probe a c)"
  unfolding Probe_def by (intro emits_intros)

section \<open>Ownership\<close>

text \<open>What a mutation may touch: a named, EMPTY, non-bootable disk of the account.\<close>

definition csi_disk :: "Disk \<Rightarrow> string \<Rightarrow> int \<Rightarrow> bool" where
  "csi_disk d u b = (0 < b \<and> disk_BillingAccountID d = b
     \<and> uuid_lower (ToLower (TrimSpace u)) \<and> ToLower (TrimSpace (disk_UUID d)) = ToLower (TrimSpace u)
     \<and> TrimSpace (disk_DisplayName d) \<noteq> [] \<and> EqualFold (TrimSpace (disk_SourceImageType d)) ''EMPTY''
     \<and> TrimSpace (disk_SourceImage d) = [] \<and> \<not> disk_ReadOnlyBootable d \<and> \<not> diskDeletedTombstone d)"

lemma validateExactDisk_None:
  "validateExactDisk d u b = None \<longleftrightarrow> 0 < b \<and> disk_BillingAccountID d = b
     \<and> uuid_lower (ToLower (TrimSpace u)) \<and> ToLower (TrimSpace (disk_UUID d)) = ToLower (TrimSpace u)"
  by (auto simp: validateExactDisk_def Let_def)

lemma validateCSIMutableDisk_None:
  "validateCSIMutableDisk d u b = None \<and> \<not> diskDeletedTombstone d \<longleftrightarrow> csi_disk d u b"
  using validateExactDisk_None[of d u b]
  by (cases "validateExactDisk d u b") (auto simp: validateCSIMutableDisk_def csi_disk_def)

lemma spec_getOwnedDisk:
  "spec t (getOwnedDisk a c l u) (\<lambda>r es t'. t \<le> t' \<and> list_all is_read es
     \<and> (\<forall>d. r = Inr d \<longrightarrow> es = [RGetDisk l u (Inr (Some d))] \<and> csi_disk d u (a_billing a)))"
  unfolding getOwnedDisk_def
  by (rule spec_bind[OF spec_of_calls(1)])
     (auto split: sum.splits option.splits intro!: spec_return simp: validateCSIMutableDisk_None[symmetric])

text \<open>
  The only disk a read of the adapter accepts for mutation is one that the exact GET returned
  and that is account-owned, named, EMPTY, not image-backed, not bootable and not a tombstone.
\<close>

theorem owned_disk_is_csi_disk:
  assumes "run_state (getOwnedDisk a c location diskUUID) s = (Inr disk, s')"
  shows "trace s' = trace s @ [RGetDisk location diskUUID (Inr (Some disk))]
    \<and> csi_disk disk diskUUID (a_billing a)"
  using spec_run[OF spec_getOwnedDisk refl assms] by auto

section \<open>Attachment discovery\<close>

definition sweep_rows :: "string \<Rightarrow> string list \<Rightarrow> VM list \<Rightarrow> string \<Rightarrow> bool" where
  "sweep_rows disk us rs v = (\<forall>(u, vm) \<in> set (zip us rs). EqualFold (TrimSpace (vm_UUID vm)) u
     \<and> vm_Storage vm \<noteq> None \<and> vmDiskRows vm disk = (if u = v then 1 else 0))"

text \<open>
  The evidence behind an answer \<open>v\<close> of \<open>attachedVM\<close>: one list, one network read, and one exact
  read of every listed or member VM, in which the disk has one row on \<open>v\<close> and none elsewhere.
\<close>

definition exact_sweep :: "'w Adapter \<Rightarrow> string \<Rightarrow> string \<Rightarrow> event list \<Rightarrow> string \<Rightarrow> bool" where
  "exact_sweep a loc disk es v \<longleftrightarrow> (\<exists>vms n members listed us rs.
     es = RListVMs loc (Inr vms) # RGetNetwork loc (a_network a) (Inr (Some n))
          # map2 (\<lambda>u vm. RGetVM loc u (Inr (Some vm))) us rs
     \<and> canonicalNetworkVMMembers (net_VMUUIDs n) = Inr members
     \<and> listed_vms_loop [] vms = Inr listed
     \<and> set us = set members \<union> set listed \<and> distinct us \<and> length rs = length us
     \<and> sweep_rows disk us rs v
     \<and> (v \<noteq> [] \<longrightarrow> v \<in> set members))"

lemma canonical_members_loop_uuid:
  "canonical_members_loop ms l = Inr r \<Longrightarrow> (\<forall>u \<in> set ms. uuid_lower u) \<Longrightarrow> \<forall>u \<in> set r. uuid_lower u"
  by (induction ms l rule: canonical_members_loop.induct) (auto simp: Let_def split: if_splits)

lemma canonicalNetworkVMMembers_uuid:
  "canonicalNetworkVMMembers l = Inr r \<Longrightarrow> \<forall>u \<in> set r. uuid_lower u"
  by (auto simp: canonicalNetworkVMMembers_def split: option.splits dest: canonical_members_loop_uuid)

lemma listed_vms_loop_uuid:
  "listed_vms_loop ls l = Inr r \<Longrightarrow> (\<forall>u \<in> set ls. uuid_lower u) \<Longrightarrow> \<forall>u \<in> set r. uuid_lower u"
  by (induction ls l rule: listed_vms_loop.induct) (auto simp: Let_def split: if_splits)

definition sweep_post :: "string \<Rightarrow> string \<Rightarrow> string list \<Rightarrow> string \<Rightarrow> string list \<Rightarrow> int
    \<Rightarrow> error + string \<times> nat \<Rightarrow> event list \<Rightarrow> int \<Rightarrow> bool" where
  "sweep_post loc disk members att us t r es t' \<longleftrightarrow> t \<le> t' \<and>
     (\<forall>v m. r = Inr (v, m) \<longrightarrow> (v = att \<or> v \<in> set us \<inter> set members) \<and> (att \<noteq> [] \<longrightarrow> v = att)
       \<and> (\<exists>rs. length rs = length us \<and> es = map2 (\<lambda>u vm. RGetVM loc u (Inr (Some vm))) us rs
            \<and> sweep_rows disk us rs v))"

lemma sweep_post_Inl: "t \<le> t' \<Longrightarrow> sweep_post loc disk ms att us t (Inl e) es t'"
  by (simp add: sweep_post_def)

lemma sweep_post_hit:
  assumes "sweep_post loc disk ms u us t' r es t''" "t \<le> t'" "u \<noteq> []" "u \<in> set ms" "att = []"
    "EqualFold (TrimSpace (vm_UUID vm)) u" "vm_Storage vm \<noteq> None" "vmDiskRows vm disk = 1"
  shows "sweep_post loc disk ms att (u # us) t r ([RGetVM loc u (Inr (Some vm))] @ es) t''"
  unfolding sweep_post_def
proof (intro conjI allI impI)
  show "t \<le> t''" using assms by (auto simp: sweep_post_def)
  fix v m assume "r = Inr (v, m)"
  with assms obtain rs where rs: "v = u" "length rs = length us"
    "es = map2 (\<lambda>u vm. RGetVM loc u (Inr (Some vm))) us rs" "sweep_rows disk us rs v"
    by (auto simp: sweep_post_def)
  show "v = att \<or> v \<in> set (u # us) \<inter> set ms" using rs assms by auto
  show "att \<noteq> [] \<Longrightarrow> v = att" using assms by auto
  show "\<exists>rs. length rs = length (u # us) \<and> [RGetVM loc u (Inr (Some vm))] @ es
      = map2 (\<lambda>u vm. RGetVM loc u (Inr (Some vm))) (u # us) rs \<and> sweep_rows disk (u # us) rs v"
    using rs assms by (intro exI[of _ "vm # rs"]) (auto simp: sweep_rows_def)
qed

lemma sweep_post_miss:
  assumes "sweep_post loc disk ms att us t' r es t''" "t \<le> t'" "att \<noteq> u" "u \<notin> set us"
    "EqualFold (TrimSpace (vm_UUID vm)) u" "vm_Storage vm \<noteq> None" "vmDiskRows vm disk = 0"
  shows "sweep_post loc disk ms att (u # us) t r ([RGetVM loc u (Inr (Some vm))] @ es) t''"
  unfolding sweep_post_def
proof (intro conjI allI impI)
  show "t \<le> t''" using assms by (auto simp: sweep_post_def)
  fix v m assume "r = Inr (v, m)"
  with assms obtain rs where rs: "v = att \<or> v \<in> set us \<inter> set ms" "att \<noteq> [] \<longrightarrow> v = att"
    "length rs = length us" "es = map2 (\<lambda>u vm. RGetVM loc u (Inr (Some vm))) us rs"
    "sweep_rows disk us rs v"
    by (auto simp: sweep_post_def)
  then show "v = att \<or> v \<in> set (u # us) \<inter> set ms" by auto
  show "att \<noteq> [] \<Longrightarrow> v = att" using rs by auto
  have "u \<noteq> v" using rs(1) assms by auto
  then show "\<exists>rs. length rs = length (u # us) \<and> [RGetVM loc u (Inr (Some vm))] @ es
      = map2 (\<lambda>u vm. RGetVM loc u (Inr (Some vm))) (u # us) rs \<and> sweep_rows disk (u # us) rs v"
    using rs assms by (intro exI[of _ "vm # rs"]) (auto simp: sweep_rows_def)
qed

lemma spec_attached_loop:
  assumes "distinct us" "[] \<notin> set us" "att \<notin> set us"
  shows "spec t (attached_loop a c loc disk members att n us) (sweep_post loc disk members att us t)"
  using assms
proof (induction us arbitrary: att n t)
  case Nil
  then show ?case by (auto intro!: spec_return simp: sweep_rows_def sweep_post_def)
next
  case (Cons u us)
  from Cons.prems have u: "u \<noteq> []" "u \<notin> set us" "att \<noteq> u" by auto
  have hit: "spec t' (attached_loop a c loc disk members u n' us)
      (\<lambda>r es t''. sweep_post loc disk members att (u # us) t r ([RGetVM loc u (Inr (Some vm))] @ es) t'')"
    if "t \<le> t'" "EqualFold (TrimSpace (vm_UUID vm)) u" "vm_Storage vm \<noteq> None" "vmDiskRows vm disk = 1"
      "att = []" "u \<in> set members" for t' n' vm
    by (rule spec_mono[OF Cons.IH]) (use Cons.prems that u in \<open>auto intro!: sweep_post_hit[simplified]\<close>)
  have miss: "spec t' (attached_loop a c loc disk members att n us)
      (\<lambda>r es t''. sweep_post loc disk members att (u # us) t r ([RGetVM loc u (Inr (Some vm))] @ es) t'')"
    if "t \<le> t'" "EqualFold (TrimSpace (vm_UUID vm)) u" "vm_Storage vm \<noteq> None" "vmDiskRows vm disk = 0"
    for t' vm
    by (rule spec_mono[OF Cons.IH]) (use Cons.prems that u in \<open>auto intro!: sweep_post_miss[simplified]\<close>)
  show ?case
    unfolding attached_loop.simps Let_def
  proof (rule spec_bind[OF spec_of_calls(4)], goal_cases)
    case (1 x es t')
    then have q: "es = [RGetVM loc u x]" "t \<le> t'" by simp_all
    show ?case
    proof (cases x)
      case (Inl e)
      with q show ?thesis by (auto intro!: spec_return sweep_post_Inl)
    next
      case (Inr o1)
      show ?thesis
      proof (cases o1)
        case None
        with q Inr show ?thesis by (auto intro!: spec_return sweep_post_Inl)
      next
        case (Some vm)
        with q Inr u hit[of t' vm "n + 1"] miss[of t' vm] show ?thesis
          by (auto split: option.splits if_splits intro!: spec_return sweep_post_Inl
                simp: requireExactVMAttachmentCollection_def)
      qed
    qed
  qed
qed

lemma sweep_post_exact:
  assumes "sweep_post loc disk members [] (sort (remdups (members @ listed))) t (Inr (v, m)) es t'"
    "canonicalNetworkVMMembers (net_VMUUIDs n) = Inr members" "listed_vms_loop [] vms = Inr listed"
  shows "exact_sweep a loc disk
    (RListVMs loc (Inr vms) # RGetNetwork loc (a_network a) (Inr (Some n)) # es) v"
proof -
  let ?us = "sort (remdups (members @ listed))"
  from assms(1) obtain rs where rs: "v = [] \<or> v \<in> set ?us \<inter> set members" "length rs = length ?us"
    "es = map2 (\<lambda>u vm. RGetVM loc u (Inr (Some vm))) ?us rs" "sweep_rows disk ?us rs v"
    unfolding sweep_post_def by blast
  moreover have "set ?us = set members \<union> set listed" "distinct ?us" by simp_all
  ultimately show ?thesis
    unfolding exact_sweep_def using assms(2,3)
    by (intro exI[of _ vms] exI[of _ n] exI[of _ members] exI[of _ listed] exI[of _ ?us] exI[of _ rs]) auto
qed

lemma spec_candidates:
  assumes "canonicalNetworkVMMembers l = Inr members" "listed_vms_loop [] vms = Inr listed"
  shows "spec t (attached_loop a c loc disk members [] 0 (sort (remdups (members @ listed))))
    (sweep_post loc disk members [] (sort (remdups (members @ listed))) t)"
  using canonicalNetworkVMMembers_uuid[OF assms(1)] listed_vms_loop_uuid[OF assms(2)]
  by (intro spec_attached_loop) auto

lemma sweep_post_time: "sweep_post loc disk ms att us t r es t' \<Longrightarrow> t \<le> t'"
  by (simp add: sweep_post_def)

lemma spec_attachedVM:
  "spec t (attachedVM a c loc disk) (\<lambda>r es t'. t \<le> t' \<and> (\<forall>v. r = Inr v \<longrightarrow> exact_sweep a loc disk es v))"
  unfolding attachedVM_def
  by (intro spec_rules spec_bind[OF spec_candidates]; assumption?)
     (auto intro: sweep_post_exact dest: sweep_post_time)

text \<open>
  C19: attachment discovery is exact. When \<open>attachedVM\<close> answers, it has read the unfiltered VM list,
  the configured VPC's membership and every VM of either exactly once; the disk has one row on the
  VM it names, which is a member, and no row on any other; the empty answer means no row anywhere.
\<close>

theorem attachedVM_exact:
  assumes "run_state (attachedVM a c location diskUUID) s = (Inr vm, s')"
  shows "\<exists>es. trace s' = trace s @ es \<and> exact_sweep a location diskUUID es vm"
  using spec_run[OF spec_attachedVM refl assms] by auto

section \<open>Sizes\<close>

lemma gib_pos: "0 < gib"
  by (simp add: gib_def)

lemma go_div_MaxInt64_gib: "go_div MaxInt64 gib = MaxInt64 div gib"
  by (simp add: go_div_pos MaxInt64_def gib_def)

lemma bytesToGiB_Inr:
  assumes "bytesToGiB b = Inr g" "b \<le> MaxInt64"
  shows "0 < b" "g = 1 + (b - 1) div gib" "0 < g" "b \<le> g * gib" "(g - 1) * gib < b"
proof -
  from assms(1) show b: "0 < b" by (auto simp: bytesToGiB_def split: if_splits)
  have d: "go_div (b - 1) gib = (b - 1) div gib" using b by (simp add: go_div_pos gib_def)
  have pos: "0 \<le> (b - 1) div gib" using b gib_pos by (simp add: pos_imp_zdiv_nonneg_iff)
  have "(b - 1) div gib \<le> b - 1" using b by (simp add: gib_def)
  with b assms(2) have "wrap64 (1 + (b - 1) div gib) = 1 + (b - 1) div gib"
    using pos by (intro wrap64_id) (auto simp: MaxInt64_def)
  with assms b d show g: "g = 1 + (b - 1) div gib"
    by (auto simp: bytesToGiB_def Let_def split: if_splits)
  show "0 < g" using g pos by simp
  have "gib * ((b - 1) div gib) + (b - 1) mod gib = b - 1" by (rule mult_div_mod_eq)
  moreover have "0 \<le> (b - 1) mod gib" "(b - 1) mod gib < gib" using gib_pos by simp_all
  moreover have "g * gib = gib + gib * ((b - 1) div gib)" "(g - 1) * gib = gib * ((b - 1) div gib)"
    using g by (simp_all add: algebra_simps)
  ultimately show "b \<le> g * gib" "(g - 1) * gib < b" by linarith+
qed

lemma diskVolume_Inr:
  assumes "diskVolume loc d = Inr v"
  shows "vol_CapacityBytes v = disk_SizeGiB d * gib" "0 < disk_SizeGiB d" "disk_SizeGiB d * gib \<le> MaxInt64"
    "vol_Name v = disk_DisplayName d" "vol_Location v = loc" "vol_ID v = ToLower (disk_UUID d)" "uuid_lower (vol_ID v)"
proof -
  from assms have le: "disk_SizeGiB d \<le> MaxInt64 div gib" and p: "0 < disk_SizeGiB d"
    by (auto simp: diskVolume_def go_div_MaxInt64_gib split: if_splits)
  from p show "0 < disk_SizeGiB d" .
  from le have "disk_SizeGiB d * gib \<le> MaxInt64 div gib * gib" using gib_pos by (simp add: mult_right_mono)
  also have "\<dots> \<le> MaxInt64" by (simp add: MaxInt64_def gib_def)
  finally show m: "disk_SizeGiB d * gib \<le> MaxInt64" .
  then have "wrap64 (disk_SizeGiB d * gib) = disk_SizeGiB d * gib"
    using p gib_pos by (intro wrap64_id) (auto simp: MaxInt64_def intro: order_trans[of _ 0])
  with assms show "vol_CapacityBytes v = disk_SizeGiB d * gib" "vol_Name v = disk_DisplayName d" "vol_Location v = loc"
    "vol_ID v = ToLower (disk_UUID d)" "uuid_lower (vol_ID v)"
    by (auto simp: diskVolume_def split: if_splits)
qed

text \<open>
  C20: size conversion neither overflows nor under-provisions. A request of \<open>bytes\<close> that converts to
  \<open>g\<close> GiB is served by a disk of that size with at least the requested bytes and less than one GiB
  more, and the reported capacity is the exact product within 64 bits.
\<close>

theorem size_conversion_tight:
  assumes "bytesToGiB bytes = Inr g" and "bytes \<le> MaxInt64"
    and "diskVolume location disk = Inr v" and "disk_SizeGiB disk = g"
  shows "bytes \<le> vol_CapacityBytes v \<and> vol_CapacityBytes v < bytes + gib \<and> vol_CapacityBytes v \<le> MaxInt64
    \<and> bytesToGiB (vol_CapacityBytes v) = Inr g"
proof -
  note b = bytesToGiB_Inr[OF assms(1,2)] and d = diskVolume_Inr[OF assms(3)]
  have cap: "vol_CapacityBytes v = g * gib" using d assms(4) by simp
  have "(g * gib - 1) div gib = g - 1"
    using gib_pos b(3) by (intro int_div_pos_eq[of _ _ _ "gib - 1"]) (auto simp: algebra_simps)
  moreover have "wrap64 g = g" using b(3) d(3) assms(4) gib_pos
    by (intro wrap64_id) (auto simp: MaxInt64_def gib_def)
  ultimately have "bytesToGiB (g * gib) = Inr g"
    using b(3) d(3) gib_pos assms(4)
    by (simp add: bytesToGiB_def Let_def go_div_pos MaxInt64_def gib_def)
  with cap b d assms(4) show ?thesis by (auto simp: algebra_simps)
qed

end
