(* ===== verification/Recovery.thy ===== *)
theory Recovery
  imports Adapter_Reads
begin

text \<open>
  Mutation recovery (\<^verbatim>\<open>csi-driver/pkg/cloud/inspace/mutation_recovery.go\<close>, \<^verbatim>\<open>vm_lock.go\<close> and the
  readback loops of \<^verbatim>\<open>adapter.go\<close>): fence keys, detached contexts, acquiring a fence, settling one
  an earlier attempt left behind, the readback loops that decide when a mutation has completed, and
  the dispatch reserve. The theorems show that nothing here issues a cloud mutation, that a fence
  is reported acquired only by a create of this very call, which endings a destructive absence
  proof can have, and that every loop ends when its context does.

  A nil fence pointer returned without an error would be dereferenced by the code; the model
  returns the error \<open>nil_deref\<close> there.
\<close>

section \<open>Keys, contexts, the dispatch reserve\<close>

definition nil_deref :: error where
  "nil_deref = Plain ''runtime error: invalid memory address or nil pointer dereference''"

definition diskCreateFenceKey :: "'w Adapter \<Rightarrow> string \<Rightarrow> string \<Rightarrow> string" where
  "diskCreateFenceKey a location name =
     ''disk-create/'' @ ToLower location @ ''/'' @ a_sha256hex a name"

definition diskAttachmentFenceKey :: "string \<Rightarrow> string \<Rightarrow> string" where
  "diskAttachmentFenceKey location diskUUID =
     ''disk-attachment/'' @ ToLower location @ ''/'' @ ToLower diskUUID"

definition mutationReadbackContext :: "'w Adapter \<Rightarrow> ('w, ctx) prog" where
  "mutationReadbackContext a = do { t \<leftarrow> now; ret (with_timeout_detached t (a_readback a)) }"

definition destructiveReadbackContext :: "'w Adapter \<Rightarrow> ('w, ctx) prog" where
  "destructiveReadbackContext a = do { t \<leftarrow> now; ret (with_timeout_detached t (a_destructive a)) }"

definition deleteMutationFenceDetached :: "'w Adapter \<Rightarrow> mutationFence \<Rightarrow> ('w, error option) prog" where
  "deleteMutationFenceDetached a fence = do {
     deleteCtx \<leftarrow> mutationReadbackContext a;
     fenceDelete a deleteCtx fence
   }"

definition clearUndispatchedDiskCreateFence :: "'w Adapter \<Rightarrow> mutationFence \<Rightarrow> error \<Rightarrow> ('w, error) prog" where
  "clearUndispatchedDiskCreateFence a fence cause = do {
     deleteErr \<leftarrow> deleteMutationFenceDetached a fence;
     ret (case deleteErr of
            Some e \<Rightarrow> errors_join2 cause (Wrap ''clear undispatched disk-create fence'' [e])
          | None \<Rightarrow> cause)
   }"

definition dispatchReserveShortfall :: "ctx \<Rightarrow> int \<Rightarrow> error option" where
  "dispatchReserveShortfall c t =
     (case ctx_deadline c of
        None \<Rightarrow> None
      | Some deadline \<Rightarrow>
          if deadline - t < minimumMutationDispatchReserve
          then Some (Wrap ''CSI mutation requires deadline reserve at dispatch'' [Sentinel ErrUnavailable])
          else None)"

definition requireMutationDispatchReserve :: "ctx \<Rightarrow> ('w, error option) prog" where
  "requireMutationDispatchReserve c = do {
     t \<leftarrow> now;
     ret (case ctx_err c t of Some err \<Rightarrow> Some err | None \<Rightarrow> dispatchReserveShortfall c t)
   }"

text \<open>
  \<^verbatim>\<open>lockVM\<close>: \<open>None\<close> means the VM's lock is held and the caller unlocks it with \<open>unlockVM\<close>.
\<close>

definition unlockVM :: "string \<Rightarrow> ('w, unit) prog" where
  "unlockVM vmUUID = emit (LUnlock (ToLower vmUUID))"

definition lockVM :: "'w Adapter \<Rightarrow> ctx \<Rightarrow> string \<Rightarrow> ('w, error option) prog" where
  "lockVM a c vmUUID =
     (let key = ToLower vmUUID;
          waitCtx = (case ctx_deadline c of
                       None \<Rightarrow> c
                     | Some deadline \<Rightarrow> with_deadline c (deadline - minimumMutationDispatchReserve))
      in do {
        err \<leftarrow> call (a_vmLock a waitCtx key) (\<lambda>t. LLock key);
        t \<leftarrow> now;
        case err of
          Some e \<Rightarrow>
            (case ctx_err c t of
               Some parentErr \<Rightarrow> ret (Some parentErr)
             | None \<Rightarrow> ret (Some (Wrap ''VM is busy with another storage mutation'' [Sentinel ErrUnavailable])))
        | None \<Rightarrow>
            (case dispatchReserveShortfall c t of
               Some e \<Rightarrow> do { unlockVM vmUUID; ret (Some e) }
             | None \<Rightarrow> ret None)
      })"

section \<open>Disk creation\<close>

definition validateDiskCreateReadback :: "Disk \<Rightarrow> diskCreateIntent \<Rightarrow> error option" where
  "validateDiskCreateReadback disk intent =
     (if ci_BillingAccountID intent \<le> 0
      then Some (Wrap ''disk-create intent has no positive billing account'' [Sentinel ErrIncompatibleVolume])
      else if validateExactDisk disk (disk_UUID disk) (ci_BillingAccountID intent) \<noteq> None
      then Some (Wrap ''disk create ownership readback'' [Sentinel ErrIncompatibleVolume])
      else if disk_DisplayName disk \<noteq> ci_Name intent
      then Some (Wrap ''disk receipt name does not match'' [Sentinel ErrIncompatibleVolume])
      else if disk_SizeGiB disk \<noteq> ci_SizeGiB intent
      then Some (Wrap ''disk size differs from the request'' [Sentinel ErrIncompatibleVolume])
      else if \<not> EqualFold (TrimSpace (disk_SourceImageType disk)) ''EMPTY''
      then Some (Wrap ''disk source type'' [Sentinel ErrIncompatibleVolume])
      else if TrimSpace (disk_SourceImage disk) \<noteq> []
      then Some (Wrap ''disk unexpectedly has source image'' [Sentinel ErrIncompatibleVolume])
      else if disk_ReadOnlyBootable disk
      then Some (Wrap ''disk is unexpectedly marked read-only bootable'' [Sentinel ErrIncompatibleVolume])
      else None)"

definition waitForDiskReady_round :: "'w Adapter \<Rightarrow> ctx \<Rightarrow> diskCreateIntent \<Rightarrow> string \<Rightarrow> Disk
    \<Rightarrow> ('w, (Disk, error + Disk) round) prog" where
  "waitForDiskReady_round a c intent expectedUUID disk =
     (if validateExactDisk disk expectedUUID (ci_BillingAccountID intent) \<noteq> None
      then ret (Return (Inl (Wrap ''disk create readiness identity changed'' [Sentinel ErrIncompatibleVolume])))
      else case validateDiskCreateReadback disk intent of
        Some err \<Rightarrow> ret (Return (Inl err))
      | None \<Rightarrow>
        let status = ToLower (TrimSpace (disk_Status disk)) in
        if status = ''active'' then ret (Return (Inr disk))
        else if status = ''error'' \<or> status = ''failed'' \<or> status = ''deleted''
        then ret (Return (Inl (Plain ''InSpace disk entered terminal status'')))
        else do {
          w \<leftarrow> wait_timer c (a_poll a);
          case w of
            Some err \<Rightarrow> ret (Return (Inl err))
          | None \<Rightarrow> do {
              r \<leftarrow> GetDisk a c (ci_Location intent) (disk_UUID disk);
              case r of
                Inl err \<Rightarrow> ret (Return (Inl (normalizeAPIError err)))
              | Inr None \<Rightarrow> ret (Return (Inl (Plain ''InSpace API returned an empty disk response'')))
              | Inr (Some current) \<Rightarrow> ret (Continue current)
            }
        })"

definition waitForDiskReady :: "'w Adapter \<Rightarrow> ctx \<Rightarrow> diskCreateIntent \<Rightarrow> Disk \<Rightarrow> ('w, error + Disk) prog" where
  "waitForDiskReady a c intent disk =
     (let expectedUUID = ToLower (TrimSpace (disk_UUID disk)) in
      loop (a_fuel a) (waitForDiskReady_round a c intent expectedUUID) disk)"

definition beginDiskCreateFence :: "'w Adapter \<Rightarrow> ctx \<Rightarrow> diskCreateIntent \<Rightarrow> ('w, error + mutationFence \<times> bool) prog" where
  "beginDiskCreateFence a c intent =
     (let key = diskCreateFenceKey a (ci_Location intent) (ci_Name intent) in do {
        g \<leftarrow> fenceGet a c key;
        case g of
          Inl err \<Rightarrow> ret (Inl err)
        | Inr (Some current) \<Rightarrow>
            (case decodeCreateIntent current of
               Inl err \<Rightarrow> ret (Inl err)
             | Inr stored \<Rightarrow>
                 if stored \<noteq> intent
                 then ret (Inl (Wrap ''unresolved disk-create fence has intent'' [Sentinel ErrIncompatibleVolume]))
                 else ret (Inr (current, False)))
        | Inr None \<Rightarrow> do {
            n \<leftarrow> newMutationFence a key (CreateText intent);
            case n of
              Inl err \<Rightarrow> ret (Inl err)
            | Inr candidate \<Rightarrow> do {
                r \<leftarrow> fenceCreate a c candidate;
                case r of
                  Inl err \<Rightarrow> ret (Inl err)
                | Inr (None, acquired) \<Rightarrow> ret (Inl (Plain ''CSI mutation fence store returned an empty create result''))
                | Inr (Some stored, acquired) \<Rightarrow>
                    (case decodeCreateIntent stored of
                       Inl err \<Rightarrow> ret (Inl err)
                     | Inr actual \<Rightarrow>
                         if fence_Key stored \<noteq> key \<or> actual \<noteq> intent
                         then ret (Inl (Wrap ''disk-create fence changed during acquisition'' [Sentinel ErrIncompatibleVolume]))
                         else ret (Inr (stored, acquired)))
              }
          }
      })"

definition completeFencedDisk :: "'w Adapter \<Rightarrow> ctx \<Rightarrow> diskCreateIntent \<Rightarrow> mutationFence \<Rightarrow> Disk
    \<Rightarrow> ('w, error + Volume) prog" where
  "completeFencedDisk a c intent fence ready = do {
     r \<leftarrow> fenceSetReceipt a c fence (ToLower (disk_UUID ready));
     case r of
       Inl err \<Rightarrow> ret (Inl (Wrap ''persist canonical disk-create receipt after authoritative readback'' [Sentinel ErrUnavailable]))
     | Inr None \<Rightarrow> ret (Inl nil_deref)
     | Inr (Some canonical) \<Rightarrow>
         (case diskVolume (ci_Location intent) ready of
            Inl err \<Rightarrow> ret (Inl err)
          | Inr volume \<Rightarrow> do {
              d \<leftarrow> fenceDelete a c canonical;
              case d of
                Some err \<Rightarrow> ret (Inl (Wrap ''complete disk-create fence after authoritative readback'' [Sentinel ErrUnavailable]))
              | None \<Rightarrow> ret (Inr volume)
            })
   }"

definition finishFencedDisk :: "'w Adapter \<Rightarrow> ctx \<Rightarrow> diskCreateIntent \<Rightarrow> mutationFence \<Rightarrow> Disk
    \<Rightarrow> ('w, error + Volume) prog" where
  "finishFencedDisk a c intent fence disk =
     (case validateDiskCreateReadback disk intent of
        Some err \<Rightarrow> ret (Inl err)
      | None \<Rightarrow> do {
          r \<leftarrow> waitForDiskReady a c intent disk;
          case r of
            Inl err \<Rightarrow> ret (Inl err)
          | Inr ready \<Rightarrow> completeFencedDisk a c intent fence ready
        })"

definition finishUndispatchedFencedDisk :: "'w Adapter \<Rightarrow> ctx \<Rightarrow> diskCreateIntent \<Rightarrow> mutationFence \<Rightarrow> Disk
    \<Rightarrow> ('w, error + Volume) prog" where
  "finishUndispatchedFencedDisk a c intent fence disk =
     (case validateDiskCreateReadback disk intent of
        Some err \<Rightarrow> do { e \<leftarrow> clearUndispatchedDiskCreateFence a fence err; ret (Inl e) }
      | None \<Rightarrow> do {
          r \<leftarrow> waitForDiskReady a c intent disk;
          case r of
            Inl err \<Rightarrow> do { e \<leftarrow> clearUndispatchedDiskCreateFence a fence err; ret (Inl e) }
          | Inr ready \<Rightarrow> completeFencedDisk a c intent fence ready
        })"

definition reconcileDiskCreateFence_round :: "'w Adapter \<Rightarrow> ctx \<Rightarrow> diskCreateIntent \<Rightarrow> mutationFence \<Rightarrow> unit
    \<Rightarrow> ('w, (unit, error + Volume) round) prog" where
  "reconcileDiskCreateFence_round a c intent fence _ = do {
     l \<leftarrow> ListDisks a c (ci_Location intent);
     case (case l of Inl _ \<Rightarrow> Inr None | Inr disks \<Rightarrow> uniqueNamedDisk disks (ci_Name intent)) of
       Inl findErr \<Rightarrow> ret (Return (Inl findErr))
     | Inr (Some disk) \<Rightarrow> do { r \<leftarrow> finishFencedDisk a c intent fence disk; ret (Return r) }
     | Inr None \<Rightarrow> do {
         w \<leftarrow> wait_timer c (a_poll a);
         case w of
           Some err \<Rightarrow> ret (Return (Inl (Wrap ''disk create outcome remains ambiguous behind durable fence'' [Sentinel ErrUnavailable])))
         | None \<Rightarrow> ret (Continue ())
       }
   }"

text \<open>The error of the mutation only reaches the text of the final message.\<close>

definition reconcileDiskCreateFence :: "'w Adapter \<Rightarrow> ctx \<Rightarrow> diskCreateIntent \<Rightarrow> mutationFence \<Rightarrow> error option
    \<Rightarrow> ('w, error + Volume) prog" where
  "reconcileDiskCreateFence a c intent fence mutationErr =
     (case decodeCreateIntent fence of
        Inl err \<Rightarrow> ret (Inl err)
      | Inr stored \<Rightarrow>
          if stored \<noteq> intent \<or> fence_Key fence \<noteq> diskCreateFenceKey a (ci_Location intent) (ci_Name intent)
          then ret (Inl (Wrap ''disk-create fence does not match the requested volume'' [Sentinel ErrIncompatibleVolume]))
          else loop (a_fuel a) (reconcileDiskCreateFence_round a c intent fence) ())"

fun match_create_fences :: "string \<Rightarrow> string \<Rightarrow> Disk option \<Rightarrow> mutationFence option \<Rightarrow> mutationFence list
    \<Rightarrow> error + mutationFence option" where
  "match_create_fences location volumeID disk found [] = Inr found"
| "match_create_fences location volumeID disk found (fence # rest) =
     (case decodeCreateIntent fence of
        Inl err \<Rightarrow> Inl (Joined [err, Wrap ''malformed disk-create fence'' [Sentinel ErrConflict]])
      | Inr intent \<Rightarrow>
        if ci_Operation intent \<noteq> ''create-disk'' \<or> \<not> EqualFold (ci_Location intent) location
        then Inl (Joined [Wrap ''malformed disk-create fence'' [Sentinel ErrConflict]])
        else
          let matchesReceipt = (fence_Receipt fence \<noteq> [] \<and> EqualFold (fence_Receipt fence) volumeID);
              name = (case disk of None \<Rightarrow> [] | Some d \<Rightarrow> disk_DisplayName d);
              matchesName = (disk \<noteq> None \<and> name \<noteq> [] \<and> name = ci_Name intent)
          in if disk \<noteq> None \<and> name = [] \<and> fence_Receipt fence = []
             then Inl (Wrap ''cannot exclude unresolved create fence'' [Sentinel ErrUnavailable])
             else if \<not> matchesReceipt \<and> \<not> matchesName
             then match_create_fences location volumeID disk found rest
             else if found \<noteq> None
             then Inl (Wrap ''multiple durable create fences match disk'' [Sentinel ErrConflict])
             else if fence_Receipt fence = []
             then Inl (Wrap ''create fence has no exact disk receipt and could still commit'' [Sentinel ErrUnavailable])
             else if \<not> EqualFold (fence_Receipt fence) volumeID
             then Inl (Wrap ''create fence receipt conflicts with disk'' [Sentinel ErrConflict])
             else (case (case disk of None \<Rightarrow> None | Some d \<Rightarrow> validateDiskCreateReadback d intent) of
                 Some err \<Rightarrow> Inl err
               | None \<Rightarrow> match_create_fences location volumeID disk (Some fence) rest))"

definition matchingDiskCreateFence :: "'w Adapter \<Rightarrow> ctx \<Rightarrow> string \<Rightarrow> string \<Rightarrow> Disk option
    \<Rightarrow> ('w, error + mutationFence option) prog" where
  "matchingDiskCreateFence a c location volumeID disk = do {
     r \<leftarrow> fenceList a c (''disk-create/'' @ ToLower location @ ''/'');
     case r of
       Inl err \<Rightarrow> ret (Inl err)
     | Inr fences \<Rightarrow> ret (match_create_fences location volumeID disk None fences)
   }"

section \<open>Absence observations\<close>

text \<open>The observation a fence carries, checked for the operation that reads it; zero when there is none.\<close>

definition zero_observation :: mutationObservation where
  "zero_observation = \<lparr>obs_Kind = [], obs_Count = 0, obs_FirstObservedAt = NoStamp, obs_LastObservedAt = NoStamp\<rparr>"

definition fence_observation :: "'w Adapter \<Rightarrow> string \<Rightarrow> mutationFence \<Rightarrow> error + mutationObservation" where
  "fence_observation a kind fence =
     (if fence_Observation fence = NoObs then Inr zero_observation
      else case decodeMutationObservation (fence_Observation fence) of
        Inl err \<Rightarrow> Inl err
      | Inr decoded \<Rightarrow>
          if obs_Kind decoded \<noteq> kind
          then Inl (Plain ''mutation fence contains another operation's absence observation'')
          else (case validateMutationObservationSpacing decoded (a_absencePoll a) of
              Some err \<Rightarrow> Inl err
            | None \<Rightarrow> Inr decoded))"

text \<open>\<open>Inr None\<close> is the code's \<^verbatim>\<open>completed\<close>: the fence is gone.\<close>

definition updateMutationObservation :: "'w Adapter \<Rightarrow> ctx \<Rightarrow> mutationFence \<Rightarrow> obs_text
    \<Rightarrow> ('w, error + mutationFence option) prog" where
  "updateMutationObservation a c fence observation = do {
     r \<leftarrow> fenceSetObservation a c fence observation;
     case r of
       Inr None \<Rightarrow> ret (Inl (Plain ''CSI mutation fence store returned an empty observation result''))
     | Inr (Some updated) \<Rightarrow> ret (Inr (Some updated))
     | Inl err \<Rightarrow>
         if \<not> errors_is ErrMutationFenceChanged err then ret (Inl err)
         else do {
           g \<leftarrow> fenceGet a c (fence_Key fence);
           case g of
             Inl getErr \<Rightarrow> ret (Inl (errors_join2 err getErr))
           | Inr None \<Rightarrow> ret (Inr None)
           | Inr (Some current) \<Rightarrow>
               if \<not> sameMutationFenceAuthority current fence
               then ret (Inl (Wrap ''CSI mutation authority changed during observation update'' [Sentinel ErrConflict]))
               else ret (Inr (Some current))
         }
   }"

definition waitMutationReadbackUntil :: "ctx \<Rightarrow> int \<Rightarrow> ('w, error option) prog" where
  "waitMutationReadbackUntil c deadline = do {
     t \<leftarrow> now;
     let delay = deadline - t;
     if delay \<le> 0 then ret None else wait_timer c delay
   }"

definition waitMutationReadback :: "ctx \<Rightarrow> int \<Rightarrow> ('w, error option) prog" where
  "waitMutationReadback c delay = wait_timer c delay"

text \<open>
  What both absence loops do in a round that saw the disk absent (the \<^verbatim>\<open>switch observation.Count\<close>):
  publish the first, second or third observation, never before the interval since the previous one
  has passed, and return once the third is published or was already there. \<open>zero_fence\<close> is returned
  when the fence turned out to be gone. The loops differ in the observation's kind and in how they
  return the error of the final wait.
\<close>

definition recordAbsence :: "'w Adapter \<Rightarrow> ctx \<Rightarrow> string \<Rightarrow> (error \<Rightarrow> error) \<Rightarrow> mutationFence \<Rightarrow> mutationObservation
    \<Rightarrow> ('w, (mutationFence, error + mutationFence) round) prog" where
  "recordAbsence a c kind waitErr currentFence observation = do {
     t \<leftarrow> now;
     let pause = (\<lambda>fence. do {
       w \<leftarrow> waitMutationReadback c (a_poll a);
       ret (case w of Some err \<Rightarrow> Return (Inl (waitErr err)) | None \<Rightarrow> Continue fence) });
     if obs_Count observation = 0 then
       (case encodeMutationObservation \<lparr>obs_Kind = kind, obs_Count = 1, obs_FirstObservedAt = At t,
               obs_LastObservedAt = NoStamp\<rparr> of
          Inl err \<Rightarrow> ret (Return (Inl err))
        | Inr encoded \<Rightarrow> do {
            u \<leftarrow> updateMutationObservation a c currentFence encoded;
            case u of
              Inl err \<Rightarrow> ret (Return (Inl err))
            | Inr None \<Rightarrow> ret (Return (Inr zero_fence))
            | Inr (Some updated) \<Rightarrow> pause updated
          })
     else if obs_Count observation = 1 \<or> obs_Count observation = 2 then
       (case (if obs_Count observation = 2 then obs_LastObservedAt observation
              else obs_FirstObservedAt observation) of
          At lastObservedAt \<Rightarrow>
            let notBefore = lastObservedAt + a_absencePoll a in
            if t < notBefore then do {
              w \<leftarrow> waitMutationReadbackUntil c notBefore;
              ret (case w of Some err \<Rightarrow> Return (Inl err) | None \<Rightarrow> Continue currentFence)
            }
            else (case encodeMutationObservation \<lparr>obs_Kind = kind, obs_Count = obs_Count observation + 1,
                    obs_FirstObservedAt = obs_FirstObservedAt observation, obs_LastObservedAt = At t\<rparr> of
                Inl err \<Rightarrow> ret (Return (Inl err))
              | Inr encoded \<Rightarrow> do {
                  u \<leftarrow> updateMutationObservation a c currentFence encoded;
                  case u of
                    Inl err \<Rightarrow> ret (Return (Inl err))
                  | Inr None \<Rightarrow> ret (Return (Inr zero_fence))
                  | Inr (Some updated) \<Rightarrow>
                      if obs_Count observation = 2 then ret (Return (Inr updated)) else pause updated
                })
        | _ \<Rightarrow> ret (Return (Inl (Plain ''mutation fence has an invalid observation timestamp''))))
     else if obs_Count observation = 3 then ret (Return (Inr currentFence))
     else ret (Return (Inl (Plain ''mutation fence has an invalid absence observation'')))
   }"

text \<open>A round that saw the disk clears the observation.\<close>

definition clearObservation :: "'w Adapter \<Rightarrow> ctx \<Rightarrow> mutationFence \<Rightarrow> ('w, error + mutationFence) prog" where
  "clearObservation a c currentFence =
     (if fence_Observation currentFence = NoObs then ret (Inr currentFence)
      else do {
        u \<leftarrow> updateMutationObservation a c currentFence NoObs;
        ret (case u of
               Inl err \<Rightarrow> Inl err
             | Inr None \<Rightarrow> Inl (Plain ''mutation fence disappeared while its disk was visible'')
             | Inr (Some updated) \<Rightarrow> Inr updated)
      })"

section \<open>Waiting for a disk to be gone\<close>

fun listed_disk_rows :: "string \<Rightarrow> int \<Rightarrow> nat \<Rightarrow> Disk list \<Rightarrow> error + nat" where
  "listed_disk_rows volumeID billing matches [] = Inr matches"
| "listed_disk_rows volumeID billing matches (current # rest) =
     (if EqualFold (disk_UUID current) volumeID then
        (case validateExactDisk current volumeID billing of
           Some err \<Rightarrow> Inl err
         | None \<Rightarrow> listed_disk_rows volumeID billing (matches + 1) rest)
      else listed_disk_rows volumeID billing matches rest)"

text \<open>What the exact GET says: \<open>Inr (getAbsent, lastObservation)\<close>, or an error that ends the wait.\<close>

definition diskGetAbsence :: "string \<Rightarrow> int \<Rightarrow> error + Disk option \<Rightarrow> error + bool \<times> error option" where
  "diskGetAbsence volumeID billing r =
     (case r of
        Inl getErr \<Rightarrow>
          if IsNotFound (Some getErr) then Inr (True, None)
          else Inr (False, Some (normalizeAPIError getErr))
      | Inr None \<Rightarrow> Inr (False, Some (Plain ''InSpace API returned an empty disk during deletion readback''))
      | Inr (Some disk) \<Rightarrow>
          (case validateExactDisk disk volumeID billing of
             Some err \<Rightarrow> Inl err
           | None \<Rightarrow>
             if diskDeletedTombstone disk then Inr (True, None)
             else Inr (False, Some (Plain ''disk remains visible by exact GET''))))"

definition diskListAbsence :: "string \<Rightarrow> int \<Rightarrow> error option \<Rightarrow> error + Disk list \<Rightarrow> error + bool \<times> error option" where
  "diskListAbsence volumeID billing lastObservation l =
     (case l of
        Inl listErr \<Rightarrow> Inr (False, errors_join [lastObservation, Some (normalizeAPIError listErr)])
      | Inr disks \<Rightarrow>
          (case listed_disk_rows volumeID billing 0 disks of
             Inl err \<Rightarrow> Inl err
           | Inr matches \<Rightarrow>
             if matches > 1 then Inl (Wrap ''disk list contains UUID'' [Sentinel ErrConflict])
             else if matches = 0 then Inr (True, lastObservation)
             else Inr (False, Some (Plain ''disk remains visible in ListDisks''))))"

definition waitForDiskAbsent_round :: "'w Adapter \<Rightarrow> ctx \<Rightarrow> string \<Rightarrow> string \<Rightarrow> mutationFence
    \<Rightarrow> ('w, (mutationFence, error + mutationFence) round) prog" where
  "waitForDiskAbsent_round a c location volumeID currentFence =
     (case fence_observation a diskDeleteAbsenceObservationKind currentFence of
        Inl err \<Rightarrow> ret (Return (Inl err))
      | Inr observation \<Rightarrow> do {
          r \<leftarrow> GetDisk a c location volumeID;
          case diskGetAbsence volumeID (a_billing a) r of
            Inl err \<Rightarrow> ret (Return (Inl err))
          | Inr (getAbsent, getObservation) \<Rightarrow> do {
              l \<leftarrow> ListDisks a c location;
              case diskListAbsence volumeID (a_billing a) getObservation l of
                Inl err \<Rightarrow> ret (Return (Inl err))
              | Inr (listAbsent, lastObservation) \<Rightarrow>
                  if \<not> getAbsent \<or> \<not> listAbsent then do {
                    u \<leftarrow> clearObservation a c currentFence;
                    case u of
                      Inl err \<Rightarrow> ret (Return (Inl err))
                    | Inr updated \<Rightarrow> do {
                        w \<leftarrow> waitMutationReadback c (a_poll a);
                        ret (case w of
                               Some err \<Rightarrow> Return (Inl (Joined (non_nil [lastObservation, Some err])))
                             | None \<Rightarrow> Continue updated)
                      }
                  }
                  else recordAbsence a c diskDeleteAbsenceObservationKind (\<lambda>e. Joined [e]) currentFence observation
            }
        })"

definition waitForDiskAbsent :: "'w Adapter \<Rightarrow> ctx \<Rightarrow> string \<Rightarrow> string \<Rightarrow> mutationFence
    \<Rightarrow> ('w, error + mutationFence) prog" where
  "waitForDiskAbsent a c location volumeID fence =
     loop (a_fuel a) (waitForDiskAbsent_round a c location volumeID) fence"

section \<open>Waiting for an attachment change\<close>

text \<open>One storage row of one listed VM: which VM it names, the rows so far, the errors so far.\<close>

definition detach_row :: "diskAttachmentIntent \<Rightarrow> VM \<Rightarrow> VMStorage \<Rightarrow> string \<times> nat \<times> error option
    \<Rightarrow> string \<times> nat \<times> error option" where
  "detach_row intent vm storage acc =
     (case acc of (listedVM, listedRows, stateErr) \<Rightarrow>
        if \<not> EqualFold (st_UUID storage) (ai_DiskUUID intent) then acc
        else
          let err1 = (if st_Primary storage
                      then errors_join [stateErr, Some (Wrap ''disk is listed as the primary boot disk of VM'' [Sentinel ErrPermissionDenied])]
                      else stateErr);
              vmUUID = ToLower (vm_UUID vm)
          in if \<not> uuid_lower vmUUID
             then (if listedVM = [] then ''<invalid-vm>'' else listedVM, listedRows + 1,
                   errors_join [err1, Some (Plain ''InSpace reported disk on a VM with invalid UUID'')])
             else (if listedVM = [] \<or> listedVM = ''<invalid-vm>'' then vmUUID else listedVM, listedRows + 1,
                   if listedVM \<noteq> [] \<and> \<not> EqualFold listedVM vmUUID
                   then errors_join [err1, Some (Plain ''InSpace reported disk attached to multiple VMs'')]
                   else err1))"

definition listed_detach_state :: "diskAttachmentIntent \<Rightarrow> VM list \<Rightarrow> string \<times> error option" where
  "listed_detach_state intent vms =
     (case fold (\<lambda>vm. fold (detach_row intent vm) (storage_rows vm)) vms ([], 0, None) of
        (listedVM, listedRows, stateErr) \<Rightarrow>
          (listedVM, if listedRows > 1
                     then errors_join [stateErr, Some (Plain ''InSpace reported disk in ListVMs attachment rows'')]
                     else stateErr))"

text \<open>The exact read of the previous VM: \<open>Inl\<close> ends the observation, \<open>Inr (exactPresent, exactStateErr)\<close>.\<close>

definition exact_detach_state :: "'w Adapter \<Rightarrow> diskAttachmentIntent \<Rightarrow> error + VM option \<Rightarrow> error + bool \<times> error option" where
  "exact_detach_state a intent r =
     (case r of
        Inl getErr \<Rightarrow>
          if IsNotFound (Some getErr) then Inr (False, None) else Inl (normalizeAPIError getErr)
      | Inr None \<Rightarrow> Inl (Plain ''InSpace API returned an empty VM during detach readback'')
      | Inr (Some vm) \<Rightarrow>
          if \<not> EqualFold (vm_UUID vm) (ai_PreviousVMUUID intent)
          then Inr (False, Some (Plain ''InSpace API returned VM for exact detach readback of another''))
          else (case validateExactVM a vm (ai_PreviousVMUUID intent) of
              Some err \<Rightarrow> Inr (False, Some err)
            | None \<Rightarrow> (case requireExactVMAttachmentCollection vm (ai_DiskUUID intent) of
                Some relationErr \<Rightarrow> Inr (False, Some relationErr)
              | None \<Rightarrow> (case rejectPrimaryDiskReference vm (ai_DiskUUID intent) of
                  Some err \<Rightarrow> Inr (False, Some err)
                | None \<Rightarrow>
                  let rows = vmDiskRows vm (ai_DiskUUID intent) in
                  Inr (rows > 0, if rows > 1 then Some (Plain ''InSpace reported disk in exact attachment rows'') else None)))))"

definition observeDetachState :: "'w Adapter \<Rightarrow> ctx \<Rightarrow> diskAttachmentIntent \<Rightarrow> ('w, string \<times> error option) prog" where
  "observeDetachState a c intent = do {
     l \<leftarrow> ListVMs a c (ai_Location intent);
     case l of
       Inl err \<Rightarrow> ret ([], Some (normalizeAPIError err))
     | Inr vms \<Rightarrow>
         (case listed_detach_state intent vms of (listedVM, listStateErr) \<Rightarrow> do {
            r \<leftarrow> GetVM a c (ai_Location intent) (ai_PreviousVMUUID intent);
            case exact_detach_state a intent r of
              Inl err \<Rightarrow> ret ([], Some err)
            | Inr (exactPresent, exactStateErr) \<Rightarrow>
                let err = errors_join [listStateErr, exactStateErr] in
                if listedVM \<noteq> [] then ret (listedVM, err)
                else if exactPresent then ret (ToLower (ai_PreviousVMUUID intent), err)
                else ret ([], err)
          })
   }"

definition waitForDetached_round :: "'w Adapter \<Rightarrow> ctx \<Rightarrow> diskAttachmentIntent \<Rightarrow> mutationFence
    \<Rightarrow> ('w, (mutationFence, error + mutationFence) round) prog" where
  "waitForDetached_round a c intent currentFence =
     (case fence_observation a detachAbsenceObservationKind currentFence of
        Inl err \<Rightarrow> ret (Return (Inl err))
      | Inr observation \<Rightarrow> do {
          v \<leftarrow> observeDetachState a c intent;
          case v of (visibleVM, stateErr) \<Rightarrow>
            if visibleVM \<noteq> [] then do {
              u \<leftarrow> clearObservation a c currentFence;
              case u of
                Inl err \<Rightarrow> ret (Return (Inl err))
              | Inr updated \<Rightarrow>
                  (case stateErr of
                     Some err \<Rightarrow> ret (Return (Inl err))
                   | None \<Rightarrow>
                     if \<not> EqualFold visibleVM (ai_PreviousVMUUID intent)
                     then ret (Return (Inl (Wrap ''disk converged to VM instead of detached'' [Sentinel ErrVolumeAttachedElsewhere])))
                     else do {
                       w \<leftarrow> waitMutationReadback c (a_poll a);
                       ret (case w of Some err \<Rightarrow> Return (Inl err) | None \<Rightarrow> Continue updated)
                     })
            }
            else (case stateErr of
                Some err \<Rightarrow> ret (Return (Inl err))
              | None \<Rightarrow> recordAbsence a c detachAbsenceObservationKind (\<lambda>e. e) currentFence observation)
        })"

definition waitForDetached :: "'w Adapter \<Rightarrow> ctx \<Rightarrow> diskAttachmentIntent \<Rightarrow> mutationFence
    \<Rightarrow> ('w, error + mutationFence) prog" where
  "waitForDetached a c intent fence = loop (a_fuel a) (waitForDetached_round a c intent) fence"

definition waitForAttachment_round :: "'w Adapter \<Rightarrow> ctx \<Rightarrow> string \<Rightarrow> string \<Rightarrow> string \<Rightarrow> string \<Rightarrow> unit
    \<Rightarrow> ('w, (unit, error + unit) round) prog" where
  "waitForAttachment_round a c location volumeID desired transitional _ = do {
     r \<leftarrow> attachedVM a c location volumeID;
     case r of
       Inl err \<Rightarrow> ret (Return (Inl err))
     | Inr current \<Rightarrow>
         if current = desired then ret (Return (Inr ()))
         else if current \<noteq> transitional
         then ret (Return (Inl (Wrap ''disk converged to another VM'' [Sentinel ErrVolumeAttachedElsewhere])))
         else do {
           w \<leftarrow> wait_timer c (a_poll a);
           ret (case w of Some err \<Rightarrow> Return (Inl err) | None \<Rightarrow> Continue ())
         }
   }"

definition waitForAttachment :: "'w Adapter \<Rightarrow> ctx \<Rightarrow> string \<Rightarrow> string \<Rightarrow> string \<Rightarrow> string \<Rightarrow> ('w, error + unit) prog" where
  "waitForAttachment a c location volumeID desired transitional =
     loop (a_fuel a) (waitForAttachment_round a c location volumeID desired transitional) ()"

definition waitForFencedAttachment :: "'w Adapter \<Rightarrow> ctx \<Rightarrow> diskAttachmentIntent \<Rightarrow> mutationFence
    \<Rightarrow> ('w, error + mutationFence) prog" where
  "waitForFencedAttachment a c intent fence =
     (if ai_BillingAccountID intent \<noteq> a_billing a \<or> ai_BillingAccountID intent \<le> 0
      then ret (Inl (Wrap ''attachment fence billing account does not match the configured account'' [Sentinel ErrConflict]))
      else if ai_DesiredVMUUID intent \<noteq> [] then
        (if fence_Observation fence \<noteq> NoObs
         then ret (Inl (Plain ''attach mutation fence contains a detach-absence observation''))
         else do {
           r \<leftarrow> waitForAttachment a c (ai_Location intent) (ai_DiskUUID intent) (ai_DesiredVMUUID intent) (ai_PreviousVMUUID intent);
           ret (case r of Inl err \<Rightarrow> Inl err | Inr _ \<Rightarrow> Inr fence)
         })
      else if ai_PreviousVMUUID intent = [] \<or> \<not> uuid_lower (ToLower (ai_PreviousVMUUID intent))
      then ret (Inl (Plain ''detach mutation fence has an invalid previous VM UUID''))
      else waitForDetached a c intent fence)"

text \<open>The window a fenced attachment is given: the destructive one for a detach.\<close>

definition attachmentReadbackContext :: "'w Adapter \<Rightarrow> diskAttachmentIntent \<Rightarrow> ('w, ctx) prog" where
  "attachmentReadbackContext a intent =
     (if ai_DesiredVMUUID intent = [] then destructiveReadbackContext a else mutationReadbackContext a)"

definition settleExistingAttachmentFence :: "'w Adapter \<Rightarrow> ctx \<Rightarrow> diskAttachmentIntent \<Rightarrow> ('w, error + bool) prog" where
  "settleExistingAttachmentFence a c requested =
     (if ai_BillingAccountID requested \<noteq> a_billing a \<or> ai_BillingAccountID requested \<le> 0
      then ret (Inl (Wrap ''requested disk mutation billing account does not match the configured account'' [Sentinel ErrConflict]))
      else do {
        g \<leftarrow> fenceGet a c (diskAttachmentFenceKey (ai_Location requested) (ai_DiskUUID requested));
        case g of
          Inl err \<Rightarrow> ret (Inl err)
        | Inr None \<Rightarrow> ret (Inr False)
        | Inr (Some fence) \<Rightarrow>
            (case decodeAttachmentIntent fence of
               Inl err \<Rightarrow> ret (Inl err)
             | Inr intent \<Rightarrow>
                 if ai_Location intent \<noteq> ai_Location requested \<or> ai_DiskUUID intent \<noteq> ai_DiskUUID requested
                    \<or> ai_BillingAccountID intent \<noteq> a_billing a
                 then ret (Inl (Wrap ''attachment fence identity does not match disk'' [Sentinel ErrConflict]))
                 else if ai_Operation intent = ''disk-delete''
                 then ret (Inl (Wrap ''disk deletion remains protected by durable fence'' [Sentinel ErrUnavailable]))
                 else if ai_Operation intent \<noteq> ''disk-attachment''
                 then ret (Inl (Wrap ''unknown disk mutation fence operation'' [Sentinel ErrConflict]))
                 else do {
                   readbackCtx \<leftarrow> attachmentReadbackContext a intent;
                   r \<leftarrow> waitForFencedAttachment a readbackCtx intent fence;
                   case r of
                     Inl err \<Rightarrow> ret (Inl (Wrap ''unresolved durable attachment fence'' [Sentinel ErrUnavailable]))
                   | Inr resolvedFence \<Rightarrow>
                       if fence_Key resolvedFence \<noteq> [] then do {
                         d \<leftarrow> fenceDelete a readbackCtx resolvedFence;
                         case d of
                           Some err \<Rightarrow> ret (Inl (Wrap ''complete attachment fence'' [Sentinel ErrUnavailable]))
                         | None \<Rightarrow> ret (Inr (intent = requested))
                       }
                       else ret (Inr (intent = requested))
                 })
      })"

section \<open>Acquiring a disk fence\<close>

text \<open>\<^verbatim>\<open>prepareDiskDeleteFence\<close> tries three times; the second component says the fence is this call's.\<close>

fun diskDeleteFence_tries :: "nat \<Rightarrow> 'w Adapter \<Rightarrow> ctx \<Rightarrow> string \<Rightarrow> diskAttachmentIntent
    \<Rightarrow> ('w, error + mutationFence \<times> bool) prog" where
  "diskDeleteFence_tries 0 a c key intent =
     ret (Inl (Wrap ''disk-delete fence changed repeatedly during acquisition'' [Sentinel ErrUnavailable]))"
| "diskDeleteFence_tries (Suc n) a c key intent = do {
     g \<leftarrow> fenceGet a c key;
     case g of
       Inl err \<Rightarrow> ret (Inl err)
     | Inr (Some current) \<Rightarrow>
         (case decodeAttachmentIntent current of
            Inl err \<Rightarrow> ret (Inl err)
          | Inr stored \<Rightarrow>
              if stored = intent then ret (Inr (current, False))
              else do {
                s \<leftarrow> settleExistingAttachmentFence a c intent;
                case s of
                  Inl err \<Rightarrow> ret (Inl err)
                | Inr _ \<Rightarrow> diskDeleteFence_tries n a c key intent
              })
     | Inr None \<Rightarrow> do {
         f \<leftarrow> newMutationFence a key (AttachText intent);
         case f of
           Inl err \<Rightarrow> ret (Inl err)
         | Inr candidate \<Rightarrow> do {
             r \<leftarrow> fenceCreate a c candidate;
             case r of
               Inl err \<Rightarrow> ret (Inl err)
             | Inr (None, acquired) \<Rightarrow> ret (Inl (Plain ''CSI mutation fence store returned an empty disk-delete result''))
             | Inr (Some stored, acquired) \<Rightarrow>
                 (case decodeAttachmentIntent stored of
                    Inl err \<Rightarrow> ret (Inl err)
                  | Inr actual \<Rightarrow>
                      if actual = intent then ret (Inr (stored, acquired))
                      else diskDeleteFence_tries n a c key intent)
           }
       }
   }"

definition prepareDiskDeleteFence :: "'w Adapter \<Rightarrow> ctx \<Rightarrow> string \<Rightarrow> string \<Rightarrow> ('w, error + mutationFence \<times> bool) prog" where
  "prepareDiskDeleteFence a c location diskUUID =
     diskDeleteFence_tries 3 a c (diskAttachmentFenceKey location diskUUID)
       \<lparr>ai_Operation = ''disk-delete'', ai_Location = location, ai_DiskUUID = ToLower diskUUID,
        ai_BillingAccountID = a_billing a, ai_DesiredVMUUID = [], ai_PreviousVMUUID = [], ai_RecoveryNodeID = []\<rparr>"

definition beginAttachmentFence :: "'w Adapter \<Rightarrow> ctx \<Rightarrow> diskAttachmentIntent \<Rightarrow> ('w, error + mutationFence \<times> bool) prog" where
  "beginAttachmentFence a c intent =
     (let key = diskAttachmentFenceKey (ai_Location intent) (ai_DiskUUID intent) in do {
        f \<leftarrow> newMutationFence a key (AttachText intent);
        case f of
          Inl err \<Rightarrow> ret (Inl err)
        | Inr candidate \<Rightarrow> do {
            r \<leftarrow> fenceCreate a c candidate;
            case r of
              Inl err \<Rightarrow> ret (Inl err)
            | Inr (None, acquired) \<Rightarrow> ret (Inl (Plain ''CSI mutation fence store returned an empty attachment result''))
            | Inr (Some stored, acquired) \<Rightarrow>
                (case decodeAttachmentIntent stored of
                   Inl err \<Rightarrow> ret (Inl err)
                 | Inr actual \<Rightarrow>
                     if fence_Key stored \<noteq> key \<or> actual \<noteq> intent then ret (Inr (stored, False))
                     else ret (Inr (stored, acquired)))
          }
      })"

text \<open>\<open>Inr None\<close> is the code's \<^verbatim>\<open>alreadyDone\<close>.\<close>

fun prepareAttachmentFence_tries :: "nat \<Rightarrow> 'w Adapter \<Rightarrow> ctx \<Rightarrow> diskAttachmentIntent
    \<Rightarrow> ('w, error + mutationFence option) prog" where
  "prepareAttachmentFence_tries 0 a c intent =
     ret (Inl (Wrap ''attachment fence changed repeatedly during acquisition'' [Sentinel ErrUnavailable]))"
| "prepareAttachmentFence_tries (Suc n) a c intent = do {
     s \<leftarrow> settleExistingAttachmentFence a c intent;
     case s of
       Inl err \<Rightarrow> ret (Inl err)
     | Inr alreadyDone \<Rightarrow>
         if alreadyDone then ret (Inr None)
         else do {
           r \<leftarrow> beginAttachmentFence a c intent;
           case r of
             Inl err \<Rightarrow> ret (Inl err)
           | Inr (fence, acquired) \<Rightarrow>
               if acquired then ret (Inr (Some fence)) else prepareAttachmentFence_tries n a c intent
         }
   }"

definition prepareAttachmentFence :: "'w Adapter \<Rightarrow> ctx \<Rightarrow> diskAttachmentIntent \<Rightarrow> ('w, error + mutationFence option) prog" where
  "prepareAttachmentFence a c intent = prepareAttachmentFence_tries 3 a c intent"

definition finishAttachmentMutation :: "'w Adapter \<Rightarrow> diskAttachmentIntent \<Rightarrow> mutationFence \<Rightarrow> error option
    \<Rightarrow> ('w, error option) prog" where
  "finishAttachmentMutation a intent fence mutationErr =
     (if is_opt ErrMutationBlocked mutationErr then do {
        d \<leftarrow> deleteMutationFenceDetached a fence;
        ret (case d of
               Some err \<Rightarrow> errors_join [mutationErr, Some (Wrap ''clear locally blocked disk attachment fence'' [err])]
             | None \<Rightarrow> mutationErr)
      }
      else do {
        readbackCtx \<leftarrow> attachmentReadbackContext a intent;
        r \<leftarrow> waitForFencedAttachment a readbackCtx intent fence;
        case r of
          Inl err \<Rightarrow> ret (Some (Wrap ''disk attachment outcome remains ambiguous behind durable fence'' [Sentinel ErrUnavailable]))
        | Inr resolvedFence \<Rightarrow>
            if fence_Key resolvedFence \<noteq> [] then do {
              d \<leftarrow> fenceDelete a readbackCtx resolvedFence;
              ret (case d of
                     Some err \<Rightarrow> Some (Wrap ''complete disk attachment fence'' [Sentinel ErrUnavailable])
                   | None \<Rightarrow> None)
            }
            else ret None
      })"

end
