(* ===== verification/Recovery_Termination.thy ===== *)
theory Recovery_Termination
  imports Recovery_Proofs
begin

text \<open>
  Every readback loop ends with its context. \<open>uncut t m\<close> says that \<open>m\<close>, started at time \<open>t\<close>, is
  never cut by the model's loop bound. The rules compose along programs; a loop is uncut when its
  context ends at \<open>e\<close> and the bound exceeds the nanoseconds from now to \<open>e\<close>, because each further
  round waits for a timer that fires before \<open>e\<close>. The recovery code runs its loops in detached
  contexts of the configured windows, so a bound above those windows (\<open>fuel_ok\<close>) is enough for all
  of them, whatever the caller's context.
\<close>

definition uncut :: "int \<Rightarrow> ('w, 'a) prog \<Rightarrow> bool" where
  "uncut t m \<longleftrightarrow> spec t m (\<lambda>_ es t'. t \<le> t' \<and> LoopCut \<notin> set es)"

definition fuel_ok :: "'w Adapter \<Rightarrow> bool" where
  "fuel_ok a = (0 < a_poll a \<and> nat (a_readback a) < a_fuel a \<and> nat (a_destructive a) < a_fuel a)"

named_theorems uncut_intros \<open>programs that are not cut\<close>

lemma uncut_bind [uncut_intros]:
  assumes "uncut t m" "\<And>x t'. t \<le> t' \<Longrightarrow> uncut t' (f x)"
  shows "uncut t (State_Monad.bind m f)"
  unfolding uncut_def
  by (rule spec_bind[OF assms(1)[unfolded uncut_def]])
     (rule spec_mono[OF assms(2)[unfolded uncut_def]], auto)

lemma uncut_return [uncut_intros]: "uncut t (ret x)"
  by (simp add: uncut_def spec_return)

lemma uncut_calls [uncut_intros]:
  "uncut t (GetDisk a c l u)" "uncut t (ListDisks a c l)" "uncut t (ListVMs a c l)" "uncut t (GetVM a c l u)"
  "uncut t (GetNetwork a c l u)" "uncut t (fenceGet a c k)" "uncut t (fenceList a c k)"
  "uncut t (fenceCreate a c f)" "uncut t (fenceSetReceipt a c f rc)" "uncut t (fenceSetObservation a c f v)"
  "uncut t (fenceDelete a c f)" "uncut t (CreateDisk a c l q)" "uncut t (DeleteDisk a c l u)"
  "uncut t (AttachDisk a c l x u)" "uncut t (DetachDisk a c l x u)" "uncut t (ResizeAttachedDisk a c l x u n)"
  unfolding uncut_def by (rule spec_mono[OF spec_of_calls(1)] spec_mono[OF spec_of_calls(2)]
    spec_mono[OF spec_of_calls(3)] spec_mono[OF spec_of_calls(4)] spec_mono[OF spec_of_calls(5)]
    spec_mono[OF spec_of_calls(6)] spec_mono[OF spec_of_calls(7)] spec_mono[OF spec_of_calls(8)]
    spec_mono[OF spec_of_calls(9)] spec_mono[OF spec_of_calls(10)] spec_mono[OF spec_of_calls(11)]
    spec_mono[OF spec_of_calls(12)] spec_mono[OF spec_of_calls(13)] spec_mono[OF spec_of_calls(14)]
    spec_mono[OF spec_of_calls(15)] spec_mono[OF spec_of_calls(16)], simp)+

lemma uncut_call: "(\<And>t r. ev t r \<noteq> LoopCut) \<Longrightarrow> uncut t (call f ev)"
  unfolding uncut_def by (rule spec_call) (simp add: eq_commute[of LoopCut])

lemma uncut_node_calls [uncut_intros]:
  "uncut t (call f1 (\<lambda>t. NProviderID n))" "uncut t (call f2 (\<lambda>t. NAuthorize q))" "uncut t (call f3 (\<lambda>t. LLock k))"
  by (simp_all add: uncut_call)

lemma uncut_wait [uncut_intros]: "uncut t (wait_timer c d)"
  unfolding uncut_def by (rule spec_wait_timer) simp

lemma uncut_now [uncut_intros]: "uncut t now"
  unfolding uncut_def by (rule spec_now) simp

lemma uncut_silent [uncut_intros]: "uncut t (call_silent f)"
  unfolding uncut_def by (rule spec_call_silent) simp

lemma uncut_unlock [uncut_intros]: "uncut t (unlockVM v)"
  unfolding uncut_def unlockVM_def by (rule spec_emit) simp

lemma uncut_structural [uncut_intros]:
  "(b \<Longrightarrow> uncut t m) \<Longrightarrow> (\<not> b \<Longrightarrow> uncut t n) \<Longrightarrow> uncut t (if b then m else n)"
  "(\<And>e. uncut t (f e)) \<Longrightarrow> (\<And>x. uncut t (g x)) \<Longrightarrow> uncut t (case r of Inl e \<Rightarrow> f e | Inr x \<Rightarrow> g x)"
  "uncut t m' \<Longrightarrow> (\<And>y. uncut t (h y)) \<Longrightarrow> uncut t (case q of None \<Rightarrow> m' | Some y \<Rightarrow> h y)"
  "(\<And>z w. uncut t (k z w)) \<Longrightarrow> uncut t (case p of (z, w) \<Rightarrow> k z w)"
  "uncut t m'' \<Longrightarrow> (\<And>i. uncut t (u i)) \<Longrightarrow> (\<And>j. uncut t (v j))
   \<Longrightarrow> uncut t (case s of NoStamp \<Rightarrow> m'' | At i \<Rightarrow> u i | BadStamp j \<Rightarrow> v j)"
  by (simp_all split: sum.split option.split prod.split stamp.split)

section \<open>Programs without loops\<close>

lemma uncut_getOwnedDisk [uncut_intros]: "uncut t (getOwnedDisk a c l u)"
  unfolding getOwnedDisk_def by (intro uncut_intros)

lemma uncut_getVPCVM [uncut_intros]: "uncut t (getVPCVM a c l u)"
  unfolding getVPCVM_def by (intro uncut_intros)

lemma uncut_getOwnedVM [uncut_intros]: "uncut t (getOwnedVM a c l u)"
  unfolding getOwnedVM_def Let_def by (intro uncut_intros)

lemma uncut_attached_loop [uncut_intros]: "uncut t (attached_loop a c l u ms v n us)"
proof (induction us arbitrary: v n t)
  case (Cons x us)
  then show ?case unfolding attached_loop.simps Let_def by (intro uncut_intros)
qed (simp add: uncut_return)

lemma uncut_attachedVM [uncut_intros]: "uncut t (attachedVM a c l u)"
  unfolding attachedVM_def by (intro uncut_intros)

lemma uncut_resolveVM [uncut_intros]: "uncut t (resolveVM a c l n)"
  unfolding resolveVM_def Let_def by (intro uncut_intros)

lemma uncut_GetVolume [uncut_intros]: "uncut t (GetVolume a c l n)"
  unfolding GetVolume_def by (intro uncut_intros)

lemma uncut_newMutationFence [uncut_intros]: "uncut t (newMutationFence a k i)"
  unfolding newMutationFence_def by (intro uncut_intros)

lemma uncut_contexts [uncut_intros]:
  "uncut t (mutationReadbackContext a)" "uncut t (destructiveReadbackContext a)"
  "uncut t (requireMutationDispatchReserve c)"
  "uncut t (waitMutationReadbackUntil c d)" "uncut t (waitMutationReadback c d)"
  unfolding mutationReadbackContext_def destructiveReadbackContext_def
    requireMutationDispatchReserve_def waitMutationReadbackUntil_def waitMutationReadback_def Let_def
  by (intro uncut_intros)+

lemma uncut_deleteMutationFenceDetached [uncut_intros]: "uncut t (deleteMutationFenceDetached a f)"
  unfolding deleteMutationFenceDetached_def by (intro uncut_intros)

lemma uncut_clearUndispatched [uncut_intros]: "uncut t (clearUndispatchedDiskCreateFence a f e)"
  unfolding clearUndispatchedDiskCreateFence_def by (intro uncut_intros)

lemma uncut_beginDiskCreateFence [uncut_intros]: "uncut t (beginDiskCreateFence a c i)"
  unfolding beginDiskCreateFence_def Let_def by (intro uncut_intros)

lemma uncut_completeFencedDisk [uncut_intros]: "uncut t (completeFencedDisk a c i f d)"
  unfolding completeFencedDisk_def by (intro uncut_intros)

lemma uncut_matchingDiskCreateFence [uncut_intros]: "uncut t (matchingDiskCreateFence a c l v d)"
  unfolding matchingDiskCreateFence_def by (intro uncut_intros)

lemma uncut_updateMutationObservation [uncut_intros]: "uncut t (updateMutationObservation a c f v)"
  unfolding updateMutationObservation_def by (intro uncut_intros)

lemma uncut_clearObservation [uncut_intros]: "uncut t (clearObservation a c f)"
  unfolding clearObservation_def by (intro uncut_intros)

lemma uncut_observeDetachState [uncut_intros]: "uncut t (observeDetachState a c i)"
  unfolding observeDetachState_def Let_def by (intro uncut_intros)

lemma uncut_beginAttachmentFence [uncut_intros]: "uncut t (beginAttachmentFence a c i)"
  unfolding beginAttachmentFence_def Let_def by (intro uncut_intros)

lemma uncut_lockVM [uncut_intros]: "uncut t (lockVM a c v)"
  unfolding lockVM_def Let_def by (intro uncut_intros)

section \<open>Rounds make progress\<close>

text \<open>A round that asks for another has let time pass and started before \<open>e\<close>.\<close>

definition progress :: "int \<Rightarrow> int \<Rightarrow> ('w, ('s, 'r) round) prog \<Rightarrow> bool" where
  "progress e t m \<longleftrightarrow> spec t m (\<lambda>x es t'. t \<le> t' \<and> LoopCut \<notin> set es
     \<and> (\<forall>s'. x = Continue s' \<longrightarrow> t < t' \<and> t < e))"

named_theorems progress_intros \<open>rounds that make progress\<close>

lemma progress_bind:
  assumes "uncut t m" "\<And>x t'. t \<le> t' \<Longrightarrow> progress e t' (f x)"
  shows "progress e t (State_Monad.bind m f)"
  unfolding progress_def
  by (rule spec_bind[OF assms(1)[unfolded uncut_def]])
     (rule spec_mono[OF assms(2)[unfolded progress_def]], fastforce+)

lemma progress_Return [progress_intros]: "progress e t (ret (Return r))"
  by (simp add: progress_def spec_return)

lemma progress_wait_any:
  assumes "ctx_end c = Some e" "0 < d" "\<And>err t'. progress e t' (f (Some err))" "\<And>t'. uncut t' (f None)"
  shows "progress e t (State_Monad.bind (wait_timer c d) f)"
proof -
  have "spec t' (f x) (\<lambda>y es' t''. t \<le> t'' \<and> LoopCut \<notin> set es' \<and> (\<forall>s'. y = Continue s' \<longrightarrow> t < t'' \<and> t < e))"
    if "t \<le> t' \<and> (x = None \<longrightarrow> t < t' \<and> t < e)" for x t'
    using that by (cases x)
      (auto intro!: spec_mono[OF assms(3)[unfolded progress_def]] spec_mono[OF assms(4)[unfolded uncut_def]])
  then show ?thesis
    unfolding progress_def
    by (intro spec_bind[OF spec_wait_timer_full]) (use assms(1,2) in auto)
qed

lemma progress_bind_now: "progress e t (f t) \<Longrightarrow> progress e t (State_Monad.bind now f)"
  unfolding progress_def by (rule spec_bind_now)

lemma progress_until_any:
  assumes "ctx_end c = Some e" "t < d" "\<And>err t'. progress e t' (f (Some err))" "\<And>t'. uncut t' (f None)"
  shows "progress e t (State_Monad.bind (waitMutationReadbackUntil c d) f)"
proof -
  have "waitMutationReadbackUntil c d \<bind> f
      = now \<bind> (\<lambda>t. (if d - t \<le> 0 then ret None else wait_timer c (d - t)) \<bind> f)"
    by (simp add: waitMutationReadbackUntil_def Let_def)
  with assms show ?thesis by (auto intro!: progress_bind_now progress_wait_any)
qed

text \<open>The two shapes in which the code looks at the outcome of a wait.\<close>

lemma progress_wait [progress_intros]:
  assumes "ctx_end c = Some e"
  shows "0 < d \<Longrightarrow> (\<And>err t'. progress e t' (g err)) \<Longrightarrow> (\<And>t'. uncut t' m)
      \<Longrightarrow> progress e t (State_Monad.bind (wait_timer c d) (\<lambda>w. case w of None \<Rightarrow> m | Some err \<Rightarrow> g err))"
    and "0 < d \<Longrightarrow> progress e t (State_Monad.bind (wait_timer c d)
            (\<lambda>w. ret (case w of None \<Rightarrow> x | Some err \<Rightarrow> Return (r err))))"
    and "0 < d \<Longrightarrow> progress e t (State_Monad.bind (waitMutationReadback c d)
            (\<lambda>w. ret (case w of None \<Rightarrow> x | Some err \<Rightarrow> Return (r err))))"
    and "t < d \<Longrightarrow> progress e t (State_Monad.bind (waitMutationReadbackUntil c d)
            (\<lambda>w. ret (case w of None \<Rightarrow> x | Some err \<Rightarrow> Return (r err))))"
  unfolding waitMutationReadback_def
  by (rule progress_wait_any[OF assms] progress_until_any[OF assms];
      simp add: uncut_return progress_Return)+

lemma progress_structural [progress_intros]:
  "(b \<Longrightarrow> progress e t m) \<Longrightarrow> (\<not> b \<Longrightarrow> progress e t n) \<Longrightarrow> progress e t (if b then m else n)"
  "(\<And>e'. progress e t (f e')) \<Longrightarrow> (\<And>x. progress e t (g x)) \<Longrightarrow> progress e t (case r of Inl e' \<Rightarrow> f e' | Inr x \<Rightarrow> g x)"
  "progress e t m' \<Longrightarrow> (\<And>y. progress e t (h y)) \<Longrightarrow> progress e t (case q of None \<Rightarrow> m' | Some y \<Rightarrow> h y)"
  "(\<And>z w. progress e t (k z w)) \<Longrightarrow> progress e t (case p of (z, w) \<Rightarrow> k z w)"
  "progress e t m'' \<Longrightarrow> (\<And>i. progress e t (u i)) \<Longrightarrow> (\<And>j. progress e t (v j))
   \<Longrightarrow> progress e t (case s of NoStamp \<Rightarrow> m'' | At i \<Rightarrow> u i | BadStamp j \<Rightarrow> v j)"
  by (simp_all split: sum.split option.split prod.split stamp.split)

lemma uncut_loop:
  assumes "\<And>s t. nat (e - t) < a_fuel a \<Longrightarrow> progress e t (body s)" "nat (e - t) < a_fuel a"
  shows "uncut t (loop (a_fuel a) body s)"
  unfolding uncut_def
  by (rule spec_loop_uncut[OF assms(1)[unfolded progress_def] assms(2)]) auto

section \<open>The readback loops\<close>

lemma uncut_waitForDiskReady:
  assumes "ctx_end c = Some e" "0 < a_poll a" "nat (e - t) < a_fuel a"
  shows "uncut t (waitForDiskReady a c i d)"
  unfolding waitForDiskReady_def waitForDiskReady_round_def Let_def
  by (rule uncut_loop[OF _ assms(3)]) (intro progress_intros uncut_intros assms(1,2))

lemma progress_recordAbsence [progress_intros]:
  assumes "ctx_end c = Some e" "0 < a_poll a"
  shows "progress e t (recordAbsence a c k w f ob)"
  unfolding recordAbsence_def Let_def
  by (rule progress_bind_now) (intro progress_intros progress_bind uncut_intros assms | assumption)+

lemma uncut_waitForDiskAbsent:
  assumes "ctx_end c = Some e" "0 < a_poll a" "nat (e - t) < a_fuel a"
  shows "uncut t (waitForDiskAbsent a c l v f)"
  unfolding waitForDiskAbsent_def waitForDiskAbsent_round_def
  by (rule uncut_loop[OF _ assms(3)]) (intro progress_intros progress_bind uncut_intros assms(1,2) | assumption)+

lemma uncut_waitForDetached:
  assumes "ctx_end c = Some e" "0 < a_poll a" "nat (e - t) < a_fuel a"
  shows "uncut t (waitForDetached a c i f)"
  unfolding waitForDetached_def waitForDetached_round_def
  by (rule uncut_loop[OF _ assms(3)]) (intro progress_intros progress_bind uncut_intros assms(1,2) | assumption)+

lemma uncut_waitForAttachment:
  assumes "ctx_end c = Some e" "0 < a_poll a" "nat (e - t) < a_fuel a"
  shows "uncut t (waitForAttachment a c l v d tr)"
  unfolding waitForAttachment_def waitForAttachment_round_def
  by (rule uncut_loop[OF _ assms(3)]) (intro progress_intros progress_bind uncut_intros assms(1,2) | assumption)+

lemma uncut_finishFencedDisk:
  assumes "ctx_end c = Some e" "0 < a_poll a" "nat (e - t) < a_fuel a"
  shows "uncut t (finishFencedDisk a c i f d)" "uncut t (finishUndispatchedFencedDisk a c i f d)"
  unfolding finishFencedDisk_def finishUndispatchedFencedDisk_def
  by (intro uncut_intros uncut_waitForDiskReady[OF assms])+

lemma uncut_reconcileDiskCreateFence:
  assumes "ctx_end c = Some e" "0 < a_poll a" "nat (e - t) < a_fuel a"
  shows "uncut t (reconcileDiskCreateFence a c i f err)"
proof -
  have "progress e t (reconcileDiskCreateFence_round a c i f s)" if "nat (e - t) < a_fuel a" for t s
    unfolding reconcileDiskCreateFence_round_def
    by (intro progress_intros progress_bind uncut_intros uncut_finishFencedDisk[OF assms(1,2)] assms(1,2))
       (use that in linarith)
  then show ?thesis
    unfolding reconcileDiskCreateFence_def by (intro uncut_intros uncut_loop[OF _ assms(3)])
qed

lemma uncut_waitForFencedAttachment:
  assumes "ctx_end c = Some e" "0 < a_poll a" "nat (e - t) < a_fuel a"
  shows "uncut t (waitForFencedAttachment a c i f)"
  unfolding waitForFencedAttachment_def
  by (intro uncut_intros uncut_waitForAttachment[OF assms] uncut_waitForDetached[OF assms])

section \<open>Detached windows\<close>

lemma uncut_bind_contexts [uncut_intros]:
  assumes "fuel_ok a"
  shows "(\<And>c. ctx_end c = Some (t + a_readback a) \<Longrightarrow> nat (t + a_readback a - t) < a_fuel a \<Longrightarrow> uncut t (f c))
      \<Longrightarrow> uncut t (State_Monad.bind (mutationReadbackContext a) f)"
    and "(\<And>c. ctx_end c = Some (t + a_destructive a) \<Longrightarrow> nat (t + a_destructive a - t) < a_fuel a \<Longrightarrow> uncut t (f c))
      \<Longrightarrow> uncut t (State_Monad.bind (destructiveReadbackContext a) f)"
    and "(\<And>c e. ctx_end c = Some e \<Longrightarrow> nat (e - t) < a_fuel a \<Longrightarrow> uncut t (f c))
      \<Longrightarrow> uncut t (State_Monad.bind (attachmentReadbackContext a i) f)"
  using assms
  by (auto simp: mutationReadbackContext_def destructiveReadbackContext_def attachmentReadbackContext_def
        uncut_def fuel_ok_def intro!: spec_rules)

lemma uncut_settleExistingAttachmentFence [uncut_intros]:
  assumes "fuel_ok a"
  shows "uncut t (settleExistingAttachmentFence a c i)"
  using assms unfolding settleExistingAttachmentFence_def fuel_ok_def
  by (intro uncut_intros uncut_bind_contexts(3)[OF assms] uncut_waitForFencedAttachment; (assumption | simp))

lemma uncut_diskDeleteFence_tries [uncut_intros]:
  assumes "fuel_ok a"
  shows "uncut t (diskDeleteFence_tries n a c k i)"
proof (induction n arbitrary: t)
  case (Suc n)
  then show ?case unfolding diskDeleteFence_tries.simps by (intro uncut_intros assms)
qed (simp add: uncut_return)

lemma uncut_prepareDiskDeleteFence [uncut_intros]: "fuel_ok a \<Longrightarrow> uncut t (prepareDiskDeleteFence a c l u)"
  unfolding prepareDiskDeleteFence_def by (intro uncut_intros)

lemma uncut_prepareAttachmentFence_tries [uncut_intros]:
  assumes "fuel_ok a"
  shows "uncut t (prepareAttachmentFence_tries n a c i)"
proof (induction n arbitrary: t)
  case (Suc n)
  then show ?case unfolding prepareAttachmentFence_tries.simps by (intro uncut_intros assms)
qed (simp add: uncut_return)

lemma uncut_prepareAttachmentFence [uncut_intros]: "fuel_ok a \<Longrightarrow> uncut t (prepareAttachmentFence a c i)"
  unfolding prepareAttachmentFence_def by (intro uncut_intros)

lemma uncut_finishAttachmentMutation [uncut_intros]:
  assumes "fuel_ok a"
  shows "uncut t (finishAttachmentMutation a i f err)"
  using assms unfolding finishAttachmentMutation_def fuel_ok_def
  by (intro uncut_intros uncut_bind_contexts(3)[OF assms] uncut_waitForFencedAttachment; (assumption | simp))

end
