(* ===== verification/Detach_Request.thy ===== *)
theory Detach_Request
  imports Adapter_Reads
begin

text \<open>
  What a request to detach a disk from the VM of a missing Kubernetes Node must satisfy
  (\<^verbatim>\<open>csi-driver/pkg/cloud/inspace/kubernetes_detach_authority.go\<close>): canonical cloud identity and a
  strict v3 ownership record in the VM description that derives exactly this Node name and binds
  this VPC and billing account.
\<close>

definition max_label :: "nat \<Rightarrow> (char \<Rightarrow> bool) \<Rightarrow> string \<Rightarrow> bool" where
  "max_label n inner s = (s \<noteq> [] \<and> length s \<le> n \<and> is_alnum_lower (hd s) \<and> is_alnum_lower (last s) \<and> list_all inner s)"

text \<open>\<^verbatim>\<open>^[a-z0-9](?:[-a-z0-9.]{0,251}[a-z0-9])?$\<close>\<close>

definition nodeNamePattern :: "string \<Rightarrow> bool" where
  "nodeNamePattern s = max_label 253 (\<lambda>c. is_alnum_lower c \<or> is_dash c \<or> c = CHR ''.'') s"

definition missingNodeDNSLabelPattern :: "string \<Rightarrow> bool" where
  "missingNodeDNSLabelPattern s = location_ok s"

definition missingNodeHex32Pattern :: "string \<Rightarrow> bool" where
  "missingNodeHex32Pattern s = match_classes (replicate 32 is_hex_lower) s"

definition missingNodeHex64Pattern :: "string \<Rightarrow> bool" where
  "missingNodeHex64Pattern s = match_classes (replicate 64 is_hex_lower) s"

definition maxMissingNodeDescriptionBytes :: nat where
  "maxMissingNodeDescriptionBytes = 65536"

definition validateMissingNodeOwnership ::
  "missingNodeOwnershipRecord \<Rightarrow> missingNodeDetachRequest \<Rightarrow> error option" where
  "validateMissingNodeOwnership ownership request =
     (if own_Schema ownership \<noteq> ''karpenter.inspace.cloud/v3''
      then Some (Plain ''VM ownership schema is not strict v3'')
      else if \<not> missingNodeDNSLabelPattern (own_Cluster ownership) \<or> \<not> missingNodeDNSLabelPattern (own_NodeClaim ownership)
      then Some (Plain ''VM ownership cluster or NodeClaim is not a canonical DNS-1123 label'')
      else if own_VMName ownership \<noteq> md_NodeName request
        \<or> own_Cluster ownership @ ''-karp-'' @ own_NodeClaim ownership \<noteq> md_NodeName request
      then Some (Plain ''VM ownership does not derive the exact missing Node name'')
      else if \<not> missingNodeHex32Pattern (own_KeyHash ownership) \<or> \<not> missingNodeHex32Pattern (own_SpecHash ownership)
        \<or> \<not> missingNodeHex32Pattern (own_BootstrapHash ownership)
      then Some (Plain ''VM ownership hash identity is malformed'')
      else if own_HostClass ownership = [] \<or> own_InstanceType ownership = [] \<or> own_VCPU ownership \<le> 0
        \<or> own_MemoryGiB ownership \<le> 0 \<or> own_RootDiskGiB ownership \<le> 0 \<or> own_OSName ownership = []
        \<or> own_OSVersion ownership = [] \<or> own_FloatingIPName ownership = []
      then Some (Plain ''VM ownership launch identity is incomplete'')
      else if own_HostPoolUUID ownership \<noteq> ToLower (TrimSpace (own_HostPoolUUID ownership))
        \<or> \<not> uuid_lower (own_HostPoolUUID ownership)
      then Some (Plain ''VM ownership host-pool UUID is not canonical'')
      else if own_FirewallUUID ownership \<noteq> ToLower (own_FirewallUUID ownership) \<or> \<not> uuid_lower (own_FirewallUUID ownership)
      then Some (Plain ''VM ownership firewall UUID is not canonical'')
      else if own_NetworkUUID ownership \<noteq> md_NetworkUUID request \<or> own_BillingAccountID ownership \<noteq> md_BillingAccountID request
      then Some (Plain ''VM ownership account or configured-VPC identity differs'')
      else if own_ControlPlaneVIP ownership = [] \<or> own_PrivateLoadBalancerPoolStart ownership = []
        \<or> own_PrivateLoadBalancerPoolStop ownership = []
      then Some (Plain ''VM ownership cluster network identity is incomplete'')
      else if own_PublicIPv4 ownership \<noteq> []
      then Some (Plain ''strict v3 VM ownership unexpectedly records mutable public IPv4 state'')
      else if own_FirewallProfile ownership = ''private-worker''
      then (if own_NodePool ownership \<noteq> []
            then Some (Plain ''private-worker ownership unexpectedly carries a NodePool cleanup identity'') else None)
      else if own_FirewallProfile ownership = ''public-node-load-balancer'' \<or> own_FirewallProfile ownership = ''public-node-local''
      then (if own_NodePool ownership = []
            then Some (Plain ''public worker ownership lacks its NodePool identity'') else None)
      else Some (Plain ''unsupported VM ownership firewall profile''))"

definition canonical_uuid :: "string \<Rightarrow> bool" where
  "canonical_uuid u = (u = ToLower (TrimSpace u) \<and> uuid_lower u)"

definition validateMissingNodeDetachRequest :: "(string \<Rightarrow> error + missingNodeOwnershipRecord)
    \<Rightarrow> missingNodeDetachRequest \<Rightarrow> error + missingNodeOwnershipRecord" where
  "validateMissingNodeDetachRequest decode request =
     (if \<not> nodeNamePattern (md_NodeName request) then Inl (Plain ''invalid missing Kubernetes Node name'')
      else if md_Location request \<noteq> ToLower (TrimSpace (md_Location request)) \<or> \<not> location_ok (md_Location request)
      then Inl (Plain ''non-canonical InSpace location'')
      else if \<not> canonical_uuid (md_VMUUID request) then Inl (Plain ''non-canonical attached VM UUID'')
      else if \<not> canonical_uuid (md_DiskUUID request) then Inl (Plain ''non-canonical attached disk UUID'')
      else if \<not> canonical_uuid (md_NetworkUUID request) then Inl (Plain ''non-canonical configured network UUID'')
      else if md_BillingAccountID request \<le> 0 then Inl (Plain ''configured billing account ID must be positive'')
      else if md_VMName request \<noteq> md_NodeName request \<or> md_VMHostname request \<noteq> md_NodeName request
      then Inl (Plain ''exact VM name and guest hostname must both equal the missing Node name'')
      else if md_VMDescription request = [] \<or> length (md_VMDescription request) > maxMissingNodeDescriptionBytes
      then Inl (Plain ''VM ownership description is empty or oversized'')
      else (case decode (md_VMDescription request) of
          Inl err \<Rightarrow> Inl (Wrap ''decode VM ownership'' [err])
        | Inr ownership \<Rightarrow>
            (case validateMissingNodeOwnership ownership request of
               Some err \<Rightarrow> Inl err
             | None \<Rightarrow> Inr ownership)))"

text \<open>The cluster and the NodeClaim are determined by the Node name up to where it is cut.\<close>

lemma validateMissingNodeDetachRequest_binds:
  assumes "validateMissingNodeDetachRequest decode request = Inr ownership"
  shows "decode (md_VMDescription request) = Inr ownership
    \<and> own_Cluster ownership @ ''-karp-'' @ own_NodeClaim ownership = md_NodeName request
    \<and> own_VMName ownership = md_NodeName request \<and> md_VMName request = md_NodeName request
    \<and> md_VMHostname request = md_NodeName request
    \<and> own_NetworkUUID ownership = md_NetworkUUID request
    \<and> own_BillingAccountID ownership = md_BillingAccountID request \<and> 0 < md_BillingAccountID request
    \<and> uuid_lower (md_VMUUID request) \<and> uuid_lower (md_DiskUUID request)"
  using assms
  by (auto simp: validateMissingNodeDetachRequest_def validateMissingNodeOwnership_def canonical_uuid_def
        split: if_splits sum.splits option.splits)

end
