(* ===== verification/Adapter.thy ===== *)
theory Adapter
  imports Recovery_Termination Detach_Request
begin

text \<open>
  The five mutations of the CSI adapter (\<^verbatim>\<open>adapter.go\<close>, \<^verbatim>\<open>expand.go\<close>): \<open>EnsureVolume\<close>,
  \<open>DeleteVolume\<close>, \<open>AttachVolume\<close>, \<open>DetachVolume\<close> and \<open>ExpandVolume\<close>. A Go function whose second
  part runs under the VM lock (\<^verbatim>\<open>defer unlockVM()\<close>) or after the decision to issue the mutation is
  split there into two definitions.
\<close>

section \<open>Clearing a fence before dispatch\<close>

text \<open>
  \<^verbatim>\<open>errors.Join(err, fmt.Errorf("clear \<dots> fence: %w", deleteErr))\<close> and
  \<^verbatim>\<open>errors.Join(err, deleteErr)\<close>, or the error alone when the fence is gone.
\<close>

definition clearUnissued :: "'w Adapter \<Rightarrow> mutationFence \<Rightarrow> error \<Rightarrow> ('w, error option) prog" where
  "clearUnissued a fence err = do {
     d \<leftarrow> deleteMutationFenceDetached a fence;
     ret (Some (case d of Some e \<Rightarrow> errors_join2 err (Wrap ''clear unissued fence'' [e]) | None \<Rightarrow> err))
   }"

definition clearUnissuedPlain :: "'w Adapter \<Rightarrow> mutationFence \<Rightarrow> error \<Rightarrow> ('w, error option) prog" where
  "clearUnissuedPlain a fence err = do {
     d \<leftarrow> deleteMutationFenceDetached a fence;
     ret (Some (case d of Some e \<Rightarrow> errors_join2 err e | None \<Rightarrow> err))
   }"

section \<open>EnsureVolume\<close>

definition adoptExistingDisk :: "'w Adapter \<Rightarrow> ctx \<Rightarrow> VolumeSpec \<Rightarrow> diskCreateIntent \<Rightarrow> Disk \<Rightarrow> ('w, error + Volume) prog" where
  "adoptExistingDisk a c spc intent existing =
     (case validateDiskCreateReadback existing intent of
        Some err \<Rightarrow> ret (Inl err)
      | None \<Rightarrow> do {
          w \<leftarrow> waitForDiskReady a c intent existing;
          case w of
            Inl err \<Rightarrow> ret (Inl err)
          | Inr ready \<Rightarrow> do {
              g \<leftarrow> fenceGet a c (diskCreateFenceKey a (ci_Location intent) (ci_Name intent));
              case g of
                Inl fenceErr \<Rightarrow> ret (Inl fenceErr)
              | Inr None \<Rightarrow> ret (diskVolume (spec_Location spc) ready)
              | Inr (Some fence) \<Rightarrow>
                  (case decodeCreateIntent fence of
                     Inl decodeErr \<Rightarrow> ret (Inl (Joined [decodeErr, Wrap ''same-named disk does not match its durable create fence'' [Sentinel ErrIncompatibleVolume]]))
                   | Inr stored \<Rightarrow>
                     if stored \<noteq> intent
                     then ret (Inl (Joined [Wrap ''same-named disk does not match its durable create fence'' [Sentinel ErrIncompatibleVolume]]))
                     else do {
                       r \<leftarrow> fenceSetReceipt a c fence (ToLower (disk_UUID ready));
                       case r of
                         Inl receiptErr \<Rightarrow> ret (Inl (Wrap ''persist canonical disk-create receipt'' [Sentinel ErrUnavailable]))
                       | Inr None \<Rightarrow> ret (Inl nil_deref)
                       | Inr (Some canonical) \<Rightarrow> do {
                           d \<leftarrow> fenceDelete a c canonical;
                           case d of
                             Some deleteErr \<Rightarrow> ret (Inl (Wrap ''complete disk-create fence'' [Sentinel ErrUnavailable]))
                           | None \<Rightarrow> ret (diskVolume (spec_Location spc) ready)
                         }
                     })
            }
        })"

definition createDiskRequest :: "'w Adapter \<Rightarrow> VolumeSpec \<Rightarrow> int \<Rightarrow> CreateDiskRequest" where
  "createDiskRequest a spc sizeGiB = \<lparr>cdr_DisplayName = spec_Name spc, cdr_SizeGiB = sizeGiB,
     cdr_BillingAccountID = a_billing a, cdr_SourceImageType = ''EMPTY'', cdr_SourceImage = []\<rparr>"

definition issueCreateDisk :: "'w Adapter \<Rightarrow> ctx \<Rightarrow> VolumeSpec \<Rightarrow> diskCreateIntent \<Rightarrow> mutationFence \<Rightarrow> ('w, error + Volume) prog" where
  "issueCreateDisk a c spc intent fence = do {
     l \<leftarrow> ListDisks a c (spec_Location spc);
     case l of
       Inl postFenceErr \<Rightarrow> do {
         e \<leftarrow> clearUndispatchedDiskCreateFence a fence
               (Wrap ''post-fence disk-create authority is unavailable behind durable fence'' [Sentinel ErrUnavailable]);
         ret (Inl e)
       }
     | Inr postFenceDisks \<Rightarrow>
         (case uniqueNamedDisk postFenceDisks (spec_Name spc) of
            Inl findErr \<Rightarrow> do { e \<leftarrow> clearUndispatchedDiskCreateFence a fence findErr; ret (Inl e) }
          | Inr (Some existing) \<Rightarrow> do {
              readbackCtx \<leftarrow> mutationReadbackContext a;
              finishUndispatchedFencedDisk a readbackCtx intent fence existing
            }
          | Inr None \<Rightarrow> do {
              q \<leftarrow> requireMutationDispatchReserve c;
              case q of
                Some reserveErr \<Rightarrow> do { e \<leftarrow> clearUndispatchedDiskCreateFence a fence reserveErr; ret (Inl e) }
              | None \<Rightarrow> do {
                  r \<leftarrow> CreateDisk a c (spec_Location spc) (createDiskRequest a spc (ci_SizeGiB intent));
                  readbackCtx \<leftarrow> mutationReadbackContext a;
                  let createErr = (case r of Inl e \<Rightarrow> Some e | Inr _ \<Rightarrow> None);
                  if is_opt ErrMutationBlocked createErr then do {
                    d \<leftarrow> deleteMutationFenceDetached a fence;
                    ret (Inl (case (createErr, d) of
                        (Some e, Some deleteErr) \<Rightarrow> errors_join2 e (Wrap ''clear locally blocked disk-create fence'' [deleteErr])
                      | (Some e, None) \<Rightarrow> e
                      | (None, _) \<Rightarrow> nil_deref))
                  }
                  else reconcileDiskCreateFence a readbackCtx intent fence
                         (case r of
                            Inl e \<Rightarrow> Some e
                          | Inr None \<Rightarrow> Some (Plain ''InSpace API returned an empty create-disk response'')
                          | Inr (Some _) \<Rightarrow> None)
                }
            })
   }"

definition EnsureVolume :: "'w Adapter \<Rightarrow> ctx \<Rightarrow> VolumeSpec \<Rightarrow> ('w, error + Volume) prog" where
  "EnsureVolume a c spc =
     (case bytesToGiB (spec_CapacityBytes spc) of
        Inl err \<Rightarrow> ret (Inl err)
      | Inr sizeGiB \<Rightarrow>
          let intent = \<lparr>ci_Operation = ''create-disk'', ci_Location = spec_Location spc, ci_Name = spec_Name spc,
                 ci_SizeGiB = sizeGiB, ci_BillingAccountID = a_billing a\<rparr>
          in do {
            l \<leftarrow> ListDisks a c (spec_Location spc);
            case l of
              Inl err \<Rightarrow> ret (Inl (normalizeAPIError err))
            | Inr disks \<Rightarrow>
                (case uniqueNamedDisk disks (spec_Name spc) of
                   Inl err \<Rightarrow> ret (Inl err)
                 | Inr (Some existing) \<Rightarrow> adoptExistingDisk a c spc intent existing
                 | Inr None \<Rightarrow> do {
                     b \<leftarrow> beginDiskCreateFence a c intent;
                     case b of
                       Inl err \<Rightarrow> ret (Inl err)
                     | Inr (fence, acquired) \<Rightarrow>
                         if \<not> acquired then do {
                           readbackCtx \<leftarrow> mutationReadbackContext a;
                           reconcileDiskCreateFence a readbackCtx intent fence
                             (Some (Plain ''a previous disk-create attempt remains unresolved''))
                         }
                         else issueCreateDisk a c spc intent fence
                   })
          })"

section \<open>DeleteVolume\<close>

text \<open>The end of both deletion paths: the absence proof, then the matching create fence, then this fence.\<close>

definition finishDeletion :: "'w Adapter \<Rightarrow> ctx \<Rightarrow> string \<Rightarrow> string \<Rightarrow> mutationFence \<Rightarrow> mutationFence option
    \<Rightarrow> ('w, error option) prog" where
  "finishDeletion a readbackCtx location volumeID deleteFence createFence = do {
     r \<leftarrow> waitForDiskAbsent a readbackCtx location volumeID deleteFence;
     case r of
       Inl err \<Rightarrow> ret (Some (Wrap ''disk deletion remains ambiguous behind durable fence'' [Sentinel ErrUnavailable]))
     | Inr resolvedFence \<Rightarrow> do {
         d \<leftarrow> (case createFence of None \<Rightarrow> ret None | Some f \<Rightarrow> fenceDelete a readbackCtx f);
         case d of
           Some err \<Rightarrow> ret (Some (Wrap ''complete matching disk-create fence after deletion'' [Sentinel ErrUnavailable]))
         | None \<Rightarrow> do {
             d' \<leftarrow> fenceDelete a readbackCtx resolvedFence;
             ret (case d' of
                    Some err \<Rightarrow> Some (Wrap ''complete disk-delete fence after absence proof'' [Sentinel ErrUnavailable])
                  | None \<Rightarrow> None)
           }
       }
   }"

text \<open>The disk has snapshots: \<^verbatim>\<open>len(disk.Snapshots) != 0\<close>, nil counting as empty.\<close>

definition hasSnapshots :: "Disk \<Rightarrow> bool" where
  "hasSnapshots disk = (case disk_Snapshots disk of None \<Rightarrow> False | Some l \<Rightarrow> l \<noteq> [])"

definition issueDeleteDisk :: "'w Adapter \<Rightarrow> ctx \<Rightarrow> string \<Rightarrow> string \<Rightarrow> mutationFence \<Rightarrow> mutationFence option \<Rightarrow> Disk
    \<Rightarrow> ('w, error option) prog" where
  "issueDeleteDisk a c location volumeID deleteFence createFence disk =
     (let snapshotErr = Wrap ''disk has snapshot(s)'' [Sentinel ErrSnapshotsPresent];
          attachedErr = Wrap [] [Sentinel ErrVolumeAttachedElsewhere]
      in if hasSnapshots disk then clearUnissuedPlain a deleteFence snapshotErr
      else do {
        v \<leftarrow> attachedVM a c location volumeID;
        case v of
          Inl err \<Rightarrow> clearUnissued a deleteFence err
        | Inr vm \<Rightarrow>
            if vm \<noteq> [] then clearUnissuedPlain a deleteFence attachedErr
            else do {
              f \<leftarrow> getOwnedDisk a c location volumeID;
              case f of
                Inl err \<Rightarrow> clearUnissued a deleteFence err
              | Inr freshDisk \<Rightarrow>
                  (case requireExactDiskSnapshotCollection freshDisk volumeID of
                     Some relationErr \<Rightarrow> clearUnissued a deleteFence relationErr
                   | None \<Rightarrow>
                     if hasSnapshots freshDisk then clearUnissuedPlain a deleteFence snapshotErr
                     else do {
                       v' \<leftarrow> attachedVM a c location volumeID;
                       case v' of
                         Inl err \<Rightarrow> clearUnissued a deleteFence err
                       | Inr vm' \<Rightarrow>
                           if vm' \<noteq> [] then clearUnissuedPlain a deleteFence attachedErr
                           else do {
                             q \<leftarrow> requireMutationDispatchReserve c;
                             case q of
                               Some reserveErr \<Rightarrow> clearUnissued a deleteFence reserveErr
                             | None \<Rightarrow> do {
                                 mutationErr \<leftarrow> DeleteDisk a c location volumeID;
                                 case mutationErr of
                                   Some err \<Rightarrow>
                                     if errors_is ErrMutationBlocked err then clearUnissued a deleteFence err
                                     else do {
                                       postMutationCtx \<leftarrow> destructiveReadbackContext a;
                                       finishDeletion a postMutationCtx location volumeID deleteFence createFence
                                     }
                                 | None \<Rightarrow> do {
                                     postMutationCtx \<leftarrow> destructiveReadbackContext a;
                                     finishDeletion a postMutationCtx location volumeID deleteFence createFence
                                   }
                               }
                           }
                     })
            }
      })"

text \<open>Clear only a fence this call acquired.\<close>

definition clearIfIssued :: "'w Adapter \<Rightarrow> bool \<Rightarrow> mutationFence \<Rightarrow> error \<Rightarrow> ('w, error option) prog" where
  "clearIfIssued a issueDelete fence err =
     (if issueDelete then clearUnissued a fence err else ret (Some err))"

definition clearIfIssuedPlain :: "'w Adapter \<Rightarrow> bool \<Rightarrow> mutationFence \<Rightarrow> error \<Rightarrow> ('w, error option) prog" where
  "clearIfIssuedPlain a issueDelete fence err =
     (if issueDelete then clearUnissuedPlain a fence err else ret (Some err))"

text \<open>The checks on the disk that was read: \<open>None\<close> when deletion may go on.\<close>

definition deletableDisk :: "'w Adapter \<Rightarrow> bool \<Rightarrow> Disk \<Rightarrow> string \<Rightarrow> error option" where
  "deletableDisk a issueDelete disk volumeID =
     (case validateExactDisk disk volumeID (a_billing a) of
        Some err \<Rightarrow> Some err
      | None \<Rightarrow>
        if issueDelete \<and> \<not> diskDeletedTombstone disk then
          (case validateCSIMutableDisk disk volumeID (a_billing a) of
             Some err \<Rightarrow> Some err
           | None \<Rightarrow> requireExactDiskSnapshotCollection disk volumeID)
        else None)"

text \<open>Everything after the fence was prepared; \<open>issueDelete\<close> says it is this call's.\<close>

definition deleteFenced :: "'w Adapter \<Rightarrow> ctx \<Rightarrow> string \<Rightarrow> string \<Rightarrow> mutationFence \<Rightarrow> bool \<Rightarrow> ('w, error option) prog" where
  "deleteFenced a c location volumeID deleteFence issueDelete = do {
     g \<leftarrow> GetDisk a c location volumeID;
     let missing = (case g of Inl err \<Rightarrow> IsNotFound (Some err) | Inr _ \<Rightarrow> False);
     let disk = (case g of Inl _ \<Rightarrow> None | Inr d \<Rightarrow> d);
     let failed = (case g of
                     Inl err \<Rightarrow> if IsNotFound (Some err) then None else Some (normalizeAPIError err)
                   | Inr _ \<Rightarrow> None);
     let checked = (case disk of None \<Rightarrow> None | Some d \<Rightarrow> deletableDisk a issueDelete d volumeID);
     let deletedTombstone = (case disk of None \<Rightarrow> False | Some d \<Rightarrow> diskDeletedTombstone d);
     case failed of
       Some err \<Rightarrow> clearIfIssued a issueDelete deleteFence err
     | None \<Rightarrow>
         if \<not> missing \<and> disk = None
         then clearIfIssuedPlain a issueDelete deleteFence (Plain ''InSpace API returned an empty disk response'')
         else (case checked of
             Some err \<Rightarrow> clearIfIssued a issueDelete deleteFence err
           | None \<Rightarrow> do {
               m \<leftarrow> matchingDiskCreateFence a c location volumeID disk;
               case m of
                 Inl err \<Rightarrow> clearIfIssued a issueDelete deleteFence err
               | Inr createFence \<Rightarrow> do {
                   readbackCtx \<leftarrow> destructiveReadbackContext a;
                   if missing \<or> deletedTombstone \<or> \<not> issueDelete then do {
                     e \<leftarrow> finishDeletion a readbackCtx location volumeID deleteFence createFence;
                     ret (case e of Some err \<Rightarrow> Some err | None \<Rightarrow> if missing then Some (Sentinel ErrNotFound) else None)
                   }
                   else (case disk of
                       None \<Rightarrow> ret (Some nil_deref)
                     | Some d \<Rightarrow> issueDeleteDisk a c location volumeID deleteFence createFence d)
                 }
             })
   }"

definition DeleteVolume :: "'w Adapter \<Rightarrow> ctx \<Rightarrow> string \<Rightarrow> string \<Rightarrow> ('w, error option) prog" where
  "DeleteVolume a c location volumeID = do {
     p \<leftarrow> prepareDiskDeleteFence a c location volumeID;
     case p of
       Inl err \<Rightarrow> ret (Some err)
     | Inr (deleteFence, issueDelete) \<Rightarrow> deleteFenced a c location volumeID deleteFence issueDelete
   }"

section \<open>AttachVolume\<close>

definition attachLocked :: "'w Adapter \<Rightarrow> ctx \<Rightarrow> string \<Rightarrow> string \<Rightarrow> string \<Rightarrow> ('w, error option) prog" where
  "attachLocked a c location volumeID vmUUID =
     (let intent = \<lparr>ai_Operation = ''disk-attachment'', ai_Location = location, ai_DiskUUID = ToLower volumeID,
            ai_BillingAccountID = a_billing a, ai_DesiredVMUUID = vmUUID, ai_PreviousVMUUID = [], ai_RecoveryNodeID = []\<rparr>;
          elsewhereErr = Wrap [] [Sentinel ErrVolumeAttachedElsewhere]
      in do {
        p \<leftarrow> prepareAttachmentFence a c intent;
        case p of
          Inl err \<Rightarrow> ret (Some err)
        | Inr None \<Rightarrow> ret None
        | Inr (Some fence) \<Rightarrow> do {
            v \<leftarrow> attachedVM a c location volumeID;
            case v of
              Inl err \<Rightarrow> clearUnissued a fence err
            | Inr attached \<Rightarrow>
                if attached = vmUUID then deleteMutationFenceDetached a fence
                else if attached \<noteq> [] then clearUnissuedPlain a fence elsewhereErr
                else do {
                  ow \<leftarrow> getOwnedVM a c location vmUUID;
                  case ow of
                    Inl err \<Rightarrow> clearUnissued a fence err
                  | Inr targetVM \<Rightarrow>
                      (case requireExactVMAttachmentCollection targetVM volumeID of
                         Some relationErr \<Rightarrow> clearUnissued a fence relationErr
                       | None \<Rightarrow>
                         let rows = vmDiskRows targetVM volumeID in
                         if rows = 1 then deleteMutationFenceDetached a fence
                         else if rows \<noteq> 0
                         then clearUnissuedPlain a fence (Plain ''InSpace exact VM reported attachment rows'')
                         else do {
                           d \<leftarrow> getOwnedDisk a c location volumeID;
                           case d of
                             Inl err \<Rightarrow> clearUnissued a fence err
                           | Inr _ \<Rightarrow> do {
                               f \<leftarrow> attachedVM a c location volumeID;
                               case f of
                                 Inl err \<Rightarrow> clearUnissued a fence err
                               | Inr finalAttachedVM \<Rightarrow>
                                   if finalAttachedVM = vmUUID then deleteMutationFenceDetached a fence
                                   else if finalAttachedVM \<noteq> [] then clearUnissuedPlain a fence elsewhereErr
                                   else do {
                                     q \<leftarrow> requireMutationDispatchReserve c;
                                     case q of
                                       Some reserveErr \<Rightarrow> clearUnissued a fence reserveErr
                                     | None \<Rightarrow> do {
                                         r \<leftarrow> AttachDisk a c location vmUUID volumeID;
                                         finishAttachmentMutation a intent fence
                                           (case r of
                                              Inl e \<Rightarrow> Some e
                                            | Inr None \<Rightarrow> Some (Plain ''InSpace API returned an invalid attach-disk response'')
                                            | Inr (Some storage) \<Rightarrow>
                                                if \<not> EqualFold (st_UUID storage) volumeID
                                                then Some (Plain ''InSpace API returned an invalid attach-disk response'')
                                                else None)
                                       }
                                   }
                             }
                         })
                }
          }
      })"

definition AttachVolume :: "'w Adapter \<Rightarrow> ctx \<Rightarrow> string \<Rightarrow> string \<Rightarrow> string \<Rightarrow> ('w, error option) prog" where
  "AttachVolume a c location volumeID nodeID = do {
     v \<leftarrow> resolveVM a c location nodeID;
     case v of
       Inl err \<Rightarrow> ret (Some err)
     | Inr vmUUID \<Rightarrow> do {
         g \<leftarrow> GetVolume a c location volumeID;
         case g of
           Inl err \<Rightarrow> ret (Some err)
         | Inr _ \<Rightarrow> do {
             l \<leftarrow> lockVM a c vmUUID;
             case l of
               Some err \<Rightarrow> ret (Some err)
             | None \<Rightarrow> do {
                 r \<leftarrow> attachLocked a c location volumeID vmUUID;
                 unlockVM vmUUID;
                 ret r
               }
           }
       }
   }"

section \<open>DetachVolume\<close>

definition missingNodeDetachTarget :: "'w Adapter \<Rightarrow> ctx \<Rightarrow> string \<Rightarrow> string \<Rightarrow> string \<Rightarrow> string \<Rightarrow> ('w, error + bool) prog" where
  "missingNodeDetachTarget a c location volumeID rawNodeID attached =
     (let nodeID = TrimSpace rawNodeID in
      if \<not> nodeNamePattern nodeID \<or> HasPrefix (ToLower nodeID) ''inspace://''
      then ret (Inl (Wrap ''missing-node detach received invalid Kubernetes node name'' [Sentinel ErrUnavailable]))
      else do {
        ow \<leftarrow> getOwnedVM a c location attached;
        case ow of
          Inl err \<Rightarrow> ret (Inl err)
        | Inr vm \<Rightarrow>
            (case requireExactVMAttachmentCollection vm volumeID of
               Some err \<Rightarrow> ret (Inl err)
             | None \<Rightarrow> (case rejectPrimaryDiskReference vm volumeID of
                 Some err \<Rightarrow> ret (Inl err)
               | None \<Rightarrow>
                 if vmDiskRows vm volumeID \<noteq> 1
                 then ret (Inl (Wrap ''exact VM reports attachment rows during missing-node recovery'' [Sentinel ErrUnavailable]))
                 else
                   let vmName = TrimSpace (vm_Name vm); vmHostname = TrimSpace (vm_Hostname vm) in
                   if vmName = [] \<or> vmHostname = [] \<or> vmName \<noteq> vmHostname
                   then ret (Inl (Wrap ''exact VM has ambiguous name/hostname identity for missing node'' [Sentinel ErrUnavailable]))
                   else
                     let authorityRequest = \<lparr>md_NodeName = vmName, md_Location = location, md_VMUUID = attached,
                           md_VMName = vmName, md_VMHostname = vmHostname, md_VMDescription = vm_Description vm,
                           md_DiskUUID = volumeID, md_NetworkUUID = a_network a, md_BillingAccountID = a_billing a\<rparr>
                     in (case validateMissingNodeDetachRequest (a_ownership a) authorityRequest of
                         Inl err \<Rightarrow> ret (Inl (Wrap ''exact VM cannot prove Karpenter identity for missing node'' [Sentinel ErrUnavailable]))
                       | Inr _ \<Rightarrow>
                         if vmName \<noteq> nodeID then ret (Inr False)
                         else (case (case a_nodes a of None \<Rightarrow> None | Some nodes \<Rightarrow> nr_Authorize nodes) of
                             None \<Rightarrow> ret (Inl (Wrap ''node resolver cannot authorize Karpenter missing-node detach'' [Sentinel ErrUnavailable]))
                           | Some authorize \<Rightarrow> do {
                               e \<leftarrow> call (authorize c authorityRequest) (\<lambda>t. NAuthorize authorityRequest);
                               case e of
                                 Some err \<Rightarrow>
                                   if errors_is CtxCanceled err \<or> errors_is CtxDeadlineExceeded err then ret (Inl err)
                                   else ret (Inl (Wrap ''authorize missing-node detach'' [Sentinel ErrUnavailable]))
                               | None \<Rightarrow> ret (Inr True)
                             }))))
      })"

definition detachLocked :: "'w Adapter \<Rightarrow> ctx \<Rightarrow> string \<Rightarrow> string \<Rightarrow> string \<Rightarrow> string \<Rightarrow> bool \<Rightarrow> ('w, error option) prog" where
  "detachLocked a c location volumeID nodeID attached recoveredMissingNode =
     (let intent = \<lparr>ai_Operation = ''disk-attachment'', ai_Location = location, ai_DiskUUID = ToLower volumeID,
            ai_BillingAccountID = a_billing a, ai_DesiredVMUUID = [], ai_PreviousVMUUID = attached,
            ai_RecoveryNodeID = (if recoveredMissingNode then TrimSpace nodeID else [])\<rparr>;
          movedErr = Wrap ''disk moved'' [Sentinel ErrVolumeAttachedElsewhere]
      in do {
        p \<leftarrow> prepareAttachmentFence a c intent;
        case p of
          Inl err \<Rightarrow> ret (Some err)
        | Inr None \<Rightarrow> ret None
        | Inr (Some fence) \<Rightarrow> do {
            v \<leftarrow> attachedVM a c location volumeID;
            case v of
              Inl err \<Rightarrow> clearUnissued a fence err
            | Inr current \<Rightarrow>
                if current = [] then deleteMutationFenceDetached a fence
                else if current \<noteq> attached then clearUnissuedPlain a fence movedErr
                else do {
                  ow \<leftarrow> getOwnedVM a c location attached;
                  case ow of
                    Inl err \<Rightarrow> clearUnissued a fence err
                  | Inr targetVM \<Rightarrow>
                      (case requireExactVMAttachmentCollection targetVM volumeID of
                         Some relationErr \<Rightarrow> clearUnissued a fence relationErr
                       | None \<Rightarrow>
                         let rows = vmDiskRows targetVM volumeID in
                         if rows = 0 then deleteMutationFenceDetached a fence
                         else if rows \<noteq> 1
                         then clearUnissuedPlain a fence (Plain ''InSpace exact VM reported attachment rows'')
                         else do {
                           d \<leftarrow> getOwnedDisk a c location volumeID;
                           case d of
                             Inl err \<Rightarrow> clearUnissued a fence err
                           | Inr _ \<Rightarrow> do {
                               f \<leftarrow> attachedVM a c location volumeID;
                               case f of
                                 Inl err \<Rightarrow> clearUnissued a fence err
                               | Inr finalAttachedVM \<Rightarrow>
                                   if finalAttachedVM = [] then deleteMutationFenceDetached a fence
                                   else if finalAttachedVM \<noteq> attached then clearUnissuedPlain a fence movedErr
                                   else do {
                                     m \<leftarrow> (if recoveredMissingNode
                                          then missingNodeDetachTarget a c location volumeID nodeID attached
                                          else ret (Inr True));
                                     case (case m of
                                             Inl e \<Rightarrow> Some e
                                           | Inr matches \<Rightarrow>
                                               if matches then None
                                               else Some (Wrap ''missing-node detach identity changed after authorization'' [Sentinel ErrUnavailable])) of
                                       Some recoveryErr \<Rightarrow> clearUnissued a fence recoveryErr
                                     | None \<Rightarrow> do {
                                         q \<leftarrow> requireMutationDispatchReserve c;
                                         case q of
                                           Some reserveErr \<Rightarrow> clearUnissued a fence reserveErr
                                         | None \<Rightarrow> do {
                                             mutationErr \<leftarrow> DetachDisk a c location attached volumeID;
                                             finishAttachmentMutation a intent fence mutationErr
                                           }
                                       }
                                   }
                             }
                         })
                }
          }
      })"

text \<open>
  The node of the request: \<open>Inr (Some recovered)\<close> when the disk is attached to it (and whether that
  was established through missing-node recovery), \<open>Inr None\<close> when the pair is already unpublished.
\<close>

definition detachTarget :: "'w Adapter \<Rightarrow> ctx \<Rightarrow> string \<Rightarrow> string \<Rightarrow> string \<Rightarrow> string \<Rightarrow> ('w, error + bool option) prog" where
  "detachTarget a c location volumeID nodeID attached =
     (if nodeID = [] then ret (Inr (Some False))
      else do {
        r \<leftarrow> resolveVM a c location nodeID;
        case r of
          Inr requestedVM \<Rightarrow> ret (Inr (if requestedVM \<noteq> attached then None else Some False))
        | Inl err \<Rightarrow>
            if errors_is ErrKubernetesNodeNotFound err then do {
              m \<leftarrow> missingNodeDetachTarget a c location volumeID nodeID attached;
              case m of
                Inl recoveryErr \<Rightarrow> ret (Inl recoveryErr)
              | Inr matches \<Rightarrow> ret (Inr (if \<not> matches then None else Some True))
            }
            else if errors_is ErrInvalidNode err
            then ret (Inl (Wrap ''cannot prove detach target for node'' [Sentinel ErrUnavailable]))
            else ret (Inl err)
      })"

text \<open>The intent with which a fresh detach or expansion first settles what an earlier call left.\<close>

definition settleIntent :: "'w Adapter \<Rightarrow> string \<Rightarrow> string \<Rightarrow> diskAttachmentIntent" where
  "settleIntent a location volumeID = \<lparr>ai_Operation = ''disk-attachment'', ai_Location = location,
     ai_DiskUUID = ToLower volumeID, ai_BillingAccountID = a_billing a, ai_DesiredVMUUID = [],
     ai_PreviousVMUUID = [], ai_RecoveryNodeID = []\<rparr>"

definition DetachVolume :: "'w Adapter \<Rightarrow> ctx \<Rightarrow> string \<Rightarrow> string \<Rightarrow> string \<Rightarrow> ('w, error option) prog" where
  "DetachVolume a c location volumeID nodeID = do {
     d \<leftarrow> getOwnedDisk a c location volumeID;
     case d of
       Inl err \<Rightarrow> ret (Some err)
     | Inr _ \<Rightarrow> do {
         s \<leftarrow> settleExistingAttachmentFence a c (settleIntent a location volumeID);
         case s of
           Inl err \<Rightarrow> ret (Some err)
         | Inr _ \<Rightarrow> do {
             v \<leftarrow> attachedVM a c location volumeID;
             case v of
               Inl err \<Rightarrow> ret (Some err)
             | Inr attached \<Rightarrow>
                 if attached = [] then ret None
                 else do {
                   tg \<leftarrow> detachTarget a c location volumeID nodeID attached;
                   case tg of
                     Inl err \<Rightarrow> ret (Some err)
                   | Inr None \<Rightarrow> ret None
                   | Inr (Some recovered) \<Rightarrow> do {
                       l \<leftarrow> lockVM a c attached;
                       case l of
                         Some err \<Rightarrow> ret (Some err)
                       | None \<Rightarrow> do {
                           r \<leftarrow> detachLocked a c location volumeID nodeID attached recovered;
                           unlockVM attached;
                           ret r
                         }
                     }
                 }
           }
       }
   }"

section \<open>ExpandVolume\<close>

definition diskCapacity :: "string \<Rightarrow> Disk \<Rightarrow> error + int" where
  "diskCapacity location disk =
     (case diskVolume location disk of Inl err \<Rightarrow> Inl err | Inr volume \<Rightarrow> Inr (vol_CapacityBytes volume))"

definition definitiveResizeRejection :: "error option \<Rightarrow> error option" where
  "definitiveResizeRejection err =
     (case err of
        None \<Rightarrow> None
      | Some e \<Rightarrow>
        (case errors_as_api e of
           None \<Rightarrow> None
         | Some apiErr \<Rightarrow>
           if Retryable apiErr then None
           else
             let status = StatusCode apiErr in
             if status < 400 \<or> status \<ge> 500 \<or> status = 408 \<or> status = 425 \<or> status = 429 then None
             else if status = 401 \<or> status = 403 \<or> status = 404 \<or> status = 409 then Some (normalizeAPIError e)
             else Some (Wrap [] [Sentinel ErrRejected])))"

definition waitForDiskSize_round :: "'w Adapter \<Rightarrow> ctx \<Rightarrow> string \<Rightarrow> string \<Rightarrow> int \<Rightarrow> unit
    \<Rightarrow> ('w, (unit, error + Disk) round) prog" where
  "waitForDiskSize_round a c location volumeID sizeGiB _ = do {
     d \<leftarrow> getOwnedDisk a c location volumeID;
     case (case d of Inr disk \<Rightarrow> if disk_SizeGiB disk \<ge> sizeGiB then Some (Inr disk) else None
           | Inl err \<Rightarrow> if errors_is ErrPermissionDenied err \<or> errors_is ErrNotFound err then Some (Inl err) else None) of
       Some r \<Rightarrow> ret (Return r)
     | None \<Rightarrow> do {
         w \<leftarrow> wait_timer c (a_poll a);
         ret (case w of
                Some e \<Rightarrow> Return (Inl (Joined (non_nil [Some e, case d of Inl err \<Rightarrow> Some err | Inr _ \<Rightarrow> None])))
              | None \<Rightarrow> Continue ())
       }
   }"

definition waitForDiskSize :: "'w Adapter \<Rightarrow> ctx \<Rightarrow> string \<Rightarrow> string \<Rightarrow> int \<Rightarrow> ('w, error + Disk) prog" where
  "waitForDiskSize a c location volumeID sizeGiB = loop (a_fuel a) (waitForDiskSize_round a c location volumeID sizeGiB) ()"

definition expandLocked :: "'w Adapter \<Rightarrow> ctx \<Rightarrow> string \<Rightarrow> string \<Rightarrow> string \<Rightarrow> int \<Rightarrow> ('w, error + int) prog" where
  "expandLocked a c location volumeID attached sizeGiB = do {
     d \<leftarrow> getOwnedDisk a c location volumeID;
     case d of
       Inl err \<Rightarrow> ret (Inl err)
     | Inr disk \<Rightarrow>
         if disk_SizeGiB disk \<ge> sizeGiB then ret (diskCapacity location disk)
         else do {
           v \<leftarrow> attachedVM a c location volumeID;
           case v of
             Inl err \<Rightarrow> ret (Inl err)
           | Inr finalAttachedVM \<Rightarrow>
               if finalAttachedVM \<noteq> attached
               then ret (Inl (Wrap ''disk moved before resize'' [Sentinel ErrConflict]))
               else do {
                 q \<leftarrow> requireMutationDispatchReserve c;
                 case q of
                   Some err \<Rightarrow> ret (Inl err)
                 | None \<Rightarrow> do {
                     r \<leftarrow> ResizeAttachedDisk a c location attached volumeID sizeGiB;
                     let mutationErr = (case r of Inl e \<Rightarrow> Some e | Inr _ \<Rightarrow> None);
                     case (case mutationErr of
                             None \<Rightarrow> None
                           | Some e \<Rightarrow> if errors_is ErrMutationBlocked e then Some e else None) of
                       Some e \<Rightarrow> ret (Inl e)
                     | None \<Rightarrow>
                         (case definitiveResizeRejection mutationErr of
                            Some rejection \<Rightarrow> do {
                              d' \<leftarrow> getOwnedDisk a c location volumeID;
                              ret (case d' of
                                     Inr disk' \<Rightarrow> if disk_SizeGiB disk' \<ge> sizeGiB then diskCapacity location disk' else Inl rejection
                                   | Inl _ \<Rightarrow> Inl rejection)
                            }
                          | None \<Rightarrow> do {
                              readbackCtx \<leftarrow> mutationReadbackContext a;
                              z \<leftarrow> waitForDiskSize a readbackCtx location volumeID sizeGiB;
                              ret (case z of
                                     Inl err \<Rightarrow> Inl (Wrap ''disk did not reach the requested size'' [Sentinel ErrUnavailable])
                                   | Inr resized \<Rightarrow> diskCapacity location resized)
                            })
                   }
               }
         }
   }"

definition ExpandVolume :: "'w Adapter \<Rightarrow> ctx \<Rightarrow> string \<Rightarrow> string \<Rightarrow> int \<Rightarrow> ('w, error + int) prog" where
  "ExpandVolume a c location volumeID capacityBytes =
     (case bytesToGiB capacityBytes of
        Inl err \<Rightarrow> ret (Inl err)
      | Inr sizeGiB \<Rightarrow> do {
          d \<leftarrow> getOwnedDisk a c location volumeID;
          case d of
            Inl err \<Rightarrow> ret (Inl err)
          | Inr disk \<Rightarrow>
              if disk_SizeGiB disk \<ge> sizeGiB then ret (diskCapacity location disk)
              else do {
                s \<leftarrow> settleExistingAttachmentFence a c (settleIntent a location volumeID);
                case s of
                  Inl err \<Rightarrow> ret (Inl err)
                | Inr _ \<Rightarrow> do {
                    v \<leftarrow> attachedVM a c location volumeID;
                    case v of
                      Inl err \<Rightarrow> ret (Inl err)
                    | Inr attached \<Rightarrow>
                        if attached = []
                        then ret (Inl (Wrap ''disk must be attached to a node to expand'' [Sentinel ErrVolumeNotAttached]))
                        else do {
                          ow \<leftarrow> getOwnedVM a c location attached;
                          case ow of
                            Inl err \<Rightarrow> ret (Inl err)
                          | Inr targetVM \<Rightarrow>
                              (case requireExactVMAttachmentCollection targetVM volumeID of
                                 Some err \<Rightarrow> ret (Inl err)
                               | None \<Rightarrow> (case rejectPrimaryDiskReference targetVM volumeID of
                                   Some err \<Rightarrow> ret (Inl err)
                                 | None \<Rightarrow>
                                   if vmDiskRows targetVM volumeID \<noteq> 1
                                   then ret (Inl (Plain ''InSpace exact VM reported attachment rows''))
                                   else do {
                                     l \<leftarrow> lockVM a c attached;
                                     case l of
                                       Some err \<Rightarrow> ret (Inl err)
                                     | None \<Rightarrow> do {
                                         r \<leftarrow> expandLocked a c location volumeID attached sizeGiB;
                                         unlockVM attached;
                                         ret r
                                       }
                                   }))
                        }
                  }
              }
        })"

end
