(* ===== verification/Adapter_Safety.thy ===== *)
theory Adapter_Safety
  imports Adapter
begin

text \<open>
  The safety of the fenced mutations. The part of an operation that runs after its fence was
  acquired is an \<open>attempt\<close>: it reads, and then either gives the fence back without having sent
  anything, or sends one mutation on the authority of what it just read. What follows the mutation
  is its \<open>ending\<close>: a mutation the client blocked locally gives the fence back, any other one gives
  it back only on proof from the cloud that the mutation took effect. The theorems instantiate
  authority and ending for the five operations.
\<close>

section \<open>Attempts\<close>

definition reserve_ok :: "ctx \<Rightarrow> int \<Rightarrow> bool" where
  "reserve_ok c t = (ctx_err c t = None
     \<and> (case ctx_deadline c of None \<Rightarrow> True | Some d \<Rightarrow> t + minimumMutationDispatchReserve \<le> d))"

definition attempt :: "mutationFence \<Rightarrow> (event list \<Rightarrow> event \<Rightarrow> bool) \<Rightarrow> (event \<Rightarrow> event list \<Rightarrow> bool) \<Rightarrow> event list \<Rightarrow> bool" where
  "attempt f authority ending es \<longleftrightarrow>
     (\<exists>reads r. es = reads @ [FDelete f r] \<and> list_all is_read reads)
   \<or> (\<exists>reads p post. es = reads @ p # post \<and> list_all is_read reads \<and> is_post p
        \<and> authority reads p \<and> ending p post \<and> list_all quiet post)"

lemma attempt_cleared: "list_all is_read reads \<Longrightarrow> attempt f A E (reads @ [FDelete f r])"
  unfolding attempt_def by blast

lemma attempt_posted:
  "list_all is_read reads \<Longrightarrow> is_post p \<Longrightarrow> A reads p \<Longrightarrow> E p post \<Longrightarrow> list_all quiet post
   \<Longrightarrow> attempt f A E (reads @ p # post)"
  unfolding attempt_def by blast

lemma spec_requireReserve:
  "spec t (requireMutationDispatchReserve c) (\<lambda>r es t'. es = [] \<and> t' = t \<and> (r = None \<longrightarrow> reserve_ok c t))"
  unfolding requireMutationDispatchReserve_def reserve_ok_def dispatchReserveShortfall_def
  by (intro spec_rules) (auto split: option.splits if_splits)

lemma spec_contexts:
  "spec t (mutationReadbackContext a) (\<lambda>c es t'. es = [] \<and> t' = t)"
  "spec t (destructiveReadbackContext a) (\<lambda>c es t'. es = [] \<and> t' = t)"
  "spec t (attachmentReadbackContext a i) (\<lambda>c es t'. es = [] \<and> t' = t)"
  unfolding mutationReadbackContext_def destructiveReadbackContext_def attachmentReadbackContext_def
  by (intro spec_rules; simp)+

lemmas spec_bind_contexts [spec_rules] = spec_contexts[THEN spec_bind]

lemma spec_deleteDetached:
  "spec t (deleteMutationFenceDetached a f) (\<lambda>r es t'. t \<le> t' \<and> (\<exists>x. es = [FDelete f x]))"
  unfolding deleteMutationFenceDetached_def
  by (rule spec_bind[OF spec_contexts(1)]) (auto intro!: spec_mono[OF spec_of_calls(11)])

lemma spec_clearUnissued:
  "spec t (clearUnissued a f e) (\<lambda>r es t'. r \<noteq> None \<and> (\<exists>x. es = [FDelete f x]))"
  "spec t (clearUnissuedPlain a f e) (\<lambda>r es t'. r \<noteq> None \<and> (\<exists>x. es = [FDelete f x]))"
  unfolding clearUnissued_def clearUnissuedPlain_def
  by (rule spec_bind[OF spec_deleteDetached]; auto intro!: spec_return)+

section \<open>The attempt logic\<close>

text \<open>\<open>aspec\<close>: after the reads \<open>acc\<close>, the program completes an attempt.\<close>

definition aspec :: "mutationFence \<Rightarrow> (event list \<Rightarrow> event \<Rightarrow> bool) \<Rightarrow> (event \<Rightarrow> event list \<Rightarrow> bool)
    \<Rightarrow> event list \<Rightarrow> int \<Rightarrow> ('w, 'a) prog \<Rightarrow> bool" where
  "aspec f A E acc t m \<longleftrightarrow> list_all is_read acc \<and> spec t m (\<lambda>_ es _. attempt f A E (acc @ es))"

named_theorems aspec_rules \<open>structural rules of attempts\<close>

lemma aspec_read:
  assumes "spec t m Q" "\<And>x es t'. Q x es t' \<Longrightarrow> list_all is_read es" "list_all is_read acc"
    and "\<And>x es t'. Q x es t' \<Longrightarrow> list_all is_read (acc @ es) \<Longrightarrow> aspec f A E (acc @ es) t' (k x)"
  shows "aspec f A E acc t (State_Monad.bind m k)"
  unfolding aspec_def
  by (intro conjI assms(3) spec_bind[OF assms(1)])
     (use assms(2,3,4) in \<open>auto simp: aspec_def\<close>)

lemma aspec_clear [aspec_rules]:
  assumes "list_all is_read acc"
  shows "aspec f A E acc t (clearUnissued a f e)" "aspec f A E acc t (clearUnissuedPlain a f e)"
    "aspec f A E acc t (deleteMutationFenceDetached a f)"
  unfolding aspec_def
  by (intro conjI assms spec_mono[OF spec_clearUnissued(1)] spec_mono[OF spec_clearUnissued(2)]
        spec_mono[OF spec_deleteDetached]; use assms in \<open>auto intro: attempt_cleared\<close>)+

lemma aspec_structural [aspec_rules]:
  "(b \<Longrightarrow> aspec f A E acc t m) \<Longrightarrow> (\<not> b \<Longrightarrow> aspec f A E acc t n) \<Longrightarrow> aspec f A E acc t (if b then m else n)"
  "(\<And>e. r = Inl e \<Longrightarrow> aspec f A E acc t (g e)) \<Longrightarrow> (\<And>x. r = Inr x \<Longrightarrow> aspec f A E acc t (h x))
   \<Longrightarrow> aspec f A E acc t (case r of Inl e \<Rightarrow> g e | Inr x \<Rightarrow> h x)"
  "(q = None \<Longrightarrow> aspec f A E acc t m') \<Longrightarrow> (\<And>y. q = Some y \<Longrightarrow> aspec f A E acc t (u y))
   \<Longrightarrow> aspec f A E acc t (case q of None \<Rightarrow> m' | Some y \<Rightarrow> u y)"
  by (auto split: sum.split option.split)

lemma aspec_reserve [aspec_rules]:
  assumes "list_all is_read acc" "reserve_ok c t \<Longrightarrow> aspec f A E acc t (k None)" "\<And>e. aspec f A E acc t (k (Some e))"
  shows "aspec f A E acc t (State_Monad.bind (requireMutationDispatchReserve c) k)"
  unfolding aspec_def
proof (intro conjI assms(1) spec_bind[OF spec_requireReserve], goal_cases)
  case (1 x es t')
  then show ?case using assms(2,3) by (cases x) (auto simp: aspec_def)
qed

lemma aspec_spec: "aspec f A E [] t m \<Longrightarrow> spec t m (\<lambda>_ es _. attempt f A E es)"
  by (simp add: aspec_def)

text \<open>The reads of the adapter inside an attempt, each with what it establishes.\<close>

lemma exact_sweep_reads: "exact_sweep a loc u es v \<Longrightarrow> list_all is_read es"
  by (auto simp: exact_sweep_def list_all_iff dest: set_zip_leftD)

lemma spec_attachedVM_reads:
  "spec t (attachedVM a c l u) (\<lambda>r es t'. list_all is_read es \<and> (\<forall>v. r = Inr v \<longrightarrow> exact_sweep a l u es v))"
  by (rule spec_mono[OF spec_conj[OF spec_emits[OF attachedVM_reads] spec_attachedVM]]) auto

lemma spec_getOwnedVM_reads: "spec t (getOwnedVM a c l u) (\<lambda>r es t'. list_all is_read es)"
  by (rule spec_mono[OF spec_emits[OF getOwnedVM_reads]]) auto

lemma aspec_attachedVM [aspec_rules]:
  assumes "list_all is_read acc" "\<And>r es t'. list_all is_read (acc @ es) \<Longrightarrow>
      (\<forall>v. r = Inr v \<longrightarrow> exact_sweep a l u es v) \<Longrightarrow> aspec f A E (acc @ es) t' (k r)"
  shows "aspec f A E acc t (State_Monad.bind (attachedVM a c l u) k)"
  by (rule aspec_read[OF spec_attachedVM_reads _ assms(1)]) (use assms(2) in auto)

lemma aspec_getOwnedDisk [aspec_rules]:
  assumes "list_all is_read acc" "\<And>r es t'. list_all is_read (acc @ es) \<Longrightarrow>
      (\<forall>d. r = Inr d \<longrightarrow> es = [RGetDisk l u (Inr (Some d))] \<and> csi_disk d u (a_billing a)) \<Longrightarrow> aspec f A E (acc @ es) t' (k r)"
  shows "aspec f A E acc t (State_Monad.bind (getOwnedDisk a c l u) k)"
  by (rule aspec_read[OF spec_getOwnedDisk _ assms(1)]) (use assms(2) in auto)

lemma aspec_getOwnedVM [aspec_rules]:
  assumes "list_all is_read acc" "\<And>r es t'. list_all is_read (acc @ es) \<Longrightarrow> aspec f A E (acc @ es) t' (k r)"
  shows "aspec f A E acc t (State_Monad.bind (getOwnedVM a c l u) k)"
  by (rule aspec_read[OF spec_getOwnedVM_reads _ assms(1)]) (use assms(2) in auto)

section \<open>Deleting a disk\<close>

text \<open>
  The authority for a delete: the last reads are an exact GET of an account-owned CSI disk with an
  explicitly empty snapshot list, and a sweep that found it attached nowhere.
\<close>

definition owned_then_swept :: "'w Adapter \<Rightarrow> string \<Rightarrow> string \<Rightarrow> (Disk \<Rightarrow> bool) \<Rightarrow> string \<Rightarrow> event list \<Rightarrow> bool" where
  "owned_then_swept a loc vol P v reads \<longleftrightarrow> (\<exists>rs d sweep.
     reads = (rs @ [RGetDisk loc vol (Inr (Some d))]) @ sweep
     \<and> csi_disk d vol (a_billing a) \<and> P d \<and> exact_sweep a loc vol sweep v)"

definition delete_authority :: "'w Adapter \<Rightarrow> ctx \<Rightarrow> string \<Rightarrow> string \<Rightarrow> event list \<Rightarrow> event \<Rightarrow> bool" where
  "delete_authority a c loc vol reads p \<longleftrightarrow>
     owned_then_swept a loc vol (\<lambda>d. disk_Snapshots d = Some []) [] reads
     \<and> (\<exists>t r. p = PDeleteDisk t loc vol r \<and> reserve_ok c t)"

lemma owned_then_sweptI:
  "es = [RGetDisk loc vol (Inr (Some d))] \<Longrightarrow> csi_disk d vol (a_billing a) \<Longrightarrow> P d \<Longrightarrow> exact_sweep a loc vol sweep v
   \<Longrightarrow> owned_then_swept a loc vol P v ((rs @ es) @ sweep)"
  unfolding owned_then_swept_def by blast

text \<open>
  After the mutation: protocol steps \<open>w\<close>, then fence deletions only, and those only when \<open>w\<close>
  ends with the proof \<open>D\<close>.
\<close>

definition proven_completion :: "(event \<Rightarrow> bool) \<Rightarrow> (event list \<Rightarrow> bool) \<Rightarrow> event list \<Rightarrow> bool" where
  "proven_completion step D post \<longleftrightarrow> (\<exists>w dels. post = w @ dels \<and> list_all step w
     \<and> list_all is_fence_delete dels \<and> (dels \<noteq> [] \<longrightarrow> D w))"

definition disk_gone :: "'w Adapter \<Rightarrow> string \<Rightarrow> string \<Rightarrow> event list \<Rightarrow> bool" where
  "disk_gone a loc vol w \<longleftrightarrow> (\<exists>pre reads tail f. w = pre @ reads @ tail \<and> disk_absence_reads a loc vol reads
     \<and> absence_complete a diskDeleteAbsenceObservationKind f tail)"

definition delete_ending :: "'w Adapter \<Rightarrow> string \<Rightarrow> string \<Rightarrow> mutationFence \<Rightarrow> event \<Rightarrow> event list \<Rightarrow> bool" where
  "delete_ending a loc vol f p post \<longleftrightarrow> (\<exists>t r. p = PDeleteDisk t loc vol r
     \<and> (if is_opt ErrMutationBlocked r then \<exists>x. post = [FDelete f x]
        else proven_completion (step_event a diskDeleteAbsenceObservationKind) (disk_gone a loc vol) post))"

lemma spec_waitForDiskAbsent:
  assumes "0 < a_absencePoll a"
  shows "spec t (waitForDiskAbsent a c loc vol f) (\<lambda>r es t'.
     list_all (step_event a diskDeleteAbsenceObservationKind) es
     \<and> (\<forall>g. r = Inr g \<longrightarrow> disk_gone a loc vol es))"
  unfolding waitForDiskAbsent_def
  by (rule spec_mono[OF spec_steps_loop[OF spec_waitForDiskAbsent_round[OF assms]]])
     (fastforce simp: disk_gone_def)

lemma proven_completionI:
  "list_all step w \<Longrightarrow> proven_completion step D w"
  "list_all step w \<Longrightarrow> D w \<Longrightarrow> list_all is_fence_delete dels \<Longrightarrow> proven_completion step D (w @ dels)"
  unfolding proven_completion_def by (intro exI[of _ w] exI[of _ "[]"], simp) blast

lemma spec_finishDeletion:
  assumes "0 < a_absencePoll a"
  shows "spec t (finishDeletion a c loc vol f cf) (\<lambda>r es t'.
     proven_completion (step_event a diskDeleteAbsenceObservationKind) (disk_gone a loc vol) es \<and> list_all quiet es
     \<and> (r = None \<longrightarrow> (\<exists>w dels. es = w @ dels \<and> disk_gone a loc vol w)))"
proof -
  have "emits quiet (finishDeletion a c loc vol f cf)"
    unfolding finishDeletion_def by (intro emits_intros)
  then have q: "spec t (finishDeletion a c loc vol f cf) (\<lambda>r es t'. list_all quiet es)"
    by (rule spec_mono[OF spec_emits]) simp
  have "spec t (finishDeletion a c loc vol f cf) (\<lambda>r es t'.
     proven_completion (step_event a diskDeleteAbsenceObservationKind) (disk_gone a loc vol) es
     \<and> (r = None \<longrightarrow> (\<exists>w dels. es = w @ dels \<and> disk_gone a loc vol w)))"
    unfolding finishDeletion_def
    by (cases cf; simp; intro spec_bind[OF spec_waitForDiskAbsent[OF assms]] spec_rules)
       (auto intro: proven_completionI)
  from spec_mono[OF spec_conj[OF this q]] show ?thesis by auto
qed

lemma aspec_DeleteDisk:
  assumes "0 < a_absencePoll a" "reserve_ok c t" "list_all is_read acc"
    and "owned_then_swept a loc vol (\<lambda>d. disk_Snapshots d = Some []) [] acc"
  shows "aspec f (delete_authority a c loc vol) (delete_ending a loc vol f) acc t (do {
      mutationErr \<leftarrow> DeleteDisk a c loc vol;
      case mutationErr of
        Some err \<Rightarrow>
          if errors_is ErrMutationBlocked err then clearUnissued a f err
          else do { postMutationCtx \<leftarrow> destructiveReadbackContext a; finishDeletion a postMutationCtx loc vol f cf }
      | None \<Rightarrow> do { postMutationCtx \<leftarrow> destructiveReadbackContext a; finishDeletion a postMutationCtx loc vol f cf } })"
proof -
  have auth: "delete_authority a c loc vol acc (PDeleteDisk t loc vol r)" for r
    unfolding delete_authority_def using assms by blast
  show ?thesis
    unfolding aspec_def
    apply (intro conjI assms(3) spec_rules spec_mono[OF spec_clearUnissued(1)] spec_mono[OF spec_finishDeletion[OF assms(1)]])
    apply (auto intro!: attempt_posted assms(3) auth simp: delete_ending_def is_opt_def)
    done
qed

lemma aspec_issueDeleteDisk:
  assumes "0 < a_absencePoll a" "list_all is_read acc"
  shows "aspec f (delete_authority a c loc vol) (delete_ending a loc vol f) acc t (issueDeleteDisk a c loc vol f cf disk)"
  unfolding issueDeleteDisk_def Let_def
  by (intro aspec_rules aspec_DeleteDisk assms | assumption)+
     (rule owned_then_sweptI, blast,
       auto simp: hasSnapshots_def requireExactDiskSnapshotCollection_def split: option.splits if_splits)

section \<open>Whole operations\<close>

text \<open>
  A run of a fenced operation: it sends nothing and touches no lock, or it acquired its own fence
  \<open>f\<close> with an intent satisfying \<open>P\<close> and the rest of the run is an attempt under \<open>f\<close>.
\<close>

definition fenced_run :: "string \<Rightarrow> (intent_text \<Rightarrow> bool) \<Rightarrow> (event list \<Rightarrow> event \<Rightarrow> bool)
    \<Rightarrow> (mutationFence \<Rightarrow> event \<Rightarrow> event list \<Rightarrow> bool) \<Rightarrow> event list \<Rightarrow> bool" where
  "fenced_run key P A E es \<longleftrightarrow> list_all quiet es
     \<or> (\<exists>pre rest f intent. es = pre @ rest \<and> list_all quiet pre \<and> acquired_by key intent f pre \<and> P intent
          \<and> attempt f A (E f) rest)"

text \<open>A run sends at most one mutation.\<close>

lemma attempt_one_post: "attempt f A E es \<Longrightarrow> length (filter is_post es) \<le> 1"
  by (auto simp: attempt_def list_all_iff is_read_def quiet_def filter_empty_conv)

lemma fenced_run_one_post: "fenced_run key P A E es \<Longrightarrow> length (filter is_post es) \<le> 1"
  using attempt_one_post
  by (fastforce simp: fenced_run_def list_all_iff quiet_def filter_empty_conv)

text \<open>Tails of an operation that are quiet, or an attempt when the fence is this call's own.\<close>

lemma spec_of_quiet: "emits quiet m \<Longrightarrow> (\<And>r es t'. list_all quiet es \<Longrightarrow> Q r es t') \<Longrightarrow> spec t m Q"
  by (rule spec_mono[OF spec_emits]) auto

lemma spec_attempt_or: "aspec f A E acc t m \<Longrightarrow> spec t m (\<lambda>_ es _. X es \<or> attempt f A E (acc @ es))"
  unfolding aspec_def by (blast intro: spec_mono)

lemma spec_attempt_or_Nil: "aspec f A E [] t m \<Longrightarrow> spec t m (\<lambda>_ es _. X es \<or> attempt f A E es)"
  using spec_attempt_or[where acc = "[]"] by simp

lemma spec_fenced_run:
  assumes "emits quiet m" "spec t m Q"
    and "\<And>x es t'. Q x es t' \<Longrightarrow> emits quiet (k x)
        \<or> (\<exists>f i. acquired_by key i f es \<and> P i \<and> spec t' (k x) (\<lambda>_ es' _. list_all quiet es' \<or> attempt f A (E f) es'))"
  shows "spec t (State_Monad.bind m k) (\<lambda>_ es _. fenced_run key P A E es)"
proof (rule spec_bind[OF spec_conj[OF assms(2) spec_emits[OF assms(1)]]], goal_cases)
  case (1 x es t')
  then consider "emits quiet (k x)" | f i where "acquired_by key i f es" "P i"
    "spec t' (k x) (\<lambda>_ es' _. list_all quiet es' \<or> attempt f A (E f) es')" using assms(3) by blast
  then show ?case
  proof cases
    case 1
    from spec_mono[OF spec_emits[OF this]] show ?thesis
      using \<open>Q x es t' \<and> t \<le> t' \<and> list_all quiet es\<close> by (auto simp: fenced_run_def)
  next
    case 2
    show ?thesis
      by (rule spec_mono[OF 2(3)]) (use 2 \<open>Q x es t' \<and> t \<le> t' \<and> list_all quiet es\<close> in
        \<open>auto simp: fenced_run_def\<close>)
  qed
qed

lemma clear_quiet [emits_intros]:
  "emits quiet (clearUnissued a f e)" "emits quiet (clearUnissuedPlain a f e)"
  "emits quiet (clearIfIssued a b f e)" "emits quiet (clearIfIssuedPlain a b f e)"
  unfolding clearUnissued_def clearUnissuedPlain_def clearIfIssued_def clearIfIssuedPlain_def
  by (intro emits_intros)+

lemma finishDeletion_quiet [emits_intros]: "emits quiet (finishDeletion a c l v f cf)"
  unfolding finishDeletion_def by (intro emits_intros)

definition isDeleteIntent :: "intent_text \<Rightarrow> bool" where
  "isDeleteIntent i = (\<exists>x. i = AttachText x \<and> ai_Operation x = ''disk-delete'')"

lemma spec_matchingDiskCreateFence: "spec t (matchingDiskCreateFence a c l v d) (\<lambda>r es t'. list_all is_read es)"
  by (rule spec_mono[OF spec_emits[OF matchingDiskCreateFence_reads]]) simp

lemma deleteFenced_quiet: "emits quiet (deleteFenced a c l v f False)"
  unfolding deleteFenced_def Let_def by (intro emits_intros) simp_all

lemma spec_deleteFenced:
  assumes "0 < a_absencePoll a"
  shows "spec t (deleteFenced a c loc vol f True) (\<lambda>_ es _. list_all quiet es
    \<or> attempt f (delete_authority a c loc vol) (delete_ending a loc vol f) es)"
  unfolding deleteFenced_def Let_def
  by (intro spec_rules spec_bind[OF spec_matchingDiskCreateFence];
     ((rule spec_of_quiet, (intro emits_intros; fail), force simp: list_all_iff intro: is_read_quiet)
    | (simp only: append_assoc[symmetric], rule spec_attempt_or[OF aspec_issueDeleteDisk[OF assms]], force)
    | (auto simp: list_all_iff intro: is_read_quiet; fail)))

lemma spec_DeleteVolume:
  assumes "0 < a_absencePoll a"
  shows "spec t (DeleteVolume a c loc vol) (\<lambda>_ es _. fenced_run (diskAttachmentFenceKey loc vol) isDeleteIntent
    (delete_authority a c loc vol) (delete_ending a loc vol) es)"
  unfolding DeleteVolume_def
proof (rule spec_fenced_run[OF prepareDiskDeleteFence_quiet spec_prepareDiskDeleteFence], goal_cases)
  case (1 x es t')
  show ?case
  proof (cases "\<exists>f. x = Inr (f, True)")
    case False
    then show ?thesis
      by (intro disjI1) (auto split: sum.splits prod.splits intro!: emits_intros deleteFenced_quiet)
  next
    case True
    then show ?thesis
      using 1 spec_deleteFenced[OF assms, of t' c loc vol] by (fastforce simp: isDeleteIntent_def)
  qed
qed

section \<open>Attaching and detaching\<close>

definition attached_to :: "'w Adapter \<Rightarrow> diskAttachmentIntent \<Rightarrow> event list \<Rightarrow> bool" where
  "attached_to a i w \<longleftrightarrow> (\<exists>pre sweep. w = pre @ sweep
     \<and> exact_sweep a (ai_Location i) (ai_DiskUUID i) sweep (ai_DesiredVMUUID i))"

definition detached_from :: "'w Adapter \<Rightarrow> diskAttachmentIntent \<Rightarrow> event list \<Rightarrow> bool" where
  "detached_from a i w \<longleftrightarrow> (\<exists>pre reads tail f. w = pre @ reads @ tail \<and> detach_absence_reads a i reads
     \<and> absence_complete a detachAbsenceObservationKind f tail)"

text \<open>What completes the intent of an attachment fence: the attach, or the detach when no VM is desired.\<close>

definition attachment_done :: "'w Adapter \<Rightarrow> diskAttachmentIntent \<Rightarrow> event list \<Rightarrow> bool" where
  "attachment_done a i w = (if ai_DesiredVMUUID i \<noteq> [] then attached_to a i w else detached_from a i w)"

lemma spec_waitForAttachment:
  "spec t (waitForAttachment a c loc vol want tr) (\<lambda>r es t'. list_all is_read es
     \<and> (r = Inr () \<longrightarrow> (\<exists>pre sweep. es = pre @ sweep \<and> exact_sweep a loc vol sweep want)))"
proof -
  have "spec t (loop n (waitForAttachment_round a c loc vol want tr) ()) (\<lambda>r es t'. list_all is_read ([] @ es)
     \<and> (r = Inr () \<longrightarrow> (\<exists>pre sweep. [] @ es = pre @ sweep \<and> exact_sweep a loc vol sweep want)))" for n
    by (rule spec_loop[where I = "\<lambda>acc _ _. list_all is_read acc"])
       (auto simp: waitForAttachment_round_def is_read_def[of LoopCut] split: option.splits
          intro!: spec_bind[OF spec_attachedVM_reads] spec_rules, blast)
  then show ?thesis unfolding waitForAttachment_def by simp
qed

lemma spec_waitForDetached:
  assumes "0 < a_absencePoll a"
  shows "spec t (waitForDetached a c i f) (\<lambda>r es t'.
     list_all (step_event a detachAbsenceObservationKind) es
     \<and> (\<forall>g. r = Inr g \<longrightarrow> detached_from a i es))"
  unfolding waitForDetached_def
  by (rule spec_mono[OF spec_steps_loop[OF spec_waitForDetached_round[OF assms]]])
     (fastforce simp: detached_from_def)

lemma spec_waitForFencedAttachment:
  assumes "0 < a_absencePoll a"
  shows "spec t (waitForFencedAttachment a c i f) (\<lambda>r es t'.
     list_all (step_event a detachAbsenceObservationKind) es
     \<and> (\<forall>g. r = Inr g \<longrightarrow> attachment_done a i es))"
  unfolding waitForFencedAttachment_def
  by (intro spec_rules spec_bind[OF spec_waitForAttachment] spec_mono[OF spec_waitForDetached[OF assms]])
     (auto simp: attachment_done_def attached_to_def steps_of_reads split: sum.splits)

definition attachment_ending :: "'w Adapter \<Rightarrow> diskAttachmentIntent \<Rightarrow> bool \<Rightarrow> mutationFence \<Rightarrow> event list \<Rightarrow> bool" where
  "attachment_ending a i blocked f post \<longleftrightarrow>
     (if blocked then \<exists>x. post = [FDelete f x]
      else proven_completion (step_event a detachAbsenceObservationKind) (attachment_done a i) post)"

lemma spec_finishAttachmentMutation:
  assumes "0 < a_absencePoll a"
  shows "spec t (finishAttachmentMutation a i f err) (\<lambda>r es t'. list_all quiet es
     \<and> attachment_ending a i (is_opt ErrMutationBlocked err) f es
     \<and> (r = None \<longrightarrow> \<not> is_opt ErrMutationBlocked err \<longrightarrow> (\<exists>w dels. es = w @ dels \<and> attachment_done a i w)))"
proof -
  have q: "spec t (finishAttachmentMutation a i f err) (\<lambda>r es t'. list_all quiet es)"
    by (rule spec_of_quiet[OF finishAttachmentMutation_quiet])
  have "spec t (finishAttachmentMutation a i f err) (\<lambda>r es t'.
     attachment_ending a i (is_opt ErrMutationBlocked err) f es
     \<and> (r = None \<longrightarrow> \<not> is_opt ErrMutationBlocked err \<longrightarrow> (\<exists>w dels. es = w @ dels \<and> attachment_done a i w)))"
    unfolding finishAttachmentMutation_def
    by (intro spec_rules spec_bind[OF spec_deleteDetached] spec_bind[OF spec_waitForFencedAttachment[OF assms]])
       (auto simp: attachment_ending_def intro: proven_completionI)
  from spec_mono[OF spec_conj[OF this q]] show ?thesis by auto
qed

text \<open>
  The authority of an attach: exact ownership of the disk, then a sweep that found it attached
  nowhere. The authority of a detach: the same with the sweep finding it on exactly this VM; a
  detach for a missing Node has, after the sweep, the renewed authorization as its last event.
\<close>

definition attach_authority :: "'w Adapter \<Rightarrow> ctx \<Rightarrow> string \<Rightarrow> string \<Rightarrow> string \<Rightarrow> event list \<Rightarrow> event \<Rightarrow> bool" where
  "attach_authority a c loc vol vm reads p \<longleftrightarrow> owned_then_swept a loc vol (\<lambda>d. True) [] reads
     \<and> (\<exists>t r. p = PAttachDisk t loc vm vol r \<and> reserve_ok c t)"

definition detach_authority :: "'w Adapter \<Rightarrow> ctx \<Rightarrow> string \<Rightarrow> string \<Rightarrow> string \<Rightarrow> bool \<Rightarrow> event list \<Rightarrow> event \<Rightarrow> bool" where
  "detach_authority a c loc vol vm recovered reads p \<longleftrightarrow> (\<exists>swept renewed t r.
     reads = swept @ renewed \<and> owned_then_swept a loc vol (\<lambda>d. True) vm swept
     \<and> (if recovered then \<exists>rs q. renewed = rs @ [NAuthorize q None] \<and> md_VMUUID q = vm \<and> md_DiskUUID q = vol
        else renewed = [])
     \<and> p = PDetachDisk t loc vm vol r \<and> reserve_ok c t)"

definition attachIntent :: "'w Adapter \<Rightarrow> string \<Rightarrow> string \<Rightarrow> string \<Rightarrow> string \<Rightarrow> string \<Rightarrow> diskAttachmentIntent" where
  "attachIntent a loc vol desired previous recovery = \<lparr>ai_Operation = ''disk-attachment'', ai_Location = loc,
     ai_DiskUUID = ToLower vol, ai_BillingAccountID = a_billing a, ai_DesiredVMUUID = desired,
     ai_PreviousVMUUID = previous, ai_RecoveryNodeID = recovery\<rparr>"

definition attach_ending :: "'w Adapter \<Rightarrow> diskAttachmentIntent \<Rightarrow> mutationFence \<Rightarrow> event \<Rightarrow> event list \<Rightarrow> bool" where
  "attach_ending a i f p post \<longleftrightarrow> (\<exists>t loc vm vol r. p = PAttachDisk t loc vm vol r
     \<and> attachment_ending a i (\<exists>e. r = Inl e \<and> errors_is ErrMutationBlocked e) f post)"

definition detach_ending :: "'w Adapter \<Rightarrow> diskAttachmentIntent \<Rightarrow> mutationFence \<Rightarrow> event \<Rightarrow> event list \<Rightarrow> bool" where
  "detach_ending a i f p post \<longleftrightarrow> (\<exists>t loc vm vol r. p = PDetachDisk t loc vm vol r
     \<and> attachment_ending a i (is_opt ErrMutationBlocked r) f post)"

lemma aspec_AttachDisk:
  assumes "0 < a_absencePoll a" "reserve_ok c t" "list_all is_read acc"
    and "owned_then_swept a loc vol (\<lambda>d. True) [] acc"
    and "\<And>r. is_opt ErrMutationBlocked (g r) = (\<exists>e. r = Inl e \<and> errors_is ErrMutationBlocked e)"
  shows "aspec f (attach_authority a c loc vol vm) (attach_ending a i f) acc t
    (AttachDisk a c loc vm vol \<bind> (\<lambda>r. finishAttachmentMutation a i f (g r)))"
proof -
  have "attach_authority a c loc vol vm acc (PAttachDisk t loc vm vol r)" for r
    unfolding attach_authority_def using assms by blast
  then show ?thesis
    unfolding aspec_def
    by (intro conjI assms(3) spec_rules spec_mono[OF spec_finishAttachmentMutation[OF assms(1)]])
       (auto intro!: attempt_posted assms(3) simp: attach_ending_def assms(5))
qed

lemma aspec_DetachDisk:
  assumes "0 < a_absencePoll a" "reserve_ok c t" "list_all is_read acc"
    and "acc = swept @ renewed" "owned_then_swept a loc vol (\<lambda>d. True) vm swept"
    and "if recovered then \<exists>rs q. renewed = rs @ [NAuthorize q None] \<and> md_VMUUID q = vm \<and> md_DiskUUID q = vol
         else renewed = []"
  shows "aspec f (detach_authority a c loc vol vm recovered) (detach_ending a i f) acc t
    (DetachDisk a c loc vm vol \<bind> (\<lambda>r. finishAttachmentMutation a i f r))"
proof -
  have "detach_authority a c loc vol vm recovered acc (PDetachDisk t loc vm vol r)" for r
    unfolding detach_authority_def using assms by blast
  then show ?thesis
    unfolding aspec_def
    by (intro conjI assms(3) spec_rules spec_mono[OF spec_finishAttachmentMutation[OF assms(1)]])
       (auto intro!: attempt_posted assms(3) simp: detach_ending_def)
qed

lemma spec_missingNodeDetachTarget:
  "spec t (missingNodeDetachTarget a c loc vol node vm) (\<lambda>r es t'. list_all is_read es
     \<and> (r = Inr True \<longrightarrow> (\<exists>rs q. es = rs @ [NAuthorize q None] \<and> md_VMUUID q = vm \<and> md_DiskUUID q = vol)))"
proof -
  have "spec t (State_Monad.bind (call g (\<lambda>t. NAuthorize q)) k) Q"
    if "\<And>e t'. spec t' (k e) (\<lambda>y es t''. Q y ([NAuthorize q e] @ es) t'')" for t g q k and Q :: "error + bool \<Rightarrow> event list \<Rightarrow> int \<Rightarrow> bool"
    by (rule spec_bind[OF spec_call[where Q = "\<lambda>e es t'. es = [NAuthorize q e]"]]) (use that in auto)
  note auth = this
  show ?thesis
    unfolding missingNodeDetachTarget_def Let_def
    by (intro spec_rules spec_bind[OF spec_getOwnedVM_reads] auth) auto
qed

lemma missingNodeDetachTarget_quiet [emits_intros]: "emits quiet (missingNodeDetachTarget a c loc vol node vm)"
  unfolding missingNodeDetachTarget_def Let_def
  by (intro emits_intros quiet_of_reads[OF node_call_reads(2)])

lemma aspec_missingNode:
  assumes "list_all is_read acc"
    and "\<And>r es t'. list_all is_read (acc @ es) \<Longrightarrow> (r = Inr True \<longrightarrow> (if recovered
        then \<exists>rs q. es = rs @ [NAuthorize q None] \<and> md_VMUUID q = vm \<and> md_DiskUUID q = vol else es = []))
      \<Longrightarrow> aspec f A E (acc @ es) t' (k r)"
  shows "aspec f A E acc t (State_Monad.bind
    (if recovered then missingNodeDetachTarget a c loc vol node vm else ret (Inr True)) k)"
proof (cases recovered)
  case True
  then show ?thesis
    using assms by (auto intro!: aspec_read[OF spec_missingNodeDetachTarget])
next
  case False
  then show ?thesis using assms(1) assms(2)[of "[]"] by simp
qed

lemma spec_attachLocked:
  assumes "0 < a_absencePoll a"
  shows "spec t (attachLocked a c loc vol vm) (\<lambda>_ es _. fenced_run (diskAttachmentFenceKey loc (ToLower vol))
    (\<lambda>i. i = AttachText (attachIntent a loc vol vm [] []))
    (attach_authority a c loc vol vm) (attach_ending a (attachIntent a loc vol vm [] [])) es)"
  unfolding attachLocked_def Let_def attachIntent_def[symmetric]
proof (rule spec_fenced_run[OF prepareAttachmentFence_quiet spec_prepareAttachmentFence], goal_cases)
  case (1 x es t')
  show ?case
  proof (cases "\<exists>f. x = Inr (Some f)")
    case False
    then show ?thesis by (intro disjI1) (auto split: sum.splits option.splits intro!: emits_intros)
  next
    case True
    then obtain f where f: "x = Inr (Some f)" by blast
    show ?thesis
      unfolding f sum.case option.case
      apply (intro disjI2 exI[of _ f] exI[of _ "AttachText (attachIntent a loc vol vm [] [])"] conjI)
      subgoal using 1 f by (simp add: attachIntent_def)
      subgoal by simp
      subgoal
        by (rule spec_attempt_or_Nil)
           ((intro aspec_rules aspec_AttachDisk assms owned_then_sweptI[OF refl] | assumption
             | simp only: list.pred_inject(1))+,
            auto simp: is_opt_def split: sum.splits option.splits if_splits)
      done
  qed
qed

lemma spec_detachLocked:
  assumes "0 < a_absencePoll a"
  shows "spec t (detachLocked a c loc vol node vm recovered) (\<lambda>_ es _. fenced_run (diskAttachmentFenceKey loc (ToLower vol))
    (\<lambda>i. i = AttachText (attachIntent a loc vol [] vm (if recovered then TrimSpace node else [])))
    (detach_authority a c loc vol vm recovered)
    (detach_ending a (attachIntent a loc vol [] vm (if recovered then TrimSpace node else []))) es)"
  (is "spec t _ (\<lambda>_ es _. fenced_run ?key ?P ?A (detach_ending a ?i) es)")
  unfolding detachLocked_def Let_def attachIntent_def[symmetric]
proof (rule spec_fenced_run[OF prepareAttachmentFence_quiet spec_prepareAttachmentFence], goal_cases)
  case (1 x es t')
  show ?case
  proof (cases "\<exists>f. x = Inr (Some f)")
    case False
    then show ?thesis by (intro disjI1) (auto split: sum.splits option.splits intro!: emits_intros)
  next
    case True
    then obtain f where f: "x = Inr (Some f)" by blast
    show ?thesis
      unfolding f sum.case option.case
      apply (intro disjI2 exI[of _ f] exI[of _ "AttachText ?i"] conjI)
      subgoal using 1 f by (simp add: attachIntent_def)
      subgoal by simp
      subgoal
        by (rule spec_attempt_or_Nil)
           ((intro aspec_rules aspec_missingNode[where vm = vm and vol = vol] aspec_DetachDisk[OF assms _ _ refl]
               owned_then_sweptI[OF refl] | assumption
             | simp only: list.pred_inject(1))+,
            auto split: sum.splits if_splits)
      done
  qed
qed

section \<open>Under the VM lock\<close>

text \<open>
  A run whose mutation is bracketed by the lock of VM \<open>vm\<close>: before the lock it is quiet; it stops
  there, or fails to get the lock, or gives it back at once, or runs \<open>F\<close> and then gives it back.
\<close>

definition locked_run :: "string \<Rightarrow> (event list \<Rightarrow> bool) \<Rightarrow> event list \<Rightarrow> bool" where
  "locked_run vm F es \<longleftrightarrow> (\<exists>pre. list_all quiet pre \<and>
     (es = pre \<or> (\<exists>e. es = pre @ [LLock (ToLower vm) (Some e)])
      \<or> es = pre @ [LLock (ToLower vm) None, LUnlock (ToLower vm)]
      \<or> (\<exists>body. es = pre @ LLock (ToLower vm) None # body @ [LUnlock (ToLower vm)] \<and> F body)))"

lemma locked_run_one_post:
  assumes "locked_run vm F es" "\<And>b. F b \<Longrightarrow> length (filter is_post b) \<le> 1"
  shows "length (filter is_post es) \<le> 1"
  using assms by (auto simp: locked_run_def list_all_iff quiet_def filter_empty_conv)

lemma locked_fenced_one_post: "locked_run vm (fenced_run k P A E) es \<Longrightarrow> length (filter is_post es) \<le> 1"
  by (erule locked_run_one_post) (rule fenced_run_one_post)

lemma spec_lockVM:
  "spec t (lockVM a c vm) (\<lambda>r es t'. t \<le> t' \<and>
     (case r of None \<Rightarrow> es = [LLock (ToLower vm) None]
      | Some e \<Rightarrow> (\<exists>x. es = [LLock (ToLower vm) (Some x)]) \<or> es = [LLock (ToLower vm) None, LUnlock (ToLower vm)]))"
proof -
  have lock: "spec t (State_Monad.bind (call g (\<lambda>t. LLock k)) f) Q"
    if "\<And>e t'. t \<le> t' \<Longrightarrow> spec t' (f e) (\<lambda>y es t''. Q y ([LLock k e] @ es) t'')"
    for t g k f and Q :: "error option \<Rightarrow> event list \<Rightarrow> int \<Rightarrow> bool"
    by (rule spec_bind[OF spec_call[where Q = "\<lambda>e es t'. es = [LLock k e] \<and> t \<le> t'"]]) (use that in auto)
  show ?thesis
    unfolding lockVM_def unlockVM_def Let_def by (intro lock spec_rules) auto
qed

lemma locked_bracket:
  assumes "list_all quiet pre" "spec t m (\<lambda>_ es _. F es)"
  shows "spec t (do { r \<leftarrow> m; unlockVM vm; ret r })
    (\<lambda>_ es _. locked_run vm F (pre @ [LLock (ToLower vm) None] @ es))"
  unfolding unlockVM_def
  by (intro spec_bind[OF assms(2)] spec_rules) (use assms(1) in \<open>auto simp: locked_run_def\<close>)

lemma locked_runI:
  "list_all quiet es \<Longrightarrow> locked_run vm F es"
  "list_all quiet pre \<Longrightarrow> locked_run vm F (pre @ [LLock (ToLower vm) (Some e)])"
  "list_all quiet pre \<Longrightarrow> locked_run vm F (pre @ [LLock (ToLower vm) None, LUnlock (ToLower vm)])"
  unfolding locked_run_def by blast+

lemma spec_locked:
  assumes "list_all quiet pre" "\<And>t. spec t m (\<lambda>_ es _. F vm es)"
  shows "spec t (State_Monad.bind (lockVM a c vm) (\<lambda>l. case l of None \<Rightarrow> State_Monad.bind m (\<lambda>r.
      State_Monad.bind (unlockVM vm) (\<lambda>_. ret r)) | Some err \<Rightarrow> ret (g err)))
    (\<lambda>_ es _. \<exists>vm'. locked_run vm' (F vm') (pre @ es))"
proof (rule spec_bind[OF spec_lockVM], goal_cases)
  case (1 l es t')
  show ?case
  proof (cases l)
    case None
    with 1 show ?thesis
      by (auto intro!: spec_mono[OF locked_bracket[where F = "F vm", OF assms]] exI[of _ vm])
  next
    case (Some err)
    with 1 assms(1) show ?thesis by (auto intro!: spec_return exI[of _ vm] locked_runI(2,3))
  qed
qed

lemma reads_quiet: "list_all is_read es \<Longrightarrow> list_all quiet es"
  by (auto simp: list_all_iff intro: is_read_quiet)

text \<open>
  C2: \<open>AttachVolume\<close> sends at most one attach, only while it holds the lock of the VM that the
  node resolved to, under an attachment fence it acquired itself for this disk and VM, with the
  disk proven account-owned and then attached nowhere as the last reads and the dispatch reserve
  left. Once sent, the fence is removed only after a sweep found the disk on that VM (or the
  client blocked the request). The lock is given back on every path.
\<close>

theorem attach_volume_safe:
  assumes "run_state (AttachVolume a c location volumeID nodeID) s = (r, s')" and "0 < a_absencePoll a"
  shows "\<exists>es vm. trace s' = trace s @ es \<and> length (filter is_post es) \<le> 1
    \<and> locked_run vm (fenced_run (diskAttachmentFenceKey location (ToLower volumeID))
        (\<lambda>i. i = AttachText (attachIntent a location volumeID vm [] []))
        (attach_authority a c location volumeID vm)
        (attach_ending a (attachIntent a location volumeID vm [] []))) es"
proof -
  let ?F = "\<lambda>vm. fenced_run (diskAttachmentFenceKey location (ToLower volumeID))
        (\<lambda>i. i = AttachText (attachIntent a location volumeID vm [] []))
        (attach_authority a c location volumeID vm) (attach_ending a (attachIntent a location volumeID vm [] []))"
  have "spec t (AttachVolume a c location volumeID nodeID) (\<lambda>_ es _. \<exists>vm. locked_run vm (?F vm) es)" for t
    unfolding AttachVolume_def
    by (intro spec_rules spec_emits_bind[OF resolveVM_reads] spec_emits_bind[OF GetVolume_reads];
        ((simp only: append_assoc[symmetric], rule spec_locked[where F = ?F, OF _ spec_attachLocked[OF assms(2)]],
          simp add: reads_quiet; fail)
        | (auto intro!: locked_runI(1) simp: reads_quiet; fail)))
  from spec_run[OF this refl assms(1)] show ?thesis
    using locked_fenced_one_post by blast
qed

lemma detachTarget_quiet [emits_intros]: "emits quiet (detachTarget a c l v n vm)"
  unfolding detachTarget_def by (intro emits_intros)

text \<open>
  C3: \<open>DetachVolume\<close> sends at most one detach, only while it holds the lock of the VM that holds
  the disk, under an attachment fence it acquired itself for this disk and VM, with the disk proven
  account-owned and then attached to exactly that VM as the last reads (and, for a missing Node,
  the detach authorized once more after them), and the dispatch reserve left. Once sent, the fence
  is removed only after the three-step absence proof (or when the client blocked the request). The
  lock is given back on every path.
\<close>

theorem detach_volume_safe:
  assumes "run_state (DetachVolume a c location volumeID nodeID) s = (r, s')" and "0 < a_absencePoll a"
  shows "\<exists>es vm recovered. trace s' = trace s @ es \<and> length (filter is_post es) \<le> 1
    \<and> locked_run vm (fenced_run (diskAttachmentFenceKey location (ToLower volumeID))
        (\<lambda>i. i = AttachText (attachIntent a location volumeID [] vm (if recovered then TrimSpace nodeID else [])))
        (detach_authority a c location volumeID vm recovered)
        (detach_ending a (attachIntent a location volumeID [] vm (if recovered then TrimSpace nodeID else [])))) es"
proof -
  let ?F = "\<lambda>rec vm. fenced_run (diskAttachmentFenceKey location (ToLower volumeID))
        (\<lambda>i. i = AttachText (attachIntent a location volumeID [] vm (if rec then TrimSpace nodeID else [])))
        (detach_authority a c location volumeID vm rec)
        (detach_ending a (attachIntent a location volumeID [] vm (if rec then TrimSpace nodeID else [])))"
  have locked: "spec t (do { l \<leftarrow> lockVM a c att; case l of Some err \<Rightarrow> ret (Some err)
        | None \<Rightarrow> do { r \<leftarrow> detachLocked a c location volumeID nodeID att rec; unlockVM att; ret r } })
      (\<lambda>_ es _. \<exists>rec vm. locked_run vm (?F rec vm) (pre @ es))" if "list_all quiet pre" for t att rec pre
    by (rule spec_mono[OF spec_locked[where F = "?F rec", OF that spec_detachLocked[OF assms(2)]]]) blast
  have "spec t (DetachVolume a c location volumeID nodeID) (\<lambda>_ es _. \<exists>rec vm. locked_run vm (?F rec vm) es)" for t
    unfolding DetachVolume_def
    by (intro spec_rules spec_emits_bind[OF adapter_reads_quiet(1)] spec_emits_bind[OF adapter_reads_quiet(4)]
          spec_emits_bind[OF settleExistingAttachmentFence_quiet] spec_emits_bind[OF detachTarget_quiet];
        ((intro exI locked_runI(1), simp; fail)
        | (simp only: append_assoc[symmetric], rule locked, simp)))
  from spec_run[OF this refl assms(1)] show ?thesis
    using locked_fenced_one_post by blast
qed

end
