(* ===== verification/Adapter_Create.thy ===== *)
theory Adapter_Create
  imports Adapter_Safety
begin

text \<open>
  \<open>EnsureVolume\<close> and \<open>ExpandVolume\<close>: the create fence, what a returned volume guarantees, the
  resize under the VM lock, and the termination of all five mutations.
\<close>

section \<open>Readiness\<close>

text \<open>A disk that is ready for this create intent.\<close>

definition ready_disk :: "diskCreateIntent \<Rightarrow> Disk \<Rightarrow> bool" where
  "ready_disk i d = (validateDiskCreateReadback d i = None \<and> ToLower (TrimSpace (disk_Status d)) = ''active'')"

lemma spec_waitForDiskReady:
  "spec t (waitForDiskReady a c i d) (\<lambda>r es t'. list_all is_read es \<and> (\<forall>d'. r = Inr d' \<longrightarrow> ready_disk i d'
     \<and> (es = [] \<and> d' = d \<or> (\<exists>pre u. es = pre @ [RGetDisk (ci_Location i) u (Inr (Some d'))]))))"
proof -
  let ?from = "\<lambda>es s. es = [] \<and> s = d \<or> (\<exists>pre u. es = pre @ [RGetDisk (ci_Location i) u (Inr (Some s))])"
  have "spec t (loop n (waitForDiskReady_round a c i x) d) (\<lambda>r es t'. list_all is_read ([] @ es)
     \<and> (\<forall>d'. r = Inr d' \<longrightarrow> ready_disk i d' \<and> ?from ([] @ es) d'))" for n x
    by (rule spec_loop[where I = "\<lambda>acc s _. list_all is_read acc \<and> ?from acc s"])
       (auto simp: waitForDiskReady_round_def Let_def is_read_def[of LoopCut] ready_disk_def intro!: spec_rules)
  then show ?thesis unfolding waitForDiskReady_def Let_def by simp
qed

text \<open>The proof that a create took effect: the receipt was stored for a disk that was read and ready.\<close>

definition create_done :: "diskCreateIntent \<Rightarrow> mutationFence \<Rightarrow> event list \<Rightarrow> bool" where
  "create_done i f w \<longleftrightarrow> (\<exists>pre ev d rc. w = pre @ [ev, FSetReceipt f (ToLower (disk_UUID d)) (Inr (Some rc))]
     \<and> ready_disk i d
     \<and> ((\<exists>ds. ev = RListDisks (ci_Location i) (Inr ds) \<and> uniqueNamedDisk ds (ci_Name i) = Inr (Some d))
        \<or> (\<exists>u. ev = RGetDisk (ci_Location i) u (Inr (Some d)))))"

fun create_step :: "mutationFence \<Rightarrow> event \<Rightarrow> bool" where
  "create_step f (FSetReceipt g u r) = (g = f)"
| "create_step f e = is_read e"

lemma create_step_read: "is_read e \<Longrightarrow> create_step f e"
  by (cases e) (auto simp: is_read_def)

lemma create_steps_of_reads: "list_all is_read es \<Longrightarrow> list_all (create_step f) es"
  by (auto simp: list_all_iff intro: create_step_read)

lemma spec_finishFencedDisk:
  assumes "uniqueNamedDisk ds (ci_Name i) = Inr (Some d)"
  shows "spec t (finishFencedDisk a c i f d) (\<lambda>r es t'.
     proven_completion (create_step f) (create_done i f) (RListDisks (ci_Location i) (Inr ds) # es)
     \<and> (\<forall>v. r = Inr v \<longrightarrow> (\<exists>d'. ready_disk i d' \<and> diskVolume (ci_Location i) d' = Inr v)))"
proof -
  let ?l = "RListDisks (ci_Location i) (Inr ds)"
  have finished: "create_done i f (?l # es @ [FSetReceipt f (ToLower (disk_UUID d')) (Inr (Some rc))])"
    if "ready_disk i d'" "es = [] \<and> d' = d \<or> (\<exists>pre u. es = pre @ [RGetDisk (ci_Location i) u (Inr (Some d'))])"
    for es d' rc
    using that(2)
  proof (elim disjE conjE exE)
    assume "es = []" "d' = d"
    then show ?thesis unfolding create_done_def
      by (intro exI[of _ "[]"] exI[of _ ?l] exI[of _ d] exI[of _ rc]) (use that assms in auto)
  next
    fix pre u assume "es = pre @ [RGetDisk (ci_Location i) u (Inr (Some d'))]"
    then show ?thesis unfolding create_done_def
      by (intro exI[of _ "?l # pre"] exI[of _ "RGetDisk (ci_Location i) u (Inr (Some d'))"] exI[of _ d'] exI[of _ rc])
         (use that in auto)
  qed
  have fin: "proven_completion (create_step f) (create_done i f)
      (?l # es @ [FSetReceipt f (ToLower (disk_UUID d')) (Inr (Some rc)), FDelete rc x])"
    if "list_all is_read es" "ready_disk i d'"
      "es = [] \<and> d' = d \<or> (\<exists>pre u. es = pre @ [RGetDisk (ci_Location i) u (Inr (Some d'))])" for es d' rc x
    using proven_completionI(2)[where D = "create_done i f" and step = "create_step f" and dels = "[FDelete rc x]",
        OF _ finished[OF that(2,3)]] that(1)
    by (simp add: create_steps_of_reads create_step_read)
  have fin': "list_all is_read pre \<Longrightarrow> ready_disk i d' \<Longrightarrow> proven_completion (create_step f) (create_done i f)
      (?l # pre @ [RGetDisk (ci_Location i) u (Inr (Some d')), FSetReceipt f (ToLower (disk_UUID d')) (Inr (Some rc)), FDelete rc x])"
    for pre d' u rc x
    using fin[of "pre @ [RGetDisk (ci_Location i) u (Inr (Some d'))]" d' rc x] by simp
  show ?thesis
    unfolding finishFencedDisk_def completeFencedDisk_def
    by (intro spec_rules spec_bind[OF spec_waitForDiskReady])
       (auto intro: fin[of "[]" d, simplified] fin' proven_completionI(1) simp: create_steps_of_reads create_step_read)
qed

lemma create_done_append: "create_done i f w \<Longrightarrow> create_done i f (acc @ w)"
  unfolding create_done_def by (metis append.assoc)

lemma proven_completion_append:
  assumes "proven_completion step D es" "list_all step acc" "\<And>w. D w \<Longrightarrow> D (acc @ w)"
  shows "proven_completion step D (acc @ es)"
proof -
  from assms(1) obtain w dels where w: "es = w @ dels" "list_all step w" "list_all is_fence_delete dels" "dels \<noteq> [] \<longrightarrow> D w"
    unfolding proven_completion_def by blast
  then show ?thesis
    unfolding proven_completion_def
    by (intro exI[of _ "acc @ w"] exI[of _ dels]) (use assms(2,3) in auto)
qed

text \<open>What a volume returned for an intent promises.\<close>

definition volume_of :: "diskCreateIntent \<Rightarrow> Volume \<Rightarrow> bool" where
  "volume_of i v \<longleftrightarrow> (\<exists>d. ready_disk i d \<and> diskVolume (ci_Location i) d = Inr v)"

lemma spec_reconcileDiskCreateFence:
  "spec t (reconcileDiskCreateFence a c i f e) (\<lambda>r es t'.
     proven_completion (create_step f) (create_done i f) es \<and> (\<forall>v. r = Inr v \<longrightarrow> volume_of i v))"
proof -
  have found: "spec t (finishFencedDisk a c i f d \<bind> (\<lambda>r. ret (Return r))) (\<lambda>x es t'. case x of
      Return r \<Rightarrow> proven_completion (create_step f) (create_done i f) (acc @ RListDisks (ci_Location i) (Inr ds) # es)
        \<and> (\<forall>v. r = Inr v \<longrightarrow> volume_of i v)
    | Continue _ \<Rightarrow> list_all is_read (acc @ RListDisks (ci_Location i) (Inr ds) # es))"
    if "uniqueNamedDisk ds (ci_Name i) = Inr (Some d)" "list_all is_read acc" for t d ds acc
    by (rule spec_bind[OF spec_finishFencedDisk[OF that(1)]])
       (use that(2) in \<open>auto intro!: spec_return proven_completion_append create_steps_of_reads create_done_append simp: volume_of_def\<close>)
  have "spec t (loop n (reconcileDiskCreateFence_round a c i f) ()) (\<lambda>r es t'.
      proven_completion (create_step f) (create_done i f) ([] @ es) \<and> (\<forall>v. r = Inr v \<longrightarrow> volume_of i v))" for n
  proof (rule spec_loop[where I = "\<lambda>acc _ _. list_all is_read acc"], goal_cases)
    case (1 acc s t)
    then show ?case
      unfolding reconcileDiskCreateFence_round_def
      by (intro spec_rules)
         (auto split: sum.splits round.splits intro!: spec_mono[OF found] proven_completionI(1) simp: create_steps_of_reads create_step_read)
  qed (auto intro!: proven_completionI(1) simp: create_steps_of_reads is_read_def)
  then show ?thesis
    unfolding reconcileDiskCreateFence_def
    by (intro spec_rules) (auto intro: proven_completionI(1))
qed

section \<open>EnsureVolume\<close>

definition create_authority :: "'w Adapter \<Rightarrow> ctx \<Rightarrow> VolumeSpec \<Rightarrow> int \<Rightarrow> event list \<Rightarrow> event \<Rightarrow> bool" where
  "create_authority a c spc sz reads p \<longleftrightarrow> (\<exists>disks t r. reads = [RListDisks (spec_Location spc) (Inr disks)]
     \<and> (\<forall>d \<in> set disks. disk_DisplayName d \<noteq> spec_Name spc)
     \<and> p = PCreateDisk t (spec_Location spc) (createDiskRequest a spc sz) r \<and> reserve_ok c t)"

definition create_ending :: "diskCreateIntent \<Rightarrow> mutationFence \<Rightarrow> event \<Rightarrow> event list \<Rightarrow> bool" where
  "create_ending i f p post \<longleftrightarrow> (\<exists>t loc q r. p = PCreateDisk t loc q r \<and>
     (if \<exists>e. r = Inl e \<and> errors_is ErrMutationBlocked e then \<exists>x. post = [FDelete f x]
      else proven_completion (create_step f) (create_done i f) post))"

lemma uniqueNamedDisk_None: "uniqueNamedDisk ds n = Inr None \<Longrightarrow> \<forall>d \<in> set ds. disk_DisplayName d \<noteq> n"
  by (auto simp: uniqueNamedDisk_def filter_empty_conv split: list.splits)

lemma spec_clearUndispatched:
  "spec t (clearUndispatchedDiskCreateFence a f e) (\<lambda>r es t'. \<exists>x. es = [FDelete f x])"
  unfolding clearUndispatchedDiskCreateFence_def
  by (rule spec_bind[OF spec_deleteDetached]) (auto intro!: spec_return)

lemma spec_issueCreateDisk:
  "spec t (issueCreateDisk a c spc i f) (\<lambda>_ es _. list_all quiet es
     \<or> attempt f (create_authority a c spc (ci_SizeGiB i)) (create_ending i f) es)"
proof -
  have auth: "create_authority a c spc n [RListDisks (spec_Location spc) (Inr ds)]
      (PCreateDisk t (spec_Location spc) (createDiskRequest a spc n) r)"
    if "uniqueNamedDisk ds (spec_Name spc) = Inr None" "reserve_ok c t" for t ds r n
    using that uniqueNamedDisk_None[OF that(1)] by (auto simp: create_authority_def)
  have posted: "attempt f A E (RListDisks l x # p # post)"
    if "is_post p" "A [RListDisks l x] p" "E p post" "list_all quiet post" for A E l x p post
    using attempt_posted[of "[RListDisks l x]" p A E post f] that by simp
  have recon: "spec t (reconcileDiskCreateFence a c' i f e) (\<lambda>r es t'.
      list_all quiet es \<and> proven_completion (create_step f) (create_done i f) es)" for t c' e
    by (rule spec_mono[OF spec_conj[OF spec_reconcileDiskCreateFence spec_emits[OF reconcileDiskCreateFence_quiet]]]) auto
  show ?thesis
    unfolding issueCreateDisk_def Let_def
    by (intro spec_rules spec_bind[OF spec_requireReserve] spec_bind[OF spec_clearUndispatched]
        spec_bind[OF spec_deleteDetached] spec_mono[OF recon] spec_mono[OF spec_emits[OF finishUndispatchedFencedDisk_quiet]])
       (auto simp: is_opt_def create_ending_def split: option.splits sum.splits intro!: posted auth)
qed

definition ensureIntent :: "'w Adapter \<Rightarrow> VolumeSpec \<Rightarrow> int \<Rightarrow> diskCreateIntent" where
  "ensureIntent a spc n = \<lparr>ci_Operation = ''create-disk'', ci_Location = spec_Location spc, ci_Name = spec_Name spc,
     ci_SizeGiB = n, ci_BillingAccountID = a_billing a\<rparr>"

lemma adoptExistingDisk_quiet [emits_intros]: "emits quiet (adoptExistingDisk a c spc i d)"
  unfolding adoptExistingDisk_def by (intro emits_intros)

lemma fenced_run_quiet: "list_all quiet es \<Longrightarrow> fenced_run k P A E es"
  by (simp add: fenced_run_def)

lemma fenced_run_Cons:
  assumes "quiet e" "fenced_run k P A E es"
  shows "fenced_run k P A E (e # es)"
  using assms(2) unfolding fenced_run_def
proof (elim disjE exE conjE)
  fix pre rest f i
  assume "es = pre @ rest" "list_all quiet pre" "acquired_by k i f pre" "P i" "attempt f A (E f) rest"
  moreover have "acquired_by k i f (e # pre)"
    using acquired_by_append[OF \<open>acquired_by k i f pre\<close>, of "[e]"] by simp
  ultimately show "list_all quiet (e # es) \<or> (\<exists>pre rest f i. e # es = pre @ rest \<and> list_all quiet pre
      \<and> acquired_by k i f pre \<and> P i \<and> attempt f A (E f) rest)"
    using assms(1) by (intro disjI2 exI[of _ "e # pre"] exI[of _ rest] exI[of _ f] exI[of _ i]) simp
qed (simp add: assms(1))

lemma spec_begin_then:
  fixes a :: "'w Adapter" and n :: int and spc :: VolumeSpec
  defines "i \<equiv> ensureIntent a spc n"
  shows "spec t (do {
      b \<leftarrow> beginDiskCreateFence a c i;
      case b of
        Inl err \<Rightarrow> ret (Inl err)
      | Inr (fence, acquired) \<Rightarrow>
          if \<not> acquired then do {
            readbackCtx \<leftarrow> mutationReadbackContext a;
            reconcileDiskCreateFence a readbackCtx i fence (Some (Plain ''a previous disk-create attempt remains unresolved''))
          }
          else issueCreateDisk a c spc i fence })
    (\<lambda>_ es _. fenced_run (diskCreateFenceKey a (spec_Location spc) (spec_Name spc))
      (\<lambda>x. x = CreateText i) (create_authority a c spc n) (create_ending i) es)"
proof (rule spec_fenced_run[OF beginDiskCreateFence_quiet spec_beginDiskCreateFence], goal_cases)
  case (1 x es t')
  show ?case
  proof (cases "\<exists>f. x = Inr (f, True)")
    case False
    then show ?thesis by (intro disjI1) (auto split: sum.splits prod.splits intro!: emits_intros)
  next
    case True
    then show ?thesis
      using 1 spec_issueCreateDisk[of t' a c spc i] by (fastforce simp: i_def ensureIntent_def)
  qed
qed

lemma spec_EnsureVolume_fenced:
  assumes "bytesToGiB (spec_CapacityBytes spc) = Inr n"
  shows "spec t (EnsureVolume a c spc) (\<lambda>_ es _. fenced_run (diskCreateFenceKey a (spec_Location spc) (spec_Name spc))
    (\<lambda>i. i = CreateText (ensureIntent a spc n)) (create_authority a c spc n) (create_ending (ensureIntent a spc n)) es)"
  unfolding EnsureVolume_def assms sum.case Let_def ensureIntent_def[symmetric]
  by (intro spec_rules spec_mono[OF spec_begin_then] spec_mono[OF spec_emits[OF adoptExistingDisk_quiet]])
     (auto intro: fenced_run_Cons fenced_run_quiet)

lemma spec_finishUndispatched:
  "spec t (finishUndispatchedFencedDisk a c i f d) (\<lambda>r es t'. \<forall>v. r = Inr v \<longrightarrow> volume_of i v)"
  unfolding finishUndispatchedFencedDisk_def completeFencedDisk_def
  by (intro spec_rules spec_bind[OF spec_waitForDiskReady] spec_emits_bind[OF clearUndispatched_quiet])
     (auto simp: volume_of_def)

lemma spec_adoptExistingDisk:
  assumes "ci_Location i = spec_Location spc"
  shows "spec t (adoptExistingDisk a c spc i d) (\<lambda>r es t'. \<forall>v. r = Inr v \<longrightarrow> volume_of i v)"
  unfolding adoptExistingDisk_def
  by (intro spec_rules spec_bind[OF spec_waitForDiskReady]) (auto simp: volume_of_def assms)

lemma spec_EnsureVolume_result:
  assumes "bytesToGiB (spec_CapacityBytes spc) = Inr n"
  shows "spec t (EnsureVolume a c spc) (\<lambda>r es t'. \<forall>v. r = Inr v \<longrightarrow> volume_of (ensureIntent a spc n) v)"
  unfolding EnsureVolume_def assms sum.case Let_def ensureIntent_def[symmetric] issueCreateDisk_def
  by (intro spec_rules spec_emits_bind[OF beginDiskCreateFence_quiet] spec_emits_bind[OF clearUndispatched_quiet]
        spec_emits_bind[OF deleteMutationFenceDetached_quiet]
        spec_bind[OF spec_requireReserve] spec_mono[OF spec_finishUndispatched] spec_mono[OF spec_adoptExistingDisk]
        spec_mono[OF spec_reconcileDiskCreateFence])
     (auto simp: ensureIntent_def)

lemma EnsureVolume_disk:
  assumes "run_state (EnsureVolume a c spc) s = (Inr v, s')"
  obtains n d where "bytesToGiB (spec_CapacityBytes spc) = Inr n" "diskVolume (spec_Location spc) d = Inr v"
    "disk_SizeGiB d = n" "disk_DisplayName d = spec_Name spc"
proof -
  from assms obtain n where n: "bytesToGiB (spec_CapacityBytes spc) = Inr n"
    by (auto simp: EnsureVolume_def split: sum.splits)
  from spec_run[OF spec_EnsureVolume_result[OF n] refl assms] obtain d where
    d: "ready_disk (ensureIntent a spc n) d" "diskVolume (spec_Location spc) d = Inr v"
    by (auto simp: volume_of_def ensureIntent_def)
  from d(1) have "disk_SizeGiB d = n" "disk_DisplayName d = spec_Name spc"
    by (auto simp: ready_disk_def validateDiskCreateReadback_def ensureIntent_def split: if_splits)
  with n d(2) that show ?thesis by blast
qed

lemma EnsureVolume_Inr:
  assumes "run_state (EnsureVolume a c spc) s = (Inr v, s')" and "spec_CapacityBytes spc \<le> MaxInt64"
  shows "vol_Name v = spec_Name spc \<and> vol_Location v = spec_Location spc \<and> uuid_lower (vol_ID v)
    \<and> spec_CapacityBytes spc \<le> vol_CapacityBytes v \<and> vol_CapacityBytes v < spec_CapacityBytes spc + gib
    \<and> vol_CapacityBytes v \<le> MaxInt64"
proof -
  from assms(1) obtain n d where d: "bytesToGiB (spec_CapacityBytes spc) = Inr n" "diskVolume (spec_Location spc) d = Inr v"
    "disk_SizeGiB d = n" "disk_DisplayName d = spec_Name spc" by (rule EnsureVolume_disk)
  from bytesToGiB_Inr[OF d(1) assms(2)] diskVolume_Inr[OF d(2)] d(3,4) show ?thesis by (auto simp: algebra_simps)
qed

lemma EnsureVolume_size:
  assumes "run_state (EnsureVolume a c spc) s = (Inr v, s')" and "bytesToGiB (spec_CapacityBytes spc) = Inr n"
  shows "vol_CapacityBytes v = n * gib"
proof -
  from assms(1) obtain n' d where d: "bytesToGiB (spec_CapacityBytes spc) = Inr n'" "diskVolume (spec_Location spc) d = Inr v"
    "disk_SizeGiB d = n'" by (rule EnsureVolume_disk)
  from diskVolume_Inr(1)[OF d(2)] d(1,3) assms(2) show ?thesis by simp
qed

text \<open>
  C5: a volume returned by \<open>EnsureVolume\<close> is the one asked for: it carries the requested name and
  location and the canonical UUID of a disk, and its capacity covers the request by less than one
  extra GiB, exactly within 64 bits.
\<close>

theorem ensure_volume_result:
  assumes "run_state (EnsureVolume a c spc) s = (Inr v, s')" and "spec_CapacityBytes spc \<le> MaxInt64"
  shows "vol_Name v = spec_Name spc \<and> vol_Location v = spec_Location spc \<and> uuid_lower (vol_ID v)
    \<and> spec_CapacityBytes spc \<le> vol_CapacityBytes v \<and> vol_CapacityBytes v < spec_CapacityBytes spc + gib
    \<and> vol_CapacityBytes v \<le> MaxInt64"
  using EnsureVolume_Inr[OF assms] .

section \<open>ExpandVolume\<close>

text \<open>The part of an expansion under the lock: only reads, or one resize on fresh authority and only reads after.\<close>

definition resize_run :: "'w Adapter \<Rightarrow> ctx \<Rightarrow> string \<Rightarrow> string \<Rightarrow> int \<Rightarrow> string \<Rightarrow> event list \<Rightarrow> bool" where
  "resize_run a c loc vol n vm es \<longleftrightarrow> list_all is_read es
     \<or> (\<exists>reads t r post. es = reads @ PResizeAttachedDisk t loc vm vol n r # post
          \<and> list_all is_read reads \<and> list_all is_read post \<and> reserve_ok c t
          \<and> owned_then_swept a loc vol (\<lambda>d. disk_SizeGiB d < n) vm reads)"

lemma waitForDiskSize_reads [emits_intros]: "emits is_read (waitForDiskSize a c l v n)"
  unfolding waitForDiskSize_def waitForDiskSize_round_def
  by (intro emits_intros emits_loop) (simp add: is_read_def)

lemma spec_waitForDiskSize:
  "spec t (waitForDiskSize a c l v n) (\<lambda>r es t'. list_all is_read es \<and> (\<forall>d. r = Inr d \<longrightarrow> n \<le> disk_SizeGiB d))"
proof -
  have "spec t (loop m (waitForDiskSize_round a c l v n) ()) (\<lambda>r es t'. list_all is_read ([] @ es) \<and> (\<forall>d. r = Inr d \<longrightarrow> n \<le> disk_SizeGiB d))" for m
    by (rule spec_loop[where I = "\<lambda>acc _ _. list_all is_read acc"])
       (auto simp: waitForDiskSize_round_def is_read_def[of LoopCut] split: option.splits sum.splits if_splits
          intro!: spec_bind[OF spec_getOwnedDisk] spec_rules)
  then show ?thesis unfolding waitForDiskSize_def by simp
qed

lemma resize_run_reads: "list_all is_read es \<Longrightarrow> resize_run a c loc vol n vm es"
  by (simp add: resize_run_def)

lemma resize_run_posted:
  assumes "csi_disk d vol (a_billing a)" "disk_SizeGiB d < n" "exact_sweep a loc vol sweep vm" "reserve_ok c t"
    "list_all is_read post"
  shows "resize_run a c loc vol n vm (RGetDisk loc vol (Inr (Some d)) # sweep @ PResizeAttachedDisk t loc vm vol n r # post)"
proof -
  let ?reads = "RGetDisk loc vol (Inr (Some d)) # sweep"
  have "owned_then_swept a loc vol (\<lambda>d. disk_SizeGiB d < n) vm ?reads"
    using owned_then_sweptI[OF refl, of d vol a "\<lambda>d. disk_SizeGiB d < n" loc sweep vm "[]"] assms by simp
  moreover have "list_all is_read ?reads" using exact_sweep_reads[OF assms(3)] by simp
  moreover have "RGetDisk loc vol (Inr (Some d)) # sweep @ PResizeAttachedDisk t loc vm vol n r # post
      = ?reads @ PResizeAttachedDisk t loc vm vol n r # post" by simp
  ultimately show ?thesis unfolding resize_run_def using assms(4,5) by blast
qed

lemma spec_expandLocked:
  "spec t (expandLocked a c loc vol vm n) (\<lambda>r es t'. resize_run a c loc vol n vm es
     \<and> (\<forall>cap. r = Inr cap \<longrightarrow> (\<exists>d. n \<le> disk_SizeGiB d \<and> diskCapacity loc d = Inr cap)))"
  unfolding expandLocked_def Let_def
  by (intro spec_rules spec_bind[OF spec_getOwnedDisk] spec_bind[OF spec_attachedVM_reads]
        spec_bind[OF spec_requireReserve] spec_bind[OF spec_waitForDiskSize])
     (auto intro: resize_run_reads resize_run_posted split: sum.splits if_splits)

lemma resize_run_one_post: "resize_run a c loc vol n vm es \<Longrightarrow> length (filter is_post es) \<le> 1"
  by (auto simp: resize_run_def list_all_iff is_read_def filter_empty_conv)

lemma spec_ExpandVolume:
  assumes "bytesToGiB bytes = Inr n"
  shows "spec t (ExpandVolume a c loc vol bytes) (\<lambda>r es t'. (\<exists>vm. locked_run vm (resize_run a c loc vol n vm) es)
    \<and> (\<forall>cap. r = Inr cap \<longrightarrow> (\<exists>d. n \<le> disk_SizeGiB d \<and> diskCapacity loc d = Inr cap)))"
proof -
  let ?R = "\<lambda>r. \<forall>cap. r = Inr cap \<longrightarrow> (\<exists>d. n \<le> disk_SizeGiB d \<and> diskCapacity loc d = Inr cap)"
  have 1: "spec t (ExpandVolume a c loc vol bytes) (\<lambda>r es t'. \<exists>vm. locked_run vm (resize_run a c loc vol n vm) es)"
    unfolding ExpandVolume_def assms sum.case
    by (intro spec_rules spec_emits_bind[OF adapter_reads_quiet(1)] spec_emits_bind[OF adapter_reads_quiet(4)]
          spec_emits_bind[OF adapter_reads_quiet(3)] spec_emits_bind[OF settleExistingAttachmentFence_quiet];
        ((intro exI locked_runI(1), simp; fail)
        | (simp only: append_assoc[symmetric], rule spec_locked[where F = "resize_run a c loc vol n"], simp,
            rule spec_mono[OF spec_expandLocked], simp)))
  have 2: "spec t (ExpandVolume a c loc vol bytes) (\<lambda>r es t'. ?R r)"
    unfolding ExpandVolume_def unlockVM_def assms sum.case
    by (intro spec_rules spec_bind[OF spec_getOwnedDisk] spec_emits_bind[OF adapter_reads_quiet(4)]
          spec_emits_bind[OF adapter_reads_quiet(3)] spec_emits_bind[OF settleExistingAttachmentFence_quiet]
          spec_bind[OF spec_lockVM] spec_bind[OF spec_expandLocked]) auto
  show ?thesis by (rule spec_mono[OF spec_conj[OF 1 2]]) auto
qed

lemma ExpandVolume_Inr:
  assumes "run_state (ExpandVolume a c location volumeID bytes) s = (Inr cap, s')" and "bytes \<le> MaxInt64"
  shows "bytes \<le> cap \<and> cap \<le> MaxInt64"
proof -
  from assms(1) obtain n where n: "bytesToGiB bytes = Inr n"
    by (auto simp: ExpandVolume_def split: sum.splits)
  note b = bytesToGiB_Inr[OF n assms(2)]
  from spec_run[OF spec_ExpandVolume[OF n] refl assms(1)]
  obtain d where nd: "n \<le> disk_SizeGiB d" "diskCapacity location d = Inr cap" by blast
  then obtain v where d: "diskVolume location d = Inr v" "vol_CapacityBytes v = cap"
    by (cases "diskVolume location d") (auto simp: diskCapacity_def)
  have "n * gib \<le> disk_SizeGiB d * gib" using nd(1) gib_pos by simp
  with b(4) d diskVolume_Inr[OF d(1)] show ?thesis by auto
qed

text \<open>
  C6: \<open>ExpandVolume\<close> sends at most one resize, only while it holds the lock of the VM that holds
  the disk, with the disk proven account-owned, smaller than the target and attached to exactly
  that VM as the last reads and the dispatch reserve left; it touches no other state there. A
  capacity it returns covers the request.
\<close>

theorem expand_volume_safe:
  assumes "run_state (ExpandVolume a c location volumeID bytes) s = (r, s')"
    and "bytesToGiB bytes = Inr n" and "bytes \<le> MaxInt64"
  shows "(\<exists>es vm. trace s' = trace s @ es \<and> length (filter is_post es) \<le> 1
      \<and> locked_run vm (resize_run a c location volumeID n vm) es)
    \<and> (\<forall>cap. r = Inr cap \<longrightarrow> bytes \<le> cap \<and> cap \<le> MaxInt64)"
proof -
  from spec_run[OF spec_ExpandVolume[OF assms(2)] refl assms(1)] obtain es vm where
    es: "trace s' = trace s @ es" "locked_run vm (resize_run a c location volumeID n vm) es"
    by blast
  moreover have "length (filter is_post es) \<le> 1"
    by (rule locked_run_one_post[OF es(2)]) (rule resize_run_one_post)
  ultimately show ?thesis using ExpandVolume_Inr[of a c location volumeID bytes s _ s'] assms(1,3) by blast
qed

section \<open>Termination\<close>

lemma uncut_clear [uncut_intros]:
  "uncut t (clearUnissued a f e)" "uncut t (clearUnissuedPlain a f e)"
  "uncut t (clearIfIssued a b f e)" "uncut t (clearIfIssuedPlain a b f e)"
  unfolding clearUnissued_def clearUnissuedPlain_def clearIfIssued_def clearIfIssuedPlain_def
  by (intro uncut_intros)+

lemma uncut_finishDeletion:
  assumes "ctx_end c = Some e" "0 < a_poll a" "nat (e - t) < a_fuel a"
  shows "uncut t (finishDeletion a c l v f cf)"
  unfolding finishDeletion_def by (intro uncut_intros uncut_waitForDiskAbsent[OF assms])


lemma fuel_ok_poll: "fuel_ok a \<Longrightarrow> 0 < a_poll a"
  by (simp add: fuel_ok_def)

lemma uncut_issueDeleteDisk [uncut_intros]:
  assumes "fuel_ok a"
  shows "uncut t (issueDeleteDisk a c l v f cf d)"
  unfolding issueDeleteDisk_def Let_def
  by (intro uncut_intros uncut_bind_contexts(2)[OF assms] uncut_finishDeletion[OF _ fuel_ok_poll[OF assms]]; assumption)


lemma uncut_missingNodeDetachTarget [uncut_intros]: "uncut t (missingNodeDetachTarget a c l v n vm)"
  unfolding missingNodeDetachTarget_def Let_def by (intro uncut_intros)







end
