(* ===== verification/Adapter_Clearing.thy ===== *)
theory Adapter_Clearing
  imports Adapter_Create
begin

text \<open>
  When a durable fence may be removed. The theories before this one show what the adapter sends; this
  one looks at every removal of a fence in a run of \<open>DeleteVolume\<close> and \<open>EnsureVolume\<close>, also in the runs
  that send nothing: a fence is removed only when this run acquired it and nothing was dispatched
  under it, or on the proof that the mutation it stands for is complete.
\<close>

section \<open>Removals of a run\<close>

text \<open>\<open>deletes_ok J es\<close>: whenever a fence \<open>g\<close> is removed, \<open>J\<close> holds of the events before and of \<open>g\<close>.\<close>

definition deletes_ok :: "(event list \<Rightarrow> mutationFence \<Rightarrow> bool) \<Rightarrow> event list \<Rightarrow> bool" where
  "deletes_ok J es \<longleftrightarrow> (\<forall>pre g x post. es = pre @ FDelete g x # post \<longrightarrow> J pre g)"

lemma deletes_ok_Nil [simp]: "deletes_ok J []"
  by (simp add: deletes_ok_def)

lemma deletes_ok_Cons [simp]:
  "deletes_ok J (e # es) \<longleftrightarrow> (\<forall>g x. e = FDelete g x \<longrightarrow> J [] g) \<and> deletes_ok (\<lambda>pre. J (e # pre)) es"
  unfolding deletes_ok_def by (auto simp: Cons_eq_append_conv)

lemma deletes_ok_append: "deletes_ok J (xs @ ys) \<longleftrightarrow> deletes_ok J xs \<and> deletes_ok (\<lambda>pre. J (xs @ pre)) ys"
  by (induction xs arbitrary: J) auto

lemma deletes_ok_none: "list_all (\<lambda>e. \<not> is_fence_delete e) es \<Longrightarrow> deletes_ok J es"
  by (fastforce simp: deletes_ok_def)

lemma deletes_ok_mono: "deletes_ok J es \<Longrightarrow> (\<And>pre g. J pre g \<Longrightarrow> K pre g) \<Longrightarrow> deletes_ok K es"
  unfolding deletes_ok_def by blast


lemma read_no_delete: "is_read e \<Longrightarrow> \<not> is_fence_delete e"
  by (cases e) (auto simp: is_read_def)

lemma deletes_ok_reads: "list_all is_read es \<Longrightarrow> deletes_ok J es"
  by (rule deletes_ok_none) (use read_no_delete in \<open>auto simp: list_all_iff\<close>)



text \<open>Evidence that only looks at the end of what happened before.\<close>

definition recent :: "(event list \<Rightarrow> mutationFence \<Rightarrow> bool) \<Rightarrow> bool" where
  "recent J \<longleftrightarrow> (\<forall>acc pre g. J pre g \<longrightarrow> J (acc @ pre) g)"

lemma deletes_ok_after:
  assumes "recent J" and "deletes_ok J es"
  shows "deletes_ok (\<lambda>pre. J (acc @ pre)) es" "deletes_ok (\<lambda>pre. J (e # pre)) es"
    "deletes_ok (\<lambda>pre. J (e # acc @ pre)) es" "deletes_ok (\<lambda>pre. J (e # e' # pre)) es"
proof -
  show a: "deletes_ok (\<lambda>pre. J (acc @ pre)) es" for acc
    using assms by (auto simp: recent_def elim: deletes_ok_mono)
  from a[of "[e]"] a[of "e # acc"] a[of "[e, e']"] show "deletes_ok (\<lambda>pre. J (e # pre)) es"
    "deletes_ok (\<lambda>pre. J (e # acc @ pre)) es" "deletes_ok (\<lambda>pre. J (e # e' # pre)) es" by simp_all
qed

section \<open>Evidence\<close>

fun blocked_post :: "event \<Rightarrow> bool" where
  "blocked_post (PCreateDisk t l q r) = (\<exists>e. r = Inl e \<and> errors_is ErrMutationBlocked e)"
| "blocked_post (PDeleteDisk t l u r) = is_opt ErrMutationBlocked r"
| "blocked_post _ = False"

text \<open>Nothing was sent, or the last event is a mutation that the client blocked before sending it.\<close>

definition undispatched :: "event list \<Rightarrow> bool" where
  "undispatched es \<longleftrightarrow> list_all (\<lambda>e. \<not> is_post e) es
     \<or> (\<exists>es' p. es = es' @ [p] \<and> list_all (\<lambda>e. \<not> is_post e) es' \<and> blocked_post p)"

definition own_undispatched :: "string \<Rightarrow> (intent_text \<Rightarrow> bool) \<Rightarrow> event list \<Rightarrow> mutationFence \<Rightarrow> bool" where
  "own_undispatched key P pre g \<longleftrightarrow> (\<exists>before since i. pre = before @ since \<and> acquired_by key i g before \<and> P i \<and> undispatched since)"






lemma undispatchedI:
  "list_all is_read es \<Longrightarrow> undispatched es"
  "list_all is_read es \<Longrightarrow> blocked_post p \<Longrightarrow> undispatched (es @ [p])"
  by (auto simp: undispatched_def list_all_iff dest: is_read_no_post)


section \<open>Settling an attachment\<close>



section \<open>DeleteVolume\<close>

text \<open>
  Below, \<open>f\<close> is the fence the call acquired; \<open>unsent f\<close> is the evidence it can have of its own fence
  from the events since then.
\<close>

definition unsent :: "mutationFence \<Rightarrow> event list \<Rightarrow> mutationFence \<Rightarrow> bool" where
  "unsent f pre g \<longleftrightarrow> g = f \<and> undispatched pre"








lemma unsent_reads: "list_all is_read es \<Longrightarrow> unsent f es f" "list_all is_read es \<Longrightarrow> blocked_post p \<Longrightarrow> unsent f (es @ [p]) f"
  by (simp_all add: unsent_def undispatchedI)



lemma own_since:
  "acquired_by key i f es \<Longrightarrow> P i \<Longrightarrow> unsent f pre g \<Longrightarrow> own_undispatched key P (es @ pre) g"
  unfolding own_undispatched_def unsent_def by blast



section \<open>EnsureVolume\<close>

text \<open>The events show the disk \<open>d\<close>, listed under the name of the intent or read by its UUID, with only reads since.\<close>

definition disk_read :: "diskCreateIntent \<Rightarrow> Disk \<Rightarrow> event \<Rightarrow> bool" where
  "disk_read i d ev \<longleftrightarrow> (\<exists>ds. ev = RListDisks (ci_Location i) (Inr ds) \<and> uniqueNamedDisk ds (ci_Name i) = Inr (Some d))
     \<or> (\<exists>u. ev = RGetDisk (ci_Location i) u (Inr (Some d)))"

definition saw_disk :: "diskCreateIntent \<Rightarrow> Disk \<Rightarrow> event list \<Rightarrow> bool" where
  "saw_disk i d es \<longleftrightarrow> (\<exists>before ev reads. es = before @ ev # reads \<and> disk_read i d ev \<and> list_all is_read reads)"

text \<open>
  The proof that a create is complete: a disk that matches the intent and is active was read, and its
  UUID was stored as the receipt of the create fence; \<open>g\<close> is the fence with that receipt.
\<close>

definition receipt_proved :: "diskCreateIntent \<Rightarrow> event list \<Rightarrow> mutationFence \<Rightarrow> bool" where
  "receipt_proved i pre g \<longleftrightarrow> (\<exists>es f d. pre = es @ [FSetReceipt f (ToLower (disk_UUID d)) (Inr (Some g))]
     \<and> decodeCreateIntent f = Inr i \<and> ready_disk i d \<and> saw_disk i d es)"

definition create_clearing :: "'w Adapter \<Rightarrow> diskCreateIntent \<Rightarrow> event list \<Rightarrow> mutationFence \<Rightarrow> bool" where
  "create_clearing a i pre g \<longleftrightarrow>
     own_undispatched (diskCreateFenceKey a (ci_Location i) (ci_Name i)) (\<lambda>x. x = CreateText i) pre g \<or> receipt_proved i pre g"

lemma saw_disk_before: "saw_disk i d es \<Longrightarrow> saw_disk i d (acc @ es)"
  unfolding saw_disk_def by (metis append.assoc)

lemma recent_receipt: "recent (receipt_proved i)"
  unfolding recent_def receipt_proved_def by (metis append.assoc saw_disk_before)

lemma saw_disk_read: "disk_read i d ev \<Longrightarrow> saw_disk i d (acc @ [ev])"
  unfolding saw_disk_def by force

lemma saw_disk_reads: "saw_disk i d acc \<Longrightarrow> list_all is_read es \<Longrightarrow> saw_disk i d (acc @ es)"
  unfolding saw_disk_def by fastforce

lemma saw_disk_ready:
  assumes "saw_disk i d acc" and "list_all is_read es"
    and "es = [] \<and> d' = d \<or> (\<exists>pre u. es = pre @ [RGetDisk (ci_Location i) u (Inr (Some d'))])"
  shows "saw_disk i d' (acc @ es)"
proof -
  have r: "disk_read i d' (RGetDisk (ci_Location i) u (Inr (Some d')))" for u by (simp add: disk_read_def)
  from assms(3) show ?thesis
    using assms(1) saw_disk_read[OF r, of "acc @ _"] by (elim disjE exE conjE) simp_all
qed

lemma spec_complete_clears:
  assumes "saw_disk i d acc" and "ready_disk i d" and "decodeCreateIntent f = Inr i"
  shows "spec t (completeFencedDisk a c i f d) (\<lambda>_ es _. deletes_ok (\<lambda>pre. receipt_proved i (acc @ pre)) es)"
  unfolding completeFencedDisk_def
  by (intro spec_rules) (use assms in \<open>auto simp: receipt_proved_def\<close>)

lemma spec_ready_then_complete_clears:
  assumes "saw_disk i d acc" and "decodeCreateIntent f = Inr i"
    and "\<And>e es t. list_all is_read es \<Longrightarrow> spec t (failed e) (\<lambda>_ es' _. deletes_ok (\<lambda>pre. J (acc @ pre)) (es @ es'))"
    and "\<And>pre g. receipt_proved i pre g \<Longrightarrow> J pre g"
  shows "spec t (waitForDiskReady a c i d \<bind> (\<lambda>r. case r of Inl e \<Rightarrow> failed e | Inr ready \<Rightarrow> completeFencedDisk a c i f ready))
    (\<lambda>_ es _. deletes_ok (\<lambda>pre. J (acc @ pre)) es)"
proof (rule spec_bind[OF spec_waitForDiskReady], goal_cases)
  case (1 x es t')
  show ?case
  proof (cases x)
    case (Inl e)
    then show ?thesis using assms(3)[of es t' e] 1 by simp
  next
    case (Inr d')
    with 1 saw_disk_ready[OF assms(1), of es d'] have "saw_disk i d' (acc @ es)" "ready_disk i d'" by auto
    then have "spec t' (completeFencedDisk a c i f d') (\<lambda>_ es' _. deletes_ok (\<lambda>pre. J ((acc @ es) @ pre)) es')"
      by (rule spec_mono[OF spec_complete_clears[OF _ _ assms(2)]]) (auto elim: deletes_ok_mono intro: assms(4))
    with Inr 1 show ?thesis by (auto simp: deletes_ok_append deletes_ok_reads elim!: spec_mono)
  qed
qed

lemma spec_finishFenced_clears:
  assumes "saw_disk i d acc" and "decodeCreateIntent f = Inr i"
  shows "spec t (finishFencedDisk a c i f d) (\<lambda>_ es _. deletes_ok (\<lambda>pre. receipt_proved i (acc @ pre)) es)"
proof -
  have "spec t (waitForDiskReady a c i d \<bind> (\<lambda>r. case r of Inl e \<Rightarrow> ret (Inl e) | Inr ready \<Rightarrow> completeFencedDisk a c i f ready))
    (\<lambda>_ es _. deletes_ok (\<lambda>pre. receipt_proved i (acc @ pre)) es)" for t
    by (rule spec_ready_then_complete_clears[OF assms]) (auto intro!: spec_return deletes_ok_reads)
  then show ?thesis unfolding finishFencedDisk_def by (intro spec_rules) auto
qed

lemma spec_finishUndispatched_clears:
  assumes "saw_disk i d acc" and "decodeCreateIntent f = Inr i" and "list_all is_read acc"
  shows "spec t (finishUndispatchedFencedDisk a c i f d)
    (\<lambda>_ es _. deletes_ok (\<lambda>pre g. unsent f (acc @ pre) g \<or> receipt_proved i (acc @ pre) g) es)"
proof -
  let ?J = "\<lambda>pre g. unsent f pre g \<or> receipt_proved i pre g"
  have clear: "spec t (do { e \<leftarrow> clearUndispatchedDiskCreateFence a f err; ret (Inl e :: error + Volume) })
      (\<lambda>_ es' _. deletes_ok (\<lambda>pre. ?J (acc @ pre)) (es @ es'))" if "list_all is_read es" for t err es
  proof -
    have "unsent f (acc @ es) f" using that assms(3) by (intro unsent_reads) simp
    then show ?thesis
      by (intro spec_bind[OF spec_clearUndispatched] spec_rules) (use that in \<open>auto simp: deletes_ok_append deletes_ok_reads\<close>)
  qed
  have "spec t (waitForDiskReady a c i d \<bind> (\<lambda>r. case r of Inl err \<Rightarrow> do { e \<leftarrow> clearUndispatchedDiskCreateFence a f err; ret (Inl e) }
      | Inr ready \<Rightarrow> completeFencedDisk a c i f ready)) (\<lambda>_ es _. deletes_ok (\<lambda>pre. ?J (acc @ pre)) es)" for t
    by (rule spec_ready_then_complete_clears[OF assms(1,2) clear]) auto
  then show ?thesis
    unfolding finishUndispatchedFencedDisk_def using clear[of "[]"] by (auto split: option.splits)
qed

lemma spec_reconcile_clears:
  "spec t (reconcileDiskCreateFence a c i f e) (\<lambda>_ es _. deletes_ok (receipt_proved i) es)"
proof (cases "decodeCreateIntent f = Inr i")
  case False
  then show ?thesis unfolding reconcileDiskCreateFence_def by (auto split: sum.splits intro!: spec_return)
next
  case dec: True
  have found: "spec t (finishFencedDisk a c i f d \<bind> (\<lambda>r. ret (Return r :: (unit, error + Volume) round)))
      (\<lambda>x es _. case x of Return r \<Rightarrow> deletes_ok (receipt_proved i) (acc @ RListDisks (ci_Location i) (Inr ds) # es)
        | Continue _ \<Rightarrow> list_all is_read (acc @ RListDisks (ci_Location i) (Inr ds) # es))"
    if "uniqueNamedDisk ds (ci_Name i) = Inr (Some d)" "list_all is_read acc" for t d ds acc
  proof -
    let ?ev = "RListDisks (ci_Location i) (Inr ds)"
    have "saw_disk i d (acc @ [?ev])" using that(1) by (intro saw_disk_read) (simp add: disk_read_def)
    from spec_finishFenced_clears[OF this dec] show ?thesis
      by (intro spec_bind spec_return) (auto simp: deletes_ok_append deletes_ok_reads that(2))
  qed
  have "spec t (loop n (reconcileDiskCreateFence_round a c i f) ()) (\<lambda>_ es _. deletes_ok (receipt_proved i) ([] @ es))" for n
  proof (rule spec_loop[where I = "\<lambda>acc _ _. list_all is_read acc"], goal_cases)
    case (1 acc s t)
    then show ?case
      unfolding reconcileDiskCreateFence_round_def
      by (intro spec_rules) (auto split: sum.splits round.splits intro!: spec_mono[OF found] simp: deletes_ok_append deletes_ok_reads)
  qed (auto simp: deletes_ok_append deletes_ok_reads)
  then show ?thesis unfolding reconcileDiskCreateFence_def by (auto split: sum.splits intro!: spec_return)
qed

lemma spec_issueCreate_clears:
  assumes "decodeCreateIntent f = Inr i" and "ci_Location i = spec_Location spc" and "ci_Name i = spec_Name spc"
  shows "spec t (issueCreateDisk a c spc i f) (\<lambda>_ es _. deletes_ok (\<lambda>pre g. unsent f pre g \<or> receipt_proved i pre g) es)"
proof -
  let ?J = "\<lambda>pre g. unsent f pre g \<or> receipt_proved i pre g"
  have clear: "spec t (clearUndispatchedDiskCreateFence a f err) (\<lambda>_ es' _. \<exists>x. es' = [FDelete f x])" for t err
    by (rule spec_clearUndispatched)
  have listed: "spec t (finishUndispatchedFencedDisk a c' i f d)
      (\<lambda>_ es _. deletes_ok (\<lambda>pre. ?J (RListDisks (spec_Location spc) (Inr ds) # pre)) es)"
    if "uniqueNamedDisk ds (spec_Name spc) = Inr (Some d)" for t c' ds d
  proof -
    have "saw_disk i d ([] @ [RListDisks (spec_Location spc) (Inr ds)])"
      using that assms(2,3) by (intro saw_disk_read) (simp add: disk_read_def)
    from spec_finishUndispatched_clears[OF this assms(1)] show ?thesis by simp
  qed
  have recon: "spec t (reconcileDiskCreateFence a c' i f e) (\<lambda>_ es _. deletes_ok (\<lambda>pre. ?J (ev # ev' # pre)) es)" for t c' e ev ev'
    by (rule spec_mono[OF spec_reconcile_clears])
       (use deletes_ok_after(4)[OF recent_receipt] in \<open>blast intro: deletes_ok_mono\<close>)
  have sent: "unsent f [RListDisks l x, PCreateDisk u l' q (Inl e)] f" if "errors_is ErrMutationBlocked e" for l x u l' q e
    using unsent_reads(2)[of "[RListDisks l x]" "PCreateDisk u l' q (Inl e)" f] that by simp
  have none: "unsent f [RListDisks l x] f" for l x
    using unsent_reads(1)[of "[RListDisks l x]" f] by simp
  show ?thesis
    unfolding issueCreateDisk_def Let_def
    by (intro spec_rules spec_bind[OF spec_requireReserve] spec_bind[OF clear] spec_bind[OF spec_deleteDetached]
          spec_mono[OF recon] spec_mono[OF listed])
       (auto simp: is_opt_def none sent split: option.splits sum.splits)
qed

lemma spec_adopt_clears:
  assumes "saw_disk i d acc"
  shows "spec t (adoptExistingDisk a c spc i d) (\<lambda>_ es _. deletes_ok (\<lambda>pre. receipt_proved i (acc @ pre)) es)"
proof -
  have proved: "receipt_proved i (acc @ es @ [ev, FSetReceipt f (ToLower (disk_UUID d')) (Inr (Some g))]) g"
    if "list_all is_read es" "ready_disk i d'" "es = [] \<and> d' = d \<or> (\<exists>pre u. es = pre @ [RGetDisk (ci_Location i) u (Inr (Some d'))])"
      "is_read ev" "decodeCreateIntent f = Inr i" for es d' ev f g
  proof -
    have "saw_disk i d' ((acc @ es) @ [ev])"
      using saw_disk_ready[OF assms that(1,3)] that(4) by (rule saw_disk_reads[of _ _ _ "[ev]", simplified])
    with that show ?thesis
      unfolding receipt_proved_def by (intro exI[of _ "acc @ es @ [ev]"] exI[of _ f] exI[of _ d']) simp
  qed
  show ?thesis
    unfolding adoptExistingDisk_def
    by (intro spec_rules spec_bind[OF spec_waitForDiskReady])
       (auto simp: deletes_ok_append deletes_ok_reads intro: proved proved[of "[]", simplified])
qed

lemma spec_begin_clears:
  "spec t (beginDiskCreateFence a c i) (\<lambda>r es t'. list_all (\<lambda>e. \<not> is_fence_delete e) es)"
  unfolding beginDiskCreateFence_def Let_def by (intro spec_rules) auto

lemma spec_EnsureVolume_clears:
  assumes "bytesToGiB (spec_CapacityBytes spc) = Inr n"
  shows "spec t (EnsureVolume a c spc) (\<lambda>_ es _. deletes_ok (create_clearing a (ensureIntent a spc n)) es)"
proof -
  let ?i = "ensureIntent a spc n"
  let ?l = "\<lambda>ds. RListDisks (spec_Location spc) (Inr ds)"
  have i: "ci_Location ?i = spec_Location spc" "ci_Name ?i = spec_Name spc" by (simp_all add: ensureIntent_def)
  have adopt: "spec t (adoptExistingDisk a c spc ?i d) (\<lambda>_ es _. deletes_ok (\<lambda>pre. create_clearing a ?i (?l ds # pre)) es)"
    if "uniqueNamedDisk ds (spec_Name spc) = Inr (Some d)" for t d ds
  proof -
    have "saw_disk ?i d ([] @ [?l ds])" using that i by (intro saw_disk_read) (simp add: disk_read_def)
    from spec_adopt_clears[OF this] show ?thesis
      by (rule spec_mono) (auto simp: create_clearing_def elim: deletes_ok_mono)
  qed
  have recon: "spec t (reconcileDiskCreateFence a c' ?i f e) (\<lambda>_ es _. \<forall>ev acc. deletes_ok (\<lambda>pre. create_clearing a ?i (ev # acc @ pre)) es)" for t c' f e
    by (rule spec_mono[OF spec_reconcile_clears], intro allI, drule deletes_ok_after(3)[OF recent_receipt])
       (auto simp: create_clearing_def elim: deletes_ok_mono)
  have issue: "spec t (issueCreateDisk a c spc ?i f) (\<lambda>_ es _. deletes_ok (\<lambda>pre. create_clearing a ?i ((ev # acc) @ pre)) es)"
    if "acquired_by (diskCreateFenceKey a (spec_Location spc) (spec_Name spc)) (CreateText ?i) f acc"
      "decodeCreateIntent f = Inr ?i" for t f ev acc
  proof -
    have "acquired_by (diskCreateFenceKey a (spec_Location spc) (spec_Name spc)) (CreateText ?i) f (ev # acc)"
      using acquired_by_append[OF that(1), of "[ev]"] by simp
    then have "create_clearing a ?i ((ev # acc) @ pre) g" if "unsent f pre g \<or> receipt_proved ?i pre g" for pre g
      using that own_since[of _ "CreateText ?i" f "ev # acc" "\<lambda>x. x = CreateText ?i" pre g] recent_receipt[of ?i]
      unfolding create_clearing_def recent_def i by blast
    then show ?thesis
      by (intro spec_mono[OF spec_issueCreate_clears[OF that(2) i]]) (auto elim: deletes_ok_mono)
  qed
  have begun: "spec t (beginDiskCreateFence a c ?i) (\<lambda>r es t'. list_all (\<lambda>e. \<not> is_fence_delete e) es
      \<and> (\<forall>f. r = Inr (f, True) \<longrightarrow> acquired_by (diskCreateFenceKey a (spec_Location spc) (spec_Name spc)) (CreateText ?i) f es
        \<and> decodeCreateIntent f = Inr ?i))" for t
    by (rule spec_mono[OF spec_conj[OF spec_begin_clears spec_beginDiskCreateFence]]) (use i in auto)
  show ?thesis
    unfolding EnsureVolume_def assms sum.case Let_def ensureIntent_def[symmetric]
    by (intro spec_rules spec_bind[OF begun] spec_mono[OF adopt] spec_mono[OF recon] spec_mono[OF issue])
       (auto simp: deletes_ok_append deletes_ok_none)
qed

text \<open>
  C4: \<open>EnsureVolume\<close> sends at most one create, and only after it acquired the create fence for
  this location and name itself and then read the unfiltered disk list again without finding the
  name, with the dispatch reserve left; the request is for an EMPTY disk of the configured account.
  Every fence it removes, sending a create or not, is one of two: the create fence it acquired
  itself, with nothing sent since or only a request that the client blocked; or a create fence of
  exactly this intent, right after its receipt was set to the UUID of a disk that was read under the
  name or by its UUID, matches the intent and is active. So a create fence that another call left,
  or one under which a create was sent, is removed only on a ready readback.
\<close>

theorem ensure_volume_safe:
  assumes "run_state (EnsureVolume a c spc) s = (r, s')" and "bytesToGiB (spec_CapacityBytes spc) = Inr n"
  shows "\<exists>es. trace s' = trace s @ es \<and> length (filter is_post es) \<le> 1
    \<and> fenced_run (diskCreateFenceKey a (spec_Location spc) (spec_Name spc))
        (\<lambda>i. i = CreateText (ensureIntent a spc n))
        (create_authority a c spc n) (create_ending (ensureIntent a spc n)) es
    \<and> (\<forall>pre g x post. es = pre @ FDelete g x # post \<longrightarrow> create_clearing a (ensureIntent a spc n) pre g)"
proof -
  from spec_run[OF spec_conj[OF spec_EnsureVolume_fenced[OF assms(2)] spec_EnsureVolume_clears[OF assms(2)]] refl assms(1)]
  show ?thesis using fenced_run_one_post unfolding deletes_ok_def by blast
qed

end
