(* ===== verification/Example_Cloud.thy ===== *)
theory Example_Cloud
  imports Adapter
begin

text \<open>
  A small cloud on which the adapter runs inside the logic: at most one disk, one VM in the
  configured VPC that may hold it, and the in-memory fence store. It instantiates every interface of
  theory \<open>Runtime\<close>, so that the hypotheses of the properties can be shown to hold at concrete
  inputs, and complete mutations can be evaluated.
\<close>

record example_world =
  ew_disk :: "Disk option"
  ew_attached :: bool
  ew_fences :: memoryMutationFenceStore

definition disk_id :: string where "disk_id = ''01234567-89ab-cdef-0123-456789abcdef''"
definition vm_id :: string where "vm_id = ''11111111-2222-3333-4444-555555555555''"
definition net_id :: string where "net_id = ''99999999-8888-7777-6666-555555555555''"
definition loc_id :: string where "loc_id = ''bkk01''"

definition example_disk :: "string \<Rightarrow> int \<Rightarrow> Disk" where
  "example_disk name gibs = \<lparr>disk_UUID = disk_id, disk_DisplayName = name, disk_Status = ''Active'', disk_SizeGiB = gibs,
     disk_BillingAccountID = 7, disk_StoragePoolUUID = [], disk_SourceImageType = ''EMPTY'', disk_SourceImage = [],
     disk_ReadOnlyBootable = False, disk_CreatedAt = [], disk_UpdatedAt = [], disk_Snapshots = Some []\<rparr>"

definition example_row :: VMStorage where
  "example_row = \<lparr>st_UUID = disk_id, st_ID = 1, st_UserID = 1, st_Name = [], st_Pool = [], st_Type = [], st_SizeGiB = 1,
     st_Primary = False, st_Shared = False, st_CreatedAt = [], st_UpdatedAt = []\<rparr>"

definition example_vm :: "bool \<Rightarrow> VM" where
  "example_vm att = \<lparr>vm_UUID = vm_id, vm_ID = 1, vm_UserID = 1, vm_Name = ''n1'', vm_Description = [], vm_Hostname = ''n1'',
     vm_Status = ''running'', vm_VCPU = 2, vm_MemoryMiB = 4096, vm_OSName = [], vm_OSVersion = [], vm_Username = [],
     vm_MAC = [], vm_LicenseType = [], vm_PrivateIPv4 = [], vm_PublicIPv4 = [], vm_PublicIPv6 = [], vm_NetworkUUID = net_id,
     vm_BillingAccountID = 7, vm_DesignatedPoolName = [], vm_DesignatedPoolUUID = [], vm_Backup = False, vm_CreatedAt = [],
     vm_UpdatedAt = [], vm_Tags = [], vm_Storage = Some (if att then [example_row] else [])\<rparr>"

definition example_network :: Network where
  "example_network = \<lparr>net_UUID = net_id, net_Name = [], net_Type = [], net_VLANID = 1, net_Subnet = [], net_SubnetIPv6 = [],
     net_IsDefault = True, net_VMUUIDs = Some [vm_id], net_ResourcesCount = 1, net_CreatedAt = [], net_UpdatedAt = []\<rparr>"

definition example_not_found :: error where
  "example_not_found = Api \<lparr>StatusCode = 404, Method = ''GET'', Path = ''/v1/bkk01/storage/disks/'' @ disk_id, Message = [],
     Retryable = False, CorrelationID = [], ResponseBodyIncomplete = False, ResponseBodyMalformed = False,
     ExactLookup = True, RequestedUUID = disk_id, RequestedAddress = []\<rparr> None"

definition example_api :: "example_world API" where
  "example_api = \<lparr>
     api_CreateDisk = (\<lambda>c l q w. let d = example_disk (cdr_DisplayName q) (cdr_SizeGiB q)
        in (Inr (Some d), 1, w\<lparr>ew_disk := Some d\<rparr>)),
     api_GetDisk = (\<lambda>c l u w. (case ew_disk w of None \<Rightarrow> Inl example_not_found | Some d \<Rightarrow> Inr (Some d), 1, w)),
     api_ListDisks = (\<lambda>c l w. (Inr (case ew_disk w of None \<Rightarrow> [] | Some d \<Rightarrow> [d]), 1, w)),
     api_DeleteDisk = (\<lambda>c l u w. (None, 1, w\<lparr>ew_disk := None\<rparr>)),
     api_ListVMs = (\<lambda>c l w. (Inr [example_vm (ew_attached w)], 1, w)),
     api_GetVM = (\<lambda>c l u w. (Inr (Some (example_vm (ew_attached w))), 1, w)),
     api_GetNetwork = (\<lambda>c l u w. (Inr (Some example_network), 1, w)),
     api_AttachDisk = (\<lambda>c l v u w. (Inr (Some example_row), 1, w\<lparr>ew_attached := True\<rparr>)),
     api_DetachDisk = (\<lambda>c l v u w. (None, 1, w\<lparr>ew_attached := False\<rparr>)),
     api_ResizeAttachedDisk = (\<lambda>c l v u n w. (Inr (Some example_row), 1,
        w\<lparr>ew_disk := map_option (\<lambda>d. d\<lparr>disk_SizeGiB := n\<rparr>) (ew_disk w)\<rparr>))\<rparr>"

definition on_fences :: "(memoryMutationFenceStore \<Rightarrow> 'r \<times> memoryMutationFenceStore) \<Rightarrow> example_world \<Rightarrow> 'r \<times> nat \<times> example_world" where
  "on_fences f w = (case f (ew_fences w) of (r, m) \<Rightarrow> (r, 1, w\<lparr>ew_fences := m\<rparr>))"

definition example_fences :: "example_world mutationFenceStore" where
  "example_fences = \<lparr>fs_Get = (\<lambda>c k. on_fences (mem_Get k)), fs_List = (\<lambda>c p. on_fences (mem_List p)),
     fs_Create = (\<lambda>c f. on_fences (mem_Create f)), fs_SetReceipt = (\<lambda>c f r. on_fences (mem_SetReceipt f r)),
     fs_SetObservation = (\<lambda>c f v. on_fences (mem_SetObservation f v)), fs_Delete = (\<lambda>c f. on_fences (mem_Delete f))\<rparr>"

text \<open>Time runs in small units here, so that a polling loop stays short.\<close>

definition example_adapter :: "example_world Adapter" where
  "example_adapter = \<lparr>a_api = example_api, a_nodes = None, a_fences = example_fences, a_location = loc_id, a_network = net_id,
     a_billing = 7, a_poll = 2, a_readback = 10, a_absencePoll = 10, a_destructive = 50,
     a_rand = (\<lambda>w. (Inr ''token'', 0, w)), a_sha256hex = (\<lambda>s. s), a_ownership = (\<lambda>s. Inl (Plain [])),
     a_vmLock = (\<lambda>c k w. (None, 0, w)), a_fuel = 60\<rparr>"

definition example_state :: "bool \<Rightarrow> Disk option \<Rightarrow> example_world st" where
  "example_state att d = \<lparr>world = \<lparr>ew_disk = d, ew_attached = att, ew_fences = []\<rparr>, clock = 1, trace = []\<rparr>"

abbreviation example_node :: string where "example_node \<equiv> ''inspace://bkk01/11111111-2222-3333-4444-555555555555''"

end
