(* ===== verification/Adapter_Witnesses.thy ===== *)
theory Adapter_Witnesses
  imports Adapter_Clearing Example_Cloud
begin

text \<open>
  The properties of the adapter at concrete inputs: complete mutations run on the example cloud,
  each evaluated to show that it really sends its mutation and succeeds.
\<close>

abbreviation disk0 :: "Disk option" where "disk0 \<equiv> Some (example_disk ''pvc'' 3)"

abbreviation fence0 :: "diskAttachmentIntent \<Rightarrow> mutationFence" where
  "fence0 i \<equiv> \<lparr>fence_Key = diskAttachmentFenceKey loc_id disk_id, fence_Intent = AttachText i, fence_Attempt = ''token'',
     fence_Receipt = [], fence_Observation = NoObs\<rparr>"

definition fenced_state :: "bool \<Rightarrow> Disk option \<Rightarrow> mutationFence \<Rightarrow> example_world st" where
  "fenced_state att d f = \<lparr>world = \<lparr>ew_disk = d, ew_attached = att, ew_fences = [(fence_Key f, f)]\<rparr>, clock = 1, trace = []\<rparr>"

definition delete_intent :: diskAttachmentIntent where
  "delete_intent = (attachIntent example_adapter loc_id disk_id [] [] [])\<lparr>ai_Operation := ''disk-delete''\<rparr>"

definition detach_intent :: diskAttachmentIntent where
  "detach_intent = attachIntent example_adapter loc_id disk_id [] vm_id []"

definition example_spec :: VolumeSpec where
  "example_spec = \<lparr>spec_Name = ''pvc'', spec_Location = loc_id, spec_CapacityBytes = 3000000000\<rparr>"

lemma example_absencePoll: "0 < a_absencePoll example_adapter"
  by (simp add: example_adapter_def)

lemma trace_states [simp]: "trace (example_state b d) = []" "trace (fenced_state b d f) = []"
  by (simp_all add: example_state_def fenced_state_def)

text \<open>A run and its outcome.\<close>

lemma run_of: "run_state m s = (fst (run_state m s), snd (run_state m s))"
  by simp

definition ends_in_delete :: "event list \<Rightarrow> bool" where
  "ends_in_delete es = (es \<noteq> [] \<and> is_fence_delete (last es))"

lemma ends_in_deleteE:
  assumes "ends_in_delete es"
  obtains pre g x where "es = pre @ [FDelete g x]"
proof -
  from assms have "es = butlast es @ [last es]" "is_fence_delete (last es)" by (simp_all add: ends_in_delete_def)
  with that show ?thesis by (cases "last es") (metis is_fence_delete.simps)+
qed

section \<open>Reads\<close>

theorem owned_disk_is_csi_disk_witness:
  "csi_disk (example_disk ''pvc'' 3) disk_id 7"
proof -
  have "run_state (getOwnedDisk example_adapter background loc_id disk_id) (example_state False disk0)
      = (Inr (example_disk ''pvc'' 3), snd (run_state (getOwnedDisk example_adapter background loc_id disk_id) (example_state False disk0)))"
    by code_simp
  from owned_disk_is_csi_disk [OF this] show ?thesis by (simp add: example_adapter_def)
qed

theorem attachedVM_exact_witness:
  "\<exists>es. fst (run_state (attachedVM example_adapter background loc_id disk_id) (example_state True disk0)) = Inr vm_id
    \<and> exact_sweep example_adapter loc_id disk_id es vm_id"
proof -
  let ?run = "run_state (attachedVM example_adapter background loc_id disk_id) (example_state True disk0)"
  have r: "fst ?run = Inr vm_id" by code_simp
  then have "?run = (Inr vm_id, snd ?run)" by (metis prod.collapse)
  from attachedVM_exact [OF this] r show ?thesis by blast
qed

section \<open>Absence proofs\<close>

text \<open>No observation was refused.\<close>

fun accepted :: "event \<Rightarrow> bool" where
  "accepted (FSetObservation g v (Inl err)) = False"
| "accepted _ = True"

theorem disk_absence_proved_witness:
  "\<exists>f pre reads tail. fst (run_state (waitForDiskAbsent example_adapter background loc_id disk_id (fence0 delete_intent))
       (fenced_state False None (fence0 delete_intent))) = Inr f
    \<and> trace (snd (run_state (waitForDiskAbsent example_adapter background loc_id disk_id (fence0 delete_intent))
       (fenced_state False None (fence0 delete_intent)))) = pre @ reads @ tail
    \<and> disk_absence_reads example_adapter loc_id disk_id reads
    \<and> absence_durable example_adapter diskDeleteAbsenceObservationKind f tail"
proof -
  let ?run = "run_state (waitForDiskAbsent example_adapter background loc_id disk_id (fence0 delete_intent))
    (fenced_state False None (fence0 delete_intent))"
  have "\<not> isl (fst ?run)" by code_simp
  then obtain f where f: "fst ?run = Inr f" by (cases "fst ?run") auto
  then have "?run = (Inr f, snd ?run)" by (metis prod.collapse)
  from disk_absence_proved [OF this example_absencePoll] obtain pre reads tail where
    t: "trace (snd ?run) = pre @ reads @ tail" "disk_absence_reads example_adapter loc_id disk_id reads"
      "(\<forall>g v err. FSetObservation g v (Inl err) \<notin> set tail)
        \<longrightarrow> absence_durable example_adapter diskDeleteAbsenceObservationKind f tail"
    unfolding trace_states append_Nil by blast
  have "list_all accepted (trace (snd ?run))" by code_simp
  then have "\<forall>g v err. FSetObservation g v (Inl err) \<notin> set tail"
    unfolding t(1) list_all_append by (auto simp: list_all_iff)
  with t f show ?thesis by blast
qed

theorem detach_absence_proved_witness:
  "\<exists>f pre reads tail. fst (run_state (waitForDetached example_adapter background detach_intent (fence0 detach_intent))
       (fenced_state False disk0 (fence0 detach_intent))) = Inr f
    \<and> trace (snd (run_state (waitForDetached example_adapter background detach_intent (fence0 detach_intent))
       (fenced_state False disk0 (fence0 detach_intent)))) = pre @ reads @ tail
    \<and> detach_absence_reads example_adapter detach_intent reads
    \<and> absence_complete example_adapter detachAbsenceObservationKind f tail"
proof -
  let ?run = "run_state (waitForDetached example_adapter background detach_intent (fence0 detach_intent))
    (fenced_state False disk0 (fence0 detach_intent))"
  have "\<not> isl (fst ?run)" by code_simp
  then obtain f where f: "fst ?run = Inr f" by (cases "fst ?run") auto
  then have "?run = (Inr f, snd ?run)" by (metis prod.collapse)
  from detach_absence_proved [OF this example_absencePoll] f show ?thesis by auto
qed

section \<open>Mutations\<close>


theorem detach_volume_safe_witness:
  "let (r, s) = run_state (DetachVolume example_adapter background loc_id disk_id []) (example_state True disk0)
   in r = None \<and> length (filter is_post (trace s)) = 1 \<and> ew_fences (world s) = []
     \<and> (\<exists>vm recovered. locked_run vm (fenced_run (diskAttachmentFenceKey loc_id (ToLower disk_id))
        (\<lambda>i. i = AttachText (attachIntent example_adapter loc_id disk_id [] vm (if recovered then TrimSpace [] else [])))
        (detach_authority example_adapter background loc_id disk_id vm recovered)
        (detach_ending example_adapter (attachIntent example_adapter loc_id disk_id [] vm (if recovered then TrimSpace [] else [])))) (trace s))"
proof -
  let ?m = "DetachVolume example_adapter background loc_id disk_id []" and ?s = "example_state True disk0"
  have "case run_state ?m ?s of (r, s) \<Rightarrow> r = None \<and> length (filter is_post (trace s)) = 1 \<and> ew_fences (world s) = []"
    by code_simp
  moreover from detach_volume_safe [OF run_of[of ?m ?s] example_absencePoll] obtain es vm recovered where
    "trace (snd (run_state ?m ?s)) = trace ?s @ es" "locked_run vm (fenced_run (diskAttachmentFenceKey loc_id (ToLower disk_id))
        (\<lambda>i. i = AttachText (attachIntent example_adapter loc_id disk_id [] vm (if recovered then TrimSpace [] else [])))
        (detach_authority example_adapter background loc_id disk_id vm recovered)
        (detach_ending example_adapter (attachIntent example_adapter loc_id disk_id [] vm (if recovered then TrimSpace [] else [])))) es"
    by blast
  ultimately show ?thesis unfolding case_prod_beta Let_def trace_states append_Nil by blast
qed

theorem attach_volume_safe_witness:
  "\<exists>vm es. trace (snd (run_state (AttachVolume example_adapter background loc_id disk_id example_node) (example_state False disk0))) = es
     \<and> length (filter is_post es) \<le> 1
     \<and> locked_run vm (fenced_run (diskAttachmentFenceKey loc_id (ToLower disk_id))
        (\<lambda>i. i = AttachText (attachIntent example_adapter loc_id disk_id vm [] []))
        (attach_authority example_adapter background loc_id disk_id vm)
        (attach_ending example_adapter (attachIntent example_adapter loc_id disk_id vm [] []))) es"
proof -
  let ?m = "AttachVolume example_adapter background loc_id disk_id example_node" and ?s = "example_state False disk0"
  from attach_volume_safe [OF run_of[of ?m ?s] example_absencePoll] show ?thesis
    unfolding trace_states append_Nil by blast
qed

lemma example_attach_sends:
  "let (r, s) = run_state (attachLocked example_adapter background loc_id disk_id vm_id) (example_state False disk0)
   in r = None \<and> length (filter is_post (trace s)) = 1 \<and> ew_fences (world s) = []"
  by code_simp

lemma example_size: "bytesToGiB (spec_CapacityBytes example_spec) = Inr 3" "bytesToGiB 3000000000 = Inr 3"
  by code_simp+

theorem ensure_volume_safe_witness:
  "let (r, s) = run_state (EnsureVolume example_adapter background example_spec) (example_state False None)
   in \<not> isl r \<and> length (filter is_post (trace s)) = 1 \<and> ew_fences (world s) = []
     \<and> fenced_run (diskCreateFenceKey example_adapter loc_id ''pvc'') (\<lambda>i. i = CreateText (ensureIntent example_adapter example_spec 3))
         (create_authority example_adapter background example_spec 3) (create_ending (ensureIntent example_adapter example_spec 3)) (trace s)
     \<and> (\<exists>pre g x. trace s = pre @ [FDelete g x] \<and> create_clearing example_adapter (ensureIntent example_adapter example_spec 3) pre g)"
proof -
  let ?m = "EnsureVolume example_adapter background example_spec" and ?s = "example_state False None"
  have "case run_state ?m ?s of (r, s) \<Rightarrow> \<not> isl r \<and> length (filter is_post (trace s)) = 1
      \<and> ew_fences (world s) = [] \<and> ends_in_delete (trace s)" by code_simp
  moreover have e: "spec_Location example_spec = loc_id" "spec_Name example_spec = ''pvc''" by (simp_all add: example_spec_def)
  from ensure_volume_safe [OF run_of[of ?m ?s] example_size(1)] obtain es where
    "trace (snd (run_state ?m ?s)) = trace ?s @ es"
    "fenced_run (diskCreateFenceKey example_adapter loc_id ''pvc'') (\<lambda>i. i = CreateText (ensureIntent example_adapter example_spec 3))
         (create_authority example_adapter background example_spec 3) (create_ending (ensureIntent example_adapter example_spec 3)) es"
    "\<forall>pre g x post. es = pre @ FDelete g x # post \<longrightarrow> create_clearing example_adapter (ensureIntent example_adapter example_spec 3) pre g"
    unfolding e by blast
  ultimately show ?thesis
    using ends_in_deleteE unfolding case_prod_beta Let_def trace_states append_Nil by metis
qed

theorem ensure_volume_result_witness:
  "\<exists>v. fst (run_state (EnsureVolume example_adapter background example_spec) (example_state False None)) = Inr v
     \<and> vol_Name v = ''pvc'' \<and> 3000000000 \<le> vol_CapacityBytes v \<and> vol_CapacityBytes v < 3000000000 + gib"
proof -
  let ?m = "EnsureVolume example_adapter background example_spec" and ?s = "example_state False None"
  have "\<not> isl (fst (run_state ?m ?s))" by code_simp
  then obtain v where v: "fst (run_state ?m ?s) = Inr v" by (cases "fst (run_state ?m ?s)") auto
  then have "run_state ?m ?s = (Inr v, snd (run_state ?m ?s))" by (metis prod.collapse)
  from ensure_volume_result [OF this] v show ?thesis by (simp add: example_spec_def MaxInt64_def)
qed

theorem expand_volume_safe_witness:
  "let (r, s) = run_state (ExpandVolume example_adapter background loc_id disk_id 3000000000) (example_state True (Some (example_disk ''pvc'' 2)))
   in r = Inr 3221225472 \<and> length (filter is_post (trace s)) = 1
     \<and> (\<exists>vm. locked_run vm (resize_run example_adapter background loc_id disk_id 3 vm) (trace s))"
proof -
  let ?m = "ExpandVolume example_adapter background loc_id disk_id 3000000000" and ?s = "example_state True (Some (example_disk ''pvc'' 2))"
  have "case run_state ?m ?s of (r, s) \<Rightarrow> r = Inr 3221225472 \<and> length (filter is_post (trace s)) = 1" by code_simp
  moreover have "(3000000000 :: int) \<le> MaxInt64" by (simp add: MaxInt64_def)
  from expand_volume_safe [OF run_of[of ?m ?s] example_size(2) this] obtain es vm where
    "trace (snd (run_state ?m ?s)) = trace ?s @ es" "locked_run vm (resize_run example_adapter background loc_id disk_id 3 vm) es"
    by blast
  ultimately show ?thesis unfolding case_prod_beta Let_def trace_states append_Nil by blast
qed


theorem size_conversion_tight_witness:
  "bytesToGiB 1 = Inr 1 \<and> 1 \<le> gib \<and> bytesToGiB gib = Inr 1"
proof -
  have b: "bytesToGiB 1 = Inr 1" by code_simp
  have d: "diskVolume loc_id (example_disk ''v'' 1) = Inr \<lparr>vol_ID = disk_id, vol_Name = ''v'', vol_Location = loc_id, vol_CapacityBytes = gib\<rparr>"
    by code_simp
  from size_conversion_tight [OF b _ d] b show ?thesis
    by (simp add: MaxInt64_def example_disk_def)
qed

end
