(* ===== verification/Recovery_Race.thy ===== *)
theory Recovery_Race
  imports Recovery_Proofs Example_Cloud
begin

text \<open>
  How an absence proof ends when the third observation loses a race. The fence store rejects the write
  because another controller changed the fence; the loop re-reads the fence and returns whatever it
  finds under the same authority as resolved, without looking at the observation it carries. If the
  other controller cleared the observation because it saw the disk, the cleared proof counts as complete.
\<close>

text \<open>
  C35: a third observation that is rejected as changed completes the absence proof with the re-read
  fence, also when that fence carries no observation any more.
\<close>

theorem absence_race_completes_cleared:
  assumes count: "obs_Count observation = 2" and last: "obs_LastObservedAt observation = At t0" "t0 + a_absencePoll a \<le> clock s"
    and enc: "encodeMutationObservation \<lparr>obs_Kind = kind, obs_Count = 3, obs_FirstObservedAt = obs_FirstObservedAt observation,
        obs_LastObservedAt = At (clock s)\<rparr> = Inr text"
    and set: "fs_SetObservation (a_fences a) c f text (world s) = (Inl e, d1, w1)" "errors_is ErrMutationFenceChanged e"
    and get: "fs_Get (a_fences a) c (fence_Key f) w1 = (Inr (Some current), d2, w2)" "sameMutationFenceAuthority current f"
  shows "fst (run_state (recordAbsence a c kind waitErr f observation) s) = Return (Inr current)"
  using assms
  by (simp add: recordAbsence_def updateMutationObservation_def fenceSetObservation_def fenceGet_def call_def now_def Let_def)

definition cleared_fence :: mutationFence where
  "cleared_fence = \<lparr>fence_Key = diskAttachmentFenceKey loc_id disk_id, fence_Intent = AttachText \<lparr>ai_Operation = ''disk-delete'',
     ai_Location = loc_id, ai_DiskUUID = disk_id, ai_BillingAccountID = 7, ai_DesiredVMUUID = [], ai_PreviousVMUUID = [],
     ai_RecoveryNodeID = []\<rparr>, fence_Attempt = ''token'', fence_Receipt = [], fence_Observation = NoObs\<rparr>"

definition twice_observed :: mutationObservation where
  "twice_observed = \<lparr>obs_Kind = diskDeleteAbsenceObservationKind, obs_Count = 2, obs_FirstObservedAt = At 1, obs_LastObservedAt = At 11\<rparr>"

definition stale_fence :: mutationFence where
  "stale_fence = cleared_fence\<lparr>fence_Observation := ObsText twice_observed\<rparr>"

definition race_state :: "example_world st" where
  "race_state = \<lparr>world = \<lparr>ew_disk = None, ew_attached = False, ew_fences = [(fence_Key cleared_fence, cleared_fence)]\<rparr>,
     clock = 30, trace = []\<rparr>"

text \<open>
  The adapter holds the fence as it was after two observations; in the store the observation has been
  cleared. The absence loop reports the deletion resolved with the cleared fence.
\<close>

theorem absence_race_completes_cleared_witness:
  "fst (run_state (recordAbsence example_adapter background diskDeleteAbsenceObservationKind (\<lambda>e. e) stale_fence twice_observed) race_state)
     = Return (Inr cleared_fence) \<and> fence_Observation cleared_fence = NoObs"
proof -
  let ?third = "\<lparr>obs_Kind = diskDeleteAbsenceObservationKind, obs_Count = 3, obs_FirstObservedAt = At 1, obs_LastObservedAt = At 30\<rparr>"
  have k: "fence_Key stale_fence = fence_Key cleared_fence" and n: "fence_Observation cleared_fence = NoObs"
    and au: "sameMutationFenceAuthority cleared_fence stale_fence"
    by (simp_all add: stale_fence_def cleared_fence_def sameMutationFenceAuthority_def sameMutationFenceAttempt_def)
  have st: "\<not> sameMutationFenceState cleared_fence stale_fence"
    by (simp add: sameMutationFenceState_def stale_fence_def cleared_fence_def)
  have enc: "encodeMutationObservation \<lparr>obs_Kind = diskDeleteAbsenceObservationKind, obs_Count = 3,
      obs_FirstObservedAt = obs_FirstObservedAt twice_observed, obs_LastObservedAt = At (clock race_state)\<rparr> = Inr (ObsText ?third)"
    by (simp add: twice_observed_def race_state_def) code_simp
  have set: "fs_SetObservation (a_fences example_adapter) background stale_fence (ObsText ?third) (world race_state)
      = (Inl (Wrap ''before observation persistence'' [Sentinel ErrMutationFenceChanged]), 1, world race_state)"
    using st n by (simp add: example_adapter_def example_fences_def on_fences_def mem_SetObservation_def race_state_def k)
  have get: "fs_Get (a_fences example_adapter) background (fence_Key stale_fence) (world race_state) = (Inr (Some cleared_fence), 1, world race_state)"
    by (simp add: example_adapter_def example_fences_def on_fences_def mem_Get_def race_state_def k)
  have "fst (run_state (recordAbsence example_adapter background diskDeleteAbsenceObservationKind (\<lambda>e. e) stale_fence twice_observed) race_state)
      = Return (Inr cleared_fence)"
    by (rule absence_race_completes_cleared [OF _ _ _ enc set _ get au, where ?t0.0 = 11])
      (simp_all add: twice_observed_def race_state_def example_adapter_def)
  with n show ?thesis by simp
qed

end
