(* ===== verification/Provider_IDs.thy ===== *)
theory Provider_IDs
  imports Adapter_Reads
begin

text \<open>
  The identifiers that tie Kubernetes objects to cloud objects, all of the shape
  \<^verbatim>\<open>inspace://<location>/<uuid>\<close>: CSI volume handles (\<^verbatim>\<open>csi-driver/pkg/driver/volume.go\<close>), the
  node provider IDs the cloud controller manager writes
  (\<^verbatim>\<open>cloud-provider/pkg/providerid/providerid.go\<close>) and the ones Karpenter writes
  (\<^verbatim>\<open>karpenter-provider/pkg/providerid/providerid.go\<close>); the CSI adapter's own reader of node
  provider IDs is \<open>parseProviderID\<close> of theory \<open>Adapter_Reads\<close>. The theorems show that each writer is
  read back by every reader as what was written, that a parsed identifier is canonical, and which
  inputs the readers judge differently.
\<close>

section \<open>Volume handles\<close>

definition virtioSerialLength :: nat where
  "virtioSerialLength = 20"

record VolumeRef =
  ref_Location :: string
  ref_ID :: string

definition NewVolumeHandle :: "string \<Rightarrow> string \<Rightarrow> error + string" where
  "NewVolumeHandle location0 volumeID0 =
     (let location = ToLower location0; volumeID = ToLower volumeID0 in
      if \<not> location_ok location then Inl (Plain ''invalid location'')
      else if \<not> uuid_lower volumeID then Inl (Plain ''invalid volume UUID'')
      else Inr (''inspace://'' @ location @ ''/'' @ volumeID))"

definition ParseVolumeHandle :: "string \<Rightarrow> error + VolumeRef" where
  "ParseVolumeHandle handle =
     (case inspace_url handle of
        None \<Rightarrow> Inl (Plain ''expected inspace://<location>/<volume-uuid>'')
      | Some (host, rawpath) \<Rightarrow>
        let location = ToLower host;
            id = ToLower (TrimPrefix (escaped_path rawpath) ''/'')
        in if CHR ''/'' \<in> set id \<or> id = [] then Inl (Plain ''expected exactly one volume UUID path segment'')
           else (case url_unescape id of
               None \<Rightarrow> Inl (Plain ''decode volume UUID'')
             | Some decoded \<Rightarrow>
               if \<not> location_ok location \<or> \<not> uuid_lower decoded
               then Inl (Plain ''invalid location or volume UUID'')
               else Inr \<lparr>ref_Location = location, ref_ID = decoded\<rparr>))"

definition VirtioDevicePath :: "string \<Rightarrow> error + string" where
  "VirtioDevicePath volumeID =
     (let id = ToLower volumeID in
      if \<not> uuid_lower id then Inl (Plain ''invalid volume UUID'')
      else Inr (''/dev/disk/by-id/virtio-'' @ take virtioSerialLength id))"

section \<open>Cloud-provider IDs\<close>

record ProviderID =
  pid_Location :: string
  pid_UUID :: string

definition providerid_Validate :: "ProviderID \<Rightarrow> error option" where
  "providerid_Validate pid =
     (if \<not> location_ok (pid_Location pid) then Some (Plain ''providerid: invalid location'')
      else if \<not> uuid_any (pid_UUID pid) then Some (Plain ''providerid: invalid UUID'')
      else None)"

definition providerid_String :: "ProviderID \<Rightarrow> string" where
  "providerid_String pid = ''inspace://'' @ pid_Location pid @ ''/'' @ ToLower (pid_UUID pid)"

definition providerid_New :: "string \<Rightarrow> string \<Rightarrow> error + string" where
  "providerid_New location uuid =
     (let id = \<lparr>pid_Location = location, pid_UUID = ToLower uuid\<rparr> in
      case providerid_Validate id of Some err \<Rightarrow> Inl err | None \<Rightarrow> Inr (providerid_String id))"

definition providerid_Parse :: "string \<Rightarrow> error + ProviderID" where
  "providerid_Parse value =
     (if \<not> HasPrefix value ''inspace://'' then Inl (Plain ''providerid: expected scheme'')
      else case split_on CHR ''/'' (TrimPrefix value ''inspace://'') of
        [p0, p1] \<Rightarrow>
          (let id = \<lparr>pid_Location = p0, pid_UUID = ToLower p1\<rparr> in
           case providerid_Validate id of Some err \<Rightarrow> Inl err | None \<Rightarrow> Inr id)
      | _ \<Rightarrow> Inl (Plain ''providerid: expected inspace://<location>/<uuid>''))"

section \<open>Karpenter IDs\<close>

text \<open>\<^verbatim>\<open>^[a-z0-9](?:[a-z0-9-]*[a-z0-9])?$\<close>, without the length bound of the other readers.\<close>

definition karpenter_location :: "string \<Rightarrow> bool" where
  "karpenter_location s = (s \<noteq> [] \<and> is_alnum_lower (hd s) \<and> is_alnum_lower (last s)
     \<and> list_all (\<lambda>c. is_alnum_lower c \<or> is_dash c) s)"

text \<open>A UUID of version 1 to 5 in the standard variant.\<close>

definition karpenter_uuid :: "string \<Rightarrow> bool" where
  "karpenter_uuid s = (uuid_any s \<and> s ! 14 \<in> set ''12345'' \<and> s ! 19 \<in> set ''89abAB'')"

definition karpenter_New :: "string \<Rightarrow> string \<Rightarrow> string" where
  "karpenter_New location vmUUID = ''inspace://'' @ location @ ''/'' @ vmUUID"

definition karpenter_Parse :: "string \<Rightarrow> error + ProviderID" where
  "karpenter_Parse value =
     (case url_parse value of
        None \<Rightarrow> Inl (Plain ''parse provider ID'')
      | Some u \<Rightarrow>
        let path = (case url_unescape (url_RawPath u) of None \<Rightarrow> [] | Some p \<Rightarrow> p);
            vmUUID = TrimPrefix path ''/''
        in if url_Scheme u \<noteq> ''inspace'' \<or> \<not> karpenter_location (url_Host u) \<or> \<not> karpenter_uuid vmUUID
              \<or> CHR ''/'' \<in> set vmUUID \<or> url_RawQuery u \<noteq> [] \<or> url_Fragment u \<noteq> []
           then Inl (Plain ''invalid provider ID'')
           else Inr \<lparr>pid_Location = url_Host u, pid_UUID = vmUUID\<rparr>)"

section \<open>Lemmas\<close>

lemma canonical_text_parses:
  assumes "location_ok loc" and "uuid_lower u"
  shows "inspace_url (''inspace://'' @ loc @ ''/'' @ u) = Some (loc, ''/'' @ u)"
  and "escaped_path (''/'' @ u) = ''/'' @ u" and "ToLower loc = loc" and "ToLower u = u" and "url_unescape u = Some u"
  and "CHR ''/'' \<notin> set u" and "u \<noteq> []"
proof -
  note l = location_safe[OF assms(1)] and v = uuid_safe[OF assms(2)]
  show "inspace_url (''inspace://'' @ loc @ ''/'' @ u) = Some (loc, ''/'' @ u)"
    using l v assms(1) by (intro inspace_url_of) (auto simp: location_ok_def)
  show "escaped_path (''/'' @ u) = ''/'' @ u"
    using safe_string_facts[OF v] by (intro escaped_path_plain) (auto simp: path_plain_def)
  show "ToLower loc = loc" by (rule safe_string_facts(4)[OF l])
  show "ToLower u = u" by (rule safe_string_facts(4)[OF v])
  show "url_unescape u = Some u" using safe_string_facts(9)[OF v] by (rule unescape_plain)
  show "CHR ''/'' \<notin> set u" by (rule safe_string_facts(5)[OF v])
  show "u \<noteq> []" using assms(2) by auto
qed

lemma canonical_handle_parses:
  assumes "location_ok loc" and "uuid_lower u"
  shows "ParseVolumeHandle (''inspace://'' @ loc @ ''/'' @ u) = Inr \<lparr>ref_Location = loc, ref_ID = u\<rparr>"
proof -
  note c = canonical_text_parses[OF assms]
  have "escaped_path (CHR ''/'' # u) = CHR ''/'' # u" using c(2) by simp
  moreover have "TrimPrefix (CHR ''/'' # u) ''/'' = u" using TrimPrefix_append[of "''/''" u] by simp
  ultimately show ?thesis
    unfolding ParseVolumeHandle_def c(1) using c(3-) assms by (simp add: Let_def)
qed

lemma ParseVolumeHandle_valid:
  assumes "ParseVolumeHandle h = Inr r"
  shows "location_ok (ref_Location r)" and "uuid_lower (ref_ID r)"
  using assms by (auto simp: ParseVolumeHandle_def Let_def split: option.splits if_splits prod.splits)

text \<open>
  Volume handles round-trip. A handle made from any location and UUID parses back to their
  lower-case forms, and whatever text a handle is parsed from, the reference it yields has one
  canonical handle, which parses to the same reference.
\<close>

theorem volume_handle_roundtrip:
  "(NewVolumeHandle loc u = Inr h \<longrightarrow> ParseVolumeHandle h = Inr \<lparr>ref_Location = ToLower loc, ref_ID = ToLower u\<rparr>)
   \<and> (ParseVolumeHandle h = Inr r \<longrightarrow>
        (\<exists>h'. NewVolumeHandle (ref_Location r) (ref_ID r) = Inr h' \<and> ParseVolumeHandle h' = Inr r))"
proof (intro conjI impI)
  assume "NewVolumeHandle loc u = Inr h"
  then show "ParseVolumeHandle h = Inr \<lparr>ref_Location = ToLower loc, ref_ID = ToLower u\<rparr>"
    using canonical_handle_parses by (auto simp: NewVolumeHandle_def Let_def split: if_splits)
next
  assume "ParseVolumeHandle h = Inr r"
  note v = ParseVolumeHandle_valid[OF this]
  show "\<exists>h'. NewVolumeHandle (ref_Location r) (ref_ID r) = Inr h' \<and> ParseVolumeHandle h' = Inr r"
    using v canonical_handle_parses[OF v] canonical_text_parses(3,4)[OF v] by (simp add: NewVolumeHandle_def)
qed

theorem volume_handle_roundtrip_witness:
  "ParseVolumeHandle ''inspace://bkk01/01234567-89ab-cdef-0123-456789abcdef''
     = Inr \<lparr>ref_Location = ''bkk01'', ref_ID = ''01234567-89ab-cdef-0123-456789abcdef''\<rparr>"
proof -
  have n: "NewVolumeHandle ''BKK01'' ''01234567-89AB-cdef-0123-456789abcdef''
      = Inr ''inspace://bkk01/01234567-89ab-cdef-0123-456789abcdef''" by code_simp
  have l: "ToLower ''BKK01'' = ''bkk01''"
    "ToLower ''01234567-89AB-cdef-0123-456789abcdef'' = ''01234567-89ab-cdef-0123-456789abcdef''" by code_simp+
  from n show ?thesis
    using volume_handle_roundtrip [of "''BKK01''" "''01234567-89AB-cdef-0123-456789abcdef''"
        "''inspace://bkk01/01234567-89ab-cdef-0123-456789abcdef''" undefined] l by simp
qed

lemma split_on_parts:
  "CHR ''/'' \<notin> set a \<Longrightarrow> CHR ''/'' \<notin> set b \<Longrightarrow> split_on CHR ''/'' (a @ ''/'' @ b) = [a, b]"
proof -
  have one: "split_on CHR ''/'' b = [b]" if "CHR ''/'' \<notin> set b" for b
    using that by (induction b) auto
  show "CHR ''/'' \<notin> set a \<Longrightarrow> CHR ''/'' \<notin> set b \<Longrightarrow> split_on CHR ''/'' (a @ ''/'' @ b) = [a, b]"
    using one[of b] by (induction a) auto
qed

lemma uuid_any_lower: "uuid_any (ToLower u) \<Longrightarrow> uuid_lower (ToLower u)"
proof -
  have h: "is_hex_any (to_lower_char c) \<Longrightarrow> is_hex_lower (to_lower_char c)" for c
    by (auto simp: is_hex_any_def is_hex_lower_def to_lower_char_def is_digit_char_def Let_def split: if_splits)
  have "match_classes ps (ToLower s) \<Longrightarrow> list_all2 (\<lambda>p q. \<forall>c. p (to_lower_char c) \<longrightarrow> q (to_lower_char c)) ps qs
      \<Longrightarrow> match_classes qs (ToLower s)" for ps qs s
    by (induction ps s arbitrary: qs rule: match_classes.induct) (auto simp: ToLower_def list_all2_Cons1)
  moreover have "list_all2 (\<lambda>p q. \<forall>c. p (to_lower_char c) \<longrightarrow> q (to_lower_char c)) (uuid_classes is_hex_any) (uuid_classes is_hex_lower)"
  proof -
    have r: "list_all2 (\<lambda>p q. \<forall>c. p (to_lower_char c) \<longrightarrow> q (to_lower_char c)) (replicate n is_hex_any) (replicate n is_hex_lower)" for n
      using h by (induction n) auto
    show ?thesis unfolding uuid_classes_def using r by (intro list_all2_appendI) auto
  qed
  ultimately show "uuid_any (ToLower u) \<Longrightarrow> uuid_lower (ToLower u)"
    unfolding uuid_any_def uuid_lower_def by blast
qed

lemma inspace_urlE:
  assumes "inspace_url v = Some (h, p)"
  obtains w where "url_parse v = Some w" "url_Scheme w = ''inspace''" "url_Host w = h" "url_RawPath w = p"
    "url_RawQuery w = []" "url_Fragment w = []"
  using assms by (auto simp: inspace_url_def split: option.splits if_splits)

text \<open>
  C33: a node provider ID written by the cloud controller manager is read back by its own reader and by
  the CSI adapter as the same location and the same lower-case UUID. Karpenter reads the same when the
  UUID is one of the versions 1 to 5 in the standard variant, and refuses every other one, which the
  cloud controller manager writes all the same.
\<close>

theorem provider_ids_agree:
  assumes "providerid_New loc u = Inr v"
  shows "providerid_Parse v = Inr \<lparr>pid_Location = loc, pid_UUID = ToLower u\<rparr>
    \<and> parseProviderID v = Inr (loc, ToLower u)
    \<and> (karpenter_uuid (ToLower u) \<longrightarrow> karpenter_Parse v = Inr \<lparr>pid_Location = loc, pid_UUID = ToLower u\<rparr>)
    \<and> (\<not> karpenter_uuid (ToLower u) \<longrightarrow> isl (karpenter_Parse v))"
proof -
  let ?u = "ToLower u"
  have l: "location_ok loc" and a: "uuid_any ?u" and v: "v = ''inspace://'' @ loc @ ''/'' @ ?u"
    using assms by (auto simp: providerid_New_def providerid_Validate_def providerid_String_def Let_def split: if_splits option.splits)
  note c = canonical_text_parses[OF l uuid_any_lower[OF a]]
  note ls = safe_string_facts[OF location_safe[OF l]] and us = safe_string_facts[OF uuid_safe[OF uuid_any_lower[OF a]]]
  have low: "ToLower v = v" unfolding v ToLower_append ls(4) us(4) by (simp add: ToLower_def to_lower_char_def)
  have "list_all (\<lambda>c. \<not> is_space c) v"
    using safe_no_space[OF location_safe[OF l]] safe_no_space[OF uuid_safe[OF uuid_any_lower[OF a]]]
    by (simp add: v is_space_def)
  then have trim: "TrimSpace v = v" by (rule TrimSpace_none)
  have path: "TrimPrefix (escaped_path (CHR ''/'' # ?u)) ''/'' = ?u" "TrimPrefix (CHR ''/'' # ?u) ''/'' = ?u"
    using c(2) TrimPrefix_append[of "''/''" ?u] by simp_all
  have own: "providerid_Parse v = Inr \<lparr>pid_Location = loc, pid_UUID = ?u\<rparr>"
    using split_on_parts[OF ls(5) us(5)] l a
    by (simp add: providerid_Parse_def providerid_Validate_def v TrimPrefix_def)
  have csi: "parseProviderID v = Inr (loc, ?u)"
    unfolding parseProviderID_def low trim using c(1,3,4,6) path uuid_any_lower[OF a] by (simp add: v Let_def)
  obtain w where w: "url_parse v = Some w" "url_Scheme w = ''inspace''" "url_Host w = loc" "url_RawPath w = ''/'' @ ?u"
      "url_RawQuery w = []" "url_Fragment w = []"
    using inspace_urlE[OF c(1)] v by metis
  have "url_unescape (CHR ''/'' # ?u) = Some (CHR ''/'' # ?u)" using c(5) by simp
  moreover have "karpenter_location loc" using l by (auto simp: location_ok_def karpenter_location_def)
  ultimately have "karpenter_uuid ?u \<longrightarrow> karpenter_Parse v = Inr \<lparr>pid_Location = loc, pid_UUID = ?u\<rparr>"
      "\<not> karpenter_uuid ?u \<longrightarrow> isl (karpenter_Parse v)"
    using w path(2) us(5) by (simp_all add: karpenter_Parse_def Let_def)
  with own csi show ?thesis by blast
qed

theorem provider_ids_agree_witness:
  "karpenter_Parse ''inspace://bkk01/01234567-89ab-4def-8123-456789abcdef''
     = Inr \<lparr>pid_Location = ''bkk01'', pid_UUID = ''01234567-89ab-4def-8123-456789abcdef''\<rparr>
   \<and> parseProviderID ''inspace://bkk01/01234567-89ab-cdef-8123-456789abcdef'' = Inr (''bkk01'', ''01234567-89ab-cdef-8123-456789abcdef'')
   \<and> isl (karpenter_Parse ''inspace://bkk01/01234567-89ab-cdef-8123-456789abcdef'')"
proof -
  have n: "providerid_New ''bkk01'' ''01234567-89AB-4def-8123-456789abcdef''
      = Inr ''inspace://bkk01/01234567-89ab-4def-8123-456789abcdef''" by code_simp
  have l: "ToLower ''01234567-89AB-4def-8123-456789abcdef'' = ''01234567-89ab-4def-8123-456789abcdef''"
    and k: "karpenter_uuid ''01234567-89ab-4def-8123-456789abcdef''" by code_simp+
  have n': "providerid_New ''bkk01'' ''01234567-89ab-cdef-8123-456789abcdef''
      = Inr ''inspace://bkk01/01234567-89ab-cdef-8123-456789abcdef''" by code_simp
  have l': "ToLower ''01234567-89ab-cdef-8123-456789abcdef'' = ''01234567-89ab-cdef-8123-456789abcdef''"
    and k': "\<not> karpenter_uuid ''01234567-89ab-cdef-8123-456789abcdef''" by code_simp+
  from provider_ids_agree [OF n] k provider_ids_agree [OF n'] k' show ?thesis unfolding l l' by blast
qed

text \<open>
  The three readers do not accept the same texts. A provider ID with user information is a valid
  node identity for Karpenter only; an upper-case UUID names a node for all three, but Karpenter keeps
  its case while the others fold it.
\<close>

theorem provider_id_readers_differ:
  "karpenter_Parse ''inspace://x@bkk01/01234567-89ab-4def-8123-456789abcdef''
     = Inr \<lparr>pid_Location = ''bkk01'', pid_UUID = ''01234567-89ab-4def-8123-456789abcdef''\<rparr>
   \<and> isl (providerid_Parse ''inspace://x@bkk01/01234567-89ab-4def-8123-456789abcdef'')
   \<and> isl (parseProviderID ''inspace://x@bkk01/01234567-89ab-4def-8123-456789abcdef'')
   \<and> karpenter_Parse ''inspace://bkk01/ABCDEF67-89ab-4def-8123-456789abcdef''
     = Inr \<lparr>pid_Location = ''bkk01'', pid_UUID = ''ABCDEF67-89ab-4def-8123-456789abcdef''\<rparr>
   \<and> providerid_Parse ''inspace://bkk01/ABCDEF67-89ab-4def-8123-456789abcdef''
     = Inr \<lparr>pid_Location = ''bkk01'', pid_UUID = ''abcdef67-89ab-4def-8123-456789abcdef''\<rparr>
   \<and> parseProviderID ''inspace://bkk01/ABCDEF67-89ab-4def-8123-456789abcdef''
     = Inr (''bkk01'', ''abcdef67-89ab-4def-8123-456789abcdef'')"
  by (intro conjI) code_simp+

end
