(* ===== verification/CSI_Driver.thy ===== *)
theory CSI_Driver
  imports Provider_IDs
begin

text \<open>
  The CSI protocol layer (\<^verbatim>\<open>csi-driver/pkg/driver\<close>): request validation, volume handles, the
  translation of cloud and host failures to gRPC status codes, and the handlers of the Identity,
  Controller and Node services. The two boundaries it is written against, \<^verbatim>\<open>cloud.Interface\<close> and
  \<^verbatim>\<open>host.Mounter\<close>, are records of operations on an arbitrary state \<open>'s\<close>; the cloud adapter and the
  in-memory fakes are instances of them. A nil pointer is \<open>None\<close>; a protobuf string map is an
  association list in the order Go happens to iterate it. Of a status message only the constant part
  is kept.
\<close>

section \<open>Status\<close>

datatype grpc_code = Canceled | InvalidArgument | DeadlineExceeded | NotFound | AlreadyExists | PermissionDenied
  | ResourceExhausted | FailedPrecondition | Aborted | OutOfRange | Internal | Unavailable | Unauthenticated

datatype grpc_status = Status grpc_code string

fun status_code :: "grpc_status \<Rightarrow> grpc_code" where
  "status_code (Status code m) = code"

section \<open>Boundaries\<close>

record 's cloud_Interface =
  cl_Probe :: "ctx \<Rightarrow> ('s, error option) state"
  cl_EnsureVolume :: "ctx \<Rightarrow> VolumeSpec \<Rightarrow> ('s, error + Volume) state"
  cl_GetVolume :: "ctx \<Rightarrow> string \<Rightarrow> string \<Rightarrow> ('s, error + Volume) state"
  cl_DeleteVolume :: "ctx \<Rightarrow> string \<Rightarrow> string \<Rightarrow> ('s, error option) state"
  cl_AttachVolume :: "ctx \<Rightarrow> string \<Rightarrow> string \<Rightarrow> string \<Rightarrow> ('s, error option) state"
  cl_DetachVolume :: "ctx \<Rightarrow> string \<Rightarrow> string \<Rightarrow> string \<Rightarrow> ('s, error option) state"
  cl_ExpandVolume :: "ctx \<Rightarrow> string \<Rightarrow> string \<Rightarrow> int \<Rightarrow> ('s, error + int) state"

record VolumeStats =
  vs_TotalBytes :: int
  vs_AvailableBytes :: int
  vs_UsedBytes :: int
  vs_TotalInodes :: int
  vs_AvailableInodes :: int
  vs_UsedInodes :: int

record Mount =
  mnt_Source :: string
  mnt_Target :: string
  mnt_FSType :: string
  mnt_ReadOnly :: bool
  mnt_Bind :: bool
  mnt_MountFlags :: "string list"

record 's host_Mounter =
  mo_Probe :: "ctx \<Rightarrow> ('s, error option) state"
  mo_WaitForDevice :: "ctx \<Rightarrow> string \<Rightarrow> ('s, error + string) state"
  mo_GetMount :: "ctx \<Rightarrow> string \<Rightarrow> ('s, error + Mount option) state"
  mo_SameSource :: "ctx \<Rightarrow> Mount \<Rightarrow> string \<Rightarrow> ('s, error + bool) state"
  mo_FormatAndMount :: "ctx \<Rightarrow> string \<Rightarrow> string \<Rightarrow> string \<Rightarrow> string list \<Rightarrow> ('s, error option) state"
  mo_BindMount :: "ctx \<Rightarrow> string \<Rightarrow> string \<Rightarrow> bool \<Rightarrow> string list \<Rightarrow> ('s, error option) state"
  mo_Unmount :: "ctx \<Rightarrow> string \<Rightarrow> ('s, error option) state"
  mo_ExpandFilesystem :: "ctx \<Rightarrow> string \<Rightarrow> string \<Rightarrow> int \<Rightarrow> ('s, error + int) state"
  mo_VolumeStats :: "ctx \<Rightarrow> string \<Rightarrow> ('s, error + VolumeStats) state"

section \<open>Construction\<close>

definition DefaultVolumeSize :: int where
  "DefaultVolumeSize = 10 * 1024 * 1024 * 1024"

definition DefaultMaxVolumeSize :: int where
  "DefaultMaxVolumeSize = 2000 * 1024 * 1024 * 1024"

definition TopologyLocationKey :: string where
  "TopologyLocationKey = ''topology.inspace.cloud/location''"

text \<open>A mode is any string; the three modes are \<^verbatim>\<open>controller\<close>, \<^verbatim>\<open>node\<close> and \<^verbatim>\<open>all\<close>.\<close>

record DriverConfig =
  dc_Mode :: string
  dc_PluginName :: string
  dc_PluginVersion :: string
  dc_Location :: string
  dc_NodeID :: string
  dc_DefaultVolumeSize :: int
  dc_MaxVolumeSize :: int
  dc_MaxVolumesPerNode :: int

record 's Driver =
  d_cfg :: DriverConfig
  d_cloud :: "'s cloud_Interface option"
  d_mounter :: "'s host_Mounter option"

definition driver_New :: "DriverConfig \<Rightarrow> 's cloud_Interface option \<Rightarrow> 's host_Mounter option \<Rightarrow> error + 's Driver" where
  "driver_New cfg0 provider mounter =
     (if dc_Location cfg0 = [] then Inl (Plain ''location is required'')
      else
        let cfg = cfg0\<lparr>dc_PluginName := (if dc_PluginName cfg0 = [] then ''csi.inspace.cloud'' else dc_PluginName cfg0),
              dc_PluginVersion := (if dc_PluginVersion cfg0 = [] then ''dev'' else dc_PluginVersion cfg0),
              dc_Mode := (if dc_Mode cfg0 = [] then ''all'' else dc_Mode cfg0)\<rparr>
        in if dc_Mode cfg \<noteq> ''controller'' \<and> dc_Mode cfg \<noteq> ''node'' \<and> dc_Mode cfg \<noteq> ''all''
           then Inl (Plain ''unsupported driver mode'')
           else
             let cfg = cfg\<lparr>dc_DefaultVolumeSize := (if dc_DefaultVolumeSize cfg = 0 then DefaultVolumeSize else dc_DefaultVolumeSize cfg),
                   dc_MaxVolumeSize := (if dc_MaxVolumeSize cfg = 0 then DefaultMaxVolumeSize else dc_MaxVolumeSize cfg)\<rparr>
             in if dc_DefaultVolumeSize cfg < 0 \<or> dc_MaxVolumeSize cfg < 0 \<or> dc_MaxVolumesPerNode cfg < 0
                then Inl (Plain ''size and volume limits cannot be negative'')
                else if dc_MaxVolumeSize cfg > 0 \<and> dc_DefaultVolumeSize cfg > dc_MaxVolumeSize cfg
                then Inl (Plain ''default volume size exceeds maximum volume size'')
                else Inr \<lparr>d_cfg = cfg, d_cloud = provider, d_mounter = mounter\<rparr>)"

definition controllerEnabled :: "'s Driver \<Rightarrow> bool" where
  "controllerEnabled d = (dc_Mode (d_cfg d) = ''controller'' \<or> dc_Mode (d_cfg d) = ''all'')"

definition nodeEnabled :: "'s Driver \<Rightarrow> bool" where
  "nodeEnabled d = (dc_Mode (d_cfg d) = ''node'' \<or> dc_Mode (d_cfg d) = ''all'')"

section \<open>Shared helpers\<close>

definition requireCloud :: "'s Driver \<Rightarrow> grpc_status + 's cloud_Interface" where
  "requireCloud d = (case d_cloud d of
     None \<Rightarrow> Inl (Status Unavailable ''InSpace cloud adapter is not configured'') | Some cl \<Rightarrow> Inr cl)"

definition requireMounter :: "'s Driver \<Rightarrow> grpc_status + 's host_Mounter" where
  "requireMounter d = (case d_mounter d of
     None \<Rightarrow> Inl (Status Unavailable ''host mounter adapter is not configured'') | Some mo \<Rightarrow> Inr mo)"

definition volumeRef :: "'s Driver \<Rightarrow> string \<Rightarrow> grpc_status + VolumeRef" where
  "volumeRef d handle =
     (case ParseVolumeHandle handle of
        Inl err \<Rightarrow> Inl (Status InvalidArgument ''invalid volume_id'')
      | Inr r \<Rightarrow>
        if ref_Location r \<noteq> dc_Location (d_cfg d)
        then Inl (Status InvalidArgument ''volume belongs to another location'') else Inr r)"

text \<open>\<^verbatim>\<open>operation\<close> only reaches the message. Called with a non-nil error.\<close>

definition cloudStatus :: "string \<Rightarrow> error \<Rightarrow> grpc_status" where
  "cloudStatus operation err =
     (if errors_is CtxCanceled err then Status Canceled operation
      else if errors_is CtxDeadlineExceeded err then Status DeadlineExceeded operation
      else if errors_is ErrNotFound err then Status NotFound operation
      else if errors_is ErrVolumeAttachedElsewhere err then Status FailedPrecondition operation
      else if errors_is ErrVolumeNotAttached err then Status FailedPrecondition operation
      else if errors_is ErrIncompatibleVolume err then Status AlreadyExists operation
      else if errors_is ErrSnapshotsPresent err then Status FailedPrecondition operation
      else if errors_is ErrInvalidNode err then Status NotFound operation
      else if errors_is ErrUnavailable err then Status Unavailable operation
      else if errors_is ErrUnauthenticated err then Status Unauthenticated operation
      else if errors_is ErrPermissionDenied err then Status PermissionDenied operation
      else if errors_is ErrConflict err then Status Aborted operation
      else if errors_is ErrRejected err then Status InvalidArgument operation
      else Status Internal operation)"

definition hostStatus :: "string \<Rightarrow> error \<Rightarrow> grpc_status" where
  "hostStatus operation err =
     (if errors_is CtxCanceled err then Status Canceled operation
      else if errors_is CtxDeadlineExceeded err then Status DeadlineExceeded operation
      else if errors_is ErrMountConflict err then Status FailedPrecondition operation
      else if errors_is ErrDeviceNotResized err then Status Unavailable operation
      else Status Internal operation)"

definition require :: "string \<Rightarrow> string \<Rightarrow> grpc_status option" where
  "require value field = (if value = [] then Some (Status InvalidArgument field) else None)"

text \<open>The first failing check of a sequence of pure checks.\<close>

fun first_err :: "grpc_status option list \<Rightarrow> grpc_status option" where
  "first_err [] = None"
| "first_err (Some e # rest) = Some e"
| "first_err (None # rest) = first_err rest"

type_synonym topology = "(string \<times> string) list"

definition topology :: "string \<Rightarrow> topology" where
  "topology location = [(TopologyLocationKey, location)]"

definition incompatibility :: "string \<Rightarrow> grpc_status" where
  "incompatibility name = Status AlreadyExists ''volume has a capacity outside the requested range''"

section \<open>Capabilities\<close>

datatype access_mode = UNKNOWN_MODE | SINGLE_NODE_WRITER | SINGLE_NODE_READER_ONLY | MULTI_NODE_READER_ONLY
  | MULTI_NODE_SINGLE_WRITER | MULTI_NODE_MULTI_WRITER | SINGLE_NODE_SINGLE_WRITER | SINGLE_NODE_MULTI_WRITER

record MountVolume =
  mv_FsType :: string
  mv_MountFlags :: "string list"

text \<open>\<open>cap_Mount\<close> is \<open>None\<close> for a raw block volume and for a capability without an access type.\<close>

record VolumeCapability =
  cap_AccessMode :: "access_mode option"
  cap_Mount :: "MountVolume option"

definition validateVolumeCapability :: "VolumeCapability option \<Rightarrow> error option" where
  "validateVolumeCapability capability =
     (case capability of
        None \<Rightarrow> Some (Plain ''volume capability and access mode are required'')
      | Some cap \<Rightarrow>
        (case cap_AccessMode cap of
           None \<Rightarrow> Some (Plain ''volume capability and access mode are required'')
         | Some mode \<Rightarrow>
           if mode \<noteq> SINGLE_NODE_WRITER then Some (Plain ''only SINGLE_NODE_WRITER (Kubernetes ReadWriteOnce) is supported'')
           else (case cap_Mount cap of
               None \<Rightarrow> Some (Plain ''only mounted filesystem volumes are supported; raw block and multi-node modes are not supported'')
             | Some mnt \<Rightarrow>
               if mv_FsType mnt \<noteq> [] \<and> mv_FsType mnt \<noteq> ''ext4'' then Some (Plain ''only ext4 is supported'') else None)))"

fun capabilities_loop :: "VolumeCapability option list \<Rightarrow> error option" where
  "capabilities_loop [] = None"
| "capabilities_loop (capability # rest) =
     (case validateVolumeCapability capability of Some err \<Rightarrow> Some err | None \<Rightarrow> capabilities_loop rest)"

definition validateVolumeCapabilities :: "VolumeCapability option list \<Rightarrow> error option" where
  "validateVolumeCapabilities capabilities =
     (if capabilities = [] then Some (Plain ''at least one volume capability is required'')
      else capabilities_loop capabilities)"

definition fsType :: "VolumeCapability option \<Rightarrow> string" where
  "fsType capability =
     (case capability of None \<Rightarrow> ''ext4''
      | Some cap \<Rightarrow> (case cap_Mount cap of None \<Rightarrow> ''ext4''
          | Some mnt \<Rightarrow> if mv_FsType mnt \<noteq> [] then mv_FsType mnt else ''ext4''))"

definition mountFlags :: "VolumeCapability option \<Rightarrow> string list" where
  "mountFlags capability =
     (case capability of None \<Rightarrow> [] | Some cap \<Rightarrow> (case cap_Mount cap of None \<Rightarrow> [] | Some mnt \<Rightarrow> mv_MountFlags mnt))"

text \<open>A capability error as a status of the given code.\<close>

definition capability_status :: "grpc_code \<Rightarrow> error option \<Rightarrow> grpc_status option" where
  "capability_status code err = map_option (\<lambda>_. Status code ''unsupported volume capability'') err"

section \<open>Requests\<close>

record CapacityRange =
  cr_RequiredBytes :: int
  cr_LimitBytes :: int

record TopologyRequirement =
  tr_Requisite :: "topology option list"
  tr_Preferred :: "topology option list"

record CreateVolumeRequest =
  cvr_Name :: string
  cvr_CapacityRange :: "CapacityRange option"
  cvr_VolumeCapabilities :: "VolumeCapability option list"
  cvr_Parameters :: "(string \<times> string) list"
  cvr_HasContentSource :: bool
  cvr_AccessibilityRequirements :: "TopologyRequirement option"
  cvr_MutableParameters :: "(string \<times> string) list"

record CreatedVolume =
  cv_VolumeId :: string
  cv_CapacityBytes :: int
  cv_VolumeContext :: "(string \<times> string) list"
  cv_AccessibleTopology :: "topology list"

definition string_at :: "(string \<times> string) list \<Rightarrow> string \<Rightarrow> string" where
  "string_at m key = (case map_of m key of None \<Rightarrow> [] | Some v \<Rightarrow> v)"

fun validate_topologies :: "string \<Rightarrow> bool \<Rightarrow> topology option list \<Rightarrow> grpc_status + bool" where
  "validate_topologies location matched [] = Inr matched"
| "validate_topologies location matched (candidate # rest) =
     (case candidate of
        None \<Rightarrow> Inl (Status InvalidArgument ''topology is empty'')
      | Some segments \<Rightarrow>
        if segments = [] then Inl (Status InvalidArgument ''topology is empty'')
        else if list_ex (\<lambda>(key, _). key \<noteq> TopologyLocationKey) segments
        then Inl (Status InvalidArgument ''topology contains unsupported segment'')
        else validate_topologies location (matched \<or> string_at segments TopologyLocationKey = location) rest)"

definition validateAccessibility :: "'s Driver \<Rightarrow> TopologyRequirement option \<Rightarrow> grpc_status option" where
  "validateAccessibility d requirements =
     (case requirements of
        None \<Rightarrow> None
      | Some r \<Rightarrow>
        if tr_Requisite r = [] \<and> tr_Preferred r = []
        then Some (Status InvalidArgument ''accessibility requirements contain no requisite or preferred topology'')
        else (case validate_topologies (dc_Location (d_cfg d)) False (tr_Requisite r) of
            Inl err \<Rightarrow> Some err
          | Inr requisiteMatched \<Rightarrow>
            (case validate_topologies (dc_Location (d_cfg d)) False (tr_Preferred r) of
               Inl err \<Rightarrow> Some err
             | Inr preferredMatched \<Rightarrow>
               if tr_Requisite r \<noteq> [] \<and> \<not> requisiteMatched
               then Some (Status ResourceExhausted ''requested requisite topology does not include location'')
               else if tr_Requisite r = [] \<and> tr_Preferred r \<noteq> [] \<and> \<not> preferredMatched
               then Some (Status ResourceExhausted ''requested preferred topology does not include location'')
               else None)))"

fun validateParameters :: "(string \<times> string) list \<Rightarrow> grpc_status option" where
  "validateParameters [] = None"
| "validateParameters ((key, value) # rest) =
     (if key = ''csi.storage.k8s.io/fstype'' then
        (if value \<noteq> [] \<and> value \<noteq> ''ext4'' then Some (Status InvalidArgument ''parameter supports only ext4'')
         else validateParameters rest)
      else Some (Status InvalidArgument ''unsupported StorageClass parameter''))"

fun validateVolumeContext :: "(string \<times> string) list \<Rightarrow> string \<Rightarrow> grpc_status option" where
  "validateVolumeContext [] location = None"
| "validateVolumeContext ((key, value) # rest) location =
     (if key = ''location'' then
        (if value \<noteq> location then Some (Status InvalidArgument ''volume_context location does not match volume_id'')
         else validateVolumeContext rest location)
      else if key = ''fsType'' then
        (if value \<noteq> ''ext4'' then Some (Status InvalidArgument ''volume_context fsType supports only ext4'')
         else validateVolumeContext rest location)
      else Some (Status InvalidArgument ''unsupported volume_context key''))"

text \<open>\<open>Inr (capacity, required, limit)\<close>.\<close>

definition requestedCapacity :: "'s Driver \<Rightarrow> CapacityRange option \<Rightarrow> grpc_status + int \<times> int \<times> int" where
  "requestedCapacity d capacityRange =
     (let required = (case capacityRange of None \<Rightarrow> 0 | Some r \<Rightarrow> cr_RequiredBytes r);
          limit = (case capacityRange of None \<Rightarrow> 0 | Some r \<Rightarrow> cr_LimitBytes r)
      in if required < 0 \<or> limit < 0 then Inl (Status InvalidArgument ''capacity range cannot be negative'')
         else if limit > 0 \<and> required > limit then Inl (Status InvalidArgument ''required capacity exceeds limit'')
         else
           let capacity = (if required = 0 then
                 (if limit > 0 \<and> dc_DefaultVolumeSize (d_cfg d) > limit then limit else dc_DefaultVolumeSize (d_cfg d))
               else required)
           in if capacity \<le> 0 then Inl (Status OutOfRange ''requested capacity must be greater than zero'')
              else if dc_MaxVolumeSize (d_cfg d) > 0 \<and> capacity > dc_MaxVolumeSize (d_cfg d)
              then Inl (Status OutOfRange ''requested capacity exceeds the configured maximum'')
              else Inr (capacity, required, limit))"

section \<open>Controller service\<close>

definition nil_request :: grpc_status where
  "nil_request = Status InvalidArgument ''request is required''"

definition createVolumeChecks :: "'s Driver \<Rightarrow> CreateVolumeRequest \<Rightarrow> grpc_status option list" where
  "createVolumeChecks d q =
     [require (cvr_Name q) ''name'',
      (if cvr_HasContentSource q
       then Some (Status InvalidArgument ''volume cloning and snapshot restore are not supported'') else None),
      (if cvr_MutableParameters q \<noteq> []
       then Some (Status InvalidArgument ''mutable_parameters are not supported'') else None),
      validateParameters (cvr_Parameters q),
      capability_status InvalidArgument (validateVolumeCapabilities (cvr_VolumeCapabilities q)),
      validateAccessibility d (cvr_AccessibilityRequirements q)]"

definition CreateVolume :: "'s Driver \<Rightarrow> ctx \<Rightarrow> CreateVolumeRequest option \<Rightarrow> ('s, grpc_status + CreatedVolume) state" where
  "CreateVolume d c req =
     (case requireCloud d of
        Inl err \<Rightarrow> State_Monad.return (Inl err)
      | Inr cl \<Rightarrow>
        (case req of
           None \<Rightarrow> State_Monad.return (Inl nil_request)
         | Some q \<Rightarrow>
           (case first_err (createVolumeChecks d q) of
              Some err \<Rightarrow> State_Monad.return (Inl err)
            | None \<Rightarrow>
              (case requestedCapacity d (cvr_CapacityRange q) of
                 Inl err \<Rightarrow> State_Monad.return (Inl err)
               | Inr (capacity, required, limit) \<Rightarrow> do {
                   r \<leftarrow> cl_EnsureVolume cl c \<lparr>spec_Name = cvr_Name q, spec_Location = dc_Location (d_cfg d),
                          spec_CapacityBytes = capacity\<rparr>;
                   State_Monad.return (case r of
                     Inl err \<Rightarrow> Inl (cloudStatus ''create volume'' err)
                   | Inr volume \<Rightarrow>
                     if vol_Location volume \<noteq> dc_Location (d_cfg d) \<or> vol_ID volume = []
                     then Inl (Status Internal ''cloud adapter returned an invalid volume identity'')
                     else if vol_CapacityBytes volume \<le> 0
                     then Inl (Status Internal ''cloud adapter returned a non-positive volume capacity'')
                     else if vol_CapacityBytes volume < required \<or> (limit > 0 \<and> vol_CapacityBytes volume > limit)
                     then Inl (incompatibility (cvr_Name q))
                     else (case NewVolumeHandle (vol_Location volume) (vol_ID volume) of
                         Inl err \<Rightarrow> Inl (Status Internal ''cloud adapter returned invalid volume UUID'')
                       | Inr handle \<Rightarrow>
                         Inr \<lparr>cv_VolumeId = handle, cv_CapacityBytes = vol_CapacityBytes volume,
                           cv_VolumeContext = [(''location'', vol_Location volume), (''fsType'', ''ext4'')],
                           cv_AccessibleTopology = [topology (vol_Location volume)]\<rparr>))
                 }))))"

text \<open>The checks a handler makes before it uses the volume: the request, its \<^verbatim>\<open>volume_id\<close> and further checks.\<close>

definition with_volume :: "'s Driver \<Rightarrow> string \<Rightarrow> grpc_status option list \<Rightarrow> (VolumeRef \<Rightarrow> ('s, grpc_status + 'a) state)
    \<Rightarrow> ('s, grpc_status + 'a) state" where
  "with_volume d volumeId checks k =
     (case first_err (require volumeId ''volume_id'' # checks) of
        Some err \<Rightarrow> State_Monad.return (Inl err)
      | None \<Rightarrow> (case volumeRef d volumeId of Inl err \<Rightarrow> State_Monad.return (Inl err) | Inr r \<Rightarrow> k r))"

definition driver_DeleteVolume :: "'s Driver \<Rightarrow> ctx \<Rightarrow> string option \<Rightarrow> ('s, grpc_status + unit) state" where
  "driver_DeleteVolume d c req =
     (case requireCloud d of
        Inl err \<Rightarrow> State_Monad.return (Inl err)
      | Inr cl \<Rightarrow>
        (case req of
           None \<Rightarrow> State_Monad.return (Inl nil_request)
         | Some volumeId \<Rightarrow> with_volume d volumeId [] (\<lambda>r. do {
             e \<leftarrow> cl_DeleteVolume cl c (ref_Location r) (ref_ID r);
             State_Monad.return (case e of
               Some err \<Rightarrow> if \<not> errors_is ErrNotFound err then Inl (cloudStatus ''delete volume'' err) else Inr ()
             | None \<Rightarrow> Inr ())
           })))"

record PublishRequest =
  pr_VolumeId :: string
  pr_NodeId :: string
  pr_VolumeCapability :: "VolumeCapability option"

definition ControllerPublishVolume :: "'s Driver \<Rightarrow> ctx \<Rightarrow> PublishRequest option
    \<Rightarrow> ('s, grpc_status + (string \<times> string) list) state" where
  "ControllerPublishVolume d c req =
     (case requireCloud d of
        Inl err \<Rightarrow> State_Monad.return (Inl err)
      | Inr cl \<Rightarrow>
        (case req of
           None \<Rightarrow> State_Monad.return (Inl nil_request)
         | Some q \<Rightarrow> with_volume d (pr_VolumeId q)
             [require (pr_NodeId q) ''node_id'',
              capability_status InvalidArgument (validateVolumeCapabilities [pr_VolumeCapability q])] (\<lambda>r. do {
             g \<leftarrow> cl_GetVolume cl c (ref_Location r) (ref_ID r);
             case g of
               Inl err \<Rightarrow> State_Monad.return (Inl (cloudStatus ''get volume before attach'' err))
             | Inr _ \<Rightarrow> do {
                 e \<leftarrow> cl_AttachVolume cl c (ref_Location r) (ref_ID r) (pr_NodeId q);
                 State_Monad.return (case e of
                   Some err \<Rightarrow> Inl (cloudStatus ''attach volume'' err)
                 | None \<Rightarrow> (case VirtioDevicePath (ref_ID r) of
                       Inl err \<Rightarrow> Inl (Status Internal ''derive device path'')
                     | Inr devicePath \<Rightarrow> Inr [(''devicePath'', devicePath), (''location'', ref_Location r)]))
               }
           })))"

record UnpublishRequest =
  ur_VolumeId :: string
  ur_NodeId :: string

definition ControllerUnpublishVolume :: "'s Driver \<Rightarrow> ctx \<Rightarrow> UnpublishRequest option \<Rightarrow> ('s, grpc_status + unit) state" where
  "ControllerUnpublishVolume d c req =
     (case requireCloud d of
        Inl err \<Rightarrow> State_Monad.return (Inl err)
      | Inr cl \<Rightarrow>
        (case req of
           None \<Rightarrow> State_Monad.return (Inl nil_request)
         | Some q \<Rightarrow> with_volume d (ur_VolumeId q) [] (\<lambda>r. do {
             e \<leftarrow> cl_DetachVolume cl c (ref_Location r) (ref_ID r) (ur_NodeId q);
             State_Monad.return (case e of
               Some err \<Rightarrow> if \<not> errors_is ErrNotFound err then Inl (cloudStatus ''detach volume'' err) else Inr ()
             | None \<Rightarrow> Inr ())
           })))"

record ValidateRequest =
  vr_VolumeId :: string
  vr_VolumeContext :: "(string \<times> string) list"
  vr_VolumeCapabilities :: "VolumeCapability option list"
  vr_Parameters :: "(string \<times> string) list"
  vr_MutableParameters :: "(string \<times> string) list"

record Confirmed =
  cf_VolumeCapabilities :: "VolumeCapability option list"
  cf_VolumeContext :: "(string \<times> string) list"
  cf_Parameters :: "(string \<times> string) list"

text \<open>An answer without confirmation carries only a message: \<open>None\<close>.\<close>

definition ValidateVolumeCapabilities :: "'s Driver \<Rightarrow> ctx \<Rightarrow> ValidateRequest option
    \<Rightarrow> ('s, grpc_status + Confirmed option) state" where
  "ValidateVolumeCapabilities d c req =
     (case requireCloud d of
        Inl err \<Rightarrow> State_Monad.return (Inl err)
      | Inr cl \<Rightarrow>
        (case req of
           None \<Rightarrow> State_Monad.return (Inl nil_request)
         | Some q \<Rightarrow> with_volume d (vr_VolumeId q) [] (\<lambda>r. do {
             g \<leftarrow> cl_GetVolume cl c (ref_Location r) (ref_ID r);
             State_Monad.return (case g of
               Inl err \<Rightarrow> Inl (cloudStatus ''validate volume'' err)
             | Inr _ \<Rightarrow>
               (case first_err
                    [(if vr_VolumeCapabilities q = [] then Some (Status InvalidArgument ''volume_capabilities is required'') else None),
                     validateParameters (vr_Parameters q),
                     (if vr_MutableParameters q \<noteq> []
                      then Some (Status InvalidArgument ''mutable_parameters are not supported'') else None),
                     validateVolumeContext (vr_VolumeContext q) (ref_Location r)] of
                  Some err \<Rightarrow> Inl err
                | None \<Rightarrow>
                  (case validateVolumeCapabilities (vr_VolumeCapabilities q) of
                     Some err \<Rightarrow> Inr None
                   | None \<Rightarrow> Inr (Some \<lparr>cf_VolumeCapabilities = vr_VolumeCapabilities q,
                       cf_VolumeContext =
                         (if map_of (vr_VolumeContext q) ''location'' \<noteq> None then [(''location'', ref_Location r)] else [])
                         @ (if map_of (vr_VolumeContext q) ''fsType'' \<noteq> None then [(''fsType'', ''ext4'')] else []),
                       cf_Parameters =
                         (if map_of (vr_Parameters q) ''csi.storage.k8s.io/fstype'' \<noteq> None
                          then [(''csi.storage.k8s.io/fstype'', ''ext4'')] else [])\<rparr>))))
           })))"

datatype controller_capability = CREATE_DELETE_VOLUME | PUBLISH_UNPUBLISH_VOLUME | EXPAND_VOLUME

definition ControllerGetCapabilities :: "controller_capability list" where
  "ControllerGetCapabilities = [CREATE_DELETE_VOLUME, PUBLISH_UNPUBLISH_VOLUME, EXPAND_VOLUME]"

definition expansionCapacity :: "'s Driver \<Rightarrow> CapacityRange option \<Rightarrow> grpc_status + int \<times> int" where
  "expansionCapacity d capacityRange =
     (case capacityRange of
        None \<Rightarrow> Inl (Status InvalidArgument ''capacity_range is required'')
      | Some cr \<Rightarrow>
        let limit = cr_LimitBytes cr in
        if cr_RequiredBytes cr < 0 \<or> limit < 0 then Inl (Status InvalidArgument ''capacity range cannot be negative'')
        else
          let required = (if cr_RequiredBytes cr = 0 then limit else cr_RequiredBytes cr) in
          if required = 0 then Inl (Status InvalidArgument ''capacity_range must set required_bytes or limit_bytes'')
          else if limit > 0 \<and> required > limit then Inl (Status InvalidArgument ''required capacity exceeds limit'')
          else if dc_MaxVolumeSize (d_cfg d) > 0 \<and> required > dc_MaxVolumeSize (d_cfg d)
          then Inl (Status OutOfRange ''requested capacity exceeds the configured maximum'')
          else Inr (required, limit))"

record ExpandRequest =
  er_VolumeId :: string
  er_CapacityRange :: "CapacityRange option"
  er_VolumeCapability :: "VolumeCapability option"

text \<open>The optional capability of an expand request.\<close>

definition optional_capability :: "VolumeCapability option \<Rightarrow> grpc_status option" where
  "optional_capability capability =
     (if capability \<noteq> None then capability_status InvalidArgument (validateVolumeCapabilities [capability]) else None)"

text \<open>The answer is the capacity; it always asks for the node expansion.\<close>

definition ControllerExpandVolume :: "'s Driver \<Rightarrow> ctx \<Rightarrow> ExpandRequest option \<Rightarrow> ('s, grpc_status + int) state" where
  "ControllerExpandVolume d c req =
     (case requireCloud d of
        Inl err \<Rightarrow> State_Monad.return (Inl err)
      | Inr cl \<Rightarrow>
        (case req of
           None \<Rightarrow> State_Monad.return (Inl nil_request)
         | Some q \<Rightarrow> with_volume d (er_VolumeId q) [optional_capability (er_VolumeCapability q)] (\<lambda>r.
             (case expansionCapacity d (er_CapacityRange q) of
                Inl err \<Rightarrow> State_Monad.return (Inl err)
              | Inr (required, limit) \<Rightarrow> do {
                  e \<leftarrow> cl_ExpandVolume cl c (ref_Location r) (ref_ID r) required;
                  State_Monad.return (case e of
                    Inl err \<Rightarrow> Inl (cloudStatus ''expand volume'' err)
                  | Inr capacity \<Rightarrow>
                    if capacity < required \<or> (limit > 0 \<and> capacity > limit)
                    then Inl (Status OutOfRange ''expanded capacity is outside requested range'')
                    else Inr capacity)
                }))))"

section \<open>Node service\<close>

text \<open>Continue with the value of a host operation, or answer with the status of its failure.\<close>

definition host_try :: "string \<Rightarrow> ('s, error + 'a) state \<Rightarrow> ('a \<Rightarrow> ('s, grpc_status + 'b) state) \<Rightarrow> ('s, grpc_status + 'b) state" where
  "host_try operation m k = do {
     r \<leftarrow> m;
     case r of Inl err \<Rightarrow> State_Monad.return (Inl (hostStatus operation err)) | Inr x \<Rightarrow> k x
   }"

definition host_do :: "string \<Rightarrow> ('s, error option) state \<Rightarrow> ('s, grpc_status + unit) state" where
  "host_do operation m = do {
     r \<leftarrow> m;
     State_Monad.return (case r of Some err \<Rightarrow> Inl (hostStatus operation err) | None \<Rightarrow> Inr ())
   }"

definition device_path :: "string \<Rightarrow> (string \<Rightarrow> ('s, grpc_status + 'b) state) \<Rightarrow> ('s, grpc_status + 'b) state" where
  "device_path volumeID k =
     (case VirtioDevicePath volumeID of
        Inl err \<Rightarrow> State_Monad.return (Inl (Status Internal ''derive device path''))
      | Inr p \<Rightarrow> k p)"

definition staging_required :: "string \<Rightarrow> grpc_status option" where
  "staging_required path = (if path = [] then Some (Status FailedPrecondition ''staging_target_path is required'') else None)"

record StageRequest =
  sr_VolumeId :: string
  sr_PublishContext :: "(string \<times> string) list"
  sr_StagingTargetPath :: string
  sr_VolumeCapability :: "VolumeCapability option"

definition NodeStageVolume :: "'s Driver \<Rightarrow> ctx \<Rightarrow> StageRequest option \<Rightarrow> ('s, grpc_status + unit) state" where
  "NodeStageVolume d c req =
     (case requireMounter d of
        Inl err \<Rightarrow> State_Monad.return (Inl err)
      | Inr mo \<Rightarrow>
        (case req of
           None \<Rightarrow> State_Monad.return (Inl nil_request)
         | Some q \<Rightarrow> with_volume d (sr_VolumeId q)
             [staging_required (sr_StagingTargetPath q),
              capability_status FailedPrecondition (validateVolumeCapabilities [sr_VolumeCapability q])]
             (\<lambda>r. device_path (ref_ID r) (\<lambda>devicePath.
               let published = string_at (sr_PublishContext q) ''devicePath'';
                   publishedLocation = string_at (sr_PublishContext q) ''location''
               in if published \<noteq> [] \<and> published \<noteq> devicePath
                  then State_Monad.return (Inl (Status InvalidArgument ''publish_context devicePath does not match volume_id''))
                  else if publishedLocation \<noteq> [] \<and> publishedLocation \<noteq> ref_Location r
                  then State_Monad.return (Inl (Status InvalidArgument ''publish_context location does not match volume_id''))
                  else host_try ''wait for volume device'' (mo_WaitForDevice mo c devicePath) (\<lambda>actualDevice.
                    host_try ''inspect staging target'' (mo_GetMount mo c (sr_StagingTargetPath q)) (\<lambda>present.
                      case present of
                        Some mounted \<Rightarrow>
                          host_try ''compare staging mount source'' (mo_SameSource mo c mounted actualDevice) (\<lambda>matches.
                            State_Monad.return
                              (if \<not> matches \<or> mnt_FSType mounted \<noteq> fsType (sr_VolumeCapability q) \<or> mnt_ReadOnly mounted
                               then Inl (Status FailedPrecondition ''staging target has a conflicting mount'') else Inr ()))
                      | None \<Rightarrow> host_do ''format and stage volume''
                          (mo_FormatAndMount mo c actualDevice (sr_StagingTargetPath q) (fsType (sr_VolumeCapability q))
                            (mountFlags (sr_VolumeCapability q)))))))))"

record UnstageRequest =
  nu_VolumeId :: string
  nu_StagingTargetPath :: string

definition NodeUnstageVolume :: "'s Driver \<Rightarrow> ctx \<Rightarrow> UnstageRequest option \<Rightarrow> ('s, grpc_status + unit) state" where
  "NodeUnstageVolume d c req =
     (case requireMounter d of
        Inl err \<Rightarrow> State_Monad.return (Inl err)
      | Inr mo \<Rightarrow>
        (case req of
           None \<Rightarrow> State_Monad.return (Inl nil_request)
         | Some q \<Rightarrow> with_volume d (nu_VolumeId q) [staging_required (nu_StagingTargetPath q)]
             (\<lambda>r. host_do ''unstage volume'' (mo_Unmount mo c (nu_StagingTargetPath q)))))"

record NodePublishRequest =
  np_VolumeId :: string
  np_StagingTargetPath :: string
  np_TargetPath :: string
  np_VolumeCapability :: "VolumeCapability option"
  np_Readonly :: bool

definition NodePublishVolume :: "'s Driver \<Rightarrow> ctx \<Rightarrow> NodePublishRequest option \<Rightarrow> ('s, grpc_status + unit) state" where
  "NodePublishVolume d c req =
     (case requireMounter d of
        Inl err \<Rightarrow> State_Monad.return (Inl err)
      | Inr mo \<Rightarrow>
        (case req of
           None \<Rightarrow> State_Monad.return (Inl nil_request)
         | Some q \<Rightarrow> with_volume d (np_VolumeId q)
             [staging_required (np_StagingTargetPath q), require (np_TargetPath q) ''target_path'',
              capability_status FailedPrecondition (validateVolumeCapabilities [np_VolumeCapability q])]
             (\<lambda>r. device_path (ref_ID r) (\<lambda>devicePath.
               host_try ''wait for staged volume device'' (mo_WaitForDevice mo c devicePath) (\<lambda>actualDevice.
               host_try ''inspect staging target'' (mo_GetMount mo c (np_StagingTargetPath q)) (\<lambda>staged.
               case staged of
                 None \<Rightarrow> State_Monad.return (Inl (Status FailedPrecondition ''volume is not staged''))
               | Some stagedMount \<Rightarrow>
                 host_try ''compare staged volume source'' (mo_SameSource mo c stagedMount actualDevice) (\<lambda>stagedSourceMatches.
                 if \<not> stagedSourceMatches \<or> mnt_FSType stagedMount \<noteq> fsType (np_VolumeCapability q) \<or> mnt_ReadOnly stagedMount
                 then State_Monad.return (Inl (Status FailedPrecondition ''staging target belongs to a different volume''))
                 else host_try ''inspect publish target'' (mo_GetMount mo c (np_TargetPath q)) (\<lambda>published.
                   case published of
                     Some publishedMount \<Rightarrow>
                       host_try ''compare publish mount source'' (mo_SameSource mo c publishedMount (np_StagingTargetPath q)) (\<lambda>matches.
                         State_Monad.return
                           (if \<not> matches \<or> mnt_ReadOnly publishedMount \<noteq> np_Readonly q
                            then Inl (Status FailedPrecondition ''publish target has a conflicting mount'') else Inr ()))
                   | None \<Rightarrow> host_do ''publish volume''
                       (mo_BindMount mo c (np_StagingTargetPath q) (np_TargetPath q) (np_Readonly q)
                         (mountFlags (np_VolumeCapability q)))))))))))"

record NodeUnpublishRequest =
  nup_VolumeId :: string
  nup_TargetPath :: string

definition NodeUnpublishVolume :: "'s Driver \<Rightarrow> ctx \<Rightarrow> NodeUnpublishRequest option \<Rightarrow> ('s, grpc_status + unit) state" where
  "NodeUnpublishVolume d c req =
     (case requireMounter d of
        Inl err \<Rightarrow> State_Monad.return (Inl err)
      | Inr mo \<Rightarrow>
        (case req of
           None \<Rightarrow> State_Monad.return (Inl nil_request)
         | Some q \<Rightarrow> with_volume d (nup_VolumeId q) [require (nup_TargetPath q) ''target_path'']
             (\<lambda>r. host_do ''unpublish volume'' (mo_Unmount mo c (nup_TargetPath q)))))"

record NodeInfo =
  ni_NodeId :: string
  ni_MaxVolumesPerNode :: int
  ni_AccessibleTopology :: topology

definition NodeGetInfo :: "'s Driver \<Rightarrow> grpc_status + NodeInfo" where
  "NodeGetInfo d =
     (if dc_NodeID (d_cfg d) = [] then Inl (Status FailedPrecondition ''node ID is not configured'')
      else Inr \<lparr>ni_NodeId = dc_NodeID (d_cfg d), ni_MaxVolumesPerNode = dc_MaxVolumesPerNode (d_cfg d),
        ni_AccessibleTopology = topology (dc_Location (d_cfg d))\<rparr>)"

record StatsRequest =
  str_VolumeId :: string
  str_VolumePath :: string

definition NodeGetVolumeStats :: "'s Driver \<Rightarrow> ctx \<Rightarrow> StatsRequest option \<Rightarrow> ('s, grpc_status + VolumeStats) state" where
  "NodeGetVolumeStats d c req =
     (case requireMounter d of
        Inl err \<Rightarrow> State_Monad.return (Inl err)
      | Inr mo \<Rightarrow>
        (case req of
           None \<Rightarrow> State_Monad.return (Inl nil_request)
         | Some q \<Rightarrow> with_volume d (str_VolumeId q) [require (str_VolumePath q) ''volume_path''] (\<lambda>r. do {
             st \<leftarrow> mo_VolumeStats mo c (str_VolumePath q);
             case st of
               Inl err \<Rightarrow> State_Monad.return (Inl
                 (if errors_is FsErrNotExist err then Status NotFound ''volume_path does not exist''
                  else hostStatus ''read volume stats'' err))
             | Inr stats \<Rightarrow> host_try ''inspect volume path'' (mo_GetMount mo c (str_VolumePath q)) (\<lambda>mounted.
                 State_Monad.return
                   (if mounted = None then Inl (Status NotFound ''volume_path is not mounted'') else Inr stats))
           })))"

definition mountBelongsToDevice :: "'s host_Mounter \<Rightarrow> ctx \<Rightarrow> Mount \<Rightarrow> string \<Rightarrow> string \<Rightarrow> ('s, grpc_status + bool) state" where
  "mountBelongsToDevice mo c mounted device stagingPath =
     host_try ''compare volume path source'' (mo_SameSource mo c mounted device) (\<lambda>matches.
       if matches \<or> stagingPath = [] then State_Monad.return (Inr matches)
       else host_try ''inspect staging target'' (mo_GetMount mo c stagingPath) (\<lambda>staged.
         case staged of
           None \<Rightarrow> State_Monad.return (Inr False)
         | Some stagedMount \<Rightarrow>
           host_try ''compare staged volume source'' (mo_SameSource mo c stagedMount device) (\<lambda>stagedMatches.
             if \<not> stagedMatches then State_Monad.return (Inr False)
             else host_try ''compare volume path with staging target'' (mo_SameSource mo c mounted stagingPath)
               (\<lambda>boundToStage. State_Monad.return (Inr boundToStage)))))"

record NodeExpandRequest =
  ne_VolumeId :: string
  ne_VolumePath :: string
  ne_CapacityRange :: "CapacityRange option"
  ne_StagingTargetPath :: string
  ne_VolumeCapability :: "VolumeCapability option"

definition NodeExpandVolume :: "'s Driver \<Rightarrow> ctx \<Rightarrow> NodeExpandRequest option \<Rightarrow> ('s, grpc_status + int) state" where
  "NodeExpandVolume d c req =
     (case requireMounter d of
        Inl err \<Rightarrow> State_Monad.return (Inl err)
      | Inr mo \<Rightarrow>
        (case req of
           None \<Rightarrow> State_Monad.return (Inl nil_request)
         | Some q \<Rightarrow> with_volume d (ne_VolumeId q)
             [require (ne_VolumePath q) ''volume_path'', optional_capability (ne_VolumeCapability q)] (\<lambda>r.
             let required = (case ne_CapacityRange q of None \<Rightarrow> 0 | Some cr \<Rightarrow> cr_RequiredBytes cr) in
             if required < 0 then State_Monad.return (Inl (Status InvalidArgument ''capacity range cannot be negative''))
             else device_path (ref_ID r) (\<lambda>devicePath.
               host_try ''wait for volume device'' (mo_WaitForDevice mo c devicePath) (\<lambda>actualDevice.
               host_try ''inspect volume path'' (mo_GetMount mo c (ne_VolumePath q)) (\<lambda>present.
               case present of
                 None \<Rightarrow> State_Monad.return (Inl (Status NotFound ''volume_path is not mounted''))
               | Some mounted \<Rightarrow> do {
                   b \<leftarrow> mountBelongsToDevice mo c mounted actualDevice (ne_StagingTargetPath q);
                   case b of
                     Inl err \<Rightarrow> State_Monad.return (Inl err)
                   | Inr matches \<Rightarrow>
                     if \<not> matches
                     then State_Monad.return (Inl (Status FailedPrecondition ''volume_path belongs to a different volume''))
                     else host_try ''expand filesystem''
                       (mo_ExpandFilesystem mo c actualDevice (ne_VolumePath q) required)
                       (\<lambda>capacity. State_Monad.return (Inr capacity))
                 }))))))"

section \<open>Identity service\<close>

datatype plugin_capability = VOLUME_ACCESSIBILITY_CONSTRAINTS | CONTROLLER_SERVICE | VOLUME_EXPANSION_ONLINE

definition GetPluginInfo :: "'s Driver \<Rightarrow> string \<times> string" where
  "GetPluginInfo d = (dc_PluginName (d_cfg d), dc_PluginVersion (d_cfg d))"

definition GetPluginCapabilities :: "'s Driver \<Rightarrow> plugin_capability list" where
  "GetPluginCapabilities d = VOLUME_ACCESSIBILITY_CONSTRAINTS
     # (if controllerEnabled d then [CONTROLLER_SERVICE, VOLUME_EXPANSION_ONLINE] else [])"

definition driver_Probe :: "'s Driver \<Rightarrow> ctx \<Rightarrow> ('s, grpc_status + unit) state" where
  "driver_Probe d c = do {
     e \<leftarrow> (if \<not> controllerEnabled d then State_Monad.return None
           else case d_cloud d of
             None \<Rightarrow> State_Monad.return (Some (Status Unavailable ''cloud adapter is not configured''))
           | Some cl \<Rightarrow> do { r \<leftarrow> cl_Probe cl c; State_Monad.return (map_option (cloudStatus ''probe cloud dependency'') r) });
     case e of
       Some err \<Rightarrow> State_Monad.return (Inl err)
     | None \<Rightarrow>
       if \<not> nodeEnabled d then State_Monad.return (Inr ())
       else (case d_mounter d of
           None \<Rightarrow> State_Monad.return (Inl (Status Unavailable ''host mounter is not configured''))
         | Some mo \<Rightarrow> host_do ''probe host dependency'' (mo_Probe mo c))
   }"

end
