(* ===== verification/CSI_Fakes.thy ===== *)
theory CSI_Fakes
  imports CSI_Driver
begin

text \<open>
  The in-memory implementations of the two boundaries of the CSI layer that the repository ships for
  protocol development: the cloud (\<^verbatim>\<open>csi-driver/pkg/cloud/fake/fake.go\<close>) and the host mounter
  (\<^verbatim>\<open>csi-driver/pkg/host/fake/fake.go\<close>). Each method holds its mutex for its whole body, so it is one
  step on the state. The hexadecimal SHA-256 digest the cloud derives UUIDs from is the argument \<open>sha\<close>.
  The theorems give the cloud's invariant, the volume life cycle through the CSI controller, and what
  the node handlers may do to the mount table.
\<close>

section \<open>The cloud\<close>

record fake_record =
  fr_volume :: Volume
  fr_attachedTo :: string

record fake_Cloud =
  fc_volumes :: "string \<rightharpoonup> fake_record"
  fc_byName :: "string \<rightharpoonup> string"

definition fake_New :: fake_Cloud where
  "fake_New = \<lparr>fc_volumes = Map.empty, fc_byName = Map.empty\<rparr>"

definition fake_key :: "string \<Rightarrow> string \<Rightarrow> string" where
  "fake_key location value = location @ CHR 0x00 # value"

definition deterministicUUID :: "(string \<Rightarrow> string) \<Rightarrow> string \<Rightarrow> string" where
  "deterministicUUID sha value =
     (let hex = sha value in
      take 8 hex @ ''-'' @ take 4 (drop 8 hex) @ ''-'' @ take 4 (drop 12 hex) @ ''-'' @ take 4 (drop 16 hex) @ ''-''
        @ take 12 (drop 20 hex))"

text \<open>A name that is indexed but whose record is missing would be a nil dereference; the model answers with an error.\<close>

definition fake_EnsureVolume :: "(string \<Rightarrow> string) \<Rightarrow> VolumeSpec \<Rightarrow> fake_Cloud \<Rightarrow> (error + Volume) \<times> fake_Cloud" where
  "fake_EnsureVolume sha spc s =
     (let nameKey = fake_key (spec_Location spc) (spec_Name spc) in
      case fc_byName s nameKey of
        Some i \<Rightarrow>
          (case fc_volumes s (fake_key (spec_Location spc) i) of
             None \<Rightarrow> (Inl (Plain ''nil pointer dereference''), s)
           | Some r \<Rightarrow> (Inr (fr_volume r), s))
      | None \<Rightarrow>
          let i = deterministicUUID sha (spec_Location spc @ CHR 0x00 # spec_Name spc);
              v = \<lparr>vol_ID = i, vol_Name = spec_Name spc, vol_Location = spec_Location spc, vol_CapacityBytes = spec_CapacityBytes spc\<rparr>
          in (Inr v, s\<lparr>fc_volumes := (fc_volumes s)(fake_key (spec_Location spc) i \<mapsto> \<lparr>fr_volume = v, fr_attachedTo = []\<rparr>),
                 fc_byName := (fc_byName s)(nameKey \<mapsto> i)\<rparr>))"

definition fake_GetVolume :: "string \<Rightarrow> string \<Rightarrow> fake_Cloud \<Rightarrow> (error + Volume) \<times> fake_Cloud" where
  "fake_GetVolume location volumeID s =
     (case fc_volumes s (fake_key location volumeID) of
        None \<Rightarrow> (Inl (Sentinel ErrNotFound), s)
      | Some r \<Rightarrow> (Inr (fr_volume r), s))"

definition fake_DeleteVolume :: "string \<Rightarrow> string \<Rightarrow> fake_Cloud \<Rightarrow> error option \<times> fake_Cloud" where
  "fake_DeleteVolume location volumeID s =
     (let k = fake_key location volumeID in
      case fc_volumes s k of
        None \<Rightarrow> (Some (Sentinel ErrNotFound), s)
      | Some r \<Rightarrow>
        if fr_attachedTo r \<noteq> [] then (Some (Wrap [] [Sentinel ErrVolumeAttachedElsewhere]), s)
        else (None, s\<lparr>fc_byName := (fc_byName s)(fake_key location (vol_Name (fr_volume r)) := None),
                fc_volumes := (fc_volumes s)(k := None)\<rparr>))"

definition fake_AttachVolume :: "string \<Rightarrow> string \<Rightarrow> string \<Rightarrow> fake_Cloud \<Rightarrow> error option \<times> fake_Cloud" where
  "fake_AttachVolume location volumeID nodeID s =
     (let k = fake_key location volumeID in
      case fc_volumes s k of
        None \<Rightarrow> (Some (Sentinel ErrNotFound), s)
      | Some r \<Rightarrow>
        if fr_attachedTo r \<noteq> [] \<and> fr_attachedTo r \<noteq> nodeID
        then (Some (Wrap [] [Sentinel ErrVolumeAttachedElsewhere]), s)
        else (None, s\<lparr>fc_volumes := (fc_volumes s)(k \<mapsto> r\<lparr>fr_attachedTo := nodeID\<rparr>)\<rparr>))"

definition fake_DetachVolume :: "string \<Rightarrow> string \<Rightarrow> string \<Rightarrow> fake_Cloud \<Rightarrow> error option \<times> fake_Cloud" where
  "fake_DetachVolume location volumeID nodeID s =
     (let k = fake_key location volumeID in
      case fc_volumes s k of
        None \<Rightarrow> (Some (Sentinel ErrNotFound), s)
      | Some r \<Rightarrow>
        if fr_attachedTo r = [] then (None, s)
        else if nodeID = [] then (None, s\<lparr>fc_volumes := (fc_volumes s)(k \<mapsto> r\<lparr>fr_attachedTo := []\<rparr>)\<rparr>)
        else if fr_attachedTo r \<noteq> nodeID then (None, s)
        else (None, s\<lparr>fc_volumes := (fc_volumes s)(k \<mapsto> r\<lparr>fr_attachedTo := []\<rparr>)\<rparr>))"

definition fake_ExpandVolume :: "string \<Rightarrow> string \<Rightarrow> int \<Rightarrow> fake_Cloud \<Rightarrow> (error + int) \<times> fake_Cloud" where
  "fake_ExpandVolume location volumeID capacityBytes s =
     (let k = fake_key location volumeID in
      case fc_volumes s k of
        None \<Rightarrow> (Inl (Sentinel ErrNotFound), s)
      | Some r \<Rightarrow>
        if vol_CapacityBytes (fr_volume r) \<ge> capacityBytes then (Inr (vol_CapacityBytes (fr_volume r)), s)
        else if fr_attachedTo r = [] then (Inl (Sentinel ErrVolumeNotAttached), s)
        else (Inr capacityBytes, s\<lparr>fc_volumes := (fc_volumes s)(k \<mapsto>
                r\<lparr>fr_volume := (fr_volume r)\<lparr>vol_CapacityBytes := capacityBytes\<rparr>\<rparr>)\<rparr>))"

definition fake_VolumeCount :: "fake_Cloud \<Rightarrow> nat" where
  "fake_VolumeCount s = card (dom (fc_volumes s))"

definition fake_AttachedNode :: "string \<Rightarrow> string \<Rightarrow> fake_Cloud \<Rightarrow> error + string" where
  "fake_AttachedNode location volumeID s =
     (case fc_volumes s (fake_key location volumeID) of
        None \<Rightarrow> Inl (Sentinel ErrNotFound) | Some r \<Rightarrow> Inr (fr_attachedTo r))"

section \<open>The mounter\<close>

record fake_Mounter =
  fm_mounts :: "string \<rightharpoonup> Mount"
  fm_devices :: "string \<Rightarrow> int"
  fm_deviceSizes :: "string \<rightharpoonup> int"
  fm_expansions :: "string \<Rightarrow> int"
  fm_stats :: "string \<rightharpoonup> VolumeStats"
  fm_statsErrors :: "string \<rightharpoonup> error"

definition mounter_New :: fake_Mounter where
  "mounter_New = \<lparr>fm_mounts = Map.empty, fm_devices = (\<lambda>_. 0), fm_deviceSizes = Map.empty, fm_expansions = (\<lambda>_. 0),
     fm_stats = Map.empty, fm_statsErrors = Map.empty\<rparr>"

definition mounter_WaitForDevice :: "string \<Rightarrow> fake_Mounter \<Rightarrow> (error + string) \<times> fake_Mounter" where
  "mounter_WaitForDevice devicePath m =
     (Inr devicePath, m\<lparr>fm_devices := (fm_devices m)(devicePath := fm_devices m devicePath + 1)\<rparr>)"

definition mounter_GetMount :: "string \<Rightarrow> fake_Mounter \<Rightarrow> (error + Mount option) \<times> fake_Mounter" where
  "mounter_GetMount target m = (Inr (fm_mounts m target), m)"

definition mounter_SameSource :: "Mount \<Rightarrow> string \<Rightarrow> fake_Mounter \<Rightarrow> (error + bool) \<times> fake_Mounter" where
  "mounter_SameSource mounted expectedSource m = (Inr (mnt_Source mounted = expectedSource), m)"

definition mounter_FormatAndMount :: "string \<Rightarrow> string \<Rightarrow> string \<Rightarrow> string list \<Rightarrow> fake_Mounter \<Rightarrow> error option \<times> fake_Mounter" where
  "mounter_FormatAndMount devicePath target fs flags m =
     (let want = \<lparr>mnt_Source = devicePath, mnt_Target = target, mnt_FSType = fs, mnt_ReadOnly = False, mnt_Bind = False,
            mnt_MountFlags = flags\<rparr>
      in case fm_mounts m target of
           Some got \<Rightarrow>
             if mnt_Source got = mnt_Source want \<and> mnt_FSType got = mnt_FSType want \<and> \<not> mnt_Bind got then (None, m)
             else (Some (Wrap [] [Sentinel ErrMountConflict]), m)
         | None \<Rightarrow> (None, m\<lparr>fm_mounts := (fm_mounts m)(target \<mapsto> want)\<rparr>))"

definition mounter_BindMount :: "string \<Rightarrow> string \<Rightarrow> bool \<Rightarrow> string list \<Rightarrow> fake_Mounter \<Rightarrow> error option \<times> fake_Mounter" where
  "mounter_BindMount source target readOnly flags m =
     (if fm_mounts m source = None then (Some (Plain ''source is not mounted''), m)
      else
        let want = \<lparr>mnt_Source = source, mnt_Target = target, mnt_FSType = [], mnt_ReadOnly = readOnly, mnt_Bind = True,
              mnt_MountFlags = flags\<rparr>
        in case fm_mounts m target of
             Some got \<Rightarrow>
               if mnt_Source got = source \<and> mnt_Bind got \<and> mnt_ReadOnly got = readOnly then (None, m)
               else (Some (Wrap [] [Sentinel ErrMountConflict]), m)
           | None \<Rightarrow> (None, m\<lparr>fm_mounts := (fm_mounts m)(target \<mapsto> want)\<rparr>))"

definition mounter_Unmount :: "string \<Rightarrow> fake_Mounter \<Rightarrow> error option \<times> fake_Mounter" where
  "mounter_Unmount target m = (None, m\<lparr>fm_mounts := (fm_mounts m)(target := None)\<rparr>)"

definition mounter_ExpandFilesystem :: "string \<Rightarrow> string \<Rightarrow> int \<Rightarrow> fake_Mounter \<Rightarrow> (error + int) \<times> fake_Mounter" where
  "mounter_ExpandFilesystem devicePath mountPath minimumBytes m =
     (if fm_mounts m mountPath = None then (Inl (Plain ''filesystem is not mounted''), m)
      else
        let size = (case fm_deviceSizes m devicePath of None \<Rightarrow> minimumBytes | Some n \<Rightarrow> n) in
        if size < minimumBytes then (Inl (Wrap [] [Sentinel ErrDeviceNotResized]), m)
        else (Inr size, m\<lparr>fm_expansions := (fm_expansions m)(devicePath := fm_expansions m devicePath + 1)\<rparr>))"

definition mounter_SetDeviceSize :: "string \<Rightarrow> int \<Rightarrow> fake_Mounter \<Rightarrow> fake_Mounter" where
  "mounter_SetDeviceSize devicePath bytes m = m\<lparr>fm_deviceSizes := (fm_deviceSizes m)(devicePath \<mapsto> bytes)\<rparr>"

definition mounter_SetMount :: "Mount \<Rightarrow> fake_Mounter \<Rightarrow> fake_Mounter" where
  "mounter_SetMount mnt m = m\<lparr>fm_mounts := (fm_mounts m)(mnt_Target mnt \<mapsto> mnt)\<rparr>"

definition mounter_SetVolumeStats :: "string \<Rightarrow> VolumeStats \<Rightarrow> fake_Mounter \<Rightarrow> fake_Mounter" where
  "mounter_SetVolumeStats path stats m =
     m\<lparr>fm_stats := (fm_stats m)(path \<mapsto> stats), fm_statsErrors := (fm_statsErrors m)(path := None)\<rparr>"

definition mounter_SetVolumeStatsError :: "string \<Rightarrow> error \<Rightarrow> fake_Mounter \<Rightarrow> fake_Mounter" where
  "mounter_SetVolumeStatsError path err m = m\<lparr>fm_statsErrors := (fm_statsErrors m)(path \<mapsto> err)\<rparr>"

definition mounter_VolumeStats :: "string \<Rightarrow> fake_Mounter \<Rightarrow> (error + VolumeStats) \<times> fake_Mounter" where
  "mounter_VolumeStats path m =
     (case fm_statsErrors m path of
        Some err \<Rightarrow> (Inl err, m)
      | None \<Rightarrow>
        (case fm_stats m path of
           None \<Rightarrow> (Inl (Wrap [] [Sentinel FsErrNotExist]), m)
         | Some stats \<Rightarrow> (Inr stats, m)))"

section \<open>The boundaries they implement\<close>

record fake_world =
  fw_cloud :: fake_Cloud
  fw_mounter :: fake_Mounter

definition on_cloud :: "(fake_Cloud \<Rightarrow> 'r \<times> fake_Cloud) \<Rightarrow> (fake_world, 'r) state" where
  "on_cloud f = State (\<lambda>w. case f (fw_cloud w) of (r, s) \<Rightarrow> (r, w\<lparr>fw_cloud := s\<rparr>))"

definition on_mounter :: "(fake_Mounter \<Rightarrow> 'r \<times> fake_Mounter) \<Rightarrow> (fake_world, 'r) state" where
  "on_mounter f = State (\<lambda>w. case f (fw_mounter w) of (r, m) \<Rightarrow> (r, w\<lparr>fw_mounter := m\<rparr>))"

definition fake_cloud_interface :: "(string \<Rightarrow> string) \<Rightarrow> fake_world cloud_Interface" where
  "fake_cloud_interface sha = \<lparr>
     cl_Probe = (\<lambda>c. State_Monad.return None),
     cl_EnsureVolume = (\<lambda>c spc. on_cloud (fake_EnsureVolume sha spc)),
     cl_GetVolume = (\<lambda>c l u. on_cloud (fake_GetVolume l u)),
     cl_DeleteVolume = (\<lambda>c l u. on_cloud (fake_DeleteVolume l u)),
     cl_AttachVolume = (\<lambda>c l u n. on_cloud (fake_AttachVolume l u n)),
     cl_DetachVolume = (\<lambda>c l u n. on_cloud (fake_DetachVolume l u n)),
     cl_ExpandVolume = (\<lambda>c l u n. on_cloud (fake_ExpandVolume l u n))\<rparr>"

definition fake_host_mounter :: "fake_world host_Mounter" where
  "fake_host_mounter = \<lparr>
     mo_Probe = (\<lambda>c. State_Monad.return None),
     mo_WaitForDevice = (\<lambda>c p. on_mounter (mounter_WaitForDevice p)),
     mo_GetMount = (\<lambda>c t. on_mounter (mounter_GetMount t)),
     mo_SameSource = (\<lambda>c m e. on_mounter (mounter_SameSource m e)),
     mo_FormatAndMount = (\<lambda>c p t f fl. on_mounter (mounter_FormatAndMount p t f fl)),
     mo_BindMount = (\<lambda>c s t r fl. on_mounter (mounter_BindMount s t r fl)),
     mo_Unmount = (\<lambda>c t. on_mounter (mounter_Unmount t)),
     mo_ExpandFilesystem = (\<lambda>c p t n. on_mounter (mounter_ExpandFilesystem p t n)),
     mo_VolumeStats = (\<lambda>c p. on_mounter (mounter_VolumeStats p))\<rparr>"

section \<open>Running handlers\<close>

lemma run_on_cloud [simp]: "run_state (on_cloud f) w = (case f (fw_cloud w) of (r, s) \<Rightarrow> (r, w\<lparr>fw_cloud := s\<rparr>))"
  by (simp add: on_cloud_def)

lemma run_on_mounter [simp]:
  "run_state (on_mounter f) w = (case f (fw_mounter w) of (r, m) \<Rightarrow> (r, w\<lparr>fw_mounter := m\<rparr>))"
  by (simp add: on_mounter_def)

lemma run_host_try [simp]:
  "run_state (host_try n m k) s = (case run_state m s of
     (Inl e, s') \<Rightarrow> (Inl (hostStatus n e), s') | (Inr x, s') \<Rightarrow> run_state (k x) s')"
  by (simp add: host_try_def split: prod.splits sum.splits)

lemma run_host_do [simp]:
  "run_state (host_do n m) s = (case run_state m s of
     (Some e, s') \<Rightarrow> (Inl (hostStatus n e), s') | (None, s') \<Rightarrow> (Inr (), s'))"
  by (simp add: host_do_def split: prod.splits option.splits)

lemma run_device_path [simp]:
  "run_state (device_path u k) s = (case VirtioDevicePath u of
     Inl e \<Rightarrow> (Inl (Status Internal ''derive device path''), s) | Inr p \<Rightarrow> run_state (k p) s)"
  by (simp add: device_path_def split: sum.splits)

lemma run_with_volume [simp]:
  "run_state (with_volume d v checks k) s = (case first_err (require v ''volume_id'' # checks) of
     Some e \<Rightarrow> (Inl e, s) | None \<Rightarrow> (case volumeRef d v of Inl e \<Rightarrow> (Inl e, s) | Inr r \<Rightarrow> run_state (k r) s))"
  by (simp add: with_volume_def split: option.splits sum.splits)

lemma fake_host_mounter_simps [simp]:
  "mo_WaitForDevice fake_host_mounter c p = on_mounter (mounter_WaitForDevice p)"
  "mo_GetMount fake_host_mounter c t = on_mounter (mounter_GetMount t)"
  "mo_SameSource fake_host_mounter c mn e = on_mounter (mounter_SameSource mn e)"
  "mo_FormatAndMount fake_host_mounter c p t f fl = on_mounter (mounter_FormatAndMount p t f fl)"
  "mo_BindMount fake_host_mounter c x t r fl = on_mounter (mounter_BindMount x t r fl)"
  "mo_Unmount fake_host_mounter c t = on_mounter (mounter_Unmount t)"
  "mo_ExpandFilesystem fake_host_mounter c p t n = on_mounter (mounter_ExpandFilesystem p t n)"
  "mo_VolumeStats fake_host_mounter c p = on_mounter (mounter_VolumeStats p)"
  by (simp_all add: fake_host_mounter_def)

lemmas mounter_defs = mounter_WaitForDevice_def mounter_GetMount_def mounter_SameSource_def mounter_FormatAndMount_def
  mounter_BindMount_def mounter_Unmount_def mounter_ExpandFilesystem_def mounter_VolumeStats_def

abbreviation mounts :: "fake_world \<Rightarrow> string \<rightharpoonup> Mount" where
  "mounts w \<equiv> fm_mounts (fw_mounter w)"

text \<open>The mount at \<open>path\<close> is the read-write filesystem of volume \<open>u\<close>.\<close>

definition staged_at :: "fake_world \<Rightarrow> string \<Rightarrow> string \<Rightarrow> string \<Rightarrow> bool" where
  "staged_at w path u fs \<longleftrightarrow> (\<exists>m dev. mounts w path = Some m \<and> VirtioDevicePath u = Inr dev \<and> mnt_Source m = dev
     \<and> mnt_FSType m = fs \<and> \<not> mnt_ReadOnly m)"

text \<open>What the pure checks of a staging request establish, and its effect on the mount table.\<close>

definition stage_accepts :: "'s Driver \<Rightarrow> StageRequest \<Rightarrow> VolumeRef \<Rightarrow> string \<Rightarrow> bool" where
  "stage_accepts d q ref dev \<longleftrightarrow>
     first_err [require (sr_VolumeId q) ''volume_id'', staging_required (sr_StagingTargetPath q),
       capability_status FailedPrecondition (validateVolumeCapabilities [sr_VolumeCapability q])] = None
     \<and> volumeRef d (sr_VolumeId q) = Inr ref \<and> VirtioDevicePath (ref_ID ref) = Inr dev
     \<and> (string_at (sr_PublishContext q) ''devicePath'' = [] \<or> string_at (sr_PublishContext q) ''devicePath'' = dev)
     \<and> (string_at (sr_PublishContext q) ''location'' = [] \<or> string_at (sr_PublishContext q) ''location'' = ref_Location ref)"

definition stage_mounts :: "StageRequest \<Rightarrow> string \<Rightarrow> fake_world \<Rightarrow> ((grpc_status + unit) \<times> (string \<rightharpoonup> Mount))" where
  "stage_mounts q dev w =
     (case mounts w (sr_StagingTargetPath q) of
        Some m \<Rightarrow>
          (if mnt_Source m \<noteq> dev \<or> mnt_FSType m \<noteq> fsType (sr_VolumeCapability q) \<or> mnt_ReadOnly m
           then Inl (Status FailedPrecondition ''staging target has a conflicting mount'') else Inr (), mounts w)
      | None \<Rightarrow> (Inr (), (mounts w)(sr_StagingTargetPath q \<mapsto> \<lparr>mnt_Source = dev, mnt_Target = sr_StagingTargetPath q,
          mnt_FSType = fsType (sr_VolumeCapability q), mnt_ReadOnly = False, mnt_Bind = False,
          mnt_MountFlags = mountFlags (sr_VolumeCapability q)\<rparr>)))"

lemma run_NodeStage:
  assumes "d_mounter d = Some fake_host_mounter" and "stage_accepts d q ref dev"
  shows "\<exists>w'. run_state (NodeStageVolume d c (Some q)) w = (fst (stage_mounts q dev w), w') \<and> mounts w' = snd (stage_mounts q dev w)"
  using assms unfolding stage_accepts_def
  by (auto simp: NodeStageVolume_def requireMounter_def mounter_defs stage_mounts_def split: option.splits)

lemma run_NodeStage_rejected:
  assumes "d_mounter d = Some fake_host_mounter" and "\<nexists>ref dev. stage_accepts d q ref dev"
    and "run_state (NodeStageVolume d c (Some q)) w = (r, w')"
  shows "(\<exists>e. r = Inl e) \<and> w' = w"
  using assms(2,3) unfolding stage_accepts_def NodeStageVolume_def requireMounter_def assms(1) option.case sum.case
  by (simp split: option.splits sum.splits if_splits add: Let_def) blast+

text \<open>
  C30: staging. A successful \<open>NodeStageVolume\<close> leaves the requested volume's own device mounted
  read-write with the requested file system at the staging path; the only mount it ever adds is that
  one, at a path where nothing was mounted, and it changes none otherwise, on success or failure.
  Running it again succeeds and changes no mount.
\<close>

theorem node_stage_safe:
  assumes d: "d_mounter d = Some fake_host_mounter"
    and run: "run_state (NodeStageVolume d c (Some q)) w = (r, w')"
  shows "(r = Inr () \<longrightarrow> (\<exists>ref. volumeRef d (sr_VolumeId q) = Inr ref
            \<and> staged_at w' (sr_StagingTargetPath q) (ref_ID ref) (fsType (sr_VolumeCapability q)))
          \<and> (\<exists>w''. run_state (NodeStageVolume d c (Some q)) w' = (Inr (), w'') \<and> mounts w'' = mounts w'))
    \<and> (mounts w' = mounts w \<or> (r = Inr () \<and> mounts w (sr_StagingTargetPath q) = None
          \<and> (\<forall>p. p \<noteq> sr_StagingTargetPath q \<longrightarrow> mounts w' p = mounts w p)))"
proof (cases "\<exists>ref dev. stage_accepts d q ref dev")
  case False
  with run_NodeStage_rejected[OF d _ run] show ?thesis by auto
next
  case True
  then obtain ref dev where a: "stage_accepts d q ref dev" by blast
  from run_NodeStage[OF d a, of c w] run
  have r: "r = fst (stage_mounts q dev w)" and m: "mounts w' = snd (stage_mounts q dev w)" by auto
  have v: "volumeRef d (sr_VolumeId q) = Inr ref" "VirtioDevicePath (ref_ID ref) = Inr dev"
    using a by (simp_all add: stage_accepts_def)
  have st: "staged_at w' (sr_StagingTargetPath q) (ref_ID ref) (fsType (sr_VolumeCapability q))" if "r = Inr ()"
    using that v r m by (auto simp: staged_at_def stage_mounts_def split: option.splits if_splits)
  moreover have "stage_mounts q dev w' = (Inr (), mounts w')" if "r = Inr ()"
    using st[OF that] v by (auto simp: staged_at_def stage_mounts_def)
  then have "\<exists>w''. run_state (NodeStageVolume d c (Some q)) w' = (Inr (), w'') \<and> mounts w'' = mounts w'" if "r = Inr ()"
    using that run_NodeStage[OF d a, of c w'] by simp
  moreover have "mounts w' = mounts w \<or> (r = Inr () \<and> mounts w (sr_StagingTargetPath q) = None
      \<and> (\<forall>p. p \<noteq> sr_StagingTargetPath q \<longrightarrow> mounts w' p = mounts w p))"
    using r m by (auto simp: stage_mounts_def split: option.splits)
  ultimately show ?thesis using v by blast
qed

text \<open>The same for publishing.\<close>

definition publish_accepts :: "'s Driver \<Rightarrow> NodePublishRequest \<Rightarrow> VolumeRef \<Rightarrow> string \<Rightarrow> bool" where
  "publish_accepts d q ref dev \<longleftrightarrow>
     first_err [require (np_VolumeId q) ''volume_id'', staging_required (np_StagingTargetPath q),
       require (np_TargetPath q) ''target_path'',
       capability_status FailedPrecondition (validateVolumeCapabilities [np_VolumeCapability q])] = None
     \<and> volumeRef d (np_VolumeId q) = Inr ref \<and> VirtioDevicePath (ref_ID ref) = Inr dev"

definition publish_mounts :: "NodePublishRequest \<Rightarrow> string \<Rightarrow> fake_world \<Rightarrow> ((grpc_status + unit) \<times> (string \<rightharpoonup> Mount))" where
  "publish_mounts q dev w =
     (case mounts w (np_StagingTargetPath q) of
        None \<Rightarrow> (Inl (Status FailedPrecondition ''volume is not staged''), mounts w)
      | Some sm \<Rightarrow>
        if mnt_Source sm \<noteq> dev \<or> mnt_FSType sm \<noteq> fsType (np_VolumeCapability q) \<or> mnt_ReadOnly sm
        then (Inl (Status FailedPrecondition ''staging target belongs to a different volume''), mounts w)
        else (case mounts w (np_TargetPath q) of
            Some pm \<Rightarrow>
              (if mnt_Source pm \<noteq> np_StagingTargetPath q \<or> mnt_ReadOnly pm \<noteq> np_Readonly q
               then Inl (Status FailedPrecondition ''publish target has a conflicting mount'') else Inr (), mounts w)
          | None \<Rightarrow> (Inr (), (mounts w)(np_TargetPath q \<mapsto> \<lparr>mnt_Source = np_StagingTargetPath q, mnt_Target = np_TargetPath q,
              mnt_FSType = [], mnt_ReadOnly = np_Readonly q, mnt_Bind = True,
              mnt_MountFlags = mountFlags (np_VolumeCapability q)\<rparr>))))"

lemma run_NodePublish:
  assumes "d_mounter d = Some fake_host_mounter" and "publish_accepts d q ref dev"
  shows "\<exists>w'. run_state (NodePublishVolume d c (Some q)) w = (fst (publish_mounts q dev w), w') \<and> mounts w' = snd (publish_mounts q dev w)"
  using assms unfolding publish_accepts_def
  by (auto simp: NodePublishVolume_def requireMounter_def mounter_defs publish_mounts_def split: option.splits)

lemma run_NodePublish_rejected:
  assumes "d_mounter d = Some fake_host_mounter" and "\<nexists>ref dev. publish_accepts d q ref dev"
    and "run_state (NodePublishVolume d c (Some q)) w = (r, w')"
  shows "(\<exists>e. r = Inl e) \<and> w' = w"
  using assms(2,3) unfolding publish_accepts_def NodePublishVolume_def requireMounter_def assms(1) option.case sum.case
  by (simp split: option.splits sum.splits if_splits) blast+

text \<open>
  Publishing. A successful \<open>NodePublishVolume\<close> found the requested volume's own device staged
  read-write at the staging path and leaves a mount bound to that path at the target, read-only
  exactly when asked; the only mount it ever adds is that one, at a free target. Running it again
  succeeds and changes no mount.
\<close>

theorem node_publish_safe:
  assumes d: "d_mounter d = Some fake_host_mounter"
    and run: "run_state (NodePublishVolume d c (Some q)) w = (r, w')"
  shows "(r = Inr () \<longrightarrow> (\<exists>ref m. volumeRef d (np_VolumeId q) = Inr ref
            \<and> staged_at w (np_StagingTargetPath q) (ref_ID ref) (fsType (np_VolumeCapability q))
            \<and> mounts w' (np_TargetPath q) = Some m \<and> mnt_Source m = np_StagingTargetPath q \<and> mnt_ReadOnly m = np_Readonly q)
          \<and> (\<exists>w''. run_state (NodePublishVolume d c (Some q)) w' = (Inr (), w'') \<and> mounts w'' = mounts w'))
    \<and> (mounts w' = mounts w \<or> (r = Inr () \<and> mounts w (np_TargetPath q) = None
          \<and> (\<forall>p. p \<noteq> np_TargetPath q \<longrightarrow> mounts w' p = mounts w p)))"
proof (cases "\<exists>ref dev. publish_accepts d q ref dev")
  case False
  with run_NodePublish_rejected[OF d _ run] show ?thesis by auto
next
  case True
  then obtain ref dev where a: "publish_accepts d q ref dev" by blast
  from run_NodePublish[OF d a, of c w] run
  have r: "r = fst (publish_mounts q dev w)" and m: "mounts w' = snd (publish_mounts q dev w)" by auto
  have v: "volumeRef d (np_VolumeId q) = Inr ref" "VirtioDevicePath (ref_ID ref) = Inr dev"
    using a by (simp_all add: publish_accepts_def)
  have st: "staged_at w (np_StagingTargetPath q) (ref_ID ref) (fsType (np_VolumeCapability q))
      \<and> (\<exists>m. mounts w' (np_TargetPath q) = Some m \<and> mnt_Source m = np_StagingTargetPath q \<and> mnt_ReadOnly m = np_Readonly q)"
    if "r = Inr ()"
    using that v r m by (auto simp: staged_at_def publish_mounts_def split: option.splits if_splits)
  moreover have "publish_mounts q dev w' = (Inr (), mounts w')" if "r = Inr ()"
    using that r m by (auto simp: publish_mounts_def split: option.splits if_splits)
  then have "\<exists>w''. run_state (NodePublishVolume d c (Some q)) w' = (Inr (), w'') \<and> mounts w'' = mounts w'" if "r = Inr ()"
    using that run_NodePublish[OF d a, of c w'] by simp
  moreover have "mounts w' = mounts w \<or> (r = Inr () \<and> mounts w (np_TargetPath q) = None
      \<and> (\<forall>p. p \<noteq> np_TargetPath q \<longrightarrow> mounts w' p = mounts w p))"
    using r m by (auto simp: publish_mounts_def split: option.splits if_splits)
  ultimately show ?thesis using v by blast
qed

section \<open>The cloud's invariant\<close>

definition nul_free :: "string \<Rightarrow> bool" where
  "nul_free s = (CHR 0x00 \<notin> set s)"

lemma fake_key_inj: "nul_free l \<Longrightarrow> nul_free l' \<Longrightarrow> fake_key l v = fake_key l' v' \<longleftrightarrow> l = l' \<and> v = v'"
proof (induction l arbitrary: l')
  case Nil
  then show ?case by (cases l') (auto simp: nul_free_def fake_key_def)
next
  case (Cons x l)
  then show ?case by (cases l') (auto simp: nul_free_def fake_key_def)
qed

text \<open>
  The name index and the volume table agree: every indexed name has its volume, under the UUID derived
  from the key, and every volume is indexed under its name. \<open>S\<close> is the set of name keys in use.
\<close>

definition indexed :: "(string \<Rightarrow> string) \<Rightarrow> string set \<Rightarrow> fake_Cloud \<Rightarrow> bool" where
  "indexed sha S s \<longleftrightarrow> (\<forall>k i. fc_byName s k = Some i \<longrightarrow>
     (\<exists>loc name r. k = fake_key loc name \<and> nul_free loc \<and> k \<in> S \<and> i = deterministicUUID sha k
        \<and> fc_volumes s (fake_key loc i) = Some r \<and> vol_Name (fr_volume r) = name))"

definition tabled :: "fake_Cloud \<Rightarrow> bool" where
  "tabled s \<longleftrightarrow> (\<forall>k r. fc_volumes s k = Some r \<longrightarrow>
     (let v = fr_volume r in k = fake_key (vol_Location v) (vol_ID v) \<and> nul_free (vol_Location v)
        \<and> fc_byName s (fake_key (vol_Location v) (vol_Name v)) = Some (vol_ID v)))"

definition fake_ok :: "(string \<Rightarrow> string) \<Rightarrow> string set \<Rightarrow> fake_Cloud \<Rightarrow> bool" where
  "fake_ok sha S s \<longleftrightarrow> indexed sha S s \<and> tabled s"

lemma fake_ok_New: "fake_ok sha S fake_New"
  by (simp add: fake_ok_def indexed_def tabled_def fake_New_def)

lemma tabledD:
  assumes "tabled s" and "fc_volumes s (fake_key l i) = Some r" and "nul_free l"
  shows "vol_Location (fr_volume r) = l" and "vol_ID (fr_volume r) = i"
    and "fc_byName s (fake_key l (vol_Name (fr_volume r))) = Some i"
proof -
  from assms(1,2) have *: "fake_key l i = fake_key (vol_Location (fr_volume r)) (vol_ID (fr_volume r))"
    "nul_free (vol_Location (fr_volume r))"
    "fc_byName s (fake_key (vol_Location (fr_volume r)) (vol_Name (fr_volume r))) = Some (vol_ID (fr_volume r))"
    by (auto simp: tabled_def Let_def)
  with fake_key_inj[OF assms(3) *(2)] show "vol_Location (fr_volume r) = l" "vol_ID (fr_volume r) = i"
    "fc_byName s (fake_key l (vol_Name (fr_volume r))) = Some i" by auto
qed

text \<open>Attaching, detaching and growing change a record but not what the index says of it.\<close>

lemma fake_ok_record:
  assumes ok: "fake_ok sha S s" and r: "fc_volumes s k = Some r"
    and same: "vol_Location (fr_volume r') = vol_Location (fr_volume r)" "vol_ID (fr_volume r') = vol_ID (fr_volume r)"
      "vol_Name (fr_volume r') = vol_Name (fr_volume r)"
  shows "fake_ok sha S (s\<lparr>fc_volumes := (fc_volumes s)(k \<mapsto> r')\<rparr>)"
proof -
  have "indexed sha S (s\<lparr>fc_volumes := (fc_volumes s)(k \<mapsto> r')\<rparr>)"
    using ok r same(3) unfolding fake_ok_def indexed_def by simp (metis option.inject)
  moreover have "tabled (s\<lparr>fc_volumes := (fc_volumes s)(k \<mapsto> r')\<rparr>)"
    using ok r same by (auto simp: fake_ok_def tabled_def Let_def)
  ultimately show ?thesis by (simp add: fake_ok_def)
qed

lemma fake_ok_insert:
  assumes ok: "fake_ok sha S s" and l: "nul_free l" and key: "key = fake_key l n" "key \<in> S" "fc_byName s key = None"
    and u: "u = deterministicUUID sha key" and fresh: "fc_volumes s (fake_key l u) = None"
    and r: "vol_Location (fr_volume r) = l" "vol_ID (fr_volume r) = u" "vol_Name (fr_volume r) = n"
  shows "fake_ok sha S (s\<lparr>fc_volumes := (fc_volumes s)(fake_key l u \<mapsto> r), fc_byName := (fc_byName s)(key \<mapsto> u)\<rparr>)"
    (is "fake_ok sha S ?s")
proof -
  have ix: "indexed sha S s" and tb: "tabled s" using ok by (simp_all add: fake_ok_def)
  have "tabled ?s"
    using tb key(3) r l unfolding tabled_def Let_def key(1) by simp (metis option.distinct(1))
  moreover have "\<exists>loc name r. k = fake_key loc name \<and> nul_free loc \<and> k \<in> S \<and> i = deterministicUUID sha k
      \<and> fc_volumes ?s (fake_key loc i) = Some r \<and> vol_Name (fr_volume r) = name" if a: "fc_byName ?s k = Some i" for k i
  proof (cases "k = key")
    case True
    then show ?thesis using a l key(2) r by (auto simp: key(1) u)
  next
    case False
    then have "fc_byName s k = Some i" using a by simp
    then obtain loc name r where "k = fake_key loc name" "nul_free loc" "k \<in> S" "i = deterministicUUID sha k"
        "fc_volumes s (fake_key loc i) = Some r" "vol_Name (fr_volume r) = name"
      using ix unfolding indexed_def by blast
    moreover from this fresh have "fake_key loc i \<noteq> fake_key l u" by auto
    ultimately show ?thesis by auto
  qed
  ultimately show ?thesis by (simp add: fake_ok_def indexed_def)
qed

lemma fake_unused_uuid:
  assumes ok: "fake_ok sha S s" and inj: "inj_on (deterministicUUID sha) S" and l: "nul_free l"
    and key: "key = fake_key l n" "key \<in> S" "fc_byName s key = None"
  shows "fc_volumes s (fake_key l (deterministicUUID sha key)) = None"
proof (rule ccontr)
  let ?u = "deterministicUUID sha key"
  assume "fc_volumes s (fake_key l ?u) \<noteq> None"
  then obtain r where r: "fc_volumes s (fake_key l ?u) = Some r" by auto
  let ?k = "fake_key l (vol_Name (fr_volume r))"
  have b: "fc_byName s ?k = Some ?u" using ok by (intro tabledD(3)[OF _ r l]) (simp add: fake_ok_def)
  then have "?k \<in> S" "?u = deterministicUUID sha ?k" using ok by (auto simp: fake_ok_def indexed_def)
  then have "?k = key" using inj key(2) by (auto simp: inj_on_def)
  with b key(3) show False by simp
qed

lemma fake_ok_ensure:
  assumes ok: "fake_ok sha S s" and inj: "inj_on (deterministicUUID sha) S" and l: "nul_free (spec_Location spc)"
    and k: "fake_key (spec_Location spc) (spec_Name spc) \<in> S"
  shows "\<exists>v s'. fake_EnsureVolume sha spc s = (Inr v, s') \<and> fake_ok sha S s' \<and> fake_EnsureVolume sha spc s' = (Inr v, s')
    \<and> vol_Name v = spec_Name spc \<and> vol_Location v = spec_Location spc
    \<and> vol_ID v = deterministicUUID sha (fake_key (spec_Location spc) (spec_Name spc))"
proof -
  define key where "key = fake_key (spec_Location spc) (spec_Name spc)"
  define u where "u = deterministicUUID sha key"
  show ?thesis
  proof (cases "fc_byName s key")
    case (Some i)
    then obtain loc name r where r: "key = fake_key loc name" "nul_free loc" "i = u"
        "fc_volumes s (fake_key loc i) = Some r" "vol_Name (fr_volume r) = name"
      using ok unfolding fake_ok_def indexed_def u_def by blast
    have eq: "loc = spec_Location spc" "name = spec_Name spc"
      using r(1,2) fake_key_inj[OF l r(2)] by (auto simp: key_def)
    have "vol_Location (fr_volume r) = loc" "vol_ID (fr_volume r) = i"
      using ok by (intro tabledD[OF _ r(4,2)]; simp add: fake_ok_def)+
    moreover have "fake_EnsureVolume sha spc s = (Inr (fr_volume r), s)"
      using Some r(4) eq by (simp add: fake_EnsureVolume_def key_def Let_def)
    ultimately show ?thesis using ok r eq by (auto simp: u_def key_def)
  next
    case None
    let ?v = "\<lparr>vol_ID = u, vol_Name = spec_Name spc, vol_Location = spec_Location spc, vol_CapacityBytes = spec_CapacityBytes spc\<rparr>"
    let ?s = "s\<lparr>fc_volumes := (fc_volumes s)(fake_key (spec_Location spc) u \<mapsto> \<lparr>fr_volume = ?v, fr_attachedTo = []\<rparr>),
      fc_byName := (fc_byName s)(key \<mapsto> u)\<rparr>"
    have "fake_EnsureVolume sha spc s = (Inr ?v, ?s)"
      using None by (simp add: fake_EnsureVolume_def key_def u_def fake_key_def Let_def)
    moreover have "fake_EnsureVolume sha spc ?s = (Inr ?v, ?s)"
      by (simp add: fake_EnsureVolume_def key_def u_def Let_def)
    moreover have "fake_ok sha S ?s"
      using None fake_unused_uuid[OF ok inj l key_def] k ok l
      by (intro fake_ok_insert[where n = "spec_Name spc"]) (auto simp: key_def u_def)
    ultimately show ?thesis by (auto simp: u_def key_def)
  qed
qed

lemma fake_ok_delete:
  assumes ok: "fake_ok sha S s" and l: "nul_free l"
  shows "fake_ok sha S (snd (fake_DeleteVolume l i s))"
proof (cases "fc_volumes s (fake_key l i)")
  case (Some r)
  have ix: "indexed sha S s" and tb: "tabled s" using ok by (simp_all add: fake_ok_def)
  note t = tabledD[OF tb Some l]
  let ?n = "fake_key l (vol_Name (fr_volume r))"
  let ?s = "s\<lparr>fc_byName := (fc_byName s)(?n := None), fc_volumes := (fc_volumes s)(fake_key l i := None)\<rparr>"
  have "tabled ?s" unfolding tabled_def Let_def
  proof (intro allI impI)
    fix k q assume a: "fc_volumes ?s k = Some q"
    then have q: "fc_volumes s k = Some q" and ne: "k \<noteq> fake_key l i" by (auto split: if_splits)
    from q tb have k: "k = fake_key (vol_Location (fr_volume q)) (vol_ID (fr_volume q))" "nul_free (vol_Location (fr_volume q))"
        "fc_byName s (fake_key (vol_Location (fr_volume q)) (vol_Name (fr_volume q))) = Some (vol_ID (fr_volume q))"
      by (auto simp: tabled_def Let_def)
    moreover have "fake_key (vol_Location (fr_volume q)) (vol_Name (fr_volume q)) \<noteq> ?n"
      using k t(3) ne fake_key_inj[OF k(2) l] by auto
    ultimately show "k = fake_key (vol_Location (fr_volume q)) (vol_ID (fr_volume q)) \<and> nul_free (vol_Location (fr_volume q))
      \<and> fc_byName ?s (fake_key (vol_Location (fr_volume q)) (vol_Name (fr_volume q))) = Some (vol_ID (fr_volume q))" by simp
  qed
  moreover have "indexed sha S ?s" unfolding indexed_def
  proof (intro allI impI)
    fix k j assume a: "fc_byName ?s k = Some j"
    then have j: "fc_byName s k = Some j" "k \<noteq> ?n" by (auto split: if_splits)
    then obtain loc name q where q: "k = fake_key loc name" "nul_free loc" "k \<in> S" "j = deterministicUUID sha k"
        "fc_volumes s (fake_key loc j) = Some q" "vol_Name (fr_volume q) = name"
      using ix unfolding indexed_def by blast
    then have "fake_key loc j \<noteq> fake_key l i" using j(2) Some fake_key_inj[OF q(2) l] by auto
    with q show "\<exists>loc name r. k = fake_key loc name \<and> nul_free loc \<and> k \<in> S \<and> j = deterministicUUID sha k
      \<and> fc_volumes ?s (fake_key loc j) = Some r \<and> vol_Name (fr_volume r) = name" by auto
  qed
  ultimately show ?thesis using Some ok by (simp add: fake_DeleteVolume_def Let_def fake_ok_def)
qed (simp add: fake_DeleteVolume_def ok)

datatype cloud_op =
    FEnsure VolumeSpec
  | FDelete string string
  | FAttach string string string
  | FDetach string string string
  | FExpand string string int

fun apply_cloud_op :: "(string \<Rightarrow> string) \<Rightarrow> cloud_op \<Rightarrow> fake_Cloud \<Rightarrow> fake_Cloud" where
  "apply_cloud_op sha (FEnsure spc) s = snd (fake_EnsureVolume sha spc s)"
| "apply_cloud_op sha (FDelete l i) s = snd (fake_DeleteVolume l i s)"
| "apply_cloud_op sha (FAttach l i n) s = snd (fake_AttachVolume l i n s)"
| "apply_cloud_op sha (FDetach l i n) s = snd (fake_DetachVolume l i n s)"
| "apply_cloud_op sha (FExpand l i n) s = snd (fake_ExpandVolume l i n s)"

fun op_within :: "string set \<Rightarrow> cloud_op \<Rightarrow> bool" where
  "op_within S (FEnsure spc) = (nul_free (spec_Location spc) \<and> fake_key (spec_Location spc) (spec_Name spc) \<in> S)"
| "op_within S (FDelete l i) = nul_free l"
| "op_within S _ = True"

lemma fake_ok_op:
  assumes "inj_on (deterministicUUID sha) S" and "fake_ok sha S s" and "op_within S oper"
  shows "fake_ok sha S (apply_cloud_op sha oper s)"
proof (cases oper)
  case (FEnsure spc)
  with assms fake_ok_ensure[of sha S s spc] show ?thesis by auto
next
  case (FDelete l i)
  with assms fake_ok_delete[of sha S s l i] show ?thesis by simp
qed (use assms in \<open>auto simp: fake_AttachVolume_def fake_DetachVolume_def fake_ExpandVolume_def Let_def
       intro!: fake_ok_record split: option.splits\<close>)

text \<open>
  The in-memory cloud's name index and volume table agree after any sequence of operations, as
  long as the derived UUIDs of the names in use do not collide: creating never meets an index entry
  without its volume, returns a volume of the requested name and location, and creating it again
  returns the same volume and changes nothing.
\<close>

theorem fake_cloud_invariant:
  assumes "inj_on (deterministicUUID sha) S" and "list_all (op_within S) ops" and "op_within S (FEnsure spc)"
  shows "fake_ok sha S (fold (apply_cloud_op sha) ops fake_New)
    \<and> (\<exists>v s'. fake_EnsureVolume sha spc (fold (apply_cloud_op sha) ops fake_New) = (Inr v, s')
        \<and> vol_Name v = spec_Name spc \<and> vol_Location v = spec_Location spc
        \<and> fake_EnsureVolume sha spc s' = (Inr v, s'))"
proof -
  have "fake_ok sha S (fold (apply_cloud_op sha) ops s)" if "fake_ok sha S s" for s
    using that assms(2) by (induction ops arbitrary: s) (auto intro: fake_ok_op[OF assms(1)])
  from this[OF fake_ok_New] have ok: "fake_ok sha S (fold (apply_cloud_op sha) ops fake_New)" .
  from fake_ok_ensure[OF ok assms(1), of spc] assms(3) ok show ?thesis by auto
qed

text \<open>A digest under which the one name of the examples gets the UUID \<open>01234567-89ab-cdef-0123-456789abcdef\<close>.\<close>

definition example_sha :: "string \<Rightarrow> string" where
  "example_sha s = ''0123456789abcdef0123456789abcdef''"

definition fake_spec :: VolumeSpec where
  "fake_spec = \<lparr>spec_Name = ''pvc'', spec_Location = ''bkk01'', spec_CapacityBytes = 1\<rparr>"

theorem fake_cloud_invariant_witness:
  "\<exists>v s'. fake_EnsureVolume example_sha fake_spec (fold (apply_cloud_op example_sha) [FEnsure fake_spec] fake_New) = (Inr v, s')
     \<and> vol_Name v = ''pvc''"
proof -
  have "inj_on (deterministicUUID example_sha) {fake_key ''bkk01'' ''pvc''}" by simp
  moreover have "op_within {fake_key ''bkk01'' ''pvc''} (FEnsure fake_spec)"
    by (simp add: fake_spec_def nul_free_def)
  ultimately show ?thesis
    using fake_cloud_invariant [of example_sha "{fake_key ''bkk01'' ''pvc''}" "[FEnsure fake_spec]" fake_spec]
    by (auto simp: fake_spec_def)
qed

section \<open>The life cycle of a volume\<close>

definition fake_driver :: "(string \<Rightarrow> string) \<Rightarrow> fake_world Driver" where
  "fake_driver sha = \<lparr>d_cfg = \<lparr>dc_Mode = ''all'', dc_PluginName = ''csi.inspace.cloud'', dc_PluginVersion = ''dev'',
     dc_Location = ''bkk01'', dc_NodeID = ''node-1'', dc_DefaultVolumeSize = DefaultVolumeSize,
     dc_MaxVolumeSize = DefaultMaxVolumeSize, dc_MaxVolumesPerNode = 0\<rparr>,
     d_cloud = Some (fake_cloud_interface sha), d_mounter = Some fake_host_mounter\<rparr>"

definition rwo_capability :: VolumeCapability where
  "rwo_capability = \<lparr>cap_AccessMode = Some SINGLE_NODE_WRITER, cap_Mount = Some \<lparr>mv_FsType = ''ext4'', mv_MountFlags = []\<rparr>\<rparr>"

definition example_handle :: string where
  "example_handle = ''inspace://bkk01/01234567-89ab-cdef-0123-456789abcdef''"

definition example_stage :: StageRequest where
  "example_stage = \<lparr>sr_VolumeId = example_handle, sr_PublishContext = [], sr_StagingTargetPath = ''/staging'',
     sr_VolumeCapability = Some rwo_capability\<rparr>"

definition example_publish :: NodePublishRequest where
  "example_publish = \<lparr>np_VolumeId = example_handle, np_StagingTargetPath = ''/staging'', np_TargetPath = ''/target'',
     np_VolumeCapability = Some rwo_capability, np_Readonly = False\<rparr>"

definition empty_world :: fake_world where
  "empty_world = \<lparr>fw_cloud = fake_New, fw_mounter = mounter_New\<rparr>"

lemma example_volumeRef:
  "volumeRef (fake_driver sha) example_handle = Inr \<lparr>ref_Location = ''bkk01'', ref_ID = ''01234567-89ab-cdef-0123-456789abcdef''\<rparr>"
proof -
  have "ParseVolumeHandle example_handle = Inr \<lparr>ref_Location = ''bkk01'', ref_ID = ''01234567-89ab-cdef-0123-456789abcdef''\<rparr>"
    by code_simp
  then show ?thesis by (simp add: volumeRef_def fake_driver_def)
qed

lemma example_device: "VirtioDevicePath ''01234567-89ab-cdef-0123-456789abcdef'' = Inr ''/dev/disk/by-id/virtio-01234567-89ab-cdef-0''"
  by code_simp

lemma example_stage_accepts:
  "stage_accepts (fake_driver sha) example_stage
     \<lparr>ref_Location = ''bkk01'', ref_ID = ''01234567-89ab-cdef-0123-456789abcdef''\<rparr> ''/dev/disk/by-id/virtio-01234567-89ab-cdef-0''"
  using example_volumeRef[of sha] example_device
  by (simp add: stage_accepts_def example_stage_def require_def staging_required_def capability_status_def
      validateVolumeCapabilities_def validateVolumeCapability_def rwo_capability_def string_at_def example_handle_def)

lemma example_publish_accepts:
  "publish_accepts (fake_driver sha) example_publish
     \<lparr>ref_Location = ''bkk01'', ref_ID = ''01234567-89ab-cdef-0123-456789abcdef''\<rparr> ''/dev/disk/by-id/virtio-01234567-89ab-cdef-0''"
  using example_volumeRef[of sha] example_device
  by (simp add: publish_accepts_def example_publish_def require_def staging_required_def capability_status_def
      validateVolumeCapabilities_def validateVolumeCapability_def rwo_capability_def example_handle_def)

lemma fake_driver_mounter: "d_mounter (fake_driver sha) = Some fake_host_mounter"
  by (simp add: fake_driver_def)

definition staged_world :: fake_world where
  "staged_world = snd (run_state (NodeStageVolume (fake_driver example_sha) background (Some example_stage)) empty_world)"

lemma staged_world_run:
  "run_state (NodeStageVolume (fake_driver example_sha) background (Some example_stage)) empty_world = (Inr (), staged_world)"
  using run_NodeStage[OF fake_driver_mounter example_stage_accepts[of example_sha], of background empty_world]
  by (auto simp: staged_world_def stage_mounts_def empty_world_def mounter_New_def)

theorem node_stage_safe_witness:
  "staged_at staged_world ''/staging'' ''01234567-89ab-cdef-0123-456789abcdef'' ''ext4''"
  using node_stage_safe [OF fake_driver_mounter staged_world_run] example_volumeRef[of example_sha]
  by (auto simp: example_stage_def fsType_def rwo_capability_def)

theorem node_publish_safe_witness:
  "\<exists>w' m. run_state (NodePublishVolume (fake_driver example_sha) background (Some example_publish)) staged_world = (Inr (), w')
     \<and> mounts w' ''/target'' = Some m \<and> mnt_Source m = ''/staging''"
proof -
  have m: "mounts staged_world = [''/staging'' \<mapsto> \<lparr>mnt_Source = ''/dev/disk/by-id/virtio-01234567-89ab-cdef-0'',
      mnt_Target = ''/staging'', mnt_FSType = ''ext4'', mnt_ReadOnly = False, mnt_Bind = False, mnt_MountFlags = []\<rparr>]"
    using run_NodeStage[OF fake_driver_mounter example_stage_accepts[of example_sha], of background empty_world]
    by (auto simp: staged_world_def stage_mounts_def empty_world_def mounter_New_def example_stage_def fsType_def
        mountFlags_def rwo_capability_def)
  then have "fst (publish_mounts example_publish ''/dev/disk/by-id/virtio-01234567-89ab-cdef-0'' staged_world) = Inr ()"
    by (simp add: publish_mounts_def example_publish_def fsType_def rwo_capability_def)
  then obtain w' where r: "run_state (NodePublishVolume (fake_driver example_sha) background (Some example_publish)) staged_world = (Inr (), w')"
    using run_NodePublish[OF fake_driver_mounter example_publish_accepts[of example_sha], of background staged_world] by auto
  from node_publish_safe [OF fake_driver_mounter r] r show ?thesis by (auto simp: example_publish_def)
qed

end
