(* ===== verification/CSI_Lifecycle.thy ===== *)
theory CSI_Lifecycle
  imports CSI_Fakes
begin

text \<open>
  A volume's whole life through the CSI services on the in-memory boundaries: create, attach, stage,
  publish, and back. The theorem generalises the repository's smoke test
  (\<^verbatim>\<open>csi-driver/pkg/driver/smoke_test.go\<close>) to every name, size, node, path and prior state.
\<close>

definition and_then :: "('s, 'e + 'a) state \<Rightarrow> ('a \<Rightarrow> ('s, 'e + 'b) state) \<Rightarrow> ('s, 'e + 'b) state" where
  "and_then m k = do { r \<leftarrow> m; case r of Inl e \<Rightarrow> State_Monad.return (Inl e) | Inr x \<Rightarrow> k x }"

lemma run_and_then: "run_state m s = (Inr x, s') \<Longrightarrow> run_state (and_then m k) s = run_state (k x) s'"
  by (simp add: and_then_def)

definition lifecycle :: "'s Driver \<Rightarrow> ctx \<Rightarrow> string \<Rightarrow> int \<Rightarrow> string \<Rightarrow> string \<Rightarrow> string \<Rightarrow> ('s, grpc_status + unit) state" where
  "lifecycle d c name bytes node staging target =
     and_then (CreateVolume d c (Some \<lparr>cvr_Name = name, cvr_CapacityRange = Some \<lparr>cr_RequiredBytes = bytes, cr_LimitBytes = 0\<rparr>,
         cvr_VolumeCapabilities = [Some rwo_capability], cvr_Parameters = [], cvr_HasContentSource = False,
         cvr_AccessibilityRequirements = None, cvr_MutableParameters = []\<rparr>)) (\<lambda>created.
     and_then (ControllerPublishVolume d c (Some \<lparr>pr_VolumeId = cv_VolumeId created, pr_NodeId = node,
         pr_VolumeCapability = Some rwo_capability\<rparr>)) (\<lambda>published.
     and_then (NodeStageVolume d c (Some \<lparr>sr_VolumeId = cv_VolumeId created, sr_PublishContext = published,
         sr_StagingTargetPath = staging, sr_VolumeCapability = Some rwo_capability\<rparr>)) (\<lambda>_.
     and_then (NodePublishVolume d c (Some \<lparr>np_VolumeId = cv_VolumeId created, np_StagingTargetPath = staging,
         np_TargetPath = target, np_VolumeCapability = Some rwo_capability, np_Readonly = False\<rparr>)) (\<lambda>_.
     and_then (NodeUnpublishVolume d c (Some \<lparr>nup_VolumeId = cv_VolumeId created, nup_TargetPath = target\<rparr>)) (\<lambda>_.
     and_then (NodeUnstageVolume d c (Some \<lparr>nu_VolumeId = cv_VolumeId created, nu_StagingTargetPath = staging\<rparr>)) (\<lambda>_.
     and_then (ControllerUnpublishVolume d c (Some \<lparr>ur_VolumeId = cv_VolumeId created, ur_NodeId = node\<rparr>)) (\<lambda>_.
       driver_DeleteVolume d c (Some (cv_VolumeId created)))))))))"

text \<open>The digest yields 32 lower-case hexadecimal characters.\<close>

definition hex_digest :: "(string \<Rightarrow> string) \<Rightarrow> bool" where
  "hex_digest sha \<longleftrightarrow> (\<forall>s. length (sha s) = 32 \<and> list_all is_hex_lower (sha s))"

lemma match_replicate: "match_classes (replicate n p @ ps) (s @ t) \<longleftrightarrow> list_all p s \<and> match_classes ps t"
  if "length s = n"
  using that by (induction n arbitrary: s) (auto simp: length_Suc_conv)

lemma match_all: "match_classes (replicate n p) s \<longleftrightarrow> length s = n \<and> list_all p s"
proof (induction n arbitrary: s)
  case (Suc n)
  then show ?case by (cases s) auto
next
  case 0
  then show ?case by (cases s) auto
qed

lemma hex_digest_uuid: "hex_digest sha \<Longrightarrow> uuid_lower (deterministicUUID sha v)"
proof -
  assume h: "hex_digest sha"
  have l: "length (sha v) = 32" and a: "\<And>n m. list_all is_hex_lower (take n (drop m (sha v)))"
    using h by (auto simp: hex_digest_def list_all_iff dest: in_set_takeD in_set_dropD)
  have "match_classes (uuid_classes is_hex_lower) (deterministicUUID sha v)"
    unfolding uuid_classes_def deterministicUUID_def Let_def
    using l a[of 8 0] a[of 4 8] a[of 4 12] a[of 4 16] a[of 12 20]
    by (simp add: match_replicate match_all is_dash_def)
  then show ?thesis by (simp add: uuid_lower_def)
qed

section \<open>One step of the life cycle at a time\<close>

lemma fake_cloud_simps [simp]:
  "cl_EnsureVolume (fake_cloud_interface sha) c spc = on_cloud (fake_EnsureVolume sha spc)"
  "cl_GetVolume (fake_cloud_interface sha) c l u = on_cloud (fake_GetVolume l u)"
  "cl_DeleteVolume (fake_cloud_interface sha) c l u = on_cloud (fake_DeleteVolume l u)"
  "cl_AttachVolume (fake_cloud_interface sha) c l u n = on_cloud (fake_AttachVolume l u n)"
  "cl_DetachVolume (fake_cloud_interface sha) c l u n = on_cloud (fake_DetachVolume l u n)"
  "cl_ExpandVolume (fake_cloud_interface sha) c l u m = on_cloud (fake_ExpandVolume l u m)"
  by (simp_all add: fake_cloud_interface_def)

lemma rwo_valid [simp]: "validateVolumeCapabilities [Some rwo_capability] = None"
  by (simp add: validateVolumeCapabilities_def validateVolumeCapability_def rwo_capability_def)

lemma rwo_fs [simp]: "fsType (Some rwo_capability) = ''ext4''" "mountFlags (Some rwo_capability) = []"
  by (simp_all add: fsType_def mountFlags_def rwo_capability_def)

lemma checks_pass [simp]:
  "x \<noteq> [] \<Longrightarrow> require x f = None" "x \<noteq> [] \<Longrightarrow> staging_required x = None" "capability_status code None = None"
  by (simp_all add: require_def staging_required_def capability_status_def)

text \<open>A driver on the in-memory boundaries at a valid location.\<close>

definition on_fakes :: "fake_world Driver \<Rightarrow> (string \<Rightarrow> string) \<Rightarrow> string \<Rightarrow> bool" where
  "on_fakes d sha loc \<longleftrightarrow> d_cloud d = Some (fake_cloud_interface sha) \<and> d_mounter d = Some fake_host_mounter
     \<and> dc_Location (d_cfg d) = loc \<and> location_ok loc"

definition handle_of :: "string \<Rightarrow> string \<Rightarrow> string" where
  "handle_of loc u = ''inspace://'' @ loc @ ''/'' @ u"

definition dev_of :: "string \<Rightarrow> string" where
  "dev_of u = ''/dev/disk/by-id/virtio-'' @ take 20 u"

lemma handle_of_facts:
  assumes "on_fakes d sha loc" and "uuid_lower u"
  shows "handle_of loc u \<noteq> []" and "volumeRef d (handle_of loc u) = Inr \<lparr>ref_Location = loc, ref_ID = u\<rparr>"
    and "VirtioDevicePath u = Inr (dev_of u)"
    and "NewVolumeHandle loc u = Inr (handle_of loc u)"
proof -
  have l: "location_ok loc" using assms(1) by (simp add: on_fakes_def)
  note c = canonical_text_parses(3,4)[OF l assms(2)]
  show "volumeRef d (handle_of loc u) = Inr \<lparr>ref_Location = loc, ref_ID = u\<rparr>"
    using canonical_handle_parses[OF l assms(2)] assms(1) by (simp add: volumeRef_def handle_of_def on_fakes_def)
  show "VirtioDevicePath u = Inr (dev_of u)"
    using c assms(2) by (simp add: VirtioDevicePath_def virtioSerialLength_def dev_of_def)
  show "NewVolumeHandle loc u = Inr (handle_of loc u)"
    using c l assms(2) by (simp add: NewVolumeHandle_def handle_of_def)
qed (simp add: handle_of_def)

lemma requires_fakes:
  "on_fakes d sha loc \<Longrightarrow> requireCloud d = Inr (fake_cloud_interface sha)"
  "on_fakes d sha loc \<Longrightarrow> requireMounter d = Inr fake_host_mounter"
  by (simp_all add: on_fakes_def requireCloud_def requireMounter_def)

definition with_volume_record :: "string \<Rightarrow> string \<Rightarrow> int \<Rightarrow> string \<Rightarrow> string \<Rightarrow> fake_Cloud \<Rightarrow> fake_Cloud" where
  "with_volume_record loc name bytes u node s =
     s\<lparr>fc_volumes := (fc_volumes s)(fake_key loc u \<mapsto>
         \<lparr>fr_volume = \<lparr>vol_ID = u, vol_Name = name, vol_Location = loc, vol_CapacityBytes = bytes\<rparr>, fr_attachedTo = node\<rparr>),
       fc_byName := (fc_byName s)(fake_key loc name \<mapsto> u)\<rparr>"

lemma run_create:
  assumes d: "on_fakes d sha loc" and u: "u = deterministicUUID sha (fake_key loc name)" "uuid_lower u"
    and "name \<noteq> []" and "0 < bytes" and "dc_MaxVolumeSize (d_cfg d) \<le> 0 \<or> bytes \<le> dc_MaxVolumeSize (d_cfg d)"
    and "fc_byName (fw_cloud w) (fake_key loc name) = None"
  shows "\<exists>v. run_state (CreateVolume d c (Some \<lparr>cvr_Name = name, cvr_CapacityRange = Some \<lparr>cr_RequiredBytes = bytes, cr_LimitBytes = 0\<rparr>,
         cvr_VolumeCapabilities = [Some rwo_capability], cvr_Parameters = [], cvr_HasContentSource = False,
         cvr_AccessibilityRequirements = None, cvr_MutableParameters = []\<rparr>)) w
     = (Inr v, w\<lparr>fw_cloud := with_volume_record loc name bytes u [] (fw_cloud w)\<rparr>) \<and> cv_VolumeId v = handle_of loc u"
proof -
  have loc: "dc_Location (d_cfg d) = loc" using d by (simp add: on_fakes_def)
  have u': "deterministicUUID sha (loc @ CHR 0x00 # name) = u" using u(1) by (simp add: fake_key_def)
  have "u \<noteq> []" using u(2) by auto
  moreover have "requestedCapacity d (Some \<lparr>cr_RequiredBytes = bytes, cr_LimitBytes = 0\<rparr>) = Inr (bytes, bytes, 0)"
    using assms(5,6) by (auto simp: requestedCapacity_def)
  ultimately show ?thesis
    using assms(4,5,7) handle_of_facts(4)[OF d u(2)] u'
    by (simp add: CreateVolume_def createVolumeChecks_def requires_fakes[OF d] loc validateAccessibility_def fake_EnsureVolume_def Let_def
        with_volume_record_def)
qed

lemma run_attach:
  assumes d: "on_fakes d sha loc" and u: "uuid_lower u" and "node \<noteq> []"
  shows "run_state (ControllerPublishVolume d c (Some \<lparr>pr_VolumeId = handle_of loc u, pr_NodeId = node,
         pr_VolumeCapability = Some rwo_capability\<rparr>)) (w\<lparr>fw_cloud := with_volume_record loc name bytes u [] s\<rparr>)
     = (Inr [(''devicePath'', dev_of u), (''location'', loc)],
        w\<lparr>fw_cloud := with_volume_record loc name bytes u node s\<rparr>)"
  using assms(3) handle_of_facts[OF d u]
  by (simp add: ControllerPublishVolume_def requires_fakes[OF d] fake_GetVolume_def fake_AttachVolume_def
      with_volume_record_def Let_def)

lemma run_detach:
  assumes d: "on_fakes d sha loc" and u: "uuid_lower u" and "node \<noteq> []"
  shows "run_state (ControllerUnpublishVolume d c (Some \<lparr>ur_VolumeId = handle_of loc u, ur_NodeId = node\<rparr>))
       (w\<lparr>fw_cloud := with_volume_record loc name bytes u node s\<rparr>)
     = (Inr (), w\<lparr>fw_cloud := with_volume_record loc name bytes u [] s\<rparr>)"
  using assms(3) handle_of_facts[OF d u]
  by (simp add: ControllerUnpublishVolume_def requires_fakes[OF d] fake_DetachVolume_def with_volume_record_def Let_def)

lemma run_delete:
  assumes d: "on_fakes d sha loc" and u: "uuid_lower u"
    and "fc_byName s (fake_key loc name) = None" and "fc_volumes s (fake_key loc u) = None"
  shows "run_state (driver_DeleteVolume d c (Some (handle_of loc u))) (w\<lparr>fw_cloud := with_volume_record loc name bytes u [] s\<rparr>)
     = (Inr (), w\<lparr>fw_cloud := s\<rparr>)"
  using assms(3,4) handle_of_facts[OF d u]
  by (simp add: driver_DeleteVolume_def requires_fakes[OF d] fake_DeleteVolume_def with_volume_record_def Let_def
      fun_upd_idem)

lemma run_unmounts:
  assumes d: "on_fakes d sha loc" and u: "uuid_lower u" and "path \<noteq> []"
  shows "run_state (NodeUnpublishVolume d c (Some \<lparr>nup_VolumeId = handle_of loc u, nup_TargetPath = path\<rparr>)) w
      = (Inr (), w\<lparr>fw_mounter := (fw_mounter w)\<lparr>fm_mounts := (mounts w)(path := None)\<rparr>\<rparr>)"
    and "run_state (NodeUnstageVolume d c (Some \<lparr>nu_VolumeId = handle_of loc u, nu_StagingTargetPath = path\<rparr>)) w
      = (Inr (), w\<lparr>fw_mounter := (fw_mounter w)\<lparr>fm_mounts := (mounts w)(path := None)\<rparr>\<rparr>)"
  using assms(3) handle_of_facts[OF d u]
  by (simp_all add: NodeUnpublishVolume_def NodeUnstageVolume_def requires_fakes[OF d] mounter_Unmount_def)

lemma world_updates: "w\<lparr>fw_cloud := s, fw_mounter := m\<rparr> = w\<lparr>fw_mounter := m, fw_cloud := s\<rparr>"
  by simp

lemma run_stage:
  assumes d: "on_fakes d sha loc" and u: "uuid_lower u" and "staging \<noteq> []" and "mounts w staging = None"
  shows "\<exists>m. run_state (NodeStageVolume d c (Some \<lparr>sr_VolumeId = handle_of loc u,
         sr_PublishContext = [(''devicePath'', dev_of u), (''location'', loc)],
         sr_StagingTargetPath = staging, sr_VolumeCapability = Some rwo_capability\<rparr>)) w = (Inr (), w\<lparr>fw_mounter := m\<rparr>)
     \<and> fm_mounts m = (mounts w)(staging \<mapsto> \<lparr>mnt_Source = dev_of u, mnt_Target = staging,
         mnt_FSType = ''ext4'', mnt_ReadOnly = False, mnt_Bind = False, mnt_MountFlags = []\<rparr>)"
  using assms(3,4) handle_of_facts[OF d u]
  by (intro exI[where x = "(fw_mounter w)\<lparr>fm_devices := (fm_devices (fw_mounter w))(dev_of u := fm_devices (fw_mounter w) (dev_of u) + 1),
        fm_mounts := (mounts w)(staging \<mapsto> \<lparr>mnt_Source = dev_of u, mnt_Target = staging,
         mnt_FSType = ''ext4'', mnt_ReadOnly = False, mnt_Bind = False, mnt_MountFlags = []\<rparr>)\<rparr>"])
    (simp add: NodeStageVolume_def requires_fakes[OF d] mounter_defs string_at_def Let_def)

lemma run_publish:
  assumes d: "on_fakes d sha loc" and u: "uuid_lower u" and "staging \<noteq> []" and "target \<noteq> []" and "mounts w target = None"
    and "mounts w staging = Some \<lparr>mnt_Source = dev_of u, mnt_Target = staging,
         mnt_FSType = ''ext4'', mnt_ReadOnly = False, mnt_Bind = False, mnt_MountFlags = []\<rparr>"
  shows "\<exists>m. run_state (NodePublishVolume d c (Some \<lparr>np_VolumeId = handle_of loc u, np_StagingTargetPath = staging,
         np_TargetPath = target, np_VolumeCapability = Some rwo_capability, np_Readonly = False\<rparr>)) w = (Inr (), w\<lparr>fw_mounter := m\<rparr>)
     \<and> fm_mounts m = (mounts w)(target \<mapsto> \<lparr>mnt_Source = staging, mnt_Target = target,
         mnt_FSType = [], mnt_ReadOnly = False, mnt_Bind = True, mnt_MountFlags = []\<rparr>)"
  using assms(3-6) handle_of_facts[OF d u]
  by (intro exI[where x = "(fw_mounter w)\<lparr>fm_devices := (fm_devices (fw_mounter w))(dev_of u := fm_devices (fw_mounter w) (dev_of u) + 1),
        fm_mounts := (mounts w)(target \<mapsto> \<lparr>mnt_Source = staging, mnt_Target = target,
         mnt_FSType = [], mnt_ReadOnly = False, mnt_Bind = True, mnt_MountFlags = []\<rparr>)\<rparr>"])
    (simp add: NodePublishVolume_def requires_fakes[OF d] mounter_defs Let_def)

text \<open>
  C29: on the in-memory cloud and mounter that the repository ships, a volume's life leaves nothing
  behind. For a driver at a valid location, a name not yet in use, a size of at least one byte within the
  configured maximum, any named node and two free, different paths, creating, attaching, staging,
  publishing, unpublishing, unstaging, detaching and deleting the volume all succeed in this order, and
  afterwards the cloud's state and the mount table are exactly what they were before. Of the digest it
  is assumed that it is written in hexadecimal digits.
\<close>

theorem volume_lifecycle:
  assumes d: "on_fakes d sha loc" and hex: "hex_digest sha" and name: "name \<noteq> []" and node: "node \<noteq> []"
    and bytes: "0 < bytes" "dc_MaxVolumeSize (d_cfg d) \<le> 0 \<or> bytes \<le> dc_MaxVolumeSize (d_cfg d)"
    and paths: "staging \<noteq> []" "target \<noteq> []" "staging \<noteq> target" "mounts w staging = None" "mounts w target = None"
    and fresh: "fc_byName (fw_cloud w) (fake_key loc name) = None"
      "fc_volumes (fw_cloud w) (fake_key loc (deterministicUUID sha (fake_key loc name))) = None"
  shows "\<exists>w'. run_state (lifecycle d c name bytes node staging target) w = (Inr (), w')
    \<and> fw_cloud w' = fw_cloud w \<and> mounts w' = mounts w"
proof -
  define u where "u = deterministicUUID sha (fake_key loc name)"
  have u: "uuid_lower u" unfolding u_def by (rule hex_digest_uuid[OF hex])
  let ?rec = "\<lambda>n. with_volume_record loc name bytes u n (fw_cloud w)"
  obtain v where create: "run_state (CreateVolume d c (Some \<lparr>cvr_Name = name, cvr_CapacityRange = Some \<lparr>cr_RequiredBytes = bytes, cr_LimitBytes = 0\<rparr>,
         cvr_VolumeCapabilities = [Some rwo_capability], cvr_Parameters = [], cvr_HasContentSource = False,
         cvr_AccessibilityRequirements = None, cvr_MutableParameters = []\<rparr>)) w = (Inr v, w\<lparr>fw_cloud := ?rec []\<rparr>)"
      and v: "cv_VolumeId v = handle_of loc u"
    using run_create[OF d u_def u name bytes fresh(1), of c] by blast
  let ?w1 = "w\<lparr>fw_cloud := ?rec node\<rparr>"
  obtain m1 where stage: "run_state (NodeStageVolume d c (Some \<lparr>sr_VolumeId = handle_of loc u,
         sr_PublishContext = [(''devicePath'', dev_of u), (''location'', loc)],
         sr_StagingTargetPath = staging, sr_VolumeCapability = Some rwo_capability\<rparr>)) ?w1 = (Inr (), ?w1\<lparr>fw_mounter := m1\<rparr>)"
      and m1: "fm_mounts m1 = (mounts w)(staging \<mapsto> \<lparr>mnt_Source = dev_of u, mnt_Target = staging,
         mnt_FSType = ''ext4'', mnt_ReadOnly = False, mnt_Bind = False, mnt_MountFlags = []\<rparr>)"
    using run_stage[OF d u paths(1), of ?w1 c] paths(4) by auto
  let ?w2 = "?w1\<lparr>fw_mounter := m1\<rparr>"
  obtain m2 x where pub: "run_state (NodePublishVolume d c (Some \<lparr>np_VolumeId = handle_of loc u, np_StagingTargetPath = staging,
         np_TargetPath = target, np_VolumeCapability = Some rwo_capability, np_Readonly = False\<rparr>)) ?w2 = (Inr (), ?w2\<lparr>fw_mounter := m2\<rparr>)"
      and m2: "fm_mounts m2 = (fm_mounts m1)(target \<mapsto> x)"
    using run_publish[OF d u paths(1,2), of ?w2 c] m1 paths(3,5) by auto
  define m3 where "m3 = m2\<lparr>fm_mounts := (fm_mounts m2)(target := None)\<rparr>"
  define m4 where "m4 = m3\<lparr>fm_mounts := (fm_mounts m3)(staging := None)\<rparr>"
  have m4: "fm_mounts m4 = mounts w"
    using m1 m2 paths(3,4,5) by (auto simp: m4_def m3_def fun_eq_iff)
  have "run_state (lifecycle d c name bytes node staging target) w = (Inr (), w\<lparr>fw_mounter := m4\<rparr>)"
    unfolding lifecycle_def
    using run_detach[OF d u node, where c = c and w = "w\<lparr>fw_mounter := m4\<rparr>" and name = name and bytes = bytes and s = "fw_cloud w", folded world_updates]
      run_delete[OF d u fresh(1), where c = c and w = "w\<lparr>fw_mounter := m4\<rparr>" and bytes = bytes, folded world_updates] fresh(2)
    by (simp add: run_and_then[OF create] v run_and_then[OF run_attach[OF d u node]] run_and_then[OF stage]
        run_and_then[OF pub] run_and_then[OF run_unmounts(1)[OF d u paths(2)]] run_and_then[OF run_unmounts(2)[OF d u paths(1)]]
        run_and_then u_def[symmetric] m3_def m4_def)
  with m4 show ?thesis by simp
qed

theorem volume_lifecycle_witness:
  "\<exists>w'. run_state (lifecycle (fake_driver example_sha) background ''pvc'' 1 ''node-1'' ''/staging'' ''/target'') empty_world = (Inr (), w')
     \<and> fw_cloud w' = fake_New"
proof -
  have d: "on_fakes (fake_driver example_sha) example_sha ''bkk01''"
    by (simp add: on_fakes_def fake_driver_def location_ok_def is_alnum_lower_def is_lower_char_def is_digit_char_def)
  have h: "hex_digest example_sha"
    by (simp add: hex_digest_def example_sha_def is_hex_lower_def is_digit_char_def)
  have m: "1 \<le> dc_MaxVolumeSize (d_cfg (fake_driver example_sha))" by (simp add: fake_driver_def DefaultMaxVolumeSize_def)
  have e: "mounts empty_world = Map.empty" "fw_cloud empty_world = fake_New" "fc_byName fake_New = Map.empty"
    "fc_volumes fake_New = Map.empty"
    by (simp_all add: empty_world_def mounter_New_def fake_New_def)
  show ?thesis
    using volume_lifecycle [OF d h, of "''pvc''" "''node-1''" 1 "''/staging''" "''/target''" empty_world background] m
    unfolding e by auto
qed

end
