(* ===== verification/CSI_Provisioning.thy ===== *)
theory CSI_Provisioning
  imports CSI_Lifecycle Adapter_Create Example_Cloud
begin

text \<open>
  The CSI controller on a cloud provider. The locale \<open>cloud_provider\<close> states what the controller
  handlers rely on of \<^verbatim>\<open>cloud.Interface\<close> (\<^verbatim>\<open>csi-driver/pkg/cloud/cloud.go\<close>): a created volume is
  the one asked for, an expansion reaches the requested size. It is interpreted on the InSpace adapter
  and on the in-memory cloud; the handlers' guarantees are proved once and hold for both. With the
  adapter, a created volume's size is the request rounded up to GiB, which settles what happens to a
  request whose limit lies below that.
\<close>

section \<open>The adapter as a provider\<close>

definition adapter_cloud :: "'w Adapter \<Rightarrow> 'w st cloud_Interface" where
  "adapter_cloud a = \<lparr>
     cl_Probe = Probe a,
     cl_EnsureVolume = EnsureVolume a,
     cl_GetVolume = GetVolume a,
     cl_DeleteVolume = DeleteVolume a,
     cl_AttachVolume = AttachVolume a,
     cl_DetachVolume = DetachVolume a,
     cl_ExpandVolume = ExpandVolume a\<rparr>"

lemma adapter_cloud_simps [simp]:
  "cl_EnsureVolume (adapter_cloud a) = EnsureVolume a" "cl_GetVolume (adapter_cloud a) = GetVolume a"
  "cl_DeleteVolume (adapter_cloud a) = DeleteVolume a" "cl_AttachVolume (adapter_cloud a) = AttachVolume a"
  "cl_DetachVolume (adapter_cloud a) = DetachVolume a" "cl_ExpandVolume (adapter_cloud a) = ExpandVolume a"
  by (simp_all add: adapter_cloud_def)

section \<open>What the controller relies on\<close>

locale cloud_provider =
  fixes cl :: "'s cloud_Interface" and ok :: "'s \<Rightarrow> VolumeSpec \<Rightarrow> bool"
  assumes ensure_result: "run_state (cl_EnsureVolume cl c spc) s = (Inr v, s') \<Longrightarrow> ok s spc \<Longrightarrow> spec_CapacityBytes spc \<le> MaxInt64
      \<Longrightarrow> vol_Name v = spec_Name spc \<and> vol_Location v = spec_Location spc \<and> uuid_lower (vol_ID v)"
    and expand_result: "run_state (cl_ExpandVolume cl c l u n) s = (Inr m, s') \<Longrightarrow> n \<le> MaxInt64 \<Longrightarrow> n \<le> m"

text \<open>A 64-bit capacity range, and the range a created volume must satisfy.\<close>

definition int64_range :: "CapacityRange option \<Rightarrow> bool" where
  "int64_range cr = (case cr of None \<Rightarrow> True | Some r \<Rightarrow> cr_RequiredBytes r \<le> MaxInt64 \<and> cr_LimitBytes r \<le> MaxInt64)"

definition within_range :: "CapacityRange option \<Rightarrow> int \<Rightarrow> bool" where
  "within_range cr n = (case cr of None \<Rightarrow> True
     | Some r \<Rightarrow> cr_RequiredBytes r \<le> n \<and> (0 < cr_LimitBytes r \<longrightarrow> n \<le> cr_LimitBytes r))"

text \<open>
  The capacity a request asks for: its required bytes; when it requires none, the driver's default,
  but not more than the limit.
\<close>

definition asked_capacity :: "int \<Rightarrow> CapacityRange option \<Rightarrow> int" where
  "asked_capacity dflt cr = (case cr of None \<Rightarrow> dflt
     | Some r \<Rightarrow> if 0 < cr_RequiredBytes r then cr_RequiredBytes r
         else if 0 < cr_LimitBytes r then min dflt (cr_LimitBytes r) else dflt)"

lemma requestedCapacity_asked:
  "requestedCapacity d cr = Inr (capacity, required, limit) \<Longrightarrow> capacity = asked_capacity (dc_DefaultVolumeSize (d_cfg d)) cr"
  by (auto simp: requestedCapacity_def asked_capacity_def Let_def split: option.splits if_splits)

lemma requestedCapacity_Inr:
  assumes "requestedCapacity d cr = Inr (capacity, required, limit)"
  shows "0 < capacity" "required \<le> capacity" "0 < limit \<Longrightarrow> capacity \<le> limit"
    "dc_MaxVolumeSize (d_cfg d) > 0 \<Longrightarrow> capacity \<le> dc_MaxVolumeSize (d_cfg d)"
    "within_range cr n \<longleftrightarrow> (cr = None \<or> (required \<le> n \<and> (0 < limit \<longrightarrow> n \<le> limit)))"
    "0 \<le> required" "cr = None \<Longrightarrow> required = 0 \<and> limit = 0"
  using assms by (auto simp: requestedCapacity_def Let_def within_range_def split: option.splits if_splits)

lemma CreateVolume_Inr:
  assumes "run_state (CreateVolume d c (Some q)) s = (Inr resp, s')"
  obtains cl v capacity required limit where "d_cloud d = Some cl"
    "requestedCapacity d (cvr_CapacityRange q) = Inr (capacity, required, limit)"
    "run_state (cl_EnsureVolume cl c \<lparr>spec_Name = cvr_Name q, spec_Location = dc_Location (d_cfg d), spec_CapacityBytes = capacity\<rparr>) s
      = (Inr v, s')"
    "vol_Location v = dc_Location (d_cfg d)" "required \<le> vol_CapacityBytes v" "limit > 0 \<Longrightarrow> vol_CapacityBytes v \<le> limit"
    "0 < vol_CapacityBytes v" "NewVolumeHandle (vol_Location v) (vol_ID v) = Inr (cv_VolumeId resp)"
    "cv_CapacityBytes resp = vol_CapacityBytes v"
  using assms
  by (auto simp: CreateVolume_def requireCloud_def split: option.splits sum.splits if_splits prod.splits)

context cloud_provider
begin

lemma create_result:
  assumes run: "run_state (CreateVolume d c (Some q)) s = (Inr resp, s')" and d: "d_cloud d = Some cl"
    and ok: "\<And>capacity. ok s \<lparr>spec_Name = cvr_Name q, spec_Location = dc_Location (d_cfg d), spec_CapacityBytes = capacity\<rparr>"
    and range: "int64_range (cvr_CapacityRange q)" and dflt: "dc_DefaultVolumeSize (d_cfg d) \<le> MaxInt64"
    and loc: "location_ok (dc_Location (d_cfg d))"
  shows "\<exists>v capacity. run_state (cl_EnsureVolume cl c \<lparr>spec_Name = cvr_Name q, spec_Location = dc_Location (d_cfg d),
        spec_CapacityBytes = capacity\<rparr>) s = (Inr v, s')
    \<and> capacity = asked_capacity (dc_DefaultVolumeSize (d_cfg d)) (cvr_CapacityRange q)
    \<and> (0 < dc_MaxVolumeSize (d_cfg d) \<longrightarrow> capacity \<le> dc_MaxVolumeSize (d_cfg d))
    \<and> 0 < capacity \<and> capacity \<le> MaxInt64 \<and> vol_Name v = cvr_Name q \<and> cv_CapacityBytes resp = vol_CapacityBytes v
    \<and> within_range (cvr_CapacityRange q) (vol_CapacityBytes v)
    \<and> ParseVolumeHandle (cv_VolumeId resp) = Inr \<lparr>ref_Location = dc_Location (d_cfg d), ref_ID = vol_ID v\<rparr>"
proof -
  from run obtain cl' v capacity required limit where r: "d_cloud d = Some cl'"
    "requestedCapacity d (cvr_CapacityRange q) = Inr (capacity, required, limit)"
    "run_state (cl_EnsureVolume cl' c \<lparr>spec_Name = cvr_Name q, spec_Location = dc_Location (d_cfg d), spec_CapacityBytes = capacity\<rparr>) s
      = (Inr v, s')"
    "vol_Location v = dc_Location (d_cfg d)" "required \<le> vol_CapacityBytes v" "limit > 0 \<Longrightarrow> vol_CapacityBytes v \<le> limit"
    "0 < vol_CapacityBytes v" "NewVolumeHandle (vol_Location v) (vol_ID v) = Inr (cv_VolumeId resp)"
    "cv_CapacityBytes resp = vol_CapacityBytes v"
    by (rule CreateVolume_Inr) blast
  have cl: "cl' = cl" using r(1) d by simp
  have m: "capacity \<le> MaxInt64" using r(2) range dflt
    by (auto simp: requestedCapacity_def Let_def int64_range_def split: option.splits if_splits)
  note e = ensure_result[OF r(3)[unfolded cl] ok] 
  have v: "vol_Name v = cvr_Name q" "uuid_lower (vol_ID v)" using e m by simp_all
  have "ParseVolumeHandle (cv_VolumeId resp) = Inr \<lparr>ref_Location = dc_Location (d_cfg d), ref_ID = vol_ID v\<rparr>"
    using r(8) canonical_handle_parses[OF loc v(2)] canonical_text_parses(3,4)[OF loc v(2)] loc v(2)
    by (simp add: NewVolumeHandle_def r(4))
  moreover have "within_range (cvr_CapacityRange q) (vol_CapacityBytes v)"
    using r(5,6) requestedCapacity_Inr(5)[OF r(2)] by simp
  ultimately show ?thesis
    using r(3,9) cl v(1) m requestedCapacity_Inr(1,4)[OF r(2)] requestedCapacity_asked[OF r(2)] by blast
qed

lemma expand_accepted:
  assumes d: "d_cloud d = Some cl" and ref: "volumeRef d (er_VolumeId q) = Inr ref"
    and checks: "first_err [require (er_VolumeId q) ''volume_id'', optional_capability (er_VolumeCapability q)] = None"
    and cap: "expansionCapacity d (er_CapacityRange q) = Inr (required, limit)"
    and run: "run_state (cl_ExpandVolume cl c (ref_Location ref) (ref_ID ref) required) s = (Inr m, s')"
    and "limit = 0 \<or> m \<le> limit" and range: "int64_range (er_CapacityRange q)"
  shows "run_state (ControllerExpandVolume d c (Some q)) s = (Inr m, s')"
proof -
  have "required \<le> MaxInt64"
    using cap range by (auto simp: expansionCapacity_def Let_def int64_range_def split: option.splits if_splits)
  with expand_result[OF run] have "required \<le> m" .
  then show ?thesis
    using assms by (auto simp: ControllerExpandVolume_def requireCloud_def)
qed

end

interpretation adapter: cloud_provider "adapter_cloud a" "\<lambda>_ _. True" for a :: "'w Adapter"
  by unfold_locales (auto dest: EnsureVolume_Inr ExpandVolume_Inr)

text \<open>The in-memory cloud provides the same, in the states its own operations reach.\<close>

lemma fake_provider:
  assumes "hex_digest sha" and "inj_on (deterministicUUID sha) S"
  shows "cloud_provider (fake_cloud_interface sha)
    (\<lambda>w spc. fake_ok sha S (fw_cloud w) \<and> nul_free (spec_Location spc) \<and> fake_key (spec_Location spc) (spec_Name spc) \<in> S)"
proof
  show "vol_Name v = spec_Name spc \<and> vol_Location v = spec_Location spc \<and> uuid_lower (vol_ID v)"
    if "run_state (cl_EnsureVolume (fake_cloud_interface sha) c spc) w = (Inr v, w')"
      "fake_ok sha S (fw_cloud w) \<and> nul_free (spec_Location spc) \<and> fake_key (spec_Location spc) (spec_Name spc) \<in> S" for c spc w v w'
    using that fake_ok_ensure[of sha S "fw_cloud w" spc] assms(2) hex_digest_uuid[OF assms(1)]
    by (auto split: prod.splits)
  show "n \<le> m" if "run_state (cl_ExpandVolume (fake_cloud_interface sha) c l u n) w = (Inr m, w')" for c l u n w m w'
    using that by (auto simp: fake_ExpandVolume_def Let_def split: option.splits if_splits)
qed

section \<open>Creating volumes in the cloud\<close>

text \<open>
  C23: what a successful \<open>CreateVolume\<close> of the CSI controller over the InSpace adapter promises. The
  handle names a disk of the driver's location, the adapter itself created or adopted that disk under
  the requested name, and its size lies in the requested range. The capacity asked of the cloud is the
  required bytes of the request, and without them the configured default cut to the limit; it is positive
  and within the configured maximum, and the disk exceeds it by less than one GiB.
\<close>

theorem create_volume_provisions:
  assumes "run_state (CreateVolume d c (Some q)) s = (Inr resp, s')" and "d_cloud d = Some (adapter_cloud a)"
    and "int64_range (cvr_CapacityRange q)" and "dc_DefaultVolumeSize (d_cfg d) \<le> MaxInt64"
    and "location_ok (dc_Location (d_cfg d))"
    and "capacity = asked_capacity (dc_DefaultVolumeSize (d_cfg d)) (cvr_CapacityRange q)"
  shows "\<exists>v. run_state (EnsureVolume a c \<lparr>spec_Name = cvr_Name q, spec_Location = dc_Location (d_cfg d),
        spec_CapacityBytes = capacity\<rparr>) s = (Inr v, s')
    \<and> ParseVolumeHandle (cv_VolumeId resp) = Inr \<lparr>ref_Location = dc_Location (d_cfg d), ref_ID = vol_ID v\<rparr>
    \<and> vol_Name v = cvr_Name q \<and> cv_CapacityBytes resp = vol_CapacityBytes v
    \<and> within_range (cvr_CapacityRange q) (cv_CapacityBytes resp)
    \<and> 0 < capacity \<and> (0 < dc_MaxVolumeSize (d_cfg d) \<longrightarrow> capacity \<le> dc_MaxVolumeSize (d_cfg d))
    \<and> capacity \<le> cv_CapacityBytes resp \<and> cv_CapacityBytes resp < capacity + gib"
proof -
  from adapter.create_result[OF assms(1,2) TrueI assms(3-5)] obtain v where
    v: "run_state (EnsureVolume a c \<lparr>spec_Name = cvr_Name q, spec_Location = dc_Location (d_cfg d), spec_CapacityBytes = capacity\<rparr>) s = (Inr v, s')"
      "capacity \<le> MaxInt64" "vol_Name v = cvr_Name q" "cv_CapacityBytes resp = vol_CapacityBytes v"
      "within_range (cvr_CapacityRange q) (vol_CapacityBytes v)"
      "ParseVolumeHandle (cv_VolumeId resp) = Inr \<lparr>ref_Location = dc_Location (d_cfg d), ref_ID = vol_ID v\<rparr>"
      "0 < capacity" "0 < dc_MaxVolumeSize (d_cfg d) \<longrightarrow> capacity \<le> dc_MaxVolumeSize (d_cfg d)"
    using assms(6) by auto
  with EnsureVolume_Inr[OF v(1)] show ?thesis by auto
qed

text \<open>
  C34: a limit below the GiB-rounded size. The controller passes the exact byte capacity on, the
  adapter rounds it up to whole GiB, and the limit is checked only on the result. When the rounded size
  exceeds the limit, no run of \<open>CreateVolume\<close> succeeds; but a request that passes the checks still
  provisions the disk, and when the adapter reports it created the answer is \<open>AlreadyExists\<close>.
\<close>

theorem create_limit_below_gib:
  assumes d: "d_cloud d = Some (adapter_cloud a)"
    and cap: "requestedCapacity d (cvr_CapacityRange q) = Inr (capacity, required, limit)"
    and gibs: "bytesToGiB capacity = Inr n" "capacity \<le> MaxInt64" and limit: "0 < limit" "limit < n * gib"
    and run: "run_state (CreateVolume d c (Some q)) s = (r, s')"
  shows "isl r \<and> (\<forall>v s1. first_err (createVolumeChecks d q) = None
      \<and> run_state (EnsureVolume a c \<lparr>spec_Name = cvr_Name q, spec_Location = dc_Location (d_cfg d),
            spec_CapacityBytes = capacity\<rparr>) s = (Inr v, s1)
      \<longrightarrow> r = Inl (incompatibility (cvr_Name q)) \<and> s' = s1)"
proof -
  let ?spec = "\<lparr>spec_Name = cvr_Name q, spec_Location = dc_Location (d_cfg d), spec_CapacityBytes = capacity\<rparr>"
  have big: "limit < vol_CapacityBytes v" if "run_state (EnsureVolume a c ?spec) s = (Inr v, s1)" for v s1
    using EnsureVolume_size[OF that] gibs(1) limit(2) by simp
  have "isl r"
  proof (cases r)
    case (Inr resp)
    from run[unfolded Inr] d cap obtain v where "run_state (EnsureVolume a c ?spec) s = (Inr v, s')" "vol_CapacityBytes v \<le> limit"
      using limit(1) by (elim CreateVolume_Inr) auto
    with big show ?thesis by fastforce
  qed simp
  moreover have "r = Inl (incompatibility (cvr_Name q)) \<and> s' = s1"
    if "first_err (createVolumeChecks d q) = None" and e: "run_state (EnsureVolume a c ?spec) s = (Inr v, s1)" for v s1
  proof -
    have v: "vol_Location v = dc_Location (d_cfg d)" "0 < vol_CapacityBytes v" "vol_ID v \<noteq> []"
      using EnsureVolume_Inr[OF e] gibs(2) big[OF e] limit(1) by auto
    show ?thesis
      using run that(1) e cap d v big[OF e] limit(1)
      by (simp add: CreateVolume_def requireCloud_def)
  qed
  ultimately show ?thesis by blast
qed

section \<open>Examples\<close>

definition adapter_driver :: "'w Adapter \<Rightarrow> 'w st Driver" where
  "adapter_driver a = \<lparr>d_cfg = \<lparr>dc_Mode = ''controller'', dc_PluginName = ''csi.inspace.cloud'', dc_PluginVersion = ''dev'',
     dc_Location = ''bkk01'', dc_NodeID = [], dc_DefaultVolumeSize = DefaultVolumeSize,
     dc_MaxVolumeSize = DefaultMaxVolumeSize, dc_MaxVolumesPerNode = 0\<rparr>,
     d_cloud = Some (adapter_cloud a), d_mounter = None\<rparr>"

definition create_request :: "int \<Rightarrow> int \<Rightarrow> CreateVolumeRequest" where
  "create_request required limit = \<lparr>cvr_Name = ''pvc'', cvr_CapacityRange = Some \<lparr>cr_RequiredBytes = required, cr_LimitBytes = limit\<rparr>,
     cvr_VolumeCapabilities = [Some rwo_capability], cvr_Parameters = [], cvr_HasContentSource = False,
     cvr_AccessibilityRequirements = None, cvr_MutableParameters = []\<rparr>"

lemma adapter_driver_simps:
  "d_cloud (adapter_driver a) = Some (adapter_cloud a)" "dc_Location (d_cfg (adapter_driver a)) = ''bkk01''"
  "dc_DefaultVolumeSize (d_cfg (adapter_driver a)) \<le> MaxInt64" "location_ok ''bkk01''"
  by (simp_all add: adapter_driver_def DefaultVolumeSize_def MaxInt64_def location_ok_def is_alnum_lower_def
      is_lower_char_def is_digit_char_def)

lemma int64_create_request: "r \<le> MaxInt64 \<Longrightarrow> l \<le> MaxInt64 \<Longrightarrow> int64_range (cvr_CapacityRange (create_request r l))"
  by (simp add: int64_range_def create_request_def)

theorem create_volume_provisions_witness:
  "\<exists>resp. fst (run_state (CreateVolume (adapter_driver example_adapter) background (Some (create_request 3000000000 0))) (example_state False None)) = Inr resp
     \<and> 3000000000 \<le> cv_CapacityBytes resp \<and> cv_CapacityBytes resp < 3000000000 + gib
     \<and> (\<exists>u. ParseVolumeHandle (cv_VolumeId resp) = Inr \<lparr>ref_Location = ''bkk01'', ref_ID = u\<rparr>)"
proof -
  let ?m = "CreateVolume (adapter_driver example_adapter) background (Some (create_request 3000000000 0))" and ?s = "example_state False None"
  have "\<not> isl (fst (run_state ?m ?s))" by code_simp
  then obtain resp where resp: "fst (run_state ?m ?s) = Inr resp" by (cases "fst (run_state ?m ?s)") auto
  then have "run_state ?m ?s = (Inr resp, snd (run_state ?m ?s))" by (metis prod.collapse)
  from create_volume_provisions [OF this adapter_driver_simps(1) int64_create_request adapter_driver_simps(3) _ refl] resp
  show ?thesis by (auto simp: adapter_driver_simps MaxInt64_def within_range_def create_request_def asked_capacity_def)
qed

theorem create_limit_below_gib_witness:
  "let (r, s) = run_state (CreateVolume (adapter_driver example_adapter) background (Some (create_request 1 1000))) (example_state False None)
   in r = Inl (incompatibility ''pvc'') \<and> ew_disk (world s) = Some (example_disk ''pvc'' 1)"
proof -
  let ?m = "CreateVolume (adapter_driver example_adapter) background (Some (create_request 1 1000))" and ?s = "example_state False None"
  let ?e = "EnsureVolume example_adapter background \<lparr>spec_Name = ''pvc'', spec_Location = ''bkk01'', spec_CapacityBytes = 1\<rparr>"
  have e: "\<not> isl (fst (run_state ?e ?s)) \<and> ew_disk (world (snd (run_state ?e ?s))) = Some (example_disk ''pvc'' 1)" by code_simp
  then obtain v where v: "run_state ?e ?s = (Inr v, snd (run_state ?e ?s))"
    by (cases "run_state ?e ?s"; cases "fst (run_state ?e ?s)") auto
  have c: "requestedCapacity (adapter_driver example_adapter) (cvr_CapacityRange (create_request 1 1000)) = Inr (1, 1, 1000)"
    by (simp add: requestedCapacity_def create_request_def adapter_driver_def DefaultMaxVolumeSize_def)
  have g: "bytesToGiB 1 = Inr 1" by code_simp
  have k: "first_err (createVolumeChecks (adapter_driver example_adapter) (create_request 1 1000)) = None"
    by (simp add: createVolumeChecks_def create_request_def validateAccessibility_def)
  have m: "run_state ?m ?s = (fst (run_state ?m ?s), snd (run_state ?m ?s))" by simp
  from create_limit_below_gib [OF adapter_driver_simps(1) c g _ _ _ m] v k
  have "fst (run_state ?m ?s) = Inl (incompatibility ''pvc'') \<and> snd (run_state ?m ?s) = snd (run_state ?e ?s)"
    by (simp add: MaxInt64_def gib_def adapter_driver_simps create_request_def)
  with e show ?thesis by (simp add: case_prod_beta)
qed

end
