(* ===== verification/Keyed_Mutex.thy ===== *)
theory Keyed_Mutex
  imports Go_Errors
begin

text \<open>
  The per-VM lock of the CSI adapter (\<^verbatim>\<open>csi-driver/pkg/cloud/inspace/keyed_mutex.go\<close>) as a state
  machine. The state is the map of live entries, the entries themselves (a heap, because callers keep
  pointers to them) and the program point of every call of \<^verbatim>\<open>Lock\<close>. A step is one atomic section
  of the code: a critical section of \<^verbatim>\<open>mu\<close>, a channel operation, or the choice a \<^verbatim>\<open>select\<close> makes.
  Steps of different calls interleave freely. The theorems show mutual exclusion per key, that a
  failed or finished call owns nothing, that an entry lives exactly as long as somebody uses it, and
  that no interleaving leaves a waiter stuck on a free key.
\<close>

section \<open>State and steps\<close>

record keyedMutexEntry =
  held :: nat
  refs :: int

text \<open>
  Where a call of \<^verbatim>\<open>Lock\<close> is: before the first \<^verbatim>\<open>select\<close>, in the second one, leaving because its
  context ended, failed, owning the key, inside its unlock function, or unlocked.
\<close>

datatype call_state =
    NotCalled
  | Trying string nat
  | Blocked string nat
  | Leaving string nat
  | Failed
  | Owns string nat
  | Unlocking string nat
  | Unlocked

record keyedMutex =
  entries :: "string \<rightharpoonup> nat"
  heap :: "keyedMutexEntry list"
  calls :: "nat \<Rightarrow> call_state"

definition newKeyedMutex :: keyedMutex where
  "newKeyedMutex = \<lparr>entries = Map.empty, heap = [], calls = (\<lambda>_. NotCalled)\<rparr>"

text \<open>The critical section at the start of \<^verbatim>\<open>Lock\<close>: find or create the entry and count this caller.\<close>

definition lock_enter :: "nat \<Rightarrow> string \<Rightarrow> keyedMutex \<Rightarrow> keyedMutex" where
  "lock_enter c key m =
     (let (p, m') = (case entries m key of
            Some p \<Rightarrow> (p, m)
          | None \<Rightarrow> (length (heap m), m\<lparr>heap := heap m @ [\<lparr>held = 0, refs = 0\<rparr>], entries := (entries m)(key \<mapsto> length (heap m))\<rparr>))
      in m'\<lparr>heap := (heap m')[p := (heap m' ! p)\<lparr>refs := refs (heap m' ! p) + 1\<rparr>], calls := (calls m')(c := Trying key p)\<rparr>)"

text \<open>A send on the one-slot channel, possible when the slot is free; a receive empties it.\<close>

definition send_held :: "nat \<Rightarrow> string \<Rightarrow> nat \<Rightarrow> keyedMutex \<Rightarrow> keyedMutex" where
  "send_held c key p m =
     m\<lparr>heap := (heap m)[p := (heap m ! p)\<lparr>held := held (heap m ! p) + 1\<rparr>], calls := (calls m)(c := Owns key p)\<rparr>"

definition receive_held :: "nat \<Rightarrow> string \<Rightarrow> nat \<Rightarrow> keyedMutex \<Rightarrow> keyedMutex" where
  "receive_held c key p m =
     m\<lparr>heap := (heap m)[p := (heap m ! p)\<lparr>held := held (heap m ! p) - 1\<rparr>], calls := (calls m)(c := Unlocking key p)\<rparr>"

definition release :: "string \<Rightarrow> nat \<Rightarrow> keyedMutex \<Rightarrow> keyedMutex" where
  "release key p m =
     (let n = refs (heap m ! p) - 1;
          m' = m\<lparr>heap := (heap m)[p := (heap m ! p)\<lparr>refs := n\<rparr>]\<rparr>
      in if n = 0 then m'\<lparr>entries := (entries m')(key := None)\<rparr> else m')"

definition size_mutex :: "keyedMutex \<Rightarrow> nat" where
  "size_mutex m = card (dom (entries m))"

text \<open>
  One step of call \<open>c\<close>. \<open>Unlock\<close> on a call that already unlocked is the second run of its
  \<^verbatim>\<open>sync.Once\<close> and changes nothing. \<open>CtxDone\<close> is possible only in the second \<^verbatim>\<open>select\<close>; \<open>Retry\<close>
  is the first \<^verbatim>\<open>select\<close> taking its default branch.
\<close>

datatype action = Enter nat string | TrySend nat | Retry nat | Send nat | CtxDone nat | Leave nat | Unlock nat | Finish nat

definition slot_free :: "nat \<Rightarrow> keyedMutex \<Rightarrow> bool" where
  "slot_free p m = (held (heap m ! p) = 0)"

fun mutex_step :: "action \<Rightarrow> keyedMutex \<Rightarrow> keyedMutex option" where
  "mutex_step (Enter c key) m = (if calls m c = NotCalled then Some (lock_enter c key m) else None)"
| "mutex_step (TrySend c) m =
     (case calls m c of Trying key p \<Rightarrow> if slot_free p m then Some (send_held c key p m) else None | _ \<Rightarrow> None)"
| "mutex_step (Retry c) m =
     (case calls m c of
        Trying key p \<Rightarrow> if slot_free p m then None else Some (m\<lparr>calls := (calls m)(c := Blocked key p)\<rparr>)
      | _ \<Rightarrow> None)"
| "mutex_step (Send c) m =
     (case calls m c of Blocked key p \<Rightarrow> if slot_free p m then Some (send_held c key p m) else None | _ \<Rightarrow> None)"
| "mutex_step (CtxDone c) m =
     (case calls m c of Blocked key p \<Rightarrow> Some (m\<lparr>calls := (calls m)(c := Leaving key p)\<rparr>) | _ \<Rightarrow> None)"
| "mutex_step (Leave c) m =
     (case calls m c of Leaving key p \<Rightarrow> Some (release key p (m\<lparr>calls := (calls m)(c := Failed)\<rparr>)) | _ \<Rightarrow> None)"
| "mutex_step (Unlock c) m =
     (case calls m c of
        Owns key p \<Rightarrow> if slot_free p m then None else Some (receive_held c key p m)
      | Unlocked \<Rightarrow> Some m
      | _ \<Rightarrow> None)"
| "mutex_step (Finish c) m =
     (case calls m c of Unlocking key p \<Rightarrow> Some (release key p (m\<lparr>calls := (calls m)(c := Unlocked)\<rparr>)) | _ \<Rightarrow> None)"

inductive mutex_reachable :: "keyedMutex \<Rightarrow> bool" where
  initially: "mutex_reachable newKeyedMutex"
| steps: "mutex_reachable m \<Longrightarrow> mutex_step a m = Some m' \<Longrightarrow> mutex_reachable m'"

fun run_steps :: "action list \<Rightarrow> keyedMutex \<Rightarrow> keyedMutex option" where
  "run_steps [] m = Some m"
| "run_steps (a # as) m = (case mutex_step a m of None \<Rightarrow> None | Some m' \<Rightarrow> run_steps as m')"

lemma reachable_run_steps: "mutex_reachable m \<Longrightarrow> run_steps as m = Some m' \<Longrightarrow> mutex_reachable m'"
  by (induction as arbitrary: m) (auto split: option.splits intro: mutex_reachable.intros)

section \<open>The invariant\<close>

fun claim :: "call_state \<Rightarrow> (string \<times> nat) option" where
  "claim (Trying k p) = Some (k, p)"
| "claim (Blocked k p) = Some (k, p)"
| "claim (Leaving k p) = Some (k, p)"
| "claim (Owns k p) = Some (k, p)"
| "claim (Unlocking k p) = Some (k, p)"
| "claim _ = None"

definition users :: "keyedMutex \<Rightarrow> string \<Rightarrow> nat set" where
  "users m k = {c. \<exists>p. claim (calls m c) = Some (k, p)}"

definition owners :: "keyedMutex \<Rightarrow> string \<Rightarrow> nat set" where
  "owners m k = {c. \<exists>p. calls m c = Owns k p}"

text \<open>
  \<open>entry_ok m k\<close> ties the entry of one key to its callers: it exists exactly while there are some,
  \<^verbatim>\<open>refs\<close> counts them and \<^verbatim>\<open>held\<close> counts the owner.
\<close>

definition entry_ok :: "keyedMutex \<Rightarrow> string \<Rightarrow> bool" where
  "entry_ok m k =
     (case entries m k of
        None \<Rightarrow> users m k = {}
      | Some p \<Rightarrow> users m k \<noteq> {} \<and> refs (heap m ! p) = int (card (users m k))
          \<and> held (heap m ! p) = card (owners m k) \<and> held (heap m ! p) \<le> 1)"

definition pointers_ok :: "keyedMutex \<Rightarrow> bool" where
  "pointers_ok m \<longleftrightarrow>
     (\<forall>c k p. claim (calls m c) = Some (k, p) \<longrightarrow> entries m k = Some p)
   \<and> (\<forall>k. finite (users m k))
   \<and> (\<forall>k p. entries m k = Some p \<longrightarrow> p < length (heap m))
   \<and> (\<forall>k k' p. entries m k = Some p \<longrightarrow> entries m k' = Some p \<longrightarrow> k = k')"

definition mutex_inv :: "keyedMutex \<Rightarrow> bool" where
  "mutex_inv m \<longleftrightarrow> pointers_ok m \<and> (\<forall>k. entry_ok m k)"

lemma pointers_okD:
  assumes "pointers_ok m" and "claim (calls m c) = Some (k, p)"
  shows "entries m k = Some p" and "p < length (heap m)" and "finite (users m k)"
  using assms by (auto simp: pointers_ok_def) blast

lemma users_irrelevant [simp]:
  "users (m\<lparr>heap := h, entries := e\<rparr>) k = users m k" "owners (m\<lparr>heap := h, entries := e\<rparr>) k = owners m k"
  by (simp_all add: users_def owners_def)

lemma owners_users: "owners m k \<subseteq> users m k"
  by (auto simp: owners_def users_def)

lemma entry_okD:
  assumes "entry_ok m k" and "entries m k = Some p"
  shows "refs (heap m ! p) = int (card (users m k))" "users m k \<noteq> {}"
    "held (heap m ! p) = card (owners m k)" "card (owners m k) \<le> 1"
  using assms by (simp_all add: entry_ok_def)

text \<open>
  Every step of call \<open>c\<close> touches one key: its call state, the entry behind it and the map at that
  key. Keys other than that one keep what they had.
\<close>

definition touched :: "keyedMutex \<Rightarrow> nat \<Rightarrow> string \<Rightarrow> nat \<Rightarrow> call_state \<Rightarrow> keyedMutexEntry \<Rightarrow> nat option \<Rightarrow> keyedMutex" where
  "touched m c k p s e x = m\<lparr>heap := (heap m)[p := e], calls := (calls m)(c := s), entries := (entries m)(k := x)\<rparr>"

lemma touched_users:
  "users (touched m c k p s e x) k' =
     (if claim s \<noteq> None \<and> fst (the (claim s)) = k' then insert c (users m k') else users m k' - {c})"
  "owners (touched m c k p s e x) k' = (if \<exists>q. s = Owns k' q then insert c (owners m k') else owners m k' - {c})"
  by (auto simp: users_def owners_def touched_def)

lemma touched_inv:
  assumes ok: "pointers_ok m" and others: "\<And>k'. k' \<noteq> k \<Longrightarrow> entry_ok m k'" and p: "entries m k = Some p"
    and old: "\<And>k' q. claim (calls m c) = Some (k', q) \<Longrightarrow> k' = k"
    and new: "claim s = None \<or> claim s = Some (k, p)" and x: "x = Some p \<or> x = None"
    and k: "entry_ok (touched m c k p s e x) k"
  shows "mutex_inv (touched m c k p s e x)"
proof -
  let ?m = "touched m c k p s e x"
  have same: "users ?m k' = users m k' \<and> owners ?m k' = owners m k'" if "k' \<noteq> k" for k'
  proof -
    have "c \<notin> users m k'" using old that by (auto simp: users_def)
    moreover have "\<not> (\<exists>q. s = Owns k' q)" using new that by auto
    ultimately show ?thesis
      using that new owners_users[of m k'] by (auto simp: touched_users)
  qed
  have "entry_ok ?m k'" for k'
  proof (cases "k' = k")
    case False
    then have "entries m k' \<noteq> Some p" using ok p by (auto simp: pointers_ok_def)
    with False same[OF False] others[OF False] show ?thesis
      by (auto simp: entry_ok_def touched_def split: option.splits)
  qed (use k in simp)
  moreover have "pointers_ok ?m"
    unfolding pointers_ok_def
  proof (intro conjI allI impI)
    fix d k' q assume a: "claim (calls ?m d) = Some (k', q)"
    show "entries ?m k' = Some q"
    proof (cases "k' = k")
      case True
      then have "d \<in> users ?m k" using a by (auto simp: users_def)
      then have "x = Some p" using k x by (auto simp: entry_ok_def touched_def)
      then show ?thesis using a True ok p new
        by (auto simp: touched_def pointers_ok_def split: if_splits)
    qed (use a ok new in \<open>auto simp: touched_def pointers_ok_def split: if_splits\<close>)
  next
    show "finite (users ?m k')" for k' using ok by (simp add: touched_users pointers_ok_def)
  next
    show "q < length (heap ?m)" if "entries ?m k' = Some q" for k' q
      using that ok x p by (auto simp: touched_def pointers_ok_def split: if_splits)
  next
    show "k1 = k2" if "entries ?m k1 = Some q" "entries ?m k2 = Some q" for k1 k2 q
      using that ok x p by (auto simp: touched_def pointers_ok_def split: if_splits)
  qed
  ultimately show ?thesis by (simp add: mutex_inv_def)
qed

lemma touched_entry_ok:
  assumes "p < length (heap m)" and "x = Some p \<or> x = None"
  shows "entry_ok (touched m c k p s e x) k =
    (let U = users (touched m c k p s e x) k; W = owners (touched m c k p s e x) k
     in if x = None then U = {} else U \<noteq> {} \<and> refs e = int (card U) \<and> held e = card W \<and> held e \<le> 1)"
  using assms by (auto simp: entry_ok_def touched_def Let_def)

text \<open>The steps of a call that already has its entry.\<close>

lemma claimed_step:
  assumes inv: "mutex_inv m" and old: "claim (calls m c) = Some (k, p)" and new: "claim s = Some (k, p)"
    and e: "refs e = refs (heap m ! p)" "held e = card (owners (touched m c k p s e (Some p)) k)" "held e \<le> 1"
  shows "mutex_inv (touched m c k p s e (Some p))"
proof -
  have ok: "pointers_ok m" and ek: "\<And>k. entry_ok m k" using inv by (simp_all add: mutex_inv_def)
  note p = pointers_okD(1)[OF ok old] and pl = pointers_okD(2)[OF ok old]
  have c: "insert c (users m k) = users m k" using old by (auto simp: users_def)
  have "entry_ok (touched m c k p s e (Some p)) k"
    using e new c entry_okD[OF ek p] by (simp add: touched_entry_ok[OF pl] Let_def touched_users(1))
  then show ?thesis using ok ek p old new by (intro touched_inv) auto
qed

lemma release_step:
  assumes inv: "mutex_inv m" and old: "claim (calls m c) = Some (k, p)" and notown: "calls m c \<noteq> Owns k p"
    and new: "claim s = None"
  shows "mutex_inv (release k p (m\<lparr>calls := (calls m)(c := s)\<rparr>))"
proof -
  have ok: "pointers_ok m" and ek: "\<And>k. entry_ok m k" using inv by (simp_all add: mutex_inv_def)
  note p = pointers_okD(1)[OF ok old] and pl = pointers_okD(2)[OF ok old] and fin = pointers_okD(3)[OF ok old]
  define n where "n = refs (heap m ! p) - 1"
  let ?e = "(heap m ! p)\<lparr>refs := n\<rparr>" and ?x = "if n = 0 then None else Some p"
  have c: "c \<in> users m k" using old by (auto simp: users_def)
  have o: "owners m k - {c} = owners m k" using notown old by (auto simp: owners_def)
  have n: "n = int (card (users m k - {c}))"
    using entry_okD(1)[OF ek p] card.remove[OF fin c] by (simp add: n_def)
  have "\<not> (\<exists>q. s = Owns k q)" using new by auto
  then have "entry_ok (touched m c k p s ?e ?x) k"
    using new o n fin entry_okD[OF ek p] by (auto simp: touched_entry_ok[OF pl] Let_def touched_users)
  then have "mutex_inv (touched m c k p s ?e ?x)" using ok ek p old new by (intro touched_inv) auto
  moreover have "touched m c k p s ?e ?x = release k p (m\<lparr>calls := (calls m)(c := s)\<rparr>)"
    using p by (auto simp: touched_def release_def Let_def n_def map_upd_triv)
  ultimately show ?thesis by simp
qed

lemma enter_step:
  assumes inv: "mutex_inv m" and old: "calls m c = NotCalled"
  shows "mutex_inv (lock_enter c k m)"
proof -
  have ok: "pointers_ok m" and ek: "\<And>k. entry_ok m k" using inv by (simp_all add: mutex_inv_def)
  have c: "c \<notin> users m k" "c \<notin> owners m k" for k using old by (auto simp: users_def owners_def)
  show ?thesis
  proof (cases "entries m k")
    case (Some p)
    let ?e = "(heap m ! p)\<lparr>refs := refs (heap m ! p) + 1\<rparr>"
    have pl: "p < length (heap m)" and fin: "finite (users m k)" using ok Some by (auto simp: pointers_ok_def)
    have "entry_ok (touched m c k p (Trying k p) ?e (Some p)) k"
      using c fin entry_okD[OF ek Some] by (simp add: touched_entry_ok[OF pl] Let_def touched_users)
    then have "mutex_inv (touched m c k p (Trying k p) ?e (Some p))"
      using ok ek Some old by (intro touched_inv) auto
    then show ?thesis using Some by (simp add: lock_enter_def touched_def map_upd_triv)
  next
    case None
    define p where "p = length (heap m)"
    define m0 where "m0 = m\<lparr>heap := heap m @ [\<lparr>held = 0, refs = 0\<rparr>], entries := (entries m)(k \<mapsto> p)\<rparr>"
    have u0: "users m0 k' = users m k'" "owners m0 k' = owners m k'" for k'
      by (simp_all add: m0_def users_def owners_def)
    have empty: "users m k = {}" "owners m k = {}"
      using ek[of k] None owners_users[of m k] by (auto simp: entry_ok_def)
    have unclaimed: "k' \<noteq> k" if "claim (calls m d) = Some (k', q)" for d k' q
      using that empty by (auto simp: users_def)
    have ok0: "pointers_ok m0"
      using ok unclaimed unfolding pointers_ok_def u0
      by (auto simp: m0_def p_def less_Suc_eq)
    have ek0: "entry_ok m0 k'" if "k' \<noteq> k" for k'
      using ek[of k'] that ok unfolding entry_ok_def u0
      by (auto simp: m0_def nth_append pointers_ok_def split: option.splits)
    have pl: "p < length (heap m0)" by (simp add: m0_def p_def)
    let ?e = "\<lparr>held = 0, refs = 1\<rparr>"
    have "entry_ok (touched m0 c k p (Trying k p) ?e (Some p)) k"
      using c empty by (simp add: touched_entry_ok[OF pl] Let_def touched_users u0)
    then have "mutex_inv (touched m0 c k p (Trying k p) ?e (Some p))"
      using ok0 ek0 old by (intro touched_inv) (auto simp: m0_def)
    moreover have "lock_enter c k m = touched m0 c k p (Trying k p) ?e (Some p)"
      using None by (simp add: lock_enter_def touched_def m0_def p_def nth_append)
    ultimately show ?thesis by simp
  qed
qed

lemma send_step:
  assumes inv: "mutex_inv m" and old: "calls m c = Trying k p \<or> calls m c = Blocked k p" and free: "slot_free p m"
  shows "mutex_inv (send_held c k p m)"
proof -
  let ?e = "(heap m ! p)\<lparr>held := held (heap m ! p) + 1\<rparr>"
  have cl: "claim (calls m c) = Some (k, p)" using old by auto
  have ok: "pointers_ok m" and ek: "entry_ok m k" using inv by (simp_all add: mutex_inv_def)
  note p = pointers_okD(1)[OF ok cl] and fin = pointers_okD(3)[OF ok cl]
  have "owners m k = {}"
    using entry_okD(3)[OF ek p] free finite_subset[OF owners_users fin] by (simp add: slot_free_def)
  then have "mutex_inv (touched m c k p (Owns k p) ?e (Some p))"
    using free by (intro claimed_step[OF inv cl]) (auto simp: touched_users slot_free_def)
  then show ?thesis using p by (simp add: touched_def send_held_def map_upd_triv)
qed

lemma receive_step:
  assumes inv: "mutex_inv m" and old: "calls m c = Owns k p"
  shows "mutex_inv (receive_held c k p m) \<and> \<not> slot_free p m \<and> slot_free p (receive_held c k p m)"
proof -
  let ?e = "(heap m ! p)\<lparr>held := held (heap m ! p) - 1\<rparr>"
  have cl: "claim (calls m c) = Some (k, p)" using old by simp
  have ok: "pointers_ok m" and ek: "entry_ok m k" using inv by (simp_all add: mutex_inv_def)
  note p = pointers_okD(1)[OF ok cl] and pl = pointers_okD(2)[OF ok cl] and fin = pointers_okD(3)[OF ok cl]
  have c: "c \<in> owners m k" using old by (auto simp: owners_def)
  note f = finite_subset[OF owners_users fin]
  have one: "card (owners m k) = 1"
    using entry_okD(4)[OF ek p] c f by (metis One_nat_def card_gt_0_iff empty_iff le_antisym Suc_leI)
  then have "owners m k = {c}" using c by (metis card_1_singletonE singletonD)
  moreover have h: "held (heap m ! p) = 1" using entry_okD(3)[OF ek p] one by simp
  ultimately have "mutex_inv (touched m c k p (Unlocking k p) ?e (Some p))"
    by (intro claimed_step[OF inv cl]) (auto simp: touched_users)
  then show ?thesis using p pl h by (simp add: touched_def receive_held_def map_upd_triv slot_free_def)
qed

lemma move_step:
  assumes inv: "mutex_inv m" and old: "claim (calls m c) = Some (k, p)" and new: "claim s = Some (k, p)"
    and "calls m c \<noteq> Owns k p" and "s \<noteq> Owns k p"
  shows "mutex_inv (m\<lparr>calls := (calls m)(c := s)\<rparr>)"
proof -
  have ok: "pointers_ok m" and ek: "entry_ok m k" using inv by (simp_all add: mutex_inv_def)
  note p = pointers_okD(1)[OF ok old]
  have "c \<notin> owners m k" using assms(2,4) by (auto simp: owners_def)
  moreover have "\<not> (\<exists>q. s = Owns k q)" using new assms(5) by auto
  ultimately have "mutex_inv (touched m c k p s (heap m ! p) (Some p))"
    using entry_okD[OF ek p] by (intro claimed_step[OF inv old new]) (auto simp: touched_users)
  then show ?thesis using p by (simp add: touched_def map_upd_triv)
qed

lemma step_inv: "mutex_inv m \<Longrightarrow> mutex_step a m = Some m' \<Longrightarrow> mutex_inv m'"
  by (cases a)
    (auto split: call_state.splits if_splits
      intro: enter_step send_step release_step move_step receive_step[THEN conjunct1])

lemma initial_inv: "mutex_inv newKeyedMutex"
  by (simp add: mutex_inv_def pointers_ok_def entry_ok_def newKeyedMutex_def users_def)

lemma reachable_inv: "mutex_reachable m \<Longrightarrow> mutex_inv m"
  by (induction rule: mutex_reachable.induct) (auto intro: initial_inv step_inv)

section \<open>Properties\<close>

text \<open>
  C31: at most one call owns a key. In every state any interleaving of lock, cancel and unlock steps
  reaches, two calls that own the same key are the same call, and the key's entry is the one they
  both hold.
\<close>

theorem keyed_mutex_exclusive:
  assumes "mutex_reachable m" and "calls m c = Owns k p" and "calls m d = Owns k q"
  shows "c = d \<and> p = q \<and> entries m k = Some p"
proof -
  have inv: "mutex_inv m" by (rule reachable_inv) fact
  then have ok: "pointers_ok m" and ek: "entry_ok m k" by (simp_all add: mutex_inv_def)
  have p: "entries m k = Some p" and q: "entries m k = Some q" and fin: "finite (users m k)"
    using pointers_okD[OF ok, of c k p] pointers_okD[OF ok, of d k q] assms(2,3) by simp_all
  have "{c, d} \<subseteq> owners m k" using assms(2,3) by (auto simp: owners_def)
  then have "card {c, d} \<le> 1"
    using card_mono[OF finite_subset[OF owners_users fin]] entry_okD(4)[OF ek p] order_trans by blast
  then have "c = d" by (cases "c = d") auto
  with p q show ?thesis by simp
qed

text \<open>
  An entry lives exactly as long as some call holds or waits for its key, so the map does not
  grow with the key space: its keys are the keys in use, and once every call failed or unlocked it is
  empty.
\<close>

theorem keyed_mutex_no_leak:
  assumes "mutex_reachable m"
  shows "dom (entries m) = {k. users m k \<noteq> {}}
    \<and> ((\<forall>c. claim (calls m c) = None) \<longrightarrow> size_mutex m = 0)"
proof -
  have ok: "entry_ok m k" for k using reachable_inv[OF assms] by (simp add: mutex_inv_def)
  have "entries m k \<noteq> None \<longleftrightarrow> users m k \<noteq> {}" for k
    using ok[of k] by (cases "entries m k") (simp_all add: entry_ok_def)
  then have d: "dom (entries m) = {k. users m k \<noteq> {}}" by (simp add: dom_def)
  moreover have "size_mutex m = 0" if "\<forall>c. claim (calls m c) = None"
  proof -
    have "users m k = {}" for k using that by (simp add: users_def)
    then show ?thesis unfolding size_mutex_def d by simp
  qed
  ultimately show ?thesis by blast
qed

lemma owner_unlocks:
  assumes "mutex_inv m" and "calls m c = Owns k p"
  shows "mutex_step (Unlock c) m = Some (receive_held c k p m)" and "slot_free p (receive_held c k p m)"
  using assms(2) receive_step[OF assms] by simp_all

lemma slot_owner:
  assumes inv: "mutex_inv m" and c: "claim (calls m c) = Some (k, p)" and full: "\<not> slot_free p m"
  obtains d where "calls m d = Owns k p"
proof -
  have ok: "pointers_ok m" and ek: "entry_ok m k" using inv by (simp_all add: mutex_inv_def)
  note p = pointers_okD(1)[OF ok c]
  have "owners m k \<noteq> {}" using entry_okD(3)[OF ek p] full by (auto simp: slot_free_def)
  then obtain d q where d: "calls m d = Owns k q" by (auto simp: owners_def)
  then have "q = p" using pointers_okD(1)[OF ok, of d k q] p by simp
  with d that show thesis by simp
qed

lemma slot_free_release [simp]: "slot_free p (release k p m) = slot_free p m"
  by (cases "p < length (heap m)") (simp_all add: slot_free_def release_def Let_def list_update_beyond)

lemma unlock_returns:
  assumes "mutex_inv m" and "calls m c = Owns k p"
  shows "\<exists>m'. run_steps [Unlock c, Finish c] m = Some m' \<and> calls m' c = Unlocked \<and> slot_free p m'"
proof -
  let ?m = "receive_held c k p m" let ?r = "?m\<lparr>calls := (calls ?m)(c := Unlocked)\<rparr>"
  have "calls ?m c = Unlocking k p" by (simp add: receive_held_def)
  then have "run_steps [Unlock c, Finish c] m = Some (release k p ?r)"
    using owner_unlocks(1)[OF assms] by (simp del: mutex_step.simps(7))
  moreover have "slot_free p (release k p ?r)" using owner_unlocks(2)[OF assms] by (simp add: slot_free_def[of p ?r] slot_free_def[of p ?m])
  moreover have "calls (release k p ?r) c = Unlocked" by (simp add: release_def Let_def)
  ultimately show ?thesis by blast
qed

lemma waiter_takes:
  assumes "calls m c = Trying k p \<or> calls m c = Blocked k p" and "slot_free p m"
  shows "\<exists>a m'. run_steps [a] m = Some m' \<and> calls m' c = Owns k p \<and> a \<in> {TrySend c, Send c}"
proof -
  have "calls (send_held c k p m) c = Owns k p" by (simp add: send_held_def)
  then show ?thesis using assms by (auto intro: exI[of _ "TrySend c"] exI[of _ "Send c"])
qed

text \<open>
  C32: no unlock blocks and no waiter is stuck. In every state any interleaving reaches, each call that
  owns a key can run its unlock function to the end, with or without waiters, and leaves the slot of
  the key free; and each call that still waits for a key, in the first \<^verbatim>\<open>select\<close> or in the second, can
  own it after at most two steps, namely its own send, preceded by the unlock of the present owner
  when there is one.
\<close>

theorem keyed_mutex_progress:
  assumes "mutex_reachable m"
  shows "(\<forall>c k p. calls m c = Owns k p \<longrightarrow>
       (\<exists>m'. run_steps [Unlock c, Finish c] m = Some m' \<and> calls m' c = Unlocked \<and> slot_free p m'))
    \<and> (\<forall>c k p. calls m c = Trying k p \<or> calls m c = Blocked k p \<longrightarrow>
       (\<exists>a m'. a \<in> {TrySend c, Send c} \<and> calls m' c = Owns k p
          \<and> (if slot_free p m then run_steps [a] m = Some m'
             else \<exists>d. calls m d = Owns k p \<and> run_steps [Unlock d, a] m = Some m')))"
proof (intro conjI allI impI)
  have inv: "mutex_inv m" by (rule reachable_inv) fact
  show "\<exists>m'. run_steps [Unlock c, Finish c] m = Some m' \<and> calls m' c = Unlocked \<and> slot_free p m'"
    if "calls m c = Owns k p" for c k p by (rule unlock_returns[OF inv that])
  fix c k p assume w: "calls m c = Trying k p \<or> calls m c = Blocked k p"
  show "\<exists>a m'. a \<in> {TrySend c, Send c} \<and> calls m' c = Owns k p
      \<and> (if slot_free p m then run_steps [a] m = Some m'
         else \<exists>d. calls m d = Owns k p \<and> run_steps [Unlock d, a] m = Some m')"
  proof (cases "slot_free p m")
    case True
    then show ?thesis using waiter_takes[OF w] by auto
  next
    case False
    have "claim (calls m c) = Some (k, p)" using w by auto
    then obtain d where d: "calls m d = Owns k p" by (rule slot_owner[OF inv _ False])
    have "calls (receive_held d k p m) c = calls m c" using w d by (auto simp: receive_held_def)
    then obtain a m' where a: "run_steps [a] (receive_held d k p m) = Some m'" "calls m' c = Owns k p" "a \<in> {TrySend c, Send c}"
      using waiter_takes[of "receive_held d k p m" c k p] w owner_unlocks(2)[OF inv d] by auto
    have "run_steps [Unlock d, a] m = Some m'"
      using a(1) owner_unlocks(1)[OF inv d] by (simp del: mutex_step.simps)
    with a d False show ?thesis by (simp only: if_False) blast
  qed
qed

text \<open>Two calls for one key: the first owns it, the second waits.\<close>

definition two_callers :: keyedMutex where
  "two_callers = the (run_steps [Enter 1 ''vm'', TrySend 1, Enter 2 ''vm'', Retry 2] newKeyedMutex)"

lemma two_callers_run: "run_steps [Enter 1 ''vm'', TrySend 1, Enter 2 ''vm'', Retry 2] newKeyedMutex = Some two_callers"
  by (simp add: two_callers_def newKeyedMutex_def lock_enter_def slot_free_def send_held_def)

lemma two_callers_reachable: "mutex_reachable two_callers"
  using reachable_run_steps[OF initially two_callers_run] .

lemma two_callers_calls: "calls two_callers 1 = Owns ''vm'' 0" "calls two_callers 2 = Blocked ''vm'' 0"
  by (simp_all add: two_callers_def newKeyedMutex_def lock_enter_def slot_free_def send_held_def)

theorem keyed_mutex_exclusive_witness: "entries two_callers ''vm'' = Some 0"
  using keyed_mutex_exclusive [OF two_callers_reachable two_callers_calls(1) two_callers_calls(1)] by simp

theorem keyed_mutex_no_leak_witness: "''vm'' \<in> dom (entries two_callers)"
proof -
  have "1 \<in> users two_callers ''vm''" using two_callers_calls(1) by (simp add: users_def)
  then show ?thesis using keyed_mutex_no_leak [OF two_callers_reachable] by blast
qed

theorem keyed_mutex_progress_witness:
  "(\<exists>m'. run_steps [Unlock 1, Finish 1] two_callers = Some m' \<and> calls m' 1 = Unlocked)
   \<and> (\<exists>d a m'. run_steps [Unlock d, a] two_callers = Some m' \<and> calls m' 2 = Owns ''vm'' 0)"
proof -
  have "\<not> slot_free 0 two_callers"
    by (simp add: two_callers_def newKeyedMutex_def lock_enter_def slot_free_def send_held_def)
  then show ?thesis
    using keyed_mutex_progress [OF two_callers_reachable] two_callers_calls
    by (metis (no_types, lifting))
qed

end
