(* ===== verification/Go_JSON.thy ===== *)
theory Go_JSON
  imports Go_Errors "HOL-Library.Char_ord" "HOL-Library.List_Lexorder" "HOL-Library.Finite_Map"
begin

text \<open>
  What the sources use of \<^verbatim>\<open>encoding/json\<close>: the grammar a text is parsed by, \<^verbatim>\<open>json.Marshal\<close>'s
  compact output, and the rules by which \<^verbatim>\<open>json.Unmarshal\<close> assigns a value to the string, integer
  and string-map fields of a struct. A value keeps the members of an object in the order of the
  text, repetitions included, because the guards of the Kubernetes readers are about exactly
  those. The parser takes its bound from the length of the text, which is enough: every step of
  it either consumes a byte or descends into a value whose opening byte was consumed
  (\<open>parse_marshal\<close> shows it on all the compact output of \<open>marshal\<close>). Bytes outside ASCII are kept
  as they are, where \<^verbatim>\<open>encoding/json\<close> replaces those that are not UTF-8; what is said of printed
  documents is said of ASCII strings.
\<close>

section \<open>Values\<close>

text \<open>A number is \<open>JInt\<close> when its text has neither fraction nor exponent, else \<open>JFloat\<close> of its text.\<close>

datatype json =
    JNull
  | JBool bool
  | JInt int
  | JFloat string
  | JStr string
  | JArr "json list"
  | JObj "(string \<times> json) list"

fun json_depth :: "json \<Rightarrow> nat"
  and members_depth :: "(string \<times> json) list \<Rightarrow> nat"
  and elements_depth :: "json list \<Rightarrow> nat" where
  "json_depth (JObj ms) = Suc (members_depth ms)"
| "json_depth (JArr vs) = Suc (elements_depth vs)"
| "json_depth _ = 0"
| "members_depth [] = 0"
| "members_depth ((k, v) # ms) = max (json_depth v) (members_depth ms)"
| "elements_depth [] = 0"
| "elements_depth (v # vs) = max (json_depth v) (elements_depth vs)"

definition maxNestingDepth :: nat where
  "maxNestingDepth = 10000"

section \<open>Parsing\<close>

definition json_space :: "char \<Rightarrow> bool" where
  "json_space c = (let n = (of_char c :: nat) in n = 32 \<or> n = 9 \<or> n = 10 \<or> n = 13)"

definition skip_space :: "string \<Rightarrow> string" where
  "skip_space s = dropWhile json_space s"

definition hex_digit :: "char \<Rightarrow> nat option" where
  "hex_digit c = (let n = (of_char c :: nat) in
     if 48 \<le> n \<and> n \<le> 57 then Some (n - 48) else if 97 \<le> n \<and> n \<le> 102 then Some (n - 87)
     else if 65 \<le> n \<and> n \<le> 70 then Some (n - 55) else None)"

definition hex4 :: "string \<Rightarrow> nat option" where
  "hex4 s = (case s of
     a # b # c # d # _ \<Rightarrow>
       (case (hex_digit a, hex_digit b, hex_digit c, hex_digit d) of
          (Some p, Some q, Some r, Some t) \<Rightarrow> Some (((p * 16 + q) * 16 + r) * 16 + t)
        | _ \<Rightarrow> None)
   | _ \<Rightarrow> None)"

definition utf8 :: "nat \<Rightarrow> string" where
  "utf8 n =
     (if n < 128 then [char_of n]
      else if n < 2048 then [char_of (192 + n div 64), char_of (128 + n mod 64)]
      else if n < 65536 then [char_of (224 + n div 4096), char_of (128 + n div 64 mod 64), char_of (128 + n mod 64)]
      else [char_of (240 + n div 262144), char_of (128 + n div 4096 mod 64), char_of (128 + n div 64 mod 64),
            char_of (128 + n mod 64)])"

definition simple_escape :: "char \<Rightarrow> char option" where
  "simple_escape c =
     (if c = CHR 0x22 \<or> c = CHR 0x5C \<or> c = CHR 0x2F then Some c
      else if c = CHR ''b'' then Some (CHR 0x08) else if c = CHR ''f'' then Some (CHR 0x0C)
      else if c = CHR ''n'' then Some (CHR 0x0A) else if c = CHR ''r'' then Some (CHR 0x0D)
      else if c = CHR ''t'' then Some (CHR 0x09) else None)"

text \<open>
  The rest of a string after \<^verbatim>\<open>\u\<close>: the rune's bytes and what follows. A low surrogate must follow
  a high one; any other surrogate is replaced by U+FFFD.
\<close>

definition unicode_escape :: "string \<Rightarrow> (string \<times> string) option" where
  "unicode_escape s =
     (case hex4 s of
        None \<Rightarrow> None
      | Some n \<Rightarrow>
          let rest = drop 4 s in
          if n < 55296 \<or> 57343 < n then Some (utf8 n, rest)
          else (case (n < 56320, take 2 rest = [CHR 0x5C, CHR ''u''], hex4 (drop 2 rest)) of
              (True, True, Some m) \<Rightarrow>
                if 56320 \<le> m \<and> m \<le> 57343
                then Some (utf8 (65536 + (n - 55296) * 1024 + (m - 56320)), drop 6 rest)
                else Some (utf8 65533, rest)
            | _ \<Rightarrow> Some (utf8 65533, rest)))"

lemma unicode_escape_shorter: "unicode_escape s = Some (u, r) \<Longrightarrow> length r < length s"
  by (auto simp: unicode_escape_def hex4_def Let_def split: option.splits if_splits list.splits bool.splits prod.splits)

text \<open>The characters of a string up to its closing quote.\<close>

function (sequential) parse_chars :: "string \<Rightarrow> (string \<times> string) option" where
  "parse_chars [] = None"
| "parse_chars (c # s) =
     (if c = CHR 0x22 then Some ([], s)
      else if (of_char c :: nat) < 32 then None
      else if c \<noteq> CHR 0x5C then map_option (apfst ((#) c)) (parse_chars s)
      else (case s of
          [] \<Rightarrow> None
        | e # t \<Rightarrow>
            (case simple_escape e of
               Some d \<Rightarrow> map_option (apfst ((#) d)) (parse_chars t)
             | None \<Rightarrow>
                 if e \<noteq> CHR ''u'' then None
                 else (case unicode_escape t of
                     None \<Rightarrow> None
                   | Some (u, r) \<Rightarrow> map_option (apfst ((@) u)) (parse_chars r)))))"
  by pat_completeness auto
termination
  by (relation "measure length") (auto dest!: unicode_escape_shorter)

definition digits_value :: "string \<Rightarrow> nat" where
  "digits_value ds = foldl (\<lambda>a c. 10 * a + (of_char c - 48)) 0 ds"

definition parse_number :: "string \<Rightarrow> (json \<times> string) option" where
  "parse_number s =
     (let neg = (take 1 s = ''-''); s1 = (if neg then drop 1 s else s);
          ds = takeWhile is_digit_char s1; r1 = dropWhile is_digit_char s1
      in if ds = [] \<or> (hd ds = CHR ''0'' \<and> length ds > 1) then None
         else
           let point = (take 1 r1 = ''.''); f = takeWhile is_digit_char (drop 1 r1);
               r2 = (if point then dropWhile is_digit_char (drop 1 r1) else r1);
               expo = (take 1 r2 = ''e'' \<or> take 1 r2 = ''E'');
               e1 = (if take 1 (drop 1 r2) = ''+'' \<or> take 1 (drop 1 r2) = ''-'' then drop 2 r2 else drop 1 r2);
               r3 = (if expo then dropWhile is_digit_char e1 else r2)
           in if (point \<and> f = []) \<or> (expo \<and> takeWhile is_digit_char e1 = []) then None
              else if point \<or> expo then Some (JFloat (take (length s - length r3) s), r3)
              else Some (JInt (if neg then - int (digits_value ds) else int (digits_value ds)), r3))"

fun parse_value :: "nat \<Rightarrow> string \<Rightarrow> (json \<times> string) option"
  and parse_members :: "nat \<Rightarrow> string \<Rightarrow> ((string \<times> json) list \<times> string) option"
  and parse_elements :: "nat \<Rightarrow> string \<Rightarrow> (json list \<times> string) option" where
  "parse_value 0 s = None"
| "parse_value (Suc n) s =
     (case s of
        [] \<Rightarrow> None
      | c # t \<Rightarrow>
          if c = CHR ''{'' then
            (let t = skip_space t in
             if take 1 t = ''}'' then Some (JObj [], drop 1 t)
             else map_option (apfst JObj) (parse_members n t))
          else if c = CHR ''['' then
            (let t = skip_space t in
             if take 1 t = '']'' then Some (JArr [], drop 1 t)
             else map_option (apfst JArr) (parse_elements n t))
          else if c = CHR 0x22 then map_option (apfst JStr) (parse_chars t)
          else if take 4 s = ''null'' then Some (JNull, drop 4 s)
          else if take 4 s = ''true'' then Some (JBool True, drop 4 s)
          else if take 5 s = ''false'' then Some (JBool False, drop 5 s)
          else parse_number s)"
| "parse_members 0 s = None"
| "parse_members (Suc n) s =
     (if take 1 s \<noteq> [CHR 0x22] then None
      else (case parse_chars (drop 1 s) of
          None \<Rightarrow> None
        | Some (k, r) \<Rightarrow>
            let r = skip_space r in
            if take 1 r \<noteq> '':'' then None
            else (case parse_value n (skip_space (drop 1 r)) of
                None \<Rightarrow> None
              | Some (v, r) \<Rightarrow>
                  let r = skip_space r in
                  if take 1 r = '','' then map_option (apfst ((#) (k, v))) (parse_members n (skip_space (drop 1 r)))
                  else if take 1 r = ''}'' then Some ([(k, v)], drop 1 r)
                  else None)))"
| "parse_elements 0 s = None"
| "parse_elements (Suc n) s =
     (case parse_value n s of
        None \<Rightarrow> None
      | Some (v, r) \<Rightarrow>
          let r = skip_space r in
          if take 1 r = '','' then map_option (apfst ((#) v)) (parse_elements n (skip_space (drop 1 r)))
          else if take 1 r = '']'' then Some ([v], drop 1 r)
          else None)"

text \<open>A text: no value at its start, or a value and whether anything but space follows it.\<close>

datatype json_doc = NotJSON | Doc json bool

definition parse_json :: "string \<Rightarrow> json_doc" where
  "parse_json s =
     (case parse_value (2 * length s + 2) (skip_space s) of
        None \<Rightarrow> NotJSON
      | Some (v, r) \<Rightarrow> Doc v (skip_space r \<noteq> []))"

section \<open>Printing\<close>

definition lower_hex :: "nat \<Rightarrow> char" where
  "lower_hex n = (if n < 10 then char_of (48 + n) else char_of (87 + n))"

definition marshal_char :: "char \<Rightarrow> string" where
  "marshal_char c =
     (let n = (of_char c :: nat) in
      if c = CHR 0x22 \<or> c = CHR 0x5C then [CHR 0x5C, c]
      else if n = 8 then [CHR 0x5C, CHR ''b''] else if n = 12 then [CHR 0x5C, CHR ''f'']
      else if n = 10 then [CHR 0x5C, CHR ''n''] else if n = 13 then [CHR 0x5C, CHR ''r'']
      else if n = 9 then [CHR 0x5C, CHR ''t'']
      else if n < 32 \<or> c = CHR ''<'' \<or> c = CHR ''>'' \<or> c = CHR ''&''
      then [CHR 0x5C, CHR ''u'', CHR ''0'', CHR ''0'', lower_hex (n div 16), lower_hex (n mod 16)]
      else [c])"

definition marshal_string :: "string \<Rightarrow> string" where
  "marshal_string s = [CHR 0x22] @ concat (map marshal_char s) @ [CHR 0x22]"

fun show_nat :: "nat \<Rightarrow> string" where
  "show_nat n = (if n < 10 then [char_of (48 + n)] else show_nat (n div 10) @ [char_of (48 + n mod 10)])"

declare show_nat.simps [simp del]

definition show_int :: "int \<Rightarrow> string" where
  "show_int i = (if i < 0 then ''-'' @ show_nat (nat (- i)) else show_nat (nat i))"

fun marshal :: "json \<Rightarrow> string"
  and marshal_members :: "(string \<times> json) list \<Rightarrow> string"
  and marshal_elements :: "json list \<Rightarrow> string" where
  "marshal JNull = ''null''"
| "marshal (JBool b) = (if b then ''true'' else ''false'')"
| "marshal (JInt i) = show_int i"
| "marshal (JFloat t) = t"
| "marshal (JStr s) = marshal_string s"
| "marshal (JArr vs) = ''['' @ (if vs = [] then '']'' else marshal_elements vs)"
| "marshal (JObj ms) = ''{'' @ (if ms = [] then ''}'' else marshal_members ms)"
| "marshal_members [] = ''}''"
| "marshal_members ((k, v) # ms) =
     marshal_string k @ '':'' @ marshal v @ (if ms = [] then ''}'' else '','' @ marshal_members ms)"
| "marshal_elements [] = '']''"
| "marshal_elements (v # vs) = marshal v @ (if vs = [] then '']'' else '','' @ marshal_elements vs)"

section \<open>Reading back what was printed\<close>

lemma of_char_less_256: "(of_char (c::char) :: nat) < 256"
  by simp

lemma hex_digit_lower_hex: "n < 16 \<Longrightarrow> hex_digit (lower_hex n) = Some n"
  by (auto simp: hex_digit_def lower_hex_def Let_def)

lemma hex_digit_zero: "hex_digit (CHR ''0'') = Some 0"
  by (simp add: hex_digit_def)

lemma unicode_escape_byte:
  assumes "n < 128"
  shows "unicode_escape (CHR ''0'' # CHR ''0'' # lower_hex (n div 16) # lower_hex (n mod 16) # s)
     = Some ([char_of n], s)"
proof -
  have h: "hex_digit (lower_hex (n div 16)) = Some (n div 16)" "hex_digit (lower_hex (n mod 16)) = Some (n mod 16)"
    using assms by (auto intro!: hex_digit_lower_hex)
  have "n div 16 * 16 + n mod 16 = n" by simp
  with assms show ?thesis
    by (simp add: unicode_escape_def hex4_def hex_digit_zero h utf8_def Let_def)
qed

lemma of_char_is: "of_char d = n \<Longrightarrow> of_char c = n \<longleftrightarrow> c = d" for n :: nat
  by auto

lemma control_chars:
  "(of_char c :: nat) = 8 \<longleftrightarrow> c = CHR 0x08" "(of_char c :: nat) = 12 \<longleftrightarrow> c = CHR 0x0C"
  "(of_char c :: nat) = 10 \<longleftrightarrow> c = CHR 0x0A" "(of_char c :: nat) = 13 \<longleftrightarrow> c = CHR 0x0D"
  "(of_char c :: nat) = 9 \<longleftrightarrow> c = CHR 0x09"
  by (rule of_char_is, simp)+

lemma marshal_char_cases:
  obtains (short) d where "marshal_char c = [CHR 0x5C, d]" "simple_escape d = Some c"
  | (unicode) "marshal_char c
      = [CHR 0x5C, CHR ''u'', CHR ''0'', CHR ''0'', lower_hex (of_char c div 16), lower_hex (of_char c mod 16)]"
      "(of_char c :: nat) < 128"
  | (plain) "marshal_char c = [c]" "c \<noteq> CHR 0x22" "c \<noteq> CHR 0x5C" "\<not> (of_char c :: nat) < 32"
proof -
  consider "c \<in> set [CHR 0x22, CHR 0x5C, CHR 0x08, CHR 0x0C, CHR 0x0A, CHR 0x0D, CHR 0x09]"
    | "c \<notin> set [CHR 0x22, CHR 0x5C, CHR 0x08, CHR 0x0C, CHR 0x0A, CHR 0x0D, CHR 0x09]"
      "(of_char c :: nat) < 32 \<or> c = CHR ''<'' \<or> c = CHR ''>'' \<or> c = CHR ''&''"
    | "c \<notin> set [CHR 0x22, CHR 0x5C, CHR 0x08, CHR 0x0C, CHR 0x0A, CHR 0x0D, CHR 0x09]"
      "\<not> ((of_char c :: nat) < 32 \<or> c = CHR ''<'' \<or> c = CHR ''>'' \<or> c = CHR ''&'')"
    by blast
  then show thesis
  proof cases
    case 1
    have "list_all (\<lambda>c. list_ex (\<lambda>d. marshal_char c = [CHR 0x5C, d] \<and> simple_escape d = Some c)
        [CHR 0x22, CHR 0x5C, CHR ''b'', CHR ''f'', CHR ''n'', CHR ''r'', CHR ''t''])
        [CHR 0x22, CHR 0x5C, CHR 0x08, CHR 0x0C, CHR 0x0A, CHR 0x0D, CHR 0x09]"
      by code_simp
    with 1 have "\<exists>d. marshal_char c = [CHR 0x5C, d] \<and> simple_escape d = Some c"
      unfolding list_all_iff list_ex_iff by blast
    then show ?thesis using short by blast
  next
    case 2
    have "(of_char c :: nat) < 128" using 2(2) by (elim disjE) simp_all
    moreover from 2 have "marshal_char c
        = [CHR 0x5C, CHR ''u'', CHR ''0'', CHR ''0'', lower_hex (of_char c div 16), lower_hex (of_char c mod 16)]"
      unfolding marshal_char_def Let_def control_chars by simp
    ultimately show ?thesis using unicode by blast
  next
    case 3
    then have "marshal_char c = [c]" unfolding marshal_char_def Let_def control_chars by simp
    with 3 show ?thesis by (intro plain) simp_all
  qed
qed

lemma parse_marshal_char: "parse_chars (marshal_char c @ s) = map_option (apfst ((#) c)) (parse_chars s)"
proof (cases c rule: marshal_char_cases)
  case unicode
  have "simple_escape (CHR ''u'') = None" by (simp add: simple_escape_def)
  with unicode show ?thesis
    by (simp add: unicode_escape_byte) (rule arg_cong[where f="\<lambda>f. map_option (apfst f) (parse_chars s)"], auto)
qed auto

lemma parse_marshal_chars: "parse_chars (concat (map marshal_char k) @ CHR 0x22 # s) = Some (k, s)"
  by (induction k) (simp_all add: parse_marshal_char)

lemma digits_value_snoc: "digits_value (ds @ [c]) = 10 * digits_value ds + (of_char c - 48)"
  by (simp add: digits_value_def)

lemma show_nat_props:
  "digits_value (show_nat n) = n \<and> list_all is_digit_char (show_nat n) \<and> show_nat n \<noteq> []
   \<and> (hd (show_nat n) = CHR ''0'' \<longrightarrow> n = 0)"
proof (induction n rule: show_nat.induct)
  case (1 n)
  show ?case
  proof (cases "n < 10")
    case True
    then have "hd (show_nat n) = CHR ''0'' \<longrightarrow> n = 0"
      by (auto simp: show_nat.simps[of n] dest!: arg_cong[where f="of_char :: char \<Rightarrow> nat"])
    with True show ?thesis
      by (simp add: show_nat.simps[of n] digits_value_def is_digit_char_def)
  next
    case False
    from False have "n div 10 \<noteq> 0" "n mod 10 < 10" by auto
    with 1[OF False] False have "hd (show_nat (n div 10)) \<noteq> CHR ''0''" by blast
    moreover from \<open>n mod 10 < 10\<close> have "is_digit_char (char_of (48 + n mod 10))"
      by (simp add: is_digit_char_def)
    ultimately show ?thesis
      using 1[OF False] False by (simp add: show_nat.simps[of n] digits_value_snoc)
  qed
qed

lemma show_nat_zero: "length (show_nat n) > 1 \<Longrightarrow> n \<noteq> 0"
  by (cases n) (auto simp: show_nat.simps[of 0])

text \<open>What may follow a printed value: nothing, or a byte that ends it.\<close>

definition closes :: "string \<Rightarrow> bool" where
  "closes s = (s = [] \<or> hd s \<in> set '',]}'')"

lemma closes_Cons [simp]: "closes (c # s) \<longleftrightarrow> c \<in> set '',]}''"
  by (simp add: closes_def)

lemma takeWhile_digits_closes:
  "list_all is_digit_char ds \<Longrightarrow> closes s \<Longrightarrow> takeWhile is_digit_char (ds @ s) = ds \<and> dropWhile is_digit_char (ds @ s) = s"
  by (induction ds) (cases s; auto simp: closes_def is_digit_char_def)+

lemma parse_show_nat:
  assumes "closes s"
  shows "parse_number (show_nat n @ s) = Some (JInt (int n), s)"
    and "parse_number (CHR ''-'' # show_nat n @ s) = Some (JInt (- int n), s)"
proof -
  note p = show_nat_props[of n]
  from p obtain c ds where d: "show_nat n = c # ds" "is_digit_char c"
    by (cases "show_nat n") auto
  have t: "takeWhile is_digit_char (show_nat n @ s) = show_nat n" "dropWhile is_digit_char (show_nat n @ s) = s"
    using takeWhile_digits_closes[of "show_nat n" s] p assms by auto
  have z: "\<not> (hd (show_nat n) = CHR ''0'' \<and> 1 < length (show_nat n))"
    using p show_nat_zero[of n] by auto
  have c: "take 1 (show_nat n @ s) \<noteq> ''-''" using d by (auto simp: is_digit_char_def)
  have e: "take 1 s \<noteq> ''.''" "take 1 s \<noteq> ''e''" "take 1 s \<noteq> ''E''"
    using assms by (cases s; auto simp: closes_def)+
  show "parse_number (show_nat n @ s) = Some (JInt (int n), s)"
    unfolding parse_number_def Let_def using p t z c e by (simp del: take_append)
  show "parse_number (CHR ''-'' # show_nat n @ s) = Some (JInt (- int n), s)"
    unfolding parse_number_def Let_def using p t z e by (simp del: take_append)
qed

lemma show_int_hd: "\<exists>c ds. show_int i = c # ds \<and> (c = CHR ''-'' \<or> is_digit_char c)"
proof -
  have "\<exists>c ds. show_nat n = c # ds \<and> is_digit_char c" for n
    using show_nat_props[of n] by (cases "show_nat n") auto
  from this[of "nat i"] show ?thesis
    by (cases "i < 0") (auto simp: show_int_def)
qed

lemma parse_show_int: "closes s \<Longrightarrow> parse_value (Suc n) (show_int i @ s) = Some (JInt i, s)"
proof -
  assume s: "closes s"
  obtain c ds where c: "show_int i = c # ds" "c = CHR ''-'' \<or> is_digit_char c"
    using show_int_hd[of i] by auto
  have "parse_number (show_int i @ s) = Some (JInt i, s)"
    using parse_show_nat[OF s, of "nat i"] parse_show_nat[OF s, of "nat (- i)"] by (simp add: show_int_def)
  moreover from c(2) have "c \<notin> set ''{[ntf''" "c \<noteq> CHR 0x22" by (auto simp: is_digit_char_def)
  ultimately show ?thesis using c(1) by (simp add: Let_def)
qed

text \<open>A value all of whose numbers are integers; the steps its parser makes.\<close>

fun integral :: "json \<Rightarrow> bool"
  and integral_members :: "(string \<times> json) list \<Rightarrow> bool"
  and integral_elements :: "json list \<Rightarrow> bool" where
  "integral (JFloat t) = False"
| "integral (JArr vs) = integral_elements vs"
| "integral (JObj ms) = integral_members ms"
| "integral _ = True"
| "integral_members [] = True"
| "integral_members ((k, v) # ms) = (integral v \<and> integral_members ms)"
| "integral_elements [] = True"
| "integral_elements (v # vs) = (integral v \<and> integral_elements vs)"

lemma skip_space_closes [simp]: "closes s \<Longrightarrow> skip_space s = s"
  by (cases s) (auto simp: closes_def skip_space_def json_space_def Let_def)

lemma skip_space_Cons [simp]: "\<not> json_space c \<Longrightarrow> skip_space (c # s) = c # s"
  by (simp add: skip_space_def)

lemma json_space_marks [simp]:
  "\<not> json_space (CHR '':'')" "\<not> json_space (CHR 0x22)" "\<not> json_space (CHR '','')"
  "\<not> json_space (CHR ''['')" "\<not> json_space (CHR ''{'')" "\<not> json_space (CHR ''}'')" "\<not> json_space (CHR '']'')"
  by (simp_all add: json_space_def)

lemma marshal_hd:
  "integral v \<Longrightarrow> \<exists>c t. marshal v = c # t \<and> \<not> json_space c \<and> c \<notin> set '',]}''"
proof (cases v)
  case (JInt i)
  obtain c t where c: "show_int i = c # t" "c = CHR ''-'' \<or> is_digit_char c"
    using show_int_hd[of i] by auto
  then have "\<not> json_space c \<and> c \<notin> set '',]}''" by (auto simp: json_space_def is_digit_char_def Let_def)
  with c JInt show ?thesis by auto
qed (auto simp: marshal_string_def json_space_def)

lemma skip_space_marshal [simp]: "integral v \<Longrightarrow> skip_space (marshal v @ s) = marshal v @ s"
  using marshal_hd[of v] by auto


lemma parse_marshal:
  "integral v \<Longrightarrow> closes s \<Longrightarrow> 2 * length (marshal v) \<le> n \<Longrightarrow> parse_value n (marshal v @ s) = Some (v, s)"
  "integral_members ms \<Longrightarrow> ms \<noteq> [] \<Longrightarrow> 2 * length (marshal_members ms) \<le> n
     \<Longrightarrow> parse_members n (marshal_members ms @ s) = Some (ms, s)"
  "integral_elements vs \<Longrightarrow> vs \<noteq> [] \<Longrightarrow> 2 * length (marshal_elements vs) \<le> n + 1
     \<Longrightarrow> parse_elements n (marshal_elements vs @ s) = Some (vs, s)"
proof (induction v and ms and vs arbitrary: s n and s n and s n rule: marshal_marshal_members_marshal_elements.induct)
  case 1
  then show ?case by (cases n) auto
next
  case (2 b)
  then show ?case by (cases n; cases b) auto
next
  case (3 i)
  then show ?case using show_int_hd[of i] by (cases n) (auto simp: parse_show_int simp del: parse_value.simps)
next
  case (5 k)
  then show ?case by (cases n) (auto simp: marshal_string_def parse_marshal_chars)
next
  case (6 vs)
  then obtain m where n: "n = Suc m" by (cases n) auto
  show ?case
  proof (cases vs)
    case Nil
    then show ?thesis using n by (simp add: skip_space_def json_space_def)
  next
    case (Cons v vs')
    with 6 n have p: "parse_elements m (marshal_elements vs @ s) = Some (vs, s)" by simp
    obtain c t where c: "marshal v = c # t" "\<not> json_space c" "c \<notin> set '',]}''"
      using marshal_hd[of v] 6 Cons by auto
    then have "\<exists>u. marshal_elements vs @ s = c # u" using Cons by simp
    with c p Cons n show ?thesis by (auto simp: Let_def)
  qed
next
  case (7 ms)
  then obtain m where n: "n = Suc m" by (cases n) auto
  show ?case
  proof (cases ms)
    case Nil
    then show ?thesis using n by (simp add: skip_space_def json_space_def)
  next
    case (Cons a ms')
    with 7 n have p: "parse_members m (marshal_members ms @ s) = Some (ms, s)" by simp
    obtain k v where a: "a = (k, v)" by (cases a)
    then have "\<exists>u. marshal_members ms @ s = CHR 0x22 # u" using Cons by (simp add: marshal_string_def)
    with p Cons n show ?thesis by (auto simp: Let_def)
  qed
next
  case (9 k v ms)
  then obtain m where n: "n = Suc m" by (cases n) (auto simp: marshal_string_def)
  let ?t = "(if ms = [] then ''}'' else '','' @ marshal_members ms) @ s"
  have t: "closes ?t" "skip_space ?t = ?t" by (auto simp: closes_def)
  have v: "parse_value m (marshal v @ ?t) = Some (v, ?t)"
    using 9 n t by (intro 9(1)) (auto simp: marshal_string_def split: if_splits)
  have i: "integral v" using 9 by simp
  show ?case
  proof (cases "ms = []")
    case True
    with v i n t show ?thesis by (simp add: marshal_string_def parse_marshal_chars Let_def)
  next
    case False
    then obtain k' v' ms' where ms: "ms = (k', v') # ms'" by (cases ms) auto
    have "parse_members m (marshal_members ms @ s) = Some (ms, s)"
      using 9 n False by (intro 9(2)) (auto simp: marshal_string_def)
    moreover have "skip_space (marshal_members ms @ s) = marshal_members ms @ s"
      using ms by (simp add: marshal_string_def)
    ultimately show ?thesis
      using v i n t False by (simp add: marshal_string_def parse_marshal_chars Let_def)
  qed
next
  case (11 v vs)
  obtain c t where c: "marshal v = c # t" using marshal_hd[of v] 11 by auto
  with 11 obtain m where n: "n = Suc m" by (cases n) auto
  let ?t = "(if vs = [] then '']'' else '','' @ marshal_elements vs) @ s"
  have t: "closes ?t" "skip_space ?t = ?t" by (auto simp: closes_def)
  have v: "parse_value m (marshal v @ ?t) = Some (v, ?t)"
    using 11 n t by (intro 11(1)) (auto split: if_splits)
  show ?case
  proof (cases "vs = []")
    case True
    with v n t show ?thesis by (simp add: Let_def)
  next
    case False
    then obtain w vs' where vs: "vs = w # vs'" by (cases vs) auto
    have "parse_elements m (marshal_elements vs @ s) = Some (vs, s)"
      using 11 n False c by (intro 11(2)) auto
    moreover have "skip_space (marshal_elements vs @ s) = marshal_elements vs @ s"
      using vs 11 by simp
    ultimately show ?thesis
      using v n t False by (simp add: Let_def)
  qed
qed simp_all

lemma parse_json_marshal: "integral v \<Longrightarrow> parse_json (marshal v) = Doc v False"
  using parse_marshal(1)[of v "[]" "2 * length (marshal v) + 2"] skip_space_marshal[of v "[]"]
  by (simp add: parse_json_def closes_def skip_space_def)

section \<open>Assigning to struct fields\<close>

text \<open>
  The members of an object that a struct field with the given tag takes: \<^verbatim>\<open>encoding/json\<close> matches
  names without regard to case, and assigns them one after the other. \<^verbatim>\<open>null\<close> leaves a string or
  an integer as it is and empties a map; a value of another type is an error.
\<close>

definition field_values :: "string \<Rightarrow> (string \<times> json) list \<Rightarrow> json list" where
  "field_values f ms = map snd (filter (\<lambda>(k, v). EqualFold k f) ms)"

lemma field_values_code [code]:
  "field_values f [] = []"
  "field_values f ((k, v) # ms) = (if EqualFold k f then v # field_values f ms else field_values f ms)"
  by (simp_all add: field_values_def)

definition type_error :: error where
  "type_error = Plain ''json: cannot unmarshal''"

fun unmarshal_string :: "json list \<Rightarrow> string \<Rightarrow> error + string" where
  "unmarshal_string [] s = Inr s"
| "unmarshal_string (JStr t # vs) s = unmarshal_string vs t"
| "unmarshal_string (JNull # vs) s = unmarshal_string vs s"
| "unmarshal_string (_ # vs) s = Inl type_error"

fun unmarshal_int :: "int \<Rightarrow> json list \<Rightarrow> int \<Rightarrow> error + int" where
  "unmarshal_int limit [] i = Inr i"
| "unmarshal_int limit (JInt j # vs) i =
     (if - limit \<le> j \<and> j < limit then unmarshal_int limit vs j else Inl type_error)"
| "unmarshal_int limit (JNull # vs) i = unmarshal_int limit vs i"
| "unmarshal_int limit (_ # vs) i = Inl type_error"

type_synonym string_map = "(string, string) fmap"

fun unmarshal_entries :: "(string \<times> json) list \<Rightarrow> string_map \<Rightarrow> error + string_map" where
  "unmarshal_entries [] m = Inr m"
| "unmarshal_entries ((k, JStr s) # ms) m = unmarshal_entries ms (fmupd k s m)"
| "unmarshal_entries ((k, JNull) # ms) m = unmarshal_entries ms (fmupd k [] m)"
| "unmarshal_entries (_ # ms) m = Inl type_error"

fun unmarshal_map :: "json list \<Rightarrow> string_map \<Rightarrow> error + string_map" where
  "unmarshal_map [] m = Inr m"
| "unmarshal_map (JObj ms # vs) m =
     (case unmarshal_entries ms m of Inl e \<Rightarrow> Inl e | Inr m' \<Rightarrow> unmarshal_map vs m')"
| "unmarshal_map (JNull # vs) m = unmarshal_map vs fmempty"
| "unmarshal_map (_ # vs) m = Inl type_error"

text \<open>\<open>map_lookup\<close> is Go's \<^verbatim>\<open>m[k]\<close>: the zero value when the key is absent.\<close>

definition map_lookup :: "string_map \<Rightarrow> string \<Rightarrow> string" where
  "map_lookup m k = (case fmlookup m k of None \<Rightarrow> [] | Some v \<Rightarrow> v)"

text \<open>Sequencing fallible steps: the first error is the result.\<close>

definition attempt_ok :: "error + 'a \<Rightarrow> ('a \<Rightarrow> error + 'b) \<Rightarrow> error + 'b" where
  "attempt_ok r f = (case r of Inl e \<Rightarrow> Inl e | Inr x \<Rightarrow> f x)"

lemma attempt_ok_simps [simp]: "attempt_ok (Inl e) f = Inl e" "attempt_ok (Inr x) f = f x"
  by (simp_all add: attempt_ok_def)

lemma attempt_ok_Inr: "attempt_ok r f = Inr y \<longleftrightarrow> (\<exists>x. r = Inr x \<and> f x = Inr y)"
  by (cases r) auto

definition fail_if :: "error option \<Rightarrow> error + 'a \<Rightarrow> error + 'a" where
  "fail_if o' r = (case o' of Some e \<Rightarrow> Inl e | None \<Rightarrow> r)"

lemma fail_if_simps [simp]: "fail_if None r = r" "fail_if (Some e) r = Inl e"
  by (simp_all add: fail_if_def)

lemma fail_if_Inr: "fail_if c r = Inr y \<longleftrightarrow> c = None \<and> r = Inr y"
  by (cases c) auto

end
