(* ===== verification/Kube_JSON.thy ===== *)
theory Kube_JSON
  imports Go_JSON
begin

text \<open>
  Reading the Kubernetes API server's answers: the guards against ambiguous JSON and the decoding
  of Leases (\<^verbatim>\<open>csi-driver/pkg/cloud/inspace/kubernetes_fence.go\<close>), the guard of the detach-authority
  reader (\<^verbatim>\<open>kubernetes_detach_authority.go\<close>) and the guard of the InSpace client
  (\<^verbatim>\<open>modules/client/client.go\<close>). The token loops walk the parsed value: a delimiter token is an
  object or an array, \<^verbatim>\<open>More\<close> its next member. Nothing is said of how a second \<^verbatim>\<open>items\<close> member
  would be merged into the first: the guards run before it is decoded.
\<close>

section \<open>Leases\<close>

record lease_metadata =
  lm_Name :: string
  lm_Namespace :: string
  lm_UID :: string
  lm_ResourceVersion :: string
  lm_Labels :: string_map
  lm_Annotations :: string_map

record lease_spec =
  ls_HolderIdentity :: string
  ls_LeaseDurationSeconds :: int

record kubernetesLease =
  lease_APIVersion :: string
  lease_Kind :: string
  lease_Metadata :: lease_metadata
  lease_Spec :: lease_spec

definition zero_lease :: kubernetesLease where
  "zero_lease = \<lparr>lease_APIVersion = [], lease_Kind = [],
     lease_Metadata = \<lparr>lm_Name = [], lm_Namespace = [], lm_UID = [], lm_ResourceVersion = [],
       lm_Labels = fmempty, lm_Annotations = fmempty\<rparr>,
     lease_Spec = \<lparr>ls_HolderIdentity = [], ls_LeaseDurationSeconds = 0\<rparr>\<rparr>"

section \<open>No repeated key\<close>

fun validateUniqueJSONValue :: "json \<Rightarrow> error option"
  and unique_members :: "string list \<Rightarrow> (string \<times> json) list \<Rightarrow> error option"
  and unique_elements :: "json list \<Rightarrow> error option" where
  "validateUniqueJSONValue (JObj ms) = unique_members [] ms"
| "validateUniqueJSONValue (JArr vs) = unique_elements vs"
| "validateUniqueJSONValue _ = None"
| "unique_members seen [] = None"
| "unique_members seen ((key, v) # ms) =
     (if key \<in> set seen then Some (Plain ''duplicate JSON object key'')
      else (case validateUniqueJSONValue v of
          Some err \<Rightarrow> Some err
        | None \<Rightarrow> unique_members (key # seen) ms))"
| "unique_elements [] = None"
| "unique_elements (v # vs) =
     (case validateUniqueJSONValue v of Some err \<Rightarrow> Some err | None \<Rightarrow> unique_elements vs)"

text \<open>The same walk guards every answer of the InSpace API before it is decoded.\<close>

definition validateJSONNoDuplicateObjectKeys :: "string \<Rightarrow> error option" where
  "validateJSONNoDuplicateObjectKeys data =
     (case parse_json data of
        NotJSON \<Rightarrow> Some (Plain ''invalid JSON'')
      | Doc v trailing \<Rightarrow>
          (case validateUniqueJSONValue v of
             Some err \<Rightarrow> Some err
           | None \<Rightarrow> if trailing then Some (Plain ''unexpected trailing JSON token'') else None))"

section \<open>Canonical schema fields\<close>

text \<open>The schema fields of one object, by their exact names; another spelling of one is an error.\<close>

fun canonical_field :: "string \<Rightarrow> string list \<Rightarrow> error + string option" where
  "canonical_field key [] = Inr None"
| "canonical_field key (field # names) =
     (if \<not> EqualFold key field then canonical_field key names
      else if key \<noteq> field then Inl (Plain ''non-canonical JSON schema field'')
      else Inr (Some field))"

fun canonical_members :: "string list \<Rightarrow> (string \<times> json) list \<Rightarrow> (string \<rightharpoonup> json) \<Rightarrow> error + (string \<rightharpoonup> json)" where
  "canonical_members names [] canonical = Inr canonical"
| "canonical_members names ((key, v) # ms) canonical =
     (case canonical_field key names of
        Inl err \<Rightarrow> Inl err
      | Inr None \<Rightarrow> canonical_members names ms canonical
      | Inr (Some field) \<Rightarrow> canonical_members names ms (canonical(field \<mapsto> v)))"

definition decodeSchemaObject :: "json \<Rightarrow> string list \<Rightarrow> error + (string \<rightharpoonup> json)" where
  "decodeSchemaObject v names =
     (case v of
        JObj ms \<Rightarrow>
          if json_depth v > maxNestingDepth then Inl (Plain ''exceeded max depth'')
          else canonical_members names ms Map.empty
      | _ \<Rightarrow> Inl (Plain ''expected a non-null JSON object''))"

definition lease_fields :: "string list" where
  "lease_fields = [''apiVersion'', ''kind'', ''metadata'', ''spec'']"

definition metadata_fields :: "string list" where
  "metadata_fields = [''name'', ''namespace'', ''uid'', ''resourceVersion'', ''labels'', ''annotations'']"

definition spec_fields :: "string list" where
  "spec_fields = [''holderIdentity'', ''leaseDurationSeconds'']"

definition validateKubernetesLeaseObject :: "json \<Rightarrow> error option" where
  "validateKubernetesLeaseObject v =
     (case decodeSchemaObject v lease_fields of
        Inl err \<Rightarrow> Some err
      | Inr object \<Rightarrow>
          (case object ''metadata'' of
             None \<Rightarrow> Some (Plain ''Kubernetes Lease response is missing metadata'')
           | Some metadataJSON \<Rightarrow>
               (case decodeSchemaObject metadataJSON metadata_fields of
                  Inl err \<Rightarrow> Some (Wrap ''Lease metadata'' [err])
                | Inr _ \<Rightarrow>
                    (case object ''spec'' of
                       None \<Rightarrow> None
                     | Some specJSON \<Rightarrow>
                         (case decodeSchemaObject specJSON spec_fields of
                            Inl err \<Rightarrow> Some (Wrap ''Lease spec'' [err])
                          | Inr _ \<Rightarrow> None)))))"

definition maxKubernetesLeaseListItems :: nat where
  "maxKubernetesLeaseListItems = 4096"

fun validate_lease_items :: "nat \<Rightarrow> json list \<Rightarrow> error option" where
  "validate_lease_items index [] = None"
| "validate_lease_items index (item # items) =
     (if index \<ge> maxKubernetesLeaseListItems then Some (Plain ''Kubernetes Lease list exceeds its bound'')
      else (case validateKubernetesLeaseObject item of
          Some err \<Rightarrow> Some (Wrap ''Lease list item'' [err])
        | None \<Rightarrow> validate_lease_items (Suc index) items))"

definition validateKubernetesLeaseListItems :: "json \<Rightarrow> error option" where
  "validateKubernetesLeaseListItems v =
     (case v of
        JArr items \<Rightarrow> validate_lease_items 0 items
      | _ \<Rightarrow> Some (Plain ''Kubernetes Lease list items must be a non-null JSON array''))"

text \<open>\<^verbatim>\<open>validateKubernetesLeaseSchemaFields\<close> on a \<^verbatim>\<open>*kubernetesLeaseList\<close>.\<close>

definition validateLeaseList :: "json \<Rightarrow> error option" where
  "validateLeaseList v =
     (case decodeSchemaObject v [''items''] of
        Inl err \<Rightarrow> Some err
      | Inr object \<Rightarrow>
          (case object ''items'' of
             None \<Rightarrow> Some (Plain ''Kubernetes Lease list response is missing items'')
           | Some itemsJSON \<Rightarrow> validateKubernetesLeaseListItems itemsJSON))"

section \<open>Decoding\<close>

fun unmarshal_metadata :: "json list \<Rightarrow> lease_metadata \<Rightarrow> error + lease_metadata" where
  "unmarshal_metadata [] m = Inr m"
| "unmarshal_metadata (JObj ms # vs) m =
     attempt_ok (unmarshal_string (field_values ''name'' ms) (lm_Name m)) (\<lambda>name.
     attempt_ok (unmarshal_string (field_values ''namespace'' ms) (lm_Namespace m)) (\<lambda>namespace.
     attempt_ok (unmarshal_string (field_values ''uid'' ms) (lm_UID m)) (\<lambda>uid.
     attempt_ok (unmarshal_string (field_values ''resourceVersion'' ms) (lm_ResourceVersion m)) (\<lambda>rv.
     attempt_ok (unmarshal_map (field_values ''labels'' ms) (lm_Labels m)) (\<lambda>labels.
     attempt_ok (unmarshal_map (field_values ''annotations'' ms) (lm_Annotations m)) (\<lambda>annotations.
     unmarshal_metadata vs \<lparr>lm_Name = name, lm_Namespace = namespace, lm_UID = uid, lm_ResourceVersion = rv,
       lm_Labels = labels, lm_Annotations = annotations\<rparr>))))))"
| "unmarshal_metadata (JNull # vs) m = unmarshal_metadata vs m"
| "unmarshal_metadata (_ # vs) m = Inl type_error"

fun unmarshal_spec :: "json list \<Rightarrow> lease_spec \<Rightarrow> error + lease_spec" where
  "unmarshal_spec [] m = Inr m"
| "unmarshal_spec (JObj ms # vs) m =
     attempt_ok (unmarshal_string (field_values ''holderIdentity'' ms) (ls_HolderIdentity m)) (\<lambda>holder.
     attempt_ok (unmarshal_int (2 ^ 31) (field_values ''leaseDurationSeconds'' ms) (ls_LeaseDurationSeconds m)) (\<lambda>seconds.
     unmarshal_spec vs \<lparr>ls_HolderIdentity = holder, ls_LeaseDurationSeconds = seconds\<rparr>))"
| "unmarshal_spec (JNull # vs) m = unmarshal_spec vs m"
| "unmarshal_spec (_ # vs) m = Inl type_error"

definition unmarshal_lease :: "json \<Rightarrow> error + kubernetesLease" where
  "unmarshal_lease v =
     (case v of
        JObj ms \<Rightarrow>
          attempt_ok (unmarshal_string (field_values ''apiVersion'' ms) []) (\<lambda>apiVersion.
          attempt_ok (unmarshal_string (field_values ''kind'' ms) []) (\<lambda>kind.
          attempt_ok (unmarshal_metadata (field_values ''metadata'' ms) (lease_Metadata zero_lease)) (\<lambda>metadata.
          attempt_ok (unmarshal_spec (field_values ''spec'' ms) (lease_Spec zero_lease)) (\<lambda>spec.
          Inr \<lparr>lease_APIVersion = apiVersion, lease_Kind = kind, lease_Metadata = metadata, lease_Spec = spec\<rparr>))))
      | JNull \<Rightarrow> Inr zero_lease
      | _ \<Rightarrow> Inl type_error)"

fun unmarshal_leases :: "json list \<Rightarrow> error + kubernetesLease list" where
  "unmarshal_leases [] = Inr []"
| "unmarshal_leases (v # vs) =
     attempt_ok (unmarshal_lease v) (\<lambda>lease. attempt_ok (unmarshal_leases vs) (\<lambda>leases. Inr (lease # leases)))"

fun unmarshal_items :: "json list \<Rightarrow> kubernetesLease list \<Rightarrow> error + kubernetesLease list" where
  "unmarshal_items [] items = Inr items"
| "unmarshal_items (JArr vs # ws) items = attempt_ok (unmarshal_leases vs) (\<lambda>leases. unmarshal_items ws leases)"
| "unmarshal_items (JNull # ws) items = unmarshal_items ws []"
| "unmarshal_items (_ # ws) items = Inl type_error"

definition unmarshal_lease_list :: "json \<Rightarrow> error + kubernetesLease list" where
  "unmarshal_lease_list v =
     (case v of
        JObj ms \<Rightarrow> unmarshal_items (field_values ''items'' ms) []
      | JNull \<Rightarrow> Inr []
      | _ \<Rightarrow> Inl type_error)"

text \<open>\<^verbatim>\<open>decodeKubernetesLeaseJSON\<close> with the checks and the target of its destination.\<close>

definition decodeKubernetesLeaseJSON ::
  "(json \<Rightarrow> error option) \<Rightarrow> (json \<Rightarrow> error + 'a) \<Rightarrow> string \<Rightarrow> error + 'a" where
  "decodeKubernetesLeaseJSON schema unmarshal data =
     (case parse_json data of
        NotJSON \<Rightarrow> Inl (Plain ''invalid JSON'')
      | Doc v trailing \<Rightarrow>
          fail_if (validateUniqueJSONValue v)
            (if trailing then Inl (Plain ''unexpected trailing JSON token'')
             else fail_if (schema v)
               (if json_depth v > maxNestingDepth then Inl (Plain ''exceeded max depth'')
                else unmarshal v)))"

definition decodeMutationLease :: "string \<Rightarrow> error + kubernetesLease" where
  "decodeMutationLease data =
     (case decodeKubernetesLeaseJSON validateKubernetesLeaseObject unmarshal_lease data of
        Inl err \<Rightarrow> Inl (Wrap ''decode Kubernetes mutation Lease'' [Sentinel ErrUnavailable])
      | Inr lease \<Rightarrow> Inr lease)"

end
