(* ===== verification/Go_HTTP.thy ===== *)
theory Go_HTTP
  imports Go_URL Go_JSON
begin

text \<open>
  What the sources use of \<^verbatim>\<open>net/http\<close> and of the escapes of \<^verbatim>\<open>net/url\<close>: responses as the clients
  read them, the encoding of form values, the texts of the status codes, and the network error
  in an error tree.
\<close>

text \<open>A response: its status, the declared length, the delivered bytes and the error the stream ended with.\<close>

record http_response =
  hr_StatusCode :: int
  hr_ContentLength :: int
  hr_Body :: string
  hr_ReadError :: "error option"

definition success_status :: "int \<Rightarrow> bool" where
  "success_status status = (200 \<le> status \<and> status < 300)"

section \<open>Escapes\<close>

definition path_escape_plain :: "char \<Rightarrow> bool" where
  "path_escape_plain c = (unreserved c \<or> c \<in> set ''$&+=:@'')"

definition PathEscape :: "string \<Rightarrow> string" where
  "PathEscape s = concat (map (\<lambda>c. if path_escape_plain c then [c] else escape_char c) s)"

definition QueryEscape :: "string \<Rightarrow> string" where
  "QueryEscape s = concat (map (\<lambda>c. if unreserved c then [c] else if c = CHR '' '' then ''+'' else escape_char c) s)"

definition trim_right_slash :: "string \<Rightarrow> string" where
  "trim_right_slash s = rev (dropWhile (\<lambda>c. c = CHR ''/'') (rev s))"

lemma upper_hex_facts: "n < 16 \<Longrightarrow> is_hex_any (upper_hex n) \<and> unhex (upper_hex n) = n"
  by (auto simp: upper_hex_def is_hex_any_def unhex_def Let_def)

lemma url_unescape_escape_char: "url_unescape (escape_char c @ s) = map_option ((#) c) (url_unescape s)"
proof -
  have "(of_char c :: nat) < 16 * 16" by simp
  then have "(of_char c :: nat) div 16 < 16" "(of_char c :: nat) mod 16 < 16"
    by (rule less_mult_imp_div_less) simp
  then show ?thesis
    by (simp add: escape_char_def Let_def upper_hex_facts)
qed

lemma path_escape_plain_percent: "path_escape_plain c \<Longrightarrow> c \<noteq> CHR ''%''"
  by (auto simp: path_escape_plain_def unreserved_def is_alpha_def is_digit_char_def)

lemma url_unescape_PathEscape: "url_unescape (PathEscape s) = Some s"
  by (induction s) (auto simp: PathEscape_def url_unescape_escape_char path_escape_plain_percent)

lemma PathEscape_inj [simp]: "PathEscape s = PathEscape t \<longleftrightarrow> s = t"
  by (metis option.inject url_unescape_PathEscape)

section \<open>Form values\<close>

text \<open>
  \<^verbatim>\<open>url.Values\<close> with one value per key, as all callers build them. \<^verbatim>\<open>Encode\<close> sorts by key.
\<close>

type_synonym form_values = "(string \<times> string) list"

definition Values_Set :: "string \<Rightarrow> string \<Rightarrow> form_values \<Rightarrow> form_values" where
  "Values_Set k v vs = filter (\<lambda>(k', _). k' \<noteq> k) vs @ [(k, v)]"

fun encode_pairs :: "form_values \<Rightarrow> string" where
  "encode_pairs [] = []"
| "encode_pairs [(k, v)] = QueryEscape k @ ''='' @ QueryEscape v"
| "encode_pairs ((k, v) # vs) = QueryEscape k @ ''='' @ QueryEscape v @ ''&'' @ encode_pairs vs"

definition Values_Encode :: "form_values \<Rightarrow> string" where
  "Values_Encode vs = encode_pairs (sort_key fst vs)"

section \<open>Status texts\<close>

definition StatusText :: "int \<Rightarrow> string" where
  "StatusText status = (case map_of
     [(100, ''Continue''), (101, ''Switching Protocols''), (102, ''Processing''), (103, ''Early Hints''),
      (200, ''OK''), (201, ''Created''), (202, ''Accepted''), (203, ''Non-Authoritative Information''),
      (204, ''No Content''), (205, ''Reset Content''), (206, ''Partial Content''), (207, ''Multi-Status''),
      (208, ''Already Reported''), (226, ''IM Used''), (300, ''Multiple Choices''), (301, ''Moved Permanently''),
      (302, ''Found''), (303, ''See Other''), (304, ''Not Modified''), (305, ''Use Proxy''),
      (307, ''Temporary Redirect''), (308, ''Permanent Redirect''), (400, ''Bad Request''), (401, ''Unauthorized''),
      (402, ''Payment Required''), (403, ''Forbidden''), (404, ''Not Found''), (405, ''Method Not Allowed''),
      (406, ''Not Acceptable''), (407, ''Proxy Authentication Required''), (408, ''Request Timeout''),
      (409, ''Conflict''), (410, ''Gone''), (411, ''Length Required''), (412, ''Precondition Failed''),
      (413, ''Request Entity Too Large''), (414, ''Request URI Too Long''), (415, ''Unsupported Media Type''),
      (416, ''Requested Range Not Satisfiable''), (417, ''Expectation Failed''),
      (418, ''I'' @ [CHR 0x27] @ ''m a teapot''), (421, ''Misdirected Request''), (422, ''Unprocessable Entity''),
      (423, ''Locked''), (424, ''Failed Dependency''), (425, ''Too Early''), (426, ''Upgrade Required''),
      (428, ''Precondition Required''), (429, ''Too Many Requests''), (431, ''Request Header Fields Too Large''),
      (451, ''Unavailable For Legal Reasons''), (500, ''Internal Server Error''), (501, ''Not Implemented''),
      (502, ''Bad Gateway''), (503, ''Service Unavailable''), (504, ''Gateway Timeout''),
      (505, ''HTTP Version Not Supported''), (506, ''Variant Also Negotiates''), (507, ''Insufficient Storage''),
      (508, ''Loop Detected''), (510, ''Not Extended''), (511, ''Network Authentication Required'')] status of
     None \<Rightarrow> [] | Some t \<Rightarrow> t)"

section \<open>Network errors\<close>

text \<open>
  \<^verbatim>\<open>errors.As\<close> with a \<^verbatim>\<open>net.Error\<close> target: the first node of the tree that has \<^verbatim>\<open>Timeout\<close> and
  \<^verbatim>\<open>Temporary\<close> methods. The deadline error of a context is one, a system error number too.
\<close>

fun errors_as_net :: "error \<Rightarrow> error option"
  and errors_as_net_list :: "error list \<Rightarrow> error option" where
  "errors_as_net (Sentinel s) = (if s = CtxDeadlineExceeded then Some (Sentinel s) else None)"
| "errors_as_net (Plain m) = None"
| "errors_as_net (Api a c) = (case c of None \<Rightarrow> None | Some e \<Rightarrow> errors_as_net e)"
| "errors_as_net (Wrap m es) = errors_as_net_list es"
| "errors_as_net (Joined es) = errors_as_net_list es"
| "errors_as_net (UrlError e) = Some (UrlError e)"
| "errors_as_net (DNSError b) = Some (DNSError b)"
| "errors_as_net (Errno n) = Some (Errno n)"
| "errors_as_net (NetError b) = Some (NetError b)"
| "errors_as_net OutOfFuel = None"
| "errors_as_net_list [] = None"
| "errors_as_net_list (e # es) =
     (case errors_as_net e of Some n \<Rightarrow> Some n | None \<Rightarrow> errors_as_net_list es)"

end
