(* ===== verification/Kube_API.thy ===== *)
theory Kube_API
  imports Runtime Kube_JSON Go_HTTP Detach_Request
begin

text \<open>
  The Kubernetes API client of the CSI driver (\<^verbatim>\<open>csi-driver/pkg/cloud/inspace/kubernetes.go\<close> and the
  request functions of \<^verbatim>\<open>kubernetes_fence.go\<close>): one authenticated request with a bounded, complete
  response, and the provider ID of a Node. The HTTP transport is the parameter \<open>kr_do\<close>, the token
  file \<open>kr_readToken\<close>; a response is a status, the declared length, the delivered bytes and the
  error the stream ended with, if any. The request URI is passed on as written: it is built from
  escaped segments only, so parsing and printing it again changes nothing.
\<close>

text \<open>
  The resolver. The last five fields stand for the SHA-256 digest in hexadecimal and for the JSON
  texts of intents and observations, which fences carry as decoded values.
\<close>

record 'w KubernetesNodeResolver =
  kr_basePath :: string
  kr_readToken :: "'w \<Rightarrow> (error + string) \<times> nat \<times> 'w"
  kr_do :: "ctx \<Rightarrow> string \<Rightarrow> string \<Rightarrow> string \<Rightarrow> string option \<Rightarrow> 'w \<Rightarrow> (error + http_response) \<times> nat \<times> 'w"
  kr_namespace :: string
  kr_sha256hex :: "string \<Rightarrow> string"
  kr_intentText :: "intent_text \<Rightarrow> string"
  kr_intent :: "string \<Rightarrow> intent_text"
  kr_obsText :: "obs_text \<Rightarrow> string"
  kr_obs :: "string \<Rightarrow> obs_text"

definition context_error :: "error \<Rightarrow> bool" where
  "context_error e = (errors_is CtxCanceled e \<or> errors_is CtxDeadlineExceeded e)"

definition maxKubernetesAPIResponseBytes :: int where
  "maxKubernetesAPIResponseBytes = 1048576"

text \<open>
  The result is the status, the body and the error. \<^verbatim>\<open>io.ReadAll\<close> reads at most one byte more than
  the limit, so a read error further on is not seen; the response is then too large anyway.
\<close>

definition readKubernetesResponse :: "http_response \<Rightarrow> int \<Rightarrow> int \<times> string \<times> error option" where
  "readKubernetesResponse resp maxResponseBytes =
     (let data = take (nat (maxResponseBytes + 1)) (hr_Body resp);
          oversized = Some (Wrap ''Kubernetes API response exceeds its bound'' [Sentinel ErrUnavailable])
      in if hr_ContentLength resp > maxResponseBytes then (hr_StatusCode resp, [], oversized)
         else (case (int (length (hr_Body resp)) \<le> maxResponseBytes, hr_ReadError resp) of
             (True, Some err) \<Rightarrow>
               (hr_StatusCode resp, [],
                Some (if context_error err then err
                      else Wrap ''read Kubernetes API response'' [Sentinel ErrUnavailable]))
           | _ \<Rightarrow>
               if int (length data) > maxResponseBytes then (hr_StatusCode resp, [], oversized)
               else if hr_ContentLength resp \<ge> 0 \<and> int (length data) \<noteq> hr_ContentLength resp
               then (hr_StatusCode resp, [],
                 Some (Wrap ''Kubernetes API response body length does not match Content-Length'' [Sentinel ErrUnavailable]))
               else (hr_StatusCode resp, data, None)))"

definition kubernetesAPIRequestWithLimit :: "'w KubernetesNodeResolver \<Rightarrow> ctx \<Rightarrow> string \<Rightarrow> string
    \<Rightarrow> string option \<Rightarrow> int \<Rightarrow> ('w, int \<times> string \<times> error option) prog" where
  "kubernetesAPIRequestWithLimit r c meth path body maxResponseBytes =
     (if maxResponseBytes \<le> 0
      then ret (0, [], Some (Plain ''Kubernetes API response limit must be positive''))
      else do {
        token \<leftarrow> call_silent (kr_readToken r);
        case token of
          Inl err \<Rightarrow> ret (0, [], Some (Wrap ''read Kubernetes ServiceAccount token'' [Sentinel ErrUnavailable]))
        | Inr token \<Rightarrow> do {
            resp \<leftarrow> call_silent (kr_do r c meth (TrimSpace token) (trim_right_slash (kr_basePath r) @ path) body);
            case resp of
              Inl err \<Rightarrow> ret (0, [], Some (if context_error err then err
                                          else Wrap ''Kubernetes API request'' [Sentinel ErrUnavailable]))
            | Inr resp \<Rightarrow> ret (readKubernetesResponse resp maxResponseBytes)
          }
      })"

definition kubernetesAPIRequest :: "'w KubernetesNodeResolver \<Rightarrow> ctx \<Rightarrow> string \<Rightarrow> string
    \<Rightarrow> string option \<Rightarrow> ('w, int \<times> string \<times> error option) prog" where
  "kubernetesAPIRequest r c meth path body =
     kubernetesAPIRequestWithLimit r c meth path body maxKubernetesAPIResponseBytes"

section \<open>The provider ID of a Node\<close>

text \<open>
  The node's \<^verbatim>\<open>spec.providerID\<close>, decoded without the guards of the Lease reader: of several
  members whose names match, the last one counts.
\<close>

fun unmarshal_providerID :: "json list \<Rightarrow> string \<Rightarrow> error + string" where
  "unmarshal_providerID [] p = Inr p"
| "unmarshal_providerID (JObj ms # vs) p =
     attempt_ok (unmarshal_string (field_values ''providerID'' ms) p) (\<lambda>p'. unmarshal_providerID vs p')"
| "unmarshal_providerID (JNull # vs) p = unmarshal_providerID vs p"
| "unmarshal_providerID (_ # vs) p = Inl type_error"

definition unmarshal_node :: "string \<Rightarrow> error + string" where
  "unmarshal_node data =
     (case parse_json data of
        Doc v False \<Rightarrow>
          if json_depth v > maxNestingDepth then Inl (Plain ''exceeded max depth'')
          else (case v of
              JObj ms \<Rightarrow> unmarshal_providerID (field_values ''spec'' ms) []
            | JNull \<Rightarrow> Inr []
            | _ \<Rightarrow> Inl type_error)
      | _ \<Rightarrow> Inl (Plain ''invalid JSON''))"

definition nodeProviderID :: "http_response \<Rightarrow> error + string" where
  "nodeProviderID resp =
     (let data = take 1048576 (hr_Body resp); status = hr_StatusCode resp in
      case (length (hr_Body resp) < 1048576, hr_ReadError resp) of
        (True, Some err) \<Rightarrow>
          Inl (if context_error err then err else Wrap ''read Kubernetes node'' [Sentinel ErrUnavailable])
      | _ \<Rightarrow>
          if status = 404 then Inl (Wrap ''Kubernetes node not found'' [Sentinel ErrKubernetesNodeNotFound])
          else if \<not> success_status status then
            (if status = 429 \<or> status \<ge> 500
             then Inl (Wrap ''Kubernetes API returned HTTP'' [Sentinel ErrUnavailable])
             else Inl (Plain ''Kubernetes API returned HTTP''))
          else (case unmarshal_node data of
              Inl err \<Rightarrow> Inl (Wrap ''decode Kubernetes node'' [Sentinel ErrUnavailable])
            | Inr providerID \<Rightarrow>
                if TrimSpace providerID = [] then Inl (Plain ''Kubernetes node has no spec.providerID'')
                else Inr providerID))"

definition ProviderIDForNode :: "'w KubernetesNodeResolver \<Rightarrow> ctx \<Rightarrow> string \<Rightarrow> ('w, error + string) prog" where
  "ProviderIDForNode r c nodeName =
     (if \<not> nodeNamePattern nodeName then ret (Inl (Plain ''invalid Kubernetes node name''))
      else do {
        token \<leftarrow> call_silent (kr_readToken r);
        case token of
          Inl err \<Rightarrow> ret (Inl (Wrap ''read Kubernetes ServiceAccount token'' [Sentinel ErrUnavailable]))
        | Inr token \<Rightarrow> do {
            resp \<leftarrow> call_silent (kr_do r c ''GET'' (TrimSpace token)
                      (trim_right_slash (kr_basePath r) @ ''/api/v1/nodes/'' @ PathEscape nodeName) None);
            case resp of
              Inl err \<Rightarrow> ret (Inl (if context_error err then err
                                  else Wrap ''query Kubernetes node'' [Sentinel ErrUnavailable]))
            | Inr resp \<Rightarrow> ret (nodeProviderID resp)
          }
      })"

text \<open>A request that returns without an error got a complete answer within the limit.\<close>

lemma readKubernetesResponse_complete:
  "readKubernetesResponse resp m = (status, data, None) \<Longrightarrow>
     status = hr_StatusCode resp \<and> data = hr_Body resp \<and> hr_ReadError resp = None"
  by (auto simp: readKubernetesResponse_def Let_def split: if_splits bool.splits option.splits)

definition request_uri :: "'w KubernetesNodeResolver \<Rightarrow> string \<Rightarrow> string" where
  "request_uri r path = trim_right_slash (kr_basePath r) @ path"

lemma request_uri_inj [simp]: "request_uri r p = request_uri r q \<longleftrightarrow> p = q"
  by (simp add: request_uri_def)

end
