(* ===== verification/Lease_JSON.thy ===== *)
theory Lease_JSON
  imports Kube_JSON
begin

text \<open>
  What the JSON guards are for. A Lease document the store accepts has one reading: the one of a
  reader that takes every field by its exact name from the only member with that name. The
  reference reader \<open>strict_lease\<close> is written that way. In the other direction, the document the
  store prints for a Lease of ASCII strings is accepted and read back as that Lease.
\<close>

section \<open>The reference reader\<close>

definition strict_string :: "string \<Rightarrow> (string \<times> json) list \<Rightarrow> error + string" where
  "strict_string f ms =
     (case map_of ms f of
        None \<Rightarrow> Inr [] | Some JNull \<Rightarrow> Inr [] | Some (JStr s) \<Rightarrow> Inr s | Some _ \<Rightarrow> Inl type_error)"

definition strict_int32 :: "string \<Rightarrow> (string \<times> json) list \<Rightarrow> error + int" where
  "strict_int32 f ms =
     (case map_of ms f of
        None \<Rightarrow> Inr 0 | Some JNull \<Rightarrow> Inr 0
      | Some (JInt i) \<Rightarrow> (if - (2 ^ 31) \<le> i \<and> i < 2 ^ 31 then Inr i else Inl type_error)
      | Some _ \<Rightarrow> Inl type_error)"

fun text_of :: "json \<Rightarrow> string option" where
  "text_of (JStr s) = Some s"
| "text_of JNull = Some []"
| "text_of _ = None"

definition strict_map :: "string \<Rightarrow> (string \<times> json) list \<Rightarrow> error + string_map" where
  "strict_map f ms =
     (case map_of ms f of
        None \<Rightarrow> Inr fmempty | Some JNull \<Rightarrow> Inr fmempty
      | Some (JObj es) \<Rightarrow>
          (if list_ex (\<lambda>(k, v). text_of v = None) es then Inl type_error
           else Inr (fmap_of_list (map (\<lambda>(k, v). (k, the (text_of v))) es)))
      | Some _ \<Rightarrow> Inl type_error)"

fun members_of :: "json \<Rightarrow> (string \<times> json) list" where
  "members_of (JObj ms) = ms"
| "members_of _ = []"

definition sub_object :: "string \<Rightarrow> (string \<times> json) list \<Rightarrow> (string \<times> json) list" where
  "sub_object f ms = (case map_of ms f of None \<Rightarrow> [] | Some v \<Rightarrow> members_of v)"

definition strict_lease :: "(string \<times> json) list \<Rightarrow> error + kubernetesLease" where
  "strict_lease ms =
     (let md = sub_object ''metadata'' ms; sp = sub_object ''spec'' ms in
      attempt_ok (strict_string ''apiVersion'' ms) (\<lambda>apiVersion.
      attempt_ok (strict_string ''kind'' ms) (\<lambda>kind.
      attempt_ok (strict_string ''name'' md) (\<lambda>name.
      attempt_ok (strict_string ''namespace'' md) (\<lambda>namespace.
      attempt_ok (strict_string ''uid'' md) (\<lambda>uid.
      attempt_ok (strict_string ''resourceVersion'' md) (\<lambda>rv.
      attempt_ok (strict_map ''labels'' md) (\<lambda>labels.
      attempt_ok (strict_map ''annotations'' md) (\<lambda>annotations.
      attempt_ok (strict_string ''holderIdentity'' sp) (\<lambda>holder.
      attempt_ok (strict_int32 ''leaseDurationSeconds'' sp) (\<lambda>seconds.
      Inr \<lparr>lease_APIVersion = apiVersion, lease_Kind = kind,
        lease_Metadata = \<lparr>lm_Name = name, lm_Namespace = namespace, lm_UID = uid, lm_ResourceVersion = rv,
          lm_Labels = labels, lm_Annotations = annotations\<rparr>,
        lease_Spec = \<lparr>ls_HolderIdentity = holder, ls_LeaseDurationSeconds = seconds\<rparr>\<rparr>)))))))))))"

section \<open>Unique and canonical members\<close>

lemma unique_members_None:
  "unique_members seen ms = None \<longleftrightarrow>
     distinct (map fst ms) \<and> set (map fst ms) \<inter> set seen = {}
     \<and> (\<forall>(k, v) \<in> set ms. validateUniqueJSONValue v = None)"
proof (induction ms arbitrary: seen)
  case (Cons a ms)
  obtain k v where a: "a = (k, v)" by (cases a)
  show ?case
    by (cases "validateUniqueJSONValue v") (auto simp: a Cons[of "k # seen"])
qed simp

lemma unique_elements_None:
  "unique_elements vs = None \<longleftrightarrow> (\<forall>v \<in> set vs. validateUniqueJSONValue v = None)"
  by (induction vs) (auto split: option.splits)

text \<open>Every key that some schema field matches is that field.\<close>

definition canonical_keys :: "string list \<Rightarrow> (string \<times> json) list \<Rightarrow> bool" where
  "canonical_keys names ms = (\<forall>(k, v) \<in> set ms. \<forall>f \<in> set names. EqualFold k f \<longrightarrow> k = f)"

lemma canonical_field_Inr:
  assumes "distinct (map ToLower names)" and "canonical_field key names = Inr r"
  shows "(\<forall>f \<in> set names. EqualFold key f \<longrightarrow> key = f)
    \<and> r = (if key \<in> set names then Some key else None)"
  using assms
  by (induction names) (auto simp: EqualFold_def split: if_splits)

lemma canonical_members_Inr:
  assumes "distinct (map ToLower names)"
    and "canonical_members names ms c = Inr object"
  shows "canonical_keys names ms
    \<and> (distinct (map fst ms) \<longrightarrow> (\<forall>f \<in> set names. object f = (case map_of ms f of Some v \<Rightarrow> Some v | None \<Rightarrow> c f)))"
  using assms(2)
proof (induction ms arbitrary: c)
  case (Cons a ms)
  obtain key v where a: "a = (key, v)" by (cases a)
  from Cons.prems a obtain r where r: "canonical_field key names = Inr r"
    by (auto split: sum.splits)
  note k = canonical_field_Inr[OF assms(1) r]
  show ?case
  proof (cases r)
    case None
    with k have "key \<notin> set names" by (auto split: if_splits)
    with Cons.IH[of c] Cons.prems a r None k show ?thesis
      by (fastforce simp: canonical_keys_def)
  next
    case (Some f)
    with k have f: "f = key" "key \<in> set names" by (auto split: if_splits)
    have "canonical_members names ms (c(key \<mapsto> v)) = Inr object"
      using Cons.prems a r Some f by simp
    from Cons.IH[OF this] k f show ?thesis
      by (auto simp: canonical_keys_def a split: option.splits dest: map_of_SomeD) force+
  qed
qed (simp add: canonical_keys_def)

lemma decodeSchemaObject_Inr:
  assumes "distinct (map ToLower names)"
    and "decodeSchemaObject v names = Inr object" and "validateUniqueJSONValue v = None"
  shows "\<exists>ms. v = JObj ms \<and> canonical_keys names ms \<and> distinct (map fst ms)
    \<and> (\<forall>f \<in> set names. object f = map_of ms f)"
proof -
  from assms(2) obtain ms where v: "v = JObj ms" "canonical_members names ms Map.empty = Inr object"
    by (auto simp: decodeSchemaObject_def split: json.splits if_splits)
  with assms(3) have d: "distinct (map fst ms)" by (simp add: unique_members_None)
  with canonical_members_Inr[OF assms(1) v(2)] show ?thesis
    by (auto simp: v(1) split: option.splits)
qed

lemma field_values_exact:
  assumes "canonical_keys names ms" and "distinct (map fst ms)" and "f \<in> set names"
  shows "field_values f ms = (case map_of ms f of None \<Rightarrow> [] | Some v \<Rightarrow> [v])"
proof -
  have "filter (\<lambda>(k, v). EqualFold k f) ms = filter (\<lambda>(k, v). k = f) ms"
    using assms(1,3) by (intro filter_cong) (auto simp: canonical_keys_def)
  moreover have "map snd (filter (\<lambda>(k, v). k = f) ms) = (case map_of ms f of None \<Rightarrow> [] | Some v \<Rightarrow> [v])"
    using assms(2)
  proof (induction ms)
    case (Cons a ms)
    then have "fst a = f \<Longrightarrow> filter (\<lambda>(k, v). k = f) ms = []"
      by (auto simp: filter_empty_conv image_iff)
    with Cons show ?case by (cases a) auto
  qed simp
  ultimately show ?thesis by (simp add: field_values_def)
qed

section \<open>Reading one field\<close>

lemma unmarshal_string_exact:
  assumes "field_values f ms = (case map_of ms f of None \<Rightarrow> [] | Some v \<Rightarrow> [v])"
  shows "unmarshal_string (field_values f ms) [] = strict_string f ms"
  using assms by (auto simp: strict_string_def split: option.splits json.splits)

lemma unmarshal_int_exact:
  assumes "field_values f ms = (case map_of ms f of None \<Rightarrow> [] | Some v \<Rightarrow> [v])"
  shows "unmarshal_int (2 ^ 31) (field_values f ms) 0 = strict_int32 f ms"
  using assms by (auto simp: strict_int32_def split: option.splits json.splits)

lemma unmarshal_entries_unique:
  "distinct (map fst es) \<Longrightarrow> unmarshal_entries es m =
     (if list_ex (\<lambda>(k, v). text_of v = None) es then Inl type_error
      else Inr (m ++\<^sub>f fmap_of_list (map (\<lambda>(k, v). (k, the (text_of v))) es)))"
proof (induction es arbitrary: m)
  case (Cons a es)
  obtain k v where a: "a = (k, v)" by (cases a)
  have k: "fmlookup (fmap_of_list (map (\<lambda>(k, v). (k, the (text_of v))) es)) k = None"
    using Cons.prems a
    by (auto simp: fmlookup_of_list map_of_eq_None_iff image_iff case_prod_beta)
  have e: "fmupd k s m ++\<^sub>f fmap_of_list (map (\<lambda>(k, v). (k, the (text_of v))) es)
      = m ++\<^sub>f fmupd k s (fmap_of_list (map (\<lambda>(k, v). (k, the (text_of v))) es))" for s m
    using Cons.prems a by (intro fmap_ext) (force simp: fmlookup_dom_iff k fset_of_list_elem)
  show ?case
    using Cons e by (cases v) (auto simp: a)
qed simp

lemma unmarshal_map_exact:
  assumes "field_values f ms = (case map_of ms f of None \<Rightarrow> [] | Some v \<Rightarrow> [v])"
    and "\<And>es. map_of ms f = Some (JObj es) \<Longrightarrow> distinct (map fst es)"
  shows "unmarshal_map (field_values f ms) fmempty = strict_map f ms"
proof (cases "map_of ms f")
  case (Some v)
  with assms show ?thesis
    by (cases v) (simp_all add: strict_map_def unmarshal_entries_unique)
qed (simp add: assms(1) strict_map_def)

lemma unique_member: "validateUniqueJSONValue (JObj ms) = None \<Longrightarrow> map_of ms f = Some v \<Longrightarrow> validateUniqueJSONValue v = None"
  by (auto simp: unique_members_None dest!: map_of_SomeD)

lemma unique_object_keys: "validateUniqueJSONValue (JObj ms) = None \<Longrightarrow> distinct (map fst ms)"
  by (simp add: unique_members_None)

section \<open>Accepted documents have one reading\<close>

lemma schema_names_distinct:
  "distinct (map ToLower lease_fields)" "distinct (map ToLower metadata_fields)" "distinct (map ToLower spec_fields)"
  by code_simp+

lemma validateKubernetesLeaseObject_None:
  assumes "validateKubernetesLeaseObject v = None" and "validateUniqueJSONValue v = None"
  shows "\<exists>ms md. v = JObj ms \<and> canonical_keys lease_fields ms \<and> distinct (map fst ms)
    \<and> map_of ms ''metadata'' = Some (JObj md) \<and> canonical_keys metadata_fields md \<and> distinct (map fst md)
    \<and> (\<forall>w. map_of ms ''spec'' = Some w \<longrightarrow>
         (\<exists>sp. w = JObj sp \<and> canonical_keys spec_fields sp \<and> distinct (map fst sp)))"
proof -
  from assms(1) obtain object where o: "decodeSchemaObject v lease_fields = Inr object"
    by (auto simp: validateKubernetesLeaseObject_def split: sum.splits)
  from decodeSchemaObject_Inr[OF schema_names_distinct(1) o assms(2)] obtain ms where
    ms: "v = JObj ms" "canonical_keys lease_fields ms" "distinct (map fst ms)"
      "\<forall>f \<in> set lease_fields. object f = map_of ms f" by blast
  then have mo: "object ''metadata'' = map_of ms ''metadata''" "object ''spec'' = map_of ms ''spec''"
    by (simp_all add: lease_fields_def)
  from assms(1) o mo obtain m om where m: "map_of ms ''metadata'' = Some m"
      "decodeSchemaObject m metadata_fields = Inr om"
    by (auto simp: validateKubernetesLeaseObject_def split: sum.splits option.splits)
  note u = unique_member[OF assms(2)[unfolded ms(1)]]
  from decodeSchemaObject_Inr[OF schema_names_distinct(2) m(2) u[OF m(1)]] obtain md where
    md: "m = JObj md" "canonical_keys metadata_fields md" "distinct (map fst md)" by blast
  have "\<exists>sp. w = JObj sp \<and> canonical_keys spec_fields sp \<and> distinct (map fst sp)"
    if w: "map_of ms ''spec'' = Some w" for w
  proof -
    from assms(1) o mo m w obtain os where "decodeSchemaObject w spec_fields = Inr os"
      by (auto simp: validateKubernetesLeaseObject_def split: sum.splits option.splits)
    from decodeSchemaObject_Inr[OF schema_names_distinct(3) this u[OF w]] show ?thesis by blast
  qed
  with ms m md show ?thesis by blast
qed

lemma unmarshal_lease_strict:
  assumes "validateKubernetesLeaseObject (JObj ms) = None" and "validateUniqueJSONValue (JObj ms) = None"
  shows "unmarshal_lease (JObj ms) = strict_lease ms"
proof -
  from validateKubernetesLeaseObject_None[OF assms] obtain md where
    ms: "canonical_keys lease_fields ms" "distinct (map fst ms)" and
    md: "map_of ms ''metadata'' = Some (JObj md)" "canonical_keys metadata_fields md" "distinct (map fst md)" and
    sp: "\<forall>w. map_of ms ''spec'' = Some w \<longrightarrow>
         (\<exists>sp. w = JObj sp \<and> canonical_keys spec_fields sp \<and> distinct (map fst sp))" by auto
  note fm = field_values_exact[OF ms, unfolded lease_fields_def]
  note fd = field_values_exact[OF md(2,3), unfolded metadata_fields_def]
  have es: "distinct (map fst es)" if "map_of md f = Some (JObj es)" for f es
    using unique_object_keys unique_member[OF unique_member[OF assms(2) md(1)] that] by blast
  note rd = unmarshal_string_exact[OF fd] unmarshal_map_exact[OF fd es]
  note rm = unmarshal_string_exact[OF fm]
  have v: "field_values ''metadata'' ms = [JObj md]" "sub_object ''metadata'' ms = md"
    using fm md(1) by (simp_all add: sub_object_def)
  show ?thesis
  proof (cases "map_of ms ''spec''")
    case None
    with fm have "field_values ''spec'' ms = []" "sub_object ''spec'' ms = []"
      by (simp_all add: sub_object_def)
    with v show ?thesis
      unfolding unmarshal_lease_def strict_lease_def
      by (simp add: rm rd zero_lease_def Let_def attempt_ok_def strict_string_def[of _ "[]"]
          strict_int32_def[of _ "[]"] split: sum.splits)
  next
    case (Some w)
    with sp obtain sp' where w: "w = JObj sp'" "canonical_keys spec_fields sp'" "distinct (map fst sp')" by blast
    note fs = field_values_exact[OF w(2,3), unfolded spec_fields_def]
    from Some w fm have "field_values ''spec'' ms = [JObj sp']" "sub_object ''spec'' ms = sp'"
      by (simp_all add: sub_object_def)
    moreover have "unmarshal_int 2147483648 (field_values ''leaseDurationSeconds'' sp') 0
        = strict_int32 ''leaseDurationSeconds'' sp'"
      using unmarshal_int_exact[OF fs, of "''leaseDurationSeconds''"] by simp
    ultimately show ?thesis
      unfolding unmarshal_lease_def strict_lease_def
      by (simp add: v rm rd unmarshal_string_exact[OF fs] zero_lease_def Let_def attempt_ok_def split: sum.splits)
  qed
qed

text \<open>
  C36: an accepted Lease document is unambiguous. It is one JSON object followed by nothing, no
  object in it repeats a key, and the Lease it is decoded to is the one the reference reader takes
  from it: each field from the only member with exactly its name. In particular neither the order
  of members nor a differently cased spelling of a field can change the fence or the resource
  version an update is based on.
\<close>

theorem lease_document_unambiguous:
  assumes "decodeMutationLease data = Inr lease"
  shows "\<exists>ms. parse_json data = Doc (JObj ms) False \<and> validateUniqueJSONValue (JObj ms) = None
    \<and> distinct (map fst ms) \<and> strict_lease ms = Inr lease"
proof -
  from assms obtain v where v: "parse_json data = Doc v False" "validateUniqueJSONValue v = None"
      "validateKubernetesLeaseObject v = None" "unmarshal_lease v = Inr lease"
    by (auto simp: decodeMutationLease_def decodeKubernetesLeaseJSON_def fail_if_Inr
        split: sum.splits json_doc.splits if_splits)
  from validateKubernetesLeaseObject_None[OF v(3,2)] obtain ms where ms: "v = JObj ms" "distinct (map fst ms)"
    by blast
  with v unmarshal_lease_strict[of ms] show ?thesis by auto
qed

section \<open>Printing a Lease\<close>

text \<open>\<^verbatim>\<open>json.Marshal\<close> of the struct: \<^verbatim>\<open>omitempty\<close> drops zero values, a map is printed in key order.\<close>

definition omitempty_string :: "string \<Rightarrow> string \<Rightarrow> (string \<times> json) list" where
  "omitempty_string f s = (if s = [] then [] else [(f, JStr s)])"

definition omitempty_map :: "string \<Rightarrow> string_map \<Rightarrow> (string \<times> json) list" where
  "omitempty_map f m =
     (if m = fmempty then [] else [(f, JObj (map (\<lambda>(k, v). (k, JStr v)) (sorted_list_of_fmap m)))])"

definition metadata_json :: "lease_metadata \<Rightarrow> json" where
  "metadata_json m = JObj ([(''name'', JStr (lm_Name m))] @ omitempty_string ''namespace'' (lm_Namespace m)
     @ omitempty_string ''uid'' (lm_UID m) @ omitempty_string ''resourceVersion'' (lm_ResourceVersion m)
     @ omitempty_map ''labels'' (lm_Labels m) @ omitempty_map ''annotations'' (lm_Annotations m))"

definition spec_json :: "lease_spec \<Rightarrow> json" where
  "spec_json s = JObj (omitempty_string ''holderIdentity'' (ls_HolderIdentity s)
     @ (if ls_LeaseDurationSeconds s = 0 then [] else [(''leaseDurationSeconds'', JInt (ls_LeaseDurationSeconds s))]))"

definition lease_json :: "kubernetesLease \<Rightarrow> json" where
  "lease_json l = JObj (omitempty_string ''apiVersion'' (lease_APIVersion l)
     @ omitempty_string ''kind'' (lease_Kind l)
     @ [(''metadata'', metadata_json (lease_Metadata l)), (''spec'', spec_json (lease_Spec l))])"

definition int32 :: "int \<Rightarrow> bool" where
  "int32 i = (- (2 ^ 31) \<le> i \<and> i < 2 ^ 31)"

text \<open>Lookups in a printed object.\<close>

lemma map_of_omitempty [simp]:
  "map_of (omitempty_string f s) g = (if g = f \<and> s \<noteq> [] then Some (JStr s) else None)"
  "map_of (omitempty_map f m) g = (if g = f \<and> m \<noteq> fmempty
     then Some (JObj (map (\<lambda>(k, v). (k, JStr v)) (sorted_list_of_fmap m))) else None)"
  by (simp_all add: omitempty_string_def omitempty_map_def)

lemma keys_omitempty:
  "map fst (omitempty_string f s) = (if s = [] then [] else [f])"
  "map fst (omitempty_map f m) = (if m = fmempty then [] else [f])"
  by (simp_all add: omitempty_string_def omitempty_map_def)

lemma strict_string_printed: "map_of ms f = (if s \<noteq> [] then Some (JStr s) else None) \<Longrightarrow> strict_string f ms = Inr s"
  by (cases s) (auto simp: strict_string_def)

lemma text_entries: "map (\<lambda>(k, v). (k, the (text_of v))) (map (\<lambda>(k, v). (k, JStr v)) es) = es"
  by (induction es) auto

lemma fmap_of_sorted [simp]: "fmap_of_list (sorted_list_of_fmap m) = m"
  by (rule fmap_ext) (simp add: fmlookup_of_list)

lemma strict_map_printed:
  assumes "map_of ms f = (if m \<noteq> fmempty
     then Some (JObj (map (\<lambda>(k, v). (k, JStr v)) (sorted_list_of_fmap m))) else None)"
  shows "strict_map f ms = Inr m"
proof -
  have "\<not> list_ex (\<lambda>(k, v). text_of v = None) (map (\<lambda>(k, v). (k, JStr v)) es)" for es
    by (induction es) auto
  with assms show ?thesis
    by (auto simp: strict_map_def text_entries simp del: map_map)
qed

lemma sorted_keys_distinct: "distinct (map fst (sorted_list_of_fmap m))"
  by (simp add: sorted_list_of_fmap_def comp_def sorted_list_of_fset.rep_eq)

lemma entries_printed:
  "\<forall>(k, v) \<in> set (map (\<lambda>(k, v). (k, JStr v)) es). validateUniqueJSONValue v = None"
  "members_depth (map (\<lambda>(k, v). (k, JStr v)) es) = 0"
  "integral_members (map (\<lambda>(k, v). (k, JStr v)) es)"
  "map fst (map (\<lambda>(k, v). (k, JStr v)) es) = map fst es"
  by (auto, (induction es; auto)+)

lemma omitempty_printed:
  "(k, v) \<in> set (omitempty_string f s) \<Longrightarrow> validateUniqueJSONValue v = None \<and> json_depth v = 0 \<and> integral v"
  "(k, v) \<in> set (omitempty_map f m) \<Longrightarrow> validateUniqueJSONValue v = None \<and> json_depth v = 1 \<and> integral v"
  by (auto simp: omitempty_string_def omitempty_map_def unique_members_None entries_printed
      sorted_keys_distinct comp_def case_prod_beta split: if_splits)

lemma members_depth_le: "members_depth ms \<le> d \<longleftrightarrow> (\<forall>(k, v) \<in> set ms. json_depth v \<le> d)"
  by (induction ms) auto

lemma integral_members_iff: "integral_members ms \<longleftrightarrow> (\<forall>(k, v) \<in> set ms. integral v)"
  by (induction ms) auto

lemma canonical_keys_iff:
  "canonical_keys names ms \<longleftrightarrow> (\<forall>k \<in> set (map fst ms). \<forall>f \<in> set names. EqualFold k f \<longrightarrow> k = f)"
  by (auto simp: canonical_keys_def)

lemma canonical_members_ok:
  "canonical_keys names ms \<Longrightarrow> \<exists>object. canonical_members names ms c = Inr object"
proof (induction ms arbitrary: c)
  case (Cons a ms)
  obtain k v where a: "a = (k, v)" by (cases a)
  have "\<exists>r. canonical_field k names = Inr r" if "\<forall>f \<in> set names. EqualFold k f \<longrightarrow> k = f"
    using that by (induction names) auto
  with Cons a show ?case by (auto simp: canonical_keys_def split: option.splits)
qed simp

lemma decodeSchemaObject_ok:
  assumes "canonical_keys names ms" and "distinct (map fst ms)" and "json_depth (JObj ms) \<le> 10"
    and "distinct (map ToLower names)"
  obtains object where "decodeSchemaObject (JObj ms) names = Inr object"
    and "\<forall>f \<in> set names. object f = map_of ms f"
proof -
  from canonical_members_ok[OF assms(1), of Map.empty] obtain object where
    c: "canonical_members names ms Map.empty = Inr object" by blast
  with assms(3) have "decodeSchemaObject (JObj ms) names = Inr object"
    by (simp add: decodeSchemaObject_def maxNestingDepth_def)
  moreover from canonical_members_Inr[OF assms(4) c] assms(2)
  have "\<forall>f \<in> set names. object f = map_of ms f" by (auto split: option.splits)
  ultimately show thesis by (rule that)
qed

lemma metadata_json_printed:
  obtains md where "metadata_json m = JObj md" "distinct (map fst md)"
    "set (map fst md) \<subseteq> set metadata_fields" "\<forall>(k, v) \<in> set md. validateUniqueJSONValue v = None"
    "\<forall>(k, v) \<in> set md. json_depth v \<le> 1 \<and> integral v"
    "strict_string ''name'' md = Inr (lm_Name m)" "strict_string ''namespace'' md = Inr (lm_Namespace m)"
    "strict_string ''uid'' md = Inr (lm_UID m)" "strict_string ''resourceVersion'' md = Inr (lm_ResourceVersion m)"
    "strict_map ''labels'' md = Inr (lm_Labels m)" "strict_map ''annotations'' md = Inr (lm_Annotations m)"
proof -
  let ?md = "[(''name'', JStr (lm_Name m))] @ omitempty_string ''namespace'' (lm_Namespace m)
     @ omitempty_string ''uid'' (lm_UID m) @ omitempty_string ''resourceVersion'' (lm_ResourceVersion m)
     @ omitempty_map ''labels'' (lm_Labels m) @ omitempty_map ''annotations'' (lm_Annotations m)"
  have "strict_string ''name'' ?md = Inr (lm_Name m)" by (simp add: strict_string_def)
  moreover have "distinct (map fst ?md)" by (simp add: keys_omitempty)
  moreover have "set (map fst ?md) \<subseteq> set metadata_fields"
    by (simp only: map_append keys_omitempty) (simp add: metadata_fields_def)
  moreover have "\<forall>(k, v) \<in> set ?md. validateUniqueJSONValue v = None"
    "\<forall>(k, v) \<in> set ?md. json_depth v \<le> 1 \<and> integral v"
    by (auto dest!: omitempty_printed)
  ultimately show thesis
    by (intro that[of ?md]) (auto simp: metadata_json_def map_add_def intro!: strict_string_printed strict_map_printed)
qed

lemma spec_json_printed:
  assumes "int32 (ls_LeaseDurationSeconds s)"
  obtains sp where "spec_json s = JObj sp" "distinct (map fst sp)" "set (map fst sp) \<subseteq> set spec_fields"
    "\<forall>(k, v) \<in> set sp. validateUniqueJSONValue v = None" "\<forall>(k, v) \<in> set sp. json_depth v \<le> 1 \<and> integral v"
    "strict_string ''holderIdentity'' sp = Inr (ls_HolderIdentity s)"
    "strict_int32 ''leaseDurationSeconds'' sp = Inr (ls_LeaseDurationSeconds s)"
proof -
  let ?sp = "omitempty_string ''holderIdentity'' (ls_HolderIdentity s)
     @ (if ls_LeaseDurationSeconds s = 0 then [] else [(''leaseDurationSeconds'', JInt (ls_LeaseDurationSeconds s))])"
  have "distinct (map fst ?sp)" "set (map fst ?sp) \<subseteq> set spec_fields"
    by (simp_all only: map_append keys_omitempty) (simp_all add: spec_fields_def)
  moreover have "\<forall>(k, v) \<in> set ?sp. validateUniqueJSONValue v = None"
    "\<forall>(k, v) \<in> set ?sp. json_depth v \<le> 1 \<and> integral v"
    by (auto dest!: omitempty_printed split: if_splits)
  moreover have "strict_string ''holderIdentity'' ?sp = Inr (ls_HolderIdentity s)"
    by (auto intro!: strict_string_printed simp: map_add_def)
  moreover have "strict_int32 ''leaseDurationSeconds'' ?sp = Inr (ls_LeaseDurationSeconds s)"
    using assms by (auto simp: strict_int32_def map_add_def int32_def)
  ultimately show thesis by (intro that[of ?sp]) (simp add: spec_json_def)
qed

lemma canonical_keys_fields:
  assumes "distinct (map ToLower names)" and "set (map fst ms) \<subseteq> set names"
  shows "canonical_keys names ms"
proof -
  have "inj_on ToLower (set names)" using assms(1) by (simp add: distinct_map)
  with assms(2) show ?thesis unfolding canonical_keys_iff EqualFold_def
    by (meson inj_onD subsetD)
qed

lemma lease_json_accepted:
  assumes "int32 (ls_LeaseDurationSeconds (lease_Spec l))"
  obtains ms where "lease_json l = JObj ms" "validateUniqueJSONValue (JObj ms) = None"
    "validateKubernetesLeaseObject (JObj ms) = None" "json_depth (JObj ms) \<le> 10" "integral (JObj ms)"
    "strict_lease ms = Inr l"
proof -
  obtain md where md: "metadata_json (lease_Metadata l) = JObj md" "distinct (map fst md)"
    "set (map fst md) \<subseteq> set metadata_fields" "\<forall>(k, v) \<in> set md. validateUniqueJSONValue v = None"
    "\<forall>(k, v) \<in> set md. json_depth v \<le> 1 \<and> integral v"
    "strict_string ''name'' md = Inr (lm_Name (lease_Metadata l))"
    "strict_string ''namespace'' md = Inr (lm_Namespace (lease_Metadata l))"
    "strict_string ''uid'' md = Inr (lm_UID (lease_Metadata l))"
    "strict_string ''resourceVersion'' md = Inr (lm_ResourceVersion (lease_Metadata l))"
    "strict_map ''labels'' md = Inr (lm_Labels (lease_Metadata l))"
    "strict_map ''annotations'' md = Inr (lm_Annotations (lease_Metadata l))"
    by (rule metadata_json_printed)
  obtain sp where sp: "spec_json (lease_Spec l) = JObj sp" "distinct (map fst sp)" "set (map fst sp) \<subseteq> set spec_fields"
    "\<forall>(k, v) \<in> set sp. validateUniqueJSONValue v = None" "\<forall>(k, v) \<in> set sp. json_depth v \<le> 1 \<and> integral v"
    "strict_string ''holderIdentity'' sp = Inr (ls_HolderIdentity (lease_Spec l))"
    "strict_int32 ''leaseDurationSeconds'' sp = Inr (ls_LeaseDurationSeconds (lease_Spec l))"
    by (rule spec_json_printed[OF assms])
  let ?ms = "omitempty_string ''apiVersion'' (lease_APIVersion l) @ omitempty_string ''kind'' (lease_Kind l)
     @ [(''metadata'', JObj md), (''spec'', JObj sp)]"
  have keys: "distinct (map fst ?ms)" "set (map fst ?ms) \<subseteq> set lease_fields"
    by (simp_all only: map_append keys_omitempty) (simp_all add: lease_fields_def)
  have uniq: "validateUniqueJSONValue (JObj ?ms) = None"
    using keys(1) md(2,4) sp(2,4) by (auto simp: unique_members_None dest!: omitempty_printed)
  have "json_depth (JObj md) \<le> 2" "json_depth (JObj sp) \<le> 2"
    using md(5) sp(5) by (auto simp: members_depth_le[of md 1, simplified] members_depth_le[of sp 1, simplified])
  then have depth: "json_depth (JObj ?ms) \<le> 3"
    by (auto simp: members_depth_le dest!: omitempty_printed)
  have int: "integral (JObj ?ms)"
    using md(5) sp(5) by (auto simp: integral_members_iff dest!: omitempty_printed)
  have look: "map_of ?ms ''metadata'' = Some (JObj md)" "map_of ?ms ''spec'' = Some (JObj sp)"
    by (simp_all add: map_add_def)
  obtain om where om: "decodeSchemaObject (JObj ?ms) lease_fields = Inr om" "\<forall>f \<in> set lease_fields. om f = map_of ?ms f"
    by (rule decodeSchemaObject_ok[OF canonical_keys_fields[OF schema_names_distinct(1) keys(2)] keys(1) _
          schema_names_distinct(1)]) (use depth in simp)
  obtain od where od: "decodeSchemaObject (JObj md) metadata_fields = Inr od"
    by (rule decodeSchemaObject_ok[OF canonical_keys_fields[OF schema_names_distinct(2) md(3)] md(2) _
          schema_names_distinct(2)]) (use \<open>json_depth (JObj md) \<le> 2\<close> in simp)
  obtain os where os: "decodeSchemaObject (JObj sp) spec_fields = Inr os"
    by (rule decodeSchemaObject_ok[OF canonical_keys_fields[OF schema_names_distinct(3) sp(3)] sp(2) _
          schema_names_distinct(3)]) (use \<open>json_depth (JObj sp) \<le> 2\<close> in simp)
  have "om ''metadata'' = Some (JObj md)" "om ''spec'' = Some (JObj sp)"
    using om(2) look by (simp_all add: lease_fields_def)
  then have valid: "validateKubernetesLeaseObject (JObj ?ms) = None"
    using om(1) od os by (simp add: validateKubernetesLeaseObject_def)
  have s: "strict_string ''apiVersion'' ?ms = Inr (lease_APIVersion l)" "strict_string ''kind'' ?ms = Inr (lease_Kind l)"
    by (auto intro!: strict_string_printed simp: map_add_def)
  have "strict_lease ?ms = Inr l"
    unfolding strict_lease_def sub_object_def look by (simp add: s md(6-11) sp(6,7))
  with uniq valid depth int md(1) sp(1) show thesis
    by (intro that[of ?ms]) (simp_all add: lease_json_def)
qed

lemma decode_printed_lease:
  assumes "int32 (ls_LeaseDurationSeconds (lease_Spec l))"
  shows "decodeMutationLease (marshal (lease_json l)) = Inr l"
proof -
  obtain ms where ms: "lease_json l = JObj ms" "validateUniqueJSONValue (JObj ms) = None"
    "validateKubernetesLeaseObject (JObj ms) = None" "json_depth (JObj ms) \<le> 10" "integral (JObj ms)"
    "strict_lease ms = Inr l"
    by (rule lease_json_accepted[OF assms])
  have "parse_json (marshal (lease_json l)) = Doc (JObj ms) False"
    using parse_json_marshal[OF ms(5)] ms(1) by simp
  with ms unmarshal_lease_strict[OF ms(3,2)] show ?thesis
    by (simp add: decodeMutationLease_def decodeKubernetesLeaseJSON_def maxNestingDepth_def)
qed

text \<open>
  The strings of a Lease. On ASCII texts \<open>marshal\<close> is byte for byte what \<^verbatim>\<open>json.Marshal\<close> prints; outside
  it \<^verbatim>\<open>json.Marshal\<close> replaces what is not UTF-8 by U+FFFD, and a Lease with such a string is not read
  back as itself.
\<close>

definition ascii :: "string \<Rightarrow> bool" where
  "ascii s = list_all (\<lambda>c. (of_char c :: nat) < 128) s"

definition ascii_lease :: "kubernetesLease \<Rightarrow> bool" where
  "ascii_lease l \<longleftrightarrow>
     list_all ascii [lease_APIVersion l, lease_Kind l, lm_Name (lease_Metadata l), lm_Namespace (lease_Metadata l),
       lm_UID (lease_Metadata l), lm_ResourceVersion (lease_Metadata l), ls_HolderIdentity (lease_Spec l)]
   \<and> fmpred (\<lambda>k v. ascii k \<and> ascii v) (lm_Labels (lease_Metadata l))
   \<and> fmpred (\<lambda>k v. ascii k \<and> ascii v) (lm_Annotations (lease_Metadata l))"

text \<open>
  C37: what the store writes it can read. The printed bytes of any Lease whose duration fits its
  32-bit field and whose strings are ASCII (label and annotation keys and values included, with any
  quote, control character or HTML character in them) pass every guard and decode to exactly that
  Lease.
\<close>

theorem lease_json_roundtrip:
  assumes "int32 (ls_LeaseDurationSeconds (lease_Spec l))" and "ascii_lease l"
  shows "decodeMutationLease (marshal (lease_json l)) = Inr l"
  using decode_printed_lease[OF assms(1)] .

definition sample_lease :: kubernetesLease where
  "sample_lease = \<lparr>lease_APIVersion = ''coordination.k8s.io/v1'', lease_Kind = ''Lease'',
     lease_Metadata = \<lparr>lm_Name = ''inspace-csi-00'', lm_Namespace = ''kube-system'', lm_UID = ''u1'',
       lm_ResourceVersion = ''41'', lm_Labels = fmap_of_list [(''Name'', ''a <tag>''), (''name'', [])],
       lm_Annotations = fmap_of_list [(''metadata'', ''{}'')]\<rparr>,
     lease_Spec = \<lparr>ls_HolderIdentity = ''h'', ls_LeaseDurationSeconds = 15\<rparr>\<rparr>"

lemma sample_lease_int32: "int32 (ls_LeaseDurationSeconds (lease_Spec sample_lease))"
  by (simp add: sample_lease_def int32_def)

lemma sample_lease_ascii: "ascii_lease sample_lease"
proof -
  have "fmpred (\<lambda>k v. ascii k \<and> ascii v) (fmap_of_list [(''Name'', ''a <tag>''), (''name'', [])])"
    "fmpred (\<lambda>k v. ascii k \<and> ascii v) (fmap_of_list [(''metadata'', ''{}'')])"
    by (rule fmpred_of_list; auto simp: ascii_def)+
  then show ?thesis by (simp add: ascii_lease_def sample_lease_def ascii_def del: fmap_of_list_simps)
qed

theorem lease_json_roundtrip_witness:
  "decodeMutationLease (marshal (lease_json sample_lease)) = Inr sample_lease"
  by (rule lease_json_roundtrip[OF sample_lease_int32 sample_lease_ascii])

theorem lease_document_unambiguous_witness:
  "\<exists>ms. parse_json (marshal (lease_json sample_lease)) = Doc (JObj ms) False
    \<and> distinct (map fst ms) \<and> strict_lease ms = Inr sample_lease"
  using lease_document_unambiguous[OF decode_printed_lease[OF sample_lease_int32]] by blast

end
