(* ===== verification/Lease_Store.thy ===== *)
theory Lease_Store
  imports Kube_API Lease_JSON Mutation_Fence
begin

text \<open>
  Mutation fences as Kubernetes Leases (\<^verbatim>\<open>csi-driver/pkg/cloud/inspace/kubernetes_fence.go\<close>): the
  Lease of a fence and back, and the six operations of the store. A fence is found by the name its
  key hashes to; a receipt or an observation is written, and a fence deleted, only on the version
  of the Lease that was just read and still carries exactly the fence the caller knows. A pointer
  and an error that are both nil are the result \<open>Inr None\<close>.
\<close>

section \<open>The Lease of a fence\<close>

definition mutationFenceManagedLabel :: string where
  "mutationFenceManagedLabel = ''storage.inspace.cloud/mutation-fence''"
definition mutationFenceKeyAnnotation :: string where
  "mutationFenceKeyAnnotation = ''storage.inspace.cloud/fence-key''"
definition mutationFenceIntentAnnotation :: string where
  "mutationFenceIntentAnnotation = ''storage.inspace.cloud/fence-intent''"
definition mutationFenceAttemptAnnotation :: string where
  "mutationFenceAttemptAnnotation = ''storage.inspace.cloud/fence-attempt''"
definition mutationFenceReceiptAnnotation :: string where
  "mutationFenceReceiptAnnotation = ''storage.inspace.cloud/fence-receipt''"
definition mutationFenceObservationAnnotation :: string where
  "mutationFenceObservationAnnotation = ''storage.inspace.cloud/fence-observation''"

lemmas lease_keys = mutationFenceManagedLabel_def mutationFenceKeyAnnotation_def
  mutationFenceIntentAnnotation_def mutationFenceAttemptAnnotation_def
  mutationFenceReceiptAnnotation_def mutationFenceObservationAnnotation_def

text \<open>Twenty bytes of the digest, two characters each.\<close>

definition mutationFenceLeaseName :: "'w KubernetesNodeResolver \<Rightarrow> string \<Rightarrow> string" where
  "mutationFenceLeaseName r key = ''inspace-csi-'' @ take 40 (kr_sha256hex r key)"

definition validateMutationFence :: "mutationFence \<Rightarrow> error option" where
  "validateMutationFence fence =
     (if fence_Key fence = [] \<or> fence_Intent fence = NoIntent \<or> fence_Attempt fence = []
      then Some (Plain ''CSI mutation fence is incomplete'')
      else if length (fence_Attempt fence) \<noteq> 32 then Some (Plain ''CSI mutation fence attempt token is invalid'')
      else if \<not> list_all is_hex_any (fence_Attempt fence)
      then Some (Plain ''CSI mutation fence attempt token is invalid'')
      else if fence_Receipt fence \<noteq> [] \<and> \<not> uuid_lower (ToLower (fence_Receipt fence))
      then Some (Plain ''CSI mutation fence receipt is invalid'')
      else if fence_Observation fence \<noteq> NoObs
      then (case decodeMutationObservation (fence_Observation fence) of Inl err \<Rightarrow> Some err | Inr _ \<Rightarrow> None)
      else None)"

definition mutationFenceLease :: "'w KubernetesNodeResolver \<Rightarrow> mutationFence \<Rightarrow> kubernetesLease" where
  "mutationFenceLease r fence =
     (let annotations = fmap_of_list
            [(mutationFenceKeyAnnotation, fence_Key fence),
             (mutationFenceIntentAnnotation, kr_intentText r (fence_Intent fence)),
             (mutationFenceAttemptAnnotation, fence_Attempt fence)];
          annotations = (if fence_Receipt fence = [] then annotations
            else fmupd mutationFenceReceiptAnnotation (fence_Receipt fence) annotations);
          annotations = (if fence_Observation fence = NoObs then annotations
            else fmupd mutationFenceObservationAnnotation (kr_obsText r (fence_Observation fence)) annotations)
      in \<lparr>lease_APIVersion = ''coordination.k8s.io/v1'', lease_Kind = ''Lease'',
          lease_Metadata = \<lparr>lm_Name = mutationFenceLeaseName r (fence_Key fence), lm_Namespace = kr_namespace r,
            lm_UID = [], lm_ResourceVersion = [],
            lm_Labels = fmap_of_list [(mutationFenceManagedLabel, ''true'')], lm_Annotations = annotations\<rparr>,
          lease_Spec = \<lparr>ls_HolderIdentity = fence_Attempt fence, ls_LeaseDurationSeconds = 0\<rparr>\<rparr>)"

definition mutationFenceFromLease :: "'w KubernetesNodeResolver \<Rightarrow> kubernetesLease \<Rightarrow> error + mutationFence" where
  "mutationFenceFromLease r lease =
     (let annotation = map_lookup (lm_Annotations (lease_Metadata lease)) in
      if map_lookup (lm_Labels (lease_Metadata lease)) mutationFenceManagedLabel \<noteq> ''true''
      then Inl (Plain ''refusing foreign Kubernetes Lease at CSI mutation fence name'')
      else
        let fence = \<lparr>fence_Key = annotation mutationFenceKeyAnnotation,
              fence_Intent = kr_intent r (annotation mutationFenceIntentAnnotation),
              fence_Attempt = annotation mutationFenceAttemptAnnotation,
              fence_Receipt = ToLower (annotation mutationFenceReceiptAnnotation),
              fence_Observation = kr_obs r (annotation mutationFenceObservationAnnotation)\<rparr>
        in fail_if (validateMutationFence fence)
          (if ls_HolderIdentity (lease_Spec lease) \<noteq> [] \<and> ls_HolderIdentity (lease_Spec lease) \<noteq> fence_Attempt fence
           then Inl (Plain ''CSI mutation Lease holder identity does not match its attempt token'')
           else Inr fence))"

section \<open>Requests\<close>

definition mutationLeaseCollectionPath :: "'w KubernetesNodeResolver \<Rightarrow> string" where
  "mutationLeaseCollectionPath r =
     ''/apis/coordination.k8s.io/v1/namespaces/'' @ PathEscape (kr_namespace r) @ ''/leases''"

definition mutationLeasePath :: "'w KubernetesNodeResolver \<Rightarrow> string \<Rightarrow> string" where
  "mutationLeasePath r name = mutationLeaseCollectionPath r @ ''/'' @ PathEscape name"

definition ambiguousKubernetesMutationStatus :: "int \<Rightarrow> bool" where
  "ambiguousKubernetesMutationStatus status = (status = 408 \<or> status = 429 \<or> status \<ge> 500 \<or> status = 0)"

definition kubernetesFenceStatusError :: "string \<Rightarrow> int \<Rightarrow> error option" where
  "kubernetesFenceStatusError operation status =
     (if status = 0 \<or> status = 404 \<or> success_status status then None
      else if ambiguousKubernetesMutationStatus status then Some (Wrap operation [Sentinel ErrUnavailable])
      else Some (Plain operation))"

text \<open>
  A return of a nil pointer together with \<open>kubernetesFenceStatusError\<close>: for a status that gives no
  error, the caller sees neither a value nor an error.
\<close>

definition status_result :: "string \<Rightarrow> int \<Rightarrow> 'a \<Rightarrow> error + 'a" where
  "status_result operation status nothing =
     (case kubernetesFenceStatusError operation status of Some e \<Rightarrow> Inl e | None \<Rightarrow> Inr nothing)"

definition joined_result :: "error option list \<Rightarrow> 'a \<Rightarrow> error + 'a" where
  "joined_result errs nothing = (case errors_join errs of Some e \<Rightarrow> Inl e | None \<Rightarrow> Inr nothing)"

definition getMutationLease :: "'w KubernetesNodeResolver \<Rightarrow> ctx \<Rightarrow> string
    \<Rightarrow> ('w, error + kubernetesLease \<times> int) prog" where
  "getMutationLease r c name = do {
     (status, data, err) \<leftarrow> kubernetesAPIRequest r c ''GET'' (mutationLeasePath r name) None;
     case err of
       Some err \<Rightarrow> ret (Inl err)
     | None \<Rightarrow>
         if status = 404 then ret (Inr (zero_lease, status))
         else if \<not> success_status status then ret (Inr (zero_lease, status))
         else ret (case decodeMutationLease data of
             Inl err \<Rightarrow> Inl err
           | Inr lease \<Rightarrow> Inr (lease, status))
   }"

section \<open>Operations\<close>

definition fenceFromGet :: "'w KubernetesNodeResolver \<Rightarrow> string \<Rightarrow> error + kubernetesLease \<times> int
    \<Rightarrow> error + mutationFence option" where
  "fenceFromGet r key got =
     (case got of
        Inl err \<Rightarrow> Inl err
      | Inr (lease, status) \<Rightarrow>
          if status = 404 then Inr None
          else if \<not> success_status status then status_result ''get'' status None
          else (case mutationFenceFromLease r lease of
              Inl err \<Rightarrow> Inl err
            | Inr fence \<Rightarrow>
                if fence_Key fence \<noteq> key
                then Inl (Plain ''CSI mutation Lease hash collision or foreign fence identity'')
                else Inr (Some fence)))"

definition kube_Get :: "'w KubernetesNodeResolver \<Rightarrow> ctx \<Rightarrow> string \<Rightarrow> ('w, error + mutationFence option) prog" where
  "kube_Get r c key =
     (if key = [] then ret (Inl (Plain ''CSI mutation fence key is required''))
      else do {
        got \<leftarrow> getMutationLease r c (mutationFenceLeaseName r key);
        ret (fenceFromGet r key got)
      })"

fun listed_fences :: "'w KubernetesNodeResolver \<Rightarrow> string \<Rightarrow> string list \<Rightarrow> kubernetesLease list
    \<Rightarrow> error + mutationFence list" where
  "listed_fences r prefix seen [] = Inr []"
| "listed_fences r prefix seen (lease # leases) =
     attempt_ok (mutationFenceFromLease r lease) (\<lambda>fence.
       if fence_Key fence \<in> set seen then Inl (Plain ''CSI mutation Lease list contains duplicate key'')
       else attempt_ok (listed_fences r prefix (fence_Key fence # seen) leases) (\<lambda>result.
         Inr (if HasPrefix (fence_Key fence) prefix then fence # result else result)))"

definition kube_List :: "'w KubernetesNodeResolver \<Rightarrow> ctx \<Rightarrow> string \<Rightarrow> ('w, error + mutationFence list) prog" where
  "kube_List r c prefix = do {
     (status, data, err) \<leftarrow> kubernetesAPIRequest r c ''GET'' (mutationLeaseCollectionPath r @ ''?labelSelector=''
        @ QueryEscape (mutationFenceManagedLabel @ ''=true'')) None;
     case err of
       Some err \<Rightarrow> ret (Inl err)
     | None \<Rightarrow>
         if \<not> success_status status then ret (status_result ''list'' status [])
         else (case decodeKubernetesLeaseJSON validateLeaseList unmarshal_lease_list data of
             Inl err \<Rightarrow> ret (Inl (Wrap ''decode Kubernetes mutation Lease list'' [Sentinel ErrUnavailable]))
           | Inr leases \<Rightarrow>
               ret (attempt_ok (listed_fences r prefix [] leases) (\<lambda>result. Inr (sort_key fence_Key result))))
   }"

definition readback_timeout :: int where
  "readback_timeout = 15000000000"

definition readback :: "'w KubernetesNodeResolver \<Rightarrow> string \<Rightarrow> ('w, error + mutationFence option) prog" where
  "readback r key = do {
     t \<leftarrow> now;
     kube_Get r (with_timeout_detached t readback_timeout) key
   }"

text \<open>The decoded fence of a successful write's answer.\<close>

definition storedFence :: "'w KubernetesNodeResolver \<Rightarrow> string \<Rightarrow> error + mutationFence" where
  "storedFence r data = attempt_ok (decodeMutationLease data) (mutationFenceFromLease r)"

definition kube_Create :: "'w KubernetesNodeResolver \<Rightarrow> ctx \<Rightarrow> mutationFence
    \<Rightarrow> ('w, error + mutationFence option \<times> bool) prog" where
  "kube_Create r c candidate =
     (case validateMutationFence candidate of
        Some err \<Rightarrow> ret (Inl err)
      | None \<Rightarrow> do {
          (status, data, requestErr) \<leftarrow> kubernetesAPIRequest r c ''POST'' (mutationLeaseCollectionPath r)
             (Some (marshal (lease_json (mutationFenceLease r candidate))));
          if requestErr = None \<and> success_status status
          then ret (attempt_ok (storedFence r data) (\<lambda>fence.
            if fence \<noteq> candidate
            then Inl (Plain ''Kubernetes API changed the CSI mutation fence during creation'')
            else Inr (Some fence, True)))
          else if requestErr = None \<and> status \<noteq> 409 \<and> \<not> ambiguousKubernetesMutationStatus status
          then ret (status_result ''create'' status (None, False))
          else do {
            got \<leftarrow> readback r (fence_Key candidate);
            case got of
              Inl getErr \<Rightarrow>
                ret (joined_result [requestErr, kubernetesFenceStatusError ''create'' status, Some getErr] (None, False))
            | Inr None \<Rightarrow>
                ret (joined_result [requestErr, kubernetesFenceStatusError ''create'' status,
                  Some (Plain ''CSI mutation Lease create outcome is not visible'')] (None, False))
            | Inr (Some current) \<Rightarrow>
                ret (Inr (Some current,
                  fence_Intent current = fence_Intent candidate \<and> fence_Attempt current = fence_Attempt candidate
                  \<and> fence_Receipt current = fence_Receipt candidate))
          }
        })"

definition with_annotation :: "kubernetesLease \<Rightarrow> (string_map \<Rightarrow> string_map) \<Rightarrow> kubernetesLease" where
  "with_annotation lease f =
     lease\<lparr>lease_Metadata := lease_Metadata lease\<lparr>lm_Annotations := f (lm_Annotations (lease_Metadata lease))\<rparr>\<rparr>"

definition kube_SetReceipt :: "'w KubernetesNodeResolver \<Rightarrow> ctx \<Rightarrow> mutationFence \<Rightarrow> string
    \<Rightarrow> ('w, error + mutationFence option) prog" where
  "kube_SetReceipt r c fence receipt =
     (case validateMutationFence fence of
        Some err \<Rightarrow> ret (Inl err)
      | None \<Rightarrow>
        if \<not> uuid_lower (ToLower receipt) then ret (Inl (Plain ''CSI mutation receipt is not a valid UUID''))
        else do {
          got \<leftarrow> getMutationLease r c (mutationFenceLeaseName r (fence_Key fence));
          case got of
            Inl err \<Rightarrow> ret (Inl err)
          | Inr (lease, status) \<Rightarrow>
              if status = 404 then ret (Inl (Plain ''CSI mutation Lease disappeared before receipt persistence''))
              else if \<not> success_status status then ret (status_result ''get before receipt update'' status None)
              else (case mutationFenceFromLease r lease of
                  Inl err \<Rightarrow> ret (Inl err)
                | Inr current \<Rightarrow>
                    if \<not> sameMutationFenceState current fence
                    then ret (Inl (Plain ''CSI mutation Lease changed before receipt persistence''))
                    else if fence_Receipt current \<noteq> [] \<and> EqualFold (fence_Receipt current) receipt
                    then ret (Inr (Some current))
                    else do {
                      (status, data, requestErr) \<leftarrow> kubernetesAPIRequest r c ''PUT''
                         (mutationLeasePath r (mutationFenceLeaseName r (fence_Key fence)))
                         (Some (marshal (lease_json
                            (with_annotation lease (fmupd mutationFenceReceiptAnnotation (ToLower receipt))))));
                      if requestErr = None \<and> success_status status
                      then ret (attempt_ok (storedFence r data) (\<lambda>stored.
                        if fence_Key stored \<noteq> fence_Key fence \<or> fence_Intent stored \<noteq> fence_Intent fence
                           \<or> fence_Attempt stored \<noteq> fence_Attempt fence
                           \<or> fence_Observation stored \<noteq> fence_Observation fence
                           \<or> \<not> EqualFold (fence_Receipt stored) receipt
                        then Inl (Plain ''Kubernetes API returned a mismatched CSI mutation receipt'')
                        else Inr (Some stored)))
                      else if requestErr = None \<and> \<not> ambiguousKubernetesMutationStatus status \<and> status \<noteq> 409
                      then ret (status_result ''persist receipt'' status None)
                      else do {
                        got \<leftarrow> readback r (fence_Key fence);
                        let failed = (\<lambda>getErr. joined_result
                              [requestErr, kubernetesFenceStatusError ''persist receipt'' status, getErr] None);
                        case got of
                          Inl getErr \<Rightarrow> ret (failed (Some getErr))
                        | Inr None \<Rightarrow> ret (failed None)
                        | Inr (Some current) \<Rightarrow>
                            if fence_Intent current = fence_Intent fence \<and> fence_Attempt current = fence_Attempt fence
                               \<and> fence_Observation current = fence_Observation fence
                               \<and> EqualFold (fence_Receipt current) receipt
                            then ret (Inr (Some current)) else ret (failed None)
                      }
                    })
        })"

definition kube_SetObservation :: "'w KubernetesNodeResolver \<Rightarrow> ctx \<Rightarrow> mutationFence \<Rightarrow> obs_text
    \<Rightarrow> ('w, error + mutationFence option) prog" where
  "kube_SetObservation r c fence observation =
     (case (validateMutationFence fence, observation = NoObs, decodeMutationObservation observation) of
        (Some err, _, _) \<Rightarrow> ret (Inl err)
      | (None, False, Inl err) \<Rightarrow> ret (Inl err)
      | _ \<Rightarrow> do {
          got \<leftarrow> getMutationLease r c (mutationFenceLeaseName r (fence_Key fence));
          case got of
            Inl err \<Rightarrow> ret (Inl err)
          | Inr (lease, status) \<Rightarrow>
              if status = 404
              then ret (Inl (Wrap ''CSI mutation Lease disappeared before observation persistence''
                               [Sentinel ErrMutationFenceChanged]))
              else if \<not> success_status status then ret (status_result ''get before observation update'' status None)
              else (case mutationFenceFromLease r lease of
                  Inl err \<Rightarrow> ret (Inl err)
                | Inr current \<Rightarrow>
                    if fence_Observation current = observation \<and> sameMutationFenceAuthority current fence
                    then ret (Inr (Some current))
                    else if \<not> sameMutationFenceState current fence
                    then ret (Inl (Wrap ''before observation persistence'' [Sentinel ErrMutationFenceChanged]))
                    else do {
                      (status, data, requestErr) \<leftarrow> kubernetesAPIRequest r c ''PUT''
                         (mutationLeasePath r (mutationFenceLeaseName r (fence_Key fence)))
                         (Some (marshal (lease_json (with_annotation lease
                            (if observation = NoObs then fmdrop mutationFenceObservationAnnotation
                             else fmupd mutationFenceObservationAnnotation (kr_obsText r observation))))));
                      if requestErr = None \<and> success_status status
                      then ret (attempt_ok (storedFence r data) (\<lambda>stored.
                        if \<not> sameMutationFenceAuthority stored fence \<or> fence_Observation stored \<noteq> observation
                        then Inl (Plain ''Kubernetes API returned a mismatched CSI mutation observation'')
                        else Inr (Some stored)))
                      else if requestErr = None \<and> \<not> ambiguousKubernetesMutationStatus status \<and> status \<noteq> 409
                      then ret (status_result ''persist observation'' status None)
                      else do {
                        got \<leftarrow> readback r (fence_Key fence);
                        let failed = (\<lambda>getErr. joined_result
                              [requestErr, kubernetesFenceStatusError ''persist observation'' status, getErr] None);
                        case got of
                          Inl getErr \<Rightarrow> ret (failed (Some getErr))
                        | Inr None \<Rightarrow> ret (failed None)
                        | Inr (Some current) \<Rightarrow>
                            if sameMutationFenceAuthority current fence \<and> fence_Observation current = observation
                            then ret (Inr (Some current))
                            else if sameMutationFenceAuthority current fence
                            then ret (Inl (Wrap ''during observation persistence'' [Sentinel ErrMutationFenceChanged]))
                            else ret (failed None)
                      }
                    })
        })"

definition delete_options :: "string \<Rightarrow> string \<Rightarrow> json" where
  "delete_options uid rv = JObj [(''apiVersion'', JStr ''v1''), (''kind'', JStr ''DeleteOptions''),
     (''preconditions'', JObj (omitempty_string ''uid'' uid @ omitempty_string ''resourceVersion'' rv))]"

definition kube_Delete :: "'w KubernetesNodeResolver \<Rightarrow> ctx \<Rightarrow> mutationFence \<Rightarrow> ('w, error option) prog" where
  "kube_Delete r c fence =
     (case validateMutationFence fence of
        Some err \<Rightarrow> ret (Some err)
      | None \<Rightarrow> do {
          got \<leftarrow> getMutationLease r c (mutationFenceLeaseName r (fence_Key fence));
          case got of
            Inl err \<Rightarrow> ret (Some err)
          | Inr (lease, status) \<Rightarrow>
              if status = 404 then ret None
              else if \<not> success_status status then ret (kubernetesFenceStatusError ''get before completion'' status)
              else (case mutationFenceFromLease r lease of
                  Inl err \<Rightarrow> ret (Some err)
                | Inr current \<Rightarrow>
                    if \<not> sameMutationFenceState current fence
                    then ret (Some (Plain ''CSI mutation Lease changed before completion''))
                    else do {
                      (deleteStatus, data, deleteErr) \<leftarrow> kubernetesAPIRequest r c ''DELETE''
                         (mutationLeasePath r (mutationFenceLeaseName r (fence_Key fence)))
                         (Some (marshal (delete_options (lm_UID (lease_Metadata lease))
                            (lm_ResourceVersion (lease_Metadata lease)))));
                      if deleteErr = None \<and> deleteStatus \<noteq> 404 \<and> \<not> success_status deleteStatus
                         \<and> \<not> ambiguousKubernetesMutationStatus deleteStatus
                      then ret (kubernetesFenceStatusError ''complete'' deleteStatus)
                      else do {
                        got \<leftarrow> readback r (fence_Key fence);
                        let failed = (\<lambda>getErr. errors_join [deleteErr, kubernetesFenceStatusError ''complete'' deleteStatus,
                              getErr, Some (Plain ''CSI mutation Lease completion is not yet visible'')]);
                        case got of
                          Inr None \<Rightarrow> ret None
                        | Inr (Some _) \<Rightarrow> ret (failed None)
                        | Inl getErr \<Rightarrow> ret (failed (Some getErr))
                      }
                    })
        })"

text \<open>The store the adapter is given in a cluster; \<open>clk\<close> reads the clock of the world.\<close>

definition run_on :: "('w \<Rightarrow> int) \<Rightarrow> ('w, 'a) prog \<Rightarrow> 'w \<Rightarrow> 'a \<times> nat \<times> 'w" where
  "run_on clk m w =
     (case run_state m \<lparr>world = w, clock = clk w, trace = []\<rparr> of
        (x, s) \<Rightarrow> (x, nat (clock s - clk w), world s))"

definition kubernetes_store :: "('w \<Rightarrow> int) \<Rightarrow> 'w KubernetesNodeResolver \<Rightarrow> 'w mutationFenceStore" where
  "kubernetes_store clk r =
     \<lparr>fs_Get = (\<lambda>c k. run_on clk (kube_Get r c k)),
      fs_List = (\<lambda>c p. run_on clk (kube_List r c p)),
      fs_Create = (\<lambda>c f. run_on clk (kube_Create r c f)),
      fs_SetReceipt = (\<lambda>c f v. run_on clk (kube_SetReceipt r c f v)),
      fs_SetObservation = (\<lambda>c f v. run_on clk (kube_SetObservation r c f v)),
      fs_Delete = (\<lambda>c f. run_on clk (kube_Delete r c f))\<rparr>"

end
