(* ===== verification/History_Logic.thy ===== *)
theory History_Logic
  imports Runtime
begin

text \<open>
  A program logic for calls on a world that keeps a history of what happened in it, by whatever
  client: the commits of an object store, or the states a cluster went through.
\<close>

text \<open>
  \<open>hspec ok lg log m Q\<close>: started when the world's history is \<open>log\<close>, of which \<open>ok\<close> holds, \<open>m\<close> only
  adds to the history, keeps \<open>ok\<close>, and \<open>Q\<close> holds of its result and of what was added.
\<close>

definition hspec :: "('e list \<Rightarrow> bool) \<Rightarrow> ('w \<Rightarrow> 'e list) \<Rightarrow> 'e list \<Rightarrow> ('w, 'a) prog
    \<Rightarrow> ('a \<Rightarrow> 'e list \<Rightarrow> bool) \<Rightarrow> bool" where
  "hspec ok lg log m Q \<longleftrightarrow> (\<forall>s. lg (world s) = log \<longrightarrow> ok log \<longrightarrow>
     (\<exists>new. lg (world (snd (run_state m s))) = log @ new \<and> ok (log @ new) \<and> Q (fst (run_state m s)) new))"

named_theorems hspec_rules \<open>structural rules of the history logic\<close>

lemma hspec_return [hspec_rules]: "Q x [] \<Longrightarrow> hspec ok lg log (ret x) Q"
  by (auto simp: hspec_def intro!: exI[of _ "[]"])

lemma hspec_bind:
  fixes m :: "('w, 'a) prog"
  assumes "hspec ok lg log m Q"
    and "\<And>x new. Q x new \<Longrightarrow> ok (log @ new) \<Longrightarrow> hspec ok lg (log @ new) (f x) (\<lambda>y new'. R y (new @ new'))"
  shows "hspec ok lg log (State_Monad.bind m f) R"
  unfolding hspec_def
proof (intro allI impI)
  fix s :: "'w st"
  assume s: "lg (world s) = log" "ok log"
  obtain x s' where r: "run_state m s = (x, s')" by (cases "run_state m s")
  have "\<exists>new. lg (world (snd (run_state m s))) = log @ new \<and> ok (log @ new) \<and> Q (fst (run_state m s)) new"
    using assms(1) s unfolding hspec_def by blast
  with r obtain new where new: "lg (world s') = log @ new" "ok (log @ new)" "Q x new" by auto
  have "\<exists>new'. lg (world (snd (run_state (f x) s'))) = (log @ new) @ new' \<and> ok ((log @ new) @ new')
      \<and> R (fst (run_state (f x) s')) (new @ new')"
    using assms(2)[OF new(3,2)] new(1,2) unfolding hspec_def by blast
  with r show "\<exists>new. lg (world (snd (run_state (State_Monad.bind m f) s))) = log @ new \<and> ok (log @ new)
      \<and> R (fst (run_state (State_Monad.bind m f) s)) new"
    by (metis append.assoc run_state_bind split_conv)
qed

lemma hspec_mono: "hspec ok lg log m Q \<Longrightarrow> (\<And>x new. Q x new \<Longrightarrow> ok (log @ new) \<Longrightarrow> R x new) \<Longrightarrow> hspec ok lg log m R"
  unfolding hspec_def by blast

lemma hspec_now [hspec_rules]: "(\<And>t. hspec ok lg log (f t) Q) \<Longrightarrow> hspec ok lg log (State_Monad.bind now f) Q"
  by (rule hspec_bind[where Q = "\<lambda>_ new. new = []"]) (auto simp: hspec_def now_def)

lemma hspec_if [hspec_rules]:
  "(b \<Longrightarrow> hspec ok lg log m Q) \<Longrightarrow> (\<not> b \<Longrightarrow> hspec ok lg log n Q) \<Longrightarrow> hspec ok lg log (if b then m else n) Q"
  by simp

lemma hspec_sum [hspec_rules]:
  "(\<And>e. x = Inl e \<Longrightarrow> hspec ok lg log (f e) Q) \<Longrightarrow> (\<And>y. x = Inr y \<Longrightarrow> hspec ok lg log (g y) Q)
   \<Longrightarrow> hspec ok lg log (case x of Inl e \<Rightarrow> f e | Inr y \<Rightarrow> g y) Q"
  by (cases x) auto

lemma hspec_option [hspec_rules]:
  "(x = None \<Longrightarrow> hspec ok lg log m Q) \<Longrightarrow> (\<And>y. x = Some y \<Longrightarrow> hspec ok lg log (g y) Q)
   \<Longrightarrow> hspec ok lg log (case x of None \<Rightarrow> m | Some y \<Rightarrow> g y) Q"
  by (cases x) auto

lemma hspec_prod [hspec_rules]:
  "(\<And>y z. x = (y, z) \<Longrightarrow> hspec ok lg log (g y z) Q) \<Longrightarrow> hspec ok lg log (case x of (y, z) \<Rightarrow> g y z) Q"
  by (cases x) auto

lemma hspec_let [hspec_rules]: "hspec ok lg log (g v) Q \<Longrightarrow> hspec ok lg log (let x = v in g x) Q"
  by simp

lemma hspec_run:
  assumes "hspec ok lg (lg (world s)) m Q" and "ok (lg (world s))" and "run_state m s = (x, s')"
  shows "\<exists>new. lg (world s') = lg (world s) @ new \<and> ok (lg (world s) @ new) \<and> Q x new"
  using assms unfolding hspec_def by (metis fst_conv snd_conv)

end
