(* ===== verification/Lease_Server.thy ===== *)
theory Lease_Server
  imports Lease_Store History_Logic
begin

text \<open>
  What the Lease store relies on: the API server's optimistic concurrency. Everything that happens
  to Leases, by whatever client, is a log of commits; \<open>lease_server\<close> says of the transport that a
  request adds commits to that log, of which at most one is its own, that an own commit is the
  write the request asks for, made only when the object did not exist (POST) or still had the given
  version (PUT, DELETE), and that a complete answer reports what was stored at some moment during
  the request. Other clients may commit anything at any time, an own commit may happen although
  the answer is lost or an error, and nothing says that a request has an effect at all.
\<close>

section \<open>The log\<close>

record lease_commit =
  cm_name :: string
  cm_old :: "kubernetesLease option"
  cm_new :: "kubernetesLease option"
  cm_own :: bool

definition stored :: "lease_commit list \<Rightarrow> string \<Rightarrow> kubernetesLease option" where
  "stored log n =
     (case filter (\<lambda>c. cm_name c = n) log of [] \<Rightarrow> None | cs \<Rightarrow> cm_new (last cs))"

abbreviation version :: "kubernetesLease \<Rightarrow> string" where
  "version l \<equiv> lm_ResourceVersion (lease_Metadata l)"

text \<open>
  Every commit replaces what was stored, and a resource version denotes one content of an object.
\<close>

definition log_ok :: "lease_commit list \<Rightarrow> bool" where
  "log_ok log \<longleftrightarrow>
     (\<forall>i < length log. cm_old (log ! i) = stored (take i log) (cm_name (log ! i)))
     \<and> (\<forall>c \<in> set log. \<forall>l. cm_new c = Some l \<longrightarrow> version l \<noteq> [])
     \<and> (\<forall>c \<in> set log. \<forall>d \<in> set log. \<forall>l m. cm_name c = cm_name d \<longrightarrow> cm_new c = Some l
          \<longrightarrow> cm_new d = Some m \<longrightarrow> version l = version m \<longrightarrow> l = m)"

section \<open>Requests\<close>

definition same_content :: "kubernetesLease \<Rightarrow> kubernetesLease \<Rightarrow> bool" where
  "same_content l m =
     (lm_Name (lease_Metadata l) = lm_Name (lease_Metadata m)
      \<and> lm_Labels (lease_Metadata l) = lm_Labels (lease_Metadata m)
      \<and> lm_Annotations (lease_Metadata l) = lm_Annotations (lease_Metadata m) \<and> lease_Spec l = lease_Spec m)"

definition own_commit :: "'w KubernetesNodeResolver \<Rightarrow> string \<Rightarrow> string \<Rightarrow> string option \<Rightarrow> lease_commit \<Rightarrow> bool" where
  "own_commit r meth uri body c \<longleftrightarrow>
     (meth = ''POST'' \<and> uri = request_uri r (mutationLeaseCollectionPath r)
      \<and> (\<exists>b l m. body = Some b \<and> decodeMutationLease b = Inr l \<and> cm_name c = lm_Name (lease_Metadata l)
          \<and> cm_old c = None \<and> cm_new c = Some m \<and> same_content m l))
     \<or> (meth = ''PUT'' \<and> uri = request_uri r (mutationLeasePath r (cm_name c))
      \<and> (\<exists>b l o' m. body = Some b \<and> decodeMutationLease b = Inr l \<and> cm_old c = Some o'
          \<and> (version l \<noteq> [] \<longrightarrow> version o' = version l) \<and> cm_new c = Some m \<and> same_content m l))
     \<or> (meth = ''DELETE'' \<and> uri = request_uri r (mutationLeasePath r (cm_name c))
      \<and> (\<exists>uid rv o'. body = Some (marshal (delete_options uid rv)) \<and> cm_old c = Some o'
          \<and> (uid \<noteq> [] \<longrightarrow> lm_UID (lease_Metadata o') = uid) \<and> (rv \<noteq> [] \<longrightarrow> version o' = rv) \<and> cm_new c = None))"

definition seen :: "lease_commit list \<Rightarrow> lease_commit list \<Rightarrow> string \<Rightarrow> kubernetesLease option \<Rightarrow> bool" where
  "seen log new n x \<longleftrightarrow> (\<exists>k \<le> length new. stored (log @ take k new) n = x)"

definition answer_ok :: "'w KubernetesNodeResolver \<Rightarrow> lease_commit list \<Rightarrow> lease_commit list \<Rightarrow> string \<Rightarrow> string
    \<Rightarrow> http_response \<Rightarrow> bool" where
  "answer_ok r log new meth uri resp \<longleftrightarrow>
     100 \<le> hr_StatusCode resp
     \<and> (hr_ReadError resp = None \<longrightarrow>
         (\<forall>n. meth = ''GET'' \<and> uri = request_uri r (mutationLeasePath r n) \<longrightarrow>
            (hr_StatusCode resp = 404 \<longrightarrow> seen log new n None)
            \<and> (success_status (hr_StatusCode resp) \<longrightarrow>
                (\<forall>l. decodeMutationLease (hr_Body resp) = Inr l \<longrightarrow> seen log new n (Some l))))
         \<and> ((meth = ''POST'' \<or> meth = ''PUT'') \<and> success_status (hr_StatusCode resp) \<longrightarrow>
              (\<exists>c \<in> set new. cm_own c
                 \<and> (\<forall>l. decodeMutationLease (hr_Body resp) = Inr l \<longrightarrow> cm_new c = Some l))))"

definition request_ok :: "'w KubernetesNodeResolver \<Rightarrow> ('w \<Rightarrow> lease_commit list) \<Rightarrow> string \<Rightarrow> string \<Rightarrow> string option
    \<Rightarrow> 'w \<Rightarrow> error + http_response \<Rightarrow> 'w \<Rightarrow> bool" where
  "request_ok r lg meth uri body w res w' \<longleftrightarrow>
     (\<exists>new. lg w' = lg w @ new \<and> log_ok (lg w @ new) \<and> length (filter cm_own new) \<le> 1
        \<and> (\<forall>c \<in> set new. cm_own c \<longrightarrow> own_commit r meth uri body c)
        \<and> (\<forall>resp. res = Inr resp \<longrightarrow> answer_ok r (lg w) new meth uri resp))"

definition lease_server :: "'w KubernetesNodeResolver \<Rightarrow> ('w \<Rightarrow> lease_commit list) \<Rightarrow> bool" where
  "lease_server r lg \<longleftrightarrow>
     (\<forall>c meth token uri body w res d w'. log_ok (lg w) \<longrightarrow> kr_do r c meth token uri body w = (res, d, w')
        \<longrightarrow> request_ok r lg meth uri body w res w')
     \<and> (\<forall>w res d w'. log_ok (lg w) \<longrightarrow> kr_readToken r w = (res, d, w')
        \<longrightarrow> (\<exists>new. lg w' = lg w @ new \<and> log_ok (lg w @ new) \<and> filter cm_own new = []))"

text \<open>The JSON texts of the fence at hand are read back as what they were written for.\<close>

definition texts_ok :: "'w KubernetesNodeResolver \<Rightarrow> mutationFence \<Rightarrow> bool" where
  "texts_ok r f = (kr_intent r (kr_intentText r (fence_Intent f)) = fence_Intent f
     \<and> kr_obs r (kr_obsText r (fence_Observation f)) = fence_Observation f \<and> kr_obs r [] = NoObs)"

section \<open>Lemmas on the log\<close>

lemma stored_commit: "stored log n = Some l \<Longrightarrow> \<exists>c \<in> set log. cm_name c = n \<and> cm_new c = Some l"
proof -
  assume a: "stored log n = Some l"
  then have "filter (\<lambda>c. cm_name c = n) log \<noteq> []" and l: "cm_new (last (filter (\<lambda>c. cm_name c = n) log)) = Some l"
    by (auto simp: stored_def split: list.splits)
  then have "last (filter (\<lambda>c. cm_name c = n) log) \<in> set (filter (\<lambda>c. cm_name c = n) log)"
    by (intro last_in_set)
  with l show ?thesis by auto
qed

lemma seen_commit: "seen log new n (Some l) \<Longrightarrow> \<exists>c \<in> set (log @ new). cm_name c = n \<and> cm_new c = Some l"
  by (fastforce simp: seen_def dest!: stored_commit dest: in_set_takeD)

lemma old_commit:
  assumes "log_ok log" and "c \<in> set log" and "cm_old c = Some l"
  shows "\<exists>d \<in> set log. cm_name d = cm_name c \<and> cm_new d = Some l"
proof -
  from assms(2) obtain i where i: "i < length log" "log ! i = c" by (auto simp: in_set_conv_nth)
  with assms have "stored (take i log) (cm_name c) = Some l" by (auto simp: log_ok_def)
  from stored_commit[OF this] show ?thesis by (auto dest: in_set_takeD)
qed

lemma version_unique:
  assumes "log_ok log" and "c \<in> set log" and "cm_old c = Some l"
    and "d \<in> set log" and "cm_name d = cm_name c" and "cm_new d = Some m" and "version l = version m"
  shows "l = m"
proof -
  obtain e where "e \<in> set log" "cm_name e = cm_name c" "cm_new e = Some l"
    using old_commit[OF assms(1-3)] by auto
  with assms show ?thesis unfolding log_ok_def by metis
qed

lemma seen_append: "seen log new n x \<Longrightarrow> seen log (new @ new') n x"
  unfolding seen_def
  by (metis add_leD1 diff_is_0_eq le_add1 length_append order_trans self_append_conv take_append take_eq_Nil)

lemma seen_prepend: "seen (log @ new) new' n x \<Longrightarrow> seen log (new @ new') n x"
  unfolding seen_def
proof -
  assume "\<exists>k\<le>length new'. stored ((log @ new) @ take k new') n = x"
  then obtain k where "k \<le> length new'" "stored ((log @ new) @ take k new') n = x" by blast
  then show "\<exists>k\<le>length (new @ new'). stored (log @ take k (new @ new')) n = x"
    by (intro exI[of _ "length new + k"]) simp
qed

section \<open>A logic of commits\<close>

abbreviation lspec :: "('w \<Rightarrow> lease_commit list) \<Rightarrow> lease_commit list \<Rightarrow> ('w, 'a) prog
    \<Rightarrow> ('a \<Rightarrow> lease_commit list \<Rightarrow> bool) \<Rightarrow> bool" where
  "lspec \<equiv> hspec log_ok"

lemmas lspec_def = hspec_def[of log_ok]
lemmas lspec_rules = hspec_rules[where ok = log_ok]
lemmas lspec_bind = hspec_bind[where ok = log_ok]
lemmas lspec_mono = hspec_mono[where ok = log_ok]
lemmas lspec_run = hspec_run[where ok = log_ok]

end
