(* ===== verification/Lease_Proofs.thy ===== *)
theory Lease_Proofs
  imports Lease_Server
begin

text \<open>
  The Lease store implements the abstract fence store on every API server with optimistic
  concurrency, whatever other clients do in between.
\<close>

section \<open>One request\<close>

lemma lspec_token:
  assumes "lease_server r lg"
  shows "lspec lg log (call_silent (kr_readToken r)) (\<lambda>_ new. filter cm_own new = [])"
  unfolding lspec_def
proof (intro allI impI)
  fix s :: "'a st"
  assume s: "lg (world s) = log" "log_ok log"
  obtain res d w' where k: "kr_readToken r (world s) = (res, d, w')" by (cases "kr_readToken r (world s)")
  with assms s have "\<exists>new. lg w' = log @ new \<and> log_ok (log @ new) \<and> filter cm_own new = []"
    unfolding lease_server_def by blast
  with k show "\<exists>new. lg (world (snd (run_state (call_silent (kr_readToken r)) s))) = log @ new
      \<and> log_ok (log @ new) \<and> filter cm_own new = []"
    by (simp add: call_silent_def)
qed

lemma lspec_do:
  assumes "lease_server r lg"
  shows "lspec lg log (call_silent (kr_do r c meth token uri body)) (\<lambda>res new.
      length (filter cm_own new) \<le> 1 \<and> (\<forall>c \<in> set new. cm_own c \<longrightarrow> own_commit r meth uri body c)
      \<and> (\<forall>resp. res = Inr resp \<longrightarrow> answer_ok r log new meth uri resp))"
  unfolding lspec_def
proof (intro allI impI)
  fix s :: "'a st"
  assume s: "lg (world s) = log" "log_ok log"
  obtain res d w' where k: "kr_do r c meth token uri body (world s) = (res, d, w')"
    by (cases "kr_do r c meth token uri body (world s)")
  with assms s have "request_ok r lg meth uri body (world s) res w'"
    unfolding lease_server_def by blast
  with k s show "\<exists>new. lg (world (snd (run_state (call_silent (kr_do r c meth token uri body)) s))) = log @ new
      \<and> log_ok (log @ new) \<and> length (filter cm_own new) \<le> 1
      \<and> (\<forall>c \<in> set new. cm_own c \<longrightarrow> own_commit r meth uri body c)
      \<and> (\<forall>resp. fst (run_state (call_silent (kr_do r c meth token uri body)) s) = Inr resp
           \<longrightarrow> answer_ok r log new meth uri resp)"
    by (simp add: call_silent_def request_ok_def)
qed

text \<open>What a call of \<^verbatim>\<open>kubernetesAPIRequest\<close> adds to the log and what its answer says.\<close>

definition request_spec :: "'w KubernetesNodeResolver \<Rightarrow> lease_commit list \<Rightarrow> string \<Rightarrow> string \<Rightarrow> string option
    \<Rightarrow> int \<times> string \<times> error option \<Rightarrow> lease_commit list \<Rightarrow> bool" where
  "request_spec r log meth path body res new \<longleftrightarrow>
     length (filter cm_own new) \<le> 1
     \<and> (\<forall>c \<in> set new. cm_own c \<longrightarrow> own_commit r meth (request_uri r path) body c)
     \<and> (case res of (status, data, Some err) \<Rightarrow> True
        | (status, data, None) \<Rightarrow>
            100 \<le> status
            \<and> (\<forall>n. meth = ''GET'' \<and> path = mutationLeasePath r n \<longrightarrow>
                 (status = 404 \<longrightarrow> seen log new n None)
                 \<and> (success_status status \<longrightarrow> (\<forall>l. decodeMutationLease data = Inr l \<longrightarrow> seen log new n (Some l))))
            \<and> ((meth = ''POST'' \<or> meth = ''PUT'') \<and> success_status status \<longrightarrow>
                 (\<exists>c \<in> set new. cm_own c \<and> (\<forall>l. decodeMutationLease data = Inr l \<longrightarrow> cm_new c = Some l))))"

lemma request_spec_answer:
  assumes "filter cm_own n0 = []"
    and "length (filter cm_own n1) \<le> 1" and "\<forall>c \<in> set n1. cm_own c \<longrightarrow> own_commit r meth (request_uri r path) body c"
    and "answer_ok r (log @ n0) n1 meth (request_uri r path) resp"
  shows "request_spec r log meth path body (readKubernetesResponse resp m) (n0 @ n1)"
proof -
  obtain status data err where res: "readKubernetesResponse resp m = (status, data, err)"
    by (cases "readKubernetesResponse resp m")
  have own: "\<forall>c \<in> set (n0 @ n1). cm_own c \<longrightarrow> own_commit r meth (request_uri r path) body c"
    using assms(1,3) by (auto simp: filter_empty_conv)
  show ?thesis
  proof (cases err)
    case None
    note c = readKubernetesResponse_complete[OF res[unfolded None]]
    have "\<forall>n. meth = ''GET'' \<and> path = mutationLeasePath r n \<longrightarrow>
        (status = 404 \<longrightarrow> seen log (n0 @ n1) n None)
        \<and> (success_status status \<longrightarrow> (\<forall>l. decodeMutationLease data = Inr l \<longrightarrow> seen log (n0 @ n1) n (Some l)))"
      using assms(4) c unfolding answer_ok_def by (auto intro: seen_prepend)
    moreover have "(meth = ''POST'' \<or> meth = ''PUT'') \<and> success_status status \<longrightarrow>
        (\<exists>c \<in> set (n0 @ n1). cm_own c \<and> (\<forall>l. decodeMutationLease data = Inr l \<longrightarrow> cm_new c = Some l))"
      using assms(4) c unfolding answer_ok_def by auto
    ultimately show ?thesis
      using assms(1,2,4) own c unfolding request_spec_def res None answer_ok_def by auto
  next
    case (Some e)
    with assms(1,2) own res show ?thesis by (simp add: request_spec_def)
  qed
qed

lemma request_spec_error:
  assumes "filter cm_own n0 = []" and "length (filter cm_own n1) \<le> 1"
    and "\<forall>c \<in> set n1. cm_own c \<longrightarrow> own_commit r meth (request_uri r path) body c"
  shows "request_spec r log meth path body (st, data, Some e) (n0 @ n1)"
  using assms by (auto simp: request_spec_def filter_empty_conv)

lemma lspec_request:
  assumes "lease_server r lg"
  shows "lspec lg log (kubernetesAPIRequest r c meth path body) (request_spec r log meth path body)"
  unfolding kubernetesAPIRequest_def kubernetesAPIRequestWithLimit_def maxKubernetesAPIResponseBytes_def
    request_uri_def[symmetric]
  by (simp, intro lspec_rules lspec_bind[OF lspec_token[OF assms]] lspec_bind[OF lspec_do[OF assms]])
     (auto intro: request_spec_answer request_spec_error simp: request_spec_def[of _ _ _ _ _ "(0, [], Some _)"]
       filter_empty_conv)

section \<open>Reading a Lease\<close>

lemma decodeMutationLease_int32:
  assumes "decodeMutationLease data = Inr l"
  shows "int32 (ls_LeaseDurationSeconds (lease_Spec l))"
proof -
  from assms obtain v where v: "validateUniqueJSONValue v = None"
      "validateKubernetesLeaseObject v = None" "unmarshal_lease v = Inr l"
    by (auto simp: decodeMutationLease_def decodeKubernetesLeaseJSON_def fail_if_Inr
        split: sum.splits json_doc.splits if_splits)
  from validateKubernetesLeaseObject_None[OF v(2,1)] obtain ms where "v = JObj ms" by blast
  with v unmarshal_lease_strict[of ms] have "strict_lease ms = Inr l" by simp
  then obtain sp where "strict_int32 ''leaseDurationSeconds'' sp = Inr (ls_LeaseDurationSeconds (lease_Spec l))"
    by (auto simp: strict_lease_def Let_def attempt_ok_Inr)
  then show ?thesis
    by (auto simp: strict_int32_def int32_def split: option.splits json.splits if_splits)
qed

lemma get_own_commit: "\<not> own_commit r ''GET'' uri body c"
  by (simp add: own_commit_def)

lemma request_spec_GET:
  assumes "request_spec r log ''GET'' path body res new"
  shows "filter cm_own new = []"
  using assms by (auto simp: request_spec_def get_own_commit filter_empty_conv)

lemma request_spec_read:
  assumes "request_spec r log ''GET'' (mutationLeasePath r n) body (st, data, None) new"
  shows "100 \<le> st" and "st = 404 \<Longrightarrow> seen log new n None"
    and "success_status st \<Longrightarrow> decodeMutationLease data = Inr l \<Longrightarrow> seen log new n (Some l)"
  using assms by (auto simp: request_spec_def)

definition lease_read :: "lease_commit list \<Rightarrow> string \<Rightarrow> error + kubernetesLease \<times> int \<Rightarrow> lease_commit list \<Rightarrow> bool" where
  "lease_read log n got new \<longleftrightarrow> filter cm_own new = []
     \<and> (\<forall>l st. got = Inr (l, st) \<longrightarrow> 100 \<le> st \<and> (st = 404 \<longrightarrow> seen log new n None)
          \<and> (success_status st \<longrightarrow> seen log new n (Some l) \<and> int32 (ls_LeaseDurationSeconds (lease_Spec l))))"

lemma not_found_status [simp]: "\<not> success_status 404" "\<not> success_status 0"
  by (simp_all add: success_status_def)

lemma lspec_getMutationLease:
  assumes "lease_server r lg"
  shows "lspec lg log (getMutationLease r c n) (lease_read log n)"
  unfolding getMutationLease_def
  by (intro lspec_rules lspec_bind[OF lspec_request[OF assms]])
     (auto simp: lease_read_def intro: decodeMutationLease_int32 dest: request_spec_GET request_spec_read
        split: sum.splits)

lemma kubernetesFenceStatusError_None:
  "kubernetesFenceStatusError operation st = None \<longleftrightarrow> st = 0 \<or> st = 404 \<or> success_status st"
  by (simp add: kubernetesFenceStatusError_def)

lemma status_result_Inr:
  "status_result operation st x = Inr y \<longleftrightarrow> (st = 0 \<or> st = 404 \<or> success_status st) \<and> y = x"
  using kubernetesFenceStatusError_None[of operation st]
  by (cases "kubernetesFenceStatusError operation st") (auto simp: status_result_def)

text \<open>What reading a fence by its key reports: the fence of a Lease that was stored, or that there was none.\<close>

definition fence_read :: "'w KubernetesNodeResolver \<Rightarrow> lease_commit list \<Rightarrow> string \<Rightarrow> error + mutationFence option
    \<Rightarrow> lease_commit list \<Rightarrow> bool" where
  "fence_read r log key got new \<longleftrightarrow> filter cm_own new = []
     \<and> (got = Inr None \<longrightarrow> seen log new (mutationFenceLeaseName r key) None)
     \<and> (\<forall>f. got = Inr (Some f) \<longrightarrow> fence_Key f = key
          \<and> (\<exists>l. seen log new (mutationFenceLeaseName r key) (Some l) \<and> mutationFenceFromLease r l = Inr f))"

lemma fence_read_from_get:
  assumes "lease_read log (mutationFenceLeaseName r key) got new"
  shows "fence_read r log key (fenceFromGet r key got) new"
proof (cases got)
  case (Inl e)
  with assms show ?thesis by (simp add: fence_read_def lease_read_def fenceFromGet_def)
next
  case (Inr a)
  obtain l st where a: "a = (l, st)" by (cases a)
  with assms Inr have h: "filter cm_own new = []" "100 \<le> st"
      "st = 404 \<longrightarrow> seen log new (mutationFenceLeaseName r key) None"
      "success_status st \<longrightarrow> seen log new (mutationFenceLeaseName r key) (Some l)"
    by (auto simp: lease_read_def)
  show ?thesis
    using h unfolding Inr a fenceFromGet_def fence_read_def
    by (cases "mutationFenceFromLease r l") (auto simp: status_result_Inr)
qed

lemma lspec_kube_Get:
  assumes "lease_server r lg"
  shows "lspec lg log (kube_Get r c key) (fence_read r log key)"
  unfolding kube_Get_def
proof (intro lspec_rules)
  show "fence_read r log key (Inl (Plain ''CSI mutation fence key is required'')) []"
    by (simp add: fence_read_def)
  show "lspec lg log (State_Monad.bind (getMutationLease r c (mutationFenceLeaseName r key))
      (\<lambda>got. ret (fenceFromGet r key got))) (fence_read r log key)"
    by (rule lspec_bind[OF lspec_getMutationLease[OF assms]]) (auto intro!: hspec_return fence_read_from_get)
qed

lemma lspec_readback:
  assumes "lease_server r lg"
  shows "lspec lg log (readback r key) (fence_read r log key)"
  unfolding readback_def by (intro hspec_now lspec_kube_Get[OF assms])

section \<open>Writing\<close>

text \<open>
  The abstract step of a store operation on the fence under its key; a Lease carries the fence
  that is decoded from it.
\<close>

fun fence_move :: "store_op \<Rightarrow> mutationFence option \<Rightarrow> mutationFence option \<Rightarrow> bool" where
  "fence_move (OpCreate f) old new = (old = None \<and> new = Some (f\<lparr>fence_Receipt := ToLower (fence_Receipt f)\<rparr>))"
| "fence_move (OpSetReceipt f rc) old new =
     (case old of None \<Rightarrow> False
      | Some c \<Rightarrow> sameMutationFenceState c f \<and> new = Some (c\<lparr>fence_Receipt := ToLower rc\<rparr>))"
| "fence_move (OpSetObservation f v) old new =
     (case old of None \<Rightarrow> False
      | Some c \<Rightarrow> sameMutationFenceState c f \<and> new = Some (c\<lparr>fence_Observation := v\<rparr>))"
| "fence_move (OpDelete f) old new =
     (case old of None \<Rightarrow> False | Some c \<Rightarrow> sameMutationFenceState c f \<and> new = None)"

fun op_fence :: "store_op \<Rightarrow> mutationFence" where
  "op_fence (OpCreate f) = f"
| "op_fence (OpSetReceipt f rc) = f"
| "op_fence (OpSetObservation f v) = f"
| "op_fence (OpDelete f) = f"

definition carries :: "'w KubernetesNodeResolver \<Rightarrow> kubernetesLease option \<Rightarrow> mutationFence option \<Rightarrow> bool" where
  "carries r l f \<longleftrightarrow> (case l of None \<Rightarrow> f = None
     | Some l \<Rightarrow> (\<exists>g. f = Some g \<and> mutationFenceFromLease r l = Inr g))"

definition op_commit :: "'w KubernetesNodeResolver \<Rightarrow> store_op \<Rightarrow> lease_commit \<Rightarrow> bool" where
  "op_commit r oper c \<longleftrightarrow> cm_name c = mutationFenceLeaseName r (fence_Key (op_fence oper))
     \<and> (\<exists>old new. carries r (cm_old c) old \<and> carries r (cm_new c) new \<and> fence_move oper old new)"

definition op_commits :: "'w KubernetesNodeResolver \<Rightarrow> store_op \<Rightarrow> lease_commit list \<Rightarrow> bool" where
  "op_commits r oper new \<longleftrightarrow> length (filter cm_own new) \<le> 1 \<and> (\<forall>c \<in> set new. cm_own c \<longrightarrow> op_commit r oper c)"

lemma op_commits_quiet: "filter cm_own new = [] \<Longrightarrow> op_commits r oper new"
  by (auto simp: op_commits_def filter_empty_conv)

lemma op_commits_append:
  "filter cm_own n0 = [] \<Longrightarrow> op_commits r oper (n0 @ n1) \<longleftrightarrow> op_commits r oper n1"
  "filter cm_own n2 = [] \<Longrightarrow> op_commits r oper (n1 @ n2) \<longleftrightarrow> op_commits r oper n1"
  by (auto simp: op_commits_def filter_empty_conv)

lemma mutationFenceFromLease_content:
  "same_content l m \<Longrightarrow> mutationFenceFromLease r l = mutationFenceFromLease r m"
  by (simp add: mutationFenceFromLease_def same_content_def Let_def)

lemma map_lookup_simps [simp]:
  "map_lookup (fmupd k v m) k' = (if k = k' then v else map_lookup m k')"
  "map_lookup (fmdrop k m) k' = (if k = k' then [] else map_lookup m k')"
  "map_lookup fmempty k = []"
  by (simp_all add: map_lookup_def)

lemma annotations_distinct:
  "distinct [mutationFenceKeyAnnotation, mutationFenceIntentAnnotation, mutationFenceAttemptAnnotation,
     mutationFenceReceiptAnnotation, mutationFenceObservationAnnotation]"
  by code_simp

lemma lease_annotations:
  assumes "kr_obs r [] = NoObs"
  shows "map_lookup (lm_Annotations (lease_Metadata (mutationFenceLease r f))) mutationFenceKeyAnnotation = fence_Key f"
    and "map_lookup (lm_Annotations (lease_Metadata (mutationFenceLease r f))) mutationFenceIntentAnnotation
      = kr_intentText r (fence_Intent f)"
    and "map_lookup (lm_Annotations (lease_Metadata (mutationFenceLease r f))) mutationFenceAttemptAnnotation = fence_Attempt f"
    and "map_lookup (lm_Annotations (lease_Metadata (mutationFenceLease r f))) mutationFenceReceiptAnnotation = fence_Receipt f"
    and "map_lookup (lm_Annotations (lease_Metadata (mutationFenceLease r f))) mutationFenceObservationAnnotation
      = (if fence_Observation f = NoObs then [] else kr_obsText r (fence_Observation f))"
  using annotations_distinct by (auto simp: mutationFenceLease_def Let_def)

lemma validate_lower_receipt:
  "validateMutationFence (f\<lparr>fence_Receipt := ToLower (fence_Receipt f)\<rparr>) = validateMutationFence f"
  by (simp add: validateMutationFence_def)

lemma fence_of_lease:
  assumes "validateMutationFence f = None" and "texts_ok r f"
  shows "mutationFenceFromLease r (mutationFenceLease r f) = Inr (f\<lparr>fence_Receipt := ToLower (fence_Receipt f)\<rparr>)"
proof -
  from assms(2) have o: "kr_obs r [] = NoObs" by (simp add: texts_ok_def)
  let ?f = "f\<lparr>fence_Receipt := ToLower (fence_Receipt f)\<rparr>"
  have f: "\<lparr>fence_Key = fence_Key f, fence_Intent = kr_intent r (kr_intentText r (fence_Intent f)),
      fence_Attempt = fence_Attempt f, fence_Receipt = ToLower (fence_Receipt f),
      fence_Observation = kr_obs r (if fence_Observation f = NoObs then [] else kr_obsText r (fence_Observation f))\<rparr> = ?f"
    using assms(2) by (auto simp: texts_ok_def)
  have l: "map_lookup (lm_Labels (lease_Metadata (mutationFenceLease r f))) mutationFenceManagedLabel = ''true''"
    "ls_HolderIdentity (lease_Spec (mutationFenceLease r f)) = fence_Attempt f"
    by (simp_all add: mutationFenceLease_def Let_def)
  show ?thesis
    unfolding mutationFenceFromLease_def lease_annotations[OF o] l Let_def f
    using assms(1) by (simp add: validate_lower_receipt)
qed

text \<open>Changing one annotation changes one field of the fence.\<close>

lemma mutationFenceFromLease_Inr:
  "mutationFenceFromLease r l = Inr f \<longleftrightarrow>
     map_lookup (lm_Labels (lease_Metadata l)) mutationFenceManagedLabel = ''true''
     \<and> f = \<lparr>fence_Key = map_lookup (lm_Annotations (lease_Metadata l)) mutationFenceKeyAnnotation,
          fence_Intent = kr_intent r (map_lookup (lm_Annotations (lease_Metadata l)) mutationFenceIntentAnnotation),
          fence_Attempt = map_lookup (lm_Annotations (lease_Metadata l)) mutationFenceAttemptAnnotation,
          fence_Receipt = ToLower (map_lookup (lm_Annotations (lease_Metadata l)) mutationFenceReceiptAnnotation),
          fence_Observation = kr_obs r (map_lookup (lm_Annotations (lease_Metadata l)) mutationFenceObservationAnnotation)\<rparr>
     \<and> validateMutationFence f = None
     \<and> (ls_HolderIdentity (lease_Spec l) \<noteq> [] \<longrightarrow> ls_HolderIdentity (lease_Spec l) = fence_Attempt f)"
  unfolding mutationFenceFromLease_def Let_def by (auto simp: fail_if_Inr split: if_splits)

lemma validate_with_receipt:
  "validateMutationFence f = None \<Longrightarrow> uuid_lower (ToLower rc) \<Longrightarrow> validateMutationFence (f\<lparr>fence_Receipt := ToLower rc\<rparr>) = None"
  by (simp add: validateMutationFence_def split: if_splits)

lemma validate_with_observation:
  "validateMutationFence f = None \<Longrightarrow> v = NoObs \<or> decodeMutationObservation v = Inr ov
     \<Longrightarrow> validateMutationFence (f\<lparr>fence_Observation := v\<rparr>) = None"
  by (auto simp: validateMutationFence_def split: if_splits)

lemma fence_with_receipt:
  assumes "mutationFenceFromLease r l = Inr f" and "uuid_lower (ToLower rc)"
  shows "mutationFenceFromLease r (with_annotation l (fmupd mutationFenceReceiptAnnotation (ToLower rc)))
    = Inr (f\<lparr>fence_Receipt := ToLower rc\<rparr>)"
  using assms annotations_distinct validate_with_receipt[of f rc]
  unfolding mutationFenceFromLease_Inr by (auto simp: with_annotation_def)

lemma fence_with_observation:
  assumes "mutationFenceFromLease r l = Inr f" and "kr_obs r (kr_obsText r v) = v"
    and "decodeMutationObservation v = Inr ov"
  shows "mutationFenceFromLease r (with_annotation l (fmupd mutationFenceObservationAnnotation (kr_obsText r v)))
    = Inr (f\<lparr>fence_Observation := v\<rparr>)"
  using assms annotations_distinct validate_with_observation[of f v ov]
  unfolding mutationFenceFromLease_Inr by (auto simp: with_annotation_def)

lemma fence_without_observation:
  assumes "mutationFenceFromLease r l = Inr f" and "kr_obs r [] = NoObs"
  shows "mutationFenceFromLease r (with_annotation l (fmdrop mutationFenceObservationAnnotation))
    = Inr (f\<lparr>fence_Observation := NoObs\<rparr>)"
  using assms annotations_distinct validate_with_observation[of f NoObs]
  unfolding mutationFenceFromLease_Inr by (auto simp: with_annotation_def)

section \<open>Own commits\<close>

text \<open>
  A PUT of a changed copy of a Lease that was read, and a DELETE that names its version, commit only
  on exactly that Lease.
\<close>

lemma read_version:
  assumes "log_ok (log @ new @ new')" and "seen log new n (Some l)"
  shows "version l \<noteq> []"
    and "\<And>c o'. c \<in> set new' \<Longrightarrow> cm_name c = n \<Longrightarrow> cm_old c = Some o' \<Longrightarrow> version o' = version l \<Longrightarrow> o' = l"
proof -
  from seen_commit[OF assms(2)] obtain d where
    d: "d \<in> set (log @ new @ new')" "cm_name d = n" "cm_new d = Some l" by auto
  with assms(1) show "version l \<noteq> []" by (auto simp: log_ok_def)
  fix c o'
  assume "c \<in> set new'" "cm_name c = n" "cm_old c = Some o'" "version o' = version l"
  with assms(1) d show "o' = l"
    by (intro version_unique[of "log @ new @ new'" c o' d l]) auto
qed

lemma mutationLeasePath_inj [simp]: "mutationLeasePath r n = mutationLeasePath r m \<longleftrightarrow> n = m"
  by (simp add: mutationLeasePath_def)

lemma with_annotation_simps [simp]:
  "version (with_annotation l f) = version l" "lease_Spec (with_annotation l f) = lease_Spec l"
  by (simp_all add: with_annotation_def)

lemma put_commit:
  assumes "own_commit r ''PUT'' (request_uri r (mutationLeasePath r n))
      (Some (marshal (lease_json (with_annotation l f)))) c"
    and "int32 (ls_LeaseDurationSeconds (lease_Spec l))" and "version l \<noteq> []"
  shows "cm_name c = n \<and> (\<exists>o' m. cm_old c = Some o' \<and> version o' = version l
    \<and> cm_new c = Some m \<and> same_content m (with_annotation l f))"
  using assms decode_printed_lease[of "with_annotation l f"] by (auto simp: own_commit_def)

lemma delete_options_inj: "marshal (delete_options u v) = marshal (delete_options u' v') \<Longrightarrow> u = u' \<and> v = v'"
proof -
  assume "marshal (delete_options u v) = marshal (delete_options u' v')"
  moreover have "integral (delete_options u v)" for u v
    by (simp add: delete_options_def integral_members_iff omitempty_string_def)
  ultimately have "delete_options u v = delete_options u' v'"
    using parse_json_marshal by (metis json_doc.inject)
  then show ?thesis by (auto simp: delete_options_def omitempty_string_def split: if_splits)
qed

lemma delete_commit:
  assumes "own_commit r ''DELETE'' (request_uri r (mutationLeasePath r n))
      (Some (marshal (delete_options uid rv))) c" and "rv \<noteq> []"
  shows "cm_name c = n \<and> (\<exists>o'. cm_old c = Some o' \<and> version o' = rv) \<and> cm_new c = None"
  using assms by (auto simp: own_commit_def dest!: delete_options_inj)

lemma post_commit:
  assumes "own_commit r ''POST'' (request_uri r (mutationLeaseCollectionPath r)) (Some (marshal (lease_json l))) c"
    and "int32 (ls_LeaseDurationSeconds (lease_Spec l))"
  shows "cm_name c = lm_Name (lease_Metadata l) \<and> cm_old c = None
    \<and> (\<exists>m. cm_new c = Some m \<and> same_content m l)"
  using assms decode_printed_lease[of l] by (auto simp: own_commit_def)

end
