(* ===== verification/Lease_Refinement.thy ===== *)
theory Lease_Refinement
  imports Lease_Proofs
begin

text \<open>
  The operations of the Lease store under arbitrary interference: each makes at most one commit of
  its own, and that commit is the abstract step of the operation on the fence stored at that very
  moment. From the steps follows that the fences of a key succeed one another: between the
  creation of two of them the first one is deleted.
\<close>

section \<open>Fences seen during a call\<close>

lemma stored_snoc: "stored (log @ [d]) n = (if cm_name d = n then cm_new d else stored log n)"
  by (cases "filter (\<lambda>c. cm_name c = n) log") (auto simp: stored_def)

lemma seen_after:
  assumes "c \<in> set new" and "cm_name c = n"
  shows "seen log new n (cm_new c)"
proof -
  from split_list[OF assms(1)] obtain pre post where new: "new = pre @ c # post" by blast
  show ?thesis
    unfolding seen_def new by (intro exI[of _ "Suc (length pre)"]) (simp add: stored_snoc assms(2) flip: append_assoc)
qed

text \<open>At some moment of a call that adds \<open>new\<close> to the log, the Lease of the key carried the fence.\<close>

definition shown :: "'w KubernetesNodeResolver \<Rightarrow> lease_commit list \<Rightarrow> lease_commit list \<Rightarrow> string \<Rightarrow> mutationFence \<Rightarrow> bool" where
  "shown r log new key g \<longleftrightarrow> (\<exists>l. seen log new (mutationFenceLeaseName r key) (Some l) \<and> mutationFenceFromLease r l = Inr g)"

lemma shown_append: "shown r log new key g \<Longrightarrow> shown r log (new @ new') key g"
  unfolding shown_def using seen_append by blast

lemma shown_prepend: "shown r (log @ new) new' key g \<Longrightarrow> shown r log (new @ new') key g"
  unfolding shown_def using seen_prepend by blast

lemma shown_written:
  assumes "request_spec r log meth path body (st, data, None) new" and "meth = ''POST'' \<or> meth = ''PUT''" and "success_status st"
    and "\<And>c. c \<in> set new \<Longrightarrow> cm_own c \<Longrightarrow> cm_name c = mutationFenceLeaseName r key" and "storedFence r data = Inr g"
  shows "shown r log new key g"
proof -
  from assms(5) obtain l where l: "decodeMutationLease data = Inr l" "mutationFenceFromLease r l = Inr g"
    by (cases "decodeMutationLease data") (auto simp: storedFence_def)
  from assms(1-3) l(1) obtain c where "c \<in> set new" "cm_own c" "cm_new c = Some l" by (auto simp: request_spec_def)
  with assms(4)[of c] seen_after[of c new] l(2) show ?thesis unfolding shown_def by metis
qed

section \<open>Create\<close>

lemma post_op_commits:
  assumes "request_spec r log ''POST'' (mutationLeaseCollectionPath r)
      (Some (marshal (lease_json (mutationFenceLease r f)))) res new"
    and "validateMutationFence f = None" and "texts_ok r f"
  shows "op_commits r (OpCreate f) new"
  unfolding op_commits_def
proof (intro conjI ballI impI)
  show "length (filter cm_own new) \<le> 1" using assms(1) by (simp add: request_spec_def)
  fix c
  assume "c \<in> set new" "cm_own c"
  with assms(1) have o: "own_commit r ''POST'' (request_uri r (mutationLeaseCollectionPath r))
      (Some (marshal (lease_json (mutationFenceLease r f)))) c"
    by (simp add: request_spec_def)
  have "int32 (ls_LeaseDurationSeconds (lease_Spec (mutationFenceLease r f)))"
      "lm_Name (lease_Metadata (mutationFenceLease r f)) = mutationFenceLeaseName r (fence_Key f)"
    by (simp_all add: mutationFenceLease_def Let_def int32_def)
  with post_commit[OF o] obtain m where m: "cm_name c = mutationFenceLeaseName r (fence_Key f)" "cm_old c = None"
      "cm_new c = Some m" "same_content m (mutationFenceLease r f)" by auto
  with mutationFenceFromLease_content[OF m(4), of r] fence_of_lease[OF assms(2,3)]
  show "op_commit r (OpCreate f) c" by (simp add: op_commit_def carries_def)
qed

text \<open>What a create reports.\<close>

definition create_reported :: "'w KubernetesNodeResolver \<Rightarrow> lease_commit list \<Rightarrow> lease_commit list \<Rightarrow> mutationFence
    \<Rightarrow> error + mutationFence option \<times> bool \<Rightarrow> bool" where
  "create_reported r log new f res \<longleftrightarrow>
     (\<forall>g acquired. res = Inr (Some g, acquired) \<longrightarrow> shown r log new (fence_Key f) g \<and> fence_Key g = fence_Key f
        \<and> (acquired \<longleftrightarrow> fence_Intent g = fence_Intent f \<and> fence_Attempt g = fence_Attempt f \<and> fence_Receipt g = fence_Receipt f))
     \<and> (\<forall>acquired. res = Inr (None, acquired) \<longrightarrow> \<not> acquired)"

definition create_result :: "'w KubernetesNodeResolver \<Rightarrow> lease_commit list \<Rightarrow> mutationFence
    \<Rightarrow> error + mutationFence option \<times> bool \<Rightarrow> lease_commit list \<Rightarrow> bool" where
  "create_result r log f res new \<longleftrightarrow>
     op_commits r (OpCreate f) new
     \<and> (\<forall>g. res = Inr (g, True) \<longrightarrow>
          (\<exists>c h. c \<in> set (log @ new) \<and> cm_name c = mutationFenceLeaseName r (fence_Key f)
             \<and> carries r (cm_new c) (Some h) \<and> fence_Attempt h = fence_Attempt f))
     \<and> create_reported r log new f res"

lemma create_result_error: "op_commits r (OpCreate f) new \<Longrightarrow> create_result r log f (Inl e) new"
  by (simp add: create_result_def create_reported_def)

lemma create_result_none: "op_commits r (OpCreate f) new \<Longrightarrow> create_result r log f (Inr (None, False)) new"
  by (simp add: create_result_def create_reported_def)

lemma create_result_status:
  "op_commits r (OpCreate f) new \<Longrightarrow> create_result r log f (status_result operation st (None, False)) new"
  "op_commits r (OpCreate f) new \<Longrightarrow> create_result r log f (joined_result es (None, False)) new"
  by (auto simp: status_result_def joined_result_def create_result_error create_result_none split: option.splits)

lemma create_result_stored:
  assumes "request_spec r log ''POST'' path body (st, data, None) new" and "op_commits r (OpCreate f) new"
    and "success_status st"
  shows "create_result r log f (attempt_ok (storedFence r data) (\<lambda>fence.
            if fence \<noteq> f then Inl err else Inr (Some fence, True))) new"
proof -
  from assms(1,3) obtain c where "c \<in> set new" "cm_own c" by (auto simp: request_spec_def)
  with assms(2) have "\<exists>h. c \<in> set (log @ new) \<and> cm_name c = mutationFenceLeaseName r (fence_Key f)
      \<and> carries r (cm_new c) (Some h) \<and> fence_Attempt h = fence_Attempt f"
    by (fastforce simp: op_commits_def op_commit_def)
  moreover have "storedFence r data = Inr f \<Longrightarrow> shown r log new (fence_Key f) f"
    using shown_written[OF assms(1) _ assms(3)] assms(2) by (simp add: op_commits_def op_commit_def)
  ultimately show ?thesis
    using assms(2) by (cases "storedFence r data") (auto simp: create_result_def create_reported_def)
qed

lemma create_result_readback:
  assumes "op_commits r (OpCreate f) new" and "fence_read r (log @ new) (fence_Key f) (Inr (Some current)) new'"
  shows "create_result r log f (Inr (Some current, fence_Intent current = fence_Intent f
      \<and> fence_Attempt current = fence_Attempt f \<and> fence_Receipt current = fence_Receipt f)) (new @ new')"
proof -
  from assms(2) obtain l where l: "filter cm_own new' = []"
      "seen (log @ new) new' (mutationFenceLeaseName r (fence_Key f)) (Some l)" "mutationFenceFromLease r l = Inr current"
      "fence_Key current = fence_Key f"
    by (auto simp: fence_read_def)
  from seen_prepend[OF l(2)] have s: "seen log (new @ new') (mutationFenceLeaseName r (fence_Key f)) (Some l)" .
  from seen_commit[OF s] obtain c where
    "c \<in> set (log @ new @ new')" "cm_name c = mutationFenceLeaseName r (fence_Key f)" "cm_new c = Some l" by auto
  then have "\<exists>c. c \<in> set (log @ new @ new') \<and> cm_name c = mutationFenceLeaseName r (fence_Key f)
      \<and> carries r (cm_new c) (Some current)"
    using l(3) by (auto simp: carries_def)
  moreover have "shown r log (new @ new') (fence_Key f) current" using s l(3) unfolding shown_def by blast
  ultimately show ?thesis
    using assms(1) l(4) unfolding create_result_def create_reported_def op_commits_append(2)[OF l(1)] by blast
qed

lemma fence_read_quiet: "fence_read r log key got new \<Longrightarrow> filter cm_own new = []"
  by (simp add: fence_read_def)

lemma lspec_kube_Create:
  assumes "lease_server r lg" and "texts_ok r f"
  shows "lspec lg log (kube_Create r c f) (create_result r log f)"
  unfolding kube_Create_def
proof (intro lspec_rules lspec_bind[OF lspec_request[OF assms(1)]], goal_cases)
  case 1
  then show ?case by (auto intro: create_result_stored post_op_commits[OF _ _ assms(2)])
next
  case 2
  then show ?case by (auto intro: create_result_status post_op_commits[OF _ _ assms(2)])
next
  case (3 res new)
  then have oc: "op_commits r (OpCreate f) new" using post_op_commits[OF _ _ assms(2)] by blast
  show ?case
    by (rule lspec_bind[OF lspec_readback[OF assms(1)]], intro lspec_rules)
       (use oc in \<open>auto intro!: create_result_status create_result_readback
          simp: op_commits_append dest: fence_read_quiet\<close>)
next
  case 4
  then show ?case by (intro create_result_error op_commits_quiet) simp
qed

section \<open>Receipts, observations, deletion\<close>

text \<open>A write of a changed copy of the Lease that was read.\<close>

lemma put_op_commits:
  assumes "lease_read log n (Inr (l, st)) n0" and "success_status st"
    and "request_spec r (log @ n0) ''PUT'' (mutationLeasePath r n) (Some (marshal (lease_json (with_annotation l h)))) res n1"
    and "log_ok ((log @ n0) @ n1)"
    and "n = mutationFenceLeaseName r (fence_Key (op_fence oper))"
    and "mutationFenceFromLease r l = Inr f" and "mutationFenceFromLease r (with_annotation l h) = Inr g"
    and "fence_move oper (Some f) (Some g)"
  shows "op_commits r oper (n0 @ n1)"
proof -
  have q: "filter cm_own n0 = []" and s: "seen log n0 n (Some l)" and i: "int32 (ls_LeaseDurationSeconds (lease_Spec l))"
    using assms(1,2) by (auto simp: lease_read_def)
  note v = read_version[OF assms(4)[unfolded append.assoc] s]
  have "op_commit r oper c" if c: "c \<in> set n1" "cm_own c" for c
  proof -
    from assms(3) c have "own_commit r ''PUT'' (request_uri r (mutationLeasePath r n))
        (Some (marshal (lease_json (with_annotation l h)))) c"
      by (simp add: request_spec_def)
    from put_commit[OF this i v(1)] obtain o' m where
      m: "cm_name c = n" "cm_old c = Some o'" "version o' = version l" "cm_new c = Some m"
        "same_content m (with_annotation l h)" by auto
    then have "o' = l" using v(2)[OF c(1)] by blast
    with m assms(5-8) mutationFenceFromLease_content[OF m(5), of r] show ?thesis
      by (auto simp: op_commit_def carries_def)
  qed
  with assms(3) q show ?thesis
    unfolding op_commits_append(1)[OF q] by (simp add: op_commits_def request_spec_def)
qed

lemma delete_op_commits:
  assumes "lease_read log n (Inr (l, st)) n0" and "success_status st"
    and "request_spec r (log @ n0) ''DELETE'' (mutationLeasePath r n)
      (Some (marshal (delete_options (lm_UID (lease_Metadata l)) (version l)))) res n1"
    and "log_ok ((log @ n0) @ n1)"
    and "n = mutationFenceLeaseName r (fence_Key f)"
    and "mutationFenceFromLease r l = Inr current" and "sameMutationFenceState current f"
  shows "op_commits r (OpDelete f) (n0 @ n1)"
proof -
  have q: "filter cm_own n0 = []" and s: "seen log n0 n (Some l)"
    using assms(1,2) by (auto simp: lease_read_def)
  note v = read_version[OF assms(4)[unfolded append.assoc] s]
  have "op_commit r (OpDelete f) c" if c: "c \<in> set n1" "cm_own c" for c
  proof -
    from assms(3) c have "own_commit r ''DELETE'' (request_uri r (mutationLeasePath r n))
        (Some (marshal (delete_options (lm_UID (lease_Metadata l)) (version l)))) c"
      by (simp add: request_spec_def)
    from delete_commit[OF this v(1)] obtain o' where
      m: "cm_name c = n" "cm_old c = Some o'" "version o' = version l" "cm_new c = None" by auto
    then have "o' = l" using v(2)[OF c(1)] by blast
    with m assms(5-7) show ?thesis by (auto simp: op_commit_def carries_def)
  qed
  with assms(3) q show ?thesis
    unfolding op_commits_append(1)[OF q] by (simp add: op_commits_def request_spec_def)
qed

lemma lease_read_quiet: "lease_read log n got new \<Longrightarrow> filter cm_own new = []"
  by (simp add: lease_read_def)

text \<open>The readback after a write commits nothing, and a fence it finds was shown.\<close>

lemma lspec_after_write:
  assumes "lease_server r lg" and "op_commits r oper (n0 @ n1)"
  shows "lspec lg ((log @ n0) @ n1) (readback r k) (\<lambda>got n2. op_commits r oper (n0 @ n1 @ n2)
    \<and> (\<forall>g. got = Inr (Some g) \<longrightarrow> fence_Key g = k \<and> shown r log (n0 @ n1 @ n2) k g))"
proof (rule lspec_mono[OF lspec_readback[OF assms(1)]])
  fix got n2
  assume g: "fence_read r ((log @ n0) @ n1) k got n2"
  then have "filter cm_own n2 = []" by (rule fence_read_quiet)
  from op_commits_append(2)[OF this, of r oper "n0 @ n1"] assms(2) have "op_commits r oper (n0 @ n1 @ n2)" by simp
  moreover have "fence_Key h = k \<and> shown r log (n0 @ n1 @ n2) k h" if "got = Inr (Some h)" for h
    using g that shown_prepend[of r log n0 "n1 @ n2"] shown_prepend[of r "log @ n0" n1 n2]
    unfolding fence_read_def shown_def[of r "(log @ n0) @ n1"] by blast
  ultimately show "op_commits r oper (n0 @ n1 @ n2)
      \<and> (\<forall>g. got = Inr (Some g) \<longrightarrow> fence_Key g = k \<and> shown r log (n0 @ n1 @ n2) k g)" by blast
qed

lemma shown_lease:
  assumes "lease_read log (mutationFenceLeaseName r key) (Inr (l, st)) n0" and "success_status st" and "mutationFenceFromLease r l = Inr g"
  shows "shown r log n0 key g"
  using assms unfolding shown_def lease_read_def by blast

lemma shown_put:
  assumes "request_spec r (log @ n0) ''PUT'' path body (st, data, None) n1" and "success_status st"
    and "op_commits r oper (n0 @ n1)" and "storedFence r data = Inr g"
  shows "shown r log (n0 @ n1) (fence_Key (op_fence oper)) g"
  by (rule shown_prepend, rule shown_written[OF assms(1) _ assms(2) _ assms(4)])
     (use assms(3) in \<open>auto simp: op_commits_def op_commit_def\<close>)

definition receipt_reported :: "'w KubernetesNodeResolver \<Rightarrow> lease_commit list \<Rightarrow> lease_commit list \<Rightarrow> mutationFence \<Rightarrow> string
    \<Rightarrow> error + mutationFence option \<Rightarrow> bool" where
  "receipt_reported r log new f rc res \<longleftrightarrow> (\<forall>g. res = Inr (Some g) \<longrightarrow> shown r log new (fence_Key f) g
     \<and> sameMutationFenceAttempt g f \<and> fence_Observation g = fence_Observation f \<and> EqualFold (fence_Receipt g) rc)"

definition observation_reported :: "'w KubernetesNodeResolver \<Rightarrow> lease_commit list \<Rightarrow> lease_commit list \<Rightarrow> mutationFence \<Rightarrow> obs_text
    \<Rightarrow> error + mutationFence option \<Rightarrow> bool" where
  "observation_reported r log new f v res \<longleftrightarrow> (\<forall>g. res = Inr (Some g) \<longrightarrow> shown r log new (fence_Key f) g
     \<and> sameMutationFenceAuthority g f \<and> fence_Observation g = v)"

lemma reported_nothing [simp]:
  "receipt_reported r log new f rc (Inl e)" "receipt_reported r log new f rc (Inr None)"
  "receipt_reported r log new f rc (status_result operation st None)" "receipt_reported r log new f rc (joined_result es None)"
  "observation_reported r log new f v (Inl e)" "observation_reported r log new f v (Inr None)"
  "observation_reported r log new f v (status_result operation st None)" "observation_reported r log new f v (joined_result es None)"
  by (auto simp: receipt_reported_def observation_reported_def status_result_def joined_result_def split: option.splits)

lemma lspec_kube_SetReceipt:
  assumes "lease_server r lg"
  shows "lspec lg log (kube_SetReceipt r c f rc) (\<lambda>res new. op_commits r (OpSetReceipt f rc) new \<and> receipt_reported r log new f rc res)"
proof -
  let ?n = "mutationFenceLeaseName r (fence_Key f)"
  have put: "op_commits r (OpSetReceipt f rc) (n0 @ n1)"
    if "lease_read log ?n (Inr (l, st)) n0" "success_status st"
      "request_spec r (log @ n0) ''PUT'' (mutationLeasePath r ?n) (Some (marshal (lease_json
         (with_annotation l (fmupd mutationFenceReceiptAnnotation (ToLower rc)))))) res n1"
      "log_ok ((log @ n0) @ n1)" "mutationFenceFromLease r l = Inr current" "sameMutationFenceState current f"
      "uuid_lower (ToLower rc)" for l st n0 n1 res current
    by (rule put_op_commits[OF that(1-4) _ that(5) fence_with_receipt[OF that(5,7)]]) (use that in auto)
  have answered: "receipt_reported r log (n0 @ n1) f rc (attempt_ok (storedFence r data) h)"
    if "request_spec r (log @ n0) ''PUT'' path body (st, data, None) n1" "success_status st"
      "op_commits r (OpSetReceipt f rc) (n0 @ n1)"
      "\<And>g g'. h g = Inr (Some g') \<Longrightarrow> g' = g \<and> sameMutationFenceAttempt g f \<and> fence_Observation g = fence_Observation f
        \<and> EqualFold (fence_Receipt g) rc" for path body st data n0 n1 h
    using shown_put[OF that(1-3)] that(4) by (cases "storedFence r data") (fastforce simp: receipt_reported_def)+
  have kept: "receipt_reported r log n0 f rc (Inr (Some current))"
    if "lease_read log ?n (Inr (l, st)) n0" "success_status st" "mutationFenceFromLease r l = Inr current"
      "sameMutationFenceState current f" "EqualFold (fence_Receipt current) rc" for l st n0 current
    using shown_lease[OF that(1-3)] that(4,5) by (auto simp: receipt_reported_def fence_same_defs)
  have again: "receipt_reported r log new f rc (Inr (Some current))"
    if "fence_Key current = fence_Key f \<and> shown r log new (fence_Key f) current" "fence_Intent current = fence_Intent f"
      "fence_Attempt current = fence_Attempt f" "fence_Observation current = fence_Observation f" "EqualFold (fence_Receipt current) rc"
    for current new
    using that by (auto simp: receipt_reported_def sameMutationFenceAttempt_def)
  show ?thesis
    unfolding kube_SetReceipt_def
    by (intro lspec_rules lspec_bind[OF lspec_getMutationLease[OF assms]] lspec_bind[OF lspec_request[OF assms]]
          lspec_bind[OF lspec_after_write[OF assms]])
       (auto intro: op_commits_quiet put kept again intro!: answered dest: lease_read_quiet
          simp: sameMutationFenceAttempt_def split: if_splits)
qed

lemma lspec_kube_SetObservation:
  assumes "lease_server r lg" and "kr_obs r (kr_obsText r v) = v" and "kr_obs r [] = NoObs"
  shows "lspec lg log (kube_SetObservation r c f v) (\<lambda>res new. op_commits r (OpSetObservation f v) new
    \<and> observation_reported r log new f v res)"
proof -
  let ?n = "mutationFenceLeaseName r (fence_Key f)"
  let ?h = "\<lambda>v. if v = NoObs then fmdrop mutationFenceObservationAnnotation
    else fmupd mutationFenceObservationAnnotation (kr_obsText r v)"
  define okv where "okv = (\<lambda>v. kr_obs r (kr_obsText r v) = v \<and> (v = NoObs \<or> (\<exists>ov. decodeMutationObservation v = Inr ov)))"
  have ann: "mutationFenceFromLease r (with_annotation l (?h v)) = Inr (current\<lparr>fence_Observation := v\<rparr>)"
    if "mutationFenceFromLease r l = Inr current" "okv v" for l current v
    using fence_without_observation[OF that(1) assms(3)] fence_with_observation[OF that(1)] that(2) by (auto simp: okv_def)
  have put: "op_commits r (OpSetObservation f v) (n0 @ n1)"
    if "lease_read log ?n (Inr (l, st)) n0" "success_status st"
      "request_spec r (log @ n0) ''PUT'' (mutationLeasePath r ?n) (Some (marshal (lease_json (with_annotation l (?h v))))) res n1"
      "log_ok ((log @ n0) @ n1)" "mutationFenceFromLease r l = Inr current" "sameMutationFenceState current f" "okv v"
    for l st n0 n1 res current v
    by (rule put_op_commits[OF that(1-4) _ that(5) ann[OF that(5,7)]]) (use that in auto)
  have answered: "observation_reported r log (n0 @ n1) f v (attempt_ok (storedFence r data) (\<lambda>stored.
      if sameMutationFenceAuthority stored f \<longrightarrow> fence_Observation stored \<noteq> v then Inl err else Inr (Some stored)))"
    if "request_spec r (log @ n0) ''PUT'' path body (st, data, None) n1" "success_status st"
      "op_commits r (OpSetObservation f v) (n0 @ n1)" for path body st data n0 n1 v err
    using shown_put[OF that] by (cases "storedFence r data") (auto simp: observation_reported_def)
  have kept: "observation_reported r log n0 f (fence_Observation current) (Inr (Some current))"
    if "lease_read log ?n (Inr (l, st)) n0" "success_status st" "mutationFenceFromLease r l = Inr current"
      "sameMutationFenceAuthority current f" for l st n0 current
    using shown_lease[OF that(1-3)] that(4) by (auto simp: observation_reported_def)
  have again: "observation_reported r log new f (fence_Observation current) (Inr (Some current))"
    if "shown r log new (fence_Key f) current" "sameMutationFenceAuthority current f" for current new
    using that by (auto simp: observation_reported_def)
  show ?thesis
  proof (cases "validateMutationFence f = None \<and> (v = NoObs \<or> (\<exists>ov. decodeMutationObservation v = Inr ov))")
    case True
    then have ok: "okv v" using assms(2) by (simp add: okv_def)
    from True have sel: "(case (validateMutationFence f, v = NoObs, decodeMutationObservation v) of
        (Some err, _, _) \<Rightarrow> m1 err | (None, False, Inl err) \<Rightarrow> m2 err | _ \<Rightarrow> m) = m" for m1 m2 m
      by (cases "v = NoObs") auto
    show ?thesis
      unfolding kube_SetObservation_def sel
      by (intro lspec_rules lspec_bind[OF lspec_getMutationLease[OF assms(1)]] lspec_bind[OF lspec_request[OF assms(1)]]
            lspec_bind[OF lspec_after_write[OF assms(1)]])
         (use ok in \<open>auto intro: op_commits_quiet put kept again intro!: answered dest: lease_read_quiet\<close>)
  next
    case False
    then show ?thesis
      unfolding kube_SetObservation_def
      by (auto split: option.splits bool.splits sum.splits intro!: hspec_return op_commits_quiet)
  qed
qed

lemma lspec_kube_Delete:
  assumes "lease_server r lg"
  shows "lspec lg log (kube_Delete r c f) (\<lambda>res new. op_commits r (OpDelete f) new
     \<and> (res = None \<longrightarrow> seen log new (mutationFenceLeaseName r (fence_Key f)) None))"
proof -
  let ?n = "mutationFenceLeaseName r (fence_Key f)"
  note del = delete_op_commits[OF _ _ _ _ refl]
  have none: "seen log (n0 @ n1 @ n2) ?n None" if "fence_read r ((log @ n0) @ n1) (fence_Key f) (Inr None) n2" for n0 n1 n2
    using that seen_prepend[of "log @ n0" n1 n2] seen_prepend[of log n0 "n1 @ n2"] by (simp add: fence_read_def)
  have after: "lspec lg ((log @ n0) @ n1) (readback r (fence_Key f))
      (\<lambda>got n2. op_commits r (OpDelete f) (n0 @ n1 @ n2) \<and> (got = Inr None \<longrightarrow> seen log (n0 @ n1 @ n2) ?n None))"
    if "op_commits r (OpDelete f) (n0 @ n1)" for n0 n1
  proof (rule lspec_mono[OF lspec_readback[OF assms]])
    fix got n2
    assume g: "fence_read r ((log @ n0) @ n1) (fence_Key f) got n2"
    from op_commits_append(2)[OF fence_read_quiet[OF g], of r "OpDelete f" "n0 @ n1"] that none g
    show "op_commits r (OpDelete f) (n0 @ n1 @ n2) \<and> (got = Inr None \<longrightarrow> seen log (n0 @ n1 @ n2) ?n None)" by auto
  qed
  have fail: "errors_join (a # b # g # Some e # es) \<noteq> None" for a b g e es
    by (simp add: errors_join_None)
  have st: "100 \<le> status" if "request_spec r l meth p b (status, d, None) n" for l meth p b status d n
    using that by (simp add: request_spec_def)
  show ?thesis
    unfolding kube_Delete_def
    by (intro lspec_rules lspec_bind[OF lspec_getMutationLease[OF assms]] lspec_bind[OF lspec_request[OF assms]]
          lspec_bind[OF after])
       (auto intro: op_commits_quiet del dest: lease_read_quiet st
          simp: lease_read_def[of _ _ "Inr _"] kubernetesFenceStatusError_None fail)
qed

section \<open>Refinement\<close>

text \<open>The operations of the store under one name, with what they return.\<close>

datatype store_answer = Created "error + mutationFence option \<times> bool" | Written "error + mutationFence option" | Deleted "error option"

fun kube_apply :: "'w KubernetesNodeResolver \<Rightarrow> ctx \<Rightarrow> store_op \<Rightarrow> ('w, store_answer) prog" where
  "kube_apply r c (OpCreate f) = do { res \<leftarrow> kube_Create r c f; ret (Created res) }"
| "kube_apply r c (OpSetReceipt f rc) = do { res \<leftarrow> kube_SetReceipt r c f rc; ret (Written res) }"
| "kube_apply r c (OpSetObservation f v) = do { res \<leftarrow> kube_SetObservation r c f v; ret (Written res) }"
| "kube_apply r c (OpDelete f) = do { res \<leftarrow> kube_Delete r c f; ret (Deleted res) }"

text \<open>
  A truthful answer, for a call that adds \<open>new\<close> to the log: a fence it returns was stored under the key during
  the call, is what the operation should leave, and counts as acquired exactly when it is the candidate;
  a completed deletion saw no Lease. An error, and a nil fence without an error, say nothing.
\<close>

fun truthful :: "'w KubernetesNodeResolver \<Rightarrow> lease_commit list \<Rightarrow> lease_commit list \<Rightarrow> store_op \<Rightarrow> store_answer \<Rightarrow> bool" where
  "truthful r log new (OpCreate f) (Created res) = create_reported r log new f res"
| "truthful r log new (OpSetReceipt f rc) (Written res) = receipt_reported r log new f rc res"
| "truthful r log new (OpSetObservation f v) (Written res) = observation_reported r log new f v res"
| "truthful r log new (OpDelete f) (Deleted res) = (res = None \<longrightarrow> seen log new (mutationFenceLeaseName r (fence_Key f)) None)"
| "truthful r log new _ _ = False"

fun op_texts_ok :: "'w KubernetesNodeResolver \<Rightarrow> store_op \<Rightarrow> bool" where
  "op_texts_ok r (OpSetObservation f v) = texts_ok r (f\<lparr>fence_Observation := v\<rparr>)"
| "op_texts_ok r oper = texts_ok r (op_fence oper)"

lemma lspec_then:
  assumes "lspec lg log m Q" and "\<And>x new. Q x new \<Longrightarrow> P (f x) new"
  shows "lspec lg log (State_Monad.bind m (\<lambda>x. ret (f x))) P"
  by (rule lspec_bind[OF assms(1)]) (rule hspec_return, simp add: assms(2))

lemma lspec_kube_apply:
  assumes "lease_server r lg" and "op_texts_ok r oper"
  shows "lspec lg log (kube_apply r c oper) (\<lambda>x new. op_commits r oper new \<and> truthful r log new oper x)"
proof (cases oper)
  case (OpCreate f)
  with assms(2) lspec_kube_Create[OF assms(1), of f log c] show ?thesis
    by (auto intro!: lspec_then[where Q = "create_result r log f"] simp: create_result_def)
next
  case (OpSetReceipt f rc)
  with lspec_kube_SetReceipt[OF assms(1), of log c f rc] show ?thesis
    by (auto intro: lspec_then)
next
  case (OpSetObservation f v)
  with assms(2) lspec_kube_SetObservation[OF assms(1), of v log c f] show ?thesis
    by (auto intro: lspec_then simp: texts_ok_def)
next
  case (OpDelete f)
  with lspec_kube_Delete[OF assms(1), of log c f] show ?thesis
    by (auto intro: lspec_then)
qed

text \<open>
  C16: the Lease store refines the abstract fence store. On any API server with optimistic
  concurrency, whatever other clients commit meanwhile and whichever answers are lost, a store
  operation makes at most one commit of its own, on the Lease its key names, and that commit takes
  the fence stored at that moment to the one the operation is meant to leave: a create finds no
  Lease; a receipt, an observation or a deletion finds exactly the fence the caller holds. What it
  returns is true: a fence was stored under the key during the call, with the receipt or observation
  that was asked for and the caller's attempt, a create reports it as acquired exactly when intent,
  attempt and receipt are the candidate's, and a deletion that succeeds saw no Lease. A nil fence
  without an error (C38) makes no claim, and a create never reports it as acquired.
\<close>

theorem lease_store_refines:
  assumes "lease_server r lg" and "op_texts_ok r oper" and "log_ok (lg (world s))"
    and "run_state (kube_apply r c oper) s = (x, s')"
  shows "\<exists>new. lg (world s') = lg (world s) @ new \<and> length (filter cm_own new) \<le> 1
    \<and> (\<forall>d \<in> set new. cm_own d \<longrightarrow> cm_name d = mutationFenceLeaseName r (fence_Key (op_fence oper))
         \<and> (\<exists>old after. carries r (cm_old d) old \<and> carries r (cm_new d) after \<and> fence_move oper old after))
    \<and> truthful r (lg (world s)) new oper x"
  using lspec_run[OF lspec_kube_apply[OF assms(1,2)] assms(3,4)]
  by (auto simp: op_commits_def op_commit_def)

section \<open>Winning a create\<close>

definition carries_token :: "'w KubernetesNodeResolver \<Rightarrow> string \<Rightarrow> kubernetesLease option \<Rightarrow> bool" where
  "carries_token r token l \<longleftrightarrow> (\<exists>h. carries r l (Some h) \<and> fence_Attempt h = token)"

text \<open>Only a commit of its owner brings a token into the log; others at most keep it.\<close>

definition private_token :: "'w KubernetesNodeResolver \<Rightarrow> string \<Rightarrow> lease_commit list \<Rightarrow> bool" where
  "private_token r token new \<longleftrightarrow>
     (\<forall>d \<in> set new. \<not> cm_own d \<longrightarrow> carries_token r token (cm_new d) \<longrightarrow> carries_token r token (cm_old d))"

lemma log_ok_old: "log_ok (log @ d # rest) \<Longrightarrow> cm_old d = stored log (cm_name d)"
  unfolding log_ok_def by (metis append_eq_conv_conj length_append length_Cons less_add_Suc1 add_Suc_right nth_append_length)

lemma carries_token_None [simp]: "\<not> carries_token r token None"
  by (simp add: carries_token_def carries_def)

lemma token_origin:
  assumes "log_ok (log @ new)" and "private_token r token new"
    and "\<forall>d \<in> set log. \<not> carries_token r token (cm_new d)" and "\<exists>d \<in> set new. carries_token r token (cm_new d)"
  shows "\<exists>d \<in> set new. cm_own d"
proof -
  from split_list_first_prop[OF assms(4)] obtain before d rest where
    d: "new = before @ d # rest" "carries_token r token (cm_new d)"
      "\<forall>e \<in> set before. \<not> carries_token r token (cm_new e)" by blast
  have "\<not> carries_token r token (cm_old d)"
  proof
    assume c: "carries_token r token (cm_old d)"
    have "cm_old d = stored (log @ before) (cm_name d)"
      using assms(1) d(1) by (intro log_ok_old[where rest = rest]) simp
    with c obtain l where "stored (log @ before) (cm_name d) = Some l" "cm_old d = Some l"
      by (cases "stored (log @ before) (cm_name d)") auto
    with stored_commit[of "log @ before" "cm_name d" l] c d(3) assms(3) show False by auto
  qed
  with assms(2) d show ?thesis by (auto simp: private_token_def)
qed

text \<open>
  C17: a create that reports the fence as acquired has won. When the attempt token is new to the
  log and nobody else introduces it, the call itself made exactly one commit, on a name without a
  Lease, and the Lease it left carries the candidate. So a readback after a lost or ambiguous
  answer never takes another controller's fence for its own.
\<close>

theorem lease_create_wins:
  assumes "lease_server r lg" and "texts_ok r f" and "log_ok (lg (world s))"
    and "run_state (kube_Create r c f) s = (Inr (g, True), s')"
    and "lg (world s') = lg (world s) @ new"
    and "\<forall>d \<in> set (lg (world s)). \<not> carries_token r (fence_Attempt f) (cm_new d)"
    and "private_token r (fence_Attempt f) new"
  shows "\<exists>d. filter cm_own new = [d] \<and> cm_name d = mutationFenceLeaseName r (fence_Key f) \<and> cm_old d = None
    \<and> carries r (cm_new d) (Some (f\<lparr>fence_Receipt := ToLower (fence_Receipt f)\<rparr>))"
proof -
  from lspec_run[OF lspec_kube_Create[OF assms(1,2)] assms(3,4)] assms(5) have
    ok: "log_ok (lg (world s) @ new)" and res: "create_result r (lg (world s)) f (Inr (g, True)) new"
    by auto
  from res obtain d h where "d \<in> set (lg (world s) @ new)" "carries r (cm_new d) (Some h)"
      "fence_Attempt h = fence_Attempt f"
    by (auto simp: create_result_def)
  with assms(6) have "\<exists>d \<in> set new. carries_token r (fence_Attempt f) (cm_new d)"
    by (auto simp: carries_token_def)
  from token_origin[OF ok assms(7,6) this] have ne: "filter cm_own new \<noteq> []" by (auto simp: filter_empty_conv)
  have oc: "op_commits r (OpCreate f) new" using res by (simp add: create_result_def)
  then have "length (filter cm_own new) \<le> 1" by (simp add: op_commits_def)
  with ne obtain e where e: "filter cm_own new = [e]" by (cases "filter cm_own new") auto
  then have "e \<in> set new" "cm_own e" by (metis filter_eq_ConsD in_set_conv_decomp, metis filter_eq_ConsD)
  with oc have "op_commit r (OpCreate f) e" by (simp add: op_commits_def)
  with e show ?thesis
    by (auto simp: op_commit_def carries_def split: option.splits)
qed

section \<open>Fences of one key succeed one another\<close>

definition holds_attempt :: "'w KubernetesNodeResolver \<Rightarrow> mutationFence \<Rightarrow> kubernetesLease option \<Rightarrow> bool" where
  "holds_attempt r f l \<longleftrightarrow> (\<exists>h. carries r l (Some h) \<and> sameMutationFenceAttempt h f)"

lemma carries_unique: "carries r l f \<Longrightarrow> carries r l g \<Longrightarrow> f = g"
  by (auto simp: carries_def split: option.splits)

lemma op_commit_keeps:
  assumes "op_commit r oper d" and "holds_attempt r f (cm_old d)"
  shows "holds_attempt r f (cm_new d) \<or> (\<exists>g. op_commit r (OpDelete g) d \<and> sameMutationFenceAttempt g f)"
proof -
  from assms(1) obtain old new where m: "carries r (cm_old d) old" "carries r (cm_new d) new" "fence_move oper old new"
    by (auto simp: op_commit_def)
  from assms(2) obtain h where h: "carries r (cm_old d) (Some h)" "sameMutationFenceAttempt h f"
    by (auto simp: holds_attempt_def)
  with carries_unique[OF m(1) h(1)] have "fence_move oper (Some h) new" using m(3) by simp
  with m(2) h(2) assms(1) show ?thesis
    by (cases oper) (auto simp: holds_attempt_def fence_same_defs)
qed

lemma creations_apart:
  assumes "log_ok log" and "\<forall>d \<in> set log. cm_name d = n \<longrightarrow> (\<exists>oper. op_commit r oper d)"
    and "i < j" and "j < length log"
    and "cm_name (log ! i) = n" and "op_commit r (OpCreate f) (log ! i)"
    and "cm_name (log ! j) = n" and "op_commit r (OpCreate f') (log ! j)"
  shows "\<exists>k g. i < k \<and> k < j \<and> cm_name (log ! k) = n \<and> op_commit r (OpDelete g) (log ! k)
    \<and> sameMutationFenceAttempt g f"
proof (rule ccontr)
  assume none: "\<not> ?thesis"
  have step: "stored (take (Suc k) log) n = (if cm_name (log ! k) = n then cm_new (log ! k) else stored (take k log) n)"
    if "k < length log" for k
    using that by (simp add: take_Suc_conv_app_nth stored_snoc)
  have "holds_attempt r f (stored (take k log) n)" if "i < k" "k \<le> j" for k
    using that
  proof (induction k)
    case (Suc k)
    have k: "k < length log" using Suc.prems assms(4) by simp
    show ?case
    proof (cases "k = i")
      case True
      have "holds_attempt r f (cm_new (log ! i))"
        using assms(6) by (auto simp: op_commit_def holds_attempt_def fence_same_defs)
      with True step[OF k] assms(5) show ?thesis by simp
    next
      case False
      with Suc have h: "holds_attempt r f (stored (take k log) n)" and ik: "i < k" "k < j" by auto
      show ?thesis
      proof (cases "cm_name (log ! k) = n")
        case True
        with assms(1) k have "cm_old (log ! k) = stored (take k log) n" by (auto simp: log_ok_def)
        moreover from assms(2) True k obtain oper where "op_commit r oper (log ! k)" by auto
        ultimately show ?thesis
          using op_commit_keeps[of r oper "log ! k" f] h none ik True step[OF k] by auto
      qed (use h step[OF k] in simp)
    qed
  qed simp
  from this[OF assms(3)] have "holds_attempt r f (stored (take j log) n)" by simp
  moreover have "cm_old (log ! j) = stored (take j log) n"
    using assms(1,4,7) by (auto simp: log_ok_def)
  moreover have "cm_old (log ! j) = None"
    using assms(8) by (auto simp: op_commit_def carries_def split: option.splits)
  ultimately show False by (auto simp: holds_attempt_def carries_def)
qed

text \<open>A controller that uses the store: its operations one after the other.\<close>

primrec kube_run :: "'w KubernetesNodeResolver \<Rightarrow> (ctx \<times> store_op) list \<Rightarrow> ('w, store_answer list) prog" where
  "kube_run r [] = ret []"
| "kube_run r (x # xs) = do { a \<leftarrow> kube_apply r (fst x) (snd x); as \<leftarrow> kube_run r xs; ret (a # as) }"

lemma lspec_kube_run:
  assumes "lease_server r lg" and "\<forall>x \<in> set ops. op_texts_ok r (snd x)"
  shows "lspec lg log (kube_run r ops) (\<lambda>_ new. \<forall>d \<in> set new. cm_own d \<longrightarrow> (\<exists>oper. op_commit r oper d))"
  using assms(2)
proof (induction ops arbitrary: log)
  case (Cons x ops)
  then have x: "op_texts_ok r (snd x)" and rest: "\<forall>x \<in> set ops. op_texts_ok r (snd x)" by simp_all
  show ?case
    unfolding kube_run.simps
    by (rule lspec_bind[OF lspec_kube_apply[OF assms(1) x]], rule lspec_then[OF Cons.IH[OF rest]]) (auto simp: op_commits_def)
qed (auto intro: hspec_return)

text \<open>
  C18: at any time one attempt owns a key. A controller runs any operations of the store, on a server
  that other clients use at the same time. Its own commits are steps of the store by C16; when the
  history it starts from and the commits of the others on the Lease of the key are steps of store
  operations too, then in the whole history two creations of that Lease always have a deletion between
  them, and it is the deletion of the attempt that the first one created.
\<close>

theorem lease_history_exclusive:
  assumes "lease_server r lg" and "\<forall>x \<in> set ops. op_texts_ok r (snd x)" and "log_ok (lg (world s))"
    and "run_state (kube_run r ops) s = (as, s')" and "log = lg (world s')"
    and "\<forall>d \<in> set (lg (world s)). cm_name d = n \<longrightarrow> (\<exists>oper. op_commit r oper d)"
    and "\<forall>d \<in> set log. cm_name d = n \<longrightarrow> \<not> cm_own d \<longrightarrow> (\<exists>oper. op_commit r oper d)"
    and "i < j" and "j < length log"
    and "cm_name (log ! i) = n" and "op_commit r (OpCreate f) (log ! i)"
    and "cm_name (log ! j) = n" and "op_commit r (OpCreate f') (log ! j)"
  shows "\<exists>k g. i < k \<and> k < j \<and> cm_name (log ! k) = n \<and> op_commit r (OpDelete g) (log ! k)
    \<and> sameMutationFenceAttempt g f"
proof -
  from lspec_run[OF lspec_kube_run[OF assms(1,2)] assms(3,4)] obtain new where
    new: "log = lg (world s) @ new" "log_ok log" "\<forall>d \<in> set new. cm_own d \<longrightarrow> (\<exists>oper. op_commit r oper d)"
    using assms(5) by auto
  have "\<forall>d \<in> set log. cm_name d = n \<longrightarrow> (\<exists>oper. op_commit r oper d)"
    using assms(6,7) new(1,3) by auto
  from creations_apart[OF new(2) this assms(8-13)] show ?thesis .
qed

end
