(* ===== verification/Lease_Findings.thy ===== *)
theory Lease_Findings
  imports Lease_Proofs Example_Cloud
begin

text \<open>
  Two places where the adapter and the Lease store do not fit together. A write that is answered
  404 yields neither a fence nor an error, and the adapter dereferences the missing fence. A
  deletion whose fence another controller has completed already is reported as a failure, because
  the store refuses the zero fence the absence loop then returns.
\<close>

section \<open>A receipt written to a Lease that has just been deleted\<close>

lemma run_on_world: "run_state m \<lparr>world = w, clock = clk w, trace = []\<rparr> = (x, s) \<Longrightarrow> fst (run_on clk m w) = x"
  by (simp add: run_on_def)

lemma set_receipt_404:
  assumes "validateMutationFence f = None" and "uuid_lower (ToLower rc)"
    and "run_state (getMutationLease r c (mutationFenceLeaseName r (fence_Key f))) s = (Inr (lease, 200), s1)"
    and "mutationFenceFromLease r lease = Inr f" and "fence_Receipt f = []"
    and "run_state (kubernetesAPIRequest r c ''PUT'' (mutationLeasePath r (mutationFenceLeaseName r (fence_Key f)))
        (Some (marshal (lease_json (with_annotation lease (fmupd mutationFenceReceiptAnnotation (ToLower rc))))))) s1
        = ((404, data, None), s2)"
  shows "run_state (kube_SetReceipt r c f rc) s = (Inr None, s2)"
  using assms
  by (simp add: kube_SetReceipt_def success_status_def fence_same_defs ambiguousKubernetesMutationStatus_def
      status_result_def kubernetesFenceStatusError_def)

text \<open>
  C38: the Lease is read and still carries the caller's fence; before the receipt is written another
  controller completes the create and deletes the Lease, so the write is answered 404. Then
  \<^verbatim>\<open>SetReceipt\<close> returns a nil fence and a nil error, and \<^verbatim>\<open>completeFencedDisk\<close>, which only checks
  the error, dereferences the nil pointer.
\<close>

theorem receipt_after_deletion_panics:
  assumes "a_fences a = kubernetes_store clk r" and "clock s = clk (world s)"
    and "validateMutationFence f = None" and "uuid_lower (ToLower (disk_UUID ready))" and "fence_Receipt f = []"
    and "run_state (getMutationLease r c (mutationFenceLeaseName r (fence_Key f)))
        \<lparr>world = world s, clock = clock s, trace = []\<rparr> = (Inr (lease, 200), s1)"
    and "mutationFenceFromLease r lease = Inr f"
    and "run_state (kubernetesAPIRequest r c ''PUT'' (mutationLeasePath r (mutationFenceLeaseName r (fence_Key f)))
        (Some (marshal (lease_json (with_annotation lease
           (fmupd mutationFenceReceiptAnnotation (ToLower (disk_UUID ready)))))))) s1 = ((404, data, None), s2)"
  shows "fst (fs_SetReceipt (a_fences a) c f (ToLower (disk_UUID ready)) (world s)) = Inr None
    \<and> fst (run_state (completeFencedDisk a c intent f ready) s) = Inl nil_deref"
proof -
  have "run_state (kube_SetReceipt r c f (ToLower (disk_UUID ready))) \<lparr>world = world s, clock = clk (world s), trace = []\<rparr>
      = (Inr None, s2)"
    using assms by (intro set_receipt_404[of f _ r c _ lease s1 data]) simp_all
  from run_on_world[where clk = clk, OF this] have "fst (fs_SetReceipt (a_fences a) c f (ToLower (disk_UUID ready)) (world s)) = Inr None"
    by (simp add: assms(1) kubernetes_store_def)
  then show ?thesis
    by (cases "fs_SetReceipt (a_fences a) c f (ToLower (disk_UUID ready)) (world s)")
       (auto simp: completeFencedDisk_def fenceSetReceipt_def call_def)
qed

section \<open>Completing a deletion whose fence is gone\<close>

lemma delete_zero_fence: "run_state (kube_Delete r c zero_fence) s = (Some (Plain ''CSI mutation fence is incomplete''), s)"
  by (simp add: kube_Delete_def validateMutationFence_def zero_fence_def)

text \<open>
  When the absence loop finds the disk gone and the delete fence completed by another
  controller, it returns the zero fence. \<^verbatim>\<open>DeleteVolume\<close> passes it to \<^verbatim>\<open>fences.Delete\<close> without the
  check on its key that the attachment path makes; the Lease store rejects it without a request,
  and the completed deletion is reported as unavailable. The in-memory store accepts it.
\<close>

theorem completed_deletion_unavailable:
  assumes "a_fences a = kubernetes_store clk r"
    and "run_state (waitForDiskAbsent a c loc volumeID f) s = (Inr zero_fence, s1)"
  shows "fst (run_state (finishDeletion a c loc volumeID f None) s)
      = Some (Wrap ''complete disk-delete fence after absence proof'' [Sentinel ErrUnavailable])
    \<and> fst (mem_Delete zero_fence newMemoryMutationFenceStore) = None"
  using assms delete_zero_fence[of r c]
  by (simp add: finishDeletion_def fenceDelete_def call_def kubernetes_store_def run_on_def mem_Delete_def
      newMemoryMutationFenceStore_def)

section \<open>Examples\<close>

text \<open>A transport that answers every GET with the Lease of a fence and every other request with 404.\<close>

definition example_resolver ::
  "(string \<Rightarrow> string \<Rightarrow> string option \<Rightarrow> 'w \<Rightarrow> http_response \<times> 'w) \<Rightarrow> 'w KubernetesNodeResolver" where
  "example_resolver serve =
     \<lparr>kr_basePath = [], kr_readToken = (\<lambda>w. (Inr ''token'', 0, w)),
      kr_do = (\<lambda>c meth token uri body w. case serve meth uri body w of (resp, w') \<Rightarrow> (Inr resp, 1, w')),
      kr_namespace = ''kube-system'', kr_sha256hex = (\<lambda>s. ''00''),
      kr_intentText = (\<lambda>i. ''intent''), kr_intent = (\<lambda>s. CreateText \<lparr>ci_Operation = ''disk-create'', ci_Location = loc_id,
         ci_Name = ''pvc-1'', ci_SizeGiB = 1, ci_BillingAccountID = 7\<rparr>),
      kr_obsText = (\<lambda>v. []), kr_obs = (\<lambda>s. NoObs)\<rparr>"

definition answer :: "int \<Rightarrow> string \<Rightarrow> http_response" where
  "answer status body = \<lparr>hr_StatusCode = status, hr_ContentLength = -1, hr_Body = body, hr_ReadError = None\<rparr>"

definition example_fence :: mutationFence where
  "example_fence = \<lparr>fence_Key = ''disk-create/bkk01/pvc-1'',
     fence_Intent = CreateText \<lparr>ci_Operation = ''disk-create'', ci_Location = loc_id,
       ci_Name = ''pvc-1'', ci_SizeGiB = 1, ci_BillingAccountID = 7\<rparr>,
     fence_Attempt = ''0123456789abcdef0123456789abcdef'', fence_Receipt = [], fence_Observation = NoObs\<rparr>"

definition gone_resolver :: "example_world KubernetesNodeResolver" where
  "gone_resolver = example_resolver (\<lambda>meth uri body w. (answer 404 [], w))"

definition vanishing_resolver :: "example_world KubernetesNodeResolver" where
  "vanishing_resolver = example_resolver (\<lambda>meth uri body w.
     (if meth = ''GET'' then answer 200 (marshal (lease_json (mutationFenceLease gone_resolver example_fence)))
      else answer 404 [], w))"

lemma example_resolver_texts:
  "kr_intent (example_resolver serve) = (\<lambda>s. fence_Intent example_fence)" "kr_obs (example_resolver serve) = (\<lambda>s. NoObs)"
  by (simp_all add: example_resolver_def example_fence_def)

lemma example_fence_valid: "validateMutationFence example_fence = None"
  by code_simp

lemma run_kubernetesAPIRequest:
  assumes "serve meth (trim_right_slash [] @ path) body (world s) = (answer st data, w')"
    and "length data \<le> 1048576"
  shows "run_state (kubernetesAPIRequest (example_resolver serve) c meth path body) s
    = ((st, data, None), s\<lparr>world := w', clock := clock s + 1\<rparr>)"
  using assms
  by (simp add: kubernetesAPIRequest_def kubernetesAPIRequestWithLimit_def maxKubernetesAPIResponseBytes_def
      call_silent_def example_resolver_def readKubernetesResponse_def answer_def Let_def)

lemma run_getMutationLease:
  assumes "serve ''GET'' (trim_right_slash [] @ mutationLeasePath (example_resolver serve) n) None (world s)
      = (answer 200 (marshal (lease_json l)), w')"
    and "length (marshal (lease_json l)) \<le> 1048576" and "int32 (ls_LeaseDurationSeconds (lease_Spec l))"
  shows "run_state (getMutationLease (example_resolver serve) c n) s
    = (Inr (l, 200), s\<lparr>world := w', clock := clock s + 1\<rparr>)"
  using run_kubernetesAPIRequest[of serve "''GET''" "mutationLeasePath (example_resolver serve) n" None s 200, OF assms(1,2)]
    decode_printed_lease[OF assms(3)]
  by (simp add: getMutationLease_def success_status_def)

abbreviation example_lease :: kubernetesLease where
  "example_lease \<equiv> mutationFenceLease gone_resolver example_fence"

lemma example_lease_facts:
  "int32 (ls_LeaseDurationSeconds (lease_Spec example_lease))"
  "length (marshal (lease_json example_lease)) \<le> 1048576"
  "mutationFenceFromLease vanishing_resolver example_lease = Inr example_fence"
proof -
  have t: "texts_ok gone_resolver example_fence"
    by (simp add: texts_ok_def gone_resolver_def example_resolver_def example_fence_def)
  have "mutationFenceFromLease vanishing_resolver example_lease = mutationFenceFromLease gone_resolver example_lease"
    unfolding mutationFenceFromLease_def gone_resolver_def vanishing_resolver_def example_resolver_texts ..
  with fence_of_lease[OF example_fence_valid t] show "mutationFenceFromLease vanishing_resolver example_lease = Inr example_fence"
    by (simp add: example_fence_def)
  show "int32 (ls_LeaseDurationSeconds (lease_Spec example_lease))"
    by (simp add: mutationFenceLease_def Let_def int32_def)
  have "length (marshal (lease_json example_lease)) \<le> 1000" by code_simp
  then show "length (marshal (lease_json example_lease)) \<le> 1048576" by simp
qed

definition vanishing_adapter :: "example_world Adapter" where
  "vanishing_adapter = example_adapter\<lparr>a_fences := kubernetes_store (\<lambda>w. 1) vanishing_resolver\<rparr>"

theorem receipt_after_deletion_panics_witness:
  "fst (run_state (completeFencedDisk vanishing_adapter background
     \<lparr>ci_Operation = ''disk-create'', ci_Location = loc_id, ci_Name = ''pvc-1'', ci_SizeGiB = 1, ci_BillingAccountID = 7\<rparr>
     example_fence (example_disk ''pvc-1'' 1))
     (example_state False None)) = Inl nil_deref"
proof -
  let ?s = "\<lparr>world = world (example_state False None), clock = clock (example_state False None), trace = []\<rparr>"
  let ?s1 = "?s\<lparr>clock := clock ?s + 1\<rparr>"
  have get: "run_state (getMutationLease vanishing_resolver background
      (mutationFenceLeaseName vanishing_resolver (fence_Key example_fence))) ?s = (Inr (example_lease, 200), ?s1)"
    unfolding vanishing_resolver_def
    by (rule trans[OF run_getMutationLease[OF _ example_lease_facts(2,1), where w' = "world ?s"]]) simp_all
  have put: "run_state (kubernetesAPIRequest vanishing_resolver background ''PUT'' path body) ?s1
      = ((404, [], None), ?s1\<lparr>clock := clock ?s1 + 1\<rparr>)" for path body
    unfolding vanishing_resolver_def
    by (rule trans[OF run_kubernetesAPIRequest[where st = 404 and data = "[]" and w' = "world ?s1"]]) simp_all
  have u: "uuid_lower (ToLower (disk_UUID (example_disk ''pvc-1'' 1)))" by code_simp
  have a: "a_fences vanishing_adapter = kubernetes_store (\<lambda>w. 1) vanishing_resolver"
    and t: "clock (example_state False None) = 1" and e: "fence_Receipt example_fence = []"
    by (simp_all add: vanishing_adapter_def example_state_def example_fence_def)
  show ?thesis
    by (rule conjunct2[OF receipt_after_deletion_panics[OF a t example_fence_valid u e get example_lease_facts(3) put]])
qed

definition gone_adapter :: "example_world Adapter" where
  "gone_adapter = example_adapter\<lparr>a_fences := kubernetes_store (\<lambda>w. 1) gone_resolver\<rparr>"

lemma gone_request:
  "run_state (kubernetesAPIRequest gone_resolver c meth path body) s = ((404, [], None), s\<lparr>clock := clock s + 1\<rparr>)"
  unfolding gone_resolver_def
  by (rule trans[OF run_kubernetesAPIRequest[where st = 404 and data = "[]" and w' = "world s"]]) simp_all

lemma gone_store:
  "k \<noteq> [] \<Longrightarrow> fs_Get (kubernetes_store clk gone_resolver) c k w = (Inr None, 1, w)"
  "decodeMutationObservation v = Inr ov \<Longrightarrow> fs_SetObservation (kubernetes_store clk gone_resolver) c example_fence v w
     = (Inl (Wrap ''CSI mutation Lease disappeared before observation persistence'' [Sentinel ErrMutationFenceChanged]), 1, w)"
  by (simp_all add: kubernetes_store_def run_on_def kube_Get_def getMutationLease_def gone_request fenceFromGet_def
      kube_SetObservation_def example_fence_valid split: bool.splits)

theorem completed_deletion_unavailable_witness:
  "fst (run_state (finishDeletion gone_adapter background loc_id disk_id example_fence None) (example_state False None))
     = Some (Wrap ''complete disk-delete fence after absence proof'' [Sentinel ErrUnavailable])"
proof -
  have nf: "IsNotFound (Some example_not_found)" by code_simp
  have e: "fence_Observation example_fence = NoObs" "fence_Key example_fence \<noteq> []"
    by (simp_all add: example_fence_def)
  have v: "validateMutationObservation \<lparr>obs_Kind = diskDeleteAbsenceObservationKind, obs_Count = 1, obs_FirstObservedAt = At 3,
      obs_LastObservedAt = NoStamp\<rparr> = None" by code_simp
  then have d: "decodeMutationObservation (ObsText \<lparr>obs_Kind = diskDeleteAbsenceObservationKind, obs_Count = 1,
      obs_FirstObservedAt = At 3, obs_LastObservedAt = NoStamp\<rparr>) = Inr \<lparr>obs_Kind = diskDeleteAbsenceObservationKind, obs_Count = 1,
      obs_FirstObservedAt = At 3, obs_LastObservedAt = NoStamp\<rparr>" by (simp add: decodeMutationObservation_def)
  have a: "a_fences gone_adapter = kubernetes_store (\<lambda>w. 1) gone_resolver" "a_api gone_adapter = example_api"
      "a_fuel gone_adapter = Suc 59"
    by (simp_all add: gone_adapter_def example_adapter_def)
  have "fst (run_state (waitForDiskAbsent_round gone_adapter background loc_id disk_id example_fence) (example_state False None))
      = Return (Inr zero_fence)"
    by (simp add: waitForDiskAbsent_round_def fence_observation_def zero_observation_def e GetDisk_def ListDisks_def call_def a example_api_def
        example_state_def diskGetAbsence_def nf diskListAbsence_def recordAbsence_def now_def Let_def
        encodeMutationObservation_def v updateMutationObservation_def fenceSetObservation_def gone_store(2)[OF d]
        fenceGet_def gone_store(1))
  then have "fst (run_state (waitForDiskAbsent gone_adapter background loc_id disk_id example_fence) (example_state False None))
      = Inr zero_fence"
    unfolding waitForDiskAbsent_def a loop.simps by (simp add: case_prod_beta)
  then obtain s1 where "run_state (waitForDiskAbsent gone_adapter background loc_id disk_id example_fence)
      (example_state False None) = (Inr zero_fence, s1)"
    by (metis prod.collapse)
  from completed_deletion_unavailable[where clk = "\<lambda>w. 1" and r = gone_resolver, OF _ this]
  show ?thesis by (simp add: gone_adapter_def)
qed

end
