(* ===== verification/Lease_Example.thy ===== *)
theory Lease_Example
  imports Lease_Refinement Lease_Findings
begin

text \<open>
  An API server that satisfies \<open>lease_server\<close>: it keeps the log itself, refuses a POST on an
  existing name and a PUT or DELETE of another version, and stamps every write with a version longer
  than all before. It shows that the hypotheses of the Lease theorems can be met.
\<close>

section \<open>The server\<close>

definition fresh_version :: "lease_commit list \<Rightarrow> string" where
  "fresh_version log = CHR ''v'' # concat (map (\<lambda>c. case cm_new c of None \<Rightarrow> [] | Some l \<Rightarrow> version l) log)"

definition stamped :: "lease_commit list \<Rightarrow> string \<Rightarrow> kubernetesLease \<Rightarrow> kubernetesLease" where
  "stamped log uid l = l\<lparr>lease_Metadata := lease_Metadata l\<lparr>lm_UID := uid, lm_ResourceVersion := fresh_version log\<rparr>\<rparr>"

definition commit_to :: "lease_commit list \<Rightarrow> string \<Rightarrow> kubernetesLease option \<Rightarrow> lease_commit list" where
  "commit_to log n l = log @ [\<lparr>cm_name = n, cm_old = stored log n, cm_new = l, cm_own = True\<rparr>]"

definition lease_prefix :: string where
  "lease_prefix = ''/apis/coordination.k8s.io/v1/namespaces/kube-system/leases''"

definition lease_name :: "string \<Rightarrow> string option" where
  "lease_name uri =
     (case url_unescape (drop (length lease_prefix + 1) uri) of
        None \<Rightarrow> None
      | Some n \<Rightarrow> if uri = lease_prefix @ ''/'' @ PathEscape n then Some n else None)"

definition serve :: "string \<Rightarrow> string \<Rightarrow> string option \<Rightarrow> lease_commit list \<Rightarrow> http_response \<times> lease_commit list" where
  "serve meth uri body log =
     (if meth = ''GET'' then
        (case lease_name uri of
           None \<Rightarrow> (answer 400 [], log)
         | Some n \<Rightarrow>
             (case stored log n of
                None \<Rightarrow> (answer 404 [], log)
              | Some l \<Rightarrow> (if int32 (ls_LeaseDurationSeconds (lease_Spec l)) then answer 200 (marshal (lease_json l))
                           else answer 500 [], log)))
      else if meth = ''POST'' then
        (case body of
           None \<Rightarrow> (answer 400 [], log)
         | Some b \<Rightarrow>
             (case decodeMutationLease b of
                Inl _ \<Rightarrow> (answer 400 [], log)
              | Inr l \<Rightarrow>
                  (let n = lm_Name (lease_Metadata l); m = stamped log ''u'' l in
                   if uri = lease_prefix \<and> stored log n = None
                   then (answer 201 (marshal (lease_json m)), commit_to log n (Some m))
                   else (answer 409 [], log))))
      else (case (lease_name uri, body) of
          (Some n, Some b) \<Rightarrow>
            (case stored log n of
               None \<Rightarrow> (answer 404 [], log)
             | Some old \<Rightarrow>
                 if meth = ''PUT'' then
                   (case decodeMutationLease b of
                      Inl _ \<Rightarrow> (answer 400 [], log)
                    | Inr l \<Rightarrow>
                        (let m = stamped log (lm_UID (lease_Metadata old)) l in
                         if version l = version old
                         then (answer 200 (marshal (lease_json m)), commit_to log n (Some m))
                         else (answer 409 [], log)))
                 else if meth = ''DELETE'' \<and> b = marshal (delete_options (lm_UID (lease_Metadata old)) (version old))
                 then (answer 200 [], commit_to log n None) else (answer 409 [], log))
        | _ \<Rightarrow> (answer 400 [], log)))"

definition server_resolver :: "lease_commit list KubernetesNodeResolver" where
  "server_resolver = example_resolver serve"

section \<open>It keeps the laws\<close>

lemma server_paths:
  "request_uri server_resolver (mutationLeaseCollectionPath server_resolver) = lease_prefix"
  "request_uri server_resolver (mutationLeasePath server_resolver n) = lease_prefix @ ''/'' @ PathEscape n"
proof -
  have ns: "PathEscape (kr_namespace server_resolver) = ''kube-system''"
    unfolding server_resolver_def example_resolver_def by code_simp
  have b: "trim_right_slash (kr_basePath server_resolver) = []"
    by (simp add: server_resolver_def example_resolver_def trim_right_slash_def)
  show 1: "request_uri server_resolver (mutationLeaseCollectionPath server_resolver) = lease_prefix"
    unfolding request_uri_def mutationLeaseCollectionPath_def ns b by (simp add: lease_prefix_def)
  then show "request_uri server_resolver (mutationLeasePath server_resolver n) = lease_prefix @ ''/'' @ PathEscape n"
    by (simp add: request_uri_def mutationLeasePath_def)
qed

lemma lease_name_path [simp]: "lease_name (lease_prefix @ CHR ''/'' # PathEscape n) = Some n"
  by (simp add: lease_name_def url_unescape_PathEscape)

lemma lease_name_Some: "lease_name uri = Some n \<Longrightarrow> uri = lease_prefix @ ''/'' @ PathEscape n"
  by (auto simp: lease_name_def split: option.splits if_splits)

lemma version_in_log: "d \<in> set log \<Longrightarrow> cm_new d = Some l \<Longrightarrow> length (version l) < length (fresh_version log)"
proof (induction log)
  case (Cons e log)
  then show ?case by (cases "e = d") (auto simp: fresh_version_def)
qed simp

lemma log_ok_commit:
  assumes ok: "log_ok log" and fresh: "\<And>l. m = Some l \<Longrightarrow> version l = fresh_version log"
  shows "log_ok (commit_to log n m)"
  unfolding log_ok_def
proof (intro conjI allI ballI impI)
  fix i
  assume i: "i < length (commit_to log n m)"
  show "cm_old (commit_to log n m ! i) = stored (take i (commit_to log n m)) (cm_name (commit_to log n m ! i))"
  proof (cases "i = length log")
    case False
    with i have "i < length log" by (simp add: commit_to_def)
    with ok show ?thesis by (simp add: commit_to_def nth_append log_ok_def)
  qed (simp add: commit_to_def)
next
  fix c l
  assume "c \<in> set (commit_to log n m)" "cm_new c = Some l"
  then show "version l \<noteq> []"
    using ok fresh[of l] by (auto simp: commit_to_def log_ok_def fresh_version_def)
next
  fix c d l k
  assume h: "c \<in> set (commit_to log n m)" "d \<in> set (commit_to log n m)" "cm_name c = cm_name d"
    "cm_new c = Some l" "cm_new d = Some k" "version l = version k"
  have new: "version l = fresh_version log" if "m = Some l" for l using fresh[OF that] .
  have old: "length (version l) < length (fresh_version log)" if "e \<in> set log" "cm_new e = Some l" for e l
    using version_in_log that by blast
  consider "c \<in> set log" "d \<in> set log" | "c \<in> set log" "m = Some k" | "d \<in> set log" "m = Some l" | "m = Some l" "m = Some k"
    using h by (auto simp: commit_to_def)
  then show "l = k"
  proof cases
    case 1
    with ok h show ?thesis unfolding log_ok_def by blast
  next
    case 2
    with old[OF 2(1) h(4)] new[OF 2(2)] h(6) show ?thesis by simp
  next
    case 3
    with old[OF 3(1) h(5)] new[OF 3(2)] h(6) show ?thesis by simp
  qed simp
qed

lemma answer_eq [simp]: "answer st data = answer st' data' \<longleftrightarrow> st = st' \<and> data = data'"
  by (simp add: answer_def)

lemma request_ok_quiet:
  assumes "log_ok log" and "100 \<le> hr_StatusCode resp"
    and "success_status (hr_StatusCode resp) \<Longrightarrow> meth \<noteq> ''POST'' \<and> meth \<noteq> ''PUT''"
    and "\<And>n. meth = ''GET'' \<Longrightarrow> uri = lease_prefix @ ''/'' @ PathEscape n \<Longrightarrow> hr_StatusCode resp = 404 \<Longrightarrow> stored log n = None"
    and "\<And>n l. meth = ''GET'' \<Longrightarrow> uri = lease_prefix @ ''/'' @ PathEscape n \<Longrightarrow> success_status (hr_StatusCode resp)
      \<Longrightarrow> decodeMutationLease (hr_Body resp) = Inr l \<Longrightarrow> stored log n = Some l"
  shows "request_ok server_resolver (\<lambda>w. w) meth uri body log (Inr resp) log"
  using assms by (auto simp: request_ok_def answer_ok_def server_paths seen_def)

lemma request_ok_commit:
  assumes "log_ok log" and "\<And>l. m = Some l \<Longrightarrow> version l = fresh_version log"
    and "100 \<le> st" and "meth \<noteq> ''GET''"
    and "own_commit server_resolver meth uri body \<lparr>cm_name = n, cm_old = stored log n, cm_new = m, cm_own = True\<rparr>"
    and "\<And>l. meth = ''POST'' \<or> meth = ''PUT'' \<Longrightarrow> decodeMutationLease data = Inr l \<Longrightarrow> m = Some l"
  shows "request_ok server_resolver (\<lambda>w. w) meth uri body log (Inr (answer st data)) (commit_to log n m)"
proof -
  have "log_ok (commit_to log n m)" using assms(1,2) by (rule log_ok_commit)
  with assms(3-6) show ?thesis
    by (auto simp: request_ok_def commit_to_def answer_ok_def answer_def)
qed

lemma stamped_facts:
  "version (stamped log uid l) = fresh_version log" "lease_Spec (stamped log uid l) = lease_Spec l"
  "same_content (stamped log uid l) l"
  by (simp_all add: stamped_def same_content_def)

lemma decode_stamped:
  assumes "decodeMutationLease b = Inr l"
  shows "decodeMutationLease (marshal (lease_json (stamped log uid l))) = Inr (stamped log uid l)"
  using decodeMutationLease_int32[OF assms] by (intro decode_printed_lease) (simp add: stamped_facts)

lemma serve_GET:
  assumes "log_ok log"
  shows "request_ok server_resolver (\<lambda>w. w) ''GET'' uri body log (Inr (fst (serve ''GET'' uri body log))) (snd (serve ''GET'' uri body log))"
proof (cases "lease_name uri")
  case None
  then have "serve ''GET'' uri body log = (answer 400 [], log)" by (simp add: serve_def)
  with assms show ?thesis by (auto intro!: request_ok_quiet simp: answer_def success_status_def)
next
  case (Some n)
  have n: "n = k" if "uri = lease_prefix @ ''/'' @ PathEscape k" for k
    using Some that by simp
  show ?thesis
  proof (cases "stored log n")
    case None
    with Some have "serve ''GET'' uri body log = (answer 404 [], log)" by (simp add: serve_def)
    with assms None n show ?thesis by (auto intro!: request_ok_quiet simp: answer_def success_status_def)
  next
    case l: (Some l)
    with Some have "serve ''GET'' uri body log
        = (if int32 (ls_LeaseDurationSeconds (lease_Spec l)) then answer 200 (marshal (lease_json l)) else answer 500 [], log)"
      by (simp add: serve_def)
    with assms l n decode_printed_lease[of l] show ?thesis
      by (auto intro!: request_ok_quiet simp: answer_def success_status_def)
  qed
qed

lemma quiet_answer:
  assumes "log_ok log" and "meth \<noteq> ''GET''" and "100 \<le> st" and "\<not> success_status st"
  shows "request_ok server_resolver (\<lambda>w. w) meth uri body log (Inr (answer st data)) log"
  using assms by (intro request_ok_quiet) (auto simp: answer_def)

lemma serve_POST:
  assumes "log_ok log"
  shows "request_ok server_resolver (\<lambda>w. w) ''POST'' uri body log (Inr (fst (serve ''POST'' uri body log))) (snd (serve ''POST'' uri body log))"
proof (cases "\<exists>b l. uri = lease_prefix \<and> body = Some b \<and> decodeMutationLease b = Inr l
    \<and> stored log (lm_Name (lease_Metadata l)) = None")
  case True
  then obtain b l where h: "uri = lease_prefix" "body = Some b" "decodeMutationLease b = Inr l"
    "stored log (lm_Name (lease_Metadata l)) = None" by auto
  let ?m = "stamped log ''u'' l" and ?n = "lm_Name (lease_Metadata l)"
  from h have "serve ''POST'' uri body log = (answer 201 (marshal (lease_json ?m)), commit_to log ?n (Some ?m))"
    by (simp add: serve_def Let_def)
  moreover have "request_ok server_resolver (\<lambda>w. w) ''POST'' uri body log
      (Inr (answer 201 (marshal (lease_json ?m)))) (commit_to log ?n (Some ?m))"
    using assms h stamped_facts[of log "''u''" l] decode_stamped[OF h(3), of log "''u''"]
    by (intro request_ok_commit) (auto simp: own_commit_def server_paths)
  ultimately show ?thesis by simp
next
  case False
  then have "\<exists>st \<ge> 400. serve ''POST'' uri body log = (answer st [], log)"
    by (auto simp: serve_def Let_def split: option.splits sum.splits)
  with quiet_answer[OF assms, of "''POST''"] show ?thesis by (auto simp: success_status_def)
qed

lemma serve_PUT:
  assumes "log_ok log"
  shows "request_ok server_resolver (\<lambda>w. w) ''PUT'' uri body log (Inr (fst (serve ''PUT'' uri body log))) (snd (serve ''PUT'' uri body log))"
proof -
  note q = quiet_answer[OF assms, of "''PUT''"]
  show ?thesis
  proof (cases "\<exists>n b l old. lease_name uri = Some n \<and> body = Some b \<and> decodeMutationLease b = Inr l \<and> stored log n = Some old
      \<and> version l = version old")
    case True
    then obtain n b l old where h: "lease_name uri = Some n" "body = Some b" "decodeMutationLease b = Inr l"
      "stored log n = Some old" "version l = version old" by auto
    let ?m = "stamped log (lm_UID (lease_Metadata old)) l"
    from h have "serve ''PUT'' uri body log = (answer 200 (marshal (lease_json ?m)), commit_to log n (Some ?m))"
      by (simp add: serve_def Let_def)
    moreover have "request_ok server_resolver (\<lambda>w. w) ''PUT'' uri body log
        (Inr (answer 200 (marshal (lease_json ?m)))) (commit_to log n (Some ?m))"
      using assms h lease_name_Some[OF h(1)] stamped_facts[of log "lm_UID (lease_Metadata old)" l]
        decode_stamped[OF h(3), of log "lm_UID (lease_Metadata old)"]
      by (intro request_ok_commit) (auto simp: own_commit_def server_paths)
    ultimately show ?thesis by simp
  next
    case False
    then have "\<exists>st \<ge> 400. serve ''PUT'' uri body log = (answer st [], log)"
      by (auto simp: serve_def Let_def split: option.splits sum.splits)
    with q show ?thesis by (auto simp: success_status_def)
  qed
qed

lemma serve_DELETE:
  assumes "log_ok log"
  shows "request_ok server_resolver (\<lambda>w. w) ''DELETE'' uri body log (Inr (fst (serve ''DELETE'' uri body log))) (snd (serve ''DELETE'' uri body log))"
proof (cases "\<exists>n old. lease_name uri = Some n \<and> stored log n = Some old
      \<and> body = Some (marshal (delete_options (lm_UID (lease_Metadata old)) (version old)))")
  case True
  then obtain n old where h: "lease_name uri = Some n" "stored log n = Some old"
    "body = Some (marshal (delete_options (lm_UID (lease_Metadata old)) (version old)))" by auto
  then have "serve ''DELETE'' uri body log = (answer 200 [], commit_to log n None)"
    by (simp add: serve_def)
  moreover have "request_ok server_resolver (\<lambda>w. w) ''DELETE'' uri body log (Inr (answer 200 [])) (commit_to log n None)"
    using assms h lease_name_Some[OF h(1)] by (intro request_ok_commit) (auto simp: own_commit_def server_paths)
  ultimately show ?thesis by simp
next
  case False
  then have "\<exists>st \<ge> 400. serve ''DELETE'' uri body log = (answer st [], log)"
    by (auto simp: serve_def split: option.splits)
  with quiet_answer[OF assms, of "''DELETE''"] show ?thesis by (auto simp: success_status_def)
qed

lemma serve_ok:
  assumes "log_ok log"
  shows "request_ok server_resolver (\<lambda>w. w) meth uri body log (Inr (fst (serve meth uri body log))) (snd (serve meth uri body log))"
proof -
  have "\<exists>st \<ge> 400. serve meth uri body log = (answer st [], log)"
    if "meth \<noteq> ''GET''" "meth \<noteq> ''POST''" "meth \<noteq> ''PUT''" "meth \<noteq> ''DELETE''"
    using that by (auto simp: serve_def split: option.splits)
  with quiet_answer[OF assms, of meth]
  have "request_ok server_resolver (\<lambda>w. w) meth uri body log (Inr (fst (serve meth uri body log))) (snd (serve meth uri body log))"
    if "meth \<noteq> ''GET''" "meth \<noteq> ''POST''" "meth \<noteq> ''PUT''" "meth \<noteq> ''DELETE''"
    using that by (auto simp: success_status_def)
  with serve_GET[OF assms] serve_POST[OF assms] serve_PUT[OF assms] serve_DELETE[OF assms] show ?thesis by metis
qed

lemma server_ok: "lease_server server_resolver (\<lambda>w. w)"
  unfolding lease_server_def
proof (intro conjI allI impI)
  fix c meth token uri body w res d w'
  assume "log_ok w" "kr_do server_resolver c meth token uri body w = (res, d, w')"
  then show "request_ok server_resolver (\<lambda>w. w) meth uri body w res w'"
    using serve_ok[of w meth uri body] by (simp add: server_resolver_def example_resolver_def case_prod_beta)
qed (auto simp: server_resolver_def example_resolver_def)

section \<open>Runs on it\<close>

definition example_log_state :: "lease_commit list st" where
  "example_log_state = \<lparr>world = [], clock = 0, trace = []\<rparr>"

abbreviation lease_on :: "lease_commit list \<Rightarrow> mutationFence \<Rightarrow> kubernetesLease" where
  "lease_on log f \<equiv> stamped log ''u'' (mutationFenceLease server_resolver f)"

abbreviation slot_of :: "mutationFence \<Rightarrow> string" where
  "slot_of f \<equiv> mutationFenceLeaseName server_resolver (fence_Key f)"

lemma log_ok_Nil: "log_ok []"
  by (simp add: log_ok_def)

text \<open>A candidate the store can keep.\<close>

definition storable :: "mutationFence \<Rightarrow> bool" where
  "storable f \<longleftrightarrow> validateMutationFence f = None \<and> texts_ok server_resolver f
     \<and> f\<lparr>fence_Receipt := ToLower (fence_Receipt f)\<rparr> = f"

lemma storable_lease:
  assumes "storable f"
  shows "mutationFenceFromLease server_resolver (lease_on log f) = Inr f"
    and "int32 (ls_LeaseDurationSeconds (lease_Spec (mutationFenceLease server_resolver f)))"
    and "int32 (ls_LeaseDurationSeconds (lease_Spec (lease_on log f)))"
    and "lm_Name (lease_Metadata (mutationFenceLease server_resolver f)) = slot_of f"
proof -
  show i: "int32 (ls_LeaseDurationSeconds (lease_Spec (mutationFenceLease server_resolver f)))"
    "lm_Name (lease_Metadata (mutationFenceLease server_resolver f)) = slot_of f"
    by (simp_all add: mutationFenceLease_def Let_def int32_def)
  then show "int32 (ls_LeaseDurationSeconds (lease_Spec (lease_on log f)))" by (simp add: stamped_facts)
  show "mutationFenceFromLease server_resolver (lease_on log f) = Inr f"
    using mutationFenceFromLease_content[where r = server_resolver, OF stamped_facts(3)]
      fence_of_lease[of f server_resolver] assms unfolding storable_def by auto
qed

lemma run_server:
  assumes "serve meth (request_uri server_resolver path) body (world s) = (answer st data, log')" and "length data \<le> 1048576"
  shows "run_state (kubernetesAPIRequest server_resolver c meth path body) s = ((st, data, None), s\<lparr>world := log', clock := clock s + 1\<rparr>)"
proof -
  have "serve meth (trim_right_slash [] @ path) body (world s) = (answer st data, log')"
    using assms(1) by (simp add: request_uri_def server_resolver_def example_resolver_def)
  from run_kubernetesAPIRequest[where serve = serve, OF this assms(2)] show ?thesis by (simp add: server_resolver_def)
qed

text \<open>Creating a fence on a free name, and deleting one.\<close>

lemma create_runs:
  assumes "storable f" and "stored (world s) (slot_of f) = None" and "length (marshal (lease_json (lease_on (world s) f))) \<le> 1048576"
  shows "run_state (kube_Create server_resolver c f) s = (Inr (Some f, True),
    s\<lparr>world := commit_to (world s) (slot_of f) (Some (lease_on (world s) f)), clock := clock s + 1\<rparr>)"
proof -
  have "serve ''POST'' (request_uri server_resolver (mutationLeaseCollectionPath server_resolver))
      (Some (marshal (lease_json (mutationFenceLease server_resolver f)))) (world s)
    = (answer 201 (marshal (lease_json (lease_on (world s) f))), commit_to (world s) (slot_of f) (Some (lease_on (world s) f)))"
    using assms(2) decode_printed_lease[OF storable_lease(2)[OF assms(1)]] storable_lease(4)[OF assms(1)]
    by (simp add: serve_def Let_def server_paths)
  note post = run_server[OF this assms(3), of c]
  have "storedFence server_resolver (marshal (lease_json (lease_on (world s) f))) = Inr f"
    using decode_printed_lease[OF storable_lease(3)[OF assms(1)]] storable_lease(1)[OF assms(1)] by (simp add: storedFence_def)
  with post assms(1) show ?thesis
    by (simp add: kube_Create_def storable_def success_status_def)
qed

lemma get_runs:
  assumes "stored (world s) n = Some l" and "int32 (ls_LeaseDurationSeconds (lease_Spec l))" and "length (marshal (lease_json l)) \<le> 1048576"
  shows "run_state (getMutationLease server_resolver c n) s = (Inr (l, 200), s\<lparr>clock := clock s + 1\<rparr>)"
proof -
  have "serve ''GET'' (request_uri server_resolver (mutationLeasePath server_resolver n)) None (world s)
      = (answer 200 (marshal (lease_json l)), world s)"
    using assms(1,2) by (simp add: serve_def server_paths)
  from run_server[OF this assms(3)] decode_printed_lease[OF assms(2)] show ?thesis
    by (simp add: getMutationLease_def success_status_def)
qed

lemma get_none:
  assumes "stored (world s) n = None"
  shows "run_state (getMutationLease server_resolver c n) s = (Inr (zero_lease, 404), s\<lparr>clock := clock s + 1\<rparr>)"
proof -
  have "serve ''GET'' (request_uri server_resolver (mutationLeasePath server_resolver n)) None (world s) = (answer 404 [], world s)"
    using assms by (simp add: serve_def server_paths)
  from run_server[OF this] show ?thesis by (simp add: getMutationLease_def)
qed

lemma delete_runs:
  assumes "storable f" and "stored (world s) (slot_of f) = Some (lease_on log f)" and "length (marshal (lease_json (lease_on log f))) \<le> 1048576"
  shows "run_state (kube_Delete server_resolver c f) s
    = (None, s\<lparr>world := commit_to (world s) (slot_of f) None, clock := clock s + 3\<rparr>)"
proof -
  let ?l = "lease_on log f"
  note get = get_runs[OF assms(2) storable_lease(3)[OF assms(1)] assms(3)]
  have "serve ''DELETE'' (request_uri server_resolver (mutationLeasePath server_resolver (slot_of f)))
      (Some (marshal (delete_options (lm_UID (lease_Metadata ?l)) (version ?l)))) (world s) = (answer 200 [], commit_to (world s) (slot_of f) None)"
    using assms(2) by (simp add: serve_def server_paths)
  then have "serve ''DELETE'' (request_uri server_resolver (mutationLeasePath server_resolver (slot_of f)))
      (Some (marshal (delete_options (lm_UID (lease_Metadata ?l)) (version ?l)))) (world (s\<lparr>clock := clock s + 1\<rparr>))
    = (answer 200 [], commit_to (world s) (slot_of f) None)" by simp
  note del0 = run_server[OF this]
  have del: "run_state (kubernetesAPIRequest server_resolver c ''DELETE'' (mutationLeasePath server_resolver (slot_of f))
      (Some (marshal (delete_options (lm_UID (lease_Metadata ?l)) (version ?l))))) (s\<lparr>clock := clock s + 1\<rparr>)
    = ((200, [], None), s\<lparr>world := commit_to (world s) (slot_of f) None, clock := clock s + 2\<rparr>)"
    using del0 by (simp add: add.assoc)
  have gone: "stored (commit_to (world s) (slot_of f) None) (slot_of f) = None"
    by (simp add: commit_to_def stored_snoc)
  have key: "fence_Key f \<noteq> []" using assms(1) by (auto simp: storable_def validateMutationFence_def split: if_splits)
  have rb: "run_state (readback server_resolver (fence_Key f)) t = (Inr None, t\<lparr>clock := clock t + 1\<rparr>)"
    if "stored (world t) (slot_of f) = None" for t :: "lease_commit list st"
    using get_none[OF that] key by (simp add: readback_def kube_Get_def now_def fenceFromGet_def)
  show ?thesis
    using get del rb gone assms(1) storable_lease(1)[OF assms(1), of log]
    by (simp add: kube_Delete_def storable_def success_status_def fence_same_defs Let_def)
qed

section \<open>Witnesses\<close>

lemma example_storable: "storable example_fence"
  by (simp add: storable_def example_fence_valid texts_ok_def server_resolver_def example_resolver_texts) (simp add: example_fence_def)

abbreviation example_history1 :: "lease_commit list" where
  "example_history1 \<equiv> commit_to [] (slot_of example_fence) (Some (lease_on [] example_fence))"

lemma example_created:
  "run_state (kube_Create server_resolver c example_fence) example_log_state
    = (Inr (Some example_fence, True), example_log_state\<lparr>world := example_history1, clock := 1\<rparr>)"
  "length (marshal (lease_json (lease_on [] example_fence))) \<le> 1048576"
proof -
  have "length (marshal (lease_json (lease_on [] example_fence))) \<le> 1000"
    unfolding server_resolver_def by code_simp
  then show l: "length (marshal (lease_json (lease_on [] example_fence))) \<le> 1048576" by simp
  show "run_state (kube_Create server_resolver c example_fence) example_log_state
      = (Inr (Some example_fence, True), example_log_state\<lparr>world := example_history1, clock := 1\<rparr>)"
    using create_runs[OF example_storable, of example_log_state c] l by (simp add: example_log_state_def stored_def)
qed

theorem lease_store_refines_witness:
  "\<exists>new. length (filter cm_own new) \<le> 1 \<and> shown server_resolver [] new (fence_Key example_fence) example_fence
    \<and> run_state (kube_apply server_resolver background (OpCreate example_fence)) example_log_state
        = (Created (Inr (Some example_fence, True)), example_log_state\<lparr>world := new, clock := 1\<rparr>)"
proof -
  have run: "run_state (kube_apply server_resolver background (OpCreate example_fence)) example_log_state
      = (Created (Inr (Some example_fence, True)), example_log_state\<lparr>world := example_history1, clock := 1\<rparr>)"
    by (simp add: example_created)
  have ok: "op_texts_ok server_resolver (OpCreate example_fence)" "log_ok (world example_log_state)"
    using example_storable by (simp_all add: storable_def example_log_state_def log_ok_Nil)
  from lease_store_refines[OF server_ok ok run] run show ?thesis
    by (auto simp: example_log_state_def create_reported_def)
qed

theorem lease_create_wins_witness:
  "\<exists>d. filter cm_own (world (snd (run_state (kube_Create server_resolver background example_fence) example_log_state))) = [d]
    \<and> cm_old d = None \<and> carries server_resolver (cm_new d) (Some example_fence)"
proof -
  note run = example_created(1)[of background]
  have t: "texts_ok server_resolver example_fence" "example_fence\<lparr>fence_Receipt := ToLower (fence_Receipt example_fence)\<rparr> = example_fence"
    using example_storable by (simp_all add: storable_def)
  have "\<exists>d. filter cm_own example_history1 = [d] \<and> cm_name d = slot_of example_fence \<and> cm_old d = None
      \<and> carries server_resolver (cm_new d) (Some (example_fence\<lparr>fence_Receipt := ToLower (fence_Receipt example_fence)\<rparr>))"
    by (rule lease_create_wins[OF server_ok t(1) _ run])
       (simp_all add: example_log_state_def log_ok_Nil private_token_def commit_to_def)
  then show ?thesis unfolding run t(2) by auto
qed

text \<open>A first attempt creates and deletes its fence, then a second one creates its own.\<close>

definition second_fence :: mutationFence where
  "second_fence = example_fence\<lparr>fence_Attempt := ''ffffffffffffffffffffffffffffffff''\<rparr>"

definition example_run :: "(ctx \<times> store_op) list" where
  "example_run = [(background, OpCreate example_fence), (background, OpDelete example_fence), (background, OpCreate second_fence)]"

abbreviation example_history :: "lease_commit list" where
  "example_history \<equiv> commit_to (commit_to example_history1 (slot_of example_fence) None) (slot_of example_fence)
     (Some (lease_on (commit_to example_history1 (slot_of example_fence) None) second_fence))"

lemma second_storable: "storable second_fence"
proof -
  have "validateMutationFence second_fence = None" by code_simp
  then show ?thesis
    by (simp add: storable_def texts_ok_def server_resolver_def example_resolver_texts) (simp add: second_fence_def example_fence_def)
qed

lemma example_runs:
  "run_state (kube_run server_resolver example_run) example_log_state
    = ([Created (Inr (Some example_fence, True)), Deleted None, Created (Inr (Some second_fence, True))],
       example_log_state\<lparr>world := example_history, clock := 5\<rparr>)"
proof -
  let ?s1 = "example_log_state\<lparr>world := example_history1, clock := 1\<rparr>"
  let ?log2 = "commit_to example_history1 (slot_of example_fence) None"
  let ?s2 = "example_log_state\<lparr>world := ?log2, clock := 4\<rparr>"
  have k: "slot_of second_fence = slot_of example_fence" by (simp add: second_fence_def)
  have "stored (world ?s1) (slot_of example_fence) = Some (lease_on [] example_fence)" by (simp add: commit_to_def stored_def)
  from delete_runs[OF example_storable this example_created(2), of background]
  have del: "run_state (kube_Delete server_resolver background example_fence) ?s1 = (None, ?s2)" by simp
  have "length (marshal (lease_json (lease_on ?log2 second_fence))) \<le> 1000"
    unfolding server_resolver_def by code_simp
  then have len: "length (marshal (lease_json (lease_on (world ?s2) second_fence))) \<le> 1048576" by simp
  have "stored (world ?s2) (slot_of second_fence) = None" by (simp add: k commit_to_def stored_def)
  from create_runs[OF second_storable this len, of background]
  have "run_state (kube_Create server_resolver background second_fence) ?s2
      = (Inr (Some second_fence, True), example_log_state\<lparr>world := example_history, clock := 5\<rparr>)"
    by (simp add: k)
  with del example_created(1)[of background] show ?thesis by (simp add: example_run_def)
qed

theorem lease_history_exclusive_witness:
  "\<exists>k g. 0 < k \<and> k < 2 \<and> op_commit server_resolver (OpDelete g) (world (snd (run_state (kube_run server_resolver example_run) example_log_state)) ! k)
    \<and> sameMutationFenceAttempt g example_fence"
proof -
  have texts: "\<forall>x \<in> set example_run. op_texts_ok server_resolver (snd x)"
    using example_storable second_storable by (simp add: example_run_def storable_def)
  have low: "example_fence\<lparr>fence_Receipt := ToLower (fence_Receipt example_fence)\<rparr> = example_fence"
    "second_fence\<lparr>fence_Receipt := ToLower (fence_Receipt second_fence)\<rparr> = second_fence"
    using example_storable second_storable by (simp_all add: storable_def)
  have nth: "length example_history = 3" "cm_name (example_history ! 0) = slot_of example_fence" "cm_name (example_history ! 2) = slot_of example_fence"
    "\<forall>d \<in> set example_history. cm_own d"
    by (auto simp: commit_to_def)
  have c: "op_commit server_resolver (OpCreate example_fence) (example_history ! 0)"
    "op_commit server_resolver (OpCreate second_fence) (example_history ! 2)"
    using storable_lease(1)[OF example_storable] storable_lease(1)[OF second_storable]
    by (auto simp: op_commit_def carries_def low commit_to_def stored_def) (simp_all add: second_fence_def)
  have "\<exists>k g. 0 < k \<and> k < 2 \<and> cm_name (example_history ! k) = slot_of example_fence
      \<and> op_commit server_resolver (OpDelete g) (example_history ! k) \<and> sameMutationFenceAttempt g example_fence"
    by (rule lease_history_exclusive[where f' = second_fence, OF server_ok texts _ example_runs])
       (use nth c in \<open>simp_all add: example_log_state_def log_ok_Nil\<close>)
  then show ?thesis by (auto simp: example_runs)
qed

end
