(* ===== verification/Go_Struct.thy ===== *)
theory Go_Struct
  imports Go_JSON
begin

text \<open>
  \<^verbatim>\<open>json.Unmarshal\<close> into Go structs: one reader per field, composed in the order of the fields. A
  reader takes the members of the object and the value the field has so far.
\<close>

text \<open>
  A field takes the values of all members that match its name, one after the other. A slice is
  decoded into a fresh one: the sources decode only documents in which no key of an object repeats.
  (Two keys that differ in case only would make \<^verbatim>\<open>encoding/json\<close> decode the second array over the
  elements of the first; here it replaces them.)
\<close>

fun unmarshal_each :: "(json \<Rightarrow> 'a \<Rightarrow> error + 'a) \<Rightarrow> json list \<Rightarrow> 'a \<Rightarrow> error + 'a" where
  "unmarshal_each f [] x = Inr x"
| "unmarshal_each f (v # vs) x = attempt_ok (f v x) (unmarshal_each f vs)"

definition into_struct :: "((string \<times> json) list \<Rightarrow> 'a \<Rightarrow> error + 'a) \<Rightarrow> json \<Rightarrow> 'a \<Rightarrow> error + 'a" where
  "into_struct f v x = (case v of JObj ms \<Rightarrow> f ms x | JNull \<Rightarrow> Inr x | _ \<Rightarrow> Inl type_error)"

definition into_pointer :: "(json \<Rightarrow> 'a \<Rightarrow> error + 'a) \<Rightarrow> 'a \<Rightarrow> json \<Rightarrow> 'a option \<Rightarrow> error + 'a option" where
  "into_pointer f zero v p =
     (if v = JNull then Inr None else attempt_ok (f v (case p of None \<Rightarrow> zero | Some x \<Rightarrow> x)) (\<lambda>x. Inr (Some x)))"

fun unmarshal_elements :: "(json \<Rightarrow> 'a \<Rightarrow> error + 'a) \<Rightarrow> 'a \<Rightarrow> json list \<Rightarrow> error + 'a list" where
  "unmarshal_elements f zero [] = Inr []"
| "unmarshal_elements f zero (v # vs) =
     attempt_ok (f v zero) (\<lambda>x. attempt_ok (unmarshal_elements f zero vs) (\<lambda>xs. Inr (x # xs)))"

definition into_slice :: "(json \<Rightarrow> 'a \<Rightarrow> error + 'a) \<Rightarrow> 'a \<Rightarrow> json \<Rightarrow> 'a list \<Rightarrow> error + 'a list" where
  "into_slice f zero v xs =
     (case v of JNull \<Rightarrow> Inr [] | JArr vs \<Rightarrow> unmarshal_elements f zero vs | _ \<Rightarrow> Inl type_error)"

definition into_string :: "json \<Rightarrow> string \<Rightarrow> error + string" where
  "into_string v s = unmarshal_string [v] s"

abbreviation string_field :: "string \<Rightarrow> (string \<times> json) list \<Rightarrow> string \<Rightarrow> error + string" where
  "string_field name ms s \<equiv> unmarshal_string (field_values name ms) s"

abbreviation int_field :: "int \<Rightarrow> string \<Rightarrow> (string \<times> json) list \<Rightarrow> int \<Rightarrow> error + int" where
  "int_field limit name ms i \<equiv> unmarshal_int limit (field_values name ms) i"

abbreviation stamp_field :: "string \<Rightarrow> (string \<times> json) list \<Rightarrow> string option \<Rightarrow> error + string option" where
  "stamp_field name ms p \<equiv> unmarshal_each (into_pointer into_string []) (field_values name ms) p"

definition set_field :: "(string \<Rightarrow> (string \<times> json) list \<Rightarrow> 'b \<Rightarrow> error + 'b) \<Rightarrow> string \<Rightarrow> (string \<times> json) list
    \<Rightarrow> ('a \<Rightarrow> 'b) \<Rightarrow> ('b \<Rightarrow> 'a \<Rightarrow> 'a) \<Rightarrow> 'a \<Rightarrow> error + 'a" where
  "set_field rd name ms get put x = attempt_ok (rd name ms (get x)) (\<lambda>v. Inr (put v x))"

fun do_fields :: "'a \<Rightarrow> ('a \<Rightarrow> error + 'a) list \<Rightarrow> error + 'a" where
  "do_fields x [] = Inr x"
| "do_fields x (f # fs) = attempt_ok (f x) (\<lambda>x. do_fields x fs)"

definition map_field :: "string \<Rightarrow> (string \<times> json) list \<Rightarrow> string_map \<Rightarrow> error + string_map" where
  "map_field name ms m = unmarshal_map (field_values name ms) m"

definition struct_field :: "((string \<times> json) list \<Rightarrow> 'a \<Rightarrow> error + 'a) \<Rightarrow> string \<Rightarrow> (string \<times> json) list \<Rightarrow> 'a \<Rightarrow> error + 'a" where
  "struct_field f name ms x = unmarshal_each (into_struct f) (field_values name ms) x"

definition slice_field :: "(json \<Rightarrow> 'a \<Rightarrow> error + 'a) \<Rightarrow> 'a \<Rightarrow> string \<Rightarrow> (string \<times> json) list \<Rightarrow> 'a list \<Rightarrow> error + 'a list" where
  "slice_field f zero name ms xs = unmarshal_each (into_slice f zero) (field_values name ms) xs"

definition pointer_field :: "(json \<Rightarrow> 'a \<Rightarrow> error + 'a) \<Rightarrow> 'a \<Rightarrow> string \<Rightarrow> (string \<times> json) list \<Rightarrow> 'a option
    \<Rightarrow> error + 'a option" where
  "pointer_field f zero name ms p = unmarshal_each (into_pointer f zero) (field_values name ms) p"

text \<open>Booleans, slices that may be nil, and raw values, of which the printed form is kept.\<close>

definition into_bool :: "json \<Rightarrow> bool \<Rightarrow> error + bool" where
  "into_bool v b = (case v of JBool b' \<Rightarrow> Inr b' | JNull \<Rightarrow> Inr b | _ \<Rightarrow> Inl type_error)"

definition bool_field :: "string \<Rightarrow> (string \<times> json) list \<Rightarrow> bool \<Rightarrow> error + bool" where
  "bool_field name ms b = unmarshal_each into_bool (field_values name ms) b"

definition into_nil_slice :: "(json \<Rightarrow> 'a \<Rightarrow> error + 'a) \<Rightarrow> 'a \<Rightarrow> json \<Rightarrow> 'a list option \<Rightarrow> error + 'a list option" where
  "into_nil_slice f zero v xs =
     (case v of
        JNull \<Rightarrow> Inr None
      | JArr vs \<Rightarrow> attempt_ok (unmarshal_elements f zero vs) (\<lambda>ys. Inr (Some ys))
      | _ \<Rightarrow> Inl type_error)"

definition nil_slice_field :: "(json \<Rightarrow> 'a \<Rightarrow> error + 'a) \<Rightarrow> 'a \<Rightarrow> string \<Rightarrow> (string \<times> json) list \<Rightarrow> 'a list option
    \<Rightarrow> error + 'a list option" where
  "nil_slice_field f zero name ms xs = unmarshal_each (into_nil_slice f zero) (field_values name ms) xs"

definition raw_field :: "string \<Rightarrow> (string \<times> json) list \<Rightarrow> string \<Rightarrow> error + string" where
  "raw_field name ms s = unmarshal_each (\<lambda>v _. Inr (marshal v)) (field_values name ms) s"

definition into_int :: "int \<Rightarrow> json \<Rightarrow> int \<Rightarrow> error + int" where
  "into_int limit v i = unmarshal_int limit [v] i"

end
