(* ===== verification/Authority_JSON.thy ===== *)
theory Authority_JSON
  imports Kube_JSON Go_Struct
begin

text \<open>
  The strict JSON decoder of the missing-node detach authority
  (\<^verbatim>\<open>csi-driver/pkg/cloud/inspace/kubernetes_detach_authority.go\<close>, from \<^verbatim>\<open>decodeMissingNodeAuthorityJSON\<close>
  on) and the timestamps its documents carry. The field names a document must spell exactly are
  collected from the Go type of the destination by reflection; the types are values here.
\<close>

section \<open>Go types as reflection shows them\<close>

text \<open>A struct has a name that identifies it and fields with a name, a \<^verbatim>\<open>json\<close> tag and a type.\<close>

datatype gotype =
    GStruct string "(string \<times> string \<times> gotype) list"
  | GPointer gotype
  | GSlice gotype
  | GOther

definition is_exported :: "string \<Rightarrow> bool" where
  "is_exported name = (case name of [] \<Rightarrow> False | c # _ \<Rightarrow> CHR ''A'' \<le> c \<and> c \<le> CHR ''Z'')"

text \<open>A key is added unless it is known; another spelling of a known key is an error.\<close>

definition add_canonical_key :: "string \<Rightarrow> string list \<Rightarrow> error + string list" where
  "add_canonical_key tag keys =
     (case find (\<lambda>existing. EqualFold existing tag) keys of
        None \<Rightarrow> Inr (keys @ [tag])
      | Some existing \<Rightarrow>
          if existing \<noteq> tag then Inl (Plain ''authority JSON schema has case-ambiguous fields'') else Inr keys)"

text \<open>The state of the walk is the keys so far and the structs visited.\<close>

fun visit_type :: "gotype \<Rightarrow> string list \<times> string list \<Rightarrow> error + string list \<times> string list"
  and visit_fields :: "(string \<times> string \<times> gotype) list \<Rightarrow> string list \<times> string list
     \<Rightarrow> error + string list \<times> string list" where
  "visit_type (GPointer t) st = visit_type t st"
| "visit_type (GSlice t) st = visit_type t st"
| "visit_type GOther st = Inr st"
| "visit_type (GStruct name fs) (keys, visited) =
     (if name \<in> set visited then Inr (keys, visited) else visit_fields fs (keys, name # visited))"
| "visit_fields [] st = Inr st"
| "visit_fields ((name, tags, t) # fs) (keys, visited) =
     (let tag = takeWhile (\<lambda>c. c \<noteq> CHR '','') tags in
      if \<not> is_exported name \<or> tag = ''-'' then visit_fields fs (keys, visited)
      else attempt_ok (add_canonical_key (if tag = [] then name else tag) keys) (\<lambda>keys.
           attempt_ok (visit_type t (keys, visited)) (visit_fields fs)))"

definition missingNodeAuthorityCanonicalJSONKeys :: "gotype \<Rightarrow> error + string list" where
  "missingNodeAuthorityCanonicalJSONKeys destination =
     attempt_ok (visit_type destination ([], [])) (\<lambda>(keys, visited). Inr keys)"

section \<open>The guard\<close>

text \<open>
  Every object, at any depth: no key twice, no two keys that differ in case only, no key that
  differs from a canonical key in case only. \<open>seen\<close> are the keys of the object so far.
\<close>

fun validateMissingNodeAuthorityJSONValue :: "string list \<Rightarrow> json \<Rightarrow> error option"
  and authority_members :: "string list \<Rightarrow> string list \<Rightarrow> (string \<times> json) list \<Rightarrow> error option"
  and authority_elements :: "string list \<Rightarrow> json list \<Rightarrow> error option" where
  "validateMissingNodeAuthorityJSONValue canonicalKeys (JObj ms) = authority_members canonicalKeys [] ms"
| "validateMissingNodeAuthorityJSONValue canonicalKeys (JArr vs) = authority_elements canonicalKeys vs"
| "validateMissingNodeAuthorityJSONValue canonicalKeys _ = None"
| "authority_members canonicalKeys seen [] = None"
| "authority_members canonicalKeys seen ((key, v) # ms) =
     (if key \<in> set seen then Some (Plain ''duplicate JSON object key'')
      else if list_ex (\<lambda>previous. EqualFold previous key) seen then Some (Plain ''case-ambiguous JSON object keys'')
      else if list_ex (\<lambda>canonical. EqualFold key canonical \<and> key \<noteq> canonical) canonicalKeys
      then Some (Plain ''non-canonical JSON object key'')
      else (case validateMissingNodeAuthorityJSONValue canonicalKeys v of
          Some err \<Rightarrow> Some err
        | None \<Rightarrow> authority_members canonicalKeys (seen @ [key]) ms))"
| "authority_elements canonicalKeys [] = None"
| "authority_elements canonicalKeys (v # vs) =
     (case validateMissingNodeAuthorityJSONValue canonicalKeys v of
        Some err \<Rightarrow> Some err
      | None \<Rightarrow> authority_elements canonicalKeys vs)"

text \<open>For evaluation: keys are compared exactly only where they agree up to case.\<close>

fun misspelled :: "string \<Rightarrow> string list \<Rightarrow> bool" where
  "misspelled key [] = False"
| "misspelled key (canonical # names) =
     (if EqualFold key canonical then (if key = canonical then misspelled key names else True) else misspelled key names)"

lemma misspelled_iff: "misspelled key names = list_ex (\<lambda>canonical. EqualFold key canonical \<and> key \<noteq> canonical) names"
  by (induction names) auto

fun folded :: "string \<Rightarrow> string list \<Rightarrow> bool" where
  "folded key [] = False"
| "folded key (previous # names) = (if EqualFold previous key then True else folded key names)"

lemma folded_iff: "folded key names = list_ex (\<lambda>previous. EqualFold previous key) names"
  by (induction names) auto

lemma authority_members_code [code]:
  "authority_members canonicalKeys seen [] = None"
  "authority_members canonicalKeys seen ((key, v) # ms) =
     (if folded key seen
      then (if key \<in> set seen then Some (Plain ''duplicate JSON object key'') else Some (Plain ''case-ambiguous JSON object keys''))
      else if misspelled key canonicalKeys then Some (Plain ''non-canonical JSON object key'')
      else (case validateMissingNodeAuthorityJSONValue canonicalKeys v of
          Some err \<Rightarrow> Some err
        | None \<Rightarrow> authority_members canonicalKeys (seen @ [key]) ms))"
  by (auto simp: folded_iff misspelled_iff list_ex_iff intro: EqualFold_refl)

text \<open>\<open>unmarshal\<close> is \<^verbatim>\<open>json.Unmarshal\<close> into the zero value of the destination type.\<close>

definition decodeMissingNodeAuthorityJSON :: "gotype \<Rightarrow> (json \<Rightarrow> error + 'a) \<Rightarrow> string \<Rightarrow> error + 'a" where
  "decodeMissingNodeAuthorityJSON destination unmarshal data =
     attempt_ok (missingNodeAuthorityCanonicalJSONKeys destination) (\<lambda>canonicalKeys.
       case parse_json data of
         NotJSON \<Rightarrow> Inl (Plain ''invalid JSON'')
       | Doc v trailing \<Rightarrow>
           fail_if (validateMissingNodeAuthorityJSONValue canonicalKeys v)
             (if trailing then Inl (Plain ''unexpected trailing JSON token'')
              else if json_depth v > maxNestingDepth then Inl (Plain ''exceeded max depth'')
              else unmarshal v))"

section \<open>Timestamps\<close>

text \<open>
  \<^verbatim>\<open>time.Parse(time.RFC3339Nano, value)\<close>, as lenient as Go's parser: the hour may have one digit, the
  fraction may follow a comma and may have any number of digits (of which nine count), the zone
  offset may be up to 24 hours and 60 minutes.
\<close>

definition two_digits :: "string \<Rightarrow> (nat \<times> string) option" where
  "two_digits s = (case s of a # b # t \<Rightarrow>
       if is_digit_char a \<and> is_digit_char b then Some (digits_value [a, b], t) else None
   | _ \<Rightarrow> None)"

definition one_or_two_digits :: "string \<Rightarrow> (nat \<times> string) option" where
  "one_or_two_digits s = (case s of a # t \<Rightarrow>
       if \<not> is_digit_char a then None
       else (case t of b # t' \<Rightarrow> if is_digit_char b then Some (digits_value [a, b], t') else Some (digits_value [a], t)
             | [] \<Rightarrow> Some (digits_value [a], t))
   | _ \<Rightarrow> None)"

definition four_digits :: "string \<Rightarrow> (nat \<times> string) option" where
  "four_digits s = (if length s \<ge> 4 \<and> list_all is_digit_char (take 4 s) then Some (digits_value (take 4 s), drop 4 s) else None)"

definition literal :: "char \<Rightarrow> string \<Rightarrow> string option" where
  "literal c s = (case s of d # t \<Rightarrow> if d = c then Some t else None | [] \<Rightarrow> None)"

definition is_leap :: "int \<Rightarrow> bool" where
  "is_leap y = (y mod 4 = 0 \<and> (y mod 100 \<noteq> 0 \<or> y mod 400 = 0))"

definition days_in :: "nat \<Rightarrow> int \<Rightarrow> int" where
  "days_in m y = (if m = 2 then (if is_leap y then 29 else 28) else if m \<in> {4, 6, 9, 11} then 30 else 31)"

text \<open>Seconds and nanoseconds since the zero time, 1 January of year 1 in UTC.\<close>

definition days_before :: "int \<Rightarrow> nat \<Rightarrow> int" where
  "days_before y m =
     365 * (y - 1) + (y - 1) div 4 - (y - 1) div 100 + (y - 1) div 400 + sum_list (map (\<lambda>k. days_in k y) [1..<m])"

definition parse_fraction :: "string \<Rightarrow> nat \<times> string" where
  "parse_fraction s = (case s of
     c # d # t \<Rightarrow>
       if (c = CHR ''.'' \<or> c = CHR '','') \<and> is_digit_char d
       then let ds = take 9 (takeWhile is_digit_char (d # t))
            in (digits_value ds * 10 ^ (9 - length ds), dropWhile is_digit_char (d # t))
       else (0, s)
   | _ \<Rightarrow> (0, s))"

text \<open>The zone offset in seconds; nothing may follow it.\<close>

definition parse_zone :: "string \<Rightarrow> int option" where
  "parse_zone s =
     (if s = ''Z'' then Some 0
      else if length s \<noteq> 6 \<or> s ! 3 \<noteq> CHR '':'' then None
      else (case (two_digits (take 2 (drop 1 s)), two_digits (drop 4 s)) of
          (Some (hr, _), Some (mm, _)) \<Rightarrow>
            if hr > 24 \<or> mm > 60 then None
            else if hd s = CHR ''+'' then Some ((int hr * 60 + int mm) * 60)
            else if hd s = CHR ''-'' then Some (- ((int hr * 60 + int mm) * 60))
            else None
        | _ \<Rightarrow> None))"

definition parse_date :: "string \<Rightarrow> (int \<times> nat \<times> nat \<times> string) option" where
  "parse_date s = do {
     (year, s) \<leftarrow> four_digits s;
     s \<leftarrow> literal CHR ''-'' s;
     (month, s) \<leftarrow> two_digits s;
     s \<leftarrow> literal CHR ''-'' s;
     (day, s) \<leftarrow> two_digits s;
     if month = 0 \<or> month > 12 \<or> day = 0 \<or> int day > days_in month (int year) then None
     else Some (int year, month, day, s)
   }"

definition parse_clock :: "string \<Rightarrow> (nat \<times> nat \<times> string) option" where
  "parse_clock s = do {
     (hour, s) \<leftarrow> one_or_two_digits s;
     s \<leftarrow> literal CHR '':'' s;
     (minute, s) \<leftarrow> two_digits s;
     s \<leftarrow> literal CHR '':'' s;
     (second, s) \<leftarrow> two_digits s;
     if hour \<ge> 24 \<or> minute \<ge> 60 \<or> second \<ge> 60 then None
     else let (nsec, s) = parse_fraction s in Some ((hour * 60 + minute) * 60 + second, nsec, s)
   }"

definition parse_RFC3339Nano :: "string \<Rightarrow> (int \<times> nat) option" where
  "parse_RFC3339Nano value = do {
     (year, month, day, s) \<leftarrow> parse_date value;
     s \<leftarrow> literal CHR ''T'' s;
     (secs, nsec, s) \<leftarrow> parse_clock s;
     offset \<leftarrow> parse_zone s;
     Some ((days_before year month + int day - 1) * 86400 + int secs - offset, nsec)
   }"

definition validMissingNodeTimestamp :: "string \<Rightarrow> bool" where
  "validMissingNodeTimestamp value =
     (case parse_RFC3339Nano value of None \<Rightarrow> False | Some parsed \<Rightarrow> parsed \<noteq> (0, 0))"

end
