(* ===== verification/Authority_Types.thy ===== *)
theory Authority_Types
  imports Authority_JSON Cloud_Types
begin

text \<open>
  The documents the missing-node detach authority reads
  (\<^verbatim>\<open>csi-driver/pkg/cloud/inspace/kubernetes_detach_authority.go\<close>): NodeClaims, Nodes, their lists,
  the ownership record in a VM description and the create fence of a NodeClaim. For each struct
  there is its record, its zero value, its type as reflection shows it and its \<^verbatim>\<open>json.Unmarshal\<close>.
\<close>

section \<open>NodeClaims and the fence they carry\<close>

record missingNodeObjectMeta =
  om_Name :: string
  om_UID :: string
  om_ResourceVersion :: string
  om_DeletionTimestamp :: string
  om_Finalizers :: "string list"
  om_Annotations :: string_map

definition zero_meta :: missingNodeObjectMeta where
  "zero_meta =
     \<lparr>om_Name = [], om_UID = [], om_ResourceVersion = [], om_DeletionTimestamp = [], om_Finalizers = [], om_Annotations = fmempty\<rparr>"

definition type_meta :: gotype where
  "type_meta = GStruct ''missingNodeObjectMeta''
     [(''Name'', ''name'', GOther), (''UID'', ''uid'', GOther), (''ResourceVersion'', ''resourceVersion'', GOther),
      (''DeletionTimestamp'', ''deletionTimestamp,omitempty'', GOther), (''Finalizers'', ''finalizers,omitempty'',
      GSlice GOther), (''Annotations'', ''annotations,omitempty'', GOther)]"

definition read_meta :: "(string \<times> json) list \<Rightarrow> missingNodeObjectMeta \<Rightarrow> error + missingNodeObjectMeta" where
  "read_meta ms x = do_fields x [
     set_field string_field ''name'' ms om_Name (\<lambda>v x. x\<lparr>om_Name := v\<rparr>),
     set_field string_field ''uid'' ms om_UID (\<lambda>v x. x\<lparr>om_UID := v\<rparr>),
     set_field string_field ''resourceVersion'' ms om_ResourceVersion (\<lambda>v x. x\<lparr>om_ResourceVersion := v\<rparr>),
     set_field string_field ''deletionTimestamp'' ms om_DeletionTimestamp (\<lambda>v x. x\<lparr>om_DeletionTimestamp := v\<rparr>),
     set_field (slice_field into_string []) ''finalizers'' ms om_Finalizers (\<lambda>v x. x\<lparr>om_Finalizers := v\<rparr>),
     set_field map_field ''annotations'' ms om_Annotations (\<lambda>v x. x\<lparr>om_Annotations := v\<rparr>)]"

record missingNodeCondition =
  mc_Type :: string
  mc_Status :: string

definition zero_condition :: missingNodeCondition where
  "zero_condition =
     \<lparr>mc_Type = [], mc_Status = []\<rparr>"

definition type_condition :: gotype where
  "type_condition = GStruct ''missingNodeCondition''
     [(''Type'', ''type'', GOther), (''Status'', ''status'', GOther)]"

definition read_condition :: "(string \<times> json) list \<Rightarrow> missingNodeCondition \<Rightarrow> error + missingNodeCondition" where
  "read_condition ms x = do_fields x [
     set_field string_field ''type'' ms mc_Type (\<lambda>v x. x\<lparr>mc_Type := v\<rparr>),
     set_field string_field ''status'' ms mc_Status (\<lambda>v x. x\<lparr>mc_Status := v\<rparr>)]"

record missingNodeClaimStatus =
  cs_NodeName :: string
  cs_ProviderID :: string
  cs_Conditions :: "missingNodeCondition list"

definition zero_status :: missingNodeClaimStatus where
  "zero_status =
     \<lparr>cs_NodeName = [], cs_ProviderID = [], cs_Conditions = []\<rparr>"

definition type_status :: gotype where
  "type_status = GStruct ''missingNodeClaimStatus''
     [(''NodeName'', ''nodeName'', GOther), (''ProviderID'', ''providerID'', GOther), (''Conditions'', ''conditions'',
      GSlice type_condition)]"

definition read_status :: "(string \<times> json) list \<Rightarrow> missingNodeClaimStatus \<Rightarrow> error + missingNodeClaimStatus" where
  "read_status ms x = do_fields x [
     set_field string_field ''nodeName'' ms cs_NodeName (\<lambda>v x. x\<lparr>cs_NodeName := v\<rparr>),
     set_field string_field ''providerID'' ms cs_ProviderID (\<lambda>v x. x\<lparr>cs_ProviderID := v\<rparr>),
     set_field (slice_field (into_struct read_condition) zero_condition) ''conditions'' ms cs_Conditions (\<lambda>v x. x\<lparr>cs_Conditions := v\<rparr>)]"

record missingNodeClaim =
  nc_APIVersion :: string
  nc_Kind :: string
  nc_Metadata :: missingNodeObjectMeta
  nc_Status :: missingNodeClaimStatus

definition zero_claim :: missingNodeClaim where
  "zero_claim =
     \<lparr>nc_APIVersion = [], nc_Kind = [], nc_Metadata = zero_meta, nc_Status = zero_status\<rparr>"

definition type_claim :: gotype where
  "type_claim = GStruct ''missingNodeClaim''
     [(''APIVersion'', ''apiVersion'', GOther), (''Kind'', ''kind'', GOther), (''Metadata'', ''metadata'', type_meta),
      (''Status'', ''status'', type_status)]"

definition read_claim :: "(string \<times> json) list \<Rightarrow> missingNodeClaim \<Rightarrow> error + missingNodeClaim" where
  "read_claim ms x = do_fields x [
     set_field string_field ''apiVersion'' ms nc_APIVersion (\<lambda>v x. x\<lparr>nc_APIVersion := v\<rparr>),
     set_field string_field ''kind'' ms nc_Kind (\<lambda>v x. x\<lparr>nc_Kind := v\<rparr>),
     set_field (struct_field read_meta) ''metadata'' ms nc_Metadata (\<lambda>v x. x\<lparr>nc_Metadata := v\<rparr>),
     set_field (struct_field read_status) ''status'' ms nc_Status (\<lambda>v x. x\<lparr>nc_Status := v\<rparr>)]"

record missingNodeListMeta =
  pm_ResourceVersion :: string
  pm_Continue :: string

definition zero_list_meta :: missingNodeListMeta where
  "zero_list_meta =
     \<lparr>pm_ResourceVersion = [], pm_Continue = []\<rparr>"

definition type_list_meta :: gotype where
  "type_list_meta = GStruct ''missingNodeListMeta''
     [(''ResourceVersion'', ''resourceVersion'', GOther), (''Continue'', ''continue,omitempty'', GOther)]"

definition read_list_meta :: "(string \<times> json) list \<Rightarrow> missingNodeListMeta \<Rightarrow> error + missingNodeListMeta" where
  "read_list_meta ms x = do_fields x [
     set_field string_field ''resourceVersion'' ms pm_ResourceVersion (\<lambda>v x. x\<lparr>pm_ResourceVersion := v\<rparr>),
     set_field string_field ''continue'' ms pm_Continue (\<lambda>v x. x\<lparr>pm_Continue := v\<rparr>)]"

definition zero_ownership :: missingNodeOwnershipRecord where
  "zero_ownership =
     \<lparr>own_Schema = [], own_Cluster = [], own_NodePool = [], own_NodeClaim = [], own_VMName = [], own_KeyHash = [], own_HostClass = [], own_InstanceType = [], own_HostPoolUUID = [], own_VCPU = 0, own_MemoryGiB = 0, own_RootDiskGiB = 0, own_SpecHash = [], own_BootstrapHash = [], own_FirewallUUID = [], own_FirewallProfile = [], own_NetworkUUID = [], own_ControlPlaneVIP = [], own_PrivateLoadBalancerPoolStart = [], own_PrivateLoadBalancerPoolStop = [], own_OSName = [], own_OSVersion = [], own_BillingAccountID = 0, own_FloatingIPName = [], own_PublicIPv4 = []\<rparr>"

definition type_ownership :: gotype where
  "type_ownership = GStruct ''missingNodeOwnershipRecord''
     [(''Schema'', ''schema'', GOther), (''Cluster'', ''cluster'', GOther), (''NodePool'', ''nodePool,omitempty'',
      GOther), (''NodeClaim'', ''nodeClaim'', GOther), (''VMName'', ''vmName'', GOther), (''KeyHash'', ''keyHash'',
      GOther), (''HostClass'', ''hostClass'', GOther), (''InstanceType'', ''instanceType'', GOther),
      (''HostPoolUUID'', ''hostPoolUUID,omitempty'', GOther), (''VCPU'', ''vCPU,omitempty'', GOther), (''MemoryGiB'',
      ''memoryGiB,omitempty'', GOther), (''RootDiskGiB'', ''rootDiskGiB'', GOther), (''SpecHash'', ''specHash'',
      GOther), (''BootstrapHash'', ''bootstrapHash'', GOther), (''FirewallUUID'', ''firewallUUID'', GOther),
      (''FirewallProfile'', ''firewallProfile'', GOther), (''NetworkUUID'', ''networkUUID'', GOther),
      (''ControlPlaneVIP'', ''controlPlaneVIP'', GOther), (''PrivateLoadBalancerPoolStart'',
      ''privateLoadBalancerPoolStart'', GOther), (''PrivateLoadBalancerPoolStop'', ''privateLoadBalancerPoolStop'',
      GOther), (''OSName'', ''osName'', GOther), (''OSVersion'', ''osVersion'', GOther), (''BillingAccountID'',
      ''billingAccountID'', GOther), (''FloatingIPName'', ''floatingIPName'', GOther), (''PublicIPv4'',
      ''publicIPv4,omitempty'', GOther)]"

definition read_ownership :: "(string \<times> json) list \<Rightarrow> missingNodeOwnershipRecord \<Rightarrow> error + missingNodeOwnershipRecord" where
  "read_ownership ms x = do_fields x [
     set_field string_field ''schema'' ms own_Schema (\<lambda>v x. x\<lparr>own_Schema := v\<rparr>),
     set_field string_field ''cluster'' ms own_Cluster (\<lambda>v x. x\<lparr>own_Cluster := v\<rparr>),
     set_field string_field ''nodePool'' ms own_NodePool (\<lambda>v x. x\<lparr>own_NodePool := v\<rparr>),
     set_field string_field ''nodeClaim'' ms own_NodeClaim (\<lambda>v x. x\<lparr>own_NodeClaim := v\<rparr>),
     set_field string_field ''vmName'' ms own_VMName (\<lambda>v x. x\<lparr>own_VMName := v\<rparr>),
     set_field string_field ''keyHash'' ms own_KeyHash (\<lambda>v x. x\<lparr>own_KeyHash := v\<rparr>),
     set_field string_field ''hostClass'' ms own_HostClass (\<lambda>v x. x\<lparr>own_HostClass := v\<rparr>),
     set_field string_field ''instanceType'' ms own_InstanceType (\<lambda>v x. x\<lparr>own_InstanceType := v\<rparr>),
     set_field string_field ''hostPoolUUID'' ms own_HostPoolUUID (\<lambda>v x. x\<lparr>own_HostPoolUUID := v\<rparr>),
     set_field (int_field (2 ^ 63)) ''vCPU'' ms own_VCPU (\<lambda>v x. x\<lparr>own_VCPU := v\<rparr>),
     set_field (int_field (2 ^ 63)) ''memoryGiB'' ms own_MemoryGiB (\<lambda>v x. x\<lparr>own_MemoryGiB := v\<rparr>),
     set_field (int_field (2 ^ 31)) ''rootDiskGiB'' ms own_RootDiskGiB (\<lambda>v x. x\<lparr>own_RootDiskGiB := v\<rparr>),
     set_field string_field ''specHash'' ms own_SpecHash (\<lambda>v x. x\<lparr>own_SpecHash := v\<rparr>),
     set_field string_field ''bootstrapHash'' ms own_BootstrapHash (\<lambda>v x. x\<lparr>own_BootstrapHash := v\<rparr>),
     set_field string_field ''firewallUUID'' ms own_FirewallUUID (\<lambda>v x. x\<lparr>own_FirewallUUID := v\<rparr>),
     set_field string_field ''firewallProfile'' ms own_FirewallProfile (\<lambda>v x. x\<lparr>own_FirewallProfile := v\<rparr>),
     set_field string_field ''networkUUID'' ms own_NetworkUUID (\<lambda>v x. x\<lparr>own_NetworkUUID := v\<rparr>),
     set_field string_field ''controlPlaneVIP'' ms own_ControlPlaneVIP (\<lambda>v x. x\<lparr>own_ControlPlaneVIP := v\<rparr>),
     set_field string_field ''privateLoadBalancerPoolStart'' ms own_PrivateLoadBalancerPoolStart (\<lambda>v x. x\<lparr>own_PrivateLoadBalancerPoolStart := v\<rparr>),
     set_field string_field ''privateLoadBalancerPoolStop'' ms own_PrivateLoadBalancerPoolStop (\<lambda>v x. x\<lparr>own_PrivateLoadBalancerPoolStop := v\<rparr>),
     set_field string_field ''osName'' ms own_OSName (\<lambda>v x. x\<lparr>own_OSName := v\<rparr>),
     set_field string_field ''osVersion'' ms own_OSVersion (\<lambda>v x. x\<lparr>own_OSVersion := v\<rparr>),
     set_field (int_field (2 ^ 63)) ''billingAccountID'' ms own_BillingAccountID (\<lambda>v x. x\<lparr>own_BillingAccountID := v\<rparr>),
     set_field string_field ''floatingIPName'' ms own_FloatingIPName (\<lambda>v x. x\<lparr>own_FloatingIPName := v\<rparr>),
     set_field string_field ''publicIPv4'' ms own_PublicIPv4 (\<lambda>v x. x\<lparr>own_PublicIPv4 := v\<rparr>)]"

record missingNodeCreateFenceBinding =
  cb_NodeClaimUID :: string
  cb_IdempotencyKeyHash :: string
  cb_RequestHash :: string
  cb_SpecHash :: string
  cb_BootstrapHash :: string

definition zero_binding :: missingNodeCreateFenceBinding where
  "zero_binding =
     \<lparr>cb_NodeClaimUID = [], cb_IdempotencyKeyHash = [], cb_RequestHash = [], cb_SpecHash = [], cb_BootstrapHash = []\<rparr>"

definition type_binding :: gotype where
  "type_binding = GStruct ''missingNodeCreateFenceBinding''
     [(''NodeClaimUID'', ''nodeClaimUID'', GOther), (''IdempotencyKeyHash'', ''idempotencyKeyHash'', GOther),
      (''RequestHash'', ''requestHash'', GOther), (''SpecHash'', ''specHash'', GOther), (''BootstrapHash'',
      ''bootstrapHash'', GOther)]"

definition read_binding :: "(string \<times> json) list \<Rightarrow> missingNodeCreateFenceBinding \<Rightarrow> error + missingNodeCreateFenceBinding" where
  "read_binding ms x = do_fields x [
     set_field string_field ''nodeClaimUID'' ms cb_NodeClaimUID (\<lambda>v x. x\<lparr>cb_NodeClaimUID := v\<rparr>),
     set_field string_field ''idempotencyKeyHash'' ms cb_IdempotencyKeyHash (\<lambda>v x. x\<lparr>cb_IdempotencyKeyHash := v\<rparr>),
     set_field string_field ''requestHash'' ms cb_RequestHash (\<lambda>v x. x\<lparr>cb_RequestHash := v\<rparr>),
     set_field string_field ''specHash'' ms cb_SpecHash (\<lambda>v x. x\<lparr>cb_SpecHash := v\<rparr>),
     set_field string_field ''bootstrapHash'' ms cb_BootstrapHash (\<lambda>v x. x\<lparr>cb_BootstrapHash := v\<rparr>)]"

record missingNodeCleanupIdentity =
  cu_ClusterName :: string
  cu_Location :: string
  cu_NetworkUUID :: string
  cu_NodePoolName :: string
  cu_ControlPlaneVIP :: string
  cu_PrivateLoadBalancerPoolStart :: string
  cu_PrivateLoadBalancerPoolStop :: string
  cu_FirewallUUID :: string
  cu_FirewallProfile :: string
  cu_NodeClaimName :: string
  cu_VMName :: string
  cu_BillingAccountID :: int
  cu_OwnershipKeyHash :: string

definition zero_cleanup :: missingNodeCleanupIdentity where
  "zero_cleanup =
     \<lparr>cu_ClusterName = [], cu_Location = [], cu_NetworkUUID = [], cu_NodePoolName = [], cu_ControlPlaneVIP = [], cu_PrivateLoadBalancerPoolStart = [], cu_PrivateLoadBalancerPoolStop = [], cu_FirewallUUID = [], cu_FirewallProfile = [], cu_NodeClaimName = [], cu_VMName = [], cu_BillingAccountID = 0, cu_OwnershipKeyHash = []\<rparr>"

definition type_cleanup :: gotype where
  "type_cleanup = GStruct ''missingNodeCleanupIdentity''
     [(''ClusterName'', ''clusterName'', GOther), (''Location'', ''location'', GOther), (''NetworkUUID'',
      ''networkUUID'', GOther), (''NodePoolName'', ''nodePoolName'', GOther), (''ControlPlaneVIP'',
      ''controlPlaneVIP'', GOther), (''PrivateLoadBalancerPoolStart'', ''privateLoadBalancerPoolStart'', GOther),
      (''PrivateLoadBalancerPoolStop'', ''privateLoadBalancerPoolStop'', GOther), (''FirewallUUID'', ''firewallUUID'',
      GOther), (''FirewallProfile'', ''firewallProfile'', GOther), (''NodeClaimName'', ''nodeClaimName'', GOther),
      (''VMName'', ''vmName'', GOther), (''BillingAccountID'', ''billingAccountID'', GOther), (''OwnershipKeyHash'',
      ''ownershipKeyHash'', GOther)]"

definition read_cleanup :: "(string \<times> json) list \<Rightarrow> missingNodeCleanupIdentity \<Rightarrow> error + missingNodeCleanupIdentity" where
  "read_cleanup ms x = do_fields x [
     set_field string_field ''clusterName'' ms cu_ClusterName (\<lambda>v x. x\<lparr>cu_ClusterName := v\<rparr>),
     set_field string_field ''location'' ms cu_Location (\<lambda>v x. x\<lparr>cu_Location := v\<rparr>),
     set_field string_field ''networkUUID'' ms cu_NetworkUUID (\<lambda>v x. x\<lparr>cu_NetworkUUID := v\<rparr>),
     set_field string_field ''nodePoolName'' ms cu_NodePoolName (\<lambda>v x. x\<lparr>cu_NodePoolName := v\<rparr>),
     set_field string_field ''controlPlaneVIP'' ms cu_ControlPlaneVIP (\<lambda>v x. x\<lparr>cu_ControlPlaneVIP := v\<rparr>),
     set_field string_field ''privateLoadBalancerPoolStart'' ms cu_PrivateLoadBalancerPoolStart (\<lambda>v x. x\<lparr>cu_PrivateLoadBalancerPoolStart := v\<rparr>),
     set_field string_field ''privateLoadBalancerPoolStop'' ms cu_PrivateLoadBalancerPoolStop (\<lambda>v x. x\<lparr>cu_PrivateLoadBalancerPoolStop := v\<rparr>),
     set_field string_field ''firewallUUID'' ms cu_FirewallUUID (\<lambda>v x. x\<lparr>cu_FirewallUUID := v\<rparr>),
     set_field string_field ''firewallProfile'' ms cu_FirewallProfile (\<lambda>v x. x\<lparr>cu_FirewallProfile := v\<rparr>),
     set_field string_field ''nodeClaimName'' ms cu_NodeClaimName (\<lambda>v x. x\<lparr>cu_NodeClaimName := v\<rparr>),
     set_field string_field ''vmName'' ms cu_VMName (\<lambda>v x. x\<lparr>cu_VMName := v\<rparr>),
     set_field (int_field (2 ^ 63)) ''billingAccountID'' ms cu_BillingAccountID (\<lambda>v x. x\<lparr>cu_BillingAccountID := v\<rparr>),
     set_field string_field ''ownershipKeyHash'' ms cu_OwnershipKeyHash (\<lambda>v x. x\<lparr>cu_OwnershipKeyHash := v\<rparr>)]"

record missingNodeFirewallAssignment =
  fa_VMUUID :: string
  fa_FirewallUUID :: string
  fa_Phase :: string
  fa_IssueID :: string
  fa_IntentAt :: string
  fa_IssuedAt :: "string option"
  fa_RejectedAt :: "string option"
  fa_ObservedAt :: "string option"

definition zero_assignment :: missingNodeFirewallAssignment where
  "zero_assignment =
     \<lparr>fa_VMUUID = [], fa_FirewallUUID = [], fa_Phase = [], fa_IssueID = [], fa_IntentAt = [], fa_IssuedAt = None, fa_RejectedAt = None, fa_ObservedAt = None\<rparr>"

definition type_assignment :: gotype where
  "type_assignment = GStruct ''missingNodeFirewallAssignment''
     [(''VMUUID'', ''vmUUID'', GOther), (''FirewallUUID'', ''firewallUUID'', GOther), (''Phase'', ''phase'', GOther),
      (''IssueID'', ''issueID'', GOther), (''IntentAt'', ''intentAt'', GOther), (''IssuedAt'', ''issuedAt,omitempty'',
      GPointer GOther), (''RejectedAt'', ''rejectedAt,omitempty'', GPointer GOther), (''ObservedAt'',
      ''observedAt,omitempty'', GPointer GOther)]"

definition read_assignment :: "(string \<times> json) list \<Rightarrow> missingNodeFirewallAssignment \<Rightarrow> error + missingNodeFirewallAssignment" where
  "read_assignment ms x = do_fields x [
     set_field string_field ''vmUUID'' ms fa_VMUUID (\<lambda>v x. x\<lparr>fa_VMUUID := v\<rparr>),
     set_field string_field ''firewallUUID'' ms fa_FirewallUUID (\<lambda>v x. x\<lparr>fa_FirewallUUID := v\<rparr>),
     set_field string_field ''phase'' ms fa_Phase (\<lambda>v x. x\<lparr>fa_Phase := v\<rparr>),
     set_field string_field ''issueID'' ms fa_IssueID (\<lambda>v x. x\<lparr>fa_IssueID := v\<rparr>),
     set_field string_field ''intentAt'' ms fa_IntentAt (\<lambda>v x. x\<lparr>fa_IntentAt := v\<rparr>),
     set_field stamp_field ''issuedAt'' ms fa_IssuedAt (\<lambda>v x. x\<lparr>fa_IssuedAt := v\<rparr>),
     set_field stamp_field ''rejectedAt'' ms fa_RejectedAt (\<lambda>v x. x\<lparr>fa_RejectedAt := v\<rparr>),
     set_field stamp_field ''observedAt'' ms fa_ObservedAt (\<lambda>v x. x\<lparr>fa_ObservedAt := v\<rparr>)]"

record missingNodeCreateFence =
  cf_Schema :: string
  cf_Binding :: missingNodeCreateFenceBinding
  cf_Cleanup :: missingNodeCleanupIdentity
  cf_Token :: string
  cf_Phase :: string
  cf_Intent :: string
  cf_IssueID :: string
  cf_StartedAt :: string
  cf_IssuedAt :: "string option"
  cf_LaunchObservedAt :: "string option"
  cf_CreatedVMUUID :: string
  cf_ProtectionFailureAt :: "string option"
  cf_RollbackAt :: "string option"
  cf_ObservedAt :: "string option"
  cf_ObservedVMUUID :: string
  cf_FloatingIPName :: string
  cf_PublicIPv4 :: string
  cf_BaseFirewallAssignment :: "missingNodeFirewallAssignment option"

definition zero_create_fence :: missingNodeCreateFence where
  "zero_create_fence =
     \<lparr>cf_Schema = [], cf_Binding = zero_binding, cf_Cleanup = zero_cleanup, cf_Token = [], cf_Phase = [], cf_Intent = [], cf_IssueID = [], cf_StartedAt = [], cf_IssuedAt = None, cf_LaunchObservedAt = None, cf_CreatedVMUUID = [], cf_ProtectionFailureAt = None, cf_RollbackAt = None, cf_ObservedAt = None, cf_ObservedVMUUID = [], cf_FloatingIPName = [], cf_PublicIPv4 = [], cf_BaseFirewallAssignment = None\<rparr>"

definition type_create_fence :: gotype where
  "type_create_fence = GStruct ''missingNodeCreateFence''
     [(''Schema'', ''schema'', GOther), (''Binding'', ''binding'', type_binding), (''Cleanup'', ''cleanup'',
      type_cleanup), (''Token'', ''token'', GOther), (''Phase'', ''phase'', GOther), (''Intent'', ''intent'', GOther),
      (''IssueID'', ''issueID'', GOther), (''StartedAt'', ''startedAt'', GOther), (''IssuedAt'',
      ''issuedAt,omitempty'', GPointer GOther), (''LaunchObservedAt'', ''launchObservedAt,omitempty'', GPointer
      GOther), (''CreatedVMUUID'', ''createdVMUUID'', GOther), (''ProtectionFailureAt'',
      ''protectionFailureAt,omitempty'', GPointer GOther), (''RollbackAt'', ''rollbackAt,omitempty'', GPointer
      GOther), (''ObservedAt'', ''observedAt,omitempty'', GPointer GOther), (''ObservedVMUUID'', ''observedVMUUID'',
      GOther), (''FloatingIPName'', ''floatingIPName'', GOther), (''PublicIPv4'', ''publicIPv4'', GOther),
      (''BaseFirewallAssignment'', ''baseFirewallAssignment'', GPointer type_assignment)]"

definition read_create_fence :: "(string \<times> json) list \<Rightarrow> missingNodeCreateFence \<Rightarrow> error + missingNodeCreateFence" where
  "read_create_fence ms x = do_fields x [
     set_field string_field ''schema'' ms cf_Schema (\<lambda>v x. x\<lparr>cf_Schema := v\<rparr>),
     set_field (struct_field read_binding) ''binding'' ms cf_Binding (\<lambda>v x. x\<lparr>cf_Binding := v\<rparr>),
     set_field (struct_field read_cleanup) ''cleanup'' ms cf_Cleanup (\<lambda>v x. x\<lparr>cf_Cleanup := v\<rparr>),
     set_field string_field ''token'' ms cf_Token (\<lambda>v x. x\<lparr>cf_Token := v\<rparr>),
     set_field string_field ''phase'' ms cf_Phase (\<lambda>v x. x\<lparr>cf_Phase := v\<rparr>),
     set_field string_field ''intent'' ms cf_Intent (\<lambda>v x. x\<lparr>cf_Intent := v\<rparr>),
     set_field string_field ''issueID'' ms cf_IssueID (\<lambda>v x. x\<lparr>cf_IssueID := v\<rparr>),
     set_field string_field ''startedAt'' ms cf_StartedAt (\<lambda>v x. x\<lparr>cf_StartedAt := v\<rparr>),
     set_field stamp_field ''issuedAt'' ms cf_IssuedAt (\<lambda>v x. x\<lparr>cf_IssuedAt := v\<rparr>),
     set_field stamp_field ''launchObservedAt'' ms cf_LaunchObservedAt (\<lambda>v x. x\<lparr>cf_LaunchObservedAt := v\<rparr>),
     set_field string_field ''createdVMUUID'' ms cf_CreatedVMUUID (\<lambda>v x. x\<lparr>cf_CreatedVMUUID := v\<rparr>),
     set_field stamp_field ''protectionFailureAt'' ms cf_ProtectionFailureAt (\<lambda>v x. x\<lparr>cf_ProtectionFailureAt := v\<rparr>),
     set_field stamp_field ''rollbackAt'' ms cf_RollbackAt (\<lambda>v x. x\<lparr>cf_RollbackAt := v\<rparr>),
     set_field stamp_field ''observedAt'' ms cf_ObservedAt (\<lambda>v x. x\<lparr>cf_ObservedAt := v\<rparr>),
     set_field string_field ''observedVMUUID'' ms cf_ObservedVMUUID (\<lambda>v x. x\<lparr>cf_ObservedVMUUID := v\<rparr>),
     set_field string_field ''floatingIPName'' ms cf_FloatingIPName (\<lambda>v x. x\<lparr>cf_FloatingIPName := v\<rparr>),
     set_field string_field ''publicIPv4'' ms cf_PublicIPv4 (\<lambda>v x. x\<lparr>cf_PublicIPv4 := v\<rparr>),
     set_field (pointer_field (into_struct read_assignment) zero_assignment) ''baseFirewallAssignment'' ms cf_BaseFirewallAssignment (\<lambda>v x. x\<lparr>cf_BaseFirewallAssignment := v\<rparr>)]"

section \<open>Nodes and list pages\<close>

record missingNodeKubernetesNode =
  kn_Name :: string
  kn_UID :: string
  kn_ProviderID :: string

definition zero_node :: missingNodeKubernetesNode where
  "zero_node = \<lparr>kn_Name = [], kn_UID = [], kn_ProviderID = []\<rparr>"

definition type_node :: gotype where
  "type_node = GStruct ''missingNodeKubernetesNode''
     [(''Metadata'', ''metadata'', GStruct ''missingNodeKubernetesNode.Metadata''
         [(''Name'', ''name'', GOther), (''UID'', ''uid'', GOther)]),
      (''Spec'', ''spec'', GStruct ''missingNodeKubernetesNode.Spec'' [(''ProviderID'', ''providerID'', GOther)])]"

definition read_node :: "(string \<times> json) list \<Rightarrow> missingNodeKubernetesNode \<Rightarrow> error + missingNodeKubernetesNode" where
  "read_node ms x = do_fields x [
     struct_field (\<lambda>ms x. do_fields x [
        set_field string_field ''name'' ms kn_Name (\<lambda>v x. x\<lparr>kn_Name := v\<rparr>),
        set_field string_field ''uid'' ms kn_UID (\<lambda>v x. x\<lparr>kn_UID := v\<rparr>)]) ''metadata'' ms,
     struct_field (\<lambda>ms x. do_fields x [
        set_field string_field ''providerID'' ms kn_ProviderID (\<lambda>v x. x\<lparr>kn_ProviderID := v\<rparr>)]) ''spec'' ms]"

text \<open>The lists of NodeClaims and of Nodes have the same shape; \<open>'a\<close> is the type of their items.\<close>

record 'a missingNodeList =
  pg_APIVersion :: string
  pg_Kind :: string
  pg_Metadata :: missingNodeListMeta
  pg_Items :: "'a list"

definition zero_list :: "'a missingNodeList" where
  "zero_list = \<lparr>pg_APIVersion = [], pg_Kind = [], pg_Metadata = zero_list_meta, pg_Items = []\<rparr>"

definition type_list :: "string \<Rightarrow> gotype \<Rightarrow> gotype" where
  "type_list name item = GStruct name
     [(''APIVersion'', ''apiVersion'', GOther), (''Kind'', ''kind'', GOther), (''Metadata'', ''metadata'', type_list_meta),
      (''Items'', ''items'', GSlice item)]"

definition read_list :: "((string \<times> json) list \<Rightarrow> 'a \<Rightarrow> error + 'a) \<Rightarrow> 'a \<Rightarrow> (string \<times> json) list
    \<Rightarrow> 'a missingNodeList \<Rightarrow> error + 'a missingNodeList" where
  "read_list item zero ms x = do_fields x [
     set_field string_field ''apiVersion'' ms pg_APIVersion (\<lambda>v x. x\<lparr>pg_APIVersion := v\<rparr>),
     set_field string_field ''kind'' ms pg_Kind (\<lambda>v x. x\<lparr>pg_Kind := v\<rparr>),
     set_field (struct_field read_list_meta) ''metadata'' ms pg_Metadata (\<lambda>v x. x\<lparr>pg_Metadata := v\<rparr>),
     set_field (slice_field (into_struct item) zero) ''items'' ms pg_Items (\<lambda>v x. x\<lparr>pg_Items := v\<rparr>)]"

section \<open>Decoding\<close>

definition decode_claim :: "string \<Rightarrow> error + missingNodeClaim" where
  "decode_claim = decodeMissingNodeAuthorityJSON type_claim (\<lambda>v. into_struct read_claim v zero_claim)"

definition decode_ownership :: "string \<Rightarrow> error + missingNodeOwnershipRecord" where
  "decode_ownership = decodeMissingNodeAuthorityJSON type_ownership (\<lambda>v. into_struct read_ownership v zero_ownership)"

definition decode_create_fence :: "string \<Rightarrow> error + missingNodeCreateFence" where
  "decode_create_fence = decodeMissingNodeAuthorityJSON type_create_fence (\<lambda>v. into_struct read_create_fence v zero_create_fence)"

definition decode_claim_list :: "string \<Rightarrow> error + missingNodeClaim missingNodeList" where
  "decode_claim_list = decodeMissingNodeAuthorityJSON (type_list ''missingNodeClaimList'' type_claim)
     (\<lambda>v. into_struct (read_list read_claim zero_claim) v zero_list)"

definition decode_node_list :: "string \<Rightarrow> error + missingNodeKubernetesNode missingNodeList" where
  "decode_node_list = decodeMissingNodeAuthorityJSON (type_list ''missingNodeKubernetesNodeList'' type_node)
     (\<lambda>v. into_struct (read_list read_node zero_node) v zero_list)"

text \<open>The reflection walk succeeds on every destination type; these are the keys it collects.\<close>

lemma claim_list_keys:
  "missingNodeAuthorityCanonicalJSONKeys (type_list ''missingNodeClaimList'' type_claim)
     = Inr [''apiVersion'', ''kind'', ''metadata'', ''resourceVersion'', ''continue'', ''items'', ''name'', ''uid'',
            ''deletionTimestamp'', ''finalizers'', ''annotations'', ''status'', ''nodeName'', ''providerID'',
            ''conditions'', ''type'']"
  by code_simp

end
