(* ===== verification/Detach_Authority.thy ===== *)
theory Detach_Authority
  imports Authority_Types Kube_API
begin

text \<open>
  \<^verbatim>\<open>AuthorizeMissingNodeDetach\<close> (\<^verbatim>\<open>csi-driver/pkg/cloud/inspace/kubernetes_detach_authority.go\<close>): the
  Kubernetes side of a detach from the VM of a Node that no longer exists. Two reads prove the Node
  absent, before and after; in between one deleting NodeClaim, its create fence and the VM's
  ownership record are bound to the VM, and complete lists of NodeClaims and Nodes show that nothing
  else claims it.
\<close>

section \<open>Bounds\<close>

definition maxMissingNodeAuthorityItems :: nat where
  "maxMissingNodeAuthorityItems = 4096"

definition maxMissingNodeAuthorityResponseBytes :: int where
  "maxMissingNodeAuthorityResponseBytes = 8388608"

definition maxMissingNodeContinueTokenBytes :: nat where
  "maxMissingNodeContinueTokenBytes = 16384"

definition maxMissingNodeCreateFenceBytes :: nat where
  "maxMissingNodeCreateFenceBytes = 262144"

definition missingNodeAuthorityError :: "error \<Rightarrow> error" where
  "missingNodeAuthorityError err =
     (if context_error err then err else Wrap ''missing-node detach authorization'' [Sentinel ErrUnavailable])"

section \<open>The create fence and the NodeClaim\<close>

definition stamped :: "string option \<Rightarrow> bool" where
  "stamped p = (case p of None \<Rightarrow> False | Some value \<Rightarrow> validMissingNodeTimestamp value)"

definition observedAssignment :: "missingNodeFirewallAssignment \<Rightarrow> missingNodeDetachRequest \<Rightarrow> string \<Rightarrow> bool" where
  "observedAssignment assignment request firewallUUID =
     (fa_Phase assignment = ''observed''
      \<and> fa_VMUUID assignment = md_VMUUID request
      \<and> fa_FirewallUUID assignment = firewallUUID
      \<and> missingNodeHex32Pattern (fa_IssueID assignment)
      \<and> validMissingNodeTimestamp (fa_IntentAt assignment)
      \<and> stamped (fa_IssuedAt assignment) \<and> stamped (fa_ObservedAt assignment)
      \<and> fa_RejectedAt assignment = None)"

definition cleanupIdentity :: "missingNodeClaim \<Rightarrow> missingNodeDetachRequest \<Rightarrow> missingNodeOwnershipRecord
    \<Rightarrow> missingNodeCleanupIdentity" where
  "cleanupIdentity claim request ownership =
     \<lparr>cu_ClusterName = own_Cluster ownership, cu_Location = md_Location request,
      cu_NetworkUUID = md_NetworkUUID request, cu_NodePoolName = own_NodePool ownership,
      cu_ControlPlaneVIP = own_ControlPlaneVIP ownership,
      cu_PrivateLoadBalancerPoolStart = own_PrivateLoadBalancerPoolStart ownership,
      cu_PrivateLoadBalancerPoolStop = own_PrivateLoadBalancerPoolStop ownership,
      cu_FirewallUUID = own_FirewallUUID ownership, cu_FirewallProfile = own_FirewallProfile ownership,
      cu_NodeClaimName = om_Name (nc_Metadata claim), cu_VMName = md_NodeName request,
      cu_BillingAccountID = md_BillingAccountID request, cu_OwnershipKeyHash = own_KeyHash ownership\<rparr>"

text \<open>\<open>sha256hex\<close> is the SHA-256 digest in hexadecimal.\<close>

definition validateMissingNodeCreateFence :: "(string \<Rightarrow> string) \<Rightarrow> missingNodeCreateFence \<Rightarrow> missingNodeClaim
    \<Rightarrow> missingNodeDetachRequest \<Rightarrow> missingNodeOwnershipRecord \<Rightarrow> error option" where
  "validateMissingNodeCreateFence sha256hex fence claim request ownership =
     (let uid = om_UID (nc_Metadata claim); fullUIDHash = sha256hex uid; binding = cf_Binding fence in
      if cf_Schema fence \<noteq> ''karpenter.inspace.cloud/create-fence-v3'' \<or> cf_Phase fence \<noteq> ''materialized''
      then Some (Plain ''NodeClaim create fence is not strict materialized v3'')
      else if cf_Intent fence \<noteq> ''post'' \<and> cf_Intent fence \<noteq> ''adoption''
      then Some (Plain ''NodeClaim create fence has an invalid materialization intent'')
      else if \<not> missingNodeHex32Pattern (cf_Token fence) \<or> \<not> missingNodeHex32Pattern (cf_IssueID fence)
        \<or> \<not> missingNodeHex64Pattern (cb_IdempotencyKeyHash binding) \<or> \<not> missingNodeHex64Pattern (cb_RequestHash binding)
      then Some (Plain ''NodeClaim create fence hashes or issue identity are malformed'')
      else if cb_NodeClaimUID binding \<noteq> uid \<or> cb_IdempotencyKeyHash binding \<noteq> fullUIDHash
        \<or> cb_SpecHash binding \<noteq> own_SpecHash ownership \<or> cb_BootstrapHash binding \<noteq> own_BootstrapHash ownership
      then Some (Plain ''NodeClaim create-fence binding does not match UID or VM ownership'')
      else if cf_Cleanup fence \<noteq> cleanupIdentity claim request ownership
        \<or> cu_OwnershipKeyHash (cf_Cleanup fence) \<noteq> take 32 fullUIDHash
      then Some (Plain ''NodeClaim create-fence cleanup identity does not match the VM, account, or VPC'')
      else if cf_CreatedVMUUID fence \<noteq> md_VMUUID request \<or> cf_ObservedVMUUID fence \<noteq> md_VMUUID request
        \<or> cf_CreatedVMUUID fence \<noteq> ToLower (cf_CreatedVMUUID fence)
        \<or> cf_RollbackAt fence \<noteq> None \<or> cf_ProtectionFailureAt fence \<noteq> None
      then Some (Plain ''NodeClaim create fence lacks one unrolled-back materialized VM identity'')
      else if cf_FloatingIPName fence = [] \<or> cf_FloatingIPName fence \<noteq> own_FloatingIPName ownership \<or> cf_PublicIPv4 fence = []
      then Some (Plain ''NodeClaim create fence lacks its materialized Floating IP identity'')
      else if \<not> stamped (cf_IssuedAt fence) \<or> \<not> stamped (cf_LaunchObservedAt fence) \<or> \<not> stamped (cf_ObservedAt fence)
      then Some (Plain ''NodeClaim create fence has an invalid timestamp'')
      else if \<not> validMissingNodeTimestamp (cf_StartedAt fence)
      then Some (Plain ''NodeClaim create fence has invalid startedAt'')
      else (case cf_BaseFirewallAssignment fence of
          None \<Rightarrow> Some (Plain ''NodeClaim create fence lacks an observed base-firewall assignment'')
        | Some assignment \<Rightarrow>
            if observedAssignment assignment request (cu_FirewallUUID (cf_Cleanup fence)) then None
            else Some (Plain ''NodeClaim create fence lacks an observed base-firewall assignment'')))"

fun collect_finalizers :: "string list \<Rightarrow> string list \<Rightarrow> error + string list" where
  "collect_finalizers seen [] = Inr seen"
| "collect_finalizers seen (finalizer # fs) =
     (if finalizer = [] then Inl (Plain ''NodeClaim has an empty finalizer'')
      else if finalizer \<in> set seen then Inl (Plain ''NodeClaim repeats finalizer'')
      else collect_finalizers (seen @ [finalizer]) fs)"

fun collect_conditions :: "(string \<rightharpoonup> string) \<Rightarrow> missingNodeCondition list \<Rightarrow> error + (string \<rightharpoonup> string)" where
  "collect_conditions seen [] = Inr seen"
| "collect_conditions seen (condition # cs) =
     (if mc_Type condition = [] \<or> mc_Status condition = [] then Inl (Plain ''NodeClaim contains an incomplete condition'')
      else if seen (mc_Type condition) \<noteq> None then Inl (Plain ''NodeClaim repeats condition type'')
      else collect_conditions (seen(mc_Type condition \<mapsto> mc_Status condition)) cs)"

definition inspaceProviderID :: "string \<Rightarrow> string \<Rightarrow> string" where
  "inspaceProviderID location vmUUID = ''inspace://'' @ location @ ''/'' @ vmUUID"

definition requestProviderID :: "missingNodeDetachRequest \<Rightarrow> string" where
  "requestProviderID request = inspaceProviderID (md_Location request) (md_VMUUID request)"

definition claim_fence :: "missingNodeClaim \<Rightarrow> string" where
  "claim_fence claim = map_lookup (om_Annotations (nc_Metadata claim)) ''karpenter.inspace.cloud/create-fence''"

definition validateMissingNodeClaim :: "(string \<Rightarrow> string) \<Rightarrow> missingNodeClaim \<Rightarrow> missingNodeDetachRequest
    \<Rightarrow> missingNodeOwnershipRecord \<Rightarrow> error option" where
  "validateMissingNodeClaim sha256hex claim request ownership =
     (let meta = nc_Metadata claim in
      if nc_APIVersion claim \<noteq> ''karpenter.sh/v1'' \<or> nc_Kind claim \<noteq> ''NodeClaim''
        \<or> om_Name meta \<noteq> own_NodeClaim ownership \<or> om_UID meta = [] \<or> om_ResourceVersion meta = []
      then Some (Plain ''NodeClaim exact identity is incomplete'')
      else if \<not> validMissingNodeTimestamp (om_DeletionTimestamp meta)
      then Some (Plain ''NodeClaim is not durably deleting'')
      else (case collect_finalizers [] (om_Finalizers meta) of
          Inl err \<Rightarrow> Some err
        | Inr finalizers \<Rightarrow>
      if ''karpenter.sh/termination'' \<notin> set finalizers \<or> ''karpenter.inspace.cloud/create-protection'' \<notin> set finalizers
      then Some (Plain ''NodeClaim lacks required finalizer'')
      else if map_lookup (om_Annotations meta) ''karpenter.inspace.cloud/node-name'' \<noteq> md_NodeName request
      then Some (Plain ''NodeClaim node-name annotation does not match the missing Node'')
      else if cs_NodeName (nc_Status claim) \<noteq> md_NodeName request
      then Some (Plain ''NodeClaim status.nodeName does not match the missing Node'')
      else if parseProviderID (cs_ProviderID (nc_Status claim)) \<noteq> Inr (md_Location request, md_VMUUID request)
        \<or> cs_ProviderID (nc_Status claim) \<noteq> requestProviderID request
      then Some (Plain ''NodeClaim status.providerID does not canonically bind the attached VM'')
      else (case collect_conditions Map.empty (cs_Conditions (nc_Status claim)) of
          Inl err \<Rightarrow> Some err
        | Inr conditions \<Rightarrow>
      if conditions ''Registered'' \<noteq> Some ''True''
      then Some (Plain ''NodeClaim Registered condition is not True'')
      else if conditions ''InstanceTerminating'' \<noteq> None
      then Some (Plain ''NodeClaim already has an InstanceTerminating condition'')
      else if claim_fence claim = [] \<or> length (claim_fence claim) > maxMissingNodeCreateFenceBytes
      then Some (Plain ''NodeClaim create fence is empty or oversized'')
      else (case decode_create_fence (claim_fence claim) of
          Inl err \<Rightarrow> Some (Wrap ''decode NodeClaim create fence'' [err])
        | Inr fence \<Rightarrow> validateMissingNodeCreateFence sha256hex fence claim request ownership))))"

section \<open>The inventories\<close>

text \<open>
  The provider ID of a listed object: none of ours, ours in canonical form (with the VM it names),
  or an error.
\<close>

definition listedProviderID :: "string \<Rightarrow> error + string option" where
  "listedProviderID rawProviderID =
     (let trimmedProviderID = TrimSpace rawProviderID in
      if trimmedProviderID = [] \<or> \<not> HasPrefix (ToLower trimmedProviderID) ''inspace:'' then Inr None
      else (case parseProviderID rawProviderID of
          Inl err \<Rightarrow> Inl (Plain ''malformed InSpace provider ID'')
        | Inr (location, vmUUID) \<Rightarrow>
            if rawProviderID \<noteq> inspaceProviderID location vmUUID then Inl (Plain ''non-canonical InSpace provider ID'')
            else Inr (Some rawProviderID)))"

text \<open>\<open>exactMatches\<close> and \<open>providerMatches\<close> count the NodeClaims so far that match by name and by provider ID.\<close>

fun claim_inventory :: "(string \<Rightarrow> string) \<Rightarrow> missingNodeClaim \<Rightarrow> missingNodeDetachRequest \<Rightarrow> missingNodeOwnershipRecord
    \<Rightarrow> missingNodeClaim list \<Rightarrow> nat \<Rightarrow> nat \<Rightarrow> error option" where
  "claim_inventory sha256hex exact request ownership [] exactMatches providerMatches =
     (if exactMatches \<noteq> 1 \<or> providerMatches \<noteq> 1
      then Some (Plain ''NodeClaim inventory expected one exact-name and one exact-provider match'') else None)"
| "claim_inventory sha256hex exact request ownership (claim # claims) exactMatches providerMatches =
     (let named = (om_Name (nc_Metadata claim) = own_NodeClaim ownership);
          same = (om_UID (nc_Metadata claim) = om_UID (nc_Metadata exact));
          exactMatches = (if named then exactMatches + 1 else exactMatches)
      in if named \<and> \<not> same then Some (Plain ''NodeClaim LIST and exact GET disagree on UID'')
         else (case (if named then validateMissingNodeClaim sha256hex claim request ownership else None) of
             Some err \<Rightarrow> Some (Wrap ''listed exact NodeClaim is not authoritative'' [err])
           | None \<Rightarrow>
               (case listedProviderID (cs_ProviderID (nc_Status claim)) of
                  Inl err \<Rightarrow> Some err
                | Inr None \<Rightarrow> claim_inventory sha256hex exact request ownership claims exactMatches providerMatches
                | Inr (Some canonicalProviderID) \<Rightarrow>
                    if canonicalProviderID \<noteq> requestProviderID request
                    then claim_inventory sha256hex exact request ownership claims exactMatches providerMatches
                    else if \<not> named \<or> \<not> same
                    then Some (Plain ''another NodeClaim advertises the attached VM provider ID'')
                    else claim_inventory sha256hex exact request ownership claims exactMatches (providerMatches + 1))))"

definition validateMissingNodeClaimInventory :: "(string \<Rightarrow> string) \<Rightarrow> missingNodeClaim list \<Rightarrow> missingNodeClaim
    \<Rightarrow> missingNodeDetachRequest \<Rightarrow> missingNodeOwnershipRecord \<Rightarrow> error option" where
  "validateMissingNodeClaimInventory sha256hex claims exact request ownership =
     claim_inventory sha256hex exact request ownership claims 0 0"

fun validateMissingNodeInventory :: "missingNodeKubernetesNode list \<Rightarrow> missingNodeDetachRequest \<Rightarrow> error option" where
  "validateMissingNodeInventory [] request = None"
| "validateMissingNodeInventory (node # nodes) request =
     (if kn_Name node = md_NodeName request then Some (Plain ''Kubernetes Node appeared in the bounded inventory'')
      else (case listedProviderID (kn_ProviderID node) of
          Inl err \<Rightarrow> Some err
        | Inr (Some canonicalProviderID) \<Rightarrow>
            if canonicalProviderID = requestProviderID request
            then Some (Plain ''Node still advertises the attached VM provider ID'')
            else validateMissingNodeInventory nodes request
        | Inr None \<Rightarrow> validateMissingNodeInventory nodes request))"

section \<open>Reads\<close>

definition requireMissingKubernetesNode :: "'w KubernetesNodeResolver \<Rightarrow> ctx \<Rightarrow> string \<Rightarrow> ('w, error option) prog" where
  "requireMissingKubernetesNode r c nodeName = do {
     res \<leftarrow> ProviderIDForNode r c nodeName;
     ret (case res of
            Inl err \<Rightarrow> if errors_is ErrKubernetesNodeNotFound err then None
                       else Some (Wrap ''cannot prove Kubernetes Node is absent'' [err])
          | Inr _ \<Rightarrow> Some (Plain ''Kubernetes Node reappeared during detach authorization''))
   }"

definition authority_get :: "'w KubernetesNodeResolver \<Rightarrow> ctx \<Rightarrow> string \<Rightarrow> (string \<Rightarrow> error + 'a) \<Rightarrow> ('w, error + 'a) prog" where
  "authority_get r c path decode = do {
     (status, data, err) \<leftarrow> kubernetesAPIRequestWithLimit r c ''GET'' path None maxMissingNodeAuthorityResponseBytes;
     ret (case err of
            Some e \<Rightarrow> Inl e
          | None \<Rightarrow> if status \<noteq> 200 then Inl (Plain ''Kubernetes API returned another HTTP status'')
                    else (case decode data of Inl e \<Rightarrow> Inl (Wrap ''decode'' [e]) | Inr x \<Rightarrow> Inr x))
   }"

definition getMissingNodeClaim :: "'w KubernetesNodeResolver \<Rightarrow> ctx \<Rightarrow> string \<Rightarrow> ('w, error + missingNodeClaim) prog" where
  "getMissingNodeClaim r c name = do {
     res \<leftarrow> authority_get r c (''/apis/karpenter.sh/v1/nodeclaims/'' @ PathEscape name) decode_claim;
     ret (attempt_ok res (\<lambda>claim.
       if nc_APIVersion claim \<noteq> ''karpenter.sh/v1'' \<or> nc_Kind claim \<noteq> ''NodeClaim'' \<or> om_Name (nc_Metadata claim) \<noteq> name
       then Inl (Plain ''exact NodeClaim returned mismatched type or name'') else Inr claim))
   }"

section \<open>Bounded lists\<close>

text \<open>
  \<^verbatim>\<open>listMissingNodeClaims\<close> and \<^verbatim>\<open>listKubernetesNodesForMissingNodeAuthority\<close> are the same loop over
  different collections; \<open>'a\<close> is the type of the items.
\<close>

record 'a authority_collection =
  ac_path :: string
  ac_limit :: string
  ac_pages :: nat
  ac_apiVersion :: string
  ac_kind :: string
  ac_decode :: "string \<Rightarrow> error + 'a missingNodeList"
  ac_name :: "'a \<Rightarrow> string"
  ac_uid :: "'a \<Rightarrow> string"

definition claim_collection :: "missingNodeClaim authority_collection" where
  "claim_collection =
     \<lparr>ac_path = ''/apis/karpenter.sh/v1/nodeclaims'', ac_limit = ''4'', ac_pages = 1025,
      ac_apiVersion = ''karpenter.sh/v1'', ac_kind = ''NodeClaimList'', ac_decode = decode_claim_list,
      ac_name = (\<lambda>claim. om_Name (nc_Metadata claim)), ac_uid = (\<lambda>claim. om_UID (nc_Metadata claim))\<rparr>"

definition node_collection :: "missingNodeKubernetesNode authority_collection" where
  "node_collection =
     \<lparr>ac_path = ''/api/v1/nodes'', ac_limit = ''32'', ac_pages = 129, ac_apiVersion = ''v1'', ac_kind = ''NodeList'',
      ac_decode = decode_node_list, ac_name = kn_Name, ac_uid = kn_UID\<rparr>"

text \<open>\<^verbatim>\<open>url.Values.Encode\<close> sorts by key.\<close>

definition page_uri :: "'a authority_collection \<Rightarrow> string \<Rightarrow> string" where
  "page_uri col continueToken =
     ac_path col @ (if continueToken = [] then ''?limit='' @ ac_limit col
                    else ''?continue='' @ QueryEscape continueToken @ ''&limit='' @ ac_limit col)"

text \<open>The names and UIDs seen are those of the items in \<open>result\<close>.\<close>

fun page_items :: "'a authority_collection \<Rightarrow> 'a list \<Rightarrow> 'a list \<Rightarrow> error + 'a list" where
  "page_items col result [] = Inr result"
| "page_items col result (item # items) =
     (if ac_name col item = [] \<or> ac_uid col item = [] then Inl (Plain ''LIST contains an object without name or UID'')
      else if ac_name col item \<in> set (map (ac_name col) result) then Inl (Plain ''LIST repeats name'')
      else if ac_uid col item \<in> set (map (ac_uid col) result) then Inl (Plain ''LIST repeats UID'')
      else if length (result @ [item]) > maxMissingNodeAuthorityItems then Inl (Plain ''LIST exceeds bounded maximum of items'')
      else page_items col (result @ [item]) items)"

text \<open>The first argument is the number of pages that may still be read.\<close>

primrec list_pages :: "nat \<Rightarrow> 'w KubernetesNodeResolver \<Rightarrow> ctx \<Rightarrow> 'a authority_collection \<Rightarrow> string \<Rightarrow> string
    \<Rightarrow> string list \<Rightarrow> 'a list \<Rightarrow> ('w, error + 'a list) prog" where
  "list_pages 0 r c col resourceVersion continueToken seenContinueTokens result =
     ret (Inl (Plain ''LIST exceeds bounded maximum of pages''))"
| "list_pages (Suc pages) r c col resourceVersion continueToken seenContinueTokens result = do {
     res \<leftarrow> authority_get r c (page_uri col continueToken) (ac_decode col);
     case res of
       Inl err \<Rightarrow> ret (Inl err)
     | Inr page \<Rightarrow>
         let pageVersion = pm_ResourceVersion (pg_Metadata page); next = pm_Continue (pg_Metadata page) in
         if pg_APIVersion page \<noteq> ac_apiVersion col \<or> pg_Kind page \<noteq> ac_kind col \<or> pageVersion = []
         then ret (Inl (Plain ''LIST returned incomplete type or resourceVersion''))
         else if resourceVersion \<noteq> [] \<and> pageVersion \<noteq> resourceVersion
         then ret (Inl (Plain ''LIST resourceVersion changed across pagination''))
         else (case page_items col result (pg_Items page) of
             Inl err \<Rightarrow> ret (Inl err)
           | Inr result \<Rightarrow>
               if next = [] then ret (Inr result)
               else if length next > maxMissingNodeContinueTokenBytes
               then ret (Inl (Plain ''LIST returned an oversized continuation token''))
               else if next \<in> set seenContinueTokens then ret (Inl (Plain ''LIST repeated a continuation token''))
               else list_pages pages r c col pageVersion next (next # seenContinueTokens) result)
   }"

definition list_all_pages :: "'w KubernetesNodeResolver \<Rightarrow> ctx \<Rightarrow> 'a authority_collection \<Rightarrow> ('w, error + 'a list) prog" where
  "list_all_pages r c col = list_pages (ac_pages col) r c col [] [] [] []"

definition listMissingNodeClaims :: "'w KubernetesNodeResolver \<Rightarrow> ctx \<Rightarrow> ('w, error + missingNodeClaim list) prog" where
  "listMissingNodeClaims r c = list_all_pages r c claim_collection"

definition listKubernetesNodesForMissingNodeAuthority ::
  "'w KubernetesNodeResolver \<Rightarrow> ctx \<Rightarrow> ('w, error + missingNodeKubernetesNode list) prog" where
  "listKubernetesNodesForMissingNodeAuthority r c = list_all_pages r c node_collection"

section \<open>The authority\<close>

definition sameClaim :: "missingNodeClaim \<Rightarrow> missingNodeClaim \<Rightarrow> bool" where
  "sameClaim claim readback =
     (om_UID (nc_Metadata claim) = om_UID (nc_Metadata readback)
      \<and> om_DeletionTimestamp (nc_Metadata claim) = om_DeletionTimestamp (nc_Metadata readback)
      \<and> cs_ProviderID (nc_Status claim) = cs_ProviderID (nc_Status readback)
      \<and> cs_NodeName (nc_Status claim) = cs_NodeName (nc_Status readback)
      \<and> claim_fence claim = claim_fence readback)"

text \<open>One step: on an error the authority ends with it, otherwise it goes on.\<close>

definition unless_error :: "error option \<Rightarrow> ('w, error option) prog \<Rightarrow> ('w, error option) prog" where
  "unless_error res m = (case res of Some err \<Rightarrow> ret (Some (missingNodeAuthorityError err)) | None \<Rightarrow> m)"

definition or_error :: "error + 'a \<Rightarrow> ('a \<Rightarrow> ('w, error option) prog) \<Rightarrow> ('w, error option) prog" where
  "or_error res f = (case res of Inl err \<Rightarrow> ret (Some (missingNodeAuthorityError err)) | Inr x \<Rightarrow> f x)"

definition AuthorizeMissingNodeDetach :: "'w KubernetesNodeResolver \<Rightarrow> ctx \<Rightarrow> missingNodeDetachRequest
    \<Rightarrow> ('w, error option) prog" where
  "AuthorizeMissingNodeDetach r c request =
     or_error (validateMissingNodeDetachRequest decode_ownership request) (\<lambda>ownership. do {
       absent \<leftarrow> requireMissingKubernetesNode r c (md_NodeName request);
       unless_error absent (do {
       got \<leftarrow> getMissingNodeClaim r c (own_NodeClaim ownership);
       or_error got (\<lambda>claim.
       unless_error (validateMissingNodeClaim (kr_sha256hex r) claim request ownership) (do {
       listed \<leftarrow> listMissingNodeClaims r c;
       or_error listed (\<lambda>claims.
       unless_error (validateMissingNodeClaimInventory (kr_sha256hex r) claims claim request ownership) (do {
       nodes \<leftarrow> listKubernetesNodesForMissingNodeAuthority r c;
       or_error nodes (\<lambda>nodes.
       unless_error (validateMissingNodeInventory nodes request) (do {
       again \<leftarrow> getMissingNodeClaim r c (own_NodeClaim ownership);
       or_error again (\<lambda>readback.
       unless_error (validateMissingNodeClaim (kr_sha256hex r) readback request ownership)
         (if \<not> sameClaim claim readback
          then ret (Some (missingNodeAuthorityError
                 (Plain ''deleting NodeClaim identity changed during detach authorization'')))
          else do {
            gone \<leftarrow> requireMissingKubernetesNode r c (md_NodeName request);
            unless_error gone (ret None)
          }))
       }))}))}))})})"

end
