(* ===== verification/Authority_Server.thy ===== *)
theory Authority_Server
  imports Detach_Authority History_Logic
begin

text \<open>
  What the detach authority relies on and what it then establishes. The cluster goes through a
  history of states, changed by anybody at any time. \<open>cluster_server\<close> says that an answer reports
  the cluster at some moment during its request: a 404 the absence of a Node, a NodeClaim document
  a NodeClaim that exists, and the pages of a list consecutive slices of one snapshot.
\<close>

section \<open>Moments\<close>

record cluster =
  cl_claims :: "missingNodeClaim list"
  cl_nodes :: "missingNodeKubernetesNode list"

text \<open>The states of a request that extends the history \<open>h\<close> by \<open>new\<close> start with the last one of \<open>h\<close>.\<close>

definition moment :: "cluster list \<Rightarrow> cluster list \<Rightarrow> nat \<Rightarrow> bool" where
  "moment h new i \<longleftrightarrow> length h \<le> Suc i \<and> i < length (h @ new)"

definition sometime :: "cluster list \<Rightarrow> cluster list \<Rightarrow> (cluster \<Rightarrow> bool) \<Rightarrow> bool" where
  "sometime h new P \<longleftrightarrow> (\<exists>i. moment h new i \<and> P ((h @ new) ! i))"

lemma sometime_prepend: "sometime (h @ n0) n1 P \<Longrightarrow> sometime h (n0 @ n1) P"
  unfolding sometime_def moment_def by (metis add_leD1 append.assoc length_append)

lemma sometime_append:
  assumes "sometime h n0 P" shows "sometime h (n0 @ n1) P"
proof -
  from assms obtain i where "moment h n0 i" "P ((h @ n0) ! i)" by (auto simp: sometime_def)
  then have "moment h (n0 @ n1) i" "P ((h @ n0 @ n1) ! i)"
    using nth_append_left[of i "h @ n0" n1] by (auto simp: moment_def)
  then show ?thesis by (auto simp: sometime_def)
qed

section \<open>The hypothesis\<close>

definition node_uri :: "string \<Rightarrow> string" where
  "node_uri name = ''/api/v1/nodes/'' @ PathEscape name"

definition claim_uri :: "string \<Rightarrow> string" where
  "claim_uri name = ''/apis/karpenter.sh/v1/nodeclaims/'' @ PathEscape name"

text \<open>
  \<open>snapshot v\<close> is the collection at resource version \<open>v\<close>, \<open>position t\<close> the resource version and the
  offset a continuation token stands for.
\<close>

definition page_ok :: "'a authority_collection \<Rightarrow> (cluster \<Rightarrow> 'a list) \<Rightarrow> (string \<Rightarrow> 'a list) \<Rightarrow> (string \<Rightarrow> string \<times> nat)
    \<Rightarrow> cluster list \<Rightarrow> cluster list \<Rightarrow> string \<Rightarrow> 'a missingNodeList \<Rightarrow> bool" where
  "page_ok col objs snapshot position h new token page \<longleftrightarrow>
     (let version = pm_ResourceVersion (pg_Metadata page); next = pm_Continue (pg_Metadata page);
          offset = (if token = [] then 0 else snd (position token))
      in (token = [] \<longrightarrow> sometime h new (\<lambda>u. objs u = snapshot version))
         \<and> (token \<noteq> [] \<longrightarrow> version = fst (position token))
         \<and> pg_Items page = take (length (pg_Items page)) (drop offset (snapshot version))
         \<and> (next = [] \<longrightarrow> length (snapshot version) \<le> offset + length (pg_Items page))
         \<and> (next \<noteq> [] \<longrightarrow> position next = (version, offset + length (pg_Items page))))"

definition answer_reports :: "'w KubernetesNodeResolver
    \<Rightarrow> (string \<Rightarrow> missingNodeClaim list) \<Rightarrow> (string \<Rightarrow> string \<times> nat)
    \<Rightarrow> (string \<Rightarrow> missingNodeKubernetesNode list) \<Rightarrow> (string \<Rightarrow> string \<times> nat)
    \<Rightarrow> cluster list \<Rightarrow> cluster list \<Rightarrow> string \<Rightarrow> http_response \<Rightarrow> bool" where
  "answer_reports r csnap cpos nsnap npos h new uri resp \<longleftrightarrow>
     (\<forall>name. uri = request_uri r (node_uri name) \<longrightarrow> hr_StatusCode resp = 404
        \<longrightarrow> sometime h new (\<lambda>u. name \<notin> kn_Name ` set (cl_nodes u)))
     \<and> (hr_StatusCode resp = 200 \<longrightarrow> hr_ReadError resp = None \<longrightarrow>
        (\<forall>name claim. uri = request_uri r (claim_uri name) \<longrightarrow> decode_claim (hr_Body resp) = Inr claim
           \<longrightarrow> sometime h new (\<lambda>u. claim \<in> set (cl_claims u)))
        \<and> (\<forall>token page. uri = request_uri r (page_uri claim_collection token) \<longrightarrow> decode_claim_list (hr_Body resp) = Inr page
           \<longrightarrow> page_ok claim_collection cl_claims csnap cpos h new token page)
        \<and> (\<forall>token page. uri = request_uri r (page_uri node_collection token) \<longrightarrow> decode_node_list (hr_Body resp) = Inr page
           \<longrightarrow> page_ok node_collection cl_nodes nsnap npos h new token page))"

text \<open>The transport does not return the resolver's own error value.\<close>

definition foreign_errors :: "error + http_response \<Rightarrow> bool" where
  "foreign_errors res = (case res of
     Inl err \<Rightarrow> \<not> errors_is ErrKubernetesNodeNotFound err
   | Inr resp \<Rightarrow> \<forall>err. hr_ReadError resp = Some err \<longrightarrow> \<not> errors_is ErrKubernetesNodeNotFound err)"

definition cluster_server :: "'w KubernetesNodeResolver \<Rightarrow> ('w \<Rightarrow> cluster list)
    \<Rightarrow> (string \<Rightarrow> missingNodeClaim list) \<Rightarrow> (string \<Rightarrow> string \<times> nat)
    \<Rightarrow> (string \<Rightarrow> missingNodeKubernetesNode list) \<Rightarrow> (string \<Rightarrow> string \<times> nat) \<Rightarrow> bool" where
  "cluster_server r hs csnap cpos nsnap npos \<longleftrightarrow>
     (\<forall>c token uri w res d w'. hs w \<noteq> [] \<longrightarrow> kr_do r c ''GET'' token uri None w = (res, d, w') \<longrightarrow>
        (\<exists>new. hs w' = hs w @ new
           \<and> (\<forall>resp. res = Inr resp \<longrightarrow> answer_reports r csnap cpos nsnap npos (hs w) new uri resp)
           \<and> foreign_errors res))
     \<and> (\<forall>w res d w'. hs w \<noteq> [] \<longrightarrow> kr_readToken r w = (res, d, w') \<longrightarrow> (\<exists>new. hs w' = hs w @ new))"

abbreviation cspec :: "('w \<Rightarrow> cluster list) \<Rightarrow> cluster list \<Rightarrow> ('w, 'a) prog \<Rightarrow> ('a \<Rightarrow> cluster list \<Rightarrow> bool) \<Rightarrow> bool" where
  "cspec \<equiv> hspec (\<lambda>h. h \<noteq> [])"

section \<open>Single reads\<close>

lemma cspec_token:
  assumes "cluster_server r hs csnap cpos nsnap npos"
  shows "cspec hs h (call_silent (kr_readToken r)) (\<lambda>_ new. True)"
  unfolding hspec_def
proof (intro allI impI)
  fix s :: "'a st"
  assume s: "hs (world s) = h" "h \<noteq> []"
  obtain res d w' where k: "kr_readToken r (world s) = (res, d, w')" by (cases "kr_readToken r (world s)")
  with assms s have "\<exists>new. hs w' = h @ new" unfolding cluster_server_def by blast
  with k s show "\<exists>new. hs (world (snd (run_state (call_silent (kr_readToken r)) s))) = h @ new \<and> h @ new \<noteq> [] \<and> True"
    by (simp add: call_silent_def)
qed

lemma cspec_do:
  assumes "cluster_server r hs csnap cpos nsnap npos"
  shows "cspec hs h (call_silent (kr_do r c ''GET'' token uri None)) (\<lambda>res new.
      (\<forall>resp. res = Inr resp \<longrightarrow> answer_reports r csnap cpos nsnap npos h new uri resp) \<and> foreign_errors res)"
  unfolding hspec_def
proof (intro allI impI)
  fix s :: "'a st"
  assume s: "hs (world s) = h" "h \<noteq> []"
  obtain res d w' where k: "kr_do r c ''GET'' token uri None (world s) = (res, d, w')"
    by (cases "kr_do r c ''GET'' token uri None (world s)")
  have "\<exists>new. hs w' = h @ new \<and> (\<forall>resp. res = Inr resp \<longrightarrow> answer_reports r csnap cpos nsnap npos h new uri resp)
      \<and> foreign_errors res"
    using assms[unfolded cluster_server_def, THEN conjunct1, rule_format, of "world s" c token uri res d w'] k s by simp
  with k s show "\<exists>new. hs (world (snd (run_state (call_silent (kr_do r c ''GET'' token uri None)) s))) = h @ new
      \<and> h @ new \<noteq> [] \<and> (\<forall>resp. fst (run_state (call_silent (kr_do r c ''GET'' token uri None)) s) = Inr resp
        \<longrightarrow> answer_reports r csnap cpos nsnap npos h new uri resp)
      \<and> foreign_errors (fst (run_state (call_silent (kr_do r c ''GET'' token uri None)) s))"
    by (simp add: call_silent_def)
qed

lemma page_ok_prepend:
  "page_ok col objs snap pos (h @ n0) n1 token page \<Longrightarrow> page_ok col objs snap pos h (n0 @ n1) token page"
  by (auto simp: page_ok_def Let_def intro: sometime_prepend)

lemma answer_reports_prepend:
  assumes "answer_reports r csnap cpos nsnap npos (h @ n0) n1 uri resp"
  shows "answer_reports r csnap cpos nsnap npos h (n0 @ n1) uri resp"
  using assms unfolding answer_reports_def by (blast intro: sometime_prepend page_ok_prepend)

text \<open>A Node read that says ``not found'' saw the Node absent.\<close>

lemma nodeProviderID_not_found:
  "nodeProviderID resp = Inl err \<Longrightarrow> errors_is ErrKubernetesNodeNotFound err \<Longrightarrow> foreign_errors (Inr resp)
     \<Longrightarrow> hr_StatusCode resp = 404"
  by (auto simp: nodeProviderID_def foreign_errors_def Let_def split: bool.splits option.splits if_splits sum.splits)

lemma cspec_ProviderIDForNode:
  assumes "cluster_server r hs csnap cpos nsnap npos"
  shows "cspec hs h (ProviderIDForNode r c name) (\<lambda>res new. \<forall>err. res = Inl err \<longrightarrow> errors_is ErrKubernetesNodeNotFound err
      \<longrightarrow> sometime h new (\<lambda>u. name \<notin> kn_Name ` set (cl_nodes u)))"
proof -
  have uri: "trim_right_slash (kr_basePath r) @ ''/api/v1/nodes/'' @ PathEscape name = request_uri r (node_uri name)"
    by (simp add: request_uri_def node_uri_def)
  have "sometime h (n0 @ n1) (\<lambda>u. name \<notin> kn_Name ` set (cl_nodes u))"
    if "answer_reports r csnap cpos nsnap npos (h @ n0) n1 (request_uri r (node_uri name)) resp"
      and "foreign_errors (Inr resp)" and "nodeProviderID resp = Inl err" and "errors_is ErrKubernetesNodeNotFound err"
    for n0 n1 resp err
    using answer_reports_prepend[OF that(1)] nodeProviderID_not_found[OF that(3,4,2)] unfolding answer_reports_def by blast
  then show ?thesis
    unfolding ProviderIDForNode_def uri
    by (intro hspec_rules hspec_bind[OF cspec_token[OF assms]] hspec_bind[OF cspec_do[OF assms]])
       (auto simp: foreign_errors_def)
qed

lemma cspec_requireMissing:
  assumes "cluster_server r hs csnap cpos nsnap npos"
  shows "cspec hs h (requireMissingKubernetesNode r c name)
     (\<lambda>res new. res = None \<longrightarrow> sometime h new (\<lambda>u. name \<notin> kn_Name ` set (cl_nodes u)))"
  unfolding requireMissingKubernetesNode_def
  by (rule hspec_bind[OF cspec_ProviderIDForNode[OF assms]])
     (auto intro!: hspec_return split: sum.splits if_splits)

text \<open>A document the authority reads was delivered completely with status 200.\<close>

lemma cspec_authority_get:
  assumes "cluster_server r hs csnap cpos nsnap npos"
  shows "cspec hs h (authority_get r c path decode) (\<lambda>res new. \<forall>x. res = Inr x \<longrightarrow>
      (\<exists>resp. answer_reports r csnap cpos nsnap npos h new (request_uri r path) resp
         \<and> hr_StatusCode resp = 200 \<and> hr_ReadError resp = None \<and> decode (hr_Body resp) = Inr x))"
proof -
  have "cspec hs h (kubernetesAPIRequestWithLimit r c ''GET'' path None maxMissingNodeAuthorityResponseBytes)
      (\<lambda>(status, data, err) new. err = None \<longrightarrow> (\<exists>resp. answer_reports r csnap cpos nsnap npos h new (request_uri r path) resp
         \<and> hr_StatusCode resp = status \<and> hr_ReadError resp = None \<and> hr_Body resp = data))"
    unfolding kubernetesAPIRequestWithLimit_def request_uri_def[symmetric] maxMissingNodeAuthorityResponseBytes_def
    by (simp, intro hspec_rules hspec_bind[OF cspec_token[OF assms]] hspec_bind[OF cspec_do[OF assms]])
       (auto dest!: readKubernetesResponse_complete[OF sym] intro: answer_reports_prepend)
  then show ?thesis
    unfolding authority_get_def
    by (rule hspec_bind) (auto intro!: hspec_rules split: sum.splits if_splits option.splits)
qed

lemma cspec_getMissingNodeClaim:
  assumes "cluster_server r hs csnap cpos nsnap npos"
  shows "cspec hs h (getMissingNodeClaim r c name)
     (\<lambda>res new. \<forall>claim. res = Inr claim \<longrightarrow> sometime h new (\<lambda>u. claim \<in> set (cl_claims u)))"
proof -
  have uri: "''/apis/karpenter.sh/v1/nodeclaims/'' @ PathEscape name = claim_uri name"
    by (simp add: claim_uri_def)
  show ?thesis
    unfolding getMissingNodeClaim_def uri
    by (rule hspec_bind[OF cspec_authority_get[OF assms]])
       (auto intro!: hspec_return simp: attempt_ok_Inr answer_reports_def split: if_splits)
qed

section \<open>Complete lists\<close>

lemma page_items_Inr:
  assumes "page_items col result items = Inr result'"
  shows "result' = result @ items
    \<and> (distinct (map (ac_name col) result) \<longrightarrow> distinct (map (ac_name col) result'))
    \<and> (distinct (map (ac_uid col) result) \<longrightarrow> distinct (map (ac_uid col) result'))
    \<and> (length result \<le> maxMissingNodeAuthorityItems \<longrightarrow> length result' \<le> maxMissingNodeAuthorityItems)"
  using assms
  by (induction col result items rule: page_items.induct) (auto split: if_splits, blast+)

text \<open>A collection as the server holds it, with its snapshots and continuation tokens.\<close>

definition pages_ok :: "'w KubernetesNodeResolver \<Rightarrow> (cluster list \<Rightarrow> cluster list \<Rightarrow> string \<Rightarrow> http_response \<Rightarrow> bool)
    \<Rightarrow> 'a authority_collection \<Rightarrow> (cluster \<Rightarrow> 'a list) \<Rightarrow> (string \<Rightarrow> 'a list) \<Rightarrow> (string \<Rightarrow> string \<times> nat) \<Rightarrow> bool" where
  "pages_ok r reports col objs snap pos \<longleftrightarrow>
     (\<forall>h new token resp page. reports h new (request_uri r (page_uri col token)) resp \<longrightarrow> hr_StatusCode resp = 200
        \<longrightarrow> hr_ReadError resp = None \<longrightarrow> ac_decode col (hr_Body resp) = Inr page \<longrightarrow> page_ok col objs snap pos h new token page)"

lemma collections_ok:
  "pages_ok r (answer_reports r csnap cpos nsnap npos) claim_collection cl_claims csnap cpos"
  "pages_ok r (answer_reports r csnap cpos nsnap npos) node_collection cl_nodes nsnap npos"
  unfolding pages_ok_def answer_reports_def
  by (auto simp: claim_collection_def node_collection_def)

text \<open>Where the loop stands: before the first page, or behind a token that follows what was collected.\<close>

definition listing :: "(string \<Rightarrow> 'a list) \<Rightarrow> (string \<Rightarrow> string \<times> nat) \<Rightarrow> string \<Rightarrow> string \<Rightarrow> 'a list \<Rightarrow> bool" where
  "listing snap pos version token result \<longleftrightarrow>
     (if token = [] then version = [] \<and> result = []
      else version \<noteq> [] \<and> pos token = (version, length result) \<and> result = take (length result) (snap version))"

definition collected :: "'a authority_collection \<Rightarrow> 'a list \<Rightarrow> bool" where
  "collected col result \<longleftrightarrow> distinct (map (ac_name col) result) \<and> distinct (map (ac_uid col) result)
     \<and> length result \<le> maxMissingNodeAuthorityItems"

lemma page_step:
  assumes "page_ok col objs snap pos h new token page" and "listing snap pos version token result"
    and "pm_ResourceVersion (pg_Metadata page) \<noteq> []"
  defines "next \<equiv> pm_Continue (pg_Metadata page)" and "v \<equiv> pm_ResourceVersion (pg_Metadata page)"
  shows "next = [] \<Longrightarrow> result @ pg_Items page = snap v"
    and "next \<noteq> [] \<Longrightarrow> listing snap pos v next (result @ pg_Items page)"
proof -
  have off: "(if token = [] then 0 else snd (pos token)) = length result"
    and pre: "result = take (length result) (snap v)"
    using assms by (auto simp: listing_def page_ok_def Let_def split: if_splits)
  have items: "pg_Items page = take (length (pg_Items page)) (drop (length result) (snap v))"
    using assms(1) off by (simp add: page_ok_def Let_def v_def)
  have all: "result @ pg_Items page = take (length result + length (pg_Items page)) (snap v)"
    using pre items by (metis take_add)
  show "next = [] \<Longrightarrow> result @ pg_Items page = snap v"
    using all assms(1) off by (simp add: page_ok_def Let_def v_def next_def)
  show "next \<noteq> [] \<Longrightarrow> listing snap pos v next (result @ pg_Items page)"
    using assms(1,3) off by (simp add: page_ok_def Let_def v_def next_def listing_def all[unfolded v_def, symmetric])
qed

lemma cspec_list_pages:
  assumes "cluster_server r hs csnap cpos nsnap npos"
    and "pages_ok r (answer_reports r csnap cpos nsnap npos) col objs snap pos"
  shows "listing snap pos version token result \<Longrightarrow> collected col result \<Longrightarrow>
    cspec hs h (list_pages n r c col version token seen result) (\<lambda>res new. \<forall>xs. res = Inr xs \<longrightarrow>
      collected col xs \<and> (if token = [] then sometime h new (\<lambda>u. objs u = xs) else xs = snap version))"
proof (induction n arbitrary: h version token seen result)
  case 0
  show ?case by (auto intro!: hspec_return)
next
  case (Suc n)
  let ?Q = "\<lambda>h new xs. collected col xs \<and> (if token = [] then sometime h new (\<lambda>u. objs u = xs) else xs = snap version)"
  have step: "cspec hs (h @ new) (list_pages n r c col v next (next # seen) result') (\<lambda>res new'. \<forall>xs. res = Inr xs \<longrightarrow> ?Q h (new @ new') xs)"
    if "page_ok col objs snap pos h new token page" and "v = pm_ResourceVersion (pg_Metadata page)" and "v \<noteq> []"
      and "next = pm_Continue (pg_Metadata page)" and "next \<noteq> []" and "page_items col result (pg_Items page) = Inr result'"
      and "version \<noteq> [] \<longrightarrow> v = version"
    for new page v "next" result'
  proof -
    have r: "result' = result @ pg_Items page" and c: "collected col result'"
      using page_items_Inr[OF that(6)] Suc.prems(2) unfolding collected_def by blast+
    have l: "listing snap pos v next result'"
      using page_step(2)[OF that(1) Suc.prems(1)] that by (simp add: r)
    have "?Q h (new @ new') xs" if "collected col xs" "xs = snap v" for new' xs
      using that \<open>page_ok col objs snap pos h new token page\<close> \<open>v = _\<close> \<open>version \<noteq> [] \<longrightarrow> v = version\<close> Suc.prems(1)
      by (auto simp: page_ok_def Let_def listing_def intro: sometime_append split: if_splits)
    then show ?thesis
      using \<open>next \<noteq> []\<close> by (intro hspec_mono[OF Suc.IH[OF l c]]) auto
  qed
  have last: "?Q h new result'"
    if "page_ok col objs snap pos h new token page" and "pm_ResourceVersion (pg_Metadata page) \<noteq> []"
      and "pm_Continue (pg_Metadata page) = []" and "page_items col result (pg_Items page) = Inr result'"
      and "version \<noteq> [] \<longrightarrow> pm_ResourceVersion (pg_Metadata page) = version"
    for new page result'
  proof -
    have r: "result' = snap (pm_ResourceVersion (pg_Metadata page))" and c: "collected col result'"
      using page_items_Inr[OF that(4)] page_step(1)[OF that(1) Suc.prems(1) that(2,3)] Suc.prems(2)
      unfolding collected_def by (metis, blast)
    then show ?thesis
      using that(1,5) Suc.prems(1) by (auto simp: page_ok_def Let_def listing_def split: if_splits)
  qed
  show ?case
    unfolding list_pages.simps
    by (rule hspec_bind[OF cspec_authority_get[OF assms(1)]], intro hspec_rules)
       (use assms(2) step last in \<open>fastforce simp: pages_ok_def\<close>)+
qed

lemma cspec_list_all_pages:
  assumes "cluster_server r hs csnap cpos nsnap npos"
  shows "cspec hs h (listMissingNodeClaims r c) (\<lambda>res new. \<forall>xs. res = Inr xs \<longrightarrow>
      collected claim_collection xs \<and> sometime h new (\<lambda>u. cl_claims u = xs))"
    and "cspec hs h (listKubernetesNodesForMissingNodeAuthority r c) (\<lambda>res new. \<forall>xs. res = Inr xs \<longrightarrow>
      collected node_collection xs \<and> sometime h new (\<lambda>u. cl_nodes u = xs))"
  using cspec_list_pages[OF assms collections_ok(1), where version = "[]" and token = "[]" and result = "[]"]
    cspec_list_pages[OF assms collections_ok(2), where version = "[]" and token = "[]" and result = "[]"]
  by (simp_all add: listMissingNodeClaims_def listKubernetesNodesForMissingNodeAuthority_def list_all_pages_def
      listing_def collected_def)

section \<open>What the checks establish\<close>

lemma collect_finalizers_Inr: "collect_finalizers seen fs = Inr found \<Longrightarrow> set found = set seen \<union> set fs"
  by (induction seen fs rule: collect_finalizers.induct) (auto split: if_splits)

lemma collect_conditions_Inr:
  "collect_conditions seen cs = Inr found \<Longrightarrow>
     found k = Some v \<longleftrightarrow> seen k = Some v \<or> (\<exists>cond \<in> set cs. mc_Type cond = k \<and> mc_Status cond = v)"
proof (induction seen cs rule: collect_conditions.induct)
  case (2 seen cond cs)
  from "2.prems" have c: "\<not> (mc_Type cond = [] \<or> mc_Status cond = [])" "\<not> seen (mc_Type cond) \<noteq> None"
    "collect_conditions (seen(mc_Type cond \<mapsto> mc_Status cond)) cs = Inr found"
    by (simp_all del: fun_upd_apply split: if_split_asm)
  from "2.IH"[OF this] c(2) show ?case by (auto split: if_splits)
qed simp

lemma validateMissingNodeClaim_None:
  assumes "validateMissingNodeClaim sha claim request ownership = None"
  shows "om_Name (nc_Metadata claim) = own_NodeClaim ownership" and "om_UID (nc_Metadata claim) \<noteq> []"
    and "validMissingNodeTimestamp (om_DeletionTimestamp (nc_Metadata claim))"
    and "cs_ProviderID (nc_Status claim) = requestProviderID request"
    and "cs_NodeName (nc_Status claim) = md_NodeName request"
    and "parseProviderID (requestProviderID request) = Inr (md_Location request, md_VMUUID request)"
    and "\<exists>fence. decode_create_fence (claim_fence claim) = Inr fence
      \<and> validateMissingNodeCreateFence sha fence claim request ownership = None"
    and "{''karpenter.sh/termination'', ''karpenter.inspace.cloud/create-protection''} \<subseteq> set (om_Finalizers (nc_Metadata claim))"
    and "\<exists>cond \<in> set (cs_Conditions (nc_Status claim)). mc_Type cond = ''Registered'' \<and> mc_Status cond = ''True''"
    and "\<forall>cond \<in> set (cs_Conditions (nc_Status claim)). mc_Type cond \<noteq> ''InstanceTerminating''"
proof -
  obtain fs cm where c: "collect_finalizers [] (om_Finalizers (nc_Metadata claim)) = Inr fs"
      "''karpenter.sh/termination'' \<in> set fs" "''karpenter.inspace.cloud/create-protection'' \<in> set fs"
      "collect_conditions Map.empty (cs_Conditions (nc_Status claim)) = Inr cm"
      "cm ''Registered'' = Some ''True''" "cm ''InstanceTerminating'' = None"
    using assms unfolding validateMissingNodeClaim_def Let_def by (simp split: if_split_asm sum.split_asm)
  show "{''karpenter.sh/termination'', ''karpenter.inspace.cloud/create-protection''} \<subseteq> set (om_Finalizers (nc_Metadata claim))"
    using collect_finalizers_Inr[OF c(1)] c(2,3) by simp
  show "\<exists>cond \<in> set (cs_Conditions (nc_Status claim)). mc_Type cond = ''Registered'' \<and> mc_Status cond = ''True''"
    using collect_conditions_Inr[OF c(4)] c(5) by simp
  show "\<forall>cond \<in> set (cs_Conditions (nc_Status claim)). mc_Type cond \<noteq> ''InstanceTerminating''"
    using collect_conditions_Inr[OF c(4), of "''InstanceTerminating''"] c(6) by auto
qed (use assms in \<open>auto simp: validateMissingNodeClaim_def Let_def split: if_splits sum.splits\<close>)

text \<open>
  A create fence of schema v3 in phase \<open>materialized\<close>, of the NodeClaim with the given UID: posted or
  adopted exactly this VM in this location, network and account, neither rolled back nor failed to
  protect, with its floating IP and with the base firewall observed on the VM.
\<close>

definition materialized_fence :: "(string \<Rightarrow> string) \<Rightarrow> missingNodeDetachRequest \<Rightarrow> missingNodeOwnershipRecord \<Rightarrow> missingNodeClaim
    \<Rightarrow> missingNodeCreateFence \<Rightarrow> bool" where
  "materialized_fence sha request ownership claim fence \<longleftrightarrow>
     cf_Schema fence = ''karpenter.inspace.cloud/create-fence-v3'' \<and> cf_Phase fence = ''materialized''
     \<and> cf_Intent fence \<in> {''post'', ''adoption''}
     \<and> missingNodeHex32Pattern (cf_Token fence) \<and> missingNodeHex32Pattern (cf_IssueID fence)
     \<and> cb_NodeClaimUID (cf_Binding fence) = om_UID (nc_Metadata claim)
     \<and> cb_IdempotencyKeyHash (cf_Binding fence) = sha (om_UID (nc_Metadata claim))
     \<and> missingNodeHex64Pattern (cb_IdempotencyKeyHash (cf_Binding fence)) \<and> missingNodeHex64Pattern (cb_RequestHash (cf_Binding fence))
     \<and> cb_SpecHash (cf_Binding fence) = own_SpecHash ownership \<and> cb_BootstrapHash (cf_Binding fence) = own_BootstrapHash ownership
     \<and> cf_Cleanup fence = cleanupIdentity claim request ownership
     \<and> cf_CreatedVMUUID fence = md_VMUUID request \<and> cf_ObservedVMUUID fence = md_VMUUID request
     \<and> cf_RollbackAt fence = None \<and> cf_ProtectionFailureAt fence = None
     \<and> cf_FloatingIPName fence = own_FloatingIPName ownership \<and> cf_FloatingIPName fence \<noteq> [] \<and> cf_PublicIPv4 fence \<noteq> []
     \<and> validMissingNodeTimestamp (cf_StartedAt fence) \<and> stamped (cf_IssuedAt fence)
     \<and> stamped (cf_LaunchObservedAt fence) \<and> stamped (cf_ObservedAt fence)
     \<and> (\<exists>assignment. cf_BaseFirewallAssignment fence = Some assignment
          \<and> observedAssignment assignment request (own_FirewallUUID ownership))"

lemma validateMissingNodeCreateFence_None:
  assumes "validateMissingNodeCreateFence sha fence claim request ownership = None"
  shows "materialized_fence sha request ownership claim fence"
    and "take 32 (sha (om_UID (nc_Metadata claim))) = own_KeyHash ownership"
proof -
  have key: "cu_OwnershipKeyHash (cleanupIdentity claim request ownership) = own_KeyHash ownership"
    "cu_FirewallUUID (cleanupIdentity claim request ownership) = own_FirewallUUID ownership"
    by (simp_all add: cleanupIdentity_def)
  show "materialized_fence sha request ownership claim fence" "take 32 (sha (om_UID (nc_Metadata claim))) = own_KeyHash ownership"
    using assms key unfolding validateMissingNodeCreateFence_def materialized_fence_def Let_def
    by (simp_all split: if_split_asm option.split_asm)
qed

lemma listedProviderID_request:
  assumes "parseProviderID (requestProviderID request) = Inr (md_Location request, md_VMUUID request)"
    and "validateMissingNodeDetachRequest decode request = Inr ownership"
  shows "listedProviderID (requestProviderID request) = Inr (Some (requestProviderID request))"
proof -
  have "location_ok (md_Location request)" "uuid_lower (md_VMUUID request)"
    using assms(2) by (auto simp: validateMissingNodeDetachRequest_def canonical_uuid_def split: if_splits)
  then have s: "list_all (\<lambda>c. \<not> is_space c) (md_Location request)" "list_all (\<lambda>c. \<not> is_space c) (md_VMUUID request)"
    by (auto intro: safe_no_space location_safe uuid_safe)
  then have t: "TrimSpace (requestProviderID request) = requestProviderID request"
    by (intro TrimSpace_none) (simp add: requestProviderID_def inspaceProviderID_def is_space_def)
  obtain rest where p: "requestProviderID request = ''inspace:'' @ rest"
    by (simp add: requestProviderID_def inspaceProviderID_def)
  have "ToLower ''inspace:'' = ''inspace:''" by code_simp
  then have "HasPrefix (ToLower (requestProviderID request)) ''inspace:''"
    by (simp only: p ToLower_append HasPrefix_append)
  moreover have "requestProviderID request \<noteq> []" by (simp add: p)
  moreover have "inspaceProviderID (md_Location request) (md_VMUUID request) = requestProviderID request"
    by (simp add: requestProviderID_def)
  ultimately show ?thesis
    by (simp only: listedProviderID_def Let_def t assms(1) sum.case prod.case simp_thms if_False if_True)
qed

lemma validateMissingNodeInventory_None:
  assumes "validateMissingNodeInventory nodes request = None"
    and "listedProviderID (requestProviderID request) = Inr (Some (requestProviderID request))"
  shows "\<forall>n \<in> set nodes. kn_Name n \<noteq> md_NodeName request \<and> kn_ProviderID n \<noteq> requestProviderID request"
  using assms(1)
proof (induction nodes)
  case (Cons node nodes)
  have "kn_ProviderID node \<noteq> requestProviderID request"
    using Cons.prems assms(2) by (auto split: if_splits)
  moreover have "kn_Name node \<noteq> md_NodeName request \<and> validateMissingNodeInventory nodes request = None"
    using Cons.prems by (simp split: if_splits sum.splits option.splits)
  ultimately show ?case using Cons.IH by simp
qed simp

lemma claim_inventory_None:
  assumes "claim_inventory sha exact request ownership claims em pm = None"
    and "listedProviderID (requestProviderID request) = Inr (Some (requestProviderID request))"
  shows "(\<forall>c \<in> set claims. cs_ProviderID (nc_Status c) = requestProviderID request \<longrightarrow>
        om_Name (nc_Metadata c) = own_NodeClaim ownership \<and> om_UID (nc_Metadata c) = om_UID (nc_Metadata exact))
    \<and> pm + length (filter (\<lambda>c. cs_ProviderID (nc_Status c) = requestProviderID request) claims) = 1
    \<and> em + length (filter (\<lambda>c. om_Name (nc_Metadata c) = own_NodeClaim ownership) claims) = 1"
  using assms
proof (induction claims arbitrary: em pm)
  case (Cons claim claims)
  let ?named = "om_Name (nc_Metadata claim) = own_NodeClaim ownership"
  let ?ours = "cs_ProviderID (nc_Status claim) = requestProviderID request"
  have raw: "listedProviderID (cs_ProviderID (nc_Status claim)) = Inr (Some p) \<Longrightarrow> p = cs_ProviderID (nc_Status claim)" for p
    by (auto simp: listedProviderID_def Let_def split: if_splits sum.splits)
  have step: "(?ours \<longrightarrow> ?named \<and> om_UID (nc_Metadata claim) = om_UID (nc_Metadata exact))
      \<and> claim_inventory sha exact request ownership claims (if ?named then em + 1 else em) (if ?ours then pm + 1 else pm) = None"
  proof (cases ?ours)
    case True
    with Cons.prems show ?thesis by (simp add: Let_def split: if_splits option.splits)
  next
    case False
    with Cons.prems(1) show ?thesis
      by (auto simp: Let_def dest!: raw split: if_splits option.splits sum.splits)
  qed
  from step Cons.IH[OF conjunct2[OF step] Cons.prems(2)] show ?case by (auto split: if_splits)
qed (auto split: if_splits)

section \<open>Observations in order\<close>

text \<open>\<open>in_order H k Ps\<close>: the states of \<open>H\<close> from the one before \<open>k\<close> on satisfy the predicates \<open>Ps\<close>, one after the other.\<close>

fun in_order :: "cluster list \<Rightarrow> nat \<Rightarrow> (cluster \<Rightarrow> bool) list \<Rightarrow> bool" where
  "in_order H k [] = True"
| "in_order H k (P # Ps) = (\<exists>i. k \<le> Suc i \<and> i < length H \<and> P (H ! i) \<and> in_order H (Suc i) Ps)"

lemma in_order_earlier: "in_order H k Ps \<Longrightarrow> k' \<le> k \<Longrightarrow> in_order H k' Ps"
  by (cases Ps) (auto intro: order_trans)

lemma in_order_step:
  assumes "sometime h new P" and "in_order ((h @ new) @ rest) (length (h @ new)) Ps"
  shows "in_order (h @ new @ rest) (length h) (P # Ps)"
proof -
  from assms(1) obtain i where i: "length h \<le> Suc i" "i < length (h @ new)" "P ((h @ new) ! i)"
    by (auto simp: sometime_def moment_def)
  moreover have "P ((h @ new @ rest) ! i)"
    using i(2,3) nth_append_left[of i "h @ new" rest] by simp
  moreover have "in_order (h @ new @ rest) (Suc i) Ps"
    using assms(2) i(2) by (metis in_order_earlier append.assoc Suc_leI)
  ultimately show ?thesis
    unfolding in_order.simps by (intro exI[of _ i]) simp
qed

definition node_absent :: "missingNodeDetachRequest \<Rightarrow> cluster \<Rightarrow> bool" where
  "node_absent request u \<longleftrightarrow> md_NodeName request \<notin> kn_Name ` set (cl_nodes u)"

text \<open>Exactly one NodeClaim has the provider ID of the VM, and it is the one given.\<close>

definition claimed_only_by :: "missingNodeDetachRequest \<Rightarrow> missingNodeClaim \<Rightarrow> cluster \<Rightarrow> bool" where
  "claimed_only_by request claim u \<longleftrightarrow>
     length (filter (\<lambda>c. cs_ProviderID (nc_Status c) = requestProviderID request) (cl_claims u)) = 1
     \<and> (\<forall>c \<in> set (cl_claims u). cs_ProviderID (nc_Status c) = requestProviderID request
          \<longrightarrow> om_Name (nc_Metadata c) = om_Name (nc_Metadata claim) \<and> om_UID (nc_Metadata c) = om_UID (nc_Metadata claim))"

definition no_node_advertises :: "missingNodeDetachRequest \<Rightarrow> cluster \<Rightarrow> bool" where
  "no_node_advertises request u \<longleftrightarrow>
     (\<forall>n \<in> set (cl_nodes u). kn_Name n \<noteq> md_NodeName request \<and> kn_ProviderID n \<noteq> requestProviderID request)"

text \<open>
  A deleting, registered NodeClaim of this VM that still carries its two finalizers and whose create
  fence is materialized, under the key the VM's ownership record carries.
\<close>

definition owns_vm :: "(string \<Rightarrow> string) \<Rightarrow> missingNodeDetachRequest \<Rightarrow> missingNodeOwnershipRecord \<Rightarrow> missingNodeClaim \<Rightarrow> bool" where
  "owns_vm sha request ownership claim \<longleftrightarrow>
     validMissingNodeTimestamp (om_DeletionTimestamp (nc_Metadata claim)) \<and> om_UID (nc_Metadata claim) \<noteq> []
     \<and> {''karpenter.sh/termination'', ''karpenter.inspace.cloud/create-protection''} \<subseteq> set (om_Finalizers (nc_Metadata claim))
     \<and> (\<exists>cond \<in> set (cs_Conditions (nc_Status claim)). mc_Type cond = ''Registered'' \<and> mc_Status cond = ''True'')
     \<and> (\<forall>cond \<in> set (cs_Conditions (nc_Status claim)). mc_Type cond \<noteq> ''InstanceTerminating'')
     \<and> cs_NodeName (nc_Status claim) = md_NodeName request \<and> cs_ProviderID (nc_Status claim) = requestProviderID request
     \<and> own_Cluster ownership @ ''-karp-'' @ om_Name (nc_Metadata claim) = md_NodeName request
     \<and> take 32 (sha (om_UID (nc_Metadata claim))) = own_KeyHash ownership
     \<and> (\<exists>fence. decode_create_fence (claim_fence claim) = Inr fence \<and> materialized_fence sha request ownership claim fence)"

lemma owns_vmI:
  assumes "validateMissingNodeClaim sha claim request ownership = None"
    and "validateMissingNodeDetachRequest decode request = Inr ownership"
  shows "owns_vm sha request ownership claim"
proof -
  note claim = validateMissingNodeClaim_None[OF assms(1)]
  note bound = validateMissingNodeDetachRequest_binds[OF assms(2)]
  from claim(7) obtain fence where "decode_create_fence (claim_fence claim) = Inr fence"
    "validateMissingNodeCreateFence sha fence claim request ownership = None" by blast
  with validateMissingNodeCreateFence_None[OF this(2)] claim bound show ?thesis
    unfolding owns_vm_def by simp
qed

section \<open>The authority\<close>

lemma hspec_or_error:
  "(\<And>e. x = Inl e \<Longrightarrow> Q (Some (missingNodeAuthorityError e)) []) \<Longrightarrow> (\<And>y. x = Inr y \<Longrightarrow> hspec ok lg log (f y) Q)
   \<Longrightarrow> hspec ok lg log (or_error x f) Q"
  by (auto simp: or_error_def intro: hspec_return split: sum.splits)

lemma hspec_unless_error:
  "(\<And>e. x = Some e \<Longrightarrow> Q (Some (missingNodeAuthorityError e)) []) \<Longrightarrow> (x = None \<Longrightarrow> hspec ok lg log m Q)
   \<Longrightarrow> hspec ok lg log (unless_error x m) Q"
  by (auto simp: unless_error_def intro: hspec_return split: option.splits)

lemma observed_in_order:
  assumes "sometime h n1 (\<lambda>u. md_NodeName request \<notin> kn_Name ` set (cl_nodes u))"
    and "sometime (h @ n1) n2 (\<lambda>u. claim \<in> set (cl_claims u))"
    and "sometime ((h @ n1) @ n2) n3 (\<lambda>u. cl_claims u = claims)"
    and "sometime (((h @ n1) @ n2) @ n3) n4 (\<lambda>u. cl_nodes u = nodes)"
    and "sometime ((((h @ n1) @ n2) @ n3) @ n4) n5 (\<lambda>u. readback \<in> set (cl_claims u))"
    and "sometime (((((h @ n1) @ n2) @ n3) @ n4) @ n5) n6 (\<lambda>u. md_NodeName request \<notin> kn_Name ` set (cl_nodes u))"
    and "validateMissingNodeDetachRequest decode request = Inr ownership"
    and "validateMissingNodeClaim sha claim request ownership = None"
    and "validateMissingNodeClaimInventory sha claims claim request ownership = None"
    and "validateMissingNodeInventory nodes request = None"
  shows "in_order (h @ n1 @ n2 @ n3 @ n4 @ n5 @ n6 @ []) (length h)
     [node_absent request, \<lambda>u. claim \<in> set (cl_claims u), claimed_only_by request claim,
      no_node_advertises request, \<lambda>u. readback \<in> set (cl_claims u), node_absent request]"
proof -
  note claim = validateMissingNodeClaim_None[OF assms(8)]
  note ours = listedProviderID_request[OF claim(6) assms(7)]
  have "sometime ((h @ n1) @ n2) n3 (claimed_only_by request claim)"
    using assms(3) claim_inventory_None[OF assms(9)[unfolded validateMissingNodeClaimInventory_def] ours]
    by (auto simp: sometime_def claimed_only_by_def claim(1))
  moreover have "sometime (((h @ n1) @ n2) @ n3) n4 (no_node_advertises request)"
    using assms(4) validateMissingNodeInventory_None[OF assms(10) ours] by (auto simp: sometime_def no_node_advertises_def)
  ultimately show ?thesis
    using assms(1,2,5,6) by (intro in_order_step in_order.simps(1)[THEN iffD2] TrueI) (simp_all add: node_absent_def[abs_def])
qed

lemma cspec_authorize:
  assumes "cluster_server r hs csnap cpos nsnap npos"
  shows "cspec hs h (AuthorizeMissingNodeDetach r c request) (\<lambda>res new. res = None \<longrightarrow>
      (\<exists>ownership claim readback. decode_ownership (md_VMDescription request) = Inr ownership
         \<and> owns_vm (kr_sha256hex r) request ownership claim \<and> owns_vm (kr_sha256hex r) request ownership readback
         \<and> sameClaim claim readback
         \<and> in_order (h @ new) (length h)
             [node_absent request, \<lambda>u. claim \<in> set (cl_claims u), claimed_only_by request claim,
              no_node_advertises request, \<lambda>u. readback \<in> set (cl_claims u), node_absent request]))"
proof -
  note reads = hspec_bind[OF cspec_requireMissing[OF assms]] hspec_bind[OF cspec_getMissingNodeClaim[OF assms]]
    hspec_bind[OF cspec_list_all_pages(1)[OF assms]] hspec_bind[OF cspec_list_all_pages(2)[OF assms]]
  show ?thesis
    unfolding AuthorizeMissingNodeDetach_def
    by (intro hspec_or_error hspec_unless_error hspec_if hspec_return reads,
        simp_all only: simp_thms option.distinct sum.inject HOL.False_implies_equals)
       (elim conjE, intro exI conjI,
        rule conjunct1[OF validateMissingNodeDetachRequest_binds], assumption,
        rule owns_vmI, assumption, assumption, rule owns_vmI, assumption, assumption, assumption,
        rule observed_in_order, assumption+)
qed

text \<open>
  C8: when the authority lets a detach through, then at some moment of the call the Node did not
  exist, later a registered NodeClaim existed that is being deleted, still has its two finalizers and
  carries a create fence in phase materialized for its UID and exactly this VM (posted or adopted,
  created and observed under this UUID, neither rolled back nor failed to protect, with its floating
  IP and the base firewall observed), later that NodeClaim was the only one with the VM's provider ID,
  later no Node had this name or provider ID, later the NodeClaim existed still, with the same UID,
  deletion time and fence, and later the Node was absent again. This holds whatever other clients
  do to the cluster meanwhile, for every API server whose answers report the cluster at some moment
  of their request and whose paginated lists are slices of one snapshot.
\<close>

theorem detach_authority_sound:
  assumes "cluster_server r hs csnap cpos nsnap npos" and "hs (world s) \<noteq> []"
    and "run_state (AuthorizeMissingNodeDetach r c request) s = (None, s')"
  shows "\<exists>new ownership claim readback. hs (world s') = hs (world s) @ new
    \<and> decode_ownership (md_VMDescription request) = Inr ownership
    \<and> owns_vm (kr_sha256hex r) request ownership claim \<and> owns_vm (kr_sha256hex r) request ownership readback
    \<and> sameClaim claim readback
    \<and> in_order (hs (world s')) (length (hs (world s)))
        [node_absent request, \<lambda>u. claim \<in> set (cl_claims u), claimed_only_by request claim,
         no_node_advertises request, \<lambda>u. readback \<in> set (cl_claims u), node_absent request]"
  using hspec_run[OF cspec_authorize[OF assms(1)] assms(2,3)] by (auto simp del: in_order.simps) blast+

end
