(* ===== verification/Authority_Documents.thy ===== *)
theory Authority_Documents
  imports Authority_Server
begin

text \<open>
  The documents of a concrete cluster: the ownership record of a VM, its deleting NodeClaim with the
  create fence, and another Node. The decoders and all checks of the authority accept them.
\<close>

section \<open>Documents\<close>

definition vm_uuid :: string where "vm_uuid = ''11111111-2222-3333-4444-555555555555''"
definition net_uuid :: string where "net_uuid = ''22222222-2222-3333-4444-555555555555''"
definition pool_uuid :: string where "pool_uuid = ''33333333-2222-3333-4444-555555555555''"
definition fw_uuid :: string where "fw_uuid = ''44444444-2222-3333-4444-555555555555''"
definition hash32 :: string where "hash32 = replicate 32 CHR ''a''"
definition hash64 :: string where "hash64 = replicate 64 CHR ''a''"
definition stamp :: string where "stamp = ''2026-01-02T03:04:05Z''"

definition vm_provider :: string where "vm_provider = ''inspace://bkk01/'' @ vm_uuid"
definition other_provider :: string where "other_provider = ''inspace://bkk01/'' @ pool_uuid"

definition ownership_doc :: "string \<Rightarrow> string \<Rightarrow> string \<Rightarrow> string \<Rightarrow> json" where
  "ownership_doc hash pool fw net = JObj
     [(''schema'', JStr ''karpenter.inspace.cloud/v3''), (''cluster'', JStr ''c1''), (''nodeClaim'', JStr ''n1''),
      (''vmName'', JStr ''c1-karp-n1''), (''keyHash'', JStr hash), (''hostClass'', JStr ''h''),
      (''instanceType'', JStr ''t''), (''hostPoolUUID'', JStr pool), (''vCPU'', JInt 2), (''memoryGiB'', JInt 4),
      (''rootDiskGiB'', JInt 20), (''specHash'', JStr hash), (''bootstrapHash'', JStr hash),
      (''firewallUUID'', JStr fw), (''firewallProfile'', JStr ''private-worker''), (''networkUUID'', JStr net),
      (''controlPlaneVIP'', JStr ''10.0.0.1''), (''privateLoadBalancerPoolStart'', JStr ''10.0.0.2''),
      (''privateLoadBalancerPoolStop'', JStr ''10.0.0.3''), (''osName'', JStr ''ubuntu''), (''osVersion'', JStr ''24.04''),
      (''billingAccountID'', JInt 7), (''floatingIPName'', JStr ''f'')]"

definition fence_doc :: "string \<Rightarrow> string \<Rightarrow> string \<Rightarrow> string \<Rightarrow> string \<Rightarrow> string \<Rightarrow> json" where
  "fence_doc hash long at vm fw net = JObj
     [(''schema'', JStr ''karpenter.inspace.cloud/create-fence-v3''),
      (''binding'', JObj [(''nodeClaimUID'', JStr ''u1''), (''idempotencyKeyHash'', JStr long),
         (''requestHash'', JStr long), (''specHash'', JStr hash), (''bootstrapHash'', JStr hash)]),
      (''cleanup'', JObj [(''clusterName'', JStr ''c1''), (''location'', JStr ''bkk01''), (''networkUUID'', JStr net),
         (''controlPlaneVIP'', JStr ''10.0.0.1''), (''privateLoadBalancerPoolStart'', JStr ''10.0.0.2''),
         (''privateLoadBalancerPoolStop'', JStr ''10.0.0.3''), (''firewallUUID'', JStr fw),
         (''firewallProfile'', JStr ''private-worker''), (''nodeClaimName'', JStr ''n1''), (''vmName'', JStr ''c1-karp-n1''),
         (''billingAccountID'', JInt 7), (''ownershipKeyHash'', JStr hash)]),
      (''token'', JStr hash), (''phase'', JStr ''materialized''), (''intent'', JStr ''post''), (''issueID'', JStr hash),
      (''startedAt'', JStr at), (''issuedAt'', JStr at), (''launchObservedAt'', JStr at),
      (''createdVMUUID'', JStr vm), (''observedAt'', JStr at), (''observedVMUUID'', JStr vm),
      (''floatingIPName'', JStr ''f''), (''publicIPv4'', JStr ''203.0.113.1''),
      (''baseFirewallAssignment'', JObj [(''vmUUID'', JStr vm), (''firewallUUID'', JStr fw),
         (''phase'', JStr ''observed''), (''issueID'', JStr hash), (''intentAt'', JStr at),
         (''issuedAt'', JStr at), (''observedAt'', JStr at)])]"

definition claim_doc :: "string \<Rightarrow> string \<Rightarrow> string \<Rightarrow> json" where
  "claim_doc fence at provider = JObj
     [(''apiVersion'', JStr ''karpenter.sh/v1''), (''kind'', JStr ''NodeClaim''),
      (''metadata'', JObj [(''name'', JStr ''n1''), (''uid'', JStr ''u1''), (''resourceVersion'', JStr ''9''),
         (''deletionTimestamp'', JStr at),
         (''finalizers'', JArr [JStr ''karpenter.sh/termination'', JStr ''karpenter.inspace.cloud/create-protection'']),
         (''annotations'', JObj [(''karpenter.inspace.cloud/node-name'', JStr ''c1-karp-n1''),
            (''karpenter.inspace.cloud/create-fence'', JStr fence)])]),
      (''status'', JObj [(''nodeName'', JStr ''c1-karp-n1''), (''providerID'', JStr provider),
         (''conditions'', JArr [JObj [(''type'', JStr ''Registered''), (''status'', JStr ''True'')]])])]"

abbreviation ownership_json :: json where
  "ownership_json \<equiv> ownership_doc hash32 pool_uuid fw_uuid net_uuid"

abbreviation fence_json :: json where
  "fence_json \<equiv> fence_doc hash32 hash64 stamp vm_uuid fw_uuid net_uuid"

abbreviation claim_json :: json where
  "claim_json \<equiv> claim_doc (marshal fence_json) stamp vm_provider"

definition list_json :: "string \<Rightarrow> string \<Rightarrow> json list \<Rightarrow> json" where
  "list_json version kind items = JObj
     [(''apiVersion'', JStr version), (''kind'', JStr kind), (''metadata'', JObj [(''resourceVersion'', JStr ''10'')]),
      (''items'', JArr items)]"

definition node_json :: json where
  "node_json = JObj
     [(''metadata'', JObj [(''name'', JStr ''c1-karp-n2''), (''uid'', JStr ''u2'')]),
      (''spec'', JObj [(''providerID'', JStr other_provider)])]"

section \<open>What they decode to\<close>

definition claim_of :: "string \<Rightarrow> string \<Rightarrow> string \<Rightarrow> missingNodeClaim" where
  "claim_of fence at provider =
     \<lparr>nc_APIVersion = ''karpenter.sh/v1'', nc_Kind = ''NodeClaim'',
      nc_Metadata = \<lparr>om_Name = ''n1'', om_UID = ''u1'', om_ResourceVersion = ''9'', om_DeletionTimestamp = at,
        om_Finalizers = [''karpenter.sh/termination'', ''karpenter.inspace.cloud/create-protection''],
        om_Annotations = fmupd ''karpenter.inspace.cloud/create-fence'' fence
          (fmupd ''karpenter.inspace.cloud/node-name'' ''c1-karp-n1'' fmempty)\<rparr>,
      nc_Status = \<lparr>cs_NodeName = ''c1-karp-n1'', cs_ProviderID = provider,
        cs_Conditions = [\<lparr>mc_Type = ''Registered'', mc_Status = ''True''\<rparr>]\<rparr>\<rparr>"

lemma claim_of_simps [simp]:
  "nc_APIVersion (claim_of fence at provider) = ''karpenter.sh/v1''" "nc_Kind (claim_of fence at provider) = ''NodeClaim''"
  "om_Name (nc_Metadata (claim_of fence at provider)) = ''n1''" "om_UID (nc_Metadata (claim_of fence at provider)) = ''u1''"
  "om_ResourceVersion (nc_Metadata (claim_of fence at provider)) = ''9''"
  "om_DeletionTimestamp (nc_Metadata (claim_of fence at provider)) = at"
  "om_Finalizers (nc_Metadata (claim_of fence at provider))
     = [''karpenter.sh/termination'', ''karpenter.inspace.cloud/create-protection'']"
  "map_lookup (om_Annotations (nc_Metadata (claim_of fence at provider))) ''karpenter.inspace.cloud/node-name'' = ''c1-karp-n1''"
  "claim_fence (claim_of fence at provider) = fence"
  "cs_NodeName (nc_Status (claim_of fence at provider)) = ''c1-karp-n1''"
  "cs_ProviderID (nc_Status (claim_of fence at provider)) = provider"
  "cs_Conditions (nc_Status (claim_of fence at provider)) = [\<lparr>mc_Type = ''Registered'', mc_Status = ''True''\<rparr>]"
  by (simp_all add: claim_of_def claim_fence_def map_lookup_def)

definition other_node :: missingNodeKubernetesNode where
  "other_node = \<lparr>kn_Name = ''c1-karp-n2'', kn_UID = ''u2'', kn_ProviderID = other_provider\<rparr>"

definition request_of :: "string \<Rightarrow> missingNodeDetachRequest" where
  "request_of description = \<lparr>md_NodeName = ''c1-karp-n1'', md_Location = ''bkk01'', md_VMUUID = vm_uuid, md_VMName = ''c1-karp-n1'',
     md_VMHostname = ''c1-karp-n1'', md_VMDescription = description, md_DiskUUID = pool_uuid,
     md_NetworkUUID = net_uuid, md_BillingAccountID = 7\<rparr>"

lemma request_of_simps [simp]:
  "md_NodeName (request_of d) = ''c1-karp-n1''" "md_Location (request_of d) = ''bkk01''" "md_VMUUID (request_of d) = vm_uuid"
  "md_VMDescription (request_of d) = d" "requestProviderID (request_of d) = vm_provider"
  by (simp_all add: request_of_def requestProviderID_def inspaceProviderID_def vm_provider_def)

definition ownership_of :: "string \<Rightarrow> string \<Rightarrow> string \<Rightarrow> string \<Rightarrow> missingNodeOwnershipRecord" where
  "ownership_of hash pool fw net =
     \<lparr>own_Schema = ''karpenter.inspace.cloud/v3'', own_Cluster = ''c1'', own_NodePool = [], own_NodeClaim = ''n1'',
      own_VMName = ''c1-karp-n1'', own_KeyHash = hash, own_HostClass = ''h'', own_InstanceType = ''t'', own_HostPoolUUID = pool,
      own_VCPU = 2, own_MemoryGiB = 4, own_RootDiskGiB = 20, own_SpecHash = hash, own_BootstrapHash = hash,
      own_FirewallUUID = fw, own_FirewallProfile = ''private-worker'', own_NetworkUUID = net,
      own_ControlPlaneVIP = ''10.0.0.1'', own_PrivateLoadBalancerPoolStart = ''10.0.0.2'',
      own_PrivateLoadBalancerPoolStop = ''10.0.0.3'', own_OSName = ''ubuntu'', own_OSVersion = ''24.04'',
      own_BillingAccountID = 7, own_FloatingIPName = ''f'', own_PublicIPv4 = []\<rparr>"

lemma ownership_of_simps [simp]:
  "own_NodeClaim (ownership_of hash pool fw net) = ''n1''" "own_Cluster (ownership_of hash pool fw net) = ''c1''"
  by (simp_all add: ownership_of_def)

definition fence_of :: "string \<Rightarrow> string \<Rightarrow> string \<Rightarrow> string \<Rightarrow> string \<Rightarrow> string \<Rightarrow> missingNodeCreateFence" where
  "fence_of hash long at vm fw net =
     \<lparr>cf_Schema = ''karpenter.inspace.cloud/create-fence-v3'',
      cf_Binding = \<lparr>cb_NodeClaimUID = ''u1'', cb_IdempotencyKeyHash = long, cb_RequestHash = long, cb_SpecHash = hash,
        cb_BootstrapHash = hash\<rparr>,
      cf_Cleanup = \<lparr>cu_ClusterName = ''c1'', cu_Location = ''bkk01'', cu_NetworkUUID = net, cu_NodePoolName = [],
        cu_ControlPlaneVIP = ''10.0.0.1'', cu_PrivateLoadBalancerPoolStart = ''10.0.0.2'',
        cu_PrivateLoadBalancerPoolStop = ''10.0.0.3'', cu_FirewallUUID = fw, cu_FirewallProfile = ''private-worker'',
        cu_NodeClaimName = ''n1'', cu_VMName = ''c1-karp-n1'', cu_BillingAccountID = 7, cu_OwnershipKeyHash = hash\<rparr>,
      cf_Token = hash, cf_Phase = ''materialized'', cf_Intent = ''post'', cf_IssueID = hash, cf_StartedAt = at,
      cf_IssuedAt = Some at, cf_LaunchObservedAt = Some at, cf_CreatedVMUUID = vm, cf_ProtectionFailureAt = None,
      cf_RollbackAt = None, cf_ObservedAt = Some at, cf_ObservedVMUUID = vm, cf_FloatingIPName = ''f'',
      cf_PublicIPv4 = ''203.0.113.1'',
      cf_BaseFirewallAssignment = Some \<lparr>fa_VMUUID = vm, fa_FirewallUUID = fw, fa_Phase = ''observed'', fa_IssueID = hash,
        fa_IntentAt = at, fa_IssuedAt = Some at, fa_RejectedAt = None, fa_ObservedAt = Some at\<rparr>\<rparr>"

definition example_sha :: "string \<Rightarrow> string" where
  "example_sha s = hash64"

abbreviation example_request :: missingNodeDetachRequest where
  "example_request \<equiv> request_of (marshal ownership_json)"

abbreviation example_claim :: missingNodeClaim where
  "example_claim \<equiv> claim_of (marshal fence_json) stamp vm_provider"

lemma decode_authority_marshal:
  assumes "missingNodeAuthorityCanonicalJSONKeys t = Inr keys" and "integral v"
    and "validateMissingNodeAuthorityJSONValue keys v = None" and "json_depth v \<le> 100"
  shows "decodeMissingNodeAuthorityJSON t rd (marshal v) = rd v"
  using assms by (simp add: decodeMissingNodeAuthorityJSON_def parse_json_marshal maxNestingDepth_def)

lemma claim_reads: "into_struct read_claim (claim_doc fence at provider) zero_claim = Inr (claim_of fence at provider)"
  by code_simp

lemma ownership_reads:
  "into_struct read_ownership (ownership_doc hash pool fw net) zero_ownership = Inr (ownership_of hash pool fw net)"
  by code_simp

lemma fence_reads:
  "into_struct read_create_fence (fence_doc hash long at vm fw net) zero_create_fence = Inr (fence_of hash long at vm fw net)"
  by code_simp

section \<open>The guard accepts them\<close>

definition ownership_keys :: "string list" where
  "ownership_keys =
     [''schema'', ''cluster'', ''nodePool'', ''nodeClaim'', ''vmName'', ''keyHash'', ''hostClass'', ''instanceType'',
      ''hostPoolUUID'', ''vCPU'', ''memoryGiB'', ''rootDiskGiB'', ''specHash'', ''bootstrapHash'', ''firewallUUID'',
      ''firewallProfile'', ''networkUUID'', ''controlPlaneVIP'', ''privateLoadBalancerPoolStart'',
      ''privateLoadBalancerPoolStop'', ''osName'', ''osVersion'', ''billingAccountID'', ''floatingIPName'', ''publicIPv4'']"

lemma ownership_keys: "missingNodeAuthorityCanonicalJSONKeys type_ownership = Inr ownership_keys"
  by code_simp

definition fence_keys :: "string list" where
  "fence_keys =
     [''schema'', ''binding'', ''nodeClaimUID'', ''idempotencyKeyHash'', ''requestHash'', ''specHash'', ''bootstrapHash'',
      ''cleanup'', ''clusterName'', ''location'', ''networkUUID'', ''nodePoolName'', ''controlPlaneVIP'',
      ''privateLoadBalancerPoolStart'', ''privateLoadBalancerPoolStop'', ''firewallUUID'', ''firewallProfile'',
      ''nodeClaimName'', ''vmName'', ''billingAccountID'', ''ownershipKeyHash'', ''token'', ''phase'', ''intent'', ''issueID'',
      ''startedAt'', ''issuedAt'', ''launchObservedAt'', ''createdVMUUID'', ''protectionFailureAt'', ''rollbackAt'',
      ''observedAt'', ''observedVMUUID'', ''floatingIPName'', ''publicIPv4'', ''baseFirewallAssignment'', ''vmUUID'',
      ''intentAt'', ''rejectedAt'']"

lemma fence_keys: "missingNodeAuthorityCanonicalJSONKeys type_create_fence = Inr fence_keys"
  by code_simp

definition claim_keys :: "string list" where
  "claim_keys =
     [''apiVersion'', ''kind'', ''metadata'', ''name'', ''uid'', ''resourceVersion'', ''deletionTimestamp'', ''finalizers'',
      ''annotations'', ''status'', ''nodeName'', ''providerID'', ''conditions'', ''type'']"

lemma claim_keys: "missingNodeAuthorityCanonicalJSONKeys type_claim = Inr claim_keys"
  by code_simp

definition claims_keys :: "string list" where
  "claims_keys =
     [''apiVersion'', ''kind'', ''metadata'', ''resourceVersion'', ''continue'', ''items'', ''name'', ''uid'',
      ''deletionTimestamp'', ''finalizers'', ''annotations'', ''status'', ''nodeName'', ''providerID'', ''conditions'', ''type'']"

lemma claims_keys: "missingNodeAuthorityCanonicalJSONKeys (type_list ''missingNodeClaimList'' type_claim) = Inr claims_keys"
  by code_simp

definition nodes_keys :: "string list" where
  "nodes_keys =
     [''apiVersion'', ''kind'', ''metadata'', ''resourceVersion'', ''continue'', ''items'', ''name'', ''uid'', ''spec'', ''providerID'']"

lemma nodes_keys: "missingNodeAuthorityCanonicalJSONKeys (type_list ''missingNodeKubernetesNodeList'' type_node) = Inr nodes_keys"
  by code_simp

lemma decode_example_ownership: "decode_ownership (marshal (ownership_doc hash pool fw net)) = Inr (ownership_of hash pool fw net)"
proof -
  have "validateMissingNodeAuthorityJSONValue ownership_keys (ownership_doc hash pool fw net) = None
      \<and> integral (ownership_doc hash pool fw net) \<and> json_depth (ownership_doc hash pool fw net) \<le> 100" by code_simp
  then show ?thesis
    unfolding decode_ownership_def by (simp add: decode_authority_marshal[OF ownership_keys] ownership_reads)
qed

lemma decode_example_fence: "decode_create_fence (marshal (fence_doc hash long at vm fw net)) = Inr (fence_of hash long at vm fw net)"
proof -
  have "validateMissingNodeAuthorityJSONValue fence_keys (fence_doc hash long at vm fw net) = None
      \<and> integral (fence_doc hash long at vm fw net) \<and> json_depth (fence_doc hash long at vm fw net) \<le> 100" by code_simp
  then show ?thesis
    unfolding decode_create_fence_def by (simp add: decode_authority_marshal[OF fence_keys] fence_reads)
qed

lemma decode_example_claim: "decode_claim (marshal (claim_doc fence at provider)) = Inr (claim_of fence at provider)"
proof -
  have "validateMissingNodeAuthorityJSONValue claim_keys (claim_doc fence at provider) = None
      \<and> integral (claim_doc fence at provider) \<and> json_depth (claim_doc fence at provider) \<le> 100" by code_simp
  then show ?thesis
    unfolding decode_claim_def by (simp add: decode_authority_marshal[OF claim_keys] claim_reads)
qed

definition page_of :: "string \<Rightarrow> string \<Rightarrow> 'a list \<Rightarrow> 'a missingNodeList" where
  "page_of version kind items = \<lparr>pg_APIVersion = version, pg_Kind = kind,
     pg_Metadata = \<lparr>pm_ResourceVersion = ''10'', pm_Continue = []\<rparr>, pg_Items = items\<rparr>"

lemma decode_example_claims:
  "decode_claim_list (marshal (list_json ''karpenter.sh/v1'' ''NodeClaimList'' [claim_doc fence at provider]))
     = Inr (page_of ''karpenter.sh/v1'' ''NodeClaimList'' [claim_of fence at provider])"
proof -
  let ?l = "list_json ''karpenter.sh/v1'' ''NodeClaimList'' [claim_doc fence at provider]"
  have "validateMissingNodeAuthorityJSONValue claims_keys ?l = None \<and> integral ?l \<and> json_depth ?l \<le> 100" by code_simp
  moreover have "into_struct (read_list read_claim zero_claim) ?l zero_list
      = Inr (page_of ''karpenter.sh/v1'' ''NodeClaimList'' [claim_of fence at provider])" by code_simp
  ultimately show ?thesis
    unfolding decode_claim_list_def by (simp add: decode_authority_marshal[OF claims_keys])
qed

lemma decode_example_nodes:
  "decode_node_list (marshal (list_json ''v1'' ''NodeList'' [node_json])) = Inr (page_of ''v1'' ''NodeList'' [other_node])"
proof -
  let ?l = "list_json ''v1'' ''NodeList'' [node_json]"
  have "validateMissingNodeAuthorityJSONValue nodes_keys ?l = None \<and> integral ?l \<and> json_depth ?l \<le> 100" by code_simp
  moreover have "into_struct (read_list read_node zero_node) ?l zero_list = Inr (page_of ''v1'' ''NodeList'' [other_node])" by code_simp
  ultimately show ?thesis
    unfolding decode_node_list_def by (simp add: decode_authority_marshal[OF nodes_keys])
qed

section \<open>The checks accept them\<close>

text \<open>A bound on the length of a printed document.\<close>

fun text_bound :: "json \<Rightarrow> nat"
  and members_bound :: "(string \<times> json) list \<Rightarrow> nat"
  and elements_bound :: "json list \<Rightarrow> nat" where
  "text_bound JNull = 4"
| "text_bound (JBool b) = 5"
| "text_bound (JInt i) = length (show_int i)"
| "text_bound (JFloat t) = length t"
| "text_bound (JStr s) = 6 * length s + 2"
| "text_bound (JArr vs) = 2 + elements_bound vs"
| "text_bound (JObj ms) = 2 + members_bound ms"
| "members_bound [] = 1"
| "members_bound ((k, v) # ms) = 6 * length k + 4 + text_bound v + members_bound ms"
| "elements_bound [] = 1"
| "elements_bound (v # vs) = text_bound v + 1 + elements_bound vs"

lemma length_marshal_char: "length (marshal_char c) \<le> 6"
  by (simp add: marshal_char_def Let_def)

lemma length_marshal_string: "length (marshal_string s) \<le> 6 * length s + 2"
proof -
  have "length (concat (map marshal_char s)) \<le> 6 * length s"
    by (induction s) (use length_marshal_char in \<open>auto intro: add_mono\<close>)
  then show ?thesis by (simp add: marshal_string_def)
qed

lemma marshal_bound:
  "length (marshal v) \<le> text_bound v"
  "length (marshal_members ms) \<le> members_bound ms"
  "length (marshal_elements vs) \<le> elements_bound vs"
proof (induction v and ms and vs rule: marshal_marshal_members_marshal_elements.induct)
  case (9 k v ms)
  then show ?case using length_marshal_string[of k] by auto
qed (use length_marshal_string in auto)

lemma example_lengths:
  "length hash32 = 32" "length hash64 = 64" "length stamp = 20" "length vm_uuid = 36" "length fw_uuid = 36"
  "length net_uuid = 36" "length pool_uuid = 36" "length (show_int 2) = 1" "length (show_int 4) = 1"
  "length (show_int 20) = 2" "length (show_int 7) = 1"
  "length vm_provider = 52" "length other_provider = 52"
  by (simp_all add: hash32_def hash64_def stamp_def vm_uuid_def fw_uuid_def net_uuid_def pool_uuid_def vm_provider_def
        other_provider_def)
     (code_simp+)

lemma ownership_length: "length (marshal ownership_json) \<le> 65536"
  by (rule order_trans[OF marshal_bound(1)]) (simp add: ownership_doc_def example_lengths)

lemma fence_length: "length (marshal fence_json) \<le> 10000"
  by (rule order_trans[OF marshal_bound(1)]) (simp add: fence_doc_def example_lengths)

lemma claim_length: "length (marshal claim_json) \<le> 1000000"
  by (rule order_trans[OF marshal_bound(1)]) (use fence_length in \<open>simp add: claim_doc_def example_lengths\<close>)

lemma claims_length: "length (marshal (list_json ''karpenter.sh/v1'' ''NodeClaimList'' [claim_json])) \<le> 1000000"
  by (rule order_trans[OF marshal_bound(1)]) (use fence_length in \<open>simp add: list_json_def claim_doc_def example_lengths\<close>)

lemma nodes_length: "length (marshal (list_json ''v1'' ''NodeList'' [node_json])) \<le> 1000000"
  by (rule order_trans[OF marshal_bound(1)]) (simp add: list_json_def node_json_def example_lengths)

lemma request_valid: "validateMissingNodeDetachRequest decode_ownership example_request = Inr (ownership_of hash32 pool_uuid fw_uuid net_uuid)"
proof -
  have "validateMissingNodeOwnership (ownership_of hash32 pool_uuid fw_uuid net_uuid) (request_of d) = None" for d by code_simp
  moreover have "nodeNamePattern ''c1-karp-n1'' \<and> ToLower (TrimSpace ''bkk01'') = ''bkk01'' \<and> location_ok ''bkk01''
      \<and> canonical_uuid vm_uuid \<and> canonical_uuid pool_uuid \<and> canonical_uuid net_uuid" by code_simp
  moreover have "marshal ownership_json \<noteq> []" by (simp add: ownership_doc_def)
  ultimately show ?thesis
    using ownership_length
    by (simp add: validateMissingNodeDetachRequest_def request_of_def decode_example_ownership maxMissingNodeDescriptionBytes_def)
qed

lemma example_provider: "parseProviderID vm_provider = Inr (''bkk01'', vm_uuid)"
  by code_simp

lemma fence_valid:
  "validateMissingNodeCreateFence example_sha (fence_of hash32 hash64 stamp vm_uuid fw_uuid net_uuid)
     (claim_of fence at provider) (request_of d) (ownership_of hash32 pool_uuid fw_uuid net_uuid) = None"
proof -
  have "missingNodeHex32Pattern hash32" "missingNodeHex64Pattern hash64" "validMissingNodeTimestamp stamp"
      "ToLower vm_uuid = vm_uuid" "take 32 hash64 = hash32"
    by (code_simp, code_simp, code_simp, code_simp) (simp add: hash32_def hash64_def)
  then show ?thesis
    by (simp add: validateMissingNodeCreateFence_def Let_def fence_of_def claim_of_def request_of_def ownership_of_def
        example_sha_def cleanupIdentity_def stamped_def observedAssignment_def)
qed

lemma claim_valid:
  "validateMissingNodeClaim example_sha example_claim (request_of d) (ownership_of hash32 pool_uuid fw_uuid net_uuid) = None"
proof -
  have "validMissingNodeTimestamp stamp" by code_simp
  moreover have "marshal fence_json \<noteq> []" by (simp add: fence_doc_def)
  ultimately show ?thesis
    using fence_length
    by (simp add: validateMissingNodeClaim_def Let_def example_provider decode_example_fence maxMissingNodeCreateFenceBytes_def
        fence_valid)
qed

lemma claim_inventory_valid:
  "validateMissingNodeClaimInventory example_sha [example_claim] example_claim example_request
     (ownership_of hash32 pool_uuid fw_uuid net_uuid) = None"
proof -
  have "listedProviderID vm_provider = Inr (Some vm_provider)"
    using listedProviderID_request[OF _ request_valid] by (simp add: example_provider)
  then show ?thesis
    by (simp add: validateMissingNodeClaimInventory_def Let_def claim_valid)
qed

lemma node_inventory_valid: "validateMissingNodeInventory [other_node] (request_of d) = None"
proof -
  have "listedProviderID other_provider = Inr (Some other_provider)" "other_provider \<noteq> vm_provider"
    by code_simp+
  then show ?thesis by (simp add: other_node_def)
qed

end
