(* ===== verification/Authority_Example.thy ===== *)
theory Authority_Example
  imports Authority_Documents
begin

text \<open>
  A concrete cluster on which the missing-node detach authority lets a detach through: the Node of
  a VM is gone, its NodeClaim is being deleted, and another Node of another VM is there.
\<close>

section \<open>The server\<close>

definition example_cluster :: cluster where
  "example_cluster = \<lparr>cl_claims = [example_claim], cl_nodes = [other_node]\<rparr>"

definition document :: "int \<Rightarrow> string \<Rightarrow> http_response" where
  "document status body = \<lparr>hr_StatusCode = status, hr_ContentLength = -1, hr_Body = body, hr_ReadError = None\<rparr>"

definition respond :: "string \<Rightarrow> http_response" where
  "respond uri =
     (if uri = claim_uri ''n1'' then document 200 (marshal claim_json)
      else if uri = page_uri claim_collection [] then document 200 (marshal (list_json ''karpenter.sh/v1'' ''NodeClaimList'' [claim_json]))
      else if uri = page_uri node_collection [] then document 200 (marshal (list_json ''v1'' ''NodeList'' [node_json]))
      else if uri = node_uri ''c1-karp-n2'' then document 200 (marshal node_json)
      else document 404 [])"

definition example_server :: "unit KubernetesNodeResolver" where
  "example_server = \<lparr>kr_basePath = [], kr_readToken = (\<lambda>w. (Inr ''token'', 0, w)),
     kr_do = (\<lambda>c meth token uri body w. (Inr (respond uri), 1, w)), kr_namespace = ''kube-system'', kr_sha256hex = example_sha,
     kr_intentText = (\<lambda>i. []), kr_intent = (\<lambda>s. NoIntent), kr_obsText = (\<lambda>v. []), kr_obs = (\<lambda>s. NoObs)\<rparr>"

lemma uris_distinct:
  "claim_uri name \<noteq> page_uri claim_collection token" "claim_uri name \<noteq> page_uri node_collection token"
  "claim_uri name \<noteq> node_uri name'" "page_uri claim_collection token \<noteq> page_uri node_collection token'"
  "node_uri name \<noteq> page_uri claim_collection token" "node_uri name \<noteq> page_uri node_collection token"
  by (simp_all add: claim_uri_def node_uri_def page_uri_def claim_collection_def node_collection_def)

lemma first_page [simp]:
  "page_uri claim_collection token = page_uri claim_collection [] \<longleftrightarrow> token = []"
  "page_uri claim_collection [] = page_uri claim_collection token \<longleftrightarrow> token = []"
  "page_uri node_collection token = page_uri node_collection [] \<longleftrightarrow> token = []"
  "page_uri node_collection [] = page_uri node_collection token \<longleftrightarrow> token = []"
  by (auto simp: page_uri_def claim_collection_def node_collection_def)

lemma uris_inject [simp]:
  "node_uri name = node_uri name' \<longleftrightarrow> name = name'" "claim_uri name = claim_uri name' \<longleftrightarrow> name = name'"
  by (simp_all add: claim_uri_def node_uri_def PathEscape_inj)

lemma example_sometime: "sometime [u] [] P \<longleftrightarrow> P u"
  by (auto simp: sometime_def moment_def)

lemma example_pages:
  "page_ok col objs (\<lambda>v. objs u) (\<lambda>t. ([], 0)) [u] [] [] (page_of v k (objs u))"
  by (simp add: page_ok_def page_of_def example_sometime)

lemma respond_ok:
  "answer_reports example_server (\<lambda>v. cl_claims example_cluster) (\<lambda>t. ([], 0)) (\<lambda>v. cl_nodes example_cluster) (\<lambda>t. ([], 0))
     [example_cluster] [] uri (respond uri)"
proof -
  have base: "request_uri example_server path = path" for path
    by (simp add: request_uri_def example_server_def trim_right_slash_def)
  have u: "cl_claims example_cluster = [example_claim]" "cl_nodes example_cluster = [other_node]"
    by (simp_all add: example_cluster_def)
  have n: "kn_Name other_node = ''c1-karp-n2''" by (simp add: other_node_def)
  have c: "page_ok claim_collection cl_claims (\<lambda>v. cl_claims example_cluster) (\<lambda>t. ([], 0)) [example_cluster] [] []
      (page_of ''karpenter.sh/v1'' ''NodeClaimList'' [example_claim])"
    using example_pages[of claim_collection cl_claims example_cluster] by (simp add: u)
  have d: "page_ok node_collection cl_nodes (\<lambda>v. cl_nodes example_cluster) (\<lambda>t. ([], 0)) [example_cluster] [] []
      (page_of ''v1'' ''NodeList'' [other_node])"
    using example_pages[of node_collection cl_nodes example_cluster] by (simp add: u)
  show ?thesis
    unfolding answer_reports_def base
    using c d
    by (auto simp: respond_def document_def example_sometime u n uris_distinct uris_distinct[symmetric]
        decode_example_claim decode_example_claims decode_example_nodes split: if_splits)
qed

lemma example_server_ok:
  "cluster_server example_server (\<lambda>w. [example_cluster]) (\<lambda>v. cl_claims example_cluster) (\<lambda>t. ([], 0))
     (\<lambda>v. cl_nodes example_cluster) (\<lambda>t. ([], 0))"
proof -
  have "foreign_errors (Inr (respond uri))" for uri
    by (simp add: foreign_errors_def respond_def document_def)
  then show ?thesis
    using respond_ok by (simp add: cluster_server_def) (simp add: example_server_def)
qed

section \<open>The run\<close>

lemma run_authority_get:
  assumes "respond path = document 200 body" and "length body \<le> 1000000" and "decode body = Inr x"
  shows "run_state (authority_get example_server c path decode) s = (Inr x, s\<lparr>clock := clock s + 1\<rparr>)"
  using assms
  by (simp add: authority_get_def kubernetesAPIRequestWithLimit_def maxMissingNodeAuthorityResponseBytes_def
      call_silent_def example_server_def readKubernetesResponse_def document_def trim_right_slash_def Let_def)

lemma run_node_absent:
  "run_state (requireMissingKubernetesNode example_server c ''c1-karp-n1'') s = (None, s\<lparr>clock := clock s + 1\<rparr>)"
proof -
  have n: "nodeNamePattern ''c1-karp-n1''" by code_simp
  have "respond (''/api/v1/nodes/'' @ PathEscape ''c1-karp-n1'') = document 404 []"
    unfolding node_uri_def[symmetric]
    by (simp add: respond_def uris_distinct uris_distinct[symmetric])
  with n show ?thesis
    by (simp add: requireMissingKubernetesNode_def ProviderIDForNode_def call_silent_def example_server_def document_def
        nodeProviderID_def trim_right_slash_def Let_def)
qed

lemma respond_claim: "respond (claim_uri ''n1'') = document 200 (marshal claim_json)"
  by (simp add: respond_def)

lemma run_claim: "run_state (getMissingNodeClaim example_server c ''n1'') s = (Inr example_claim, s\<lparr>clock := clock s + 1\<rparr>)"
  unfolding getMissingNodeClaim_def claim_uri_def[symmetric]
  by (simp add: run_authority_get[OF respond_claim claim_length, of decode_claim, OF decode_example_claim])

lemma run_list:
  assumes "respond (page_uri col []) = document 200 body" and "length body \<le> 1000000"
    and "ac_decode col body = Inr (page_of (ac_apiVersion col) (ac_kind col) [x])"
    and "ac_name col x \<noteq> []" and "ac_uid col x \<noteq> []" and "ac_pages col = Suc n"
  shows "run_state (list_all_pages example_server c col) s = (Inr [x], s\<lparr>clock := clock s + 1\<rparr>)"
  using assms(4-6)
  by (simp add: list_all_pages_def run_authority_get[OF assms(1,2), of "ac_decode col", OF assms(3)] page_of_def Let_def maxMissingNodeAuthorityItems_def)

lemma run_lists:
  "run_state (listMissingNodeClaims example_server c) s = (Inr [example_claim], s\<lparr>clock := clock s + 1\<rparr>)"
  "run_state (listKubernetesNodesForMissingNodeAuthority example_server c) s = (Inr [other_node], s\<lparr>clock := clock s + 1\<rparr>)"
proof -
  have p: "respond (page_uri claim_collection []) = document 200 (marshal (list_json ''karpenter.sh/v1'' ''NodeClaimList'' [claim_json]))"
      "respond (page_uri node_collection []) = document 200 (marshal (list_json ''v1'' ''NodeList'' [node_json]))"
    by (simp_all add: respond_def uris_distinct uris_distinct[symmetric])
  show "run_state (listMissingNodeClaims example_server c) s = (Inr [example_claim], s\<lparr>clock := clock s + 1\<rparr>)"
    unfolding listMissingNodeClaims_def
    by (rule run_list[OF p(1) claims_length, where n = 1024]) (simp_all add: claim_collection_def decode_example_claims)
  show "run_state (listKubernetesNodesForMissingNodeAuthority example_server c) s = (Inr [other_node], s\<lparr>clock := clock s + 1\<rparr>)"
    unfolding listKubernetesNodesForMissingNodeAuthority_def
    by (rule run_list[OF p(2) nodes_length, where n = 128]) (simp_all add: node_collection_def decode_example_nodes other_node_def)
qed

lemma run_authorize: "fst (run_state (AuthorizeMissingNodeDetach example_server c example_request) s) = None"
proof -
  have sha: "kr_sha256hex example_server = example_sha" by (simp add: example_server_def)
  show ?thesis
    by (simp add: AuthorizeMissingNodeDetach_def request_valid or_error_def unless_error_def run_node_absent run_claim run_lists
        claim_valid claim_inventory_valid node_inventory_valid sameClaim_def sha del: validateMissingNodeInventory.simps)
qed

theorem detach_authority_sound_witness:
  "\<exists>new ownership claim readback. [example_cluster] = [example_cluster] @ new
    \<and> decode_ownership (md_VMDescription example_request) = Inr ownership
    \<and> owns_vm example_sha example_request ownership claim \<and> owns_vm example_sha example_request ownership readback
    \<and> sameClaim claim readback
    \<and> in_order [example_cluster] 1
        [node_absent example_request, \<lambda>u. claim \<in> set (cl_claims u), claimed_only_by example_request claim,
         no_node_advertises example_request, \<lambda>u. readback \<in> set (cl_claims u), node_absent example_request]"
proof -
  let ?s = "\<lparr>world = (), clock = 0, trace = []\<rparr> :: unit st"
  obtain s' where "run_state (AuthorizeMissingNodeDetach example_server background example_request) ?s = (None, s')"
    using run_authorize[of background ?s] by (metis prod.collapse)
  moreover have "kr_sha256hex example_server = example_sha" by (simp add: example_server_def)
  ultimately show ?thesis
    using detach_authority_sound[OF example_server_ok, where s = ?s and c = background and request = example_request and s' = s']
    by (simp del: in_order.simps)
qed

end
