(* ===== verification/Client_Transport.thy ===== *)
theory Client_Transport
  imports Client_Errors Cloud_Types Go_HTTP Go_Struct Kube_JSON
begin

text \<open>
  The transport of the shared InSpace client (\<^verbatim>\<open>modules/client/client.go\<close>): construction of a client,
  the mutation guard, one HTTP request, the redirect policy, the bounds on a response, the table of
  endpoint contracts and the normalisation of failures to \<open>APIError\<close>.

  The network is the parameter \<open>he_roundTrip\<close>: one request, and either an error or one response. The
  redirect policy is not a parameter: \<open>http_Do\<close> is the part of \<^verbatim>\<open>http.Client.Do\<close> that asks it. Four
  more fields of \<open>http_env\<close> stand for what Go takes from its runtime: the clock, \<^verbatim>\<open>Temporary()\<close> of a
  network error (the error tree records \<^verbatim>\<open>Timeout()\<close> only), the shortest decimal text of the
  \<^verbatim>\<open>float64\<close> a JSON number denotes (\<open>None\<close> when it is out of range) and the order in which a map is
  ranged over. A client operation takes the world and gives a result, the time it took and the world
  after it. A nil context is \<open>None\<close>.
\<close>

section \<open>Requests and responses\<close>

record http_request =
  rq_Method :: string
  rq_URL :: string
  rq_apikey :: string
  rq_Accept :: string
  rq_UserAgent :: string
  rq_ContentType :: string
  rq_Body :: "string option"

text \<open>
  The \<^verbatim>\<open>Location\<close> header of a response, resolved against the URL of the request, and the values of
  its correlation header.
\<close>

datatype location_header = NoLocation | BadLocation | Location url

record wire_response = http_response +
  wr_CorrelationIDs :: "string list"
  wr_Location :: location_header

record 'w http_env =
  he_roundTrip :: "ctx \<Rightarrow> http_request \<Rightarrow> 'w \<Rightarrow> (error + wire_response) \<times> nat \<times> 'w"
  he_now :: "'w \<Rightarrow> int"
  he_temporary :: "error \<Rightarrow> bool"
  he_float :: "string \<Rightarrow> string option"
  he_range :: "(string \<times> json) list \<Rightarrow> (string \<times> json) list"

record Options =
  o_BaseURL :: string
  o_APIKey :: string
  o_UserAgent :: string
  o_DangerouslyAllowMutations :: bool

record 'w Client =
  c_baseURL :: url
  c_basePath :: string
  c_apiKey :: string
  c_userAgent :: string
  c_dangerouslyAllowMutations :: bool
  c_http :: "'w http_env"

definition defaultUserAgent :: string where
  "defaultUserAgent = ''cloud-provider-inspace/dev''"

definition defaultReadTimeout :: int where
  "defaultReadTimeout = 30 * 1000000000"

definition maxResponseBodyBytes :: int where
  "maxResponseBodyBytes = 4194304"

definition maxWarrenCorrelationIDSize :: nat where
  "maxWarrenCorrelationIDSize = 128"

section \<open>Construction\<close>

definition isLiteralLoopback :: "string \<Rightarrow> bool" where
  "isLiteralLoopback host =
     (EqualFold host ''localhost'' \<or> (case ParseIP host of None \<Rightarrow> False | Some ip \<Rightarrow> IsLoopback ip))"

definition NewClient :: "Options \<Rightarrow> 'w http_env \<Rightarrow> error + 'w Client" where
  "NewClient opts env =
     (if TrimSpace (o_BaseURL opts) = [] then Inl (Plain ''inspace: base URL is required'')
      else (case url_parse (o_BaseURL opts) of
          None \<Rightarrow> Inl (Wrap ''inspace: parse base URL'' [UrlError (Plain ''parse'')])
        | Some baseURL \<Rightarrow>
            if (url_Scheme baseURL \<noteq> ''http'' \<and> url_Scheme baseURL \<noteq> ''https'') \<or> url_Host baseURL = []
            then Inl (Plain ''inspace: base URL must be an absolute http(s) URL'')
            else if url_Scheme baseURL \<noteq> ''https'' \<and> \<not> isLiteralLoopback (Hostname baseURL)
            then Inl (Plain ''inspace: non-loopback base URL must use HTTPS'')
            else if url_HasUser baseURL \<or> url_RawQuery baseURL \<noteq> [] \<or> url_Fragment baseURL \<noteq> []
            then Inl (Plain ''inspace: base URL must not contain credentials, query, or fragment'')
            else if TrimSpace (o_APIKey opts) = [] then Inl (Plain ''inspace: API key is required'')
            else
              let path = (case url_unescape (url_RawPath baseURL) of None \<Rightarrow> [] | Some p \<Rightarrow> p);
                  userAgent = TrimSpace (o_UserAgent opts)
              in Inr \<lparr>c_baseURL = baseURL, c_basePath = trim_right_slash path, c_apiKey = o_APIKey opts,
                     c_userAgent = (if userAgent = [] then defaultUserAgent else userAgent),
                     c_dangerouslyAllowMutations = o_DangerouslyAllowMutations opts, c_http = env\<rparr>))"

definition effectivePort :: "url \<Rightarrow> string" where
  "effectivePort u = (if Port u \<noteq> [] then Port u else if url_Scheme u = ''https'' then ''443'' else ''80'')"

definition sameOrigin :: "url \<Rightarrow> url \<Rightarrow> bool" where
  "sameOrigin left right =
     (EqualFold (url_Scheme left) (url_Scheme right) \<and> EqualFold (Hostname left) (Hostname right)
      \<and> effectivePort left = effectivePort right)"

definition isMutation :: "string \<Rightarrow> bool" where
  "isMutation meth = (meth = ''POST'' \<or> meth = ''PUT'' \<or> meth = ''PATCH'' \<or> meth = ''DELETE'')"

text \<open>The redirect policy of a client: \<open>via\<close> are the methods of the requests sent so far.\<close>

definition CheckRedirect :: "url \<Rightarrow> string list \<Rightarrow> url \<Rightarrow> error" where
  "CheckRedirect baseURL via target =
     (if via \<noteq> [] \<and> isMutation (last via) then Wrap ''mutation redirect'' [Sentinel ErrMutationRedirect]
      else if \<not> sameOrigin baseURL target then Wrap ''cross-origin redirect'' [Sentinel ErrCrossOriginRedirect]
      else if via \<noteq> [] then Wrap ''read redirect'' [Sentinel ErrReadRedirect]
      else Plain ''inspace: redirect blocked'')"

section \<open>Local checks\<close>

definition trim_left_slash :: "string \<Rightarrow> string" where
  "trim_left_slash s = dropWhile (\<lambda>c. c = CHR ''/'') s"

definition locationPath :: "string \<Rightarrow> string \<Rightarrow> error + string" where
  "locationPath location resource =
     (if \<not> location_ok location then Inl (Plain ''inspace: invalid location'')
      else Inr (''/v1/'' @ location @ ''/'' @ trim_left_slash resource))"

definition validateUUID :: "string \<Rightarrow> error option" where
  "validateUUID u = (if uuid_any u then None else Some (Plain ''inspace: invalid UUID''))"

definition validateResponseUUID :: "string \<Rightarrow> error option" where
  "validateResponseUUID u =
     (case validateUUID u of
        Some err \<Rightarrow> Some (Wrap ''inspace: malformed response identity'' [err])
      | None \<Rightarrow> None)"

definition validateExpectedResponseUUID :: "string \<Rightarrow> string \<Rightarrow> error option" where
  "validateExpectedResponseUUID u expected =
     (case validateResponseUUID u of
        Some err \<Rightarrow> Some err
      | None \<Rightarrow> if \<not> EqualFold u expected
                then Some (Plain ''inspace: response UUID does not match expected UUID'') else None)"

definition mutationNotDispatched :: "error \<Rightarrow> error" where
  "mutationNotDispatched err = Wrap ''mutation not dispatched'' [err, Sentinel ErrMutationNotDispatched]"

section \<open>Endpoint contracts\<close>

datatype successBodyContract = successJSON | successEmpty | successEmptyOrJSON | successExactEmpty | successJSONTrue

record endpointContract =
  ec_method :: string
  ec_pathTemplate :: string
  ec_statuses :: "int list"
  ec_body :: successBodyContract

definition contract :: "string \<Rightarrow> string \<Rightarrow> int list \<Rightarrow> successBodyContract \<Rightarrow> endpointContract" where
  "contract m p st b = \<lparr>ec_method = m, ec_pathTemplate = p, ec_statuses = st, ec_body = b\<rparr>"

definition endpointContracts :: "endpointContract list" where
  "endpointContracts =
    [contract ''GET'' ''/v1/config/locations'' [200] successJSON,
     contract ''GET'' ''/v1/config/vm_images'' [200] successJSON,
     contract ''GET'' ''/v1/{location}/user-resource/host_pool/list'' [200] successJSON,
     contract ''GET'' ''/v1/{location}/user-resource/vm/list'' [200] successJSON,
     contract ''GET'' ''/v1/{location}/user-resource/vm'' [200] successJSON,
     contract ''GET'' ''/v1/{location}/storage/disks'' [200] successJSON,
     contract ''GET'' ''/v1/{location}/storage/disks/{uuid}'' [200] successJSON,
     contract ''GET'' ''/v1/{location}/network/ip_addresses'' [200] successJSON,
     contract ''GET'' ''/v1/{location}/network/ip_addresses/{address}'' [200] successJSON,
     contract ''GET'' ''/v1/{location}/network/firewalls'' [200] successJSON,
     contract ''GET'' ''/v1/{location}/network/load_balancers'' [200] successJSON,
     contract ''GET'' ''/v1/{location}/network/load_balancers/{uuid}'' [200] successJSON,
     contract ''GET'' ''/v1/{location}/network/network/{uuid}'' [200] successJSON,
     contract ''GET'' ''/v1/{location}/network/networks'' [200] successJSON,
     contract ''POST'' ''/v1/{location}/user-resource/vm'' [200, 201] successJSON,
     contract ''POST'' ''/v1/{location}/storage/disks'' [201] successJSON,
     contract ''POST'' ''/v1/{location}/network/ip_addresses'' [200, 201] successJSON,
     contract ''POST'' ''/v1/{location}/network/firewalls'' [200, 201] successJSON,
     contract ''POST'' ''/v1/{location}/network/load_balancers'' [200, 201] successJSON,
     contract ''POST'' ''/v1/{location}/user-resource/vm/storage/attach'' [200] successJSON,
     contract ''POST'' ''/v1/{location}/user-resource/vm/storage/detach'' [200] successJSON,
     contract ''POST'' ''/v1/{location}/network/ip_addresses/{address}/assign'' [200] successJSON,
     contract ''POST'' ''/v1/{location}/network/ip_addresses/{address}/unassign'' [200] successJSON,
     contract ''POST'' ''/v1/{location}/network/firewalls/{uuid}/vms'' [200] successJSON,
     contract ''POST'' ''/v1/{location}/network/load_balancers/{uuid}/targets'' [200] successJSON,
     contract ''POST'' ''/v1/{location}/network/load_balancers/{uuid}/forwarding_rules'' [200] successJSON,
     contract ''PUT'' ''/v1/{location}/network/firewalls/{uuid}'' [200] successJSON,
     contract ''PATCH'' ''/v1/{location}/network/ip_addresses/{address}'' [200] successJSON,
     contract ''PATCH'' ''/v1/{location}/user-resource/vm/storage'' [200] successJSON,
     contract ''PATCH'' ''/v1/{location}/user-resource/vm'' [200] successJSON,
     contract ''POST'' ''/v1/{location}/user-resource/vm/stop'' [200, 204] successEmptyOrJSON,
     contract ''POST'' ''/v1/{location}/user-resource/vm/start'' [200, 204] successEmptyOrJSON,
     contract ''DELETE'' ''/v1/{location}/user-resource/vm'' [200, 204] successEmptyOrJSON,
     contract ''DELETE'' ''/v1/{location}/storage/disks/{uuid}'' [204] successEmpty,
     contract ''DELETE'' ''/v1/{location}/network/ip_addresses/{address}'' [200] successJSONTrue,
     contract ''DELETE'' ''/v1/{location}/network/firewalls/{uuid}'' [204] successEmpty,
     contract ''DELETE'' ''/v1/{location}/network/firewalls/{uuid}/vms'' [200, 204] successExactEmpty,
     contract ''DELETE'' ''/v1/{location}/network/load_balancers/{uuid}'' [200] successEmpty,
     contract ''DELETE'' ''/v1/{location}/network/load_balancers/{uuid}/targets/{uuid}'' [200, 204] successEmpty,
     contract ''DELETE'' ''/v1/{location}/network/load_balancers/{uuid}/forwarding_rules/{uuid}'' [200, 204] successEmpty]"

definition part_matches :: "string \<Rightarrow> string \<Rightarrow> bool" where
  "part_matches part template =
     (if template = ''{location}'' then location_ok part
      else if template = ''{uuid}'' then uuid_any part
      else if template = ''{address}'' then ParseIP part \<noteq> None
      else part = template)"

definition endpointPathMatches :: "string \<Rightarrow> string \<Rightarrow> bool" where
  "endpointPathMatches path template =
     list_all2 part_matches (split_on CHR ''/'' path) (split_on CHR ''/'' template)"

definition endpointSuccessContract :: "string \<Rightarrow> string \<Rightarrow> endpointContract option" where
  "endpointSuccessContract meth path =
     find (\<lambda>c. ec_method c = meth \<and> endpointPathMatches path (ec_pathTemplate c)) endpointContracts"

section \<open>Failures\<close>

definition retryableHTTPResponseFailure :: "'w http_env \<Rightarrow> int \<Rightarrow> error option \<Rightarrow> bool" where
  "retryableHTTPResponseFailure env status cause =
     (retryableAPIStatus status
      \<or> (case cause of
           None \<Rightarrow> False
         | Some err \<Rightarrow>
             (case errors_as_net err of
                None \<Rightarrow> False
              | Some networkErr \<Rightarrow> err_timeout networkErr \<or> he_temporary env networkErr)))"

definition plain_api_error :: "string \<Rightarrow> string \<Rightarrow> int \<Rightarrow> string \<Rightarrow> string \<Rightarrow> APIError" where
  "plain_api_error meth path status message correlationID =
     \<lparr>StatusCode = status, Method = meth, Path = path, Message = message, Retryable = False,
      CorrelationID = correlationID, ResponseBodyIncomplete = False, ResponseBodyMalformed = False,
      ExactLookup = False, RequestedUUID = [], RequestedAddress = []\<rparr>"

definition newMalformedResponseAPIError :: "'w http_env \<Rightarrow> string \<Rightarrow> string \<Rightarrow> int \<Rightarrow> string \<Rightarrow> string
    \<Rightarrow> error option \<Rightarrow> error" where
  "newMalformedResponseAPIError env meth path status message correlationID cause =
     Api ((plain_api_error meth path status message correlationID)
       \<lparr>Retryable := retryableHTTPResponseFailure env status cause, ResponseBodyMalformed := True\<rparr>) cause"

definition newIncompleteAPIError :: "'w http_env \<Rightarrow> string \<Rightarrow> string \<Rightarrow> int \<Rightarrow> string \<Rightarrow> string
    \<Rightarrow> error option \<Rightarrow> error" where
  "newIncompleteAPIError env meth path status message correlationID cause =
     Api ((plain_api_error meth path status message correlationID)
       \<lparr>Retryable := retryableHTTPResponseFailure env status cause, ResponseBodyIncomplete := True\<rparr>) cause"

definition correlation_char :: "char \<Rightarrow> bool" where
  "correlation_char c = (is_alpha c \<or> is_digit_char c \<or> c \<in> set ''._:-'')"

definition validWarrenCorrelationID :: "string \<Rightarrow> bool" where
  "validWarrenCorrelationID v =
     (v \<noteq> [] \<and> length v \<le> maxWarrenCorrelationIDSize \<and> (is_alpha (hd v) \<or> is_digit_char (hd v))
      \<and> list_all correlation_char (tl v))"

definition validatedWarrenCorrelationID :: "string list \<Rightarrow> string" where
  "validatedWarrenCorrelationID vs =
     (case vs of [v] \<Rightarrow> if validWarrenCorrelationID v then v else [] | _ \<Rightarrow> [])"

text \<open>\<^verbatim>\<open>json.Unmarshal\<close> of a whole text.\<close>

definition json_Unmarshal :: "(json \<Rightarrow> 'a \<Rightarrow> error + 'a) \<Rightarrow> 'a \<Rightarrow> string \<Rightarrow> error + 'a" where
  "json_Unmarshal f zero data =
     (case parse_json data of
        Doc v False \<Rightarrow>
          if json_depth v > maxNestingDepth then Inl (Plain ''exceeded max depth'') else f v zero
      | _ \<Rightarrow> Inl (Plain ''invalid JSON''))"

text \<open>Values of type \<^verbatim>\<open>any\<close>: numbers become \<^verbatim>\<open>float64\<close>; \<^verbatim>\<open>fmt.Sprint\<close> prints map keys in order.\<close>

fun any_ok :: "'w http_env \<Rightarrow> json \<Rightarrow> bool"
  and any_ok_list :: "'w http_env \<Rightarrow> json list \<Rightarrow> bool"
  and any_ok_members :: "'w http_env \<Rightarrow> (string \<times> json) list \<Rightarrow> bool" where
  "any_ok env (JInt i) = (he_float env (show_int i) \<noteq> None)"
| "any_ok env (JFloat t) = (he_float env t \<noteq> None)"
| "any_ok env (JArr vs) = any_ok_list env vs"
| "any_ok env (JObj ms) = any_ok_members env ms"
| "any_ok env _ = True"
| "any_ok_list env [] = True"
| "any_ok_list env (v # vs) = (any_ok env v \<and> any_ok_list env vs)"
| "any_ok_members env [] = True"
| "any_ok_members env ((k, v) # ms) = (any_ok env v \<and> any_ok_members env ms)"

fun strings_Join :: "string list \<Rightarrow> string \<Rightarrow> string" where
  "strings_Join [] sep = []"
| "strings_Join [s] sep = s"
| "strings_Join (s # ss) sep = s @ sep @ strings_Join ss sep"

fun Sprint :: "'w http_env \<Rightarrow> json \<Rightarrow> string"
  and Sprint_list :: "'w http_env \<Rightarrow> json list \<Rightarrow> string list"
  and Sprint_members :: "'w http_env \<Rightarrow> (string \<times> json) list \<Rightarrow> (string \<times> string) list" where
  "Sprint env JNull = ''<nil>''"
| "Sprint env (JBool b) = (if b then ''true'' else ''false'')"
| "Sprint env (JInt i) = (case he_float env (show_int i) of None \<Rightarrow> [] | Some t \<Rightarrow> t)"
| "Sprint env (JFloat f) = (case he_float env f of None \<Rightarrow> [] | Some t \<Rightarrow> t)"
| "Sprint env (JStr s) = s"
| "Sprint env (JArr vs) = ''['' @ strings_Join (Sprint_list env vs) '' '' @ '']''"
| "Sprint env (JObj ms) =
     ''map['' @ strings_Join (map (\<lambda>(k, t). k @ '':'' @ t) (sort_key fst (Sprint_members env ms))) '' '' @ '']''"
| "Sprint_list env [] = []"
| "Sprint_list env (v # vs) = Sprint env v # Sprint_list env vs"
| "Sprint_members env [] = []"
| "Sprint_members env ((k, v) # ms) = (k, Sprint env v) # Sprint_members env ms"

text \<open>The payload of an error response; a nil \<^verbatim>\<open>Error\<close> is \<open>None\<close>.\<close>

record error_payload =
  pl_Error :: "json option"
  pl_Message :: string
  pl_Errors :: "(string \<times> json) list"

definition into_any :: "'w http_env \<Rightarrow> json \<Rightarrow> json option \<Rightarrow> error + json option" where
  "into_any env v old = (if v = JNull then Inr None else if any_ok env v then Inr (Some v) else Inl type_error)"

definition put_member :: "string \<times> json \<Rightarrow> (string \<times> json) list \<Rightarrow> (string \<times> json) list" where
  "put_member m ms = filter (\<lambda>(k, _). k \<noteq> fst m) ms @ [m]"

definition into_any_map :: "'w http_env \<Rightarrow> json \<Rightarrow> (string \<times> json) list \<Rightarrow> error + (string \<times> json) list" where
  "into_any_map env v old =
     (case v of
        JNull \<Rightarrow> Inr []
      | JObj ms \<Rightarrow> if any_ok_members env ms then Inr (fold put_member ms old) else Inl type_error
      | _ \<Rightarrow> Inl type_error)"

definition read_error_payload :: "'w http_env \<Rightarrow> (string \<times> json) list \<Rightarrow> error_payload \<Rightarrow> error + error_payload" where
  "read_error_payload env ms p = do_fields p
     [set_field (\<lambda>name ms. unmarshal_each (into_any env) (field_values name ms)) ''error'' ms pl_Error
        (\<lambda>v p. p\<lparr>pl_Error := v\<rparr>),
      set_field string_field ''message'' ms pl_Message (\<lambda>v p. p\<lparr>pl_Message := v\<rparr>),
      set_field (\<lambda>name ms. unmarshal_each (into_any_map env) (field_values name ms)) ''errors'' ms pl_Errors
        (\<lambda>v p. p\<lparr>pl_Errors := v\<rparr>)]"

definition error_message :: "'w http_env \<Rightarrow> string \<Rightarrow> string" where
  "error_message env data =
     (case json_Unmarshal (into_struct (read_error_payload env))
              \<lparr>pl_Error = None, pl_Message = [], pl_Errors = []\<rparr> data of
        Inl _ \<Rightarrow> TrimSpace data
      | Inr payload \<Rightarrow>
          if pl_Message payload \<noteq> [] then pl_Message payload
          else (case pl_Error payload of
              Some v \<Rightarrow> Sprint env v
            | None \<Rightarrow>
                if pl_Errors payload \<noteq> []
                then strings_Join (map (\<lambda>(k, v). k @ '': '' @ Sprint env v) (he_range env (pl_Errors payload))) ''; ''
                else TrimSpace data))"

definition newAPIError :: "'w http_env \<Rightarrow> string \<Rightarrow> string \<Rightarrow> int \<Rightarrow> string \<Rightarrow> string \<Rightarrow> error" where
  "newAPIError env meth path status data correlationID =
     (let trimmed = TrimSpace data;
          malformed = (trimmed \<noteq> [] \<and> (hd trimmed = CHR ''{'' \<or> hd trimmed = CHR ''['')
             \<and> validateJSONNoDuplicateObjectKeys trimmed \<noteq> None);
          message = (if malformed then trimmed else error_message env data);
          message = (if message = [] then StatusText status else message)
      in Api ((plain_api_error meth path status message correlationID)
           \<lparr>Retryable := retryableAPIStatus status, ResponseBodyMalformed := malformed\<rparr>) None)"

definition validateSuccessResponse :: "'w http_env \<Rightarrow> string \<Rightarrow> string \<Rightarrow> int \<Rightarrow> bool \<Rightarrow> string \<Rightarrow> string
    \<Rightarrow> error option" where
  "validateSuccessResponse env meth path status expectsJSON data correlationID =
     (case endpointSuccessContract meth path of
        None \<Rightarrow> Some (Api (plain_api_error meth path status
          ''successful response has no registered SDK endpoint contract'' correlationID) None)
      | Some con \<Rightarrow>
          if status \<notin> set (ec_statuses con)
          then Some (Api (plain_api_error meth path status
            ''unexpected successful HTTP status for this endpoint'' correlationID) None)
          else if expectsJSON \<noteq> (ec_body con = successJSON)
          then Some (Api (plain_api_error meth path status
            ''internal response contract mismatch'' correlationID) None)
          else
            let trimmed = TrimSpace data;
                bad = (\<lambda>message cause.
                  Some (newMalformedResponseAPIError env meth path status message correlationID cause))
            in case ec_body con of
                 successEmpty \<Rightarrow> if trimmed \<noteq> [] then bad ''expected an empty success body'' None else None
               | successEmptyOrJSON \<Rightarrow>
                   if trimmed \<noteq> [] then
                     (case validateJSONNoDuplicateObjectKeys trimmed of
                        Some err \<Rightarrow> bad ''invalid optional success response'' (Some err)
                      | None \<Rightarrow> None)
                   else None
               | successExactEmpty \<Rightarrow>
                   if data \<noteq> [] then bad ''expected exactly zero success body bytes'' None else None
               | successJSONTrue \<Rightarrow>
                   if data \<noteq> ''true'' then bad ''expected the exact JSON boolean true success body'' None else None
               | successJSON \<Rightarrow> None)"

section \<open>One request\<close>

text \<open>
  \<^verbatim>\<open>http.Client.Do\<close>: one round trip, and the redirect policy when the answer is a redirect. The
  policy never allows one, so there is no second round trip.
\<close>

datatype do_result = DoErr error "wire_response option" | DoOk wire_response

definition redirect_status :: "int \<Rightarrow> bool" where
  "redirect_status status = (status \<in> {301, 302, 303, 307, 308})"

definition http_Do :: "'w Client \<Rightarrow> ctx \<Rightarrow> http_request \<Rightarrow> 'w \<Rightarrow> do_result \<times> nat \<times> 'w" where
  "http_Do cl c req w =
     (case he_roundTrip (c_http cl) c req w of
        (Inl e, d, w') \<Rightarrow> (DoErr (UrlError e) None, d, w')
      | (Inr resp, d, w') \<Rightarrow>
          if redirect_status (hr_StatusCode resp) then
            (case wr_Location resp of
               NoLocation \<Rightarrow> (DoOk resp, d, w')
             | BadLocation \<Rightarrow> (DoErr (UrlError (Plain ''failed to parse Location header'')) None, d, w')
             | Location target \<Rightarrow>
                 (DoErr (UrlError (CheckRedirect (c_baseURL cl) [rq_Method req] target)) (Some resp), d, w'))
          else (DoOk resp, d, w'))"

text \<open>
  What the response gives: \<open>out\<close> is how the caller's result variable, whose zero value is \<open>zero\<close>, is
  unmarshalled, or \<open>None\<close> when the caller passes nil.
\<close>

definition read_body :: "'w http_env \<Rightarrow> string \<Rightarrow> string \<Rightarrow> 'a \<Rightarrow> (json \<Rightarrow> 'a \<Rightarrow> error + 'a) \<Rightarrow> int \<Rightarrow> string \<Rightarrow> string
    \<Rightarrow> error + 'a" where
  "read_body env meth path zero f status data correlationID =
     (let trimmed = TrimSpace data;
          bad = (\<lambda>message cause. Inl (newMalformedResponseAPIError env meth path status message correlationID cause))
      in if trimmed = [] then bad ''expected a non-empty JSON value'' None
         else if trimmed = ''null'' then bad ''expected a non-null JSON value'' None
         else (case validateJSONNoDuplicateObjectKeys trimmed of
             Some err \<Rightarrow> bad ''duplicate key or invalid JSON'' (Some err)
           | None \<Rightarrow>
               if hd trimmed = CHR ''{'' \<and> parse_json trimmed = Doc (JObj []) False
               then bad ''expected a non-empty JSON object'' None
               else (case json_Unmarshal f zero trimmed of
                   Inl err \<Rightarrow> bad ''json'' (Some err)
                 | Inr x \<Rightarrow> Inr x)))"

definition read_response :: "'w http_env \<Rightarrow> string \<Rightarrow> string \<Rightarrow> 'a \<Rightarrow> (json \<Rightarrow> 'a \<Rightarrow> error + 'a) option
    \<Rightarrow> wire_response \<Rightarrow> error + 'a" where
  "read_response env meth path zero out resp =
     (let correlationID = validatedWarrenCorrelationID (wr_CorrelationIDs resp);
          status = hr_StatusCode resp;
          incomplete = (\<lambda>message cause. Inl (newIncompleteAPIError env meth path status message correlationID cause));
          data = take (nat (maxResponseBodyBytes + 1)) (hr_Body resp)
      in if hr_ContentLength resp > maxResponseBodyBytes
         then incomplete ''declared response body exceeds the bound and was not trusted'' None
         else (case (int (length (hr_Body resp)) \<le> maxResponseBodyBytes, hr_ReadError resp) of
             (True, Some err) \<Rightarrow> incomplete ''response body could not be read completely'' (Some err)
           | _ \<Rightarrow>
               if int (length data) > maxResponseBodyBytes
               then incomplete ''response body exceeds the bound and was not trusted'' None
               else if hr_ContentLength resp > 0 \<and> int (length data) \<noteq> hr_ContentLength resp
               then incomplete ''response body length does not match declared length'' None
               else if status < 200 \<or> status \<ge> 300 then Inl (newAPIError env meth path status data correlationID)
               else (case validateSuccessResponse env meth path status (out \<noteq> None) data correlationID of
                   Some err \<Rightarrow> Inl err
                 | None \<Rightarrow>
                     (case out of
                        None \<Rightarrow> Inr zero
                      | Some f \<Rightarrow> read_body env meth path zero f status data correlationID))))"

definition escape_host :: "string \<Rightarrow> string" where
  "escape_host h = concat (map (\<lambda>c. if (of_char c :: nat) \<ge> 128 then escape_char c else [c]) h)"

definition requestURL :: "'w Client \<Rightarrow> string \<Rightarrow> form_values \<Rightarrow> string" where
  "requestURL cl path query =
     url_Scheme (c_baseURL cl) @ ''://'' @ escape_host (url_Host (c_baseURL cl))
     @ url_escape_path (trim_right_slash (c_basePath cl) @ path)
     @ (if Values_Encode query = [] then [] else ''?'' @ Values_Encode query)"

definition newRequest :: "'w Client \<Rightarrow> string \<Rightarrow> string \<Rightarrow> form_values \<Rightarrow> string option \<Rightarrow> string \<Rightarrow> http_request" where
  "newRequest cl meth path query body contentType =
     \<lparr>rq_Method = meth, rq_URL = requestURL cl path query, rq_apikey = c_apiKey cl,
      rq_Accept = ''application/json'', rq_UserAgent = c_userAgent cl, rq_ContentType = contentType,
      rq_Body = body\<rparr>"

text \<open>
  Building the request fails on a nil context only: the method is a constant and the printed URL of
  a parsed one parses again.
\<close>

definition doBody :: "'w Client \<Rightarrow> ctx option \<Rightarrow> string \<Rightarrow> string \<Rightarrow> form_values \<Rightarrow> string option \<Rightarrow> string \<Rightarrow> 'a
    \<Rightarrow> (json \<Rightarrow> 'a \<Rightarrow> error + 'a) option \<Rightarrow> 'w \<Rightarrow> (error + 'a) \<times> nat \<times> 'w" where
  "doBody cl c meth path query body contentType zero out w =
     (let env = c_http cl; now = he_now env w in
      if isMutation meth \<and> \<not> isLiteralLoopback (Hostname (c_baseURL cl)) \<and> \<not> c_dangerouslyAllowMutations cl
      then (Inl (Wrap ''mutation blocked'' [Sentinel ErrMutationBlocked]), 0, w)
      else (case c of
          None \<Rightarrow>
            (let buildErr = Wrap ''inspace: build request'' [Plain ''net/http: nil Context''] in
             (Inl (if isMutation meth then mutationNotDispatched buildErr else buildErr), 0, w))
        | Some parent \<Rightarrow>
            let c = (if meth = ''GET'' then with_deadline parent (now + defaultReadTimeout) else parent);
                req = newRequest cl meth path query body contentType
            in case (isMutation meth, ctx_err c now) of
                 (True, Some ctxErr) \<Rightarrow> (Inl (mutationNotDispatched (Wrap ''inspace'' [ctxErr])), 0, w)
               | _ \<Rightarrow>
                   (case http_Do cl c req w of
                      (DoErr err (Some resp), d, w') \<Rightarrow>
                        (Inl (Api ((plain_api_error meth path (hr_StatusCode resp) ''redirect''
                             (validatedWarrenCorrelationID (wr_CorrelationIDs resp)))
                           \<lparr>Retryable := retryableAPIStatus (hr_StatusCode resp)\<rparr>) (Some err)), d, w')
                    | (DoErr err None, d, w') \<Rightarrow> (Inl (Wrap ''inspace'' [err]), d, w')
                    | (DoOk resp, d, w') \<Rightarrow> (read_response env meth path zero out resp, d, w'))))"

definition do_form :: "'w Client \<Rightarrow> ctx option \<Rightarrow> string \<Rightarrow> string \<Rightarrow> form_values \<Rightarrow> form_values option \<Rightarrow> 'a
    \<Rightarrow> (json \<Rightarrow> 'a \<Rightarrow> error + 'a) option \<Rightarrow> 'w \<Rightarrow> (error + 'a) \<times> nat \<times> 'w" where
  "do_form cl c meth path query form zero out =
     (case form of
        None \<Rightarrow> doBody cl c meth path query None [] zero out
      | Some values \<Rightarrow>
          doBody cl c meth path query (Some (Values_Encode values)) ''application/x-www-form-urlencoded'' zero out)"

text \<open>
  The input of \<^verbatim>\<open>doJSON\<close> is the value it marshals to; the structs the callers pass always marshal, so
  the branch for an encoding failure is never taken.
\<close>

definition doJSON :: "'w Client \<Rightarrow> ctx option \<Rightarrow> string \<Rightarrow> string \<Rightarrow> form_values \<Rightarrow> json option \<Rightarrow> 'a
    \<Rightarrow> (json \<Rightarrow> 'a \<Rightarrow> error + 'a) option \<Rightarrow> 'w \<Rightarrow> (error + 'a) \<times> nat \<times> 'w" where
  "doJSON cl c meth path query input zero out =
     doBody cl c meth path query (map_option marshal input) ''application/json'' zero out"

section \<open>Lists\<close>

fun list_identities :: "('a \<Rightarrow> error + string) \<Rightarrow> string list \<Rightarrow> 'a list \<Rightarrow> error option" where
  "list_identities identity seen [] = None"
| "list_identities identity seen (x # xs) =
     (case identity x of
        Inl err \<Rightarrow> Some (Wrap ''inspace: invalid list element identity'' [err])
      | Inr key \<Rightarrow>
          if key = [] then Some (Plain ''inspace: invalid list element identity: empty canonical key'')
          else if key \<in> set seen then Some (Plain ''inspace: duplicate canonical identity'')
          else list_identities identity (key # seen) xs)"

definition validatedListResponse :: "error + 'a list option \<Rightarrow> ('a \<Rightarrow> error + string) \<Rightarrow> error + 'a list" where
  "validatedListResponse r identity =
     (case r of
        Inl err \<Rightarrow> Inl err
      | Inr None \<Rightarrow> Inl (Plain ''inspace: expected a JSON array, got an empty or null body'')
      | Inr (Some result) \<Rightarrow>
          (case list_identities identity [] result of Some err \<Rightarrow> Inl err | None \<Rightarrow> Inr result))"

definition validatedUUIDListIdentity :: "string \<Rightarrow> error + string" where
  "validatedUUIDListIdentity u = (case validateUUID u of Some err \<Rightarrow> Inl err | None \<Rightarrow> Inr (ToLower u))"

definition validatedRequiredListIdentity :: "string \<Rightarrow> error + string" where
  "validatedRequiredListIdentity v =
     (if v = [] then Inl (Plain ''inspace: empty identity'')
      else if v \<noteq> TrimSpace v then Inl (Plain ''inspace: invalid identity'')
      else Inr (ToLower v))"

end
