(* ===== verification/Client_Types.thy ===== *)
theory Client_Types
  imports Client_Transport
begin

text \<open>
  The resource structs of the client (\<^verbatim>\<open>modules/client/types.go\<close>): how \<^verbatim>\<open>encoding/json\<close> fills them from
  a response, and the JSON bodies of the requests. \<open>zero_T\<close> is Go's zero value of a struct \<open>T\<close> and
  \<open>read_T\<close> assigns the members of an object to it, field by field. A \<^verbatim>\<open>json.RawMessage\<close> keeps the
  printed form of its value.
\<close>

section \<open>Machines, disks and networks\<close>

definition zero_VMStorage :: VMStorage where
  "zero_VMStorage = \<lparr>st_UUID = [], st_ID = 0, st_UserID = 0, st_Name = [], st_Pool = [], st_Type = [],
     st_SizeGiB = 0, st_Primary = False, st_Shared = False, st_CreatedAt = [], st_UpdatedAt = []\<rparr>"

definition read_VMStorage :: "(string \<times> json) list \<Rightarrow> VMStorage \<Rightarrow> error + VMStorage" where
  "read_VMStorage ms x = do_fields x
     [set_field string_field ''uuid'' ms st_UUID (\<lambda>v x. x\<lparr>st_UUID := v\<rparr>),
      set_field (int_field (2 ^ 63)) ''id'' ms st_ID (\<lambda>v x. x\<lparr>st_ID := v\<rparr>),
      set_field (int_field (2 ^ 63)) ''user_id'' ms st_UserID (\<lambda>v x. x\<lparr>st_UserID := v\<rparr>),
      set_field string_field ''name'' ms st_Name (\<lambda>v x. x\<lparr>st_Name := v\<rparr>),
      set_field string_field ''pool'' ms st_Pool (\<lambda>v x. x\<lparr>st_Pool := v\<rparr>),
      set_field string_field ''type'' ms st_Type (\<lambda>v x. x\<lparr>st_Type := v\<rparr>),
      set_field (int_field (2 ^ 63)) ''size'' ms st_SizeGiB (\<lambda>v x. x\<lparr>st_SizeGiB := v\<rparr>),
      set_field bool_field ''primary'' ms st_Primary (\<lambda>v x. x\<lparr>st_Primary := v\<rparr>),
      set_field bool_field ''shared'' ms st_Shared (\<lambda>v x. x\<lparr>st_Shared := v\<rparr>),
      set_field string_field ''created_at'' ms st_CreatedAt (\<lambda>v x. x\<lparr>st_CreatedAt := v\<rparr>),
      set_field string_field ''updated_at'' ms st_UpdatedAt (\<lambda>v x. x\<lparr>st_UpdatedAt := v\<rparr>)]"

definition zero_VM :: VM where
  "zero_VM = \<lparr>vm_UUID = [], vm_ID = 0, vm_UserID = 0, vm_Name = [], vm_Description = [], vm_Hostname = [],
     vm_Status = [], vm_VCPU = 0, vm_MemoryMiB = 0, vm_OSName = [], vm_OSVersion = [], vm_Username = [],
     vm_MAC = [], vm_LicenseType = [], vm_PrivateIPv4 = [], vm_PublicIPv4 = [], vm_PublicIPv6 = [],
     vm_NetworkUUID = [], vm_BillingAccountID = 0, vm_DesignatedPoolName = [], vm_DesignatedPoolUUID = [],
     vm_Backup = False, vm_CreatedAt = [], vm_UpdatedAt = [], vm_Tags = [], vm_Storage = None\<rparr>"

definition read_VM :: "(string \<times> json) list \<Rightarrow> VM \<Rightarrow> error + VM" where
  "read_VM ms x = do_fields x
     [set_field string_field ''uuid'' ms vm_UUID (\<lambda>v x. x\<lparr>vm_UUID := v\<rparr>),
      set_field (int_field (2 ^ 63)) ''id'' ms vm_ID (\<lambda>v x. x\<lparr>vm_ID := v\<rparr>),
      set_field (int_field (2 ^ 63)) ''user_id'' ms vm_UserID (\<lambda>v x. x\<lparr>vm_UserID := v\<rparr>),
      set_field string_field ''name'' ms vm_Name (\<lambda>v x. x\<lparr>vm_Name := v\<rparr>),
      set_field string_field ''description'' ms vm_Description (\<lambda>v x. x\<lparr>vm_Description := v\<rparr>),
      set_field string_field ''hostname'' ms vm_Hostname (\<lambda>v x. x\<lparr>vm_Hostname := v\<rparr>),
      set_field string_field ''status'' ms vm_Status (\<lambda>v x. x\<lparr>vm_Status := v\<rparr>),
      set_field (int_field (2 ^ 63)) ''vcpu'' ms vm_VCPU (\<lambda>v x. x\<lparr>vm_VCPU := v\<rparr>),
      set_field (int_field (2 ^ 63)) ''memory'' ms vm_MemoryMiB (\<lambda>v x. x\<lparr>vm_MemoryMiB := v\<rparr>),
      set_field string_field ''os_name'' ms vm_OSName (\<lambda>v x. x\<lparr>vm_OSName := v\<rparr>),
      set_field string_field ''os_version'' ms vm_OSVersion (\<lambda>v x. x\<lparr>vm_OSVersion := v\<rparr>),
      set_field string_field ''username'' ms vm_Username (\<lambda>v x. x\<lparr>vm_Username := v\<rparr>),
      set_field string_field ''mac'' ms vm_MAC (\<lambda>v x. x\<lparr>vm_MAC := v\<rparr>),
      set_field string_field ''license_type'' ms vm_LicenseType (\<lambda>v x. x\<lparr>vm_LicenseType := v\<rparr>),
      set_field string_field ''private_ipv4'' ms vm_PrivateIPv4 (\<lambda>v x. x\<lparr>vm_PrivateIPv4 := v\<rparr>),
      set_field string_field ''public_ipv4'' ms vm_PublicIPv4 (\<lambda>v x. x\<lparr>vm_PublicIPv4 := v\<rparr>),
      set_field string_field ''public_ipv6'' ms vm_PublicIPv6 (\<lambda>v x. x\<lparr>vm_PublicIPv6 := v\<rparr>),
      set_field string_field ''network_uuid'' ms vm_NetworkUUID (\<lambda>v x. x\<lparr>vm_NetworkUUID := v\<rparr>),
      set_field (int_field (2 ^ 63)) ''billing_account'' ms vm_BillingAccountID (\<lambda>v x. x\<lparr>vm_BillingAccountID := v\<rparr>),
      set_field string_field ''designated_pool_name'' ms vm_DesignatedPoolName (\<lambda>v x. x\<lparr>vm_DesignatedPoolName := v\<rparr>),
      set_field string_field ''designated_pool_uuid'' ms vm_DesignatedPoolUUID (\<lambda>v x. x\<lparr>vm_DesignatedPoolUUID := v\<rparr>),
      set_field bool_field ''backup'' ms vm_Backup (\<lambda>v x. x\<lparr>vm_Backup := v\<rparr>),
      set_field string_field ''created_at'' ms vm_CreatedAt (\<lambda>v x. x\<lparr>vm_CreatedAt := v\<rparr>),
      set_field string_field ''updated_at'' ms vm_UpdatedAt (\<lambda>v x. x\<lparr>vm_UpdatedAt := v\<rparr>),
      set_field raw_field ''tags'' ms vm_Tags (\<lambda>v x. x\<lparr>vm_Tags := v\<rparr>),
      set_field (nil_slice_field (into_struct read_VMStorage) zero_VMStorage) ''storage'' ms vm_Storage (\<lambda>v x. x\<lparr>vm_Storage := v\<rparr>)]"

definition zero_DiskSnapshot :: DiskSnapshot where
  "zero_DiskSnapshot = \<lparr>snap_UUID = [], snap_DiskUUID = [], snap_DisplayName = [], snap_SizeGiB = 0,
     snap_CreatedAt = []\<rparr>"

definition read_DiskSnapshot :: "(string \<times> json) list \<Rightarrow> DiskSnapshot \<Rightarrow> error + DiskSnapshot" where
  "read_DiskSnapshot ms x = do_fields x
     [set_field string_field ''uuid'' ms snap_UUID (\<lambda>v x. x\<lparr>snap_UUID := v\<rparr>),
      set_field string_field ''disk_uuid'' ms snap_DiskUUID (\<lambda>v x. x\<lparr>snap_DiskUUID := v\<rparr>),
      set_field string_field ''display_name'' ms snap_DisplayName (\<lambda>v x. x\<lparr>snap_DisplayName := v\<rparr>),
      set_field (int_field (2 ^ 63)) ''size_gb'' ms snap_SizeGiB (\<lambda>v x. x\<lparr>snap_SizeGiB := v\<rparr>),
      set_field string_field ''created_at'' ms snap_CreatedAt (\<lambda>v x. x\<lparr>snap_CreatedAt := v\<rparr>)]"

definition zero_Disk :: Disk where
  "zero_Disk = \<lparr>disk_UUID = [], disk_DisplayName = [], disk_Status = [], disk_SizeGiB = 0,
     disk_BillingAccountID = 0, disk_StoragePoolUUID = [], disk_SourceImageType = [], disk_SourceImage = [],
     disk_ReadOnlyBootable = False, disk_CreatedAt = [], disk_UpdatedAt = [], disk_Snapshots = None\<rparr>"

definition read_Disk :: "(string \<times> json) list \<Rightarrow> Disk \<Rightarrow> error + Disk" where
  "read_Disk ms x = do_fields x
     [set_field string_field ''uuid'' ms disk_UUID (\<lambda>v x. x\<lparr>disk_UUID := v\<rparr>),
      set_field string_field ''display_name'' ms disk_DisplayName (\<lambda>v x. x\<lparr>disk_DisplayName := v\<rparr>),
      set_field string_field ''status'' ms disk_Status (\<lambda>v x. x\<lparr>disk_Status := v\<rparr>),
      set_field (int_field (2 ^ 63)) ''size_gb'' ms disk_SizeGiB (\<lambda>v x. x\<lparr>disk_SizeGiB := v\<rparr>),
      set_field (int_field (2 ^ 63)) ''billing_account_id'' ms disk_BillingAccountID (\<lambda>v x. x\<lparr>disk_BillingAccountID := v\<rparr>),
      set_field string_field ''storage_pool_uuid'' ms disk_StoragePoolUUID (\<lambda>v x. x\<lparr>disk_StoragePoolUUID := v\<rparr>),
      set_field string_field ''source_image_type'' ms disk_SourceImageType (\<lambda>v x. x\<lparr>disk_SourceImageType := v\<rparr>),
      set_field string_field ''source_image'' ms disk_SourceImage (\<lambda>v x. x\<lparr>disk_SourceImage := v\<rparr>),
      set_field bool_field ''read_only_bootable'' ms disk_ReadOnlyBootable (\<lambda>v x. x\<lparr>disk_ReadOnlyBootable := v\<rparr>),
      set_field string_field ''created_at'' ms disk_CreatedAt (\<lambda>v x. x\<lparr>disk_CreatedAt := v\<rparr>),
      set_field string_field ''updated_at'' ms disk_UpdatedAt (\<lambda>v x. x\<lparr>disk_UpdatedAt := v\<rparr>),
      set_field (nil_slice_field (into_struct read_DiskSnapshot) zero_DiskSnapshot) ''snapshots'' ms disk_Snapshots (\<lambda>v x. x\<lparr>disk_Snapshots := v\<rparr>)]"

definition zero_Network :: Network where
  "zero_Network = \<lparr>net_UUID = [], net_Name = [], net_Type = [], net_VLANID = 0, net_Subnet = [],
     net_SubnetIPv6 = [], net_IsDefault = False, net_VMUUIDs = None, net_ResourcesCount = 0, net_CreatedAt = [],
     net_UpdatedAt = []\<rparr>"

definition read_Network :: "(string \<times> json) list \<Rightarrow> Network \<Rightarrow> error + Network" where
  "read_Network ms x = do_fields x
     [set_field string_field ''uuid'' ms net_UUID (\<lambda>v x. x\<lparr>net_UUID := v\<rparr>),
      set_field string_field ''name'' ms net_Name (\<lambda>v x. x\<lparr>net_Name := v\<rparr>),
      set_field string_field ''type'' ms net_Type (\<lambda>v x. x\<lparr>net_Type := v\<rparr>),
      set_field (int_field (2 ^ 63)) ''vlan_id'' ms net_VLANID (\<lambda>v x. x\<lparr>net_VLANID := v\<rparr>),
      set_field string_field ''subnet'' ms net_Subnet (\<lambda>v x. x\<lparr>net_Subnet := v\<rparr>),
      set_field string_field ''subnet_ipv6'' ms net_SubnetIPv6 (\<lambda>v x. x\<lparr>net_SubnetIPv6 := v\<rparr>),
      set_field bool_field ''is_default'' ms net_IsDefault (\<lambda>v x. x\<lparr>net_IsDefault := v\<rparr>),
      set_field (nil_slice_field into_string []) ''vm_uuids'' ms net_VMUUIDs (\<lambda>v x. x\<lparr>net_VMUUIDs := v\<rparr>),
      set_field (int_field (2 ^ 63)) ''resources_count'' ms net_ResourcesCount (\<lambda>v x. x\<lparr>net_ResourcesCount := v\<rparr>),
      set_field string_field ''created_at'' ms net_CreatedAt (\<lambda>v x. x\<lparr>net_CreatedAt := v\<rparr>),
      set_field string_field ''updated_at'' ms net_UpdatedAt (\<lambda>v x. x\<lparr>net_UpdatedAt := v\<rparr>)]"

section \<open>Catalogues\<close>

definition any_field :: "'w http_env \<Rightarrow> string \<Rightarrow> (string \<times> json) list \<Rightarrow> json option \<Rightarrow> error + json option" where
  "any_field env name ms v = unmarshal_each (into_any env) (field_values name ms) v"

record ClientLocation =
  loc_DisplayName :: string
  loc_Description :: string
  loc_Slug :: string
  loc_CountryCode :: string
  loc_IsDefault :: bool
  loc_IsPreferred :: bool
  loc_OrderNumber :: int

definition zero_ClientLocation :: ClientLocation where
  "zero_ClientLocation = \<lparr>loc_DisplayName = [], loc_Description = [], loc_Slug = [], loc_CountryCode = [],
     loc_IsDefault = False, loc_IsPreferred = False, loc_OrderNumber = 0\<rparr>"

definition read_ClientLocation :: "(string \<times> json) list \<Rightarrow> ClientLocation \<Rightarrow> error + ClientLocation" where
  "read_ClientLocation ms x = do_fields x
     [set_field string_field ''display_name'' ms loc_DisplayName (\<lambda>v x. x\<lparr>loc_DisplayName := v\<rparr>),
      set_field string_field ''description'' ms loc_Description (\<lambda>v x. x\<lparr>loc_Description := v\<rparr>),
      set_field string_field ''slug'' ms loc_Slug (\<lambda>v x. x\<lparr>loc_Slug := v\<rparr>),
      set_field string_field ''country_code'' ms loc_CountryCode (\<lambda>v x. x\<lparr>loc_CountryCode := v\<rparr>),
      set_field bool_field ''is_default'' ms loc_IsDefault (\<lambda>v x. x\<lparr>loc_IsDefault := v\<rparr>),
      set_field bool_field ''is_preferred'' ms loc_IsPreferred (\<lambda>v x. x\<lparr>loc_IsPreferred := v\<rparr>),
      set_field (int_field (2 ^ 63)) ''order_nr'' ms loc_OrderNumber (\<lambda>v x. x\<lparr>loc_OrderNumber := v\<rparr>)]"

record HostPool =
  hp_UUID :: string
  hp_Name :: string
  hp_Description :: string
  hp_IsDefaultDesignated :: bool
  hp_IsVisible :: bool
  hp_StoragePoolUUID :: string
  hp_UIPosition :: int
  hp_GuestLimits :: "json option"
  hp_CreatedAt :: string
  hp_UpdatedAt :: string

definition zero_HostPool :: HostPool where
  "zero_HostPool = \<lparr>hp_UUID = [], hp_Name = [], hp_Description = [], hp_IsDefaultDesignated = False,
     hp_IsVisible = False, hp_StoragePoolUUID = [], hp_UIPosition = 0, hp_GuestLimits = None, hp_CreatedAt = [],
     hp_UpdatedAt = []\<rparr>"

definition read_HostPool :: "'w http_env \<Rightarrow> (string \<times> json) list \<Rightarrow> HostPool \<Rightarrow> error + HostPool" where
  "read_HostPool env ms x = do_fields x
     [set_field string_field ''uuid'' ms hp_UUID (\<lambda>v x. x\<lparr>hp_UUID := v\<rparr>),
      set_field string_field ''name'' ms hp_Name (\<lambda>v x. x\<lparr>hp_Name := v\<rparr>),
      set_field string_field ''description'' ms hp_Description (\<lambda>v x. x\<lparr>hp_Description := v\<rparr>),
      set_field bool_field ''is_default_designated'' ms hp_IsDefaultDesignated (\<lambda>v x. x\<lparr>hp_IsDefaultDesignated := v\<rparr>),
      set_field bool_field ''is_visible'' ms hp_IsVisible (\<lambda>v x. x\<lparr>hp_IsVisible := v\<rparr>),
      set_field string_field ''storage_pool_uuid'' ms hp_StoragePoolUUID (\<lambda>v x. x\<lparr>hp_StoragePoolUUID := v\<rparr>),
      set_field (int_field (2 ^ 63)) ''ui_position'' ms hp_UIPosition (\<lambda>v x. x\<lparr>hp_UIPosition := v\<rparr>),
      set_field (any_field env) ''guest_limits'' ms hp_GuestLimits (\<lambda>v x. x\<lparr>hp_GuestLimits := v\<rparr>),
      set_field string_field ''created_at'' ms hp_CreatedAt (\<lambda>v x. x\<lparr>hp_CreatedAt := v\<rparr>),
      set_field string_field ''updated_at'' ms hp_UpdatedAt (\<lambda>v x. x\<lparr>hp_UpdatedAt := v\<rparr>)]"

record VMImageVersion =
  iv_OSVersion :: string
  iv_DisplayName :: string
  iv_Published :: bool

definition zero_VMImageVersion :: VMImageVersion where
  "zero_VMImageVersion = \<lparr>iv_OSVersion = [], iv_DisplayName = [], iv_Published = False\<rparr>"

definition read_VMImageVersion :: "(string \<times> json) list \<Rightarrow> VMImageVersion \<Rightarrow> error + VMImageVersion" where
  "read_VMImageVersion ms x = do_fields x
     [set_field string_field ''os_version'' ms iv_OSVersion (\<lambda>v x. x\<lparr>iv_OSVersion := v\<rparr>),
      set_field string_field ''display_name'' ms iv_DisplayName (\<lambda>v x. x\<lparr>iv_DisplayName := v\<rparr>),
      set_field bool_field ''published'' ms iv_Published (\<lambda>v x. x\<lparr>iv_Published := v\<rparr>)]"

record VMImage =
  img_OSName :: string
  img_DisplayName :: string
  img_UIPosition :: int
  img_IsDefault :: bool
  img_IsAppCatalog :: bool
  img_Icon :: string
  img_Versions :: "VMImageVersion list option"

definition zero_VMImage :: VMImage where
  "zero_VMImage = \<lparr>img_OSName = [], img_DisplayName = [], img_UIPosition = 0, img_IsDefault = False,
     img_IsAppCatalog = False, img_Icon = [], img_Versions = None\<rparr>"

definition read_VMImage :: "(string \<times> json) list \<Rightarrow> VMImage \<Rightarrow> error + VMImage" where
  "read_VMImage ms x = do_fields x
     [set_field string_field ''os_name'' ms img_OSName (\<lambda>v x. x\<lparr>img_OSName := v\<rparr>),
      set_field string_field ''display_name'' ms img_DisplayName (\<lambda>v x. x\<lparr>img_DisplayName := v\<rparr>),
      set_field (int_field (2 ^ 63)) ''ui_position'' ms img_UIPosition (\<lambda>v x. x\<lparr>img_UIPosition := v\<rparr>),
      set_field bool_field ''is_default'' ms img_IsDefault (\<lambda>v x. x\<lparr>img_IsDefault := v\<rparr>),
      set_field bool_field ''is_app_catalog'' ms img_IsAppCatalog (\<lambda>v x. x\<lparr>img_IsAppCatalog := v\<rparr>),
      set_field string_field ''icon'' ms img_Icon (\<lambda>v x. x\<lparr>img_Icon := v\<rparr>),
      set_field (nil_slice_field (into_struct read_VMImageVersion) zero_VMImageVersion) ''versions'' ms img_Versions (\<lambda>v x. x\<lparr>img_Versions := v\<rparr>)]"

section \<open>Load balancers\<close>

record LoadBalancerRule =
  lbr_UUID :: string
  lbr_Protocol :: string
  lbr_SourcePort :: int
  lbr_TargetPort :: int
  lbr_CreatedAt :: string

definition zero_LoadBalancerRule :: LoadBalancerRule where
  "zero_LoadBalancerRule = \<lparr>lbr_UUID = [], lbr_Protocol = [], lbr_SourcePort = 0, lbr_TargetPort = 0,
     lbr_CreatedAt = []\<rparr>"

definition read_LoadBalancerRule :: "(string \<times> json) list \<Rightarrow> LoadBalancerRule \<Rightarrow> error + LoadBalancerRule" where
  "read_LoadBalancerRule ms x = do_fields x
     [set_field string_field ''uuid'' ms lbr_UUID (\<lambda>v x. x\<lparr>lbr_UUID := v\<rparr>),
      set_field string_field ''protocol'' ms lbr_Protocol (\<lambda>v x. x\<lparr>lbr_Protocol := v\<rparr>),
      set_field (int_field (2 ^ 31)) ''source_port'' ms lbr_SourcePort (\<lambda>v x. x\<lparr>lbr_SourcePort := v\<rparr>),
      set_field (int_field (2 ^ 31)) ''target_port'' ms lbr_TargetPort (\<lambda>v x. x\<lparr>lbr_TargetPort := v\<rparr>),
      set_field string_field ''created_at'' ms lbr_CreatedAt (\<lambda>v x. x\<lparr>lbr_CreatedAt := v\<rparr>)]"

record LoadBalancerTarget =
  lbt_TargetUUID :: string
  lbt_TargetType :: string
  lbt_TargetIPAddress :: string
  lbt_CreatedAt :: string

definition zero_LoadBalancerTarget :: LoadBalancerTarget where
  "zero_LoadBalancerTarget = \<lparr>lbt_TargetUUID = [], lbt_TargetType = [], lbt_TargetIPAddress = [],
     lbt_CreatedAt = []\<rparr>"

definition read_LoadBalancerTarget :: "(string \<times> json) list \<Rightarrow> LoadBalancerTarget \<Rightarrow> error + LoadBalancerTarget" where
  "read_LoadBalancerTarget ms x = do_fields x
     [set_field string_field ''target_uuid'' ms lbt_TargetUUID (\<lambda>v x. x\<lparr>lbt_TargetUUID := v\<rparr>),
      set_field string_field ''target_type'' ms lbt_TargetType (\<lambda>v x. x\<lparr>lbt_TargetType := v\<rparr>),
      set_field string_field ''target_ip_address'' ms lbt_TargetIPAddress (\<lambda>v x. x\<lparr>lbt_TargetIPAddress := v\<rparr>),
      set_field string_field ''created_at'' ms lbt_CreatedAt (\<lambda>v x. x\<lparr>lbt_CreatedAt := v\<rparr>)]"

record LoadBalancer =
  lb_UUID :: string
  lb_DisplayName :: string
  lb_NetworkUUID :: string
  lb_BillingAccountID :: int
  lb_PrivateAddress :: string
  lb_PublicAddress :: string
  lb_PublicIPv4 :: string
  lb_IsDeleted :: bool
  lb_CreatedAt :: string
  lb_UpdatedAt :: string
  lb_ForwardingRules :: "LoadBalancerRule list option"
  lb_Targets :: "LoadBalancerTarget list option"

definition zero_LoadBalancer :: LoadBalancer where
  "zero_LoadBalancer = \<lparr>lb_UUID = [], lb_DisplayName = [], lb_NetworkUUID = [], lb_BillingAccountID = 0,
     lb_PrivateAddress = [], lb_PublicAddress = [], lb_PublicIPv4 = [], lb_IsDeleted = False, lb_CreatedAt = [],
     lb_UpdatedAt = [], lb_ForwardingRules = None, lb_Targets = None\<rparr>"

definition read_LoadBalancer :: "(string \<times> json) list \<Rightarrow> LoadBalancer \<Rightarrow> error + LoadBalancer" where
  "read_LoadBalancer ms x = do_fields x
     [set_field string_field ''uuid'' ms lb_UUID (\<lambda>v x. x\<lparr>lb_UUID := v\<rparr>),
      set_field string_field ''display_name'' ms lb_DisplayName (\<lambda>v x. x\<lparr>lb_DisplayName := v\<rparr>),
      set_field string_field ''network_uuid'' ms lb_NetworkUUID (\<lambda>v x. x\<lparr>lb_NetworkUUID := v\<rparr>),
      set_field (int_field (2 ^ 63)) ''billing_account_id'' ms lb_BillingAccountID (\<lambda>v x. x\<lparr>lb_BillingAccountID := v\<rparr>),
      set_field string_field ''private_address'' ms lb_PrivateAddress (\<lambda>v x. x\<lparr>lb_PrivateAddress := v\<rparr>),
      set_field string_field ''public_address'' ms lb_PublicAddress (\<lambda>v x. x\<lparr>lb_PublicAddress := v\<rparr>),
      set_field string_field ''public_ipv4'' ms lb_PublicIPv4 (\<lambda>v x. x\<lparr>lb_PublicIPv4 := v\<rparr>),
      set_field bool_field ''is_deleted'' ms lb_IsDeleted (\<lambda>v x. x\<lparr>lb_IsDeleted := v\<rparr>),
      set_field string_field ''created_at'' ms lb_CreatedAt (\<lambda>v x. x\<lparr>lb_CreatedAt := v\<rparr>),
      set_field string_field ''updated_at'' ms lb_UpdatedAt (\<lambda>v x. x\<lparr>lb_UpdatedAt := v\<rparr>),
      set_field (nil_slice_field (into_struct read_LoadBalancerRule) zero_LoadBalancerRule) ''forwarding_rules'' ms lb_ForwardingRules (\<lambda>v x. x\<lparr>lb_ForwardingRules := v\<rparr>),
      set_field (nil_slice_field (into_struct read_LoadBalancerTarget) zero_LoadBalancerTarget) ''targets'' ms lb_Targets (\<lambda>v x. x\<lparr>lb_Targets := v\<rparr>)]"

section \<open>Firewalls\<close>

record FirewallRule =
  fwr_UUID :: string
  fwr_Protocol :: string
  fwr_Direction :: string
  fwr_PortStart :: "int option"
  fwr_PortEnd :: "int option"
  fwr_EndpointSpecType :: string
  fwr_EndpointSpec :: "string list option"

definition zero_FirewallRule :: FirewallRule where
  "zero_FirewallRule = \<lparr>fwr_UUID = [], fwr_Protocol = [], fwr_Direction = [], fwr_PortStart = None,
     fwr_PortEnd = None, fwr_EndpointSpecType = [], fwr_EndpointSpec = None\<rparr>"

definition read_FirewallRule :: "(string \<times> json) list \<Rightarrow> FirewallRule \<Rightarrow> error + FirewallRule" where
  "read_FirewallRule ms x = do_fields x
     [set_field string_field ''uuid'' ms fwr_UUID (\<lambda>v x. x\<lparr>fwr_UUID := v\<rparr>),
      set_field string_field ''protocol'' ms fwr_Protocol (\<lambda>v x. x\<lparr>fwr_Protocol := v\<rparr>),
      set_field string_field ''direction'' ms fwr_Direction (\<lambda>v x. x\<lparr>fwr_Direction := v\<rparr>),
      set_field (pointer_field (into_int (2 ^ 31)) 0) ''port_start'' ms fwr_PortStart (\<lambda>v x. x\<lparr>fwr_PortStart := v\<rparr>),
      set_field (pointer_field (into_int (2 ^ 31)) 0) ''port_end'' ms fwr_PortEnd (\<lambda>v x. x\<lparr>fwr_PortEnd := v\<rparr>),
      set_field string_field ''endpoint_spec_type'' ms fwr_EndpointSpecType (\<lambda>v x. x\<lparr>fwr_EndpointSpecType := v\<rparr>),
      set_field (nil_slice_field into_string []) ''endpoint_spec'' ms fwr_EndpointSpec (\<lambda>v x. x\<lparr>fwr_EndpointSpec := v\<rparr>)]"

record FirewallResource =
  fwres_ResourceType :: string
  fwres_ResourceUUID :: string

definition zero_FirewallResource :: FirewallResource where
  "zero_FirewallResource = \<lparr>fwres_ResourceType = [], fwres_ResourceUUID = []\<rparr>"

definition read_FirewallResource :: "(string \<times> json) list \<Rightarrow> FirewallResource \<Rightarrow> error + FirewallResource" where
  "read_FirewallResource ms x = do_fields x
     [set_field string_field ''resource_type'' ms fwres_ResourceType (\<lambda>v x. x\<lparr>fwres_ResourceType := v\<rparr>),
      set_field string_field ''resource_uuid'' ms fwres_ResourceUUID (\<lambda>v x. x\<lparr>fwres_ResourceUUID := v\<rparr>)]"

record Firewall =
  fw_UUID :: string
  fw_Name :: string
  fw_DisplayName :: string
  fw_Description :: string
  fw_BillingAccountID :: int
  fw_Rules :: "FirewallRule list option"
  fw_ResourcesAssigned :: "FirewallResource list option"
  fw_CreatedAt :: string

definition zero_Firewall :: Firewall where
  "zero_Firewall = \<lparr>fw_UUID = [], fw_Name = [], fw_DisplayName = [], fw_Description = [],
     fw_BillingAccountID = 0, fw_Rules = None, fw_ResourcesAssigned = None, fw_CreatedAt = []\<rparr>"

definition read_Firewall :: "(string \<times> json) list \<Rightarrow> Firewall \<Rightarrow> error + Firewall" where
  "read_Firewall ms x = do_fields x
     [set_field string_field ''uuid'' ms fw_UUID (\<lambda>v x. x\<lparr>fw_UUID := v\<rparr>),
      set_field string_field ''name'' ms fw_Name (\<lambda>v x. x\<lparr>fw_Name := v\<rparr>),
      set_field string_field ''display_name'' ms fw_DisplayName (\<lambda>v x. x\<lparr>fw_DisplayName := v\<rparr>),
      set_field string_field ''description'' ms fw_Description (\<lambda>v x. x\<lparr>fw_Description := v\<rparr>),
      set_field (int_field (2 ^ 63)) ''billing_account_id'' ms fw_BillingAccountID (\<lambda>v x. x\<lparr>fw_BillingAccountID := v\<rparr>),
      set_field (nil_slice_field (into_struct read_FirewallRule) zero_FirewallRule) ''rules'' ms fw_Rules (\<lambda>v x. x\<lparr>fw_Rules := v\<rparr>),
      set_field (nil_slice_field (into_struct read_FirewallResource) zero_FirewallResource) ''resources_assigned'' ms fw_ResourcesAssigned (\<lambda>v x. x\<lparr>fw_ResourcesAssigned := v\<rparr>),
      set_field string_field ''created_at'' ms fw_CreatedAt (\<lambda>v x. x\<lparr>fw_CreatedAt := v\<rparr>)]"

section \<open>Request bodies\<close>

record CreateVMRequest =
  cv_Name :: string
  cv_Description :: string
  cv_OSName :: string
  cv_OSVersion :: string
  cv_DiskGiB :: int
  cv_VCPU :: int
  cv_MemoryMiB :: int
  cv_DesignatedPoolUUID :: string
  cv_Username :: string
  cv_Password :: string
  cv_PublicKey :: string
  cv_BillingAccountID :: int
  cv_NetworkUUID :: string
  cv_CloudInit :: string
  cv_CloudInitJSON :: string
  cv_ReservePublicIP :: "bool option"

record CreateLoadBalancerRequest =
  clb_DisplayName :: string
  clb_BillingAccountID :: int
  clb_NetworkUUID :: string
  clb_ReservePublicIP :: bool
  clb_Rules :: "LoadBalancerRule list"
  clb_Targets :: "LoadBalancerTarget list option"

record CreateFirewallRequest =
  cf_DisplayName :: string
  cf_Description :: string
  cf_BillingAccountID :: int
  cf_Rules :: "FirewallRule list"

record UpdateFirewallRequest =
  uf_Name :: string
  uf_Description :: string
  uf_Rules :: "FirewallRule list"

text \<open>A member with \<^verbatim>\<open>omitempty\<close> is left out when its value is empty.\<close>

definition omit_string :: "string \<Rightarrow> string \<Rightarrow> (string \<times> json) list" where
  "omit_string k s = (if s = [] then [] else [(k, JStr s)])"

definition omit_int :: "string \<Rightarrow> int \<Rightarrow> (string \<times> json) list" where
  "omit_int k i = (if i = 0 then [] else [(k, JInt i)])"

definition omit_array :: "string \<Rightarrow> json list \<Rightarrow> (string \<times> json) list" where
  "omit_array k vs = (if vs = [] then [] else [(k, JArr vs)])"

definition json_pointer :: "int option \<Rightarrow> json" where
  "json_pointer p = (case p of None \<Rightarrow> JNull | Some i \<Rightarrow> JInt i)"

definition json_LoadBalancerRule :: "LoadBalancerRule \<Rightarrow> json" where
  "json_LoadBalancerRule r = JObj (omit_string ''uuid'' (lbr_UUID r) @ omit_string ''protocol'' (lbr_Protocol r)
     @ [(''source_port'', JInt (lbr_SourcePort r)), (''target_port'', JInt (lbr_TargetPort r))]
     @ omit_string ''created_at'' (lbr_CreatedAt r))"

definition json_LoadBalancerTarget :: "LoadBalancerTarget \<Rightarrow> json" where
  "json_LoadBalancerTarget t = JObj ([(''target_uuid'', JStr (lbt_TargetUUID t)), (''target_type'', JStr (lbt_TargetType t))]
     @ omit_string ''target_ip_address'' (lbt_TargetIPAddress t) @ omit_string ''created_at'' (lbt_CreatedAt t))"

definition json_CreateLoadBalancerRequest :: "CreateLoadBalancerRequest \<Rightarrow> json" where
  "json_CreateLoadBalancerRequest r = JObj (omit_string ''display_name'' (clb_DisplayName r)
     @ omit_int ''billing_account_id'' (clb_BillingAccountID r) @ omit_string ''network_uuid'' (clb_NetworkUUID r)
     @ [(''reserve_public_ip'', JBool (clb_ReservePublicIP r))]
     @ omit_array ''rules'' (map json_LoadBalancerRule (clb_Rules r))
     @ [(''targets'', case clb_Targets r of None \<Rightarrow> JNull | Some ts \<Rightarrow> JArr (map json_LoadBalancerTarget ts))])"

definition json_FirewallRule :: "FirewallRule \<Rightarrow> json" where
  "json_FirewallRule r = JObj (omit_string ''uuid'' (fwr_UUID r)
     @ [(''protocol'', JStr (fwr_Protocol r)), (''direction'', JStr (fwr_Direction r)),
        (''port_start'', json_pointer (fwr_PortStart r)), (''port_end'', json_pointer (fwr_PortEnd r)),
        (''endpoint_spec_type'', JStr (fwr_EndpointSpecType r))]
     @ omit_array ''endpoint_spec'' (map JStr (case fwr_EndpointSpec r of None \<Rightarrow> [] | Some es \<Rightarrow> es)))"

definition json_CreateFirewallRequest :: "CreateFirewallRequest \<Rightarrow> json" where
  "json_CreateFirewallRequest r = JObj ([(''display_name'', JStr (cf_DisplayName r))]
     @ omit_string ''description'' (cf_Description r) @ omit_int ''billing_account_id'' (cf_BillingAccountID r)
     @ [(''rules'', JArr (map json_FirewallRule (cf_Rules r)))])"

definition json_UpdateFirewallRequest :: "UpdateFirewallRequest \<Rightarrow> json" where
  "json_UpdateFirewallRequest r = JObj [(''display_name'', JStr (uf_Name r)), (''description'', JStr (uf_Description r)),
     (''rules'', JArr (map json_FirewallRule (uf_Rules r)))]"

definition EffectiveName :: "Firewall \<Rightarrow> string" where
  "EffectiveName f = (if fw_DisplayName f \<noteq> [] then fw_DisplayName f else fw_Name f)"

end
