(* ===== verification/Client_Services.thy ===== *)
theory Client_Services
  imports Client_Types Runtime
begin

text \<open>
  The services of the client: disks (\<^verbatim>\<open>storage.go\<close>), machines (\<^verbatim>\<open>compute.go\<close>), networks
  (\<^verbatim>\<open>network.go\<close>), load balancers (\<^verbatim>\<open>loadbalancer.go\<close>) and firewalls (\<^verbatim>\<open>firewall.go\<close>). An operation makes
  its local checks, sends at most one request and checks the identity the response carries. Where
  the Go function returns a pointer to a result and an error, the error alone is kept.
\<close>

type_synonym ('w, 'a) client_op = "'w \<Rightarrow> (error + 'a) \<times> nat \<times> 'w"

section \<open>Steps the operations share\<close>

definition fail_op :: "error \<Rightarrow> ('w, 'a) client_op" where
  "fail_op err w = (Inl err, 0, w)"

definition guarded :: "error option \<Rightarrow> ('w, 'a) client_op \<Rightarrow> ('w, 'a) client_op" where
  "guarded check op = (case check of Some err \<Rightarrow> fail_op err | None \<Rightarrow> op)"

definition on_path :: "error + string \<Rightarrow> (string \<Rightarrow> ('w, 'a) client_op) \<Rightarrow> ('w, 'a) client_op" where
  "on_path path op = (case path of Inl err \<Rightarrow> fail_op err | Inr p \<Rightarrow> op p)"

definition require :: "bool \<Rightarrow> string \<Rightarrow> error option" where
  "require ok message = (if ok then None else Some (Plain message))"

definition map_result :: "(error + 'a \<Rightarrow> error + 'b) \<Rightarrow> ('w, 'a) client_op \<Rightarrow> ('w, 'b) client_op" where
  "map_result f op w = (case op w of (r, d, w') \<Rightarrow> (f r, d, w'))"

definition check_result :: "('a \<Rightarrow> error option) \<Rightarrow> error + 'a \<Rightarrow> error + 'a" where
  "check_result check r = (case r of Inl err \<Rightarrow> Inl err | Inr x \<Rightarrow> (case check x of Some err \<Rightarrow> Inl err | None \<Rightarrow> Inr x))"

text \<open>An exact read: its errors are bound to the UUID that was asked for, its answer must carry it.\<close>

definition exact_result :: "('a \<Rightarrow> string) \<Rightarrow> string \<Rightarrow> error + 'a \<Rightarrow> error + 'a" where
  "exact_result uuid_of requested r =
     (case r of
        Inl err \<Rightarrow> Inl (bindExactLookupError err requested)
      | Inr x \<Rightarrow> if \<not> EqualFold (uuid_of x) requested
                 then Inl (Plain ''inspace: exact response UUID does not match requested UUID'') else Inr x)"

definition into_list :: "((string \<times> json) list \<Rightarrow> 'a \<Rightarrow> error + 'a) \<Rightarrow> 'a \<Rightarrow> json \<Rightarrow> 'a list option \<Rightarrow> error + 'a list option" where
  "into_list rd zero = into_nil_slice (into_struct rd) zero"

definition setOptional :: "string \<Rightarrow> string \<Rightarrow> form_values \<Rightarrow> form_values" where
  "setOptional key v values = (if v \<noteq> [] then Values_Set key v values else values)"

definition to_upper_char :: "char \<Rightarrow> char" where
  "to_upper_char c = (let n = (of_char c :: nat) in if 97 \<le> n \<and> n \<le> 122 then char_of (n - 32) else c)"

definition ToUpper :: "string \<Rightarrow> string" where
  "ToUpper s = map to_upper_char s"

section \<open>Disks\<close>

definition client_CreateDisk :: "'w Client \<Rightarrow> ctx option \<Rightarrow> string \<Rightarrow> CreateDiskRequest \<Rightarrow> ('w, Disk) client_op" where
  "client_CreateDisk cl c location input =
     (let sourceType = ToUpper (TrimSpace (cdr_SourceImageType input));
          sourceType = (if sourceType = [] then ''EMPTY'' else sourceType)
      in guarded (require (cdr_SizeGiB input > 0) ''inspace: disk size must be positive'')
        (guarded (require (sourceType \<in> {''EMPTY'', ''OS_BASE'', ''DISK'', ''SNAPSHOT''})
            ''inspace: disk source image type must be EMPTY, OS_BASE, DISK, or SNAPSHOT'')
        (guarded (require (sourceType = ''EMPTY'' \<or> cdr_SourceImage input \<noteq> [])
            ''inspace: source image is required for non-empty disks'')
        (on_path (locationPath location ''storage/disks'') (\<lambda>path.
          let form = [(''size_gb'', show_int (cdr_SizeGiB input)), (''source_image_type'', sourceType)];
              form = setOptional ''display_name'' (cdr_DisplayName input) form;
              form = setOptional ''source_image'' (cdr_SourceImage input) form;
              form = (if cdr_BillingAccountID input \<noteq> 0
                      then Values_Set ''billing_account_id'' (show_int (cdr_BillingAccountID input)) form else form)
          in map_result (check_result (\<lambda>d. validateResponseUUID (disk_UUID d)))
               (do_form cl c ''POST'' path [] (Some form) zero_Disk (Some (into_struct read_Disk))))))))"

definition client_GetDisk :: "'w Client \<Rightarrow> ctx option \<Rightarrow> string \<Rightarrow> string \<Rightarrow> ('w, Disk) client_op" where
  "client_GetDisk cl c location diskUUID =
     guarded (validateUUID diskUUID)
       (on_path (locationPath location (''storage/disks/'' @ diskUUID)) (\<lambda>path.
         map_result (exact_result disk_UUID diskUUID)
           (do_form cl c ''GET'' path [] None zero_Disk (Some (into_struct read_Disk)))))"

definition client_ListDisks :: "'w Client \<Rightarrow> ctx option \<Rightarrow> string \<Rightarrow> ('w, Disk list) client_op" where
  "client_ListDisks cl c location =
     on_path (locationPath location ''storage/disks'') (\<lambda>path.
       map_result (\<lambda>r. validatedListResponse r (\<lambda>disk. validatedUUIDListIdentity (disk_UUID disk)))
         (do_form cl c ''GET'' path [] None None (Some (into_list read_Disk zero_Disk))))"

definition client_DeleteDisk :: "'w Client \<Rightarrow> ctx option \<Rightarrow> string \<Rightarrow> string \<Rightarrow> ('w, unit) client_op" where
  "client_DeleteDisk cl c location diskUUID =
     guarded (validateUUID diskUUID)
       (on_path (locationPath location (''storage/disks/'' @ diskUUID)) (\<lambda>path.
         do_form cl c ''DELETE'' path [] None () None))"

definition client_AttachDisk :: "'w Client \<Rightarrow> ctx option \<Rightarrow> string \<Rightarrow> string \<Rightarrow> string \<Rightarrow> ('w, VMStorage) client_op" where
  "client_AttachDisk cl c location vmUUID diskUUID =
     guarded (validateUUID vmUUID) (guarded (validateUUID diskUUID)
       (on_path (locationPath location ''user-resource/vm/storage/attach'') (\<lambda>path.
         map_result (check_result (\<lambda>r. validateExpectedResponseUUID (st_UUID r) diskUUID))
           (do_form cl c ''POST'' path [] (Some [(''uuid'', vmUUID), (''storage_uuid'', diskUUID)])
              zero_VMStorage (Some (into_struct read_VMStorage))))))"

definition client_ResizeAttachedDisk :: "'w Client \<Rightarrow> ctx option \<Rightarrow> string \<Rightarrow> string \<Rightarrow> string \<Rightarrow> int
    \<Rightarrow> ('w, VMStorage) client_op" where
  "client_ResizeAttachedDisk cl c location vmUUID diskUUID sizeGiB =
     guarded (require (sizeGiB > 0) ''inspace: disk size must be positive'')
       (guarded (validateUUID vmUUID) (guarded (validateUUID diskUUID)
         (on_path (locationPath location ''user-resource/vm/storage'') (\<lambda>path.
           map_result (check_result (\<lambda>r. require (st_SizeGiB r \<ge> sizeGiB) ''inspace: resized disk reports a smaller size''))
             (map_result (check_result (\<lambda>r. validateExpectedResponseUUID (st_UUID r) diskUUID))
               (do_form cl c ''PATCH'' path []
                  (Some [(''uuid'', vmUUID), (''disk_uuid'', diskUUID), (''size_gb'', show_int sizeGiB)])
                  zero_VMStorage (Some (into_struct read_VMStorage))))))))"

definition client_DetachDisk :: "'w Client \<Rightarrow> ctx option \<Rightarrow> string \<Rightarrow> string \<Rightarrow> string \<Rightarrow> ('w, unit) client_op" where
  "client_DetachDisk cl c location vmUUID diskUUID =
     guarded (validateUUID vmUUID) (guarded (validateUUID diskUUID)
       (on_path (locationPath location ''user-resource/vm/storage/detach'') (\<lambda>path.
         map_result (\<lambda>r. case r of Inl err \<Rightarrow> Inl err
             | Inr success \<Rightarrow> if success then Inr () else Inl (Plain ''inspace: detach disk response reported failure''))
           (do_form cl c ''POST'' path [] (Some [(''uuid'', vmUUID), (''storage_uuid'', diskUUID)])
              False (Some (into_struct (bool_field ''success'')))))))"

section \<open>Machines\<close>

definition client_ListLocations :: "'w Client \<Rightarrow> ctx option \<Rightarrow> ('w, ClientLocation list) client_op" where
  "client_ListLocations cl c =
     map_result (\<lambda>r. validatedListResponse r (\<lambda>l.
         if \<not> location_ok (loc_Slug l) then Inl (Plain ''inspace: invalid location slug'') else Inr (loc_Slug l)))
       (do_form cl c ''GET'' ''/v1/config/locations'' [] None None (Some (into_list read_ClientLocation zero_ClientLocation)))"

definition client_ListHostPools :: "'w Client \<Rightarrow> ctx option \<Rightarrow> string \<Rightarrow> ('w, HostPool list) client_op" where
  "client_ListHostPools cl c location =
     on_path (locationPath location ''user-resource/host_pool/list'') (\<lambda>path.
       map_result (\<lambda>r. validatedListResponse r (\<lambda>pool. validatedUUIDListIdentity (hp_UUID pool)))
         (do_form cl c ''GET'' path [] None None (Some (into_list (read_HostPool (c_http cl)) zero_HostPool))))"

definition vm_identity :: "VM \<Rightarrow> error + string" where
  "vm_identity vm =
     (if TrimSpace (vm_Name vm) = [] then Inl (Plain ''inspace: VM list row has an empty name'')
      else if TrimSpace (vm_Status vm) = [] then Inl (Plain ''inspace: VM list row has an empty status'')
      else validatedUUIDListIdentity (vm_UUID vm))"

definition client_ListVMs :: "'w Client \<Rightarrow> ctx option \<Rightarrow> string \<Rightarrow> ('w, VM list) client_op" where
  "client_ListVMs cl c location =
     on_path (locationPath location ''user-resource/vm/list'') (\<lambda>path.
       map_result (\<lambda>r. validatedListResponse r vm_identity)
         (do_form cl c ''GET'' path [] None None (Some (into_list read_VM zero_VM))))"

definition client_GetVM :: "'w Client \<Rightarrow> ctx option \<Rightarrow> string \<Rightarrow> string \<Rightarrow> ('w, VM) client_op" where
  "client_GetVM cl c location uuid =
     guarded (validateUUID uuid)
       (on_path (locationPath location ''user-resource/vm'') (\<lambda>path.
         map_result (exact_result vm_UUID uuid)
           (do_form cl c ''GET'' path [(''uuid'', uuid)] None zero_VM (Some (into_struct read_VM)))))"

definition into_object :: "'w http_env \<Rightarrow> json \<Rightarrow> bool \<Rightarrow> error + bool" where
  "into_object env v isnil =
     (case v of
        JNull \<Rightarrow> Inr True
      | JObj ms \<Rightarrow> if any_ok_members env ms then Inr False else Inl type_error
      | _ \<Rightarrow> Inl type_error)"

definition client_CreateVM :: "'w Client \<Rightarrow> ctx option \<Rightarrow> string \<Rightarrow> CreateVMRequest \<Rightarrow> ('w, VM) client_op" where
  "client_CreateVM cl c location input =
     (let cloudInit = (if cv_CloudInit input = [] then cv_CloudInitJSON input else cv_CloudInit input) in
      guarded (require (cv_Name input \<noteq> [] \<and> cv_OSName input \<noteq> [] \<and> cv_OSVersion input \<noteq> [])
          ''inspace: VM name, OS name, and OS version are required'')
        (guarded (require (cv_VCPU input > 0 \<and> cv_MemoryMiB input > 0 \<and> cv_DiskGiB input > 0)
            ''inspace: VM vCPU, memory, and disk must be positive'')
        (guarded (require (cv_CloudInit input = [] \<or> cv_CloudInitJSON input = [])
            ''inspace: set only one of CloudInit or CloudInitJSON'')
        (on_path (locationPath location ''user-resource/vm'') (\<lambda>path.
          let form = [(''name'', cv_Name input), (''os_name'', cv_OSName input), (''os_version'', cv_OSVersion input),
                (''disks'', show_int (cv_DiskGiB input)), (''vcpu'', show_int (cv_VCPU input)),
                (''ram'', show_int (cv_MemoryMiB input))];
              form = setOptional ''description'' (cv_Description input) form;
              form = setOptional ''designated_pool_uuid'' (cv_DesignatedPoolUUID input) form;
              form = setOptional ''username'' (cv_Username input) form;
              form = setOptional ''password'' (cv_Password input) form;
              form = setOptional ''public_key'' (cv_PublicKey input) form;
              form = setOptional ''network_uuid'' (cv_NetworkUUID input) form;
              form = setOptional ''cloud_init'' cloudInit form;
              form = (if cv_BillingAccountID input \<noteq> 0
                      then Values_Set ''billing_account_id'' (show_int (cv_BillingAccountID input)) form else form);
              form = (case cv_ReservePublicIP input of None \<Rightarrow> form
                | Some b \<Rightarrow> Values_Set ''reserve_public_ip'' (if b then ''true'' else ''false'') form)
          in guarded (require (cloudInit = [] \<or> json_Unmarshal (into_object (c_http cl)) True cloudInit = Inr False)
                 ''inspace: cloud init must be a JSON object'')
               (map_result (check_result (\<lambda>vm. validateResponseUUID (vm_UUID vm)))
                 (do_form cl c ''POST'' path [] (Some form) zero_VM (Some (into_struct read_VM)))))))))"

definition client_DeleteVM :: "'w Client \<Rightarrow> ctx option \<Rightarrow> string \<Rightarrow> string \<Rightarrow> ('w, unit) client_op" where
  "client_DeleteVM cl c location uuid =
     guarded (validateUUID uuid)
       (on_path (locationPath location ''user-resource/vm'') (\<lambda>path.
         do_form cl c ''DELETE'' path [] (Some [(''uuid'', uuid)]) () None))"

definition vmPower :: "'w Client \<Rightarrow> ctx option \<Rightarrow> string \<Rightarrow> string \<Rightarrow> string \<Rightarrow> ('w, unit) client_op" where
  "vmPower cl c location uuid action =
     guarded (validateUUID uuid)
       (on_path (locationPath location (''user-resource/vm/'' @ action)) (\<lambda>path.
         do_form cl c ''POST'' path [] (Some [(''uuid'', uuid)]) () None))"

definition StopVM :: "'w Client \<Rightarrow> ctx option \<Rightarrow> string \<Rightarrow> string \<Rightarrow> ('w, unit) client_op" where
  "StopVM cl c location uuid = vmPower cl c location uuid ''stop''"

definition StartVM :: "'w Client \<Rightarrow> ctx option \<Rightarrow> string \<Rightarrow> string \<Rightarrow> ('w, unit) client_op" where
  "StartVM cl c location uuid = vmPower cl c location uuid ''start''"

definition UpdateVMCompute :: "'w Client \<Rightarrow> ctx option \<Rightarrow> string \<Rightarrow> string \<Rightarrow> int \<Rightarrow> int \<Rightarrow> ('w, VM) client_op" where
  "UpdateVMCompute cl c location uuid vcpu memoryMiB =
     guarded (require (vcpu > 0 \<and> memoryMiB > 0) ''inspace: VM vCPU and memory must be positive'')
       (guarded (validateUUID uuid)
       (on_path (locationPath location ''user-resource/vm'') (\<lambda>path.
         map_result (check_result (\<lambda>vm. require (vm_VCPU vm = vcpu \<and> vm_MemoryMiB vm = memoryMiB)
             ''inspace: resized VM reports other vCPU or memory''))
           (map_result (check_result (\<lambda>vm. validateExpectedResponseUUID (vm_UUID vm) uuid))
             (do_form cl c ''PATCH'' path []
                (Some [(''uuid'', uuid), (''vcpu'', show_int vcpu), (''ram'', show_int memoryMiB)])
                zero_VM (Some (into_struct read_VM)))))))"

section \<open>Networks and images\<close>

definition client_GetNetwork :: "'w Client \<Rightarrow> ctx option \<Rightarrow> string \<Rightarrow> string \<Rightarrow> ('w, Network) client_op" where
  "client_GetNetwork cl c location networkUUID =
     guarded (validateUUID networkUUID)
       (on_path (locationPath location (''network/network/'' @ networkUUID)) (\<lambda>path.
         map_result (exact_result net_UUID networkUUID)
           (do_form cl c ''GET'' path [] None zero_Network (Some (into_struct read_Network)))))"

definition client_ListNetworks :: "'w Client \<Rightarrow> ctx option \<Rightarrow> string \<Rightarrow> ('w, Network list) client_op" where
  "client_ListNetworks cl c location =
     on_path (locationPath location ''network/networks'') (\<lambda>path.
       map_result (\<lambda>r. validatedListResponse r (\<lambda>n. validatedUUIDListIdentity (net_UUID n)))
         (do_form cl c ''GET'' path [] None None (Some (into_list read_Network zero_Network))))"

definition client_ListVMImages :: "'w Client \<Rightarrow> ctx option \<Rightarrow> ('w, VMImage list) client_op" where
  "client_ListVMImages cl c =
     map_result (\<lambda>r. validatedListResponse r (\<lambda>image. validatedRequiredListIdentity (img_OSName image)))
       (do_form cl c ''GET'' ''/v1/config/vm_images'' [] None None (Some (into_list read_VMImage zero_VMImage)))"

section \<open>Load balancers\<close>

definition lb_identity :: "LoadBalancer \<Rightarrow> error + string" where
  "lb_identity lb =
     (if TrimSpace (lb_DisplayName lb) = []
      then Inl (Plain ''inspace: load balancer list row has an empty display name'')
      else (case validateUUID (lb_NetworkUUID lb) of
          Some err \<Rightarrow> Inl err
        | None \<Rightarrow> validatedUUIDListIdentity (lb_UUID lb)))"

definition ListLoadBalancers :: "'w Client \<Rightarrow> ctx option \<Rightarrow> string \<Rightarrow> ('w, LoadBalancer list) client_op" where
  "ListLoadBalancers cl c location =
     on_path (locationPath location ''network/load_balancers'') (\<lambda>path.
       map_result (\<lambda>r. validatedListResponse r lb_identity)
         (do_form cl c ''GET'' path [] None None (Some (into_list read_LoadBalancer zero_LoadBalancer))))"

definition GetLoadBalancer :: "'w Client \<Rightarrow> ctx option \<Rightarrow> string \<Rightarrow> string \<Rightarrow> ('w, LoadBalancer) client_op" where
  "GetLoadBalancer cl c location loadBalancerUUID =
     guarded (validateUUID loadBalancerUUID)
       (on_path (locationPath location (''network/load_balancers/'' @ loadBalancerUUID)) (\<lambda>path.
         map_result (exact_result lb_UUID loadBalancerUUID)
           (do_form cl c ''GET'' path [] None zero_LoadBalancer (Some (into_struct read_LoadBalancer)))))"

fun validate_rules_from :: "int list \<Rightarrow> LoadBalancerRule list \<Rightarrow> error option" where
  "validate_rules_from seen [] = None"
| "validate_rules_from seen (rule # rules) =
     (if lbr_SourcePort rule < 1 \<or> lbr_SourcePort rule > 65535 \<or> lbr_TargetPort rule < 1 \<or> lbr_TargetPort rule > 65535
      then Some (Plain ''inspace: load balancer ports must be between 1 and 65535'')
      else if lbr_Protocol rule \<noteq> [] \<and> lbr_Protocol rule \<noteq> ''TCP''
      then Some (Plain ''inspace: load balancer supports TCP only'')
      else if lbr_SourcePort rule \<in> set seen
      then Some (Plain ''inspace: duplicate load balancer source port'')
      else validate_rules_from (lbr_SourcePort rule # seen) rules)"

definition validateRules :: "LoadBalancerRule list \<Rightarrow> error option" where
  "validateRules rules = validate_rules_from [] rules"

fun validate_targets :: "LoadBalancerTarget list \<Rightarrow> error option" where
  "validate_targets [] = None"
| "validate_targets (target # targets) =
     (if lbt_TargetType target \<noteq> ''vm'' then Some (Plain ''inspace: load balancer target type must be vm'')
      else (case validateUUID (lbt_TargetUUID target) of Some err \<Rightarrow> Some err | None \<Rightarrow> validate_targets targets))"

definition CreateLoadBalancer :: "'w Client \<Rightarrow> ctx option \<Rightarrow> string \<Rightarrow> CreateLoadBalancerRequest
    \<Rightarrow> ('w, LoadBalancer) client_op" where
  "CreateLoadBalancer cl c location input =
     (let targets = (case clb_Targets input of None \<Rightarrow> [] | Some ts \<Rightarrow> ts) in
      guarded (require (clb_DisplayName input \<noteq> []) ''inspace: load balancer display name is required'')
        (guarded (validateUUID (clb_NetworkUUID input)) (guarded (validateRules (clb_Rules input))
        (guarded (validate_targets targets)
        (on_path (locationPath location ''network/load_balancers'') (\<lambda>path.
          map_result (check_result (\<lambda>lb. validateResponseUUID (lb_UUID lb)))
            (doJSON cl c ''POST'' path []
               (Some (json_CreateLoadBalancerRequest (input\<lparr>clb_Targets := Some targets\<rparr>)))
               zero_LoadBalancer (Some (into_struct read_LoadBalancer)))))))))"

definition DeleteLoadBalancer :: "'w Client \<Rightarrow> ctx option \<Rightarrow> string \<Rightarrow> string \<Rightarrow> ('w, unit) client_op" where
  "DeleteLoadBalancer cl c location loadBalancerUUID =
     guarded (validateUUID loadBalancerUUID)
       (on_path (locationPath location (''network/load_balancers/'' @ loadBalancerUUID)) (\<lambda>path.
         doJSON cl c ''DELETE'' path [] None () None))"

definition AddLoadBalancerTarget :: "'w Client \<Rightarrow> ctx option \<Rightarrow> string \<Rightarrow> string \<Rightarrow> string
    \<Rightarrow> ('w, LoadBalancerTarget) client_op" where
  "AddLoadBalancerTarget cl c location loadBalancerUUID vmUUID =
     guarded (validateUUID loadBalancerUUID) (guarded (validateUUID vmUUID)
       (on_path (locationPath location (''network/load_balancers/'' @ loadBalancerUUID @ ''/targets'')) (\<lambda>path.
         map_result (check_result (\<lambda>t. require (lbt_TargetType t = ''vm'') ''inspace: load balancer target response type''))
           (map_result (check_result (\<lambda>t. validateExpectedResponseUUID (lbt_TargetUUID t) vmUUID))
             (doJSON cl c ''POST'' path []
                (Some (json_LoadBalancerTarget (zero_LoadBalancerTarget\<lparr>lbt_TargetUUID := vmUUID, lbt_TargetType := ''vm''\<rparr>)))
                zero_LoadBalancerTarget (Some (into_struct read_LoadBalancerTarget)))))))"

definition RemoveLoadBalancerTarget :: "'w Client \<Rightarrow> ctx option \<Rightarrow> string \<Rightarrow> string \<Rightarrow> string \<Rightarrow> ('w, unit) client_op" where
  "RemoveLoadBalancerTarget cl c location loadBalancerUUID vmUUID =
     guarded (validateUUID loadBalancerUUID) (guarded (validateUUID vmUUID)
       (on_path (locationPath location (''network/load_balancers/'' @ loadBalancerUUID @ ''/targets/'' @ vmUUID)) (\<lambda>path.
         doJSON cl c ''DELETE'' path [] None () None)))"

definition AddLoadBalancerRule :: "'w Client \<Rightarrow> ctx option \<Rightarrow> string \<Rightarrow> string \<Rightarrow> LoadBalancerRule
    \<Rightarrow> ('w, LoadBalancerRule) client_op" where
  "AddLoadBalancerRule cl c location loadBalancerUUID rule =
     (let expectedProtocol = (if lbr_Protocol rule = [] then ''TCP'' else lbr_Protocol rule) in
      guarded (validateUUID loadBalancerUUID) (guarded (validateRules [rule])
       (on_path (locationPath location (''network/load_balancers/'' @ loadBalancerUUID @ ''/forwarding_rules'')) (\<lambda>path.
         map_result (check_result (\<lambda>r. require (\<not> ((lbr_Protocol r \<noteq> [] \<and> lbr_Protocol r \<noteq> expectedProtocol)
               \<or> lbr_SourcePort r \<noteq> lbr_SourcePort rule \<or> lbr_TargetPort r \<noteq> lbr_TargetPort rule))
             ''inspace: load balancer rule response does not match requested protocol/ports''))
           (map_result (check_result (\<lambda>r. if lbr_UUID r \<noteq> [] then validateResponseUUID (lbr_UUID r) else None))
             (doJSON cl c ''POST'' path [] (Some (json_LoadBalancerRule rule))
                zero_LoadBalancerRule (Some (into_struct read_LoadBalancerRule))))))))"

definition RemoveLoadBalancerRule :: "'w Client \<Rightarrow> ctx option \<Rightarrow> string \<Rightarrow> string \<Rightarrow> string \<Rightarrow> ('w, unit) client_op" where
  "RemoveLoadBalancerRule cl c location loadBalancerUUID ruleUUID =
     guarded (validateUUID loadBalancerUUID) (guarded (validateUUID ruleUUID)
       (on_path (locationPath location (''network/load_balancers/'' @ loadBalancerUUID @ ''/forwarding_rules/'' @ ruleUUID))
         (\<lambda>path. doJSON cl c ''DELETE'' path [] None () None)))"

section \<open>Firewalls\<close>

definition fw_identity :: "Firewall \<Rightarrow> error + string" where
  "fw_identity f =
     (if TrimSpace (EffectiveName f) = [] then Inl (Plain ''inspace: firewall list row has an empty effective name'')
      else validatedUUIDListIdentity (fw_UUID f))"

definition ListFirewalls :: "'w Client \<Rightarrow> ctx option \<Rightarrow> string \<Rightarrow> ('w, Firewall list) client_op" where
  "ListFirewalls cl c location =
     on_path (locationPath location ''network/firewalls'') (\<lambda>path.
       map_result (\<lambda>r. validatedListResponse r fw_identity)
         (do_form cl c ''GET'' path [] None None (Some (into_list read_Firewall zero_Firewall))))"

definition GetFirewall :: "'w Client \<Rightarrow> ctx option \<Rightarrow> string \<Rightarrow> string \<Rightarrow> ('w, Firewall) client_op" where
  "GetFirewall cl c location firewallUUID =
     guarded (validateUUID firewallUUID)
       (on_path (locationPath location ''network/firewalls'') (\<lambda>path.
         map_result (\<lambda>r. case r of
             Inl err \<Rightarrow> Inl err
           | Inr items \<Rightarrow>
               (case find (\<lambda>f. EqualFold (fw_UUID f) firewallUUID) items of
                  Some f \<Rightarrow> Inr f
                | None \<Rightarrow> Inl (Api (plain_api_error ''GET'' path 404
                    ''firewall not found in list response; absence is not exact-authoritative'' []) None)))
           (ListFirewalls cl c location)))"

definition endpoint_ok :: "string \<Rightarrow> bool" where
  "endpoint_ok e = (ParsePrefix_ok e \<or> ParseAddr e \<noteq> None)"

definition port_ok :: "int option \<Rightarrow> bool" where
  "port_ok p = (case p of None \<Rightarrow> True | Some i \<Rightarrow> 1 \<le> i \<and> i \<le> 65535)"

definition validateFirewallRule :: "FirewallRule \<Rightarrow> error option" where
  "validateFirewallRule rule =
     (let endpoints = (case fwr_EndpointSpec rule of None \<Rightarrow> [] | Some es \<Rightarrow> es) in
      if fwr_Protocol rule \<notin> {''tcp'', ''udp'', ''icmp''}
      then Some (Plain ''inspace: firewall protocol must be tcp, udp, or icmp'')
      else if fwr_Direction rule \<noteq> ''inbound'' \<and> fwr_Direction rule \<noteq> ''outbound''
      then Some (Plain ''inspace: firewall direction must be inbound or outbound'')
      else if fwr_EndpointSpecType rule \<noteq> ''any'' \<and> fwr_EndpointSpecType rule \<noteq> ''ip_prefixes''
      then Some (Plain ''inspace: firewall endpoint spec type must be any or ip_prefixes'')
      else if fwr_EndpointSpecType rule = ''ip_prefixes'' \<and> endpoints = []
      then Some (Plain ''inspace: ip_prefixes firewall rule requires endpoint prefixes'')
      else if \<not> list_all endpoint_ok endpoints
      then Some (Plain ''inspace: firewall endpoint must be an IP address or CIDR prefix'')
      else if \<not> port_ok (fwr_PortStart rule)
      then Some (Plain ''inspace: firewall port_start must be between 1 and 65535'')
      else if \<not> port_ok (fwr_PortEnd rule)
      then Some (Plain ''inspace: firewall port_end must be between 1 and 65535'')
      else (case (fwr_PortStart rule, fwr_PortEnd rule) of
          (Some a, Some b) \<Rightarrow> if a > b then Some (Plain ''inspace: firewall port_start must not exceed port_end'') else None
        | _ \<Rightarrow> None))"

fun first_error :: "('a \<Rightarrow> error option) \<Rightarrow> 'a list \<Rightarrow> error option" where
  "first_error f [] = None"
| "first_error f (x # xs) = (case f x of Some err \<Rightarrow> Some err | None \<Rightarrow> first_error f xs)"

definition createFirewallPath :: "string \<Rightarrow> CreateFirewallRequest \<Rightarrow> error + string" where
  "createFirewallPath location input =
     (if cf_DisplayName input = [] then Inl (Plain ''inspace: firewall display name is required'')
      else if cf_Rules input = [] then Inl (Plain ''inspace: firewall must have at least one rule'')
      else fail_if (first_error validateFirewallRule (cf_Rules input)) (locationPath location ''network/firewalls''))"

definition update_rule_error :: "FirewallRule \<Rightarrow> error option" where
  "update_rule_error rule =
     (case (if fwr_UUID rule \<noteq> [] then validateUUID (fwr_UUID rule) else None) of
        Some err \<Rightarrow> Some err
      | None \<Rightarrow> validateFirewallRule rule)"

definition updateFirewallPath :: "string \<Rightarrow> string \<Rightarrow> UpdateFirewallRequest \<Rightarrow> error + string" where
  "updateFirewallPath location firewallUUID input =
     fail_if (validateUUID firewallUUID)
       (if \<not> location_ok (uf_Name input) then Inl (Plain ''inspace: firewall name must be a non-empty lowercase DNS label'')
        else if uf_Rules input = [] then Inl (Plain ''inspace: firewall must have at least one rule'')
        else fail_if (first_error update_rule_error (uf_Rules input))
          (locationPath location (''network/firewalls/'' @ firewallUUID)))"

definition firewallVMPath :: "string \<Rightarrow> string \<Rightarrow> string \<Rightarrow> error + string" where
  "firewallVMPath location firewallUUID vmUUID =
     fail_if (validateUUID firewallUUID) (fail_if (validateUUID vmUUID)
       (locationPath location (''network/firewalls/'' @ firewallUUID @ ''/vms'')))"

text \<open>The firewall mutations mark a local rejection as not dispatched.\<close>

definition on_marked_path :: "error + string \<Rightarrow> (string \<Rightarrow> ('w, 'a) client_op) \<Rightarrow> ('w, 'a) client_op" where
  "on_marked_path path op = (case path of Inl err \<Rightarrow> fail_op (mutationNotDispatched err) | Inr p \<Rightarrow> op p)"

definition CreateFirewall :: "'w Client \<Rightarrow> ctx option \<Rightarrow> string \<Rightarrow> CreateFirewallRequest \<Rightarrow> ('w, Firewall) client_op" where
  "CreateFirewall cl c location input =
     on_marked_path (createFirewallPath location input) (\<lambda>path.
       map_result (check_result (\<lambda>f. validateResponseUUID (fw_UUID f)))
         (doJSON cl c ''POST'' path [] (Some (json_CreateFirewallRequest input))
            zero_Firewall (Some (into_struct read_Firewall))))"

definition UpdateFirewall :: "'w Client \<Rightarrow> ctx option \<Rightarrow> string \<Rightarrow> string \<Rightarrow> UpdateFirewallRequest
    \<Rightarrow> ('w, Firewall) client_op" where
  "UpdateFirewall cl c location firewallUUID input =
     on_marked_path (updateFirewallPath location firewallUUID input) (\<lambda>path.
       map_result (check_result (\<lambda>f. validateExpectedResponseUUID (fw_UUID f) firewallUUID))
         (doJSON cl c ''PUT'' path [] (Some (json_UpdateFirewallRequest input))
            zero_Firewall (Some (into_struct read_Firewall))))"

definition DeleteFirewall :: "'w Client \<Rightarrow> ctx option \<Rightarrow> string \<Rightarrow> string \<Rightarrow> ('w, unit) client_op" where
  "DeleteFirewall cl c location firewallUUID =
     on_marked_path (fail_if (validateUUID firewallUUID) (locationPath location (''network/firewalls/'' @ firewallUUID)))
       (\<lambda>path. doJSON cl c ''DELETE'' path [] None () None)"

fun assignment_rows :: "string \<Rightarrow> string list \<Rightarrow> nat \<Rightarrow> FirewallResource list \<Rightarrow> error + nat" where
  "assignment_rows vmUUID seen matches [] = Inr matches"
| "assignment_rows vmUUID seen matches (row # rows) =
     (if fwres_ResourceType row \<noteq> ''vm''
      then Inl (Plain ''inspace: firewall assignment response row has another resource type'')
      else (case validateResponseUUID (fwres_ResourceUUID row) of
          Some err \<Rightarrow> Inl (Wrap ''inspace: firewall assignment response row'' [err])
        | None \<Rightarrow>
            if ToLower (fwres_ResourceUUID row) \<in> set seen
            then Inl (Plain ''inspace: firewall assignment response contains duplicate VM UUID'')
            else assignment_rows vmUUID (ToLower (fwres_ResourceUUID row) # seen)
                   (if EqualFold (fwres_ResourceUUID row) vmUUID then Suc matches else matches) rows))"

definition assignment_result :: "string \<Rightarrow> error + FirewallResource list option \<Rightarrow> error + unit" where
  "assignment_result vmUUID r =
     (case r of
        Inl err \<Rightarrow> Inl err
      | Inr rows \<Rightarrow>
          (case assignment_rows vmUUID [] 0 (case rows of None \<Rightarrow> [] | Some rs \<Rightarrow> rs) of
             Inl err \<Rightarrow> Inl err
           | Inr matches \<Rightarrow>
               if matches \<noteq> 1 then Inl (Plain ''inspace: firewall assignment response rows for requested VM'') else Inr ()))"

definition AssignFirewallToVM :: "'w Client \<Rightarrow> ctx option \<Rightarrow> string \<Rightarrow> string \<Rightarrow> string \<Rightarrow> ('w, unit) client_op" where
  "AssignFirewallToVM cl c location firewallUUID vmUUID =
     on_marked_path (firewallVMPath location firewallUUID vmUUID) (\<lambda>path.
       map_result (assignment_result vmUUID)
         (doJSON cl c ''POST'' path [(''vm_uuid'', vmUUID)] None None
            (Some (into_list read_FirewallResource zero_FirewallResource))))"

definition UnassignFirewallFromVM :: "'w Client \<Rightarrow> ctx option \<Rightarrow> string \<Rightarrow> string \<Rightarrow> string \<Rightarrow> ('w, unit) client_op" where
  "UnassignFirewallFromVM cl c location firewallUUID vmUUID =
     on_marked_path (firewallVMPath location firewallUUID vmUUID) (\<lambda>path.
       doJSON cl c ''DELETE'' path [(''vm_uuid'', vmUUID)] None () None)"

section \<open>The client as the CSI adapter's cloud interface\<close>

text \<open>The adapter calls with a context; a pointer result without an error is not nil.\<close>

definition pointer_result :: "('w, 'a) client_op \<Rightarrow> ('w, 'a option) client_op" where
  "pointer_result op = map_result (\<lambda>r. case r of Inl err \<Rightarrow> Inl err | Inr x \<Rightarrow> Inr (Some x)) op"

definition error_result :: "('w, unit) client_op \<Rightarrow> 'w \<Rightarrow> (error option) \<times> nat \<times> 'w" where
  "error_result op w = (case op w of (Inl err, d, w') \<Rightarrow> (Some err, d, w') | (Inr _, d, w') \<Rightarrow> (None, d, w'))"

definition client_api :: "'w Client \<Rightarrow> 'w API" where
  "client_api cl =
     \<lparr>api_CreateDisk = (\<lambda>c loc req. pointer_result (client_CreateDisk cl (Some c) loc req)),
      api_GetDisk = (\<lambda>c loc u. pointer_result (client_GetDisk cl (Some c) loc u)),
      api_ListDisks = (\<lambda>c loc. client_ListDisks cl (Some c) loc),
      api_DeleteDisk = (\<lambda>c loc u. error_result (client_DeleteDisk cl (Some c) loc u)),
      api_ListVMs = (\<lambda>c loc. client_ListVMs cl (Some c) loc),
      api_GetVM = (\<lambda>c loc u. pointer_result (client_GetVM cl (Some c) loc u)),
      api_GetNetwork = (\<lambda>c loc u. pointer_result (client_GetNetwork cl (Some c) loc u)),
      api_AttachDisk = (\<lambda>c loc vm u. pointer_result (client_AttachDisk cl (Some c) loc vm u)),
      api_DetachDisk = (\<lambda>c loc vm u. error_result (client_DetachDisk cl (Some c) loc vm u)),
      api_ResizeAttachedDisk = (\<lambda>c loc vm u n. pointer_result (client_ResizeAttachedDisk cl (Some c) loc vm u n))\<rparr>"

end
