(* ===== verification/Client_FloatingIP.thy ===== *)
theory Client_FloatingIP
  imports Client_Services
begin

text \<open>
  Floating IPs (\<^verbatim>\<open>modules/client/floatingip.go\<close> and the struct in \<^verbatim>\<open>types.go\<close>). The live API may leave the
  whole assignment tuple of an address out of a response. Such a sparse response says nothing about
  the assignment on its own: the client believes it only when the other read endpoint gives the same
  stable identity, and it keeps a private mark on the value that this happened.
\<close>

section \<open>The struct\<close>

record FloatingIP =
  fip_UUID :: string
  fip_ID :: int
  fip_Address :: string
  fip_UserID :: int
  fip_BillingAccountID :: int
  fip_Type :: string
  fip_Name :: string
  fip_Enabled :: bool
  fip_IsDeleted :: bool
  fip_IsIPv6 :: bool
  fip_IsVirtual :: bool
  fip_AssignedTo :: string
  fip_AssignedToResourceType :: string
  fip_AssignedToPrivateIP :: string
  fip_CreatedAt :: string
  fip_UpdatedAt :: string
  fip_UnassignedAt :: string
  fip_assignedToPresent :: bool
  fip_assignedTypePresent :: bool
  fip_assignedPrivatePresent :: bool
  fip_assignmentCorroborated :: bool
  fip_stableIdentityPresent :: bool
  fip_isIPv6Present :: bool
  fip_isVirtualPresent :: bool

record CreateFloatingIPRequest =
  cfi_Name :: string
  cfi_BillingAccountID :: int

record UpdateFloatingIPRequest =
  ufi_Name :: string
  ufi_BillingAccountID :: int

record FloatingIPFilters =
  ff_BillingAccountID :: int
  ff_VMUUID :: string

definition zero_FloatingIP :: FloatingIP where
  "zero_FloatingIP = \<lparr>fip_UUID = [], fip_ID = 0, fip_Address = [], fip_UserID = 0, fip_BillingAccountID = 0,
     fip_Type = [], fip_Name = [], fip_Enabled = False, fip_IsDeleted = False, fip_IsIPv6 = False,
     fip_IsVirtual = False, fip_AssignedTo = [], fip_AssignedToResourceType = [], fip_AssignedToPrivateIP = [],
     fip_CreatedAt = [], fip_UpdatedAt = [], fip_UnassignedAt = [], fip_assignedToPresent = False,
     fip_assignedTypePresent = False, fip_assignedPrivatePresent = False, fip_assignmentCorroborated = False,
     fip_stableIdentityPresent = False, fip_isIPv6Present = False, fip_isVirtualPresent = False\<rparr>"

definition read_FloatingIP :: "(string \<times> json) list \<Rightarrow> FloatingIP \<Rightarrow> error + FloatingIP" where
  "read_FloatingIP ms x = do_fields x
     [set_field string_field ''uuid'' ms fip_UUID (\<lambda>v x. x\<lparr>fip_UUID := v\<rparr>),
      set_field (int_field (2 ^ 63)) ''id'' ms fip_ID (\<lambda>v x. x\<lparr>fip_ID := v\<rparr>),
      set_field string_field ''address'' ms fip_Address (\<lambda>v x. x\<lparr>fip_Address := v\<rparr>),
      set_field (int_field (2 ^ 63)) ''user_id'' ms fip_UserID (\<lambda>v x. x\<lparr>fip_UserID := v\<rparr>),
      set_field (int_field (2 ^ 63)) ''billing_account_id'' ms fip_BillingAccountID (\<lambda>v x. x\<lparr>fip_BillingAccountID := v\<rparr>),
      set_field string_field ''type'' ms fip_Type (\<lambda>v x. x\<lparr>fip_Type := v\<rparr>),
      set_field string_field ''name'' ms fip_Name (\<lambda>v x. x\<lparr>fip_Name := v\<rparr>),
      set_field bool_field ''enabled'' ms fip_Enabled (\<lambda>v x. x\<lparr>fip_Enabled := v\<rparr>),
      set_field bool_field ''is_deleted'' ms fip_IsDeleted (\<lambda>v x. x\<lparr>fip_IsDeleted := v\<rparr>),
      set_field bool_field ''is_ipv6'' ms fip_IsIPv6 (\<lambda>v x. x\<lparr>fip_IsIPv6 := v\<rparr>),
      set_field bool_field ''is_virtual'' ms fip_IsVirtual (\<lambda>v x. x\<lparr>fip_IsVirtual := v\<rparr>),
      set_field string_field ''assigned_to'' ms fip_AssignedTo (\<lambda>v x. x\<lparr>fip_AssignedTo := v\<rparr>),
      set_field string_field ''assigned_to_resource_type'' ms fip_AssignedToResourceType
        (\<lambda>v x. x\<lparr>fip_AssignedToResourceType := v\<rparr>),
      set_field string_field ''assigned_to_private_ip'' ms fip_AssignedToPrivateIP
        (\<lambda>v x. x\<lparr>fip_AssignedToPrivateIP := v\<rparr>),
      set_field string_field ''created_at'' ms fip_CreatedAt (\<lambda>v x. x\<lparr>fip_CreatedAt := v\<rparr>),
      set_field string_field ''updated_at'' ms fip_UpdatedAt (\<lambda>v x. x\<lparr>fip_UpdatedAt := v\<rparr>),
      set_field string_field ''unassigned_at'' ms fip_UnassignedAt (\<lambda>v x. x\<lparr>fip_UnassignedAt := v\<rparr>)]"

definition canonicalFloatingIPResponseFields :: "string list" where
  "canonicalFloatingIPResponseFields =
    [''uuid'', ''id'', ''address'', ''user_id'', ''billing_account_id'', ''type'', ''name'', ''enabled'', ''is_deleted'',
     ''is_ipv6'', ''is_virtual'', ''assigned_to'', ''assigned_to_resource_type'', ''assigned_to_private_ip'',
     ''created_at'', ''updated_at'', ''unassigned_at'']"

definition stable_fields :: "string list" where
  "stable_fields = [''uuid'', ''id'', ''address'', ''user_id'', ''billing_account_id'', ''type'', ''name'', ''enabled'',
     ''is_deleted'', ''is_ipv6'', ''created_at'', ''updated_at'']"

text \<open>
  \<^verbatim>\<open>FloatingIP.UnmarshalJSON\<close>: the struct without methods is decoded from its zero value, then the
  names of the members are looked at. It is called for \<^verbatim>\<open>null\<close> too, where no member is present.
\<close>

definition UnmarshalJSON_FloatingIP :: "json \<Rightarrow> FloatingIP \<Rightarrow> error + FloatingIP" where
  "UnmarshalJSON_FloatingIP v old =
     attempt_ok (into_struct read_FloatingIP v zero_FloatingIP) (\<lambda>decoded.
       let ms = (case v of JObj ms \<Rightarrow> ms | _ \<Rightarrow> []); fields = map_of (rev ms) in
       if list_ex (\<lambda>(key, _). list_ex (\<lambda>canonical. key \<noteq> canonical \<and> EqualFold key canonical)
            canonicalFloatingIPResponseFields) ms
       then Inl (Plain ''inspace: non-canonical floating IP response field'')
       else Inr (decoded\<lparr>
         fip_assignedToPresent := fields ''assigned_to'' \<noteq> None,
         fip_assignedTypePresent := fields ''assigned_to_resource_type'' \<noteq> None,
         fip_assignedPrivatePresent := fields ''assigned_to_private_ip'' \<noteq> None,
         fip_isIPv6Present := fields ''is_ipv6'' \<noteq> None,
         fip_isVirtualPresent := fields ''is_virtual'' \<noteq> None,
         fip_stableIdentityPresent :=
           list_all (\<lambda>f. fields f \<noteq> None \<and> fields f \<noteq> Some JNull) stable_fields\<rparr>))"

section \<open>Validation\<close>

definition global_unicast4 :: "nat \<times> nat \<times> nat \<times> nat \<Rightarrow> bool" where
  "global_unicast4 q = (case q of (a, b, c, d) \<Rightarrow>
     q \<noteq> (0, 0, 0, 0) \<and> q \<noteq> (255, 255, 255, 255) \<and> a \<noteq> 127 \<and> \<not> (224 \<le> a \<and> a \<le> 239) \<and> \<not> (a = 169 \<and> b = 254))"

definition private4 :: "nat \<times> nat \<times> nat \<times> nat \<Rightarrow> bool" where
  "private4 q = (case q of (a, b, c, d) \<Rightarrow> a = 10 \<or> (a = 172 \<and> 16 \<le> b \<and> b \<le> 31) \<or> (a = 192 \<and> b = 168))"

definition validatePublicIPv4 :: "string \<Rightarrow> error option" where
  "validatePublicIPv4 v =
     (case ParseAddr v of
        Some (Addr4 q) \<Rightarrow> if global_unicast4 q \<and> \<not> private4 q then None
          else Some (Plain ''inspace: floating IP address must be a public IPv4 address'')
      | _ \<Rightarrow> Some (Plain ''inspace: floating IP address must be a public IPv4 address''))"

definition validateFloatingIPBaseIdentity :: "FloatingIP \<Rightarrow> string \<Rightarrow> error option" where
  "validateFloatingIPBaseIdentity result expectedAddress =
     (case validatePublicIPv4 (fip_Address result) of
        Some err \<Rightarrow> Some (Wrap ''inspace: malformed floating IP response identity'' [err])
      | None \<Rightarrow>
          if expectedAddress \<noteq> [] \<and> fip_Address result \<noteq> expectedAddress
          then Some (Plain ''inspace: floating IP response address does not match expected address'')
          else if fip_UUID result \<noteq> [] then validateResponseUUID (fip_UUID result)
          else None)"

definition validateFloatingIPStableAuthority :: "FloatingIP \<Rightarrow> bool \<Rightarrow> error option" where
  "validateFloatingIPStableAuthority result allowDeleted =
     (case validateFloatingIPBaseIdentity result [] of
        Some err \<Rightarrow> Some err
      | None \<Rightarrow>
          if \<not> fip_stableIdentityPresent result
          then Some (Plain ''inspace: floating IP response omits a required stable identity field'')
          else if fip_UUID result = [] then Some (Plain ''inspace: floating IP response has no UUID authority'')
          else if fip_ID result < 1 \<or> fip_UserID result < 1 \<or> fip_BillingAccountID result < 1
          then Some (Plain ''inspace: floating IP response has incomplete numeric identity'')
          else if fip_Type result \<noteq> ''public'' then Some (Plain ''inspace: floating IP response has non-public type'')
          else if \<not> fip_isIPv6Present result \<or> fip_IsIPv6 result
          then Some (Plain ''inspace: public IPv4 response has missing or true is_ipv6'')
          else if fip_IsDeleted result \<and> \<not> allowDeleted then Some (Plain ''inspace: floating IP response is deleted'')
          else if TrimSpace (fip_CreatedAt result) = [] \<or> TrimSpace (fip_UpdatedAt result) = []
          then Some (Plain ''inspace: floating IP response has incomplete creation/update identity'')
          else None)"

definition validateSparseFloatingIPAuthority :: "FloatingIP \<Rightarrow> bool \<Rightarrow> error option" where
  "validateSparseFloatingIPAuthority result allowDeleted =
     (case validateFloatingIPStableAuthority result allowDeleted of
        Some err \<Rightarrow> Some err
      | None \<Rightarrow>
          if fip_assignedToPresent result \<or> fip_assignedTypePresent result \<or> fip_assignedPrivatePresent result
             \<or> fip_AssignedTo result \<noteq> [] \<or> fip_AssignedToResourceType result \<noteq> [] \<or> fip_AssignedToPrivateIP result \<noteq> []
          then Some (Plain ''inspace: floating IP response is not a wholly sparse assignment tuple'')
          else None)"

definition resource_type_ok :: "string \<Rightarrow> bool" where
  "resource_type_ok t = (t \<in> {''virtual_machine'', ''service'', ''load_balancer''})"

definition private_address_ok :: "string \<Rightarrow> bool" where
  "private_address_ok v = (case ParseAddr v of Some (Addr4 q) \<Rightarrow> private4 q | _ \<Rightarrow> False)"

definition validateFloatingIPResponseIdentity :: "FloatingIP \<Rightarrow> string \<Rightarrow> bool \<Rightarrow> error option" where
  "validateFloatingIPResponseIdentity result expectedAddress allowOmittedUnassigned =
     (case validateFloatingIPBaseIdentity result expectedAddress of
        Some err \<Rightarrow> Some err
      | None \<Rightarrow>
          if \<not> fip_assignedToPresent result then
            (if fip_AssignedTo result \<noteq> [] \<or> fip_assignedTypePresent result \<or> fip_AssignedToResourceType result \<noteq> []
                \<or> fip_assignedPrivatePresent result \<or> fip_AssignedToPrivateIP result \<noteq> []
             then Some (Plain ''inspace: malformed omitted-assignment floating IP response'')
             else if allowOmittedUnassigned \<and> fip_UnassignedAt result \<noteq> [] then None
             else if allowOmittedUnassigned \<and> fip_assignmentCorroborated result then None
             else if allowOmittedUnassigned \<and> fip_IsDeleted result then validateSparseFloatingIPAuthority result True
             else Some (Wrap ''omitted without authoritative unassignment'' [Sentinel ErrSparseFloatingIPAssignment]))
          else if fip_AssignedTo result = [] then
            (if fip_AssignedToResourceType result \<noteq> [] \<or> fip_AssignedToPrivateIP result \<noteq> []
             then Some (Plain ''inspace: malformed unassigned floating IP response'') else None)
          else if \<not> fip_assignedTypePresent result
          then Some (Plain ''inspace: malformed assigned floating IP response: assigned_to_resource_type field is omitted'')
          else (case validateResponseUUID (fip_AssignedTo result) of
              Some err \<Rightarrow> Some err
            | None \<Rightarrow>
                if \<not> resource_type_ok (fip_AssignedToResourceType result)
                then Some (Plain ''inspace: malformed floating IP response resource type'')
                else if fip_AssignedToPrivateIP result \<noteq> [] \<and> \<not> private_address_ok (fip_AssignedToPrivateIP result)
                then Some (Plain ''inspace: malformed floating IP response private address'')
                else None))"

definition fip_list_identity :: "FloatingIP \<Rightarrow> error + string" where
  "fip_list_identity address =
     (case validateFloatingIPBaseIdentity address [] of
        Some err \<Rightarrow> Inl err
      | None \<Rightarrow>
          (case validateFloatingIPResponseIdentity address [] True of
             None \<Rightarrow> Inr (fip_Address address)
           | Some assignmentErr \<Rightarrow>
               if \<not> errors_is ErrSparseFloatingIPAssignment assignmentErr then Inl assignmentErr
               else Inr (fip_Address address)))"

definition validateFloatingIPCollectionShape :: "error + FloatingIP list option \<Rightarrow> error + FloatingIP list" where
  "validateFloatingIPCollectionShape r = validatedListResponse r fip_list_identity"

definition validateFloatingIPStableReadback_with :: "FloatingIP \<Rightarrow> bool \<Rightarrow> error option" where
  "validateFloatingIPStableReadback_with result allowMissingIsVirtual =
     (case validateFloatingIPStableAuthority result False of
        Some err \<Rightarrow> Some err
      | None \<Rightarrow>
          if \<not> fip_isVirtualPresent result \<and> \<not> allowMissingIsVirtual
          then Some (Plain ''inspace: floating IP response omits is_virtual'')
          else validateFloatingIPResponseIdentity result (fip_Address result) False)"

definition ValidateFloatingIPStableReadback :: "FloatingIP \<Rightarrow> error option" where
  "ValidateFloatingIPStableReadback result = validateFloatingIPStableReadback_with result False"

definition ValidateFloatingIPStableReadbackMatch :: "FloatingIP \<Rightarrow> FloatingIP \<Rightarrow> error option" where
  "ValidateFloatingIPStableReadbackMatch exact listed =
     (if fip_isVirtualPresent exact \<noteq> fip_isVirtualPresent listed
      then Some (Plain ''inspace: exact and list floating IP identities disagree on is_virtual presence'')
      else
        let allowMissingIsVirtual = (\<not> fip_isVirtualPresent exact) in
        case validateFloatingIPStableReadback_with exact allowMissingIsVirtual of
          Some err \<Rightarrow> Some (Wrap ''exact floating IP identity is incomplete'' [err])
        | None \<Rightarrow>
            (case validateFloatingIPStableReadback_with listed allowMissingIsVirtual of
               Some err \<Rightarrow> Some (Wrap ''listed floating IP identity is incomplete'' [err])
             | None \<Rightarrow>
                 if exact \<noteq> listed then Some (Plain ''inspace: exact and list floating IP identities disagree'') else None))"

definition same_stable_identity :: "FloatingIP \<Rightarrow> FloatingIP \<Rightarrow> bool" where
  "same_stable_identity left right \<longleftrightarrow>
     fip_Address left = fip_Address right \<and> EqualFold (fip_UUID left) (fip_UUID right) \<and> fip_ID left = fip_ID right
     \<and> fip_UserID left = fip_UserID right \<and> fip_BillingAccountID left = fip_BillingAccountID right
     \<and> fip_Type left = fip_Type right \<and> fip_Name left = fip_Name right \<and> fip_Enabled left = fip_Enabled right
     \<and> fip_IsDeleted left = fip_IsDeleted right \<and> fip_IsIPv6 left = fip_IsIPv6 right
     \<and> fip_isIPv6Present left = fip_isIPv6Present right \<and> fip_IsVirtual left = fip_IsVirtual right
     \<and> fip_isVirtualPresent left = fip_isVirtualPresent right \<and> fip_CreatedAt left = fip_CreatedAt right
     \<and> fip_UpdatedAt left = fip_UpdatedAt right"

definition validateFloatingIPStableIdentityMatch :: "FloatingIP \<Rightarrow> FloatingIP \<Rightarrow> error option" where
  "validateFloatingIPStableIdentityMatch left right =
     (case validateSparseFloatingIPAuthority left False of
        Some err \<Rightarrow> Some (Wrap ''primary sparse representation is not authoritative'' [err])
      | None \<Rightarrow>
          (case validateFloatingIPStableAuthority right False of
             Some err \<Rightarrow> Some (Wrap ''corroborating floating IP representation is not authoritative'' [err])
           | None \<Rightarrow> if \<not> same_stable_identity left right
                     then Some (Plain ''inspace: floating IP sparse-read identity mismatch'') else None))"

definition corroborateSparseFloatingIP :: "FloatingIP \<Rightarrow> FloatingIP \<Rightarrow> error + FloatingIP" where
  "corroborateSparseFloatingIP primary corroborating =
     fail_if (validateFloatingIPStableIdentityMatch primary corroborating)
       (case validateFloatingIPResponseIdentity corroborating (fip_Address primary) True of
          None \<Rightarrow> Inr corroborating
        | Some assignmentErr \<Rightarrow>
            if \<not> errors_is ErrSparseFloatingIPAssignment assignmentErr then Inl assignmentErr
            else Inr (corroborating\<lparr>fip_assignmentCorroborated := True\<rparr>))"

section \<open>Reads\<close>

text \<open>Two calls in sequence: the second sees the result of the first.\<close>

definition bind_op :: "('w, 'a) client_op \<Rightarrow> (error + 'a \<Rightarrow> ('w, 'b) client_op) \<Rightarrow> ('w, 'b) client_op" where
  "bind_op op k w = (case op w of (r, d, w') \<Rightarrow> (case k r w' of (s, e, w'') \<Rightarrow> (s, d + e, w'')))"

definition pure_op :: "error + 'a \<Rightarrow> ('w, 'a) client_op" where
  "pure_op r w = (r, 0, w)"

definition then_op :: "('w, 'a) client_op \<Rightarrow> ('a \<Rightarrow> ('w, 'b) client_op) \<Rightarrow> ('w, 'b) client_op" where
  "then_op op k = bind_op op (\<lambda>r. case r of Inl err \<Rightarrow> pure_op (Inl err) | Inr x \<Rightarrow> k x)"

definition wrap_error :: "string \<Rightarrow> error + 'a \<Rightarrow> error + 'a" where
  "wrap_error m r = (case r of Inl err \<Rightarrow> Inl (Wrap m [err]) | Inr x \<Rightarrow> Inr x)"

definition listFloatingIPsRaw :: "'w Client \<Rightarrow> ctx option \<Rightarrow> string \<Rightarrow> FloatingIPFilters option
    \<Rightarrow> ('w, FloatingIP list option) client_op" where
  "listFloatingIPsRaw cl c location filters =
     on_path (locationPath location ''network/ip_addresses'') (\<lambda>path.
       case filters of
         None \<Rightarrow> do_form cl c ''GET'' path [] None None (Some (into_nil_slice UnmarshalJSON_FloatingIP zero_FloatingIP))
       | Some f \<Rightarrow>
           let query = (if ff_BillingAccountID f \<noteq> 0 then [(''billing_account_id'', show_int (ff_BillingAccountID f))] else [])
           in guarded (if ff_VMUUID f \<noteq> [] then validateUUID (ff_VMUUID f) else None)
                (do_form cl c ''GET'' path (if ff_VMUUID f \<noteq> [] then Values_Set ''vm_uuid'' (ff_VMUUID f) query else query)
                   None None (Some (into_nil_slice UnmarshalJSON_FloatingIP zero_FloatingIP))))"

definition bind_address_error :: "string \<Rightarrow> error + 'a \<Rightarrow> error + 'a" where
  "bind_address_error address r =
     (case r of Inl err \<Rightarrow> Inl (bindExactFloatingIPLookupError err address) | Inr x \<Rightarrow> Inr x)"

definition getFloatingIPRaw :: "'w Client \<Rightarrow> ctx option \<Rightarrow> string \<Rightarrow> string \<Rightarrow> ('w, FloatingIP) client_op" where
  "getFloatingIPRaw cl c location address =
     guarded (validatePublicIPv4 address)
       (on_path (locationPath location (''network/ip_addresses/'' @ address)) (\<lambda>path.
         map_result (bind_address_error address)
           (do_form cl c ''GET'' path [] None zero_FloatingIP (Some UnmarshalJSON_FloatingIP))))"

definition resolveSparseFloatingIPWithExactRead :: "'w Client \<Rightarrow> ctx option \<Rightarrow> string \<Rightarrow> FloatingIP
    \<Rightarrow> ('w, FloatingIP) client_op" where
  "resolveSparseFloatingIPWithExactRead cl c location listed =
     guarded (validateSparseFloatingIPAuthority listed False)
       (then_op (map_result (wrap_error ''reading exact floating IP'') (getFloatingIPRaw cl c location (fip_Address listed)))
         (\<lambda>exact. pure_op (corroborateSparseFloatingIP listed exact)))"

definition unique_match :: "FloatingIP \<Rightarrow> FloatingIP list \<Rightarrow> error + FloatingIP" where
  "unique_match exact listed =
     (case filter (\<lambda>f. fip_Address f = fip_Address exact) listed of
        [] \<Rightarrow> Inl (Plain ''floating IP is absent from corroborating collection'')
      | [f] \<Rightarrow> Inr f
      | _ \<Rightarrow> Inl (Plain ''floating IP appears more than once in corroborating collection''))"

definition resolveSparseFloatingIPWithListRead :: "'w Client \<Rightarrow> ctx option \<Rightarrow> string \<Rightarrow> FloatingIP
    \<Rightarrow> ('w, FloatingIP) client_op" where
  "resolveSparseFloatingIPWithListRead cl c location exact =
     guarded (validateSparseFloatingIPAuthority exact False)
       (then_op (map_result (\<lambda>r. wrap_error ''reading floating IP collection for corroboration''
                              (validateFloatingIPCollectionShape r))
                  (listFloatingIPsRaw cl c location
                     (Some \<lparr>ff_BillingAccountID = fip_BillingAccountID exact, ff_VMUUID = []\<rparr>)))
         (\<lambda>listed. pure_op (attempt_ok (unique_match exact listed) (corroborateSparseFloatingIP exact))))"

definition GetFloatingIP :: "'w Client \<Rightarrow> ctx option \<Rightarrow> string \<Rightarrow> string \<Rightarrow> ('w, FloatingIP) client_op" where
  "GetFloatingIP cl c location address =
     then_op (getFloatingIPRaw cl c location address) (\<lambda>result.
       case validateFloatingIPResponseIdentity result address True of
         None \<Rightarrow> pure_op (Inr result)
       | Some identityErr \<Rightarrow>
           if \<not> errors_is ErrSparseFloatingIPAssignment identityErr then pure_op (Inl identityErr)
           else map_result (wrap_error ''inspace: exact floating IP returned a sparse assignment tuple'')
                  (resolveSparseFloatingIPWithListRead cl c location result))"

fun resolve_rows :: "'w Client \<Rightarrow> ctx option \<Rightarrow> string \<Rightarrow> FloatingIP list \<Rightarrow> ('w, FloatingIP list) client_op" where
  "resolve_rows cl c location [] = pure_op (Inr [])"
| "resolve_rows cl c location (f # fs) =
     (case validateFloatingIPResponseIdentity f [] True of
        None \<Rightarrow> then_op (resolve_rows cl c location fs) (\<lambda>gs. pure_op (Inr (f # gs)))
      | Some identityErr \<Rightarrow>
          if \<not> errors_is ErrSparseFloatingIPAssignment identityErr
          then pure_op (Inl (Wrap ''invalid list element identity'' [identityErr]))
          else then_op (map_result (wrap_error ''sparse list element could not be authoritatively resolved'')
                 (resolveSparseFloatingIPWithExactRead cl c location f))
               (\<lambda>g. then_op (resolve_rows cl c location fs) (\<lambda>gs. pure_op (Inr (g # gs)))))"

definition filter_error :: "FloatingIPFilters \<Rightarrow> FloatingIP \<Rightarrow> error option" where
  "filter_error f x =
     (if ff_BillingAccountID f \<noteq> 0 \<and> fip_BillingAccountID x \<noteq> ff_BillingAccountID f
      then Some (Plain ''list element belongs to another billing account'')
      else if ff_VMUUID f \<noteq> [] \<and> (\<not> EqualFold (fip_AssignedTo x) (ff_VMUUID f)
           \<or> fip_AssignedToResourceType x \<noteq> ''virtual_machine'')
      then Some (Plain ''list element does not belong to filtered VM'')
      else None)"

definition ListFloatingIPs :: "'w Client \<Rightarrow> ctx option \<Rightarrow> string \<Rightarrow> FloatingIPFilters option
    \<Rightarrow> ('w, FloatingIP list) client_op" where
  "ListFloatingIPs cl c location filters =
     then_op (map_result validateFloatingIPCollectionShape (listFloatingIPsRaw cl c location filters)) (\<lambda>rows.
       then_op (resolve_rows cl c location rows) (\<lambda>result.
         pure_op (fail_if (case filters of None \<Rightarrow> None | Some f \<Rightarrow> first_error (filter_error f) result) (Inr result))))"

section \<open>Mutations\<close>

definition CreateFloatingIP :: "'w Client \<Rightarrow> ctx option \<Rightarrow> string \<Rightarrow> CreateFloatingIPRequest
    \<Rightarrow> ('w, FloatingIP) client_op" where
  "CreateFloatingIP cl c location input =
     guarded (require (cfi_BillingAccountID input \<ge> 1) ''inspace: floating IP billing account ID is required'')
      (on_path (locationPath location ''network/ip_addresses'') (\<lambda>path.
        then_op (doJSON cl c ''POST'' path []
             (Some (JObj (omit_string ''name'' (cfi_Name input)
                @ [(''billing_account_id'', JInt (cfi_BillingAccountID input))])))
             zero_FloatingIP (Some UnmarshalJSON_FloatingIP)) (\<lambda>result.
          let identityErr = validateFloatingIPResponseIdentity result [] False in
          if identityErr \<noteq> None \<and> \<not> is_opt ErrSparseFloatingIPAssignment identityErr then pure_op (Inl (the identityErr))
          else (case validateFloatingIPStableAuthority result False of
              Some err \<Rightarrow> pure_op (Inl (Wrap ''inspace: floating IP creation response is not authoritative'' [err]))
            | None \<Rightarrow>
                if fip_BillingAccountID result \<noteq> cfi_BillingAccountID input \<or> fip_Name result \<noteq> cfi_Name input
                then pure_op (Inl (Plain ''inspace: floating IP creation response metadata does not match requested metadata''))
                else if identityErr = None then
                  (if fip_AssignedTo result \<noteq> [] \<or> fip_AssignedToResourceType result \<noteq> []
                      \<or> fip_AssignedToPrivateIP result \<noteq> []
                   then pure_op (Inl (Plain ''inspace: floating IP creation response unexpectedly reports assignment''))
                   else pure_op (Inr result))
                else
                  then_op (map_result (wrap_error ''inspace: sparse floating IP creation response could not be corroborated'')
                      (GetFloatingIP cl c location (fip_Address result)))
                    (\<lambda>readback. pure_op (wrap_error ''inspace: sparse floating IP creation response disagrees with readback''
                      (corroborateSparseFloatingIP result readback)))))))"

definition UpdateFloatingIP :: "'w Client \<Rightarrow> ctx option \<Rightarrow> string \<Rightarrow> string \<Rightarrow> UpdateFloatingIPRequest
    \<Rightarrow> ('w, FloatingIP) client_op" where
  "UpdateFloatingIP cl c location address input =
     guarded (validatePublicIPv4 address)
      (guarded (require (ufi_Name input \<noteq> []) ''inspace: floating IP name is required'')
      (guarded (require (ufi_BillingAccountID input \<ge> 1) ''inspace: floating IP billing account ID is required'')
      (on_path (locationPath location (''network/ip_addresses/'' @ address)) (\<lambda>path.
        map_result (check_result (\<lambda>f. validateFloatingIPResponseIdentity f address False))
          (doJSON cl c ''PATCH'' path []
             (Some (JObj [(''name'', JStr (ufi_Name input)), (''billing_account_id'', JInt (ufi_BillingAccountID input))]))
             zero_FloatingIP (Some UnmarshalJSON_FloatingIP))))))"

definition AssignFloatingIP :: "'w Client \<Rightarrow> ctx option \<Rightarrow> string \<Rightarrow> string \<Rightarrow> string \<Rightarrow> string
    \<Rightarrow> ('w, FloatingIP) client_op" where
  "AssignFloatingIP cl c location address resourceUUID resourceType =
     guarded (validatePublicIPv4 address) (guarded (validateUUID resourceUUID)
      (guarded (require (resource_type_ok resourceType)
          ''inspace: floating IP resource type must be virtual_machine, service, or load_balancer'')
      (on_path (locationPath location (''network/ip_addresses/'' @ address @ ''/assign'')) (\<lambda>path.
        map_result (check_result (\<lambda>f. require (EqualFold (fip_AssignedTo f) resourceUUID
             \<and> fip_AssignedToResourceType f = resourceType)
             ''inspace: floating IP assignment response does not match requested resource''))
          (map_result (check_result (\<lambda>f. validateFloatingIPResponseIdentity f address False))
            (doJSON cl c ''POST'' path []
               (Some (JObj [(''assigned_to'', JStr resourceUUID), (''assigned_to_resource_type'', JStr resourceType)]))
               zero_FloatingIP (Some UnmarshalJSON_FloatingIP)))))))"

definition still_assigned :: "FloatingIP \<Rightarrow> error + FloatingIP" where
  "still_assigned result =
     (if fip_AssignedTo result \<noteq> [] \<or> fip_AssignedToResourceType result \<noteq> [] \<or> fip_AssignedToPrivateIP result \<noteq> []
      then Inl (Plain ''inspace: floating IP unassignment response/readback still reports resource'') else Inr result)"

definition UnassignFloatingIP :: "'w Client \<Rightarrow> ctx option \<Rightarrow> string \<Rightarrow> string \<Rightarrow> ('w, FloatingIP) client_op" where
  "UnassignFloatingIP cl c location address =
     guarded (validatePublicIPv4 address)
      (on_path (locationPath location (''network/ip_addresses/'' @ address @ ''/unassign'')) (\<lambda>path.
        then_op (doJSON cl c ''POST'' path [] None zero_FloatingIP (Some UnmarshalJSON_FloatingIP)) (\<lambda>result.
          case validateFloatingIPResponseIdentity result address False of
            None \<Rightarrow> pure_op (still_assigned result)
          | Some identityErr \<Rightarrow>
              if \<not> errors_is ErrSparseFloatingIPAssignment identityErr then pure_op (Inl identityErr)
              else (case validateSparseFloatingIPAuthority result False of
                  Some err \<Rightarrow> pure_op (Inl (Wrap ''inspace: sparse floating IP unassignment response is not authoritative'' [err]))
                | None \<Rightarrow>
                    then_op (map_result (wrap_error ''inspace: sparse floating IP unassignment response could not be corroborated'')
                        (GetFloatingIP cl c location address))
                      (\<lambda>readback. pure_op (attempt_ok
                         (wrap_error ''inspace: sparse floating IP unassignment response disagrees with readback''
                            (corroborateSparseFloatingIP result readback)) still_assigned))))))"

definition DeleteFloatingIP :: "'w Client \<Rightarrow> ctx option \<Rightarrow> string \<Rightarrow> string \<Rightarrow> ('w, unit) client_op" where
  "DeleteFloatingIP cl c location address =
     guarded (validatePublicIPv4 address)
      (on_path (locationPath location (''network/ip_addresses/'' @ address)) (\<lambda>path.
        doJSON cl c ''DELETE'' path [] None () None))"

end
