(* ===== verification/Client_Routes.thy ===== *)
theory Client_Routes
  imports Client_FloatingIP
begin

text \<open>
  The endpoint contract table against the operations: every route an operation uses is registered,
  with the kind of body the operation expects. The table is unambiguous, so its order does not
  matter.
\<close>

section \<open>Paths and their parts\<close>

lemma split_on_single: "d \<notin> set a \<Longrightarrow> split_on d a = [a]"
  by (induction a) auto

lemma split_on_Cons: "d \<notin> set a \<Longrightarrow> split_on d (a @ d # b) = a # split_on d b"
  by (induction a) auto

lemma location_no_slash: "location_ok l \<Longrightarrow> CHR ''/'' \<notin> set l"
  by (rule safe_string_facts(5)[OF location_safe])

lemma uuid_any_no_slash: "uuid_any u \<Longrightarrow> CHR ''/'' \<notin> set u"
proof -
  assume "uuid_any u"
  then have "list_all (\<lambda>c. is_hex_any c \<or> is_dash c) u"
    unfolding uuid_any_def by (rule match_classes_set) (simp add: uuid_classes_def list_all_iff)
  then show ?thesis by (induction u) (auto simp: is_hex_any_def is_dash_def)
qed

text \<open>An address that passed the check is a dotted quad.\<close>

lemma set_split_on: "c \<in> set s \<Longrightarrow> c \<noteq> d \<Longrightarrow> \<exists>p \<in> set (split_on d s). c \<in> set p"
proof (induction s)
  case (Cons x s)
  then show ?case by (cases "split_on d s") auto
qed simp

lemma parse_ipv4_no_slash: "parse_ipv4 s = Some q \<Longrightarrow> CHR ''/'' \<notin> set s"
proof
  assume p: "parse_ipv4 s = Some q" and m: "CHR ''/'' \<in> set s"
  then obtain part where "part \<in> set (split_on CHR ''.'' s)" "CHR ''/'' \<in> set part"
    using set_split_on[OF m] by auto
  moreover from p have "\<forall>p \<in> set (split_on CHR ''.'' s). list_all is_digit_char p"
    by (auto simp: parse_ipv4_def parse_octet_def split: list.splits option.splits if_splits)
  moreover have "\<not> is_digit_char (CHR ''/'')" by (simp add: is_digit_char_def)
  ultimately show False by (auto simp: list_all_iff)
qed

lemma public_ipv4_parts:
  assumes "validatePublicIPv4 a = None"
  shows "ParseIP a \<noteq> None" "CHR ''/'' \<notin> set a"
proof -
  from assms obtain q where "ParseAddr a = Some (Addr4 q)"
    by (auto simp: validatePublicIPv4_def split: option.splits go_addr.splits)
  then show "ParseIP a \<noteq> None" "CHR ''/'' \<notin> set a"
    by (auto simp: ParseIP_def ParseAddr_def Let_def split: list.splits if_splits option.splits dest: parse_ipv4_no_slash)
qed

section \<open>The table is unambiguous\<close>

definition wildcard :: "string \<Rightarrow> bool" where
  "wildcard t = (t = ''{location}'' \<or> t = ''{uuid}'' \<or> t = ''{address}'')"

fun parts_clash :: "string list \<Rightarrow> string list \<Rightarrow> bool" where
  "parts_clash [] [] = False"
| "parts_clash (t # ts) (u # us) =
     (if t = u then parts_clash ts us else (\<not> wildcard t \<and> \<not> wildcard u) \<or> parts_clash ts us)"
| "parts_clash _ _ = True"

lemma clash_excludes: "list_all2 part_matches ps ts \<Longrightarrow> list_all2 part_matches ps us \<Longrightarrow> \<not> parts_clash ts us"
proof (induction ts us arbitrary: ps rule: parts_clash.induct)
  case (2 t ts u us)
  have lit: "p = t" if "part_matches p t" "\<not> wildcard t" for p t
    using that by (auto simp: part_matches_def wildcard_def split: if_splits)
  show ?case
  proof (cases "t = u \<or> wildcard t \<or> wildcard u")
    case True
    with 2 show ?thesis by (auto simp: list_all2_Cons2)
  next
    case False
    with 2(3,4) lit[of _ t] lit[of _ u] have False by (auto simp: list_all2_Cons2)
    then show ?thesis ..
  qed
qed (auto simp: list_all2_Cons2)

fun all_clash :: "(string \<times> string list) list \<Rightarrow> bool" where
  "all_clash [] = True"
| "all_clash ((m, ts) # rows) =
     (list_all (\<lambda>(n, us). if m = n then parts_clash ts us else True) rows \<and> all_clash rows)"

lemma parts_clash_sym: "parts_clash ts us = parts_clash us ts"
  by (induction ts us rule: parts_clash.induct) auto

lemma all_clash_distinct:
  assumes "all_clash rows" "(m, ts) \<in> set rows" "(m, us) \<in> set rows"
  shows "ts = us \<or> parts_clash ts us"
  using assms
proof (induction rows rule: all_clash.induct)
  case (2 n vs rows)
  then show ?case using parts_clash_sym by (fastforce simp: list_all_iff)
qed simp

definition contract_row :: "endpointContract \<Rightarrow> string \<times> string list" where
  "contract_row c = (ec_method c, split_on CHR ''/'' (ec_pathTemplate c))"

lemma endpointContracts_rows: "all_clash (map contract_row endpointContracts)" "distinct (map contract_row endpointContracts)"
  by code_simp+

text \<open>The first contract that matches is the only one, so the order of the table does not matter.\<close>

lemma endpoint_contract_unique:
  assumes "c \<in> set endpointContracts" "ec_method c = meth" "endpointPathMatches path (ec_pathTemplate c)"
  shows "endpointSuccessContract meth path = Some c"
proof (cases "endpointSuccessContract meth path")
  case None
  with assms show ?thesis by (auto simp: endpointSuccessContract_def find_None_iff)
next
  case (Some d)
  then have d: "d \<in> set endpointContracts" "ec_method d = meth" "endpointPathMatches path (ec_pathTemplate d)"
    unfolding endpointSuccessContract_def by (auto simp: find_Some_iff)
  have rows: "contract_row c = (meth, snd (contract_row c))" "contract_row d = (meth, snd (contract_row d))"
    using assms(2) d(2) by (simp_all add: contract_row_def)
  have "\<not> parts_clash (snd (contract_row c)) (snd (contract_row d))"
    using assms(3) d(3) by (auto simp: contract_row_def endpointPathMatches_def dest: clash_excludes)
  moreover have "(meth, snd (contract_row c)) \<in> set (map contract_row endpointContracts)"
    "(meth, snd (contract_row d)) \<in> set (map contract_row endpointContracts)"
    using assms(1) d(1) rows by (metis image_eqI list.set_map)+
  ultimately have "contract_row c = contract_row d"
    using all_clash_distinct[OF endpointContracts_rows(1)] rows by metis
  with endpointContracts_rows(2) assms(1) d(1) have "c = d" by (auto simp: distinct_map dest: inj_onD)
  with Some show ?thesis by simp
qed

section \<open>Registered routes\<close>

definition registered :: "string \<Rightarrow> string \<Rightarrow> bool \<Rightarrow> bool" where
  "registered meth path expectsJSON \<longleftrightarrow>
     (\<exists>con. endpointSuccessContract meth path = Some con \<and> (ec_body con = successJSON) = expectsJSON)"

lemma registeredI:
  assumes "c \<in> set endpointContracts" and "ec_method c = meth" and "(ec_body c = successJSON) = b"
    and "list_all2 part_matches (split_on CHR ''/'' path) (split_on CHR ''/'' (ec_pathTemplate c))"
  shows "registered meth path b"
  using endpoint_contract_unique[OF assms(1,2)] assms(3,4) by (auto simp: registered_def endpointPathMatches_def)

lemmas path_parts = split_on_Cons split_on_single location_no_slash uuid_any_no_slash public_ipv4_parts(2)

lemmas route_simps = endpointContracts_def contract_def part_matches_def path_parts

lemma config_routes:
  shows "registered ''GET'' ''/v1/config/locations'' True"
    "registered ''GET'' ''/v1/config/vm_images'' True"
proof -
  show "registered ''GET'' ''/v1/config/locations'' True"
    by (rule registeredI[of "endpointContracts ! 0"]; simp add: route_simps)
  show "registered ''GET'' ''/v1/config/vm_images'' True"
    by (rule registeredI[of "endpointContracts ! 1"]; simp add: route_simps)
qed

lemma location_routes:
  assumes "location_ok l"
  shows "registered ''GET'' (''/v1/'' @ l @ ''/storage/disks'') True"
    "registered ''POST'' (''/v1/'' @ l @ ''/storage/disks'') True"
    "registered ''GET'' (''/v1/'' @ l @ ''/user-resource/vm'') True"
    "registered ''POST'' (''/v1/'' @ l @ ''/user-resource/vm'') True"
    "registered ''PATCH'' (''/v1/'' @ l @ ''/user-resource/vm'') True"
    "registered ''DELETE'' (''/v1/'' @ l @ ''/user-resource/vm'') False"
    "registered ''GET'' (''/v1/'' @ l @ ''/user-resource/vm/list'') True"
    "registered ''GET'' (''/v1/'' @ l @ ''/user-resource/host_pool/list'') True"
    "registered ''POST'' (''/v1/'' @ l @ ''/user-resource/vm/storage/attach'') True"
    "registered ''POST'' (''/v1/'' @ l @ ''/user-resource/vm/storage/detach'') True"
    "registered ''PATCH'' (''/v1/'' @ l @ ''/user-resource/vm/storage'') True"
    "registered ''POST'' (''/v1/'' @ l @ ''/user-resource/vm/stop'') False"
    "registered ''POST'' (''/v1/'' @ l @ ''/user-resource/vm/start'') False"
    "registered ''GET'' (''/v1/'' @ l @ ''/network/networks'') True"
    "registered ''GET'' (''/v1/'' @ l @ ''/network/load_balancers'') True"
    "registered ''POST'' (''/v1/'' @ l @ ''/network/load_balancers'') True"
    "registered ''GET'' (''/v1/'' @ l @ ''/network/firewalls'') True"
    "registered ''POST'' (''/v1/'' @ l @ ''/network/firewalls'') True"
    "registered ''GET'' (''/v1/'' @ l @ ''/network/ip_addresses'') True"
    "registered ''POST'' (''/v1/'' @ l @ ''/network/ip_addresses'') True"
proof -
  show "registered ''GET'' (''/v1/'' @ l @ ''/storage/disks'') True"
    by (rule registeredI[of "endpointContracts ! 5"]; simp add: route_simps assms)
  show "registered ''POST'' (''/v1/'' @ l @ ''/storage/disks'') True"
    by (rule registeredI[of "endpointContracts ! 15"]; simp add: route_simps assms)
  show "registered ''GET'' (''/v1/'' @ l @ ''/user-resource/vm'') True"
    by (rule registeredI[of "endpointContracts ! 4"]; simp add: route_simps assms)
  show "registered ''POST'' (''/v1/'' @ l @ ''/user-resource/vm'') True"
    by (rule registeredI[of "endpointContracts ! 14"]; simp add: route_simps assms)
  show "registered ''PATCH'' (''/v1/'' @ l @ ''/user-resource/vm'') True"
    by (rule registeredI[of "endpointContracts ! 29"]; simp add: route_simps assms)
  show "registered ''DELETE'' (''/v1/'' @ l @ ''/user-resource/vm'') False"
    by (rule registeredI[of "endpointContracts ! 32"]; simp add: route_simps assms)
  show "registered ''GET'' (''/v1/'' @ l @ ''/user-resource/vm/list'') True"
    by (rule registeredI[of "endpointContracts ! 3"]; simp add: route_simps assms)
  show "registered ''GET'' (''/v1/'' @ l @ ''/user-resource/host_pool/list'') True"
    by (rule registeredI[of "endpointContracts ! 2"]; simp add: route_simps assms)
  show "registered ''POST'' (''/v1/'' @ l @ ''/user-resource/vm/storage/attach'') True"
    by (rule registeredI[of "endpointContracts ! 19"]; simp add: route_simps assms)
  show "registered ''POST'' (''/v1/'' @ l @ ''/user-resource/vm/storage/detach'') True"
    by (rule registeredI[of "endpointContracts ! 20"]; simp add: route_simps assms)
  show "registered ''PATCH'' (''/v1/'' @ l @ ''/user-resource/vm/storage'') True"
    by (rule registeredI[of "endpointContracts ! 28"]; simp add: route_simps assms)
  show "registered ''POST'' (''/v1/'' @ l @ ''/user-resource/vm/stop'') False"
    by (rule registeredI[of "endpointContracts ! 30"]; simp add: route_simps assms)
  show "registered ''POST'' (''/v1/'' @ l @ ''/user-resource/vm/start'') False"
    by (rule registeredI[of "endpointContracts ! 31"]; simp add: route_simps assms)
  show "registered ''GET'' (''/v1/'' @ l @ ''/network/networks'') True"
    by (rule registeredI[of "endpointContracts ! 13"]; simp add: route_simps assms)
  show "registered ''GET'' (''/v1/'' @ l @ ''/network/load_balancers'') True"
    by (rule registeredI[of "endpointContracts ! 10"]; simp add: route_simps assms)
  show "registered ''POST'' (''/v1/'' @ l @ ''/network/load_balancers'') True"
    by (rule registeredI[of "endpointContracts ! 18"]; simp add: route_simps assms)
  show "registered ''GET'' (''/v1/'' @ l @ ''/network/firewalls'') True"
    by (rule registeredI[of "endpointContracts ! 9"]; simp add: route_simps assms)
  show "registered ''POST'' (''/v1/'' @ l @ ''/network/firewalls'') True"
    by (rule registeredI[of "endpointContracts ! 17"]; simp add: route_simps assms)
  show "registered ''GET'' (''/v1/'' @ l @ ''/network/ip_addresses'') True"
    by (rule registeredI[of "endpointContracts ! 7"]; simp add: route_simps assms)
  show "registered ''POST'' (''/v1/'' @ l @ ''/network/ip_addresses'') True"
    by (rule registeredI[of "endpointContracts ! 16"]; simp add: route_simps assms)
qed

lemma uuid_routes:
  assumes "location_ok l" "uuid_any u"
  shows "registered ''GET'' (''/v1/'' @ l @ ''/storage/disks/'' @ u) True"
    "registered ''DELETE'' (''/v1/'' @ l @ ''/storage/disks/'' @ u) False"
    "registered ''GET'' (''/v1/'' @ l @ ''/network/network/'' @ u) True"
    "registered ''GET'' (''/v1/'' @ l @ ''/network/load_balancers/'' @ u) True"
    "registered ''DELETE'' (''/v1/'' @ l @ ''/network/load_balancers/'' @ u) False"
    "registered ''POST'' (''/v1/'' @ l @ ''/network/load_balancers/'' @ u @ ''/targets'') True"
    "registered ''POST'' (''/v1/'' @ l @ ''/network/load_balancers/'' @ u @ ''/forwarding_rules'') True"
    "registered ''PUT'' (''/v1/'' @ l @ ''/network/firewalls/'' @ u) True"
    "registered ''DELETE'' (''/v1/'' @ l @ ''/network/firewalls/'' @ u) False"
    "registered ''POST'' (''/v1/'' @ l @ ''/network/firewalls/'' @ u @ ''/vms'') True"
    "registered ''DELETE'' (''/v1/'' @ l @ ''/network/firewalls/'' @ u @ ''/vms'') False"
proof -
  show "registered ''GET'' (''/v1/'' @ l @ ''/storage/disks/'' @ u) True"
    by (rule registeredI[of "endpointContracts ! 6"]; simp add: route_simps assms)
  show "registered ''DELETE'' (''/v1/'' @ l @ ''/storage/disks/'' @ u) False"
    by (rule registeredI[of "endpointContracts ! 33"]; simp add: route_simps assms)
  show "registered ''GET'' (''/v1/'' @ l @ ''/network/network/'' @ u) True"
    by (rule registeredI[of "endpointContracts ! 12"]; simp add: route_simps assms)
  show "registered ''GET'' (''/v1/'' @ l @ ''/network/load_balancers/'' @ u) True"
    by (rule registeredI[of "endpointContracts ! 11"]; simp add: route_simps assms)
  show "registered ''DELETE'' (''/v1/'' @ l @ ''/network/load_balancers/'' @ u) False"
    by (rule registeredI[of "endpointContracts ! 37"]; simp add: route_simps assms)
  show "registered ''POST'' (''/v1/'' @ l @ ''/network/load_balancers/'' @ u @ ''/targets'') True"
    by (rule registeredI[of "endpointContracts ! 24"]; simp add: route_simps assms)
  show "registered ''POST'' (''/v1/'' @ l @ ''/network/load_balancers/'' @ u @ ''/forwarding_rules'') True"
    by (rule registeredI[of "endpointContracts ! 25"]; simp add: route_simps assms)
  show "registered ''PUT'' (''/v1/'' @ l @ ''/network/firewalls/'' @ u) True"
    by (rule registeredI[of "endpointContracts ! 26"]; simp add: route_simps assms)
  show "registered ''DELETE'' (''/v1/'' @ l @ ''/network/firewalls/'' @ u) False"
    by (rule registeredI[of "endpointContracts ! 35"]; simp add: route_simps assms)
  show "registered ''POST'' (''/v1/'' @ l @ ''/network/firewalls/'' @ u @ ''/vms'') True"
    by (rule registeredI[of "endpointContracts ! 23"]; simp add: route_simps assms)
  show "registered ''DELETE'' (''/v1/'' @ l @ ''/network/firewalls/'' @ u @ ''/vms'') False"
    by (rule registeredI[of "endpointContracts ! 36"]; simp add: route_simps assms)
qed

lemma child_routes:
  assumes "location_ok l" "uuid_any u" "uuid_any v"
  shows "registered ''DELETE'' (''/v1/'' @ l @ ''/network/load_balancers/'' @ u @ ''/targets/'' @ v) False"
    "registered ''DELETE'' (''/v1/'' @ l @ ''/network/load_balancers/'' @ u @ ''/forwarding_rules/'' @ v) False"
proof -
  show "registered ''DELETE'' (''/v1/'' @ l @ ''/network/load_balancers/'' @ u @ ''/targets/'' @ v) False"
    by (rule registeredI[of "endpointContracts ! 38"]; simp add: route_simps assms)
  show "registered ''DELETE'' (''/v1/'' @ l @ ''/network/load_balancers/'' @ u @ ''/forwarding_rules/'' @ v) False"
    by (rule registeredI[of "endpointContracts ! 39"]; simp add: route_simps assms)
qed

lemma address_routes:
  assumes "location_ok l" "validatePublicIPv4 a = None"
  shows "registered ''GET'' (''/v1/'' @ l @ ''/network/ip_addresses/'' @ a) True"
    "registered ''PATCH'' (''/v1/'' @ l @ ''/network/ip_addresses/'' @ a) True"
    "registered ''DELETE'' (''/v1/'' @ l @ ''/network/ip_addresses/'' @ a) False"
    "registered ''POST'' (''/v1/'' @ l @ ''/network/ip_addresses/'' @ a @ ''/assign'') True"
    "registered ''POST'' (''/v1/'' @ l @ ''/network/ip_addresses/'' @ a @ ''/unassign'') True"
proof -
  show "registered ''GET'' (''/v1/'' @ l @ ''/network/ip_addresses/'' @ a) True"
    by (rule registeredI[of "endpointContracts ! 8"]; simp add: route_simps assms public_ipv4_parts(1)[simplified])
  show "registered ''PATCH'' (''/v1/'' @ l @ ''/network/ip_addresses/'' @ a) True"
    by (rule registeredI[of "endpointContracts ! 27"]; simp add: route_simps assms public_ipv4_parts(1)[simplified])
  show "registered ''DELETE'' (''/v1/'' @ l @ ''/network/ip_addresses/'' @ a) False"
    by (rule registeredI[of "endpointContracts ! 34"]; simp add: route_simps assms public_ipv4_parts(1)[simplified])
  show "registered ''POST'' (''/v1/'' @ l @ ''/network/ip_addresses/'' @ a @ ''/assign'') True"
    by (rule registeredI[of "endpointContracts ! 21"]; simp add: route_simps assms public_ipv4_parts(1)[simplified])
  show "registered ''POST'' (''/v1/'' @ l @ ''/network/ip_addresses/'' @ a @ ''/unassign'') True"
    by (rule registeredI[of "endpointContracts ! 22"]; simp add: route_simps assms public_ipv4_parts(1)[simplified])
qed

end
