(* ===== verification/Client_Proofs.thy ===== *)
theory Client_Proofs
  imports Client_Routes
begin

text \<open>
  What the client guarantees its callers: when a mutating request has left the process and when it
  cannot have, and what an answer or an absence verdict of an exact read rests on.
\<close>

section \<open>The transport\<close>

text \<open>
  Errors that come from the network or from reading a body are not this package's: they carry
  neither an \<^verbatim>\<open>APIError\<close> nor one of its mutation sentinels.
\<close>

definition mutation_mark :: "error \<Rightarrow> bool" where
  "mutation_mark e = (errors_is ErrMutationBlocked e \<or> errors_is ErrMutationNotDispatched e)"

definition foreign_error :: "error \<Rightarrow> bool" where
  "foreign_error e = (errors_as_node e = None \<and> \<not> mutation_mark e)"

definition foreign_transport :: "'w http_env \<Rightarrow> bool" where
  "foreign_transport env \<longleftrightarrow> (\<forall>c req w. case fst (he_roundTrip env c req w) of
     Inl e \<Rightarrow> foreign_error e
   | Inr resp \<Rightarrow> (case hr_ReadError resp of None \<Rightarrow> True | Some e \<Rightarrow> foreign_error e))"

text \<open>\<open>lg\<close> is the list of the requests this client has sent: each round trip adds its own.\<close>

definition logs_requests :: "('w \<Rightarrow> http_request list) \<Rightarrow> 'w http_env \<Rightarrow> bool" where
  "logs_requests lg env \<longleftrightarrow> (\<forall>c req w. lg (snd (snd (he_roundTrip env c req w))) = lg w @ [req])"

lemma foreign_transport_Inl:
  "foreign_transport env \<Longrightarrow> he_roundTrip env c req w = (Inl e, d, w') \<Longrightarrow> foreign_error e"
  unfolding foreign_transport_def by (drule spec[of _ c], drule spec[of _ req], drule spec[of _ w]) simp

lemma foreign_transport_Inr:
  "foreign_transport env \<Longrightarrow> he_roundTrip env c req w = (Inr resp, d, w') \<Longrightarrow> hr_ReadError resp = Some e
   \<Longrightarrow> foreign_error e"
  unfolding foreign_transport_def by (drule spec[of _ c], drule spec[of _ req], drule spec[of _ w]) simp

lemma logs_requestsD:
  "logs_requests lg env \<Longrightarrow> he_roundTrip env c req w = (r, d, w') \<Longrightarrow> lg w' = lg w @ [req]"
  unfolding logs_requests_def by (metis snd_conv)

section \<open>Marks\<close>

lemma mutation_mark_simps [simp]:
  "\<not> mutation_mark (Plain m)" "\<not> mutation_mark (Api a None)"
  "mutation_mark (Api a (Some e)) = mutation_mark e"
  "mutation_mark (UrlError e) = mutation_mark e"
  "mutation_mark (Wrap m [e]) = mutation_mark e"
  "mutation_mark (mutationNotDispatched e)"
  "mutation_mark (Sentinel ErrMutationBlocked)"
  "\<not> mutation_mark (Sentinel ErrMutationRedirect)" "\<not> mutation_mark (Sentinel ErrCrossOriginRedirect)"
  "\<not> mutation_mark (Sentinel ErrReadRedirect)"
  by (auto simp: mutation_mark_def mutationNotDispatched_def)

lemma CheckRedirect_unmarked [simp]: "\<not> mutation_mark (CheckRedirect base via target)"
  by (simp add: CheckRedirect_def)

lemma CheckRedirect_foreign [simp]: "errors_as_node (CheckRedirect base via target) = None"
  by (simp add: CheckRedirect_def)

lemma newMalformed_mark [simp]:
  "mutation_mark (newMalformedResponseAPIError env m p st msg cid cause)
     = (case cause of None \<Rightarrow> False | Some e \<Rightarrow> mutation_mark e)"
  "mutation_mark (newIncompleteAPIError env m p st msg cid cause)
     = (case cause of None \<Rightarrow> False | Some e \<Rightarrow> mutation_mark e)"
  "\<not> mutation_mark (newAPIError env m p st data cid)"
  by (simp_all add: newMalformedResponseAPIError_def newIncompleteAPIError_def newAPIError_def Let_def split: option.splits)

text \<open>The errors of the JSON guards are leaves.\<close>

lemma validateUniqueJSONValue_Plain:
  "validateUniqueJSONValue v = Some e \<Longrightarrow> \<exists>m. e = Plain m"
  "unique_members seen ms = Some e \<Longrightarrow> \<exists>m. e = Plain m"
  "unique_elements vs = Some e \<Longrightarrow> \<exists>m. e = Plain m"
  by (induction v and seen ms and vs rule: validateUniqueJSONValue_unique_members_unique_elements.induct)
     (auto split: if_splits option.splits)

lemma validateJSON_Plain: "validateJSONNoDuplicateObjectKeys s = Some e \<Longrightarrow> \<exists>m. e = Plain m"
  by (auto simp: validateJSONNoDuplicateObjectKeys_def split: json_doc.splits option.splits if_splits
      dest: validateUniqueJSONValue_Plain)

lemma validateSuccessResponse_unmarked:
  "validateSuccessResponse env m p st b data cid = Some e \<Longrightarrow> \<not> mutation_mark e"
  by (auto simp: validateSuccessResponse_def Let_def split: option.splits if_splits successBodyContract.splits
      dest!: validateJSON_Plain)

section \<open>Readers fail with plain errors only\<close>

text \<open>The errors of the field readers are leaves, so that a malformed body never looks like an undispatched mutation.\<close>

definition plain_error :: "error \<Rightarrow> bool" where
  "plain_error e = (\<exists>m. e = Plain m)"

lemma plain_error_simps [simp]: "plain_error (Plain m)" "plain_error type_error"
  by (simp_all add: plain_error_def type_error_def)

definition type_errors :: "('b \<Rightarrow> 'a \<Rightarrow> error + 'a) \<Rightarrow> bool" where
  "type_errors f \<longleftrightarrow> (\<forall>v x e. f v x = Inl e \<longrightarrow> plain_error e)"

named_theorems reader_rules \<open>readers all of whose errors are plain\<close>

lemma type_errorsD: "type_errors f \<Longrightarrow> f v x = Inl e \<Longrightarrow> plain_error e"
  unfolding type_errors_def by blast

lemma unmarshal_string_error: "unmarshal_string vs s = Inl e \<Longrightarrow> plain_error e"
  by (induction vs s rule: unmarshal_string.induct) auto

lemma unmarshal_int_error: "unmarshal_int l vs s = Inl e \<Longrightarrow> plain_error e"
  by (induction l vs s rule: unmarshal_int.induct) (auto split: if_splits)

lemma unmarshal_each_error: "type_errors f \<Longrightarrow> unmarshal_each f vs x = Inl e \<Longrightarrow> plain_error e"
  by (induction vs arbitrary: x) (auto simp: attempt_ok_def split: sum.splits dest: type_errorsD)

lemma unmarshal_elements_error: "type_errors f \<Longrightarrow> unmarshal_elements f z vs = Inl e \<Longrightarrow> plain_error e"
  by (induction vs arbitrary: e) (auto simp: attempt_ok_def split: sum.splits dest: type_errorsD)

lemma type_errors_leaves [reader_rules]:
  "type_errors (string_field name)" "type_errors (int_field l name)" "type_errors into_string"
  "type_errors (into_int l)" "type_errors into_bool" "type_errors (\<lambda>v _. Inr (g v))" "type_errors (into_any env)"
  "type_errors (into_object env)"
  by (auto simp: type_errors_def into_string_def into_int_def into_bool_def into_any_def into_object_def
      split: json.splits if_splits dest: unmarshal_string_error unmarshal_int_error)

lemma type_errors_compound [reader_rules]:
  "type_errors f \<Longrightarrow> type_errors (\<lambda>ms. unmarshal_each f (field_values name ms))"
  "type_errors f \<Longrightarrow> type_errors (into_pointer f z)"
  "type_errors f \<Longrightarrow> type_errors (into_nil_slice f z)"
  "type_errors g \<Longrightarrow> type_errors (into_struct g)"
  by (auto simp: type_errors_def[of "into_pointer f z"] type_errors_def[of "into_nil_slice f z"]
      type_errors_def[of "into_struct g"] type_errors_def[of "\<lambda>ms. unmarshal_each f (field_values name ms)"]
      into_pointer_def into_nil_slice_def into_struct_def attempt_ok_def
      split: json.splits if_splits sum.splits
      dest: type_errorsD unmarshal_each_error unmarshal_elements_error)

lemma type_errors_fields [reader_rules]:
  "type_errors (bool_field name)" "type_errors (raw_field name)" "type_errors (any_field env name)"
  "type_errors f \<Longrightarrow> type_errors (nil_slice_field f z name)"
  "type_errors f \<Longrightarrow> type_errors (pointer_field f z name)"
  unfolding bool_field_def[abs_def] raw_field_def[abs_def] any_field_def[abs_def] nil_slice_field_def[abs_def]
    pointer_field_def[abs_def]
  by (intro reader_rules; assumption)+

lemma type_errors_set_field [reader_rules]:
  "type_errors (rd name) \<Longrightarrow> type_errors (\<lambda>ms. set_field rd name ms get put)"
  by (auto simp: type_errors_def[of "\<lambda>ms. set_field rd name ms get put"] set_field_def attempt_ok_def
      split: sum.splits dest: type_errorsD)

lemma type_errors_do_fields [reader_rules]:
  "type_errors (\<lambda>ms x. do_fields x [])"
  "type_errors g \<Longrightarrow> type_errors (\<lambda>ms x. do_fields x (fs ms)) \<Longrightarrow> type_errors (\<lambda>ms x. do_fields x (g ms # fs ms))"
  by (auto simp: type_errors_def attempt_ok_def split: sum.splits)

lemma type_errors_readers [reader_rules]:
  "type_errors read_VMStorage" "type_errors read_DiskSnapshot" "type_errors read_Network"
  "type_errors read_ClientLocation" "type_errors (read_HostPool env)" "type_errors read_VMImageVersion"
  "type_errors read_LoadBalancerRule" "type_errors read_LoadBalancerTarget" "type_errors read_FirewallRule"
  "type_errors read_FirewallResource"
  unfolding read_VMStorage_def[abs_def] read_DiskSnapshot_def[abs_def] read_Network_def[abs_def]
    read_ClientLocation_def[abs_def] read_HostPool_def[abs_def] read_VMImageVersion_def[abs_def]
    read_LoadBalancerRule_def[abs_def] read_LoadBalancerTarget_def[abs_def] read_FirewallRule_def[abs_def]
    read_FirewallResource_def[abs_def]
  by (intro reader_rules)+

lemma type_errors_nested_readers [reader_rules]:
  "type_errors read_VM" "type_errors read_Disk" "type_errors read_VMImage" "type_errors read_LoadBalancer"
  "type_errors read_Firewall"
  unfolding read_VM_def[abs_def] read_Disk_def[abs_def] read_VMImage_def[abs_def] read_LoadBalancer_def[abs_def]
    read_Firewall_def[abs_def]
  by (intro reader_rules)+

lemma type_errors_FloatingIP [reader_rules]: "type_errors read_FloatingIP" "type_errors UnmarshalJSON_FloatingIP"
proof -
  show r: "type_errors read_FloatingIP"
    unfolding read_FloatingIP_def[abs_def] by (intro reader_rules)
  then have "type_errors (into_struct read_FloatingIP)" by (rule reader_rules)
  then show "type_errors UnmarshalJSON_FloatingIP"
    by (auto simp: type_errors_def UnmarshalJSON_FloatingIP_def attempt_ok_def Let_def split: sum.splits if_splits)
qed

lemma type_errors_into_list [reader_rules]: "type_errors rd \<Longrightarrow> type_errors (into_list rd z)"
  unfolding into_list_def[abs_def] by (intro reader_rules)

section \<open>One request\<close>

text \<open>What the caller hands over as \<^verbatim>\<open>out\<close>: nothing, or a reader.\<close>

definition typed_out :: "(json \<Rightarrow> 'a \<Rightarrow> error + 'a) option \<Rightarrow> bool" where
  "typed_out out = (case out of None \<Rightarrow> True | Some f \<Rightarrow> type_errors f)"

lemma typed_out_simps [simp]: "typed_out None" "typed_out (Some f) = type_errors f"
  by (simp_all add: typed_out_def)

lemma plain_error_unmarked: "plain_error e \<Longrightarrow> \<not> mutation_mark e"
  by (auto simp: plain_error_def)

lemma json_Unmarshal_unmarked: "type_errors f \<Longrightarrow> json_Unmarshal f z s = Inl e \<Longrightarrow> \<not> mutation_mark e"
  by (auto simp: json_Unmarshal_def split: json_doc.splits if_splits bool.splits dest: type_errorsD[THEN plain_error_unmarked])

lemma read_body_unmarked:
  assumes "type_errors f" and "read_body env m p z f st data cid = Inl e"
  shows "\<not> mutation_mark e"
  using assms(2) by (auto simp: read_body_def Let_def split: if_splits option.splits sum.splits
      dest!: validateJSON_Plain dest: json_Unmarshal_unmarked[OF assms(1)])

lemma read_response_unmarked:
  assumes "typed_out out" and "\<And>e. hr_ReadError resp = Some e \<Longrightarrow> foreign_error e"
    and "read_response env m p z out resp = Inl e"
  shows "\<not> mutation_mark e"
proof -
  have f: "\<not> mutation_mark e" if "hr_ReadError resp = Some e" for e
    using assms(2)[OF that] by (simp add: foreign_error_def)
  show ?thesis
    using assms(1,3) f
    by (auto simp: read_response_def Let_def split: if_splits bool.splits option.splits
        dest: validateSuccessResponse_unmarked read_body_unmarked)
qed

text \<open>The context under which a request is sent: a read gets a deadline of its own.\<close>

definition request_ctx :: "'w Client \<Rightarrow> ctx \<Rightarrow> string \<Rightarrow> 'w \<Rightarrow> ctx" where
  "request_ctx cl c meth w =
     (if meth = ''GET'' then with_deadline c (he_now (c_http cl) w + defaultReadTimeout) else c)"

lemma doBody_cases:
  assumes "doBody cl c meth path q b ct z out w = (r, d, w')"
  obtains (unsent) e where "r = Inl e" "w' = w" "isMutation meth \<Longrightarrow> mutation_mark e" "isMutation meth \<or> c = None"
      "errors_as_node e = None"
  | (failed) c' e where "c = Some c'" "r = Inl (Wrap ''inspace'' [UrlError e])"
      "he_roundTrip (c_http cl) (request_ctx cl c' meth w) (newRequest cl meth path q b ct) w = (Inl e, d, w')"
  | (redirected) c' resp e where "c = Some c'" "redirect_status (hr_StatusCode resp)"
      "he_roundTrip (c_http cl) (request_ctx cl c' meth w) (newRequest cl meth path q b ct) w = (Inr resp, d, w')"
      "errors_as_node e = None" "\<not> mutation_mark e"
      "r = Inl (Wrap ''inspace'' [e]) \<or> (\<exists>a. StatusCode a = hr_StatusCode resp \<and> r = Inl (Api a (Some e)))"
  | (answered) c' resp where "c = Some c'" "r = read_response (c_http cl) meth path z out resp"
      "he_roundTrip (c_http cl) (request_ctx cl c' meth w) (newRequest cl meth path q b ct) w = (Inr resp, d, w')"
proof (cases "(isMutation meth \<and> \<not> isLiteralLoopback (Hostname (c_baseURL cl)) \<and> \<not> c_dangerouslyAllowMutations cl)
    \<or> c = None \<or> (\<exists>c' e. c = Some c' \<and> isMutation meth \<and> ctx_err (request_ctx cl c' meth w) (he_now (c_http cl) w) = Some e)")
  case True
  have n: "errors_as_node (mutationNotDispatched e) = errors_as_node e" for e
    by (simp add: mutationNotDispatched_def split: option.splits)
  from True show thesis using assms unsent
    by (auto simp: doBody_def Let_def request_ctx_def n split: option.splits if_splits bool.splits dest!: ctx_err_is)
next
  case False
  then obtain c' where c': "c = Some c'" by (cases c) auto
  let ?req = "newRequest cl meth path q b ct" and ?ctx = "request_ctx cl c' meth w"
  from False c' assms have r: "(case http_Do cl ?ctx ?req w of
        (DoErr err (Some resp), d, w') \<Rightarrow>
          (Inl (Api ((plain_api_error meth path (hr_StatusCode resp) ''redirect''
               (validatedWarrenCorrelationID (wr_CorrelationIDs resp)))
             \<lparr>Retryable := retryableAPIStatus (hr_StatusCode resp)\<rparr>) (Some err)), d, w')
      | (DoErr err None, d, w') \<Rightarrow> (Inl (Wrap ''inspace'' [err]), d, w')
      | (DoOk resp, d, w') \<Rightarrow> (read_response (c_http cl) meth path z out resp, d, w')) = (r, d, w')"
    by (auto simp: doBody_def Let_def request_ctx_def split: option.splits if_splits bool.splits)
  obtain x d1 w1 where rt: "he_roundTrip (c_http cl) ?ctx ?req w = (x, d1, w1)"
    by (cases "he_roundTrip (c_http cl) ?ctx ?req w") auto
  show thesis
  proof (cases x)
    case (Inl e)
    with rt r c' show ?thesis by (intro failed) (auto simp: http_Do_def)
  next
    case (Inr resp)
    show ?thesis
    proof (cases "redirect_status (hr_StatusCode resp) \<and> wr_Location resp \<noteq> NoLocation")
      case True
      with rt r c' Inr show ?thesis
        by (cases "wr_Location resp")
           (auto simp: http_Do_def plain_api_error_def intro!: redirected)
    next
      case False
      with rt r c' Inr have "w' = w1" "d = d1" "r = read_response (c_http cl) meth path z out resp"
        by (auto simp: http_Do_def split: if_splits location_header.splits)
      with rt c' Inr show ?thesis by (intro answered) auto
    qed
  qed
qed

text \<open>
  C24: a mutating call sends at most one HTTP request, the one it builds, whatever the server
  answers (no redirect is followed, nothing is retried). It carries the mark of a blocked or
  undispatched mutation exactly when it sent none: a caller that sees the mark may forget the
  mutation, and a caller that does not see it must assume that the provider saw the request.
\<close>

theorem mutation_mark_exact:
  assumes "foreign_transport (c_http cl)" and "logs_requests lg (c_http cl)"
    and "isMutation meth" and "typed_out out"
    and "doBody cl c meth path query body contentType zero out w = (r, d, w')"
  shows "lg w' = (if \<exists>e. r = Inl e \<and> mutation_mark e then lg w
                  else lg w @ [newRequest cl meth path query body contentType])"
  using assms(5)
proof (cases rule: doBody_cases)
  case unsent
  then show ?thesis using assms(3) by auto
next
  case (failed c' e)
  from foreign_transport_Inl[OF assms(1) failed(3)] have "\<not> mutation_mark e" by (simp add: foreign_error_def)
  then show ?thesis using failed logs_requestsD[OF assms(2) failed(3)] by auto
next
  case (redirected c' resp e)
  then show ?thesis using logs_requestsD[OF assms(2) redirected(3)] by auto
next
  case (answered c' resp)
  have "\<not> mutation_mark e" if "r = Inl e" for e
    using read_response_unmarked[OF assms(4)] foreign_transport_Inr[OF assms(1) answered(3)] answered(2) that by metis
  then show ?thesis using logs_requestsD[OF assms(2) answered(3)] by auto
qed

section \<open>Exact reads\<close>

definition complete_response :: "wire_response \<Rightarrow> bool" where
  "complete_response resp =
     (hr_ReadError resp = None \<and> int (length (hr_Body resp)) \<le> maxResponseBodyBytes
      \<and> (hr_ContentLength resp > 0 \<longrightarrow> hr_ContentLength resp = int (length (hr_Body resp))))"

text \<open>The one request of a read and the response it got.\<close>

definition exchange :: "'w Client \<Rightarrow> ctx \<Rightarrow> string \<Rightarrow> form_values \<Rightarrow> 'w \<Rightarrow> wire_response \<Rightarrow> bool" where
  "exchange cl c path query w resp \<longleftrightarrow> (\<exists>d w'.
     he_roundTrip (c_http cl) (request_ctx cl c ''GET'' w) (newRequest cl ''GET'' path query None []) w = (Inr resp, d, w'))"

text \<open>The body is one JSON value of bounded depth without repeated keys, and \<open>x\<close> is what it decodes to.\<close>

definition decodes_to :: "(json \<Rightarrow> error + 'a) \<Rightarrow> wire_response \<Rightarrow> 'a \<Rightarrow> bool" where
  "decodes_to rd resp x \<longleftrightarrow> (\<exists>v. parse_json (TrimSpace (hr_Body resp)) = Doc v False
     \<and> validateUniqueJSONValue v = None \<and> json_depth v \<le> maxNestingDepth \<and> rd v = Inr x)"

lemma GET_contract_status:
  assumes "endpointSuccessContract ''GET'' path = Some con"
  shows "ec_statuses con = [200]"
proof -
  have "list_all (\<lambda>c. ec_method c = ''GET'' \<longrightarrow> ec_statuses c = [200]) endpointContracts" by code_simp
  moreover from assms have "con \<in> set endpointContracts" "ec_method con = ''GET''"
    unfolding endpointSuccessContract_def by (auto simp: find_Some_iff)
  ultimately show ?thesis by (auto simp: list_all_iff)
qed

lemma validateSuccessResponse_status:
  "validateSuccessResponse env ''GET'' path st b data cid = None \<Longrightarrow> st = 200"
  by (auto simp: validateSuccessResponse_def split: option.splits if_splits dest: GET_contract_status)

fun error_status :: "error \<Rightarrow> int option" where
  "error_status (Api a c) = Some (StatusCode a)"
| "error_status _ = None"

lemma error_status_Some: "error_status e = Some st \<Longrightarrow> \<exists>a c. e = Api a c \<and> StatusCode a = st"
  by (cases e) auto

lemma error_status_simps [simp]:
  "error_status (newMalformedResponseAPIError env m p st msg cid cause) = Some st"
  "error_status (Api (plain_api_error m p st msg cid) cause) = Some st"
  by (simp_all add: newMalformedResponseAPIError_def plain_api_error_def)

lemma validateSuccessResponse_api:
  "validateSuccessResponse env m path st b data cid = Some e \<Longrightarrow> error_status e = Some st"
  by (auto simp: validateSuccessResponse_def Let_def
      split: option.splits if_splits successBodyContract.splits simp del: error_status.simps)

lemma read_body_step:
  defines "bad \<equiv> (\<lambda>env m p st cid msg cause. Inl (newMalformedResponseAPIError env m p st msg cid cause))"
  shows "(\<exists>msg cause. read_body env m p z f st data cid = bad env m p st cid msg cause)
     \<or> (\<exists>x. read_body env m p z f st data cid = Inr x \<and> json_Unmarshal f z (TrimSpace data) = Inr x
          \<and> validateJSONNoDuplicateObjectKeys (TrimSpace data) = None)"
proof -
  define t where "t = TrimSpace data"
  note r = read_body_def[of env m p z f st data cid, folded t_def, unfolded Let_def]
  show ?thesis
  proof (cases "t = [] \<or> t = ''null'' \<or> (hd t = CHR ''{'' \<and> parse_json t = Doc (JObj []) False)
      \<or> validateJSONNoDuplicateObjectKeys t \<noteq> None")
    case True
    then show ?thesis unfolding r bad_def by (cases "validateJSONNoDuplicateObjectKeys t") auto
  next
    case False
    then have "read_body env m p z f st data cid = (case json_Unmarshal f z t of
        Inl err \<Rightarrow> bad env m p st cid ''json'' (Some err) | Inr x \<Rightarrow> Inr x)"
      unfolding r bad_def by (simp only: de_Morgan_disj if_False not_not option.case)
    with False show ?thesis unfolding t_def by (cases "json_Unmarshal f z (TrimSpace data)") auto
  qed
qed

lemma read_body_error:
  assumes "read_body env m p z f st data cid = Inl e"
  shows "error_status e = Some st"
  using assms read_body_step[of env m p z f st data cid] by auto

lemma validateJSON_None:
  "validateJSONNoDuplicateObjectKeys s = None \<Longrightarrow> \<exists>v. parse_json s = Doc v False \<and> validateUniqueJSONValue v = None"
  by (auto simp: validateJSONNoDuplicateObjectKeys_def split: json_doc.splits option.splits if_splits)

lemma json_Unmarshal_ok:
  "parse_json s = Doc v False \<Longrightarrow> json_Unmarshal f z s = Inr x \<longleftrightarrow> json_depth v \<le> maxNestingDepth \<and> f v z = Inr x"
  by (auto simp: json_Unmarshal_def)

lemma read_body_ok:
  assumes "read_body env m p z f (hr_StatusCode resp) (hr_Body resp) cid = Inr x"
  shows "decodes_to (\<lambda>v. f v z) resp x"
proof -
  from assms have "validateJSONNoDuplicateObjectKeys (TrimSpace (hr_Body resp)) = None"
      "json_Unmarshal f z (TrimSpace (hr_Body resp)) = Inr x"
    using read_body_step[of env m p z f "hr_StatusCode resp" "hr_Body resp" cid] by auto
  then show ?thesis unfolding decodes_to_def by (metis validateJSON_None json_Unmarshal_ok)
qed

lemma parse_json_Nil: "parse_json [] = NotJSON" and parse_json_null: "parse_json ''null'' = Doc JNull False"
  by code_simp+

text \<open>The converse, for a result that is not the zero value an empty object or \<^verbatim>\<open>null\<close> would give.\<close>

lemma read_body_accepts:
  assumes "decodes_to (\<lambda>v. f v z) resp x" and "f JNull z = Inr z" and "f (JObj []) z = Inr z" and "x \<noteq> z"
  shows "read_body env m p z f st (hr_Body resp) cid = Inr x"
proof -
  define t where "t = TrimSpace (hr_Body resp)"
  from assms(1) obtain v where v: "parse_json t = Doc v False" "validateUniqueJSONValue v = None"
      "json_depth v \<le> maxNestingDepth" "f v z = Inr x"
    by (auto simp: decodes_to_def t_def)
  have "t \<noteq> []" "t \<noteq> ''null''" "\<not> (hd t = CHR ''{'' \<and> parse_json t = Doc (JObj []) False)"
    using v assms(2-4) parse_json_Nil parse_json_null by auto
  moreover have "validateJSONNoDuplicateObjectKeys t = None"
    using v by (simp add: validateJSONNoDuplicateObjectKeys_def)
  moreover have "json_Unmarshal f z t = Inr x" using json_Unmarshal_ok[OF v(1), of f z x] v by simp
  ultimately show ?thesis
    unfolding read_body_def[of env m p z f st "hr_Body resp" cid, folded t_def, unfolded Let_def]
    by (simp only: if_False option.case sum.case)
qed

lemma read_response_cases:
  assumes "read_response env m p z (Some f) resp = r"
  obtains (incomplete) a c where "r = Inl (Api a c)" "ResponseBodyIncomplete a"
  | (refused) cid where "complete_response resp" "\<not> success_status (hr_StatusCode resp)"
      "r = Inl (newAPIError env m p (hr_StatusCode resp) (hr_Body resp) cid)"
  | (rejected) a c where "success_status (hr_StatusCode resp)" "r = Inl (Api a c)" "StatusCode a = hr_StatusCode resp"
  | (accepted) cid x where "complete_response resp" "r = Inr x"
      "validateSuccessResponse env m p (hr_StatusCode resp) True (hr_Body resp) cid = None"
      "read_body env m p z f (hr_StatusCode resp) (hr_Body resp) cid = Inr x"
proof -
  let ?cid = "validatedWarrenCorrelationID (wr_CorrelationIDs resp)"
  show thesis
  proof (cases "complete_response resp \<and> hr_ContentLength resp \<le> maxResponseBodyBytes")
    case False
    then have "\<exists>msg cause. r = Inl (newIncompleteAPIError env m p (hr_StatusCode resp) msg ?cid cause)"
      using assms unfolding read_response_def Let_def complete_response_def
      by (auto split: bool.splits option.splits if_splits)
    then show ?thesis using incomplete by (auto simp: newIncompleteAPIError_def)
  next
    case True
    then have data: "take (nat (maxResponseBodyBytes + 1)) (hr_Body resp) = hr_Body resp"
      by (intro take_all) (auto simp: complete_response_def)
    with True assms have r: "r = (if hr_StatusCode resp < 200 \<or> hr_StatusCode resp \<ge> 300
        then Inl (newAPIError env m p (hr_StatusCode resp) (hr_Body resp) ?cid)
        else (case validateSuccessResponse env m p (hr_StatusCode resp) True (hr_Body resp) ?cid of
            Some err \<Rightarrow> Inl err
          | None \<Rightarrow> read_body env m p z f (hr_StatusCode resp) (hr_Body resp) ?cid))"
      by (auto simp: read_response_def Let_def complete_response_def split: option.splits)
    show ?thesis
    proof (cases r)
      case (Inl e)
      then show ?thesis
        using r True refused[of ?cid] rejected
        by (auto simp: success_status_def split: if_splits option.splits
            dest!: validateSuccessResponse_api read_body_error error_status_Some)
    next
      case (Inr x)
      then show ?thesis
        using r True accepted[of x ?cid] by (auto split: if_splits option.splits)
    qed
  qed
qed

lemma bound_not_found:
  "IsNotFound (Some (bindExactLookupError (Api a c) u)) \<Longrightarrow>
     (StatusCode a = 404 \<or> StatusCode a = 400 \<and> isExactVMDetailPath (Path a)) \<and> \<not> ResponseBodyIncomplete a"
  by (auto simp: IsNotFound_def bindExactLookupError_def errors_as_api_def api_not_found_def split: if_splits)

lemma bound_foreign: "errors_as_node e = None \<Longrightarrow> \<not> IsNotFound (Some (bindExactLookupError e u))"
  by (simp add: IsNotFound_def bindExactLookupError_def errors_as_api_def)

lemma redirect_status_not_found: "redirect_status st \<Longrightarrow> st \<noteq> 404 \<and> st \<noteq> 400"
  by (auto simp: redirect_status_def)

text \<open>
  What an exact read of \<open>u\<close> gives: a resource exactly when the one request was answered completely,
  with status 200 and a document that decodes to it and carries \<open>u\<close>; and absence only when it was
  answered completely with the status that means it.
\<close>

definition exact_verdict :: "'w Client \<Rightarrow> ctx \<Rightarrow> string \<Rightarrow> form_values \<Rightarrow> 'w \<Rightarrow> ('a \<Rightarrow> string) \<Rightarrow> string
    \<Rightarrow> (json \<Rightarrow> error + 'a) \<Rightarrow> error + 'a \<Rightarrow> bool" where
  "exact_verdict cl c path query w uuid_of u rd r \<longleftrightarrow>
     (\<forall>x. r = Inr x \<longleftrightarrow> EqualFold (uuid_of x) u
        \<and> (\<exists>resp. exchange cl c path query w resp \<and> complete_response resp \<and> hr_StatusCode resp = 200
             \<and> decodes_to rd resp x))
     \<and> (\<forall>e. r = Inl e \<longrightarrow> IsNotFound (Some e) \<longrightarrow>
          (\<exists>resp. exchange cl c path query w resp \<and> complete_response resp
             \<and> (hr_StatusCode resp = 404 \<or> hr_StatusCode resp = 400 \<and> isExactVMDetailPath path)))"

lemma read_response_accepts:
  assumes "complete_response resp" and "hr_StatusCode resp = 200" and "registered ''GET'' path True"
    and "\<And>cid. read_body env ''GET'' path z f 200 (hr_Body resp) cid = Inr x"
  shows "read_response env ''GET'' path z (Some f) resp = Inr x"
proof -
  obtain con where "endpointSuccessContract ''GET'' path = Some con" "ec_body con = successJSON"
    using assms(3) by (auto simp: registered_def)
  then have "validateSuccessResponse env ''GET'' path 200 True (hr_Body resp) cid = None" for cid
    using GET_contract_status[of path con] by (simp add: validateSuccessResponse_def Let_def)
  moreover have "take (nat (maxResponseBodyBytes + 1)) (hr_Body resp) = hr_Body resp"
    using assms(1) by (intro take_all) (auto simp: complete_response_def)
  ultimately show ?thesis
    using assms by (auto simp: read_response_def complete_response_def Let_def split: option.splits)
qed

lemma exact_read_accepts:
  assumes "exchange cl c path query w resp" and "complete_response resp" and "hr_StatusCode resp = 200"
    and "decodes_to (\<lambda>v. f v z) resp x" and "EqualFold (uuid_of x) u"
    and z: "f JNull z = Inr z" "f (JObj []) z = Inr z" "uuid_of z = []" "uuid_any u" and "registered ''GET'' path True"
  shows "fst (map_result (exact_result uuid_of u) (do_form cl (Some c) ''GET'' path query None z (Some f)) w) = Inr x"
proof -
  have "\<not> uuid_any []" by code_simp
  with z(4) have "u \<noteq> []" by auto
  then have "\<not> EqualFold [] u" by (cases u) (simp_all add: EqualFold_def ToLower_def)
  then have "x \<noteq> z" using z(3) assms(5) by auto
  then have "read_response (c_http cl) ''GET'' path z (Some f) resp = Inr x"
    by (intro read_response_accepts read_body_accepts assms)
  moreover have "\<not> isMutation ''GET''" "\<not> redirect_status 200" by (simp_all add: isMutation_def redirect_status_def)
  ultimately show ?thesis
    using assms(1,3,5)
    by (auto simp: map_result_def do_form_def doBody_def http_Do_def exchange_def request_ctx_def exact_result_def Let_def
        split: option.splits)
qed

lemma exact_read_sound:
  assumes ft: "foreign_transport (c_http cl)"
    and run: "map_result (exact_result uuid_of u) (do_form cl (Some c) ''GET'' path query None z (Some f)) w = (r, d, w')"
  shows "case r of
        Inr x \<Rightarrow> EqualFold (uuid_of x) u
          \<and> (\<exists>resp. exchange cl c path query w resp \<and> complete_response resp \<and> hr_StatusCode resp = 200
               \<and> decodes_to (\<lambda>v. f v z) resp x)
      | Inl e \<Rightarrow> IsNotFound (Some e) \<longrightarrow>
          (\<exists>resp. exchange cl c path query w resp \<and> complete_response resp
             \<and> (hr_StatusCode resp = 404 \<or> hr_StatusCode resp = 400 \<and> isExactVMDetailPath path))"
proof -
  obtain r0 where d: "doBody cl (Some c) ''GET'' path query None [] z (Some f) w = (r0, d, w')"
    and r: "r = exact_result uuid_of u r0"
    using run by (auto simp: map_result_def do_form_def split: prod.splits)
  from d show ?thesis
  proof (cases rule: doBody_cases)
    case unsent
    then show ?thesis by (auto simp: isMutation_def)
  next
    case (failed c' e)
    then show ?thesis
      using foreign_transport_Inl[OF ft failed(3)] r bound_foreign[of "Wrap ''inspace'' [UrlError e]"]
      by (simp add: exact_result_def foreign_error_def)
  next
    case (redirected c' resp e)
    from redirected(6) have "\<not> IsNotFound (Some (bindExactLookupError e' u))" if "r0 = Inl e'" for e'
      using that redirected(4) redirect_status_not_found[OF redirected(2)] bound_foreign[of "Wrap ''inspace'' [e]"]
      by (auto dest: bound_not_found)
    then show ?thesis using r redirected(6) by (auto simp: exact_result_def)
  next
    case (answered c' resp)
    have ex: "exchange cl c path query w resp" using answered(1,3) by (auto simp: exchange_def)
    from answered(2)[symmetric] show ?thesis
    proof (cases rule: read_response_cases)
      case incomplete
      then show ?thesis using r by (auto simp: exact_result_def dest: bound_not_found)
    next
      case (refused cid)
      then show ?thesis using r ex
        by (auto simp: exact_result_def newAPIError_def plain_api_error_def Let_def dest!: bound_not_found)
    next
      case rejected
      then show ?thesis using r by (auto simp: exact_result_def success_status_def dest: bound_not_found)
    next
      case (accepted cid x)
      from read_body_ok[OF accepted(4)] accepted r ex show ?thesis
        by (auto simp: exact_result_def IsNotFound_def errors_as_api_def dest: validateSuccessResponse_status)
    qed
  qed
qed

lemma exact_read:
  assumes "foreign_transport (c_http cl)"
    and "map_result (exact_result uuid_of u) (do_form cl (Some c) ''GET'' path query None z (Some f)) w = (r, d, w')"
    and "f JNull z = Inr z" "f (JObj []) z = Inr z" "uuid_of z = []" "uuid_any u" "registered ''GET'' path True"
  shows "exact_verdict cl c path query w uuid_of u (\<lambda>v. f v z) r"
  unfolding exact_verdict_def
  using exact_read_sound[OF assms(1,2)] exact_read_accepts[of cl c path query w _ f z _ uuid_of u] assms(2-7)
  by (auto split: sum.splits)

lemma empty_documents:
  "into_struct read_Disk (JObj []) x = Inr x"
  "into_struct read_Network (JObj []) y = Inr y"
  "into_struct read_VM (JObj []) v = Inr v"
  by (simp_all add: into_struct_def read_Disk_def read_Network_def read_VM_def set_field_def field_values_def
      bool_field_def nil_slice_field_def raw_field_def attempt_ok_def)

text \<open>
  C25: an exact read of a disk, a network or a machine returns the resource exactly when its one GET
  request was answered completely with status 200 and a document without repeated keys that decodes
  to that resource and carries the UUID that was asked for. Its error counts as absence only when
  that one request was answered completely with 404, or with the 400 the API uses for a machine.
\<close>

theorem exact_reads_verdict:
  assumes "foreign_transport (c_http cl)" and "location_ok l" and "uuid_any u"
    and "client_GetDisk cl (Some c) l u w = (disk, d1, w1)"
    and "client_GetNetwork cl (Some c) l u w = (network, d2, w2)"
    and "client_GetVM cl (Some c) l u w = (vm, d3, w3)"
  shows "exact_verdict cl c (''/v1/'' @ l @ ''/storage/disks/'' @ u) [] w disk_UUID u
           (\<lambda>v. into_struct read_Disk v zero_Disk) disk
       \<and> exact_verdict cl c (''/v1/'' @ l @ ''/network/network/'' @ u) [] w net_UUID u
           (\<lambda>v. into_struct read_Network v zero_Network) network
       \<and> exact_verdict cl c (''/v1/'' @ l @ ''/user-resource/vm'') [(''uuid'', u)] w vm_UUID u
           (\<lambda>v. into_struct read_VM v zero_VM) vm"
proof (intro conjI)
  have n: "into_struct f JNull z = Inr z" for f :: "(string \<times> json) list \<Rightarrow> 'b \<Rightarrow> error + 'b" and z
    by (simp add: into_struct_def)
  have z: "disk_UUID zero_Disk = []" "net_UUID zero_Network = []" "vm_UUID zero_VM = []"
    by (simp_all add: zero_Disk_def zero_Network_def zero_VM_def)
  have path: "locationPath l (CHR ''s'' # x) = Inr (''/v1/'' @ l @ ''/s'' @ x)"
    "locationPath l (CHR ''n'' # x) = Inr (''/v1/'' @ l @ ''/n'' @ x)"
    "locationPath l (CHR ''u'' # x) = Inr (''/v1/'' @ l @ ''/u'' @ x)" for x
    using assms(2) by (simp_all add: locationPath_def trim_left_slash_def)
  have "validateUUID u = None" using assms(3) by (simp add: validateUUID_def)
  note read = exact_read[where f = "into_struct read_Disk" and z = zero_Disk and uuid_of = disk_UUID,
      OF assms(1) _ n empty_documents(1) z(1) assms(3)]
    exact_read[where f = "into_struct read_Network" and z = zero_Network and uuid_of = net_UUID,
      OF assms(1) _ n empty_documents(2) z(2) assms(3)]
    exact_read[where f = "into_struct read_VM" and z = zero_VM and uuid_of = vm_UUID,
      OF assms(1) _ n empty_documents(3) z(3) assms(3)]
  show "exact_verdict cl c (''/v1/'' @ l @ ''/storage/disks/'' @ u) [] w disk_UUID u
      (\<lambda>v. into_struct read_Disk v zero_Disk) disk"
    using assms(4) \<open>validateUUID u = None\<close> uuid_routes[OF assms(2,3)]
    by (auto simp: client_GetDisk_def guarded_def on_path_def path intro!: read(1))
  show "exact_verdict cl c (''/v1/'' @ l @ ''/network/network/'' @ u) [] w net_UUID u
      (\<lambda>v. into_struct read_Network v zero_Network) network"
    using assms(5) \<open>validateUUID u = None\<close> uuid_routes[OF assms(2,3)]
    by (auto simp: client_GetNetwork_def guarded_def on_path_def path intro!: read(2))
  show "exact_verdict cl c (''/v1/'' @ l @ ''/user-resource/vm'') [(''uuid'', u)] w vm_UUID u
      (\<lambda>v. into_struct read_VM v zero_VM) vm"
    using assms(6) \<open>validateUUID u = None\<close> location_routes[OF assms(2)]
    by (auto simp: client_GetVM_def guarded_def on_path_def path intro!: read(3))
qed

end
