(* ===== verification/Client_Routing.thy ===== *)
theory Client_Routing
  imports Client_Proofs
begin

text \<open>
  No operation of the client ever meets a success response of its own route that the contract table
  does not know, or knows with another kind of body.
\<close>

section \<open>The two errors of a missing or wrong contract\<close>

definition contract_error :: "error \<Rightarrow> bool" where
  "contract_error e =
     (case errors_as_api e of
        None \<Rightarrow> False
      | Some a \<Rightarrow> success_status (StatusCode a)
          \<and> (Message a = ''successful response has no registered SDK endpoint contract''
             \<or> Message a = ''internal response contract mismatch''))"

definition routed :: "('w, 'a) client_op \<Rightarrow> bool" where
  "routed op \<longleftrightarrow> (\<forall>w e. fst (op w) = Inl e \<longrightarrow> \<not> contract_error e)"

definition local_error :: "error \<Rightarrow> bool" where
  "local_error e = (errors_as_node e = None)"

definition local_check :: "error option \<Rightarrow> bool" where
  "local_check c = (case c of None \<Rightarrow> True | Some e \<Rightarrow> local_error e)"

named_theorems local_rules \<open>checks whose errors carry no API error\<close>
named_theorems routed_rules \<open>operations whose routes are registered\<close>

lemma local_error_simps [simp]:
  "local_error (Plain m)" "local_error (Sentinel s)" "local_error (Wrap m [e]) = local_error e"
  "local_error (mutationNotDispatched e) = local_error e"
  by (auto simp: local_error_def mutationNotDispatched_def split: option.splits)

lemma local_error_uncontracted: "local_error e \<Longrightarrow> \<not> contract_error e"
  by (simp add: local_error_def contract_error_def errors_as_api_def)

lemma contract_error_Api [simp]:
  "contract_error (Api a c) \<longleftrightarrow> success_status (StatusCode a)
     \<and> (Message a = ''successful response has no registered SDK endpoint contract''
        \<or> Message a = ''internal response contract mismatch'')"
  by (simp add: contract_error_def errors_as_api_def)

lemma contract_error_Wrap [simp]: "contract_error (Wrap m [e]) = contract_error e"
  by (simp add: contract_error_def errors_as_api_def split: option.splits)

lemma contract_error_bound [simp]:
  "contract_error (bindExactLookupError e u) = contract_error e"
  "contract_error (bindExactFloatingIPLookupError e a) = contract_error e"
  by (auto simp: bindExactLookupError_def bindExactFloatingIPLookupError_def contract_error_def errors_as_api_def
      split: option.splits)

section \<open>One request\<close>

lemma validateSuccessResponse_routed:
  assumes "registered m p b" and "validateSuccessResponse env m p st b data cid = Some e"
  shows "\<not> contract_error e"
  using assms
  by (auto simp: registered_def validateSuccessResponse_def newMalformedResponseAPIError_def plain_api_error_def Let_def
      split: if_splits successBodyContract.splits option.splits)

lemma read_body_uncontracted:
  assumes "read_body env m p z f st data cid = Inl e"
  shows "\<not> contract_error e"
proof -
  have "Message a \<noteq> ''successful response has no registered SDK endpoint contract''
      \<and> Message a \<noteq> ''internal response contract mismatch''"
    if "e = Api a c" for a c
    using assms that
    by (auto simp: read_body_def newMalformedResponseAPIError_def plain_api_error_def Let_def
        split: if_splits option.splits sum.splits)
  then show ?thesis using read_body_error[OF assms] error_status_Some by fastforce
qed

lemma read_response_routed:
  assumes "registered m p (out \<noteq> None)" and "read_response env m p z out resp = Inl e"
  shows "\<not> contract_error e"
  using assms(2)
  by (auto simp: read_response_def newIncompleteAPIError_def newAPIError_def plain_api_error_def success_status_def Let_def
      split: if_splits bool.splits option.splits
      dest: validateSuccessResponse_routed[OF assms(1)[simplified]] read_body_uncontracted)

lemma routed_doBody:
  assumes "foreign_transport (c_http cl)" and "registered m p (out \<noteq> None)"
  shows "routed (doBody cl c m p q b ct z out)"
  unfolding routed_def
proof (intro allI impI)
  fix w e
  assume e: "fst (doBody cl c m p q b ct z out w) = Inl e"
  obtain r d w' where run: "doBody cl c m p q b ct z out w = (r, d, w')"
    by (cases "doBody cl c m p q b ct z out w") auto
  from run show "\<not> contract_error e"
  proof (cases rule: doBody_cases)
    case unsent
    then have "local_error e" using run e by (simp add: local_error_def)
    then show ?thesis by (rule local_error_uncontracted)
  next
    case (failed c' e')
    then show ?thesis using e run foreign_transport_Inl[OF assms(1) failed(3)]
      by (auto simp: foreign_error_def contract_error_def errors_as_api_def)
  next
    case (redirected c' resp e')
    then show ?thesis using e run
      by (auto simp: contract_error_def errors_as_api_def redirect_status_def success_status_def)
  next
    case (answered c' resp)
    then show ?thesis using e run read_response_routed[OF assms(2)] by auto
  qed
qed

lemma routed_do_form [routed_rules]:
  assumes "foreign_transport (c_http cl)" and "registered m p (out \<noteq> None)"
  shows "routed (do_form cl c m p q form z out)"
  unfolding do_form_def using routed_doBody[OF assms] by (cases form) auto

lemma routed_doJSON [routed_rules]:
  assumes "foreign_transport (c_http cl)" and "registered m p (out \<noteq> None)"
  shows "routed (doJSON cl c m p q input z out)"
  unfolding doJSON_def using routed_doBody[OF assms] by auto

section \<open>Operations\<close>

lemma routed_pure: "(\<And>e. r = Inl e \<Longrightarrow> \<not> contract_error e) \<Longrightarrow> routed (pure_op r)"
  by (simp add: routed_def pure_op_def)

lemma routed_fail: "local_error e \<Longrightarrow> routed (fail_op e)"
  by (simp add: routed_def fail_op_def local_error_uncontracted)

lemma routed_guarded [routed_rules]:
  "local_check check \<Longrightarrow> (check = None \<Longrightarrow> routed op) \<Longrightarrow> routed (guarded check op)"
  by (cases check) (auto simp: guarded_def local_check_def intro: routed_fail)

lemma routed_on_path [routed_rules]:
  "(location_ok l \<Longrightarrow> routed (op (''/v1/'' @ l @ ''/'' @ trim_left_slash res)))
   \<Longrightarrow> routed (on_path (locationPath l res) op)"
  by (auto simp: on_path_def locationPath_def intro: routed_fail)

lemma routedI: "(\<And>w e d w'. op w = (Inl e, d, w') \<Longrightarrow> \<not> contract_error e) \<Longrightarrow> routed op"
  unfolding routed_def by (metis prod.collapse)

lemma routedD: "routed op \<Longrightarrow> op w = (Inl e, d, w') \<Longrightarrow> \<not> contract_error e"
  unfolding routed_def by (metis fst_conv)

lemma routed_map_result:
  assumes "routed op"
    and "\<And>e e'. f (Inl e') = Inl e \<Longrightarrow> contract_error e \<Longrightarrow> contract_error e'"
    and "\<And>x e. f (Inr x) = Inl e \<Longrightarrow> \<not> contract_error e"
  shows "routed (map_result f op)"
proof (rule routedI)
  fix w e d w'
  assume "map_result f op w = (Inl e, d, w')"
  then obtain r where r: "op w = (r, d, w')" "f r = Inl e"
    by (auto simp: map_result_def split: prod.splits)
  show "\<not> contract_error e"
  proof (cases r)
    case (Inl e')
    with r have "\<not> contract_error e'" "f (Inl e') = Inl e" using routedD[OF assms(1)] by auto
    then show ?thesis using assms(2) by blast
  next
    case (Inr x)
    with r assms(3) show ?thesis by auto
  qed
qed

lemma local_checkD: "local_check c \<Longrightarrow> c = Some e \<Longrightarrow> local_error e"
  by (simp add: local_check_def)

lemma routed_check [routed_rules]:
  assumes "\<And>x. local_check (check x)" and "routed op"
  shows "routed (map_result (check_result check) op)"
proof (rule routed_map_result[OF assms(2)])
  fix x e
  assume "check_result check (Inr x) = Inl e"
  then have "check x = Some e" by (auto simp: check_result_def split: option.splits)
  then show "\<not> contract_error e" by (rule local_error_uncontracted[OF local_checkD[OF assms(1)]])
qed (auto simp: check_result_def)

lemma routed_exact [routed_rules]: "routed op \<Longrightarrow> routed (map_result (exact_result g u) op)"
  by (erule routed_map_result)
     (auto simp: exact_result_def local_error_uncontracted split: if_splits)

lemma list_identities_local:
  assumes "\<And>x e. identity x = Inl e \<Longrightarrow> local_error e"
  shows "list_identities identity seen xs = Some e \<Longrightarrow> local_error e"
proof (induction xs arbitrary: seen)
  case (Cons x xs)
  then show ?case using assms[of x] by (auto split: sum.splits if_splits)
qed simp

lemma routed_list [routed_rules]:
  assumes "\<And>x e. identity x = Inl e \<Longrightarrow> local_error e" and "routed op"
  shows "routed (map_result (\<lambda>r. validatedListResponse r identity) op)"
proof (rule routed_map_result[OF assms(2)])
  fix rows e
  assume "validatedListResponse (Inr rows) identity = Inl e"
  then have "local_error e"
    using list_identities_local[of identity "[]"] assms(1)
    by (auto simp: validatedListResponse_def split: option.splits)
  then show "\<not> contract_error e" by (rule local_error_uncontracted)
qed (simp add: validatedListResponse_def)

lemma routed_marked_path [routed_rules]:
  "(\<And>e. path = Inl e \<Longrightarrow> local_error e) \<Longrightarrow> (\<And>p. path = Inr p \<Longrightarrow> routed (op p)) \<Longrightarrow> routed (on_marked_path path op)"
  by (cases path) (auto simp: on_marked_path_def intro: routed_fail)

lemma routed_then [routed_rules]:
  assumes "routed op" and "\<And>x. routed (k x)"
  shows "routed (then_op op k)"
proof (rule routedI)
  fix w e d w'
  assume run: "then_op op k w = (Inl e, d, w')"
  obtain r d1 w1 where op: "op w = (r, d1, w1)" by (cases "op w")
  show "\<not> contract_error e"
  proof (cases r)
    case (Inl e')
    with run op have "e = e'" by (simp add: then_op_def bind_op_def pure_op_def)
    with routedD[OF assms(1)] op Inl show ?thesis by auto
  next
    case (Inr x)
    with run op obtain d2 where "k x w1 = (Inl e, d2, w')"
      by (auto simp: then_op_def bind_op_def split: prod.splits)
    then show ?thesis by (rule routedD[OF assms(2)])
  qed
qed

lemma routed_wrap [routed_rules]: "routed op \<Longrightarrow> routed (map_result (wrap_error m) op)"
  by (erule routed_map_result) (auto simp: wrap_error_def split: sum.splits)

text \<open>The local checks.\<close>

lemma local_checks [local_rules]:
  "local_check None" "local_check (require b m)" "local_check (validateUUID u)" "local_check (validateResponseUUID u)"
  "local_check (validateExpectedResponseUUID u v)" "local_check (validatePublicIPv4 a)"
  by (auto simp: local_check_def require_def validateUUID_def validateResponseUUID_def validateExpectedResponseUUID_def
      validatePublicIPv4_def split: option.splits go_addr.splits)

lemma local_check_if [local_rules]: "local_check c \<Longrightarrow> local_check d \<Longrightarrow> local_check (if b then c else d)"
  by simp

lemma local_check_rules [local_rules]: "local_check (validateRules rs)" "local_check (validate_targets ts)"
proof -
  have "local_check (validate_rules_from seen rs)" for seen
    by (induction rs arbitrary: seen) (auto simp: local_check_def)
  then show "local_check (validateRules rs)" by (simp add: validateRules_def)
  show "local_check (validate_targets ts)"
    by (induction ts) (auto simp: local_check_def validateUUID_def)
qed

lemma local_check_firewall_rule [local_rules]: "local_check (validateFirewallRule r)" "local_check (update_rule_error r)"
proof -
  show r: "local_check (validateFirewallRule r)"
    by (auto simp: validateFirewallRule_def local_check_def Let_def split: option.splits)
  then show "local_check (update_rule_error r)"
    using local_checks(3)[of "fwr_UUID r"] by (auto simp: update_rule_error_def local_check_def split: option.splits)
qed

lemma local_first_error [local_rules]:
  assumes "\<And>x. local_check (f x)"
  shows "local_check (first_error f xs)"
proof (induction xs)
  case (Cons x xs)
  then show ?case using assms[of x] by (cases "f x") (auto simp: local_check_def)
qed (simp add: local_check_def)

lemma locationPath_local: "locationPath l res = Inl e \<Longrightarrow> local_error e"
  by (auto simp: locationPath_def split: if_splits)

lemma identity_local:
  "validatedUUIDListIdentity u = Inl e \<Longrightarrow> local_error e" "validatedRequiredListIdentity v = Inl e \<Longrightarrow> local_error e"
  "vm_identity vm = Inl e \<Longrightarrow> local_error e" "lb_identity lb = Inl e \<Longrightarrow> local_error e" "fw_identity fw = Inl e \<Longrightarrow> local_error e"
  by (auto simp: validatedUUIDListIdentity_def validatedRequiredListIdentity_def vm_identity_def lb_identity_def
      fw_identity_def validateUUID_def split: option.splits if_splits)

lemma firewall_path_local:
  "createFirewallPath l i = Inl e \<Longrightarrow> local_error e" "updateFirewallPath l u j = Inl e \<Longrightarrow> local_error e"
  "firewallVMPath l u v = Inl e \<Longrightarrow> local_error e"
  "fail_if (validateUUID u) (locationPath l res) = Inl e \<Longrightarrow> local_error e"
  by (auto simp: createFirewallPath_def updateFirewallPath_def firewallVMPath_def fail_if_def
      split: if_splits option.splits dest: locationPath_local
      dest!: local_checkD[OF local_first_error[OF local_check_firewall_rule(1)]]
        local_checkD[OF local_first_error[OF local_check_firewall_rule(2)]] local_checkD[OF local_checks(3)])

lemma routed_let [routed_rules]: "routed (f v) \<Longrightarrow> routed (let x = v in f x)"
  by simp

lemma trim_left_slash_Cons [simp]: "c \<noteq> CHR ''/'' \<Longrightarrow> trim_left_slash (c # s) = c # s"
  by (simp add: trim_left_slash_def)

lemma uuid_checked [simp]: "validateUUID u = None \<longleftrightarrow> uuid_any u"
  by (simp add: validateUUID_def)

lemma locationPath_Inr: "locationPath l res = Inr p \<longleftrightarrow> location_ok l \<and> p = ''/v1/'' @ l @ ''/'' @ trim_left_slash res"
  by (auto simp: locationPath_def)

lemma createFirewallPath_Inr: "createFirewallPath l i = Inr p \<Longrightarrow> location_ok l \<and> p = ''/v1/'' @ l @ ''/network/firewalls''"
  by (auto simp: createFirewallPath_def fail_if_Inr locationPath_Inr split: if_splits)

lemma updateFirewallPath_Inr:
  "updateFirewallPath l u i = Inr p \<Longrightarrow> location_ok l \<and> uuid_any u \<and> p = ''/v1/'' @ l @ ''/network/firewalls/'' @ u"
  by (auto simp: updateFirewallPath_def fail_if_Inr locationPath_Inr split: if_splits)

lemma firewallVMPath_Inr:
  "firewallVMPath l u v = Inr p \<Longrightarrow> location_ok l \<and> uuid_any u \<and> p = ''/v1/'' @ l @ ''/network/firewalls/'' @ u @ ''/vms''"
  by (auto simp: firewallVMPath_def fail_if_Inr locationPath_Inr)

lemmas routes = config_routes location_routes[simplified] uuid_routes[simplified] child_routes[simplified]
  address_routes[simplified]

text \<open>Disks, machines and networks.\<close>

lemma routed_disks:
  assumes "foreign_transport (c_http cl)"
  shows "routed (client_CreateDisk cl c l dr)" "routed (client_GetDisk cl c l u)" "routed (client_ListDisks cl c l)"
    "routed (client_DeleteDisk cl c l u)" "routed (client_AttachDisk cl c l v u)"
    "routed (client_ResizeAttachedDisk cl c l v u n)" "routed (client_DetachDisk cl c l v u)"
proof -
  have detach: "routed (map_result (\<lambda>r. case r of Inl err \<Rightarrow> Inl err
      | Inr success \<Rightarrow> if success then Inr () else Inl (Plain ''inspace: detach disk response reported failure'')) op)"
    if "routed op" for op :: "('a, bool) client_op"
    by (rule routed_map_result[OF that]) (auto simp: local_error_uncontracted split: if_splits)
  show "routed (client_CreateDisk cl c l dr)" "routed (client_GetDisk cl c l u)" "routed (client_ListDisks cl c l)"
    "routed (client_DeleteDisk cl c l u)" "routed (client_AttachDisk cl c l v u)"
    "routed (client_ResizeAttachedDisk cl c l v u n)" "routed (client_DetachDisk cl c l v u)"
    unfolding client_CreateDisk_def client_GetDisk_def client_ListDisks_def client_DeleteDisk_def client_AttachDisk_def
      client_ResizeAttachedDisk_def client_DetachDisk_def
    by (intro routed_rules local_rules detach assms; (erule identity_local)?; simp add: routes assms)+
qed

lemma routed_machines:
  assumes "foreign_transport (c_http cl)"
  shows "routed (client_ListLocations cl c)" "routed (client_ListHostPools cl c l)" "routed (client_ListVMs cl c l)"
    "routed (client_GetVM cl c l u)" "routed (client_CreateVM cl c l vr)" "routed (client_DeleteVM cl c l u)"
    "routed (StopVM cl c l u)" "routed (StartVM cl c l u)" "routed (UpdateVMCompute cl c l u i j)"
    "routed (client_GetNetwork cl c l u)" "routed (client_ListNetworks cl c l)" "routed (client_ListVMImages cl c)"
  unfolding client_ListLocations_def client_ListHostPools_def client_ListVMs_def client_GetVM_def client_CreateVM_def
    client_DeleteVM_def StopVM_def StartVM_def vmPower_def UpdateVMCompute_def client_GetNetwork_def
    client_ListNetworks_def client_ListVMImages_def
  by (intro routed_rules local_rules assms; (erule identity_local)?; auto simp: routes assms split: if_splits)+

text \<open>Load balancers and firewalls.\<close>

lemma routed_load_balancers:
  assumes "foreign_transport (c_http cl)"
  shows "routed (ListLoadBalancers cl c l)" "routed (GetLoadBalancer cl c l u)" "routed (CreateLoadBalancer cl c l lr)"
    "routed (DeleteLoadBalancer cl c l u)" "routed (AddLoadBalancerTarget cl c l u v)"
    "routed (RemoveLoadBalancerTarget cl c l u v)" "routed (AddLoadBalancerRule cl c l u r)"
    "routed (RemoveLoadBalancerRule cl c l u v)"
  unfolding ListLoadBalancers_def GetLoadBalancer_def CreateLoadBalancer_def DeleteLoadBalancer_def
    AddLoadBalancerTarget_def RemoveLoadBalancerTarget_def AddLoadBalancerRule_def RemoveLoadBalancerRule_def
  by (intro routed_rules local_rules assms; (erule identity_local)?; auto simp: routes assms split: if_splits)+

lemma assignment_rows_local: "assignment_rows vm seen n rows = Inl e \<Longrightarrow> local_error e"
  by (induction rows arbitrary: seen n)
     (auto simp: validateResponseUUID_def validateUUID_def split: option.splits if_splits)

lemma routed_firewalls:
  assumes "foreign_transport (c_http cl)"
  shows "routed (ListFirewalls cl c l)" "routed (GetFirewall cl c l u)" "routed (CreateFirewall cl c l fr)"
    "routed (UpdateFirewall cl c l u ur)" "routed (DeleteFirewall cl c l u)" "routed (AssignFirewallToVM cl c l u v)"
    "routed (UnassignFirewallFromVM cl c l u v)"
proof -
  show list: "routed (ListFirewalls cl c l)"
    unfolding ListFirewalls_def
    by (intro routed_rules local_rules assms; (erule identity_local)?; simp add: routes assms)
  show "routed (GetFirewall cl c l u)"
    unfolding GetFirewall_def
    by (intro routed_guarded routed_on_path routed_map_result[OF list] local_rules)
       (auto simp: plain_api_error_def success_status_def split: option.splits)
  have assign: "routed (map_result (assignment_result vm) op)" if "routed op"
    for vm and op :: "('a, FirewallResource list option) client_op"
    by (rule routed_map_result[OF that])
       (auto simp: assignment_result_def split: sum.splits if_splits
         dest!: assignment_rows_local intro!: local_error_uncontracted)
  note locals = firewall_path_local
  show "routed (CreateFirewall cl c l fr)" "routed (UpdateFirewall cl c l u ur)" "routed (DeleteFirewall cl c l u)"
    "routed (AssignFirewallToVM cl c l u v)" "routed (UnassignFirewallFromVM cl c l u v)"
    unfolding CreateFirewall_def UpdateFirewall_def DeleteFirewall_def AssignFirewallToVM_def UnassignFirewallFromVM_def
    by (intro routed_rules local_rules assign assms; (erule locals)?;
        auto simp: routes fail_if_Inr locationPath_Inr assms
          dest!: createFirewallPath_Inr updateFirewallPath_Inr firewallVMPath_Inr)+
qed

text \<open>Floating IPs: their checks are local, so the readbacks they order add nothing.\<close>

lemma local_check_option [local_rules]:
  "local_check c \<Longrightarrow> (c = None \<Longrightarrow> local_check d) \<Longrightarrow> local_check (case c of Some e \<Rightarrow> Some e | None \<Rightarrow> d)"
  "local_check c \<Longrightarrow> (c = None \<Longrightarrow> local_check d) \<Longrightarrow> local_check (case c of Some e \<Rightarrow> Some (Wrap m [e]) | None \<Rightarrow> d)"
  by (auto simp: local_check_def split: option.splits)

lemma local_check_Some [local_rules]: "local_error e \<Longrightarrow> local_check (Some e)"
  by (simp add: local_check_def)

lemma local_check_fip [local_rules]:
  "local_check (validateFloatingIPBaseIdentity f a)" "local_check (validateFloatingIPStableAuthority f b)"
  "local_check (validateSparseFloatingIPAuthority f b)" "local_check (validateFloatingIPResponseIdentity f a b)"
  "local_check (validateFloatingIPStableIdentityMatch f g)"
proof -
  show base: "local_check (validateFloatingIPBaseIdentity f a)" for f a
    unfolding validateFloatingIPBaseIdentity_def by (intro local_rules) simp
  show stable: "local_check (validateFloatingIPStableAuthority f b)" for f b
    unfolding validateFloatingIPStableAuthority_def by (intro local_rules base) simp_all
  show sparse: "local_check (validateSparseFloatingIPAuthority f b)" for f b
    unfolding validateSparseFloatingIPAuthority_def by (intro local_rules stable) simp_all
  show "local_check (validateFloatingIPResponseIdentity f a b)"
    unfolding validateFloatingIPResponseIdentity_def by (intro local_rules base sparse) simp_all
  show "local_check (validateFloatingIPStableIdentityMatch f g)"
    unfolding validateFloatingIPStableIdentityMatch_def by (intro local_rules stable sparse) simp_all
qed

lemma corroborate_local: "corroborateSparseFloatingIP f g = Inl e \<Longrightarrow> local_error e"
  by (auto simp: corroborateSparseFloatingIP_def fail_if_def split: option.splits if_splits
      dest: local_checkD[OF local_check_fip(4)] local_checkD[OF local_check_fip(5)])

lemma fip_list_identity_local: "fip_list_identity f = Inl e \<Longrightarrow> local_error e"
  by (auto simp: fip_list_identity_def split: option.splits if_splits
      dest: local_checkD[OF local_check_fip(1)] local_checkD[OF local_check_fip(4)])

lemma unique_match_local: "unique_match f fs = Inl e \<Longrightarrow> local_error e"
  by (auto simp: unique_match_def split: list.splits)

lemma routed_pure_local [routed_rules]: "(\<And>e. r = Inl e \<Longrightarrow> local_error e) \<Longrightarrow> routed (pure_op r)"
  by (rule routed_pure) (rule local_error_uncontracted)

lemma routed_option [routed_rules]:
  "(c = None \<Longrightarrow> routed op) \<Longrightarrow> (\<And>e. c = Some e \<Longrightarrow> routed (k e)) \<Longrightarrow> routed (case c of None \<Rightarrow> op | Some e \<Rightarrow> k e)"
  by (cases c) auto

lemma routed_if [routed_rules]: "(b \<Longrightarrow> routed op) \<Longrightarrow> (\<not> b \<Longrightarrow> routed op') \<Longrightarrow> routed (if b then op else op')"
  by simp

lemma routed_address [routed_rules]: "routed op \<Longrightarrow> routed (map_result (bind_address_error a) op)"
  by (erule routed_map_result) (auto simp: bind_address_error_def)

lemma routed_shape [routed_rules]: "routed op \<Longrightarrow> routed (map_result validateFloatingIPCollectionShape op)"
  unfolding validateFloatingIPCollectionShape_def[abs_def] by (rule routed_list) (rule fip_list_identity_local)

lemma routed_wrapped_shape [routed_rules]:
  assumes "routed op"
  shows "routed (map_result (\<lambda>r. wrap_error m (validateFloatingIPCollectionShape r)) op)"
proof -
  have "map_result (\<lambda>r. wrap_error m (validateFloatingIPCollectionShape r)) op
      = map_result (wrap_error m) (map_result validateFloatingIPCollectionShape op)"
    by (auto simp: map_result_def fun_eq_iff split: prod.splits)
  then show ?thesis using routed_wrap[OF routed_shape[OF assms]] by simp
qed

lemma routed_fip_reads:
  assumes "foreign_transport (c_http cl)"
  shows "routed (listFloatingIPsRaw cl c l fs)" "routed (getFloatingIPRaw cl c l a)"
  unfolding listFloatingIPsRaw_def getFloatingIPRaw_def
  by (intro routed_rules local_rules assms; simp add: routes assms)+

lemma routed_GetFloatingIP:
  assumes "foreign_transport (c_http cl)"
  shows "routed (GetFloatingIP cl c l a)"
  unfolding GetFloatingIP_def resolveSparseFloatingIPWithListRead_def
  by (intro routed_rules local_rules routed_fip_reads assms)
     (auto simp: attempt_ok_def split: sum.splits
        dest: local_checkD[OF local_check_fip(4)] corroborate_local unique_match_local)

lemma routed_resolve_rows:
  assumes "foreign_transport (c_http cl)"
  shows "routed (resolve_rows cl c l fs)"
proof (induction fs)
  case Nil
  show ?case by (simp add: routed_def pure_op_def)
next
  case (Cons f fs)
  have "routed (resolveSparseFloatingIPWithExactRead cl c l f)"
    unfolding resolveSparseFloatingIPWithExactRead_def
    by (intro routed_rules local_rules routed_fip_reads assms) (rule corroborate_local)
  with Cons show ?case
    unfolding resolve_rows.simps
    by (intro routed_rules) (auto dest: local_checkD[OF local_check_fip(4)])
qed

lemma local_check_filter [local_rules]: "local_check (filter_error f x)"
  unfolding filter_error_def by (intro local_rules) simp_all

lemma routed_floating_ips:
  assumes "foreign_transport (c_http cl)"
  shows "routed (ListFloatingIPs cl c l fs)" "routed (GetFloatingIP cl c l a)" "routed (CreateFloatingIP cl c l ci)"
    "routed (UpdateFloatingIP cl c l a ui)" "routed (AssignFloatingIP cl c l a u t)" "routed (UnassignFloatingIP cl c l a)"
    "routed (DeleteFloatingIP cl c l a)"
proof -
  show "routed (GetFloatingIP cl c l a)" by (rule routed_GetFloatingIP[OF assms])
  show "routed (ListFloatingIPs cl c l fs)"
    unfolding ListFloatingIPs_def
    by (intro routed_rules routed_fip_reads routed_resolve_rows assms)
       (auto simp: fail_if_def split: option.splits dest: local_checkD[OF local_first_error[OF local_check_filter]])
  show "routed (UpdateFloatingIP cl c l a ui)" "routed (AssignFloatingIP cl c l a u t)" "routed (DeleteFloatingIP cl c l a)"
    unfolding UpdateFloatingIP_def AssignFloatingIP_def DeleteFloatingIP_def
    by (intro routed_rules local_rules assms; simp add: routes assms)+
  show "routed (CreateFloatingIP cl c l ci)" "routed (UnassignFloatingIP cl c l a)"
    unfolding CreateFloatingIP_def UnassignFloatingIP_def Let_def
    by (intro routed_rules local_rules routed_GetFloatingIP assms;
        auto simp: routes assms still_assigned_def wrap_error_def attempt_ok_def split: sum.splits if_splits
          dest: local_checkD[OF local_check_fip(2)] local_checkD[OF local_check_fip(3)]
            local_checkD[OF local_check_fip(4)] corroborate_local)+
qed

text \<open>
  C39: the table of endpoint contracts covers every operation of the client: whatever the server
  answers, no operation fails because its route has no contract or because the contract expects
  another kind of body than the operation decodes.
\<close>

theorem client_routes_registered:
  assumes "foreign_transport (c_http cl)"
  shows "routed (client_CreateDisk cl c l dr) \<and> routed (client_GetDisk cl c l u) \<and> routed (client_ListDisks cl c l)
    \<and> routed (client_DeleteDisk cl c l u) \<and> routed (client_AttachDisk cl c l v u)
    \<and> routed (client_ResizeAttachedDisk cl c l v u n) \<and> routed (client_DetachDisk cl c l v u)
    \<and> routed (client_ListLocations cl c) \<and> routed (client_ListHostPools cl c l) \<and> routed (client_ListVMs cl c l)
    \<and> routed (client_GetVM cl c l u) \<and> routed (client_CreateVM cl c l vr) \<and> routed (client_DeleteVM cl c l u)
    \<and> routed (StopVM cl c l u) \<and> routed (StartVM cl c l u) \<and> routed (UpdateVMCompute cl c l u i j)
    \<and> routed (client_GetNetwork cl c l u) \<and> routed (client_ListNetworks cl c l) \<and> routed (client_ListVMImages cl c)
    \<and> routed (ListLoadBalancers cl c l) \<and> routed (GetLoadBalancer cl c l u) \<and> routed (CreateLoadBalancer cl c l lr)
    \<and> routed (DeleteLoadBalancer cl c l u) \<and> routed (AddLoadBalancerTarget cl c l u v)
    \<and> routed (RemoveLoadBalancerTarget cl c l u v) \<and> routed (AddLoadBalancerRule cl c l u r)
    \<and> routed (RemoveLoadBalancerRule cl c l u v)
    \<and> routed (ListFirewalls cl c l) \<and> routed (GetFirewall cl c l u) \<and> routed (CreateFirewall cl c l fr)
    \<and> routed (UpdateFirewall cl c l u ur) \<and> routed (DeleteFirewall cl c l u) \<and> routed (AssignFirewallToVM cl c l u v)
    \<and> routed (UnassignFirewallFromVM cl c l u v)
    \<and> routed (ListFloatingIPs cl c l fs) \<and> routed (GetFloatingIP cl c l a) \<and> routed (CreateFloatingIP cl c l ci)
    \<and> routed (UpdateFloatingIP cl c l a ui) \<and> routed (AssignFloatingIP cl c l a u t)
    \<and> routed (UnassignFloatingIP cl c l a) \<and> routed (DeleteFloatingIP cl c l a)"
  by (intro conjI routed_disks routed_machines routed_load_balancers routed_firewalls routed_floating_ips assms)

end
