(* ===== verification/Floating_IP_Proofs.thy ===== *)
theory Floating_IP_Proofs
  imports Client_Proofs
begin

text \<open>
  When the client may call a floating IP unassigned. Live endpoints omit the whole assignment tuple of
  an address, and an omission alone is no evidence: the address may as well be in use. This theory
  shows what evidence stands behind every answer of the read and of the unassignment.
\<close>

section \<open>Evidence\<close>

text \<open>An answer without any trace of an assignment tuple, and one that says itself that there is none.\<close>

definition sparse_answer :: "FloatingIP \<Rightarrow> bool" where
  "sparse_answer f \<longleftrightarrow> \<not> fip_assignedToPresent f \<and> \<not> fip_assignedTypePresent f \<and> \<not> fip_assignedPrivatePresent f
     \<and> fip_AssignedTo f = [] \<and> fip_AssignedToResourceType f = [] \<and> fip_AssignedToPrivateIP f = []"

definition says_unassigned :: "FloatingIP \<Rightarrow> bool" where
  "says_unassigned f \<longleftrightarrow> fip_AssignedTo f = [] \<and> fip_AssignedToResourceType f = [] \<and> fip_AssignedToPrivateIP f = []
     \<and> (fip_assignedToPresent f \<or> sparse_answer f \<and> (fip_UnassignedAt f \<noteq> []
          \<or> fip_IsDeleted f \<and> validateSparseFloatingIPAuthority f True = None))"

text \<open>
  The exact read says so, or the exact read and the only row of the collection with that address are
  both about the same address record and the row says so or omits the tuple as well.
\<close>

definition unassigned_evidence :: "'w Client \<Rightarrow> ctx option \<Rightarrow> string \<Rightarrow> string \<Rightarrow> 'w \<Rightarrow> FloatingIP \<Rightarrow> 'w \<Rightarrow> bool" where
  "unassigned_evidence cl c l a w f w' \<longleftrightarrow> (\<exists>g d1 w1. getFloatingIPRaw cl c l a w = (Inr g, d1, w1) \<and> fip_Address g = a
     \<and> (says_unassigned g \<and> f = g \<and> w' = w1
        \<or> sparse_answer g \<and> (\<exists>rows h d2.
             listFloatingIPsRaw cl c l (Some \<lparr>ff_BillingAccountID = fip_BillingAccountID g, ff_VMUUID = []\<rparr>) w1
               = (Inr (Some rows), d2, w')
             \<and> filter (\<lambda>r. fip_Address r = a) rows = [h] \<and> same_stable_identity g h
             \<and> (says_unassigned h \<and> f = h \<or> sparse_answer h \<and> f = h\<lparr>fip_assignmentCorroborated := True\<rparr>))))"

section \<open>Decoded answers\<close>

text \<open>The proof bit of an answer is never set by decoding it.\<close>

lemma do_fields_keep:
  assumes "\<And>f x y. f \<in> set fs \<Longrightarrow> f x = Inr y \<Longrightarrow> k y = k x" and "do_fields x fs = Inr y"
  shows "k y = k x"
  using assms by (induction fs arbitrary: x) (force simp: attempt_ok_Inr)+

lemma set_field_keep: "set_field rd n ms get put x = Inr y \<Longrightarrow> (\<And>v x. k (put v x) = k x) \<Longrightarrow> k y = k x"
  by (auto simp: set_field_def attempt_ok_Inr)

lemma read_FloatingIP_keep: "read_FloatingIP ms x = Inr y \<Longrightarrow> fip_assignmentCorroborated y = fip_assignmentCorroborated x"
  unfolding read_FloatingIP_def
  by (erule do_fields_keep[rotated]) (auto elim!: set_field_keep[where k = fip_assignmentCorroborated])

lemma decoded_uncorroborated: "UnmarshalJSON_FloatingIP v old = Inr f \<Longrightarrow> \<not> fip_assignmentCorroborated f"
  by (auto simp: UnmarshalJSON_FloatingIP_def attempt_ok_Inr Let_def into_struct_def zero_FloatingIP_def
      split: if_splits json.splits dest: read_FloatingIP_keep)

lemma doBody_decoded:
  assumes "doBody cl c meth path q b ct z (Some f) w = (Inr x, d, w')"
  shows "\<exists>v. f v z = Inr x"
  using assms
proof (cases rule: doBody_cases)
  case (answered c' resp)
  from answered(2)[symmetric] show ?thesis
    by (cases rule: read_response_cases) (auto dest!: read_body_ok simp: decodes_to_def newAPIError_def Let_def)
qed auto

lemma unmarshal_elements_decoded:
  "unmarshal_elements f z vs = Inr xs \<Longrightarrow> x \<in> set xs \<Longrightarrow> \<exists>v. f v z = Inr x"
  by (induction vs arbitrary: xs) (auto simp: attempt_ok_Inr)

lemma elements_uncorroborated:
  "unmarshal_elements UnmarshalJSON_FloatingIP z vs = Inr fs \<Longrightarrow> f \<in> set fs \<Longrightarrow> \<not> fip_assignmentCorroborated f"
  by (blast dest: unmarshal_elements_decoded decoded_uncorroborated)

lemma get_uncorroborated:
  "getFloatingIPRaw cl c l a w = (Inr f, d, w') \<Longrightarrow> \<not> fip_assignmentCorroborated f"
  by (auto simp: getFloatingIPRaw_def guarded_def on_path_def map_result_def do_form_def bind_address_error_def fail_op_def
      split: option.splits sum.splits prod.splits dest!: doBody_decoded decoded_uncorroborated)

lemma list_uncorroborated:
  "listFloatingIPsRaw cl c l fs w = (Inr (Some rows), d, w') \<Longrightarrow> f \<in> set rows \<Longrightarrow> \<not> fip_assignmentCorroborated f"
  by (auto simp: listFloatingIPsRaw_def guarded_def on_path_def do_form_def fail_op_def Let_def into_nil_slice_def attempt_ok_Inr
      split: option.splits sum.splits json.splits if_splits
      dest!: doBody_decoded dest: elements_uncorroborated)

section \<open>The checks\<close>

lemma base_identity_not_sparse:
  "validateFloatingIPBaseIdentity f a = Some e \<Longrightarrow> \<not> errors_is ErrSparseFloatingIPAssignment e"
  by (auto simp: validateFloatingIPBaseIdentity_def validatePublicIPv4_def validateResponseUUID_def validateUUID_def
      split: option.splits if_splits go_addr.splits)

lemma stable_authority_not_sparse:
  "validateFloatingIPStableAuthority f b = Some e \<Longrightarrow> \<not> errors_is ErrSparseFloatingIPAssignment e"
  by (auto simp: validateFloatingIPStableAuthority_def split: option.splits if_splits dest: base_identity_not_sparse)

lemma sparse_authority_not_sparse:
  "validateSparseFloatingIPAuthority f b = Some e \<Longrightarrow> \<not> errors_is ErrSparseFloatingIPAssignment e"
  by (auto simp: validateSparseFloatingIPAuthority_def split: option.splits if_splits dest: stable_authority_not_sparse)

lemma sparse_error:
  "validateFloatingIPResponseIdentity f a b = Some e \<Longrightarrow> errors_is ErrSparseFloatingIPAssignment e \<Longrightarrow> sparse_answer f"
  by (auto simp: validateFloatingIPResponseIdentity_def sparse_answer_def validateResponseUUID_def validateUUID_def
      split: option.splits if_splits dest: base_identity_not_sparse sparse_authority_not_sparse)

lemma sparse_error_base:
  "validateFloatingIPResponseIdentity f a b = Some e \<Longrightarrow> errors_is ErrSparseFloatingIPAssignment e
   \<Longrightarrow> validateFloatingIPBaseIdentity f a = None"
  by (auto simp: validateFloatingIPResponseIdentity_def split: option.splits dest: base_identity_not_sparse)

lemma base_identity_corroborated [simp]:
  "validateFloatingIPBaseIdentity (f\<lparr>fip_assignmentCorroborated := b\<rparr>) a = validateFloatingIPBaseIdentity f a"
  by (simp add: validateFloatingIPBaseIdentity_def split: option.splits)

lemma corroborated_identity:
  "sparse_answer f \<Longrightarrow> validateFloatingIPBaseIdentity f a = None
   \<Longrightarrow> validateFloatingIPResponseIdentity (f\<lparr>fip_assignmentCorroborated := True\<rparr>) a True = None"
  by (simp add: validateFloatingIPResponseIdentity_def sparse_answer_def)

lemma identity_ok:
  assumes "validateFloatingIPResponseIdentity f a b = None"
  shows "fip_AssignedTo f = [] \<Longrightarrow> \<not> fip_assignmentCorroborated f \<Longrightarrow> says_unassigned f"
    and "a \<noteq> [] \<Longrightarrow> fip_Address f = a" and "\<not> b \<Longrightarrow> fip_assignedToPresent f"
  using assms by (auto simp: validateFloatingIPResponseIdentity_def validateFloatingIPBaseIdentity_def says_unassigned_def
      sparse_answer_def split: option.splits if_splits)

lemma public_address: "validatePublicIPv4 a = None \<Longrightarrow> a \<noteq> []"
proof -
  have "validatePublicIPv4 [] \<noteq> None" by code_simp
  then show "validatePublicIPv4 a = None \<Longrightarrow> a \<noteq> []" by auto
qed

lemma corroborated:
  assumes "corroborateSparseFloatingIP g h = Inr f"
  shows "same_stable_identity g h" and "fip_AssignedTo f = fip_AssignedTo h" and "fip_Address h = fip_Address g"
    and "validateFloatingIPResponseIdentity f (fip_Address g) True = None"
    and "f = h \<or> sparse_answer h \<and> f = h\<lparr>fip_assignmentCorroborated := True\<rparr>"
    and "validateFloatingIPResponseIdentity h (fip_Address g) True = None \<Longrightarrow> f = h"
proof -
  have id: "same_stable_identity g h" and r: "validateFloatingIPResponseIdentity h (fip_Address g) True = None \<and> f = h
      \<or> (\<exists>e. validateFloatingIPResponseIdentity h (fip_Address g) True = Some e \<and> errors_is ErrSparseFloatingIPAssignment e
          \<and> f = h\<lparr>fip_assignmentCorroborated := True\<rparr>)"
    using assms by (auto simp: corroborateSparseFloatingIP_def validateFloatingIPStableIdentityMatch_def fail_if_Inr
        split: option.splits if_splits)
  show "same_stable_identity g h" "fip_Address h = fip_Address g" using id by (auto simp: same_stable_identity_def)
  show "fip_AssignedTo f = fip_AssignedTo h" using r by auto
  show "f = h \<or> sparse_answer h \<and> f = h\<lparr>fip_assignmentCorroborated := True\<rparr>" using r sparse_error by blast
  show "validateFloatingIPResponseIdentity h (fip_Address g) True = None \<Longrightarrow> f = h" using r by auto
  show "validateFloatingIPResponseIdentity f (fip_Address g) True = None"
    using r by (auto intro: corroborated_identity sparse_error sparse_error_base)
qed

section \<open>The reads\<close>

lemma then_op_Inr:
  "then_op op k w = (Inr y, d, w') \<longleftrightarrow> (\<exists>x d1 w1 d2. op w = (Inr x, d1, w1) \<and> k x w1 = (Inr y, d2, w') \<and> d = d1 + d2)"
  by (auto simp: then_op_def bind_op_def pure_op_def split: prod.splits sum.splits)

lemma pure_op_Inr [simp]: "pure_op r w = (Inr y, d, w') \<longleftrightarrow> r = Inr y \<and> d = 0 \<and> w' = w"
  by (auto simp: pure_op_def)

lemma map_result_Inr: "map_result h op w = (Inr y, d, w') \<longleftrightarrow> (\<exists>r. op w = (r, d, w') \<and> h r = Inr y)"
  by (auto simp: map_result_def split: prod.splits)

lemma wrap_error_Inr [simp]: "wrap_error m r = Inr y \<longleftrightarrow> r = Inr y"
  by (auto simp: wrap_error_def split: sum.splits)

lemma guarded_Inr: "guarded ch op w = (Inr y, d, w') \<longleftrightarrow> ch = None \<and> op w = (Inr y, d, w')"
  by (auto simp: guarded_def fail_op_def split: option.splits)

lemma on_path_Inr: "on_path p op w = (Inr y, d, w') \<longleftrightarrow> (\<exists>path. p = Inr path \<and> op path w = (Inr y, d, w'))"
  by (auto simp: on_path_def fail_op_def split: sum.splits)

lemmas success_simps = then_op_Inr map_result_Inr guarded_Inr on_path_Inr attempt_ok_Inr

lemma get_raw_address: "getFloatingIPRaw cl c l a w = (Inr f, d, w') \<Longrightarrow> a \<noteq> []"
  by (auto simp: getFloatingIPRaw_def guarded_Inr dest: public_address)

lemma collection_rows:
  assumes "validateFloatingIPCollectionShape r = Inr rows" shows "r = Inr (Some rows)"
  using assms by (auto simp: validateFloatingIPCollectionShape_def validatedListResponse_def split: sum.splits option.splits)

lemma unique_match_row: "unique_match g rows = Inr h \<Longrightarrow> filter (\<lambda>r. fip_Address r = fip_Address g) rows = [h]"
  by (auto simp: unique_match_def split: list.splits)

lemma resolved_by_list:
  assumes "resolveSparseFloatingIPWithListRead cl c l g w = (Inr f, d, w')"
  obtains rows h d2 where
    "listFloatingIPsRaw cl c l (Some \<lparr>ff_BillingAccountID = fip_BillingAccountID g, ff_VMUUID = []\<rparr>) w = (Inr (Some rows), d2, w')"
    "filter (\<lambda>r. fip_Address r = fip_Address g) rows = [h]" "corroborateSparseFloatingIP g h = Inr f"
    "\<not> fip_assignmentCorroborated h"
proof -
  from assms obtain rows h d2 where r:
      "listFloatingIPsRaw cl c l (Some \<lparr>ff_BillingAccountID = fip_BillingAccountID g, ff_VMUUID = []\<rparr>) w = (Inr (Some rows), d2, w')"
      "unique_match g rows = Inr h" "corroborateSparseFloatingIP g h = Inr f"
    by (auto simp: resolveSparseFloatingIPWithListRead_def success_simps dest!: collection_rows)
  note row = unique_match_row[OF r(2)]
  then have "h \<in> set rows" by (metis filter_is_subset list.set_intros(1) subsetD)
  with list_uncorroborated[OF r(1)] show thesis using that r row by blast
qed

lemma get_cases:
  assumes "GetFloatingIP cl c l a w = (Inr f, d, w')"
  obtains (direct) d1 where "getFloatingIPRaw cl c l a w = (Inr f, d1, w')" "validateFloatingIPResponseIdentity f a True = None"
  | (resolved) g d1 w1 d2 where "getFloatingIPRaw cl c l a w = (Inr g, d1, w1)" "sparse_answer g" "fip_Address g = a"
      "resolveSparseFloatingIPWithListRead cl c l g w1 = (Inr f, d2, w')"
proof -
  from assms obtain g d1 w1 d2 where raw: "getFloatingIPRaw cl c l a w = (Inr g, d1, w1)"
    and k: "(case validateFloatingIPResponseIdentity g a True of
         None \<Rightarrow> pure_op (Inr g)
       | Some identityErr \<Rightarrow>
           if \<not> errors_is ErrSparseFloatingIPAssignment identityErr then pure_op (Inl identityErr)
           else map_result (wrap_error ''inspace: exact floating IP returned a sparse assignment tuple'')
                  (resolveSparseFloatingIPWithListRead cl c l g)) w1 = (Inr f, d2, w')"
    by (auto simp: GetFloatingIP_def then_op_Inr)
  show thesis
  proof (cases "validateFloatingIPResponseIdentity g a True")
    case None
    with raw k show thesis using direct by simp
  next
    case (Some e)
    with k have e: "errors_is ErrSparseFloatingIPAssignment e" by (auto split: if_splits)
    have "fip_Address g = a"
      using sparse_error_base[OF Some e] get_raw_address[OF raw] by (auto simp: validateFloatingIPBaseIdentity_def split: option.splits if_splits)
    with raw k Some e sparse_error[OF Some e] show thesis using resolved by (auto simp: map_result_Inr)
  qed
qed

lemma get_identity:
  assumes "GetFloatingIP cl c l a w = (Inr f, d, w')"
  shows "validateFloatingIPResponseIdentity f a True = None"
  using assms
proof (cases rule: get_cases)
  case (resolved g d1 w1 d2)
  from resolved(4) show ?thesis by (rule resolved_by_list) (use corroborated(4) resolved(3) in metis)
qed auto

lemma get_evidence:
  assumes "GetFloatingIP cl c l a w = (Inr f, d, w')" and "fip_AssignedTo f = []"
  shows "unassigned_evidence cl c l a w f w'"
  using assms(1)
proof (cases rule: get_cases)
  case (direct d1)
  with identity_ok(1)[OF direct(2) assms(2) get_uncorroborated[OF direct(1)]] identity_ok(2)[OF direct(2)] get_raw_address
  show ?thesis unfolding unassigned_evidence_def by metis
next
  case (resolved g d1 w1 d2)
  from resolved(4) show ?thesis
  proof (rule resolved_by_list)
    fix rows h d3
    assume l: "listFloatingIPsRaw cl c l (Some \<lparr>ff_BillingAccountID = fip_BillingAccountID g, ff_VMUUID = []\<rparr>) w1
        = (Inr (Some rows), d3, w')"
      and row: "filter (\<lambda>r. fip_Address r = fip_Address g) rows = [h]" and co: "corroborateSparseFloatingIP g h = Inr f"
      and un: "\<not> fip_assignmentCorroborated h"
    have "says_unassigned h \<and> f = h \<or> sparse_answer h \<and> f = h\<lparr>fip_assignmentCorroborated := True\<rparr>"
      using corroborated(4,5)[OF co] identity_ok(1)[of h "fip_Address g" True] un assms(2) by metis
    with l row corroborated(1)[OF co] resolved show ?thesis unfolding unassigned_evidence_def by metis
  qed
qed

section \<open>Unassignment is proved\<close>

lemma unassign_evidence:
  assumes run: "UnassignFloatingIP cl c l a w = (Inr f, d, w')"
  shows "fip_Address f = a \<and> fip_AssignedTo f = [] \<and>
    (\<exists>receipt d1 w1. doJSON cl c ''POST'' (''/v1/'' @ l @ ''/network/ip_addresses/'' @ a @ ''/unassign'') [] None
         zero_FloatingIP (Some UnmarshalJSON_FloatingIP) w = (Inr receipt, d1, w1)
       \<and> (f = receipt \<and> fip_assignedToPresent receipt \<and> w' = w1
          \<or> sparse_answer receipt \<and> same_stable_identity receipt f \<and> unassigned_evidence cl c l a w1 f w'))"
proof -
  let ?path = "''/v1/'' @ l @ ''/network/ip_addresses/'' @ a @ ''/unassign''"
  let ?post = "doJSON cl c ''POST'' ?path [] None zero_FloatingIP (Some UnmarshalJSON_FloatingIP)"
  have path: "locationPath l (''network/ip_addresses/'' @ a @ ''/unassign'') = Inr p \<Longrightarrow> p = ?path" for p
    by (auto simp: locationPath_def trim_left_slash_def split: if_splits)
  have a: "a \<noteq> []" using run by (auto simp: UnassignFloatingIP_def guarded_Inr dest: public_address)
  from run obtain receipt d1 w1 d2 where post: "?post w = (Inr receipt, d1, w1)"
    and k: "(case validateFloatingIPResponseIdentity receipt a False of
        None \<Rightarrow> pure_op (still_assigned receipt)
      | Some identityErr \<Rightarrow>
          if \<not> errors_is ErrSparseFloatingIPAssignment identityErr then pure_op (Inl identityErr)
          else (case validateSparseFloatingIPAuthority receipt False of
              Some err \<Rightarrow> pure_op (Inl (Wrap ''inspace: sparse floating IP unassignment response is not authoritative'' [err]))
            | None \<Rightarrow>
                then_op (map_result (wrap_error ''inspace: sparse floating IP unassignment response could not be corroborated'')
                    (GetFloatingIP cl c l a))
                  (\<lambda>readback. pure_op (attempt_ok
                     (wrap_error ''inspace: sparse floating IP unassignment response disagrees with readback''
                        (corroborateSparseFloatingIP receipt readback)) still_assigned)))) w1 = (Inr f, d2, w')"
    unfolding UnassignFloatingIP_def guarded_Inr on_path_Inr then_op_Inr by (metis path)
  have still: "still_assigned x = Inr y \<Longrightarrow> y = x \<and> fip_AssignedTo x = []" for x y
    by (auto simp: still_assigned_def split: if_splits)
  show "fip_Address f = a \<and> fip_AssignedTo f = [] \<and> (\<exists>receipt d1 w1. ?post w = (Inr receipt, d1, w1)
           \<and> (f = receipt \<and> fip_assignedToPresent receipt \<and> w' = w1
              \<or> sparse_answer receipt \<and> same_stable_identity receipt f \<and> unassigned_evidence cl c l a w1 f w'))"
  proof (cases "validateFloatingIPResponseIdentity receipt a False")
    case None
    with k still[of receipt f] have "f = receipt" "fip_AssignedTo f = []" "w' = w1" by auto
    with post identity_ok(2,3)[OF None] a show ?thesis by blast
  next
    case (Some e)
    with k have e: "errors_is ErrSparseFloatingIPAssignment e" by (auto split: if_splits)
    with k Some obtain g d3 where get: "GetFloatingIP cl c l a w1 = (Inr g, d3, w')"
      and co: "attempt_ok (corroborateSparseFloatingIP receipt g) still_assigned = Inr f"
      by (auto simp: success_simps split: option.splits)
    have "fip_Address receipt = a"
      using sparse_error_base[OF Some e] a by (auto simp: validateFloatingIPBaseIdentity_def split: option.splits if_splits)
    with co get_identity[OF get] have "f = g" "fip_AssignedTo f = []" "same_stable_identity receipt g"
      by (auto simp: attempt_ok_Inr dest!: still dest: corroborated)
    with post get_evidence[OF get] sparse_error[OF Some e] get_identity[OF get] identity_ok(2) a show ?thesis by metis
  qed
qed

text \<open>
  C26: whenever the client reports a floating IP as unassigned there is evidence for it. A read that
  returns an address without an assignment rests on an answer that says so (an explicit null, the
  time of the unassignment, a complete tombstone), or on two endpoints that agree on the identity
  of the record and both omit the tuple. A successful unassignment returns the address without an
  assignment, and rests on a response that says so explicitly or on a later read with such evidence
  about the same record; the omission in the response alone is never enough.
\<close>

theorem unassigned_is_proved:
  "(GetFloatingIP cl c l a w = (Inr f, d, w') \<and> fip_AssignedTo f = [] \<longrightarrow> unassigned_evidence cl c l a w f w')
   \<and> (UnassignFloatingIP cl c l a w = (Inr f, d, w') \<longrightarrow>
        fip_Address f = a \<and> fip_AssignedTo f = [] \<and>
        (\<exists>receipt d1 w1. doJSON cl c ''POST'' (''/v1/'' @ l @ ''/network/ip_addresses/'' @ a @ ''/unassign'') [] None
             zero_FloatingIP (Some UnmarshalJSON_FloatingIP) w = (Inr receipt, d1, w1)
           \<and> (f = receipt \<and> fip_assignedToPresent receipt \<and> w' = w1
              \<or> sparse_answer receipt \<and> same_stable_identity receipt f \<and> unassigned_evidence cl c l a w1 f w')))"
proof (rule conjI; rule impI)
  assume "GetFloatingIP cl c l a w = (Inr f, d, w') \<and> fip_AssignedTo f = []"
  then show "unassigned_evidence cl c l a w f w'" by (elim conjE) (rule get_evidence)
qed (rule unassign_evidence)

end
