(* ===== verification/Client_Example.thy ===== *)
theory Client_Example
  imports Client_Routing Floating_IP_Proofs
begin

text \<open>
  A concrete provider behind the client: its world is the list of the requests it received, every
  deletion succeeds, and one disk and one unassigned floating IP are served.
\<close>

definition served_disk :: string where
  "served_disk = ''11111111-2222-3333-4444-555555555555''"

definition served_path :: string where
  "served_path = ''/v1/jkt01/storage/disks/'' @ served_disk"

definition served_document :: json where
  "served_document = JObj [(''uuid'', JStr served_disk), (''size_gb'', JInt 8)]"

definition served_address_document :: json where
  "served_address_document = JObj [(''address'', JStr ''8.8.8.8''), (''assigned_to'', JNull)]"

definition wire :: "int \<Rightarrow> string \<Rightarrow> wire_response" where
  "wire status body = \<lparr>hr_StatusCode = status, hr_ContentLength = -1, hr_Body = body, hr_ReadError = None,
     wr_CorrelationIDs = [], wr_Location = NoLocation\<rparr>"

definition serve :: "http_request \<Rightarrow> wire_response" where
  "serve req =
     (if rq_Method req = ''DELETE'' then wire 204 []
      else if rq_URL req = ''http://localhost'' @ served_path
      then wire 200 (marshal served_document)
      else if rq_URL req = ''http://localhost/v1/jkt01/network/ip_addresses/8.8.8.8''
      then wire 200 (marshal served_address_document)
      else wire 404 [])"

definition example_env :: "http_request list http_env" where
  "example_env = \<lparr>he_roundTrip = (\<lambda>c req w. (Inr (serve req), 1, w @ [req])), he_now = (\<lambda>w. 0),
     he_temporary = (\<lambda>e. False), he_float = Some, he_range = id\<rparr>"

definition example_client :: "http_request list Client" where
  "example_client = \<lparr>c_baseURL = \<lparr>url_Scheme = ''http'', url_HasUser = False, url_Host = ''localhost'', url_RawPath = [],
       url_RawQuery = [], url_Fragment = []\<rparr>,
     c_basePath = [], c_apiKey = ''key'', c_userAgent = ''agent'', c_dangerouslyAllowMutations = False,
     c_http = example_env\<rparr>"

definition no_deadline :: ctx where
  "no_deadline = \<lparr>ctx_deadline = None, ctx_cancelAt = None\<rparr>"

lemma example_transport: "foreign_transport (c_http example_client)" "logs_requests id (c_http example_client)"
  by (simp_all add: foreign_transport_def logs_requests_def example_client_def example_env_def serve_def wire_def)

lemma example_contract:
  "endpointSuccessContract ''DELETE'' served_path
     = Some (contract ''DELETE'' ''/v1/{location}/storage/disks/{uuid}'' [204] successEmpty)"
  by code_simp

lemma example_deletion:
  "fst (doBody example_client (Some no_deadline) ''DELETE'' served_path [] None [] () None []) = Inr ()"
proof -
  have "isLiteralLoopback (Hostname (c_baseURL example_client))" by code_simp
  then show ?thesis
    by (simp add: doBody_def http_Do_def read_response_def validateSuccessResponse_def example_contract contract_def
        example_client_def example_env_def serve_def wire_def newRequest_def no_deadline_def ctx_err_def redirect_status_def
        maxResponseBodyBytes_def TrimSpace_def Let_def isMutation_def)
qed

definition served :: Disk where
  "served = zero_Disk\<lparr>disk_UUID := served_disk, disk_SizeGiB := 8\<rparr>"

lemma served_decodes:
  "decodes_to (\<lambda>v. into_struct read_Disk v zero_Disk) (wire 200 (marshal served_document)) served"
proof -
  have "parse_json (TrimSpace (marshal served_document)) = Doc served_document False"
    "validateUniqueJSONValue served_document = None" "json_depth served_document \<le> maxNestingDepth"
    by code_simp+
  moreover have "into_struct read_Disk served_document zero_Disk = Inr served"
    by (simp add: into_struct_def served_document_def read_Disk_def set_field_def field_values_code bool_field_def
      nil_slice_field_def attempt_ok_def served_def EqualFold_def ToLower_def to_lower_char_def)
  ultimately show ?thesis by (auto simp: decodes_to_def wire_def)
qed

theorem mutation_mark_exact_witness:
  "\<exists>d. doBody example_client (Some no_deadline) ''DELETE'' served_path [] None [] () None []
      = (Inr (), d, [newRequest example_client ''DELETE'' served_path [] None []])"
proof -
  obtain r d w' where run: "doBody example_client (Some no_deadline) ''DELETE''
      served_path [] None [] () None [] = (r, d, w')"
    by (metis prod_cases3)
  have "isMutation ''DELETE''" by (simp add: isMutation_def)
  from mutation_mark_exact[OF example_transport this _ run] run example_deletion show ?thesis by simp
qed

theorem exact_reads_verdict_witness:
  "fst (client_GetDisk example_client (Some no_deadline) ''jkt01'' served_disk []) = Inr served"
proof -
  have ok: "location_ok ''jkt01''" "uuid_any served_disk" by code_simp+
  have "requestURL example_client served_path [] = ''http://localhost'' @ served_path" by code_simp
  then have "exchange example_client no_deadline served_path [] [] (wire 200 (marshal served_document))"
    by (simp add: exchange_def example_client_def example_env_def serve_def newRequest_def)
  moreover have "length (marshal served_document) < 100" by code_simp
  then have "complete_response (wire 200 (marshal served_document))"
    by (simp add: complete_response_def wire_def maxResponseBodyBytes_def)
  moreover have "EqualFold (disk_UUID served) served_disk" by (simp add: served_def EqualFold_def)
  moreover obtain disk d1 w1 network d2 w2 vm d3 w3 where run:
    "client_GetDisk example_client (Some no_deadline) ''jkt01'' served_disk [] = (disk, d1, w1)"
    "client_GetNetwork example_client (Some no_deadline) ''jkt01'' served_disk [] = (network, d2, w2)"
    "client_GetVM example_client (Some no_deadline) ''jkt01'' served_disk [] = (vm, d3, w3)"
    by (metis prod_cases3)
  have "served_path = ''/v1/'' @ ''jkt01'' @ ''/storage/disks/'' @ served_disk" by (simp add: served_path_def)
  with exact_reads_verdict[OF example_transport(1) ok run] have "exact_verdict example_client no_deadline served_path [] []
      disk_UUID served_disk (\<lambda>v. into_struct read_Disk v zero_Disk) disk" by metis
  moreover have "hr_StatusCode (wire 200 (marshal served_document)) = 200" by (simp add: wire_def)
  ultimately have "disk = Inr served" using served_decodes unfolding exact_verdict_def by blast
  with run(1) show ?thesis by simp
qed

definition served_address :: FloatingIP where
  "served_address = zero_FloatingIP\<lparr>fip_Address := ''8.8.8.8'', fip_assignedToPresent := True\<rparr>"

lemma served_address_decodes:
  "UnmarshalJSON_FloatingIP served_address_document zero_FloatingIP = Inr served_address"
  by (simp add: UnmarshalJSON_FloatingIP_def into_struct_def served_address_document_def read_FloatingIP_def set_field_def
      field_values_code bool_field_def attempt_ok_def served_address_def EqualFold_def ToLower_def to_lower_char_def
      canonicalFloatingIPResponseFields_def stable_fields_def zero_FloatingIP_def)

lemma served_address_read:
  "getFloatingIPRaw example_client (Some no_deadline) ''jkt01'' ''8.8.8.8'' []
     = (Inr served_address, 1, [newRequest example_client ''GET'' ''/v1/jkt01/network/ip_addresses/8.8.8.8'' [] None []])"
proof -
  let ?path = "''/v1/jkt01/network/ip_addresses/8.8.8.8''" and ?resp = "wire 200 (marshal served_address_document)"
  have ok: "validatePublicIPv4 ''8.8.8.8'' = None" "locationPath ''jkt01'' ''network/ip_addresses/8.8.8.8'' = Inr ?path"
    "requestURL example_client ?path [] = ''http://localhost'' @ ?path" "length (marshal served_address_document) < 100"
    "parse_json (TrimSpace (marshal served_address_document)) = Doc served_address_document False"
    "validateUniqueJSONValue served_address_document = None" "json_depth served_address_document \<le> maxNestingDepth"
    by code_simp+
  have "decodes_to (\<lambda>v. UnmarshalJSON_FloatingIP v zero_FloatingIP) ?resp served_address"
    using ok served_address_decodes by (auto simp: decodes_to_def wire_def)
  moreover have "complete_response ?resp" using ok by (simp add: complete_response_def wire_def maxResponseBodyBytes_def)
  moreover have "endpointSuccessContract ''GET'' ?path
      = Some (contract ''GET'' ''/v1/{location}/network/ip_addresses/{address}'' [200] successJSON)"
    by code_simp
  then have "registered ''GET'' ?path True" by (simp add: registered_def contract_def)
  moreover have "UnmarshalJSON_FloatingIP JNull zero_FloatingIP = Inr zero_FloatingIP"
    "UnmarshalJSON_FloatingIP (JObj []) zero_FloatingIP = Inr zero_FloatingIP"
    by (simp_all add: UnmarshalJSON_FloatingIP_def into_struct_def read_FloatingIP_def set_field_def field_values_code
        bool_field_def attempt_ok_def zero_FloatingIP_def stable_fields_def)
  moreover have "served_address \<noteq> zero_FloatingIP" by (simp add: served_address_def zero_FloatingIP_def)
  moreover have "hr_StatusCode ?resp = 200" by (simp add: wire_def)
  ultimately have "read_response example_env ''GET'' ?path zero_FloatingIP (Some UnmarshalJSON_FloatingIP) ?resp = Inr served_address"
    by (intro read_response_accepts read_body_accepts)
  moreover have "http_Do example_client (with_deadline no_deadline defaultReadTimeout) (newRequest example_client ''GET'' ?path [] None []) []
      = (DoOk ?resp, 1, [newRequest example_client ''GET'' ?path [] None []])"
    using ok(3) by (simp add: http_Do_def example_client_def example_env_def serve_def newRequest_def wire_def redirect_status_def served_path_def)
  moreover have "c_http example_client = example_env" "he_now example_env [] = 0" "\<not> isMutation ''GET''"
    by (simp_all add: example_client_def example_env_def isMutation_def)
  ultimately have "doBody example_client (Some no_deadline) ''GET'' ?path [] None [] zero_FloatingIP (Some UnmarshalJSON_FloatingIP) []
      = (Inr served_address, 1, [newRequest example_client ''GET'' ?path [] None []])"
    unfolding doBody_def Let_def by simp
  with ok show ?thesis
    unfolding getFloatingIPRaw_def guarded_def on_path_def map_result_def do_form_def bind_address_error_def by simp
qed

theorem unassigned_is_proved_witness:
  "unassigned_evidence example_client (Some no_deadline) ''jkt01'' ''8.8.8.8'' [] served_address
     [newRequest example_client ''GET'' ''/v1/jkt01/network/ip_addresses/8.8.8.8'' [] None []]"
proof -
  have "validateFloatingIPResponseIdentity served_address ''8.8.8.8'' True = None" by code_simp
  then have "GetFloatingIP example_client (Some no_deadline) ''jkt01'' ''8.8.8.8'' [] = (Inr served_address, 1,
      [newRequest example_client ''GET'' ''/v1/jkt01/network/ip_addresses/8.8.8.8'' [] None []])"
    by (simp add: GetFloatingIP_def then_op_def bind_op_def pure_op_def served_address_read)
  moreover have "fip_AssignedTo served_address = []" by (simp add: served_address_def zero_FloatingIP_def)
  ultimately show ?thesis by (intro unassigned_is_proved[THEN conjunct1, THEN mp] conjI)
qed

theorem client_routes_registered_witness:
  "foreign_transport (c_http example_client) \<and> routed (client_DeleteDisk example_client (Some no_deadline) ''jkt01'' served_disk)
     \<and> routed (client_GetDisk example_client (Some no_deadline) ''jkt01'' served_disk)"
  using client_routes_registered[OF example_transport(1), of "Some no_deadline" "''jkt01''" _ served_disk]
    example_transport(1)
  by blast

text \<open>
  A deletion or attachment that local validation rejects is not marked as undispatched, although no
  request was sent: a caller that goes by the mark has to assume that the provider saw it.
\<close>

theorem local_rejection_unmarked:
  assumes "\<not> uuid_any u"
  shows "\<exists>e. client_DeleteDisk cl c l u w = (Inl e, 0, w) \<and> \<not> mutation_mark e"
    and "\<exists>e. client_AttachDisk cl c l u v w = (Inl e, 0, w) \<and> \<not> mutation_mark e"
  using assms by (auto simp: client_DeleteDisk_def client_AttachDisk_def guarded_def fail_op_def validateUUID_def)

end
