(* ===== verification/NodeLB_Firewall.thy ===== *)
theory NodeLB_Firewall
  imports Client_Types Detach_Request
begin

text \<open>
  The identity of the firewalls the cloud controller manager owns
  (\<^verbatim>\<open>modules/client/node_load_balancer_firewall.go\<close>): their names, the canonical text of their policy
  and the checks that authenticate them. SHA-256 is the parameter \<open>sha\<close>, which gives the digest in
  lower-case hexadecimal.
\<close>

section \<open>Patterns\<close>

definition hex_text :: "nat \<Rightarrow> string \<Rightarrow> bool" where
  "hex_text n s = match_classes (replicate n is_hex_lower) s"

text \<open>\<^verbatim>\<open>[a-z0-9](?:[a-z0-9-]{0,34}[a-z0-9])?\<close>\<close>

definition nodeLoadBalancerServiceUIDPattern :: "string \<Rightarrow> bool" where
  "nodeLoadBalancerServiceUIDPattern s = max_label 36 (\<lambda>c. is_alnum_lower c \<or> is_dash c) s"

definition nodeLoadBalancerPolicyHashPattern :: "string \<Rightarrow> bool" where
  "nodeLoadBalancerPolicyHashPattern s = hex_text 64 s"

text \<open>
  The patterns with groups give the texts of their groups. All of them start with \<^verbatim>\<open>inlb-\<close>, and every
  group but the UID of a Service has a fixed length, so the groups are cut out by position.
\<close>

definition cut_at :: "nat \<Rightarrow> string \<Rightarrow> string \<Rightarrow> (string \<times> string) option" where
  "cut_at n sep s = (if HasPrefix (drop n s) sep then Some (take n s, drop (n + length sep) s) else None)"

definition nodeLoadBalancerServiceFirewallPattern :: "string \<Rightarrow> (string \<times> string \<times> string) option" where
  "nodeLoadBalancerServiceFirewallPattern name =
     (if \<not> HasPrefix name ''inlb-'' then None
      else (case cut_at 8 ''-'' (drop 5 name) of
          None \<Rightarrow> None
        | Some (owner, rest) \<Rightarrow>
            (case cut_at (length rest - 9) ''-'' rest of
               None \<Rightarrow> None
             | Some (uid, hash) \<Rightarrow>
                 if hex_text 8 owner \<and> nodeLoadBalancerServiceUIDPattern uid \<and> hex_text 8 hash
                 then Some (owner, uid, hash) else None)))"

definition owned_pattern :: "nat \<Rightarrow> string \<Rightarrow> (string \<Rightarrow> bool) \<Rightarrow> string \<Rightarrow> (string \<times> string) option" where
  "owned_pattern n kind ok name =
     (if \<not> HasPrefix name ''inlb-'' then None
      else (case cut_at n kind (drop 5 name) of
          None \<Rightarrow> None
        | Some (owner, rest) \<Rightarrow> if hex_text n owner \<and> ok rest then Some (owner, rest) else None))"

definition nodeLoadBalancerShardFirewallPattern :: "string \<Rightarrow> (string \<times> string) option" where
  "nodeLoadBalancerShardFirewallPattern = owned_pattern 32 ''-shard-'' (hex_text 8)"

definition nodeLoadBalancerICMPFirewallPattern :: "string \<Rightarrow> (string \<times> string) option" where
  "nodeLoadBalancerICMPFirewallPattern = owned_pattern 32 ''-icmp-'' (hex_text 8)"

definition nodeLoadBalancerVMFirewallPattern :: "string \<Rightarrow> (string \<times> string) option" where
  "nodeLoadBalancerVMFirewallPattern = owned_pattern 8 ''-vm-'' uuid_lower"

definition nodeLoadBalancerShardNamePattern :: "string \<Rightarrow> string option" where
  "nodeLoadBalancerShardNamePattern shard =
     (if HasPrefix shard ''inlb-'' \<and> hex_text 8 (drop 5 shard) then Some (drop 5 shard) else None)"

section \<open>Hashes\<close>

definition nodeLoadBalancerShortHash :: "(string \<Rightarrow> string) \<Rightarrow> string \<Rightarrow> string" where
  "nodeLoadBalancerShortHash sha value = take 8 (sha value)"

definition nodeLoadBalancerOwnershipHash :: "(string \<Rightarrow> string) \<Rightarrow> string \<Rightarrow> string" where
  "nodeLoadBalancerOwnershipHash sha value = take 32 (sha value)"

definition validNodeLoadBalancerServiceUID :: "string \<Rightarrow> bool" where
  "validNodeLoadBalancerServiceUID value = (length value \<le> 36 \<and> nodeLoadBalancerServiceUIDPattern value)"

section \<open>Canonical policies\<close>

text \<open>The text of an IPv4 prefix with its host bits cleared.\<close>

definition masked_prefix4 :: "nat \<times> nat \<times> nat \<times> nat \<Rightarrow> nat \<Rightarrow> string" where
  "masked_prefix4 q bits = (case q of (a, b, c, d) \<Rightarrow>
     let v = ((a * 256 + b) * 256 + c) * 256 + d; m = v div 2 ^ (32 - bits) * 2 ^ (32 - bits) in
     show_nat (m div 16777216) @ ''.'' @ show_nat (m div 65536 mod 256) @ ''.'' @ show_nat (m div 256 mod 256)
     @ ''.'' @ show_nat (m mod 256) @ ''/'' @ show_nat bits)"

definition canonical_prefix4 :: "string \<Rightarrow> bool" where
  "canonical_prefix4 value =
     (ParsePrefix_ok value
      \<and> (case last_index_split CHR ''/'' value of
           None \<Rightarrow> False
         | Some (ip, bits) \<Rightarrow>
             (case ParseAddr ip of
                Some (Addr4 q) \<Rightarrow> masked_prefix4 q (octet_value bits) = value
              | _ \<Rightarrow> False)))"

fun canonical_endpoints :: "string list \<Rightarrow> string list \<Rightarrow> error + string list" where
  "canonical_endpoints seen [] = Inr []"
| "canonical_endpoints seen (value # values) =
     (if \<not> canonical_prefix4 value then Inl (Plain ''firewall rule prefix must be canonical IPv4 CIDR'')
      else if value \<in> set seen then Inl (Plain ''firewall rule prefix is duplicated'')
      else attempt_ok (canonical_endpoints (value # seen) values) (\<lambda>result. Inr (value # result)))"

definition endpoint_spec :: "FirewallRule \<Rightarrow> string list" where
  "endpoint_spec rule = (case fwr_EndpointSpec rule of None \<Rightarrow> [] | Some values \<Rightarrow> values)"

definition canonicalNodeLoadBalancerFirewallEndpoints :: "FirewallRule \<Rightarrow> error + string list" where
  "canonicalNodeLoadBalancerFirewallEndpoints rule =
     (if fwr_EndpointSpecType rule = ''any'' then
        (if endpoint_spec rule \<noteq> [] then Inl (Plain ''firewall rule endpoint any must not include prefixes'') else Inr [])
      else if fwr_EndpointSpecType rule = ''ip_prefixes'' then
        (if endpoint_spec rule = [] then Inl (Plain ''firewall rule must include IPv4 prefixes'')
         else attempt_ok (canonical_endpoints [] (endpoint_spec rule)) (\<lambda>result. Inr (sort result)))
      else Inl (Plain ''firewall rule endpoint type is unsupported''))"

definition explicit_port :: "FirewallRule \<Rightarrow> int option" where
  "explicit_port rule =
     (case (fwr_PortStart rule, fwr_PortEnd rule) of
        (Some start, Some end) \<Rightarrow> if start = end \<and> 1 \<le> start \<and> start \<le> 65535 then Some start else None
      | _ \<Rightarrow> None)"

definition rule_key :: "FirewallRule \<Rightarrow> string \<Rightarrow> string list \<Rightarrow> string" where
  "rule_key rule port endpoints =
     strings_Join [fwr_Protocol rule, port, fwr_EndpointSpecType rule, strings_Join endpoints '',''] ''|''"

fun canonical_rules :: "string list \<Rightarrow> string list \<Rightarrow> FirewallRule list \<Rightarrow> error + string list" where
  "canonical_rules seenPorts seenRules [] = Inr []"
| "canonical_rules seenPorts seenRules (rule # rules) =
     (if fwr_Direction rule \<noteq> ''inbound'' then Inl (Plain ''firewall rule must be inbound'')
      else if fwr_Protocol rule \<noteq> ''tcp'' \<and> fwr_Protocol rule \<noteq> ''udp''
      then Inl (Plain ''firewall rule protocol must be lowercase tcp or udp'')
      else (case explicit_port rule of
          None \<Rightarrow> Inl (Plain ''firewall rule must contain one explicit valid port'')
        | Some p \<Rightarrow>
            let port = show_int p; portKey = fwr_Protocol rule @ ''|'' @ port in
            if portKey \<in> set seenPorts then Inl (Plain ''firewall rule duplicates public port'')
            else attempt_ok (canonicalNodeLoadBalancerFirewallEndpoints rule) (\<lambda>endpoints.
              let key = rule_key rule port endpoints in
              if key \<in> set seenRules then Inl (Plain ''firewall rule duplicates an existing canonical rule'')
              else attempt_ok (canonical_rules (portKey # seenPorts) (key # seenRules) rules) (\<lambda>keys. Inr (key # keys)))))"

definition canonicalNodeLoadBalancerPortFirewallPolicy :: "FirewallRule list \<Rightarrow> error + string" where
  "canonicalNodeLoadBalancerPortFirewallPolicy rules =
     (if rules = [] then Inl (Plain ''firewall requires at least one ingress rule'')
      else attempt_ok (canonical_rules [] [] rules) (\<lambda>keys. Inr (strings_Join (sort keys) [CHR 0x0A])))"

definition NodeLoadBalancerVMFirewallSpecHash :: "(string \<Rightarrow> string) \<Rightarrow> FirewallRule list \<Rightarrow> error + string" where
  "NodeLoadBalancerVMFirewallSpecHash sha rules =
     attempt_ok (canonicalNodeLoadBalancerPortFirewallPolicy rules) (\<lambda>canonical. Inr (sha canonical))"

definition NodeLoadBalancerShardFirewallSpecHash :: "(string \<Rightarrow> string) \<Rightarrow> FirewallRule list \<Rightarrow> error + string" where
  "NodeLoadBalancerShardFirewallSpecHash sha rules =
     attempt_ok (canonicalNodeLoadBalancerPortFirewallPolicy rules) (\<lambda>canonical. Inr (sha canonical))"

definition NodeLoadBalancerServiceFirewallSpecHash :: "(string \<Rightarrow> string) \<Rightarrow> FirewallRule list \<Rightarrow> error + string" where
  "NodeLoadBalancerServiceFirewallSpecHash sha rules =
     attempt_ok (canonicalNodeLoadBalancerPortFirewallPolicy rules)
       (\<lambda>canonical. Inr (nodeLoadBalancerShortHash sha canonical))"

definition NodeLoadBalancerClusterICMPFirewallSpecHash :: "(string \<Rightarrow> string) \<Rightarrow> FirewallRule list \<Rightarrow> error + string" where
  "NodeLoadBalancerClusterICMPFirewallSpecHash sha rules =
     (case rules of
        [rule] \<Rightarrow>
          if fwr_Protocol rule \<noteq> ''icmp'' \<or> fwr_Direction rule \<noteq> ''inbound'' \<or> fwr_PortStart rule \<noteq> None
             \<or> fwr_PortEnd rule \<noteq> None \<or> fwr_EndpointSpecType rule \<noteq> ''any'' \<or> endpoint_spec rule \<noteq> []
          then Inl (Plain ''cluster ICMP firewall must contain only portless inbound ICMP from any'')
          else Inr (nodeLoadBalancerShortHash sha ''icmp|inbound|any'')
      | _ \<Rightarrow> Inl (Plain ''cluster ICMP firewall must contain exactly one rule''))"

section \<open>Names\<close>

definition NodeLoadBalancerVMFirewallName :: "(string \<Rightarrow> string) \<Rightarrow> string \<Rightarrow> string \<Rightarrow> error + string" where
  "NodeLoadBalancerVMFirewallName sha cluster vmUUID =
     (if cluster = [] then Inl (Plain ''cluster identity is required'')
      else if \<not> uuid_lower vmUUID then Inl (Plain ''VM UUID must be a lowercase canonical UUID'')
      else Inr (''inlb-'' @ nodeLoadBalancerShortHash sha cluster @ ''-vm-'' @ vmUUID))"

definition ParseNodeLoadBalancerVMFirewallName :: "(string \<Rightarrow> string) \<Rightarrow> string \<Rightarrow> string \<Rightarrow> string option" where
  "ParseNodeLoadBalancerVMFirewallName sha cluster name =
     (if cluster = [] then None
      else (case nodeLoadBalancerVMFirewallPattern name of
          None \<Rightarrow> None
        | Some (owner, vmUUID) \<Rightarrow> if owner \<noteq> nodeLoadBalancerShortHash sha cluster then None else Some vmUUID))"

definition NodeLoadBalancerShardFirewallName :: "(string \<Rightarrow> string) \<Rightarrow> string \<Rightarrow> string \<Rightarrow> error + string" where
  "NodeLoadBalancerShardFirewallName sha cluster shard =
     (if cluster = [] then Inl (Plain ''cluster identity is required'')
      else (case nodeLoadBalancerShardNamePattern shard of
          None \<Rightarrow> Inl (Plain ''managed shard name must match inlb-<8 lowercase hex characters>'')
        | Some suffix \<Rightarrow> Inr (''inlb-'' @ nodeLoadBalancerOwnershipHash sha cluster @ ''-shard-'' @ suffix)))"

definition NodeLoadBalancerServiceFirewallName :: "(string \<Rightarrow> string) \<Rightarrow> string \<Rightarrow> string \<Rightarrow> FirewallRule list
    \<Rightarrow> error + string \<times> string" where
  "NodeLoadBalancerServiceFirewallName sha cluster serviceUID rules =
     (if cluster = [] \<or> \<not> validNodeLoadBalancerServiceUID serviceUID
      then Inl (Plain ''cluster identity and a lowercase DNS Service UID of at most 36 characters are required'')
      else attempt_ok (NodeLoadBalancerServiceFirewallSpecHash sha rules) (\<lambda>hash.
        Inr (''inlb-'' @ nodeLoadBalancerShortHash sha cluster @ ''-'' @ serviceUID @ ''-'' @ hash, hash)))"

definition NodeLoadBalancerClusterICMPFirewallName :: "(string \<Rightarrow> string) \<Rightarrow> string \<Rightarrow> FirewallRule list
    \<Rightarrow> error + string \<times> string" where
  "NodeLoadBalancerClusterICMPFirewallName sha cluster rules =
     (if cluster = [] then Inl (Plain ''cluster identity is required'')
      else attempt_ok (NodeLoadBalancerClusterICMPFirewallSpecHash sha rules) (\<lambda>hash.
        Inr (''inlb-'' @ nodeLoadBalancerOwnershipHash sha cluster @ ''-icmp-'' @ hash, hash)))"

section \<open>Authentication\<close>

definition NodeLoadBalancerVMFirewallDescription :: string where
  "NodeLoadBalancerVMFirewallDescription = ''Managed InSpace public-node-local VM firewall''"

definition fw_rules :: "Firewall \<Rightarrow> FirewallRule list" where
  "fw_rules firewall = (case fw_Rules firewall of None \<Rightarrow> [] | Some rules \<Rightarrow> rules)"

definition fw_resources :: "Firewall \<Rightarrow> FirewallResource list" where
  "fw_resources firewall = (case fw_ResourcesAssigned firewall of None \<Rightarrow> [] | Some rows \<Rightarrow> rows)"

definition billing_mismatch :: "Firewall \<Rightarrow> string \<Rightarrow> int \<Rightarrow> bool" where
  "billing_mismatch firewall cluster billingAccountID =
     (cluster = [] \<or> billingAccountID < 1 \<or> fw_BillingAccountID firewall \<noteq> billingAccountID)"

definition failed :: "error + 'a \<Rightarrow> ('a \<Rightarrow> error option) \<Rightarrow> error option" where
  "failed r k = (case r of Inl err \<Rightarrow> Some err | Inr x \<Rightarrow> k x)"

definition ValidateNodeLoadBalancerVMFirewallIdentity :: "(string \<Rightarrow> string) \<Rightarrow> Firewall \<Rightarrow> string \<Rightarrow> string \<Rightarrow> int
    \<Rightarrow> error option" where
  "ValidateNodeLoadBalancerVMFirewallIdentity sha firewall cluster vmUUID billingAccountID =
     (if billing_mismatch firewall cluster billingAccountID
      then Some (Plain ''VM firewall cluster and billing identity do not match'')
      else failed (NodeLoadBalancerVMFirewallName sha cluster vmUUID) (\<lambda>name.
        if EffectiveName firewall \<noteq> name then Some (Plain ''name is not the owned firewall for VM'')
        else if fw_Description firewall \<noteq> [] \<and> fw_Description firewall \<noteq> NodeLoadBalancerVMFirewallDescription
        then Some (Plain ''VM firewall description is not the managed description'')
        else failed (NodeLoadBalancerVMFirewallSpecHash sha (fw_rules firewall)) (\<lambda>_.
          if list_ex (\<lambda>row. \<not> EqualFold (fwres_ResourceType row) ''vm'' \<or> fwres_ResourceUUID row \<noteq> vmUUID)
               (fw_resources firewall)
          then Some (Plain ''VM firewall assignment is not VM'')
          else None)))"

definition ValidateNodeLoadBalancerVMFirewall :: "(string \<Rightarrow> string) \<Rightarrow> Firewall \<Rightarrow> string \<Rightarrow> string \<Rightarrow> int \<Rightarrow> string
    \<Rightarrow> error option" where
  "ValidateNodeLoadBalancerVMFirewall sha firewall cluster vmUUID billingAccountID expectedPolicyHash =
     (case ValidateNodeLoadBalancerVMFirewallIdentity sha firewall cluster vmUUID billingAccountID of
        Some err \<Rightarrow> Some err
      | None \<Rightarrow>
          if \<not> nodeLoadBalancerPolicyHashPattern expectedPolicyHash
          then Some (Plain ''expected VM firewall policy hash is invalid'')
          else failed (NodeLoadBalancerVMFirewallSpecHash sha (fw_rules firewall)) (\<lambda>actual.
            if actual \<noteq> expectedPolicyHash then Some (Plain ''VM firewall policy hash does not match expected hash'')
            else None))"

definition ValidateNodeLoadBalancerShardFirewall :: "(string \<Rightarrow> string) \<Rightarrow> Firewall \<Rightarrow> string \<Rightarrow> string \<Rightarrow> int \<Rightarrow> string
    \<Rightarrow> error option" where
  "ValidateNodeLoadBalancerShardFirewall sha firewall cluster shard billingAccountID expectedPolicyHash =
     (if billing_mismatch firewall cluster billingAccountID
      then Some (Plain ''shard firewall cluster and billing identity do not match'')
      else failed (NodeLoadBalancerShardFirewallName sha cluster shard) (\<lambda>name.
        if EffectiveName firewall \<noteq> name \<or> nodeLoadBalancerShardFirewallPattern (EffectiveName firewall) = None
        then Some (Plain ''name is not the owned firewall for shard'')
        else if \<not> nodeLoadBalancerPolicyHashPattern expectedPolicyHash
        then Some (Plain ''expected shard firewall policy hash is invalid'')
        else failed (NodeLoadBalancerShardFirewallSpecHash sha (fw_rules firewall)) (\<lambda>actual.
          if actual \<noteq> expectedPolicyHash then Some (Plain ''shard firewall policy hash does not match expected hash'')
          else None)))"

definition ValidateNodeLoadBalancerServiceFirewall :: "(string \<Rightarrow> string) \<Rightarrow> Firewall \<Rightarrow> string \<Rightarrow> int \<Rightarrow> error option" where
  "ValidateNodeLoadBalancerServiceFirewall sha firewall cluster billingAccountID =
     (if billing_mismatch firewall cluster billingAccountID
      then Some (Plain ''Service firewall cluster and billing identity do not match'')
      else (case nodeLoadBalancerServiceFirewallPattern (EffectiveName firewall) of
          None \<Rightarrow> Some (Plain ''name is not an owned Service firewall for this cluster'')
        | Some (owner, uid, nameHash) \<Rightarrow>
            if owner \<noteq> nodeLoadBalancerShortHash sha cluster \<or> \<not> validNodeLoadBalancerServiceUID uid
            then Some (Plain ''name is not an owned Service firewall for this cluster'')
            else failed (NodeLoadBalancerServiceFirewallSpecHash sha (fw_rules firewall)) (\<lambda>hash.
              if nameHash \<noteq> hash then Some (Plain ''name spec hash does not match Service policy hash'') else None)))"

definition ValidateNodeLoadBalancerClusterICMPFirewall :: "(string \<Rightarrow> string) \<Rightarrow> Firewall \<Rightarrow> string \<Rightarrow> int \<Rightarrow> error option" where
  "ValidateNodeLoadBalancerClusterICMPFirewall sha firewall cluster billingAccountID =
     (if billing_mismatch firewall cluster billingAccountID
      then Some (Plain ''cluster ICMP firewall cluster and billing identity do not match'')
      else (case nodeLoadBalancerICMPFirewallPattern (EffectiveName firewall) of
          None \<Rightarrow> Some (Plain ''name is not an owned cluster ICMP firewall'')
        | Some (owner, nameHash) \<Rightarrow>
            if owner \<noteq> nodeLoadBalancerOwnershipHash sha cluster then Some (Plain ''name is not an owned cluster ICMP firewall'')
            else failed (NodeLoadBalancerClusterICMPFirewallSpecHash sha (fw_rules firewall)) (\<lambda>hash.
              if nameHash \<noteq> hash then Some (Plain ''name spec hash does not match cluster ICMP policy hash'') else None)))"

end
