(* ===== verification/NodeLB_Policy.thy ===== *)
theory NodeLB_Policy
  imports NodeLB_Firewall
begin

text \<open>
  The canonical text of a firewall policy says exactly which ports and prefixes the policy lists, and the names of the
  four kinds of firewalls cannot be mistaken for each other.
\<close>

section \<open>Joined texts\<close>

lemma split_prefix:
  assumes "d \<notin> set a" "d \<notin> set a'" "a @ d # b = a' @ d # b'"
  shows "a = a' \<and> b = b'"
  using assms
proof (induction a arbitrary: a')
  case (Cons x a)
  then show ?case by (cases a') auto
next
  case Nil
  then show ?case by (cases a') auto
qed

lemma Join_Cons: "xs \<noteq> [] \<Longrightarrow> strings_Join (x # xs) sep = x @ sep @ strings_Join xs sep"
  by (cases xs) auto

lemma set_Join: "set (strings_Join xs [d]) \<subseteq> \<Union> (set ` set xs) \<union> {d}"
  by (induction xs "[d]" rule: strings_Join.induct) auto

lemma Join_inj:
  assumes "\<And>x. x \<in> set xs \<Longrightarrow> x \<noteq> [] \<and> d \<notin> set x" "\<And>x. x \<in> set ys \<Longrightarrow> x \<noteq> [] \<and> d \<notin> set x"
    and "strings_Join xs [d] = strings_Join ys [d]"
  shows "xs = ys"
  using assms
proof (induction xs arbitrary: ys)
  case Nil
  then show ?case by (cases ys; cases "tl ys") auto
next
  case (Cons x xs)
  have x: "x \<noteq> []" "d \<notin> set x" using Cons.prems(1) by auto
  obtain y ys' where ys: "ys = y # ys'" using Cons.prems(3) x by (cases ys; cases xs) auto
  have y: "y \<noteq> []" "d \<notin> set y" using Cons.prems(2) ys by auto
  show ?case
  proof (cases "xs = [] \<or> ys' = []")
    case True
    then show ?thesis
      using Cons.prems(3) x y ys by (cases xs; cases ys') (auto simp: Join_Cons)
  next
    case False
    then have "x @ d # strings_Join xs [d] = y @ d # strings_Join ys' [d]"
      using Cons.prems(3) ys by (simp add: Join_Cons)
    from split_prefix[OF x(2) y(2) this] have e: "x = y" "strings_Join xs [d] = strings_Join ys' [d]" by auto
    with Cons.IH[of ys'] Cons.prems(1,2) ys show ?thesis by auto
  qed
qed

lemma same_images:
  assumes "\<And>x y. x \<in> A \<union> B \<Longrightarrow> y \<in> A \<union> B \<Longrightarrow> f x = f y \<longleftrightarrow> g x = g y"
  shows "f ` A = f ` B \<longleftrightarrow> g ` A = g ` B"
proof -
  have sub: "f ` C \<subseteq> f ` D \<longleftrightarrow> g ` C \<subseteq> g ` D" if "C \<subseteq> A \<union> B" "D \<subseteq> A \<union> B" for C D
  proof -
    have "f x \<in> f ` D \<longleftrightarrow> g x \<in> g ` D" if "x \<in> C" for x
      unfolding image_iff by (rule bex_cong[OF refl], rule assms) (use that \<open>C \<subseteq> A \<union> B\<close> \<open>D \<subseteq> A \<union> B\<close> in blast)+
    then show ?thesis by (simp add: image_subset_iff)
  qed
  from sub[of A B] sub[of B A] show ?thesis by (simp add: set_eq_subset)
qed

section \<open>What a rule lists\<close>

definition rule_ok :: "FirewallRule \<Rightarrow> bool" where
  "rule_ok r \<longleftrightarrow> fwr_Direction r = ''inbound'' \<and> (fwr_Protocol r = ''tcp'' \<or> fwr_Protocol r = ''udp'')
     \<and> explicit_port r \<noteq> None
     \<and> (fwr_EndpointSpecType r = ''any'' \<and> endpoint_spec r = []
        \<or> fwr_EndpointSpecType r = ''ip_prefixes'' \<and> endpoint_spec r \<noteq> [] \<and> distinct (endpoint_spec r)
          \<and> list_all canonical_prefix4 (endpoint_spec r))"

definition rule_port :: "FirewallRule \<Rightarrow> string \<times> int" where
  "rule_port r = (fwr_Protocol r, the (explicit_port r))"

text \<open>
  What a rule lists: a protocol, a port and the set of its prefixes, where no prefix means any source.
  The prefixes are compared as texts: a prefix inside another one counts although it admits no source
  the other does not admit.
\<close>

definition listed_prefixes :: "FirewallRule \<Rightarrow> (string \<times> int) \<times> string set" where
  "listed_prefixes r = (rule_port r, set (endpoint_spec r))"

definition policy_ok :: "FirewallRule list \<Rightarrow> bool" where
  "policy_ok rules \<longleftrightarrow> rules \<noteq> [] \<and> list_all rule_ok rules \<and> distinct (map rule_port rules)"

lemma canonical_endpoints_iff:
  "canonical_endpoints seen vs = Inr ws \<longleftrightarrow>
     list_all canonical_prefix4 vs \<and> distinct vs \<and> set vs \<inter> set seen = {} \<and> ws = vs"
  by (induction vs arbitrary: seen ws) (auto simp: attempt_ok_Inr)

lemma endpoints_iff:
  "canonicalNodeLoadBalancerFirewallEndpoints r = Inr es \<longleftrightarrow>
     (fwr_EndpointSpecType r = ''any'' \<and> endpoint_spec r = []
        \<or> fwr_EndpointSpecType r = ''ip_prefixes'' \<and> endpoint_spec r \<noteq> [] \<and> distinct (endpoint_spec r)
          \<and> list_all canonical_prefix4 (endpoint_spec r)) \<and> es = sort (endpoint_spec r)"
  by (auto simp: canonicalNodeLoadBalancerFirewallEndpoints_def attempt_ok_Inr canonical_endpoints_iff)

definition port_key :: "FirewallRule \<Rightarrow> string" where
  "port_key r = fwr_Protocol r @ ''|'' @ show_int (the (explicit_port r))"

definition text_key :: "FirewallRule \<Rightarrow> string" where
  "text_key r = rule_key r (show_int (the (explicit_port r))) (sort (endpoint_spec r))"

lemma show_nat_inj: "show_nat m = show_nat n \<longleftrightarrow> m = n"
  by (metis show_nat_props)

lemma explicit_port_range: "explicit_port r = Some p \<Longrightarrow> 1 \<le> p \<and> p \<le> 65535"
  by (auto simp: explicit_port_def split: option.splits if_splits)

lemma show_int_port:
  assumes "explicit_port r = Some p"
  shows "show_int p = show_nat (nat p)" and "p = int (nat p)"
  using explicit_port_range[OF assms] by (auto simp: show_int_def)

lemma is_digit_plain: "is_digit_char c \<Longrightarrow> c \<notin> {CHR ''|'', CHR '','', CHR 0x0A}"
  by (auto simp: is_digit_char_def)

lemma digits_plain: "CHR ''|'' \<notin> set (show_nat n)" "CHR '','' \<notin> set (show_nat n)" "CHR 0x0A \<notin> set (show_nat n)"
  using show_nat_props[of n] is_digit_plain by (auto simp: list_all_iff)

lemma bar_inj:
  assumes "CHR ''|'' \<notin> set a" "CHR ''|'' \<notin> set a'"
  shows "a @ ''|'' @ b = a' @ ''|'' @ b' \<longleftrightarrow> a = a' \<and> b = b'"
  using split_prefix[OF assms] by auto

lemma port_text_inj:
  "explicit_port r = Some p \<Longrightarrow> explicit_port r' = Some p' \<Longrightarrow> show_int p = show_int p' \<longleftrightarrow> p = p'"
  by (metis show_int_port show_nat_inj)

lemma port_text_plain:
  "explicit_port r = Some p \<Longrightarrow> CHR ''|'' \<notin> set (show_int p) \<and> CHR 0x0A \<notin> set (show_int p)"
  using digits_plain by (simp add: show_int_port)

lemma protocol_plain: "rule_ok r \<Longrightarrow> CHR ''|'' \<notin> set (fwr_Protocol r) \<and> CHR 0x0A \<notin> set (fwr_Protocol r)"
  by (auto simp: rule_ok_def)

lemma port_key_inj:
  assumes "rule_ok r" "rule_ok r'"
  shows "port_key r = port_key r' \<longleftrightarrow> rule_port r = rule_port r'"
proof -
  obtain p p' where p: "explicit_port r = Some p" "explicit_port r' = Some p'" using assms by (auto simp: rule_ok_def)
  show ?thesis
    using protocol_plain[OF assms(1)] protocol_plain[OF assms(2)] port_text_inj[OF p]
    unfolding port_key_def rule_port_def p by (auto simp: bar_inj simp del: append_Cons append_Nil)
qed

lemma masked_text: "masked_prefix4 q n \<noteq> []" "set (masked_prefix4 q n) \<inter> {CHR ''|'', CHR '','', CHR 0x0A} = {}"
  using digits_plain by (auto simp: masked_prefix4_def Let_def split: prod.splits)

lemma prefix_text:
  assumes "canonical_prefix4 v"
  shows "v \<noteq> []" "CHR ''|'' \<notin> set v" "CHR '','' \<notin> set v" "CHR 0x0A \<notin> set v"
proof -
  obtain ip bits where "case ParseAddr ip of Some (Addr4 q) \<Rightarrow> masked_prefix4 q (octet_value bits) = v | _ \<Rightarrow> False"
    using assms by (auto simp: canonical_prefix4_def split: option.splits prod.splits)
  then obtain q n where "v = masked_prefix4 q n"
    by (cases "ParseAddr ip"; cases "the (ParseAddr ip)") auto
  with masked_text[of q n] show "v \<noteq> []" "CHR ''|'' \<notin> set v" "CHR '','' \<notin> set v" "CHR 0x0A \<notin> set v" by auto
qed

lemma endpoint_texts:
  "rule_ok r \<Longrightarrow> v \<in> set (endpoint_spec r) \<Longrightarrow> v \<noteq> [] \<and> CHR '','' \<notin> set v"
  by (auto simp: rule_ok_def list_all_iff dest: prefix_text)

lemma type_of_endpoints:
  "rule_ok r \<Longrightarrow> rule_ok r' \<Longrightarrow> endpoint_spec r = [] \<longleftrightarrow> endpoint_spec r' = []
   \<Longrightarrow> fwr_EndpointSpecType r = fwr_EndpointSpecType r'"
  by (auto simp: rule_ok_def)

lemma endpoints_text_inj:
  assumes "rule_ok r" "rule_ok r'"
  shows "strings_Join (sort (endpoint_spec r)) '','' = strings_Join (sort (endpoint_spec r')) '',''
     \<longleftrightarrow> set (endpoint_spec r) = set (endpoint_spec r')"
proof -
  have d: "distinct (endpoint_spec r)" "distinct (endpoint_spec r')" using assms by (auto simp: rule_ok_def)
  have "strings_Join (sort (endpoint_spec r)) '','' = strings_Join (sort (endpoint_spec r')) '',''
      \<longleftrightarrow> sort (endpoint_spec r) = sort (endpoint_spec r')"
    using Join_inj[of "sort (endpoint_spec r)" "CHR '',''" "sort (endpoint_spec r')"] endpoint_texts[OF assms(1)]
      endpoint_texts[OF assms(2)] by auto
  also have "\<dots> \<longleftrightarrow> set (endpoint_spec r) = set (endpoint_spec r')"
    using d by (metis set_sort sorted_list_of_set_sort_remdups distinct_remdups_id)
  finally show ?thesis .
qed

lemma text_key_inj:
  assumes "rule_ok r" "rule_ok r'"
  shows "text_key r = text_key r' \<longleftrightarrow> listed_prefixes r = listed_prefixes r'"
proof -
  obtain p p' where p: "explicit_port r = Some p" "explicit_port r' = Some p'" using assms by (auto simp: rule_ok_def)
  have ty: "CHR ''|'' \<notin> set (fwr_EndpointSpecType r)" "CHR ''|'' \<notin> set (fwr_EndpointSpecType r')"
    using assms by (auto simp: rule_ok_def)
  have "text_key r = text_key r' \<longleftrightarrow> fwr_Protocol r = fwr_Protocol r' \<and> p = p'
      \<and> fwr_EndpointSpecType r = fwr_EndpointSpecType r' \<and> set (endpoint_spec r) = set (endpoint_spec r')"
    using protocol_plain[OF assms(1)] protocol_plain[OF assms(2)] port_text_plain[OF p(1)] port_text_plain[OF p(2)] ty
      port_text_inj[OF p] endpoints_text_inj[OF assms]
    unfolding text_key_def rule_key_def p option.sel strings_Join.simps
    by (simp add: bar_inj del: append_Cons append_Nil)
  also have "\<dots> \<longleftrightarrow> listed_prefixes r = listed_prefixes r'"
    using type_of_endpoints[OF assms] by (auto simp: listed_prefixes_def rule_port_def p) (metis set_empty)
  finally show ?thesis .
qed

lemma text_key_plain:
  assumes "rule_ok r"
  shows "text_key r \<noteq> []" "CHR 0x0A \<notin> set (text_key r)"
proof -
  obtain p where p: "explicit_port r = Some p" using assms by (auto simp: rule_ok_def)
  have "CHR 0x0A \<notin> set (strings_Join (sort (endpoint_spec r)) [CHR '',''])"
    using set_Join[of "sort (endpoint_spec r)" "CHR '',''"] assms
    by (auto simp: rule_ok_def list_all_iff dest: prefix_text)
  moreover have "CHR 0x0A \<notin> set (fwr_EndpointSpecType r)" using assms by (auto simp: rule_ok_def)
  ultimately show "text_key r \<noteq> []" "CHR 0x0A \<notin> set (text_key r)"
    using protocol_plain[OF assms] port_text_plain[OF p] by (auto simp: text_key_def rule_key_def p)
qed

section \<open>The canonical policy\<close>

lemma canonical_rules_iff:
  assumes "list_all rule_ok done"
  shows "canonical_rules (map port_key done) (map text_key done) rules = Inr keys \<longleftrightarrow>
    list_all rule_ok rules \<and> distinct (map rule_port rules) \<and> set (map rule_port rules) \<inter> set (map rule_port done) = {}
    \<and> keys = map text_key rules"
  using assms
proof (induction rules arbitrary: "done" keys)
  case (Cons r rules)
  show ?case
  proof (cases "rule_ok r \<and> rule_port r \<notin> set (map rule_port done)")
    case True
    then obtain p where p: "explicit_port r = Some p" by (auto simp: rule_ok_def)
    have "port_key r \<notin> set (map port_key done)"
      using True Cons.prems by (auto simp: port_key_inj list_all_iff)
    moreover have "text_key r \<notin> set (map text_key done)"
      using True Cons.prems by (auto simp: text_key_inj list_all_iff listed_prefixes_def)
    moreover have "canonicalNodeLoadBalancerFirewallEndpoints r = Inr (sort (endpoint_spec r))"
      using True by (auto simp: endpoints_iff rule_ok_def)
    ultimately have "canonical_rules (map port_key done) (map text_key done) (r # rules)
        = attempt_ok (canonical_rules (map port_key (r # done)) (map text_key (r # done)) rules) (\<lambda>keys. Inr (text_key r # keys))"
      using True p by (auto simp: rule_ok_def port_key_def text_key_def Let_def)
    with Cons.IH[of "r # done"] Cons.prems True show ?thesis by (auto simp: attempt_ok_Inr)
  next
    case False
    have "rule_port r \<in> set (map rule_port done) \<Longrightarrow> rule_ok r \<Longrightarrow> port_key r \<in> set (map port_key done)"
      using Cons.prems by (force simp: port_key_inj list_all_iff image_iff)
    with False have "canonical_rules (map port_key done) (map text_key done) (r # rules) \<noteq> Inr keys"
      by (auto simp: rule_ok_def port_key_def endpoints_iff attempt_ok_Inr Let_def split: option.splits)
    with False show ?thesis by auto
  qed
qed auto

lemma canonical_policy_iff:
  "canonicalNodeLoadBalancerPortFirewallPolicy rules = Inr t \<longleftrightarrow>
     policy_ok rules \<and> t = strings_Join (sort (map text_key rules)) [CHR 0x0A]"
  using canonical_rules_iff[of "[]" rules]
  by (auto simp: canonicalNodeLoadBalancerPortFirewallPolicy_def policy_ok_def attempt_ok_Inr)

lemma policy_text_inj:
  assumes "policy_ok rules" "policy_ok rules'"
  shows "strings_Join (sort (map text_key rules)) [CHR 0x0A] = strings_Join (sort (map text_key rules')) [CHR 0x0A]
     \<longleftrightarrow> listed_prefixes ` set rules = listed_prefixes ` set rules'"
proof -
  have ok: "rule_ok r" if "r \<in> set rules \<or> r \<in> set rules'" for r
    using that assms by (auto simp: policy_ok_def list_all_iff)
  have plain: "x \<noteq> [] \<and> CHR 0x0A \<notin> set x" if "x \<in> text_key ` set rules \<or> x \<in> text_key ` set rules'" for x
    using that ok by (auto dest: text_key_plain)
  have d: "distinct (map text_key rs)" if "policy_ok rs" for rs
    using that by (auto simp: policy_ok_def distinct_map inj_on_def list_all_iff text_key_inj listed_prefixes_def)
  have "strings_Join (sort (map text_key rules)) [CHR 0x0A] = strings_Join (sort (map text_key rules')) [CHR 0x0A]
      \<longleftrightarrow> sort (map text_key rules) = sort (map text_key rules')"
    using Join_inj[of "sort (map text_key rules)" "CHR 0x0A" "sort (map text_key rules')"] plain by auto
  also have "\<dots> \<longleftrightarrow> text_key ` set rules = text_key ` set rules'"
    using d[OF assms(1)] d[OF assms(2)]
    by (metis set_sort set_map sorted_list_of_set_sort_remdups distinct_remdups_id)
  also have "\<dots> \<longleftrightarrow> listed_prefixes ` set rules = listed_prefixes ` set rules'"
    using ok by (intro same_images text_key_inj) auto
  finally show ?thesis .
qed

text \<open>
  C27: the canonical text of a port policy, whose hash the controllers compare, stands for exactly
  the ports and prefixes the policy lists. A rule list is accepted when it has rules, each inbound TCP
  or UDP on one explicit port from anywhere or from distinct canonical prefixes, and no port twice; two
  accepted lists have the same text exactly when they list the same protocols and ports, each with the
  same set of prefixes. Neither the order of rules and prefixes nor the UUIDs of the rules matter.
  Lists that admit the same sources through different prefixes have different texts.
\<close>

theorem policy_text_faithful:
  assumes "canonicalNodeLoadBalancerPortFirewallPolicy rules = Inr t"
  shows "canonicalNodeLoadBalancerPortFirewallPolicy rules' = Inr t
     \<longleftrightarrow> policy_ok rules' \<and> listed_prefixes ` set rules' = listed_prefixes ` set rules"
  using assms policy_text_inj[of rules rules'] by (auto simp only: canonical_policy_iff)

section \<open>Names\<close>

definition sha256_hex :: "(string \<Rightarrow> string) \<Rightarrow> bool" where
  "sha256_hex sha \<longleftrightarrow> (\<forall>s. hex_text 64 (sha s))"

lemma match_classes_list_all2: "match_classes ps s \<longleftrightarrow> list_all2 (\<lambda>p c. p c) ps s"
  by (induction ps s rule: match_classes.induct) auto

lemma hex_text_iff: "hex_text n s \<longleftrightarrow> length s = n \<and> list_all is_hex_lower s"
  by (auto simp: hex_text_def match_classes_list_all2 list_all2_conv_all_nth list_all_length)

lemma hex_prefixes:
  assumes "sha256_hex sha"
  shows "hex_text 8 (nodeLoadBalancerShortHash sha c)" "hex_text 32 (nodeLoadBalancerOwnershipHash sha c)"
  using assms
  by (auto simp: sha256_hex_def hex_text_iff nodeLoadBalancerShortHash_def nodeLoadBalancerOwnershipHash_def list_all_iff
      dest: in_set_takeD)

lemma cut_at_Some:
  assumes "cut_at n sep s = Some (a, b)" "length a = n"
  shows "s = a @ sep @ b"
proof -
  from assms(1) obtain t where t: "drop n s = sep @ t" "a = take n s" "b = drop (n + length sep) s"
    by (auto simp: cut_at_def HasPrefix_iff split: if_splits)
  have "b = drop (length sep) (drop n s)" using t(3) by (simp add: add.commute)
  with t show ?thesis by (metis append_eq_conv_conj append_take_drop_id)
qed

lemma cut_at_append: "length a = n \<Longrightarrow> cut_at n sep (a @ sep @ b) = Some (a, b)"
  by (auto simp: cut_at_def HasPrefix_iff)

lemma owned_pattern_iff:
  "owned_pattern n kind ok name = Some (x, r) \<longleftrightarrow> name = ''inlb-'' @ x @ kind @ r \<and> hex_text n x \<and> ok r"
proof
  assume "owned_pattern n kind ok name = Some (x, r)"
  then obtain t where "name = ''inlb-'' @ t" "cut_at n kind t = Some (x, r)" "hex_text n x" "ok r"
    by (auto simp: owned_pattern_def HasPrefix_iff split: if_splits option.splits)
  then show "name = ''inlb-'' @ x @ kind @ r \<and> hex_text n x \<and> ok r" by (auto simp: hex_text_iff dest: cut_at_Some)
next
  assume "name = ''inlb-'' @ x @ kind @ r \<and> hex_text n x \<and> ok r"
  then show "owned_pattern n kind ok name = Some (x, r)"
    by (auto simp: owned_pattern_def HasPrefix_iff hex_text_iff cut_at_append)
qed

lemma service_pattern_Some:
  assumes "nodeLoadBalancerServiceFirewallPattern name = Some (x, u, h)"
  shows "name = ''inlb-'' @ x @ ''-'' @ u @ ''-'' @ h \<and> hex_text 8 x \<and> hex_text 8 h"
proof -
  from assms obtain t r where "name = ''inlb-'' @ t" "cut_at 8 ''-'' t = Some (x, r)" "hex_text 8 x"
      and r: "cut_at (length r - 9) ''-'' r = Some (u, h)" "hex_text 8 h"
    by (auto simp: nodeLoadBalancerServiceFirewallPattern_def HasPrefix_iff split: if_splits option.splits)
  moreover from r have "length h = 8" "h = drop (length r - 9 + 1) r" "u = take (length r - 9) r"
    by (auto simp: cut_at_def hex_text_iff split: if_splits)
  then have "length u = length r - 9" by simp
  from cut_at_Some[OF r(1) this] have "r = u @ ''-'' @ h" .
  ultimately show ?thesis by (auto simp: hex_text_iff dest: cut_at_Some)
qed

section \<open>A firewall has one kind\<close>

datatype nlb_kind = VMKind | ShardKind | ServiceKind | ICMPKind

fun owned_as :: "(string \<Rightarrow> string) \<Rightarrow> Firewall \<Rightarrow> nlb_kind \<Rightarrow> bool" where
  "owned_as sha f VMKind = (\<exists>c v b. ValidateNodeLoadBalancerVMFirewallIdentity sha f c v b = None)"
| "owned_as sha f ShardKind = (\<exists>c s b h. ValidateNodeLoadBalancerShardFirewall sha f c s b h = None)"
| "owned_as sha f ServiceKind = (\<exists>c b. ValidateNodeLoadBalancerServiceFirewall sha f c b = None)"
| "owned_as sha f ICMPKind = (\<exists>c b. ValidateNodeLoadBalancerClusterICMPFirewall sha f c b = None)"

text \<open>What a name of a kind looks like behind the common prefix.\<close>

fun name_shape :: "nlb_kind \<Rightarrow> string \<Rightarrow> bool" where
  "name_shape VMKind t \<longleftrightarrow> (\<exists>x u. t = x @ ''-vm-'' @ u \<and> hex_text 8 x \<and> uuid_lower u)"
| "name_shape ShardKind t \<longleftrightarrow> (\<exists>x u. t = x @ ''-shard-'' @ u \<and> hex_text 32 x)"
| "name_shape ServiceKind t \<longleftrightarrow> (\<exists>x u h. t = x @ ''-'' @ u @ ''-'' @ h \<and> hex_text 8 x \<and> hex_text 8 h)"
| "name_shape ICMPKind t \<longleftrightarrow> (\<exists>x u. t = x @ ''-icmp-'' @ u \<and> hex_text 32 x)"

lemma owned_name:
  assumes "sha256_hex sha" "owned_as sha f k"
  shows "\<exists>t. EffectiveName f = ''inlb-'' @ t \<and> name_shape k t"
proof (cases k)
  case VMKind
  with assms(2) obtain c v where "NodeLoadBalancerVMFirewallName sha c v = Inr (EffectiveName f)"
    by (auto simp: ValidateNodeLoadBalancerVMFirewallIdentity_def failed_def split: if_splits sum.splits)
  then have "EffectiveName f = ''inlb-'' @ nodeLoadBalancerShortHash sha c @ ''-vm-'' @ v" "uuid_lower v"
    by (auto simp: NodeLoadBalancerVMFirewallName_def split: if_splits)
  with VMKind hex_prefixes(1)[OF assms(1)] show ?thesis by auto
next
  case ShardKind
  with assms(2) obtain x u where "nodeLoadBalancerShardFirewallPattern (EffectiveName f) = Some (x, u)"
    by (auto simp: ValidateNodeLoadBalancerShardFirewall_def failed_def split: if_splits sum.splits)
  with ShardKind show ?thesis by (auto simp: nodeLoadBalancerShardFirewallPattern_def owned_pattern_iff)
next
  case ServiceKind
  with assms(2) obtain x u h where "nodeLoadBalancerServiceFirewallPattern (EffectiveName f) = Some (x, u, h)"
    by (auto simp: ValidateNodeLoadBalancerServiceFirewall_def split: if_splits option.splits)
  with ServiceKind service_pattern_Some show ?thesis by fastforce
next
  case ICMPKind
  with assms(2) obtain x u where "nodeLoadBalancerICMPFirewallPattern (EffectiveName f) = Some (x, u)"
    by (auto simp: ValidateNodeLoadBalancerClusterICMPFirewall_def split: if_splits option.splits)
  with ICMPKind show ?thesis by (auto simp: nodeLoadBalancerICMPFirewallPattern_def owned_pattern_iff)
qed

lemma hex_not_dash: "is_hex_lower c \<Longrightarrow> c \<noteq> CHR ''-''"
  by (auto simp: is_hex_lower_def)

lemma hex_nth: "hex_text n x \<Longrightarrow> i < n \<Longrightarrow> x ! i \<noteq> CHR ''-''"
  by (auto simp: hex_text_iff list_all_length dest: hex_not_dash)

lemma short_long_owner:
  assumes "hex_text 8 x" "hex_text 32 y" "x @ CHR ''-'' # s = y @ t"
  shows False
proof -
  have "(x @ CHR ''-'' # s) ! 8 = CHR ''-''" using assms(1) by (auto simp: hex_text_iff nth_append)
  moreover have "(y @ t) ! 8 = y ! 8" using assms(2) by (auto simp: hex_text_iff nth_append)
  ultimately show False using hex_nth[OF assms(2), of 8] assms(3) by simp
qed

lemma same_owner: "hex_text n x \<Longrightarrow> hex_text n y \<Longrightarrow> x @ s = y @ t \<Longrightarrow> s = t"
  by (auto simp: hex_text_iff)

lemma uuid_tail:
  assumes "uuid_lower u" "u = v @ CHR ''-'' # h" "length h = 8"
  shows False
proof -
  have "list_all2 (\<lambda>p c. p c) (uuid_classes is_hex_lower) u"
    using assms(1) by (simp add: uuid_lower_def match_classes_list_all2)
  then have "(uuid_classes is_hex_lower ! 27) (u ! 27)" and "length u = 36"
    by (auto simp: list_all2_conv_all_nth uuid_classes_def)
  moreover have "u ! 27 = CHR ''-''" using assms(2,3) \<open>length u = 36\<close> by (auto simp: nth_append)
  ultimately show False using hex_not_dash by (auto simp: uuid_classes_def nth_append)
qed

lemma shape_unique:
  assumes "name_shape k t" "name_shape k' t"
  shows "k = k'"
proof -
  have vs: False if "name_shape VMKind t" "name_shape ServiceKind t"
  proof -
    from that(1) obtain x u where "t = x @ ''-vm-'' @ u" "hex_text 8 x" "uuid_lower u" by auto
    moreover from that(2) obtain y v h where "t = y @ ''-'' @ v @ ''-'' @ h" "hex_text 8 y" "hex_text 8 h" by auto
    ultimately have e: "''vm-'' @ u = v @ CHR ''-'' # h" "length h = 8" "length u = 36"
      using same_owner[of 8 x y "''-vm-'' @ u" "''-'' @ v @ ''-'' @ h"] uuid_lower_length by (auto simp: hex_text_iff)
    then have "length v = 30" by (auto dest!: arg_cong[where f = length])
    moreover from e(1) have "drop 3 (''vm-'' @ u) = drop 3 (v @ CHR ''-'' # h)" by (rule arg_cong)
    ultimately have "u = drop 3 v @ CHR ''-'' # h" by simp
    with \<open>uuid_lower u\<close> e(2) show False by (auto dest: uuid_tail)
  qed
  have lng: False if "name_shape k t" "name_shape k' t" "k = VMKind \<or> k = ServiceKind" "k' = ShardKind \<or> k' = ICMPKind" for k k'
    using that by (auto dest: short_long_owner[OF _ _ sym])
  have si: False if "name_shape ShardKind t" "name_shape ICMPKind t"
    using that by (auto dest: same_owner)
  show ?thesis using assms vs si lng[of k k'] lng[of k' k] by (cases k; cases k') auto
qed

text \<open>
  C28: no firewall is taken for one of another kind. A firewall that is authenticated as the firewall
  of a VM, of a shard, of a Service or of the cluster's ICMP policy, under whatever cluster, account
  and policy, is not authenticated as one of another kind; and the name of a VM's firewall gives
  back exactly the VM it was made for.
\<close>

theorem firewall_identity_exact:
  assumes "sha256_hex sha"
  shows "(owned_as sha f k \<and> owned_as sha f k' \<longrightarrow> k = k')
     \<and> (NodeLoadBalancerVMFirewallName sha c u = Inr name \<longleftrightarrow> ParseNodeLoadBalancerVMFirewallName sha c name = Some u)"
proof
  show "owned_as sha f k \<and> owned_as sha f k' \<longrightarrow> k = k'"
    using owned_name[OF assms, of f k] owned_name[OF assms, of f k'] shape_unique by (metis append_same_eq same_append_eq)
  show "NodeLoadBalancerVMFirewallName sha c u = Inr name \<longleftrightarrow> ParseNodeLoadBalancerVMFirewallName sha c name = Some u"
  proof -
    have "ParseNodeLoadBalancerVMFirewallName sha c name = Some u
        \<longleftrightarrow> c \<noteq> [] \<and> nodeLoadBalancerVMFirewallPattern name = Some (nodeLoadBalancerShortHash sha c, u)"
      by (auto simp: ParseNodeLoadBalancerVMFirewallName_def split: option.splits)
    then show ?thesis
      using hex_prefixes(1)[OF assms, of c]
      unfolding nodeLoadBalancerVMFirewallPattern_def owned_pattern_iff by (auto simp: NodeLoadBalancerVMFirewallName_def)
  qed
qed

section \<open>Concrete policies\<close>

definition example_rule :: "string \<Rightarrow> int \<Rightarrow> string list \<Rightarrow> FirewallRule" where
  "example_rule uuid port prefixes = \<lparr>fwr_UUID = uuid, fwr_Protocol = ''tcp'', fwr_Direction = ''inbound'',
     fwr_PortStart = Some port, fwr_PortEnd = Some port, fwr_EndpointSpecType = ''ip_prefixes'',
     fwr_EndpointSpec = Some prefixes\<rparr>"

definition example_digest :: "string \<Rightarrow> string" where
  "example_digest s = replicate 64 (CHR ''0'')"

theorem policy_text_faithful_witness:
  "canonicalNodeLoadBalancerPortFirewallPolicy
     [example_rule ''a'' 443 [''10.0.0.0/8''], example_rule ''b'' 80 [''0.0.0.0/0'', ''192.168.0.0/16'']]
   = canonicalNodeLoadBalancerPortFirewallPolicy
     [example_rule [] 80 [''192.168.0.0/16'', ''0.0.0.0/0''], example_rule [] 443 [''10.0.0.0/8'']]"
proof -
  let ?rules = "[example_rule ''a'' 443 [''10.0.0.0/8''], example_rule ''b'' 80 [''0.0.0.0/0'', ''192.168.0.0/16'']]"
  let ?other = "[example_rule [] 80 [''192.168.0.0/16'', ''0.0.0.0/0''], example_rule [] 443 [''10.0.0.0/8'']]"
  have parts: "last_index_split CHR ''/'' ''10.0.0.0/8'' = Some (''10.0.0.0'', ''8'')"
    "last_index_split CHR ''/'' ''0.0.0.0/0'' = Some (''0.0.0.0'', ''0'')"
    "last_index_split CHR ''/'' ''192.168.0.0/16'' = Some (''192.168.0.0'', ''16'')"
    "ParseAddr ''10.0.0.0'' = Some (Addr4 (10, 0, 0, 0))" "ParseAddr ''0.0.0.0'' = Some (Addr4 (0, 0, 0, 0))"
    "ParseAddr ''192.168.0.0'' = Some (Addr4 (192, 168, 0, 0))"
    "octet_value ''8'' = 8" "octet_value ''0'' = 0" "octet_value ''16'' = 16"
    "ParsePrefix_ok ''10.0.0.0/8''" "ParsePrefix_ok ''0.0.0.0/0''" "ParsePrefix_ok ''192.168.0.0/16''"
    by code_simp+
  have prefixes: "canonical_prefix4 ''10.0.0.0/8''" "canonical_prefix4 ''0.0.0.0/0''" "canonical_prefix4 ''192.168.0.0/16''"
    by (simp_all add: canonical_prefix4_def parts masked_prefix4_def show_nat.simps char_of_def bit_numeral_rec bit_0)
  have ok: "policy_ok ?rules" "policy_ok ?other"
    by (simp_all add: policy_ok_def rule_ok_def rule_port_def explicit_port_def example_rule_def endpoint_spec_def prefixes)
  moreover have "listed_prefixes ` set ?rules = listed_prefixes ` set ?other"
    by (auto simp: listed_prefixes_def rule_port_def explicit_port_def example_rule_def endpoint_spec_def)
  moreover obtain t where t: "canonicalNodeLoadBalancerPortFirewallPolicy ?rules = Inr t"
    using ok(1) canonical_policy_iff by blast
  ultimately have "canonicalNodeLoadBalancerPortFirewallPolicy ?other = Inr t"
    using policy_text_faithful[OF t, of ?other] by auto
  with t show ?thesis by simp
qed

theorem firewall_identity_exact_witness:
  "\<exists>name. NodeLoadBalancerVMFirewallName example_digest ''c1'' ''11111111-2222-3333-4444-555555555555'' = Inr name
     \<and> ParseNodeLoadBalancerVMFirewallName example_digest ''c1'' name = Some ''11111111-2222-3333-4444-555555555555''"
proof -
  have "sha256_hex example_digest"
    by (auto simp: sha256_hex_def example_digest_def hex_text_iff list_all_iff is_hex_lower_def)
  note identity = firewall_identity_exact[OF this]
  have "uuid_lower ''11111111-2222-3333-4444-555555555555''" by code_simp
  then obtain name where "NodeLoadBalancerVMFirewallName example_digest ''c1'' ''11111111-2222-3333-4444-555555555555'' = Inr name"
    by (auto simp: NodeLoadBalancerVMFirewallName_def)
  with identity show ?thesis by blast
qed

end
