(* ===== verification/Karpenter_Types.thy ===== *)
theory Karpenter_Types
  imports Client_Errors Go_JSON
begin

text \<open>
  The durable records of the Karpenter provider (\<^verbatim>\<open>karpenter-provider/pkg/provider/create_fence.go\<close>,
  \<^verbatim>\<open>pkg/cloud/cloud.go\<close>) and their validation: the create fence of a NodeClaim, which grants its one
  VM POST, the receipt of the floating-IP update and the cleanup receipts.

  A time is a number of nanoseconds, 0 is the zero time. An annotation is known by the value its JSON
  text decodes to: \<open>Absent\<close> when it is missing or empty, \<open>Malformed\<close> when it does not decode.
  SHA-256 and the label check of the Kubernetes validation library are parameters.
\<close>

type_synonym time = int

datatype 'a annotation = Absent | Malformed | Note 'a

record fence_env =
  fe_sha256hex :: "string \<Rightarrow> string"
  fe_IsDNS1123Label :: "string \<Rightarrow> bool"

section \<open>Records\<close>

record createFenceBinding =
  bind_NodeClaimUID :: string
  bind_IdempotencyKeyHash :: string
  bind_RequestHash :: string
  bind_SpecHash :: string
  bind_BootstrapHash :: string

record createFenceCleanupIdentity =
  cl_ClusterName :: string
  cl_Location :: string
  cl_NetworkUUID :: string
  cl_NodePoolName :: string
  cl_ControlPlaneVIP :: string
  cl_PoolStart :: string
  cl_PoolStop :: string
  cl_FirewallUUID :: string
  cl_FirewallProfile :: string
  cl_NodeClaimName :: string
  cl_VMName :: string
  cl_BillingAccountID :: int
  cl_OwnershipKeyHash :: string

record CreateFloatingIPAssignment =
  fia_Identity :: string
  fia_VMUUID :: string
  fia_Address :: string
  fia_Name :: string
  fia_BillingAccountID :: int

record CreateInventory =
  inv_VMs :: "string list"
  inv_PotentialVMs :: "string list"
  inv_TargetVMs :: "string list"
  inv_FloatingIPs :: "string list"
  inv_TargetFloatingIPs :: "CreateFloatingIPAssignment list"

text \<open>\<open>res_Converged\<close> is never written to the annotation.\<close>

record FencedCreateCleanupResolution =
  res_VMUUID :: string
  res_FloatingIPName :: string
  res_PublicIPv4 :: string
  res_Converged :: bool

record terminalCleanupRecord =
  tc_ObservedAt :: time
  tc_VMUUID :: string
  tc_FloatingIPName :: string
  tc_PublicIPv4 :: string
  tc_FirewallUUID :: string

record baseFirewallAssignmentRecord =
  bfa_VMUUID :: string
  bfa_FirewallUUID :: string
  bfa_Phase :: string
  bfa_IssueID :: string
  bfa_IntentAt :: time
  bfa_IssuedAt :: "time option"
  bfa_RejectedAt :: "time option"
  bfa_ObservedAt :: "time option"

record createFenceRecord =
  cf_Schema :: string
  cf_Binding :: createFenceBinding
  cf_Cleanup :: createFenceCleanupIdentity
  cf_Baseline :: CreateInventory
  cf_Token :: string
  cf_Phase :: string
  cf_Intent :: string
  cf_IssueID :: string
  cf_StartedAt :: time
  cf_IssuedAt :: "time option"
  cf_LaunchObservedAt :: "time option"
  cf_CreatedVMUUID :: string
  cf_ProtectionFailureAt :: "time option"
  cf_RollbackAt :: "time option"
  cf_DependentUnresolved :: bool
  cf_DependentsResolvedAt :: "time option"
  cf_ObservedAt :: "time option"
  cf_ObservedVMUUID :: string
  cf_FloatingIPName :: string
  cf_PublicIPv4 :: string
  cf_CleanupResolvedAt :: "time option"
  cf_CleanupVMUUID :: string
  cf_CleanupFloatingIPName :: string
  cf_CleanupPublicIPv4 :: string
  cf_CleanupResolutions :: "FencedCreateCleanupResolution list"
  cf_BaseFirewallAssignment :: "baseFirewallAssignmentRecord option"
  cf_TerminalCleanup :: "terminalCleanupRecord option"
  cf_LegacyV2 :: bool
  cf_LegacyV2BaseFirewallMayBeIssued :: bool
  cf_LegacyV2FloatingIPMayBeIssued :: bool

text \<open>What \<^verbatim>\<open>json.Marshal\<close> keeps of a record.\<close>

definition wire_resolution :: "FencedCreateCleanupResolution \<Rightarrow> FencedCreateCleanupResolution" where
  "wire_resolution r = r\<lparr>res_Converged := False\<rparr>"

definition wire_fence :: "createFenceRecord \<Rightarrow> createFenceRecord" where
  "wire_fence r = r\<lparr>cf_CleanupResolutions := map wire_resolution (cf_CleanupResolutions r)\<rparr>"

text \<open>The views of the fences that the provider and the adapter work with.\<close>

record FirewallAssignmentFence =
  faf_VMUUID :: string
  faf_FirewallUUID :: string
  faf_Phase :: string
  faf_IssueID :: string

record FirewallAssignmentAuthorization =
  faa_Fence :: FirewallAssignmentFence
  faa_AllowPOST :: bool

record createFence =
  fence_Token :: string
  fence_StartedAt :: time
  fence_Baseline :: CreateInventory
  fence_Issued :: bool
  fence_IssuedAt :: time
  fence_CreateIntent :: string
  fence_IssueID :: string
  fence_CreatedVMUUID :: string
  fence_HasCleanupHistory :: bool
  fence_RollbackChosen :: bool
  fence_BaseFirewallAssignment :: FirewallAssignmentFence

section \<open>Constants and patterns\<close>

definition createFenceSchema :: string where
  "createFenceSchema = ''karpenter.inspace.cloud/create-fence-v3''"
definition legacyCreateFenceSchema :: string where
  "legacyCreateFenceSchema = ''karpenter.inspace.cloud/create-fence-v2''"
definition createFenceReserved :: string where "createFenceReserved = ''reserved''"
definition createFenceIssued :: string where "createFenceIssued = ''issued''"
definition createFenceRejected :: string where "createFenceRejected = ''rejected''"
definition createFenceMaterialized :: string where "createFenceMaterialized = ''materialized''"
definition FirewallAssignmentIntent :: string where "FirewallAssignmentIntent = ''intent''"
definition FirewallAssignmentIssued :: string where "FirewallAssignmentIssued = ''issued''"
definition FirewallAssignmentRejected :: string where "FirewallAssignmentRejected = ''rejected''"
definition FirewallAssignmentObserved :: string where "FirewallAssignmentObserved = ''observed''"
definition CreateAuthorizationPost :: string where "CreateAuthorizationPost = ''post''"
definition CreateAuthorizationAdoption :: string where "CreateAuthorizationAdoption = ''adoption''"
definition FirewallProfilePrivateWorker :: string where "FirewallProfilePrivateWorker = ''private-worker''"
definition FirewallProfilePublicNodeLoadBalancer :: string where
  "FirewallProfilePublicNodeLoadBalancer = ''public-node-load-balancer''"
definition FirewallProfilePublicNodeLocal :: string where
  "FirewallProfilePublicNodeLocal = ''public-node-local''"
definition MaxCreateInventoryEntries :: nat where "MaxCreateInventoryEntries = 1024"
definition MaxCreateTargetFloatingIPAssignments :: nat where "MaxCreateTargetFloatingIPAssignments = 64"
definition MaxCreateInventoryEncodedBytes :: nat where "MaxCreateInventoryEncodedBytes = 96 * 1024"
definition MaxCreateCleanupResolutions :: nat where "MaxCreateCleanupResolutions = 64"

lemmas phase_defs = createFenceReserved_def createFenceIssued_def createFenceRejected_def createFenceMaterialized_def

lemmas assignment_phase_defs = FirewallAssignmentIntent_def FirewallAssignmentIssued_def
  FirewallAssignmentRejected_def FirewallAssignmentObserved_def

definition createFenceVMUUIDPattern :: "string \<Rightarrow> bool" where
  "createFenceVMUUIDPattern = uuid_any"

definition createFenceKeyHashPattern :: "string \<Rightarrow> bool" where
  "createFenceKeyHashPattern s = match_classes (replicate 32 is_hex_lower) s"

definition EffectiveFirewallProfile :: "string \<Rightarrow> string" where
  "EffectiveFirewallProfile profile = (if profile = [] then FirewallProfilePrivateWorker else profile)"

text \<open>
  \<^verbatim>\<open>netip.ParseAddr\<close> accepts an IPv4 address only in its canonical text, so the parsed address prints
  as the text it was parsed from.
\<close>

definition public_ipv4 :: "string \<Rightarrow> bool" where
  "public_ipv4 = isPublicIPv4"

definition stamped :: "time option \<Rightarrow> bool" where
  "stamped t = (case t of None \<Rightarrow> False | Some x \<Rightarrow> x \<noteq> 0)"

section \<open>Cleanup receipts\<close>

definition normalizeCleanupResolution :: "FencedCreateCleanupResolution \<Rightarrow> error + FencedCreateCleanupResolution" where
  "normalizeCleanupResolution resolution =
     (let r = resolution\<lparr>res_VMUUID := ToLower (res_VMUUID resolution)\<rparr> in
      if \<not> createFenceVMUUIDPattern (res_VMUUID r) \<or> res_FloatingIPName r = [] \<or> 255 < length (res_FloatingIPName r)
      then Inl (Plain ''cleanup resolution is missing a canonical VM UUID or floating-IP name'')
      else if \<not> public_ipv4 (res_PublicIPv4 r) then Inl (Plain ''cleanup resolution has invalid public IPv4'')
      else Inr r)"

definition appendCleanupResolution :: "FencedCreateCleanupResolution list \<Rightarrow> FencedCreateCleanupResolution
    \<Rightarrow> error + FencedCreateCleanupResolution list" where
  "appendCleanupResolution resolutions resolution =
     attempt_ok (normalizeCleanupResolution resolution) (\<lambda>r.
       case find (\<lambda>existing. res_VMUUID existing = res_VMUUID r) resolutions of
         Some existing \<Rightarrow>
           if existing \<noteq> r then Inl (Plain ''cleanup receipt changed dependent identity'') else Inr resolutions
       | None \<Rightarrow>
           if MaxCreateCleanupResolutions \<le> length resolutions
           then Inl (Plain ''internal rollback cleanup history exceeds its safe bound'')
           else Inr (sort_key res_VMUUID (resolutions @ [r])))"

definition applyCleanupResolution :: "time \<Rightarrow> createFenceRecord \<Rightarrow> FencedCreateCleanupResolution
    \<Rightarrow> error + createFenceRecord" where
  "applyCleanupResolution t record resolution =
     attempt_ok (normalizeCleanupResolution resolution) (\<lambda>r.
       attempt_ok (appendCleanupResolution (cf_CleanupResolutions record) r) (\<lambda>rs.
         Inr (record\<lparr>cf_CleanupResolvedAt := Some t, cf_CleanupVMUUID := res_VMUUID r,
           cf_CleanupFloatingIPName := res_FloatingIPName r, cf_CleanupPublicIPv4 := res_PublicIPv4 r,
           cf_CleanupResolutions := rs\<rparr>)))"

definition cleanupResolutionStored :: "createFenceRecord \<Rightarrow> FencedCreateCleanupResolution \<Rightarrow> bool" where
  "cleanupResolutionStored record resolution = (resolution \<in> set (cf_CleanupResolutions record))"

section \<open>The inventory before the POST\<close>

definition json_strings :: "string \<Rightarrow> string list \<Rightarrow> (string \<times> json) list" where
  "json_strings name xs = (if xs = [] then [] else [(name, JArr (map JStr xs))])"

definition json_CreateFloatingIPAssignment :: "CreateFloatingIPAssignment \<Rightarrow> json" where
  "json_CreateFloatingIPAssignment a = JObj
     ([(''identity'', JStr (fia_Identity a)), (''vmUUID'', JStr (fia_VMUUID a)), (''address'', JStr (fia_Address a))]
      @ (if fia_Name a = [] then [] else [(''name'', JStr (fia_Name a))])
      @ [(''billingAccountID'', JInt (fia_BillingAccountID a))])"

definition json_CreateInventory :: "CreateInventory \<Rightarrow> json" where
  "json_CreateInventory i = JObj
     (json_strings ''vms'' (inv_VMs i) @ json_strings ''potentialVMs'' (inv_PotentialVMs i)
      @ json_strings ''targetVMs'' (inv_TargetVMs i) @ json_strings ''floatingIPs'' (inv_FloatingIPs i)
      @ (if inv_TargetFloatingIPs i = [] then []
         else [(''targetFloatingIPs'', JArr (map json_CreateFloatingIPAssignment (inv_TargetFloatingIPs i)))]))"

definition inventory_entries_ok :: "string list \<Rightarrow> bool" where
  "inventory_entries_ok entries =
     (length entries \<le> MaxCreateInventoryEntries \<and> sorted entries \<and> distinct entries
      \<and> (\<forall>value \<in> set entries. value \<noteq> [] \<and> length value \<le> 128))"

definition assignment_wellformed :: "CreateFloatingIPAssignment \<Rightarrow> bool" where
  "assignment_wellformed a =
     (fia_Identity a \<noteq> [] \<and> length (fia_Identity a) \<le> 128
      \<and> createFenceVMUUIDPattern (fia_VMUUID a) \<and> fia_VMUUID a = ToLower (fia_VMUUID a)
      \<and> public_ipv4 (fia_Address a) \<and> 0 < fia_BillingAccountID a \<and> length (fia_Name a) \<le> 128)"

fun assignments_sorted :: "CreateFloatingIPAssignment list \<Rightarrow> bool" where
  "assignments_sorted (previous # a # rest) =
     (\<not> (fia_VMUUID previous > fia_VMUUID a
          \<or> (fia_VMUUID previous = fia_VMUUID a \<and> fia_Identity previous \<ge> fia_Identity a))
      \<and> assignments_sorted (a # rest))"
| "assignments_sorted _ = True"

definition validateCreateInventory :: "CreateInventory \<Rightarrow> error option" where
  "validateCreateInventory i =
     (if MaxCreateInventoryEncodedBytes < length (marshal (json_CreateInventory i))
      then Some (Plain ''create inventory exceeds the safe encoded bound'')
      else if \<not> (\<forall>entries \<in> {inv_VMs i, inv_PotentialVMs i, inv_TargetVMs i, inv_FloatingIPs i}. inventory_entries_ok entries)
      then Some (Plain ''inventory is too long, not sorted, or contains an empty, oversized, or duplicate identity'')
      else if \<not> set (inv_PotentialVMs i) \<subseteq> set (inv_VMs i)
      then Some (Plain ''potential VM identity is absent from the complete VM baseline'')
      else if \<not> set (inv_TargetVMs i) \<subseteq> set (inv_PotentialVMs i)
      then Some (Plain ''target VM identity is absent from the potential VM baseline'')
      else if MaxCreateTargetFloatingIPAssignments < length (inv_TargetFloatingIPs i)
      then Some (Plain ''target floating-IP inventory exceeds its bound'')
      else if \<not> (\<forall>a \<in> set (inv_TargetFloatingIPs i). assignment_wellformed a
                    \<and> fia_VMUUID a \<in> set (inv_TargetVMs i) \<and> fia_Identity a \<in> set (inv_FloatingIPs i))
             \<or> \<not> assignments_sorted (inv_TargetFloatingIPs i)
      then Some (Plain ''target floating-IP inventory contains a malformed, foreign, unsorted or duplicate assignment'')
      else None)"

section \<open>Validation of a fence\<close>

definition validPhase :: "createFenceRecord \<Rightarrow> bool" where
  "validPhase r =
     ((cf_Phase r = createFenceReserved \<and> cf_IssueID r = [] \<and> cf_IssuedAt r = None \<and> cf_ObservedAt r = None \<and> cf_ObservedVMUUID r = [])
    \<or> (cf_Phase r = createFenceIssued \<and> createFenceKeyHashPattern (cf_IssueID r) \<and> stamped (cf_IssuedAt r)
         \<and> cf_ObservedAt r = None \<and> cf_ObservedVMUUID r = [])
    \<or> (cf_Phase r = createFenceRejected \<and> createFenceKeyHashPattern (cf_IssueID r) \<and> stamped (cf_IssuedAt r)
         \<and> cf_ObservedAt r = None \<and> cf_ObservedVMUUID r = [])
    \<or> (cf_Phase r = createFenceMaterialized \<and> createFenceKeyHashPattern (cf_IssueID r) \<and> stamped (cf_IssuedAt r)
         \<and> stamped (cf_ObservedAt r) \<and> createFenceVMUUIDPattern (cf_ObservedVMUUID r)
         \<and> cf_FloatingIPName r \<noteq> [] \<and> cf_PublicIPv4 r \<noteq> []))"

definition validIntent :: "createFenceRecord \<Rightarrow> bool" where
  "validIntent r =
     ((cf_Phase r = createFenceReserved \<and> cf_Intent r = [])
    \<or> (cf_Phase r \<noteq> createFenceReserved
         \<and> (cf_Intent r = CreateAuthorizationPost \<or> cf_Intent r = CreateAuthorizationAdoption)))"

definition validCreatedIdentity :: "createFenceRecord \<Rightarrow> bool" where
  "validCreatedIdentity r =
     ((cf_LaunchObservedAt r = None \<and> cf_CreatedVMUUID r = [])
    \<or> (stamped (cf_LaunchObservedAt r) \<and> createFenceVMUUIDPattern (cf_CreatedVMUUID r)
         \<and> cf_CreatedVMUUID r = ToLower (cf_CreatedVMUUID r)))"

definition validBaseFirewallAssignment :: "createFenceRecord \<Rightarrow> bool" where
  "validBaseFirewallAssignment r =
     (case cf_BaseFirewallAssignment r of
        None \<Rightarrow> False
      | Some a \<Rightarrow>
          bfa_FirewallUUID a = cl_FirewallUUID (cf_Cleanup r) \<and> bfa_IntentAt a \<noteq> 0
          \<and> ((cf_CreatedVMUUID r = [] \<and> bfa_VMUUID a = []) \<or> (cf_CreatedVMUUID r \<noteq> [] \<and> bfa_VMUUID a = cf_CreatedVMUUID r))
          \<and> (if bfa_Phase a = FirewallAssignmentIntent
             then bfa_IssueID a = [] \<and> bfa_IssuedAt a = None \<and> bfa_RejectedAt a = None \<and> bfa_ObservedAt a = None
             else if bfa_Phase a = FirewallAssignmentIssued
             then createFenceKeyHashPattern (bfa_IssueID a) \<and> stamped (bfa_IssuedAt a) \<and> bfa_RejectedAt a = None \<and> bfa_ObservedAt a = None
             else if bfa_Phase a = FirewallAssignmentRejected
             then createFenceKeyHashPattern (bfa_IssueID a) \<and> stamped (bfa_IssuedAt a) \<and> stamped (bfa_RejectedAt a) \<and> bfa_ObservedAt a = None
             else if bfa_Phase a = FirewallAssignmentObserved
             then bfa_VMUUID a \<noteq> [] \<and> createFenceKeyHashPattern (bfa_IssueID a) \<and> stamped (bfa_IssuedAt a)
               \<and> bfa_RejectedAt a = None \<and> stamped (bfa_ObservedAt a)
             else False))"

definition validRollback :: "createFenceRecord \<Rightarrow> bool" where
  "validRollback r = (cf_RollbackAt r = None
     \<or> (stamped (cf_RollbackAt r) \<and> cf_Phase r = createFenceIssued \<and> cf_CreatedVMUUID r \<noteq> []))"

definition validProtectionFailure :: "createFenceRecord \<Rightarrow> bool" where
  "validProtectionFailure r = (cf_ProtectionFailureAt r = None
     \<or> (stamped (cf_ProtectionFailureAt r) \<and> cf_Phase r = createFenceIssued \<and> cf_CreatedVMUUID r \<noteq> [] \<and> cf_RollbackAt r = None))"

definition validCleanupResolution :: "createFenceRecord \<Rightarrow> bool" where
  "validCleanupResolution r =
     ((cf_CleanupResolvedAt r = None \<and> cf_CleanupVMUUID r = [] \<and> cf_CleanupFloatingIPName r = [] \<and> cf_CleanupPublicIPv4 r = [])
    \<or> (stamped (cf_CleanupResolvedAt r) \<and> createFenceVMUUIDPattern (cf_CleanupVMUUID r)
         \<and> cf_CleanupFloatingIPName r \<noteq> [] \<and> cf_CleanupPublicIPv4 r \<noteq> []))"

definition complete_binding :: "createFenceBinding \<Rightarrow> bool" where
  "complete_binding b = (bind_NodeClaimUID b \<noteq> [] \<and> bind_IdempotencyKeyHash b \<noteq> [] \<and> bind_RequestHash b \<noteq> []
     \<and> bind_SpecHash b \<noteq> [] \<and> bind_BootstrapHash b \<noteq> [])"

definition complete_cleanup :: "createFenceCleanupIdentity \<Rightarrow> bool" where
  "complete_cleanup c = (cl_ClusterName c \<noteq> [] \<and> cl_Location c \<noteq> [] \<and> cl_NetworkUUID c \<noteq> []
     \<and> cl_ControlPlaneVIP c \<noteq> [] \<and> cl_PoolStart c \<noteq> [] \<and> cl_PoolStop c \<noteq> [] \<and> cl_FirewallUUID c \<noteq> []
     \<and> cl_FirewallProfile c = EffectiveFirewallProfile (cl_FirewallProfile c) \<and> cl_NodeClaimName c \<noteq> []
     \<and> cl_VMName c \<noteq> [] \<and> 0 < cl_BillingAccountID c \<and> createFenceKeyHashPattern (cl_OwnershipKeyHash c))"

definition public_profile :: "createFenceCleanupIdentity \<Rightarrow> bool" where
  "public_profile c = (cl_FirewallProfile c = FirewallProfilePublicNodeLoadBalancer
     \<or> cl_FirewallProfile c = FirewallProfilePublicNodeLocal)"

definition validateNodePoolClaimIdentity :: "fence_env \<Rightarrow> string \<Rightarrow> string \<Rightarrow> error option" where
  "validateNodePoolClaimIdentity env nodePoolName nodeClaimName =
     (if \<not> fe_IsDNS1123Label env nodePoolName then Some (Plain ''NodePool name is not a DNS-1123 hostname label'')
      else if \<not> fe_IsDNS1123Label env nodeClaimName then Some (Plain ''NodeClaim name is not a DNS-1123 hostname label'')
      else let nodePoolPrefix = nodePoolName @ ''-'' in
        if \<not> HasPrefix nodeClaimName nodePoolPrefix \<or> length nodeClaimName = length nodePoolPrefix
        then Some (Plain ''NodeClaim name must use the NodePool-generated prefix followed by a nonempty random suffix'')
        else None)"

definition assignment_phase :: "createFenceRecord \<Rightarrow> string option" where
  "assignment_phase r = map_option bfa_Phase (cf_BaseFirewallAssignment r)"

fun receipts_canonical :: "FencedCreateCleanupResolution list \<Rightarrow> bool" where
  "receipts_canonical [] = True"
| "receipts_canonical [r] = (normalizeCleanupResolution r = Inr r)"
| "receipts_canonical (previous # r # rest) =
     (normalizeCleanupResolution previous = Inr previous \<and> \<not> res_VMUUID previous \<ge> res_VMUUID r
      \<and> receipts_canonical (r # rest))"

definition dispositions :: "createFenceRecord \<Rightarrow> nat" where
  "dispositions r =
     (if \<exists>x \<in> set (cf_CleanupResolutions r). res_VMUUID x = cf_CreatedVMUUID r then 1 else 0)
     + (if cf_DependentUnresolved r then 1 else 0) + (if cf_DependentsResolvedAt r \<noteq> None then 1 else 0)"

definition validateCreateFence :: "fence_env \<Rightarrow> createFenceRecord \<Rightarrow> error option" where
  "validateCreateFence env r =
     (if cf_Schema r \<noteq> createFenceSchema \<or> \<not> validPhase r \<or> \<not> validIntent r \<or> \<not> validCreatedIdentity r
         \<or> \<not> validBaseFirewallAssignment r \<or> \<not> validRollback r \<or> \<not> validProtectionFailure r
         \<or> \<not> validCleanupResolution r \<or> \<not> complete_binding (cf_Binding r) \<or> \<not> complete_cleanup (cf_Cleanup r)
         \<or> cf_Token r = [] \<or> cf_StartedAt r = 0
      then Some (Plain ''durable VM create fence has incomplete launch identity'')
      else if (cl_FirewallProfile (cf_Cleanup r) = FirewallProfilePrivateWorker \<and> cl_NodePoolName (cf_Cleanup r) \<noteq> [])
         \<or> (public_profile (cf_Cleanup r) \<and> cl_NodePoolName (cf_Cleanup r) = [])
      then Some (Plain ''durable VM create fence has invalid firewall-profile/NodePool binding'')
      else if public_profile (cf_Cleanup r)
         \<and> validateNodePoolClaimIdentity env (cl_NodePoolName (cf_Cleanup r)) (cl_NodeClaimName (cf_Cleanup r)) \<noteq> None
      then Some (Plain ''durable VM create fence has invalid NodePool/NodeClaim binding'')
      else if validateCreateInventory (cf_Baseline r) \<noteq> None
      then Some (Plain ''durable VM create fence baseline'')
      else if cf_Phase r = createFenceMaterialized
         \<and> (cf_CreatedVMUUID r = [] \<or> cf_CreatedVMUUID r \<noteq> cf_ObservedVMUUID r \<or> cf_RollbackAt r \<noteq> None
             \<or> assignment_phase r \<noteq> Some FirewallAssignmentObserved)
      then Some (Plain ''materialized VM create fence does not match its launch anchor'')
      else if cf_Phase r = createFenceMaterialized
         \<and> (let m = \<lparr>res_VMUUID = cf_ObservedVMUUID r, res_FloatingIPName = cf_FloatingIPName r,
                      res_PublicIPv4 = cf_PublicIPv4 r, res_Converged = False\<rparr>
            in normalizeCleanupResolution m \<noteq> Inr m)
      then Some (Plain ''durable VM create fence has non-canonical materialized identity'')
      else if cf_Phase r = createFenceIssued \<and> assignment_phase r = Some FirewallAssignmentIntent
      then Some (Plain ''issued VM create fence retains an unissued base-firewall intent'')
      else if MaxCreateCleanupResolutions < length (cf_CleanupResolutions r)
      then Some (Plain ''durable VM create fence cleanup history exceeds its exact receipts'')
      else if cf_CleanupResolutions r \<noteq> [] \<and> cf_CleanupVMUUID r = []
      then Some (Plain ''durable VM create fence cleanup history lacks an active exact receipt'')
      else if cf_Phase r = createFenceReserved
         \<and> (cf_CreatedVMUUID r \<noteq> [] \<or> cf_RollbackAt r \<noteq> None \<or> assignment_phase r \<noteq> Some FirewallAssignmentIntent)
      then Some (Plain ''reserved VM create fence cannot contain accepted-launch identities'')
      else if cf_Phase r = createFenceRejected
         \<and> (cf_CreatedVMUUID r \<noteq> [] \<or> cf_RollbackAt r \<noteq> None \<or> assignment_phase r \<noteq> Some FirewallAssignmentRejected)
      then Some (Plain ''rejected VM create fence cannot contain an accepted-launch identity'')
      else if \<not> receipts_canonical (cf_CleanupResolutions r)
      then Some (Plain ''durable VM create fence cleanup history contains a malformed, non-canonical, unsorted, or duplicate receipt'')
      else if cf_CleanupVMUUID r \<noteq> []
         \<and> \<not> (\<exists>x \<in> set (cf_CleanupResolutions r). res_VMUUID x = cf_CleanupVMUUID r
                \<and> res_FloatingIPName x = cf_CleanupFloatingIPName r \<and> res_PublicIPv4 x = cf_CleanupPublicIPv4 r)
      then Some (Plain ''durable VM create fence active cleanup identity is absent from exact receipt history'')
      else if cf_RollbackAt r = None \<and> (cf_DependentUnresolved r \<or> cf_DependentsResolvedAt r \<noteq> None)
      then Some (Plain ''durable VM create fence has dependent disposition without a rollback decision'')
      else if cf_DependentsResolvedAt r = Some 0
      then Some (Plain ''durable VM create fence has an invalid dependent absence time'')
      else if cf_RollbackAt r \<noteq> None \<and> dispositions r \<noteq> 1
      then Some (Plain ''durable VM create fence rollback dependent state does not have exactly one durable disposition'')
      else None)"

section \<open>Migration of version 2 fences\<close>

definition legacyBaseFirewallIssueID :: "fence_env \<Rightarrow> createFenceRecord \<Rightarrow> string" where
  "legacyBaseFirewallIssueID env r =
     take 32 (fe_sha256hex env (''legacy-base-firewall'' @ [CHR 0x00] @ cf_Token r @ [CHR 0x00] @ cf_CreatedVMUUID r
       @ [CHR 0x00] @ cl_FirewallUUID (cf_Cleanup r)))"

definition copyTime :: "time option \<Rightarrow> time \<Rightarrow> time" where
  "copyTime value fallback = (case value of Some t \<Rightarrow> if t \<noteq> 0 then t else fallback | None \<Rightarrow> fallback)"

definition legacy_assignment :: "fence_env \<Rightarrow> createFenceRecord \<Rightarrow> baseFirewallAssignmentRecord option" where
  "legacy_assignment env r =
     (let base = \<lparr>bfa_VMUUID = [], bfa_FirewallUUID = cl_FirewallUUID (cf_Cleanup r), bfa_Phase = FirewallAssignmentIntent,
            bfa_IssueID = [], bfa_IntentAt = cf_StartedAt r, bfa_IssuedAt = None, bfa_RejectedAt = None, bfa_ObservedAt = None\<rparr>;
          issued = Some (copyTime (cf_IssuedAt r) (cf_StartedAt r));
          issueID = legacyBaseFirewallIssueID env r in
      if cf_Phase r = createFenceReserved then Some base
      else if cf_Phase r = createFenceIssued
      then Some (base\<lparr>bfa_VMUUID := cf_CreatedVMUUID r, bfa_Phase := FirewallAssignmentIssued, bfa_IssueID := issueID,
        bfa_IssuedAt := issued\<rparr>)
      else if cf_Phase r = createFenceRejected
      then Some (base\<lparr>bfa_Phase := FirewallAssignmentRejected, bfa_IssueID := issueID, bfa_IssuedAt := issued,
        bfa_RejectedAt := issued\<rparr>)
      else if cf_Phase r = createFenceMaterialized
      then Some (base\<lparr>bfa_VMUUID := cf_CreatedVMUUID r, bfa_Phase := FirewallAssignmentObserved, bfa_IssueID := issueID,
        bfa_IssuedAt := issued, bfa_ObservedAt := Some (copyTime (cf_ObservedAt r) (cf_StartedAt r))\<rparr>)
      else cf_BaseFirewallAssignment r)"

definition migrateLegacyCreateFence :: "fence_env \<Rightarrow> createFenceRecord \<Rightarrow> createFenceRecord" where
  "migrateLegacyCreateFence env r =
     r\<lparr>cf_Schema := createFenceSchema, cf_LegacyV2 := True,
       cf_LegacyV2BaseFirewallMayBeIssued := (cf_Phase r = createFenceIssued),
       cf_LegacyV2FloatingIPMayBeIssued := (cf_Phase r = createFenceIssued \<and> cf_CreatedVMUUID r \<noteq> []),
       cf_BaseFirewallAssignment := legacy_assignment env r\<rparr>"

definition decodeCreateFence :: "fence_env \<Rightarrow> createFenceRecord annotation \<Rightarrow> error + createFenceRecord" where
  "decodeCreateFence env value =
     (case value of
        Note r \<Rightarrow>
          let record = (if cf_Schema r = legacyCreateFenceSchema then migrateLegacyCreateFence env r else r) in
          (case validateCreateFence env record of Some err \<Rightarrow> Inl err | None \<Rightarrow> Inr record)
      | _ \<Rightarrow> Inl (Plain ''durable VM create fence is missing or malformed''))"

definition parseCreateFence :: "fence_env \<Rightarrow> createFenceRecord annotation \<Rightarrow> createFenceBinding \<Rightarrow> error + createFenceRecord" where
  "parseCreateFence env value expected =
     attempt_ok (decodeCreateFence env value) (\<lambda>record.
       if cf_Binding record \<noteq> expected
       then Inl (Plain ''durable VM create fence does not match the exact NodeClaim launch identity'')
       else Inr record)"

section \<open>New records and views\<close>

definition newCreateFenceRecord :: "createFenceBinding \<Rightarrow> createFenceCleanupIdentity \<Rightarrow> CreateInventory \<Rightarrow> time \<Rightarrow> string
    \<Rightarrow> createFenceRecord" where
  "newCreateFenceRecord binding cleanup baseline t token =
     \<lparr>cf_Schema = createFenceSchema, cf_Binding = binding, cf_Cleanup = cleanup, cf_Baseline = baseline, cf_Token = token,
      cf_Phase = createFenceReserved, cf_Intent = [], cf_IssueID = [], cf_StartedAt = t, cf_IssuedAt = None,
      cf_LaunchObservedAt = None, cf_CreatedVMUUID = [], cf_ProtectionFailureAt = None, cf_RollbackAt = None,
      cf_DependentUnresolved = False, cf_DependentsResolvedAt = None, cf_ObservedAt = None, cf_ObservedVMUUID = [],
      cf_FloatingIPName = [], cf_PublicIPv4 = [], cf_CleanupResolvedAt = None, cf_CleanupVMUUID = [],
      cf_CleanupFloatingIPName = [], cf_CleanupPublicIPv4 = [], cf_CleanupResolutions = [],
      cf_BaseFirewallAssignment = Some \<lparr>bfa_VMUUID = [], bfa_FirewallUUID = cl_FirewallUUID cleanup,
        bfa_Phase = FirewallAssignmentIntent, bfa_IssueID = [], bfa_IntentAt = t, bfa_IssuedAt = None,
        bfa_RejectedAt = None, bfa_ObservedAt = None\<rparr>,
      cf_TerminalCleanup = None, cf_LegacyV2 = False, cf_LegacyV2BaseFirewallMayBeIssued = False,
      cf_LegacyV2FloatingIPMayBeIssued = False\<rparr>"

definition newBaseFirewallAssignmentIntent :: "createFenceRecord \<Rightarrow> string \<Rightarrow> time \<Rightarrow> baseFirewallAssignmentRecord" where
  "newBaseFirewallAssignmentIntent record vmUUID t =
     \<lparr>bfa_VMUUID = ToLower vmUUID, bfa_FirewallUUID = cl_FirewallUUID (cf_Cleanup record), bfa_Phase = FirewallAssignmentIntent,
      bfa_IssueID = [], bfa_IntentAt = t, bfa_IssuedAt = None, bfa_RejectedAt = None, bfa_ObservedAt = None\<rparr>"

definition baseFirewallAssignmentMatches :: "baseFirewallAssignmentRecord option \<Rightarrow> string \<Rightarrow> string \<Rightarrow> bool" where
  "baseFirewallAssignmentMatches value vmUUID firewallUUID =
     (case value of None \<Rightarrow> False | Some a \<Rightarrow> bfa_VMUUID a = ToLower vmUUID \<and> bfa_FirewallUUID a = firewallUUID)"

definition firewallAssignmentFenceFromRecord :: "createFenceRecord \<Rightarrow> FirewallAssignmentFence" where
  "firewallAssignmentFenceFromRecord record =
     (case cf_BaseFirewallAssignment record of
        None \<Rightarrow> \<lparr>faf_VMUUID = [], faf_FirewallUUID = [], faf_Phase = [], faf_IssueID = []\<rparr>
      | Some a \<Rightarrow> \<lparr>faf_VMUUID = bfa_VMUUID a, faf_FirewallUUID = bfa_FirewallUUID a, faf_Phase = bfa_Phase a,
          faf_IssueID = bfa_IssueID a\<rparr>)"

definition fenceFromRecord :: "createFenceRecord \<Rightarrow> createFence" where
  "fenceFromRecord r =
     \<lparr>fence_Token = cf_Token r, fence_StartedAt = cf_StartedAt r, fence_Baseline = cf_Baseline r,
      fence_Issued = (cf_Phase r \<noteq> createFenceReserved), fence_IssuedAt = (case cf_IssuedAt r of None \<Rightarrow> 0 | Some t \<Rightarrow> t),
      fence_CreateIntent = cf_Intent r, fence_IssueID = cf_IssueID r, fence_CreatedVMUUID = cf_CreatedVMUUID r,
      fence_HasCleanupHistory = (cf_CleanupResolutions r \<noteq> []),
      fence_RollbackChosen = (cf_Phase r = createFenceIssued \<and> cf_RollbackAt r \<noteq> None),
      fence_BaseFirewallAssignment = firewallAssignmentFenceFromRecord r\<rparr>"

section \<open>Terminal cleanup\<close>

definition newTerminalCleanupRecord :: "createFenceRecord \<Rightarrow> time \<Rightarrow> terminalCleanupRecord" where
  "newTerminalCleanupRecord record observedAt =
     \<lparr>tc_ObservedAt = observedAt, tc_VMUUID = cf_ObservedVMUUID record, tc_FloatingIPName = cf_FloatingIPName record,
      tc_PublicIPv4 = cf_PublicIPv4 record, tc_FirewallUUID = cl_FirewallUUID (cf_Cleanup record)\<rparr>"

definition terminalCleanupConverged :: "createFenceRecord \<Rightarrow> bool" where
  "terminalCleanupConverged r =
     (case cf_TerminalCleanup r of
        None \<Rightarrow> False
      | Some m \<Rightarrow> cf_Phase r = createFenceMaterialized \<and> tc_ObservedAt m \<noteq> 0
          \<and> cf_ObservedVMUUID r \<noteq> [] \<and> tc_VMUUID m = cf_ObservedVMUUID r
          \<and> cf_FloatingIPName r \<noteq> [] \<and> tc_FloatingIPName m = cf_FloatingIPName r
          \<and> cf_PublicIPv4 r \<noteq> [] \<and> tc_PublicIPv4 m = cf_PublicIPv4 r
          \<and> cl_FirewallUUID (cf_Cleanup r) \<noteq> [] \<and> tc_FirewallUUID m = cl_FirewallUUID (cf_Cleanup r))"

definition validateTerminalCleanupTarget :: "createFenceRecord \<Rightarrow> string \<Rightarrow> string \<Rightarrow> error option" where
  "validateTerminalCleanupTarget record token vmUUID =
     (if token = [] \<or> cf_Token record \<noteq> token
      then Some (Plain ''durable VM create token changed before recording terminal cleanup'')
      else if cf_Phase record \<noteq> createFenceMaterialized \<or> vmUUID = [] \<or> cf_ObservedVMUUID record \<noteq> vmUUID
         \<or> cf_RollbackAt record \<noteq> None
      then Some (Plain ''terminal cleanup can only be recorded for the materialized VM'')
      else None)"

end
