(* ===== verification/Karpenter_Receipts.thy ===== *)
theory Karpenter_Receipts
  imports Karpenter_Types
begin

text \<open>
  The other durable receipts of the Karpenter provider: the update of a floating IP
  (\<^verbatim>\<open>create_fence.go\<close>), the journal of removals (\<^verbatim>\<open>removal_mutation_fence.go\<close>) and the ledger that
  serialises the mutations of a firewall (\<^verbatim>\<open>firewall_mutation_slot.go\<close>); and the objects of the
  Kubernetes API that carry them, a NodeClaim and a Lease.
\<close>

section \<open>Floating-IP updates\<close>

record floatingIPUpdateRecord =
  fu_Schema :: string
  fu_Binding :: createFenceBinding
  fu_AttemptToken :: string
  fu_VMUUID :: string
  fu_Address :: string
  fu_Name :: string
  fu_BillingAccountID :: int
  fu_Phase :: string
  fu_IssueID :: string
  fu_IssuedAt :: time
  fu_RejectedAt :: "time option"
  fu_ObservedAt :: "time option"

record FloatingIPUpdateFence =
  fuf_VMUUID :: string
  fuf_Address :: string
  fuf_Name :: string
  fuf_BillingAccountID :: int
  fuf_Phase :: string
  fuf_IssueID :: string

record FloatingIPUpdateAuthorization =
  fua_Fence :: FloatingIPUpdateFence
  fua_AllowPOST :: bool

definition floatingIPUpdateFenceSchema :: string where
  "floatingIPUpdateFenceSchema = ''karpenter.inspace.cloud/floating-ip-update-fence-v1''"
definition FloatingIPUpdateIssued :: string where "FloatingIPUpdateIssued = ''issued''"
definition FloatingIPUpdateRejected :: string where "FloatingIPUpdateRejected = ''rejected''"
definition FloatingIPUpdateObserved :: string where "FloatingIPUpdateObserved = ''observed''"

lemmas update_phase_defs = FloatingIPUpdateIssued_def FloatingIPUpdateRejected_def FloatingIPUpdateObserved_def

definition newFloatingIPUpdateFence :: "string \<Rightarrow> string \<Rightarrow> string \<Rightarrow> int \<Rightarrow> error + FloatingIPUpdateFence" where
  "newFloatingIPUpdateFence vmUUID address name billingAccountID =
     (let fence = \<lparr>fuf_VMUUID = ToLower vmUUID, fuf_Address = address, fuf_Name = name,
            fuf_BillingAccountID = billingAccountID, fuf_Phase = [], fuf_IssueID = []\<rparr> in
      if \<not> createFenceVMUUIDPattern (fuf_VMUUID fence) \<or> name = [] \<or> 128 < length name \<or> billingAccountID \<le> 0
      then Inl (Plain ''floating-IP update requires canonical VM, name, and billing identity'')
      else if \<not> public_ipv4 address then Inl (Plain ''floating-IP update requires canonical public IPv4 address'')
      else Inr fence)"

definition validateFloatingIPUpdateFence :: "FloatingIPUpdateFence \<Rightarrow> error option" where
  "validateFloatingIPUpdateFence fence =
     (case newFloatingIPUpdateFence (fuf_VMUUID fence) (fuf_Address fence) (fuf_Name fence) (fuf_BillingAccountID fence) of
        Inl err \<Rightarrow> Some err
      | Inr desired \<Rightarrow>
          if \<not> createFenceKeyHashPattern (fuf_IssueID fence)
             \<or> (fuf_Phase fence \<noteq> FloatingIPUpdateIssued \<and> fuf_Phase fence \<noteq> FloatingIPUpdateRejected
                 \<and> fuf_Phase fence \<noteq> FloatingIPUpdateObserved)
             \<or> fuf_VMUUID desired \<noteq> fuf_VMUUID fence
          then Some (Plain ''floating-IP update receipt has invalid phase or issue identity'')
          else None)"

definition floatingIPUpdateFenceFromRecord :: "floatingIPUpdateRecord \<Rightarrow> FloatingIPUpdateFence" where
  "floatingIPUpdateFenceFromRecord r =
     \<lparr>fuf_VMUUID = fu_VMUUID r, fuf_Address = fu_Address r, fuf_Name = fu_Name r,
      fuf_BillingAccountID = fu_BillingAccountID r, fuf_Phase = fu_Phase r, fuf_IssueID = fu_IssueID r\<rparr>"

definition floatingIPUpdateIdentityMatches :: "floatingIPUpdateRecord \<Rightarrow> FloatingIPUpdateFence \<Rightarrow> bool" where
  "floatingIPUpdateIdentityMatches r fence =
     (fu_VMUUID r = ToLower (fuf_VMUUID fence) \<and> fu_Address r = fuf_Address fence \<and> fu_Name r = fuf_Name fence
      \<and> fu_BillingAccountID r = fuf_BillingAccountID fence)"

definition decodeFloatingIPUpdateRecord :: "floatingIPUpdateRecord annotation \<Rightarrow> createFenceBinding \<Rightarrow> string
    \<Rightarrow> error + floatingIPUpdateRecord" where
  "decodeFloatingIPUpdateRecord value binding token =
     (case value of
        Note r \<Rightarrow>
          let validTerminal =
            ((fu_Phase r = FloatingIPUpdateIssued \<and> fu_RejectedAt r = None \<and> fu_ObservedAt r = None)
             \<or> (fu_Phase r = FloatingIPUpdateRejected \<and> stamped (fu_RejectedAt r) \<and> fu_ObservedAt r = None)
             \<or> (fu_Phase r = FloatingIPUpdateObserved \<and> stamped (fu_ObservedAt r) \<and> fu_RejectedAt r = None)) in
          if fu_Schema r \<noteq> floatingIPUpdateFenceSchema \<or> fu_Binding r \<noteq> binding \<or> token = [] \<or> fu_AttemptToken r \<noteq> token
             \<or> fu_IssuedAt r = 0 \<or> \<not> validTerminal
             \<or> validateFloatingIPUpdateFence (floatingIPUpdateFenceFromRecord r) \<noteq> None
          then Inl (Plain ''durable floating-IP update fence has incomplete or changed identity'')
          else Inr r
      | _ \<Rightarrow> Inl (Plain ''durable floating-IP update fence is missing or malformed''))"

section \<open>Removals\<close>

record RemovalMutation =
  rm_Operation :: string
  rm_Location :: string
  rm_VMUUID :: string
  rm_Address :: string
  rm_Name :: string
  rm_BillingAccountID :: int

record RemovalMutationFence =
  rmf_Mutation :: RemovalMutation
  rmf_Phase :: string
  rmf_IssueID :: string
  rmf_IssuedAt :: time
  rmf_ObservedAt :: time

record RemovalMutationAuthorization =
  rma_Fence :: "RemovalMutationFence option"
  rma_Active :: bool
  rma_AllowMutation :: bool

record observedFloatingIPDeleteRecord =
  od_Location :: string
  od_VMUUID :: string
  od_Address :: string
  od_Name :: string
  od_BillingID :: int
  od_IssueID :: string
  od_IssuedAt :: time
  od_ObservedAt :: time

record removalMutationRecord =
  rr_Schema :: string
  rr_Binding :: createFenceBinding
  rr_AttemptToken :: string
  rr_ReadyAt :: time
  rr_Operation :: string
  rr_Location :: string
  rr_VMUUID :: string
  rr_Address :: string
  rr_Name :: string
  rr_BillingID :: int
  rr_Phase :: string
  rr_IssueID :: string
  rr_IssuedAt :: "time option"
  rr_RejectedAt :: "time option"
  rr_ObservedAt :: "time option"
  rr_ObservedFloatingIPDeletes :: "observedFloatingIPDeleteRecord list"

definition removalMutationFenceSchema :: string where
  "removalMutationFenceSchema = ''karpenter.inspace.cloud/removal-mutation-fence-v1''"
definition RemovalMutationVMDelete :: string where "RemovalMutationVMDelete = ''vm-delete''"
definition RemovalMutationFloatingIPUnassign :: string where "RemovalMutationFloatingIPUnassign = ''floating-ip-unassign''"
definition RemovalMutationFloatingIPDelete :: string where "RemovalMutationFloatingIPDelete = ''floating-ip-delete''"
definition RemovalMutationReady :: string where "RemovalMutationReady = ''ready''"
definition RemovalMutationIssued :: string where "RemovalMutationIssued = ''issued''"
definition RemovalMutationRejected :: string where "RemovalMutationRejected = ''rejected''"
definition RemovalMutationObserved :: string where "RemovalMutationObserved = ''observed''"
definition maxRemovalMutationEncodedBytes :: nat where "maxRemovalMutationEncodedBytes = 64 * 1024"

lemmas removal_phase_defs = RemovalMutationReady_def RemovalMutationIssued_def RemovalMutationRejected_def
  RemovalMutationObserved_def

definition newRemovalMutationReadyRecord :: "createFenceBinding \<Rightarrow> string \<Rightarrow> time \<Rightarrow> removalMutationRecord" where
  "newRemovalMutationReadyRecord binding token t =
     \<lparr>rr_Schema = removalMutationFenceSchema, rr_Binding = binding, rr_AttemptToken = token, rr_ReadyAt = t,
      rr_Operation = [], rr_Location = [], rr_VMUUID = [], rr_Address = [], rr_Name = [], rr_BillingID = 0,
      rr_Phase = RemovalMutationReady, rr_IssueID = [], rr_IssuedAt = None, rr_RejectedAt = None, rr_ObservedAt = None,
      rr_ObservedFloatingIPDeletes = []\<rparr>"

definition removalMutationFromRecord :: "removalMutationRecord \<Rightarrow> RemovalMutation" where
  "removalMutationFromRecord r =
     \<lparr>rm_Operation = rr_Operation r, rm_Location = rr_Location r, rm_VMUUID = rr_VMUUID r, rm_Address = rr_Address r,
      rm_Name = rr_Name r, rm_BillingAccountID = rr_BillingID r\<rparr>"

definition time_or_zero :: "time option \<Rightarrow> time" where
  "time_or_zero t = (case t of None \<Rightarrow> 0 | Some x \<Rightarrow> x)"

definition removalMutationFenceFromRecord :: "removalMutationRecord \<Rightarrow> RemovalMutationFence" where
  "removalMutationFenceFromRecord r =
     \<lparr>rmf_Mutation = removalMutationFromRecord r, rmf_Phase = rr_Phase r, rmf_IssueID = rr_IssueID r,
      rmf_IssuedAt = time_or_zero (rr_IssuedAt r), rmf_ObservedAt = time_or_zero (rr_ObservedAt r)\<rparr>"

definition observedFloatingIPDeleteFence :: "observedFloatingIPDeleteRecord \<Rightarrow> RemovalMutationFence" where
  "observedFloatingIPDeleteFence r =
     \<lparr>rmf_Mutation = \<lparr>rm_Operation = RemovalMutationFloatingIPDelete, rm_Location = od_Location r, rm_VMUUID = od_VMUUID r,
        rm_Address = od_Address r, rm_Name = od_Name r, rm_BillingAccountID = od_BillingID r\<rparr>,
      rmf_Phase = RemovalMutationObserved, rmf_IssueID = od_IssueID r, rmf_IssuedAt = od_IssuedAt r,
      rmf_ObservedAt = od_ObservedAt r\<rparr>"

definition historicalObservedFloatingIPDelete :: "removalMutationRecord \<Rightarrow> RemovalMutation \<Rightarrow> RemovalMutationFence option" where
  "historicalObservedFloatingIPDelete r desired =
     (if rm_Operation desired \<noteq> RemovalMutationFloatingIPDelete then None
      else find (\<lambda>fence. rmf_Mutation fence = desired)
        (map observedFloatingIPDeleteFence (rr_ObservedFloatingIPDeletes r)))"

definition appendObservedFloatingIPDelete :: "removalMutationRecord \<Rightarrow> RemovalMutationFence \<Rightarrow> time
    \<Rightarrow> error + removalMutationRecord" where
  "appendObservedFloatingIPDelete r fence observedAt =
     (if rm_Operation (rmf_Mutation fence) \<noteq> RemovalMutationFloatingIPDelete then Inr r
      else (case find (\<lambda>current. rmf_Mutation current = rmf_Mutation fence)
              (map observedFloatingIPDeleteFence (rr_ObservedFloatingIPDeletes r)) of
          Some current \<Rightarrow>
            if rmf_IssueID current \<noteq> rmf_IssueID fence \<or> rmf_IssuedAt current \<noteq> rmf_IssuedAt fence
               \<or> rmf_ObservedAt current \<noteq> observedAt
            then Inl (Plain ''observed floating-IP DELETE history changed'') else Inr r
        | None \<Rightarrow>
            if MaxCreateCleanupResolutions \<le> length (rr_ObservedFloatingIPDeletes r)
            then Inl (Plain ''observed floating-IP DELETE history exceeds its entries'')
            else let m = rmf_Mutation fence in
              Inr (r\<lparr>rr_ObservedFloatingIPDeletes := rr_ObservedFloatingIPDeletes r @
                [\<lparr>od_Location = rm_Location m, od_VMUUID = rm_VMUUID m, od_Address = rm_Address m, od_Name = rm_Name m,
                  od_BillingID = rm_BillingAccountID m, od_IssueID = rmf_IssueID fence, od_IssuedAt = rmf_IssuedAt fence,
                  od_ObservedAt = observedAt\<rparr>]\<rparr>)))"

definition archiveCurrentObservedFloatingIPDelete :: "removalMutationRecord \<Rightarrow> error + removalMutationRecord" where
  "archiveCurrentObservedFloatingIPDelete r =
     (if rr_Phase r \<noteq> RemovalMutationObserved \<or> rr_Operation r \<noteq> RemovalMutationFloatingIPDelete then Inr r
      else let fence = removalMutationFenceFromRecord r in appendObservedFloatingIPDelete r fence (rmf_ObservedAt fence))"

definition normalizeRemovalMutation :: "RemovalMutation \<Rightarrow> error + RemovalMutation" where
  "normalizeRemovalMutation value =
     (let v = value\<lparr>rm_Location := TrimSpace (rm_Location value), rm_VMUUID := ToLower (TrimSpace (rm_VMUUID value))\<rparr> in
      if rm_Location v = [] \<or> 128 < length (rm_Location v) \<or> \<not> createFenceVMUUIDPattern (rm_VMUUID v)
      then Inl (Plain ''removal mutation requires a location and canonical VM UUID'')
      else if rm_Operation v = RemovalMutationVMDelete
      then (if rm_Address v \<noteq> [] \<or> rm_Name v \<noteq> [] \<or> rm_BillingAccountID v \<noteq> 0
            then Inl (Plain ''VM delete receipt cannot contain floating-IP identity'') else Inr v)
      else if rm_Operation v = RemovalMutationFloatingIPUnassign \<or> rm_Operation v = RemovalMutationFloatingIPDelete
      then (if rm_Name v = [] \<or> 255 < length (rm_Name v) \<or> rm_BillingAccountID v \<le> 0
            then Inl (Plain ''floating-IP removal receipt requires exact name and billing identity'')
            else if \<not> public_ipv4 (rm_Address v)
            then Inl (Plain ''floating-IP removal receipt requires canonical public IPv4'')
            else Inr v)
      else Inl (Plain ''unsupported removal operation''))"

definition validateRemovalMutationFence :: "RemovalMutationFence \<Rightarrow> error option" where
  "validateRemovalMutationFence fence =
     (case normalizeRemovalMutation (rmf_Mutation fence) of
        Inl err \<Rightarrow> Some err
      | Inr desired \<Rightarrow>
          if desired \<noteq> rmf_Mutation fence \<or> \<not> createFenceKeyHashPattern (rmf_IssueID fence)
          then Some (Plain ''removal receipt identity or issue ID is not canonical'')
          else if rmf_IssuedAt fence = 0 then Some (Plain ''removal receipt has no issue time'')
          else if rmf_Phase fence = RemovalMutationIssued \<or> rmf_Phase fence = RemovalMutationRejected
          then (if rmf_ObservedAt fence \<noteq> 0
                then Some (Plain ''non-observed removal receipt contains an observation time'') else None)
          else if rmf_Phase fence = RemovalMutationObserved
          then (if rmf_ObservedAt fence = 0 \<or> rmf_ObservedAt fence < rmf_IssuedAt fence
                then Some (Plain ''observed removal receipt has an invalid observation time'') else None)
          else Some (Plain ''removal receipt has invalid phase''))"

definition removalMutationIdentityMatches :: "removalMutationRecord \<Rightarrow> RemovalMutation \<Rightarrow> bool" where
  "removalMutationIdentityMatches r desired = (removalMutationFromRecord r = desired)"

definition history_ok :: "observedFloatingIPDeleteRecord list \<Rightarrow> bool" where
  "history_ok deletes =
     (let fences = map observedFloatingIPDeleteFence deletes in
      (\<forall>fence \<in> set fences. validateRemovalMutationFence fence = None)
      \<and> distinct (map rmf_Mutation fences) \<and> distinct (map rmf_IssueID fences))"

definition removal_ready_clean :: "removalMutationRecord \<Rightarrow> bool" where
  "removal_ready_clean r =
     (rr_Operation r = [] \<and> rr_Location r = [] \<and> rr_VMUUID r = [] \<and> rr_Address r = [] \<and> rr_Name r = [] \<and> rr_BillingID r = 0
      \<and> rr_IssueID r = [] \<and> rr_IssuedAt r = None \<and> rr_RejectedAt r = None \<and> rr_ObservedAt r = None
      \<and> rr_ObservedFloatingIPDeletes r = [])"

text \<open>A note of the journal carries the length of its text, which is bounded.\<close>

definition decodeRemovalMutationRecord :: "(nat \<times> removalMutationRecord) annotation \<Rightarrow> createFenceBinding \<Rightarrow> string
    \<Rightarrow> error + removalMutationRecord" where
  "decodeRemovalMutationRecord value binding token =
     (case value of
        Note (len, r) \<Rightarrow>
          if maxRemovalMutationEncodedBytes < len
          then Inl (Plain ''durable removal mutation fence is missing or malformed'')
          else if rr_Schema r \<noteq> removalMutationFenceSchema \<or> rr_Binding r \<noteq> binding \<or> token = []
             \<or> rr_AttemptToken r \<noteq> token \<or> rr_ReadyAt r = 0
          then Inl (Plain ''durable removal mutation fence has incomplete or changed NodeClaim identity'')
          else if MaxCreateCleanupResolutions < length (rr_ObservedFloatingIPDeletes r)
          then Inl (Plain ''durable removal mutation fence has too many observed floating-IP DELETE receipts'')
          else if \<not> history_ok (rr_ObservedFloatingIPDeletes r)
          then Inl (Plain ''durable removal mutation fence has an invalid or repeated observed floating-IP DELETE receipt'')
          else if rr_Phase r = RemovalMutationReady
          then (if \<not> removal_ready_clean r
                then Inl (Plain ''durable removal mutation ready fence contains mutation state'') else Inr r)
          else if validateRemovalMutationFence (removalMutationFenceFromRecord r) \<noteq> None \<or> \<not> stamped (rr_IssuedAt r)
          then Inl (Plain ''durable removal mutation fence has incomplete mutation identity'')
          else if \<not> ((rr_Phase r = RemovalMutationIssued \<and> rr_RejectedAt r = None \<and> rr_ObservedAt r = None)
              \<or> (rr_Phase r = RemovalMutationRejected \<and> stamped (rr_RejectedAt r) \<and> rr_ObservedAt r = None)
              \<or> (rr_Phase r = RemovalMutationObserved \<and> stamped (rr_ObservedAt r) \<and> rr_RejectedAt r = None))
          then Inl (Plain ''durable removal mutation fence has contradictory phase timestamps'')
          else Inr r
      | _ \<Rightarrow> Inl (Plain ''durable removal mutation fence is missing or malformed''))"

text \<open>The JSON text of a journal; \<open>rfc3339\<close> writes a time.\<close>

definition json_binding :: "createFenceBinding \<Rightarrow> json" where
  "json_binding b = JObj [(''nodeClaimUID'', JStr (bind_NodeClaimUID b)), (''idempotencyKeyHash'', JStr (bind_IdempotencyKeyHash b)),
     (''requestHash'', JStr (bind_RequestHash b)), (''specHash'', JStr (bind_SpecHash b)), (''bootstrapHash'', JStr (bind_BootstrapHash b))]"

definition json_observedDelete :: "(time \<Rightarrow> string) \<Rightarrow> observedFloatingIPDeleteRecord \<Rightarrow> json" where
  "json_observedDelete rfc3339 r = JObj
     [(''location'', JStr (od_Location r)), (''vmUUID'', JStr (od_VMUUID r)), (''address'', JStr (od_Address r)),
      (''name'', JStr (od_Name r)), (''billingAccountID'', JInt (od_BillingID r)), (''issueID'', JStr (od_IssueID r)),
      (''issuedAt'', JStr (rfc3339 (od_IssuedAt r))), (''observedAt'', JStr (rfc3339 (od_ObservedAt r)))]"

definition json_omitempty :: "string \<Rightarrow> string \<Rightarrow> (string \<times> json) list" where
  "json_omitempty name s = (if s = [] then [] else [(name, JStr s)])"

definition json_removalMutationRecord :: "(time \<Rightarrow> string) \<Rightarrow> removalMutationRecord \<Rightarrow> json" where
  "json_removalMutationRecord rfc3339 r =
     (let at = (\<lambda>name t. case t of None \<Rightarrow> [] | Some x \<Rightarrow> [(name, JStr (rfc3339 x))]) in
      JObj ([(''schema'', JStr (rr_Schema r)), (''binding'', json_binding (rr_Binding r)),
             (''attemptToken'', JStr (rr_AttemptToken r)), (''readyAt'', JStr (rfc3339 (rr_ReadyAt r)))]
        @ json_omitempty ''operation'' (rr_Operation r) @ json_omitempty ''location'' (rr_Location r)
        @ json_omitempty ''vmUUID'' (rr_VMUUID r) @ json_omitempty ''address'' (rr_Address r)
        @ json_omitempty ''name'' (rr_Name r)
        @ (if rr_BillingID r = 0 then [] else [(''billingAccountID'', JInt (rr_BillingID r))])
        @ [(''phase'', JStr (rr_Phase r))] @ json_omitempty ''issueID'' (rr_IssueID r)
        @ at ''issuedAt'' (rr_IssuedAt r) @ at ''rejectedAt'' (rr_RejectedAt r) @ at ''observedAt'' (rr_ObservedAt r)
        @ (if rr_ObservedFloatingIPDeletes r = [] then []
           else [(''observedFloatingIPDeletes'', JArr (map (json_observedDelete rfc3339) (rr_ObservedFloatingIPDeletes r)))])))"

section \<open>The operator's resolution\<close>

record createFenceOperatorResolution =
  or_Schema :: string
  or_IssueID :: string
  or_Result :: string
  or_VMUUID :: string

definition createFenceResolutionSchema :: string where
  "createFenceResolutionSchema = ''karpenter.inspace.cloud/create-fence-resolution-v1''"
definition createFenceResolutionVM :: string where "createFenceResolutionVM = ''vm''"
definition createFenceResolutionNoResult :: string where "createFenceResolutionNoResult = ''no-result''"

text \<open>
  A note of the operator carries the length of its text and whether the text is an object with no
  field but the four of the record.
\<close>

definition decodeCreateFenceOperatorResolution :: "(nat \<times> bool \<times> createFenceOperatorResolution) annotation
    \<Rightarrow> error + createFenceOperatorResolution" where
  "decodeCreateFenceOperatorResolution value =
     (case value of
        Absent \<Rightarrow> Inl (Plain ''create-fence operator resolution is empty or oversized'')
      | Malformed \<Rightarrow> Inl (Plain ''decoding create-fence operator resolution'')
      | Note (len, known, r) \<Rightarrow>
          if 1024 < len then Inl (Plain ''create-fence operator resolution is empty or oversized'')
          else if \<not> known then Inl (Plain ''create-fence operator resolution contains unknown field'')
          else if or_Schema r \<noteq> createFenceResolutionSchema \<or> \<not> createFenceKeyHashPattern (or_IssueID r)
          then Inl (Plain ''create-fence operator resolution has invalid schema or issue identity'')
          else if or_Result r = createFenceResolutionVM
          then (if \<not> createFenceVMUUIDPattern (ToLower (or_VMUUID r))
                then Inl (Plain ''VM create-fence resolution requires a canonical VM UUID'')
                else Inr (r\<lparr>or_VMUUID := ToLower (or_VMUUID r)\<rparr>))
          else if or_Result r = createFenceResolutionNoResult
          then (if or_VMUUID r \<noteq> []
                then Inl (Plain ''no-result create-fence resolution cannot include a VM UUID'') else Inr r)
          else Inl (Plain ''unsupported create-fence operator result''))"

section \<open>The firewall ledger\<close>

record firewallMutationSlotRecord =
  sl_Schema :: string
  sl_Location :: string
  sl_FirewallUUID :: string
  sl_VMUUID :: string
  sl_NodeClaimName :: string
  sl_NodeClaimUID :: string
  sl_Operation :: string
  sl_Phase :: string
  sl_IssueID :: string
  sl_AcquisitionID :: string

text \<open>\<open>led_Slots\<close> is \<open>None\<close> for a nil map.\<close>

record firewallMutationLedger =
  led_Schema :: string
  led_Slots :: "(string, firewallMutationSlotRecord) fmap option"

definition firewallMutationSlotSchema :: string where
  "firewallMutationSlotSchema = ''karpenter.inspace.cloud/firewall-mutation-slot-v1''"
definition firewallMutationLedgerSchema :: string where
  "firewallMutationLedgerSchema = ''karpenter.inspace.cloud/firewall-mutation-ledger-v1''"
definition firewallMutationCoordinatorLeaseName :: string where
  "firewallMutationCoordinatorLeaseName = ''karpenter-inspace-firewall-mutations''"
definition firewallMutationCoordinatorHolder :: string where
  "firewallMutationCoordinatorHolder = ''karpenter-inspace-firewall-mutations''"
definition maxFirewallMutationLedgerBytes :: nat where "maxFirewallMutationLedgerBytes = 128 * 1024"
definition firewallMutationAssign :: string where "firewallMutationAssign = ''assign''"
definition firewallMutationDetach :: string where "firewallMutationDetach = ''detach''"

definition firewallMutationSlotName :: "fence_env \<Rightarrow> string \<Rightarrow> string \<Rightarrow> string" where
  "firewallMutationSlotName env location firewallUUID =
     ''inspace-fw-'' @ take 32 (fe_sha256hex env (TrimSpace location @ [CHR 0x00] @ ToLower (TrimSpace firewallUUID)))"

definition validateFirewallMutationSlot :: "firewallMutationSlotRecord \<Rightarrow> error option" where
  "validateFirewallMutationSlot v =
     (if sl_Schema v \<noteq> firewallMutationSlotSchema \<or> TrimSpace (sl_Location v) = []
         \<or> \<not> createFenceVMUUIDPattern (sl_FirewallUUID v) \<or> \<not> createFenceVMUUIDPattern (sl_VMUUID v)
         \<or> sl_NodeClaimName v = [] \<or> sl_NodeClaimUID v = [] \<or> \<not> createFenceKeyHashPattern (sl_IssueID v)
         \<or> \<not> createFenceKeyHashPattern (sl_AcquisitionID v)
      then Some (Plain ''durable firewall mutation slot has invalid identity'')
      else if sl_Operation v \<noteq> firewallMutationAssign \<and> sl_Operation v \<noteq> firewallMutationDetach
      then Some (Plain ''durable firewall mutation slot has invalid operation'')
      else if sl_Phase v \<noteq> FirewallAssignmentIssued \<and> sl_Phase v \<noteq> FirewallAssignmentObserved
         \<and> sl_Phase v \<noteq> FirewallAssignmentRejected
      then Some (Plain ''durable firewall mutation slot has invalid phase'')
      else None)"

definition validateFirewallMutationLedger :: "fence_env \<Rightarrow> firewallMutationLedger \<Rightarrow> error option" where
  "validateFirewallMutationLedger env value =
     (case led_Slots value of
        None \<Rightarrow> Some (Plain ''durable firewall mutation ledger has invalid schema'')
      | Some slots \<Rightarrow>
          if led_Schema value \<noteq> firewallMutationLedgerSchema
          then Some (Plain ''durable firewall mutation ledger has invalid schema'')
          else if \<not> fmpred (\<lambda>key slot. validateFirewallMutationSlot slot = None
                       \<and> key = firewallMutationSlotName env (sl_Location slot) (sl_FirewallUUID slot)) slots
          then Some (Plain ''durable firewall mutation ledger slot has invalid identity or identity drift'')
          else None)"

text \<open>\<^verbatim>\<open>json.Marshal\<close> writes a map in the order of its keys.\<close>

definition json_slot :: "firewallMutationSlotRecord \<Rightarrow> json" where
  "json_slot v = JObj
     [(''schema'', JStr (sl_Schema v)), (''location'', JStr (sl_Location v)), (''firewallUUID'', JStr (sl_FirewallUUID v)),
      (''vmUUID'', JStr (sl_VMUUID v)), (''nodeClaimName'', JStr (sl_NodeClaimName v)), (''nodeClaimUID'', JStr (sl_NodeClaimUID v)),
      (''operation'', JStr (sl_Operation v)), (''phase'', JStr (sl_Phase v)), (''issueID'', JStr (sl_IssueID v)),
      (''acquisitionID'', JStr (sl_AcquisitionID v))]"

definition json_ledger :: "firewallMutationLedger \<Rightarrow> json" where
  "json_ledger value = JObj [(''schema'', JStr (led_Schema value)),
     (''slots'', case led_Slots value of None \<Rightarrow> JNull
        | Some slots \<Rightarrow> JObj (map (\<lambda>key. (key, case fmlookup slots key of None \<Rightarrow> JNull | Some v \<Rightarrow> json_slot v))
            (sorted_list_of_fset (fmdom slots))))]"

definition encodeFirewallMutationLedger :: "fence_env \<Rightarrow> firewallMutationLedger \<Rightarrow> error + nat \<times> firewallMutationLedger" where
  "encodeFirewallMutationLedger env value =
     (case validateFirewallMutationLedger env value of
        Some err \<Rightarrow> Inl err
      | None \<Rightarrow>
          let len = length (marshal (json_ledger value)) in
          if maxFirewallMutationLedgerBytes < len
          then Inl (Plain ''durable firewall mutation ledger exceeds its safety bound'')
          else Inr (len, value))"

record Lease =
  le_Name :: string
  le_ResourceVersion :: string
  le_HolderIdentity :: "string option"
  le_Slot :: "(nat \<times> firewallMutationLedger) annotation"

definition decodeFirewallMutationLedger :: "fence_env \<Rightarrow> Lease \<Rightarrow> error + firewallMutationLedger" where
  "decodeFirewallMutationLedger env lease =
     (case le_HolderIdentity lease of
        None \<Rightarrow> Inl (Plain ''durable firewall mutation Lease has no holder identity'')
      | Some holder \<Rightarrow>
          if le_Name lease \<noteq> firewallMutationCoordinatorLeaseName \<or> holder \<noteq> firewallMutationCoordinatorHolder
          then Inl (Plain ''durable firewall mutation Lease has invalid fixed identity'')
          else (case le_Slot lease of
              Absent \<Rightarrow> Inl (Plain ''durable firewall mutation Lease has no bounded ledger'')
            | Malformed \<Rightarrow> Inl (Plain ''decoding durable firewall mutation ledger'')
            | Note (len, value) \<Rightarrow>
                if maxFirewallMutationLedgerBytes < len
                then Inl (Plain ''durable firewall mutation Lease has no bounded ledger'')
                else (case validateFirewallMutationLedger env value of Some err \<Rightarrow> Inl err | None \<Rightarrow> Inr value)))"

section \<open>NodeClaims\<close>

text \<open>
  A NodeClaim with the parts the fences read: the specification is compared as a whole, and the four
  annotations are the notes.
\<close>

record NodeClaim =
  nc_Name :: string
  nc_UID :: string
  nc_ResourceVersion :: string
  nc_Generation :: int
  nc_DeletionTimestamp :: "time option"
  nc_Finalizers :: "string list"
  nc_NodePool :: string
  nc_Spec :: json
  nc_ProviderID :: string
  nc_CreateFence :: "createFenceRecord annotation"
  nc_FloatingIPUpdate :: "floatingIPUpdateRecord annotation"
  nc_Removal :: "(nat \<times> removalMutationRecord) annotation"
  nc_Resolution :: "(nat \<times> bool \<times> createFenceOperatorResolution) annotation"

definition CreateFenceFinalizer :: string where
  "CreateFenceFinalizer = ''karpenter.inspace.cloud/create-protection''"
definition TerminationFinalizer :: string where
  "TerminationFinalizer = ''karpenter.sh/termination''"

definition ContainsFinalizer :: "NodeClaim \<Rightarrow> string \<Rightarrow> bool" where
  "ContainsFinalizer claim f = (f \<in> set (nc_Finalizers claim))"

definition AddFinalizer :: "NodeClaim \<Rightarrow> string \<Rightarrow> NodeClaim" where
  "AddFinalizer claim f =
     (if ContainsFinalizer claim f then claim else claim\<lparr>nc_Finalizers := nc_Finalizers claim @ [f]\<rparr>)"

definition newFirewallMutationSlotRecord :: "NodeClaim \<Rightarrow> createFenceRecord \<Rightarrow> string \<Rightarrow> string \<Rightarrow> string \<Rightarrow> string
    \<Rightarrow> error + firewallMutationSlotRecord" where
  "newFirewallMutationSlotRecord current record vmUUID operation issueID acquisitionID =
     (let value = \<lparr>sl_Schema = firewallMutationSlotSchema, sl_Location = cl_Location (cf_Cleanup record),
            sl_FirewallUUID = ToLower (cl_FirewallUUID (cf_Cleanup record)), sl_VMUUID = ToLower vmUUID,
            sl_NodeClaimName = nc_Name current, sl_NodeClaimUID = nc_UID current, sl_Operation = operation,
            sl_Phase = FirewallAssignmentIssued, sl_IssueID = issueID, sl_AcquisitionID = acquisitionID\<rparr> in
      case validateFirewallMutationSlot value of Some err \<Rightarrow> Inl err | None \<Rightarrow> Inr value)"

definition createFenceOwnsVM :: "createFenceRecord \<Rightarrow> string \<Rightarrow> bool" where
  "createFenceOwnsVM record vmUUID =
     (let vm = ToLower vmUUID in
      cf_CreatedVMUUID record = vm \<or> cf_ObservedVMUUID record = vm \<or> cf_CleanupVMUUID record = vm
      \<or> (\<exists>r \<in> set (cf_CleanupResolutions record). EqualFold (res_VMUUID r) vm))"

end
