(* ===== verification/Karpenter_Store.thy ===== *)
theory Karpenter_Store
  imports Karpenter_Receipts History_Logic
begin

text \<open>
  The create-fence store on NodeClaims (\<^verbatim>\<open>kubernetesCreateFenceStore\<close> of \<^verbatim>\<open>create_fence.go\<close>,
  \<^verbatim>\<open>removal_mutation_fence.go\<close> and \<^verbatim>\<open>firewall_mutation_slot.go\<close>). The uncached reader, the writer and the
  random source are operations on an opaque world. Every write replaces the NodeClaim that was read,
  and its outcome is judged on a fresh read.
\<close>

record 'w kubernetesCreateFenceStore =
  ks_GetClaim :: "ctx \<Rightarrow> string \<Rightarrow> 'w \<Rightarrow> (error + NodeClaim) \<times> nat \<times> 'w"
  ks_ListClaims :: "ctx \<Rightarrow> 'w \<Rightarrow> (error + NodeClaim list) \<times> nat \<times> 'w"
  ks_UpdateClaim :: "ctx \<Rightarrow> NodeClaim \<Rightarrow> 'w \<Rightarrow> (error + NodeClaim) \<times> nat \<times> 'w"
  ks_GetLease :: "ctx \<Rightarrow> string \<Rightarrow> string \<Rightarrow> 'w \<Rightarrow> (error + Lease) \<times> nat \<times> 'w"
  ks_CreateLease :: "ctx \<Rightarrow> string \<Rightarrow> Lease \<Rightarrow> 'w \<Rightarrow> (error option) \<times> nat \<times> 'w"
  ks_UpdateLease :: "ctx \<Rightarrow> string \<Rightarrow> Lease \<Rightarrow> 'w \<Rightarrow> (error option) \<times> nat \<times> 'w"
  ks_nonce :: "'w \<Rightarrow> (error + string) \<times> nat \<times> 'w"
  ks_namespace :: string
  ks_env :: fence_env
  ks_rfc3339 :: "time \<Rightarrow> string"

definition GetClaim :: "'w kubernetesCreateFenceStore \<Rightarrow> ctx \<Rightarrow> string \<Rightarrow> ('w, error + NodeClaim) prog" where
  "GetClaim s c name = call_silent (ks_GetClaim s c name)"
definition ListClaims :: "'w kubernetesCreateFenceStore \<Rightarrow> ctx \<Rightarrow> ('w, error + NodeClaim list) prog" where
  "ListClaims s c = call_silent (ks_ListClaims s c)"
definition UpdateClaim :: "'w kubernetesCreateFenceStore \<Rightarrow> ctx \<Rightarrow> NodeClaim \<Rightarrow> ('w, error + NodeClaim) prog" where
  "UpdateClaim s c claim = call_silent (ks_UpdateClaim s c claim)"
definition GetLease :: "'w kubernetesCreateFenceStore \<Rightarrow> ctx \<Rightarrow> ('w, error + Lease) prog" where
  "GetLease s c = call_silent (ks_GetLease s c (ks_namespace s) firewallMutationCoordinatorLeaseName)"
definition CreateLease :: "'w kubernetesCreateFenceStore \<Rightarrow> ctx \<Rightarrow> Lease \<Rightarrow> ('w, error option) prog" where
  "CreateLease s c lease = call_silent (ks_CreateLease s c (ks_namespace s) lease)"
definition UpdateLease :: "'w kubernetesCreateFenceStore \<Rightarrow> ctx \<Rightarrow> Lease \<Rightarrow> ('w, error option) prog" where
  "UpdateLease s c lease = call_silent (ks_UpdateLease s c (ks_namespace s) lease)"
definition nonce :: "'w kubernetesCreateFenceStore \<Rightarrow> ('w, error + string) prog" where
  "nonce s = call_silent (ks_nonce s)"

definition createFenceTerminalWriteTimeout :: int where
  "createFenceTerminalWriteTimeout = 30 * 1000000000"

definition detachedCreateFenceContext :: "('w, ctx) prog" where
  "detachedCreateFenceContext = do { t \<leftarrow> now; ret (with_timeout_detached t createFenceTerminalWriteTimeout) }"

abbreviation fence_of :: "'w kubernetesCreateFenceStore \<Rightarrow> NodeClaim \<Rightarrow> createFenceBinding \<Rightarrow> error + createFenceRecord" where
  "fence_of s claim binding \<equiv> parseCreateFence (ks_env s) (nc_CreateFence claim) binding"

definition with_fence :: "NodeClaim \<Rightarrow> createFenceRecord \<Rightarrow> NodeClaim" where
  "with_fence claim record = claim\<lparr>nc_CreateFence := Note (wire_fence record)\<rparr>"

definition left_err :: "error + 'a \<Rightarrow> error option" where
  "left_err r = (case r of Inl e \<Rightarrow> Some e | Inr _ \<Rightarrow> None)"

section \<open>Exact reads\<close>

definition getExact :: "'w kubernetesCreateFenceStore \<Rightarrow> ctx \<Rightarrow> NodeClaim \<Rightarrow> ('w, error + NodeClaim) prog" where
  "getExact s c claim =
     (if nc_Name claim = [] \<or> nc_UID claim = []
      then ret (Inl (Plain ''durable VM create fencing requires a named NodeClaim with UID''))
      else do {
        r \<leftarrow> GetClaim s c (nc_Name claim);
        ret (case r of
            Inl err \<Rightarrow> Inl (Wrap ''reading NodeClaim for durable VM create fence'' [err])
          | Inr current \<Rightarrow>
              if nc_UID current \<noteq> nc_UID claim \<or> nc_DeletionTimestamp current \<noteq> None
              then Inl (Plain ''NodeClaim changed identity or is deleting before VM create'')
              else if nc_Generation current \<noteq> nc_Generation claim \<or> nc_Spec current \<noteq> nc_Spec claim
                 \<or> nc_NodePool current \<noteq> nc_NodePool claim
              then Inl (Plain ''NodeClaim spec or NodePool identity changed before VM create'')
              else Inr current)
      })"

definition getProtectedExact :: "'w kubernetesCreateFenceStore \<Rightarrow> ctx \<Rightarrow> NodeClaim \<Rightarrow> ('w, error + NodeClaim) prog" where
  "getProtectedExact s c claim =
     (if nc_Name claim = [] \<or> nc_UID claim = [] then ret (Inl (Plain ''requires a named NodeClaim with UID''))
      else do {
        r \<leftarrow> GetClaim s c (nc_Name claim);
        ret (case r of
            Inl err \<Rightarrow> Inl (Wrap ''exact-reading NodeClaim'' [err])
          | Inr current \<Rightarrow>
              if nc_UID current \<noteq> nc_UID claim \<or> \<not> ContainsFinalizer current CreateFenceFinalizer
              then Inl (Plain ''NodeClaim changed identity or lost create protection'')
              else Inr current)
      })"

section \<open>Reserving the attempt\<close>

definition store_Get :: "'w kubernetesCreateFenceStore \<Rightarrow> ctx \<Rightarrow> NodeClaim \<Rightarrow> createFenceBinding \<Rightarrow> createFenceCleanupIdentity
    \<Rightarrow> ('w, error + NodeClaim \<times> createFence option) prog" where
  "store_Get s c claim binding cleanup = do {
     r \<leftarrow> getExact s c claim;
     ret (attempt_ok r (\<lambda>current.
       if nc_CreateFence current = Absent then Inr (current, None)
       else attempt_ok (fence_of s current binding) (\<lambda>record.
         if cf_Cleanup record \<noteq> cleanup \<or> \<not> ContainsFinalizer current CreateFenceFinalizer
         then Inl (Plain ''NodeClaim durable VM create protection changed'')
         else Inr (current, Some (fenceFromRecord record)))))
   }"

definition persist :: "'w kubernetesCreateFenceStore \<Rightarrow> ctx \<Rightarrow> NodeClaim \<Rightarrow> createFenceBinding \<Rightarrow> createFenceRecord
    \<Rightarrow> ('w, error + NodeClaim \<times> createFence \<times> bool) prog" where
  "persist s c current binding record =
     (let removalRecord = newRemovalMutationReadyRecord binding (cf_Token record) (cf_StartedAt record);
          len = length (marshal (json_removalMutationRecord (ks_rfc3339 s) removalRecord));
          copy = AddFinalizer ((with_fence current record)\<lparr>nc_Removal := Note (len, removalRecord)\<rparr>) CreateFenceFinalizer
      in do {
        u \<leftarrow> UpdateClaim s c copy;
        case u of
          Inl err \<Rightarrow> ret (Inl (Wrap ''persisting NodeClaim durable VM create fence'' [err]))
        | Inr _ \<Rightarrow> do {
            r \<leftarrow> GetClaim s c (nc_Name current);
            ret (case r of
                Inl err \<Rightarrow> Inl (Wrap ''reading back NodeClaim durable VM create fence'' [err])
              | Inr readback \<Rightarrow>
                  if nc_UID readback \<noteq> nc_UID current \<or> nc_DeletionTimestamp readback \<noteq> None
                  then Inl (Plain ''NodeClaim changed identity or began deletion during durable VM create fence readback'')
                  else if \<not> ContainsFinalizer readback TerminationFinalizer \<or> \<not> ContainsFinalizer readback CreateFenceFinalizer
                  then Inl (Plain ''NodeClaim durable VM create protection finalizers did not survive readback'')
                  else attempt_ok (fence_of s readback binding) (\<lambda>stored.
                    if cf_Token stored \<noteq> cf_Token record
                    then Inl (Plain ''NodeClaim durable VM create fence token changed during readback'')
                    else (case decodeRemovalMutationRecord (nc_Removal readback) binding (cf_Token record) of
                        Inl err \<Rightarrow> Inl (Wrap ''NodeClaim initial removal fence did not survive readback'' [err])
                      | Inr _ \<Rightarrow> Inr (readback, fenceFromRecord stored, True))))
          }
      })"

definition Ensure :: "'w kubernetesCreateFenceStore \<Rightarrow> ctx \<Rightarrow> NodeClaim \<Rightarrow> createFenceBinding \<Rightarrow> createFenceCleanupIdentity
    \<Rightarrow> CreateInventory \<Rightarrow> ('w, error + NodeClaim \<times> createFence \<times> bool) prog" where
  "Ensure s c claim binding cleanup baseline = do {
     r \<leftarrow> getExact s c claim;
     case r of
       Inl err \<Rightarrow> ret (Inl err)
     | Inr current \<Rightarrow>
         if nc_CreateFence current \<noteq> Absent then
           ret (attempt_ok (fence_of s current binding) (\<lambda>record.
             if cf_Cleanup record \<noteq> cleanup \<or> \<not> ContainsFinalizer current CreateFenceFinalizer
             then Inl (Plain ''NodeClaim durable VM create protection changed'')
             else Inr (current, fenceFromRecord record, \<not> fence_Issued (fenceFromRecord record))))
         else if \<not> ContainsFinalizer current TerminationFinalizer
         then ret (Inl (Plain ''NodeClaim lacks Karpenter termination finalizer before VM create''))
         else (case validateCreateInventory baseline of
             Some err \<Rightarrow> ret (Inl (Wrap ''pre-POST cloud inventory'' [err]))
           | None \<Rightarrow> do {
               t \<leftarrow> now;
               n \<leftarrow> nonce s;
               case n of
                 Inl err \<Rightarrow> ret (Inl (Wrap ''generating durable VM create fence token'' [err]))
               | Inr token \<Rightarrow> persist s c current binding (newCreateFenceRecord binding cleanup baseline t token)
             })
   }"

section \<open>The authority to create the VM\<close>

definition issued_by :: "createFenceRecord \<Rightarrow> string \<Rightarrow> string \<Rightarrow> string \<Rightarrow> time \<Rightarrow> string \<Rightarrow> bool" where
  "issued_by stored token intent issueID t assignmentIssueID =
     (cf_Token stored = token \<and> cf_Phase stored = createFenceIssued \<and> cf_Intent stored = intent
      \<and> cf_IssueID stored = issueID \<and> cf_IssuedAt stored = Some t
      \<and> (case cf_BaseFirewallAssignment stored of None \<Rightarrow> False
         | Some a \<Rightarrow> bfa_Phase a = FirewallAssignmentIssued \<and> bfa_IssueID a = assignmentIssueID))"

definition issue_fence :: "createFenceRecord \<Rightarrow> string \<Rightarrow> string \<Rightarrow> time \<Rightarrow> string \<Rightarrow> createFenceRecord" where
  "issue_fence record intent issueID t assignmentIssueID =
     record\<lparr>cf_Phase := createFenceIssued, cf_Intent := intent, cf_IssueID := issueID, cf_IssuedAt := Some t,
       cf_BaseFirewallAssignment := map_option (\<lambda>a. a\<lparr>bfa_Phase := FirewallAssignmentIssued,
         bfa_IssueID := assignmentIssueID, bfa_IssuedAt := Some t\<rparr>) (cf_BaseFirewallAssignment record)\<rparr>"

definition commitAuthorization :: "'w kubernetesCreateFenceStore \<Rightarrow> ctx \<Rightarrow> NodeClaim \<Rightarrow> createFenceBinding \<Rightarrow> string \<Rightarrow> string
    \<Rightarrow> NodeClaim \<Rightarrow> createFenceRecord \<Rightarrow> string \<Rightarrow> time \<Rightarrow> string \<Rightarrow> ('w, NodeClaim option \<times> error option) prog" where
  "commitAuthorization s c claim binding token intent current record issueID t assignmentIssueID = do {
     u \<leftarrow> UpdateClaim s c (with_fence current (issue_fence record intent issueID t assignmentIssueID));
     case u of
       Inl err \<Rightarrow> do {
         readCtx \<leftarrow> detachedCreateFenceContext;
         r \<leftarrow> GetClaim s readCtx (nc_Name claim);
         ret (case r of
             Inr readback \<Rightarrow>
               if nc_UID readback = nc_UID current
                  \<and> (case fence_of s readback binding of Inl _ \<Rightarrow> False
                     | Inr stored \<Rightarrow> issued_by stored token intent issueID t assignmentIssueID)
               then (Some readback, Some (Wrap ''issue CAS committed but its response failed before SDK dispatch''
                       [Sentinel ErrCreateAttemptRejected, err]))
               else (None, Some (Wrap ''VM create issue CAS outcome remains uncertain'' [Sentinel ErrCreateAttemptPending]))
           | Inl _ \<Rightarrow> (None, Some (Wrap ''VM create issue CAS outcome remains uncertain'' [Sentinel ErrCreateAttemptPending])))
       }
     | Inr copy \<Rightarrow> do {
         r \<leftarrow> GetClaim s c (nc_Name claim);
         ret (case r of
             Inl err \<Rightarrow> (Some copy, Some (Wrap ''reading back issued VM create attempt before SDK dispatch''
                 [Sentinel ErrCreateAttemptRejected, err]))
           | Inr readback \<Rightarrow>
               if nc_UID readback \<noteq> nc_UID current \<or> nc_DeletionTimestamp readback \<noteq> None
                  \<or> \<not> ContainsFinalizer readback TerminationFinalizer \<or> \<not> ContainsFinalizer readback CreateFenceFinalizer
               then (Some copy, Some (Wrap ''NodeClaim changed identity, finalizers, or deletion state after issue CAS''
                 [Sentinel ErrCreateAttemptRejected]))
               else (case fence_of s readback binding of
                   Inl err \<Rightarrow> (Some copy, Some (Wrap ''issued NodeClaim readback is invalid before SDK dispatch''
                     [Sentinel ErrCreateAttemptRejected, err]))
                 | Inr issued \<Rightarrow>
                     if \<not> issued_by issued token intent issueID t assignmentIssueID
                     then (None, Some (Wrap ''immutable VM create issue is owned by another invocation''
                       [Sentinel ErrCreateAttemptPending]))
                     else (Some readback, None)))
       }
   }"

definition Authorize :: "'w kubernetesCreateFenceStore \<Rightarrow> ctx \<Rightarrow> NodeClaim \<Rightarrow> createFenceBinding \<Rightarrow> string \<Rightarrow> string
    \<Rightarrow> ('w, NodeClaim option \<times> error option) prog" where
  "Authorize s c claim binding token intent = do {
     r \<leftarrow> getExact s c claim;
     case r of
       Inl err \<Rightarrow> ret (None, Some err)
     | Inr current \<Rightarrow>
         if \<not> ContainsFinalizer current TerminationFinalizer \<or> \<not> ContainsFinalizer current CreateFenceFinalizer
         then ret (None, Some (Plain ''NodeClaim lost required create-protection finalizers before VM POST''))
         else (case fence_of s current binding of
             Inl err \<Rightarrow> ret (None, Some err)
           | Inr record \<Rightarrow>
               if token = [] \<or> cf_Token record \<noteq> token
               then ret (None, Some (Plain ''NodeClaim durable VM create token changed before VM POST''))
               else if intent \<noteq> CreateAuthorizationPost \<and> intent \<noteq> CreateAuthorizationAdoption
               then ret (None, Some (Plain ''NodeClaim VM create authorization has invalid intent''))
               else if cf_Phase record \<noteq> createFenceReserved \<or> cf_IssuedAt record \<noteq> None \<or> cf_RollbackAt record \<noteq> None
                  \<or> cf_CleanupResolutions record \<noteq> []
               then ret (None, Some (Wrap ''immutable VM create attempt was already issued'' [Sentinel ErrCreateAttemptPending]))
               else do {
                 t \<leftarrow> now;
                 n \<leftarrow> nonce s;
                 case n of
                   Inl err \<Rightarrow> ret (None, Some (Wrap ''generating VM create authorization identity'' [err]))
                 | Inr issueID \<Rightarrow> do {
                     m \<leftarrow> nonce s;
                     case m of
                       Inl err \<Rightarrow> ret (None, Some (Wrap ''generating base-firewall assignment authorization identity'' [err]))
                     | Inr assignmentIssueID \<Rightarrow>
                         if (case cf_BaseFirewallAssignment record of None \<Rightarrow> True
                             | Some a \<Rightarrow> bfa_Phase a \<noteq> FirewallAssignmentIntent \<or> bfa_VMUUID a \<noteq> []
                                 \<or> bfa_FirewallUUID a \<noteq> cl_FirewallUUID (cf_Cleanup record) \<or> bfa_IntentAt a = 0)
                         then ret (None, Some (Plain ''NodeClaim lacks its durable pre-VM base-firewall assignment intent''))
                         else commitAuthorization s c claim binding token intent current record issueID t assignmentIssueID
                   }
               })
   }"

section \<open>Transitions of an issued attempt\<close>

text \<open>
  The operations on an issued attempt share their loop: read the protected NodeClaim and its fence,
  decide on an answer or on a new fence, write it, read it back, and judge what is stored.
\<close>

datatype 'r decision = Answer "error + 'r" | Commit createFenceRecord

datatype 'r verdict = Accepted 'r | Refused error | Again "error option"

primrec fence_loop :: "'w kubernetesCreateFenceStore \<Rightarrow> ctx \<Rightarrow> NodeClaim \<Rightarrow> createFenceBinding
    \<Rightarrow> (NodeClaim \<Rightarrow> error option) \<Rightarrow> (time \<Rightarrow> NodeClaim \<Rightarrow> createFenceRecord \<Rightarrow> 'r decision)
    \<Rightarrow> (NodeClaim \<Rightarrow> createFenceRecord \<Rightarrow> 'r verdict) \<Rightarrow> nat \<Rightarrow> error option \<Rightarrow> ('w, error + 'r) prog" where
  "fence_loop s c claim binding check decide judge 0 lastErr = ret (Inl (Wrap ''did not converge'' (non_nil [lastErr])))"
| "fence_loop s c claim binding check decide judge (Suc n) lastErr = do {
     p \<leftarrow> getProtectedExact s c claim;
     case p of
       Inl err \<Rightarrow> ret (Inl err)
     | Inr current \<Rightarrow>
         (case check current of
            Some err \<Rightarrow> ret (Inl err)
          | None \<Rightarrow>
              (case fence_of s current binding of
                 Inl err \<Rightarrow> ret (Inl err)
               | Inr record \<Rightarrow> do {
                   t \<leftarrow> now;
                   case decide t current record of
                     Answer res \<Rightarrow> ret res
                   | Commit next \<Rightarrow> do {
                       u \<leftarrow> UpdateClaim s c (with_fence current next);
                       g \<leftarrow> GetClaim s c (nc_Name claim);
                       case g of
                         Inl readErr \<Rightarrow> fence_loop s c claim binding check decide judge n (errors_join [left_err u, Some readErr])
                       | Inr readback \<Rightarrow>
                           if nc_UID readback \<noteq> nc_UID current \<or> \<not> ContainsFinalizer readback CreateFenceFinalizer
                           then ret (Inl (Plain ''NodeClaim changed identity or lost protection''))
                           else (case fence_of s readback binding of
                               Inl parseErr \<Rightarrow>
                                 fence_loop s c claim binding check decide judge n (errors_join [left_err u, Some parseErr])
                             | Inr stored \<Rightarrow>
                                 (case judge readback stored of
                                    Accepted r \<Rightarrow> ret (Inr r)
                                  | Refused err \<Rightarrow> ret (Inl err)
                                  | Again None \<Rightarrow> fence_loop s c claim binding check decide judge n (left_err u)
                                  | Again (Some err) \<Rightarrow>
                                      fence_loop s c claim binding check decide judge n (errors_join [left_err u, Some err])))
                     }
                 }))
   }"

definition no_check :: "NodeClaim \<Rightarrow> error option" where
  "no_check current = None"

subsection \<open>Anchoring the created VM\<close>

definition created_decide :: "string \<Rightarrow> string \<Rightarrow> string \<Rightarrow> time \<Rightarrow> NodeClaim \<Rightarrow> createFenceRecord \<Rightarrow> NodeClaim decision" where
  "created_decide token issueID vmUUID t current record =
     (if token = [] \<or> cf_Token record \<noteq> token \<or> cf_IssueID record \<noteq> issueID \<or> cf_IssuedAt record = None
      then Answer (Inl (Plain ''NodeClaim created VM does not match its exact issued attempt''))
      else if cf_CreatedVMUUID record \<noteq> [] then
        (if cf_CreatedVMUUID record = vmUUID \<and> stamped (cf_LaunchObservedAt record) then
           (if baseFirewallAssignmentMatches (cf_BaseFirewallAssignment record) vmUUID (cl_FirewallUUID (cf_Cleanup record))
            then Answer (Inr current)
            else Answer (Inl (Plain ''NodeClaim created VM lacks its pre-issued base-firewall assignment receipt'')))
         else Answer (Inl (Plain ''NodeClaim created VM identity changed'')))
      else if cf_Phase record \<noteq> createFenceIssued \<or> cf_RollbackAt record \<noteq> None
      then Answer (Inl (Plain ''NodeClaim cannot anchor a created VM from its phase or after rollback''))
      else (case cf_BaseFirewallAssignment record of
          None \<Rightarrow> Answer (Inl (Plain ''NodeClaim cannot anchor a VM without its pre-issued base-firewall assignment''))
        | Some a \<Rightarrow>
            if bfa_Phase a \<noteq> FirewallAssignmentIssued \<or> bfa_VMUUID a \<noteq> []
               \<or> bfa_FirewallUUID a \<noteq> cl_FirewallUUID (cf_Cleanup record) \<or> \<not> createFenceKeyHashPattern (bfa_IssueID a)
            then Answer (Inl (Plain ''NodeClaim cannot anchor a VM without its pre-issued base-firewall assignment''))
            else Commit (record\<lparr>cf_CreatedVMUUID := vmUUID, cf_LaunchObservedAt := Some t,
                   cf_BaseFirewallAssignment := Some (a\<lparr>bfa_VMUUID := vmUUID\<rparr>)\<rparr>)))"

definition created_judge :: "string \<Rightarrow> string \<Rightarrow> string \<Rightarrow> NodeClaim \<Rightarrow> createFenceRecord \<Rightarrow> NodeClaim verdict" where
  "created_judge token issueID vmUUID readback stored =
     (if cf_Token stored = token \<and> cf_IssueID stored = issueID \<and> cf_CreatedVMUUID stored = vmUUID
         \<and> stamped (cf_LaunchObservedAt stored)
         \<and> baseFirewallAssignmentMatches (cf_BaseFirewallAssignment stored) vmUUID (cl_FirewallUUID (cf_Cleanup stored))
      then Accepted readback
      else if cf_CreatedVMUUID stored \<noteq> [] \<or> cf_Phase stored \<noteq> createFenceIssued \<or> cf_RollbackAt stored \<noteq> None
      then Refused (Plain ''NodeClaim changed terminal state before the created VM anchor committed'')
      else Again None)"

definition RecordCreatedVM :: "'w kubernetesCreateFenceStore \<Rightarrow> ctx \<Rightarrow> NodeClaim \<Rightarrow> createFenceBinding \<Rightarrow> string \<Rightarrow> string
    \<Rightarrow> string \<Rightarrow> ('w, error + NodeClaim) prog" where
  "RecordCreatedVM s c claim binding token issueID vm =
     (let vmUUID = ToLower vm in
      if \<not> createFenceVMUUIDPattern vmUUID \<or> \<not> createFenceKeyHashPattern issueID
      then ret (Inl (Plain ''recording a created VM requires canonical VM and issue identities''))
      else fence_loop s c claim binding no_check (created_decide token issueID vmUUID) (created_judge token issueID vmUUID) 3 None)"

subsection \<open>Protection failures\<close>

definition live_anchored :: "string \<Rightarrow> string \<Rightarrow> string \<Rightarrow> createFenceRecord \<Rightarrow> bool" where
  "live_anchored token issueID vmUUID record =
     (token \<noteq> [] \<and> cf_Token record = token \<and> cf_IssueID record = issueID \<and> cf_Phase record = createFenceIssued
      \<and> cf_IssuedAt record \<noteq> None \<and> cf_CreatedVMUUID record = vmUUID \<and> cf_LaunchObservedAt record \<noteq> None
      \<and> cf_RollbackAt record = None)"

definition failure_decide :: "string \<Rightarrow> string \<Rightarrow> string \<Rightarrow> time \<Rightarrow> NodeClaim \<Rightarrow> createFenceRecord \<Rightarrow> (NodeClaim \<times> time) decision" where
  "failure_decide token issueID vmUUID t current record =
     (if \<not> live_anchored token issueID vmUUID record
      then Answer (Inl (Plain ''NodeClaim protection failure does not match its exact live anchored create attempt''))
      else (case cf_ProtectionFailureAt record of
          Some since \<Rightarrow> Answer (Inr (current, since))
        | None \<Rightarrow> Commit (record\<lparr>cf_ProtectionFailureAt := Some t\<rparr>)))"

definition failure_judge :: "string \<Rightarrow> string \<Rightarrow> string \<Rightarrow> NodeClaim \<Rightarrow> createFenceRecord \<Rightarrow> (NodeClaim \<times> time) verdict" where
  "failure_judge token issueID vmUUID readback stored =
     (case cf_ProtectionFailureAt stored of
        Some since \<Rightarrow>
          if cf_Token stored = token \<and> cf_IssueID stored = issueID \<and> cf_Phase stored = createFenceIssued
             \<and> cf_CreatedVMUUID stored = vmUUID \<and> cf_RollbackAt stored = None
          then Accepted (readback, since)
          else if cf_RollbackAt stored \<noteq> None \<or> cf_Phase stored \<noteq> createFenceIssued \<or> cf_CreatedVMUUID stored \<noteq> vmUUID
          then Refused (Plain ''NodeClaim changed terminal state before protection failure committed'')
          else Again (Some (Plain ''protection failure readback did not contain the durable marker''))
      | None \<Rightarrow>
          if cf_RollbackAt stored \<noteq> None \<or> cf_Phase stored \<noteq> createFenceIssued \<or> cf_CreatedVMUUID stored \<noteq> vmUUID
          then Refused (Plain ''NodeClaim changed terminal state before protection failure committed'')
          else Again (Some (Plain ''protection failure readback did not contain the durable marker'')))"

definition RecordProtectionFailure :: "'w kubernetesCreateFenceStore \<Rightarrow> ctx \<Rightarrow> NodeClaim \<Rightarrow> createFenceBinding \<Rightarrow> string
    \<Rightarrow> string \<Rightarrow> string \<Rightarrow> ('w, error + NodeClaim \<times> time) prog" where
  "RecordProtectionFailure s c claim binding token issueID vm =
     (let vmUUID = ToLower vm in
      if \<not> createFenceVMUUIDPattern vmUUID \<or> \<not> createFenceKeyHashPattern issueID
      then ret (Inl (Plain ''recording protection failure requires canonical VM and issue identities''))
      else fence_loop s c claim binding no_check (failure_decide token issueID vmUUID) (failure_judge token issueID vmUUID) 3 None)"

definition recovery_decide :: "string \<Rightarrow> string \<Rightarrow> string \<Rightarrow> time \<Rightarrow> NodeClaim \<Rightarrow> createFenceRecord \<Rightarrow> NodeClaim decision" where
  "recovery_decide token issueID vmUUID t current record =
     (if \<not> live_anchored token issueID vmUUID record
      then Answer (Inl (Plain ''NodeClaim protection recovery does not match its exact live anchored create attempt''))
      else if cf_ProtectionFailureAt record = None then Answer (Inr current)
      else Commit (record\<lparr>cf_ProtectionFailureAt := None\<rparr>))"

definition recovery_judge :: "string \<Rightarrow> string \<Rightarrow> string \<Rightarrow> NodeClaim \<Rightarrow> createFenceRecord \<Rightarrow> NodeClaim verdict" where
  "recovery_judge token issueID vmUUID readback stored =
     (if cf_Token stored = token \<and> cf_IssueID stored = issueID \<and> cf_Phase stored = createFenceIssued
         \<and> cf_CreatedVMUUID stored = vmUUID \<and> cf_RollbackAt stored = None \<and> cf_ProtectionFailureAt stored = None
      then Accepted readback
      else if cf_RollbackAt stored \<noteq> None \<or> cf_Phase stored \<noteq> createFenceIssued \<or> cf_CreatedVMUUID stored \<noteq> vmUUID
      then Refused (Plain ''NodeClaim changed terminal state before protection recovery committed'')
      else Again (Some (Plain ''protection failure marker remained after recovery CAS'')))"

definition ClearProtectionFailure :: "'w kubernetesCreateFenceStore \<Rightarrow> ctx \<Rightarrow> NodeClaim \<Rightarrow> createFenceBinding \<Rightarrow> string
    \<Rightarrow> string \<Rightarrow> string \<Rightarrow> ('w, error + NodeClaim) prog" where
  "ClearProtectionFailure s c claim binding token issueID vm =
     (let vmUUID = ToLower vm in
      if \<not> createFenceVMUUIDPattern vmUUID \<or> \<not> createFenceKeyHashPattern issueID
      then ret (Inl (Plain ''clearing protection failure requires canonical VM and issue identities''))
      else fence_loop s c claim binding no_check (recovery_decide token issueID vmUUID) (recovery_judge token issueID vmUUID) 3 None)"

subsection \<open>Rollback\<close>

definition rollback_decide :: "string \<Rightarrow> string \<Rightarrow> string \<Rightarrow> FencedCreateCleanupResolution option \<Rightarrow> time \<Rightarrow> NodeClaim
    \<Rightarrow> createFenceRecord \<Rightarrow> NodeClaim decision" where
  "rollback_decide token issueID vmUUID canonical t current record =
     (if token = [] \<or> cf_Token record \<noteq> token \<or> cf_IssueID record \<noteq> issueID \<or> cf_IssuedAt record = None
         \<or> cf_CreatedVMUUID record \<noteq> vmUUID \<or> cf_LaunchObservedAt record = None
      then Answer (Inl (Plain ''NodeClaim rollback does not match its exact anchored create attempt''))
      else if cf_Phase record = createFenceMaterialized
      then Answer (Inl (Plain ''NodeClaim VM was already materialized and cannot be rolled back''))
      else if cf_Phase record \<noteq> createFenceIssued
      then Answer (Inl (Plain ''NodeClaim cannot choose rollback from its phase''))
      else if cf_RollbackAt record \<noteq> None
         \<and> (case canonical of None \<Rightarrow> True | Some r \<Rightarrow> cleanupResolutionStored record r)
      then Answer (Inr current)
      else
        let base = record\<lparr>cf_RollbackAt := (case cf_RollbackAt record of None \<Rightarrow> Some t | Some x \<Rightarrow> Some x),
              cf_ProtectionFailureAt := None\<rparr> in
        (case canonical of
           None \<Rightarrow> Commit (base\<lparr>cf_DependentUnresolved := True, cf_DependentsResolvedAt := None\<rparr>)
         | Some r \<Rightarrow>
             (case applyCleanupResolution t base r of
                Inl err \<Rightarrow> Answer (Inl err)
              | Inr applied \<Rightarrow> Commit (applied\<lparr>cf_DependentUnresolved := False, cf_DependentsResolvedAt := None\<rparr>))))"

definition rollback_judge :: "string \<Rightarrow> string \<Rightarrow> string \<Rightarrow> FencedCreateCleanupResolution option \<Rightarrow> NodeClaim
    \<Rightarrow> createFenceRecord \<Rightarrow> NodeClaim verdict" where
  "rollback_judge token issueID vmUUID canonical readback stored =
     (if cf_Token stored = token \<and> cf_IssueID stored = issueID \<and> cf_CreatedVMUUID stored = vmUUID \<and> cf_RollbackAt stored \<noteq> None
         \<and> (case canonical of None \<Rightarrow> True | Some r \<Rightarrow> cleanupResolutionStored stored r)
      then Accepted readback
      else if cf_Phase stored = createFenceMaterialized \<or> cf_CreatedVMUUID stored \<noteq> vmUUID
      then Refused (Plain ''NodeClaim changed terminal state before rollback committed'')
      else Again None)"

definition ChooseRollback :: "'w kubernetesCreateFenceStore \<Rightarrow> ctx \<Rightarrow> NodeClaim \<Rightarrow> createFenceBinding \<Rightarrow> string \<Rightarrow> string
    \<Rightarrow> string \<Rightarrow> FencedCreateCleanupResolution option \<Rightarrow> ('w, error + NodeClaim) prog" where
  "ChooseRollback s c claim binding token issueID vm resolution =
     (let vmUUID = ToLower vm in
      if \<not> createFenceVMUUIDPattern vmUUID \<or> \<not> createFenceKeyHashPattern issueID
      then ret (Inl (Plain ''choosing rollback requires canonical VM and issue identities''))
      else (case (case resolution of None \<Rightarrow> Inr None | Some r \<Rightarrow> map_sum id Some (normalizeCleanupResolution r)) of
          Inl err \<Rightarrow> ret (Inl err)
        | Inr canonical \<Rightarrow>
            if (case canonical of None \<Rightarrow> False | Some r \<Rightarrow> res_VMUUID r \<noteq> vmUUID)
            then ret (Inl (Plain ''rollback receipt VM does not match anchored VM''))
            else fence_loop s c claim binding no_check (rollback_decide token issueID vmUUID canonical)
                   (rollback_judge token issueID vmUUID canonical) 3 None))"

subsection \<open>Rejection\<close>

definition reject_decide :: "string \<Rightarrow> string \<Rightarrow> time \<Rightarrow> NodeClaim \<Rightarrow> createFenceRecord \<Rightarrow> NodeClaim decision" where
  "reject_decide token issueID t current record =
     (if token = [] \<or> issueID = [] \<or> cf_Token record \<noteq> token \<or> cf_IssueID record \<noteq> issueID \<or> cf_IssuedAt record = None
      then Answer (Inl (Plain ''NodeClaim cannot reject a VM create attempt without its exact issued token''))
      else if cf_Phase record = createFenceRejected then Answer (Inr current)
      else if cf_CreatedVMUUID record \<noteq> [] \<or> cf_RollbackAt record \<noteq> None \<or> cf_CleanupResolutions record \<noteq> []
      then Answer (Inl (Plain ''NodeClaim accepted a VM and cannot be marked as a rejected POST''))
      else if cf_Phase record \<noteq> createFenceIssued
      then Answer (Inl (Plain ''NodeClaim cannot reject VM create from its phase''))
      else (case cf_BaseFirewallAssignment record of
          None \<Rightarrow> Answer (Inl (Plain ''NodeClaim VM rejection lacks its unused base-firewall assignment issue''))
        | Some a \<Rightarrow>
            if bfa_Phase a \<noteq> FirewallAssignmentIssued \<or> bfa_VMUUID a \<noteq> []
            then Answer (Inl (Plain ''NodeClaim VM rejection lacks its unused base-firewall assignment issue''))
            else Commit (record\<lparr>cf_Phase := createFenceRejected,
                   cf_BaseFirewallAssignment := Some (a\<lparr>bfa_Phase := FirewallAssignmentRejected, bfa_RejectedAt := Some t\<rparr>)\<rparr>)))"

definition reject_judge :: "string \<Rightarrow> string \<Rightarrow> NodeClaim \<Rightarrow> createFenceRecord \<Rightarrow> NodeClaim verdict" where
  "reject_judge token issueID readback stored =
     (if cf_Token stored = token \<and> cf_IssueID stored = issueID \<and> cf_Phase stored = createFenceRejected \<and> cf_IssuedAt stored \<noteq> None
      then Accepted readback
      else if cf_Token stored \<noteq> token \<or> cf_IssueID stored \<noteq> issueID \<or> cf_Phase stored \<noteq> createFenceIssued
      then Refused (Plain ''NodeClaim changed state before create rejection committed'')
      else Again None)"

definition MarkRejected :: "'w kubernetesCreateFenceStore \<Rightarrow> ctx \<Rightarrow> NodeClaim \<Rightarrow> createFenceBinding \<Rightarrow> string \<Rightarrow> string
    \<Rightarrow> ('w, error + NodeClaim) prog" where
  "MarkRejected s c claim binding token issueID =
     fence_loop s c claim binding no_check (reject_decide token issueID) (reject_judge token issueID) 3 None"

subsection \<open>Materialization\<close>

text \<open>The fields of the adapter's VM that a materialization reads.\<close>

record karpenter_VM =
  kvm_UUID :: string
  kvm_Name :: string
  kvm_ClusterName :: string
  kvm_BillingAccountID :: int
  kvm_NodeClaimName :: string
  kvm_Location :: string
  kvm_PublicIPv4 :: string
  kvm_FloatingIPName :: string

definition validateMaterializedVM :: "createFenceRecord \<Rightarrow> karpenter_VM option \<Rightarrow> error option" where
  "validateMaterializedVM record vm =
     (case vm of
        None \<Rightarrow> Some (Plain ''materialized VM does not match the exact durable create identity'')
      | Some v \<Rightarrow>
          if \<not> createFenceVMUUIDPattern (kvm_UUID v) \<or> kvm_Name v \<noteq> cl_VMName (cf_Cleanup record)
             \<or> kvm_ClusterName v \<noteq> cl_ClusterName (cf_Cleanup record) \<or> kvm_NodeClaimName v \<noteq> cl_NodeClaimName (cf_Cleanup record)
             \<or> kvm_Location v \<noteq> cl_Location (cf_Cleanup record) \<or> kvm_BillingAccountID v \<noteq> cl_BillingAccountID (cf_Cleanup record)
          then Some (Plain ''materialized VM does not match the exact durable create identity'')
          else if kvm_FloatingIPName v = [] \<or> kvm_PublicIPv4 v = []
          then Some (Plain ''materialized VM lacks durable floating-IP name or address'')
          else if (case cf_BaseFirewallAssignment record of None \<Rightarrow> True
              | Some a \<Rightarrow> bfa_Phase a \<noteq> FirewallAssignmentObserved \<or> bfa_VMUUID a \<noteq> ToLower (kvm_UUID v)
                  \<or> bfa_FirewallUUID a \<noteq> cl_FirewallUUID (cf_Cleanup record))
          then Some (Plain ''materialized VM lacks a durable observed base-firewall assignment'')
          else if \<not> public_ipv4 (kvm_PublicIPv4 v) then Some (Plain ''materialized VM has invalid public IPv4'')
          else if cf_ObservedVMUUID record \<noteq> [] \<and> (cf_ObservedVMUUID record \<noteq> ToLower (kvm_UUID v)
             \<or> cf_FloatingIPName record \<noteq> kvm_FloatingIPName v \<or> cf_PublicIPv4 record \<noteq> kvm_PublicIPv4 v)
          then Some (Plain ''materialized VM identity changed'')
          else None)"

definition materialize_check :: "NodeClaim \<Rightarrow> NodeClaim \<Rightarrow> error option" where
  "materialize_check claim current =
     (if nc_DeletionTimestamp current = None \<and> (\<not> ContainsFinalizer current TerminationFinalizer
         \<or> nc_Generation current \<noteq> nc_Generation claim \<or> nc_Spec current \<noteq> nc_Spec claim
         \<or> nc_NodePool current \<noteq> nc_NodePool claim)
      then Some (Plain ''NodeClaim changed spec, NodePool identity, or Karpenter finalizer before materializing VM identity'')
      else None)"

definition observed_update :: "NodeClaim \<Rightarrow> createFenceBinding \<Rightarrow> string \<Rightarrow> karpenter_VM \<Rightarrow> error option" where
  "observed_update current binding token v =
     (case decodeFloatingIPUpdateRecord (nc_FloatingIPUpdate current) binding token of
        Inl err \<Rightarrow> Some (Wrap ''NodeClaim cannot materialize without its durable floating-IP update receipt'' [err])
      | Inr u \<Rightarrow>
          if fu_Phase u \<noteq> FloatingIPUpdateObserved \<or> fu_VMUUID u \<noteq> ToLower (kvm_UUID v) \<or> fu_Address u \<noteq> kvm_PublicIPv4 v
             \<or> fu_Name u \<noteq> kvm_FloatingIPName v \<or> fu_BillingAccountID u \<noteq> kvm_BillingAccountID v
          then Some (Plain ''NodeClaim floating-IP update receipt does not match materialized VM'')
          else None)"

definition materialize_decide :: "createFenceBinding \<Rightarrow> string \<Rightarrow> karpenter_VM option \<Rightarrow> time \<Rightarrow> NodeClaim
    \<Rightarrow> createFenceRecord \<Rightarrow> NodeClaim decision" where
  "materialize_decide binding token vm t current record =
     (if token = [] \<or> cf_Token record \<noteq> token
      then Answer (Inl (Plain ''NodeClaim durable VM create token changed before materialization''))
      else (case (vm, validateMaterializedVM record vm) of
          (_, Some err) \<Rightarrow> Answer (Inl err)
        | (None, None) \<Rightarrow> Answer (Inl (Plain ''materialized VM does not match the exact durable create identity''))
        | (Some v, None) \<Rightarrow>
            let vmUUID = ToLower (kvm_UUID v) in
            (case (if cf_LegacyV2 record \<and> cf_Phase record = createFenceMaterialized then None
                   else observed_update current binding token v) of
               Some err \<Rightarrow> Answer (Inl err)
             | None \<Rightarrow>
                 if cf_CreatedVMUUID record \<noteq> vmUUID \<or> cf_LaunchObservedAt record = None
                 then Answer (Inl (Plain ''NodeClaim cannot materialize VM before the exact launch UUID is durable''))
                 else if cf_Phase record = createFenceMaterialized then Answer (Inr current)
                 else if cf_Phase record \<noteq> createFenceIssued \<or> cf_IssuedAt record = None
                 then Answer (Inl (Plain ''NodeClaim VM create attempt must be durably issued before materialization''))
                 else if cf_RollbackAt record \<noteq> None \<or> cf_CleanupVMUUID record \<noteq> [] \<or> cf_CleanupResolutions record \<noteq> []
                 then Answer (Inl (Plain ''NodeClaim VM create rollback is already durably chosen and cannot be materialized''))
                 else Commit (record\<lparr>cf_Phase := createFenceMaterialized, cf_ProtectionFailureAt := None,
                        cf_ObservedAt := Some t, cf_ObservedVMUUID := vmUUID, cf_FloatingIPName := kvm_FloatingIPName v,
                        cf_PublicIPv4 := kvm_PublicIPv4 v\<rparr>))))"

definition materialize_judge :: "karpenter_VM option \<Rightarrow> NodeClaim \<Rightarrow> createFenceRecord \<Rightarrow> NodeClaim verdict" where
  "materialize_judge vm readback stored =
     (let vmUUID = (case vm of None \<Rightarrow> [] | Some v \<Rightarrow> ToLower (kvm_UUID v));
          publicIP = (case vm of None \<Rightarrow> [] | Some v \<Rightarrow> kvm_PublicIPv4 v) in
      if cf_Phase stored = createFenceMaterialized \<and> cf_CreatedVMUUID stored = vmUUID \<and> cf_ObservedVMUUID stored = vmUUID
         \<and> cf_PublicIPv4 stored = publicIP \<and> cf_ObservedAt stored \<noteq> None \<and> cf_RollbackAt stored = None
      then Accepted readback
      else if cf_RollbackAt stored \<noteq> None \<or> cf_Phase stored \<noteq> createFenceIssued \<or> cf_CreatedVMUUID stored \<noteq> vmUUID
      then Refused (Plain ''NodeClaim rollback or another terminal state won before materialization'')
      else Again None)"

definition MarkMaterialized :: "'w kubernetesCreateFenceStore \<Rightarrow> ctx \<Rightarrow> NodeClaim \<Rightarrow> createFenceBinding \<Rightarrow> string
    \<Rightarrow> karpenter_VM option \<Rightarrow> ('w, error + NodeClaim) prog" where
  "MarkMaterialized s c claim binding token vm =
     fence_loop s c claim binding (materialize_check claim) (materialize_decide binding token vm) (materialize_judge vm) 3 None"

subsection \<open>Terminal cleanup\<close>

definition terminal_decide :: "string \<Rightarrow> string \<Rightarrow> time \<Rightarrow> NodeClaim \<Rightarrow> createFenceRecord \<Rightarrow> NodeClaim decision" where
  "terminal_decide token vmUUID t current record =
     (case validateTerminalCleanupTarget record token vmUUID of
        Some err \<Rightarrow> Answer (Inl err)
      | None \<Rightarrow>
          if terminalCleanupConverged record then Answer (Inr current)
          else Commit (record\<lparr>cf_TerminalCleanup := Some (newTerminalCleanupRecord record t)\<rparr>))"

definition terminal_judge :: "NodeClaim \<Rightarrow> createFenceRecord \<Rightarrow> NodeClaim verdict" where
  "terminal_judge readback stored = (if terminalCleanupConverged stored then Accepted readback else Again None)"

definition RecordTerminalCleanup :: "'w kubernetesCreateFenceStore \<Rightarrow> ctx \<Rightarrow> NodeClaim \<Rightarrow> createFenceBinding \<Rightarrow> string
    \<Rightarrow> string \<Rightarrow> ('w, error + NodeClaim) prog" where
  "RecordTerminalCleanup s c claim binding token vm =
     fence_loop s c claim binding no_check (terminal_decide token (ToLower vm)) terminal_judge 3 None"

end
