(* ===== verification/Karpenter_Mutations.thy ===== *)
theory Karpenter_Mutations
  imports Karpenter_Store
begin

text \<open>
  The receipts of the cloud mutations that follow the creation of a VM: the update of its floating IP
  (\<^verbatim>\<open>create_fence.go\<close>), the removals (\<^verbatim>\<open>removal_mutation_fence.go\<close>), and the assignment and detachment of
  its base firewall, which all NodeClaims of a firewall share through the ledger of
  \<^verbatim>\<open>firewall_mutation_slot.go\<close>.
\<close>

section \<open>Floating-IP updates\<close>

definition persistFloatingIPUpdate :: "'w kubernetesCreateFenceStore \<Rightarrow> ctx \<Rightarrow> NodeClaim \<Rightarrow> floatingIPUpdateRecord
    \<Rightarrow> (floatingIPUpdateRecord \<Rightarrow> bool) \<Rightarrow> ('w, error + NodeClaim) prog" where
  "persistFloatingIPUpdate s c current record accept = do {
     u \<leftarrow> UpdateClaim s c (current\<lparr>nc_FloatingIPUpdate := Note record\<rparr>);
     readCtx \<leftarrow> detachedCreateFenceContext;
     r \<leftarrow> GetClaim s readCtx (nc_Name current);
     ret (case r of
         Inl readErr \<Rightarrow> Inl (Wrap ''writing and reading back NodeClaim floating-IP update fence'' (non_nil [left_err u, Some readErr]))
       | Inr readback \<Rightarrow>
           if nc_UID readback \<noteq> nc_UID current \<or> \<not> ContainsFinalizer readback CreateFenceFinalizer
           then Inl (Plain ''NodeClaim changed identity or lost protection during floating-IP update fencing'')
           else (case decodeFloatingIPUpdateRecord (nc_FloatingIPUpdate readback) (fu_Binding record) (fu_AttemptToken record) of
               Inl decodeErr \<Rightarrow> Inl (Joined (non_nil [left_err u, Some decodeErr]))
             | Inr stored \<Rightarrow>
                 if accept stored then Inr readback
                 else (case left_err u of
                     Some updateErr \<Rightarrow> Inl updateErr
                   | None \<Rightarrow> Inl (Plain ''NodeClaim floating-IP update fence changed during readback''))))
   }"

definition issued_update :: "createFenceBinding \<Rightarrow> string \<Rightarrow> FloatingIPUpdateFence \<Rightarrow> string \<Rightarrow> time \<Rightarrow> floatingIPUpdateRecord" where
  "issued_update binding token desired issueID t =
     \<lparr>fu_Schema = floatingIPUpdateFenceSchema, fu_Binding = binding, fu_AttemptToken = token, fu_VMUUID = fuf_VMUUID desired,
      fu_Address = fuf_Address desired, fu_Name = fuf_Name desired, fu_BillingAccountID = fuf_BillingAccountID desired,
      fu_Phase = FloatingIPUpdateIssued, fu_IssueID = issueID, fu_IssuedAt = t, fu_RejectedAt = None, fu_ObservedAt = None\<rparr>"

text \<open>An update that is already issued or observed is only read.\<close>

definition known_update :: "createFenceBinding \<Rightarrow> string \<Rightarrow> FloatingIPUpdateFence \<Rightarrow> floatingIPUpdateRecord annotation
    \<Rightarrow> (error + FloatingIPUpdateFence) option" where
  "known_update binding token desired value =
     (if value = Absent then None
      else (case decodeFloatingIPUpdateRecord value binding token of
          Inl err \<Rightarrow> Some (Inl err)
        | Inr r \<Rightarrow>
            if \<not> floatingIPUpdateIdentityMatches r desired
            then Some (Inl (Plain ''NodeClaim floating-IP update identity changed''))
            else if fu_Phase r = FloatingIPUpdateIssued \<or> fu_Phase r = FloatingIPUpdateObserved
            then Some (Inr (floatingIPUpdateFenceFromRecord r))
            else if fu_Phase r = FloatingIPUpdateRejected then None
            else Some (Inl (Plain ''NodeClaim has invalid floating-IP update phase''))))"

primrec authorizeUpdate_loop :: "'w kubernetesCreateFenceStore \<Rightarrow> ctx \<Rightarrow> createFenceBinding \<Rightarrow> string \<Rightarrow> FloatingIPUpdateFence
    \<Rightarrow> nat \<Rightarrow> NodeClaim \<Rightarrow> error option \<Rightarrow> ('w, error + NodeClaim \<times> FloatingIPUpdateAuthorization) prog" where
  "authorizeUpdate_loop s c binding token desired 0 claim lastErr =
     ret (Inl (Wrap ''persisting issued floating-IP update did not converge'' (non_nil [lastErr])))"
| "authorizeUpdate_loop s c binding token desired (Suc n) claim lastErr = do {
     p \<leftarrow> getProtectedExact s c claim;
     case p of
       Inl err \<Rightarrow> ret (Inl err)
     | Inr current \<Rightarrow>
         (case fence_of s current binding of
            Inl err \<Rightarrow> ret (Inl err)
          | Inr createRecord \<Rightarrow>
              if token = [] \<or> cf_Token createRecord \<noteq> token \<or> cf_CreatedVMUUID createRecord \<noteq> fuf_VMUUID desired
                 \<or> cf_LaunchObservedAt createRecord = None
              then ret (Inl (Plain ''NodeClaim floating-IP update lacks the exact anchored VM attempt''))
              else (case known_update binding token desired (nc_FloatingIPUpdate current) of
                  Some (Inl err) \<Rightarrow> ret (Inl err)
                | Some (Inr fence) \<Rightarrow> ret (Inr (current, \<lparr>fua_Fence = fence, fua_AllowPOST = False\<rparr>))
                | None \<Rightarrow> do {
                    i \<leftarrow> nonce s;
                    case i of
                      Inl err \<Rightarrow> ret (Inl (Wrap ''generating floating-IP update issue identity'' [err]))
                    | Inr issueID \<Rightarrow> do {
                        t \<leftarrow> now;
                        let record = issued_update binding token desired issueID t;
                        w \<leftarrow> persistFloatingIPUpdate s c current record (\<lambda>stored.
                          fu_Phase stored = FloatingIPUpdateIssued \<and> fu_IssueID stored = issueID \<and> fu_IssuedAt stored = t);
                        case w of
                          Inr written \<Rightarrow>
                            ret (Inr (written, \<lparr>fua_Fence = floatingIPUpdateFenceFromRecord record,
                              fua_AllowPOST = (\<not> cf_LegacyV2FloatingIPMayBeIssued createRecord)\<rparr>))
                        | Inl writeErr \<Rightarrow> authorizeUpdate_loop s c binding token desired n current (Some writeErr)
                      }
                  }))
   }"

definition AuthorizeFloatingIPUpdate :: "'w kubernetesCreateFenceStore \<Rightarrow> ctx \<Rightarrow> NodeClaim \<Rightarrow> createFenceBinding \<Rightarrow> string
    \<Rightarrow> string \<Rightarrow> string \<Rightarrow> string \<Rightarrow> int \<Rightarrow> ('w, error + NodeClaim \<times> FloatingIPUpdateAuthorization) prog" where
  "AuthorizeFloatingIPUpdate s c claim binding token vmUUID address name billingAccountID =
     (case newFloatingIPUpdateFence vmUUID address name billingAccountID of
        Inl err \<Rightarrow> ret (Inl err)
      | Inr desired \<Rightarrow> authorizeUpdate_loop s c binding token desired 4 claim None)"

definition finished_update :: "floatingIPUpdateRecord \<Rightarrow> string \<Rightarrow> time \<Rightarrow> floatingIPUpdateRecord" where
  "finished_update r terminal t =
     (if terminal = FloatingIPUpdateObserved then r\<lparr>fu_Phase := terminal, fu_ObservedAt := Some t, fu_RejectedAt := None\<rparr>
      else r\<lparr>fu_Phase := terminal, fu_RejectedAt := Some t, fu_ObservedAt := None\<rparr>)"

primrec finishUpdate_loop :: "'w kubernetesCreateFenceStore \<Rightarrow> ctx \<Rightarrow> createFenceBinding \<Rightarrow> string \<Rightarrow> FloatingIPUpdateFence
    \<Rightarrow> string \<Rightarrow> nat \<Rightarrow> NodeClaim \<Rightarrow> error option \<Rightarrow> ('w, error + NodeClaim) prog" where
  "finishUpdate_loop s c binding token fence terminal 0 claim lastErr =
     ret (Inl (Wrap ''persisting terminal floating-IP update did not converge'' (non_nil [lastErr])))"
| "finishUpdate_loop s c binding token fence terminal (Suc n) claim lastErr = do {
     p \<leftarrow> getProtectedExact s c claim;
     case p of
       Inl err \<Rightarrow> ret (Inl err)
     | Inr current \<Rightarrow>
         (case decodeFloatingIPUpdateRecord (nc_FloatingIPUpdate current) binding token of
            Inl err \<Rightarrow> ret (Inl err)
          | Inr record \<Rightarrow>
              if \<not> floatingIPUpdateIdentityMatches record fence \<or> fu_IssueID record \<noteq> fuf_IssueID fence
              then ret (Inl (Plain ''NodeClaim floating-IP update identity changed''))
              else if fu_Phase record = terminal then ret (Inr current)
              else if fu_Phase record \<noteq> FloatingIPUpdateIssued
              then ret (Inl (Plain ''NodeClaim floating-IP update does not match its issued receipt''))
              else do {
                t \<leftarrow> now;
                w \<leftarrow> persistFloatingIPUpdate s c current (finished_update record terminal t) (\<lambda>stored.
                  fu_Phase stored = terminal \<and> fu_IssueID stored = fuf_IssueID fence \<and> floatingIPUpdateIdentityMatches stored fence);
                case w of
                  Inr written \<Rightarrow> ret (Inr written)
                | Inl writeErr \<Rightarrow> finishUpdate_loop s c binding token fence terminal n current (Some writeErr)
              })
   }"

definition finishFloatingIPUpdate :: "'w kubernetesCreateFenceStore \<Rightarrow> ctx \<Rightarrow> NodeClaim \<Rightarrow> createFenceBinding \<Rightarrow> string
    \<Rightarrow> FloatingIPUpdateFence \<Rightarrow> string \<Rightarrow> ('w, error + NodeClaim) prog" where
  "finishFloatingIPUpdate s c claim binding token fence terminal =
     (case validateFloatingIPUpdateFence fence of
        Some err \<Rightarrow> ret (Inl (Wrap ''finishing floating-IP update requires exact identity'' [err]))
      | None \<Rightarrow>
          if terminal \<noteq> FloatingIPUpdateObserved \<and> terminal \<noteq> FloatingIPUpdateRejected
          then ret (Inl (Plain ''finishing floating-IP update requires a terminal phase''))
          else finishUpdate_loop s c binding token fence terminal 3 claim None)"

definition ObserveFloatingIPUpdate :: "'w kubernetesCreateFenceStore \<Rightarrow> ctx \<Rightarrow> NodeClaim \<Rightarrow> createFenceBinding \<Rightarrow> string
    \<Rightarrow> FloatingIPUpdateFence \<Rightarrow> ('w, error + NodeClaim) prog" where
  "ObserveFloatingIPUpdate s c claim binding token fence = finishFloatingIPUpdate s c claim binding token fence FloatingIPUpdateObserved"

definition RejectFloatingIPUpdate :: "'w kubernetesCreateFenceStore \<Rightarrow> ctx \<Rightarrow> NodeClaim \<Rightarrow> createFenceBinding \<Rightarrow> string
    \<Rightarrow> FloatingIPUpdateFence \<Rightarrow> ('w, error + NodeClaim) prog" where
  "RejectFloatingIPUpdate s c claim binding token fence = finishFloatingIPUpdate s c claim binding token fence FloatingIPUpdateRejected"

section \<open>Removals\<close>

definition persistRemovalMutation :: "'w kubernetesCreateFenceStore \<Rightarrow> ctx \<Rightarrow> NodeClaim \<Rightarrow> removalMutationRecord
    \<Rightarrow> (removalMutationRecord \<Rightarrow> bool) \<Rightarrow> ('w, error + NodeClaim) prog" where
  "persistRemovalMutation s c current record accept =
     (let len = length (marshal (json_removalMutationRecord (ks_rfc3339 s) record)) in
      if maxRemovalMutationEncodedBytes < len
      then ret (Inl (Plain ''encoding NodeClaim removal mutation fence exceeds its bound''))
      else do {
        u \<leftarrow> UpdateClaim s c (current\<lparr>nc_Removal := Note (len, record)\<rparr>);
        readCtx \<leftarrow> detachedCreateFenceContext;
        r \<leftarrow> GetClaim s readCtx (nc_Name current);
        ret (case r of
            Inl readErr \<Rightarrow> Inl (Wrap ''writing and reading back NodeClaim removal mutation fence'' (non_nil [left_err u, Some readErr]))
          | Inr readback \<Rightarrow>
              if nc_UID readback \<noteq> nc_UID current \<or> \<not> ContainsFinalizer readback CreateFenceFinalizer
              then Inl (Plain ''NodeClaim changed identity or lost protection during removal mutation fencing'')
              else (case decodeRemovalMutationRecord (nc_Removal readback) (rr_Binding record) (rr_AttemptToken record) of
                  Inl decodeErr \<Rightarrow> Inl (Joined (non_nil [left_err u, Some decodeErr]))
                | Inr stored \<Rightarrow>
                    if accept stored then Inr readback
                    else (case left_err u of
                        Some updateErr \<Rightarrow> Inl updateErr
                      | None \<Rightarrow> Inl (Plain ''NodeClaim removal mutation fence changed during readback''))))
      })"

definition deletion_started :: "NodeClaim \<Rightarrow> bool" where
  "deletion_started claim = stamped (nc_DeletionTimestamp claim)"

primrec ensureRemoval_loop :: "'w kubernetesCreateFenceStore \<Rightarrow> ctx \<Rightarrow> createFenceBinding \<Rightarrow> string \<Rightarrow> nat \<Rightarrow> NodeClaim
    \<Rightarrow> ('w, error + NodeClaim) prog" where
  "ensureRemoval_loop s c binding token 0 claim =
     ret (Inl (Plain ''NodeClaim initial removal mutation fence did not converge''))"
| "ensureRemoval_loop s c binding token (Suc n) claim = do {
     p \<leftarrow> getProtectedExact s c claim;
     case p of
       Inl err \<Rightarrow> ret (Inl err)
     | Inr current \<Rightarrow>
         (case fence_of s current binding of
            Inl err \<Rightarrow> ret (Inl err)
          | Inr createRecord \<Rightarrow>
              if token = [] \<or> cf_Token createRecord \<noteq> token
              then ret (Inl (Plain ''NodeClaim removal fence token changed''))
              else if nc_Removal current \<noteq> Absent
              then ret (attempt_ok (decodeRemovalMutationRecord (nc_Removal current) binding token) (\<lambda>_. Inr current))
              else if deletion_started current \<or> cf_RollbackAt createRecord \<noteq> None
              then ret (Inl (Plain ''NodeClaim lacks a pre-removal fence after deletion or rollback began''))
              else do {
                t \<leftarrow> now;
                w \<leftarrow> persistRemovalMutation s c current (newRemovalMutationReadyRecord binding token t) (\<lambda>stored.
                  rr_Phase stored = RemovalMutationReady \<and> rr_ReadyAt stored = t);
                case w of
                  Inr written \<Rightarrow> ret (Inr written)
                | Inl _ \<Rightarrow> ensureRemoval_loop s c binding token n current
              })
   }"

definition EnsureRemovalFence :: "'w kubernetesCreateFenceStore \<Rightarrow> ctx \<Rightarrow> NodeClaim \<Rightarrow> createFenceBinding \<Rightarrow> string
    \<Rightarrow> ('w, error + NodeClaim) prog" where
  "EnsureRemovalFence s c claim binding token = ensureRemoval_loop s c binding token 4 claim"

definition passive_removal :: "RemovalMutationFence option \<Rightarrow> RemovalMutationAuthorization" where
  "passive_removal f = \<lparr>rma_Fence = f, rma_Active = (f \<noteq> None), rma_AllowMutation = False\<rparr>"

text \<open>What the journal answers to a request for a removal, or \<open>None\<close> when a new issue is to be written.\<close>

definition known_removal :: "removalMutationRecord \<Rightarrow> RemovalMutation \<Rightarrow> bool \<Rightarrow> (error + RemovalMutationAuthorization) option" where
  "known_removal record desired present =
     (case historicalObservedFloatingIPDelete record desired of
        Some historical \<Rightarrow>
          Some (if present then Inl (Plain ''NodeClaim observed removal resource reappeared'')
                else Inr (passive_removal (Some historical)))
      | None \<Rightarrow>
          let exact = removalMutationIdentityMatches record desired;
              own = Some (removalMutationFenceFromRecord record) in
          if rr_Phase record = RemovalMutationReady
          then (if \<not> present then Some (Inr (passive_removal None)) else None)
          else if rr_Phase record = RemovalMutationIssued
          then (if exact then Some (Inr (passive_removal own))
                else if \<not> present then Some (Inr (passive_removal None))
                else Some (Inl (Plain ''NodeClaim has an unresolved different removal mutation'')))
          else if rr_Phase record = RemovalMutationRejected
          then (if exact \<and> \<not> present then Some (Inr (passive_removal own))
                else if \<not> exact
                then (if \<not> present then Some (Inr (passive_removal None))
                      else Some (Inl (Plain ''NodeClaim has an unresolved rejected removal mutation'')))
                else None)
          else if rr_Phase record = RemovalMutationObserved
          then (if exact
                then (if present then Some (Inl (Plain ''NodeClaim observed removal resource reappeared''))
                      else Some (Inr (passive_removal own)))
                else if \<not> present then Some (Inr (passive_removal None))
                else None)
          else Some (Inl (Plain ''NodeClaim has invalid removal mutation phase'')))"

definition issued_removal :: "createFenceBinding \<Rightarrow> string \<Rightarrow> removalMutationRecord \<Rightarrow> RemovalMutation \<Rightarrow> string \<Rightarrow> time
    \<Rightarrow> removalMutationRecord" where
  "issued_removal binding token record desired issueID t =
     \<lparr>rr_Schema = removalMutationFenceSchema, rr_Binding = binding, rr_AttemptToken = token, rr_ReadyAt = rr_ReadyAt record,
      rr_Operation = rm_Operation desired, rr_Location = rm_Location desired, rr_VMUUID = rm_VMUUID desired,
      rr_Address = rm_Address desired, rr_Name = rm_Name desired, rr_BillingID = rm_BillingAccountID desired,
      rr_Phase = RemovalMutationIssued, rr_IssueID = issueID, rr_IssuedAt = Some t, rr_RejectedAt = None, rr_ObservedAt = None,
      rr_ObservedFloatingIPDeletes = rr_ObservedFloatingIPDeletes record\<rparr>"

primrec authorizeRemoval_loop :: "'w kubernetesCreateFenceStore \<Rightarrow> ctx \<Rightarrow> createFenceBinding \<Rightarrow> string \<Rightarrow> RemovalMutation \<Rightarrow> bool
    \<Rightarrow> nat \<Rightarrow> NodeClaim \<Rightarrow> error option \<Rightarrow> ('w, error + NodeClaim \<times> RemovalMutationAuthorization) prog" where
  "authorizeRemoval_loop s c binding token desired present 0 claim lastErr =
     ret (Inl (Wrap ''persisting issued removal mutation did not converge'' (non_nil [lastErr])))"
| "authorizeRemoval_loop s c binding token desired present (Suc n) claim lastErr = do {
     p \<leftarrow> getProtectedExact s c claim;
     case p of
       Inl err \<Rightarrow> ret (Inl err)
     | Inr current \<Rightarrow>
         (case fence_of s current binding of
            Inl err \<Rightarrow> ret (Inl err)
          | Inr createRecord \<Rightarrow>
              if token = [] \<or> cf_Token createRecord \<noteq> token
              then ret (Inl (Plain ''NodeClaim removal mutation token changed''))
              else (case decodeRemovalMutationRecord (nc_Removal current) binding token of
                  Inl err \<Rightarrow> ret (Inl err)
                | Inr record \<Rightarrow>
                    (case known_removal record desired present of
                       Some (Inl err) \<Rightarrow> ret (Inl err)
                     | Some (Inr authorization) \<Rightarrow> ret (Inr (current, authorization))
                     | None \<Rightarrow> do {
                         i \<leftarrow> nonce s;
                         case i of
                           Inl err \<Rightarrow> ret (Inl (Wrap ''generating removal mutation issue identity'' [err]))
                         | Inr issueID \<Rightarrow>
                             (case archiveCurrentObservedFloatingIPDelete record of
                                Inl err \<Rightarrow> ret (Inl err)
                              | Inr archived \<Rightarrow> do {
                                  t \<leftarrow> now;
                                  let issued = issued_removal binding token archived desired issueID t;
                                  w \<leftarrow> persistRemovalMutation s c current issued (\<lambda>stored.
                                    rr_Phase stored = RemovalMutationIssued \<and> rr_IssueID stored = issueID
                                    \<and> removalMutationIdentityMatches stored desired);
                                  case w of
                                    Inr written \<Rightarrow>
                                      ret (Inr (written, \<lparr>rma_Fence = Some (removalMutationFenceFromRecord issued),
                                        rma_Active = True, rma_AllowMutation = True\<rparr>))
                                  | Inl writeErr \<Rightarrow>
                                      authorizeRemoval_loop s c binding token desired present n current (Some writeErr)
                                })
                       })))
   }"

definition AuthorizeRemovalMutation :: "'w kubernetesCreateFenceStore \<Rightarrow> ctx \<Rightarrow> NodeClaim \<Rightarrow> createFenceBinding \<Rightarrow> string
    \<Rightarrow> RemovalMutation \<Rightarrow> bool \<Rightarrow> ('w, error + NodeClaim \<times> RemovalMutationAuthorization) prog" where
  "AuthorizeRemovalMutation s c claim binding token mutation present =
     (case normalizeRemovalMutation mutation of
        Inl err \<Rightarrow> ret (Inl err)
      | Inr desired \<Rightarrow> authorizeRemoval_loop s c binding token desired present 4 claim None)"

definition is_fip_delete :: "RemovalMutationFence \<Rightarrow> bool" where
  "is_fip_delete fence = (rm_Operation (rmf_Mutation fence) = RemovalMutationFloatingIPDelete)"

text \<open>What a finishing step does with the journal: answer, or write a new state of it.\<close>

definition finish_removal :: "RemovalMutationFence \<Rightarrow> string \<Rightarrow> time \<Rightarrow> removalMutationRecord
    \<Rightarrow> error + removalMutationRecord option" where
  "finish_removal fence terminal t record =
     (let durableFence = removalMutationFenceFromRecord record in
      if \<not> removalMutationIdentityMatches record (rmf_Mutation fence) \<or> rr_IssueID record \<noteq> rmf_IssueID fence
      then Inl (Plain ''NodeClaim removal mutation identity changed'')
      else if rmf_IssuedAt durableFence \<noteq> rmf_IssuedAt fence
      then Inl (Plain ''NodeClaim removal mutation issue time changed'')
      else if rr_Phase record = terminal
      then (if terminal \<noteq> RemovalMutationObserved \<or> \<not> is_fip_delete fence then Inr None
            else if historicalObservedFloatingIPDelete record (rmf_Mutation fence) \<noteq> None then Inr None
            else if \<not> stamped (rr_ObservedAt record)
            then Inl (Plain ''NodeClaim observed floating-IP DELETE has no observation time'')
            else map_sum id Some (appendObservedFloatingIPDelete record durableFence (time_or_zero (rr_ObservedAt record))))
      else if terminal = RemovalMutationRejected \<and> rr_Phase record \<noteq> RemovalMutationIssued
      then Inl (Plain ''NodeClaim removal mutation is not issued'')
      else if terminal = RemovalMutationObserved \<and> rr_Phase record \<noteq> RemovalMutationIssued
         \<and> rr_Phase record \<noteq> RemovalMutationRejected
      then Inl (Plain ''NodeClaim removal mutation has no observable receipt'')
      else if rmf_Phase fence \<noteq> rr_Phase record
      then Inl (Plain ''NodeClaim removal mutation phase changed'')
      else if terminal = RemovalMutationObserved
      then map_sum id Some (appendObservedFloatingIPDelete
             (record\<lparr>rr_Phase := terminal, rr_ObservedAt := Some t, rr_RejectedAt := None\<rparr>) durableFence t)
      else Inr (Some (record\<lparr>rr_Phase := terminal, rr_RejectedAt := Some t, rr_ObservedAt := None\<rparr>)))"

definition finished_removal :: "RemovalMutationFence \<Rightarrow> string \<Rightarrow> removalMutationRecord \<Rightarrow> bool" where
  "finished_removal fence terminal stored =
     (rr_Phase stored = terminal \<and> rr_IssueID stored = rmf_IssueID fence
      \<and> removalMutationIdentityMatches stored (rmf_Mutation fence)
      \<and> (terminal = RemovalMutationObserved \<and> is_fip_delete fence
          \<longrightarrow> historicalObservedFloatingIPDelete stored (rmf_Mutation fence) \<noteq> None))"

primrec finishRemoval_loop :: "'w kubernetesCreateFenceStore \<Rightarrow> ctx \<Rightarrow> createFenceBinding \<Rightarrow> string \<Rightarrow> RemovalMutationFence
    \<Rightarrow> string \<Rightarrow> nat \<Rightarrow> NodeClaim \<Rightarrow> error option \<Rightarrow> ('w, error + NodeClaim) prog" where
  "finishRemoval_loop s c binding token fence terminal 0 claim lastErr =
     ret (Inl (Wrap ''persisting terminal removal mutation did not converge'' (non_nil [lastErr])))"
| "finishRemoval_loop s c binding token fence terminal (Suc n) claim lastErr = do {
     p \<leftarrow> getProtectedExact s c claim;
     case p of
       Inl err \<Rightarrow> ret (Inl err)
     | Inr current \<Rightarrow>
         (case fence_of s current binding of
            Inl err \<Rightarrow> ret (Inl err)
          | Inr _ \<Rightarrow>
              (case decodeRemovalMutationRecord (nc_Removal current) binding token of
                 Inl err \<Rightarrow> ret (Inl err)
               | Inr record \<Rightarrow> do {
                   t \<leftarrow> now;
                   case finish_removal fence terminal t record of
                     Inl err \<Rightarrow> ret (Inl err)
                   | Inr None \<Rightarrow> ret (Inr current)
                   | Inr (Some finished) \<Rightarrow> do {
                       w \<leftarrow> persistRemovalMutation s c current finished (finished_removal fence terminal);
                       case w of
                         Inr written \<Rightarrow> ret (Inr written)
                       | Inl writeErr \<Rightarrow> finishRemoval_loop s c binding token fence terminal n current (Some writeErr)
                     }
                 }))
   }"

definition finishRemovalMutation :: "'w kubernetesCreateFenceStore \<Rightarrow> ctx \<Rightarrow> NodeClaim \<Rightarrow> createFenceBinding \<Rightarrow> string
    \<Rightarrow> RemovalMutationFence \<Rightarrow> string \<Rightarrow> ('w, error + NodeClaim) prog" where
  "finishRemovalMutation s c claim binding token fence terminal =
     (case validateRemovalMutationFence fence of
        Some err \<Rightarrow> ret (Inl err)
      | None \<Rightarrow>
          if terminal \<noteq> RemovalMutationObserved \<and> terminal \<noteq> RemovalMutationRejected
          then ret (Inl (Plain ''invalid removal terminal phase''))
          else finishRemoval_loop s c binding token fence terminal 3 claim None)"

definition ObserveRemovalMutation :: "'w kubernetesCreateFenceStore \<Rightarrow> ctx \<Rightarrow> NodeClaim \<Rightarrow> createFenceBinding \<Rightarrow> string
    \<Rightarrow> RemovalMutationFence \<Rightarrow> ('w, error + NodeClaim) prog" where
  "ObserveRemovalMutation s c claim binding token fence = finishRemovalMutation s c claim binding token fence RemovalMutationObserved"

definition RejectRemovalMutation :: "'w kubernetesCreateFenceStore \<Rightarrow> ctx \<Rightarrow> NodeClaim \<Rightarrow> createFenceBinding \<Rightarrow> string
    \<Rightarrow> RemovalMutationFence \<Rightarrow> ('w, error + NodeClaim) prog" where
  "RejectRemovalMutation s c claim binding token fence = finishRemovalMutation s c claim binding token fence RemovalMutationRejected"

end
