(* ===== verification/Karpenter_Slots.thy ===== *)
theory Karpenter_Slots
  imports Karpenter_Mutations
begin

text \<open>
  The assignment and detachment of a VM's base firewall: a receipt on the NodeClaim, and a slot of the
  ledger all NodeClaims of the firewall share (\<^verbatim>\<open>firewall_mutation_slot.go\<close> and the base-firewall
  operations of \<^verbatim>\<open>create_fence.go\<close>).
\<close>

section \<open>The ledger\<close>

definition getFirewallMutationLedger :: "'w kubernetesCreateFenceStore \<Rightarrow> ctx
    \<Rightarrow> ('w, error + Lease \<times> firewallMutationLedger) prog" where
  "getFirewallMutationLedger s c = do {
     r \<leftarrow> GetLease s c;
     ret (attempt_ok r (\<lambda>lease. attempt_ok (decodeFirewallMutationLedger (ks_env s) lease) (\<lambda>value. Inr (lease, value))))
   }"

definition slot_at :: "firewallMutationLedger \<Rightarrow> string \<Rightarrow> firewallMutationSlotRecord option" where
  "slot_at ledger key = (case led_Slots ledger of None \<Rightarrow> None | Some slots \<Rightarrow> fmlookup slots key)"

definition set_slot :: "firewallMutationLedger \<Rightarrow> string \<Rightarrow> firewallMutationSlotRecord \<Rightarrow> firewallMutationLedger" where
  "set_slot ledger key value = ledger\<lparr>led_Slots := Some (fmupd key value (case led_Slots ledger of None \<Rightarrow> fmempty | Some m \<Rightarrow> m))\<rparr>"

definition slot_key :: "'w kubernetesCreateFenceStore \<Rightarrow> firewallMutationSlotRecord \<Rightarrow> string" where
  "slot_key s v = firewallMutationSlotName (ks_env s) (sl_Location v) (sl_FirewallUUID v)"

definition readbackOwnFirewallMutationSlot :: "'w kubernetesCreateFenceStore \<Rightarrow> firewallMutationSlotRecord
    \<Rightarrow> ('w, error + bool) prog" where
  "readbackOwnFirewallMutationSlot s desired = do {
     readCtx \<leftarrow> detachedCreateFenceContext;
     r \<leftarrow> getFirewallMutationLedger s readCtx;
     ret (attempt_ok r (\<lambda>(lease, ledger). Inr (slot_at ledger (slot_key s desired) = Some desired)))
   }"

definition firewallMutationSlotTerminal :: "'w kubernetesCreateFenceStore \<Rightarrow> ctx \<Rightarrow> firewallMutationSlotRecord
    \<Rightarrow> ('w, error + bool) prog" where
  "firewallMutationSlotTerminal s c value =
     (if sl_Phase value = FirewallAssignmentObserved \<or> sl_Phase value = FirewallAssignmentRejected then ret (Inr True)
      else do {
        r \<leftarrow> GetClaim s c (sl_NodeClaimName value);
        ret (case r of
            Inl err \<Rightarrow>
              if errors_is KubeNotFound err then Inr True
              else Inl (Wrap ''reading prior firewall-slot NodeClaim'' [err])
          | Inr claim \<Rightarrow>
              if nc_UID claim \<noteq> sl_NodeClaimUID value then Inr True
              else if sl_Operation value = firewallMutationDetach then Inr False
              else (case decodeCreateFence (ks_env s) (nc_CreateFence claim) of
                  Inl err \<Rightarrow> Inl (Wrap ''prior firewall-slot NodeClaim has invalid durable fence'' [err])
                | Inr record \<Rightarrow>
                    (case cf_BaseFirewallAssignment record of
                       None \<Rightarrow> Inl (Plain ''prior firewall-slot NodeClaim no longer carries the exact owned assignment receipt'')
                     | Some a \<Rightarrow>
                         if bind_NodeClaimUID (cf_Binding record) \<noteq> sl_NodeClaimUID value
                            \<or> cl_NodeClaimName (cf_Cleanup record) \<noteq> sl_NodeClaimName value
                            \<or> cl_Location (cf_Cleanup record) \<noteq> sl_Location value
                            \<or> ToLower (cl_FirewallUUID (cf_Cleanup record)) \<noteq> sl_FirewallUUID value
                            \<or> ToLower (bfa_FirewallUUID a) \<noteq> sl_FirewallUUID value \<or> bfa_IssueID a \<noteq> sl_IssueID value
                         then Inl (Plain ''prior firewall-slot NodeClaim no longer carries the exact owned assignment receipt'')
                         else Inr (bfa_Phase a = FirewallAssignmentObserved \<or> bfa_Phase a = FirewallAssignmentRejected))))
      })"

section \<open>Fences of the previous version\<close>

definition legacy_owner :: "'w kubernetesCreateFenceStore \<Rightarrow> firewallMutationSlotRecord \<Rightarrow> NodeClaim \<Rightarrow> createFenceRecord \<Rightarrow> bool" where
  "legacy_owner s desired claim record =
     (case cf_BaseFirewallAssignment record of
        None \<Rightarrow> False
      | Some a \<Rightarrow>
          cf_LegacyV2BaseFirewallMayBeIssued record \<and> bfa_Phase a = FirewallAssignmentIssued
          \<and> firewallMutationSlotName (ks_env s) (cl_Location (cf_Cleanup record)) (cl_FirewallUUID (cf_Cleanup record)) = slot_key s desired
          \<and> \<not> (nc_Name claim = sl_NodeClaimName desired \<and> nc_UID claim = sl_NodeClaimUID desired
                \<and> EqualFold (bfa_VMUUID a) (sl_VMUUID desired) \<and> bfa_IssueID a = sl_IssueID desired))"

fun audit_claims :: "'w kubernetesCreateFenceStore \<Rightarrow> firewallMutationSlotRecord \<Rightarrow> NodeClaim list \<Rightarrow> error option" where
  "audit_claims s desired [] = None"
| "audit_claims s desired (claim # claims) =
     (if nc_CreateFence claim = Absent then audit_claims s desired claims
      else (case decodeCreateFence (ks_env s) (nc_CreateFence claim) of
          Inl err \<Rightarrow> Some (Wrap ''NodeClaim has an invalid durable fence during legacy firewall-mutation migration'' [err])
        | Inr record \<Rightarrow>
            if bind_NodeClaimUID (cf_Binding record) \<noteq> nc_UID claim \<or> cl_NodeClaimName (cf_Cleanup record) \<noteq> nc_Name claim
            then Some (Plain ''NodeClaim has drifted durable identity during legacy firewall-mutation migration'')
            else if legacy_owner s desired claim record
            then Some (Wrap ''firewall still has unresolved legacy-v2 assignment issue'' [Sentinel ErrCreateAttemptPending])
            else audit_claims s desired claims))"

definition auditUnresolvedLegacyFirewallMutationOwners :: "'w kubernetesCreateFenceStore \<Rightarrow> ctx \<Rightarrow> firewallMutationSlotRecord
    \<Rightarrow> ('w, error option) prog" where
  "auditUnresolvedLegacyFirewallMutationOwners s c desired = do {
     r \<leftarrow> ListClaims s c;
     ret (case r of
         Inl err \<Rightarrow> Some (Wrap ''listing NodeClaims for legacy firewall-mutation migration'' [err])
       | Inr claims \<Rightarrow> audit_claims s desired claims)
   }"

section \<open>Taking a slot\<close>

definition new_lease :: "nat \<times> firewallMutationLedger \<Rightarrow> Lease" where
  "new_lease encoded = \<lparr>le_Name = firewallMutationCoordinatorLeaseName, le_ResourceVersion = [],
     le_HolderIdentity = Some firewallMutationCoordinatorHolder, le_Slot = Note encoded\<rparr>"

definition same_mutation :: "firewallMutationSlotRecord \<Rightarrow> firewallMutationSlotRecord \<Rightarrow> bool" where
  "same_mutation current desired =
     (sl_NodeClaimUID current = sl_NodeClaimUID desired \<and> sl_NodeClaimName current = sl_NodeClaimName desired
      \<and> sl_Operation current = sl_Operation desired \<and> sl_VMUUID current = sl_VMUUID desired
      \<and> sl_IssueID current = sl_IssueID desired)"

primrec acquire_loop :: "'w kubernetesCreateFenceStore \<Rightarrow> ctx \<Rightarrow> firewallMutationSlotRecord \<Rightarrow> nat \<Rightarrow> ('w, error + bool) prog" where
  "acquire_loop s c desired 0 =
     ret (Inl (Wrap ''firewall mutation-slot CAS did not converge'' [Sentinel ErrCreateAttemptPending]))"
| "acquire_loop s c desired (Suc n) = do {
     a \<leftarrow> auditUnresolvedLegacyFirewallMutationOwners s c desired;
     case a of
       Some err \<Rightarrow> ret (Inl err)
     | None \<Rightarrow> do {
         r \<leftarrow> getFirewallMutationLedger s c;
         case r of
           Inl readErr \<Rightarrow>
             if errors_is KubeNotFound readErr then
               (case encodeFirewallMutationLedger (ks_env s) \<lparr>led_Schema = firewallMutationLedgerSchema,
                       led_Slots = Some (fmupd (slot_key s desired) desired fmempty)\<rparr> of
                  Inl err \<Rightarrow> ret (Inl err)
                | Inr encoded \<Rightarrow> do {
                    w \<leftarrow> CreateLease s c (new_lease encoded);
                    b \<leftarrow> readbackOwnFirewallMutationSlot s desired;
                    case b of
                      Inr own \<Rightarrow> if own then ret (Inr True) else acquire_loop s c desired n
                    | Inl exactErr \<Rightarrow>
                        if errors_is KubeNotFound exactErr then acquire_loop s c desired n
                        else ret (Inl (Wrap ''creating and exactly reading back firewall mutation slot'' (non_nil [w, Some exactErr])))
                  })
             else ret (Inl (Wrap ''reading durable firewall mutation ledger'' [readErr]))
         | Inr (lease, ledger) \<Rightarrow> do {
             let current = slot_at ledger (slot_key s desired);
             if current = Some desired then ret (Inr True)
             else if (case current of None \<Rightarrow> False | Some v \<Rightarrow> same_mutation v desired) then ret (Inr False)
             else do {
               m \<leftarrow> (case current of None \<Rightarrow> ret (Inr True) | Some v \<Rightarrow> firewallMutationSlotTerminal s c v);
               case m of
                 Inl terminalErr \<Rightarrow> ret (Inl (Wrap ''auditing prior durable firewall mutation owner'' [terminalErr]))
               | Inr terminal \<Rightarrow>
                   if \<not> terminal
                   then ret (Inl (Wrap ''firewall still has an active issue'' [Sentinel ErrCreateAttemptPending]))
                   else (case encodeFirewallMutationLedger (ks_env s) (set_slot ledger (slot_key s desired) desired) of
                       Inl err \<Rightarrow> ret (Inl err)
                     | Inr encoded \<Rightarrow> do {
                         w \<leftarrow> UpdateLease s c (lease\<lparr>le_Slot := Note encoded\<rparr>);
                         b \<leftarrow> readbackOwnFirewallMutationSlot s desired;
                         case b of
                           Inr own \<Rightarrow> if own then ret (Inr True) else acquire_loop s c desired n
                         | Inl exactErr \<Rightarrow>
                             ret (Inl (Wrap ''updating and exactly reading back firewall mutation slot'' (non_nil [w, Some exactErr])))
                       })
             }
           }
       }
   }"

definition acquireFirewallMutationSlot :: "'w kubernetesCreateFenceStore \<Rightarrow> ctx \<Rightarrow> firewallMutationSlotRecord
    \<Rightarrow> ('w, error + bool) prog" where
  "acquireFirewallMutationSlot s c desired = acquire_loop s c desired 6"

section \<open>Finishing a slot\<close>

primrec finishSlot_loop :: "'w kubernetesCreateFenceStore \<Rightarrow> ctx \<Rightarrow> NodeClaim \<Rightarrow> string \<Rightarrow> string \<Rightarrow> string \<Rightarrow> string \<Rightarrow> string
    \<Rightarrow> nat \<Rightarrow> ('w, error option) prog" where
  "finishSlot_loop s c current key operation vmUUID issueID terminal 0 =
     ret (Some (Wrap ''terminal firewall mutation slot did not converge'' [Sentinel ErrCreateAttemptPending]))"
| "finishSlot_loop s c current key operation vmUUID issueID terminal (Suc n) = do {
     r \<leftarrow> getFirewallMutationLedger s c;
     case r of
       Inl err \<Rightarrow>
         ret (if errors_is KubeNotFound err then None
              else Some (Wrap ''reading firewall mutation ledger for terminal receipt'' [err]))
     | Inr (lease, ledger) \<Rightarrow>
         (case slot_at ledger key of
            None \<Rightarrow> ret None
          | Some value \<Rightarrow>
              if sl_NodeClaimUID value \<noteq> nc_UID current \<or> sl_NodeClaimName value \<noteq> nc_Name current
                 \<or> sl_Operation value \<noteq> operation \<or> sl_VMUUID value \<noteq> ToLower vmUUID \<or> sl_IssueID value \<noteq> issueID
              then ret None
              else if sl_Phase value = terminal then ret None
              else if sl_Phase value \<noteq> FirewallAssignmentIssued
              then ret (Some (Plain ''firewall mutation slot issue has conflicting terminal phase''))
              else do {
                let finished = value\<lparr>sl_Phase := terminal\<rparr>;
                case encodeFirewallMutationLedger (ks_env s) (set_slot ledger key finished) of
                  Inl err \<Rightarrow> ret (Some err)
                | Inr encoded \<Rightarrow> do {
                    w \<leftarrow> UpdateLease s c (lease\<lparr>le_Slot := Note encoded\<rparr>);
                    readCtx \<leftarrow> detachedCreateFenceContext;
                    b \<leftarrow> getFirewallMutationLedger s readCtx;
                    case b of
                      Inl readErr \<Rightarrow>
                        ret (Some (Wrap ''writing and reading back terminal firewall mutation slot'' (non_nil [w, Some readErr])))
                    | Inr (_, storedLedger) \<Rightarrow>
                        if slot_at storedLedger key = Some finished then ret None
                        else finishSlot_loop s c current key operation vmUUID issueID terminal n
                  }
              })
   }"

definition finishFirewallMutationSlot :: "'w kubernetesCreateFenceStore \<Rightarrow> ctx \<Rightarrow> NodeClaim \<Rightarrow> createFenceRecord \<Rightarrow> string
    \<Rightarrow> string \<Rightarrow> string \<Rightarrow> string \<Rightarrow> ('w, error option) prog" where
  "finishFirewallMutationSlot s c current record operation vmUUID issueID terminal =
     (if terminal \<noteq> FirewallAssignmentObserved \<and> terminal \<noteq> FirewallAssignmentRejected
      then ret (Some (Plain ''invalid terminal firewall mutation phase''))
      else finishSlot_loop s c current
        (firewallMutationSlotName (ks_env s) (cl_Location (cf_Cleanup record)) (cl_FirewallUUID (cf_Cleanup record)))
        operation vmUUID issueID terminal 4)"

section \<open>Assigning the base firewall\<close>

definition no_assignment :: FirewallAssignmentAuthorization where
  "no_assignment = \<lparr>faa_Fence = \<lparr>faf_VMUUID = [], faf_FirewallUUID = [], faf_Phase = [], faf_IssueID = []\<rparr>, faa_AllowPOST = False\<rparr>"

definition authorizeBaseFirewallAssignmentSlot :: "'w kubernetesCreateFenceStore \<Rightarrow> ctx \<Rightarrow> NodeClaim \<Rightarrow> createFenceRecord \<Rightarrow> string
    \<Rightarrow> ('w, FirewallAssignmentAuthorization \<times> error option) prog" where
  "authorizeBaseFirewallAssignmentSlot s c current record vmUUID =
     (case cf_BaseFirewallAssignment record of
        None \<Rightarrow> ret (no_assignment, Some (Plain ''NodeClaim lacks an exact issued base-firewall assignment receipt''))
      | Some a \<Rightarrow>
          if \<not> baseFirewallAssignmentMatches (Some a) vmUUID (cl_FirewallUUID (cf_Cleanup record))
             \<or> bfa_Phase a \<noteq> FirewallAssignmentIssued \<or> \<not> createFenceKeyHashPattern (bfa_IssueID a)
          then ret (no_assignment, Some (Plain ''NodeClaim lacks an exact issued base-firewall assignment receipt''))
          else do {
            n \<leftarrow> nonce s;
            case n of
              Inl err \<Rightarrow> ret (no_assignment, Some (Wrap ''generating base-firewall assignment acquisition identity'' [err]))
            | Inr acquisitionID \<Rightarrow>
                (case newFirewallMutationSlotRecord current record vmUUID firewallMutationAssign (bfa_IssueID a) acquisitionID of
                   Inl err \<Rightarrow> ret (no_assignment, Some err)
                 | Inr desired \<Rightarrow> do {
                     q \<leftarrow> acquireFirewallMutationSlot s c desired;
                     let fence = firewallAssignmentFenceFromRecord record;
                     ret (case q of
                         Inl err \<Rightarrow> (\<lparr>faa_Fence = fence, faa_AllowPOST = False\<rparr>, Some err)
                       | Inr allow \<Rightarrow>
                           if cf_LegacyV2BaseFirewallMayBeIssued record
                           then (\<lparr>faa_Fence = fence, faa_AllowPOST = False\<rparr>, None)
                           else (\<lparr>faa_Fence = fence, faa_AllowPOST = allow\<rparr>, None))
                   })
          })"

definition persistBaseFirewallAssignment :: "'w kubernetesCreateFenceStore \<Rightarrow> ctx \<Rightarrow> NodeClaim \<Rightarrow> createFenceBinding
    \<Rightarrow> createFenceRecord \<Rightarrow> (createFenceRecord \<Rightarrow> bool) \<Rightarrow> ('w, error + NodeClaim) prog" where
  "persistBaseFirewallAssignment s c current binding record accept = do {
     u \<leftarrow> UpdateClaim s c (with_fence current record);
     readCtx \<leftarrow> detachedCreateFenceContext;
     r \<leftarrow> GetClaim s readCtx (nc_Name current);
     ret (case r of
         Inl readErr \<Rightarrow>
           Inl (Wrap ''writing and reading back NodeClaim base-firewall assignment fence'' (non_nil [left_err u, Some readErr]))
       | Inr readback \<Rightarrow>
           if nc_UID readback \<noteq> nc_UID current \<or> \<not> ContainsFinalizer readback CreateFenceFinalizer
           then Inl (Plain ''NodeClaim changed identity or lost protection during base-firewall assignment fencing'')
           else (case fence_of s readback binding of
               Inl parseErr \<Rightarrow> Inl (Joined (non_nil [left_err u, Some parseErr]))
             | Inr stored \<Rightarrow>
                 if accept stored then Inr readback
                 else (case left_err u of
                     Some updateErr \<Rightarrow> Inl updateErr
                   | None \<Rightarrow> Inl (Plain ''NodeClaim base-firewall assignment fence changed during readback''))))
   }"

definition stored_assignment :: "createFenceRecord \<Rightarrow> string \<Rightarrow> (baseFirewallAssignmentRecord \<Rightarrow> bool) \<Rightarrow> bool" where
  "stored_assignment stored vmUUID ok =
     (baseFirewallAssignmentMatches (cf_BaseFirewallAssignment stored) vmUUID (cl_FirewallUUID (cf_Cleanup stored))
      \<and> (case cf_BaseFirewallAssignment stored of None \<Rightarrow> False | Some a \<Rightarrow> ok a))"

definition reissue :: "baseFirewallAssignmentRecord \<Rightarrow> string \<Rightarrow> time \<Rightarrow> baseFirewallAssignmentRecord" where
  "reissue a issueID t = a\<lparr>bfa_Phase := FirewallAssignmentIssued, bfa_IssueID := issueID, bfa_IssuedAt := Some t,
     bfa_RejectedAt := None, bfa_ObservedAt := None\<rparr>"

text \<open>
  The result of an authorization is the NodeClaim, what was authorized and the error; a loop that was
  not resolved goes on with another claim and error.
\<close>

type_synonym assignment_result = "NodeClaim option \<times> FirewallAssignmentAuthorization \<times> error option"

definition competing_issue :: "'w kubernetesCreateFenceStore \<Rightarrow> ctx \<Rightarrow> NodeClaim \<Rightarrow> NodeClaim \<Rightarrow> createFenceBinding \<Rightarrow> string
    \<Rightarrow> ('w, assignment_result option) prog" where
  "competing_issue s c claim current binding issueID = do {
     g \<leftarrow> GetClaim s c (nc_Name claim);
     ret (case g of
         Inl _ \<Rightarrow> None
       | Inr latest \<Rightarrow>
           if nc_UID latest \<noteq> nc_UID current then None
           else (case fence_of s latest binding of
               Inl _ \<Rightarrow> None
             | Inr stored \<Rightarrow>
                 (case cf_BaseFirewallAssignment stored of
                    None \<Rightarrow> None
                  | Some a \<Rightarrow>
                      if bfa_Phase a = FirewallAssignmentIssued \<and> bfa_IssueID a \<noteq> issueID
                      then Some (Some latest, \<lparr>faa_Fence = firewallAssignmentFenceFromRecord stored, faa_AllowPOST = False\<rparr>, None)
                      else None)))
   }"

definition issueAssignment :: "'w kubernetesCreateFenceStore \<Rightarrow> ctx \<Rightarrow> NodeClaim \<Rightarrow> createFenceBinding \<Rightarrow> string \<Rightarrow> NodeClaim
    \<Rightarrow> createFenceRecord \<Rightarrow> baseFirewallAssignmentRecord \<Rightarrow> ('w, assignment_result + error) prog" where
  "issueAssignment s c claim binding vmUUID current record a = do {
     n \<leftarrow> nonce s;
     case n of
       Inl err \<Rightarrow> ret (Inl (None, no_assignment, Some (Wrap ''generating base-firewall assignment issue identity'' [err])))
     | Inr issueID \<Rightarrow> do {
         t \<leftarrow> now;
         let next = record\<lparr>cf_BaseFirewallAssignment := Some (reissue a issueID t)\<rparr>;
         w \<leftarrow> persistBaseFirewallAssignment s c current binding next (\<lambda>stored. stored_assignment stored vmUUID (\<lambda>value.
           bfa_Phase value = FirewallAssignmentIssued \<and> bfa_IssueID value = issueID \<and> bfa_IssuedAt value = Some t));
         case w of
           Inr written \<Rightarrow> do {
             (authorization, slotErr) \<leftarrow> authorizeBaseFirewallAssignmentSlot s c written next vmUUID;
             ret (Inl (Some written, authorization, slotErr))
           }
         | Inl writeErr \<Rightarrow> do {
             o' \<leftarrow> competing_issue s c claim current binding issueID;
             ret (case o' of Some result \<Rightarrow> Inl result | None \<Rightarrow> Inr writeErr)
           }
       }
   }"

primrec authorizeAssignment_loop :: "'w kubernetesCreateFenceStore \<Rightarrow> ctx \<Rightarrow> createFenceBinding \<Rightarrow> string \<Rightarrow> string \<Rightarrow> nat
    \<Rightarrow> NodeClaim \<Rightarrow> error option \<Rightarrow> ('w, assignment_result) prog" where
  "authorizeAssignment_loop s c binding token vmUUID 0 claim lastErr =
     ret (None, no_assignment, Some (Wrap ''persisting issued base-firewall assignment did not converge'' (non_nil [lastErr])))"
| "authorizeAssignment_loop s c binding token vmUUID (Suc n) claim lastErr = do {
     p \<leftarrow> getProtectedExact s c claim;
     case p of
       Inl err \<Rightarrow> ret (None, no_assignment, Some err)
     | Inr current \<Rightarrow>
         (case fence_of s current binding of
            Inl err \<Rightarrow> ret (None, no_assignment, Some err)
          | Inr record \<Rightarrow>
              if token = [] \<or> cf_Token record \<noteq> token \<or> cf_Phase record \<noteq> createFenceIssued \<or> cf_IssuedAt record = None
                 \<or> cf_CreatedVMUUID record \<noteq> vmUUID \<or> cf_LaunchObservedAt record = None
              then ret (None, no_assignment, Some (Plain ''NodeClaim base-firewall assignment lacks the exact anchored VM attempt''))
              else (case cf_BaseFirewallAssignment record of
                  None \<Rightarrow> do {
                    t \<leftarrow> now;
                    w \<leftarrow> persistBaseFirewallAssignment s c current binding
                      (record\<lparr>cf_BaseFirewallAssignment := Some (newBaseFirewallAssignmentIntent record vmUUID t)\<rparr>)
                      (\<lambda>stored. stored_assignment stored vmUUID (\<lambda>value. bfa_Phase value = FirewallAssignmentIntent));
                    case w of
                      Inl writeErr \<Rightarrow> authorizeAssignment_loop s c binding token vmUUID n claim (Some writeErr)
                    | Inr written \<Rightarrow> authorizeAssignment_loop s c binding token vmUUID n written lastErr
                  }
                | Some a \<Rightarrow>
                    if \<not> baseFirewallAssignmentMatches (Some a) vmUUID (cl_FirewallUUID (cf_Cleanup record))
                    then ret (None, no_assignment, Some (Plain ''NodeClaim base-firewall assignment identity changed''))
                    else if bfa_Phase a = FirewallAssignmentIssued
                    then do {
                      (authorization, slotErr) \<leftarrow> authorizeBaseFirewallAssignmentSlot s c current record vmUUID;
                      ret (Some current, authorization, slotErr)
                    }
                    else if bfa_Phase a = FirewallAssignmentObserved
                    then ret (Some current, \<lparr>faa_Fence = firewallAssignmentFenceFromRecord record, faa_AllowPOST = False\<rparr>, None)
                    else if bfa_Phase a \<noteq> FirewallAssignmentIntent \<and> bfa_Phase a \<noteq> FirewallAssignmentRejected
                    then ret (None, no_assignment, Some (Plain ''NodeClaim has invalid base-firewall assignment phase''))
                    else do {
                      retired \<leftarrow> (if bfa_Phase a = FirewallAssignmentRejected
                        then finishFirewallMutationSlot s c current record firewallMutationAssign vmUUID (bfa_IssueID a) FirewallAssignmentRejected
                        else ret None);
                      case retired of
                        Some slotErr \<Rightarrow>
                          ret (Some current, \<lparr>faa_Fence = firewallAssignmentFenceFromRecord record, faa_AllowPOST = False\<rparr>, Some slotErr)
                      | None \<Rightarrow> do {
                          q \<leftarrow> issueAssignment s c claim binding vmUUID current record a;
                          case q of
                            Inl result \<Rightarrow> ret result
                          | Inr writeErr \<Rightarrow> authorizeAssignment_loop s c binding token vmUUID n claim (Some writeErr)
                        }
                    }))
   }"

definition AuthorizeBaseFirewall :: "'w kubernetesCreateFenceStore \<Rightarrow> ctx \<Rightarrow> NodeClaim \<Rightarrow> createFenceBinding \<Rightarrow> string \<Rightarrow> string
    \<Rightarrow> ('w, assignment_result) prog" where
  "AuthorizeBaseFirewall s c claim binding token vm =
     (let vmUUID = ToLower vm in
      if \<not> createFenceVMUUIDPattern vmUUID
      then ret (None, no_assignment, Some (Plain ''base-firewall authorization requires a canonical VM UUID''))
      else authorizeAssignment_loop s c binding token vmUUID 4 claim None)"

section \<open>Finishing the assignment\<close>

definition finish_assignment :: "baseFirewallAssignmentRecord \<Rightarrow> string \<Rightarrow> time \<Rightarrow> baseFirewallAssignmentRecord" where
  "finish_assignment a terminal t =
     (if terminal = FirewallAssignmentObserved then a\<lparr>bfa_Phase := terminal, bfa_ObservedAt := Some t, bfa_RejectedAt := None\<rparr>
      else a\<lparr>bfa_Phase := terminal, bfa_RejectedAt := Some t, bfa_ObservedAt := None\<rparr>)"

primrec finishAssignment_loop :: "'w kubernetesCreateFenceStore \<Rightarrow> ctx \<Rightarrow> NodeClaim \<Rightarrow> createFenceBinding \<Rightarrow> string \<Rightarrow> string
    \<Rightarrow> string \<Rightarrow> string \<Rightarrow> nat \<Rightarrow> error option \<Rightarrow> ('w, NodeClaim option \<times> error option) prog" where
  "finishAssignment_loop s c claim binding token vmUUID issueID terminal 0 lastErr =
     ret (None, Some (Wrap ''persisting terminal base-firewall assignment did not converge'' (non_nil [lastErr])))"
| "finishAssignment_loop s c claim binding token vmUUID issueID terminal (Suc n) lastErr = do {
     p \<leftarrow> getProtectedExact s c claim;
     case p of
       Inl err \<Rightarrow> ret (None, Some err)
     | Inr current \<Rightarrow>
         (case fence_of s current binding of
            Inl err \<Rightarrow> ret (None, Some err)
          | Inr record \<Rightarrow>
              (case cf_BaseFirewallAssignment record of
                 None \<Rightarrow> ret (None, Some (Plain ''NodeClaim base-firewall assignment identity changed''))
               | Some a \<Rightarrow>
                   if token = [] \<or> cf_Token record \<noteq> token
                      \<or> \<not> baseFirewallAssignmentMatches (Some a) vmUUID (cl_FirewallUUID (cf_Cleanup record))
                   then ret (None, Some (Plain ''NodeClaim base-firewall assignment identity changed''))
                   else if bfa_Phase a = terminal \<and> bfa_IssueID a = issueID
                   then do {
                     slotErr \<leftarrow> finishFirewallMutationSlot s c current record firewallMutationAssign vmUUID issueID terminal;
                     ret (Some current, slotErr)
                   }
                   else if bfa_Phase a \<noteq> FirewallAssignmentIssued \<or> bfa_IssueID a \<noteq> issueID \<or> bfa_IssuedAt a = None
                   then ret (None, Some (Plain ''NodeClaim base-firewall assignment does not match issued receipt''))
                   else do {
                     t \<leftarrow> now;
                     w \<leftarrow> persistBaseFirewallAssignment s c current binding
                       (record\<lparr>cf_BaseFirewallAssignment := Some (finish_assignment a terminal t)\<rparr>)
                       (\<lambda>stored. stored_assignment stored vmUUID (\<lambda>value. bfa_Phase value = terminal \<and> bfa_IssueID value = issueID));
                     case w of
                       Inl writeErr \<Rightarrow> finishAssignment_loop s c claim binding token vmUUID issueID terminal n (Some writeErr)
                     | Inr written \<Rightarrow>
                         (case fence_of s written binding of
                            Inl err \<Rightarrow> ret (Some written, Some err)
                          | Inr stored \<Rightarrow> do {
                              slotErr \<leftarrow> finishFirewallMutationSlot s c written stored firewallMutationAssign vmUUID issueID terminal;
                              ret (Some written, slotErr)
                            })
                   }))
   }"

definition finishBaseFirewallAssignment :: "'w kubernetesCreateFenceStore \<Rightarrow> ctx \<Rightarrow> NodeClaim \<Rightarrow> createFenceBinding \<Rightarrow> string
    \<Rightarrow> string \<Rightarrow> string \<Rightarrow> string \<Rightarrow> ('w, NodeClaim option \<times> error option) prog" where
  "finishBaseFirewallAssignment s c claim binding token vm issueID terminal =
     (let vmUUID = ToLower vm in
      if \<not> createFenceVMUUIDPattern vmUUID \<or> \<not> createFenceKeyHashPattern issueID
         \<or> (terminal \<noteq> FirewallAssignmentObserved \<and> terminal \<noteq> FirewallAssignmentRejected)
      then ret (None, Some (Plain ''finishing base-firewall assignment requires canonical identity and terminal phase''))
      else finishAssignment_loop s c claim binding token vmUUID issueID terminal 3 None)"

definition ObserveBaseFirewall :: "'w kubernetesCreateFenceStore \<Rightarrow> ctx \<Rightarrow> NodeClaim \<Rightarrow> createFenceBinding \<Rightarrow> string \<Rightarrow> string
    \<Rightarrow> string \<Rightarrow> ('w, NodeClaim option \<times> error option) prog" where
  "ObserveBaseFirewall s c claim binding token vmUUID issueID =
     finishBaseFirewallAssignment s c claim binding token vmUUID issueID FirewallAssignmentObserved"

definition RejectBaseFirewall :: "'w kubernetesCreateFenceStore \<Rightarrow> ctx \<Rightarrow> NodeClaim \<Rightarrow> createFenceBinding \<Rightarrow> string \<Rightarrow> string
    \<Rightarrow> string \<Rightarrow> ('w, NodeClaim option \<times> error option) prog" where
  "RejectBaseFirewall s c claim binding token vmUUID issueID =
     finishBaseFirewallAssignment s c claim binding token vmUUID issueID FirewallAssignmentRejected"

section \<open>Detaching the base firewall\<close>

record FirewallDetachmentAuthorization =
  fda_Fence :: FirewallAssignmentFence
  fda_AllowDELETE :: bool

definition no_detachment :: FirewallDetachmentAuthorization where
  "no_detachment = \<lparr>fda_Fence = faa_Fence no_assignment, fda_AllowDELETE = False\<rparr>"

definition issueDetachment :: "'w kubernetesCreateFenceStore \<Rightarrow> ctx \<Rightarrow> NodeClaim \<Rightarrow> createFenceRecord \<Rightarrow> string
    \<Rightarrow> ('w, FirewallDetachmentAuthorization \<times> error option) prog" where
  "issueDetachment s c current record vmUUID = do {
     i \<leftarrow> nonce s;
     case i of
       Inl err \<Rightarrow> ret (no_detachment, Some (Wrap ''generating base-firewall detachment issue identity'' [err]))
     | Inr issueID \<Rightarrow> do {
         n \<leftarrow> nonce s;
         case n of
           Inl err \<Rightarrow> ret (no_detachment, Some (Wrap ''generating base-firewall detachment acquisition identity'' [err]))
         | Inr acquisitionID \<Rightarrow>
             (case newFirewallMutationSlotRecord current record vmUUID firewallMutationDetach issueID acquisitionID of
                Inl err \<Rightarrow> ret (no_detachment, Some err)
              | Inr desired \<Rightarrow> do {
                  q \<leftarrow> acquireFirewallMutationSlot s c desired;
                  let fence = \<lparr>faf_VMUUID = vmUUID, faf_FirewallUUID = cl_FirewallUUID (cf_Cleanup record),
                        faf_Phase = FirewallAssignmentIssued, faf_IssueID = issueID\<rparr>;
                  ret (case q of
                      Inl err \<Rightarrow> (\<lparr>fda_Fence = fence, fda_AllowDELETE = False\<rparr>, Some err)
                    | Inr allow \<Rightarrow> (\<lparr>fda_Fence = fence, fda_AllowDELETE = allow\<rparr>, None))
                })
       }
   }"

definition AuthorizeBaseFirewallDetach :: "'w kubernetesCreateFenceStore \<Rightarrow> ctx \<Rightarrow> NodeClaim \<Rightarrow> createFenceBinding \<Rightarrow> string
    \<Rightarrow> string \<Rightarrow> ('w, FirewallDetachmentAuthorization \<times> error option) prog" where
  "AuthorizeBaseFirewallDetach s c claim binding token vm =
     (let vmUUID = ToLower vm in
      if \<not> createFenceVMUUIDPattern vmUUID
      then ret (no_detachment, Some (Plain ''base-firewall detachment requires a canonical VM UUID''))
      else do {
        p \<leftarrow> getProtectedExact s c claim;
        case p of
          Inl err \<Rightarrow> ret (no_detachment, Some err)
        | Inr current \<Rightarrow>
            (case fence_of s current binding of
               Inl err \<Rightarrow> ret (no_detachment, Some err)
             | Inr record \<Rightarrow>
                 if token = [] \<or> cf_Token record \<noteq> token \<or> \<not> createFenceOwnsVM record vmUUID
                 then ret (no_detachment, Some (Plain ''NodeClaim does not durably own VM for base-firewall detachment''))
                 else do {
                   r \<leftarrow> getFirewallMutationLedger s c;
                   case r of
                     Inl ledgerErr \<Rightarrow>
                       if errors_is KubeNotFound ledgerErr then issueDetachment s c current record vmUUID
                       else ret (no_detachment, Some ledgerErr)
                   | Inr (lease, ledger) \<Rightarrow>
                       (case slot_at ledger (firewallMutationSlotName (ks_env s) (cl_Location (cf_Cleanup record))
                               (cl_FirewallUUID (cf_Cleanup record))) of
                          None \<Rightarrow> issueDetachment s c current record vmUUID
                        | Some existing \<Rightarrow>
                            if sl_NodeClaimUID existing = nc_UID current \<and> sl_NodeClaimName existing = nc_Name current
                               \<and> sl_Operation existing = firewallMutationDetach \<and> sl_VMUUID existing = vmUUID
                               \<and> (sl_Phase existing = FirewallAssignmentIssued \<or> sl_Phase existing = FirewallAssignmentObserved)
                            then ret (\<lparr>fda_Fence = \<lparr>faf_VMUUID = vmUUID, faf_FirewallUUID = cl_FirewallUUID (cf_Cleanup record),
                                     faf_Phase = sl_Phase existing, faf_IssueID = sl_IssueID existing\<rparr>,
                                   fda_AllowDELETE = False\<rparr>, None)
                            else issueDetachment s c current record vmUUID)
                 })
      })"

definition finishBaseFirewallDetach :: "'w kubernetesCreateFenceStore \<Rightarrow> ctx \<Rightarrow> NodeClaim \<Rightarrow> createFenceBinding \<Rightarrow> string
    \<Rightarrow> FirewallAssignmentFence \<Rightarrow> string \<Rightarrow> ('w, error option) prog" where
  "finishBaseFirewallDetach s c claim binding token fence terminal = do {
     p \<leftarrow> getProtectedExact s c claim;
     case p of
       Inl err \<Rightarrow> ret (Some err)
     | Inr current \<Rightarrow>
         (case fence_of s current binding of
            Inl err \<Rightarrow> ret (Some err)
          | Inr record \<Rightarrow>
              if token = [] \<or> cf_Token record \<noteq> token \<or> \<not> createFenceOwnsVM record (faf_VMUUID fence)
                 \<or> ToLower (cl_FirewallUUID (cf_Cleanup record)) \<noteq> ToLower (faf_FirewallUUID fence)
                 \<or> \<not> createFenceKeyHashPattern (faf_IssueID fence)
              then ret (Some (Plain ''NodeClaim base-firewall detachment identity changed''))
              else finishFirewallMutationSlot s c current record firewallMutationDetach (faf_VMUUID fence) (faf_IssueID fence) terminal)
   }"

definition ObserveBaseFirewallDetach :: "'w kubernetesCreateFenceStore \<Rightarrow> ctx \<Rightarrow> NodeClaim \<Rightarrow> createFenceBinding \<Rightarrow> string
    \<Rightarrow> FirewallAssignmentFence \<Rightarrow> ('w, error option) prog" where
  "ObserveBaseFirewallDetach s c claim binding token fence =
     finishBaseFirewallDetach s c claim binding token fence FirewallAssignmentObserved"

definition RejectBaseFirewallDetach :: "'w kubernetesCreateFenceStore \<Rightarrow> ctx \<Rightarrow> NodeClaim \<Rightarrow> createFenceBinding \<Rightarrow> string
    \<Rightarrow> FirewallAssignmentFence \<Rightarrow> ('w, error option) prog" where
  "RejectBaseFirewallDetach s c claim binding token fence =
     finishBaseFirewallDetach s c claim binding token fence FirewallAssignmentRejected"

end
