(* ===== verification/Karpenter_Server.thy ===== *)
theory Karpenter_Server
  imports Karpenter_Slots
begin

text \<open>
  What the create-fence store relies on: the optimistic concurrency of the Kubernetes API server.
  Everything that happens to NodeClaims and to the ledger Lease, by whatever client, is a log of
  commits. \<open>kube_server\<close> says of the reader and the writer that a call adds commits to that log, of
  which at most one is its own, that an own commit is the write the call asks for, made on the version
  it names, and that a successful read reports what was stored at some moment during the call. An own
  commit may happen although the call fails, and other clients may commit at any time.
\<close>

section \<open>The log\<close>

datatype kube_object = ClaimObject NodeClaim | LeaseObject Lease

datatype kube_key = ClaimKey string | LedgerKey string

record kube_commit =
  kc_key :: kube_key
  kc_old :: "kube_object option"
  kc_new :: "kube_object option"
  kc_own :: bool

definition held :: "kube_commit list \<Rightarrow> kube_key \<Rightarrow> kube_object option" where
  "held log k = (case filter (\<lambda>c. kc_key c = k) log of [] \<Rightarrow> None | cs \<Rightarrow> kc_new (last cs))"

fun object_version :: "kube_object \<Rightarrow> string" where
  "object_version (ClaimObject x) = nc_ResourceVersion x"
| "object_version (LeaseObject x) = le_ResourceVersion x"

fun fits :: "kube_key \<Rightarrow> kube_object \<Rightarrow> bool" where
  "fits (ClaimKey n) (ClaimObject x) = (nc_Name x = n)"
| "fits (LedgerKey _) (LeaseObject x) = (le_Name x = firewallMutationCoordinatorLeaseName)"
| "fits _ _ = False"

text \<open>
  Every commit replaces what was stored; a version denotes one content of an object; the UID of an
  object does not change and is never used again, and a deletion that has begun is not taken back.
\<close>

definition keeps_identity :: "kube_commit \<Rightarrow> bool" where
  "keeps_identity c = (case (kc_old c, kc_new c) of
     (Some (ClaimObject x), Some (ClaimObject y)) \<Rightarrow>
        nc_UID y = nc_UID x \<and> (nc_DeletionTimestamp x \<noteq> None \<longrightarrow> nc_DeletionTimestamp y \<noteq> None)
   | _ \<Rightarrow> True)"

definition kube_log :: "kube_commit list \<Rightarrow> bool" where
  "kube_log log \<longleftrightarrow>
     (\<forall>i < length log. kc_old (log ! i) = held (take i log) (kc_key (log ! i)))
     \<and> (\<forall>c \<in> set log. \<forall>x. kc_new c = Some x \<longrightarrow> fits (kc_key c) x \<and> object_version x \<noteq> [])
     \<and> (\<forall>c \<in> set log. \<forall>d \<in> set log. \<forall>x y. kc_key c = kc_key d \<longrightarrow> kc_new c = Some x \<longrightarrow> kc_new d = Some y
          \<longrightarrow> object_version x = object_version y \<longrightarrow> x = y)
     \<and> (\<forall>c \<in> set log. keeps_identity c)
     \<and> (\<forall>j < length log. \<forall>i < j. \<forall>x y. kc_old (log ! j) = None \<longrightarrow> kc_new (log ! j) = Some (ClaimObject y)
          \<longrightarrow> kc_new (log ! i) = Some (ClaimObject x) \<longrightarrow> nc_UID y \<noteq> nc_UID x)"

definition known :: "kube_commit list \<Rightarrow> kube_object \<Rightarrow> bool" where
  "known log x \<longleftrightarrow> (\<exists>c \<in> set log. kc_new c = Some x)"

definition observed_in :: "kube_commit list \<Rightarrow> kube_commit list \<Rightarrow> kube_key \<Rightarrow> kube_object option \<Rightarrow> bool" where
  "observed_in log new k x \<longleftrightarrow> (\<exists>i \<le> length new. held (log @ take i new) k = x)"

section \<open>Calls\<close>

text \<open>What the server keeps of a NodeClaim that replaces \<open>old\<close>.\<close>

definition same_claim :: "NodeClaim \<Rightarrow> NodeClaim \<Rightarrow> NodeClaim \<Rightarrow> bool" where
  "same_claim old written y \<longleftrightarrow>
     nc_Name y = nc_Name written \<and> nc_UID y = nc_UID old \<and> nc_DeletionTimestamp y = nc_DeletionTimestamp old
     \<and> nc_Finalizers y = nc_Finalizers written \<and> nc_CreateFence y = nc_CreateFence written
     \<and> nc_FloatingIPUpdate y = nc_FloatingIPUpdate written \<and> nc_Removal y = nc_Removal written
     \<and> nc_Resolution y = nc_Resolution written"

definition claim_write :: "NodeClaim \<Rightarrow> kube_commit \<Rightarrow> bool" where
  "claim_write x c \<longleftrightarrow> kc_key c = ClaimKey (nc_Name x)
     \<and> (\<exists>old. kc_old c = Some (ClaimObject old) \<and> (nc_ResourceVersion x \<noteq> [] \<longrightarrow> nc_ResourceVersion old = nc_ResourceVersion x)
         \<and> ((\<exists>y. kc_new c = Some (ClaimObject y) \<and> same_claim old x y) \<or> (nc_Finalizers x = [] \<and> kc_new c = None)))"

definition same_lease :: "Lease \<Rightarrow> Lease \<Rightarrow> bool" where
  "same_lease x y \<longleftrightarrow> le_Name y = le_Name x \<and> le_HolderIdentity y = le_HolderIdentity x \<and> le_Slot y = le_Slot x"

definition lease_write :: "string \<Rightarrow> Lease \<Rightarrow> kube_commit \<Rightarrow> bool" where
  "lease_write ns x c \<longleftrightarrow> kc_key c = LedgerKey ns
     \<and> (\<exists>old y. kc_old c = Some (LeaseObject old) \<and> (le_ResourceVersion x \<noteq> [] \<longrightarrow> le_ResourceVersion old = le_ResourceVersion x)
         \<and> kc_new c = Some (LeaseObject y) \<and> same_lease x y)"

definition lease_creation :: "string \<Rightarrow> Lease \<Rightarrow> kube_commit \<Rightarrow> bool" where
  "lease_creation ns x c \<longleftrightarrow> kc_key c = LedgerKey ns \<and> kc_old c = None \<and> (\<exists>y. kc_new c = Some (LeaseObject y) \<and> same_lease x y)"

definition call_law :: "('w \<Rightarrow> kube_commit list) \<Rightarrow> (kube_commit \<Rightarrow> bool) \<Rightarrow> (kube_commit list \<Rightarrow> kube_commit list \<Rightarrow> 'r \<Rightarrow> bool)
    \<Rightarrow> ('w \<Rightarrow> 'r \<times> nat \<times> 'w) \<Rightarrow> bool" where
  "call_law lg own answer f \<longleftrightarrow>
     (\<forall>w r d w'. kube_log (lg w) \<longrightarrow> f w = (r, d, w') \<longrightarrow>
        (\<exists>new. lg w' = lg w @ new \<and> kube_log (lg w @ new) \<and> length (filter kc_own new) \<le> 1
           \<and> (\<forall>c \<in> set new. kc_own c \<longrightarrow> own c) \<and> answer (lg w) new r))"

abbreviation quiet :: "kube_commit \<Rightarrow> bool" where
  "quiet \<equiv> \<lambda>_. False"

definition kube_server :: "'w kubernetesCreateFenceStore \<Rightarrow> ('w \<Rightarrow> kube_commit list) \<Rightarrow> bool" where
  "kube_server s lg \<longleftrightarrow>
     (\<forall>c n. call_law lg quiet (\<lambda>log new r. case r of
          Inr x \<Rightarrow> observed_in log new (ClaimKey n) (Some (ClaimObject x))
        | Inl e \<Rightarrow> errors_is KubeNotFound e \<longrightarrow> observed_in log new (ClaimKey n) None) (ks_GetClaim s c n))
     \<and> (\<forall>c. call_law lg quiet (\<lambda>_ _ _. True) (ks_ListClaims s c))
     \<and> (\<forall>c x. call_law lg (claim_write x) (\<lambda>_ new r. \<forall>y. r = Inr y \<longrightarrow> nc_Finalizers x \<noteq> []
          \<longrightarrow> (\<exists>k \<in> set new. kc_own k \<and> kc_new k = Some (ClaimObject y))) (ks_UpdateClaim s c x))
     \<and> (\<forall>c. call_law lg quiet (\<lambda>log new r. case r of
          Inr x \<Rightarrow> observed_in log new (LedgerKey (ks_namespace s)) (Some (LeaseObject x))
        | Inl e \<Rightarrow> errors_is KubeNotFound e \<longrightarrow> observed_in log new (LedgerKey (ks_namespace s)) None)
          (ks_GetLease s c (ks_namespace s) firewallMutationCoordinatorLeaseName))
     \<and> (\<forall>c x. call_law lg (lease_creation (ks_namespace s) x) (\<lambda>_ _ _. True) (ks_CreateLease s c (ks_namespace s) x))
     \<and> (\<forall>c x. call_law lg (lease_write (ks_namespace s) x) (\<lambda>_ _ _. True) (ks_UpdateLease s c (ks_namespace s) x))
     \<and> call_law lg quiet (\<lambda>_ _ _. True) (ks_nonce s)"

section \<open>Lemmas on the log\<close>

lemma held_commit: "held log k = Some x \<Longrightarrow> \<exists>c \<in> set log. kc_key c = k \<and> kc_new c = Some x"
proof -
  assume a: "held log k = Some x"
  then have "filter (\<lambda>c. kc_key c = k) log \<noteq> []" and l: "kc_new (last (filter (\<lambda>c. kc_key c = k) log)) = Some x"
    by (auto simp: held_def split: list.splits)
  then have "last (filter (\<lambda>c. kc_key c = k) log) \<in> set (filter (\<lambda>c. kc_key c = k) log)"
    by (intro last_in_set)
  with l show ?thesis by auto
qed

lemma observed_known: "observed_in log new k (Some x) \<Longrightarrow> known (log @ new) x"
  by (fastforce simp: observed_in_def known_def dest!: held_commit dest: in_set_takeD)

lemma known_append: "known log x \<Longrightarrow> known (log @ new) x"
  by (auto simp: known_def)

lemma kube_log_fits: "kube_log log \<Longrightarrow> c \<in> set log \<Longrightarrow> kc_new c = Some x \<Longrightarrow> fits (kc_key c) x \<and> object_version x \<noteq> []"
  unfolding kube_log_def by blast

lemma old_known:
  assumes "kube_log log" and "c \<in> set log" and "kc_old c = Some x"
  shows "\<exists>d \<in> set log. kc_key d = kc_key c \<and> kc_new d = Some x"
proof -
  from assms(2) obtain i where i: "i < length log" "log ! i = c" by (auto simp: in_set_conv_nth)
  with assms have "held (take i log) (kc_key c) = Some x" by (auto simp: kube_log_def)
  from held_commit[OF this] show ?thesis by (auto dest: in_set_takeD)
qed

lemma fits_unique: "fits k (ClaimObject x) \<Longrightarrow> k = ClaimKey (nc_Name x)"
  by (cases k) auto

lemma fits_lease: "fits k (LeaseObject x) \<Longrightarrow> \<exists>ns. k = LedgerKey ns"
  by (cases k) auto

text \<open>A write on the version of a NodeClaim that was read replaces that NodeClaim.\<close>

lemma claim_write_replaces:
  assumes log: "kube_log log" and c: "c \<in> set log" "claim_write x c"
    and cur: "known log (ClaimObject current)" "nc_Name x = nc_Name current" "nc_ResourceVersion x = nc_ResourceVersion current"
    and fin: "nc_Finalizers x \<noteq> []"
  shows "kc_old c = Some (ClaimObject current) \<and> (\<exists>y. kc_new c = Some (ClaimObject y) \<and> same_claim current x y)"
proof -
  from cur(1) obtain d where d: "d \<in> set log" "kc_new d = Some (ClaimObject current)" by (auto simp: known_def)
  with kube_log_fits[OF log d] have dk: "kc_key d = ClaimKey (nc_Name current)" "nc_ResourceVersion current \<noteq> []"
    by (auto dest: fits_unique)
  from c(2) fin cur dk obtain old y where old: "kc_key c = ClaimKey (nc_Name current)" "kc_old c = Some (ClaimObject old)"
      "nc_ResourceVersion old = nc_ResourceVersion current" "kc_new c = Some (ClaimObject y)" "same_claim old x y"
    by (auto simp: claim_write_def)
  from old_known[OF log c(1) old(2)] obtain e where "e \<in> set log" "kc_key e = kc_key c" "kc_new e = Some (ClaimObject old)"
    by auto
  with d dk old log have "ClaimObject old = ClaimObject current" unfolding kube_log_def by (metis object_version.simps(1))
  with old show ?thesis by simp
qed

section \<open>A logic of own commits\<close>

text \<open>
  \<open>ospec P lg log m Q\<close>: started when the history is \<open>log\<close>, all own commits of \<open>m\<close> satisfy \<open>P\<close>, and \<open>Q\<close>
  holds of its result and of the history afterwards.
\<close>

definition ospec :: "(kube_commit \<Rightarrow> bool) \<Rightarrow> ('w \<Rightarrow> kube_commit list) \<Rightarrow> kube_commit list \<Rightarrow> ('w, 'a) prog
    \<Rightarrow> ('a \<Rightarrow> kube_commit list \<Rightarrow> bool) \<Rightarrow> bool" where
  "ospec P lg log m Q = hspec kube_log lg log m (\<lambda>x new. (\<forall>c \<in> set new. kc_own c \<longrightarrow> P c) \<and> Q x (log @ new))"

named_theorems ospec_rules \<open>structural rules of the logic of own commits\<close>

lemma ospec_return [ospec_rules]: "Q x log \<Longrightarrow> ospec P lg log (ret x) Q"
  unfolding ospec_def by (rule hspec_return) simp

lemma ospec_bind:
  assumes "ospec P lg log m Q" and "\<And>x new. Q x (log @ new) \<Longrightarrow> kube_log (log @ new) \<Longrightarrow> ospec P lg (log @ new) (f x) R"
  shows "ospec P lg log (State_Monad.bind m f) R"
  unfolding ospec_def
proof (rule hspec_bind[OF assms(1)[unfolded ospec_def]])
  fix x new
  assume a: "(\<forall>c \<in> set new. kc_own c \<longrightarrow> P c) \<and> Q x (log @ new)" "kube_log (log @ new)"
  from assms(2)[of x new] a show "hspec kube_log lg (log @ new) (f x)
      (\<lambda>y new'. (\<forall>c \<in> set (new @ new'). kc_own c \<longrightarrow> P c) \<and> R y (log @ new @ new'))"
    unfolding ospec_def by (auto elim!: hspec_mono)
qed

lemma ospec_mono: "ospec P lg log m Q \<Longrightarrow> (\<And>x new. Q x (log @ new) \<Longrightarrow> kube_log (log @ new) \<Longrightarrow> R x (log @ new)) \<Longrightarrow> ospec P lg log m R"
  unfolding ospec_def by (auto elim!: hspec_mono)

lemma ospec_now [ospec_rules]: "(\<And>t. ospec P lg log (f t) Q) \<Longrightarrow> ospec P lg log (State_Monad.bind now f) Q"
  unfolding ospec_def by (rule hspec_now)

lemma ospec_if [ospec_rules]:
  "(b \<Longrightarrow> ospec P lg log m Q) \<Longrightarrow> (\<not> b \<Longrightarrow> ospec P lg log n Q) \<Longrightarrow> ospec P lg log (if b then m else n) Q"
  by simp

lemma ospec_sum [ospec_rules]:
  "(\<And>e. x = Inl e \<Longrightarrow> ospec P lg log (f e) Q) \<Longrightarrow> (\<And>y. x = Inr y \<Longrightarrow> ospec P lg log (g y) Q)
   \<Longrightarrow> ospec P lg log (case x of Inl e \<Rightarrow> f e | Inr y \<Rightarrow> g y) Q"
  by (cases x) auto

lemma ospec_option [ospec_rules]:
  "(x = None \<Longrightarrow> ospec P lg log m Q) \<Longrightarrow> (\<And>y. x = Some y \<Longrightarrow> ospec P lg log (g y) Q)
   \<Longrightarrow> ospec P lg log (case x of None \<Rightarrow> m | Some y \<Rightarrow> g y) Q"
  by (cases x) auto

lemma ospec_prod [ospec_rules]:
  "(\<And>y z. x = (y, z) \<Longrightarrow> ospec P lg log (g y z) Q) \<Longrightarrow> ospec P lg log (case x of (y, z) \<Rightarrow> g y z) Q"
  by (cases x) auto

lemma ospec_let [ospec_rules]: "ospec P lg log (g v) Q \<Longrightarrow> ospec P lg log (let x = v in g x) Q"
  by simp

lemma hspec_call_law:
  fixes f :: "'w \<Rightarrow> 'r \<times> nat \<times> 'w"
  assumes "call_law lg own answer f"
  shows "hspec kube_log lg log (call_silent f)
    (\<lambda>r new. length (filter kc_own new) \<le> 1 \<and> (\<forall>c \<in> set new. kc_own c \<longrightarrow> own c) \<and> answer log new r)"
  unfolding hspec_def
proof (intro allI impI)
  fix st :: "'w st"
  assume st: "lg (world st) = log" "kube_log log"
  obtain r d w' where k: "f (world st) = (r, d, w')" by (cases "f (world st)")
  with assms st have "\<exists>new. lg w' = log @ new \<and> kube_log (log @ new) \<and> length (filter kc_own new) \<le> 1
      \<and> (\<forall>c \<in> set new. kc_own c \<longrightarrow> own c) \<and> answer log new r"
    unfolding call_law_def by blast
  with k show "\<exists>new. lg (world (snd (run_state (call_silent f) st))) = log @ new \<and> kube_log (log @ new)
      \<and> length (filter kc_own new) \<le> 1 \<and> (\<forall>c \<in> set new. kc_own c \<longrightarrow> own c) \<and> answer log new (fst (run_state (call_silent f) st))"
    by (simp add: call_silent_def)
qed

lemma ospec_call_law:
  assumes "call_law lg own answer f"
    and "\<And>r new. (\<forall>c \<in> set new. kc_own c \<longrightarrow> own c) \<Longrightarrow> answer log new r \<Longrightarrow> kube_log (log @ new)
      \<Longrightarrow> (\<forall>c \<in> set new. kc_own c \<longrightarrow> P c) \<and> Q r (log @ new)"
  shows "ospec P lg log (call_silent f) Q"
  unfolding ospec_def by (rule hspec_mono[OF hspec_call_law[OF assms(1)]]) (use assms(2) in auto)

lemma server_calls:
  assumes "kube_server s lg"
  shows "call_law lg quiet (\<lambda>log new r. case r of
          Inr x \<Rightarrow> observed_in log new (ClaimKey n) (Some (ClaimObject x))
        | Inl e \<Rightarrow> errors_is KubeNotFound e \<longrightarrow> observed_in log new (ClaimKey n) None) (ks_GetClaim s c n)"
    and "call_law lg quiet (\<lambda>_ _ _. True) (ks_ListClaims s c)"
    and "call_law lg (claim_write x) (\<lambda>_ new r. \<forall>y. r = Inr y \<longrightarrow> nc_Finalizers x \<noteq> []
          \<longrightarrow> (\<exists>k \<in> set new. kc_own k \<and> kc_new k = Some (ClaimObject y))) (ks_UpdateClaim s c x)"
    and "call_law lg quiet (\<lambda>log new r. case r of
          Inr x \<Rightarrow> observed_in log new (LedgerKey (ks_namespace s)) (Some (LeaseObject x))
        | Inl e \<Rightarrow> errors_is KubeNotFound e \<longrightarrow> observed_in log new (LedgerKey (ks_namespace s)) None)
          (ks_GetLease s c (ks_namespace s) firewallMutationCoordinatorLeaseName)"
    and "call_law lg (lease_creation (ks_namespace s) l) (\<lambda>_ _ _. True) (ks_CreateLease s c (ks_namespace s) l)"
    and "call_law lg (lease_write (ks_namespace s) l) (\<lambda>_ _ _. True) (ks_UpdateLease s c (ks_namespace s) l)"
    and "call_law lg quiet (\<lambda>_ _ _. True) (ks_nonce s)"
  using assms unfolding kube_server_def by blast+

definition grown :: "kube_commit list \<Rightarrow> kube_commit list \<Rightarrow> bool" where
  "grown log log' \<longleftrightarrow> (\<forall>x. known log x \<longrightarrow> known log' x)"

lemma grown_append [intro]: "grown log (log @ new)"
  by (simp add: grown_def known_append)

lemma grownD: "grown log log' \<Longrightarrow> known log x \<Longrightarrow> known log' x"
  by (simp add: grown_def)

lemma ospec_GetClaim:
  assumes "kube_server s lg"
  shows "ospec P lg log (GetClaim s c n) (\<lambda>r log'. grown log log' \<and> (\<forall>x. r = Inr x \<longrightarrow> known log' (ClaimObject x)))"
  unfolding GetClaim_def
  by (rule ospec_call_law[OF server_calls(1)[OF assms]]) (auto intro: observed_known)

lemma ospec_ListClaims:
  assumes "kube_server s lg"
  shows "ospec P lg log (ListClaims s c) (\<lambda>_. grown log)"
  unfolding ListClaims_def by (rule ospec_call_law[OF server_calls(2)[OF assms]]) auto

lemma ospec_nonce:
  assumes "kube_server s lg"
  shows "ospec P lg log (nonce s) (\<lambda>_. grown log)"
  unfolding nonce_def by (rule ospec_call_law[OF server_calls(7)[OF assms]]) auto

lemma ospec_GetLease:
  assumes "kube_server s lg"
  shows "ospec P lg log (GetLease s c) (\<lambda>r log'. grown log log' \<and> (\<forall>x. r = Inr x \<longrightarrow> known log' (LeaseObject x)))"
  unfolding GetLease_def
  by (rule ospec_call_law[OF server_calls(4)[OF assms]]) (auto intro: observed_known)

text \<open>A replacement of the NodeClaim that was read.\<close>

lemma ospec_UpdateClaim:
  assumes "kube_server s lg" and "known log (ClaimObject current)"
    and "nc_Name x = nc_Name current" "nc_ResourceVersion x = nc_ResourceVersion current" "nc_Finalizers x \<noteq> []"
    and "\<And>c y. kc_old c = Some (ClaimObject current) \<Longrightarrow> kc_new c = Some (ClaimObject y) \<Longrightarrow> same_claim current x y \<Longrightarrow> P c"
  shows "ospec P lg log (UpdateClaim s c x) (\<lambda>_. grown log)"
  unfolding UpdateClaim_def
proof (rule ospec_call_law[OF server_calls(3)[OF assms(1)]])
  fix r :: "error + NodeClaim" and new
  assume h: "\<forall>c \<in> set new. kc_own c \<longrightarrow> claim_write x c" "kube_log (log @ new)"
  have "P c" if "c \<in> set new" "kc_own c" for c
    using claim_write_replaces[OF h(2) _ _ known_append[OF assms(2)] assms(3-5), of c] that h(1) assms(6) by auto
  then show "(\<forall>c \<in> set new. kc_own c \<longrightarrow> P c) \<and> grown log (log @ new)" by auto
qed

end
