(* ===== verification/Karpenter_Steps.thy ===== *)
theory Karpenter_Steps
  imports Karpenter_Server
begin

text \<open>
  What the create-fence store promises about a NodeClaim and about the firewall ledger, as step
  relations on abstract states: a create attempt goes from reserved to issued once, is then anchored or
  rejected, and an anchored attempt is rolled back or materialized; a receipt of a mutation is issued,
  and issued again only after the previous issue was refused or confirmed; a commit on the ledger writes
  one slot and leaves all others. The step of a slot says what is written, an issue of another mutation or
  the end of the issue that was there; that the previous owner of a slot is audited before it is taken
  over (\<open>firewallMutationSlotTerminal\<close> in \<open>acquire_loop\<close>) is in the model and not in the step.
\<close>

section \<open>The create attempt\<close>

datatype attempt = Reserved | Issued string | Anchored string string | RolledBack string string
  | Rejected string | Materialized string string

definition attempt_of :: "createFenceRecord \<Rightarrow> attempt" where
  "attempt_of r =
     (if cf_Phase r = createFenceReserved then Reserved
      else if cf_Phase r = createFenceRejected then Rejected (cf_IssueID r)
      else if cf_Phase r = createFenceMaterialized then Materialized (cf_IssueID r) (cf_CreatedVMUUID r)
      else if cf_RollbackAt r \<noteq> None then RolledBack (cf_IssueID r) (cf_CreatedVMUUID r)
      else if cf_CreatedVMUUID r = [] then Issued (cf_IssueID r)
      else Anchored (cf_IssueID r) (cf_CreatedVMUUID r))"

inductive attempt_step :: "bool \<Rightarrow> attempt \<Rightarrow> attempt \<Rightarrow> bool" for live where
  issue: "live \<Longrightarrow> attempt_step live Reserved (Issued i)"
| anchor: "vm \<noteq> [] \<Longrightarrow> attempt_step live (Issued i) (Anchored i vm)"
| reject: "attempt_step live (Issued i) (Rejected i)"
| roll_back: "attempt_step live (Anchored i vm) (RolledBack i vm)"
| materialize: "attempt_step live (Anchored i vm) (Materialized i vm)"
| stay: "attempt_step live a a"

inductive_cases attempt_stepE: "attempt_step live a b"

definition same_attempt :: "createFenceRecord \<Rightarrow> createFenceRecord \<Rightarrow> bool" where
  "same_attempt r r' \<longleftrightarrow> cf_Schema r' = cf_Schema r \<and> cf_Binding r' = cf_Binding r \<and> cf_Cleanup r' = cf_Cleanup r \<and> cf_Baseline r' = cf_Baseline r
     \<and> cf_Token r' = cf_Token r \<and> cf_StartedAt r' = cf_StartedAt r
     \<and> (attempt_of r \<noteq> Reserved \<longrightarrow> cf_Intent r' = cf_Intent r \<and> cf_IssuedAt r' = cf_IssuedAt r)"

definition live :: "NodeClaim \<Rightarrow> bool" where
  "live x \<longleftrightarrow> nc_DeletionTimestamp x = None"

definition fence_step :: "fence_env \<Rightarrow> NodeClaim \<Rightarrow> NodeClaim \<Rightarrow> bool" where
  "fence_step env x y \<longleftrightarrow>
     nc_CreateFence y = nc_CreateFence x
   \<or> (nc_CreateFence x = Absent \<and> live x \<and> (\<exists>r'. nc_CreateFence y = Note r' \<and> cf_Schema r' = createFenceSchema \<and> attempt_of r' = Reserved))
   \<or> (\<exists>r r'. decodeCreateFence env (nc_CreateFence x) = Inr r \<and> nc_CreateFence y = Note (wire_fence r')
        \<and> same_attempt r r' \<and> attempt_step (live x) (attempt_of r) (attempt_of r'))"

section \<open>Receipts\<close>

datatype receipt = Unissued | Outstanding string | Refused_receipt string | Confirmed string

definition update_of :: "floatingIPUpdateRecord annotation \<Rightarrow> receipt" where
  "update_of v = (case v of
      Note r \<Rightarrow> if fu_Phase r = FloatingIPUpdateIssued then Outstanding (fu_IssueID r)
                else if fu_Phase r = FloatingIPUpdateObserved then Confirmed (fu_IssueID r)
                else Refused_receipt (fu_IssueID r)
    | _ \<Rightarrow> Unissued)"

definition removal_of :: "(nat \<times> removalMutationRecord) annotation \<Rightarrow> receipt" where
  "removal_of v = (case v of
      Note (_, r) \<Rightarrow> if rr_Phase r = RemovalMutationIssued then Outstanding (rr_IssueID r)
                else if rr_Phase r = RemovalMutationObserved then Confirmed (rr_IssueID r)
                else if rr_Phase r = RemovalMutationRejected then Refused_receipt (rr_IssueID r)
                else Unissued
    | _ \<Rightarrow> Unissued)"

text \<open>
  \<open>receipt_step again\<close>: a refused mutation may be issued again and a confirmed one only if \<open>again\<close>;
  a refusal may turn out to have taken effect after all.
\<close>

inductive receipt_step :: "bool \<Rightarrow> receipt \<Rightarrow> receipt \<Rightarrow> bool" for again where
  first: "receipt_step again Unissued (Outstanding i)"
| retry: "receipt_step again (Refused_receipt j) (Outstanding i)"
| another: "again \<Longrightarrow> receipt_step again (Confirmed j) (Outstanding i)"
| refuse: "receipt_step again (Outstanding i) (Refused_receipt i)"
| confirm: "receipt_step again (Outstanding i) (Confirmed i)"
| late: "again \<Longrightarrow> receipt_step again (Refused_receipt i) (Confirmed i)"
| same: "receipt_step again a a"

inductive_cases receipt_stepE: "receipt_step again a b"

definition update_step :: "NodeClaim \<Rightarrow> NodeClaim \<Rightarrow> bool" where
  "update_step x y \<longleftrightarrow> receipt_step False (update_of (nc_FloatingIPUpdate x)) (update_of (nc_FloatingIPUpdate y))"

text \<open>A journal of removals starts when the attempt is reserved, and is only written under a fence.\<close>

definition removal_step :: "NodeClaim \<Rightarrow> NodeClaim \<Rightarrow> bool" where
  "removal_step x y \<longleftrightarrow>
     (nc_CreateFence x = Absent \<and> live x \<and> removal_of (nc_Removal y) = Unissued)
   \<or> (receipt_step True (removal_of (nc_Removal x)) (removal_of (nc_Removal y))
        \<and> (removal_of (nc_Removal y) \<noteq> removal_of (nc_Removal x) \<longrightarrow> nc_CreateFence y \<noteq> Absent))"

definition claim_step :: "fence_env \<Rightarrow> NodeClaim \<Rightarrow> NodeClaim \<Rightarrow> bool" where
  "claim_step env x y \<longleftrightarrow> fence_step env x y \<and> update_step x y \<and> removal_step x y"

section \<open>The ledger\<close>

definition slots_of :: "fence_env \<Rightarrow> Lease option \<Rightarrow> string \<Rightarrow> firewallMutationSlotRecord option" where
  "slots_of env l k = (case l of None \<Rightarrow> None | Some x \<Rightarrow>
     (case decodeFirewallMutationLedger env x of Inl _ \<Rightarrow> None | Inr ledger \<Rightarrow> slot_at ledger k))"

definition slot_step :: "firewallMutationSlotRecord option \<Rightarrow> firewallMutationSlotRecord \<Rightarrow> bool" where
  "slot_step old v \<longleftrightarrow>
     (sl_Phase v = FirewallAssignmentIssued \<and> (\<forall>u. old = Some u \<longrightarrow> \<not> same_mutation u v))
   \<or> (\<exists>u. old = Some u \<and> sl_Phase u = FirewallAssignmentIssued \<and> v = u\<lparr>sl_Phase := sl_Phase v\<rparr>
        \<and> sl_Phase v \<in> {FirewallAssignmentObserved, FirewallAssignmentRejected})"

definition ledger_step :: "fence_env \<Rightarrow> Lease option \<Rightarrow> Lease \<Rightarrow> bool" where
  "ledger_step env old new \<longleftrightarrow> (\<exists>len ledger key v. le_Slot new = Note (len, ledger)
     \<and> len \<le> maxFirewallMutationLedgerBytes \<and> validateFirewallMutationLedger env ledger = None
     \<and> (\<lambda>k. slot_at ledger k) = (slots_of env old)(key := Some v) \<and> slot_step (slots_of env old key) v)"

definition store_step :: "fence_env \<Rightarrow> kube_commit \<Rightarrow> bool" where
  "store_step env c \<longleftrightarrow>
     (\<exists>x y. kc_old c = Some (ClaimObject x) \<and> kc_new c = Some (ClaimObject y) \<and> claim_step env x y)
   \<or> (\<exists>old y. kc_old c = map_option LeaseObject old \<and> kc_new c = Some (LeaseObject y) \<and> ledger_step env old y)"

section \<open>Facts on records\<close>

lemmas attempt_phases = createFenceReserved_def createFenceIssued_def createFenceRejected_def createFenceMaterialized_def

lemma wire_fence_simps [simp]:
  "attempt_of (wire_fence r) = attempt_of r" "cf_Schema (wire_fence r) = cf_Schema r" "cf_Phase (wire_fence r) = cf_Phase r"
  by (simp_all add: attempt_of_def wire_fence_def)

lemma decode_valid:
  assumes "decodeCreateFence env v = Inr r"
  shows "validateCreateFence env r = None" and "v \<noteq> Absent"
  using assms by (auto simp: decodeCreateFence_def Let_def split: annotation.splits option.splits if_splits)

lemma parse_decode: "parseCreateFence env v b = Inr r \<Longrightarrow> decodeCreateFence env v = Inr r"
  by (auto simp: parseCreateFence_def attempt_ok_def split: sum.splits if_splits)

lemma decode_attempt:
  assumes "decodeCreateFence env (Note r0) = Inr r"
  shows "attempt_of r = attempt_of r0"
  using assms by (auto simp: decodeCreateFence_def Let_def attempt_of_def migrateLegacyCreateFence_def split: option.splits if_splits)

lemma valid_reserved:
  assumes "validateCreateFence env r = None" and "cf_Phase r = createFenceReserved"
  shows "cf_IssuedAt r = None" and "assignment_phase r = Some FirewallAssignmentIntent"
    and "cf_CreatedVMUUID r = []" and "cf_RollbackAt r = None"
  using assms by (auto simp: validateCreateFence_def validPhase_def phase_defs split: if_splits)

lemma valid_phases:
  assumes "validateCreateFence env r = None"
  shows "cf_Schema r = createFenceSchema"
    and "cf_Phase r \<in> {createFenceReserved, createFenceIssued, createFenceRejected, createFenceMaterialized}"
  using assms by (auto simp: validateCreateFence_def validPhase_def split: if_splits)

lemma valid_anchor:
  assumes "validateCreateFence env r = None" and "cf_CreatedVMUUID r = []"
  shows "cf_LaunchObservedAt r = None"
  using assms by (auto simp: validateCreateFence_def validCreatedIdentity_def createFenceVMUUIDPattern_def uuid_any_def
      split: if_splits dest: match_classes_length)

end
