(* ===== verification/Karpenter_Proofs.thy ===== *)
theory Karpenter_Proofs
  imports Karpenter_Steps
begin

text \<open>
  The operations on an issued attempt only take steps of the abstract attempt, whatever other clients
  commit in between.
\<close>

section \<open>Decisions\<close>

definition moves :: "bool \<Rightarrow> createFenceRecord \<Rightarrow> createFenceRecord \<Rightarrow> bool" where
  "moves b r r' \<longleftrightarrow> same_attempt r r' \<and> attempt_step b (attempt_of r) (attempt_of r')"

text \<open>What only concerns the details of an attempt does not move it.\<close>

lemma moves_stay:
  assumes "same_attempt r r'" and "attempt_of r' = attempt_of r"
  shows "moves b r r'"
  using assms by (simp add: moves_def attempt_step.stay)

lemma detail_same [simp]:
  "same_attempt r (r\<lparr>cf_ProtectionFailureAt := a\<rparr>)" "same_attempt r (r\<lparr>cf_TerminalCleanup := tc\<rparr>)"
  "same_attempt r (r\<lparr>cf_BaseFirewallAssignment := f\<rparr>)" "same_attempt r r"
  by (simp_all add: same_attempt_def)

lemma detail_attempt [simp]:
  "attempt_of (r\<lparr>cf_ProtectionFailureAt := a\<rparr>) = attempt_of r" "attempt_of (r\<lparr>cf_TerminalCleanup := tc\<rparr>) = attempt_of r"
  "attempt_of (r\<lparr>cf_BaseFirewallAssignment := f\<rparr>) = attempt_of r"
  by (simp_all add: attempt_of_def)

lemma uuid_nonempty: "createFenceVMUUIDPattern u \<Longrightarrow> u \<noteq> []"
  by (auto simp: createFenceVMUUIDPattern_def uuid_any_def dest: match_classes_length)

lemma ToLower_nonempty [simp]: "ToLower u = [] \<longleftrightarrow> u = []"
  by (simp add: ToLower_def)

lemma issued_attempt:
  assumes "cf_Phase r = createFenceIssued"
  shows "attempt_of r = (if cf_RollbackAt r \<noteq> None then RolledBack (cf_IssueID r) (cf_CreatedVMUUID r)
    else if cf_CreatedVMUUID r = [] then Issued (cf_IssueID r) else Anchored (cf_IssueID r) (cf_CreatedVMUUID r))"
  using assms by (simp add: attempt_of_def phase_defs)

lemma created_moves:
  assumes "created_decide token issueID vm t current r = Commit r'" and "vm \<noteq> []"
  shows "moves b r r'"
  using assms
  by (auto simp: created_decide_def moves_def same_attempt_def issued_attempt attempt_step.anchor split: if_splits option.splits)

lemma failure_moves: "failure_decide token issueID vm t current r = Commit r' \<Longrightarrow> moves b r r'"
  by (auto simp: failure_decide_def moves_stay split: if_splits option.splits)

lemma recovery_moves: "recovery_decide token issueID vm t current r = Commit r' \<Longrightarrow> moves b r r'"
  by (auto simp: recovery_decide_def moves_stay split: if_splits)

lemma applyCleanupResolution_frame:
  assumes "applyCleanupResolution t r x = Inr r'"
  shows "\<exists>rs. r' = r\<lparr>cf_CleanupResolvedAt := Some t, cf_CleanupVMUUID := cf_CleanupVMUUID r',
    cf_CleanupFloatingIPName := cf_CleanupFloatingIPName r', cf_CleanupPublicIPv4 := cf_CleanupPublicIPv4 r', cf_CleanupResolutions := rs\<rparr>"
  using assms by (auto simp: applyCleanupResolution_def attempt_ok_def split: sum.splits)

lemma applyCleanupResolution_same:
  assumes "applyCleanupResolution t r x = Inr r'"
  shows "same_attempt r0 r' \<longleftrightarrow> same_attempt r0 r" and "attempt_of r' = attempt_of r"
    and "cf_Phase r' = cf_Phase r" and "cf_RollbackAt r' = cf_RollbackAt r" and "cf_CreatedVMUUID r' = cf_CreatedVMUUID r"
    and "cf_IssueID r' = cf_IssueID r"
  using assms by (auto simp: applyCleanupResolution_def attempt_ok_def same_attempt_def attempt_of_def split: sum.splits)

lemma rollback_moves:
  assumes "rollback_decide token issueID vm canonical t current r = Commit r'" and "vm \<noteq> []"
  shows "moves b r r'"
proof -
  from assms have ph: "cf_Phase r = createFenceIssued" "cf_CreatedVMUUID r \<noteq> []"
    by (auto simp: rollback_decide_def split: if_splits)
  obtain x where "same_attempt r r'" "cf_Phase r' = cf_Phase r" "cf_CreatedVMUUID r' = cf_CreatedVMUUID r"
      "cf_IssueID r' = cf_IssueID r" "cf_RollbackAt r' = Some x"
    using assms(1) by (auto simp: rollback_decide_def Let_def same_attempt_def applyCleanupResolution_def attempt_ok_def
        split: if_splits option.splits sum.splits)
  with ph show ?thesis
    by (auto simp: moves_def issued_attempt intro: attempt_step.intros)
qed

lemma reject_moves:
  assumes "reject_decide token issueID t current r = Commit r'"
  shows "moves b r r'"
proof -
  from assms have "cf_Phase r = createFenceIssued" "cf_CreatedVMUUID r = []" "cf_RollbackAt r = None"
      "same_attempt r r'" "cf_Phase r' = createFenceRejected" "cf_IssueID r' = cf_IssueID r"
    by (auto simp: reject_decide_def same_attempt_def split: if_splits option.splits)
  then show ?thesis by (simp add: moves_def issued_attempt attempt_of_def[of r'] phase_defs attempt_step.reject)
qed

lemma materialize_moves:
  assumes "materialize_decide binding token vm t current r = Commit r'"
  shows "moves b r r'"
proof -
  from assms have "cf_Phase r = createFenceIssued" "cf_RollbackAt r = None" "cf_CreatedVMUUID r \<noteq> []"
      "same_attempt r r'" "cf_Phase r' = createFenceMaterialized" "cf_IssueID r' = cf_IssueID r" "cf_CreatedVMUUID r' = cf_CreatedVMUUID r"
    by (auto simp: materialize_decide_def validateMaterializedVM_def same_attempt_def Let_def dest: uuid_nonempty
        split: if_splits option.splits)
  then show ?thesis by (simp add: moves_def issued_attempt attempt_of_def[of r'] phase_defs attempt_step.materialize)
qed

lemma terminal_moves: "terminal_decide token vm t current r = Commit r' \<Longrightarrow> moves b r r'"
  by (auto simp: terminal_decide_def moves_stay split: if_splits option.splits)

lemma issue_moves:
  assumes "cf_Phase r = createFenceReserved" and "cf_RollbackAt r = None" and "cf_CreatedVMUUID r = []"
  shows "moves True r (issue_fence r intent i t a)"
  using assms by (simp add: moves_def same_attempt_def attempt_of_def issue_fence_def phase_defs attempt_step.issue)

section \<open>Writes of a fence\<close>

lemma fence_write_step:
  assumes "fence_of s current binding = Inr r" and "moves (live current) r r'" and "same_claim current (with_fence current r') y"
  shows "claim_step (ks_env s) current y"
proof -
  from assms(3) have y: "nc_CreateFence y = Note (wire_fence r')" "nc_FloatingIPUpdate y = nc_FloatingIPUpdate current"
      "nc_Removal y = nc_Removal current"
    by (simp_all add: same_claim_def with_fence_def)
  with assms(2) parse_decode[OF assms(1)] show ?thesis
    by (auto simp: claim_step_def fence_step_def update_step_def removal_step_def moves_def intro: receipt_step.same)
qed

lemma ContainsFinalizer_nonempty: "ContainsFinalizer x f \<Longrightarrow> nc_Finalizers x \<noteq> []"
  by (auto simp: ContainsFinalizer_def)

lemma with_fence_simps [simp]:
  "nc_Name (with_fence x r) = nc_Name x" "nc_ResourceVersion (with_fence x r) = nc_ResourceVersion x"
  "nc_Finalizers (with_fence x r) = nc_Finalizers x" "nc_UID (with_fence x r) = nc_UID x"
  by (simp_all add: with_fence_def)

lemma ospec_write_fence:
  assumes "kube_server s lg" and "known log (ClaimObject current)" and "nc_Finalizers current \<noteq> []"
    and "fence_of s current binding = Inr r" and "moves (live current) r r'"
  shows "ospec (store_step (ks_env s)) lg log (UpdateClaim s c (with_fence current r')) (\<lambda>_. grown log)"
  by (rule ospec_UpdateClaim[OF assms(1,2)]) (use assms(3-) fence_write_step in \<open>auto simp: store_step_def\<close>)

section \<open>Reads\<close>

lemma ospec_getExact:
  assumes "kube_server s lg"
  shows "ospec P lg log (getExact s c claim) (\<lambda>r log'. \<forall>x. r = Inr x \<longrightarrow> known log' (ClaimObject x) \<and> live x \<and> nc_UID x = nc_UID claim)"
  unfolding getExact_def
  by (intro ospec_rules ospec_bind[OF ospec_GetClaim[OF assms]]) (auto simp: live_def split: sum.splits if_splits)

lemma ospec_getProtectedExact:
  assumes "kube_server s lg"
  shows "ospec P lg log (getProtectedExact s c claim)
    (\<lambda>r log'. \<forall>x. r = Inr x \<longrightarrow> known log' (ClaimObject x) \<and> nc_Finalizers x \<noteq> [] \<and> nc_UID x = nc_UID claim)"
  unfolding getProtectedExact_def
  by (intro ospec_rules ospec_bind[OF ospec_GetClaim[OF assms]])
    (auto split: sum.splits if_splits dest: ContainsFinalizer_nonempty)

lemma ospec_detached:
  assumes "\<And>d. ospec P lg log (f d) Q"
  shows "ospec P lg log (State_Monad.bind detachedCreateFenceContext f) Q"
proof (rule ospec_bind[where Q = "\<lambda>_ l. l = log"])
  show "ospec P lg log detachedCreateFenceContext (\<lambda>_ l. l = log)"
    unfolding detachedCreateFenceContext_def by (intro ospec_rules) simp
qed (use assms in auto)

section \<open>The loop\<close>

lemma ospec_fence_loop:
  assumes server: "kube_server s lg"
    and moves: "\<And>t current r r'. fence_of s current binding = Inr r \<Longrightarrow> decide t current r = Commit r' \<Longrightarrow> moves (live current) r r'"
  shows "ospec (store_step (ks_env s)) lg log (fence_loop s c claim binding check decide judge n lastErr) (\<lambda>_ _. True)"
proof (induction n arbitrary: lastErr log)
  case 0
  then show ?case by (auto intro: ospec_rules)
next
  case (Suc n)
  have decided: "ospec (store_step (ks_env s)) lg l
      (case decide t current r of
         Answer res \<Rightarrow> ret res
       | Commit next \<Rightarrow> State_Monad.bind (UpdateClaim s c (with_fence current next)) (\<lambda>u. State_Monad.bind (GetClaim s c (nc_Name claim)) (\<lambda>g. k next u g)))
      (\<lambda>_ _. True)"
    if "known l (ClaimObject current)" "nc_Finalizers current \<noteq> []" "fence_of s current binding = Inr r"
      and "\<And>l next u g. ospec (store_step (ks_env s)) lg l (k next u g) (\<lambda>_ _. True)"
    for l t current r k
    using that
    by (cases "decide t current r")
      (auto intro!: ospec_rules ospec_bind[OF ospec_write_fence[OF server]] ospec_bind[OF ospec_GetClaim[OF server]] moves)
  show ?case
    by (auto intro!: ospec_rules ospec_bind[OF ospec_getProtectedExact[OF server]] decided Suc.IH
        split: option.splits verdict.splits)
qed

end
