(* ===== verification/Karpenter_Refinement.thy ===== *)
theory Karpenter_Refinement
  imports Karpenter_Proofs
begin

text \<open>
  Every commit of every operation of the store is a step of the abstract attempt, receipts and ledger.
\<close>

section \<open>Reserving and issuing the attempt\<close>

lemma AddFinalizer_simps [simp]:
  "nc_Name (AddFinalizer x f) = nc_Name x" "nc_ResourceVersion (AddFinalizer x f) = nc_ResourceVersion x"
  "nc_Finalizers (AddFinalizer x f) \<noteq> []" "nc_CreateFence (AddFinalizer x f) = nc_CreateFence x"
  "nc_FloatingIPUpdate (AddFinalizer x f) = nc_FloatingIPUpdate x" "nc_Removal (AddFinalizer x f) = nc_Removal x"
  by (auto simp: AddFinalizer_def ContainsFinalizer_def)

lemma reserve_step:
  assumes "nc_CreateFence current = Absent" and "live current" and "cf_Schema r = createFenceSchema" and "cf_Phase r = createFenceReserved"
    and "same_claim current (AddFinalizer ((with_fence current r)\<lparr>nc_Removal := Note (len, newRemovalMutationReadyRecord b tok t)\<rparr>) f) y"
  shows "claim_step env current y"
  using assms
  by (auto simp: claim_step_def fence_step_def update_step_def removal_step_def same_claim_def with_fence_def removal_of_def
      newRemovalMutationReadyRecord_def removal_phase_defs attempt_of_def wire_fence_def intro: receipt_step.same)

lemma ospec_persist:
  assumes "kube_server s lg" and "known log (ClaimObject current)" and "nc_CreateFence current = Absent" and "live current"
    and "cf_Schema r = createFenceSchema" and "cf_Phase r = createFenceReserved"
  shows "ospec (store_step (ks_env s)) lg log (persist s c current binding r) (\<lambda>_ _. True)"
  unfolding persist_def Let_def
proof (rule ospec_bind[OF ospec_UpdateClaim[OF assms(1,2)]])
  fix k :: kube_commit and y
  assume "kc_old k = Some (ClaimObject current)" "kc_new k = Some (ClaimObject y)"
    and "same_claim current (AddFinalizer ((with_fence current r)\<lparr>nc_Removal := Note (length (marshal (json_removalMutationRecord
      (ks_rfc3339 s) (newRemovalMutationReadyRecord binding (cf_Token r) (cf_StartedAt r)))),
      newRemovalMutationReadyRecord binding (cf_Token r) (cf_StartedAt r))\<rparr>) CreateFenceFinalizer) y"
  then show "store_step (ks_env s) k" using reserve_step[OF assms(3-6)] by (auto simp: store_step_def)
qed (auto intro!: ospec_rules ospec_bind[OF ospec_GetClaim[OF assms(1)]])

lemma ospec_Ensure:
  assumes "kube_server s lg"
  shows "ospec (store_step (ks_env s)) lg log (Ensure s c claim binding cleanup baseline) (\<lambda>_ _. True)"
  unfolding Ensure_def
  by (intro ospec_rules ospec_bind[OF ospec_getExact[OF assms]] ospec_bind[OF ospec_nonce[OF assms]] ospec_persist[OF assms])
    (auto simp: newCreateFenceRecord_def dest: grownD)

lemma ospec_commitAuthorization:
  assumes "kube_server s lg" and "known log (ClaimObject current)" and "nc_Finalizers current \<noteq> []" and "live current"
    and "fence_of s current binding = Inr r" and "cf_Phase r = createFenceReserved"
  shows "ospec (store_step (ks_env s)) lg log (commitAuthorization s c claim binding token intent current r i t a) (\<lambda>_ _. True)"
proof -
  have v: "validateCreateFence (ks_env s) r = None" using parse_decode[OF assms(5)] by (rule decode_valid)
  have "moves (live current) r (issue_fence r intent i t a)"
    using issue_moves[OF assms(6) valid_reserved(4,3)[OF v assms(6)]] assms(4) by simp
  from ospec_write_fence[OF assms(1,2,3,5) this] show ?thesis
    unfolding commitAuthorization_def
    by (rule ospec_bind) (auto intro!: ospec_rules ospec_bind[OF ospec_GetClaim[OF assms(1)]] ospec_detached)
qed

lemma ospec_Authorize:
  assumes "kube_server s lg"
  shows "ospec (store_step (ks_env s)) lg log (Authorize s c claim binding token intent) (\<lambda>_ _. True)"
  unfolding Authorize_def
  by (intro ospec_rules ospec_bind[OF ospec_getExact[OF assms]] ospec_bind[OF ospec_nonce[OF assms]] ospec_commitAuthorization[OF assms])
    (auto dest: grownD ContainsFinalizer_nonempty)

lemma ospec_store_Get:
  assumes "kube_server s lg"
  shows "ospec P lg log (store_Get s c claim binding cleanup) (\<lambda>_ _. True)"
  unfolding store_Get_def by (intro ospec_rules ospec_bind[OF ospec_getExact[OF assms]]) auto

section \<open>Transitions of the issued attempt\<close>

lemma ospec_transitions:
  assumes "kube_server s lg"
  shows "ospec (store_step (ks_env s)) lg log (RecordCreatedVM s c claim b token i vm) (\<lambda>_ _. True)"
    and "ospec (store_step (ks_env s)) lg log (RecordProtectionFailure s c claim b token i vm) (\<lambda>_ _. True)"
    and "ospec (store_step (ks_env s)) lg log (ClearProtectionFailure s c claim b token i vm) (\<lambda>_ _. True)"
    and "ospec (store_step (ks_env s)) lg log (ChooseRollback s c claim b token i vm res) (\<lambda>_ _. True)"
    and "ospec (store_step (ks_env s)) lg log (MarkRejected s c claim b token i) (\<lambda>_ _. True)"
    and "ospec (store_step (ks_env s)) lg log (MarkMaterialized s c claim b token kvm) (\<lambda>_ _. True)"
    and "ospec (store_step (ks_env s)) lg log (RecordTerminalCleanup s c claim b token vm) (\<lambda>_ _. True)"
  unfolding RecordCreatedVM_def RecordProtectionFailure_def ClearProtectionFailure_def ChooseRollback_def MarkRejected_def
    MarkMaterialized_def RecordTerminalCleanup_def
  by (auto intro!: ospec_rules ospec_fence_loop[OF assms] intro: created_moves failure_moves recovery_moves rollback_moves
      reject_moves materialize_moves terminal_moves dest: uuid_nonempty)

section \<open>Receipts\<close>

lemma update_write_step:
  assumes "receipt_step False (update_of (nc_FloatingIPUpdate current)) (update_of (Note u))"
    and "same_claim current (current\<lparr>nc_FloatingIPUpdate := Note u\<rparr>) y"
  shows "claim_step env current y"
  using assms by (auto simp: claim_step_def fence_step_def update_step_def removal_step_def same_claim_def intro: receipt_step.same)

lemma removal_write_step:
  assumes "receipt_step True (removal_of (nc_Removal current)) (removal_of (Note (len, u)))" and "nc_CreateFence current \<noteq> Absent"
    and "same_claim current (current\<lparr>nc_Removal := Note (len, u)\<rparr>) y"
  shows "claim_step env current y"
  using assms by (auto simp: claim_step_def fence_step_def update_step_def removal_step_def same_claim_def intro: receipt_step.same)

lemma ospec_persistFloatingIPUpdate:
  assumes "kube_server s lg" and "known log (ClaimObject current)" and "nc_Finalizers current \<noteq> []"
    and "receipt_step False (update_of (nc_FloatingIPUpdate current)) (update_of (Note u))"
  shows "ospec (store_step (ks_env s)) lg log (persistFloatingIPUpdate s c current u accept) (\<lambda>_ _. True)"
  unfolding persistFloatingIPUpdate_def
proof (rule ospec_bind[OF ospec_UpdateClaim[OF assms(1,2)]])
  fix k :: kube_commit and y
  assume "kc_old k = Some (ClaimObject current)" "kc_new k = Some (ClaimObject y)" "same_claim current (current\<lparr>nc_FloatingIPUpdate := Note u\<rparr>) y"
  then show "store_step (ks_env s) k" using update_write_step[OF assms(4)] by (auto simp: store_step_def)
qed (use assms(3) in \<open>auto intro!: ospec_rules ospec_bind[OF ospec_GetClaim[OF assms(1)]] ospec_detached\<close>)

lemma ospec_persistRemovalMutation:
  assumes "kube_server s lg" and "known log (ClaimObject current)" and "nc_Finalizers current \<noteq> []" and "nc_CreateFence current \<noteq> Absent"
    and "\<And>len. receipt_step True (removal_of (nc_Removal current)) (removal_of (Note (len, u)))"
  shows "ospec (store_step (ks_env s)) lg log (persistRemovalMutation s c current u accept) (\<lambda>_ _. True)"
  unfolding persistRemovalMutation_def Let_def
proof (rule ospec_if, rule ospec_return, simp, rule ospec_bind[OF ospec_UpdateClaim[OF assms(1,2)]])
  fix k :: kube_commit and y
  assume "kc_old k = Some (ClaimObject current)" "kc_new k = Some (ClaimObject y)"
    "same_claim current (current\<lparr>nc_Removal := Note (length (marshal (json_removalMutationRecord (ks_rfc3339 s) u)), u)\<rparr>) y"
  then show "store_step (ks_env s) k" using removal_write_step[OF assms(5,4)] by (auto simp: store_step_def)
qed (use assms(3) in \<open>auto intro!: ospec_rules ospec_bind[OF ospec_GetClaim[OF assms(1)]] ospec_detached\<close>)

lemma known_update_none:
  assumes "known_update b token desired v = None"
  shows "receipt_step False (update_of v) (update_of (Note (issued_update b token desired i t)))"
  using assms
  by (auto simp: known_update_def update_of_def issued_update_def FloatingIPUpdateIssued_def FloatingIPUpdateObserved_def
      decodeFloatingIPUpdateRecord_def split: if_splits sum.splits annotation.splits intro: receipt_step.first receipt_step.retry)

lemma ospec_authorizeUpdate:
  assumes "kube_server s lg"
  shows "ospec (store_step (ks_env s)) lg log (authorizeUpdate_loop s c b token desired n claim lastErr) (\<lambda>_ _. True)"
proof (induction n arbitrary: claim lastErr log)
  case 0
  then show ?case by (auto intro: ospec_rules)
next
  case (Suc n)
  show ?case unfolding authorizeUpdate_loop.simps
    by (intro ospec_rules ospec_bind[OF ospec_getProtectedExact[OF assms]] ospec_bind[OF ospec_nonce[OF assms]]
        ospec_bind[OF ospec_persistFloatingIPUpdate[OF assms]] Suc.IH known_update_none TrueI) (auto dest: grownD)
qed

lemma finished_update_step:
  assumes "decodeFloatingIPUpdateRecord v b token = Inr r" and "fu_Phase r = FloatingIPUpdateIssued"
    and "terminal \<in> {FloatingIPUpdateObserved, FloatingIPUpdateRejected}"
  shows "receipt_step False (update_of v) (update_of (Note (finished_update r terminal t)))"
  using assms
  by (auto simp: decodeFloatingIPUpdateRecord_def update_of_def finished_update_def FloatingIPUpdateIssued_def FloatingIPUpdateObserved_def
      FloatingIPUpdateRejected_def Let_def split: annotation.splits if_splits intro: receipt_step.refuse receipt_step.confirm)

lemma ospec_finishUpdate:
  assumes "kube_server s lg" and "terminal \<in> {FloatingIPUpdateObserved, FloatingIPUpdateRejected}"
  shows "ospec (store_step (ks_env s)) lg log (finishUpdate_loop s c b token fence terminal n claim lastErr) (\<lambda>_ _. True)"
proof (induction n arbitrary: claim lastErr log)
  case 0
  then show ?case by (auto intro: ospec_rules)
next
  case (Suc n)
  show ?case unfolding finishUpdate_loop.simps
    by (intro ospec_rules ospec_bind[OF ospec_getProtectedExact[OF assms(1)]]
        ospec_bind[OF ospec_persistFloatingIPUpdate[OF assms(1)]] Suc.IH finished_update_step assms(2) TrueI) auto
qed

lemma ospec_updates:
  assumes "kube_server s lg"
  shows "ospec (store_step (ks_env s)) lg log (AuthorizeFloatingIPUpdate s c claim b token vm addr name acc) (\<lambda>_ _. True)"
    and "ospec (store_step (ks_env s)) lg log (ObserveFloatingIPUpdate s c claim b token fence) (\<lambda>_ _. True)"
    and "ospec (store_step (ks_env s)) lg log (RejectFloatingIPUpdate s c claim b token fence) (\<lambda>_ _. True)"
  unfolding AuthorizeFloatingIPUpdate_def ObserveFloatingIPUpdate_def RejectFloatingIPUpdate_def finishFloatingIPUpdate_def
  by (intro ospec_rules ospec_authorizeUpdate[OF assms] ospec_finishUpdate[OF assms] TrueI; simp)+

section \<open>The journal of removals\<close>

lemma decode_removal:
  assumes "decodeRemovalMutationRecord v b token = Inr r"
  shows "\<exists>len. v = Note (len, r)" and "rr_Phase r \<in> {RemovalMutationReady, RemovalMutationIssued, RemovalMutationRejected, RemovalMutationObserved}"
  using assms by (auto simp: decodeRemovalMutationRecord_def split: annotation.splits if_splits)

lemma appendObserved_frame:
  assumes "appendObservedFloatingIPDelete r f t = Inr r'"
  shows "rr_Phase r' = rr_Phase r \<and> rr_IssueID r' = rr_IssueID r"
  using assms by (auto simp: appendObservedFloatingIPDelete_def Let_def split: if_splits option.splits)

lemma issued_removal_step:
  assumes "decodeRemovalMutationRecord v b token = Inr r" and "known_removal r desired present = None"
  shows "receipt_step True (removal_of v) (removal_of (Note (len, issued_removal b token a desired i t)))"
proof -
  from assms(2) have "rr_Phase r \<noteq> RemovalMutationIssued"
    by (auto simp: known_removal_def Let_def removal_phase_defs split: option.splits if_splits)
  with decode_removal[OF assms(1)] show ?thesis
    by (auto simp: removal_of_def issued_removal_def removal_phase_defs intro: receipt_step.first receipt_step.retry receipt_step.another)
qed

lemma ospec_ensureRemoval:
  assumes "kube_server s lg"
  shows "ospec (store_step (ks_env s)) lg log (ensureRemoval_loop s c b token n claim) (\<lambda>_ _. True)"
proof (induction n arbitrary: claim log)
  case 0
  then show ?case by (auto intro: ospec_rules)
next
  case (Suc n)
  have ready: "receipt_step True (removal_of Absent) (removal_of (Note (len, newRemovalMutationReadyRecord b token t)))" for len t
    by (simp add: removal_of_def newRemovalMutationReadyRecord_def removal_phase_defs receipt_step.same)
  show ?case unfolding ensureRemoval_loop.simps
    by (intro ospec_rules ospec_bind[OF ospec_getProtectedExact[OF assms]] ospec_bind[OF ospec_persistRemovalMutation[OF assms]] Suc.IH TrueI)
      (auto simp: ready dest: parse_decode decode_valid(2))
qed

lemma ospec_authorizeRemoval:
  assumes "kube_server s lg"
  shows "ospec (store_step (ks_env s)) lg log (authorizeRemoval_loop s c b token desired present n claim lastErr) (\<lambda>_ _. True)"
proof (induction n arbitrary: claim lastErr log)
  case 0
  then show ?case by (auto intro: ospec_rules)
next
  case (Suc n)
  show ?case unfolding authorizeRemoval_loop.simps
    by (intro ospec_rules ospec_bind[OF ospec_getProtectedExact[OF assms]] ospec_bind[OF ospec_nonce[OF assms]]
        ospec_bind[OF ospec_persistRemovalMutation[OF assms]] Suc.IH issued_removal_step TrueI)
      (auto dest: grownD parse_decode decode_valid(2))
qed

lemma finish_removal_step:
  assumes "decodeRemovalMutationRecord v b token = Inr r" and "finish_removal fence terminal t r = Inr (Some r')"
    and "terminal \<in> {RemovalMutationObserved, RemovalMutationRejected}"
  shows "receipt_step True (removal_of v) (removal_of (Note (len, r')))"
proof -
  have "rr_IssueID r' = rr_IssueID r \<and> rr_Phase r' = terminal \<and> (rr_Phase r = terminal \<or> rr_Phase r = RemovalMutationIssued
      \<or> (rr_Phase r = RemovalMutationRejected \<and> terminal = RemovalMutationObserved))"
    using assms(2,3) by (auto simp: finish_removal_def Let_def removal_phase_defs map_sum_def split: if_splits sum.splits
        dest!: appendObserved_frame)
  with decode_removal[OF assms(1)] assms(3) show ?thesis
    by (auto simp: removal_of_def removal_phase_defs intro: receipt_step.intros)
qed

lemma ospec_finishRemoval:
  assumes "kube_server s lg" and "terminal \<in> {RemovalMutationObserved, RemovalMutationRejected}"
  shows "ospec (store_step (ks_env s)) lg log (finishRemoval_loop s c b token fence terminal n claim lastErr) (\<lambda>_ _. True)"
proof (induction n arbitrary: claim lastErr log)
  case 0
  then show ?case by (auto intro: ospec_rules)
next
  case (Suc n)
  show ?case unfolding finishRemoval_loop.simps
    by (intro ospec_rules ospec_bind[OF ospec_getProtectedExact[OF assms(1)]]
        ospec_bind[OF ospec_persistRemovalMutation[OF assms(1)]] Suc.IH finish_removal_step TrueI)
      (use assms(2) in \<open>auto dest: parse_decode decode_valid(2)\<close>)
qed

lemma ospec_removals:
  assumes "kube_server s lg"
  shows "ospec (store_step (ks_env s)) lg log (EnsureRemovalFence s c claim b token) (\<lambda>_ _. True)"
    and "ospec (store_step (ks_env s)) lg log (AuthorizeRemovalMutation s c claim b token m present) (\<lambda>_ _. True)"
    and "ospec (store_step (ks_env s)) lg log (ObserveRemovalMutation s c claim b token fence) (\<lambda>_ _. True)"
    and "ospec (store_step (ks_env s)) lg log (RejectRemovalMutation s c claim b token fence) (\<lambda>_ _. True)"
  unfolding EnsureRemovalFence_def AuthorizeRemovalMutation_def ObserveRemovalMutation_def RejectRemovalMutation_def finishRemovalMutation_def
  by (intro ospec_rules ospec_ensureRemoval[OF assms] ospec_authorizeRemoval[OF assms] ospec_finishRemoval[OF assms] TrueI; simp)+

end
