(* ===== verification/Karpenter_Ledger.thy ===== *)
theory Karpenter_Ledger
  imports Karpenter_Refinement
begin

text \<open>
  The firewall ledger: every commit of the store on the coordinating Lease changes one slot, either to
  a new issue or from an issue to its terminal phase.
\<close>

section \<open>Writes of the Lease\<close>

lemma lease_write_replaces:
  assumes log: "kube_log log" and c: "c \<in> set log" "lease_write ns x c"
    and cur: "known log (LeaseObject lease)" "kc_key c = LedgerKey ns \<Longrightarrow> \<exists>d \<in> set log. kc_key d = LedgerKey ns \<and> kc_new d = Some (LeaseObject lease)"
      "le_ResourceVersion x = le_ResourceVersion lease"
  shows "kc_old c = Some (LeaseObject lease) \<and> (\<exists>y. kc_new c = Some (LeaseObject y) \<and> same_lease x y)"
proof -
  from c(2) have k: "kc_key c = LedgerKey ns" by (simp add: lease_write_def)
  with cur(2) obtain d where d: "d \<in> set log" "kc_key d = LedgerKey ns" "kc_new d = Some (LeaseObject lease)" by auto
  from kube_log_fits[OF log d(1,3)] have ne: "le_ResourceVersion lease \<noteq> []" by simp
  with c(2) cur(3) obtain old y where old: "kc_old c = Some (LeaseObject old)" "le_ResourceVersion old = le_ResourceVersion lease"
      "kc_new c = Some (LeaseObject y)" "same_lease x y"
    by (auto simp: lease_write_def)
  from old_known[OF log c(1) old(1)] obtain e where "e \<in> set log" "kc_key e = kc_key c" "kc_new e = Some (LeaseObject old)"
    by auto
  with d k old log have "LeaseObject old = LeaseObject lease" unfolding kube_log_def by (metis object_version.simps(2))
  with old show ?thesis by simp
qed

text \<open>A Lease that was read at the key of the ledger.\<close>

definition ledger_known :: "string \<Rightarrow> kube_commit list \<Rightarrow> Lease \<Rightarrow> bool" where
  "ledger_known ns log lease \<longleftrightarrow> (\<exists>d \<in> set log. kc_key d = LedgerKey ns \<and> kc_new d = Some (LeaseObject lease))"

lemma ledger_known_append: "ledger_known ns log x \<Longrightarrow> ledger_known ns (log @ new) x"
  by (auto simp: ledger_known_def)

definition ledger_grown :: "string \<Rightarrow> kube_commit list \<Rightarrow> kube_commit list \<Rightarrow> bool" where
  "ledger_grown ns log log' \<longleftrightarrow> (\<forall>x. ledger_known ns log x \<longrightarrow> ledger_known ns log' x)"

lemma ledger_grown_append [intro]: "ledger_grown ns log (log @ new)"
  by (simp add: ledger_grown_def ledger_known_append)

lemma ledger_grownD: "ledger_grown ns log log' \<Longrightarrow> ledger_known ns log x \<Longrightarrow> ledger_known ns log' x"
  by (simp add: ledger_grown_def)

lemma ospec_getLedger:
  assumes "kube_server s lg"
  shows "ospec P lg log (getFirewallMutationLedger s c) (\<lambda>r log'. \<forall>lease ledger. r = Inr (lease, ledger) \<longrightarrow>
    ledger_known (ks_namespace s) log' lease \<and> decodeFirewallMutationLedger (ks_env s) lease = Inr ledger)"
proof -
  have "ospec P lg log (GetLease s c) (\<lambda>r log'. \<forall>x. r = Inr x \<longrightarrow> ledger_known (ks_namespace s) log' x)"
    unfolding GetLease_def
    by (rule ospec_call_law[OF server_calls(4)[OF assms]])
      (fastforce simp: observed_in_def ledger_known_def dest!: held_commit dest: in_set_takeD split: sum.splits)
  then show ?thesis unfolding getFirewallMutationLedger_def
    by (rule ospec_bind) (auto intro!: ospec_rules simp: attempt_ok_def split: sum.splits)
qed

lemma encode_valid:
  assumes "encodeFirewallMutationLedger env l = Inr (len, l')"
  shows "l' = l" and "len \<le> maxFirewallMutationLedgerBytes" and "validateFirewallMutationLedger env l = None"
  using assms by (auto simp: encodeFirewallMutationLedger_def Let_def split: option.splits if_splits)

lemma slot_at_set: "(\<lambda>k. slot_at (set_slot ledger key v) k) = (\<lambda>k. slot_at ledger k)(key := Some v)"
  by (auto simp: slot_at_def set_slot_def split: option.splits)

lemma update_ledger_step:
  assumes "decodeFirewallMutationLedger env lease = Inr ledger" and "encodeFirewallMutationLedger env (set_slot ledger key v) = Inr encoded"
    and "slot_step (slot_at ledger key) v" and "le_Slot y = Note encoded"
  shows "ledger_step env (Some lease) y"
proof -
  obtain len l where e: "encoded = (len, l)" by (cases encoded)
  have "slots_of env (Some lease) = (\<lambda>k. slot_at ledger k)" using assms(1) by (simp add: slots_of_def fun_eq_iff)
  with assms e encode_valid[OF assms(2)[unfolded e]] show ?thesis
    unfolding ledger_step_def by (auto simp: slot_at_set intro!: exI[of _ len] exI[of _ "set_slot ledger key v"])
qed

lemma ospec_UpdateLease:
  assumes "kube_server s lg" and "ledger_known (ks_namespace s) log lease" and "decodeFirewallMutationLedger (ks_env s) lease = Inr ledger"
    and "encodeFirewallMutationLedger (ks_env s) (set_slot ledger key v) = Inr encoded" and "slot_step (slot_at ledger key) v"
  shows "ospec (store_step (ks_env s)) lg log (UpdateLease s c (lease\<lparr>le_Slot := Note encoded\<rparr>)) (\<lambda>_. ledger_grown (ks_namespace s) log)"
  unfolding UpdateLease_def
proof (rule ospec_call_law[OF server_calls(6)[OF assms(1)]])
  fix new :: "kube_commit list"
  assume h: "\<forall>c \<in> set new. kc_own c \<longrightarrow> lease_write (ks_namespace s) (lease\<lparr>le_Slot := Note encoded\<rparr>) c" "kube_log (log @ new)"
  from assms(2) have kn: "\<exists>d \<in> set (log @ new). kc_key d = LedgerKey (ks_namespace s) \<and> kc_new d = Some (LeaseObject lease)"
    by (auto simp: ledger_known_def)
  then have k: "known (log @ new) (LeaseObject lease)" by (auto simp: known_def)
  have "store_step (ks_env s) c" if c: "c \<in> set new" "kc_own c" for c
  proof -
    have w: "lease_write (ks_namespace s) (lease\<lparr>le_Slot := Note encoded\<rparr>) c" "c \<in> set (log @ new)" using c h(1) by auto
    from lease_write_replaces[OF h(2) w(2,1) k kn] obtain y
      where "kc_old c = Some (LeaseObject lease)" "kc_new c = Some (LeaseObject y)" "le_Slot y = Note encoded"
      by (auto simp: same_lease_def)
    with update_ledger_step[OF assms(3-5)] show ?thesis by (auto simp: store_step_def intro!: exI[of _ "Some lease"])
  qed
  then show "(\<forall>c \<in> set new. kc_own c \<longrightarrow> store_step (ks_env s) c) \<and> ledger_grown (ks_namespace s) log (log @ new)" by auto
qed

lemma ospec_CreateLease:
  assumes "kube_server s lg" and "sl_Phase v = FirewallAssignmentIssued"
    and "encodeFirewallMutationLedger (ks_env s) \<lparr>led_Schema = firewallMutationLedgerSchema, led_Slots = Some (fmupd key v fmempty)\<rparr> = Inr encoded"
  shows "ospec (store_step (ks_env s)) lg log (CreateLease s c (new_lease encoded)) (\<lambda>_ _. True)"
  unfolding CreateLease_def
proof (rule ospec_call_law[OF server_calls(5)[OF assms(1)]])
  fix new :: "kube_commit list"
  assume h: "\<forall>c \<in> set new. kc_own c \<longrightarrow> lease_creation (ks_namespace s) (new_lease encoded) c"
  obtain len l where e: "encoded = (len, l)" by (cases encoded)
  have slots: "(\<lambda>k. slot_at l k) = (slots_of (ks_env s) None)(key := Some v)"
    using encode_valid(1)[OF assms(3)[unfolded e]] by (auto simp: slot_at_def slots_of_def)
  have "ledger_step (ks_env s) None y" if "le_Slot y = Note encoded" for y
    using that e slots encode_valid[OF assms(3)[unfolded e]] assms(2)
    unfolding ledger_step_def by (auto simp: slot_step_def slots_of_def intro!: exI[of _ len] exI[of _ l] exI[of _ key] exI[of _ v])
  with h show "(\<forall>c \<in> set new. kc_own c \<longrightarrow> store_step (ks_env s) c) \<and> True"
    by (fastforce simp: store_step_def lease_creation_def same_lease_def new_lease_def)
qed

section \<open>Slots\<close>

lemma ospec_readback:
  assumes "kube_server s lg"
  shows "ospec P lg log (readbackOwnFirewallMutationSlot s desired) (\<lambda>_ _. True)"
  unfolding readbackOwnFirewallMutationSlot_def
  by (intro ospec_rules ospec_detached ospec_bind[OF ospec_getLedger[OF assms]] TrueI)

lemma ospec_audit:
  assumes "kube_server s lg"
  shows "ospec P lg log (auditUnresolvedLegacyFirewallMutationOwners s c desired) (\<lambda>_ _. True)"
  unfolding auditUnresolvedLegacyFirewallMutationOwners_def
  by (intro ospec_rules ospec_bind[OF ospec_ListClaims[OF assms]] TrueI)

lemma ospec_calls_grow:
  assumes "ospec P lg log m Q"
  shows "ospec P lg log m (\<lambda>r log'. ledger_grown ns log log')"
  using assms by (rule ospec_mono) auto

lemma ospec_terminal:
  assumes "kube_server s lg"
  shows "ospec P lg log (firewallMutationSlotTerminal s c v) (\<lambda>_. ledger_grown ns log)"
  unfolding firewallMutationSlotTerminal_def
  by (rule ospec_calls_grow[where Q = "\<lambda>_ _. True"])
    (intro ospec_rules ospec_bind[OF ospec_GetClaim[OF assms]] TrueI)

lemma ospec_acquire:
  assumes "kube_server s lg" and "sl_Phase desired = FirewallAssignmentIssued"
  shows "ospec (store_step (ks_env s)) lg log (acquire_loop s c desired n) (\<lambda>_ _. True)"
proof (induction n arbitrary: log)
  case 0
  then show ?case by (auto intro: ospec_rules)
next
  case (Suc n)
  have prior: "ospec (store_step (ks_env s)) lg l (case cur of None \<Rightarrow> ret (Inr True) | Some v \<Rightarrow> firewallMutationSlotTerminal s c v)
      (\<lambda>_. ledger_grown (ks_namespace s) l)" for cur l
    by (cases cur) (auto intro!: ospec_return ospec_terminal[OF assms(1)] simp: ledger_grown_def)
  show ?case unfolding acquire_loop.simps
    by (intro ospec_rules ospec_bind[OF ospec_audit[OF assms(1)]] ospec_bind[OF ospec_getLedger[OF assms(1)]]
        ospec_bind[OF ospec_CreateLease[OF assms]] ospec_bind[OF ospec_readback[OF assms(1)]] ospec_bind[OF prior]
        ospec_bind[OF ospec_UpdateLease[OF assms(1)]] Suc.IH TrueI)
      (use assms(2) in \<open>auto simp: slot_step_def dest: ledger_grownD\<close>)
qed

lemma ospec_finishSlot:
  assumes "kube_server s lg" and "terminal \<in> {FirewallAssignmentObserved, FirewallAssignmentRejected}"
  shows "ospec (store_step (ks_env s)) lg log (finishSlot_loop s c current key operation vm i terminal n) (\<lambda>_ _. True)"
proof (induction n arbitrary: log)
  case 0
  then show ?case by (auto intro: ospec_rules)
next
  case (Suc n)
  show ?case unfolding finishSlot_loop.simps
    by (intro ospec_rules ospec_bind[OF ospec_getLedger[OF assms(1)]] ospec_detached ospec_bind[OF ospec_UpdateLease[OF assms(1)]] Suc.IH TrueI)
      (use assms(2) in \<open>auto simp: slot_step_def\<close>)
qed

lemma ospec_finishFirewallMutationSlot:
  assumes "kube_server s lg"
  shows "ospec (store_step (ks_env s)) lg log (finishFirewallMutationSlot s c current r operation vm i terminal) (\<lambda>_ _. True)"
  unfolding finishFirewallMutationSlot_def by (intro ospec_rules ospec_finishSlot[OF assms] TrueI) auto

lemma new_slot_issued: "newFirewallMutationSlotRecord x r vm operation i a = Inr v \<Longrightarrow> sl_Phase v = FirewallAssignmentIssued"
  by (auto simp: newFirewallMutationSlotRecord_def Let_def split: option.splits)

lemma ospec_authorizeSlot:
  assumes "kube_server s lg"
  shows "ospec (store_step (ks_env s)) lg log (authorizeBaseFirewallAssignmentSlot s c current r vm) (\<lambda>_ _. True)"
  unfolding authorizeBaseFirewallAssignmentSlot_def acquireFirewallMutationSlot_def
  by (intro ospec_rules ospec_bind[OF ospec_nonce[OF assms]] ospec_bind[OF ospec_acquire[OF assms]] TrueI) (auto dest: new_slot_issued)

section \<open>The assignment of the base firewall\<close>

lemma ospec_persistAssignment:
  assumes "kube_server s lg" and "known log (ClaimObject current)" and "nc_Finalizers current \<noteq> []"
    and "fence_of s current b = Inr r"
  shows "ospec (store_step (ks_env s)) lg log (persistBaseFirewallAssignment s c current b (r\<lparr>cf_BaseFirewallAssignment := a\<rparr>) accept) (\<lambda>_ _. True)"
  unfolding persistBaseFirewallAssignment_def
  by (intro ospec_rules ospec_bind[OF ospec_write_fence[OF assms(1-4)]] ospec_detached ospec_bind[OF ospec_GetClaim[OF assms(1)]] TrueI moves_stay) simp_all

lemma ospec_issueAssignment:
  assumes "kube_server s lg" and "known log (ClaimObject current)" and "nc_Finalizers current \<noteq> []"
    and "fence_of s current b = Inr r"
  shows "ospec (store_step (ks_env s)) lg log (issueAssignment s c claim b vm current r a) (\<lambda>_ _. True)"
  unfolding issueAssignment_def competing_issue_def
  by (intro ospec_rules ospec_bind[OF ospec_nonce[OF assms(1)]] ospec_bind[OF ospec_persistAssignment[OF assms(1)]]
      ospec_bind[OF ospec_authorizeSlot[OF assms(1)]] ospec_bind[OF ospec_bind[OF ospec_GetClaim[OF assms(1)]]] TrueI)
    (use assms(2-) in \<open>auto dest: grownD\<close>)

lemma ospec_authorizeAssignment:
  assumes "kube_server s lg"
  shows "ospec (store_step (ks_env s)) lg log (authorizeAssignment_loop s c b token vm n claim lastErr) (\<lambda>_ _. True)"
proof (induction n arbitrary: claim lastErr log)
  case 0
  then show ?case by (auto intro: ospec_rules)
next
  case (Suc n)
  have retired: "ospec (store_step (ks_env s)) lg l (if rejected then finishFirewallMutationSlot s c x r operation vm i terminal else ret None)
      (\<lambda>_ l'. grown l l')" for l x r operation i terminal rejected
    by (auto intro!: ospec_return ospec_mono[OF ospec_finishFirewallMutationSlot[OF assms]] simp: grown_def known_append)
  show ?case unfolding authorizeAssignment_loop.simps
    by (intro ospec_rules ospec_bind[OF ospec_getProtectedExact[OF assms]] ospec_bind[OF ospec_persistAssignment[OF assms]]
        ospec_bind[OF ospec_authorizeSlot[OF assms]] ospec_bind[OF retired] ospec_bind[OF ospec_issueAssignment[OF assms]] Suc.IH TrueI)
      (auto dest: grownD)
qed

lemma ospec_finishAssignment:
  assumes "kube_server s lg"
  shows "ospec (store_step (ks_env s)) lg log (finishAssignment_loop s c claim b token vm i terminal n lastErr) (\<lambda>_ _. True)"
proof (induction n arbitrary: claim lastErr log)
  case 0
  then show ?case by (auto intro: ospec_rules)
next
  case (Suc n)
  show ?case unfolding finishAssignment_loop.simps
    by (intro ospec_rules ospec_bind[OF ospec_getProtectedExact[OF assms]] ospec_bind[OF ospec_persistAssignment[OF assms]]
        ospec_bind[OF ospec_finishFirewallMutationSlot[OF assms]] Suc.IH TrueI)
      (auto dest: grownD)
qed

lemma ospec_detach:
  assumes "kube_server s lg"
  shows "ospec (store_step (ks_env s)) lg log (issueDetachment s c current r vm) (\<lambda>_ _. True)"
  unfolding issueDetachment_def acquireFirewallMutationSlot_def
  by (intro ospec_rules ospec_bind[OF ospec_nonce[OF assms]] ospec_bind[OF ospec_acquire[OF assms]] TrueI) (auto dest: new_slot_issued)

lemma ospec_firewalls:
  assumes "kube_server s lg"
  shows "ospec (store_step (ks_env s)) lg log (AuthorizeBaseFirewall s c claim b token vm) (\<lambda>_ _. True)"
    and "ospec (store_step (ks_env s)) lg log (ObserveBaseFirewall s c claim b token vm i) (\<lambda>_ _. True)"
    and "ospec (store_step (ks_env s)) lg log (RejectBaseFirewall s c claim b token vm i) (\<lambda>_ _. True)"
    and "ospec (store_step (ks_env s)) lg log (AuthorizeBaseFirewallDetach s c claim b token vm) (\<lambda>_ _. True)"
    and "ospec (store_step (ks_env s)) lg log (ObserveBaseFirewallDetach s c claim b token fence) (\<lambda>_ _. True)"
    and "ospec (store_step (ks_env s)) lg log (RejectBaseFirewallDetach s c claim b token fence) (\<lambda>_ _. True)"
  unfolding AuthorizeBaseFirewall_def ObserveBaseFirewall_def RejectBaseFirewall_def finishBaseFirewallAssignment_def
    AuthorizeBaseFirewallDetach_def ObserveBaseFirewallDetach_def RejectBaseFirewallDetach_def finishBaseFirewallDetach_def
  by (intro ospec_rules ospec_authorizeAssignment[OF assms] ospec_finishAssignment[OF assms] ospec_detach[OF assms]
      ospec_bind[OF ospec_getProtectedExact[OF assms]] ospec_bind[OF ospec_getLedger[OF assms]]
      ospec_finishFirewallMutationSlot[OF assms] TrueI)+

end
