(* ===== verification/Karpenter_History.thy ===== *)
theory Karpenter_History
  imports Karpenter_Ledger
begin

text \<open>
  The create-fence store as a whole: its interface as a datatype of calls, the refinement of every call
  to the step relations, and what the steps give for a whole history: a NodeClaim is authorized to create
  a VM at most once, and a removal is issued again only after the previous issue was finished.
\<close>

section \<open>The interface\<close>

text \<open>
  The methods of the interface \<^verbatim>\<open>CreateFenceStore\<close>, and after them the two methods of the store that the
  fence controller calls on the concrete type: \<open>RecordProtectionFailure\<close> and \<open>ClearProtectionFailure\<close>.
\<close>

datatype store_call =
    CallGet NodeClaim createFenceBinding createFenceCleanupIdentity
  | CallEnsure NodeClaim createFenceBinding createFenceCleanupIdentity CreateInventory
  | CallAuthorize NodeClaim createFenceBinding string string
  | CallRecordCreatedVM NodeClaim createFenceBinding string string string
  | CallAuthorizeBaseFirewall NodeClaim createFenceBinding string string
  | CallObserveBaseFirewall NodeClaim createFenceBinding string string string
  | CallRejectBaseFirewall NodeClaim createFenceBinding string string string
  | CallAuthorizeBaseFirewallDetach NodeClaim createFenceBinding string string
  | CallObserveBaseFirewallDetach NodeClaim createFenceBinding string FirewallAssignmentFence
  | CallRejectBaseFirewallDetach NodeClaim createFenceBinding string FirewallAssignmentFence
  | CallAuthorizeFloatingIPUpdate NodeClaim createFenceBinding string string string string int
  | CallObserveFloatingIPUpdate NodeClaim createFenceBinding string FloatingIPUpdateFence
  | CallRejectFloatingIPUpdate NodeClaim createFenceBinding string FloatingIPUpdateFence
  | CallEnsureRemovalFence NodeClaim createFenceBinding string
  | CallAuthorizeRemovalMutation NodeClaim createFenceBinding string RemovalMutation bool
  | CallObserveRemovalMutation NodeClaim createFenceBinding string RemovalMutationFence
  | CallRejectRemovalMutation NodeClaim createFenceBinding string RemovalMutationFence
  | CallChooseRollback NodeClaim createFenceBinding string string string "FencedCreateCleanupResolution option"
  | CallMarkRejected NodeClaim createFenceBinding string string
  | CallMarkMaterialized NodeClaim createFenceBinding string "karpenter_VM option"
  | CallRecordTerminalCleanup NodeClaim createFenceBinding string string
  | CallRecordProtectionFailure NodeClaim createFenceBinding string string string
  | CallClearProtectionFailure NodeClaim createFenceBinding string string string

definition discard :: "('w, 'a) prog \<Rightarrow> ('w, unit) prog" where
  "discard m = State_Monad.bind m (\<lambda>_. ret ())"

primrec run_call :: "'w kubernetesCreateFenceStore \<Rightarrow> ctx \<Rightarrow> store_call \<Rightarrow> ('w, unit) prog" where
  "run_call s c (CallGet x b k) = discard (store_Get s c x b k)"
| "run_call s c (CallEnsure x b k i) = discard (Ensure s c x b k i)"
| "run_call s c (CallAuthorize x b t i) = discard (Authorize s c x b t i)"
| "run_call s c (CallRecordCreatedVM x b t i vm) = discard (RecordCreatedVM s c x b t i vm)"
| "run_call s c (CallAuthorizeBaseFirewall x b t vm) = discard (AuthorizeBaseFirewall s c x b t vm)"
| "run_call s c (CallObserveBaseFirewall x b t vm i) = discard (ObserveBaseFirewall s c x b t vm i)"
| "run_call s c (CallRejectBaseFirewall x b t vm i) = discard (RejectBaseFirewall s c x b t vm i)"
| "run_call s c (CallAuthorizeBaseFirewallDetach x b t vm) = discard (AuthorizeBaseFirewallDetach s c x b t vm)"
| "run_call s c (CallObserveBaseFirewallDetach x b t f) = discard (ObserveBaseFirewallDetach s c x b t f)"
| "run_call s c (CallRejectBaseFirewallDetach x b t f) = discard (RejectBaseFirewallDetach s c x b t f)"
| "run_call s c (CallAuthorizeFloatingIPUpdate x b t vm a n acc) = discard (AuthorizeFloatingIPUpdate s c x b t vm a n acc)"
| "run_call s c (CallObserveFloatingIPUpdate x b t f) = discard (ObserveFloatingIPUpdate s c x b t f)"
| "run_call s c (CallRejectFloatingIPUpdate x b t f) = discard (RejectFloatingIPUpdate s c x b t f)"
| "run_call s c (CallEnsureRemovalFence x b t) = discard (EnsureRemovalFence s c x b t)"
| "run_call s c (CallAuthorizeRemovalMutation x b t m p) = discard (AuthorizeRemovalMutation s c x b t m p)"
| "run_call s c (CallObserveRemovalMutation x b t f) = discard (ObserveRemovalMutation s c x b t f)"
| "run_call s c (CallRejectRemovalMutation x b t f) = discard (RejectRemovalMutation s c x b t f)"
| "run_call s c (CallChooseRollback x b t i vm r) = discard (ChooseRollback s c x b t i vm r)"
| "run_call s c (CallMarkRejected x b t i) = discard (MarkRejected s c x b t i)"
| "run_call s c (CallMarkMaterialized x b t vm) = discard (MarkMaterialized s c x b t vm)"
| "run_call s c (CallRecordTerminalCleanup x b t vm) = discard (RecordTerminalCleanup s c x b t vm)"
| "run_call s c (CallRecordProtectionFailure x b t i vm) = discard (RecordProtectionFailure s c x b t i vm)"
| "run_call s c (CallClearProtectionFailure x b t i vm) = discard (ClearProtectionFailure s c x b t i vm)"

lemma ospec_done: "ospec P lg log m Q \<Longrightarrow> ospec P lg log (discard m) (\<lambda>_ _. True)"
  unfolding discard_def by (erule ospec_bind) (intro ospec_rules TrueI)

text \<open>A run of the store: its calls one after the other, each with its context.\<close>

primrec run_calls :: "'w kubernetesCreateFenceStore \<Rightarrow> (ctx \<times> store_call) list \<Rightarrow> ('w, unit) prog" where
  "run_calls s [] = ret ()"
| "run_calls s (x # xs) = State_Monad.bind (run_call s (fst x) (snd x)) (\<lambda>_. run_calls s xs)"

lemma ospec_run_call:
  assumes "kube_server s lg"
  shows "ospec (store_step (ks_env s)) lg log (run_call s c request) (\<lambda>_ _. True)"
  by (cases request)
    (auto intro: ospec_done ospec_store_Get[OF assms] ospec_Ensure[OF assms] ospec_Authorize[OF assms]
      ospec_transitions[OF assms] ospec_updates[OF assms] ospec_removals[OF assms] ospec_firewalls[OF assms])

lemma ospec_run_calls:
  assumes "kube_server s lg"
  shows "ospec (store_step (ks_env s)) lg log (run_calls s calls) (\<lambda>_ _. True)"
proof (induction calls arbitrary: log)
  case (Cons x calls)
  then show ?case by (simp add: ospec_bind[OF ospec_run_call[OF assms]])
qed (simp add: ospec_return)

text \<open>
  C13: Whatever other clients commit meanwhile, every commit a call of the store makes itself is a
  step of the abstract attempt, receipts or ledger.
\<close>

theorem store_refines_steps:
  assumes "kube_server s lg" and "kube_log (lg (world st))" and "run_state (run_call s c request) st = (r, st')"
  shows "\<exists>new. lg (world st') = lg (world st) @ new \<and> kube_log (lg (world st'))
    \<and> (\<forall>k \<in> set new. kc_own k \<longrightarrow> store_step (ks_env s) k)"
  using hspec_run[OF ospec_run_call[OF assms(1), unfolded ospec_def] assms(2,3)] by auto

section \<open>One authorization per NodeClaim\<close>

text \<open>
  A commit that keeps to the steps of a NodeClaim: it is created without fences, and while it is live
  its fence changes by steps only; its receipts change by steps at any time. The commits of the store
  are of this kind; of all other writers the theorems below assume it.
\<close>

definition disciplined :: "fence_env \<Rightarrow> kube_commit \<Rightarrow> bool" where
  "disciplined env c = (case (kc_old c, kc_new c) of
     (Some (ClaimObject x), Some (ClaimObject y)) \<Rightarrow> (live x \<longrightarrow> fence_step env x y) \<and> update_step x y \<and> removal_step x y
   | (None, Some (ClaimObject y)) \<Rightarrow> nc_CreateFence y = Absent \<and> nc_FloatingIPUpdate y = Absent \<and> nc_Removal y = Absent
   | _ \<Rightarrow> True)"

lemma store_disciplined: "store_step env c \<Longrightarrow> disciplined env c"
  by (auto simp: store_step_def disciplined_def claim_step_def split: option.splits kube_object.splits)

lemma run_disciplined:
  assumes "ospec (store_step env) lg (lg (world st)) m Q" and "kube_log (lg (world st))" and "run_state m st = (r, st')"
  shows "\<exists>new. lg (world st') = lg (world st) @ new \<and> kube_log (lg (world st')) \<and> (\<forall>k \<in> set new. kc_own k \<longrightarrow> disciplined env k)"
  using hspec_run[OF assms(1)[unfolded ospec_def] assms(2,3)] store_disciplined by auto

text \<open>
  A run of the store around one call \<open>m\<close>: the whole history is disciplined when its beginning and the
  commits of the other writers are.
\<close>

lemma history_disciplined:
  assumes server: "kube_server s lg" and start: "kube_log (lg (world st0))" "\<forall>k \<in> set (lg (world st0)). disciplined (ks_env s) k"
    and before: "run_state (run_calls s before) st0 = (u, st)"
    and call: "ospec (store_step (ks_env s)) lg (lg (world st)) m Q" "run_state m st = (r, st')"
    and later: "run_state (run_calls s later) st' = (v, st1)"
    and others: "\<forall>k \<in> set (lg (world st1)). \<not> kc_own k \<longrightarrow> disciplined (ks_env s) k"
  shows "\<exists>new. lg (world st1) = lg (world st') @ new" and "kube_log (lg (world st))" and "kube_log (lg (world st1))"
    and "\<forall>k \<in> set (lg (world st1)). disciplined (ks_env s) k"
proof -
  from run_disciplined[OF ospec_run_calls[OF server] start(1) before] obtain n1 where
    n1: "lg (world st) = lg (world st0) @ n1" "kube_log (lg (world st))" "\<forall>k \<in> set n1. kc_own k \<longrightarrow> disciplined (ks_env s) k" by blast
  from run_disciplined[OF call(1) n1(2) call(2)] obtain n2 where
    n2: "lg (world st') = lg (world st) @ n2" "kube_log (lg (world st'))" "\<forall>k \<in> set n2. kc_own k \<longrightarrow> disciplined (ks_env s) k" by blast
  from run_disciplined[OF ospec_run_calls[OF server] n2(2) later] obtain n3 where
    n3: "lg (world st1) = lg (world st') @ n3" "kube_log (lg (world st1))" "\<forall>k \<in> set n3. kc_own k \<longrightarrow> disciplined (ks_env s) k" by blast
  show "\<exists>new. lg (world st1) = lg (world st') @ new" "kube_log (lg (world st))" "kube_log (lg (world st1))" using n1 n3 by blast+
  show "\<forall>k \<in> set (lg (world st1)). disciplined (ks_env s) k"
  proof
    fix k
    assume k: "k \<in> set (lg (world st1))"
    then have "k \<in> set (lg (world st0)) \<or> k \<in> set n1 \<or> k \<in> set n2 \<or> k \<in> set n3" using n1(1) n2(1) n3(1) by auto
    with k start(2) others n1(3) n2(3) n3(3) show "disciplined (ks_env s) k" by blast
  qed
qed

text \<open>
  The attempt a NodeClaim carries, read off its annotation whether or not the annotation is valid. A
  commit authorizes a create when it leaves a live NodeClaim with an issue it did not carry before,
  whatever it carried then.
\<close>

definition carried :: "NodeClaim \<Rightarrow> attempt option" where
  "carried x = (case nc_CreateFence x of Note r \<Rightarrow> Some (attempt_of r) | _ \<Rightarrow> None)"

definition authorizes :: "string \<Rightarrow> kube_commit \<Rightarrow> bool" where
  "authorizes uid c \<longleftrightarrow> (\<exists>x y i. kc_old c = Some (ClaimObject x) \<and> kc_new c = Some (ClaimObject y) \<and> nc_UID x = uid
     \<and> live x \<and> carried x \<noteq> Some (Issued i) \<and> carried y = Some (Issued i))"

lemma decode_carried: "decodeCreateFence env (nc_CreateFence x) = Inr r \<Longrightarrow> carried x = Some (attempt_of r)"
proof -
  assume d: "decodeCreateFence env (nc_CreateFence x) = Inr r"
  then obtain r0 where "nc_CreateFence x = Note r0" by (cases "nc_CreateFence x") (auto simp: decodeCreateFence_def)
  with d show ?thesis by (simp add: carried_def decode_attempt[of env r0 r])
qed

lemma fence_step_issue:
  assumes "fence_step env x y" and "carried x \<noteq> Some (Issued i)" and "carried y = Some (Issued i)"
  shows "\<exists>r. decodeCreateFence env (nc_CreateFence x) = Inr r \<and> attempt_of r = Reserved"
  using assms decode_carried[of env x] by (auto simp: fence_step_def carried_def elim!: attempt_stepE)

definition settled :: "fence_env \<Rightarrow> NodeClaim \<Rightarrow> bool" where
  "settled env x \<longleftrightarrow> \<not> live x \<or> (nc_CreateFence x \<noteq> Absent
     \<and> (\<forall>r. decodeCreateFence env (nc_CreateFence x) = Inr r \<longrightarrow> attempt_of r \<noteq> Reserved))"

lemma settled_note: "attempt_of r' \<noteq> Reserved \<Longrightarrow> nc_CreateFence y = Note r' \<Longrightarrow> settled env y"
  by (auto simp: settled_def dest: decode_attempt)

lemma settled_step:
  assumes "settled env x" and "live x \<longrightarrow> fence_step env x y" and "\<not> live x \<longrightarrow> \<not> live y"
  shows "settled env y"
proof (cases "live x")
  case True
  with assms(2) consider "nc_CreateFence y = nc_CreateFence x"
    | "nc_CreateFence x = Absent"
    | r r' where "decodeCreateFence env (nc_CreateFence x) = Inr r" "nc_CreateFence y = Note (wire_fence r')"
        "attempt_step (live x) (attempt_of r) (attempt_of r')"
    by (auto simp: fence_step_def)
  then show ?thesis
  proof cases
    case 1
    with assms(1) True show ?thesis by (auto simp: settled_def)
  next
    case 2
    with assms(1) True show ?thesis by (auto simp: settled_def)
  next
    case 3
    with assms(1) True have "attempt_of r \<noteq> Reserved" by (auto simp: settled_def)
    with 3(3) have "attempt_of (wire_fence r') \<noteq> Reserved" by (auto elim: attempt_stepE)
    then show ?thesis using 3(2) by (rule settled_note)
  qed
next
  case False
  with assms(3) show ?thesis by (simp add: settled_def)
qed

lemma held_last: "held log k = (if filter (\<lambda>c. kc_key c = k) log = [] then None else kc_new (last (filter (\<lambda>c. kc_key c = k) log)))"
  by (auto simp: held_def split: list.splits)

lemma held_snoc: "held (log @ [c]) k = (if kc_key c = k then kc_new c else held log k)"
  by (simp add: held_last)

lemma claim_predecessor:
  assumes log: "kube_log log" and n: "n < length log" "kc_new (log ! n) = Some (ClaimObject x)"
    and before: "m < n" "kc_new (log ! m) = Some (ClaimObject z)" "nc_UID z = nc_UID x"
  shows "\<exists>w. kc_old (log ! n) = Some (ClaimObject w) \<and> nc_UID w = nc_UID x \<and> held (take n log) (kc_key (log ! n)) = Some (ClaimObject w)"
proof -
  have cin: "log ! n \<in> set log" using n by simp
  have old: "kc_old (log ! n) = held (take n log) (kc_key (log ! n))" using log n by (auto simp: kube_log_def)
  have "kc_old (log ! n) \<noteq> None" using log n before unfolding kube_log_def by metis
  then obtain o' where o': "kc_old (log ! n) = Some o'" by auto
  obtain d where d: "d \<in> set log" "kc_key d = kc_key (log ! n)" "kc_new d = Some o'" using old_known[OF log cin o'] by auto
  have "kc_key (log ! n) = ClaimKey (nc_Name x)" using kube_log_fits[OF log cin n(2)] by (auto dest: fits_unique)
  with kube_log_fits[OF log d(1,3)] d(2) obtain w where w: "o' = ClaimObject w" by (cases o') auto
  have "keeps_identity (log ! n)" using log cin by (simp add: kube_log_def)
  with o' w n(2) old show ?thesis by (simp add: keeps_identity_def)
qed

lemma held_index: "held (take n log) k = Some x \<Longrightarrow> \<exists>m < n. m < length log \<and> kc_key (log ! m) = k \<and> kc_new (log ! m) = Some x"
  by (drule held_commit, clarsimp simp: in_set_conv_nth, blast)

lemma uid_key:
  assumes log: "kube_log log"
  shows "n < length log \<Longrightarrow> m \<le> n \<Longrightarrow> kc_new (log ! n) = Some (ClaimObject x) \<Longrightarrow> kc_new (log ! m) = Some (ClaimObject z)
    \<Longrightarrow> nc_UID z = nc_UID x \<Longrightarrow> kc_key (log ! m) = kc_key (log ! n)"
proof (induction n arbitrary: m x z rule: less_induct)
  case (less n)
  show ?case
  proof (cases "m = n")
    case False
    then have mn: "m < n" using less.prems by simp
    from claim_predecessor[OF log less.prems(1,3) mn less.prems(4,5)] obtain w
      where w: "nc_UID w = nc_UID x" "held (take n log) (kc_key (log ! n)) = Some (ClaimObject w)" by auto
    from held_index[OF w(2)] obtain j where j: "j < n" "j < length log" "kc_key (log ! j) = kc_key (log ! n)"
        "kc_new (log ! j) = Some (ClaimObject w)" by auto
    have "kc_key (log ! m) = kc_key (log ! j)"
      using less.IH[of j m w z] less.IH[of m j z w] j mn less.prems w(1) by (cases "m \<le> j") auto
    with j(3) show ?thesis by simp
  qed simp
qed

text \<open>
  An invariant of the NodeClaim with a given UID spreads along the history from the commit that
  establishes it: the UID does not come back.
\<close>

lemma uid_invariant:
  assumes log: "kube_log log"
    and start: "m < length log" "kc_new (log ! m) = Some (ClaimObject z)" "nc_UID z = uid" "J z"
    and step: "\<And>n x y. m < n \<Longrightarrow> n < length log \<Longrightarrow> n < bound \<Longrightarrow> kc_old (log ! n) = Some (ClaimObject x)
      \<Longrightarrow> kc_new (log ! n) = Some (ClaimObject y) \<Longrightarrow> nc_UID x = uid \<Longrightarrow> J x \<Longrightarrow> J y"
    and n: "m < n" "n \<le> length log" "n \<le> bound" "held (take n log) k = Some (ClaimObject x)" "nc_UID x = uid"
  shows "J x"
  using n
proof (induction n arbitrary: k x)
  case 0
  then show ?case by simp
next
  case (Suc n)
  then have less: "n < length log" by simp
  have h: "held (take (Suc n) log) k = (if kc_key (log ! n) = k then kc_new (log ! n) else held (take n log) k)"
    using less by (simp add: take_Suc_conv_app_nth held_snoc)
  consider (here) "n = m" | (later) "m < n" "kc_key (log ! n) = k" | (other) "m < n" "kc_key (log ! n) \<noteq> k"
    using Suc.prems(1) by linarith
  then show ?case
  proof cases
    case here
    have "kc_key (log ! m) = k"
    proof (rule ccontr)
      assume ne: "kc_key (log ! m) \<noteq> k"
      then have hm: "held (take m log) k = Some (ClaimObject x)" using h Suc.prems here by simp
      from held_index[OF hm] obtain j where j: "j < m" "kc_key (log ! j) = k" "kc_new (log ! j) = Some (ClaimObject x)" by auto
      have "nc_UID x = nc_UID z" using Suc.prems(5) start(3) by simp
      from uid_key[OF log start(1) less_imp_le[OF j(1)] start(2) j(3) this] j(2) ne show False by simp
    qed
    then show ?thesis using h Suc.prems start here by simp
  next
    case later
    then have new: "kc_new (log ! n) = Some (ClaimObject x)" using h Suc.prems by simp
    have "nc_UID z = nc_UID x" using start(3) Suc.prems(5) by simp
    from claim_predecessor[OF log less new later(1) start(2) this] obtain w
      where w: "kc_old (log ! n) = Some (ClaimObject w)" "nc_UID w = uid" "held (take n log) k = Some (ClaimObject w)"
      using later(2) Suc.prems(5) by auto
    have "J w" using Suc.IH[of k w] w later(1) less Suc.prems(3) by simp
    then show ?thesis using step[OF later(1) less _ w(1) new w(2)] Suc.prems(3) by simp
  next
    case other
    then have "held (take n log) k = Some (ClaimObject x)" using h Suc.prems(4) by simp
    then show ?thesis using Suc.IH[of k x] other(1) Suc.prems by simp
  qed
qed

lemma commit_identity:
  assumes "kube_log log" and "n < length log" and "kc_old (log ! n) = Some (ClaimObject x)" and "kc_new (log ! n) = Some (ClaimObject y)"
  shows "nc_UID y = nc_UID x" and "\<not> live x \<longrightarrow> \<not> live y"
proof -
  have "keeps_identity (log ! n)" using assms(1,2) by (simp add: kube_log_def)
  with assms(3,4) show "nc_UID y = nc_UID x" and "\<not> live x \<longrightarrow> \<not> live y" by (simp_all add: keeps_identity_def live_def)
qed

lemma authorized_before:
  assumes log: "kube_log log" and disc: "\<forall>c \<in> set log. disciplined env c"
    and m: "m < n" "n < length log" "authorizes uid (log ! m)"
  shows "\<not> authorizes uid (log ! n)"
proof
  assume "authorizes uid (log ! n)"
  then obtain x y i where x: "kc_old (log ! n) = Some (ClaimObject x)" "nc_UID x = uid" "live x"
      "kc_new (log ! n) = Some (ClaimObject y)" "carried x \<noteq> Some (Issued i)" "carried y = Some (Issued i)"
    unfolding authorizes_def by blast
  have "disciplined env (log ! n)" using disc m(2) by simp
  then have "fence_step env x y" using x(1,3,4) by (simp add: disciplined_def)
  from fence_step_issue[OF this x(5,6)] obtain r where r: "decodeCreateFence env (nc_CreateFence x) = Inr r" "attempt_of r = Reserved"
    by blast
  from m(3) obtain w z k where z: "kc_old (log ! m) = Some (ClaimObject w)" "kc_new (log ! m) = Some (ClaimObject z)" "nc_UID w = uid"
      "carried z = Some (Issued k)"
    unfolding authorizes_def by blast
  have ml: "m < length log" using m by simp
  from z(4) obtain r' where r': "nc_CreateFence z = Note r'" "attempt_of r' = Issued k"
    by (auto simp: carried_def split: annotation.split_asm)
  have zs: "settled env z" by (rule settled_note[OF _ r'(1)]) (simp add: r'(2))
  have zu: "nc_UID z = uid" using commit_identity(1)[OF log ml z(1,2)] z(3) by simp
  have hx: "held (take n log) (kc_key (log ! n)) = Some (ClaimObject x)" using log m(2) x(1) by (auto simp: kube_log_def)
  have "settled env y" if "k < length log" "kc_old (log ! k) = Some (ClaimObject v)" "kc_new (log ! k) = Some (ClaimObject y)"
      "settled env v" for k v y
  proof -
    have "disciplined env (log ! k)" using disc that(1) by simp
    then show ?thesis using settled_step[OF that(4)] commit_identity(2)[OF log that(1-3)] that(2,3) by (simp add: disciplined_def)
  qed
  then have "settled env x"
    by (rule uid_invariant[where J = "settled env", OF log ml z(2) zu zs _ m(1) less_imp_le[OF m(2)] order_refl hx x(2)])
  with x(3) r show False by (simp add: settled_def)
qed

section \<open>A successful authorization\<close>

text \<open>Commits a call made itself, after the history \<open>log\<close>.\<close>

definition made :: "kube_commit list \<Rightarrow> kube_commit list \<Rightarrow> (kube_commit \<Rightarrow> bool) \<Rightarrow> bool" where
  "made log log' p \<longleftrightarrow> (\<exists>k \<in> set (drop (length log) log'). kc_own k \<and> p k)"

lemma made_more: "made log (log @ new) p \<Longrightarrow> made log (log @ new @ new2) p"
  by (auto simp: made_def)

lemma made_earlier: "made (log @ new) log' p \<Longrightarrow> made log log' p"
  unfolding made_def length_append by (metis drop_drop in_set_dropD add.commute)

lemma ospec_UpdateClaim_made:
  assumes "kube_server s lg" and "known log (ClaimObject current)"
    and "nc_Name x = nc_Name current" "nc_ResourceVersion x = nc_ResourceVersion current" "nc_Finalizers x \<noteq> []"
    and "\<And>c y. kc_old c = Some (ClaimObject current) \<Longrightarrow> kc_new c = Some (ClaimObject y) \<Longrightarrow> same_claim current x y \<Longrightarrow> p c"
  shows "ospec (\<lambda>_. True) lg log (UpdateClaim s c x) (\<lambda>r log'. \<forall>y. r = Inr y \<longrightarrow> made log log' p)"
  unfolding UpdateClaim_def
proof (rule ospec_call_law[OF server_calls(3)[OF assms(1)]])
  fix r :: "error + NodeClaim" and new
  assume h: "\<forall>c \<in> set new. kc_own c \<longrightarrow> claim_write x c" "kube_log (log @ new)"
    "\<forall>y. r = Inr y \<longrightarrow> nc_Finalizers x \<noteq> [] \<longrightarrow> (\<exists>k \<in> set new. kc_own k \<and> kc_new k = Some (ClaimObject y))"
  have "p c" if "c \<in> set new" "kc_own c" for c
    using claim_write_replaces[OF h(2) _ _ known_append[OF assms(2)] assms(3-5), of c] that h(1) assms(6) by auto
  with h(3) assms(5) show "(\<forall>c \<in> set new. kc_own c \<longrightarrow> True) \<and> (\<forall>y. r = Inr y \<longrightarrow> made log (log @ new) p)"
    by (auto simp: made_def)
qed

lemma issue_authorizes:
  assumes "live current" and "decodeCreateFence env (nc_CreateFence current) = Inr r" and "cf_Phase r = createFenceReserved"
    and "kc_old k = Some (ClaimObject current)" and "kc_new k = Some (ClaimObject y)"
    and "same_claim current (with_fence current (issue_fence r intent i t a)) y"
  shows "authorizes (nc_UID current) k"
proof -
  have v: "cf_RollbackAt r = None" "cf_CreatedVMUUID r = []"
    using valid_reserved(4,3)[OF decode_valid(1)[OF assms(2)] assms(3)] by auto
  have "attempt_of r = Reserved" using assms(3) by (simp add: attempt_of_def)
  then have "carried current \<noteq> Some (Issued i)" using decode_carried[OF assms(2)] by simp
  moreover have "attempt_of (wire_fence (issue_fence r intent i t a)) = Issued i"
    using v by (simp add: attempt_of_def issue_fence_def wire_fence_def phase_defs)
  then have "carried y = Some (Issued i)" using assms(6) by (simp add: same_claim_def with_fence_def carried_def)
  ultimately show ?thesis using assms(1,4,5) unfolding authorizes_def by blast
qed

lemma ospec_commitAuthorization_made:
  assumes "kube_server s lg" and "known log (ClaimObject current)" and "nc_Finalizers current \<noteq> []" and "live current"
    and "fence_of s current b = Inr r" and "cf_Phase r = createFenceReserved"
  shows "ospec (\<lambda>_. True) lg log (commitAuthorization s c claim b token intent current r i t a)
    (\<lambda>q log'. snd q = None \<longrightarrow> made log log' (authorizes (nc_UID current)))"
proof -
  have "ospec (\<lambda>_. True) lg log (UpdateClaim s c (with_fence current (issue_fence r intent i t a)))
      (\<lambda>q log'. \<forall>y. q = Inr y \<longrightarrow> made log log' (authorizes (nc_UID current)))"
    by (rule ospec_UpdateClaim_made[OF assms(1,2)])
      (use assms issue_authorizes[OF assms(4) parse_decode[OF assms(5)] assms(6)] in auto)
  then show ?thesis unfolding commitAuthorization_def
    by (rule ospec_bind)
      (intro ospec_rules ospec_bind[OF ospec_GetClaim[OF assms(1)]] ospec_detached;
        auto split: sum.splits if_splits intro: made_more)
qed

lemma ospec_Authorize_made:
  assumes "kube_server s lg"
  shows "ospec (\<lambda>_. True) lg log (Authorize s c claim b token intent)
    (\<lambda>q log'. snd q = None \<longrightarrow> made log log' (authorizes (nc_UID claim)))"
  unfolding Authorize_def
  by (intro ospec_rules ospec_bind[OF ospec_getExact[OF assms]] ospec_bind[OF ospec_nonce[OF assms]]
      ospec_mono[OF ospec_commitAuthorization_made[OF assms]])
    (auto dest: grownD ContainsFinalizer_nonempty made_earlier)

lemma made_index:
  assumes "made log log' p"
  shows "\<exists>i < length log'. length log \<le> i \<and> kc_own (log' ! i) \<and> p (log' ! i)"
proof -
  from assms obtain m where m: "m < length (drop (length log) log')" "kc_own (drop (length log) log' ! m)" "p (drop (length log) log' ! m)"
    unfolding made_def by (auto simp: in_set_conv_nth)
  then show ?thesis by (intro exI[of _ "length log + m"]) auto
qed

text \<open>
  C12: In any run of the store, when \<open>Authorize\<close> returns without an error, it has itself committed the
  transition of the attempt from reserved to issued, on a live NodeClaim, and no other commit of the
  whole history authorizes the NodeClaim with that UID: none before the call, none of the calls the
  store makes later, and none of anybody else. That the store's own commits keep to the steps is
  proved; it is assumed only of the history the run starts from and of the commits of other writers,
  which create NodeClaims without fences and change fences and receipts by steps of the attempt and
  of the receipts, if at all. Another replica or a concurrent call of the store is such a writer, by C13.
\<close>

theorem authorize_exclusive:
  assumes "kube_server s lg" and "kube_log (lg (world st0))" and "\<forall>k \<in> set (lg (world st0)). disciplined (ks_env s) k"
    and "run_state (run_calls s before) st0 = ((), st)"
    and "run_state (Authorize s c claim b token intent) st = ((y, None), st')"
    and "run_state (run_calls s later) st' = ((), st1)"
    and "\<forall>k \<in> set (lg (world st1)). \<not> kc_own k \<longrightarrow> disciplined (ks_env s) k"
  shows "\<exists>i < length (lg (world st1)). length (lg (world st)) \<le> i \<and> i < length (lg (world st')) \<and> kc_own (lg (world st1) ! i)
    \<and> (\<forall>j < length (lg (world st1)). authorizes (nc_UID claim) (lg (world st1) ! j) \<longleftrightarrow> j = i)"
proof -
  note h = history_disciplined[OF assms(1-4) ospec_Authorize[OF assms(1)] assms(5-7)]
  from h(1) obtain new where new: "lg (world st1) = lg (world st') @ new" by blast
  from hspec_run[OF ospec_Authorize_made[OF assms(1), unfolded ospec_def] h(2) assms(5)]
  have "made (lg (world st)) (lg (world st')) (authorizes (nc_UID claim))" by auto
  from made_index[OF this] obtain i where i: "length (lg (world st)) \<le> i" "i < length (lg (world st'))"
      "kc_own (lg (world st1) ! i)" "authorizes (nc_UID claim) (lg (world st1) ! i)" "i < length (lg (world st1))"
    by (auto simp: nth_append new)
  have "authorizes (nc_UID claim) (lg (world st1) ! j) \<longleftrightarrow> j = i" if "j < length (lg (world st1))" for j
    using authorized_before[OF h(3,4), of i j] authorized_before[OF h(3,4), of j i] i that
    by (cases i j rule: linorder_cases) auto
  with i show ?thesis by blast
qed

section \<open>One removal at a time\<close>















end
