(* ===== verification/Karpenter_Valid.thy ===== *)
theory Karpenter_Valid
  imports Karpenter_History
begin

text \<open>
  What a fence is replaced by stays readable: the records the store writes pass the validation of the
  next reader, with one exception, a rollback that is chosen without a receipt.
\<close>

section \<open>The validation, condition by condition\<close>

definition identity_ok :: "fence_env \<Rightarrow> createFenceRecord \<Rightarrow> bool" where
  "identity_ok env r \<longleftrightarrow> cf_Schema r = createFenceSchema \<and> complete_binding (cf_Binding r) \<and> complete_cleanup (cf_Cleanup r)
     \<and> cf_Token r \<noteq> [] \<and> cf_StartedAt r \<noteq> 0
     \<and> \<not> (cl_FirewallProfile (cf_Cleanup r) = FirewallProfilePrivateWorker \<and> cl_NodePoolName (cf_Cleanup r) \<noteq> [])
     \<and> \<not> (public_profile (cf_Cleanup r) \<and> cl_NodePoolName (cf_Cleanup r) = [])
     \<and> (public_profile (cf_Cleanup r) \<longrightarrow> validateNodePoolClaimIdentity env (cl_NodePoolName (cf_Cleanup r)) (cl_NodeClaimName (cf_Cleanup r)) = None)
     \<and> validateCreateInventory (cf_Baseline r) = None"

definition launch_ok :: "createFenceRecord \<Rightarrow> bool" where
  "launch_ok r \<longleftrightarrow> validPhase r \<and> validIntent r \<and> validCreatedIdentity r \<and> validBaseFirewallAssignment r \<and> validRollback r \<and> validProtectionFailure r
     \<and> (cf_Phase r = createFenceMaterialized \<longrightarrow> cf_CreatedVMUUID r \<noteq> [] \<and> cf_CreatedVMUUID r = cf_ObservedVMUUID r \<and> cf_RollbackAt r = None
          \<and> assignment_phase r = Some FirewallAssignmentObserved
          \<and> (let m = \<lparr>res_VMUUID = cf_ObservedVMUUID r, res_FloatingIPName = cf_FloatingIPName r, res_PublicIPv4 = cf_PublicIPv4 r, res_Converged = False\<rparr>
             in normalizeCleanupResolution m = Inr m))
     \<and> (cf_Phase r = createFenceIssued \<longrightarrow> assignment_phase r \<noteq> Some FirewallAssignmentIntent)
     \<and> (cf_Phase r = createFenceReserved \<longrightarrow> cf_CreatedVMUUID r = [] \<and> cf_RollbackAt r = None \<and> assignment_phase r = Some FirewallAssignmentIntent)
     \<and> (cf_Phase r = createFenceRejected \<longrightarrow> cf_CreatedVMUUID r = [] \<and> cf_RollbackAt r = None \<and> assignment_phase r = Some FirewallAssignmentRejected)"

definition receipts_ok :: "createFenceRecord \<Rightarrow> bool" where
  "receipts_ok r \<longleftrightarrow> validCleanupResolution r \<and> length (cf_CleanupResolutions r) \<le> MaxCreateCleanupResolutions
     \<and> (cf_CleanupResolutions r \<noteq> [] \<longrightarrow> cf_CleanupVMUUID r \<noteq> []) \<and> receipts_canonical (cf_CleanupResolutions r)
     \<and> (cf_CleanupVMUUID r \<noteq> [] \<longrightarrow> (\<exists>x \<in> set (cf_CleanupResolutions r). res_VMUUID x = cf_CleanupVMUUID r
          \<and> res_FloatingIPName x = cf_CleanupFloatingIPName r \<and> res_PublicIPv4 x = cf_CleanupPublicIPv4 r))"

definition dependents_ok :: "createFenceRecord \<Rightarrow> bool" where
  "dependents_ok r \<longleftrightarrow> (cf_RollbackAt r = None \<longrightarrow> \<not> cf_DependentUnresolved r \<and> cf_DependentsResolvedAt r = None)
     \<and> cf_DependentsResolvedAt r \<noteq> Some 0 \<and> (cf_RollbackAt r \<noteq> None \<longrightarrow> dispositions r = 1)"

lemma guard_none: "(if b then Some e else x) = None \<longleftrightarrow> \<not> b \<and> x = None"
  by simp

lemma validate_iff:
  "validateCreateFence env r = None \<longleftrightarrow> identity_ok env r \<and> launch_ok r \<and> receipts_ok r \<and> dependents_ok r"
  unfolding validateCreateFence_def identity_ok_def launch_ok_def receipts_ok_def dependents_ok_def Let_def guard_none not_less[symmetric] simp_thms(6)
  by satx

section \<open>Frames\<close>

lemma wire_ok [simp]:
  "identity_ok env (wire_fence r) = identity_ok env r" "launch_ok (wire_fence r) = launch_ok r"
  "dependents_ok (wire_fence r) = dependents_ok r"
  by (simp_all add: identity_ok_def launch_ok_def dependents_ok_def dispositions_def wire_fence_def wire_resolution_def
      validPhase_def validIntent_def validCreatedIdentity_def validBaseFirewallAssignment_def validRollback_def
      validProtectionFailure_def assignment_phase_def cong: option.case_cong)

lemma identity_same: "same_attempt r r' \<Longrightarrow> identity_ok env r' = identity_ok env r"
  by (simp add: same_attempt_def identity_ok_def)

lemma normalize_wire: "normalizeCleanupResolution (wire_resolution x) = Inr (wire_resolution x) \<longleftrightarrow> normalizeCleanupResolution x = Inr x"
  by (auto simp: normalizeCleanupResolution_def wire_resolution_def Let_def split: if_splits) (metis FencedCreateCleanupResolution.surjective FencedCreateCleanupResolution.update_convs(1,4))+

lemma receipts_canonical_wire: "receipts_canonical (map wire_resolution rs) = receipts_canonical rs"
proof (induction rs rule: receipts_canonical.induct)
  case (3 p r rest)
  then show ?case by (simp add: normalize_wire) (simp add: wire_resolution_def)
qed (simp_all add: normalize_wire)

lemma receipts_wire [simp]: "receipts_ok (wire_fence r) = receipts_ok r"
  by (simp add: receipts_ok_def wire_fence_def validCleanupResolution_def receipts_canonical_wire) (simp add: wire_resolution_def)

lemma valid_wire [simp]: "validateCreateFence env (wire_fence r) = None \<longleftrightarrow> validateCreateFence env r = None"
  by (simp add: validate_iff)

lemma decode_current:
  assumes "validateCreateFence env r = None"
  shows "decodeCreateFence env (Note (wire_fence r)) = Inr (wire_fence r)"
proof -
  have "validateCreateFence env (wire_fence r) = None" using assms by simp
  with valid_phases(1)[OF assms] show ?thesis
    by (simp del: valid_wire add: decodeCreateFence_def Let_def createFenceSchema_def legacyCreateFenceSchema_def)
qed

section \<open>New records\<close>

lemma new_fence_valid:
  assumes "complete_binding b" and "complete_cleanup k" and "token \<noteq> []" and "t \<noteq> 0" and "validateCreateInventory baseline = None"
    and "cl_FirewallProfile k = FirewallProfilePrivateWorker \<longrightarrow> cl_NodePoolName k = []"
    and "public_profile k \<longrightarrow> cl_NodePoolName k \<noteq> [] \<and> validateNodePoolClaimIdentity env (cl_NodePoolName k) (cl_NodeClaimName k) = None"
  shows "validateCreateFence env (newCreateFenceRecord b k baseline t token) = None"
  unfolding validate_iff
  using assms
  by (auto simp: identity_ok_def launch_ok_def receipts_ok_def dependents_ok_def newCreateFenceRecord_def validPhase_def validIntent_def
      validCreatedIdentity_def validBaseFirewallAssignment_def validRollback_def validProtectionFailure_def validCleanupResolution_def
      assignment_phase_def phase_defs)

lemmas launch_defs = launch_ok_def validPhase_def validIntent_def validCreatedIdentity_def validBaseFirewallAssignment_def
  validRollback_def validProtectionFailure_def assignment_phase_def

lemma issue_valid:
  assumes "validateCreateFence env r = None" and "cf_Phase r = createFenceReserved" and "intent \<in> {CreateAuthorizationPost, CreateAuthorizationAdoption}"
    and "createFenceKeyHashPattern i" and "createFenceKeyHashPattern a" and "t \<noteq> 0"
  shows "validateCreateFence env (issue_fence r intent i t a) = None"
proof -
  have "same_attempt r (issue_fence r intent i t a)"
    using assms(2) by (simp add: same_attempt_def issue_fence_def attempt_of_def)
  then have "identity_ok env (issue_fence r intent i t a)" using assms(1) identity_same by (auto simp: validate_iff)
  moreover have "launch_ok (issue_fence r intent i t a)"
    using assms by (auto simp: validate_iff launch_defs issue_fence_def phase_defs assignment_phase_defs stamped_def split: option.splits)
  moreover have "receipts_ok (issue_fence r intent i t a)"
    using assms(1) by (auto simp: validate_iff receipts_ok_def issue_fence_def validCleanupResolution_def)
  moreover have "dependents_ok (issue_fence r intent i t a)"
    using assms(1) by (auto simp: validate_iff dependents_ok_def dispositions_def issue_fence_def)
  ultimately show ?thesis by (simp add: validate_iff)
qed

section \<open>Transitions\<close>

lemma valid_from:
  assumes "validateCreateFence env r = None" and "same_attempt r r'" and "launch_ok r'" and "receipts_ok r'" and "dependents_ok r'"
  shows "validateCreateFence env r' = None"
  using assms identity_same by (auto simp: validate_iff)

lemma receipts_frame:
  assumes "cf_CleanupResolutions r' = cf_CleanupResolutions r" "cf_CleanupVMUUID r' = cf_CleanupVMUUID r" "cf_CleanupResolvedAt r' = cf_CleanupResolvedAt r"
    "cf_CleanupFloatingIPName r' = cf_CleanupFloatingIPName r" "cf_CleanupPublicIPv4 r' = cf_CleanupPublicIPv4 r"
  shows "receipts_ok r' = receipts_ok r"
  using assms by (simp add: receipts_ok_def validCleanupResolution_def)

lemma firewall_frame:
  assumes "cf_BaseFirewallAssignment r' = cf_BaseFirewallAssignment r" "cf_Cleanup r' = cf_Cleanup r" "cf_CreatedVMUUID r' = cf_CreatedVMUUID r"
  shows "validBaseFirewallAssignment r' = validBaseFirewallAssignment r"
  unfolding validBaseFirewallAssignment_def assms by (rule refl)

lemmas phase_checks = launch_ok_def validPhase_def validIntent_def validCreatedIdentity_def validRollback_def
  validProtectionFailure_def assignment_phase_def

lemma no_rollback_dependents:
  assumes "dependents_ok r" and "cf_RollbackAt r = None" and "cf_RollbackAt r' = None" and "cf_DependentUnresolved r' = cf_DependentUnresolved r"
    and "cf_DependentsResolvedAt r' = cf_DependentsResolvedAt r"
  shows "dependents_ok r'"
  using assms by (auto simp: dependents_ok_def)

lemma created_valid:
  assumes "validateCreateFence env r = None" and "created_decide token i vm t current r = Commit r'" and "createFenceVMUUIDPattern vm"
    and "vm = ToLower vm" and "t \<noteq> 0"
  shows "validateCreateFence env r' = None"
proof (rule valid_from[OF assms(1)])
  obtain a where r': "r' = r\<lparr>cf_CreatedVMUUID := vm, cf_LaunchObservedAt := Some t, cf_BaseFirewallAssignment := Some (a\<lparr>bfa_VMUUID := vm\<rparr>)\<rparr>"
      and ph: "cf_Phase r = createFenceIssued" "cf_RollbackAt r = None" "cf_CreatedVMUUID r = []" "cf_BaseFirewallAssignment r = Some a"
        "bfa_Phase a = FirewallAssignmentIssued"
    using assms(2) by (auto simp: created_decide_def split: if_splits option.splits)
  show "same_attempt r r'" by (simp add: r' same_attempt_def)
  have v: "launch_ok r" "receipts_ok r" "dependents_ok r" using assms(1) by (simp_all add: validate_iff)
  show "launch_ok r'" using v(1) ph assms(3-5) uuid_nonempty[OF assms(3)]
    by (auto simp: launch_defs r' phase_defs assignment_phase_defs stamped_def)
  show "receipts_ok r'" using v(2) by (subst receipts_frame[of _ r]) (simp_all add: r')
  show "dependents_ok r'" by (rule no_rollback_dependents[OF v(3) ph(2)]) (simp_all add: r' ph)
qed

lemma failure_valid:
  assumes "validateCreateFence env r = None" and "failure_decide token i vm t current r = Commit r'" and "vm \<noteq> []" and "t \<noteq> 0"
  shows "validateCreateFence env r' = None"
proof (rule valid_from[OF assms(1)])
  have r': "r' = r\<lparr>cf_ProtectionFailureAt := Some t\<rparr>" and ph: "cf_Phase r = createFenceIssued" "cf_RollbackAt r = None" "cf_CreatedVMUUID r \<noteq> []"
    using assms(2,3) by (auto simp: failure_decide_def live_anchored_def split: if_splits option.splits)
  show "same_attempt r r'" by (simp add: r')
  have v: "launch_ok r" "receipts_ok r" "dependents_ok r" using assms(1) by (simp_all add: validate_iff)
  have "validBaseFirewallAssignment r' = validBaseFirewallAssignment r" by (rule firewall_frame) (simp_all add: r')
  then show "launch_ok r'" using v(1) ph assms(4) by (auto simp: phase_checks r' phase_defs stamped_def Let_def)
  show "receipts_ok r'" using v(2) by (subst receipts_frame[of _ r]) (simp_all add: r')
  show "dependents_ok r'" by (rule no_rollback_dependents[OF v(3) ph(2)]) (simp_all add: r' ph)
qed

lemma recovery_valid:
  assumes "validateCreateFence env r = None" and "recovery_decide token i vm t current r = Commit r'"
  shows "validateCreateFence env r' = None"
proof (rule valid_from[OF assms(1)])
  have r': "r' = r\<lparr>cf_ProtectionFailureAt := None\<rparr>" and ph: "cf_Phase r = createFenceIssued" "cf_RollbackAt r = None"
    using assms(2) by (auto simp: recovery_decide_def live_anchored_def split: if_splits)
  show "same_attempt r r'" by (simp add: r')
  have v: "launch_ok r" "receipts_ok r" "dependents_ok r" using assms(1) by (simp_all add: validate_iff)
  have "validBaseFirewallAssignment r' = validBaseFirewallAssignment r" by (rule firewall_frame) (simp_all add: r')
  then show "launch_ok r'" using v(1) ph by (auto simp: phase_checks r' phase_defs Let_def)
  show "receipts_ok r'" using v(2) by (subst receipts_frame[of _ r]) (simp_all add: r')
  show "dependents_ok r'" by (rule no_rollback_dependents[OF v(3) ph(2)]) (simp_all add: r' ph)
qed

lemma reject_valid:
  assumes "validateCreateFence env r = None" and "reject_decide token i t current r = Commit r'" and "t \<noteq> 0"
  shows "validateCreateFence env r' = None"
proof (rule valid_from[OF assms(1)])
  obtain a where r': "r' = r\<lparr>cf_Phase := createFenceRejected, cf_BaseFirewallAssignment := Some (a\<lparr>bfa_Phase := FirewallAssignmentRejected, bfa_RejectedAt := Some t\<rparr>)\<rparr>"
      and ph: "cf_Phase r = createFenceIssued" "cf_RollbackAt r = None" "cf_CreatedVMUUID r = []" "cf_BaseFirewallAssignment r = Some a"
        "bfa_Phase a = FirewallAssignmentIssued"
    using assms(2) by (auto simp: reject_decide_def split: if_splits option.splits)
  show "same_attempt r r'" by (simp add: r' same_attempt_def)
  have v: "launch_ok r" "receipts_ok r" "dependents_ok r" using assms(1) by (simp_all add: validate_iff)
  show "launch_ok r'" using v(1) ph assms(3) by (auto simp: launch_defs r' phase_defs assignment_phase_defs stamped_def)
  show "receipts_ok r'" using v(2) by (subst receipts_frame[of _ r]) (simp_all add: r')
  show "dependents_ok r'" by (rule no_rollback_dependents[OF v(3) ph(2)]) (simp_all add: r' ph)
qed

lemma terminal_valid:
  assumes "validateCreateFence env r = None" and "terminal_decide token vm t current r = Commit r'"
  shows "validateCreateFence env r' = None"
proof (rule valid_from[OF assms(1)])
  have r': "r' = r\<lparr>cf_TerminalCleanup := Some (newTerminalCleanupRecord r t)\<rparr>"
    using assms(2) by (auto simp: terminal_decide_def split: if_splits option.splits)
  show "same_attempt r r'" by (simp add: r')
  have v: "launch_ok r" "receipts_ok r" "dependents_ok r" using assms(1) by (simp_all add: validate_iff)
  have "validBaseFirewallAssignment r' = validBaseFirewallAssignment r" by (rule firewall_frame) (simp_all add: r')
  then show "launch_ok r'" using v(1) by (auto simp: phase_checks r' Let_def)
  show "receipts_ok r'" using v(2) by (subst receipts_frame[of _ r]) (simp_all add: r')
  show "dependents_ok r'" using v(3) by (simp add: dependents_ok_def dispositions_def r')
qed

lemma materialize_valid:
  assumes "validateCreateFence env r = None" and "materialize_decide b token vm t current r = Commit r'" and "t \<noteq> 0"
  shows "validateCreateFence env r' = None"
proof (rule valid_from[OF assms(1)])
  obtain v where vm: "validateMaterializedVM r (Some v) = None" "observed_update current b token v = None"
    and r': "r' = r\<lparr>cf_Phase := createFenceMaterialized, cf_ProtectionFailureAt := None, cf_ObservedAt := Some t, cf_ObservedVMUUID := ToLower (kvm_UUID v),
        cf_FloatingIPName := kvm_FloatingIPName v, cf_PublicIPv4 := kvm_PublicIPv4 v\<rparr>"
    and ph: "cf_Phase r = createFenceIssued" "cf_RollbackAt r = None" "cf_CreatedVMUUID r = ToLower (kvm_UUID v)" "cf_LaunchObservedAt r \<noteq> None"
    using assms(2) by (auto simp: materialize_decide_def Let_def phase_defs split: if_splits option.splits)
  show "same_attempt r r'" by (simp add: r' same_attempt_def)
  have k: "launch_ok r" "receipts_ok r" "dependents_ok r" using assms(1) by (simp_all add: validate_iff)
  have name: "kvm_FloatingIPName v \<noteq> []" "kvm_PublicIPv4 v \<noteq> []" "public_ipv4 (kvm_PublicIPv4 v)"
      "assignment_phase r = Some FirewallAssignmentObserved"
    using vm(1) by (auto simp: validateMaterializedVM_def assignment_phase_def split: if_splits option.splits)
  have short: "length (kvm_FloatingIPName v) \<le> 255"
    using vm(2) by (auto simp: observed_update_def decodeFloatingIPUpdateRecord_def validateFloatingIPUpdateFence_def newFloatingIPUpdateFence_def
        floatingIPUpdateFenceFromRecord_def Let_def split: sum.splits if_splits annotation.splits)
  have pat: "createFenceVMUUIDPattern (ToLower (kvm_UUID v))" "ToLower (ToLower (kvm_UUID v)) = ToLower (kvm_UUID v)"
    using k(1) ph(3,4) by (auto simp: launch_ok_def validCreatedIdentity_def)
  have "validBaseFirewallAssignment r' = validBaseFirewallAssignment r" by (rule firewall_frame) (simp_all add: r')
  then show "launch_ok r'" using k(1) ph name short pat assms(3) uuid_nonempty[OF pat(1)]
    by (auto simp: phase_checks r' phase_defs stamped_def Let_def normalizeCleanupResolution_def)
  show "receipts_ok r'" using k(2) by (subst receipts_frame[of _ r]) (simp_all add: r')
  show "dependents_ok r'" by (rule no_rollback_dependents[OF k(3) ph(2)]) (simp_all add: r' ph)
qed

text \<open>The base firewall of an issued attempt is issued, issued again after a refusal, confirmed or refused.\<close>

lemma firewall_valid:
  assumes "validateCreateFence env r = None" and "cf_Phase r = createFenceIssued"
    and "r' = r\<lparr>cf_BaseFirewallAssignment := Some a\<rparr>" and "validBaseFirewallAssignment r'" and "bfa_Phase a \<noteq> FirewallAssignmentIntent"
  shows "validateCreateFence env r' = None"
proof (rule valid_from[OF assms(1)])
  have v: "launch_ok r" "receipts_ok r" "dependents_ok r" using assms(1) by (simp_all add: validate_iff)
  show "same_attempt r r'" by (simp add: assms(3) same_attempt_def)
  show "launch_ok r'" using v(1) assms(2,4,5) by (auto simp: phase_checks assms(3) phase_defs)
  show "receipts_ok r'" using v(2) by (subst receipts_frame[of _ r]) (simp_all add: assms(3))
  show "dependents_ok r'" using v(3) by (simp add: dependents_ok_def dispositions_def assms(3))
qed

lemma reissue_valid:
  assumes "validateCreateFence env r = None" and "cf_Phase r = createFenceIssued" and "cf_BaseFirewallAssignment r = Some a"
    and "createFenceKeyHashPattern i" and "t \<noteq> 0"
  shows "validateCreateFence env (r\<lparr>cf_BaseFirewallAssignment := Some (reissue a i t)\<rparr>) = None"
proof (rule firewall_valid[OF assms(1,2) refl])
  have "validBaseFirewallAssignment r" using assms(1) by (simp add: validate_iff launch_ok_def)
  with assms(3-5) show "validBaseFirewallAssignment (r\<lparr>cf_BaseFirewallAssignment := Some (reissue a i t)\<rparr>)"
    by (simp add: validBaseFirewallAssignment_def reissue_def stamped_def assignment_phase_defs)
qed (simp add: reissue_def assignment_phase_defs)

lemma finish_valid:
  assumes "validateCreateFence env r = None" and "cf_BaseFirewallAssignment r = Some a" and "bfa_Phase a = FirewallAssignmentIssued"
    and "bfa_VMUUID a \<noteq> []" and "terminal \<in> {FirewallAssignmentObserved, FirewallAssignmentRejected}" and "t \<noteq> 0"
  shows "validateCreateFence env (r\<lparr>cf_BaseFirewallAssignment := Some (finish_assignment a terminal t)\<rparr>) = None"
proof (rule firewall_valid[OF assms(1) _ refl])
  have v: "launch_ok r" using assms(1) by (simp add: validate_iff)
  have "assignment_phase r = Some FirewallAssignmentIssued" using assms(2,3) by (simp add: assignment_phase_def)
  with v valid_phases(2)[OF assms(1)] show "cf_Phase r = createFenceIssued"
    by (auto simp: launch_ok_def assignment_phase_defs)
  from v have "validBaseFirewallAssignment r" by (simp add: launch_ok_def)
  with assms(2-6) show "validBaseFirewallAssignment (r\<lparr>cf_BaseFirewallAssignment := Some (finish_assignment a terminal t)\<rparr>)"
    by (auto simp: validBaseFirewallAssignment_def finish_assignment_def stamped_def assignment_phase_defs)
  show "bfa_Phase (finish_assignment a terminal t) \<noteq> FirewallAssignmentIntent"
    using assms(5) by (auto simp: finish_assignment_def assignment_phase_defs)
qed

section \<open>Rollback with a receipt\<close>

lemma receipts_canonical_iff:
  "receipts_canonical rs \<longleftrightarrow> (\<forall>x \<in> set rs. normalizeCleanupResolution x = Inr x) \<and> sorted_wrt (\<lambda>x y. res_VMUUID x < res_VMUUID y) rs"
proof (induction rs rule: receipts_canonical.induct)
  case (3 p r rest)
  have "(\<forall>y \<in> set rest. res_VMUUID p < res_VMUUID y)" if "res_VMUUID p < res_VMUUID r" "\<forall>y \<in> set rest. res_VMUUID r < res_VMUUID y"
    using that by (auto intro: less_trans)
  with 3 show ?case by (auto simp: not_le)
qed simp_all

lemma sorted_strict: "sorted (map f rs) \<Longrightarrow> distinct (map f rs) \<Longrightarrow> sorted_wrt (\<lambda>x y. f x < f y) rs"
  by (induction rs) (auto simp: order.strict_iff_order rev_image_eqI)

lemma strict_sorted: "sorted_wrt (\<lambda>x y. f x < (f y :: 'a :: linorder)) rs \<Longrightarrow> distinct (map f rs)"
  by (induction rs) auto

lemma append_canonical:
  assumes "appendCleanupResolution rs x = Inr rs'" and "normalizeCleanupResolution x = Inr x" and "receipts_canonical rs"
    and "length rs \<le> MaxCreateCleanupResolutions"
  shows "receipts_canonical rs' \<and> length rs' \<le> MaxCreateCleanupResolutions \<and> x \<in> set rs' \<and> set rs \<subseteq> set rs'"
proof (cases "find (\<lambda>e. res_VMUUID e = res_VMUUID x) rs")
  case (Some e)
  then have "e \<in> set rs" by (auto simp: find_Some_iff)
  moreover have "e = x" "rs' = rs" using assms(1,2) Some by (auto simp: appendCleanupResolution_def attempt_ok_def split: if_splits)
  ultimately show ?thesis using assms(3,4) by simp
next
  case None
  then have new: "res_VMUUID x \<notin> res_VMUUID ` set rs" by (auto simp: find_None_iff)
  have rs': "rs' = sort_key res_VMUUID (rs @ [x])" and len: "length rs < MaxCreateCleanupResolutions"
    using assms(1,2) None by (auto simp: appendCleanupResolution_def attempt_ok_def split: if_splits)
  have "distinct (map res_VMUUID rs)" using assms(3) by (auto simp: receipts_canonical_iff intro: strict_sorted)
  then have "distinct (map res_VMUUID (rs @ [x]))" using new by auto
  then have "distinct (map res_VMUUID rs')" unfolding distinct_map rs' by (simp only: distinct_sort set_sort simp_thms)
  then have "sorted_wrt (\<lambda>y z. res_VMUUID y < res_VMUUID z) rs'" by (intro sorted_strict) (simp_all add: rs')
  then show ?thesis using assms(2,3) len by (auto simp: receipts_canonical_iff rs')
qed

lemma normalize_fixed:
  assumes "normalizeCleanupResolution x = Inr x"
  shows "createFenceVMUUIDPattern (res_VMUUID x)" "res_FloatingIPName x \<noteq> []" "res_PublicIPv4 x \<noteq> []"
proof -
  have n: "createFenceVMUUIDPattern (ToLower (res_VMUUID x))" "res_FloatingIPName x \<noteq> []" "public_ipv4 (res_PublicIPv4 x)"
    and e: "x\<lparr>res_VMUUID := ToLower (res_VMUUID x)\<rparr> = x"
    using assms by (auto simp: normalizeCleanupResolution_def Let_def split: if_splits)
  from arg_cong[OF e, of res_VMUUID] n(1) show "createFenceVMUUIDPattern (res_VMUUID x)" by simp
  have "\<not> public_ipv4 []" by code_simp
  with n(3) show "res_PublicIPv4 x \<noteq> []" by auto
qed (use assms in \<open>auto simp: normalizeCleanupResolution_def Let_def split: if_splits\<close>)

lemma rollback_launch:
  assumes "launch_ok r" and "cf_Phase r = createFenceIssued" and "cf_CreatedVMUUID r \<noteq> []" and "stamped at"
    and "cf_RollbackAt q = at" "cf_ProtectionFailureAt q = None" "cf_Phase q = cf_Phase r" "cf_Intent q = cf_Intent r" "cf_IssueID q = cf_IssueID r"
      "cf_IssuedAt q = cf_IssuedAt r" "cf_ObservedAt q = cf_ObservedAt r" "cf_ObservedVMUUID q = cf_ObservedVMUUID r"
      "cf_LaunchObservedAt q = cf_LaunchObservedAt r" "cf_CreatedVMUUID q = cf_CreatedVMUUID r" "cf_Cleanup q = cf_Cleanup r"
      "cf_BaseFirewallAssignment q = cf_BaseFirewallAssignment r"
  shows "launch_ok q"
  using assms firewall_frame[of q r] by (auto simp: phase_checks phase_defs Let_def)

lemma rollback_valid:
  assumes "validateCreateFence env r = None" and "rollback_decide token i vm canonical t current r = Commit r'" and "t \<noteq> 0"
    and "vm \<noteq> []" and "\<And>x. canonical = Some x \<Longrightarrow> normalizeCleanupResolution x = Inr x \<and> res_VMUUID x = vm"
    and "canonical = None \<Longrightarrow> \<forall>x \<in> set (cf_CleanupResolutions r). res_VMUUID x \<noteq> vm"
  shows "validateCreateFence env r' = None"
proof (rule valid_from[OF assms(1)])
  have v: "launch_ok r" "receipts_ok r" "dependents_ok r" using assms(1) by (simp_all add: validate_iff)
  have ph: "cf_Phase r = createFenceIssued" "cf_CreatedVMUUID r = vm"
    using assms(2) by (auto simp: rollback_decide_def split: if_splits)
  let ?at = "case cf_RollbackAt r of None \<Rightarrow> Some t | Some x \<Rightarrow> Some x"
  let ?base = "r\<lparr>cf_RollbackAt := ?at, cf_ProtectionFailureAt := None\<rparr>"
  have at: "stamped ?at" using v(1) assms(3) by (auto simp: launch_ok_def validRollback_def stamped_def split: option.splits)
  show "same_attempt r r'" using rollback_moves[OF assms(2,4)] by (simp add: moves_def)
  show "launch_ok r'" "receipts_ok r'" "dependents_ok r'"
  proof (atomize(full), cases canonical)
    case None
    with assms(2) have r': "r' = ?base\<lparr>cf_DependentUnresolved := True, cf_DependentsResolvedAt := None\<rparr>"
      by (auto simp: rollback_decide_def Let_def split: if_splits)
    have "receipts_ok r'" using v(2) by (subst receipts_frame[of _ r]) (simp_all add: r')
    moreover have "dependents_ok r'" using at assms(6)[OF None] ph by (auto simp: dependents_ok_def dispositions_def r' stamped_def split: option.splits)
    moreover have "launch_ok r'" by (rule rollback_launch[OF v(1) ph(1) _ at]) (use ph(2) assms(4) in \<open>simp_all add: r'\<close>)
    ultimately show "launch_ok r' \<and> receipts_ok r' \<and> dependents_ok r'" by simp
  next
    case (Some x)
    note x = assms(5)[OF Some]
    obtain rs where rs: "appendCleanupResolution (cf_CleanupResolutions r) x = Inr rs"
      and r': "r' = ?base\<lparr>cf_DependentUnresolved := False, cf_DependentsResolvedAt := None, cf_CleanupResolvedAt := Some t, cf_CleanupVMUUID := res_VMUUID x,
        cf_CleanupFloatingIPName := res_FloatingIPName x, cf_CleanupPublicIPv4 := res_PublicIPv4 x, cf_CleanupResolutions := rs\<rparr>"
      using assms(2) Some x by (auto simp: rollback_decide_def applyCleanupResolution_def attempt_ok_def Let_def split: if_splits sum.splits)
    have c: "receipts_canonical rs \<and> length rs \<le> MaxCreateCleanupResolutions \<and> x \<in> set rs \<and> set (cf_CleanupResolutions r) \<subseteq> set rs"
      using append_canonical[OF rs] x v(2) by (simp add: receipts_ok_def)
    have f: "createFenceVMUUIDPattern (res_VMUUID x)" "res_FloatingIPName x \<noteq> []" "res_PublicIPv4 x \<noteq> []"
      using normalize_fixed x by blast+
    have "receipts_ok r'" using c f assms(3,4) x by (auto simp: receipts_ok_def validCleanupResolution_def stamped_def r')
    moreover have "dependents_ok r'" using at c x ph by (auto simp: dependents_ok_def dispositions_def r' stamped_def split: option.splits)
    moreover have "launch_ok r'" by (rule rollback_launch[OF v(1) ph(1) _ at]) (use ph(2) assms(4) in \<open>simp_all add: r'\<close>)
    ultimately show "launch_ok r' \<and> receipts_ok r' \<and> dependents_ok r'" by simp
  qed
qed

section \<open>The type of a fence\<close>

text \<open>
  What the store replaces a fence by: the issue of a reserved attempt, the writes of the base firewall, and
  the decisions on an issued attempt, each with what its caller has checked before. A rollback without a
  receipt is taken here only when the history of the fence holds no receipt of the VM.
\<close>

inductive next_fence :: "time \<Rightarrow> createFenceRecord \<Rightarrow> createFenceRecord \<Rightarrow> bool" for t r where
  issue: "cf_Phase r = createFenceReserved \<Longrightarrow> intent \<in> {CreateAuthorizationPost, CreateAuthorizationAdoption}
    \<Longrightarrow> createFenceKeyHashPattern i \<Longrightarrow> createFenceKeyHashPattern a \<Longrightarrow> next_fence t r (issue_fence r intent i t a)"
| firewall_intent: "cf_BaseFirewallAssignment r = None
    \<Longrightarrow> next_fence t r (r\<lparr>cf_BaseFirewallAssignment := Some (newBaseFirewallAssignmentIntent r vm t)\<rparr>)"
| firewall_issue: "cf_Phase r = createFenceIssued \<Longrightarrow> cf_BaseFirewallAssignment r = Some b
    \<Longrightarrow> bfa_Phase b \<in> {FirewallAssignmentIntent, FirewallAssignmentRejected} \<Longrightarrow> createFenceKeyHashPattern i
    \<Longrightarrow> next_fence t r (r\<lparr>cf_BaseFirewallAssignment := Some (reissue b i t)\<rparr>)"
| firewall_finish: "cf_BaseFirewallAssignment r = Some b \<Longrightarrow> bfa_Phase b = FirewallAssignmentIssued
    \<Longrightarrow> baseFirewallAssignmentMatches (Some b) (ToLower vm) (cl_FirewallUUID (cf_Cleanup r)) \<Longrightarrow> createFenceVMUUIDPattern (ToLower vm)
    \<Longrightarrow> terminal \<in> {FirewallAssignmentObserved, FirewallAssignmentRejected}
    \<Longrightarrow> next_fence t r (r\<lparr>cf_BaseFirewallAssignment := Some (finish_assignment b terminal t)\<rparr>)"
| created: "created_decide token i (ToLower vm) t current r = Commit r' \<Longrightarrow> createFenceVMUUIDPattern (ToLower vm)
    \<Longrightarrow> ToLower (ToLower vm) = ToLower vm \<Longrightarrow> next_fence t r r'"
| failure: "failure_decide token i (ToLower vm) t current r = Commit r' \<Longrightarrow> createFenceVMUUIDPattern (ToLower vm) \<Longrightarrow> next_fence t r r'"
| recovery: "recovery_decide token i vm t current r = Commit r' \<Longrightarrow> next_fence t r r'"
| reject: "reject_decide token i t current r = Commit r' \<Longrightarrow> next_fence t r r'"
| materialize: "materialize_decide b token kvm t current r = Commit r' \<Longrightarrow> next_fence t r r'"
| terminal: "terminal_decide token vm t current r = Commit r' \<Longrightarrow> next_fence t r r'"
| rollback: "rollback_decide token i (ToLower vm) (Some x) t current r = Commit r' \<Longrightarrow> createFenceVMUUIDPattern (ToLower vm)
    \<Longrightarrow> normalizeCleanupResolution x = Inr x \<Longrightarrow> res_VMUUID x = ToLower vm \<Longrightarrow> next_fence t r r'"
| rollback_unresolved: "rollback_decide token i (ToLower vm) None t current r = Commit r' \<Longrightarrow> createFenceVMUUIDPattern (ToLower vm)
    \<Longrightarrow> \<forall>x \<in> set (cf_CleanupResolutions r). res_VMUUID x \<noteq> ToLower vm \<Longrightarrow> next_fence t r r'"

text \<open>
  C15: A fence that passes the validation is replaced by a fence that passes it, and so is read back as it
  was written: by the issue of the attempt, by every write of the base firewall, and by every decision on
  an issued attempt, at a time other than Go's zero time. Excluded is one case, a rollback chosen without
  a receipt while the history of the fence holds a receipt of the VM; C40 shows what happens there.
\<close>

theorem fence_stays_readable:
  assumes "validateCreateFence env r = None" and "t \<noteq> 0" and "next_fence t r r'"
  shows "decodeCreateFence env (Note (wire_fence r')) = Inr (wire_fence r')"
proof -
  have "validateCreateFence env r' = None"
    using assms(3)
  proof cases
    case (issue intent i a)
    then show ?thesis using issue_valid[OF assms(1) issue(2-5) assms(2)] by simp
  next
    case (firewall_intent vm)
    have "validBaseFirewallAssignment r" using assms(1) by (simp add: validate_iff launch_ok_def)
    with firewall_intent show ?thesis by (simp add: validBaseFirewallAssignment_def)
  next
    case (firewall_issue b i)
    then show ?thesis using reissue_valid[OF assms(1) firewall_issue(2,3,5) assms(2)] by simp
  next
    case (firewall_finish b vm terminal)
    have "bfa_VMUUID b \<noteq> []"
      using firewall_finish(4) uuid_nonempty[OF firewall_finish(5)] by (auto simp: baseFirewallAssignmentMatches_def)
    then show ?thesis using finish_valid[OF assms(1) firewall_finish(2,3) _ firewall_finish(6) assms(2)] firewall_finish(1) by simp
  next
    case (created token i vm current)
    then show ?thesis using created_valid[OF assms(1)] assms(2) by metis
  next
    case (failure token i vm current)
    then show ?thesis using failure_valid[OF assms(1) _ uuid_nonempty assms(2)] by blast
  next
    case (recovery token i vm current)
    then show ?thesis by (rule recovery_valid[OF assms(1)])
  next
    case (reject token i current)
    then show ?thesis using reject_valid[OF assms(1)] assms(2) by blast
  next
    case (materialize b token kvm current)
    then show ?thesis using materialize_valid[OF assms(1)] assms(2) by blast
  next
    case (terminal token vm current)
    then show ?thesis by (rule terminal_valid[OF assms(1)])
  next
    case (rollback token i vm x current)
    then show ?thesis using rollback_valid[OF assms(1) _ assms(2) uuid_nonempty] by blast
  next
    case (rollback_unresolved token i vm current)
    then show ?thesis using rollback_valid[OF assms(1) _ assms(2) uuid_nonempty] by blast
  qed
  then show ?thesis by (rule decode_current)
qed

text \<open>
  C40: The exception: a rollback chosen without a receipt, when the history of the fence already holds a
  receipt of the created VM, writes a fence that no reader accepts.
\<close>

theorem rollback_without_receipt_unreadable:
  assumes "rollback_decide token i vm None t current r = Commit r'"
    and "\<exists>x \<in> set (cf_CleanupResolutions r). res_VMUUID x = cf_CreatedVMUUID r"
  shows "\<exists>e. parseCreateFence env (Note (wire_fence r')) b = Inl e"
proof -
  have f: "cf_RollbackAt r' \<noteq> None" "cf_DependentUnresolved r'" "cf_CleanupResolutions r' = cf_CleanupResolutions r" "cf_CreatedVMUUID r' = cf_CreatedVMUUID r"
    and s: "cf_Schema r' = cf_Schema r"
    using assms(1) by (auto simp: rollback_decide_def Let_def split: if_splits option.splits)
  have bad: "\<not> dependents_ok q" if "cf_RollbackAt q = cf_RollbackAt r'" "cf_DependentUnresolved q = cf_DependentUnresolved r'"
      "cf_CleanupResolutions q = cf_CleanupResolutions (wire_fence r')" "cf_CreatedVMUUID q = cf_CreatedVMUUID r'" for q
  proof -
    from assms(2) obtain x where "x \<in> set (cf_CleanupResolutions r)" "res_VMUUID x = cf_CreatedVMUUID r" by blast
    then have "wire_resolution x \<in> set (cf_CleanupResolutions q)" "res_VMUUID (wire_resolution x) = cf_CreatedVMUUID q"
      using that f by (auto simp: wire_fence_def wire_resolution_def)
    then have "dispositions q \<ge> 2" using that f by (auto simp: dispositions_def)
    then show ?thesis using that f by (simp add: dependents_ok_def)
  qed
  have b: "\<not> dependents_ok (wire_fence r')" "\<not> dependents_ok (migrateLegacyCreateFence env (wire_fence r'))"
    by (rule bad; simp add: migrateLegacyCreateFence_def wire_fence_def)+
  have "validateCreateFence env (if cf_Schema (wire_fence r') = legacyCreateFenceSchema then migrateLegacyCreateFence env (wire_fence r') else wire_fence r') \<noteq> None"
    using b by (simp add: validate_iff)
  then obtain e where e: "validateCreateFence env (if cf_Schema (wire_fence r') = legacyCreateFenceSchema
      then migrateLegacyCreateFence env (wire_fence r') else wire_fence r') = Some e" by blast
  have "decodeCreateFence env (Note (wire_fence r')) = Inl e"
    unfolding decodeCreateFence_def annotation.simps Let_def e by simp
  then show ?thesis by (simp add: parseCreateFence_def attempt_ok_def)
qed

end
