(* ===== verification/Karpenter_Example.thy ===== *)
theory Karpenter_Example
  imports Karpenter_Valid
begin

text \<open>
  An API server that satisfies \<open>kube_server\<close>: it keeps the log itself, refuses a write of another
  version, and stamps every write with a version longer than all before. The theorems on the
  create-fence store are applied to a NodeClaim on this server.
\<close>

section \<open>The server\<close>

definition next_version :: "kube_commit list \<Rightarrow> string" where
  "next_version log = CHR ''v'' # concat (map (\<lambda>c. case kc_new c of None \<Rightarrow> [] | Some x \<Rightarrow> object_version x) log)"

definition write_to :: "kube_commit list \<Rightarrow> kube_key \<Rightarrow> kube_object \<Rightarrow> kube_commit list" where
  "write_to log k x = log @ [\<lparr>kc_key = k, kc_old = held log k, kc_new = Some x, kc_own = True\<rparr>]"

definition read_claim :: "ctx \<Rightarrow> string \<Rightarrow> kube_commit list \<Rightarrow> (error + NodeClaim) \<times> nat \<times> kube_commit list" where
  "read_claim c n log = (case held log (ClaimKey n) of
      Some (ClaimObject x) \<Rightarrow> Inr x
    | None \<Rightarrow> Inl (Sentinel KubeNotFound)
    | _ \<Rightarrow> Inl (Plain ''not a NodeClaim''), 1, log)"

definition list_claims :: "ctx \<Rightarrow> kube_commit list \<Rightarrow> (error + NodeClaim list) \<times> nat \<times> kube_commit list" where
  "list_claims c log = (Inr (concat (map (\<lambda>k. case held log k of Some (ClaimObject x) \<Rightarrow> [x] | _ \<Rightarrow> []) (remdups (map kc_key log)))), 1, log)"

definition write_claim :: "ctx \<Rightarrow> NodeClaim \<Rightarrow> kube_commit list \<Rightarrow> (error + NodeClaim) \<times> nat \<times> kube_commit list" where
  "write_claim c x log = (case held log (ClaimKey (nc_Name x)) of
      Some (ClaimObject old) \<Rightarrow>
        if nc_ResourceVersion x = nc_ResourceVersion old \<and> nc_Finalizers x \<noteq> []
        then let y = x\<lparr>nc_UID := nc_UID old, nc_DeletionTimestamp := nc_DeletionTimestamp old, nc_ResourceVersion := next_version log\<rparr>
             in (Inr y, 1, write_to log (ClaimKey (nc_Name x)) (ClaimObject y))
        else (Inl (Sentinel KubeConflict), 1, log)
    | _ \<Rightarrow> (Inl (Sentinel KubeNotFound), 1, log))"

definition read_lease :: "ctx \<Rightarrow> string \<Rightarrow> string \<Rightarrow> kube_commit list \<Rightarrow> (error + Lease) \<times> nat \<times> kube_commit list" where
  "read_lease c ns n log = (case held log (LedgerKey ns) of
      Some (LeaseObject x) \<Rightarrow> Inr x
    | None \<Rightarrow> Inl (Sentinel KubeNotFound)
    | _ \<Rightarrow> Inl (Plain ''not a Lease''), 1, log)"

definition create_lease :: "ctx \<Rightarrow> string \<Rightarrow> Lease \<Rightarrow> kube_commit list \<Rightarrow> (error option) \<times> nat \<times> kube_commit list" where
  "create_lease c ns x log =
     (if held log (LedgerKey ns) = None \<and> le_Name x = firewallMutationCoordinatorLeaseName
      then (None, 1, write_to log (LedgerKey ns) (LeaseObject (x\<lparr>le_ResourceVersion := next_version log\<rparr>)))
      else (Some (Sentinel KubeConflict), 1, log))"

definition write_lease :: "ctx \<Rightarrow> string \<Rightarrow> Lease \<Rightarrow> kube_commit list \<Rightarrow> (error option) \<times> nat \<times> kube_commit list" where
  "write_lease c ns x log = (case held log (LedgerKey ns) of
      Some (LeaseObject old) \<Rightarrow>
        if le_ResourceVersion x = le_ResourceVersion old \<and> le_Name x = firewallMutationCoordinatorLeaseName
        then (None, 1, write_to log (LedgerKey ns) (LeaseObject (x\<lparr>le_ResourceVersion := next_version log\<rparr>)))
        else (Some (Sentinel KubeConflict), 1, log)
    | _ \<Rightarrow> (Some (Sentinel KubeNotFound), 1, log))"

definition draw :: "kube_commit list \<Rightarrow> (error + string) \<times> nat \<times> kube_commit list" where
  "draw log = (Inr (replicate (32 - length log mod 32) CHR ''a'' @ replicate (length log mod 32) CHR ''b''), 0, log)"

definition example_store :: "kube_commit list kubernetesCreateFenceStore" where
  "example_store = \<lparr>ks_GetClaim = read_claim, ks_ListClaims = list_claims, ks_UpdateClaim = write_claim, ks_GetLease = read_lease,
     ks_CreateLease = create_lease, ks_UpdateLease = write_lease, ks_nonce = draw, ks_namespace = ''karpenter'',
     ks_env = \<lparr>fe_sha256hex = (\<lambda>s. s), fe_IsDNS1123Label = (\<lambda>_. True)\<rparr>, ks_rfc3339 = (\<lambda>_. ''2026-01-01T00:00:00Z'')\<rparr>"

section \<open>It keeps the laws\<close>

lemma version_grows: "d \<in> set log \<Longrightarrow> kc_new d = Some x \<Longrightarrow> length (object_version x) < length (next_version log)"
proof (induction log)
  case (Cons e log)
  then show ?case by (cases "e = d") (auto simp: next_version_def)
qed simp

lemma kube_log_snoc:
  assumes log: "kube_log log" and old: "kc_old c = held log (kc_key c)"
    and new: "\<And>x. kc_new c = Some x \<Longrightarrow> fits (kc_key c) x \<and> object_version x = next_version log"
    and same: "keeps_identity c"
    and uid: "\<And>d x y. kc_old c = None \<Longrightarrow> kc_new c = Some (ClaimObject y) \<Longrightarrow> d \<in> set log \<Longrightarrow> kc_new d = Some (ClaimObject x) \<Longrightarrow> nc_UID y \<noteq> nc_UID x"
  shows "kube_log (log @ [c])"
  unfolding kube_log_def
proof (intro conjI allI ballI impI)
  fix i assume i: "i < length (log @ [c])"
  show "kc_old ((log @ [c]) ! i) = held (take i (log @ [c])) (kc_key ((log @ [c]) ! i))"
    using i log old by (cases "i = length log") (auto simp: nth_append kube_log_def)
next
  fix d x assume "d \<in> set (log @ [c])" "kc_new d = Some x"
  then show "fits (kc_key d) x" "object_version x \<noteq> []"
    using kube_log_fits[OF log, of d x] new[of x] by (auto simp: next_version_def)
next
  fix d e x y
  assume h: "d \<in> set (log @ [c])" "e \<in> set (log @ [c])" "kc_key d = kc_key e" "kc_new d = Some x" "kc_new e = Some y"
    "object_version x = object_version y"
  have old: "length (object_version z) < length (next_version log)" if "a \<in> set log" "kc_new a = Some z" for a z
    using version_grows that by blast
  have own: "length (object_version z) = length (next_version log)" if "kc_new c = Some z" for z using new[OF that] by simp
  consider "d \<in> set log" "e \<in> set log" | "d \<in> set log" "kc_new c = Some y" | "e \<in> set log" "kc_new c = Some x"
    | "kc_new c = Some x" "kc_new c = Some y"
    using h by auto
  then show "x = y"
  proof cases
    case 1
    with log h show ?thesis unfolding kube_log_def by blast
  next
    case 2
    with old[OF 2(1) h(4)] own[OF 2(2)] h(6) show ?thesis by simp
  next
    case 3
    with old[OF 3(1) h(5)] own[OF 3(2)] h(6) show ?thesis by simp
  qed simp
next
  fix d assume "d \<in> set (log @ [c])"
  then show "keeps_identity d" using log same by (auto simp: kube_log_def)
next
  fix j i x y
  assume h: "j < length (log @ [c])" "i < j" "kc_old ((log @ [c]) ! j) = None" "kc_new ((log @ [c]) ! j) = Some (ClaimObject y)"
    "kc_new ((log @ [c]) ! i) = Some (ClaimObject x)"
  show "nc_UID y \<noteq> nc_UID x"
  proof (cases "j = length log")
    case True
    then show ?thesis using h uid[of y "log ! i" x] by (simp add: nth_append)
  next
    case False
    then have "j < length log" "i < length log" using h by auto
    then have "kc_old (log ! j) = None" "kc_new (log ! j) = Some (ClaimObject y)" "kc_new (log ! i) = Some (ClaimObject x)"
      using h(3-5) by (simp_all add: nth_append)
    with log \<open>j < length log\<close> h(2) show ?thesis unfolding kube_log_def by blast
  qed
qed

lemma kube_log_write:
  assumes "kube_log log" and "fits k x" and "object_version x = next_version log"
    and "keeps_identity \<lparr>kc_key = k, kc_old = held log k, kc_new = Some x, kc_own = True\<rparr>"
    and "held log k = None \<Longrightarrow> \<exists>l. x = LeaseObject l"
  shows "kube_log (write_to log k x)"
  unfolding write_to_def by (rule kube_log_snoc) (use assms in auto)

lemma call_law_quiet:
  assumes "\<And>log r d log'. f log = (r, d, log') \<Longrightarrow> log' = log \<and> answer log [] r"
  shows "call_law (\<lambda>w. w) own answer f"
  unfolding call_law_def using assms by fastforce

lemma call_law_write:
  assumes "\<And>log r d log'. kube_log log \<Longrightarrow> f log = (r, d, log') \<Longrightarrow> (log' = log \<and> answer log [] r)
    \<or> (\<exists>k x. log' = write_to log k x \<and> kube_log log'
        \<and> own \<lparr>kc_key = k, kc_old = held log k, kc_new = Some x, kc_own = True\<rparr>
        \<and> answer log [\<lparr>kc_key = k, kc_old = held log k, kc_new = Some x, kc_own = True\<rparr>] r)"
  shows "call_law (\<lambda>w. w) own answer f"
  unfolding call_law_def
proof (intro allI impI)
  fix log r d log'
  assume h: "kube_log log" "f log = (r, d, log')"
  from assms[OF h] show "\<exists>new. log' = log @ new \<and> kube_log (log @ new) \<and> length (filter kc_own new) \<le> 1
      \<and> (\<forall>c \<in> set new. kc_own c \<longrightarrow> own c) \<and> answer log new r"
  proof
    assume "log' = log \<and> answer log [] r"
    with h(1) show ?thesis by (intro exI[of _ "[]"]) simp
  next
    assume "\<exists>k x. log' = write_to log k x \<and> kube_log log'
        \<and> own \<lparr>kc_key = k, kc_old = held log k, kc_new = Some x, kc_own = True\<rparr>
        \<and> answer log [\<lparr>kc_key = k, kc_old = held log k, kc_new = Some x, kc_own = True\<rparr>] r"
    then obtain k x where "log' = write_to log k x" "kube_log log'" "own \<lparr>kc_key = k, kc_old = held log k, kc_new = Some x, kc_own = True\<rparr>"
        "answer log [\<lparr>kc_key = k, kc_old = held log k, kc_new = Some x, kc_own = True\<rparr>] r" by blast
    then show ?thesis
      by (intro exI[of _ "[\<lparr>kc_key = k, kc_old = held log k, kc_new = Some x, kc_own = True\<rparr>]"]) (simp add: write_to_def)
  qed
qed

lemma observed_now [simp]: "observed_in log [] k x \<longleftrightarrow> held log k = x"
  by (simp add: observed_in_def)

lemma read_claim_law: "call_law (\<lambda>w. w) quiet (\<lambda>log new r. case r of
      Inr x \<Rightarrow> observed_in log new (ClaimKey n) (Some (ClaimObject x))
    | Inl e \<Rightarrow> errors_is KubeNotFound e \<longrightarrow> observed_in log new (ClaimKey n) None) (read_claim c n)"
  by (rule call_law_quiet) (auto simp: read_claim_def split: option.splits kube_object.splits)

lemma read_lease_law: "call_law (\<lambda>w. w) quiet (\<lambda>log new r. case r of
      Inr x \<Rightarrow> observed_in log new (LedgerKey ns) (Some (LeaseObject x))
    | Inl e \<Rightarrow> errors_is KubeNotFound e \<longrightarrow> observed_in log new (LedgerKey ns) None) (read_lease c ns n)"
  by (rule call_law_quiet) (auto simp: read_lease_def split: option.splits kube_object.splits)

lemma write_claim_law: "call_law (\<lambda>w. w) (claim_write x) (\<lambda>_ new r. \<forall>y. r = Inr y \<longrightarrow> nc_Finalizers x \<noteq> []
    \<longrightarrow> (\<exists>k \<in> set new. kc_own k \<and> kc_new k = Some (ClaimObject y))) (write_claim c x)"
proof (rule call_law_write)
  fix log r d log'
  assume log: "kube_log log" and w: "write_claim c x log = (r, d, log')"
  let ?k = "ClaimKey (nc_Name x)"
  let ?y = "\<lambda>old. x\<lparr>nc_UID := nc_UID old, nc_DeletionTimestamp := nc_DeletionTimestamp old, nc_ResourceVersion := next_version log\<rparr>"
  show "(log' = log \<and> (\<forall>y. r = Inr y \<longrightarrow> nc_Finalizers x \<noteq> [] \<longrightarrow> (\<exists>k \<in> set []. kc_own k \<and> kc_new k = Some (ClaimObject y))))
    \<or> (\<exists>k z. log' = write_to log k z \<and> kube_log log' \<and> claim_write x \<lparr>kc_key = k, kc_old = held log k, kc_new = Some z, kc_own = True\<rparr>
        \<and> (\<forall>y. r = Inr y \<longrightarrow> nc_Finalizers x \<noteq> [] \<longrightarrow> (\<exists>k' \<in> set [\<lparr>kc_key = k, kc_old = held log k, kc_new = Some z, kc_own = True\<rparr>].
            kc_own k' \<and> kc_new k' = Some (ClaimObject y))))"
  proof (cases "\<exists>old. held log ?k = Some (ClaimObject old) \<and> nc_ResourceVersion x = nc_ResourceVersion old \<and> nc_Finalizers x \<noteq> []")
    case True
    then obtain old where old: "held log ?k = Some (ClaimObject old)" "nc_ResourceVersion x = nc_ResourceVersion old" "nc_Finalizers x \<noteq> []" by blast
    with w have r: "r = Inr (?y old)" "log' = write_to log ?k (ClaimObject (?y old))" by (simp_all add: write_claim_def Let_def)
    have "kube_log log'" unfolding r(2)
      by (rule kube_log_write[OF log]) (simp_all add: old keeps_identity_def)
    moreover have "claim_write x \<lparr>kc_key = ?k, kc_old = held log ?k, kc_new = Some (ClaimObject (?y old)), kc_own = True\<rparr>"
      using old by (simp add: claim_write_def same_claim_def)
    ultimately show ?thesis using r by (intro disjI2 exI[of _ ?k] exI[of _ "ClaimObject (?y old)"]) simp
  next
    case False
    with w have "log' = log" "\<forall>y. r \<noteq> Inr y" by (auto simp: write_claim_def Let_def split: option.splits kube_object.splits if_splits)
    then show ?thesis by simp
  qed
qed

lemma kube_log_lease:
  assumes "kube_log log" and "le_Name x = firewallMutationCoordinatorLeaseName"
  shows "kube_log (write_to log (LedgerKey ns) (LeaseObject (x\<lparr>le_ResourceVersion := next_version log\<rparr>)))"
  by (rule kube_log_write[OF assms(1)]) (auto simp: assms(2) keeps_identity_def split: option.splits kube_object.splits)

lemma create_lease_law: "call_law (\<lambda>w. w) (lease_creation ns x) (\<lambda>_ _ _. True) (create_lease c ns x)"
  by (rule call_law_write)
    (auto simp: create_lease_def lease_creation_def same_lease_def kube_log_lease split: if_splits
      intro!: exI[of _ "LedgerKey ns"])

lemma write_lease_law: "call_law (\<lambda>w. w) (lease_write ns x) (\<lambda>_ _ _. True) (write_lease c ns x)"
  by (rule call_law_write)
    (auto simp: write_lease_def lease_write_def same_lease_def kube_log_lease split: option.splits kube_object.splits if_splits
      intro!: exI[of _ "LedgerKey ns"])

lemma example_server: "kube_server example_store (\<lambda>w. w)"
  unfolding kube_server_def example_store_def kubernetesCreateFenceStore.simps
  by (intro conjI allI read_claim_law read_lease_law write_claim_law create_lease_law write_lease_law call_law_quiet)
    (auto simp: list_claims_def draw_def)

section \<open>A reserved NodeClaim\<close>

definition example_binding :: createFenceBinding where
  "example_binding = \<lparr>bind_NodeClaimUID = ''uid-1'', bind_IdempotencyKeyHash = ''k'', bind_RequestHash = ''r'', bind_SpecHash = ''s'', bind_BootstrapHash = ''b''\<rparr>"

definition example_cleanup :: createFenceCleanupIdentity where
  "example_cleanup = \<lparr>cl_ClusterName = ''prod'', cl_Location = ''jkt01'', cl_NetworkUUID = ''net'', cl_NodePoolName = [], cl_ControlPlaneVIP = ''10.0.0.2'',
     cl_PoolStart = ''10.0.0.10'', cl_PoolStop = ''10.0.0.20'', cl_FirewallUUID = ''fw'', cl_FirewallProfile = FirewallProfilePrivateWorker,
     cl_NodeClaimName = ''pool-a'', cl_VMName = ''prod-pool-a'', cl_BillingAccountID = 7, cl_OwnershipKeyHash = replicate 32 CHR ''0''\<rparr>"

definition no_inventory :: CreateInventory where
  "no_inventory = \<lparr>inv_VMs = [], inv_PotentialVMs = [], inv_TargetVMs = [], inv_FloatingIPs = [], inv_TargetFloatingIPs = []\<rparr>"

definition example_record :: createFenceRecord where
  "example_record = newCreateFenceRecord example_binding example_cleanup no_inventory 5 ''token''"

definition example_claim :: NodeClaim where
  "example_claim = \<lparr>nc_Name = ''pool-a'', nc_UID = ''uid-1'', nc_ResourceVersion = ''v'', nc_Generation = 1, nc_DeletionTimestamp = None,
     nc_Finalizers = [TerminationFinalizer], nc_NodePool = ''pool'', nc_Spec = JNull, nc_ProviderID = [], nc_CreateFence = Absent,
     nc_FloatingIPUpdate = Absent, nc_Removal = Absent, nc_Resolution = Absent\<rparr>"

definition reserved_claim :: NodeClaim where
  "reserved_claim = (with_fence example_claim example_record)\<lparr>nc_ResourceVersion := ''vv'', nc_Finalizers := [TerminationFinalizer, CreateFenceFinalizer],
     nc_Removal := Note (100, newRemovalMutationReadyRecord example_binding ''token'' 5)\<rparr>"

definition created_log :: "kube_commit list" where
  "created_log = [\<lparr>kc_key = ClaimKey ''pool-a'', kc_old = None, kc_new = Some (ClaimObject example_claim), kc_own = False\<rparr>]"

definition reserved_log :: "kube_commit list" where
  "reserved_log = write_to created_log (ClaimKey ''pool-a'') (ClaimObject reserved_claim)"

definition reserved_state :: "kube_commit list st" where
  "reserved_state = \<lparr>world = reserved_log, clock = 7, trace = []\<rparr>"

lemma held_created: "held created_log k = (if k = ClaimKey ''pool-a'' then Some (ClaimObject example_claim) else None)"
  by (simp add: held_def created_log_def)

lemma held_write: "held (write_to log k x) k' = (if k = k' then Some x else held log k')"
  by (simp add: write_to_def held_snoc)

lemma held_reserved: "held reserved_log k = (if k = ClaimKey ''pool-a'' then Some (ClaimObject reserved_claim) else None)"
  by (simp add: reserved_log_def held_write held_created)

lemma reserved_log_ok: "kube_log reserved_log"
proof -
  have "kube_log ([] @ [\<lparr>kc_key = ClaimKey ''pool-a'', kc_old = None, kc_new = Some (ClaimObject example_claim), kc_own = False\<rparr>])"
    by (rule kube_log_snoc) (auto simp: kube_log_def held_def keeps_identity_def example_claim_def next_version_def)
  then have c: "kube_log created_log" by (simp add: created_log_def)
  show ?thesis unfolding reserved_log_def
    by (rule kube_log_write[OF c])
      (simp_all add: held_def keeps_identity_def reserved_claim_def with_fence_def example_claim_def next_version_def created_log_def)
qed

lemma example_record_valid: "validateCreateFence env example_record = None"
proof -
  have "length (marshal (json_CreateInventory no_inventory)) = 2" by code_simp
  then have i: "validateCreateInventory no_inventory = None"
    by (simp add: validateCreateInventory_def MaxCreateInventoryEncodedBytes_def MaxCreateTargetFloatingIPAssignments_def
        no_inventory_def inventory_entries_ok_def MaxCreateInventoryEntries_def)
  have c: "complete_cleanup example_cleanup" "\<not> public_profile example_cleanup" by code_simp+
  show ?thesis unfolding example_record_def
    by (rule new_fence_valid) (use i c in \<open>auto simp: complete_binding_def example_binding_def example_cleanup_def\<close>)
qed

lemma reserved_disciplined: "\<forall>c \<in> set reserved_log. disciplined env c"
proof -
  have "claim_step env example_claim reserved_claim"
    by (rule reserve_step[of _ example_record 100 example_binding "''token''" 5 CreateFenceFinalizer])
      (simp_all add: example_claim_def live_def example_record_def newCreateFenceRecord_def same_claim_def reserved_claim_def with_fence_def
        AddFinalizer_def ContainsFinalizer_def CreateFenceFinalizer_def TerminationFinalizer_def)
  then have "store_step env \<lparr>kc_key = ClaimKey ''pool-a'', kc_old = Some (ClaimObject example_claim),
      kc_new = Some (ClaimObject reserved_claim), kc_own = True\<rparr>"
    by (simp add: store_step_def)
  then have "disciplined env \<lparr>kc_key = ClaimKey ''pool-a'', kc_old = Some (ClaimObject example_claim),
      kc_new = Some (ClaimObject reserved_claim), kc_own = True\<rparr>"
    by (rule store_disciplined)
  moreover have "disciplined env \<lparr>kc_key = ClaimKey ''pool-a'', kc_old = None, kc_new = Some (ClaimObject example_claim), kc_own = False\<rparr>"
    by (simp add: disciplined_def example_claim_def)
  moreover have "set reserved_log = {\<lparr>kc_key = ClaimKey ''pool-a'', kc_old = None, kc_new = Some (ClaimObject example_claim), kc_own = False\<rparr>,
      \<lparr>kc_key = ClaimKey ''pool-a'', kc_old = Some (ClaimObject example_claim), kc_new = Some (ClaimObject reserved_claim), kc_own = True\<rparr>}"
    by (simp add: reserved_log_def write_to_def held_created) (auto simp: created_log_def)
  ultimately show ?thesis by simp
qed

section \<open>Authorizing it\<close>

lemma run_example:
  "run_state (GetClaim example_store c n) st = (fst (read_claim c n (world st)), st\<lparr>clock := clock st + 1\<rparr>)"
  "run_state (nonce example_store) st = (fst (draw (world st)), st)"
  "run_state (UpdateClaim example_store c x) st
     = (fst (write_claim c x (world st)), st\<lparr>clock := clock st + 1, world := snd (snd (write_claim c x (world st)))\<rparr>)"
  by (auto simp: GetClaim_def nonce_def UpdateClaim_def call_silent_def example_store_def read_claim_def draw_def write_claim_def Let_def
      split: option.splits kube_object.splits)

abbreviation example_issue :: string where
  "example_issue \<equiv> replicate 30 CHR ''a'' @ ''bb''"

definition issued_record :: createFenceRecord where
  "issued_record = issue_fence (wire_fence example_record) CreateAuthorizationPost example_issue 8 example_issue"

lemma issued_record_valid: "validateCreateFence env issued_record = None"
proof -
  have "createFenceKeyHashPattern example_issue" by code_simp
  moreover have "validateCreateFence env (wire_fence example_record) = None" by (simp add: example_record_valid)
  ultimately show ?thesis unfolding issued_record_def
    by (intro issue_valid) (simp_all add: example_record_def newCreateFenceRecord_def)
qed

lemma reserved_reads:
  "fst (read_claim c ''pool-a'' reserved_log) = Inr reserved_claim" "fst (draw reserved_log) = Inr example_issue"
  "fence_of example_store reserved_claim example_binding = Inr (wire_fence example_record)"
proof -
  show "fence_of example_store reserved_claim example_binding = Inr (wire_fence example_record)"
    using decode_current[OF example_record_valid]
    by (simp add: parseCreateFence_def attempt_ok_def reserved_claim_def with_fence_def) (simp add: wire_fence_def example_record_def newCreateFenceRecord_def)
  show "fst (read_claim c ''pool-a'' reserved_log) = Inr reserved_claim" by (simp add: read_claim_def held_reserved)
  show "fst (draw reserved_log) = Inr example_issue" by (simp add: draw_def reserved_log_def write_to_def created_log_def)
qed

lemma reserved_fields:
  "nc_Name reserved_claim = ''pool-a''" "nc_UID reserved_claim = ''uid-1''" "nc_DeletionTimestamp reserved_claim = None"
  "ContainsFinalizer reserved_claim TerminationFinalizer" "ContainsFinalizer reserved_claim CreateFenceFinalizer"
  "nc_ResourceVersion reserved_claim = ''vv''" "nc_Finalizers reserved_claim \<noteq> []"
  by (simp_all add: reserved_claim_def with_fence_def example_claim_def ContainsFinalizer_def)

text \<open>The authorization, and then a second one, which is refused.\<close>

definition example_later :: "(ctx \<times> store_call) list" where
  "example_later = [(background, CallAuthorize reserved_claim example_binding ''token'' CreateAuthorizationPost)]"

lemma authorize_runs:
  "\<exists>y st' st1. run_state (Authorize example_store background reserved_claim example_binding ''token'' CreateAuthorizationPost) reserved_state
     = ((Some y, None), st') \<and> run_state (run_calls example_store example_later) st' = ((), st1)
     \<and> world st1 = write_to reserved_log (ClaimKey ''pool-a'') (ClaimObject y)"
proof -
  have rec: "cf_Token (wire_fence example_record) = ''token''" "cf_Phase (wire_fence example_record) = createFenceReserved"
      "cf_IssuedAt (wire_fence example_record) = None" "cf_RollbackAt (wire_fence example_record) = None"
      "cf_CleanupResolutions (wire_fence example_record) = []"
      "\<exists>a. cf_BaseFirewallAssignment (wire_fence example_record) = Some a \<and> bfa_Phase a = FirewallAssignmentIntent \<and> bfa_VMUUID a = []
        \<and> bfa_FirewallUUID a = cl_FirewallUUID (cf_Cleanup (wire_fence example_record)) \<and> bfa_IntentAt a \<noteq> 0"
    by (simp_all add: wire_fence_def example_record_def newCreateFenceRecord_def)
  let ?y = "(with_fence reserved_claim issued_record)\<lparr>nc_UID := ''uid-1'', nc_DeletionTimestamp := None, nc_ResourceVersion := next_version reserved_log\<rparr>"
  have written: "write_claim background (with_fence reserved_claim issued_record) reserved_log
      = (Inr ?y, 1, write_to reserved_log (ClaimKey ''pool-a'') (ClaimObject ?y))"
    by (simp add: write_claim_def Let_def held_reserved reserved_fields)
  have stored: "fst (read_claim c ''pool-a'' (write_to reserved_log (ClaimKey ''pool-a'') (ClaimObject ?y))) = Inr ?y" for c
    by (simp add: read_claim_def held_write)
  have fence': "fence_of example_store (with_fence reserved_claim issued_record) example_binding = Inr (wire_fence issued_record)"
    using decode_current[OF issued_record_valid]
    by (simp add: parseCreateFence_def attempt_ok_def with_fence_def)
      (simp add: wire_fence_def issued_record_def issue_fence_def example_record_def newCreateFenceRecord_def)
  have mine: "issued_by (wire_fence issued_record) ''token'' CreateAuthorizationPost example_issue 8 example_issue"
    by (simp add: issued_by_def wire_fence_def issued_record_def issue_fence_def example_record_def newCreateFenceRecord_def)
  have fin: "ContainsFinalizer ?y TerminationFinalizer" "ContainsFinalizer ?y CreateFenceFinalizer"
    using reserved_fields(4,5) by (simp_all add: ContainsFinalizer_def with_fence_def)
  let ?final = "reserved_state\<lparr>clock := 10, world := write_to reserved_log (ClaimKey ''pool-a'') (ClaimObject ?y)\<rparr>"
  have commit: "run_state (commitAuthorization example_store background reserved_claim example_binding ''token'' CreateAuthorizationPost
      reserved_claim (wire_fence example_record) example_issue 8 example_issue) (reserved_state\<lparr>clock := 8\<rparr>) = ((Some ?y, None), ?final)"
    by (simp add: commitAuthorization_def run_example issued_record_def[symmetric] written reserved_state_def reserved_fields stored fin fence' mine)
  have first: "run_state (Authorize example_store background reserved_claim example_binding ''token'' CreateAuthorizationPost) reserved_state
      = ((Some ?y, None), ?final)"
    using commit rec
    by (auto simp: Authorize_def getExact_def now_def run_example reserved_state_def reserved_reads reserved_fields)
  have fence_y: "fence_of example_store ?y example_binding = Inr (wire_fence issued_record)"
    using fence' by (simp add: with_fence_def)
  have issued: "cf_Token (wire_fence issued_record) = ''token''" "cf_Phase (wire_fence issued_record) \<noteq> createFenceReserved"
    by (simp_all add: wire_fence_def issued_record_def issue_fence_def example_record_def newCreateFenceRecord_def phase_defs)
  have same: "nc_UID ?y = ''uid-1''" "nc_DeletionTimestamp ?y = None" "nc_Generation ?y = nc_Generation reserved_claim"
      "nc_Spec ?y = nc_Spec reserved_claim" "nc_NodePool ?y = nc_NodePool reserved_claim"
    by (simp_all add: with_fence_def)
  have "world (snd (run_state (Authorize example_store background reserved_claim example_binding ''token'' CreateAuthorizationPost) ?final)) = world ?final"
    using fence_y issued same fin stored by (simp add: Authorize_def getExact_def run_example reserved_fields del: st.update_convs)
  then obtain st1 where "run_state (run_calls example_store example_later) ?final = ((), st1)" "world st1 = world ?final"
    by (simp add: example_later_def discard_def case_prod_beta del: st.update_convs)
  with first show ?thesis by (intro exI[of _ ?y] exI[of _ ?final] exI[of _ st1]) simp
qed

section \<open>Removing its VM\<close>






section \<open>Witnesses\<close>

theorem store_refines_steps_witness:
  "\<exists>new. world (snd (run_state (run_call example_store background (CallAuthorize reserved_claim example_binding ''token'' CreateAuthorizationPost)) reserved_state))
      = reserved_log @ new \<and> (\<forall>k \<in> set new. kc_own k \<longrightarrow> store_step (ks_env example_store) k)"
proof -
  let ?run = "run_state (run_call example_store background (CallAuthorize reserved_claim example_binding ''token'' CreateAuthorizationPost)) reserved_state"
  have "kube_log (world reserved_state)" by (simp add: reserved_state_def reserved_log_ok)
  from store_refines_steps[OF example_server this prod.collapse[symmetric, of ?run]] show ?thesis
    by (auto simp: reserved_state_def)
qed

theorem authorize_exclusive_witness:
  "\<exists>log i. kube_log log \<and> i < length log \<and> length reserved_log \<le> i \<and> kc_own (log ! i)
    \<and> (\<forall>j < length log. authorizes ''uid-1'' (log ! j) \<longleftrightarrow> j = i)"
proof -
  obtain y st' st1 where run: "run_state (Authorize example_store background reserved_claim example_binding ''token'' CreateAuthorizationPost)
      reserved_state = ((Some y, None), st')" "run_state (run_calls example_store example_later) st' = ((), st1)"
    and w: "world st1 = write_to reserved_log (ClaimKey ''pool-a'') (ClaimObject y)"
    using authorize_runs by blast
  have start: "kube_log (world reserved_state)" "\<forall>k \<in> set (world reserved_state). disciplined (ks_env example_store) k"
    using reserved_disciplined[of "ks_env example_store"] by (simp_all add: reserved_state_def reserved_log_ok)
  have before: "run_state (run_calls example_store []) reserved_state = ((), reserved_state)" by simp
  have others: "\<forall>k \<in> set (world st1). \<not> kc_own k \<longrightarrow> disciplined (ks_env example_store) k"
    using reserved_disciplined[of "ks_env example_store"] by (simp add: w write_to_def)
  note h = history_disciplined[OF example_server start before ospec_Authorize[OF example_server] run others]
  have "nc_UID reserved_claim = ''uid-1''" by (simp add: reserved_claim_def example_claim_def with_fence_def)
  with authorize_exclusive[OF example_server start before run others] h(3) show ?thesis
    by (auto simp: reserved_state_def)
qed


definition example_vm :: string where
  "example_vm = ''0a0b0c0d-0000-4000-8000-000000000001''"

definition example_receipt :: FencedCreateCleanupResolution where
  "example_receipt = \<lparr>res_VMUUID = example_vm, res_FloatingIPName = ''prod-pool-a'', res_PublicIPv4 = ''8.8.8.8'', res_Converged = False\<rparr>"

text \<open>
  The controller has stored the receipt of a VM that it found while the NodeClaim was being deleted;
  then the launch that is still running anchors this VM.
\<close>

definition cleaned_record :: createFenceRecord where
  "cleaned_record = issued_record\<lparr>cf_CleanupResolvedAt := Some 9, cf_CleanupVMUUID := example_vm, cf_CleanupFloatingIPName := ''prod-pool-a'',
     cf_CleanupPublicIPv4 := ''8.8.8.8'', cf_CleanupResolutions := [example_receipt]\<rparr>"

definition anchored_record :: createFenceRecord where
  "anchored_record = cleaned_record\<lparr>cf_CreatedVMUUID := example_vm, cf_LaunchObservedAt := Some 10,
     cf_BaseFirewallAssignment := map_option (\<lambda>a. a\<lparr>bfa_VMUUID := example_vm\<rparr>) (cf_BaseFirewallAssignment cleaned_record)\<rparr>"

lemma cleaned_valid: "validateCreateFence env cleaned_record = None"
proof (rule valid_from[OF issued_record_valid])
  show "receipts_ok cleaned_record" by code_simp
qed (code_simp+)

lemma anchored_decision:
  "created_decide ''token'' example_issue example_vm 10 reserved_claim cleaned_record = Commit anchored_record"
  by code_simp

lemma anchored_valid: "validateCreateFence env anchored_record = None"
proof (rule created_valid[OF cleaned_valid anchored_decision])
  show "createFenceVMUUIDPattern example_vm" "example_vm = ToLower example_vm" by code_simp+
qed simp

theorem fence_stays_readable_witness:
  "validateCreateFence (ks_env example_store) cleaned_record = None
    \<and> decodeCreateFence (ks_env example_store) (Note (wire_fence anchored_record)) = Inr (wire_fence anchored_record)"
proof -
  have vm: "createFenceVMUUIDPattern (ToLower example_vm)" "ToLower (ToLower example_vm) = ToLower example_vm" "ToLower example_vm = example_vm"
    by code_simp+
  have "next_fence 10 cleaned_record anchored_record"
    by (rule next_fence.created[where vm = example_vm]) (use vm anchored_decision in auto)
  from fence_stays_readable[OF cleaned_valid _ this] cleaned_valid show ?thesis by simp
qed

theorem rollback_without_receipt_unreadable_witness:
  "\<exists>r'. decodeCreateFence (ks_env example_store) (Note (wire_fence anchored_record)) = Inr (wire_fence anchored_record)
    \<and> rollback_decide ''token'' example_issue example_vm None 11 reserved_claim anchored_record = Commit r'
    \<and> (\<exists>e. parseCreateFence (ks_env example_store) (Note (wire_fence r')) example_binding = Inl e)"
proof -
  let ?r = "anchored_record\<lparr>cf_RollbackAt := Some 11, cf_ProtectionFailureAt := None, cf_DependentUnresolved := True, cf_DependentsResolvedAt := None\<rparr>"
  have d: "rollback_decide ''token'' example_issue example_vm None 11 reserved_claim anchored_record = Commit ?r" by code_simp
  have "\<exists>x \<in> set (cf_CleanupResolutions anchored_record). res_VMUUID x = cf_CreatedVMUUID anchored_record" by code_simp
  from rollback_without_receipt_unreadable[OF d this] d decode_current[OF anchored_valid] show ?thesis by blast
qed

end
