(* ===== verification/Spec2Isabelle.thy ===== *)
theory Spec2Isabelle
  imports Adapter_Witnesses Recovery_Race CSI_Provisioning Keyed_Mutex Lease_Example Authority_Example Client_Example NodeLB_Policy Karpenter_Example
begin

text \<open>
  Verification of the cloud client, the storage side and the create-fence store of the InSpace Cloud
  Kubernetes modules.

  \<^bold>\<open>The program.\<close> The repository holds four Go modules that run Kubernetes on the InSpace cloud: a
  client of the cloud's HTTP API (\<^verbatim>\<open>src/modules/client\<close>), a CSI driver for block volumes
  (\<^verbatim>\<open>src/modules/csi-driver\<close>), a Karpenter provider for worker nodes (\<^verbatim>\<open>src/modules/karpenter-provider\<close>)
  and a cloud controller manager with cluster bootstrap and load balancers
  (\<^verbatim>\<open>src/modules/cloud-provider\<close>). The cloud API has neither idempotency keys nor transactions, and an
  answer may be lost; a mutation that is sent twice or to the wrong object destroys data. The CSI
  driver therefore records every intended mutation in a durable fence before it sends it, and
  clears the fence only on proof of the outcome, and the Karpenter provider does the same for the
  machines it creates. This development models the CSI driver with everything below it (the adapter,
  the fence stores, the detach authority and the whole client) and the Karpenter provider's
  create-fence store.

  \<^bold>\<open>How the parts interact.\<close> kubelet and the CSI sidecars call the services of \<^verbatim>\<open>pkg/driver\<close>. They
  call a cloud boundary, which the adapter \<^verbatim>\<open>pkg/cloud/inspace\<close> implements, and a host mounter. The
  adapter reads and changes disks and VMs through the client, keeps its fences in a store (Kubernetes
  Leases in a cluster, a map in memory without one), resolves Nodes to VMs through the Kubernetes
  API, and serialises what it does to one VM with a keyed mutex. When a Node is gone, a detach needs
  the consent of the detach authority, which reads NodeClaims and Nodes, and in a NodeClaim the create
  fence that the Karpenter provider keeps there. The provider, its adapter and its controllers ask the
  create-fence store before they create a machine, update or remove a floating IP, remove a machine or
  change a firewall assignment. The store keeps the answer in annotations of the NodeClaim and, for
  firewalls, in a ledger that all NodeClaims share, with a slot per firewall in one Lease; every write
  is conditional on the version that was read.

  \<^bold>\<open>Common ground.\<close>
  \<^item> \<open>Go_Prelude\<close>, \<open>Go_Errors\<close>, \<open>Go_URL\<close>, \<open>Go_IP\<close>, \<open>Go_JSON\<close>, \<open>Go_Struct\<close>, \<open>Go_HTTP\<close>: strings, 64-bit
    integers, error trees with \<^verbatim>\<open>errors.Is\<close> and \<^verbatim>\<open>errors.Join\<close>, \<^verbatim>\<open>net/url\<close>, addresses of \<^verbatim>\<open>net\<close> and
    \<^verbatim>\<open>net/netip\<close>, \<^verbatim>\<open>encoding/json\<close> as parser, printer and struct decoder, and responses and form
    values of \<^verbatim>\<open>net/http\<close>. A Go function that returns a value and an error is a function into \<open>error + 'a\<close>; one that
    returns an error only is a function into \<open>error option\<close>. Of an error message only the constant text is kept.
  \<^item> \<open>Cloud_Types\<close>: the structs of \<^verbatim>\<open>client/types.go\<close>, \<^verbatim>\<open>csi-driver/pkg/cloud\<close> and the fences.
  \<^item> \<open>Runtime\<close>: the adapter and the interfaces it is written against, as records of operations on an
    opaque world that may answer anything and move in any way between two calls; a run threads world,
    clock and a trace of calls and answers. Its program logic carries the safety theorems.
    \<open>History_Logic\<close> is the logic for worlds with a history.

  \<^bold>\<open>Components.\<close>
  \<^item> \<open>Client_Errors\<close> (\<^verbatim>\<open>client/client.go\<close>): which HTTP failure proves absence and which is transient.
  \<^item> \<open>Client_Transport\<close>, \<open>Client_Types\<close>, \<open>Client_Services\<close>, \<open>Client_FloatingIP\<close> (\<^verbatim>\<open>client.go\<close>, \<^verbatim>\<open>types.go\<close>,
    \<^verbatim>\<open>storage.go\<close>, \<^verbatim>\<open>compute.go\<close>, \<^verbatim>\<open>network.go\<close>, \<^verbatim>\<open>loadbalancer.go\<close>, \<^verbatim>\<open>firewall.go\<close>, \<^verbatim>\<open>floatingip.go\<close>):
    one request with its mutation guard, redirect policy, response bounds and endpoint contract; the
    decoding and encoding of every struct; every operation. The network is the argument
    \<open>he_roundTrip\<close>. \<open>client_api\<close> is the client as the interface the adapter is written against.
  \<^item> \<open>Client_Routes\<close>, \<open>Client_Proofs\<close>, \<open>Client_Routing\<close>, \<open>Floating_IP_Proofs\<close>, \<open>Client_Example\<close>: the
    contract table is unambiguous and covers every operation; a mutating call sends at most one
    request and its mark says exactly whether it sent none; what an exact read and its absence
    verdict rest on; what evidence stands behind an unassigned floating IP.
  \<^item> \<open>NodeLB_Firewall\<close>, \<open>NodeLB_Policy\<close> (\<^verbatim>\<open>node_load_balancer_firewall.go\<close>): the names, policy texts and
    authentication of the load balancer firewalls. A policy text says exactly which ports and
    prefixes the policy lists, and no firewall is authenticated as two kinds.
  \<^item> \<open>Mutation_Fence\<close> (\<^verbatim>\<open>mutation_fence.go\<close>, the observations of \<^verbatim>\<open>mutation_recovery.go\<close>): fences, intents,
    absence observations and the in-memory store, with exclusive ownership of a key as an invariant.
  \<^item> \<open>Adapter_Reads\<close> (\<^verbatim>\<open>adapter.go\<close>): construction, ownership checks, exact attachment discovery, sizes.
  \<^item> \<open>Recovery\<close>, \<open>Recovery_Proofs\<close>, \<open>Recovery_Termination\<close>, \<open>Recovery_Race\<close> (\<^verbatim>\<open>mutation_recovery.go\<close>,
    \<^verbatim>\<open>vm_lock.go\<close>): acquiring, settling and completing fences, the polling loops with their
    three-step absence proofs, that they end, and what a lost race does to such a proof.
  \<^item> \<open>Adapter\<close>, \<open>Adapter_Safety\<close>, \<open>Adapter_Create\<close>, \<open>Adapter_Clearing\<close>, \<open>Example_Cloud\<close>,
    \<open>Adapter_Witnesses\<close> (\<^verbatim>\<open>adapter.go\<close>, \<^verbatim>\<open>expand.go\<close>): \<^verbatim>\<open>EnsureVolume\<close>, \<^verbatim>\<open>DeleteVolume\<close>, \<^verbatim>\<open>AttachVolume\<close>, \<^verbatim>\<open>DetachVolume\<close> and
    \<^verbatim>\<open>ExpandVolume\<close>. Each sends at most one mutation, under its fence and lock, after the exact reads
    that justify it; a delete or a create removes a fence only undispatched or on proof
    (\<open>Adapter_Clearing\<close>, over every removal in the trace); each ends.
  \<^item> \<open>Keyed_Mutex\<close> (\<^verbatim>\<open>keyed_mutex.go\<close>): the atomic sections as an inductive step relation; exclusion,
    unlocks that end, waiters that can get their key, and no leaked entries under every interleaving.
  \<^item> \<open>Kube_JSON\<close>, \<open>Lease_JSON\<close>, \<open>Kube_API\<close> (\<^verbatim>\<open>kubernetes.go\<close>, \<^verbatim>\<open>kubernetes_fence.go\<close>): the guards on JSON
    from the API server, the Lease documents and the bounded request. A guarded Lease has one
    reading, and a written Lease of ASCII strings reads back as itself.
  \<^item> \<open>Lease_Store\<close>, \<open>Lease_Server\<close>, \<open>Lease_Proofs\<close>, \<open>Lease_Refinement\<close>, \<open>Lease_Findings\<close>, \<open>Lease_Example\<close>
    (\<^verbatim>\<open>kubernetes_fence.go\<close>): the fence store on Leases refines the abstract fence store: every
    operation is at most one atomic step on the fences and returns what is true of the stored fence,
    whatever other clients do, and over a whole run one attempt owns a key at a time.
  \<^item> \<open>Detach_Request\<close>, \<open>Authority_JSON\<close>, \<open>Authority_Types\<close>, \<open>Detach_Authority\<close>, \<open>Authority_Server\<close>,
    \<open>Authority_Documents\<close>, \<open>Authority_Example\<close> (\<^verbatim>\<open>kubernetes_detach_authority.go\<close>): what a granted
    detach says about the history of the cluster.
  \<^item> \<open>CSI_Driver\<close>, \<open>CSI_Fakes\<close>, \<open>CSI_Lifecycle\<close>, \<open>CSI_Provisioning\<close> (\<^verbatim>\<open>csi-driver/pkg/driver\<close> and the
    in-memory boundaries): every handler of the three CSI services, staging and publishing, the
    life of a volume, and the controller on any cloud provider, the adapter among them.
  \<^item> \<open>Karpenter_Types\<close>, \<open>Karpenter_Receipts\<close>, \<open>Karpenter_Store\<close>, \<open>Karpenter_Mutations\<close>,
    \<open>Karpenter_Slots\<close> (\<^verbatim>\<open>create_fence.go\<close>, \<^verbatim>\<open>removal_mutation_fence.go\<close>, \<^verbatim>\<open>firewall_mutation_slot.go\<close> of
    \<^verbatim>\<open>karpenter-provider/pkg/provider\<close>): the create fence and the receipts with their validation, and
    every operation of \<^verbatim>\<open>kubernetesCreateFenceStore\<close>, with its re-reads, conflicts and retries.
  \<^item> \<open>Karpenter_Server\<close>, \<open>Karpenter_Steps\<close>, \<open>Karpenter_Proofs\<close>, \<open>Karpenter_Refinement\<close>, \<open>Karpenter_Ledger\<close>,
    \<open>Karpenter_History\<close>, \<open>Karpenter_Valid\<close>, \<open>Karpenter_Example\<close>: every commit of every operation is a step
    of an abstract create attempt, receipt or ledger slot, whatever other clients commit in between.
    So a NodeClaim is authorized to create a machine at most once, a removal is issued again only after
    the previous issue was finished, both over whole runs of the store, and the fence the store leaves
    is readable by the next reader, one kind of rollback excepted.
  \<^item> \<open>Provider_IDs\<close>: volume handles and the provider-ID readers of three modules.

  \<^bold>\<open>Interfaces.\<close> The locale \<open>cloud_provider\<close> (theory \<open>CSI_Provisioning\<close>) is the contract the CSI
  controller relies on; it is interpreted on the adapter and on the in-memory cloud. The records of
  \<open>Runtime\<close> are interfaces without laws: the adapter theorems hold for every implementation. The laws
  of outside systems are the hypotheses \<open>foreign_transport\<close> (network errors are not errors of the client
  package), \<open>sha256_hex\<close> (a digest is 64 lower-case hexadecimal digits), \<open>logs_requests\<close> (a world that records the requests it receives), \<open>lease_server\<close> (optimistic concurrency of the Kubernetes API
  server), \<open>kube_server\<close> (the same for NodeClaims and the ledger Lease, where an accepted write is one
  commit on the version it names) and \<open>cluster_server\<close> (an answer reports a state of its request's time,
  a paginated list is one snapshot); each is shown to hold of a concrete server. Properties of a whole
  history of NodeClaims or Leases are about runs of the store in which other clients commit at any
  moment; that commits are steps of the store (and that a NodeClaim is created without its annotations)
  is assumed of the history at the start and of the other clients, and proved of the store itself.

  \<^bold>\<open>Bounds and fuel.\<close> A polling loop is a recursion over the fuel \<open>a_fuel\<close>; a loop that runs out emits
  \<open>LoopCut\<close>. Each round of a loop waits at least the poll interval on the clock and the context ends
  the loop at its deadline, so fuel above the readback windows divided by the interval is never used
  up: \<open>fuel_ok\<close> is that bound, and the termination property shows that no loop is cut. A create reads
  back for as long as the caller's context lasts, so there the bound is the time left of a context that
  ends. The JSON
  parser recurses over a bound computed from the length of the text. Paginated lists recurse over
  the page limits of the source (1025 and 129), the conflict loops of the create-fence store over their
  attempts (3, 4 or 6, as in the source). A timer and a context that expire together are
  resolved for the context.

  \<^bold>\<open>Representation.\<close> The JSON texts of intents and observations in a fence are their decoded values;
  the resolver's conversions are parameters, assumed to read back what they wrote. SHA-256 and the
  random source are parameters. Reading a field of a nil pointer is the error \<open>nil_deref\<close>. Case
  folding is that of ASCII, and strings are printed as JSON as \<^verbatim>\<open>json.Marshal\<close> does for ASCII. Maps of protobuf messages are association lists. The annotations of the
  create-fence store are their decoded values; its times are integers with 0 for the zero time; the
  label syntax check, the texts of times and the nonces are parameters.

  \<^bold>\<open>Findings.\<close> Seven places where the code does not do what it means to or says: a capacity limit below
  the rounded size, a lost race that completes an absence proof, a receipt write answered 404, a
  completed deletion reported as unavailable, provider-ID readers that disagree, local rejections of
  mutations that are not marked as undispatched, and a rollback chosen without a receipt, which leaves
  a create fence no reader accepts. Each has a theorem.

  \<^bold>\<open>Not modelled.\<close> The adapter, provider and controllers of the Karpenter module and its in-memory
  create-fence store; the cloud controller manager except its provider IDs and firewall policies, and
  the cluster bootstrap: they reconcile machines, firewalls and load balancers over far larger state
  kept in Kubernetes objects; the Linux mounter, which runs system commands; process start, flags and
  gRPC serving.
\<close>

end
